(* ===== verification/Prelude.thy ===== *)
theory Prelude
  imports Main "HOL-Library.Word"
begin

unbundle bit_operations_syntax

text \<open>
  Shared vocabulary of the development: the machine types of the Rust sources, slices of
  byte buffers, little- and big-endian encodings, saturating counters, the result type of
  fallible functions and the text formatting used in reports and error messages.
\<close>

type_synonym u8 = "8 word"
type_synonym u16 = "16 word"
type_synonym u32 = "32 word"
type_synonym u64 = "64 word"
type_synonym i8 = "8 word"
type_synonym bytes = "u8 list"
type_synonym ('e, 'a) result = "'e + 'a"

named_theorems result_simps \<open>unfolding the error propagation operator\<close>
named_theorems slice_simps \<open>lengths and contents of slices and copy_intos\<close>

section \<open>Fallible computations\<close>

text \<open>
  \<open>bind_res r f\<close> is Rust's \<open>let x = r?; f(x)\<close>: an error is returned at once, a value is
  passed on.
\<close>

definition bind_res :: "('e, 'a) result \<Rightarrow> ('a \<Rightarrow> ('e, 'b) result) \<Rightarrow> ('e, 'b) result" where
  "bind_res r f = (case r of Inl e \<Rightarrow> Inl e | Inr x \<Rightarrow> f x)"

lemma bind_res_simps [simp, result_simps]:
  "bind_res (Inl e) f = Inl e" "bind_res (Inr x) f = f x"
  by (simp_all add: bind_res_def)

lemma bind_res_Inr_iff [result_simps]:
  "bind_res r f = Inr y \<longleftrightarrow> (\<exists>x. r = Inr x \<and> f x = Inr y)"
  by (cases r) auto

lemma bind_res_Inl_iff [result_simps]:
  "bind_res r f = Inl e \<longleftrightarrow> r = Inl e \<or> (\<exists>x. r = Inr x \<and> f x = Inl e)"
  by (cases r) auto

definition is_ok :: "('e, 'a) result \<Rightarrow> bool" where
  "is_ok r = (case r of Inl _ \<Rightarrow> False | Inr _ \<Rightarrow> True)"

lemma is_ok_simps [simp]: "\<not> is_ok (Inl e)" "is_ok (Inr x)"
  by (simp_all add: is_ok_def)

lemma is_ok_iff: "is_ok r \<longleftrightarrow> (\<exists>x. r = Inr x)"
  by (cases r) auto

lemma bind_res_cong [fundef_cong]:
  "r = r' \<Longrightarrow> (\<And>x. r' = Inr x \<Longrightarrow> f x = f' x) \<Longrightarrow> bind_res r f = bind_res r' f'"
  by (cases r') simp_all

text \<open>\<open>map_err f r\<close> is \<open>r.map_err(f)\<close>.\<close>

definition map_err :: "('e \<Rightarrow> 'f) \<Rightarrow> ('e, 'a) result \<Rightarrow> ('f, 'a) result" where
  "map_err g r = (case r of Inl e \<Rightarrow> Inl (g e) | Inr x \<Rightarrow> Inr x)"

lemma map_err_simps [simp]: "map_err g (Inl e) = Inl (g e)" "map_err g (Inr x) = Inr x"
  by (simp_all add: map_err_def)

lemma map_err_Inr_iff [result_simps]: "map_err g r = Inr x \<longleftrightarrow> r = Inr x"
  by (cases r) auto

lemma map_err_Inl_iff [result_simps]: "map_err g r = Inl e \<longleftrightarrow> (\<exists>d. r = Inl d \<and> e = g d)"
  by (cases r) auto

section \<open>Slices of byte buffers\<close>

text \<open>\<open>byte_slice a b xs\<close> is \<open>&xs[a..b]\<close>; \<open>copy_into a ys xs\<close> copies \<open>ys\<close> into \<open>xs\<close> at offset \<open>a\<close>.\<close>

definition byte_slice :: "nat \<Rightarrow> nat \<Rightarrow> 'a list \<Rightarrow> 'a list" where
  "byte_slice a b xs = take (b - a) (drop a xs)"

definition copy_into :: "nat \<Rightarrow> 'a list \<Rightarrow> 'a list \<Rightarrow> 'a list" where
  "copy_into a ys xs = take a xs @ ys @ drop (a + length ys) xs"

lemma length_byte_slice [simp, slice_simps]: "length (byte_slice a b xs) = min (b - a) (length xs - a)"
  by (simp add: byte_slice_def)

lemma nth_byte_slice [slice_simps]:
  "a + i < b \<Longrightarrow> b \<le> length xs \<Longrightarrow> byte_slice a b xs ! i = xs ! (a + i)"
  by (simp add: byte_slice_def)

lemma byte_slice_append_mid [slice_simps]:
  "a = length pre \<Longrightarrow> b = a + length mid \<Longrightarrow> byte_slice a b (pre @ mid @ post) = mid"
  by (simp add: byte_slice_def)

lemma byte_slice_take [slice_simps]: "b \<le> n \<Longrightarrow> byte_slice a b (take n xs) = byte_slice a b xs"
  by (simp add: byte_slice_def take_drop [symmetric] min_def drop_take)

lemma byte_slice_0 [simp]: "byte_slice 0 n xs = take n xs"
  by (simp add: byte_slice_def)

lemma length_copy_into [simp, slice_simps]:
  "a + length ys \<le> length xs \<Longrightarrow> length (copy_into a ys xs) = length xs"
  by (simp add: copy_into_def)

lemma nth_copy_into [slice_simps]:
  "a + length ys \<le> length xs \<Longrightarrow> i < length xs \<Longrightarrow>
     copy_into a ys xs ! i = (if a \<le> i \<and> i < a + length ys then ys ! (i - a) else xs ! i)"
  by (auto simp: copy_into_def nth_append min_def not_less not_le)

lemma byte_slice_copy_same [slice_simps]:
  "a + length ys \<le> length xs \<Longrightarrow> byte_slice a (a + length ys) (copy_into a ys xs) = ys"
  by (simp add: byte_slice_def copy_into_def)

lemma drop_copy_into_after [slice_simps]:
  "a + length ys \<le> n \<Longrightarrow> a + length ys \<le> length xs \<Longrightarrow> drop n (copy_into a ys xs) = drop n xs"
  by (simp add: copy_into_def drop_append)

lemma take_copy_into_before [slice_simps]:
  "n \<le> a \<Longrightarrow> a \<le> length xs \<Longrightarrow> take n (copy_into a ys xs) = take n xs"
  by (simp add: copy_into_def take_append min_def)

section \<open>Little- and big-endian encodings\<close>

definition le16 :: "u16 \<Rightarrow> bytes" where
  "le16 w = [ucast w, ucast (drop_bit 8 w)]"

definition of_le16 :: "bytes \<Rightarrow> u16" where
  "of_le16 bs = ucast (bs ! 0) OR push_bit 8 (ucast (bs ! 1))"

definition be16 :: "u16 \<Rightarrow> bytes" where
  "be16 w = [ucast (drop_bit 8 w), ucast w]"

definition of_be16 :: "bytes \<Rightarrow> u16" where
  "of_be16 bs = push_bit 8 (ucast (bs ! 0)) OR ucast (bs ! 1)"

definition le32 :: "u32 \<Rightarrow> bytes" where
  "le32 w = [ucast w, ucast (drop_bit 8 w), ucast (drop_bit 16 w), ucast (drop_bit 24 w)]"

definition of_le32 :: "bytes \<Rightarrow> u32" where
  "of_le32 bs = ucast (bs ! 0) OR push_bit 8 (ucast (bs ! 1)) OR
     push_bit 16 (ucast (bs ! 2)) OR push_bit 24 (ucast (bs ! 3))"

definition be32 :: "u32 \<Rightarrow> bytes" where
  "be32 w = [ucast (drop_bit 24 w), ucast (drop_bit 16 w), ucast (drop_bit 8 w), ucast w]"

definition of_be32 :: "bytes \<Rightarrow> u32" where
  "of_be32 bs = push_bit 24 (ucast (bs ! 0)) OR push_bit 16 (ucast (bs ! 1)) OR
     push_bit 8 (ucast (bs ! 2)) OR ucast (bs ! 3)"

text \<open>
  A fixed-width codec: the contract every encoder of this library satisfies, and what its
  clients (header builders and header parsers) use of it.
\<close>

locale byte_codec =
  fixes width :: nat
    and enc :: "'w \<Rightarrow> bytes"
    and dec :: "bytes \<Rightarrow> 'w"
  assumes enc_length: "length (enc w) = width"
    and dec_enc: "dec (enc w) = w"
    and enc_dec: "length bs = width \<Longrightarrow> enc (dec bs) = bs"
begin

lemma enc_inject: "enc v = enc w \<longleftrightarrow> v = w"
  by (metis dec_enc)

lemma eq_enc_iff: "length bs = width \<Longrightarrow> bs = enc w \<longleftrightarrow> dec bs = w"
  by (metis dec_enc enc_dec)

lemma field_at:
  "length pre = a \<Longrightarrow> dec (byte_slice a (a + width) (pre @ enc w @ post)) = w"
  by (simp add: byte_slice_append_mid enc_length dec_enc)

lemma field_after_copy:
  "a + width \<le> length xs \<Longrightarrow> dec (byte_slice a (a + width) (copy_into a (enc w) xs)) = w"
  using byte_slice_copy_same [of a "enc w" xs] by (simp add: enc_length dec_enc)

end

lemma length_2_conv: "length xs = 2 \<longleftrightarrow> (\<exists>a b. xs = [a, b])"
  by (auto simp: numeral_2_eq_2 length_Suc_conv)

lemma length_4_conv: "length xs = 4 \<longleftrightarrow> (\<exists>a b c d. xs = [a, b, c, d])"
  by (auto simp: eval_nat_numeral length_Suc_conv)

lemma nat_cases_8: "n < 8 \<Longrightarrow> n = 0 \<or> n = 1 \<or> n = 2 \<or> n = 3 \<or> n = 4 \<or> n = 5 \<or> n = 6 \<or> n = (7::nat)"
  by arith

lemma bit_u8_bound: "bit (a :: u8) n \<Longrightarrow> n < 8"
  using bit_imp_le_length [of a n] by simp

lemma bit_u8_high [simp]:
  "\<not> bit (a :: u8) (8 + n)" "\<not> bit (a :: u8) (16 + n)" "\<not> bit (a :: u8) (24 + n)"
  by (auto dest: bit_u8_bound)

lemma quarter_cases:
  obtains "n < 8" | "8 \<le> n" "n < 16" | "16 \<le> n" "n < 24" | "24 \<le> (n::nat)"
  by linarith

interpretation le16: byte_codec 2 le16 of_le16
proof
  show "length (le16 w) = 2" for w by (simp add: le16_def)
  show "of_le16 (le16 w) = w" for w
    by (rule bit_word_eqI) (auto simp: le16_def of_le16_def bit_simps)
  show "le16 (of_le16 bs) = bs" if "length bs = 2" for bs
    using that
    by (auto simp: length_2_conv le16_def of_le16_def bit_simps intro!: bit_word_eqI
        dest: bit_u8_bound)
qed

interpretation be16: byte_codec 2 be16 of_be16
proof
  show "length (be16 w) = 2" for w by (simp add: be16_def)
  show "of_be16 (be16 w) = w" for w
    by (rule bit_word_eqI) (auto simp: be16_def of_be16_def bit_simps)
  show "be16 (of_be16 bs) = bs" if "length bs = 2" for bs
    using that
    by (auto simp: length_2_conv be16_def of_be16_def bit_simps intro!: bit_word_eqI
        dest: bit_u8_bound)
qed

interpretation le32: byte_codec 4 le32 of_le32
proof
  show "length (le32 w) = 4" for w by (simp add: le32_def)
  show "of_le32 (le32 w) = w" for w
  proof (rule bit_word_eqI)
    fix n assume "n < LENGTH(32)"
    then show "bit (of_le32 (le32 w)) n = bit w n"
      by (cases rule: quarter_cases [of n]) (auto simp: le32_def of_le32_def bit_simps)
  qed
  show "le32 (of_le32 bs) = bs" if "length bs = 4" for bs
    using that
    by (auto simp: length_4_conv le32_def of_le32_def bit_simps intro!: bit_word_eqI
        dest: bit_u8_bound)
qed

interpretation be32: byte_codec 4 be32 of_be32
proof
  show "length (be32 w) = 4" for w by (simp add: be32_def)
  show "of_be32 (be32 w) = w" for w
  proof (rule bit_word_eqI)
    fix n assume "n < LENGTH(32)"
    then show "bit (of_be32 (be32 w)) n = bit w n"
      by (cases rule: quarter_cases [of n]) (auto simp: be32_def of_be32_def bit_simps)
  qed
  show "be32 (of_be32 bs) = bs" if "length bs = 4" for bs
    using that
    by (auto simp: length_4_conv be32_def of_be32_def bit_simps intro!: bit_word_eqI
        dest: bit_u8_bound)
qed

section \<open>Saturating counters\<close>

text \<open>\<open>sat_add a b\<close> and \<open>sat_sub a b\<close> are \<open>a.saturating_add(b)\<close> and \<open>a.saturating_sub(b)\<close>.\<close>

definition sat_add :: "'a::len word \<Rightarrow> 'a word \<Rightarrow> 'a word" where
  "sat_add a b = (if a \<le> a + b then a + b else - 1)"

definition sat_sub :: "'a::len word \<Rightarrow> 'a word \<Rightarrow> 'a word" where
  "sat_sub a b = (if b \<le> a then a - b else 0)"

lemma unat_sat_add:
  fixes a b :: "'a::len word"
  shows "unat (sat_add a b) = min (unat a + unat b) (2 ^ LENGTH('a) - 1)"
proof (cases "unat a + unat b < 2 ^ LENGTH('a)")
  case True
  then have "unat (a + b) = unat a + unat b" by (simp add: unat_add_lem)
  then show ?thesis using True by (simp add: sat_add_def word_le_nat_alt)
next
  case False
  then have "\<not> a \<le> a + b"
    using no_olen_add_nat [of a b] by blast
  then show ?thesis using False by (simp add: sat_add_def unsigned_minus_1_eq_mask mask_eq_exp_minus_1)
qed

lemma unat_sat_sub: "unat (sat_sub a b) = unat a - unat b"
  by (simp add: sat_sub_def word_le_nat_alt unat_sub)

lemma sat_add_0 [simp]: "sat_add a 0 = a" "sat_add 0 a = a"
  by (simp_all add: sat_add_def)

lemma sat_add_mono: "a \<le> sat_add a b"
  for a b :: "'a::len word"
proof -
  have "unat a < 2 ^ LENGTH('a)" by (rule unsigned_less)
  then show ?thesis by (simp only: word_le_nat_alt unat_sat_add)
qed

lemma sat_sub_self [simp]: "sat_sub a a = 0"
  by (simp add: sat_sub_def)

text \<open>A counter that is below the maximum really counts.\<close>

lemma sat_add_exact:
  fixes a b :: "'a::len word"
  shows "unat a + unat b < 2 ^ LENGTH('a) \<Longrightarrow> unat (sat_add a b) = unat a + unat b"
  by (simp add: unat_sat_add)

section \<open>Text\<close>

text \<open>
  Decimal and hexadecimal rendering, as \<open>{n}\<close> and \<open>{n:0wx}\<close> of Rust's \<open>format!\<close> print them.
\<close>

definition digit_char :: "nat \<Rightarrow> char" where
  "digit_char d = ''0123456789abcdef'' ! d"

fun show_nat :: "nat \<Rightarrow> string" where
  "show_nat n = (if n < 10 then [digit_char n] else show_nat (n div 10) @ [digit_char (n mod 10)])"

declare show_nat.simps [simp del]

fun hex_nat :: "nat \<Rightarrow> string" where
  "hex_nat n = (if n < 16 then [digit_char n] else hex_nat (n div 16) @ [digit_char (n mod 16)])"

declare hex_nat.simps [simp del]

definition pad_left :: "nat \<Rightarrow> string \<Rightarrow> string" where
  "pad_left w s = replicate (w - length s) (CHR ''0'') @ s"

definition show_hex :: "nat \<Rightarrow> nat \<Rightarrow> string" where
  "show_hex w n = pad_left w (hex_nat n)"

lemma length_show_hex: "w \<le> length (show_hex w n)"
  by (simp add: show_hex_def pad_left_def)

end
