(* ===== verification/Channels.thy ===== *)
theory Channels
  imports Prelude
begin

text \<open>
  The channel table, the bandwidth rules, the list of known adapters and the 802.11 frame
  header check of \<open>crates/radio-core/src\<close> (\<open>channel.rs\<close>, \<open>registry.rs\<close>, \<open>frame.rs\<close>).
\<close>

section \<open>Bands and bandwidths\<close>

datatype band = Ghz2 | Ghz5

datatype bandwidth = Mhz20 | Mhz40 | Mhz80

fun mhz :: "bandwidth \<Rightarrow> u16" where
  "mhz Mhz20 = 20"
| "mhz Mhz40 = 40"
| "mhz Mhz80 = 80"

text \<open>Bandwidths are ordered by the megahertz they occupy.\<close>

instantiation bandwidth :: linorder
begin

definition less_eq_bandwidth :: "bandwidth \<Rightarrow> bandwidth \<Rightarrow> bool" where
  "less_eq_bandwidth a b = (mhz a \<le> mhz b)"

definition less_bandwidth :: "bandwidth \<Rightarrow> bandwidth \<Rightarrow> bool" where
  "less_bandwidth a b = (mhz a < mhz b)"

instance
proof
  fix x y z :: bandwidth
  show "(x < y) = (x \<le> y \<and> \<not> y \<le> x)"
    by (auto simp: less_bandwidth_def less_eq_bandwidth_def)
  show "x \<le> x"
    by (simp add: less_eq_bandwidth_def)
  show "x \<le> y \<Longrightarrow> y \<le> z \<Longrightarrow> x \<le> z"
    by (simp add: less_eq_bandwidth_def)
  show "x \<le> y \<Longrightarrow> y \<le> x \<Longrightarrow> x = y"
    by (cases x; cases y) (simp_all add: less_eq_bandwidth_def)
  show "x \<le> y \<or> y \<le> x"
    by (auto simp: less_eq_bandwidth_def)
qed

end

section \<open>Channels\<close>

record channel =
  ch_number :: u8
  ch_frequency_mhz :: u16
  ch_band :: band

datatype channel_error =
    UnsupportedChannel u8
  | ChannelUnsupportedBandwidth u8 u16

definition SUPPORTED_2GHZ_CHANNELS :: "channel list" where
  "SUPPORTED_2GHZ_CHANNELS =
    [\<lparr>ch_number = 1, ch_frequency_mhz = 2412, ch_band = Ghz2\<rparr>,
     \<lparr>ch_number = 2, ch_frequency_mhz = 2417, ch_band = Ghz2\<rparr>,
     \<lparr>ch_number = 3, ch_frequency_mhz = 2422, ch_band = Ghz2\<rparr>,
     \<lparr>ch_number = 4, ch_frequency_mhz = 2427, ch_band = Ghz2\<rparr>,
     \<lparr>ch_number = 5, ch_frequency_mhz = 2432, ch_band = Ghz2\<rparr>,
     \<lparr>ch_number = 6, ch_frequency_mhz = 2437, ch_band = Ghz2\<rparr>,
     \<lparr>ch_number = 7, ch_frequency_mhz = 2442, ch_band = Ghz2\<rparr>,
     \<lparr>ch_number = 8, ch_frequency_mhz = 2447, ch_band = Ghz2\<rparr>,
     \<lparr>ch_number = 9, ch_frequency_mhz = 2452, ch_band = Ghz2\<rparr>,
     \<lparr>ch_number = 10, ch_frequency_mhz = 2457, ch_band = Ghz2\<rparr>,
     \<lparr>ch_number = 11, ch_frequency_mhz = 2462, ch_band = Ghz2\<rparr>,
     \<lparr>ch_number = 12, ch_frequency_mhz = 2467, ch_band = Ghz2\<rparr>,
     \<lparr>ch_number = 13, ch_frequency_mhz = 2472, ch_band = Ghz2\<rparr>,
     \<lparr>ch_number = 14, ch_frequency_mhz = 2484, ch_band = Ghz2\<rparr>]"

definition SUPPORTED_5GHZ_CHANNELS :: "channel list" where
  "SUPPORTED_5GHZ_CHANNELS =
    [\<lparr>ch_number = 36, ch_frequency_mhz = 5180, ch_band = Ghz5\<rparr>,
     \<lparr>ch_number = 40, ch_frequency_mhz = 5200, ch_band = Ghz5\<rparr>,
     \<lparr>ch_number = 44, ch_frequency_mhz = 5220, ch_band = Ghz5\<rparr>,
     \<lparr>ch_number = 48, ch_frequency_mhz = 5240, ch_band = Ghz5\<rparr>,
     \<lparr>ch_number = 52, ch_frequency_mhz = 5260, ch_band = Ghz5\<rparr>,
     \<lparr>ch_number = 56, ch_frequency_mhz = 5280, ch_band = Ghz5\<rparr>,
     \<lparr>ch_number = 60, ch_frequency_mhz = 5300, ch_band = Ghz5\<rparr>,
     \<lparr>ch_number = 64, ch_frequency_mhz = 5320, ch_band = Ghz5\<rparr>,
     \<lparr>ch_number = 100, ch_frequency_mhz = 5500, ch_band = Ghz5\<rparr>,
     \<lparr>ch_number = 104, ch_frequency_mhz = 5520, ch_band = Ghz5\<rparr>,
     \<lparr>ch_number = 108, ch_frequency_mhz = 5540, ch_band = Ghz5\<rparr>,
     \<lparr>ch_number = 112, ch_frequency_mhz = 5560, ch_band = Ghz5\<rparr>,
     \<lparr>ch_number = 116, ch_frequency_mhz = 5580, ch_band = Ghz5\<rparr>,
     \<lparr>ch_number = 120, ch_frequency_mhz = 5600, ch_band = Ghz5\<rparr>,
     \<lparr>ch_number = 124, ch_frequency_mhz = 5620, ch_band = Ghz5\<rparr>,
     \<lparr>ch_number = 128, ch_frequency_mhz = 5640, ch_band = Ghz5\<rparr>,
     \<lparr>ch_number = 132, ch_frequency_mhz = 5660, ch_band = Ghz5\<rparr>,
     \<lparr>ch_number = 136, ch_frequency_mhz = 5680, ch_band = Ghz5\<rparr>,
     \<lparr>ch_number = 140, ch_frequency_mhz = 5700, ch_band = Ghz5\<rparr>,
     \<lparr>ch_number = 144, ch_frequency_mhz = 5720, ch_band = Ghz5\<rparr>,
     \<lparr>ch_number = 149, ch_frequency_mhz = 5745, ch_band = Ghz5\<rparr>,
     \<lparr>ch_number = 153, ch_frequency_mhz = 5765, ch_band = Ghz5\<rparr>,
     \<lparr>ch_number = 157, ch_frequency_mhz = 5785, ch_band = Ghz5\<rparr>,
     \<lparr>ch_number = 161, ch_frequency_mhz = 5805, ch_band = Ghz5\<rparr>,
     \<lparr>ch_number = 165, ch_frequency_mhz = 5825, ch_band = Ghz5\<rparr>]"

definition supported_channels :: "channel list" where
  "supported_channels = SUPPORTED_2GHZ_CHANNELS @ SUPPORTED_5GHZ_CHANNELS"

definition from_number :: "u8 \<Rightarrow> (channel_error, channel) result" where
  "from_number number =
     (case find (\<lambda>c. ch_number c = number) supported_channels of
        Some c \<Rightarrow> Inr c
      | None \<Rightarrow> Inl (UnsupportedChannel number))"

definition supports_bandwidth :: "channel \<Rightarrow> bandwidth \<Rightarrow> bool" where
  "supports_bandwidth self bandwidth =
     (case (ch_band self, bandwidth) of
        (_, Mhz20) \<Rightarrow> True
      | (Ghz2, Mhz40) \<Rightarrow> 1 \<le> ch_number self \<and> ch_number self \<le> 13
      | (Ghz2, Mhz80) \<Rightarrow> False
      | (Ghz5, Mhz40) \<Rightarrow> True
      | (Ghz5, Mhz80) \<Rightarrow> ch_number self \<in>
          {36, 40, 44, 48, 52, 56, 60, 64, 100, 104, 108, 112, 116, 120, 124, 128,
           132, 136, 140, 144, 149, 153, 157, 161})"

lemmas channel_tables =
  supported_channels_def SUPPORTED_2GHZ_CHANNELS_def SUPPORTED_5GHZ_CHANNELS_def

lemma supports_20 [simp]: "supports_bandwidth c Mhz20"
  by (simp add: supports_bandwidth_def split: band.split)

lemma supports_80_band: "supports_bandwidth c Mhz80 \<Longrightarrow> ch_band c = Ghz5"
  by (simp add: supports_bandwidth_def split: band.splits)

lemma from_number_mem:
  "from_number n = Inr c \<Longrightarrow> c \<in> set supported_channels \<and> ch_number c = n"
  by (auto simp: from_number_def find_Some_iff split: option.splits)

lemma distinct_channel_numbers: "distinct (map ch_number supported_channels)"
  by (simp add: channel_tables)

lemma find_key_distinct:
  "distinct (map f xs) \<Longrightarrow> x \<in> set xs \<Longrightarrow> find (\<lambda>y. f y = f x) xs = Some x"
  by (induction xs) (auto intro: rev_image_eqI)

lemma from_number_table: "c \<in> set supported_channels \<Longrightarrow> from_number (ch_number c) = Inr c"
  using find_key_distinct [OF distinct_channel_numbers] by (simp add: from_number_def)

text \<open>The centre frequency the numbering of each band gives.\<close>

definition channel_center_mhz :: "channel \<Rightarrow> nat" where
  "channel_center_mhz c =
     (case ch_band c of
        Ghz2 \<Rightarrow> (if ch_number c = 14 then 2484 else 2407 + 5 * unat (ch_number c))
      | Ghz5 \<Rightarrow> 5000 + 5 * unat (ch_number c))"

lemma channel_table_frequencies:
  "\<forall>c \<in> set supported_channels. unat (ch_frequency_mhz c) = channel_center_mhz c"
  by (simp add: channel_tables channel_center_mhz_def)

text \<open>
  The channel table is consistent: looking a channel number up succeeds exactly for the
  numbers of the table, gives the entry with that number, and every entry carries the centre
  frequency that the 802.11 numbering of its band prescribes.
\<close>

theorem from_number_correct:
  "(from_number n = Inr c \<longleftrightarrow> c \<in> set supported_channels \<and> ch_number c = n) \<and>
   (from_number n = Inl e \<longleftrightarrow> e = UnsupportedChannel n \<and> n \<notin> ch_number ` set supported_channels) \<and>
   (\<forall>d. from_number n = Inr d \<longrightarrow> unat (ch_frequency_mhz d) = channel_center_mhz d)"
proof (intro conjI)
  show "from_number n = Inr c \<longleftrightarrow> c \<in> set supported_channels \<and> ch_number c = n"
    using from_number_mem from_number_table by blast
  show "from_number n = Inl e \<longleftrightarrow> e = UnsupportedChannel n \<and> n \<notin> ch_number ` set supported_channels"
    by (auto simp: from_number_def find_None_iff split: option.splits dest: find_Some_iff [THEN iffD1])
  show "\<forall>d. from_number n = Inr d \<longrightarrow> unat (ch_frequency_mhz d) = channel_center_mhz d"
    using from_number_mem channel_table_frequencies by blast
qed

lemma from_number_correct_witness:
  "from_number 36 = Inr \<lparr>ch_number = 36, ch_frequency_mhz = 5180, ch_band = Ghz5\<rparr>"
  using from_number_correct [of 36 "\<lparr>ch_number = 36, ch_frequency_mhz = 5180, ch_band = Ghz5\<rparr>"]
  by (simp add: channel_tables)

lemma supports_bandwidth_downward:
  "c \<in> set supported_channels \<Longrightarrow> supports_bandwidth c wide \<Longrightarrow> narrow \<le> wide \<Longrightarrow>
     supports_bandwidth c narrow"
  by (cases narrow; cases wide)
    (auto simp: less_eq_bandwidth_def supports_bandwidth_def split: band.splits)

section \<open>Known adapters\<close>

datatype chipset = Rtl8812au

record known_adapter =
  ka_vid :: u16
  ka_pid :: u16
  ka_chipset :: chipset
  ka_name :: string

definition known_rtl8812au :: "u16 \<Rightarrow> u16 \<Rightarrow> string \<Rightarrow> known_adapter" where
  "known_rtl8812au vid pid name =
     \<lparr>ka_vid = vid, ka_pid = pid, ka_chipset = Rtl8812au, ka_name = name\<rparr>"

definition KNOWN_ADAPTERS :: "known_adapter list" where
  "KNOWN_ADAPTERS =
    [known_rtl8812au 0x0bda 0x8812 ''Realtek RTL8812AU / ALFA AWUS036ACH class'',
     known_rtl8812au 0x0bda 0x881a ''Realtek RTL8812AU'',
     known_rtl8812au 0x0bda 0x881b ''Realtek RTL8812AU'',
     known_rtl8812au 0x0bda 0x881c ''Realtek RTL8812AU'',
     known_rtl8812au 0x050d 0x1106 ''Belkin F9L1109v1'',
     known_rtl8812au 0x050d 0x1109 ''Belkin RTL8812AU'',
     known_rtl8812au 0x0846 0x9051 ''Netgear A6200 v2'',
     known_rtl8812au 0x0411 0x025d ''Buffalo RTL8812AU'',
     known_rtl8812au 0x04bb 0x0952 ''I-O DATA RTL8812AU'',
     known_rtl8812au 0x2357 0x0101 ''TP-Link Archer T4U v1'',
     known_rtl8812au 0x2357 0x0103 ''TP-Link Archer T4UH'',
     known_rtl8812au 0x2357 0x010d ''TP-Link Archer T4U v2'',
     known_rtl8812au 0x2357 0x010e ''TP-Link Archer T4UH v2'',
     known_rtl8812au 0x2357 0x010f ''TP-Link RTL8812AU'',
     known_rtl8812au 0x2357 0x0122 ''TP-Link RTL8812AU'',
     known_rtl8812au 0x2604 0x0012 ''Tenda U12'',
     known_rtl8812au 0x7392 0xa822 ''Edimax EW-7822UAC'',
     known_rtl8812au 0x0409 0x0408 ''NEC RTL8812AU'']"

definition lookup_known_adapter :: "u16 \<Rightarrow> u16 \<Rightarrow> known_adapter option" where
  "lookup_known_adapter vid pid = find (\<lambda>a. ka_vid a = vid \<and> ka_pid a = pid) KNOWN_ADAPTERS"

lemma known_adapter_ids_distinct: "distinct (map (\<lambda>a. (ka_vid a, ka_pid a)) KNOWN_ADAPTERS)"
  by (simp add: KNOWN_ADAPTERS_def known_rtl8812au_def)

lemma lookup_known_adapter_iff:
  "lookup_known_adapter vid pid = Some a \<longleftrightarrow>
     a \<in> set KNOWN_ADAPTERS \<and> ka_vid a = vid \<and> ka_pid a = pid"
proof
  show "lookup_known_adapter vid pid = Some a \<Longrightarrow>
      a \<in> set KNOWN_ADAPTERS \<and> ka_vid a = vid \<and> ka_pid a = pid"
    by (auto simp: lookup_known_adapter_def find_Some_iff)
  show "a \<in> set KNOWN_ADAPTERS \<and> ka_vid a = vid \<and> ka_pid a = pid \<Longrightarrow>
      lookup_known_adapter vid pid = Some a"
    using find_key_distinct [OF known_adapter_ids_distinct, of a]
    by (auto simp: lookup_known_adapter_def)
qed

section \<open>802.11 frame headers\<close>

definition IEEE80211_MIN_HEADER_LEN :: nat where
  "IEEE80211_MIN_HEADER_LEN = 10"

datatype frame_type = Management | Control | Data | Extension

datatype ieee80211_frame_error = FrameTooShort (min_len: nat) (actual_len: nat)

definition validate_ieee80211_frame :: "bytes \<Rightarrow> (ieee80211_frame_error, unit) result" where
  "validate_ieee80211_frame frame =
     (if length frame < IEEE80211_MIN_HEADER_LEN
      then Inl (FrameTooShort IEEE80211_MIN_HEADER_LEN (length frame))
      else Inr ())"

definition frame_type_of :: "bytes \<Rightarrow> (ieee80211_frame_error, frame_type) result" where
  "frame_type_of frame =
     bind_res (validate_ieee80211_frame frame) (\<lambda>_.
       Inr (let b = frame ! 0 AND 0x0c in
            if b = 0x00 then Management
            else if b = 0x04 then Control
            else if b = 0x08 then Data
            else Extension))"

lemma validate_ok_iff: "validate_ieee80211_frame frame = Inr () \<longleftrightarrow> 10 \<le> length frame"
  by (simp add: validate_ieee80211_frame_def IEEE80211_MIN_HEADER_LEN_def)

lemma validate_error_iff:
  "validate_ieee80211_frame frame = Inl e \<longleftrightarrow>
     length frame < 10 \<and> e = FrameTooShort 10 (length frame)"
  by (auto simp: validate_ieee80211_frame_def IEEE80211_MIN_HEADER_LEN_def)

lemma frame_type_of_total: "10 \<le> length frame \<Longrightarrow> \<exists>t. frame_type_of frame = Inr t"
  by (simp add: frame_type_of_def validate_ieee80211_frame_def IEEE80211_MIN_HEADER_LEN_def)

end
