(* ===== verification/Usb.thy ===== *)
theory Usb
  imports Channels
begin

text \<open>
  Device selection, bulk endpoint discovery and the probe report of
  \<open>crates/radio-core/src/usb.rs\<close>.  The libusb handle, the error type of the rusb crate
  (the type variable \<open>'r\<close>) and the platform are parameters.
\<close>

section \<open>Errors\<close>

datatype 'r usb_error =
    Rusb 'r
  | Backend string
  | BackendTimeout string
  | NoSupportedAdapter
  | DeviceDisappeared
  | MissingBulkEndpoints u8

text \<open>\<open>timeout_code\<close> recognises \<open>rusb::Error::Timeout\<close>.\<close>

fun usb_is_timeout :: "('r \<Rightarrow> bool) \<Rightarrow> 'r usb_error \<Rightarrow> bool" where
  "usb_is_timeout timeout_code (Rusb e) = timeout_code e"
| "usb_is_timeout timeout_code (BackendTimeout _) = True"
| "usb_is_timeout timeout_code _ = False"

section \<open>Devices and selectors\<close>

record endpoint_info =
  ep_address :: u8
  ep_direction :: string
  ep_transfer_type :: string
  ep_max_packet_size :: u16
  ep_interval :: u8

record interface_info =
  if_number :: u8
  if_setting_number :: u8
  if_class_code :: u8
  if_sub_class_code :: u8
  if_protocol_code :: u8
  if_endpoints :: "endpoint_info list"

record usb_device_info =
  ud_vid :: u16
  ud_pid :: u16
  ud_vid_hex :: string
  ud_pid_hex :: string
  ud_bus :: u8
  ud_address :: u8
  ud_speed :: string
  ud_class_code :: u8
  ud_sub_class_code :: u8
  ud_protocol_code :: u8
  ud_manufacturer :: "string option"
  ud_product :: "string option"
  ud_serial_number :: "string option"
  ud_known_adapter :: "known_adapter option"
  ud_interfaces :: "interface_info list"

record usb_endpoints =
  ue_interface_number :: u8
  ue_bulk_in :: "u8 option"
  ue_bulk_out :: "u8 option"
  ue_bulk_in_all :: "u8 list"
  ue_bulk_out_all :: "u8 list"

record device_selector =
  sel_vid :: "u16 option"
  sel_pid :: "u16 option"
  sel_bus :: "u8 option"
  sel_address :: "u8 option"

definition selector_is_empty :: "device_selector \<Rightarrow> bool" where
  "selector_is_empty s \<longleftrightarrow>
     sel_vid s = None \<and> sel_pid s = None \<and> sel_bus s = None \<and> sel_address s = None"

fun map_or_eq :: "'a option \<Rightarrow> 'a \<Rightarrow> bool" where
  "map_or_eq None x = True"
| "map_or_eq (Some v) x = (v = x)"

definition selector_matches :: "device_selector \<Rightarrow> usb_device_info \<Rightarrow> bool" where
  "selector_matches s d \<longleftrightarrow>
     map_or_eq (sel_vid s) (ud_vid d) \<and> map_or_eq (sel_pid s) (ud_pid d) \<and>
     map_or_eq (sel_bus s) (ud_bus d) \<and> map_or_eq (sel_address s) (ud_address d)"

lemma empty_selector_matches: "selector_is_empty s \<Longrightarrow> selector_matches s d"
  by (simp add: selector_is_empty_def selector_matches_def)

section \<open>Bulk endpoints\<close>

text \<open>The parts of a configuration descriptor that the discovery reads.\<close>

datatype direction = In | Out

datatype transfer_type = TtControl | TtIsochronous | TtBulk | TtInterrupt

fun direction_name :: "direction \<Rightarrow> string" where
  "direction_name In = ''in''"
| "direction_name Out = ''out''"

fun transfer_type_name :: "transfer_type \<Rightarrow> string" where
  "transfer_type_name TtControl = ''control''"
| "transfer_type_name TtIsochronous = ''isochronous''"
| "transfer_type_name TtBulk = ''bulk''"
| "transfer_type_name TtInterrupt = ''interrupt''"

record endpoint_descriptor =
  ed_address :: u8
  ed_direction :: direction
  ed_transfer_type :: transfer_type
  ed_max_packet_size :: u16
  ed_interval :: u8

record interface_descriptor =
  id_number :: u8
  id_setting_number :: u8
  id_class_code :: u8
  id_sub_class_code :: u8
  id_protocol_code :: u8
  id_endpoints :: "endpoint_descriptor list"

type_synonym config_descriptor = "interface_descriptor list list"

definition read_interfaces :: "('r, config_descriptor) result \<Rightarrow> ('r, interface_info list) result" where
  "read_interfaces read_config =
     bind_res read_config (\<lambda>config.
       Inr (map (\<lambda>d. \<lparr>if_number = id_number d, if_setting_number = id_setting_number d,
              if_class_code = id_class_code d, if_sub_class_code = id_sub_class_code d,
              if_protocol_code = id_protocol_code d,
              if_endpoints = map (\<lambda>e. \<lparr>ep_address = ed_address e,
                  ep_direction = direction_name (ed_direction e),
                  ep_transfer_type = transfer_type_name (ed_transfer_type e),
                  ep_max_packet_size = ed_max_packet_size e,
                  ep_interval = ed_interval e\<rparr>) (id_endpoints d)\<rparr>)
            (concat config)))"

definition bulk_addresses :: "u8 \<Rightarrow> direction \<Rightarrow> config_descriptor \<Rightarrow> u8 list" where
  "bulk_addresses interface_number dir config =
     [ed_address e. d \<leftarrow> concat config, id_number d = interface_number,
                    e \<leftarrow> id_endpoints d, ed_transfer_type e = TtBulk, ed_direction e = dir]"

fun first_opt :: "'a list \<Rightarrow> 'a option" where
  "first_opt [] = None"
| "first_opt (x # xs) = Some x"

definition discover_bulk_endpoints ::
    "('r, config_descriptor) result \<Rightarrow> u8 \<Rightarrow> ('r usb_error, usb_endpoints) result" where
  "discover_bulk_endpoints read_config interface_number =
     bind_res (map_err Rusb read_config) (\<lambda>config.
       let bulk_in_all = remdups_adj (sort (bulk_addresses interface_number In config));
           bulk_out_all = remdups_adj (sort (bulk_addresses interface_number Out config))
       in Inr \<lparr>ue_interface_number = interface_number,
               ue_bulk_in = first_opt bulk_in_all, ue_bulk_out = first_opt bulk_out_all,
               ue_bulk_in_all = bulk_in_all, ue_bulk_out_all = bulk_out_all\<rparr>)"

lemma sorted_wrt_remdups_adj: "sorted xs \<Longrightarrow> sorted_wrt (<) (remdups_adj xs)"
  by (induction xs rule: remdups_adj.induct) auto

lemma sorted_remdups_adj_sort [simp]:
  "sorted_wrt (<) (remdups_adj (sort xs))" "sorted (remdups_adj (sort xs))"
  using sorted_wrt_remdups_adj [OF sorted_sort] by (auto simp: strict_sorted_iff)

lemma remdups_adj_Nil_iff [simp]: "remdups_adj xs = [] \<longleftrightarrow> xs = []"
  by (cases xs) auto

lemma sort_Nil_iff [simp]: "sort xs = [] \<longleftrightarrow> xs = []"
  by (metis set_empty set_sort)

lemma first_opt_sorted:
  "sorted xs \<Longrightarrow> first_opt xs = (if xs = [] then None else Some (Min (set xs)))"
  by (cases xs) (auto intro!: Min_eqI [symmetric])

lemma set_bulk_addresses:
  "set (bulk_addresses n dir config) =
     {ed_address e | d e. d \<in> set (concat config) \<and> id_number d = n \<and> e \<in> set (id_endpoints d) \<and>
        ed_transfer_type e = TtBulk \<and> ed_direction e = dir}"
  by (auto simp: bulk_addresses_def)

text \<open>
  Endpoint discovery lists exactly the bulk endpoint addresses of the requested interface,
  each once and in ascending order, for both directions, and proposes the smallest address of
  each direction, or none when there is none.
\<close>

theorem discover_bulk_endpoints_correct:
  assumes "discover_bulk_endpoints (Inr config) n = Inr e"
  shows "set (ue_bulk_in_all e) = set (bulk_addresses n In config) \<and>
    set (ue_bulk_out_all e) = set (bulk_addresses n Out config) \<and>
    sorted_wrt (<) (ue_bulk_in_all e) \<and> sorted_wrt (<) (ue_bulk_out_all e) \<and>
    ue_bulk_in e = (if bulk_addresses n In config = [] then None
                    else Some (Min (set (bulk_addresses n In config)))) \<and>
    ue_bulk_out e = (if bulk_addresses n Out config = [] then None
                     else Some (Min (set (bulk_addresses n Out config))))"
  using assms by (simp add: discover_bulk_endpoints_def Let_def first_opt_sorted) auto

lemma discover_bulk_endpoints_correct_witness:
  "\<exists>e. discover_bulk_endpoints (Inr [[\<lparr>id_number = 0, id_setting_number = 0, id_class_code = 255,
       id_sub_class_code = 255, id_protocol_code = 255,
       id_endpoints = [\<lparr>ed_address = 0x81, ed_direction = In, ed_transfer_type = TtBulk,
                        ed_max_packet_size = 512, ed_interval = 0\<rparr>]\<rparr>]] :: (unit, config_descriptor) result) 0 = Inr e \<and>
     set (ue_bulk_in_all e) = {0x81} \<and> ue_bulk_out e = None"
  (is "\<exists>e. discover_bulk_endpoints ?c 0 = Inr e \<and> _")
proof -
  obtain e where e: "discover_bulk_endpoints ?c 0 = Inr e"
    by (simp add: discover_bulk_endpoints_def Let_def)
  from discover_bulk_endpoints_correct [OF e] e show ?thesis
    by (simp add: bulk_addresses_def)
qed

section \<open>The probe report\<close>

record platform_info =
  pl_os :: string
  pl_family :: string
  pl_arch :: string

datatype probe_result = Pass | Fail

fun probe_result_as_str :: "probe_result \<Rightarrow> string" where
  "probe_result_as_str Pass = ''pass''"
| "probe_result_as_str Fail = ''fail''"

definition probe_is_failure :: "probe_result \<Rightarrow> bool" where
  "probe_is_failure r \<longleftrightarrow> r = Fail"

record probe_claim =
  pc_attempted :: bool
  pc_success :: bool
  pc_device :: "usb_device_info option"
  pc_endpoints :: "usb_endpoints option"
  pc_error :: "string option"

record usb_probe_report =
  pr_schema_version :: u8
  pr_command :: string
  pr_started_at_unix_ms :: u64
  pr_platform :: platform_info
  pr_selector :: device_selector
  pr_include_unsupported :: bool
  pr_claim_requested :: bool
  pr_result :: probe_result
  pr_devices :: "usb_device_info list"
  pr_claim :: "probe_claim option"
  pr_errors :: "string list"

definition no_match_message :: "usb_device_info list \<Rightarrow> device_selector \<Rightarrow> string" where
  "no_match_message devices selector =
     (if list_ex (selector_matches selector) devices
      then ''matching USB device is present but is not in the supported adapter registry''
      else if selector_is_empty selector then ''no supported RTL8812AU adapter found''
      else ''no USB device matched selector'')"

text \<open>
  \<open>claim_device\<close> opens the device, \<open>show_error\<close> renders a \<open>UsbError\<close>; \<open>now\<close> and \<open>platform\<close> are what
  the clock and \<open>std::env::consts\<close> give.
\<close>

definition build_probe_report ::
    "u64 \<Rightarrow> platform_info \<Rightarrow> ('r usb_error \<Rightarrow> string) \<Rightarrow> device_selector \<Rightarrow> bool \<Rightarrow> bool \<Rightarrow>
     usb_device_info list \<Rightarrow> string list \<Rightarrow>
     (usb_device_info \<Rightarrow> ('r usb_error, usb_device_info \<times> usb_endpoints) result) \<Rightarrow>
     usb_probe_report" where
  "build_probe_report now platform show_error selector include_unsupported claim_requested
       all_devices errors claim_device =
    (let matching_supported =
           filter (\<lambda>d. selector_matches selector d \<and> ud_known_adapter d \<noteq> None) all_devices;
         visible_devices =
           filter (\<lambda>d. include_unsupported \<or> ud_known_adapter d \<noteq> None \<or>
             (\<not> selector_is_empty selector \<and> selector_matches selector d)) all_devices;
         result = (if matching_supported = [] then Fail else Pass);
         (result, claim) =
           (if claim_requested then
              (case first_opt matching_supported of
                 Some device \<Rightarrow>
                   (case claim_device device of
                      Inr (info, endpoints) \<Rightarrow>
                        (Pass, Some \<lparr>pc_attempted = True, pc_success = True, pc_device = Some info,
                                     pc_endpoints = Some endpoints, pc_error = None\<rparr>)
                    | Inl error \<Rightarrow>
                        (Fail, Some \<lparr>pc_attempted = True, pc_success = False,
                                     pc_device = Some device, pc_endpoints = None,
                                     pc_error = Some (show_error error)\<rparr>))
               | None \<Rightarrow>
                   (Fail, Some \<lparr>pc_attempted = False, pc_success = False, pc_device = None,
                                pc_endpoints = None,
                                pc_error = Some (no_match_message all_devices selector)\<rparr>))
            else (result, None))
     in \<lparr>pr_schema_version = 1, pr_command = ''usb-probe'', pr_started_at_unix_ms = now,
         pr_platform = platform, pr_selector = selector,
         pr_include_unsupported = include_unsupported, pr_claim_requested = claim_requested,
         pr_result = result, pr_devices = visible_devices, pr_claim = claim,
         pr_errors = errors\<rparr>)"

text \<open>\<open>probe_usb\<close>: a failed enumeration is reported and probes an empty device list.\<close>

definition probe_usb ::
    "u64 \<Rightarrow> platform_info \<Rightarrow> ('r usb_error \<Rightarrow> string) \<Rightarrow>
     ('r usb_error, usb_device_info list) result \<Rightarrow>
     (usb_device_info \<Rightarrow> ('r usb_error, usb_device_info \<times> usb_endpoints) result) \<Rightarrow>
     device_selector \<Rightarrow> bool \<Rightarrow> bool \<Rightarrow> usb_probe_report" where
  "probe_usb now platform show_error collected claim_device selector include_unsupported claim_requested =
     (case collected of
        Inr devices \<Rightarrow> build_probe_report now platform show_error selector include_unsupported
                         claim_requested devices [] claim_device
      | Inl error \<Rightarrow> build_probe_report now platform show_error selector include_unsupported
                         claim_requested [] [show_error error] claim_device)"

lemma filter_first_opt:
  "first_opt (filter P xs) = find P xs"
  by (induction xs) auto

lemma probe_result_iff:
  "pr_result (build_probe_report now pl sh sel incl req devs errs claim) = Pass \<longleftrightarrow>
     (\<exists>d. find (\<lambda>d. selector_matches sel d \<and> ud_known_adapter d \<noteq> None) devs = Some d \<and>
          (req \<longrightarrow> is_ok (claim d)))"
proof (cases "find (\<lambda>d. selector_matches sel d \<and> ud_known_adapter d \<noteq> None) devs")
  case None
  then have "filter (\<lambda>d. selector_matches sel d \<and> ud_known_adapter d \<noteq> None) devs = []"
    by (auto simp: filter_empty_conv find_None_iff)
  with None show ?thesis
    by (simp add: build_probe_report_def Let_def)
next
  case (Some d)
  then have "filter (\<lambda>d. selector_matches sel d \<and> ud_known_adapter d \<noteq> None) devs \<noteq> []"
    by (auto simp: find_Some_iff filter_empty_conv intro!: bexI [OF _ nth_mem])
  with Some show ?thesis
    by (auto simp: build_probe_report_def Let_def filter_first_opt split: sum.split)
qed

text \<open>
  A probe passes exactly when some enumerated device that is in the adapter registry matches
  the selector and, when a claim was requested, the first such device could be claimed; and
  every device it reports as visible was enumerated.
\<close>

theorem probe_usb_pass_iff:
  "(pr_result (probe_usb now pl sh collected claim sel incl req) = Pass \<longleftrightarrow>
      (\<exists>devs d. collected = Inr devs \<and>
         find (\<lambda>d. selector_matches sel d \<and> ud_known_adapter d \<noteq> None) devs = Some d \<and>
         (if req then is_ok (claim d) else True))) \<and>
   set (pr_devices (probe_usb now pl sh collected claim sel incl req)) \<subseteq>
     (case collected of Inr devs \<Rightarrow> set devs | Inl _ \<Rightarrow> {})"
proof (cases collected)
  case (Inl e)
  then show ?thesis
    by (simp add: probe_usb_def probe_result_iff) (simp add: build_probe_report_def Let_def split: prod.split)
next
  case (Inr devs)
  then show ?thesis
    by (auto simp: probe_usb_def probe_result_iff)
      (auto simp: build_probe_report_def Let_def split: prod.split_asm)
qed

end
