(* ===== verification/Tx_Descriptor.thy ===== *)
theory Tx_Descriptor
  imports Usb
begin

text \<open>
  The transmit descriptor of the RTL8812AU and the submission of a frame on a bulk endpoint
  (\<open>crates/radio-core/src/rtl8812au.rs\<close>): rates, queues and options, \<open>build_tx_packet\<close> with its
  checksum, \<open>submit_tx_frame\<close> with its counters.
\<close>

section \<open>Constants, rates, options\<close>

definition DEFAULT_TIMEOUT :: nat where "DEFAULT_TIMEOUT = 500"
definition TX_DESC_SIZE :: nat where "TX_DESC_SIZE = 40"
definition USB2_BULK_PACKET_SIZE :: nat where "USB2_BULK_PACKET_SIZE = 512"

definition QSLT_BE :: u8 where "QSLT_BE = 0x00"
definition QSLT_BK :: u8 where "QSLT_BK = 0x02"
definition QSLT_VI :: u8 where "QSLT_VI = 0x05"
definition QSLT_VO :: u8 where "QSLT_VO = 0x07"
definition QSLT_HIGH :: u8 where "QSLT_HIGH = 0x11"
definition QSLT_MGNT :: u8 where "QSLT_MGNT = 0x12"

lemmas qslt_defs = QSLT_BE_def QSLT_BK_def QSLT_VI_def QSLT_VO_def QSLT_HIGH_def QSLT_MGNT_def

definition VHT_DATA_SC_DONOT_CARE :: u8 where "VHT_DATA_SC_DONOT_CARE = 0"
definition VHT_DATA_SC_20_UPPER_OF_80MHZ :: u8 where "VHT_DATA_SC_20_UPPER_OF_80MHZ = 1"
definition VHT_DATA_SC_20_LOWER_OF_80MHZ :: u8 where "VHT_DATA_SC_20_LOWER_OF_80MHZ = 2"
definition VHT_DATA_SC_20_UPPERST_OF_80MHZ :: u8 where "VHT_DATA_SC_20_UPPERST_OF_80MHZ = 3"
definition VHT_DATA_SC_20_LOWEST_OF_80MHZ :: u8 where "VHT_DATA_SC_20_LOWEST_OF_80MHZ = 4"
definition VHT_DATA_SC_40_UPPER_OF_80MHZ :: u8 where "VHT_DATA_SC_40_UPPER_OF_80MHZ = 9"
definition VHT_DATA_SC_40_LOWER_OF_80MHZ :: u8 where "VHT_DATA_SC_40_LOWER_OF_80MHZ = 10"

lemmas vht_data_sc_defs =
  VHT_DATA_SC_DONOT_CARE_def VHT_DATA_SC_20_UPPER_OF_80MHZ_def VHT_DATA_SC_20_LOWER_OF_80MHZ_def
  VHT_DATA_SC_20_UPPERST_OF_80MHZ_def VHT_DATA_SC_20_LOWEST_OF_80MHZ_def
  VHT_DATA_SC_40_UPPER_OF_80MHZ_def VHT_DATA_SC_40_LOWER_OF_80MHZ_def

datatype tx_rate =
    Cck1m | Cck2m | Cck5_5m | Cck11m
  | Ofdm6m | Ofdm9m | Ofdm12m | Ofdm18m | Ofdm24m | Ofdm36m | Ofdm48m | Ofdm54m
  | Mcs u8
  | Vht (vht_mcs: u8) (vht_nss: u8)

datatype tx_queue = QAuto | QBe | QBk | QVi | QVo | QHigh | QMgnt

record tx_options =
  tx_rate :: tx_rate
  tx_bandwidth :: bandwidth
  tx_channel_bandwidth :: "bandwidth option"
  tx_queue :: tx_queue
  tx_mac_id :: u8
  tx_rate_id :: "u8 option"
  tx_retries :: u8
  tx_hardware_sequence :: bool
  tx_first_segment :: bool
  tx_disable_rate_fallback :: bool
  tx_rate_fallback_limit :: u8
  tx_aggregate_break :: bool
  tx_short_gi :: bool
  tx_ldpc :: bool
  tx_stbc :: bool
  tx_protect :: bool
  tx_no_retry :: bool

definition tx_options_default :: tx_options where
  "tx_options_default =
     \<lparr>tx_rate = Ofdm6m, tx_bandwidth = Mhz20, tx_channel_bandwidth = None, tx_queue = QAuto,
      tx_mac_id = 0, tx_rate_id = None, tx_retries = 12, tx_hardware_sequence = True,
      tx_first_segment = True, tx_disable_rate_fallback = True, tx_rate_fallback_limit = 0x1f,
      tx_aggregate_break = True, tx_short_gi = False, tx_ldpc = False, tx_stbc = False,
      tx_protect = False, tx_no_retry = False\<rparr>"

record tx_submit_counters =
  sc_attempted :: u64
  sc_submitted :: u64
  sc_rejected :: u64
  sc_failed :: u64
  sc_short_writes :: u64
  sc_bytes_written :: u64

definition tx_submit_counters_default :: tx_submit_counters where
  "tx_submit_counters_default =
     \<lparr>sc_attempted = 0, sc_submitted = 0, sc_rejected = 0, sc_failed = 0, sc_short_writes = 0,
      sc_bytes_written = 0\<rparr>"

datatype tx_error =
    TxFrame ieee80211_frame_error
  | TxUnsupportedBandwidth u8 u16
  | TxUnsupportedRate string

datatype 'r tx_submit_error =
    SubmitBuild tx_error
  | SubmitUsb "'r usb_error"
  | SubmitShortWrite (sw_endpoint: u8) (sw_expected: nat) (sw_actual: nat)

section \<open>Rates\<close>

definition tx_rate_to_hw :: "tx_rate \<Rightarrow> channel \<Rightarrow> (tx_error, u8) result" where
  "tx_rate_to_hw rate channel =
     bind_res
       (case rate of
          Cck1m \<Rightarrow> Inr 0x00
        | Cck2m \<Rightarrow> Inr 0x01
        | Cck5_5m \<Rightarrow> Inr 0x02
        | Cck11m \<Rightarrow> Inr 0x03
        | Ofdm6m \<Rightarrow> Inr 0x04
        | Ofdm9m \<Rightarrow> Inr 0x05
        | Ofdm12m \<Rightarrow> Inr 0x06
        | Ofdm18m \<Rightarrow> Inr 0x07
        | Ofdm24m \<Rightarrow> Inr 0x08
        | Ofdm36m \<Rightarrow> Inr 0x09
        | Ofdm48m \<Rightarrow> Inr 0x0a
        | Ofdm54m \<Rightarrow> Inr 0x0b
        | Mcs mcs \<Rightarrow>
            if mcs \<le> 31 then Inr (0x0c + mcs)
            else Inl (TxUnsupportedRate (''mcs'' @ show_nat (unat mcs)))
        | Vht mcs nss \<Rightarrow>
            if mcs \<le> 9 \<and> 1 \<le> nss \<and> nss \<le> 4 then Inr (0x2c + (nss - 1) * 10 + mcs)
            else Inl (TxUnsupportedRate
                   (''vht'' @ show_nat (unat nss) @ ''ss-mcs'' @ show_nat (unat mcs))))
       (\<lambda>hw. if ch_band channel = Ghz5 \<and> hw \<le> 0x03 then Inr 0x04 else Inr hw)"

definition default_rate_id :: "tx_rate \<Rightarrow> u8" where
  "default_rate_id rate =
     (case rate of
        Cck1m \<Rightarrow> 8 | Cck2m \<Rightarrow> 8 | Cck5_5m \<Rightarrow> 8 | Cck11m \<Rightarrow> 8
      | Mcs mcs \<Rightarrow> (if mcs \<le> 7 then 3 else if mcs \<le> 15 then 2 else 14)
      | Vht _ nss \<Rightarrow> (if nss = 1 then 10 else if nss = 2 then 9 else 13)
      | _ \<Rightarrow> 7)"

fun rate_supported :: "tx_rate \<Rightarrow> bool" where
  "rate_supported (Mcs mcs) = (mcs \<le> 31)"
| "rate_supported (Vht mcs nss) = (mcs \<le> 9 \<and> 1 \<le> nss \<and> nss \<le> 4)"
| "rate_supported _ = True"

lemma tx_rate_to_hw_ok_iff: "is_ok (tx_rate_to_hw rate channel) \<longleftrightarrow> rate_supported rate"
  by (cases rate) (auto simp: tx_rate_to_hw_def is_ok_def)

lemma u8_1_to_4: "1 \<le> n \<Longrightarrow> n \<le> 4 \<Longrightarrow> n = 1 \<or> n = 2 \<or> n = 3 \<or> n = (4 :: u8)"
  by unat_arith

lemma unat_add_u8: "unat a + unat b < 256 \<Longrightarrow> unat (a + b :: u8) = unat a + unat b"
  by (simp add: unat_word_ariths)

lemma vht_hw_value:
  "mcs \<le> 9 \<Longrightarrow> 1 \<le> nss \<Longrightarrow> nss \<le> 4 \<Longrightarrow>
     unat (0x2c + (nss - 1) * 10 + mcs :: u8) = 44 + 10 * (unat nss - 1) + unat mcs"
  by (drule (1) u8_1_to_4, elim disjE) (simp_all add: unat_add_u8 word_le_nat_alt)

lemma mcs_hw_value: "mcs \<le> 31 \<Longrightarrow> unat (0x0c + mcs :: u8) = 12 + unat mcs"
  by (simp add: unat_add_u8 word_le_nat_alt)

lemma hw_rate_bound: "tx_rate_to_hw r c = Inr hw \<Longrightarrow> unat hw \<le> 83"
proof (cases r)
  case (Mcs m)
  then show "tx_rate_to_hw r c = Inr hw \<Longrightarrow> unat hw \<le> 83"
    using mcs_hw_value [of m] by (auto simp: tx_rate_to_hw_def word_le_nat_alt split: if_splits)
next
  case (Vht m n)
  then show "tx_rate_to_hw r c = Inr hw \<Longrightarrow> unat hw \<le> 83"
    using vht_hw_value [of m n] by (auto simp: tx_rate_to_hw_def word_le_nat_alt split: if_splits)
qed (auto simp: tx_rate_to_hw_def split: if_splits)

section \<open>Subchannel selection\<close>

definition tx_primary_20_of_40 :: "channel \<Rightarrow> (tx_error, u8) result" where
  "tx_primary_20_of_40 channel =
     (let n = ch_number channel in
      if ch_band channel = Ghz5 \<and> n mod 8 = 4 then Inr VHT_DATA_SC_20_LOWER_OF_80MHZ
      else if ch_band channel = Ghz5 \<and> n mod 8 = 0 then Inr VHT_DATA_SC_20_UPPER_OF_80MHZ
      else if ch_band channel = Ghz2 \<and> 1 \<le> n \<and> n \<le> 7 then Inr VHT_DATA_SC_20_LOWER_OF_80MHZ
      else if ch_band channel = Ghz2 \<and> 8 \<le> n \<and> n \<le> 13 then Inr VHT_DATA_SC_20_UPPER_OF_80MHZ
      else Inl (TxUnsupportedBandwidth n (mhz Mhz40)))"

definition tx_data_secondary_channel ::
    "channel \<Rightarrow> bandwidth \<Rightarrow> bandwidth \<Rightarrow> (tx_error, u8) result" where
  "tx_data_secondary_channel channel channel_bandwidth frame_bandwidth =
     (let n = ch_number channel in
      case (channel_bandwidth, frame_bandwidth) of
        (Mhz20, Mhz20) \<Rightarrow> Inr VHT_DATA_SC_DONOT_CARE
      | (Mhz40, Mhz40) \<Rightarrow> Inr VHT_DATA_SC_DONOT_CARE
      | (Mhz80, Mhz80) \<Rightarrow> Inr VHT_DATA_SC_DONOT_CARE
      | (Mhz40, Mhz20) \<Rightarrow> tx_primary_20_of_40 channel
      | (Mhz80, Mhz40) \<Rightarrow>
          if n \<in> {36, 40, 52, 56, 100, 104, 116, 120, 132, 136, 149, 153}
          then Inr VHT_DATA_SC_40_LOWER_OF_80MHZ
          else if n \<in> {44, 48, 60, 64, 108, 112, 124, 128, 140, 144, 157, 161}
          then Inr VHT_DATA_SC_40_UPPER_OF_80MHZ
          else Inl (TxUnsupportedBandwidth n (mhz channel_bandwidth))
      | (Mhz80, Mhz20) \<Rightarrow>
          if n \<in> {36, 52, 100, 116, 132, 149} then Inr VHT_DATA_SC_20_LOWEST_OF_80MHZ
          else if n \<in> {40, 56, 104, 120, 136, 153} then Inr VHT_DATA_SC_20_LOWER_OF_80MHZ
          else if n \<in> {44, 60, 108, 124, 140, 157} then Inr VHT_DATA_SC_20_UPPER_OF_80MHZ
          else if n \<in> {48, 64, 112, 128, 144, 161} then Inr VHT_DATA_SC_20_UPPERST_OF_80MHZ
          else Inl (TxUnsupportedBandwidth n (mhz channel_bandwidth))
      | _ \<Rightarrow> Inl (TxUnsupportedBandwidth n (mhz frame_bandwidth)))"

lemma secondary_channel_range:
  "tx_data_secondary_channel c cb fb = Inr sc \<Longrightarrow> sc \<in> {0, 1, 2, 3, 4, 9, 10}"
  by (auto simp: tx_data_secondary_channel_def tx_primary_20_of_40_def vht_data_sc_defs Let_def
      split: bandwidth.splits if_splits)

section \<open>The descriptor checksum\<close>

text \<open>\<open>le_words\<close> is \<open>chunks_exact(2)\<close> read little-endian.\<close>

fun le_words :: "bytes \<Rightarrow> u16 list" where
  "le_words (a # b # rest) = of_le16 [a, b] # le_words rest"
| "le_words _ = []"

definition tx_descriptor_checksum :: "bytes \<Rightarrow> u16" where
  "tx_descriptor_checksum first_32_bytes = foldl (XOR) 0 (le_words first_32_bytes)"

lemma le_words_append: "even (length xs) \<Longrightarrow> le_words (xs @ ys) = le_words xs @ le_words ys"
  by (induction xs rule: le_words.induct) auto

lemma foldl_xor: "foldl (XOR) (a :: 'a::len word) ws = a XOR foldl (XOR) 0 ws"
  by (induction ws arbitrary: a) (simp, metis foldl_Cons xor.assoc xor.left_neutral)

lemma checksum_append:
  "even (length xs) \<Longrightarrow>
     tx_descriptor_checksum (xs @ ys) = tx_descriptor_checksum xs XOR tx_descriptor_checksum ys"
  by (simp add: tx_descriptor_checksum_def le_words_append)
    (rule foldl_xor)

lemma checksum_le16 [simp]: "tx_descriptor_checksum (le16 w) = w"
  using le16.dec_enc [of w] by (simp add: tx_descriptor_checksum_def le16_def)

text \<open>Writing the checksum of a block into a zero field of the block makes its checksum zero.\<close>

lemma checksum_field_cancels:
  assumes "length (pre :: bytes) mod 2 = 0"
  shows "tx_descriptor_checksum
           (pre @ le16 (tx_descriptor_checksum (pre @ [0, 0] @ post)) @ post) = 0"
proof -
  have even: "even (length pre)" using assms by presburger
  have zero: "tx_descriptor_checksum ([0, 0] @ post) = tx_descriptor_checksum post"
    by (subst checksum_append) (simp_all add: tx_descriptor_checksum_def of_le16_def)
  have "tx_descriptor_checksum (le16 w @ post) = w XOR tx_descriptor_checksum post" for w
    by (subst checksum_append) (simp_all add: le16.enc_length)
  then show ?thesis
    using even zero by (simp add: checksum_append xor.assoc [symmetric])
qed

section \<open>Building a packet\<close>

text \<open>\<open>or_at i v p\<close> is \<open>p[i] |= v\<close>; \<open>when_do c f p\<close> runs \<open>f\<close> on the packet if \<open>c\<close>.\<close>

definition or_at :: "nat \<Rightarrow> u8 \<Rightarrow> bytes \<Rightarrow> bytes" where
  "or_at i v p = p[i := p ! i OR v]"

definition when_do :: "bool \<Rightarrow> ('a \<Rightarrow> 'a) \<Rightarrow> 'a \<Rightarrow> 'a" where
  "when_do c f p = (if c then f p else p)"

definition auto_qsel :: "frame_type \<Rightarrow> u8" where
  "auto_qsel t =
     (case t of Management \<Rightarrow> QSLT_MGNT | Control \<Rightarrow> QSLT_VO | Data \<Rightarrow> QSLT_BE | Extension \<Rightarrow> QSLT_MGNT)"

definition tx_qsel :: "tx_queue \<Rightarrow> frame_type \<Rightarrow> u8" where
  "tx_qsel queue t =
     (case queue of QAuto \<Rightarrow> auto_qsel t | QBe \<Rightarrow> QSLT_BE | QBk \<Rightarrow> QSLT_BK | QVi \<Rightarrow> QSLT_VI
      | QVo \<Rightarrow> QSLT_VO | QHigh \<Rightarrow> QSLT_HIGH | QMgnt \<Rightarrow> QSLT_MGNT)"

definition tx_frame_len_for_usb :: "bytes \<Rightarrow> nat" where
  "tx_frame_len_for_usb frame =
     (if (length frame + TX_DESC_SIZE) mod USB2_BULK_PACKET_SIZE = 0 then length frame + 1
      else length frame)"

definition tx_effective_retries :: "tx_options \<Rightarrow> u8" where
  "tx_effective_retries opts = (if tx_no_retry opts then 0 else min (tx_retries opts) 63)"

definition or_bandwidth :: "bandwidth \<Rightarrow> bytes \<Rightarrow> bytes" where
  "or_bandwidth bw p =
     (case bw of Mhz20 \<Rightarrow> p | Mhz40 \<Rightarrow> or_at 0x14 (push_bit 5 1) p | Mhz80 \<Rightarrow> or_at 0x14 (push_bit 5 2) p)"

text \<open>The descriptor bytes as they are assigned, up to the checksum and the copy of the frame.\<close>

definition tx_fill_descriptor ::
    "bytes \<Rightarrow> tx_options \<Rightarrow> frame_type \<Rightarrow> u8 \<Rightarrow> u8 \<Rightarrow> bytes" where
  "tx_fill_descriptor frame opts ftype rate sc =
     (let len = tx_frame_len_for_usb frame;
          retries = tx_effective_retries opts;
          bmc = (frame ! 4 AND 0x01 \<noteq> 0);
          packet = replicate (TX_DESC_SIZE + len) 0;
          packet = packet[0x00 := of_nat (len AND 0xff)];
          packet = packet[0x01 := of_nat (drop_bit 8 len AND 0xff)];
          packet = packet[0x02 := of_nat TX_DESC_SIZE];
          packet = packet[0x03 := push_bit 2 1 OR push_bit 7 1];
          packet = when_do (tx_first_segment opts) (or_at 0x03 (push_bit 3 1)) packet;
          packet = when_do bmc (or_at 0x03 1) packet;
          packet = packet[0x04 := 0x00];
          packet = packet[0x04 := tx_mac_id opts AND 0x7f];
          packet = packet[0x05 := tx_qsel (tx_queue opts) ftype AND 0x1f];
          packet = packet[0x06 := (case tx_rate_id opts of Some r \<Rightarrow> r
                                   | None \<Rightarrow> default_rate_id (tx_rate opts)) AND 0x1f];
          packet = when_do (ftype = Data \<and> tx_aggregate_break opts) (or_at 0x0a 1) packet;
          packet = packet[0x0d := push_bit 0 1];
          packet = when_do (tx_disable_rate_fallback opts) (or_at 0x0d (push_bit 2 1)) packet;
          packet = when_do (tx_protect opts)
                     (\<lambda>p. (or_at 0x0d (push_bit 4 1 OR push_bit 5 1) p)[0x13 := 0x04]) packet;
          packet = packet[0x10 := rate AND 0x7f];
          packet = packet[0x11 := tx_rate_fallback_limit opts AND 0x1f];
          packet = packet[0x12 := push_bit 1 1 OR push_bit 2 (retries AND 0x3f)];
          packet = or_at 0x14 sc packet;
          packet = or_bandwidth (tx_bandwidth opts) packet;
          packet = when_do (tx_short_gi opts) (or_at 0x14 (push_bit 4 1)) packet;
          packet = when_do (tx_ldpc opts) (or_at 0x14 (push_bit 7 1)) packet;
          packet = when_do (tx_stbc opts) (or_at 0x15 1) packet
      in if tx_hardware_sequence opts then packet[0x21 := push_bit 7 1]
         else when_do (24 \<le> length frame)
           (\<lambda>p. let sequence = drop_bit 4 (of_le16 [frame ! 22, frame ! 23]) AND 0x0fff
                in (or_at 0x25 (ucast (push_bit 4 (sequence AND 0x000f))) p)
                     [0x26 := ucast (drop_bit 4 sequence)]) packet)"

definition build_tx_packet :: "bytes \<Rightarrow> channel \<Rightarrow> tx_options \<Rightarrow> (tx_error, bytes) result" where
  "build_tx_packet frame channel opts =
     bind_res (map_err TxFrame (validate_ieee80211_frame frame)) (\<lambda>_.
     if \<not> supports_bandwidth channel (tx_bandwidth opts)
     then Inl (TxUnsupportedBandwidth (ch_number channel) (mhz (tx_bandwidth opts)))
     else
     bind_res (tx_rate_to_hw (tx_rate opts) channel) (\<lambda>rate.
     bind_res (map_err TxFrame (frame_type_of frame)) (\<lambda>ftype.
     let channel_bandwidth =
           (case tx_channel_bandwidth opts of Some b \<Rightarrow> b | None \<Rightarrow> tx_bandwidth opts) in
     bind_res (tx_data_secondary_channel channel channel_bandwidth (tx_bandwidth opts)) (\<lambda>sc.
     let packet = tx_fill_descriptor frame opts ftype rate sc;
         checksum = tx_descriptor_checksum (take 32 packet);
         packet = copy_into 0x1c (le16 checksum) packet
     in Inr (copy_into TX_DESC_SIZE frame packet)))))"

end
