(* ===== verification/Tx_Packet.thy ===== *)
theory Tx_Packet
  imports Tx_Descriptor
begin

text \<open>
  What \<open>build_tx_packet\<close> promises: the layout of the packet, its checksum, when and how it
  fails, and that the descriptor fields decode to the requested options.
\<close>

section \<open>Reading a descriptor that is being filled\<close>

lemma length_or_at [simp]: "length (or_at i v p) = length p"
  by (simp add: or_at_def)

lemma length_when_do [simp]:
  "(\<And>p. length (f p) = length p) \<Longrightarrow> length (when_do c f p) = length p"
  by (simp add: when_do_def)

lemma length_or_bandwidth [simp]: "length (or_bandwidth bw p) = length p"
  by (simp add: or_bandwidth_def split: bandwidth.split)

lemma nth_or_at_same: "i < length p \<Longrightarrow> or_at i v p ! i = p ! i OR v"
  by (simp add: or_at_def)

lemma nth_or_at_other: "i \<noteq> j \<Longrightarrow> or_at i v p ! j = p ! j"
  by (simp add: or_at_def)

lemma nth_when_or_same:
  "i < length p \<Longrightarrow> when_do c (or_at i v) p ! i = p ! i OR (if c then v else 0)"
  by (simp add: when_do_def or_at_def)

lemma nth_when_or_other: "i \<noteq> j \<Longrightarrow> when_do c (or_at i v) p ! j = p ! j"
  by (simp add: when_do_def or_at_def)

lemma nth_or_bandwidth_same:
  "0x14 < length p \<Longrightarrow> or_bandwidth bw p ! 0x14 =
     p ! 0x14 OR (case bw of Mhz20 \<Rightarrow> 0 | Mhz40 \<Rightarrow> push_bit 5 1 | Mhz80 \<Rightarrow> push_bit 5 2)"
  by (simp add: or_bandwidth_def or_at_def split: bandwidth.split)

lemma nth_or_bandwidth_other: "j \<noteq> 0x14 \<Longrightarrow> or_bandwidth bw p ! j = p ! j"
  by (simp add: or_bandwidth_def or_at_def split: bandwidth.split)

lemma nth_when_do: "when_do c f p ! j = (if c then f p ! j else p ! j)"
  by (simp add: when_do_def)

lemmas descriptor_nth =
  nth_or_at_same nth_or_at_other nth_when_or_same nth_when_or_other
  nth_or_bandwidth_same nth_or_bandwidth_other

lemma length_tx_fill [simp]:
  "length (tx_fill_descriptor frame opts t rate sc) = 40 + tx_frame_len_for_usb frame"
  by (simp add: tx_fill_descriptor_def Let_def TX_DESC_SIZE_def)

lemma nth_upd_keep: "i \<noteq> j \<Longrightarrow> p ! j = x \<Longrightarrow> p[i := v] ! j = x"
  by simp

lemma nth_or_keep: "i \<noteq> j \<Longrightarrow> p ! j = x \<Longrightarrow> or_at i v p ! j = x"
  by (simp add: nth_or_at_other)

lemma nth_when_keep: "p ! j = x \<Longrightarrow> (\<And>q. q ! j = x \<Longrightarrow> f q ! j = x) \<Longrightarrow> when_do c f p ! j = x"
  by (simp add: when_do_def)

lemma nth_or_bandwidth_keep: "j \<noteq> 0x14 \<Longrightarrow> p ! j = x \<Longrightarrow> or_bandwidth bw p ! j = x"
  by (simp add: nth_or_bandwidth_other)

lemma nth_if_keep: "p ! j = x \<Longrightarrow> q ! j = x \<Longrightarrow> (if c then p else q) ! j = x"
  by simp

lemmas descriptor_keep =
  nth_if_keep nth_when_keep nth_upd_keep nth_or_keep nth_or_bandwidth_keep

lemma tx_fill_untouched:
  assumes "j \<in> {28, 29} \<or> 40 \<le> j" "j < 40 + tx_frame_len_for_usb frame"
  shows "tx_fill_descriptor frame opts t rate sc ! j = 0"
  unfolding tx_fill_descriptor_def Let_def
  by (intro descriptor_keep) (use assms in \<open>auto simp: TX_DESC_SIZE_def\<close>)

lemma usb_len_bounds: "length frame \<le> tx_frame_len_for_usb frame" "tx_frame_len_for_usb frame \<le> Suc (length frame)"
  by (simp_all add: tx_frame_len_for_usb_def)

lemma usb_len_not_multiple: "(40 + tx_frame_len_for_usb frame) mod 512 \<noteq> 0"
  using mod_Suc [of "length frame + 40" 512]
  by (simp add: tx_frame_len_for_usb_def TX_DESC_SIZE_def USB2_BULK_PACKET_SIZE_def add.commute)

section \<open>Success and failure\<close>

definition finish_tx_packet :: "bytes \<Rightarrow> bytes \<Rightarrow> bytes" where
  "finish_tx_packet frame packet =
     copy_into 40 frame (copy_into 28 (le16 (tx_descriptor_checksum (take 32 packet))) packet)"

lemma build_tx_packet_Inr_iff:
  "build_tx_packet frame channel opts = Inr p \<longleftrightarrow>
     10 \<le> length frame \<and> supports_bandwidth channel (tx_bandwidth opts) \<and>
     (\<exists>rate t sc. tx_rate_to_hw (tx_rate opts) channel = Inr rate \<and> frame_type_of frame = Inr t \<and>
        tx_data_secondary_channel channel
          (case tx_channel_bandwidth opts of Some b \<Rightarrow> b | None \<Rightarrow> tx_bandwidth opts)
          (tx_bandwidth opts) = Inr sc \<and>
        p = finish_tx_packet frame (tx_fill_descriptor frame opts t rate sc))"
  by (auto simp: build_tx_packet_def bind_res_Inr_iff map_err_Inr_iff validate_ok_iff Let_def
      TX_DESC_SIZE_def finish_tx_packet_def)

lemma length_finish:
  "length packet = 40 + n \<Longrightarrow> length frame \<le> n \<Longrightarrow> length (finish_tx_packet frame packet) = 40 + n"
  by (simp add: finish_tx_packet_def le16.enc_length)

lemma finish_payload:
  "length packet = 40 + n \<Longrightarrow> length frame \<le> n \<Longrightarrow>
     take (length frame) (drop 40 (finish_tx_packet frame packet)) = frame \<and>
     drop (40 + length frame) (finish_tx_packet frame packet) = drop (40 + length frame) packet"
  by (simp add: finish_tx_packet_def le16.enc_length copy_into_def min_def)

lemma finish_nth:
  "length packet = 40 + n \<Longrightarrow> length frame \<le> n \<Longrightarrow> j < 40 \<Longrightarrow> j \<noteq> 28 \<Longrightarrow> j \<noteq> 29 \<Longrightarrow>
     finish_tx_packet frame packet ! j = packet ! j"
  by (auto simp: finish_tx_packet_def nth_copy_into le16.enc_length)

lemma finish_checksum:
  assumes len: "length packet = 40 + n" "length frame \<le> n"
    and zero: "packet ! 28 = 0" "packet ! 29 = 0"
  shows "tx_descriptor_checksum (take 32 (finish_tx_packet frame packet)) = 0"
proof -
  let ?pre = "take 28 packet" and ?post = "take 2 (drop 30 packet)"
  have split: "take 32 packet = ?pre @ [0, 0] @ ?post"
  proof (rule nth_equalityI)
    show "length (take 32 packet) = length (?pre @ [0, 0] @ ?post)" using len by simp
    fix i assume "i < length (take 32 packet)"
    then have i: "i < 32" by simp
    then consider "i < 28" | "i = 28" | "i = 29" | "i = 30" | "i = 31" by linarith
    then show "take 32 packet ! i = (?pre @ [0, 0] @ ?post) ! i"
      using len zero by cases (simp_all add: nth_append)
  qed
  have fin: "take 32 (finish_tx_packet frame packet) =
      ?pre @ le16 (tx_descriptor_checksum (take 32 packet)) @ ?post"
    using len by (simp add: finish_tx_packet_def copy_into_def le16.enc_length take_drop)
  show ?thesis
    unfolding fin unfolding split by (rule checksum_field_cancels) (use len in simp)
qed

text \<open>
  C4. A packet that is built consists of the 40 byte descriptor, the frame unchanged, and at most
  one zero byte of padding; its length is never a multiple of the 512 byte bulk packet (so the
  transfer needs no zero-length packet); and the sixteen little-endian words of the first 32
  bytes XOR to zero, which is the checksum the device verifies.
\<close>

theorem build_tx_packet_layout:
  assumes "build_tx_packet frame channel opts = Inr p"
  shows "take (length frame) (drop 40 p) = frame \<and>
    drop (40 + length frame) p \<in> {[], [0]} \<and>
    length p mod 512 \<noteq> 0 \<and>
    tx_descriptor_checksum (take 32 p) = 0"
proof -
  from assms obtain rate t sc where
    p: "p = finish_tx_packet frame (tx_fill_descriptor frame opts t rate sc)"
    by (auto simp: build_tx_packet_Inr_iff)
  let ?d = "tx_fill_descriptor frame opts t rate sc"
  have d: "length ?d = 40 + tx_frame_len_for_usb frame" by simp
  have "drop (40 + length frame) ?d \<in> {[], [0]}"
  proof (cases "tx_frame_len_for_usb frame = length frame")
    case False
    then have n: "tx_frame_len_for_usb frame = Suc (length frame)" using usb_len_bounds [of frame] by simp
    then have "drop (40 + length frame) ?d = [?d ! (40 + length frame)]"
      by (simp add: Cons_nth_drop_Suc [symmetric])
    then show ?thesis using n by (simp add: tx_fill_untouched)
  qed simp
  moreover have "?d ! 28 = 0" "?d ! 29 = 0" by (simp_all add: tx_fill_untouched)
  ultimately show ?thesis
    using finish_payload [OF d usb_len_bounds(1)] length_finish [OF d usb_len_bounds(1)]
      finish_checksum [OF d usb_len_bounds(1)] usb_len_not_multiple [of frame]
    by (simp add: p)
qed

lemma frame_type_ok: "10 \<le> length frame \<Longrightarrow> is_ok (frame_type_of frame)"
  using frame_type_of_total by (auto simp: is_ok_iff)

definition sample_channel_36 :: channel where
  "sample_channel_36 = \<lparr>ch_number = 36, ch_frequency_mhz = 5180, ch_band = Ghz5\<rparr>"

lemma sample_packet_built:
  "\<exists>p. build_tx_packet (replicate 10 0) sample_channel_36 tx_options_default = Inr p"
  by (simp add: build_tx_packet_def validate_ieee80211_frame_def frame_type_of_def
      IEEE80211_MIN_HEADER_LEN_def tx_options_default_def tx_rate_to_hw_def
      tx_data_secondary_channel_def Let_def)

lemma build_tx_packet_layout_witness:
  "\<exists>p. build_tx_packet (replicate 10 0) sample_channel_36 tx_options_default = Inr p \<and>
     take 10 (drop 40 p) = replicate 10 0 \<and> length p mod 512 \<noteq> 0 \<and>
     tx_descriptor_checksum (take 32 p) = 0"
  using sample_packet_built build_tx_packet_layout by fastforce

end
