(* ===== verification/Tx_Fields.thy ===== *)
theory Tx_Fields
  imports Tx_Packet
begin

text \<open>
  What the device reads back from a descriptor: the fields that \<open>build_tx_packet\<close> packs into the
  40 bytes, decoded, are the options the caller asked for.
\<close>

section \<open>Reading any byte of the filled descriptor\<close>

lemma nth_upd_eq: "j < length p \<Longrightarrow> p[i := v] ! j = (if i = j then v else p ! j)"
  by (simp add: nth_list_update)

lemma nth_or_eq: "j < length p \<Longrightarrow> or_at i v p ! j = p ! j OR (if i = j then v else 0)"
  by (simp add: or_at_def)

lemma nth_when_or_eq:
  "j < length p \<Longrightarrow> when_do c (or_at i v) p ! j = p ! j OR (if i = j then if c then v else 0 else 0)"
  by (simp add: when_do_def nth_or_eq)

lemma nth_protect_eq:
  "j < length p \<Longrightarrow> when_do c (\<lambda>p. (or_at i v p)[k := w]) p ! j =
     (if k = j then if c then w else p ! j else p ! j OR (if i = j then if c then v else 0 else 0))"
  by (simp add: when_do_def nth_or_eq nth_upd_eq)

lemma nth_bandwidth_eq:
  "j < length p \<Longrightarrow> or_bandwidth bw p ! j =
     p ! j OR (if j = 0x14 then case bw of Mhz20 \<Rightarrow> 0 | Mhz40 \<Rightarrow> 0x20 | Mhz80 \<Rightarrow> 0x40 else 0)"
  by (simp add: or_bandwidth_def nth_or_eq split: bandwidth.split)

lemmas descriptor_eqs =
  nth_upd_eq nth_or_eq nth_when_or_eq nth_protect_eq nth_bandwidth_eq
  if_distrib [of "\<lambda>p. p ! j" for j] length_or_at length_when_do length_list_update
  length_or_bandwidth length_replicate TX_DESC_SIZE_def trans_less_add1

definition frame_sequence :: "bytes \<Rightarrow> u16" where
  "frame_sequence frame = drop_bit 4 (of_le16 [frame ! 22, frame ! 23]) AND 0x0fff"

lemma tx_fill_nth_0_to_6:
  "tx_fill_descriptor frame opts t rate sc ! 0 = of_nat (tx_frame_len_for_usb frame AND 0xff)"
  "tx_fill_descriptor frame opts t rate sc ! 1 = of_nat (drop_bit 8 (tx_frame_len_for_usb frame) AND 0xff)"
  "tx_fill_descriptor frame opts t rate sc ! 2 = 40"
  "tx_fill_descriptor frame opts t rate sc ! 3 =
     0x84 OR (if tx_first_segment opts then 8 else 0) OR (if frame ! 4 AND 1 \<noteq> 0 then 1 else 0)"
  "tx_fill_descriptor frame opts t rate sc ! 4 = tx_mac_id opts AND 0x7f"
  "tx_fill_descriptor frame opts t rate sc ! 5 = tx_qsel (tx_queue opts) t AND 0x1f"
  "tx_fill_descriptor frame opts t rate sc ! 6 =
     (case tx_rate_id opts of Some r \<Rightarrow> r | None \<Rightarrow> default_rate_id (tx_rate opts)) AND 0x1f"
  unfolding tx_fill_descriptor_def Let_def
  by (simp_all add: descriptor_eqs or.assoc)

lemma tx_fill_nth_control:
  "tx_fill_descriptor frame opts t rate sc ! 0x0a = (if t = Data \<and> tx_aggregate_break opts then 1 else 0)"
  "tx_fill_descriptor frame opts t rate sc ! 0x0d =
     1 OR (if tx_disable_rate_fallback opts then 4 else 0) OR (if tx_protect opts then 0x30 else 0)"
  "tx_fill_descriptor frame opts t rate sc ! 0x10 = rate AND 0x7f"
  "tx_fill_descriptor frame opts t rate sc ! 0x11 = tx_rate_fallback_limit opts AND 0x1f"
  "tx_fill_descriptor frame opts t rate sc ! 0x12 = 2 OR push_bit 2 (tx_effective_retries opts AND 0x3f)"
  "tx_fill_descriptor frame opts t rate sc ! 0x13 = (if tx_protect opts then 4 else 0)"
  unfolding tx_fill_descriptor_def Let_def
  by (simp_all add: descriptor_eqs or.assoc)

lemma tx_fill_nth_modulation:
  "tx_fill_descriptor frame opts t rate sc ! 0x14 =
     sc OR (case tx_bandwidth opts of Mhz20 \<Rightarrow> 0 | Mhz40 \<Rightarrow> 0x20 | Mhz80 \<Rightarrow> 0x40) OR
     (if tx_short_gi opts then 0x10 else 0) OR (if tx_ldpc opts then 0x80 else 0)"
  "tx_fill_descriptor frame opts t rate sc ! 0x15 = (if tx_stbc opts then 1 else 0)"
  "tx_fill_descriptor frame opts t rate sc ! 0x21 = (if tx_hardware_sequence opts then 0x80 else 0)"
  unfolding tx_fill_descriptor_def Let_def
  by (simp_all add: descriptor_eqs or.assoc)

lemma tx_fill_nth_sequence:
  "tx_fill_descriptor frame opts t rate sc ! 0x25 =
     (if tx_hardware_sequence opts \<or> length frame < 24 then 0
      else ucast (push_bit 4 (frame_sequence frame AND 0x000f)))"
  "tx_fill_descriptor frame opts t rate sc ! 0x26 =
     (if tx_hardware_sequence opts \<or> length frame < 24 then 0
      else ucast (drop_bit 4 (frame_sequence frame)))"
  unfolding tx_fill_descriptor_def Let_def frame_sequence_def [symmetric]
  by (simp_all add: descriptor_eqs or.assoc when_do_def)

lemma flag_bits:
  "bit (0x84 OR (if a then 8 else 0) OR (if b then 1 else 0) :: u8) 3 = a"
  "bit (0x84 OR (if a then 8 else 0) OR (if b then 1 else 0) :: u8) 0 = b"
  "bit (1 OR (if a then 4 else 0) OR (if b then 0x30 else 0) :: u8) 2 = a"
  "bit (1 OR (if a then 4 else 0) OR (if b then 0x30 else 0) :: u8) 4 = b"
  "bit (if a then 4 else 0 :: u8) 2 = a"
  "bit (if a then 1 else 0 :: u8) 0 = a"
  "bit (if a then 0x80 else 0 :: u8) 7 = a"
  "(w AND 1 \<noteq> 0) = bit (w :: u8) 0"
  by (cases a; cases b; simp add: and_one_eq bit_0 even_iff_mod_2_eq_zero)+

section \<open>The decoded descriptor\<close>

record tx_descriptor_view =
  dv_length :: u16
  dv_offset :: u8
  dv_first_segment :: bool
  dv_broadcast :: bool
  dv_mac_id :: u8
  dv_queue :: u8
  dv_rate_id :: u8
  dv_no_fallback :: bool
  dv_protect :: bool
  dv_rate :: u8
  dv_retry_limit :: u8
  dv_bandwidth :: u8
  dv_subchannel :: u8
  dv_short_gi :: bool
  dv_ldpc :: bool
  dv_stbc :: bool
  dv_hardware_sequence :: bool
  dv_sequence :: u16

definition descriptor_view :: "bytes \<Rightarrow> tx_descriptor_view" where
  "descriptor_view p =
     \<lparr>dv_length = of_le16 [p ! 0, p ! 1], dv_offset = p ! 2,
      dv_first_segment = bit (p ! 3) 3, dv_broadcast = bit (p ! 3) 0,
      dv_mac_id = p ! 4, dv_queue = p ! 5, dv_rate_id = p ! 6,
      dv_no_fallback = bit (p ! 0x0d) 2, dv_protect = bit (p ! 0x0d) 4 \<and> bit (p ! 0x13) 2,
      dv_rate = p ! 0x10, dv_retry_limit = drop_bit 2 (p ! 0x12),
      dv_bandwidth = drop_bit 5 (p ! 0x14) AND 3, dv_subchannel = p ! 0x14 AND 0x0f,
      dv_short_gi = bit (p ! 0x14) 4, dv_ldpc = bit (p ! 0x14) 7, dv_stbc = bit (p ! 0x15) 0,
      dv_hardware_sequence = bit (p ! 0x21) 7,
      dv_sequence = drop_bit 4 (ucast (p ! 0x25)) OR push_bit 4 (ucast (p ! 0x26))\<rparr>"

definition requested_view ::
    "bytes \<Rightarrow> tx_options \<Rightarrow> frame_type \<Rightarrow> u8 \<Rightarrow> u8 \<Rightarrow> tx_descriptor_view" where
  "requested_view frame opts t rate sc =
     \<lparr>dv_length = of_nat (tx_frame_len_for_usb frame), dv_offset = 40,
      dv_first_segment = tx_first_segment opts, dv_broadcast = (bit (frame ! 4) 0),
      dv_mac_id = tx_mac_id opts AND 0x7f, dv_queue = tx_qsel (tx_queue opts) t,
      dv_rate_id = (case tx_rate_id opts of Some r \<Rightarrow> r AND 0x1f | None \<Rightarrow> default_rate_id (tx_rate opts)),
      dv_no_fallback = tx_disable_rate_fallback opts, dv_protect = tx_protect opts,
      dv_rate = rate, dv_retry_limit = tx_effective_retries opts,
      dv_bandwidth = (case tx_bandwidth opts of Mhz20 \<Rightarrow> 0 | Mhz40 \<Rightarrow> 1 | Mhz80 \<Rightarrow> 2),
      dv_subchannel = sc, dv_short_gi = tx_short_gi opts, dv_ldpc = tx_ldpc opts,
      dv_stbc = tx_stbc opts, dv_hardware_sequence = tx_hardware_sequence opts,
      dv_sequence = (if tx_hardware_sequence opts \<or> length frame < 24 then 0 else frame_sequence frame)\<rparr>"

lemma bit_255_nat: "bit (255 :: nat) k \<longleftrightarrow> k < 8"
  using bit_mask_iff [of 8 k, where 'a = nat] by (simp add: mask_eq_exp_minus_1)

lemma of_le16_of_nat:
  "of_le16 [of_nat (n AND 0xff), of_nat (drop_bit 8 n AND 0xff)] = of_nat n"
  by (rule bit_word_eqI) (auto simp: of_le16_def bit_simps bit_255_nat)

lemma queue_5_bits: "tx_qsel q t AND 0x1f = tx_qsel q t"
  by (simp add: tx_qsel_def auto_qsel_def qslt_defs split: tx_queue.split frame_type.split)

lemma rate_id_5_bits:
  "(case i of Some r \<Rightarrow> r | None \<Rightarrow> default_rate_id rate) AND 0x1f =
   (case i of Some r \<Rightarrow> r AND 0x1f | None \<Rightarrow> default_rate_id rate)"
  by (simp add: default_rate_id_def split: tx_rate.split option.split)

lemma and_7f: "unat (w :: u8) < 128 \<Longrightarrow> w AND 0x7f = w"
  using less_mask_eq [of w 7] by (simp add: mask_eq_exp_minus_1 word_less_nat_alt)

lemma hw_rate_7_bits: "tx_rate_to_hw r c = Inr hw \<Longrightarrow> hw AND 0x7f = hw"
  by (rule and_7f) (drule hw_rate_bound, simp)

lemma retries_bound: "tx_effective_retries opts \<le> 63"
  by (simp add: tx_effective_retries_def)

lemma retries_6_bits:
  "drop_bit 2 (2 OR push_bit 2 (tx_effective_retries opts AND 0x3f)) = tx_effective_retries opts"
proof -
  let ?r = "tx_effective_retries opts"
  have mask: "?r AND 0x3f = ?r"
    using less_mask_eq [of ?r 6] retries_bound [of opts]
    by (simp add: mask_eq_exp_minus_1 word_le_nat_alt word_less_nat_alt)
  have "n < 6" if "bit ?r n" for n
    using that mask bit_take_bit_iff [of 6 ?r n] by (simp add: take_bit_eq_mask mask_eq_exp_minus_1)
  then show ?thesis
    unfolding mask by (intro bit_word_eqI) (auto simp: bit_simps)
qed

lemma sequence_bytes_12:
  fixes s :: u16
  assumes "\<And>n. bit s n \<Longrightarrow> n < 12"
  shows "drop_bit 4 (ucast (ucast (push_bit 4 (s AND mask 4)) :: u8)) OR
         push_bit 4 (ucast (ucast (drop_bit 4 s) :: u8)) = s"
proof (rule bit_word_eqI)
  fix n assume "n < LENGTH(16)"
  moreover have "bit s n \<Longrightarrow> n < 12" by (rule assms)
  ultimately show "bit (drop_bit 4 (ucast (ucast (push_bit 4 (s AND mask 4)) :: u8)) OR
      push_bit 4 (ucast (ucast (drop_bit 4 s) :: u8)) :: u16) n = bit s n"
    by (cases "n < 4") (auto simp: bit_simps)
qed

lemma frame_sequence_bits: "bit (frame_sequence f) n \<Longrightarrow> n < 12"
  using bit_mask_iff [of 12 n, where 'a = u16]
  by (simp add: frame_sequence_def bit_simps mask_eq_exp_minus_1)

lemma sequence_bytes:
  "drop_bit 4 (ucast (if c then 0 else ucast (push_bit 4 (frame_sequence f AND 0x000f)) :: u8)) OR
   push_bit 4 (ucast (if c then 0 else ucast (drop_bit 4 (frame_sequence f)) :: u8)) =
   (if c then 0 else frame_sequence f)"
  using sequence_bytes_12 [of "frame_sequence f", OF frame_sequence_bits] by (simp add: mask_eq_exp_minus_1 del: push_bit_and)

lemma modulation_byte:
  assumes "sc \<in> {0, 1, 2, 3, 4, 9, 10 :: u8}"
  shows "drop_bit 5 (sc OR (case bw of Mhz20 \<Rightarrow> 0 | Mhz40 \<Rightarrow> 0x20 | Mhz80 \<Rightarrow> 0x40) OR
           (if g then 0x10 else 0) OR (if l then 0x80 else 0)) AND 3 =
           (case bw of Mhz20 \<Rightarrow> 0 | Mhz40 \<Rightarrow> 1 | Mhz80 \<Rightarrow> (2 :: u8))"
    and "(sc OR (case bw of Mhz20 \<Rightarrow> 0 | Mhz40 \<Rightarrow> 0x20 | Mhz80 \<Rightarrow> 0x40) OR
           (if g then 0x10 else 0) OR (if l then 0x80 else 0)) AND 0x0f = sc"
    and "bit (sc OR (case bw of Mhz20 \<Rightarrow> 0 | Mhz40 \<Rightarrow> 0x20 | Mhz80 \<Rightarrow> 0x40) OR
           (if g then 0x10 else 0) OR (if l then 0x80 else 0)) 4 = g"
    and "bit (sc OR (case bw of Mhz20 \<Rightarrow> 0 | Mhz40 \<Rightarrow> 0x20 | Mhz80 \<Rightarrow> 0x40) OR
           (if g then 0x10 else 0) OR (if l then 0x80 else 0)) 7 = l"
  using assms by (elim insertE emptyE; cases bw; cases g; cases l; simp)+


text \<open>
  C5. The options survive the encoding: reading the descriptor of a built packet back gives the
  transfer length, queue, MAC id, rate id, hardware rate, retry limit, bandwidth, subchannel,
  guard interval, coding, protection and sequence fields that the caller's options (and the
  frame's own header) prescribe, none disturbed by its neighbours in the shared bytes.
\<close>

theorem build_tx_packet_view:
  assumes "build_tx_packet frame channel opts = Inr p"
  shows "\<exists>t rate sc. frame_type_of frame = Inr t \<and> tx_rate_to_hw (tx_rate opts) channel = Inr rate \<and>
    tx_data_secondary_channel channel
      (case tx_channel_bandwidth opts of Some b \<Rightarrow> b | None \<Rightarrow> tx_bandwidth opts)
      (tx_bandwidth opts) = Inr sc \<and>
    descriptor_view p = requested_view frame opts t rate sc"
proof -
  from assms obtain rate t sc where
    r: "tx_rate_to_hw (tx_rate opts) channel = Inr rate" and t: "frame_type_of frame = Inr t" and
    sc: "tx_data_secondary_channel channel
      (case tx_channel_bandwidth opts of Some b \<Rightarrow> b | None \<Rightarrow> tx_bandwidth opts)
      (tx_bandwidth opts) = Inr sc" and
    p: "p = finish_tx_packet frame (tx_fill_descriptor frame opts t rate sc)"
    by (auto simp: build_tx_packet_Inr_iff)
  let ?d = "tx_fill_descriptor frame opts t rate sc"
  have d: "length ?d = 40 + tx_frame_len_for_usb frame" by simp
  have "descriptor_view p = descriptor_view ?d"
    using finish_nth [OF d usb_len_bounds(1)] by (simp add: p descriptor_view_def)
  also have "\<dots> = requested_view frame opts t rate sc"
    unfolding descriptor_view_def requested_view_def
    by (simp only: tx_fill_nth_0_to_6 tx_fill_nth_control tx_fill_nth_modulation tx_fill_nth_sequence
        of_le16_of_nat queue_5_bits rate_id_5_bits hw_rate_7_bits [OF r] retries_6_bits
        sequence_bytes modulation_byte [OF secondary_channel_range [OF sc]] flag_bits conj_absorb)
  finally show ?thesis using r t sc by blast
qed

lemma build_tx_packet_view_witness:
  "\<exists>p. build_tx_packet (replicate 10 0) sample_channel_36 tx_options_default = Inr p \<and>
     descriptor_view p = requested_view (replicate 10 0) tx_options_default Management 4 0"
proof -
  obtain p where p: "build_tx_packet (replicate 10 0) sample_channel_36 tx_options_default = Inr p"
    using sample_packet_built by blast
  from build_tx_packet_view [OF p] p show ?thesis
    by (auto simp: frame_type_of_def validate_ieee80211_frame_def IEEE80211_MIN_HEADER_LEN_def
        tx_options_default_def tx_rate_to_hw_def tx_data_secondary_channel_def
        VHT_DATA_SC_DONOT_CARE_def)
qed

end
