(* ===== verification/Tx_Submit.thy ===== *)
theory Tx_Submit
  imports Tx_Packet
begin

text \<open>
  When \<open>build_tx_packet\<close> refuses a frame, and what \<open>submit_tx_frame\<close> does to the transport and the
  counters of the session.
\<close>

section \<open>Refusals\<close>

lemma tx_rate_to_hw_Inl: "tx_rate_to_hw r c = Inl e \<Longrightarrow> \<not> rate_supported r \<and> (\<exists>s. e = TxUnsupportedRate s)"
  using tx_rate_to_hw_ok_iff [of r c]
  by (cases r) (auto simp: tx_rate_to_hw_def split: if_splits)

lemma frame_type_of_Inl_iff:
  "frame_type_of frame = Inl e \<longleftrightarrow> length frame < 10 \<and> e = FrameTooShort 10 (length frame)"
  by (auto simp: frame_type_of_def bind_res_Inl_iff validate_error_iff)

definition tx_channel_bw :: "tx_options \<Rightarrow> bandwidth" where
  "tx_channel_bw opts =
     (case tx_channel_bandwidth opts of Some b \<Rightarrow> b | None \<Rightarrow> tx_bandwidth opts)"

text \<open>
  Building a packet fails exactly for these reasons, checked in this order: the frame is
  shorter than an 802.11 header, the channel does not support the bandwidth, the rate is out of
  range, or no 20/40 MHz subchannel of the configured channel bandwidth fits; the error names
  the reason.
\<close>

theorem build_tx_packet_error:
  "build_tx_packet frame channel opts = Inl e \<longleftrightarrow>
     (if length frame < 10 then e = TxFrame (FrameTooShort 10 (length frame))
      else if \<not> supports_bandwidth channel (tx_bandwidth opts)
      then e = TxUnsupportedBandwidth (ch_number channel) (mhz (tx_bandwidth opts))
      else if \<not> rate_supported (tx_rate opts) then tx_rate_to_hw (tx_rate opts) channel = Inl e
      else tx_data_secondary_channel channel (tx_channel_bw opts) (tx_bandwidth opts) = Inl e)"
proof (cases "length frame < 10")
  case True
  then have "validate_ieee80211_frame frame = Inl (FrameTooShort 10 (length frame))"
    by (simp add: validate_error_iff)
  with True show ?thesis by (auto simp: build_tx_packet_def)
next
  case False
  then have v: "validate_ieee80211_frame frame = Inr ()" and t: "\<exists>t. frame_type_of frame = Inr t"
    using frame_type_of_total [of frame] by (simp_all add: validate_ok_iff)
  show ?thesis
    using False v t tx_rate_to_hw_ok_iff [of "tx_rate opts" channel] tx_rate_to_hw_Inl [of "tx_rate opts" channel]
    by (cases "tx_rate_to_hw (tx_rate opts) channel")
      (auto simp: build_tx_packet_def bind_res_Inl_iff tx_channel_bw_def Let_def)
qed

text \<open>
  C40. On the supported channels, a frame narrower than the channel bandwidth is accepted exactly
  as follows: in an 80 MHz channel iff the channel supports 80 MHz; in a 40 MHz channel on every
  channel but 14, 149, 153, 157, 161 and 165.  A frame wider than the channel is never accepted.
\<close>

theorem secondary_channel_table:
  "\<forall>c \<in> set supported_channels. \<forall>cb fb.
     is_ok (tx_data_secondary_channel c cb fb) \<longleftrightarrow>
       fb \<le> cb \<and>
       (fb = cb \<or>
        (if cb = Mhz80 then supports_bandwidth c Mhz80
         else ch_number c \<notin> {14, 149, 153, 157, 161, 165}))"
proof (intro ballI allI)
  fix c cb fb
  assume c: "c \<in> set supported_channels"
  show "is_ok (tx_data_secondary_channel c cb fb) \<longleftrightarrow>
       fb \<le> cb \<and>
       (fb = cb \<or>
        (if cb = Mhz80 then supports_bandwidth c Mhz80
         else ch_number c \<notin> {14, 149, 153, 157, 161, 165}))"
  proof (cases "cb = Mhz40 \<and> fb = Mhz20")
    case True
    have "\<forall>c \<in> set supported_channels. is_ok (tx_primary_20_of_40 c) \<longleftrightarrow>
        ch_number c \<notin> {14, 149, 153, 157, 161, 165}"
      by (simp add: channel_tables tx_primary_20_of_40_def)
    with c True show ?thesis
      by (simp add: tx_data_secondary_channel_def less_eq_bandwidth_def)
  next
    case False
    have "\<forall>c \<in> set supported_channels. supports_bandwidth c Mhz80 \<longleftrightarrow> ch_number c \<in>
          {36, 40, 44, 48, 52, 56, 60, 64, 100, 104, 108, 112, 116, 120, 124, 128,
           132, 136, 140, 144, 149, 153, 157, 161}"
      by (simp add: channel_tables supports_bandwidth_def)
    with c have s: "supports_bandwidth c Mhz80 \<longleftrightarrow> ch_number c \<in>
          {36, 40, 44, 48, 52, 56, 60, 64, 100, 104, 108, 112, 116, 120, 124, 128,
           132, 136, 140, 144, 149, 153, 157, 161}" by blast
    from False show ?thesis
      by (cases cb; cases fb) (auto simp: s tx_data_secondary_channel_def less_eq_bandwidth_def Let_def)
  qed
qed

lemma secondary_channel_table_witness:
  "\<not> is_ok (tx_data_secondary_channel
      \<lparr>ch_number = 149, ch_frequency_mhz = 5745, ch_band = Ghz5\<rparr> Mhz40 Mhz20) \<and>
   supports_bandwidth \<lparr>ch_number = 149, ch_frequency_mhz = 5745, ch_band = Ghz5\<rparr> Mhz40"
  using secondary_channel_table
    [THEN bspec, of "\<lparr>ch_number = 149, ch_frequency_mhz = 5745, ch_band = Ghz5\<rparr>"]
  by (simp add: channel_tables supports_bandwidth_def)

section \<open>Submission\<close>

text \<open>
  The transport is a function \<open>write\<close> of the endpoint, the packet and the timeout that threads the
  state of the device; it returns the number of bytes written or a USB error.
\<close>

type_synonym ('r, 't) bulk_write =
  "u8 \<Rightarrow> bytes \<Rightarrow> nat \<Rightarrow> 't \<Rightarrow> ('r usb_error, nat) result \<times> 't"

definition submit_tx_frame ::
    "('r, 't) bulk_write \<Rightarrow> 't \<Rightarrow> u8 \<Rightarrow> bytes \<Rightarrow> channel \<Rightarrow> tx_options \<Rightarrow> tx_submit_counters \<Rightarrow>
     ('r tx_submit_error, nat) result \<times> 't \<times> tx_submit_counters" where
  "submit_tx_frame write dev endpoint frame channel opts counters =
     (let counters = counters\<lparr>sc_attempted := sc_attempted counters + 1\<rparr> in
      case build_tx_packet frame channel opts of
        Inl error \<Rightarrow>
          (Inl (SubmitBuild error), dev, counters\<lparr>sc_rejected := sc_rejected counters + 1\<rparr>)
      | Inr packet \<Rightarrow>
          (case write endpoint packet DEFAULT_TIMEOUT dev of
             (Inr written, dev) \<Rightarrow>
               if written = length packet
               then (Inr written, dev,
                     counters\<lparr>sc_submitted := sc_submitted counters + 1,
                              sc_bytes_written := sc_bytes_written counters + of_nat written\<rparr>)
               else (Inl (SubmitShortWrite endpoint (length packet) written), dev,
                     counters\<lparr>sc_failed := sc_failed counters + 1,
                              sc_short_writes := sc_short_writes counters + 1,
                              sc_bytes_written := sc_bytes_written counters + of_nat written\<rparr>)
           | (Inl error, dev) \<Rightarrow>
               (Inl (SubmitUsb error), dev, counters\<lparr>sc_failed := sc_failed counters + 1\<rparr>)))"

text \<open>A run of submissions, in order, on one device.\<close>

fun submit_all ::
    "('r, 't) bulk_write \<Rightarrow> 't \<Rightarrow> u8 \<Rightarrow> (bytes \<times> channel \<times> tx_options) list \<Rightarrow> tx_submit_counters \<Rightarrow>
     ('r tx_submit_error, nat) result list \<times> 't \<times> tx_submit_counters" where
  "submit_all write dev endpoint [] counters = ([], dev, counters)"
| "submit_all write dev endpoint ((frame, channel, opts) # rest) counters =
     (let (r, dev, counters) = submit_tx_frame write dev endpoint frame channel opts counters;
          (rs, dev, counters) = submit_all write dev endpoint rest counters
      in (r # rs, dev, counters))"

fun result_is_rejected :: "('r tx_submit_error, nat) result \<Rightarrow> bool" where
  "result_is_rejected (Inl (SubmitBuild _)) = True"
| "result_is_rejected _ = False"

fun result_is_short :: "('r tx_submit_error, nat) result \<Rightarrow> bool" where
  "result_is_short (Inl (SubmitShortWrite _ _ _)) = True"
| "result_is_short _ = False"

fun result_bytes :: "('r tx_submit_error, nat) result \<Rightarrow> nat" where
  "result_bytes (Inr n) = n"
| "result_bytes (Inl (SubmitShortWrite _ _ n)) = n"
| "result_bytes _ = 0"

definition count_if :: "('a \<Rightarrow> bool) \<Rightarrow> 'a list \<Rightarrow> u64" where
  "count_if P xs = of_nat (length (filter P xs))"

text \<open>What the counters must have become after the results \<open>rs\<close>.\<close>

definition counted :: "('r tx_submit_error, nat) result list \<Rightarrow> tx_submit_counters \<Rightarrow> tx_submit_counters" where
  "counted rs c =
     \<lparr>sc_attempted = sc_attempted c + of_nat (length rs),
      sc_submitted = sc_submitted c + count_if is_ok rs,
      sc_rejected = sc_rejected c + count_if result_is_rejected rs,
      sc_failed = sc_failed c + count_if (\<lambda>r. \<not> is_ok r \<and> \<not> result_is_rejected r) rs,
      sc_short_writes = sc_short_writes c + count_if result_is_short rs,
      sc_bytes_written = sc_bytes_written c + of_nat (sum_list (map result_bytes rs))\<rparr>"

lemma submit_tx_frame_counted:
  "submit_tx_frame write dev ep frame ch opts c = (r, dev', c') \<Longrightarrow> c' = counted [r] c"
  by (auto simp: submit_tx_frame_def counted_def count_if_def Let_def split: sum.splits prod.splits if_splits)

lemma counted_append: "counted ss (counted rs c) = counted (rs @ ss) c"
  by (simp add: counted_def count_if_def add.assoc)

text \<open>
  Every counter of the transmit path counts what its name says: after any run of
  submissions, whatever the transport does, \<open>attempted\<close>, \<open>submitted\<close>, \<open>rejected\<close>, \<open>failed\<close>,
  \<open>short_writes\<close> and \<open>bytes_written\<close> have grown by the number of frames, of successes, of frames
  refused before the transport, of transport failures, of short writes and of bytes written in
  the results returned to the caller.
\<close>

theorem submit_all_counted:
  "snd (snd (submit_all write dev ep frames c)) = counted (fst (submit_all write dev ep frames c)) c"
proof (induction frames arbitrary: dev c)
  case Nil
  then show ?case by (simp add: counted_def count_if_def)
next
  case (Cons f rest)
  obtain frame ch opts where f: "f = (frame, ch, opts)" by (cases f)
  obtain r dev1 c1 where s: "submit_tx_frame write dev ep frame ch opts c = (r, dev1, c1)"
    by (cases "submit_tx_frame write dev ep frame ch opts c")
  obtain rs dev2 c2 where t: "submit_all write dev1 ep rest c1 = (rs, dev2, c2)"
    by (cases "submit_all write dev1 ep rest c1")
  have "c2 = counted rs c1" using Cons.IH [of dev1 c1] by (simp add: t)
  also have "\<dots> = counted (r # rs) c"
    using submit_tx_frame_counted [OF s] by (simp add: counted_append)
  finally show ?case by (simp add: f s t)
qed

definition tx_counters_consistent :: "tx_submit_counters \<Rightarrow> bool" where
  "tx_counters_consistent c \<longleftrightarrow> sc_attempted c = sc_submitted c + sc_rejected c + sc_failed c"

lemma counted_consistent: "tx_counters_consistent c \<Longrightarrow> tx_counters_consistent (counted rs c)"
proof (induction rs arbitrary: c)
  case Nil
  then show ?case by (simp add: counted_def count_if_def tx_counters_consistent_def)
next
  case (Cons r rs)
  have "tx_counters_consistent (counted [r] c)"
    using Cons.prems
    by (cases r rule: result_is_rejected.cases)
      (auto simp: tx_counters_consistent_def counted_def count_if_def)
  then have "tx_counters_consistent (counted rs (counted [r] c))" by (rule Cons.IH)
  then show ?case by (simp add: counted_append)
qed

text \<open>
  A submission reaches the device exactly when the packet can be built, and then with the
  built packet, on the given endpoint and with the default timeout; it succeeds exactly when
  the device takes the whole packet; and \<open>attempted = submitted + rejected + failed\<close> is kept.
\<close>

theorem submit_tx_frame_correct:
  assumes "submit_tx_frame write dev ep frame ch opts c = (r, dev', c')"
  shows "dev' = (case build_tx_packet frame ch opts of Inl _ \<Rightarrow> dev
                 | Inr p \<Rightarrow> snd (write ep p DEFAULT_TIMEOUT dev)) \<and>
    (is_ok r \<longleftrightarrow> (\<exists>p. build_tx_packet frame ch opts = Inr p \<and>
                      fst (write ep p DEFAULT_TIMEOUT dev) = Inr (length p))) \<and>
    (tx_counters_consistent c \<longrightarrow> tx_counters_consistent c')"
proof (intro conjI impI)
  show "dev' = (case build_tx_packet frame ch opts of Inl _ \<Rightarrow> dev
                 | Inr p \<Rightarrow> snd (write ep p DEFAULT_TIMEOUT dev))"
    using assms by (auto simp: submit_tx_frame_def Let_def split: sum.splits prod.splits if_splits)
  show "is_ok r \<longleftrightarrow> (\<exists>p. build_tx_packet frame ch opts = Inr p \<and>
                      fst (write ep p DEFAULT_TIMEOUT dev) = Inr (length p))"
    using assms by (auto simp: submit_tx_frame_def Let_def split: sum.splits prod.splits if_splits)
  show "tx_counters_consistent c \<Longrightarrow> tx_counters_consistent c'"
    using submit_tx_frame_counted [OF assms] counted_consistent by blast
qed

lemma submit_tx_frame_correct_witness:
  "\<exists>n c'. submit_tx_frame (\<lambda>ep p t d. (Inr (length p) :: (unit usb_error, nat) result, p)) [] 2
      (replicate 10 0) sample_channel_36 tx_options_default tx_submit_counters_default = (Inr n, c') \<and>
     tx_counters_consistent (snd c')"
  (is "\<exists>n c'. ?s = _ \<and> _")
proof -
  obtain r d c' where s: "?s = (r, d, c')" by (cases ?s)
  from submit_tx_frame_correct [OF s] sample_packet_built have "is_ok r" "tx_counters_consistent c'"
    by (auto simp: tx_counters_consistent_def tx_submit_counters_default_def)
  with s show ?thesis by (auto simp: is_ok_iff)
qed

end
