(* ===== verification/Rx_Parser.thy ===== *)
theory Rx_Parser
  imports Tx_Descriptor
begin

text \<open>
  The receive descriptor of the RTL8812AU: \<open>parse_rx_packet\<close>, the PHY status metrics and the rate
  and bandwidth codes (\<open>crates/radio-core/src/rtl8812au.rs\<close>).
\<close>

definition RX_DESC_SIZE :: nat where "RX_DESC_SIZE = 24"
definition RX_AGGREGATION_ALIGNMENT :: nat where "RX_AGGREGATION_ALIGNMENT = 128"
definition RTL8812_PHY_STATUS_1ST_TYPE_MIN_LEN :: nat where
  "RTL8812_PHY_STATUS_1ST_TYPE_MIN_LEN = 17"

section \<open>Data\<close>

datatype rx_rssi_source = RssiPhyStatusBestPath | RssiPhyStatusFirstByte | RssiFallbackNoPhyStatus

datatype rx_snr_source = SnrPhyStatusBestPath

record rx_frame =
  rx_data :: bytes
  rx_rssi_dbm :: i8
  rx_rssi_dbm_valid :: bool
  rx_rssi_dbm_source :: rx_rssi_source
  rx_noise_dbm :: "i8 option"
  rx_snr_db :: "i8 option"
  rx_snr_db_source :: "rx_snr_source option"
  rx_channel :: channel
  rx_phy_status :: bool
  rx_driver_info_size :: nat
  rx_shift :: nat
  rx_raw_phy_status :: bytes
  rx_rate_raw :: u8
  rx_rate :: "tx_rate option"
  rx_bandwidth_raw :: u8
  rx_bandwidth :: "bandwidth option"
  rx_short_gi :: bool
  rx_ldpc :: bool
  rx_stbc :: bool
  rx_crc_error :: bool

datatype rx_parse_outcome = RxFrame | RxDrop | RxNeedMoreData

record parsed_rx_packet =
  pp_consumed :: nat
  pp_outcome :: rx_parse_outcome
  pp_frame :: "rx_frame option"

section \<open>Rates and bandwidths\<close>

definition rx_rate_from_hw :: "u8 \<Rightarrow> tx_rate option" where
  "rx_rate_from_hw raw =
     (if raw = 0x00 then Some Cck1m
      else if raw = 0x01 then Some Cck2m
      else if raw = 0x02 then Some Cck5_5m
      else if raw = 0x03 then Some Cck11m
      else if raw = 0x04 then Some Ofdm6m
      else if raw = 0x05 then Some Ofdm9m
      else if raw = 0x06 then Some Ofdm12m
      else if raw = 0x07 then Some Ofdm18m
      else if raw = 0x08 then Some Ofdm24m
      else if raw = 0x09 then Some Ofdm36m
      else if raw = 0x0a then Some Ofdm48m
      else if raw = 0x0b then Some Ofdm54m
      else if 0x0c \<le> raw \<and> raw \<le> 0x2b then Some (Mcs (raw - 0x0c))
      else if 0x2c \<le> raw \<and> raw \<le> 0x53 then
        (let index = raw - 0x2c in Some (Vht (index mod 10) (index div 10 + 1)))
      else None)"

definition rx_bandwidth_from_raw :: "u8 \<Rightarrow> bandwidth option" where
  "rx_bandwidth_from_raw raw =
     (if raw = 0 then Some Mhz20 else if raw = 1 then Some Mhz40
      else if raw = 2 then Some Mhz80 else None)"

section \<open>PHY status\<close>

definition clamp :: "int \<Rightarrow> int \<Rightarrow> int \<Rightarrow> int" where
  "clamp lo hi x = (if x < lo then lo else if x > hi then hi else x)"

record phy_status_metrics =
  pm_rssi_dbm :: i8
  pm_snr_db :: i8
  pm_noise_dbm :: i8

text \<open>
  The sums are \<open>i16\<close> in the code; they stay between -255 and 255, so they are integers here, and
  the conversion back to \<open>i8\<close> is \<open>word_of_int\<close>.
\<close>

definition rtl8812_phy_status_path :: "u8 \<Rightarrow> u8 \<Rightarrow> phy_status_metrics" where
  "rtl8812_phy_status_path gain_trsw raw_snr =
     (let rssi_dbm = word_of_int (clamp (- 127) 0 (uint (gain_trsw AND 0x7f) - 110));
          snr_db = signed_drop_bit 1 raw_snr;
          noise_dbm = word_of_int (clamp (- 127) 0 (sint rssi_dbm - sint snr_db))
      in \<lparr>pm_rssi_dbm = rssi_dbm, pm_snr_db = snr_db, pm_noise_dbm = noise_dbm\<rparr>)"

definition rtl8812_phy_status_metrics :: "bytes \<Rightarrow> u8 \<Rightarrow> phy_status_metrics option" where
  "rtl8812_phy_status_metrics raw rate_raw =
     (if length raw < RTL8812_PHY_STATUS_1ST_TYPE_MIN_LEN \<or> rate_raw \<le> 0x03 then None
      else
        let path_a = rtl8812_phy_status_path (raw ! 0) (raw ! 15);
            path_b = rtl8812_phy_status_path (raw ! 1) (raw ! 16)
        in Some (if sint (pm_rssi_dbm path_a) < sint (pm_rssi_dbm path_b) then path_b else path_a))"

section \<open>The parser\<close>

text \<open>\<open>usize\<close> values are naturals; the mask of \<open>align_up\<close> is the two's complement of \<open>alignment - 1\<close>.\<close>

definition align_up :: "nat \<Rightarrow> nat \<Rightarrow> nat" where
  "align_up value alignment =
     nat ((int value + int alignment - 1) AND NOT (int alignment - 1))"

definition need_more :: parsed_rx_packet where
  "need_more = \<lparr>pp_consumed = 0, pp_outcome = RxNeedMoreData, pp_frame = None\<rparr>"

definition rx_signal_of ::
    "bytes \<Rightarrow> phy_status_metrics option \<Rightarrow>
     (i8 \<times> bool \<times> rx_rssi_source) \<times> i8 option \<times> i8 option \<times> rx_snr_source option" where
  "rx_signal_of raw_phy_status phy_metrics =
     ((case phy_metrics of
         Some metrics \<Rightarrow> (pm_rssi_dbm metrics, True, RssiPhyStatusBestPath)
       | None \<Rightarrow>
           (case raw_phy_status of
              raw # _ \<Rightarrow> (word_of_int (clamp (- 127) 0 (uint raw - 110)), True, RssiPhyStatusFirstByte)
            | [] \<Rightarrow> (- 80, False, RssiFallbackNoPhyStatus))),
      (case phy_metrics of
         Some metrics \<Rightarrow> (Some (pm_noise_dbm metrics), Some (pm_snr_db metrics), Some SnrPhyStatusBestPath)
       | None \<Rightarrow> (None, None, None)))"

text \<open>The fields of the 24 byte receive descriptor.\<close>

definition rx_dword :: "nat \<Rightarrow> bytes \<Rightarrow> u32" where
  "rx_dword i buf = of_le32 [buf ! i, buf ! (i + 1), buf ! (i + 2), buf ! (i + 3)]"

definition desc_packet_len :: "bytes \<Rightarrow> nat" where
  "desc_packet_len buf = unat (rx_dword 0 buf AND 0x3fff)"

definition desc_crc_error :: "bytes \<Rightarrow> bool" where
  "desc_crc_error buf = (drop_bit 14 (rx_dword 0 buf) AND 1 \<noteq> 0)"

definition desc_drvinfo_size :: "bytes \<Rightarrow> nat" where
  "desc_drvinfo_size buf = unat (drop_bit 16 (rx_dword 0 buf) AND 0x0f) * 8"

definition desc_shift :: "bytes \<Rightarrow> nat" where
  "desc_shift buf = unat (drop_bit 24 (rx_dword 0 buf) AND 0x03)"

definition desc_phy_status :: "bytes \<Rightarrow> bool" where
  "desc_phy_status buf = (drop_bit 26 (rx_dword 0 buf) AND 1 \<noteq> 0)"

definition desc_rate_raw :: "bytes \<Rightarrow> u8" where
  "desc_rate_raw buf = ucast (rx_dword 12 buf AND 0x7f)"

definition desc_bandwidth_raw :: "bytes \<Rightarrow> u8" where
  "desc_bandwidth_raw buf = ucast (drop_bit 4 (rx_dword 16 buf) AND 0x03)"

definition desc_flag :: "nat \<Rightarrow> bytes \<Rightarrow> bool" where
  "desc_flag i buf = (drop_bit i (rx_dword 16 buf) AND 1 \<noteq> 0)"

lemmas desc_field_defs =
  desc_packet_len_def desc_crc_error_def desc_drvinfo_size_def desc_shift_def desc_phy_status_def
  desc_rate_raw_def desc_bandwidth_raw_def desc_flag_def

definition desc_raw_phy_status :: "bytes \<Rightarrow> bytes" where
  "desc_raw_phy_status buf =
     (if desc_phy_status buf \<and> 0 < desc_drvinfo_size buf
      then byte_slice RX_DESC_SIZE (RX_DESC_SIZE + min (desc_drvinfo_size buf) 32) buf
      else [])"

definition rx_frame_of :: "bytes \<Rightarrow> channel \<Rightarrow> nat \<Rightarrow> nat \<Rightarrow> rx_frame" where
  "rx_frame_of buf channel data_start frame_len =
     (let raw_phy_status = desc_raw_phy_status buf;
          phy_metrics = rtl8812_phy_status_metrics raw_phy_status (desc_rate_raw buf);
          ((rssi, rssi_valid, rssi_source), (noise, snr, snr_source)) =
            rx_signal_of raw_phy_status phy_metrics
      in \<lparr>rx_data = byte_slice data_start (data_start + frame_len) buf,
          rx_rssi_dbm = rssi, rx_rssi_dbm_valid = rssi_valid,
          rx_rssi_dbm_source = rssi_source, rx_noise_dbm = noise,
          rx_snr_db = snr, rx_snr_db_source = snr_source,
          rx_channel = channel, rx_phy_status = desc_phy_status buf,
          rx_driver_info_size = desc_drvinfo_size buf, rx_shift = desc_shift buf,
          rx_raw_phy_status = raw_phy_status, rx_rate_raw = desc_rate_raw buf,
          rx_rate = rx_rate_from_hw (desc_rate_raw buf),
          rx_bandwidth_raw = desc_bandwidth_raw buf,
          rx_bandwidth = rx_bandwidth_from_raw (desc_bandwidth_raw buf),
          rx_short_gi = desc_flag 0 buf, rx_ldpc = desc_flag 1 buf, rx_stbc = desc_flag 2 buf,
          rx_crc_error = desc_crc_error buf\<rparr>)"

definition parse_rx_packet :: "bytes \<Rightarrow> channel \<Rightarrow> parsed_rx_packet" where
  "parse_rx_packet buf channel =
     (if length buf < RX_DESC_SIZE then need_more
      else if desc_packet_len buf = 0 \<or> 4096 < desc_packet_len buf
      then \<lparr>pp_consumed = min RX_DESC_SIZE (length buf), pp_outcome = RxDrop, pp_frame = None\<rparr>
      else
        let data_start = RX_DESC_SIZE + desc_drvinfo_size buf + desc_shift buf;
            data_end = data_start + desc_packet_len buf;
            consumed = align_up data_end RX_AGGREGATION_ALIGNMENT
        in if length buf < data_end then need_more
           else
             let frame_len = desc_packet_len buf - 4
             in if desc_crc_error buf \<or> frame_len < IEEE80211_MIN_HEADER_LEN
                then \<lparr>pp_consumed = consumed, pp_outcome = RxDrop, pp_frame = None\<rparr>
                else \<lparr>pp_consumed = consumed, pp_outcome = RxFrame,
                      pp_frame = Some (rx_frame_of buf channel data_start frame_len)\<rparr>)"

section \<open>Rate codes round trip\<close>

lemma rx_rate_Mcs: "m \<le> 31 \<Longrightarrow> rx_rate_from_hw (0x0c + m) = Some (Mcs m)"
  by (simp add: rx_rate_from_hw_def word_unat_eq_iff word_le_nat_alt mcs_hw_value)

lemma rx_rate_high:
  "44 \<le> unat w \<Longrightarrow> unat w \<le> 83 \<Longrightarrow>
     rx_rate_from_hw w = Some (Vht ((w - 0x2c) mod 10) ((w - 0x2c) div 10 + 1))"
  by (simp add: rx_rate_from_hw_def Let_def word_unat_eq_iff word_le_nat_alt)

lemma rx_rate_Vht:
  assumes "m \<le> 9" "1 \<le> n" "n \<le> 4"
  shows "rx_rate_from_hw (0x2c + (n - 1) * 10 + m) = Some (Vht m n)"
proof -
  let ?w = "0x2c + (n - 1) * 10 + m"
  have w: "unat ?w = 44 + 10 * (unat n - 1) + unat m" by (rule vht_hw_value [OF assms])
  have b: "unat m \<le> 9" "1 \<le> unat n" "unat n \<le> 4" using assms by (simp_all add: word_le_nat_alt)
  have sub: "unat (?w - 0x2c) = 10 * (unat n - 1) + unat m"
    using w b by (subst unat_sub) (simp_all add: word_le_nat_alt)
  have "(?w - 0x2c) mod 10 = m"
    by (subst word_unat_eq_iff) (use sub b in \<open>simp add: unat_mod\<close>)
  moreover have "(?w - 0x2c) div 10 + 1 = n"
    by (subst word_unat_eq_iff) (use sub b in \<open>simp add: unat_add_u8 unat_div\<close>)
  ultimately show ?thesis using rx_rate_high [of ?w] w b by simp
qed

lemma rx_of_tx_rate:
  "ch_band c = Ghz2 \<Longrightarrow> tx_rate_to_hw r c = Inr hw \<Longrightarrow> rx_rate_from_hw hw = Some r"
proof (cases r)
  case (Mcs m)
  then show "ch_band c = Ghz2 \<Longrightarrow> tx_rate_to_hw r c = Inr hw \<Longrightarrow> rx_rate_from_hw hw = Some r"
    using rx_rate_Mcs [of m] by (auto simp: tx_rate_to_hw_def split: if_splits)
next
  case (Vht m n)
  then show "ch_band c = Ghz2 \<Longrightarrow> tx_rate_to_hw r c = Inr hw \<Longrightarrow> rx_rate_from_hw hw = Some r"
    using rx_rate_Vht [of m n] by (auto simp: tx_rate_to_hw_def split: if_splits)
qed (auto simp: tx_rate_to_hw_def rx_rate_from_hw_def split: if_splits)

lemma index_div_10:
  assumes "0x2c \<le> raw" "raw \<le> (0x53 :: u8)"
  defines "i \<equiv> raw - 0x2c"
  shows "i mod 10 \<le> 9" "i div 10 + 1 \<le> 4" "1 \<le> i div 10 + 1" "0x2c + (i div 10 + 1 - 1) * 10 + i mod 10 = raw"
proof -
  have i: "unat i \<le> 39" using assms unfolding i_def by unat_arith
  then have d: "unat (i div 10) \<le> 3" by (simp add: unat_div)
  show "i mod 10 \<le> 9" by (simp add: word_le_nat_alt unat_mod)
  show "i div 10 + 1 \<le> 4" "1 \<le> i div 10 + 1" using d by (simp_all add: word_le_nat_alt unat_add_u8)
  have "(i div 10) * 10 + i mod 10 = i" by (simp add: word_mod_div_equality)
  then show "0x2c + (i div 10 + 1 - 1) * 10 + i mod 10 = raw" by (simp add: i_def add.assoc)
qed

lemma mcs_index_bound: "0x0c \<le> raw \<Longrightarrow> raw \<le> (0x2b :: u8) \<Longrightarrow> raw - 0x0c \<le> 31"
  by unat_arith

lemma tx_of_rx_rate:
  "ch_band c = Ghz2 \<Longrightarrow> rx_rate_from_hw raw = Some r \<Longrightarrow> tx_rate_to_hw r c = Inr raw"
  using index_div_10 [of raw] mcs_index_bound [of raw]
  by (auto simp: rx_rate_from_hw_def tx_rate_to_hw_def Let_def split: if_splits)

text \<open>
  Transmit and receive agree on the hardware rate codes: on a 2.4 GHz channel the receiver
  decodes a code to a rate exactly when the transmitter encodes that rate with that code; on a
  5 GHz channel, where CCK does not exist, every CCK rate is sent as OFDM 6M and all other rates
  keep their code.
\<close>

theorem rate_codes_agree:
  "(ch_band c = Ghz5 \<or> (tx_rate_to_hw r c = Inr hw \<longleftrightarrow> rx_rate_from_hw hw = Some r)) \<and>
   (ch_band c = Ghz2 \<or>
      (tx_rate_to_hw r c = Inr hw \<longleftrightarrow>
         (if r \<in> {Cck1m, Cck2m, Cck5_5m, Cck11m} then hw = 4 else rx_rate_from_hw hw = Some r)))"
proof (cases "ch_band c")
  case Ghz2
  then have "tx_rate_to_hw r c = Inr hw \<longleftrightarrow> rx_rate_from_hw hw = Some r"
    using rx_of_tx_rate tx_of_rx_rate by blast
  then show ?thesis using Ghz2 by simp
next
  case Ghz5
  define c2 where "c2 = c\<lparr>ch_band := Ghz2\<rparr>"
  have "ch_band c2 = Ghz2" by (simp add: c2_def)
  then have c2: "tx_rate_to_hw r c2 = Inr hw \<longleftrightarrow> rx_rate_from_hw hw = Some r"
    using rx_of_tx_rate tx_of_rx_rate by blast
  show ?thesis
  proof (cases "r \<in> {Cck1m, Cck2m, Cck5_5m, Cck11m}")
    case True
    then show ?thesis using Ghz5 by (auto simp: tx_rate_to_hw_def)
  next
    case False
    have "tx_rate_to_hw r c = tx_rate_to_hw r c2"
    proof (cases r)
      case (Mcs m)
      then show ?thesis using mcs_hw_value [of m]
        by (auto simp: tx_rate_to_hw_def c2_def Ghz5 word_le_nat_alt)
    next
      case (Vht m n)
      then show ?thesis using vht_hw_value [of m n]
        by (auto simp: tx_rate_to_hw_def c2_def Ghz5 word_le_nat_alt)
    qed (use False in \<open>auto simp: tx_rate_to_hw_def c2_def Ghz5\<close>)
    with False Ghz5 c2 show ?thesis by simp
  qed
qed

section \<open>What the parser consumes and returns\<close>

lemma int_and_not_mask: "(x :: int) AND NOT (mask n) = push_bit n (drop_bit n x)"
  by (rule bit_eqI) (auto simp: bit_simps)

lemma align_up_128: "align_up v 128 = (v + 127) div 128 * 128"
proof -
  have "(int v + 127) AND NOT (mask 7) = (int v + 127) div 128 * 128"
    by (simp only: int_and_not_mask push_bit_eq_mult drop_bit_eq_div) simp
  moreover have "int v + int 128 - 1 = int v + 127" "int 128 - 1 = mask 7"
    by (simp_all add: mask_eq_exp_minus_1)
  ultimately have "align_up v 128 = nat ((int v + 127) div 128 * 128)"
    by (simp only: align_up_def)
  also have "\<dots> = nat (int ((v + 127) div 128 * 128))"
    by (simp add: zdiv_int)
  finally show ?thesis by simp
qed

lemma align_up_128_bounds: "v \<le> align_up v 128" "align_up v 128 < v + 128" "128 dvd align_up v 128"
  by (simp_all add: align_up_128)

lemma rx_frame_of_fields [simp]:
  "rx_data (rx_frame_of buf c s n) = take n (drop s buf)"
  "rx_driver_info_size (rx_frame_of buf c s n) = desc_drvinfo_size buf"
  "rx_shift (rx_frame_of buf c s n) = desc_shift buf"
  by (simp_all add: rx_frame_of_def Let_def byte_slice_def split: prod.split)

lemma parse_rx_packet_cases:
  obtains (more) "parse_rx_packet buf c = need_more"
      "length buf < 24 \<or>
       0 < desc_packet_len buf \<and> desc_packet_len buf \<le> 4096 \<and>
       length buf < 24 + desc_drvinfo_size buf + desc_shift buf + desc_packet_len buf"
  | (junk) "parse_rx_packet buf c = \<lparr>pp_consumed = 24, pp_outcome = RxDrop, pp_frame = None\<rparr>"
      "24 \<le> length buf"
  | (drop) stop where
      "parse_rx_packet buf c = \<lparr>pp_consumed = align_up stop 128, pp_outcome = RxDrop, pp_frame = None\<rparr>"
      "24 \<le> stop" "stop \<le> length buf"
  | (frame) f where
      "parse_rx_packet buf c =
         \<lparr>pp_consumed = align_up (24 + rx_driver_info_size f + rx_shift f + (length (rx_data f) + 4)) 128,
          pp_outcome = RxFrame, pp_frame = Some f\<rparr>"
      "rx_data f = take (length (rx_data f)) (drop (24 + rx_driver_info_size f + rx_shift f) buf)"
      "10 \<le> length (rx_data f)"
      "24 + rx_driver_info_size f + rx_shift f + (length (rx_data f) + 4) \<le> length buf"
      "f = rx_frame_of buf c (24 + rx_driver_info_size f + rx_shift f) (length (rx_data f))"
proof -
  let ?start = "24 + desc_drvinfo_size buf + desc_shift buf"
  let ?n = "desc_packet_len buf"
  note defs = parse_rx_packet_def Let_def RX_DESC_SIZE_def RX_AGGREGATION_ALIGNMENT_def
    IEEE80211_MIN_HEADER_LEN_def
  consider "length buf < 24" | "24 \<le> length buf" "?n = 0 \<or> 4096 < ?n"
    | "24 \<le> length buf" "0 < ?n" "?n \<le> 4096" "length buf < ?start + ?n"
    | "24 \<le> length buf" "0 < ?n" "?n \<le> 4096" "?start + ?n \<le> length buf" "desc_crc_error buf \<or> ?n - 4 < 10"
    | "24 \<le> length buf" "0 < ?n" "?n \<le> 4096" "?start + ?n \<le> length buf" "\<not> desc_crc_error buf" "10 \<le> ?n - 4"
    by linarith
  then show ?thesis
  proof cases
    case 1
    then show ?thesis by (intro more) (simp_all add: defs)
  next
    case 2
    then show ?thesis by (intro junk) (simp_all add: defs)
  next
    case 3
    then show ?thesis by (intro more) (auto simp: defs)
  next
    case 4
    then show ?thesis by (intro drop [of "?start + ?n"]) (auto simp: defs)
  next
    case 5
    then have n: "?n = (?n - 4) + 4" by simp
    let ?f = "rx_frame_of buf c ?start (?n - 4)"
    have len: "length (rx_data ?f) = ?n - 4" using 5 by simp
    show ?thesis
      by (rule frame [of ?f]) (use 5 len n in \<open>simp_all add: defs\<close>)
  qed
qed

lemma parse_consumed_0_iff:
  "pp_consumed (parse_rx_packet buf c) = 0 \<longleftrightarrow> pp_outcome (parse_rx_packet buf c) = RxNeedMoreData"
proof (cases rule: parse_rx_packet_cases [of buf c])
  case (drop stop)
  then show ?thesis using align_up_128_bounds(1) [of stop] by simp
next
  case (frame f)
  then show ?thesis
    using align_up_128_bounds(1) [of "24 + rx_driver_info_size f + rx_shift f + (length (rx_data f) + 4)"]
    by simp
qed (simp_all add: need_more_def)


section \<open>Waiting for more data\<close>

lemma rx_dword_append: "i + 3 < length buf \<Longrightarrow> rx_dword i (buf @ ext) = rx_dword i buf"
  by (simp add: rx_dword_def nth_append)

lemma desc_fields_append:
  assumes "24 \<le> length buf"
  shows "desc_packet_len (buf @ ext) = desc_packet_len buf"
    "desc_crc_error (buf @ ext) = desc_crc_error buf"
    "desc_drvinfo_size (buf @ ext) = desc_drvinfo_size buf"
    "desc_shift (buf @ ext) = desc_shift buf"
    "desc_phy_status (buf @ ext) = desc_phy_status buf"
    "desc_rate_raw (buf @ ext) = desc_rate_raw buf"
    "desc_bandwidth_raw (buf @ ext) = desc_bandwidth_raw buf"
    "desc_flag i (buf @ ext) = desc_flag i buf"
  using assms by (simp_all add: desc_field_defs rx_dword_append)

lemma byte_slice_append_left: "b \<le> length xs \<Longrightarrow> byte_slice a b (xs @ ys) = byte_slice a b xs"
  by (simp add: byte_slice_def)

lemma rx_frame_of_append:
  "24 \<le> length buf \<Longrightarrow> 24 + desc_drvinfo_size buf \<le> length buf \<Longrightarrow> s + n \<le> length buf \<Longrightarrow>
     rx_frame_of (buf @ ext) c s n = rx_frame_of buf c s n"
  by (simp add: rx_frame_of_def desc_raw_phy_status_def desc_fields_append byte_slice_append_left RX_DESC_SIZE_def)

lemma parse_append:
  assumes "pp_outcome (parse_rx_packet buf c) \<noteq> RxNeedMoreData"
  shows "parse_rx_packet (buf @ ext) c = parse_rx_packet buf c"
proof -
  have len: "24 \<le> length buf"
    using assms by (auto simp: parse_rx_packet_def need_more_def RX_DESC_SIZE_def split: if_splits)
  show ?thesis
  proof (cases "desc_packet_len buf = 0 \<or> 4096 < desc_packet_len buf")
    case True
    then show ?thesis using len
      by (simp add: parse_rx_packet_def RX_DESC_SIZE_def desc_fields_append)
  next
    case False
    then have "24 + desc_drvinfo_size buf + desc_shift buf + desc_packet_len buf \<le> length buf"
      using assms len by (auto simp: parse_rx_packet_def need_more_def RX_DESC_SIZE_def Let_def split: if_splits)
    with len False show ?thesis
      by (simp add: parse_rx_packet_def RX_DESC_SIZE_def desc_fields_append Let_def rx_frame_of_append)
  qed
qed

text \<open>
  C38. The parser's verdict is stable under the arrival of more data: once it returns or drops a
  packet, appending any bytes to the buffer changes neither the verdict, nor the frame, nor the
  number of bytes consumed.
\<close>

theorem parse_rx_packet_stable:
  assumes "pp_outcome (parse_rx_packet buf c) \<noteq> RxNeedMoreData"
  shows "parse_rx_packet (buf @ ext) c = parse_rx_packet buf c"
  using assms by (rule parse_append)

section \<open>Signal values\<close>

lemma clamp_bounds: "lo \<le> hi \<Longrightarrow> lo \<le> clamp lo hi x \<and> clamp lo hi x \<le> hi"
  by (simp add: clamp_def)

lemma sint_i8: "- 128 \<le> x \<Longrightarrow> x < 128 \<Longrightarrow> sint (word_of_int x :: i8) = x"
  by (simp add: signed_word_eqI sint_sbintrunc' signed_take_bit_int_eq_self)

lemma sint_clamp: "sint (word_of_int (clamp (- 127) 0 x) :: i8) = clamp (- 127) 0 x"
  using clamp_bounds [of "- 127" 0 x] by (intro sint_i8) auto

lemma sint_half: "- 64 \<le> sint (signed_drop_bit 1 (w :: i8)) \<and> sint (signed_drop_bit 1 w) \<le> 63"
  using sint_ge [of w] sint_less [of w] by (simp add: sint_signed_drop_bit_eq drop_bit_eq_div) linarith

lemma phy_path_bounds:
  "- 127 \<le> sint (pm_rssi_dbm (rtl8812_phy_status_path g s)) \<and> sint (pm_rssi_dbm (rtl8812_phy_status_path g s)) \<le> 0 \<and>
   - 127 \<le> sint (pm_noise_dbm (rtl8812_phy_status_path g s)) \<and> sint (pm_noise_dbm (rtl8812_phy_status_path g s)) \<le> 0 \<and>
   - 64 \<le> sint (pm_snr_db (rtl8812_phy_status_path g s)) \<and> sint (pm_snr_db (rtl8812_phy_status_path g s)) \<le> 63"
  using clamp_bounds [of "- 127" 0] sint_half by (simp add: rtl8812_phy_status_path_def Let_def sint_clamp)

definition in_range :: "int \<Rightarrow> int \<Rightarrow> i8 \<Rightarrow> bool" where
  "in_range lo hi w \<longleftrightarrow> lo \<le> sint w \<and> sint w \<le> hi"

text \<open>
  The signal values of a received frame are physical and consistently labelled: RSSI and
  noise lie between -127 and 0 dBm and SNR between -64 and 63 dB; the RSSI is marked valid
  unless it is the fallback; noise and SNR are present exactly when both come from the best
  antenna path, which never happens for CCK rates or a PHY status shorter than 17 bytes.
\<close>

theorem parse_rx_packet_signal:
  assumes "pp_frame (parse_rx_packet buf c) = Some f"
  shows "in_range (- 127) 0 (rx_rssi_dbm f) \<and>
    (rx_rssi_dbm_valid f \<longleftrightarrow> rx_rssi_dbm_source f \<noteq> RssiFallbackNoPhyStatus) \<and>
    (if rx_rssi_dbm_source f = RssiPhyStatusBestPath
     then \<not> rx_rate_raw f \<le> 3 \<and> 17 \<le> length (rx_raw_phy_status f) \<and>
       rx_snr_db_source f = Some SnrPhyStatusBestPath \<and>
       (\<exists>snr noise. rx_snr_db f = Some snr \<and> rx_noise_dbm f = Some noise \<and>
          in_range (- 64) 63 snr \<and> in_range (- 127) 0 noise)
     else rx_snr_db_source f = None \<and> rx_snr_db f = None \<and> rx_noise_dbm f = None)"
proof (cases rule: parse_rx_packet_cases [of buf c])
  case (frame g)
  let ?m = "rtl8812_phy_status_metrics (desc_raw_phy_status buf) (desc_rate_raw buf)"
  from frame assms have f: "f = rx_frame_of buf c (24 + rx_driver_info_size g + rx_shift g) (length (rx_data g))"
    by simp
  show ?thesis
  proof (cases ?m)
    case None
    then show ?thesis
      using clamp_bounds [of "- 127" 0]
      by (auto simp: f rx_frame_of_def rx_signal_of_def Let_def in_range_def sint_clamp split: list.split)
  next
    case (Some m)
    then obtain g s where "m = rtl8812_phy_status_path g s"
      and "17 \<le> length (desc_raw_phy_status buf)" "\<not> desc_rate_raw buf \<le> 3"
      by (auto simp: rtl8812_phy_status_metrics_def Let_def RTL8812_PHY_STATUS_1ST_TYPE_MIN_LEN_def split: if_splits)
    then show ?thesis
      using Some phy_path_bounds [of g s]
      by (simp add: f rx_frame_of_def rx_signal_of_def in_range_def)
  qed
qed (use assms in \<open>simp_all add: need_more_def\<close>)

section \<open>A concrete buffer\<close>

definition sample_rx_channel :: channel where
  "sample_rx_channel = \<lparr>ch_number = 6, ch_frequency_mhz = 2437, ch_band = Ghz2\<rparr>"

text \<open>A descriptor announcing 14 bytes (10 of frame and the FCS), padded to 128 bytes.\<close>

definition sample_rx_buffer :: bytes where
  "sample_rx_buffer = [14, 0, 0, 0] @ replicate 124 0"

lemma sample_rx_fields:
  "length sample_rx_buffer = 128"
  "rx_dword 0 sample_rx_buffer = 14" "rx_dword 12 sample_rx_buffer = 0" "rx_dword 16 sample_rx_buffer = 0"
  by (simp_all add: sample_rx_buffer_def rx_dword_def of_le32_def nth_append)

lemma sample_rx_outcome:
  "pp_outcome (parse_rx_packet sample_rx_buffer sample_rx_channel) = RxFrame"
  by (simp add: parse_rx_packet_def desc_field_defs sample_rx_fields RX_DESC_SIZE_def Let_def
      IEEE80211_MIN_HEADER_LEN_def)

lemma sample_rx_frame: "\<exists>f. pp_frame (parse_rx_packet sample_rx_buffer sample_rx_channel) = Some f"
  by (simp add: parse_rx_packet_def desc_field_defs sample_rx_fields RX_DESC_SIZE_def Let_def
      IEEE80211_MIN_HEADER_LEN_def)

lemma parse_rx_packet_stable_witness:
  "pp_outcome (parse_rx_packet (sample_rx_buffer @ [1, 2, 3]) sample_rx_channel) = RxFrame"
  using parse_rx_packet_stable [of sample_rx_buffer sample_rx_channel "[1, 2, 3]"]
  by (simp add: sample_rx_outcome)

lemma parse_rx_packet_signal_witness:
  "\<exists>f. pp_frame (parse_rx_packet sample_rx_buffer sample_rx_channel) = Some f \<and>
     in_range (- 127) 0 (rx_rssi_dbm f)"
  using sample_rx_frame parse_rx_packet_signal by blast

end
