(* ===== verification/Radio_Session.thy ===== *)
theory Radio_Session
  imports Tx_Submit Rx_Parser
begin

text \<open>
  The radio session of the production runtime (\<open>crates/wfb-radio-runtime/src/lib.rs\<close>): session
  counters, submission of 802.11 frames and of raw packets, and the loop that splits a bulk IN
  transfer into received packets.
\<close>

section \<open>Rendering of errors\<close>

fun show_usb_error :: "('r \<Rightarrow> string) \<Rightarrow> 'r usb_error \<Rightarrow> string" where
  "show_usb_error show_rusb (Rusb e) = ''USB operation failed: '' @ show_rusb e"
| "show_usb_error show_rusb (Backend m) = ''USB backend operation failed: '' @ m"
| "show_usb_error show_rusb (BackendTimeout m) = ''USB backend operation timed out: '' @ m"
| "show_usb_error show_rusb NoSupportedAdapter = ''no supported adapter matched selector''"
| "show_usb_error show_rusb DeviceDisappeared = ''selected device disappeared before claim''"
| "show_usb_error show_rusb (MissingBulkEndpoints i) =
     ''interface '' @ show_nat (unat i) @ '' has no usable bulk IN/OUT endpoint pair''"

fun show_frame_error :: "ieee80211_frame_error \<Rightarrow> string" where
  "show_frame_error (FrameTooShort m a) =
     ''IEEE 802.11 frame too short: expected at least '' @ show_nat m @ '' bytes, got '' @ show_nat a"

fun show_tx_error :: "tx_error \<Rightarrow> string" where
  "show_tx_error (TxFrame e) = show_frame_error e"
| "show_tx_error (TxUnsupportedBandwidth c b) =
     ''channel '' @ show_nat (unat c) @ '' does not support '' @ show_nat (unat b) @ '' MHz TX bandwidth''"
| "show_tx_error (TxUnsupportedRate r) = ''unsupported TX rate '' @ r"

fun show_tx_submit_error :: "('r \<Rightarrow> string) \<Rightarrow> 'r tx_submit_error \<Rightarrow> string" where
  "show_tx_submit_error show_rusb (SubmitBuild e) = show_tx_error e"
| "show_tx_submit_error show_rusb (SubmitUsb e) = show_usb_error show_rusb e"
| "show_tx_submit_error show_rusb (SubmitShortWrite ep n a) =
     ''short bulk OUT write to endpoint 0x'' @ show_hex 2 (unat ep) @ '': expected '' @ show_nat n @
     '' bytes, wrote '' @ show_nat a"

record radio_error =
  re_code :: string
  re_message :: string
  re_timeout :: bool

definition radio_error_new :: "string \<Rightarrow> string \<Rightarrow> radio_error" where
  "radio_error_new code message = \<lparr>re_code = code, re_message = message, re_timeout = False\<rparr>"

definition radio_error_new_timeout :: "string \<Rightarrow> string \<Rightarrow> radio_error" where
  "radio_error_new_timeout code message = \<lparr>re_code = code, re_message = message, re_timeout = True\<rparr>"

section \<open>Session counters\<close>

record radio_counters =
  rc_usb_control_reads :: u64
  rc_usb_control_writes :: u64
  rc_usb_bulk_in_reads :: u64
  rc_usb_bulk_out_writes :: u64
  rc_rx_frames :: u64
  rc_tx_frames :: u64
  rc_dropped_frames :: u64

definition radio_counters_default :: radio_counters where
  "radio_counters_default =
     \<lparr>rc_usb_control_reads = 0, rc_usb_control_writes = 0, rc_usb_bulk_in_reads = 0,
      rc_usb_bulk_out_writes = 0, rc_rx_frames = 0, rc_tx_frames = 0, rc_dropped_frames = 0\<rparr>"

definition counters_saturating_sub :: "radio_counters \<Rightarrow> radio_counters \<Rightarrow> radio_counters" where
  "counters_saturating_sub self before =
     \<lparr>rc_usb_control_reads = sat_sub (rc_usb_control_reads self) (rc_usb_control_reads before),
      rc_usb_control_writes = sat_sub (rc_usb_control_writes self) (rc_usb_control_writes before),
      rc_usb_bulk_in_reads = sat_sub (rc_usb_bulk_in_reads self) (rc_usb_bulk_in_reads before),
      rc_usb_bulk_out_writes = sat_sub (rc_usb_bulk_out_writes self) (rc_usb_bulk_out_writes before),
      rc_rx_frames = sat_sub (rc_rx_frames self) (rc_rx_frames before),
      rc_tx_frames = sat_sub (rc_tx_frames self) (rc_tx_frames before),
      rc_dropped_frames = sat_sub (rc_dropped_frames self) (rc_dropped_frames before)\<rparr>"

record 't radio_session =
  rs_transport :: 't
  rs_adapter :: usb_device_info
  rs_endpoints :: usb_endpoints
  rs_counters :: radio_counters

definition session_new :: "'t \<Rightarrow> usb_device_info \<Rightarrow> usb_endpoints \<Rightarrow> radio_counters \<Rightarrow> 't radio_session" where
  "session_new transport adapter endpoints counters =
     \<lparr>rs_transport = transport, rs_adapter = adapter, rs_endpoints = endpoints, rs_counters = counters\<rparr>"

definition selected_bulk_in_endpoint :: "'t radio_session \<Rightarrow> u8 option" where
  "selected_bulk_in_endpoint s = ue_bulk_in (rs_endpoints s)"

definition selected_bulk_out_endpoint :: "'t radio_session \<Rightarrow> u8 option" where
  "selected_bulk_out_endpoint s = ue_bulk_out (rs_endpoints s)"

definition counters_saturating_add :: "radio_counters \<Rightarrow> radio_counters \<Rightarrow> radio_counters" where
  "counters_saturating_add self delta =
     \<lparr>rc_usb_control_reads = sat_add (rc_usb_control_reads self) (rc_usb_control_reads delta),
      rc_usb_control_writes = sat_add (rc_usb_control_writes self) (rc_usb_control_writes delta),
      rc_usb_bulk_in_reads = sat_add (rc_usb_bulk_in_reads self) (rc_usb_bulk_in_reads delta),
      rc_usb_bulk_out_writes = sat_add (rc_usb_bulk_out_writes self) (rc_usb_bulk_out_writes delta),
      rc_rx_frames = sat_add (rc_rx_frames self) (rc_rx_frames delta),
      rc_tx_frames = sat_add (rc_tx_frames self) (rc_tx_frames delta),
      rc_dropped_frames = sat_add (rc_dropped_frames self) (rc_dropped_frames delta)\<rparr>"

definition add_counters :: "'t radio_session \<Rightarrow> radio_counters \<Rightarrow> 't radio_session" where
  "add_counters s delta = s\<lparr>rs_counters := counters_saturating_add (rs_counters s) delta\<rparr>"

section \<open>Transmission\<close>

definition apply_tx_submit_counter_delta ::
    "tx_submit_counters \<Rightarrow> tx_submit_counters \<Rightarrow> 't radio_session \<Rightarrow> 't radio_session" where
  "apply_tx_submit_counter_delta before after s =
     (let submitted = sat_sub (sc_submitted after) (sc_submitted before);
          failed = sat_sub (sc_failed after) (sc_failed before);
          rejected = sat_sub (sc_rejected after) (sc_rejected before);
          c = rs_counters s
      in s\<lparr>rs_counters := c
            \<lparr>rc_usb_bulk_out_writes := sat_add (rc_usb_bulk_out_writes c) (sat_add submitted failed),
             rc_tx_frames := sat_add (rc_tx_frames c) submitted,
             rc_dropped_frames := sat_add (rc_dropped_frames c) (sat_add rejected failed)\<rparr>\<rparr>)"

definition missing_bulk_out :: radio_error where
  "missing_bulk_out = radio_error_new ''missing_bulk_out_endpoint''
     ''runtime radio session has no selected bulk OUT endpoint''"

definition submit_80211_frame ::
    "('r \<Rightarrow> string) \<Rightarrow> ('r, 't) bulk_write \<Rightarrow> 't radio_session \<Rightarrow> bytes \<Rightarrow> channel \<Rightarrow> tx_options \<Rightarrow>
     tx_submit_counters \<Rightarrow> (radio_error, nat) result \<times> 't radio_session \<times> tx_submit_counters" where
  "submit_80211_frame show_rusb write s frame channel options tx_counters =
     (case selected_bulk_out_endpoint s of
        None \<Rightarrow> (Inl missing_bulk_out, s, tx_counters)
      | Some bulk_out \<Rightarrow>
          (let before = tx_counters;
               (result, dev, tx_counters) =
                 submit_tx_frame write (rs_transport s) bulk_out frame channel options tx_counters;
               s = s\<lparr>rs_transport := dev\<rparr>;
               s = apply_tx_submit_counter_delta before tx_counters s
           in (map_err (\<lambda>e. radio_error_new ''tx_submit_failed'' (show_tx_submit_error show_rusb e)) result,
               s, tx_counters)))"

definition submit_raw_tx_packet ::
    "('r \<Rightarrow> string) \<Rightarrow> ('r, 't) bulk_write \<Rightarrow> 't radio_session \<Rightarrow> bytes \<Rightarrow> tx_submit_counters \<Rightarrow> nat \<Rightarrow>
     (radio_error, nat) result \<times> 't radio_session \<times> tx_submit_counters" where
  "submit_raw_tx_packet show_rusb write s packet tx_counters timeout =
     (case selected_bulk_out_endpoint s of
        None \<Rightarrow> (Inl missing_bulk_out, s, tx_counters)
      | Some bulk_out \<Rightarrow>
          (let t = tx_counters\<lparr>sc_attempted := sat_add (sc_attempted tx_counters) 1\<rparr>;
               c = rs_counters s
           in case write bulk_out packet timeout (rs_transport s) of
                (Inr written, dev) \<Rightarrow>
                  if written = length packet
                  then (Inr written,
                        s\<lparr>rs_transport := dev,
                          rs_counters := c
                            \<lparr>rc_usb_bulk_out_writes := sat_add (rc_usb_bulk_out_writes c) 1,
                             rc_tx_frames := sat_add (rc_tx_frames c) 1\<rparr>\<rparr>,
                        t\<lparr>sc_submitted := sat_add (sc_submitted t) 1,
                          sc_bytes_written := sat_add (sc_bytes_written t) (of_nat written)\<rparr>)
                  else (Inl (radio_error_new ''raw_tx_packet_short_write''
                               (''short bulk OUT write to endpoint 0x'' @ show_hex 2 (unat bulk_out) @
                                '': expected '' @ show_nat (length packet) @ '' bytes, wrote '' @
                                show_nat written)),
                        s\<lparr>rs_transport := dev,
                          rs_counters := c
                            \<lparr>rc_usb_bulk_out_writes := sat_add (rc_usb_bulk_out_writes c) 1,
                             rc_dropped_frames := sat_add (rc_dropped_frames c) 1\<rparr>\<rparr>,
                        t\<lparr>sc_failed := sat_add (sc_failed t) 1,
                          sc_short_writes := sat_add (sc_short_writes t) 1,
                          sc_bytes_written := sat_add (sc_bytes_written t) (of_nat written)\<rparr>)
              | (Inl error, dev) \<Rightarrow>
                  (Inl (radio_error_new ''raw_tx_packet_submit_failed'' (show_usb_error show_rusb error)),
                   s\<lparr>rs_transport := dev,
                     rs_counters := c
                       \<lparr>rc_usb_bulk_out_writes := sat_add (rc_usb_bulk_out_writes c) 1,
                        rc_dropped_frames := sat_add (rc_dropped_frames c) 1\<rparr>\<rparr>,
                   t\<lparr>sc_failed := sat_add (sc_failed t) 1\<rparr>)))"

section \<open>Reception\<close>

record rx_read =
  rr_endpoint :: u8
  rr_bytes_read :: nat
  rr_packets :: "parsed_rx_packet list"
  rr_counters :: radio_counters

definition runtime_bulk_in_error ::
    "('r \<Rightarrow> string) \<Rightarrow> ('r \<Rightarrow> bool) \<Rightarrow> u8 \<Rightarrow> 'r usb_error \<Rightarrow> radio_error" where
  "runtime_bulk_in_error show_rusb timeout_code endpoint error =
     (let message = ''bulk IN read from endpoint 0x'' @ show_hex 2 (unat endpoint) @ '' failed: '' @
            show_usb_error show_rusb error
      in if usb_is_timeout timeout_code error then radio_error_new_timeout ''bulk_in_read_timeout'' message
         else radio_error_new ''bulk_in_read_failed'' message)"

definition count_rx_packet :: "rx_parse_outcome \<Rightarrow> radio_counters \<Rightarrow> radio_counters" where
  "count_rx_packet outcome c =
     (case outcome of
        RxFrame \<Rightarrow> c\<lparr>rc_rx_frames := sat_add (rc_rx_frames c) 1\<rparr>
      | RxDrop \<Rightarrow> c\<lparr>rc_dropped_frames := sat_add (rc_dropped_frames c) 1\<rparr>
      | RxNeedMoreData \<Rightarrow> c)"

text \<open>
  The \<open>while offset < bytes_read\<close> loop.  It returns the packets in the order they were pushed, with
  the counters; the offset grows by at least one byte in every turn that does not break.
\<close>

function rx_packet_loop ::
    "channel \<Rightarrow> bytes \<Rightarrow> nat \<Rightarrow> nat \<Rightarrow> parsed_rx_packet list \<Rightarrow> radio_counters \<Rightarrow>
     parsed_rx_packet list \<times> radio_counters" where
  "rx_packet_loop channel buffer bytes_read offset packets c =
     (if offset < bytes_read then
        let parsed = parse_rx_packet (byte_slice offset bytes_read buffer) channel in
        if pp_outcome parsed = RxNeedMoreData then (packets @ [parsed], c)
        else
          let c = count_rx_packet (pp_outcome parsed) c;
              packets = packets @ [parsed]
          in if pp_consumed parsed = 0 then (packets, c)
             else rx_packet_loop channel buffer bytes_read (offset + pp_consumed parsed) packets c
      else (packets, c))"
  by pat_completeness auto
termination
  by (relation "measure (\<lambda>(_, _, bytes_read, offset, _, _). bytes_read - offset)") auto

declare rx_packet_loop.simps [simp del]

text \<open>
  \<open>read endpoint buffer timeout\<close> is the bulk IN transfer: it returns the number of bytes read, or
  an error, and the buffer as the transfer left it.
\<close>

type_synonym ('r, 't) bulk_read =
  "u8 \<Rightarrow> bytes \<Rightarrow> nat \<Rightarrow> 't \<Rightarrow> ('r usb_error, nat) result \<times> bytes \<times> 't"

definition read_rx_packets ::
    "('r \<Rightarrow> string) \<Rightarrow> ('r \<Rightarrow> bool) \<Rightarrow> ('r, 't) bulk_read \<Rightarrow> 't radio_session \<Rightarrow> channel \<Rightarrow> bytes \<Rightarrow> nat \<Rightarrow>
     (radio_error, rx_read) result \<times> 't radio_session \<times> bytes" where
  "read_rx_packets show_rusb timeout_code read s channel buffer timeout =
     (case selected_bulk_in_endpoint s of
        None \<Rightarrow> (Inl (radio_error_new ''missing_bulk_in_endpoint''
                  ''runtime radio session has no selected bulk IN endpoint''), s, buffer)
      | Some bulk_in \<Rightarrow>
          (let before = rs_counters s in
           case read bulk_in buffer timeout (rs_transport s) of
             (Inl error, buffer, dev) \<Rightarrow>
               (Inl (runtime_bulk_in_error show_rusb timeout_code bulk_in error),
                s\<lparr>rs_transport := dev\<rparr>, buffer)
           | (Inr bytes_read, buffer, dev) \<Rightarrow>
               (let c = before\<lparr>rc_usb_bulk_in_reads := sat_add (rc_usb_bulk_in_reads before) 1\<rparr>;
                    (packets, c) = rx_packet_loop channel buffer bytes_read 0 [] c
                in (Inr \<lparr>rr_endpoint = bulk_in, rr_bytes_read = bytes_read, rr_packets = packets,
                        rr_counters = counters_saturating_sub c before\<rparr>,
                    s\<lparr>rs_transport := dev, rs_counters := c\<rparr>, buffer))))"

section \<open>The packet loop as a parser of a byte stream\<close>

text \<open>The reference: parse packet after packet from the front of the bytes.\<close>

function parse_stream :: "channel \<Rightarrow> bytes \<Rightarrow> parsed_rx_packet list" where
  "parse_stream ch bs =
     (if bs = [] then []
      else let p = parse_rx_packet bs ch in
        if pp_outcome p = RxNeedMoreData then [p] else p # parse_stream ch (drop (pp_consumed p) bs))"
  by pat_completeness auto
termination
  by (relation "measure (\<lambda>(_, bs). length bs)") (auto simp: parse_consumed_0_iff [symmetric] intro!: diff_less)

declare parse_stream.simps [simp del]

definition count_rx_packets :: "parsed_rx_packet list \<Rightarrow> radio_counters \<Rightarrow> radio_counters" where
  "count_rx_packets ps c = fold (\<lambda>p. count_rx_packet (pp_outcome p)) ps c"

lemma drop_byte_slice: "drop k (byte_slice a b xs) = byte_slice (a + k) b xs"
  by (simp add: byte_slice_def drop_take add.commute)

lemma byte_slice_Nil_iff: "b \<le> length xs \<Longrightarrow> byte_slice a b xs = [] \<longleftrightarrow> b \<le> a"
  by (auto simp: byte_slice_def)

lemma rx_packet_loop_stream:
  "n \<le> length buf \<Longrightarrow> rx_packet_loop ch buf n off ps c =
     (ps @ parse_stream ch (byte_slice off n buf), count_rx_packets (parse_stream ch (byte_slice off n buf)) c)"
proof (induction ch buf n off ps c rule: rx_packet_loop.induct)
  case (1 ch buf n off ps c)
  let ?bs = "byte_slice off n buf"
  let ?p = "parse_rx_packet ?bs ch"
  have consumed: "pp_consumed ?p \<noteq> 0 \<longleftrightarrow> pp_outcome ?p \<noteq> RxNeedMoreData"
    by (simp add: parse_consumed_0_iff)
  consider "n \<le> off" | "off < n" "pp_outcome ?p = RxNeedMoreData" | "off < n" "pp_outcome ?p \<noteq> RxNeedMoreData"
    by linarith
  then show ?case
  proof cases
    case 1
    then have "?bs = []" by (simp add: byte_slice_Nil_iff \<open>n \<le> length buf\<close>)
    with 1 show ?thesis by (simp add: rx_packet_loop.simps parse_stream.simps count_rx_packets_def)
  next
    case 2
    then have "?bs \<noteq> []" using byte_slice_Nil_iff [OF \<open>n \<le> length buf\<close>, of off] by simp
    with 2 show ?thesis
      by (simp add: rx_packet_loop.simps [of ch buf] parse_stream.simps [of ch ?bs] count_rx_packets_def
          count_rx_packet_def)
  next
    case 3
    then have "?bs \<noteq> []" using byte_slice_Nil_iff [OF \<open>n \<le> length buf\<close>, of off] by simp
    with 3 consumed "1.IH" [OF 3(1) refl 3(2) refl refl _ \<open>n \<le> length buf\<close>] show ?thesis
      by (simp add: rx_packet_loop.simps [of ch buf n off] parse_stream.simps [of ch ?bs] count_rx_packets_def
          drop_byte_slice Let_def)
  qed
qed

text \<open>A packet image is a stretch of bytes that the parser consumes exactly.\<close>

definition packet_image :: "channel \<Rightarrow> bytes \<Rightarrow> bool" where
  "packet_image ch img \<longleftrightarrow>
     pp_outcome (parse_rx_packet img ch) \<noteq> RxNeedMoreData \<and> pp_consumed (parse_rx_packet img ch) = length img"

lemma packet_image_nonempty: "packet_image ch img \<Longrightarrow> img \<noteq> []"
  by (auto simp: packet_image_def parse_rx_packet_def need_more_def RX_DESC_SIZE_def)

lemma parse_stream_image:
  "packet_image ch img \<Longrightarrow> parse_stream ch (img @ rest) = parse_rx_packet img ch # parse_stream ch rest"
  using packet_image_nonempty [of ch img] parse_append [of img ch rest]
  by (simp add: parse_stream.simps [of ch "img @ rest"] packet_image_def)

lemma parse_stream_images:
  "\<forall>img \<in> set imgs. packet_image ch img \<Longrightarrow>
     parse_stream ch (concat imgs @ tail) = map (\<lambda>img. parse_rx_packet img ch) imgs @ parse_stream ch tail"
  by (induction imgs) (simp_all add: parse_stream_image)

lemma u64_bound: "unat (w :: u64) < 2 ^ 64"
  by (rule order_less_le_trans [OF unsigned_less]) simp

lemma unat_count_rx_packets:
  "unat (rc_rx_frames (count_rx_packets ps c)) =
     min (unat (rc_rx_frames c) + length (filter (\<lambda>p. pp_outcome p = RxFrame) ps)) (2 ^ 64 - 1) \<and>
   unat (rc_dropped_frames (count_rx_packets ps c)) =
     min (unat (rc_dropped_frames c) + length (filter (\<lambda>p. pp_outcome p = RxDrop) ps)) (2 ^ 64 - 1)"
proof (induction ps arbitrary: c)
  case Nil
  then show ?case
    using u64_bound [of "rc_rx_frames c"] u64_bound [of "rc_dropped_frames c"]
    by (simp add: count_rx_packets_def)
next
  case (Cons p ps)
  then show ?case
    by (cases "pp_outcome p")
      (simp_all add: count_rx_packets_def count_rx_packet_def unat_sat_add)
qed

lemma parse_stream_tail:
  "tail = [] \<or> pp_outcome (parse_rx_packet tail ch) = RxNeedMoreData \<Longrightarrow>
     parse_stream ch tail = (if tail = [] then [] else [parse_rx_packet tail ch])"
  by (auto simp: parse_stream.simps [of ch tail] Let_def)

text \<open>
  C3. De-aggregation: when a bulk IN transfer delivers any number of complete packet images
  followed by at most one incomplete packet, the read returns the parse of every image, in
  order and none lost or split, then one request for more data if there was a remainder; and
  the session's frame and drop counters grow (up to saturation) by the numbers of each.
\<close>

theorem read_rx_packets_deaggregates:
  assumes ep: "ue_bulk_in (rs_endpoints s) = Some ep"
    and read: "read ep buffer timeout (rs_transport s) = (Inr n, buffer', dev')"
    and n: "n \<le> length buffer'"
    and bytes: "take n buffer' = concat imgs @ tail"
    and imgs: "\<forall>img \<in> set imgs. packet_image ch img"
    and tail: "tail = [] \<or> pp_outcome (parse_rx_packet tail ch) = RxNeedMoreData"
  shows "\<exists>r s'. read_rx_packets sh tc read s ch buffer timeout = (Inr r, s', buffer') \<and>
    rr_packets r = map (\<lambda>img. parse_rx_packet img ch) imgs @
      (if tail = [] then [] else [parse_rx_packet tail ch]) \<and>
    unat (rc_rx_frames (rs_counters s')) =
      min (unat (rc_rx_frames (rs_counters s)) +
           length (filter (\<lambda>p. pp_outcome p = RxFrame) (rr_packets r))) (2 ^ 64 - 1) \<and>
    unat (rc_dropped_frames (rs_counters s')) =
      min (unat (rc_dropped_frames (rs_counters s)) +
           length (filter (\<lambda>p. pp_outcome p = RxDrop) (rr_packets r))) (2 ^ 64 - 1)"
proof -
  have ps: "parse_stream ch (byte_slice 0 n buffer') =
      map (\<lambda>img. parse_rx_packet img ch) imgs @ (if tail = [] then [] else [parse_rx_packet tail ch])"
    using bytes parse_stream_images [OF imgs, of tail] parse_stream_tail [OF tail] by simp
  show ?thesis
    unfolding ps [symmetric] read_rx_packets_def selected_bulk_in_endpoint_def
    by (simp add: ep read rx_packet_loop_stream [OF n] Let_def unat_count_rx_packets)
qed

lemma sample_packet_image: "packet_image sample_rx_channel sample_rx_buffer"
  by (simp add: packet_image_def sample_rx_outcome)
    (simp add: parse_rx_packet_def desc_field_defs sample_rx_fields RX_DESC_SIZE_def Let_def
      IEEE80211_MIN_HEADER_LEN_def RX_AGGREGATION_ALIGNMENT_def align_up_128)

definition sample_session :: "bytes radio_session" where
  "sample_session = session_new []
     \<lparr>ud_vid = 0x0bda, ud_pid = 0x8812, ud_vid_hex = ''0x0bda'', ud_pid_hex = ''0x8812'', ud_bus = 1,
      ud_address = 2, ud_speed = ''high'', ud_class_code = 0, ud_sub_class_code = 0,
      ud_protocol_code = 0, ud_manufacturer = None, ud_product = None, ud_serial_number = None,
      ud_known_adapter = None, ud_interfaces = []\<rparr>
     \<lparr>ue_interface_number = 0, ue_bulk_in = Some 0x81, ue_bulk_out = Some 2, ue_bulk_in_all = [0x81],
      ue_bulk_out_all = [2]\<rparr>
     radio_counters_default"

lemma read_rx_packets_deaggregates_witness:
  "\<exists>r s'. read_rx_packets (\<lambda>_. []) (\<lambda>_. False)
       (\<lambda>ep b t d. (Inr 259 :: (unit usb_error, nat) result, sample_rx_buffer @ sample_rx_buffer @ [1, 2, 3], d))
       sample_session sample_rx_channel (replicate 259 0) 500 = (Inr r, s', sample_rx_buffer @ sample_rx_buffer @ [1, 2, 3]) \<and>
     length (rr_packets r) = 3 \<and> unat (rc_rx_frames (rs_counters s')) = 2"
proof -
  let ?read = "\<lambda>(ep :: u8) (b :: bytes) (t :: nat) (d :: bytes).
    (Inr 259 :: (unit usb_error, nat) result, sample_rx_buffer @ sample_rx_buffer @ [1, 2, 3], d)"
  have tail: "pp_outcome (parse_rx_packet [1, 2, 3] sample_rx_channel) = RxNeedMoreData"
    by (simp add: parse_rx_packet_def need_more_def RX_DESC_SIZE_def)
  have "\<exists>r s'. read_rx_packets (\<lambda>_. []) (\<lambda>_. False) ?read sample_session sample_rx_channel
       (replicate 259 0) 500 = (Inr r, s', sample_rx_buffer @ sample_rx_buffer @ [1, 2, 3]) \<and>
    rr_packets r = map (\<lambda>img. parse_rx_packet img sample_rx_channel) [sample_rx_buffer, sample_rx_buffer] @
      (if [1, 2, 3 :: u8] = [] then [] else [parse_rx_packet [1, 2, 3] sample_rx_channel]) \<and>
    unat (rc_rx_frames (rs_counters s')) =
      min (unat (rc_rx_frames (rs_counters sample_session)) +
           length (filter (\<lambda>p. pp_outcome p = RxFrame) (rr_packets r))) (2 ^ 64 - 1) \<and>
    unat (rc_dropped_frames (rs_counters s')) =
      min (unat (rc_dropped_frames (rs_counters sample_session)) +
           length (filter (\<lambda>p. pp_outcome p = RxDrop) (rr_packets r))) (2 ^ 64 - 1)"
    by (rule read_rx_packets_deaggregates [where n = 259 and dev' = "[]" and ep = "0x81"])
      (simp_all add: sample_session_def session_new_def sample_rx_fields sample_packet_image tail)
  then show ?thesis
    by (auto simp: sample_rx_outcome tail sample_session_def session_new_def radio_counters_default_def)
qed

section \<open>Session counters of the transmit path\<close>

lemma sat_sub_step: "w \<noteq> - 1 \<Longrightarrow> sat_sub (w + 1) w = (1 :: 'a::len word)"
proof -
  assume "w \<noteq> - 1"
  then have "1 + w \<noteq> 0" by (simp add: eq_neg_iff_add_eq_0 add.commute)
  then have "w \<le> w + 1" by (simp add: word_le_nat_alt add.commute [of w 1] unatSuc)
  then show ?thesis by (simp add: sat_sub_def)
qed

definition tx_counters_below_max :: "tx_submit_counters \<Rightarrow> bool" where
  "tx_counters_below_max c \<longleftrightarrow> sc_submitted c \<noteq> - 1 \<and> sc_failed c \<noteq> - 1 \<and> sc_rejected c \<noteq> - 1"

text \<open>
  The session counters follow every submission: a frame that the device took whole counts
  as one bulk write and one transmitted frame, a frame refused before the device as one dropped
  frame, and a failed or short write as one bulk write and one dropped frame; without a bulk OUT
  endpoint nothing at all happens.  (The per-queue counters must not be about to overflow.)
\<close>

theorem submit_80211_frame_counters:
  assumes "tx_counters_below_max t"
    and "submit_80211_frame sh write s frame ch opts t = (r, s', t')"
  shows "case ue_bulk_out (rs_endpoints s) of
      None \<Rightarrow> r = Inl missing_bulk_out \<and> s' = s \<and> t' = t
    | Some ep \<Rightarrow>
       (let c = rs_counters s;
            written = (case build_tx_packet frame ch opts of Inl _ \<Rightarrow> None
                       | Inr p \<Rightarrow> Some (fst (write ep p DEFAULT_TIMEOUT (rs_transport s)) = Inr (length p)))
        in (is_ok r \<longleftrightarrow> written = Some True) \<and>
           rs_counters s' =
             (case written of
                None \<Rightarrow> c\<lparr>rc_dropped_frames := sat_add (rc_dropped_frames c) 1\<rparr>
              | Some True \<Rightarrow> c\<lparr>rc_usb_bulk_out_writes := sat_add (rc_usb_bulk_out_writes c) 1,
                              rc_tx_frames := sat_add (rc_tx_frames c) 1\<rparr>
              | Some False \<Rightarrow> c\<lparr>rc_usb_bulk_out_writes := sat_add (rc_usb_bulk_out_writes c) 1,
                               rc_dropped_frames := sat_add (rc_dropped_frames c) 1\<rparr>))"
proof (cases "ue_bulk_out (rs_endpoints s)")
  case None
  then show ?thesis using assms(2) by (simp add: submit_80211_frame_def selected_bulk_out_endpoint_def)
next
  case (Some ep)
  note defs = submit_80211_frame_def selected_bulk_out_endpoint_def submit_tx_frame_def
    apply_tx_submit_counter_delta_def Let_def
  have ne: "sc_submitted t \<noteq> - 1" "sc_failed t \<noteq> - 1" "sc_rejected t \<noteq> - 1"
    using assms(1) by (simp_all add: tx_counters_below_max_def)
  show ?thesis
  proof (cases "build_tx_packet frame ch opts")
    case (Inl e)
    then show ?thesis using Some assms(2) ne
      by (auto simp: defs sat_sub_step)
  next
    case (Inr p)
    obtain w dev where w: "write ep p DEFAULT_TIMEOUT (rs_transport s) = (w, dev)"
      by (cases "write ep p DEFAULT_TIMEOUT (rs_transport s)")
    show ?thesis using Some Inr assms(2) ne
      by (cases w) (auto simp: defs w sat_sub_step split: if_splits)
  qed
qed

lemma submit_80211_frame_counters_witness:
  "\<exists>n s' t'. submit_80211_frame (\<lambda>_. []) (\<lambda>ep p t d. (Inr (length p) :: (unit usb_error, nat) result, p))
      sample_session (replicate 10 0) sample_channel_36 tx_options_default tx_submit_counters_default = (Inr n, s', t') \<and>
     rc_tx_frames (rs_counters s') = 1 \<and> rc_dropped_frames (rs_counters s') = 0"
  (is "\<exists>n s' t'. ?s = _ \<and> _")
proof -
  obtain r s' t' where s: "?s = (r, s', t')" by (cases ?s)
  obtain p where p: "build_tx_packet (replicate 10 0) sample_channel_36 tx_options_default = Inr p"
    using sample_packet_built by blast
  have "tx_counters_below_max tx_submit_counters_default"
    by (simp add: tx_counters_below_max_def tx_submit_counters_default_def)
  from submit_80211_frame_counters [OF this s] p have "is_ok r" "rc_tx_frames (rs_counters s') = 1"
    "rc_dropped_frames (rs_counters s') = 0"
    by (simp_all add: sample_session_def session_new_def radio_counters_default_def)
  with s show ?thesis by (auto simp: is_ok_iff)
qed

end
