(* ===== verification/Registers.thy ===== *)
theory Registers
  imports Usb
begin

text \<open>
  Register access over vendor control transfers (\<open>crates/radio-core/src/rtl8812au.rs\<close>): the
  transport trait, exact reads and complete writes, and the 8, 16, 32 bit and block operations.
\<close>

definition RTL_USB_REQ :: u8 where "RTL_USB_REQ = 0x05"
definition RTL_READ_REQUEST_TYPE :: u8 where "RTL_READ_REQUEST_TYPE = 0xc0"
definition RTL_WRITE_REQUEST_TYPE :: u8 where "RTL_WRITE_REQUEST_TYPE = 0x40"
definition RTL_USB_INDEX :: u16 where "RTL_USB_INDEX = 0"
definition REGISTER_TIMEOUT :: nat where "REGISTER_TIMEOUT = 500"

datatype register_width = WU8 | WU16 | WU32 | WBlock nat

fun expected_len :: "register_width \<Rightarrow> nat" where
  "expected_len WU8 = 1"
| "expected_len WU16 = 2"
| "expected_len WU32 = 4"
| "expected_len (WBlock n) = n"

datatype 'r register_error =
    RegUsb "'r usb_error"
  | RegShortRead u16 register_width nat nat
  | RegShortWrite u16 register_width nat nat

text \<open>
  The control transfers of the USB handle: request type, request, value, index, buffer or data,
  timeout and device state.  A read returns the buffer as the transfer left it.
\<close>

type_synonym ('r, 't) control_read =
  "u8 \<Rightarrow> u8 \<Rightarrow> u16 \<Rightarrow> u16 \<Rightarrow> bytes \<Rightarrow> nat \<Rightarrow> 't \<Rightarrow> ('r usb_error, nat) result \<times> bytes \<times> 't"

type_synonym ('r, 't) control_write =
  "u8 \<Rightarrow> u8 \<Rightarrow> u16 \<Rightarrow> u16 \<Rightarrow> bytes \<Rightarrow> nat \<Rightarrow> 't \<Rightarrow> ('r usb_error, nat) result \<times> 't"

definition read_vendor ::
    "('r, 't) control_read \<Rightarrow> u16 \<Rightarrow> u16 \<Rightarrow> bytes \<Rightarrow> nat \<Rightarrow> 't \<Rightarrow> ('r usb_error, nat) result \<times> bytes \<times> 't" where
  "read_vendor control value index data timeout dev =
     control RTL_READ_REQUEST_TYPE RTL_USB_REQ value index data timeout dev"

definition write_vendor ::
    "('r, 't) control_write \<Rightarrow> u16 \<Rightarrow> u16 \<Rightarrow> bytes \<Rightarrow> nat \<Rightarrow> 't \<Rightarrow> ('r usb_error, nat) result \<times> 't" where
  "write_vendor control value index data timeout dev =
     control RTL_WRITE_REQUEST_TYPE RTL_USB_REQ value index data timeout dev"

record ('r, 't) register_access =
  ra_read :: "('r, 't) control_read"
  ra_write :: "('r, 't) control_write"
  ra_timeout :: nat

definition register_access_new ::
    "('r, 't) control_read \<Rightarrow> ('r, 't) control_write \<Rightarrow> ('r, 't) register_access" where
  "register_access_new rd wr = \<lparr>ra_read = rd, ra_write = wr, ra_timeout = REGISTER_TIMEOUT\<rparr>"

definition with_timeout :: "nat \<Rightarrow> ('r, 't) register_access \<Rightarrow> ('r, 't) register_access" where
  "with_timeout timeout self = self\<lparr>ra_timeout := timeout\<rparr>"

definition read_exact ::
    "('r, 't) register_access \<Rightarrow> u16 \<Rightarrow> register_width \<Rightarrow> bytes \<Rightarrow> 't \<Rightarrow>
     ('r register_error, bytes) result \<times> 't" where
  "read_exact self addr width data dev =
     (case read_vendor (ra_read self) addr RTL_USB_INDEX data (ra_timeout self) dev of
        (Inl e, data, dev) \<Rightarrow> (Inl (RegUsb e), dev)
      | (Inr actual, data, dev) \<Rightarrow>
          if actual \<noteq> expected_len width
          then (Inl (RegShortRead addr width (expected_len width) actual), dev)
          else (Inr data, dev))"

definition write_all ::
    "('r, 't) register_access \<Rightarrow> u16 \<Rightarrow> register_width \<Rightarrow> bytes \<Rightarrow> 't \<Rightarrow>
     ('r register_error, unit) result \<times> 't" where
  "write_all self addr width data dev =
     (case write_vendor (ra_write self) addr RTL_USB_INDEX data (ra_timeout self) dev of
        (Inl e, dev) \<Rightarrow> (Inl (RegUsb e), dev)
      | (Inr actual, dev) \<Rightarrow>
          if actual \<noteq> expected_len width
          then (Inl (RegShortWrite addr width (expected_len width) actual), dev)
          else (Inr (), dev))"

definition map_ok :: "('a \<Rightarrow> 'b) \<Rightarrow> ('e, 'a) result \<times> 't \<Rightarrow> ('e, 'b) result \<times> 't" where
  "map_ok f p = (map_sum id f (fst p), snd p)"

definition read8 :: "('r, 't) register_access \<Rightarrow> u16 \<Rightarrow> 't \<Rightarrow> ('r register_error, u8) result \<times> 't" where
  "read8 self addr dev = map_ok (\<lambda>buf. buf ! 0) (read_exact self addr WU8 [0] dev)"

definition read16 :: "('r, 't) register_access \<Rightarrow> u16 \<Rightarrow> 't \<Rightarrow> ('r register_error, u16) result \<times> 't" where
  "read16 self addr dev = map_ok of_le16 (read_exact self addr WU16 [0, 0] dev)"

definition read32 :: "('r, 't) register_access \<Rightarrow> u16 \<Rightarrow> 't \<Rightarrow> ('r register_error, u32) result \<times> 't" where
  "read32 self addr dev = map_ok of_le32 (read_exact self addr WU32 [0, 0, 0, 0] dev)"

definition write8 :: "('r, 't) register_access \<Rightarrow> u16 \<Rightarrow> u8 \<Rightarrow> 't \<Rightarrow> ('r register_error, unit) result \<times> 't" where
  "write8 self addr v dev = write_all self addr WU8 [v] dev"

definition write16 :: "('r, 't) register_access \<Rightarrow> u16 \<Rightarrow> u16 \<Rightarrow> 't \<Rightarrow> ('r register_error, unit) result \<times> 't" where
  "write16 self addr v dev = write_all self addr WU16 (le16 v) dev"

definition write32 :: "('r, 't) register_access \<Rightarrow> u16 \<Rightarrow> u32 \<Rightarrow> 't \<Rightarrow> ('r register_error, unit) result \<times> 't" where
  "write32 self addr v dev = write_all self addr WU32 (le32 v) dev"

definition write_block :: "('r, 't) register_access \<Rightarrow> u16 \<Rightarrow> bytes \<Rightarrow> 't \<Rightarrow> ('r register_error, unit) result \<times> 't" where
  "write_block self addr data dev = write_all self addr (WBlock (length data)) data dev"

section \<open>A device whose registers are memory\<close>

text \<open>
  \<open>mem\<close> abstracts the device state to its register contents.  The two laws say that a vendor
  write to an address stores the bytes there and touches nothing else, and that a vendor read
  returns the bytes stored, which is how the RTL8812AU documents its register space.
\<close>

definition register_read_law :: "('r, 't) register_access \<Rightarrow> ('t \<Rightarrow> u16 \<Rightarrow> u8) \<Rightarrow> bool" where
  "register_read_law access mem \<longleftrightarrow>
     (\<forall>addr data dev.
        read_vendor (ra_read access) addr RTL_USB_INDEX data (ra_timeout access) dev =
          (Inr (length data), map (\<lambda>i. mem dev (addr + of_nat i)) [0..<length data], dev))"

definition stored :: "u16 \<Rightarrow> bytes \<Rightarrow> (u16 \<Rightarrow> u8) \<Rightarrow> u16 \<Rightarrow> u8" where
  "stored addr data m a = (if unat (a - addr) < length data then data ! unat (a - addr) else m a)"

definition register_write_law :: "('r, 't) register_access \<Rightarrow> ('t \<Rightarrow> u16 \<Rightarrow> u8) \<Rightarrow> bool" where
  "register_write_law access mem \<longleftrightarrow>
     (\<forall>addr data dev. \<exists>dev'.
        write_vendor (ra_write access) addr RTL_USB_INDEX data (ra_timeout access) dev =
          (Inr (length data), dev') \<and> mem dev' = stored addr data (mem dev))"

lemma write_all_stores:
  "register_write_law access mem \<Longrightarrow> expected_len w = length data \<Longrightarrow>
     \<exists>dev'. write_all access addr w data dev = (Inr (), dev') \<and> mem dev' = stored addr data (mem dev)"
proof -
  assume law: "register_write_law access mem" and len: "expected_len w = length data"
  from law obtain dev' where
    "write_vendor (ra_write access) addr RTL_USB_INDEX data (ra_timeout access) dev = (Inr (length data), dev')"
    "mem dev' = stored addr data (mem dev)"
    unfolding register_write_law_def by blast
  with len show ?thesis by (simp add: write_all_def)
qed

lemma read_exact_stored:
  "register_read_law access mem \<Longrightarrow> expected_len w = length data \<Longrightarrow>
     read_exact access addr w data dev = (Inr (map (\<lambda>i. mem dev (addr + of_nat i)) [0..<length data]), dev)"
  by (simp add: read_exact_def register_read_law_def)

lemma stored_bytes:
  "length data < 2 ^ 16 \<Longrightarrow> map (\<lambda>i. stored addr data m (addr + of_nat i)) [0..<length data] = data"
  by (rule nth_equalityI) (simp_all add: stored_def unat_of_nat)

lemma write_then_read_exact:
  assumes "register_read_law access mem" "register_write_law access mem"
    and "expected_len w = length data" "length buf = length data" "length data < 2 ^ 16"
  shows "\<exists>dev'. write_all access addr w data dev = (Inr (), dev') \<and>
    mem dev' = stored addr data (mem dev) \<and> read_exact access addr w buf dev' = (Inr data, dev')"
proof -
  obtain dev' where "write_all access addr w data dev = (Inr (), dev')"
    and m: "mem dev' = stored addr data (mem dev)"
    using write_all_stores [OF assms(2,3)] by blast
  moreover have "read_exact access addr w buf dev' = (Inr data, dev')"
    using read_exact_stored [OF assms(1), of w buf addr dev'] stored_bytes [OF assms(5), of addr "mem dev"]
    by (simp add: assms(3,4) m)
  ultimately show ?thesis by blast
qed

text \<open>
  On a device whose registers behave as memory, a register reads back the value that was
  written, at every width, and no other register changes.
\<close>

theorem register_round_trip:
  assumes "register_read_law access mem" "register_write_law access mem"
  shows "(\<exists>dev'. write8 access addr v8 dev = (Inr (), dev') \<and> read8 access addr dev' = (Inr v8, dev') \<and>
            mem dev' = stored addr [v8] (mem dev)) \<and>
    (\<exists>dev'. write16 access addr v16 dev = (Inr (), dev') \<and> read16 access addr dev' = (Inr v16, dev') \<and>
            mem dev' = stored addr (le16 v16) (mem dev)) \<and>
    (\<exists>dev'. write32 access addr v32 dev = (Inr (), dev') \<and> read32 access addr dev' = (Inr v32, dev') \<and>
            mem dev' = stored addr (le32 v32) (mem dev))"
proof (intro conjI)
  show "\<exists>dev'. write8 access addr v8 dev = (Inr (), dev') \<and> read8 access addr dev' = (Inr v8, dev') \<and>
            mem dev' = stored addr [v8] (mem dev)"
    using write_then_read_exact [OF assms, of WU8 "[v8]" "[0]" addr dev]
    by (auto simp: write8_def read8_def map_ok_def)
  show "\<exists>dev'. write16 access addr v16 dev = (Inr (), dev') \<and> read16 access addr dev' = (Inr v16, dev') \<and>
            mem dev' = stored addr (le16 v16) (mem dev)"
    using write_then_read_exact [OF assms, of WU16 "le16 v16" "[0, 0]" addr dev]
    by (auto simp: write16_def read16_def map_ok_def le16.enc_length le16.dec_enc)
  show "\<exists>dev'. write32 access addr v32 dev = (Inr (), dev') \<and> read32 access addr dev' = (Inr v32, dev') \<and>
            mem dev' = stored addr (le32 v32) (mem dev)"
    using write_then_read_exact [OF assms, of WU32 "le32 v32" "[0, 0, 0, 0]" addr dev]
    by (auto simp: write32_def read32_def map_ok_def le32.enc_length le32.dec_enc)
qed

text \<open>A register space held in memory satisfies both laws.\<close>

definition memory_read :: "('r, u16 \<Rightarrow> u8) control_read" where
  "memory_read rt rq value index data timeout m =
     (Inr (length data), map (\<lambda>i. m (value + of_nat i)) [0..<length data], m)"

definition memory_write :: "('r, u16 \<Rightarrow> u8) control_write" where
  "memory_write rt rq value index data timeout m = (Inr (length data), stored value data m)"

definition memory_access :: "('r, u16 \<Rightarrow> u8) register_access" where
  "memory_access = register_access_new memory_read memory_write"

lemma memory_access_laws:
  "register_read_law memory_access (\<lambda>m. m)" "register_write_law memory_access (\<lambda>m. m)"
  by (simp_all add: register_read_law_def register_write_law_def memory_access_def
      register_access_new_def read_vendor_def write_vendor_def memory_read_def memory_write_def)

lemma register_round_trip_witness:
  "\<exists>m'. write32 (memory_access :: (unit, _) register_access) 0x100 0xdeadbeef (\<lambda>_. 0) = (Inr (), m') \<and>
     read32 (memory_access :: (unit, _) register_access) 0x100 m' = (Inr 0xdeadbeef, m')"
  using register_round_trip [OF memory_access_laws, of "0x100" 0 "\<lambda>_. 0" 0 "0xdeadbeef"] by blast

section \<open>Reading and writing exactly\<close>

text \<open>
  Register access fails loudly: a 32 bit read succeeds exactly when the control transfer
  delivers four bytes, then with their little-endian value; a different count is reported as a
  short read with the address and both lengths, a USB error as itself; a 32 bit write sends the
  little-endian bytes of the value and succeeds exactly when all four were taken.
\<close>

theorem register_32_exact:
  "fst (read32 a addr dev) =
     (case read_vendor (ra_read a) addr 0 [0, 0, 0, 0] (ra_timeout a) dev of
        (Inl e, _) \<Rightarrow> Inl (RegUsb e)
      | (Inr n, buf, _) \<Rightarrow> if n = 4 then Inr (of_le32 buf) else Inl (RegShortRead addr WU32 4 n)) \<and>
   fst (write32 a addr v dev) =
     (case write_vendor (ra_write a) addr 0 (le32 v) (ra_timeout a) dev of
        (Inl e, _) \<Rightarrow> Inl (RegUsb e)
      | (Inr n, _) \<Rightarrow> if n = 4 then Inr () else Inl (RegShortWrite addr WU32 4 n))"
  by (auto simp: read32_def write32_def read_exact_def write_all_def map_ok_def RTL_USB_INDEX_def
      split: sum.split prod.split)

end
