(* ===== verification/Wfb_Frame.thy ===== *)
theory Wfb_Frame
  imports Prelude
begin

text \<open>
  The WFB addressing inside an 802.11 header and the header of the datagrams to the aggregator
  (\<open>crates/wfb-bridge/src\<close>: \<open>frame.rs\<close>, \<open>forward.rs\<close>).
\<close>

section \<open>Channel ids\<close>

definition WFB_IEEE80211_HEADER_LEN :: nat where "WFB_IEEE80211_HEADER_LEN = 24"
definition WFB_MAC_PREFIX :: bytes where "WFB_MAC_PREFIX = [0x57, 0x42]"
definition SRC_MAC_PREFIX_OFFSET :: nat where "SRC_MAC_PREFIX_OFFSET = 10"
definition SRC_CHANNEL_ID_OFFSET :: nat where "SRC_CHANNEL_ID_OFFSET = 12"
definition DST_MAC_PREFIX_OFFSET :: nat where "DST_MAC_PREFIX_OFFSET = 16"
definition DST_CHANNEL_ID_OFFSET :: nat where "DST_CHANNEL_ID_OFFSET = 18"
definition FRAME_SEQ_OFFSET :: nat where "FRAME_SEQ_OFFSET = 22"

lemmas wfb_offsets =
  WFB_IEEE80211_HEADER_LEN_def WFB_MAC_PREFIX_def SRC_MAC_PREFIX_OFFSET_def
  SRC_CHANNEL_ID_OFFSET_def DST_MAC_PREFIX_OFFSET_def DST_CHANNEL_ID_OFFSET_def FRAME_SEQ_OFFSET_def

record wfb_channel_id =
  wc_link_id :: u32
  wc_radio_port :: u8

datatype wfb_frame_error =
    InvalidLinkId u32
  | WfbTooShort nat
  | PrefixMismatch
  | ChannelIdMismatch

definition channel_id_new :: "u32 \<Rightarrow> u8 \<Rightarrow> (wfb_frame_error, wfb_channel_id) result" where
  "channel_id_new link_id radio_port =
     (if link_id > 0x00ffffff then Inl (InvalidLinkId link_id)
      else Inr \<lparr>wc_link_id = link_id, wc_radio_port = radio_port\<rparr>)"

definition channel_id_raw :: "wfb_channel_id \<Rightarrow> u32" where
  "channel_id_raw self = push_bit 8 (wc_link_id self) OR ucast (wc_radio_port self)"

definition raw_be_bytes :: "wfb_channel_id \<Rightarrow> bytes" where
  "raw_be_bytes self = be32 (channel_id_raw self)"

definition valid_channel_id :: "wfb_channel_id \<Rightarrow> bool" where
  "valid_channel_id c \<longleftrightarrow> wc_link_id c \<le> 0x00ffffff"

lemma channel_id_new_valid: "channel_id_new l p = Inr c \<Longrightarrow> valid_channel_id c"
  by (auto simp: channel_id_new_def valid_channel_id_def split: if_splits)

lemma link_id_bits:
  "valid_channel_id c \<Longrightarrow> bit (wc_link_id c) n \<Longrightarrow> n < 24"
proof -
  assume v: "valid_channel_id c" and b: "bit (wc_link_id c) n"
  have "wc_link_id c AND mask 24 = wc_link_id c"
    by (rule less_mask_eq) (use v in \<open>simp add: valid_channel_id_def word_le_nat_alt word_less_nat_alt\<close>)
  with b show "n < 24"
    by (metis bit_and_iff bit_mask_iff)
qed

lemma channel_id_raw_fields:
  assumes "valid_channel_id c"
  shows "drop_bit 8 (channel_id_raw c) = wc_link_id c" "ucast (channel_id_raw c) = wc_radio_port c"
proof -
  show "drop_bit 8 (channel_id_raw c) = wc_link_id c"
    by (rule bit_word_eqI)
      (use link_id_bits [OF assms] in \<open>auto simp: channel_id_raw_def bit_simps dest: bit_u8_bound\<close>)
  show "ucast (channel_id_raw c) = wc_radio_port c"
    by (rule bit_word_eqI) (auto simp: channel_id_raw_def bit_simps)
qed

lemma channel_id_raw_inject:
  "valid_channel_id c \<Longrightarrow> valid_channel_id d \<Longrightarrow> channel_id_raw c = channel_id_raw d \<longleftrightarrow> c = d"
  by (metis channel_id_raw_fields old.unit.exhaust wfb_channel_id.surjective)

lemma raw_be_bytes_inject:
  "valid_channel_id c \<Longrightarrow> valid_channel_id d \<Longrightarrow> raw_be_bytes c = raw_be_bytes d \<longleftrightarrow> c = d"
  by (simp add: raw_be_bytes_def be32.enc_inject channel_id_raw_inject)

lemma length_raw_be_bytes [simp]: "length (raw_be_bytes c) = 4"
  by (simp add: raw_be_bytes_def be32.enc_length)

section \<open>Headers\<close>

definition build_wfb_data_header :: "wfb_channel_id \<Rightarrow> u16 \<Rightarrow> bytes" where
  "build_wfb_data_header channel_id sequence =
     (let header = [0x08, 0x01, 0x00, 0x00, 0xff, 0xff, 0xff, 0xff, 0xff, 0xff, 0x57, 0x42, 0x00, 0x00,
                    0x00, 0x00, 0x57, 0x42, 0x00, 0x00, 0x00, 0x00, 0x00, 0x00];
          channel = raw_be_bytes channel_id;
          header = copy_into SRC_CHANNEL_ID_OFFSET channel header;
          header = copy_into DST_CHANNEL_ID_OFFSET channel header;
          header = copy_into FRAME_SEQ_OFFSET (le16 sequence) header
      in header)"

definition validate_wfb_header :: "bytes \<Rightarrow> wfb_channel_id \<Rightarrow> (wfb_frame_error, unit) result" where
  "validate_wfb_header frame expected =
     (if length frame < WFB_IEEE80211_HEADER_LEN then Inl (WfbTooShort (length frame))
      else if byte_slice SRC_MAC_PREFIX_OFFSET (SRC_MAC_PREFIX_OFFSET + 2) frame \<noteq> WFB_MAC_PREFIX \<or>
              byte_slice DST_MAC_PREFIX_OFFSET (DST_MAC_PREFIX_OFFSET + 2) frame \<noteq> WFB_MAC_PREFIX
      then Inl PrefixMismatch
      else
        let expected_bytes = raw_be_bytes expected in
        if byte_slice SRC_CHANNEL_ID_OFFSET (SRC_CHANNEL_ID_OFFSET + 4) frame \<noteq> expected_bytes \<or>
           byte_slice DST_CHANNEL_ID_OFFSET (DST_CHANNEL_ID_OFFSET + 4) frame \<noteq> expected_bytes
        then Inl ChannelIdMismatch
        else Inr ())"

definition extract_wfb_payload :: "bytes \<Rightarrow> wfb_channel_id \<Rightarrow> (wfb_frame_error, bytes) result" where
  "extract_wfb_payload frame expected =
     bind_res (validate_wfb_header frame expected) (\<lambda>_. Inr (drop WFB_IEEE80211_HEADER_LEN frame))"

lemma build_wfb_data_header_bytes:
  "build_wfb_data_header c s =
     [0x08, 0x01, 0x00, 0x00, 0xff, 0xff, 0xff, 0xff, 0xff, 0xff] @ WFB_MAC_PREFIX @ raw_be_bytes c @
     WFB_MAC_PREFIX @ raw_be_bytes c @ le16 s"
proof -
  obtain a b c' d where "raw_be_bytes c = [a, b, c', d]"
    using length_4_conv [THEN iffD1, OF length_raw_be_bytes] by blast
  then show ?thesis
    by (simp add: build_wfb_data_header_def Let_def copy_into_def wfb_offsets le16_def)
qed

lemma length_wfb_header [simp]: "length (build_wfb_data_header c s) = 24"
  by (simp add: build_wfb_data_header_bytes WFB_MAC_PREFIX_def le16.enc_length)

lemma validate_built_header:
  "validate_wfb_header (build_wfb_data_header c s @ payload) d =
     (if raw_be_bytes c = raw_be_bytes d then Inr () else Inl ChannelIdMismatch)"
proof -
  obtain a b c' e where "raw_be_bytes c = [a, b, c', e]"
    using length_4_conv [THEN iffD1, OF length_raw_be_bytes] by blast
  then show ?thesis
    by (simp add: validate_wfb_header_def build_wfb_data_header_bytes byte_slice_def wfb_offsets le16_def)
qed

lemma extract_built:
  "extract_wfb_payload (build_wfb_data_header c s @ payload) c = Inr payload"
  by (simp add: extract_wfb_payload_def validate_built_header WFB_IEEE80211_HEADER_LEN_def)

text \<open>
  C8. WFB addressing is exact: a receiver extracts the payload of a frame that was built for a
  valid channel id exactly when it listens to that same link and radio port, and it then gets the
  payload unchanged; every other valid channel id is told that the channel does not match.
\<close>

theorem extract_build:
  assumes "valid_channel_id c" "valid_channel_id d"
  shows "extract_wfb_payload (build_wfb_data_header c s @ payload) d =
    (if c = d then Inr payload else Inl ChannelIdMismatch)"
  using raw_be_bytes_inject [OF assms]
  by (simp add: extract_wfb_payload_def validate_built_header WFB_IEEE80211_HEADER_LEN_def)

lemma extract_build_witness:
  "extract_wfb_payload (build_wfb_data_header \<lparr>wc_link_id = 0x102, wc_radio_port = 3\<rparr> 16 @ [1, 2])
     \<lparr>wc_link_id = 0x102, wc_radio_port = 3\<rparr> = Inr [1, 2] \<and>
   extract_wfb_payload (build_wfb_data_header \<lparr>wc_link_id = 0x102, wc_radio_port = 3\<rparr> 16 @ [1, 2])
     \<lparr>wc_link_id = 0x102, wc_radio_port = 4\<rparr> = Inl ChannelIdMismatch"
  using extract_build [of "\<lparr>wc_link_id = 0x102, wc_radio_port = 3\<rparr>" "\<lparr>wc_link_id = 0x102, wc_radio_port = 3\<rparr>" 16 "[1, 2]"]
    extract_build [of "\<lparr>wc_link_id = 0x102, wc_radio_port = 3\<rparr>" "\<lparr>wc_link_id = 0x102, wc_radio_port = 4\<rparr>" 16 "[1, 2]"]
  by (simp add: valid_channel_id_def)

lemma extract_wfb_payload_Inr:
  "extract_wfb_payload frame c = Inr p \<Longrightarrow> 24 \<le> length frame \<and> p = drop 24 frame"
  by (auto simp: extract_wfb_payload_def bind_res_Inr_iff validate_wfb_header_def
      WFB_IEEE80211_HEADER_LEN_def split: if_splits)

section \<open>The forward header\<close>

definition RX_ANT_MAX :: nat where "RX_ANT_MAX = 4"
definition WFB_FORWARD_HEADER_LEN :: nat where "WFB_FORWARD_HEADER_LEN = 17"

record wfb_forward_header =
  fh_wlan_idx :: u8
  fh_antenna :: "u8 list"
  fh_rssi :: "i8 list"
  fh_noise :: "i8 list"
  fh_freq_mhz :: u16
  fh_mcs_index :: u8
  fh_bandwidth_mhz :: u8

text \<open>\<open>i8::MIN\<close> and \<open>i8::MAX\<close> are the bytes \<open>0x80\<close> and \<open>0x7f\<close>.\<close>

definition single_antenna_with_noise ::
    "u8 \<Rightarrow> i8 \<Rightarrow> i8 option \<Rightarrow> u16 \<Rightarrow> u8 \<Rightarrow> u8 \<Rightarrow> wfb_forward_header" where
  "single_antenna_with_noise wlan_idx rssi_dbm noise_dbm freq_mhz mcs_index bandwidth_mhz =
     (let antenna = replicate RX_ANT_MAX 0xff;
          rssi = replicate RX_ANT_MAX 0x80;
          noise = replicate RX_ANT_MAX 0x7f;
          antenna = antenna[0 := 0];
          rssi = rssi[0 := rssi_dbm];
          noise = (case noise_dbm of Some n \<Rightarrow> noise[0 := n] | None \<Rightarrow> noise)
      in \<lparr>fh_wlan_idx = wlan_idx, fh_antenna = antenna, fh_rssi = rssi, fh_noise = noise,
          fh_freq_mhz = freq_mhz, fh_mcs_index = mcs_index, fh_bandwidth_mhz = bandwidth_mhz\<rparr>)"

definition single_antenna :: "u8 \<Rightarrow> i8 \<Rightarrow> u16 \<Rightarrow> u8 \<Rightarrow> u8 \<Rightarrow> wfb_forward_header" where
  "single_antenna wlan_idx rssi_dbm freq_mhz mcs_index bandwidth_mhz =
     single_antenna_with_noise wlan_idx rssi_dbm None freq_mhz mcs_index bandwidth_mhz"

definition forward_to_bytes :: "wfb_forward_header \<Rightarrow> bytes" where
  "forward_to_bytes self =
     (let out = replicate WFB_FORWARD_HEADER_LEN 0;
          out = out[0 := fh_wlan_idx self];
          out = copy_into 1 (fh_antenna self) out;
          out = copy_into 5 (fh_rssi self) out;
          out = copy_into 9 (fh_noise self) out;
          out = copy_into 13 (be16 (fh_freq_mhz self)) out;
          out = out[15 := fh_mcs_index self];
          out = out[16 := fh_bandwidth_mhz self]
      in out)"

definition prepend_to_payload :: "wfb_forward_header \<Rightarrow> bytes \<Rightarrow> bytes" where
  "prepend_to_payload self payload = forward_to_bytes self @ payload"

definition forward_header_ok :: "wfb_forward_header \<Rightarrow> bool" where
  "forward_header_ok h \<longleftrightarrow> length (fh_antenna h) = 4 \<and> length (fh_rssi h) = 4 \<and> length (fh_noise h) = 4"

lemma single_antenna_ok: "forward_header_ok (single_antenna_with_noise w r n f m b)"
  by (simp add: forward_header_ok_def single_antenna_with_noise_def RX_ANT_MAX_def Let_def split: option.split)

lemma replicate_eq_17:
  "replicate 17 x = [x, x, x, x, x, x, x, x, x, x, x, x, x, x, x, x, x]"
  by (simp add: numeral_eq_Suc)

lemma forward_to_bytes_layout:
  "forward_header_ok h \<Longrightarrow> forward_to_bytes h =
     [fh_wlan_idx h] @ fh_antenna h @ fh_rssi h @ fh_noise h @ be16 (fh_freq_mhz h) @
     [fh_mcs_index h, fh_bandwidth_mhz h]"
proof -
  assume ok: "forward_header_ok h"
  obtain a1 a2 a3 a4 where a: "fh_antenna h = [a1, a2, a3, a4]"
    using ok length_4_conv [of "fh_antenna h"] by (auto simp: forward_header_ok_def)
  obtain r1 r2 r3 r4 where r: "fh_rssi h = [r1, r2, r3, r4]"
    using ok length_4_conv [of "fh_rssi h"] by (auto simp: forward_header_ok_def)
  obtain n1 n2 n3 n4 where n: "fh_noise h = [n1, n2, n3, n4]"
    using ok length_4_conv [of "fh_noise h"] by (auto simp: forward_header_ok_def)
  show ?thesis
    by (simp add: a r n forward_to_bytes_def WFB_FORWARD_HEADER_LEN_def copy_into_def be16_def Let_def
        replicate_eq_17)
qed

text \<open>Reading the header back, as the aggregator does.\<close>

definition decode_forward :: "bytes \<Rightarrow> wfb_forward_header \<times> bytes" where
  "decode_forward out =
     (\<lparr>fh_wlan_idx = out ! 0, fh_antenna = byte_slice 1 5 out, fh_rssi = byte_slice 5 9 out,
       fh_noise = byte_slice 9 13 out, fh_freq_mhz = of_be16 (byte_slice 13 15 out),
       fh_mcs_index = out ! 15, fh_bandwidth_mhz = out ! 16\<rparr>, drop 17 out)"

lemma decode_forward_prepend:
  "forward_header_ok h \<Longrightarrow> decode_forward (prepend_to_payload h payload) = (h, payload)"
proof -
  assume ok: "forward_header_ok h"
  then have "length (fh_antenna h) = 4" "length (fh_rssi h) = 4" "length (fh_noise h) = 4"
    by (simp_all add: forward_header_ok_def)
  with ok show ?thesis
    by (simp add: prepend_to_payload_def forward_to_bytes_layout decode_forward_def byte_slice_def
        nth_append be16.enc_length be16.dec_enc)
qed

lemma single_antenna_decodes:
  "decode_forward (prepend_to_payload (single_antenna_with_noise w r n f m b) payload) =
     (\<lparr>fh_wlan_idx = w, fh_antenna = [0, 0xff, 0xff, 0xff], fh_rssi = [r, 0x80, 0x80, 0x80],
       fh_noise = [case n of Some x \<Rightarrow> x | None \<Rightarrow> 0x7f, 0x7f, 0x7f, 0x7f],
       fh_freq_mhz = f, fh_mcs_index = m, fh_bandwidth_mhz = b\<rparr>, payload)"
  by (simp add: decode_forward_prepend single_antenna_ok)
    (simp add: single_antenna_with_noise_def RX_ANT_MAX_def Let_def numeral_eq_Suc split: option.split)

lemma length_forward_to_bytes: "forward_header_ok h \<Longrightarrow> length (forward_to_bytes h) = 17"
  by (simp add: forward_to_bytes_layout) (simp add: forward_header_ok_def be16.enc_length)

text \<open>
  The datagram sent to the aggregator is 17 bytes of header and then the payload, and its
  header reads back to the antenna, signal, frequency (in network byte order), MCS and bandwidth
  values it was made from; unused antenna slots carry the values WFB defines for "absent".
\<close>

theorem forward_header_round_trip:
  "decode_forward (prepend_to_payload (single_antenna_with_noise w r n f m b) payload) =
     (\<lparr>fh_wlan_idx = w, fh_antenna = [0, 0xff, 0xff, 0xff], fh_rssi = [r, 0x80, 0x80, 0x80],
       fh_noise = [case n of Some x \<Rightarrow> x | None \<Rightarrow> 0x7f, 0x7f, 0x7f, 0x7f],
       fh_freq_mhz = f, fh_mcs_index = m, fh_bandwidth_mhz = b\<rparr>, payload) \<and>
   length (prepend_to_payload (single_antenna_with_noise w r n f m b) payload) = 17 + length payload"
  by (intro conjI single_antenna_decodes) (simp add: prepend_to_payload_def length_forward_to_bytes single_antenna_ok)

end
