(* ===== verification/Conservation.thy ===== *)
theory Conservation
  imports Prelude
begin

text \<open>
  The contract that the traffic counters of the bridge and of the radio satisfy: every processed
  item is counted once in a total and once in exactly one outcome class.
\<close>

locale conserving_counters =
  fixes total :: "'c \<Rightarrow> u64"
    and outcomes :: "'c \<Rightarrow> u64"
    and process :: "'i \<Rightarrow> 'c \<Rightarrow> 'c"
  assumes total_step: "total (process i c) = total c + 1"
    and outcomes_step: "outcomes (process i c) = outcomes c + 1"
begin

definition balanced :: "'c \<Rightarrow> bool" where
  "balanced c \<longleftrightarrow> total c = outcomes c"

lemma balanced_step: "balanced c \<Longrightarrow> balanced (process i c)"
  by (simp add: balanced_def total_step outcomes_step)

lemma total_fold: "total (fold process is c) = total c + of_nat (length is)"
  by (induction "is" arbitrary: c) (simp_all add: total_step)

lemma outcomes_fold: "outcomes (fold process is c) = outcomes c + of_nat (length is)"
  by (induction "is" arbitrary: c) (simp_all add: outcomes_step)

lemma balanced_fold: "balanced c \<Longrightarrow> balanced (fold process is c)"
  by (simp add: balanced_def total_fold outcomes_fold)

lemma balanced_fold_explicit:
  "total c = outcomes c \<Longrightarrow> total (fold process is c) = outcomes (fold process is c)"
  using balanced_fold by (simp add: balanced_def)

end

end
