(* ===== verification/Wfb_Bridge.thy ===== *)
theory Wfb_Bridge
  imports Wfb_Frame Rx_Parser Conservation
begin

text \<open>
  The two directions of the bridge between WFB and the radio (\<open>crates/wfb-bridge/src\<close>:
  \<open>radiotap.rs\<close>, \<open>tx.rs\<close>, \<open>rx.rs\<close>, \<open>counters.rs\<close>): the radiotap header of a transmit datagram,
  the submission of its frame, and the forwarding of received frames.
\<close>

section \<open>Radiotap\<close>

definition RADIOTAP_MIN_LEN :: nat where "RADIOTAP_MIN_LEN = 8"
definition WFB_HT_RADIOTAP_LEN :: nat where "WFB_HT_RADIOTAP_LEN = 13"
definition WFB_VHT_RADIOTAP_LEN :: nat where "WFB_VHT_RADIOTAP_LEN = 22"
definition WFB_HT_PRESENT :: u32 where "WFB_HT_PRESENT = 0x00088000"
definition WFB_VHT_PRESENT :: u32 where "WFB_VHT_PRESENT = 0x00208000"
definition TX_FLAGS_NO_ACK :: u16 where "TX_FLAGS_NO_ACK = 0x0008"
definition MCS_HAVE_BW :: u8 where "MCS_HAVE_BW = 0x01"
definition MCS_HAVE_MCS :: u8 where "MCS_HAVE_MCS = 0x02"
definition MCS_HAVE_GI :: u8 where "MCS_HAVE_GI = 0x04"
definition MCS_HAVE_FEC :: u8 where "MCS_HAVE_FEC = 0x10"
definition MCS_HAVE_STBC :: u8 where "MCS_HAVE_STBC = 0x20"
definition MCS_BW_MASK :: u8 where "MCS_BW_MASK = 0x03"
definition MCS_BW_20 :: u8 where "MCS_BW_20 = 0x00"
definition MCS_BW_40 :: u8 where "MCS_BW_40 = 0x01"
definition MCS_SGI :: u8 where "MCS_SGI = 0x04"
definition MCS_FEC_LDPC :: u8 where "MCS_FEC_LDPC = 0x10"
definition MCS_STBC_MASK :: u8 where "MCS_STBC_MASK = 0x60"
definition VHT_FLAG_STBC :: u8 where "VHT_FLAG_STBC = 0x01"
definition VHT_FLAG_SGI :: u8 where "VHT_FLAG_SGI = 0x04"
definition VHT_BW_20 :: u8 where "VHT_BW_20 = 0x00"
definition VHT_BW_40 :: u8 where "VHT_BW_40 = 0x01"
definition VHT_BW_80 :: u8 where "VHT_BW_80 = 0x04"
definition VHT_CODING_LDPC_USER0 :: u8 where "VHT_CODING_LDPC_USER0 = 0x01"

lemmas radiotap_consts =
  RADIOTAP_MIN_LEN_def WFB_HT_RADIOTAP_LEN_def WFB_VHT_RADIOTAP_LEN_def WFB_HT_PRESENT_def
  WFB_VHT_PRESENT_def TX_FLAGS_NO_ACK_def MCS_HAVE_BW_def MCS_HAVE_MCS_def MCS_HAVE_GI_def
  MCS_HAVE_FEC_def MCS_HAVE_STBC_def MCS_BW_MASK_def MCS_BW_20_def MCS_BW_40_def MCS_SGI_def
  MCS_FEC_LDPC_def MCS_STBC_MASK_def VHT_FLAG_STBC_def VHT_FLAG_SGI_def VHT_BW_20_def
  VHT_BW_40_def VHT_BW_80_def VHT_CODING_LDPC_USER0_def

record parsed_radiotap_tx =
  rt_header_len :: nat
  rt_is_vht :: bool
  rt_no_ack :: bool
  rt_options :: tx_options

datatype radiotap_error =
    RtTooShort nat nat
  | RtUnsupportedVersion u8
  | RtLengthExceedsPacket nat nat
  | RtUnsupportedPresentFlags u32
  | RtUnsupportedHtBandwidth u8
  | RtUnsupportedVhtBandwidth u8

text \<open>The offsets 8, 10, 11 and 12 are those of the TX flags and of the MCS field.\<close>

definition parse_ht :: "bytes \<Rightarrow> (radiotap_error, parsed_radiotap_tx) result" where
  "parse_ht packet =
     (let tx_flags = of_le16 [packet ! 8, packet ! 9];
          known = packet ! 10;
          flags = packet ! 11;
          mcs = packet ! 12
      in bind_res
        (if known AND MCS_HAVE_BW \<noteq> 0 then
           (let bits = flags AND MCS_BW_MASK in
            if bits = MCS_BW_20 then Inr Mhz20
            else if bits = MCS_BW_40 then Inr Mhz40
            else Inl (RtUnsupportedHtBandwidth bits))
         else Inr Mhz20)
        (\<lambda>bw. Inr
          \<lparr>rt_header_len = WFB_HT_RADIOTAP_LEN, rt_is_vht = False,
           rt_no_ack = (tx_flags AND TX_FLAGS_NO_ACK \<noteq> 0),
           rt_options =
             \<lparr>tx_rate = (if known AND MCS_HAVE_MCS \<noteq> 0 then Mcs mcs else Ofdm6m),
              tx_bandwidth = bw, tx_channel_bandwidth = None, tx_queue = QAuto, tx_mac_id = 0,
              tx_rate_id = None, tx_retries = 12, tx_hardware_sequence = True,
              tx_first_segment = True, tx_disable_rate_fallback = True,
              tx_rate_fallback_limit = 0x1f, tx_aggregate_break = True,
              tx_short_gi = (known AND MCS_HAVE_GI \<noteq> 0 \<and> flags AND MCS_SGI \<noteq> 0),
              tx_ldpc = (known AND MCS_HAVE_FEC \<noteq> 0 \<and> flags AND MCS_FEC_LDPC \<noteq> 0),
              tx_stbc = (known AND MCS_HAVE_STBC \<noteq> 0 \<and> flags AND MCS_STBC_MASK \<noteq> 0),
              tx_protect = False, tx_no_retry = (tx_flags AND TX_FLAGS_NO_ACK \<noteq> 0)\<rparr>\<rparr>))"

text \<open>The offsets 8, 12, 13, 14 and 18 are those of the TX flags and of the VHT field.\<close>

definition parse_vht :: "bytes \<Rightarrow> (radiotap_error, parsed_radiotap_tx) result" where
  "parse_vht packet =
     (let tx_flags = of_le16 [packet ! 8, packet ! 9];
          flags = packet ! 12
      in bind_res
        (let value = packet ! 13 in
         if value = VHT_BW_20 then Inr Mhz20
         else if value = VHT_BW_40 then Inr Mhz40
         else if value = VHT_BW_80 then Inr Mhz80
         else Inl (RtUnsupportedVhtBandwidth value))
        (\<lambda>bw.
          let mcs_nss = packet ! 14;
              mcs = drop_bit 4 mcs_nss AND 0x0f;
              nss = mcs_nss AND 0x0f;
              coding = packet ! 18
          in Inr
          \<lparr>rt_header_len = WFB_VHT_RADIOTAP_LEN, rt_is_vht = True,
           rt_no_ack = (tx_flags AND TX_FLAGS_NO_ACK \<noteq> 0),
           rt_options =
             \<lparr>tx_rate = Vht mcs nss,
              tx_bandwidth = bw, tx_channel_bandwidth = None, tx_queue = QAuto, tx_mac_id = 0,
              tx_rate_id = None, tx_retries = 12, tx_hardware_sequence = True,
              tx_first_segment = True, tx_disable_rate_fallback = True,
              tx_rate_fallback_limit = 0x1f, tx_aggregate_break = True,
              tx_short_gi = (flags AND VHT_FLAG_SGI \<noteq> 0),
              tx_ldpc = (coding AND VHT_CODING_LDPC_USER0 \<noteq> 0),
              tx_stbc = (flags AND VHT_FLAG_STBC \<noteq> 0),
              tx_protect = False, tx_no_retry = (tx_flags AND TX_FLAGS_NO_ACK \<noteq> 0)\<rparr>\<rparr>))"

definition parse_wfb_radiotap_tx :: "bytes \<Rightarrow> (radiotap_error, parsed_radiotap_tx) result" where
  "parse_wfb_radiotap_tx packet =
     (if length packet < RADIOTAP_MIN_LEN then Inl (RtTooShort RADIOTAP_MIN_LEN (length packet))
      else
        let version = packet ! 0 in
        if version \<noteq> 0 then Inl (RtUnsupportedVersion version)
        else
          let header_len = unat (of_le16 [packet ! 2, packet ! 3]) in
          if length packet < header_len then Inl (RtLengthExceedsPacket header_len (length packet))
          else
            let present = of_le32 [packet ! 4, packet ! 5, packet ! 6, packet ! 7] in
            if header_len = WFB_HT_RADIOTAP_LEN \<and> present = WFB_HT_PRESENT then parse_ht packet
            else if header_len = WFB_VHT_RADIOTAP_LEN \<and> present = WFB_VHT_PRESENT then parse_vht packet
            else Inl (RtUnsupportedPresentFlags present))"

lemma parse_ht_header_len: "parse_ht packet = Inr p \<Longrightarrow> rt_header_len p = 13"
  by (auto simp: parse_ht_def bind_res_Inr_iff WFB_HT_RADIOTAP_LEN_def Let_def split: if_splits)

lemma parse_vht_header_len: "parse_vht packet = Inr p \<Longrightarrow> rt_header_len p = 22"
  by (auto simp: parse_vht_def bind_res_Inr_iff WFB_VHT_RADIOTAP_LEN_def Let_def split: if_splits)

lemma parse_radiotap_header_len:
  "parse_wfb_radiotap_tx packet = Inr p \<Longrightarrow>
     rt_header_len p \<le> length packet \<and> rt_header_len p \<in> {13, 22} \<and>
     rt_header_len p = unat (of_le16 [packet ! 2, packet ! 3])"
  by (auto simp: parse_wfb_radiotap_tx_def Let_def WFB_HT_RADIOTAP_LEN_def WFB_VHT_RADIOTAP_LEN_def
      dest: parse_ht_header_len parse_vht_header_len split: if_splits)

text \<open>The radiotap headers that WFB puts in front of a frame.\<close>

definition ht_radiotap :: "u16 \<Rightarrow> u8 \<Rightarrow> u8 \<Rightarrow> u8 \<Rightarrow> bytes" where
  "ht_radiotap tx_flags known flags mcs =
     [0, 0] @ le16 13 @ le32 0x00088000 @ le16 tx_flags @ [known, flags, mcs]"

definition vht_radiotap :: "u16 \<Rightarrow> u16 \<Rightarrow> u8 \<Rightarrow> u8 \<Rightarrow> u8 \<Rightarrow> u8 \<Rightarrow> bytes" where
  "vht_radiotap tx_flags known flags bw mcs_nss coding =
     [0, 0] @ le16 22 @ le32 0x00208000 @ le16 tx_flags @ le16 known @
     [flags, bw, mcs_nss, 0, 0, 0, coding, 0, 0, 0]"

lemma of_le16_bytes: "of_le16 [ucast w, ucast (drop_bit 8 w)] = w"
  using le16.dec_enc [of w] by (simp add: le16_def)

lemma parse_ht_image:
  "parse_wfb_radiotap_tx (ht_radiotap tf known flags mcs @ frame) =
     parse_ht (ht_radiotap tf known flags mcs @ frame)"
  by (simp add: parse_wfb_radiotap_tx_def ht_radiotap_def le16_def le32_def of_le16_def of_le32_def
      radiotap_consts)

lemma parse_vht_image:
  "parse_wfb_radiotap_tx (vht_radiotap tf known flags bw mn coding @ frame) =
     parse_vht (vht_radiotap tf known flags bw mn coding @ frame)"
  by (simp add: parse_wfb_radiotap_tx_def vht_radiotap_def le16_def le32_def of_le16_def of_le32_def
      radiotap_consts)

section \<open>Transmit datagrams\<close>

definition FWMARK_LEN :: nat where "FWMARK_LEN = 4"

record parsed_tx_datagram =
  td_fwmark :: u32
  td_radiotap_len :: nat
  td_options :: tx_options
  td_frame :: bytes

datatype tx_datagram_error =
    TdTooShort nat nat
  | TdRadiotap radiotap_error
  | TdMissingFrame

definition parse_tx_datagram :: "bytes \<Rightarrow> (tx_datagram_error, parsed_tx_datagram) result" where
  "parse_tx_datagram packet =
     (if length packet < FWMARK_LEN + 8 then Inl (TdTooShort (FWMARK_LEN + 8) (length packet))
      else
        let fwmark = of_be32 [packet ! 0, packet ! 1, packet ! 2, packet ! 3];
            radio_packet = drop FWMARK_LEN packet
        in bind_res (map_err TdRadiotap (parse_wfb_radiotap_tx radio_packet)) (\<lambda>radiotap.
           if length radio_packet = rt_header_len radiotap then Inl TdMissingFrame
           else Inr \<lparr>td_fwmark = fwmark, td_radiotap_len = rt_header_len radiotap,
                     td_options = rt_options radiotap,
                     td_frame = drop (rt_header_len radiotap) radio_packet\<rparr>))"

record bridge_tx_counters =
  bt_incoming :: u64
  bt_injected :: u64
  bt_dropped :: u64
  bt_malformed :: u64
  bt_unsupported_radiotap :: u64

datatype tx_bridge_error =
    TbDatagram tx_datagram_error
  | TbFrame ieee80211_frame_error
  | TbRadio string

datatype tx_bridge_outcome = Injected

definition is_unsupported_radiotap :: "tx_datagram_error \<Rightarrow> bool" where
  "is_unsupported_radiotap error =
     (case error of
        TdRadiotap (RtUnsupportedPresentFlags _) \<Rightarrow> True
      | TdRadiotap (RtUnsupportedHtBandwidth _) \<Rightarrow> True
      | TdRadiotap (RtUnsupportedVhtBandwidth _) \<Rightarrow> True
      | _ \<Rightarrow> False)"

text \<open>\<open>submit_80211\<close> is the method of the trait \<open>RadioTx\<close>, on the state of the radio.\<close>

type_synonym 'd radio_tx = "bytes \<Rightarrow> tx_options \<Rightarrow> 'd \<Rightarrow> (string, unit) result \<times> 'd"

definition submit_tx_datagram ::
    "'d radio_tx \<Rightarrow> bytes \<Rightarrow> 'd \<Rightarrow> bridge_tx_counters \<Rightarrow>
     (tx_bridge_error, tx_bridge_outcome) result \<times> 'd \<times> bridge_tx_counters" where
  "submit_tx_datagram submit_80211 packet radio c =
     (let c = c\<lparr>bt_incoming := bt_incoming c + 1\<rparr> in
      case parse_tx_datagram packet of
        Inl error \<Rightarrow>
          (let c = c\<lparr>bt_dropped := bt_dropped c + 1, bt_malformed := bt_malformed c + 1\<rparr>;
               c = (if is_unsupported_radiotap error
                    then c\<lparr>bt_unsupported_radiotap := bt_unsupported_radiotap c + 1\<rparr> else c)
           in (Inl (TbDatagram error), radio, c))
      | Inr parsed \<Rightarrow>
          (case validate_ieee80211_frame (td_frame parsed) of
             Inl error \<Rightarrow>
               (Inl (TbFrame error), radio,
                c\<lparr>bt_dropped := bt_dropped c + 1, bt_malformed := bt_malformed c + 1\<rparr>)
           | Inr _ \<Rightarrow>
               (case submit_80211 (td_frame parsed) (td_options parsed) radio of
                  (Inl error, radio) \<Rightarrow> (Inl (TbRadio error), radio, c\<lparr>bt_dropped := bt_dropped c + 1\<rparr>)
                | (Inr _, radio) \<Rightarrow> (Inr Injected, radio, c\<lparr>bt_injected := bt_injected c + 1\<rparr>))))"

text \<open>The counters do not depend on anything but the datagram and the answer of the radio.\<close>

definition bridge_tx_step ::
    "('d radio_tx \<times> bytes \<times> 'd) \<Rightarrow> bridge_tx_counters \<Rightarrow> bridge_tx_counters" where
  "bridge_tx_step i c = (case i of (submit, packet, radio) \<Rightarrow> snd (snd (submit_tx_datagram submit packet radio c)))"

interpretation bridge_tx: conserving_counters bt_incoming "\<lambda>c. bt_injected c + bt_dropped c" bridge_tx_step
  by unfold_locales
    (auto simp: bridge_tx_step_def submit_tx_datagram_def Let_def split: prod.split sum.split)

lemma parse_tx_datagram_mark:
  "8 \<le> length rp \<Longrightarrow> parse_tx_datagram (be32 mark @ rp) =
     bind_res (map_err TdRadiotap (parse_wfb_radiotap_tx rp)) (\<lambda>radiotap.
       if length rp = rt_header_len radiotap then Inl TdMissingFrame
       else Inr \<lparr>td_fwmark = mark, td_radiotap_len = rt_header_len radiotap,
                 td_options = rt_options radiotap, td_frame = drop (rt_header_len radiotap) rp\<rparr>)"
  using be32.dec_enc [of mark] by (simp add: parse_tx_datagram_def FWMARK_LEN_def be32_def Let_def)

lemma parse_ht_fields:
  "parse_ht (ht_radiotap tf known flags mcs @ frame) =
     (if known AND 1 \<noteq> 0 \<and> flags AND 3 \<notin> {0, 1} then Inl (RtUnsupportedHtBandwidth (flags AND 3))
      else Inr \<lparr>rt_header_len = 13, rt_is_vht = False, rt_no_ack = (tf AND 8 \<noteq> 0),
        rt_options = tx_options_default
          \<lparr>tx_rate := (if known AND 2 \<noteq> 0 then Mcs mcs else Ofdm6m),
           tx_bandwidth := (if known AND 1 \<noteq> 0 \<and> flags AND 3 = 1 then Mhz40 else Mhz20),
           tx_short_gi := (known AND 4 \<noteq> 0 \<and> flags AND 4 \<noteq> 0),
           tx_ldpc := (known AND 0x10 \<noteq> 0 \<and> flags AND 0x10 \<noteq> 0),
           tx_stbc := (known AND 0x20 \<noteq> 0 \<and> flags AND 0x60 \<noteq> 0),
           tx_no_retry := (tf AND 8 \<noteq> 0)\<rparr>\<rparr>)"
  by (simp add: parse_ht_def ht_radiotap_def le16_def le32_def of_le16_bytes
      radiotap_consts tx_options_default_def Let_def)

lemma parse_vht_fields:
  "parse_vht (vht_radiotap tf vknown flags bw mn coding @ frame) =
     (if bw \<notin> {0, 1, 4} then Inl (RtUnsupportedVhtBandwidth bw)
      else Inr \<lparr>rt_header_len = 22, rt_is_vht = True, rt_no_ack = (tf AND 8 \<noteq> 0),
        rt_options = tx_options_default
          \<lparr>tx_rate := Vht (drop_bit 4 mn AND 0x0f) (mn AND 0x0f),
           tx_bandwidth := (if bw = 0 then Mhz20 else if bw = 1 then Mhz40 else Mhz80),
           tx_short_gi := (flags AND 4 \<noteq> 0), tx_ldpc := (coding AND 1 \<noteq> 0),
           tx_stbc := (flags AND 1 \<noteq> 0), tx_no_retry := (tf AND 8 \<noteq> 0)\<rparr>\<rparr>)"
  by (simp add: parse_vht_def vht_radiotap_def le16_def le32_def of_le16_bytes
      radiotap_consts tx_options_default_def Let_def)

lemma length_radiotap [simp]:
  "length (ht_radiotap tf known flags mcs) = 13" "length (vht_radiotap tf vknown flags bw mn coding) = 22"
  by (simp_all add: ht_radiotap_def vht_radiotap_def le16.enc_length le32.enc_length)

text \<open>
  What a transmit datagram makes the radio send: the frame behind the 4 byte mark and the
  13 byte HT or 22 byte VHT radiotap header, with the rate, bandwidth, guard interval, coding and
  STBC that the radiotap fields announce, with no retries when they say "no ACK"; unknown
  fields fall back to 20 MHz and OFDM 6M.
\<close>

theorem parse_tx_datagram_images:
  "parse_tx_datagram (be32 mark @ ht_radiotap tf known flags mcs @ b # rest) =
     (if known AND 1 \<noteq> 0 \<and> flags AND 3 \<notin> {0, 1}
      then Inl (TdRadiotap (RtUnsupportedHtBandwidth (flags AND 3)))
      else Inr \<lparr>td_fwmark = mark, td_radiotap_len = 13,
        td_options = tx_options_default
          \<lparr>tx_rate := (if known AND 2 \<noteq> 0 then Mcs mcs else Ofdm6m),
           tx_bandwidth := (if known AND 1 \<noteq> 0 \<and> flags AND 3 = 1 then Mhz40 else Mhz20),
           tx_short_gi := (known AND 4 \<noteq> 0 \<and> flags AND 4 \<noteq> 0),
           tx_ldpc := (known AND 0x10 \<noteq> 0 \<and> flags AND 0x10 \<noteq> 0),
           tx_stbc := (known AND 0x20 \<noteq> 0 \<and> flags AND 0x60 \<noteq> 0),
           tx_no_retry := (tf AND 8 \<noteq> 0)\<rparr>,
        td_frame = b # rest\<rparr>) \<and>
   parse_tx_datagram (be32 mark @ vht_radiotap tf vknown flags bw mn coding @ b # rest) =
     (if bw \<notin> {0, 1, 4} then Inl (TdRadiotap (RtUnsupportedVhtBandwidth bw))
      else Inr \<lparr>td_fwmark = mark, td_radiotap_len = 22,
        td_options = tx_options_default
          \<lparr>tx_rate := Vht (drop_bit 4 mn AND 0x0f) (mn AND 0x0f),
           tx_bandwidth := (if bw = 0 then Mhz20 else if bw = 1 then Mhz40 else Mhz80),
           tx_short_gi := (flags AND 4 \<noteq> 0), tx_ldpc := (coding AND 1 \<noteq> 0),
           tx_stbc := (flags AND 1 \<noteq> 0), tx_no_retry := (tf AND 8 \<noteq> 0)\<rparr>,
        td_frame = b # rest\<rparr>)"
  by (simp add: parse_tx_datagram_mark parse_ht_image parse_vht_image parse_ht_fields parse_vht_fields)

text \<open>
  A transmit datagram reaches the radio exactly when it parses and its frame has an 802.11
  header; then the radio gets that frame and those options, once, and the outcome is its answer;
  otherwise the radio is not touched.  The counters record one of: injected, malformed (with
  the unsupported radiotap layouts counted separately), or refused by the radio.
\<close>

theorem submit_tx_datagram_correct:
  "submit_tx_datagram submit packet radio c =
     (let c1 = c\<lparr>bt_incoming := bt_incoming c + 1\<rparr>;
          malformed = c1\<lparr>bt_dropped := bt_dropped c + 1, bt_malformed := bt_malformed c + 1\<rparr>
      in case parse_tx_datagram packet of
        Inl e \<Rightarrow>
          (Inl (TbDatagram e), radio,
           malformed\<lparr>bt_unsupported_radiotap := bt_unsupported_radiotap c +
             (case e of
                TdRadiotap (RtUnsupportedPresentFlags _) \<Rightarrow> 1
              | TdRadiotap (RtUnsupportedHtBandwidth _) \<Rightarrow> 1
              | TdRadiotap (RtUnsupportedVhtBandwidth _) \<Rightarrow> 1
              | _ \<Rightarrow> 0)\<rparr>)
      | Inr d \<Rightarrow>
          if length (td_frame d) < 10
          then (Inl (TbFrame (FrameTooShort 10 (length (td_frame d)))), radio, malformed)
          else
            (case submit (td_frame d) (td_options d) radio of
               (answer, radio') \<Rightarrow>
                 (case answer of
                    Inl e \<Rightarrow> (Inl (TbRadio e), radio', c1\<lparr>bt_dropped := bt_dropped c + 1\<rparr>)
                  | Inr _ \<Rightarrow> (Inr Injected, radio', c1\<lparr>bt_injected := bt_injected c + 1\<rparr>))))"
  by (cases c)
    (auto simp: submit_tx_datagram_def Let_def is_unsupported_radiotap_def validate_ieee80211_frame_def
      IEEE80211_MIN_HEADER_LEN_def split: sum.split prod.split tx_datagram_error.split radiotap_error.split)

section \<open>Received frames\<close>

record rx_forward_config =
  fc_channel_id :: wfb_channel_id
  fc_wlan_idx :: u8
  fc_mcs_index :: u8
  fc_bandwidth_mhz :: u8

record bridge_rx_counters =
  br_received :: u64
  br_matched :: u64
  br_forwarded :: u64
  br_filtered :: u64
  br_malformed :: u64
  br_send_failed :: u64

record bridge_counters =
  bc_rx :: bridge_rx_counters
  bc_tx :: bridge_tx_counters

definition bridge_tx_counters_default :: bridge_tx_counters where
  "bridge_tx_counters_default =
     \<lparr>bt_incoming = 0, bt_injected = 0, bt_dropped = 0, bt_malformed = 0, bt_unsupported_radiotap = 0\<rparr>"

definition bridge_rx_counters_default :: bridge_rx_counters where
  "bridge_rx_counters_default =
     \<lparr>br_received = 0, br_matched = 0, br_forwarded = 0, br_filtered = 0, br_malformed = 0,
      br_send_failed = 0\<rparr>"

datatype rx_forward_outcome = Forwarded nat | Filtered | Malformed

definition rx_forward_mcs_index :: "rx_frame \<Rightarrow> u8 option" where
  "rx_forward_mcs_index frame =
     (case rx_rate frame of
        Some (Mcs mcs) \<Rightarrow> Some mcs
      | Some (Vht mcs _) \<Rightarrow> Some mcs
      | _ \<Rightarrow> None)"

definition build_rx_forward_datagram ::
    "rx_frame \<Rightarrow> rx_forward_config \<Rightarrow> bridge_rx_counters \<Rightarrow> bytes option \<times> bridge_rx_counters" where
  "build_rx_forward_datagram frame config c =
     (let c = c\<lparr>br_received := br_received c + 1\<rparr> in
      case extract_wfb_payload (rx_data frame) (fc_channel_id config) of
        Inl PrefixMismatch \<Rightarrow> (None, c\<lparr>br_filtered := br_filtered c + 1\<rparr>)
      | Inl ChannelIdMismatch \<Rightarrow> (None, c\<lparr>br_filtered := br_filtered c + 1\<rparr>)
      | Inl (WfbTooShort _) \<Rightarrow> (None, c\<lparr>br_malformed := br_malformed c + 1\<rparr>)
      | Inl (InvalidLinkId _) \<Rightarrow> (None, c\<lparr>br_malformed := br_malformed c + 1\<rparr>)
      | Inr payload \<Rightarrow>
          (let c = c\<lparr>br_matched := br_matched c + 1\<rparr>;
               header = single_antenna_with_noise (fc_wlan_idx config) (rx_rssi_dbm frame)
                 (rx_noise_dbm frame) (ch_frequency_mhz (rx_channel frame))
                 (case rx_forward_mcs_index frame of Some m \<Rightarrow> m | None \<Rightarrow> fc_mcs_index config)
                 (case rx_bandwidth frame of Some b \<Rightarrow> ucast (mhz b) | None \<Rightarrow> fc_bandwidth_mhz config)
           in (Some (prepend_to_payload header payload), c)))"

text \<open>\<open>send\<close> is \<open>UdpSocket::send_to\<close>: the number of bytes sent or an I/O error.\<close>

definition forward_rx_frame_udp ::
    "(bytes \<Rightarrow> 'k \<Rightarrow> ('io, nat) result \<times> 'k) \<Rightarrow> 'k \<Rightarrow> rx_frame \<Rightarrow> rx_forward_config \<Rightarrow>
     bridge_rx_counters \<Rightarrow> ('io, rx_forward_outcome) result \<times> 'k \<times> bridge_rx_counters" where
  "forward_rx_frame_udp send socket frame config c =
     (let malformed_before = br_malformed c in
      case build_rx_forward_datagram frame config c of
        (None, c) \<Rightarrow>
          (Inr (if malformed_before < br_malformed c then Malformed else Filtered), socket, c)
      | (Some packet, c) \<Rightarrow>
          (case send packet socket of
             (Inr bytes, socket) \<Rightarrow> (Inr (Forwarded bytes), socket, c\<lparr>br_forwarded := br_forwarded c + 1\<rparr>)
           | (Inl error, socket) \<Rightarrow> (Inl error, socket, c\<lparr>br_send_failed := br_send_failed c + 1\<rparr>)))"

definition bridge_rx_step ::
    "((bytes \<Rightarrow> 'k \<Rightarrow> ('io, nat) result \<times> 'k) \<times> 'k \<times> rx_frame \<times> rx_forward_config) \<Rightarrow>
     bridge_rx_counters \<Rightarrow> bridge_rx_counters" where
  "bridge_rx_step i c =
     (case i of (send, socket, frame, config) \<Rightarrow> snd (snd (forward_rx_frame_udp send socket frame config c)))"

lemmas rx_forward_defs = bridge_rx_step_def forward_rx_frame_udp_def build_rx_forward_datagram_def

interpretation bridge_rx_match: conserving_counters br_received
    "\<lambda>c. br_matched c + br_filtered c + br_malformed c" bridge_rx_step
  by unfold_locales
    (auto simp: rx_forward_defs Let_def split: prod.split sum.split wfb_frame_error.split)

interpretation bridge_rx_outcome: conserving_counters br_received
    "\<lambda>c. br_forwarded c + br_send_failed c + br_filtered c + br_malformed c" bridge_rx_step
  by unfold_locales
    (auto simp: rx_forward_defs Let_def split: prod.split sum.split wfb_frame_error.split)

text \<open>
  C39. No frame is lost from the books: after any sequence of transmit datagrams and any sequence
  of received frames, whatever the radio and the socket answer, the datagrams that came in are
  those injected plus those dropped, and the frames received are those forwarded, those whose
  sending failed, those filtered and those malformed; the matched frames are the first two.
\<close>

theorem bridge_counters_conserved:
  "(let c = fold bridge_tx_step datagrams bridge_tx_counters_default in
      bt_incoming c = of_nat (length datagrams) \<and> bt_incoming c = bt_injected c + bt_dropped c) \<and>
   (let c = fold bridge_rx_step frames bridge_rx_counters_default in
      br_received c = of_nat (length frames) \<and>
      br_received c = br_forwarded c + br_send_failed c + br_filtered c + br_malformed c \<and>
      br_matched c = br_forwarded c + br_send_failed c)"
proof -
  let ?t = "fold bridge_tx_step datagrams bridge_tx_counters_default"
  let ?r = "fold bridge_rx_step frames bridge_rx_counters_default"
  have r: "br_received ?r = br_matched ?r + br_filtered ?r + br_malformed ?r"
    "br_received ?r = br_forwarded ?r + br_send_failed ?r + br_filtered ?r + br_malformed ?r"
    by (rule bridge_rx_match.balanced_fold_explicit, simp add: bridge_rx_counters_default_def)
      (rule bridge_rx_outcome.balanced_fold_explicit, simp add: bridge_rx_counters_default_def)
  moreover have "bt_incoming ?t = bt_injected ?t + bt_dropped ?t"
    by (rule bridge_tx.balanced_fold_explicit) (simp add: bridge_tx_counters_default_def)
  ultimately show ?thesis
    using bridge_tx.total_fold [of datagrams bridge_tx_counters_default]
      bridge_rx_match.total_fold [of frames bridge_rx_counters_default]
    by (simp add: Let_def bridge_tx_counters_default_def bridge_rx_counters_default_def)
qed

text \<open>
  A frame built for the listened channel is delivered: the datagram for the aggregator
  decodes to exactly the payload, with the RSSI, noise and frequency of the reception and the MCS
  index and bandwidth of the frame (or the configured ones when the frame carries none).
\<close>

theorem rx_forward_delivers:
  "\<exists>out. fst (build_rx_forward_datagram
             (frame\<lparr>rx_data := build_wfb_data_header (fc_channel_id config) s @ payload\<rparr>) config c) = Some out \<and>
     decode_forward out =
       (\<lparr>fh_wlan_idx = fc_wlan_idx config, fh_antenna = [0, 0xff, 0xff, 0xff],
         fh_rssi = [rx_rssi_dbm frame, 0x80, 0x80, 0x80],
         fh_noise = [case rx_noise_dbm frame of Some x \<Rightarrow> x | None \<Rightarrow> 0x7f, 0x7f, 0x7f, 0x7f],
         fh_freq_mhz = ch_frequency_mhz (rx_channel frame),
         fh_mcs_index = (case rx_forward_mcs_index frame of Some m \<Rightarrow> m | None \<Rightarrow> fc_mcs_index config),
         fh_bandwidth_mhz = (case rx_bandwidth frame of Some b \<Rightarrow> ucast (mhz b) | None \<Rightarrow> fc_bandwidth_mhz config)\<rparr>,
        payload)"
  by (simp add: build_rx_forward_datagram_def extract_built single_antenna_decodes Let_def
      rx_forward_mcs_index_def)

end
