(* ===== verification/Tunnel.thy ===== *)
theory Tunnel
  imports Prelude
begin

text \<open>
  The tunnel bridge of \<open>crates/wfb-tun/src/lib.rs\<close>: the aggregator that packs IP packets into
  tunnel messages, the parser of such messages, the utun address-family header, and one turn of
  the bridge loop.  Instants and durations are naturals of one unit; sockets and the utun
  device are functions on a world \<open>'w\<close>; \<open>'io\<close> is the operating system's error.
\<close>

section \<open>Errors and counters\<close>

definition DEFAULT_RADIO_MTU :: nat where "DEFAULT_RADIO_MTU = 1445"
definition DEFAULT_TUN_MTU :: nat where "DEFAULT_TUN_MTU = DEFAULT_RADIO_MTU - 2"

datatype 'io tun_error =
    TunIo string 'io
  | TunCommand string int string string
  | InvalidPrefixLen u8
  | ConfigureRequiresIpv4 string string
  | UnsupportedIpVersion u8
  | UnsupportedAddressFamily u32
  | PacketRecordTooLarge nat nat
  | UtunFrameTooShort
  | EmptyIpPacket
  | PartialUtunWrite nat nat
  | UnsupportedPlatform
  | TunOther string

record tun_counters =
  tc_tun_packets_in :: u64
  tc_tun_bytes_in :: u64
  tc_tunnel_datagrams_out :: u64
  tc_tunnel_bytes_out :: u64
  tc_tunnel_datagrams_in :: u64
  tc_tunnel_bytes_in :: u64
  tc_tun_packets_out :: u64
  tc_tun_bytes_out :: u64
  tc_keepalives_out :: u64
  tc_corrupt_messages :: u64
  tc_truncated_messages :: u64
  tc_dropped_packets :: u64

definition tun_counters_default :: tun_counters where
  "tun_counters_default =
     \<lparr>tc_tun_packets_in = 0, tc_tun_bytes_in = 0, tc_tunnel_datagrams_out = 0, tc_tunnel_bytes_out = 0,
      tc_tunnel_datagrams_in = 0, tc_tunnel_bytes_in = 0, tc_tun_packets_out = 0, tc_tun_bytes_out = 0,
      tc_keepalives_out = 0, tc_corrupt_messages = 0, tc_truncated_messages = 0, tc_dropped_packets = 0\<rparr>"

section \<open>The aggregator\<close>

record aggregator =
  ag_max_size :: nat
  ag_timeout :: nat
  ag_parts :: bytes
  ag_deadline :: "nat option"

definition aggregator_new :: "nat \<Rightarrow> nat \<Rightarrow> aggregator" where
  "aggregator_new max_size timeout =
     \<lparr>ag_max_size = max_size, ag_timeout = timeout, ag_parts = [], ag_deadline = None\<rparr>"

definition agg_flush :: "aggregator \<Rightarrow> bytes \<times> aggregator" where
  "agg_flush a = (ag_parts a, a\<lparr>ag_deadline := None, ag_parts := []\<rparr>)"

text \<open>The aggregator is returned also with an error, as the code mutates it in place.\<close>

definition agg_add :: "bytes \<Rightarrow> nat \<Rightarrow> aggregator \<Rightarrow> ('io tun_error, bytes list) result \<times> aggregator" where
  "agg_add packet now a =
     (let record_len = length packet + 2 in
      if ag_max_size a < record_len then (Inl (PacketRecordTooLarge record_len (ag_max_size a)), a)
      else
        let (out, a) =
              (if ag_parts a \<noteq> [] \<and> ag_max_size a < length (ag_parts a) + record_len
               then (let (message, a) = agg_flush a in ([message], a))
               else ([], a))
        in if 2 ^ 16 \<le> length packet then (Inl (PacketRecordTooLarge record_len (ag_max_size a)), a)
           else
             let a = a\<lparr>ag_parts := ag_parts a @ be16 (of_nat (length packet)) @ packet\<rparr>;
                 (out, a) =
                   (if ag_timeout a = 0 then (let (message, a) = agg_flush a in (out @ [message], a))
                    else if ag_deadline a = None then (out, a\<lparr>ag_deadline := Some (now + ag_timeout a)\<rparr>)
                    else (out, a))
             in (Inr (filter (\<lambda>message. message \<noteq> []) out), a))"

definition agg_flush_due :: "nat \<Rightarrow> aggregator \<Rightarrow> bytes option \<times> aggregator" where
  "agg_flush_due now a =
     (if (case ag_deadline a of Some deadline \<Rightarrow> deadline \<le> now | None \<Rightarrow> False)
      then (let (data, a) = agg_flush a in if data = [] then (None, a) else (Some data, a))
      else (None, a))"

section \<open>Tunnel messages\<close>

text \<open>
  The \<open>while offset < message.len()\<close> loop, with the packets found so far.
\<close>

function tunnel_message_loop ::
    "bytes \<Rightarrow> nat \<Rightarrow> bytes list \<Rightarrow> tun_counters \<Rightarrow> bytes list \<times> tun_counters" where
  "tunnel_message_loop message offset packets c =
     (if offset < length message then
        if length message - offset < 2
        then (packets, c\<lparr>tc_corrupt_messages := sat_add (tc_corrupt_messages c) 1\<rparr>)
        else
          let packet_len = unat (of_be16 [message ! offset, message ! (offset + 1)]);
              offset = offset + 2
          in if length message - offset < packet_len
             then (packets, c\<lparr>tc_truncated_messages := sat_add (tc_truncated_messages c) 1\<rparr>)
             else tunnel_message_loop message (offset + packet_len)
                    (packets @ [byte_slice offset (offset + packet_len) message]) c
      else (packets, c))"
  by pat_completeness auto
termination
  by (relation "measure (\<lambda>(message, offset, _, _). length message - offset)") auto

declare tunnel_message_loop.simps [simp del]

definition parse_tunnel_message :: "bytes \<Rightarrow> tun_counters \<Rightarrow> bytes list \<times> tun_counters" where
  "parse_tunnel_message message c = tunnel_message_loop message 0 [] c"

section \<open>The utun header\<close>

text \<open>\<open>af_inet\<close> and \<open>af_inet6\<close> are the constants of libc, which depend on the platform.\<close>

definition utun_af_header :: "u32 \<Rightarrow> u32 \<Rightarrow> bytes \<Rightarrow> ('io tun_error, bytes) result" where
  "utun_af_header af_inet af_inet6 packet =
     (case packet of
        [] \<Rightarrow> Inl EmptyIpPacket
      | first # _ \<Rightarrow>
          (let version = drop_bit 4 first in
           if version = 4 then Inr (be32 af_inet)
           else if version = 6 then Inr (be32 af_inet6)
           else Inl (UnsupportedIpVersion version)))"

definition strip_utun_header :: "u32 \<Rightarrow> u32 \<Rightarrow> bytes \<Rightarrow> ('io tun_error, bytes) result" where
  "strip_utun_header af_inet af_inet6 frame =
     (if length frame < 5 then Inl UtunFrameTooShort
      else
        let family = of_be32 [frame ! 0, frame ! 1, frame ! 2, frame ! 3] in
        if family \<noteq> af_inet \<and> family \<noteq> af_inet6 then Inl (UnsupportedAddressFamily family)
        else Inr (drop 4 frame))"

definition netmask :: "u8 \<Rightarrow> ('io tun_error, u32) result" where
  "netmask prefix_len =
     (if prefix_len > 32 then Inl (InvalidPrefixLen prefix_len)
      else Inr (if prefix_len = 0 then 0 else push_bit (unat (32 - prefix_len)) (- 1)))"

section \<open>One turn of the bridge loop\<close>

record ('io, 'w) tun_io =
  io_send :: "bytes \<Rightarrow> 'w \<Rightarrow> ('io, nat) result \<times> 'w"
  io_tun_write :: "bytes \<Rightarrow> 'w \<Rightarrow> ('io, nat) result \<times> 'w"
  io_af_inet :: u32
  io_af_inet6 :: u32

record 'w tun_state =
  ts_aggregator :: aggregator
  ts_counters :: tun_counters
  ts_next_keepalive :: nat
  ts_world :: 'w

text \<open>\<open>Utun::write_all\<close>: the header and the packet in one write, which must be complete.\<close>

definition tun_write_all ::
    "('io, 'w) tun_io \<Rightarrow> bytes \<Rightarrow> bytes \<Rightarrow> 'w \<Rightarrow> ('io tun_error, unit) result \<times> 'w" where
  "tun_write_all sys header packet w =
     (let frame = header @ packet in
      case io_tun_write sys frame w of
        (Inl e, w) \<Rightarrow> (Inl (TunIo ''write utun'' e), w)
      | (Inr wrote, w) \<Rightarrow>
          if wrote \<noteq> length frame then (Inl (PartialUtunWrite wrote (length frame)), w) else (Inr (), w))"

definition count_datagram_out :: "bytes \<Rightarrow> tun_counters \<Rightarrow> tun_counters" where
  "count_datagram_out message c =
     c\<lparr>tc_tunnel_datagrams_out := sat_add (tc_tunnel_datagrams_out c) 1,
       tc_tunnel_bytes_out := sat_add (tc_tunnel_bytes_out c) (of_nat (length message))\<rparr>"

definition send_message ::
    "('io, 'w) tun_io \<Rightarrow> string \<Rightarrow> bytes \<Rightarrow> 'w tun_state \<Rightarrow> ('io tun_error, unit) result \<times> 'w tun_state" where
  "send_message sys context_text message s =
     (case io_send sys message (ts_world s) of
        (Inl e, w) \<Rightarrow> (Inl (TunIo context_text e), s\<lparr>ts_world := w\<rparr>)
      | (Inr _, w) \<Rightarrow> (Inr (), s\<lparr>ts_world := w, ts_counters := count_datagram_out message (ts_counters s)\<rparr>))"

fun send_messages ::
    "('io, 'w) tun_io \<Rightarrow> bytes list \<Rightarrow> 'w tun_state \<Rightarrow> ('io tun_error, unit) result \<times> 'w tun_state" where
  "send_messages sys [] s = (Inr (), s)"
| "send_messages sys (m # ms) s =
     (case send_message sys ''send tunnel UDP'' m s of
        (Inl e, s) \<Rightarrow> (Inl e, s)
      | (Inr _, s) \<Rightarrow> send_messages sys ms s)"

text \<open>A frame read from the utun device (\<open>ready.tun\<close>), at instant \<open>now\<close>.\<close>

definition on_tun_frame ::
    "('io, 'w) tun_io \<Rightarrow> bytes \<Rightarrow> nat \<Rightarrow> 'w tun_state \<Rightarrow> ('io tun_error, unit) result \<times> 'w tun_state" where
  "on_tun_frame sys frame now s =
     (case strip_utun_header (io_af_inet sys) (io_af_inet6 sys) frame of
        Inl e \<Rightarrow> (Inl e, s)
      | Inr packet \<Rightarrow>
          (let c = ts_counters s;
               s = s\<lparr>ts_counters := c
                     \<lparr>tc_tun_packets_in := sat_add (tc_tun_packets_in c) 1,
                      tc_tun_bytes_in := sat_add (tc_tun_bytes_in c) (of_nat (length packet))\<rparr>\<rparr>
           in case agg_add packet now (ts_aggregator s) of
                (Inl e, a) \<Rightarrow> (Inl e, s\<lparr>ts_aggregator := a\<rparr>)
              | (Inr messages, a) \<Rightarrow> send_messages sys messages (s\<lparr>ts_aggregator := a\<rparr>)))"

fun write_packets ::
    "('io, 'w) tun_io \<Rightarrow> bytes list \<Rightarrow> 'w tun_state \<Rightarrow> ('io tun_error, unit) result \<times> 'w tun_state" where
  "write_packets sys [] s = (Inr (), s)"
| "write_packets sys (p # ps) s =
     (case utun_af_header (io_af_inet sys) (io_af_inet6 sys) p of
        Inl e \<Rightarrow> (Inl e, s)
      | Inr header \<Rightarrow>
          (case tun_write_all sys header p (ts_world s) of
             (Inl e, w) \<Rightarrow> (Inl e, s\<lparr>ts_world := w\<rparr>)
           | (Inr _, w) \<Rightarrow>
               (let c = ts_counters s in
                write_packets sys ps
                  (s\<lparr>ts_world := w, ts_counters := c
                      \<lparr>tc_tun_packets_out := sat_add (tc_tun_packets_out c) 1,
                       tc_tun_bytes_out := sat_add (tc_tun_bytes_out c) (of_nat (length p))\<rparr>\<rparr>))))"

text \<open>A datagram received from the radio side (\<open>ready.udp\<close>).\<close>

definition on_udp_message ::
    "('io, 'w) tun_io \<Rightarrow> bytes \<Rightarrow> 'w tun_state \<Rightarrow> ('io tun_error, unit) result \<times> 'w tun_state" where
  "on_udp_message sys message s =
     (let c = ts_counters s;
          c = c\<lparr>tc_tunnel_datagrams_in := sat_add (tc_tunnel_datagrams_in c) 1,
                tc_tunnel_bytes_in := sat_add (tc_tunnel_bytes_in c) (of_nat (length message))\<rparr>;
          (packets, c) = parse_tunnel_message message c
      in write_packets sys packets (s\<lparr>ts_counters := c\<rparr>))"

text \<open>The timers after the poll: the due aggregate, then the keepalive.\<close>

definition on_timers ::
    "('io, 'w) tun_io \<Rightarrow> nat \<Rightarrow> nat \<Rightarrow> 'w tun_state \<Rightarrow> ('io tun_error, unit) result \<times> 'w tun_state" where
  "on_timers sys keepalive_interval now s =
     (let (due, a) = agg_flush_due now (ts_aggregator s);
          s = s\<lparr>ts_aggregator := a\<rparr>;
          (r, s) = (case due of Some message \<Rightarrow> send_message sys ''send due aggregate'' message s
                    | None \<Rightarrow> (Inr (), s))
      in case r of
           Inl e \<Rightarrow> (Inl e, s)
         | Inr _ \<Rightarrow>
             if ts_next_keepalive s \<le> now
             then (case io_send sys [] (ts_world s) of
                     (Inl e, w) \<Rightarrow> (Inl (TunIo ''send keepalive'' e), s\<lparr>ts_world := w\<rparr>)
                   | (Inr _, w) \<Rightarrow>
                       (Inr (), s\<lparr>ts_world := w,
                         ts_counters := (ts_counters s)
                           \<lparr>tc_keepalives_out := sat_add (tc_keepalives_out (ts_counters s)) 1\<rparr>,
                         ts_next_keepalive := now + keepalive_interval\<rparr>))
             else (Inr (), s))"

text \<open>
  What the poll made ready: a frame or an I/O error (or nothing) from the utun device and from
  the socket; a read that would block is nothing.
\<close>

definition tun_bridge_turn ::
    "('io, 'w) tun_io \<Rightarrow> nat \<Rightarrow> ('io, bytes) result option \<Rightarrow> ('io, bytes) result option \<Rightarrow> nat \<Rightarrow> nat \<Rightarrow>
     'w tun_state \<Rightarrow> ('io tun_error, unit) result \<times> 'w tun_state" where
  "tun_bridge_turn sys keepalive_interval tun_ready udp_ready read_time now s =
     (let (r, s) = (case tun_ready of
                      None \<Rightarrow> (Inr (), s)
                    | Some (Inl e) \<Rightarrow> (Inl (TunIo ''read utun'' e), s)
                    | Some (Inr frame) \<Rightarrow> on_tun_frame sys frame read_time s)
      in case r of
           Inl e \<Rightarrow> (Inl e, s)
         | Inr _ \<Rightarrow>
             (let (r, s) = (case udp_ready of
                              None \<Rightarrow> (Inr (), s)
                            | Some (Inl e) \<Rightarrow> (Inl (TunIo ''receive tunnel UDP'' e), s)
                            | Some (Inr message) \<Rightarrow> on_udp_message sys message s)
              in case r of
                   Inl e \<Rightarrow> (Inl e, s)
                 | Inr _ \<Rightarrow> on_timers sys keepalive_interval now s))"

text \<open>The end of the loop: what is still aggregated is sent.\<close>

definition tun_bridge_finish ::
    "('io, 'w) tun_io \<Rightarrow> 'w tun_state \<Rightarrow> ('io tun_error, unit) result \<times> 'w tun_state" where
  "tun_bridge_finish sys s =
     (let (message, a) = agg_flush (ts_aggregator s);
          s = s\<lparr>ts_aggregator := a\<rparr>
      in if message = [] then (Inr (), s) else send_message sys ''send final aggregate'' message s)"

section \<open>Records\<close>

definition encode_record :: "bytes \<Rightarrow> bytes" where
  "encode_record p = be16 (of_nat (length p)) @ p"

definition encode_records :: "bytes list \<Rightarrow> bytes" where
  "encode_records ps = concat (map encode_record ps)"

lemma encode_records_simps [simp]:
  "encode_records [] = []" "encode_records (p # ps) = encode_record p @ encode_records ps"
  "encode_records (ps @ qs) = encode_records ps @ encode_records qs"
  by (simp_all add: encode_records_def)

lemma length_encode_record [simp]: "length (encode_record p) = length p + 2"
  by (simp add: encode_record_def be16.enc_length)

text \<open>How a message may end: with its last record, with one stray byte, or inside a record.\<close>

definition record_length :: "bytes \<Rightarrow> nat" where
  "record_length m = unat (of_be16 [m ! 0, m ! 1])"

definition truncated_record :: "bytes \<Rightarrow> bool" where
  "truncated_record rest \<longleftrightarrow> 2 \<le> length rest \<and> length rest - 2 < record_length rest"

lemma record_length_bound: "record_length m < 2 ^ 16"
  unfolding record_length_def by (rule order_less_le_trans [OF unsigned_less]) simp

lemma record_length_encode:
  "length p < 2 ^ 16 \<Longrightarrow> record_length (encode_record p @ rest) = length p"
  using be16.dec_enc [of "of_nat (length p)"]
  by (simp add: record_length_def encode_record_def be16_def unat_of_nat)

lemma encode_record_of_prefix:
  assumes "2 \<le> length m" "record_length m \<le> length m - 2"
  shows "m = encode_record (take (record_length m) (drop 2 m)) @ drop (2 + record_length m) m"
proof -
  from assms obtain a b r where m: "m = a # b # r"
    by (metis One_nat_def Suc_1 Suc_le_length_iff)
  have "be16 (of_be16 [a, b]) = [a, b]" by (rule be16.enc_dec) simp
  then have "be16 (of_nat (record_length m)) = [a, b]"
    by (simp add: record_length_def m)
  with assms(2) show ?thesis by (simp add: encode_record_def m min_def)
qed

lemma tunnel_message_loop_spec:
  "\<exists>qs rest. tunnel_message_loop m off ps c =
     (ps @ qs,
      if rest = [] then c
      else if length rest = 1 then c\<lparr>tc_corrupt_messages := sat_add (tc_corrupt_messages c) 1\<rparr>
      else c\<lparr>tc_truncated_messages := sat_add (tc_truncated_messages c) 1\<rparr>) \<and>
     drop off m = encode_records qs @ rest \<and> (\<forall>q \<in> set qs. length q < 2 ^ 16) \<and>
     (rest = [] \<or> length rest = 1 \<or> truncated_record rest)"
proof (induction m off ps c rule: tunnel_message_loop.induct)
  case (1 m off ps c)
  let ?d = "drop off m"
  let ?n = "record_length ?d"
  have n: "off < length m \<Longrightarrow> 2 \<le> length ?d \<Longrightarrow> unat (of_be16 [m ! off, m ! (off + 1)]) = ?n"
    by (simp add: record_length_def add.commute)
  consider "length m \<le> off" | "off < length m" "length m - off < 2"
    | "off < length m" "2 \<le> length m - off" "length m - (off + 2) < ?n"
    | "off < length m" "2 \<le> length m - off" "?n \<le> length m - (off + 2)"
    by linarith
  then show ?case
  proof cases
    case 1
    then show ?thesis
      by (intro exI [of _ "[]"] exI [of _ "[]"]) (simp add: tunnel_message_loop.simps [of m off])
  next
    case 2
    then show ?thesis
      by (intro exI [of _ "[]"] exI [of _ ?d]) (auto simp: tunnel_message_loop.simps [of m off])
  next
    case 3
    then show ?thesis
      using n by (intro exI [of _ "[]"] exI [of _ ?d])
        (auto simp: tunnel_message_loop.simps [of m off] truncated_record_def Let_def)
  next
    case 4
    let ?p = "take ?n (drop 2 ?d)"
    have step: "tunnel_message_loop m off ps c = tunnel_message_loop m (off + 2 + ?n) (ps @ [?p]) c"
      using 4 n by (simp add: tunnel_message_loop.simps [of m off] Let_def byte_slice_def add.commute)
    have "\<exists>qs rest. tunnel_message_loop m (off + 2 + ?n) (ps @ [?p]) c =
       ((ps @ [?p]) @ qs,
        if rest = [] then c
        else if length rest = 1 then c\<lparr>tc_corrupt_messages := sat_add (tc_corrupt_messages c) 1\<rparr>
        else c\<lparr>tc_truncated_messages := sat_add (tc_truncated_messages c) 1\<rparr>) \<and>
       drop (off + 2 + ?n) m = encode_records qs @ rest \<and> (\<forall>q \<in> set qs. length q < 2 ^ 16) \<and>
       (rest = [] \<or> length rest = 1 \<or> truncated_record rest)"
      using 4 n "1.IH" [of ?n "off + 2"] by (simp add: byte_slice_def add.commute)
    then obtain qs rest where q: "tunnel_message_loop m (off + 2 + ?n) (ps @ [?p]) c =
       ((ps @ [?p]) @ qs,
        if rest = [] then c
        else if length rest = 1 then c\<lparr>tc_corrupt_messages := sat_add (tc_corrupt_messages c) 1\<rparr>
        else c\<lparr>tc_truncated_messages := sat_add (tc_truncated_messages c) 1\<rparr>)"
       "drop (off + 2 + ?n) m = encode_records qs @ rest" "\<forall>q \<in> set qs. length q < 2 ^ 16"
       "rest = [] \<or> length rest = 1 \<or> truncated_record rest"
      by blast
    have d: "?d = encode_record ?p @ drop (off + 2 + ?n) m"
      using encode_record_of_prefix [of ?d] 4 by (simp add: add.commute add.left_commute)
    have "length ?p < 2 ^ 16" using record_length_bound [of ?d] by simp
    then show ?thesis
      using q d unfolding step by (intro exI [of _ "?p # qs"] exI [of _ rest]) simp
  qed
qed

definition records_ok :: "bytes list \<Rightarrow> bool" where
  "records_ok ps \<longleftrightarrow> (\<forall>p \<in> set ps. length p < 2 ^ 16)"

lemma records_ok_simps [simp]:
  "records_ok []" "records_ok (p # ps) \<longleftrightarrow> length p < 65536 \<and> records_ok ps"
  "records_ok (ps @ qs) \<longleftrightarrow> records_ok ps \<and> records_ok qs"
  by (auto simp: records_ok_def)

lemma encode_records_unique:
  "records_ok ps \<Longrightarrow> records_ok qs \<Longrightarrow> rest = [] \<or> length rest = 1 \<or> truncated_record rest \<Longrightarrow>
     encode_records ps = encode_records qs @ rest \<Longrightarrow> qs = ps \<and> rest = []"
proof (induction ps arbitrary: qs)
  case Nil
  then show ?case by (cases qs) (auto simp: encode_record_def be16_def)
next
  case (Cons p ps)
  have len: "record_length (encode_record p @ encode_records ps) = length p"
    using Cons.prems(1) by (simp add: record_length_encode)
  show ?case
  proof (cases qs)
    case Nil
    then have rest: "rest = encode_record p @ encode_records ps" using Cons.prems(4) by simp
    then have "length rest \<noteq> 1" "rest \<noteq> []" "\<not> truncated_record rest"
      using len by (auto simp: truncated_record_def encode_record_def be16_def)
    with Cons.prems(3) show ?thesis by simp
  next
    case (Cons q qs')
    then have eq: "encode_record p @ encode_records ps = encode_record q @ encode_records qs' @ rest"
      using Cons.prems(4) by simp
    have "record_length (encode_record q @ encode_records qs' @ rest) = length q"
      using Cons.prems(2) Cons by (simp add: record_length_encode)
    with len eq have "length (encode_record p) = length (encode_record q)" by simp
    with eq have pq: "encode_record p = encode_record q" "encode_records ps = encode_records qs' @ rest"
      by (simp_all del: length_encode_record)
    then have "p = q" by (simp add: encode_record_def be16.enc_length append_eq_append_conv)
    moreover have "qs' = ps \<and> rest = []"
      using Cons.IH [of qs'] Cons.prems Cons pq(2) by simp
    ultimately show ?thesis using Cons by simp
  qed
qed

lemma parse_tunnel_message_spec:
  "\<exists>qs rest. parse_tunnel_message message c =
     (qs, if rest = [] then c
      else if length rest = 1 then c\<lparr>tc_corrupt_messages := sat_add (tc_corrupt_messages c) 1\<rparr>
      else c\<lparr>tc_truncated_messages := sat_add (tc_truncated_messages c) 1\<rparr>) \<and>
     message = encode_records qs @ rest \<and> records_ok qs \<and>
     (rest = [] \<or> length rest = 1 \<or> truncated_record rest)"
  using tunnel_message_loop_spec [of message 0 "[]" c]
  unfolding parse_tunnel_message_def records_ok_def drop_0 append_Nil .

lemma parse_encode_records:
  assumes "records_ok ps"
  shows "parse_tunnel_message (encode_records ps) c = (ps, c)"
proof -
  obtain qs rest where q: "parse_tunnel_message (encode_records ps) c =
     (qs, if rest = [] then c
      else if length rest = 1 then c\<lparr>tc_corrupt_messages := sat_add (tc_corrupt_messages c) 1\<rparr>
      else c\<lparr>tc_truncated_messages := sat_add (tc_truncated_messages c) 1\<rparr>)"
    and e: "encode_records ps = encode_records qs @ rest" "records_ok qs"
      "rest = [] \<or> length rest = 1 \<or> truncated_record rest"
    using parse_tunnel_message_spec [of "encode_records ps" c] by blast
  have "qs = ps \<and> rest = []" by (rule encode_records_unique [OF assms e(2,3,1)])
  with q show ?thesis by simp
qed

text \<open>
  Parsing a tunnel message is total and exact: the returned packets are, in order, the
  length-prefixed records the message starts with, and they are all of them; what follows the
  last record is nothing, one stray byte (counted as one corrupt message) or the start of a
  record that runs past the end (counted as one truncated message).
\<close>

theorem parse_tunnel_message_exact:
  "\<exists>rest. message = encode_records (fst (parse_tunnel_message message c)) @ rest \<and>
     records_ok (fst (parse_tunnel_message message c)) \<and>
     (rest = [] \<and> snd (parse_tunnel_message message c) = c \<or>
      length rest = 1 \<and> snd (parse_tunnel_message message c) =
        c\<lparr>tc_corrupt_messages := sat_add (tc_corrupt_messages c) 1\<rparr> \<or>
      2 \<le> length rest \<and> length rest < 2 + unat (of_be16 (take 2 rest)) \<and>
        snd (parse_tunnel_message message c) =
        c\<lparr>tc_truncated_messages := sat_add (tc_truncated_messages c) 1\<rparr>)"
proof -
  obtain qs rest where q: "parse_tunnel_message message c =
     (qs, if rest = [] then c
      else if length rest = 1 then c\<lparr>tc_corrupt_messages := sat_add (tc_corrupt_messages c) 1\<rparr>
      else c\<lparr>tc_truncated_messages := sat_add (tc_truncated_messages c) 1\<rparr>)"
    and e: "message = encode_records qs @ rest" "records_ok qs"
      "rest = [] \<or> length rest = 1 \<or> truncated_record rest"
    using parse_tunnel_message_spec [of message c] by blast
  have "of_be16 [rest ! 0, rest ! 1] = of_be16 (take 2 rest)" if "2 \<le> length rest"
    using that by (simp add: of_be16_def)
  with e(3) show ?thesis
    by (intro exI [of _ rest])
      (auto simp: q e(1) [symmetric] e(2) truncated_record_def record_length_def)
qed

section \<open>The aggregator delivers\<close>

text \<open>
  Everything the bridge does to an aggregator: \<open>agg_run max_size timeout clock sent accepted a\<close>
  holds when the aggregator \<open>a\<close> is reached at the instant \<open>clock\<close> after sending the messages
  \<open>sent\<close> and accepting the packets \<open>accepted\<close>.
\<close>

inductive agg_run :: "nat \<Rightarrow> nat \<Rightarrow> nat \<Rightarrow> bytes list \<Rightarrow> bytes list \<Rightarrow> aggregator \<Rightarrow> bool"
  for max_size timeout where
  start: "agg_run max_size timeout 0 [] [] (aggregator_new max_size timeout)"
| add: "agg_run max_size timeout clock sent accepted a \<Longrightarrow> clock \<le> now \<Longrightarrow>
    agg_add packet now a = (Inr messages :: (unit tun_error, bytes list) result, a') \<Longrightarrow>
    agg_run max_size timeout now (sent @ messages) (accepted @ [packet]) a'"
| refuse: "agg_run max_size timeout clock sent accepted a \<Longrightarrow> clock \<le> now \<Longrightarrow>
    agg_add packet now a = (Inl (e :: unit tun_error), a') \<Longrightarrow>
    agg_run max_size timeout now sent accepted a'"
| due: "agg_run max_size timeout clock sent accepted a \<Longrightarrow> clock \<le> now \<Longrightarrow>
    agg_flush_due now a = (message, a') \<Longrightarrow>
    agg_run max_size timeout now (sent @ (case message of Some m \<Rightarrow> [m] | None \<Rightarrow> [])) accepted a'"
| flush: "agg_run max_size timeout clock sent accepted a \<Longrightarrow> clock \<le> now \<Longrightarrow>
    agg_flush a = (message, a') \<Longrightarrow>
    agg_run max_size timeout now (sent @ (if message = [] then [] else [message])) accepted a'"

text \<open>
  The invariant: the messages sent encode groups of packets, the pending bytes encode the rest,
  nothing exceeds the size limit, and a deadline is set exactly while something is pending.
\<close>

definition agg_inv ::
    "nat \<Rightarrow> nat \<Rightarrow> nat \<Rightarrow> bytes list list \<Rightarrow> bytes list \<Rightarrow> aggregator \<Rightarrow> bool" where
  "agg_inv max_size timeout clock groups pending a \<longleftrightarrow>
     ag_max_size a = max_size \<and> ag_timeout a = timeout \<and>
     ag_parts a = encode_records pending \<and> records_ok pending \<and> length (ag_parts a) \<le> max_size \<and>
     (\<forall>g \<in> set groups. g \<noteq> [] \<and> records_ok g \<and> length (encode_records g) \<le> max_size) \<and>
     (ag_deadline a = None \<longleftrightarrow> pending = []) \<and>
     (\<forall>d. ag_deadline a = Some d \<longrightarrow> d \<le> clock + timeout)"

lemma encode_records_Nil_iff [simp]: "encode_records ps = [] \<longleftrightarrow> ps = []"
  by (cases ps) (auto simp: encode_record_def be16_def)

lemma agg_add_refuses:
  "agg_add p now a = (Inl e, a') \<Longrightarrow> ag_max_size a \<le> 65537 \<Longrightarrow> a' = a"
  by (auto simp: agg_add_def Let_def agg_flush_def split: if_splits prod.splits)

definition agg_overflow :: "bytes \<Rightarrow> aggregator \<Rightarrow> bool" where
  "agg_overflow p a \<longleftrightarrow> ag_parts a \<noteq> [] \<and> ag_max_size a < length (ag_parts a) + (length p + 2)"

lemma encode_record_not_Nil [simp]: "encode_record p \<noteq> []"
  by (simp add: encode_record_def be16_def)

lemma agg_add_value:
  assumes "length p + 2 \<le> ag_max_size a" "length p < 2 ^ 16"
  shows "agg_add p now a =
    (let out = (if agg_overflow p a then [ag_parts a] else []);
         parts = (if agg_overflow p a then [] else ag_parts a) @ encode_record p
     in if ag_timeout a = 0 then (Inr (out @ [parts]), a\<lparr>ag_parts := [], ag_deadline := None\<rparr>)
        else (Inr out, a\<lparr>ag_parts := parts,
               ag_deadline := (if agg_overflow p a \<or> ag_deadline a = None then Some (now + ag_timeout a)
                               else ag_deadline a)\<rparr>))"
  using assms
  by (cases a) (auto simp: agg_add_def agg_overflow_def agg_flush_def Let_def encode_record_def be16_def)

lemma agg_add_accepts_iff:
  "ag_max_size a \<le> 65537 \<Longrightarrow>
     (\<exists>ms a'. agg_add p now a = (Inr ms, a')) \<longleftrightarrow> length p + 2 \<le> ag_max_size a"
proof (cases "length p + 2 \<le> ag_max_size a")
  case True
  assume "ag_max_size a \<le> 65537"
  with True have "length p < 2 ^ 16" by simp
  with True show ?thesis by (simp add: agg_add_value Let_def)
next
  case False
  then show ?thesis by (simp add: agg_add_def Let_def)
qed

lemma agg_add_accepts:
  assumes inv: "agg_inv mx t clock groups pending a" and now: "clock \<le> now" and mx: "mx \<le> 65537"
    and add: "agg_add p now a = (Inr messages, a')"
  shows "\<exists>gs pending'. messages = map encode_records gs \<and> agg_inv mx t now (groups @ gs) pending' a' \<and>
    concat gs @ pending' = pending @ [p]"
proof -
  note i = inv [unfolded agg_inv_def]
  have len: "length p + 2 \<le> mx" using agg_add_accepts_iff [of a p now] add mx i by auto
  then have p: "length p < 2 ^ 16" using mx by simp
  have le: "d \<le> now + t" if "ag_deadline a = Some d" for d
    using i now that by (meson add_le_mono1 le_trans)
  have "length p + 2 \<le> ag_max_size a" using len i by simp
  note v = trans [OF sym [OF agg_add_value [OF this p]] add]
  consider "agg_overflow p a" "t = 0" | "agg_overflow p a" "t \<noteq> 0"
    | "\<not> agg_overflow p a" "t = 0" | "\<not> agg_overflow p a" "t \<noteq> 0" by blast
  then show ?thesis
  proof cases
    case 1
    then show ?thesis using v i p len
      by (intro exI [of _ "[pending, [p]]"] exI [of _ "[]"]) (auto simp: agg_inv_def agg_overflow_def Let_def)
  next
    case 2
    then show ?thesis using v i p len
      by (intro exI [of _ "[pending]"] exI [of _ "[p]"]) (auto simp: agg_inv_def agg_overflow_def Let_def)
  next
    case 3
    then show ?thesis using v i p len
      by (intro exI [of _ "[pending @ [p]]"] exI [of _ "[]"]) (auto simp: agg_inv_def agg_overflow_def Let_def)
  next
    case 4
    then show ?thesis using v i p len le
      by (intro exI [of _ "[]"] exI [of _ "pending @ [p]"]) (auto simp: agg_inv_def agg_overflow_def Let_def)
  qed
qed

lemma agg_flush_inv:
  assumes "agg_inv mx t clock groups pending a" "clock \<le> now" "agg_flush a = (m, a')"
  shows "m = encode_records pending \<and> agg_inv mx t now (groups @ (if pending = [] then [] else [pending])) [] a'"
  using assms by (auto simp: agg_flush_def agg_inv_def)

lemma agg_inv_later:
  "agg_inv mx t clock groups pending a \<Longrightarrow> clock \<le> now \<Longrightarrow> agg_inv mx t now groups pending a"
  unfolding agg_inv_def by (meson add_le_mono1 le_trans)

lemma agg_flush_due_inv:
  assumes inv: "agg_inv mx t clock groups pending a" and now: "clock \<le> now"
    and due: "agg_flush_due now a = (m, a')"
  shows "(m = None \<and> a' = a \<and> agg_inv mx t now groups pending a') \<or>
    (m = Some (encode_records pending) \<and> pending \<noteq> [] \<and> agg_inv mx t now (groups @ [pending]) [] a')"
proof (cases "case ag_deadline a of Some deadline \<Rightarrow> deadline \<le> now | None \<Rightarrow> False")
  case True
  then have ne: "pending \<noteq> []" using inv by (auto simp: agg_inv_def split: option.splits)
  obtain m' b where f: "agg_flush a = (m', b)" by (cases "agg_flush a")
  from agg_flush_inv [OF inv now f] ne True f due show ?thesis
    by (auto simp: agg_flush_due_def)
next
  case False
  then show ?thesis using due agg_inv_later [OF inv now] by (auto simp: agg_flush_due_def)
qed

lemma agg_run_inv:
  assumes "agg_run mx t clock sent accepted a" "mx \<le> 65537"
  shows "\<exists>groups pending. sent = map encode_records groups \<and> agg_inv mx t clock groups pending a \<and>
    concat groups @ pending = accepted"
  using assms
proof (induction rule: agg_run.induct)
  case start
  then show ?case
    by (intro exI [of _ "[]"]) (simp add: agg_inv_def aggregator_new_def)
next
  case (add clock sent accepted a now packet messages a')
  then obtain groups pending where g: "sent = map encode_records groups"
    "agg_inv mx t clock groups pending a" "concat groups @ pending = accepted" by blast
  from agg_add_accepts [OF g(2) add.hyps(2) add.prems add.hyps(3)] obtain gs pending' where
    "messages = map encode_records gs" "agg_inv mx t now (groups @ gs) pending' a'"
    "concat gs @ pending' = pending @ [packet]" by blast
  with g show ?case by (intro exI [of _ "groups @ gs"] exI [of _ pending']) auto
next
  case (refuse clock sent accepted a now packet e a')
  then obtain groups pending where g: "sent = map encode_records groups"
    "agg_inv mx t clock groups pending a" "concat groups @ pending = accepted" by blast
  moreover have "a' = a" using agg_add_refuses [OF refuse.hyps(3)] g refuse.prems by (simp add: agg_inv_def)
  ultimately show ?case using agg_inv_later [OF _ refuse.hyps(2)] by blast
next
  case (due clock sent accepted a now message a')
  then obtain groups pending where g: "sent = map encode_records groups"
    "agg_inv mx t clock groups pending a" "concat groups @ pending = accepted" by blast
  from agg_flush_due_inv [OF g(2) due.hyps(2,3)] show ?case
  proof (elim disjE conjE)
    assume "message = None" "agg_inv mx t now groups pending a'"
    with g show ?thesis by (intro exI [of _ groups] exI [of _ pending]) simp
  next
    assume "message = Some (encode_records pending)" "agg_inv mx t now (groups @ [pending]) [] a'"
    with g show ?thesis by (intro exI [of _ "groups @ [pending]"] exI [of _ "[]"]) simp
  qed
next
  case (flush clock sent accepted a now message a')
  then obtain groups pending where g: "sent = map encode_records groups"
    "agg_inv mx t clock groups pending a" "concat groups @ pending = accepted" by blast
  from agg_flush_inv [OF g(2) flush.hyps(2,3)] g show ?case
    by (intro exI [of _ "groups @ (if pending = [] then [] else [pending])"] exI [of _ "[]"]) auto
qed



text \<open>
  No packet waits longer than the aggregation timeout: once the timer is checked at or after
  the instant of the last addition plus the timeout, nothing is pending any more.
\<close>

theorem aggregator_latency:
  assumes "agg_run mx t clock sent accepted a" "mx \<le> 65537" "clock + t \<le> now"
  shows "ag_parts (snd (agg_flush_due now a)) = [] \<and> ag_deadline (snd (agg_flush_due now a)) = None"
proof -
  obtain groups pending where g: "agg_inv mx t clock groups pending a"
    using agg_run_inv [OF assms(1,2)] by blast
  show ?thesis
  proof (cases "ag_deadline a")
    case None
    then show ?thesis using g by (auto simp: agg_flush_due_def agg_inv_def)
  next
    case (Some d)
    then have "d \<le> now" using g assms(3) by (auto simp: agg_inv_def)
    with Some show ?thesis by (simp add: agg_flush_due_def agg_flush_def)
  qed
qed

lemma aggregator_latency_witness:
  "ag_parts (snd (agg_flush_due 5 (aggregator_new 12 5))) = []"
  using aggregator_latency [OF agg_run.start [of 12 5], of 5] by simp

section \<open>The bridge\<close>

lemma strip_utun_af:
  assumes "utun_af_header af_inet af_inet6 packet = Inr header"
  shows "strip_utun_header af_inet af_inet6 (header @ packet) = Inr packet"
proof (cases packet)
  case Nil
  then show ?thesis using assms by (simp add: utun_af_header_def)
next
  case (Cons first rest)
  then have "header = be32 af_inet \<or> header = be32 af_inet6"
    using assms by (auto simp: utun_af_header_def Let_def split: if_splits)
  moreover have "strip_utun_header af_inet af_inet6 (be32 f @ packet) = Inr packet"
    if "f = af_inet \<or> f = af_inet6" for f
    using that be32.dec_enc [of f] Cons by (auto simp: strip_utun_header_def be32_def)
  ultimately show ?thesis by blast
qed

definition is_ip_packet :: "bytes \<Rightarrow> bool" where
  "is_ip_packet p \<longleftrightarrow> p \<noteq> [] \<and> drop_bit 4 (hd p) \<in> {4, 6}"

lemma utun_af_header_ok: "is_ip_packet p \<longleftrightarrow> is_ok (utun_af_header a b p)"
  by (cases p) (auto simp: is_ip_packet_def utun_af_header_def Let_def)

text \<open>
  A record that is not an IP packet ends the bridge: when a received tunnel message holds
  packets the device accepts and then a record that is empty or has an IP version other than 4
  and 6, the turn of the loop fails with that error, which the loop returns to its caller; the
  records before it have been written and the ones after it are lost.
\<close>

theorem bad_record_ends_bridge:
  fixes sys :: "('io, 'w) tun_io"
  assumes "\<forall>p \<in> set good. is_ip_packet p" "records_ok (good @ bad # others)" "\<not> is_ip_packet bad"
    and "\<forall>frame w. fst (io_tun_write sys frame w) = Inr (length frame)"
  shows "fst (on_udp_message sys (encode_records (good @ bad # others)) s) =
    Inl (case bad of [] \<Rightarrow> EmptyIpPacket | b # _ \<Rightarrow> UnsupportedIpVersion (drop_bit 4 b))"
proof -
  have "fst (write_packets sys (good @ bad # others) s') =
    Inl (case bad of [] \<Rightarrow> EmptyIpPacket | b # _ \<Rightarrow> UnsupportedIpVersion (drop_bit 4 b))" for s'
    using assms(1)
  proof (induction good arbitrary: s')
    case Nil
    then show ?case
      using assms(3) by (cases bad) (auto simp: utun_af_header_def is_ip_packet_def Let_def)
  next
    case (Cons p ps)
    then have "is_ok (utun_af_header (io_af_inet sys) (io_af_inet6 sys) p :: ('io tun_error, bytes) result)"
      using utun_af_header_ok by auto
    then obtain h where
      h: "(utun_af_header (io_af_inet sys) (io_af_inet6 sys) p :: ('io tun_error, bytes) result) = Inr h"
      by (auto simp: is_ok_iff)
    obtain w where "io_tun_write sys (h @ p) (ts_world s') = (Inr (length (h @ p)), w)"
      using assms(4) by (cases "io_tun_write sys (h @ p) (ts_world s')") (metis fst_conv)
    then show ?case using Cons h by (simp add: tun_write_all_def Let_def)
  qed
  then show ?thesis
    using parse_encode_records [OF assms(2)] by (simp add: on_udp_message_def Let_def split: prod.split)
qed

lemma bad_record_ends_bridge_witness:
  "fst (on_udp_message \<lparr>io_send = \<lambda>m w. (Inr (length m), w), io_tun_write = \<lambda>f w. (Inr (length f), w @ [f]),
        io_af_inet = 2, io_af_inet6 = 30\<rparr>
      (encode_records ([[0x45, 0]] @ [] # []))
      \<lparr>ts_aggregator = aggregator_new 1445 5, ts_counters = tun_counters_default, ts_next_keepalive = 0, ts_world = []\<rparr>) =
    (Inl EmptyIpPacket :: (unit tun_error, unit) result)"
  by (subst bad_record_ends_bridge) (simp_all add: is_ip_packet_def)

end
