(* ===== verification/Airtime.thy ===== *)
theory Airtime
  imports Radio_Session
begin

text \<open>
  The airtime schedule of the production runtime (\<open>crates/wfb-radio-runtime/src/lib.rs\<close>): continuous
  transmission, or time division with a receive and a transmit window, guards and a start delay.
  Durations are in nanoseconds.
\<close>

datatype airtime_mode = Continuous | Tdd

datatype tdd_window = TddRx | TddTx

record airtime_schedule =
  as_mode :: airtime_mode
  as_first_window :: tdd_window
  as_rx_window_ms :: u64
  as_tx_window_ms :: u64
  as_guard_ms :: u64
  as_start_delay_ms :: u64

definition airtime_continuous :: airtime_schedule where
  "airtime_continuous =
     \<lparr>as_mode = Continuous, as_first_window = TddRx, as_rx_window_ms = 1000, as_tx_window_ms = 1000,
      as_guard_ms = 0, as_start_delay_ms = 0\<rparr>"

definition airtime_tdd :: "tdd_window \<Rightarrow> u64 \<Rightarrow> u64 \<Rightarrow> u64 \<Rightarrow> u64 \<Rightarrow> airtime_schedule" where
  "airtime_tdd first rx tx guard start_delay =
     \<lparr>as_mode = Tdd, as_first_window = first, as_rx_window_ms = rx, as_tx_window_ms = tx,
      as_guard_ms = guard, as_start_delay_ms = start_delay\<rparr>"

definition validate_airtime :: "airtime_schedule \<Rightarrow> (radio_error, unit) result" where
  "validate_airtime self =
     (case as_mode self of
        Continuous \<Rightarrow> Inr ()
      | Tdd \<Rightarrow>
          if as_rx_window_ms self = 0
          then Inl (radio_error_new ''invalid_airtime_tdd_rx_window''
                 ''TDD airtime schedule requires tdd_rx_window_ms greater than zero'')
          else if as_tx_window_ms self = 0
          then Inl (radio_error_new ''invalid_airtime_tdd_tx_window''
                 ''TDD airtime schedule requires tdd_tx_window_ms greater than zero'')
          else Inr ())"

definition sat_mul :: "u64 \<Rightarrow> u64 \<Rightarrow> u64" where
  "sat_mul a b = (if unat a * unat b < 2 ^ 64 then a * b else - 1)"

text \<open>\<open>u64::try_from(elapsed.as_millis()).unwrap_or(u64::MAX)\<close>.\<close>

definition elapsed_millis :: "nat \<Rightarrow> u64" where
  "elapsed_millis elapsed = (let ms = elapsed div 1000000 in if ms < 2 ^ 64 then of_nat ms else - 1)"

definition tdd_tx_allowed_at_elapsed :: "airtime_schedule \<Rightarrow> nat \<Rightarrow> bool" where
  "tdd_tx_allowed_at_elapsed self elapsed =
     (let elapsed_ms = elapsed_millis elapsed in
      if elapsed_ms < as_start_delay_ms self then False
      else
        let rx = as_rx_window_ms self;
            tx = as_tx_window_ms self;
            guard = as_guard_ms self;
            cycle = sat_add (sat_add rx tx) (sat_mul guard 2)
        in if cycle = 0 then False
           else
             let offset = sat_sub elapsed_ms (as_start_delay_ms self) mod cycle in
             case as_first_window self of
               TddRx \<Rightarrow> (let tx_start = sat_add rx guard in
                         tx_start \<le> offset \<and> offset < sat_add tx_start tx)
             | TddTx \<Rightarrow> offset < tx)"

definition tx_allowed_at_elapsed :: "airtime_schedule \<Rightarrow> nat \<Rightarrow> bool" where
  "tx_allowed_at_elapsed self elapsed =
     (case as_mode self of Continuous \<Rightarrow> True | Tdd \<Rightarrow> tdd_tx_allowed_at_elapsed self elapsed)"

section \<open>The schedule in natural numbers\<close>

lemma unat_minus_1_u64: "unat (- 1 :: u64) = 2 ^ 64 - 1"
  by (simp add: unsigned_minus_1_eq_mask mask_eq_exp_minus_1)

lemma unat_sat_mul_2: "unat (sat_mul g 2) = min (2 * unat g) (2 ^ 64 - 1)"
proof (cases "unat g * 2 < 2 ^ 64")
  case True
  then have "unat (g * 2) = unat g * 2" by (simp add: unat_word_ariths)
  then show ?thesis using True by (simp add: sat_mul_def)
next
  case False
  then show ?thesis by (simp add: sat_mul_def unat_minus_1_u64)
qed

lemma unat_elapsed_millis: "unat (elapsed_millis e) = min (e div 1000000) (2 ^ 64 - 1)"
proof (cases "e div 1000000 < 2 ^ 64")
  case True
  then show ?thesis by (simp add: elapsed_millis_def unat_of_nat)
next
  case False
  then show ?thesis by (simp add: elapsed_millis_def unat_minus_1_u64)
qed

definition tdd_cycle_ms :: "airtime_schedule \<Rightarrow> nat" where
  "tdd_cycle_ms s = unat (as_rx_window_ms s) + unat (as_tx_window_ms s) + 2 * unat (as_guard_ms s)"

text \<open>The transmit window, as a set of offsets in a cycle of natural length.\<close>

definition in_tx_window :: "airtime_schedule \<Rightarrow> nat \<Rightarrow> bool" where
  "in_tx_window s offset \<longleftrightarrow>
     (case as_first_window s of
        TddRx \<Rightarrow> unat (as_rx_window_ms s) + unat (as_guard_ms s) \<le> offset \<and>
                 offset < unat (as_rx_window_ms s) + unat (as_guard_ms s) + unat (as_tx_window_ms s)
      | TddTx \<Rightarrow> offset < unat (as_tx_window_ms s))"

lemma tdd_allowed_nat:
  assumes "as_mode s = Tdd" "validate_airtime s = Inr ()" "tdd_cycle_ms s < 2 ^ 64"
    and "elapsed div 1000000 < 2 ^ 64"
  shows "tx_allowed_at_elapsed s elapsed \<longleftrightarrow>
    unat (as_start_delay_ms s) \<le> elapsed div 1000000 \<and>
    in_tx_window s ((elapsed div 1000000 - unat (as_start_delay_ms s)) mod tdd_cycle_ms s)"
proof -
  let ?rx = "as_rx_window_ms s" and ?tx = "as_tx_window_ms s" and ?g = "as_guard_ms s"
  have pos: "0 < tdd_cycle_ms s"
    using assms(1,2) by (auto simp: validate_airtime_def tdd_cycle_ms_def unat_gt_0 split: if_splits)
  have cycle: "unat (sat_add (sat_add ?rx ?tx) (sat_mul ?g 2)) = tdd_cycle_ms s"
    using assms(3) by (simp add: tdd_cycle_ms_def unat_sat_add unat_sat_mul_2)
  then have ne: "sat_add (sat_add ?rx ?tx) (sat_mul ?g 2) \<noteq> 0"
    using pos by (metis less_irrefl unat_0)
  have off: "unat (sat_sub (elapsed_millis elapsed) (as_start_delay_ms s) mod sat_add (sat_add ?rx ?tx) (sat_mul ?g 2)) =
      (elapsed div 1000000 - unat (as_start_delay_ms s)) mod tdd_cycle_ms s"
    using assms(4) by (simp add: unat_mod unat_sat_sub unat_elapsed_millis cycle)
  have start: "unat (sat_add ?rx ?g) = unat ?rx + unat ?g"
    and stop: "unat (sat_add (sat_add ?rx ?g) ?tx) = unat ?rx + unat ?g + unat ?tx"
    using assms(3) by (simp_all add: tdd_cycle_ms_def unat_sat_add)
  have "elapsed_millis elapsed < as_start_delay_ms s \<longleftrightarrow> elapsed div 1000000 < unat (as_start_delay_ms s)"
    using assms(4) by (simp add: word_less_nat_alt unat_elapsed_millis)
  then show ?thesis
    using assms(1) ne
    by (auto simp: tx_allowed_at_elapsed_def tdd_tx_allowed_at_elapsed_def Let_def in_tx_window_def
        word_less_nat_alt word_le_nat_alt off start stop split: tdd_window.split)
qed

text \<open>
  A validated time division schedule whose cycle fits 64 bits transmits exactly in its window:
  from the start delay on, in every cycle of receive window, transmit window and two guards, for
  the configured transmit window and at no other time.
\<close>

lemma tdd_window_exact:
  assumes "as_mode s = Tdd" "validate_airtime s = Inr ()" "tdd_cycle_ms s < 2 ^ 64"
    and "(unat (as_start_delay_ms s) + k * tdd_cycle_ms s + offset) < 2 ^ 64"
    and "offset < tdd_cycle_ms s"
  shows "tx_allowed_at_elapsed s ((unat (as_start_delay_ms s) + k * tdd_cycle_ms s + offset) * 1000000) \<longleftrightarrow>
    in_tx_window s offset"
  using tdd_allowed_nat [OF assms(1,2,3), of "(unat (as_start_delay_ms s) + k * tdd_cycle_ms s + offset) * 1000000"]
    assms(4,5) by simp

section \<open>Two stations\<close>

text \<open>The peer of a schedule: the windows exchanged, the other one first.\<close>

definition mirrored :: "airtime_schedule \<Rightarrow> airtime_schedule \<Rightarrow> bool" where
  "mirrored a b \<longleftrightarrow> as_mode a = Tdd \<and> as_mode b = Tdd \<and> as_first_window a = TddTx \<and> as_first_window b = TddRx \<and>
     as_tx_window_ms a = as_rx_window_ms b \<and> as_rx_window_ms a = as_tx_window_ms b \<and>
     as_guard_ms a = as_guard_ms b \<and> as_start_delay_ms a = as_start_delay_ms b"

lemma mod_windows_disjoint:
  fixes x y t r g :: nat
  assumes c: "c = t + r + 2 * g" and x: "x mod c < t" and y: "t + g \<le> y mod c" "y mod c < t + g + r"
    and near: "x \<le> y + g" "y \<le> x + g"
  shows False
proof -
  define p q a b where "p = x div c" and "q = y div c" and "a = x mod c" and "b = y mod c"
  have xe: "x = p * c + a" and ye: "y = q * c + b"
    by (simp_all add: p_def q_def a_def b_def)
  have a: "a < t" and b: "t + g \<le> b" "b < t + g + r"
    using x y by (simp_all add: a_def b_def)
  consider "p = q" | "p < q" | "q < p" by linarith
  then show False
  proof cases
    case 1
    with xe ye a b near show False by simp
  next
    case 2
    then have "(p + 1) * c \<le> q * c" by (intro mult_right_mono) auto
    then have "p * c + c \<le> q * c" by simp
    with xe ye a b near c show False by linarith
  next
    case 3
    then have "(q + 1) * c \<le> p * c" by (intro mult_right_mono) auto
    then have "q * c + c \<le> p * c" by simp
    with xe ye a b near c show False by linarith
  qed
qed

text \<open>
  C17. Two stations with mirrored time division schedules never transmit at the same time, even
  when their clocks differ: if one may transmit at its elapsed time \<open>x\<close> and the other at its elapsed
  time \<open>y\<close> (in milliseconds), then \<open>x\<close> and \<open>y\<close> are more than the guard interval apart.
\<close>

theorem mirrored_schedules_never_collide:
  assumes "mirrored a b" "validate_airtime a = Inr ()" "validate_airtime b = Inr ()"
    and "tdd_cycle_ms a < 2 ^ 64" "x div 1000000 < 2 ^ 64" "y div 1000000 < 2 ^ 64"
    and "tx_allowed_at_elapsed a x" "tx_allowed_at_elapsed b y"
  shows "x div 1000000 + unat (as_guard_ms a) < y div 1000000 \<or>
         y div 1000000 + unat (as_guard_ms a) < x div 1000000"
proof (rule ccontr)
  let ?t = "unat (as_tx_window_ms a)" and ?r = "unat (as_rx_window_ms a)" and ?g = "unat (as_guard_ms a)"
  let ?d = "unat (as_start_delay_ms a)"
  let ?x = "x div 1000000" and ?y = "y div 1000000"
  assume near: "\<not> (?x + ?g < ?y \<or> ?y + ?g < ?x)"
  have cb: "tdd_cycle_ms b = tdd_cycle_ms a" and c: "tdd_cycle_ms a = ?t + ?r + 2 * ?g"
    using assms(1) by (simp_all add: mirrored_def tdd_cycle_ms_def)
  have A: "?d \<le> ?x" "(?x - ?d) mod tdd_cycle_ms a < ?t"
    using tdd_allowed_nat [of a x] assms by (simp_all add: mirrored_def in_tx_window_def)
  have B: "?d \<le> ?y" "?t + ?g \<le> (?y - ?d) mod tdd_cycle_ms a" "(?y - ?d) mod tdd_cycle_ms a < ?t + ?g + ?r"
    using tdd_allowed_nat [of b y] assms cb by (simp_all add: mirrored_def in_tx_window_def)
  show False
    by (rule mod_windows_disjoint [OF c A(2) B(2,3)]) (use near A(1) B(1) in linarith)+
qed

lemma mirrored_schedules_never_collide_witness:
  "tx_allowed_at_elapsed (airtime_tdd TddTx 10 20 5 0) 0 \<and>
   tx_allowed_at_elapsed (airtime_tdd TddRx 20 10 5 0) 25000000 \<and> (0::nat) + 5 < 25"
proof -
  have a: "tx_allowed_at_elapsed (airtime_tdd TddTx 10 20 5 0) 0"
    and b: "tx_allowed_at_elapsed (airtime_tdd TddRx 20 10 5 0) 25000000"
    by (simp_all add: tx_allowed_at_elapsed_def airtime_tdd_def tdd_tx_allowed_at_elapsed_def elapsed_millis_def
        sat_mul_def sat_add_def sat_sub_def)
  have "(0::nat) div 1000000 + unat (as_guard_ms (airtime_tdd TddTx 10 20 5 0)) < 25000000 div 1000000 \<or>
     25000000 div 1000000 + unat (as_guard_ms (airtime_tdd TddTx 10 20 5 0)) < (0::nat) div 1000000"
    by (rule mirrored_schedules_never_collide [OF _ _ _ _ _ _ a b])
      (simp_all add: mirrored_def airtime_tdd_def validate_airtime_def tdd_cycle_ms_def)
  with a b show ?thesis by (simp add: airtime_tdd_def)
qed

end
