(* ===== verification/Bridge_Loop.thy ===== *)
theory Bridge_Loop
  imports Airtime
begin

text \<open>
  The scheduling loop \<open>run_production_bridge_loop\<close> of \<open>crates/wfb-radio-runtime/src/lib.rs\<close>: bursts of
  transmissions inside the airtime windows, one receive poll per iteration, and the stop
  conditions.  The clock and the three callbacks act on a world \<open>'w\<close>; instants and durations are
  nanoseconds.
\<close>

section \<open>Configuration and state\<close>

record bridge_loop_config =
  lc_duration :: "nat option"
  lc_rx_timeout :: nat
  lc_tx_burst_limit :: u32
  lc_tx_min_interval :: nat
  lc_max_datagrams :: u64
  lc_schedule :: airtime_schedule

definition loop_config_from_bounds :: "u64 \<Rightarrow> u64 \<Rightarrow> u32 \<Rightarrow> u64 \<Rightarrow> bridge_loop_config" where
  "loop_config_from_bounds duration_ms rx_timeout_ms tx_burst_limit max_datagrams =
     \<lparr>lc_duration = (if duration_ms \<noteq> 0 then Some (unat duration_ms * 1000000) else None),
      lc_rx_timeout = unat rx_timeout_ms * 1000000, lc_tx_burst_limit = tx_burst_limit,
      lc_tx_min_interval = 0, lc_max_datagrams = max_datagrams, lc_schedule = airtime_continuous\<rparr>"

definition with_tx_min_interval :: "u64 \<Rightarrow> bridge_loop_config \<Rightarrow> bridge_loop_config" where
  "with_tx_min_interval tx_min_interval_us self = self\<lparr>lc_tx_min_interval := unat tx_min_interval_us * 1000\<rparr>"

definition with_airtime_schedule :: "airtime_schedule \<Rightarrow> bridge_loop_config \<Rightarrow> bridge_loop_config" where
  "with_airtime_schedule schedule self = self\<lparr>lc_schedule := schedule\<rparr>"

datatype stop_reason = StopSignal | StopDurationElapsed | StopTxDatagramLimit

datatype loop_step = TryTx | ReadRx nat

datatype step_outcome =
    TxProcessed | TxEmpty | TxDisconnected | RxRead | RxTimeout | StopLoop stop_reason

record loop_outcome =
  lo_stop_reason :: stop_reason
  lo_tx_datagrams_processed :: u64
  lo_iterations :: u64
  lo_tx_polls :: u64
  lo_rx_polls :: u64
  lo_airtime_tx_allowed_iterations :: u64
  lo_airtime_tx_gated_iterations :: u64

record loop_state =
  ls_tx :: u64
  ls_iterations :: u64
  ls_tx_polls :: u64
  ls_rx_polls :: u64
  ls_allowed :: u64
  ls_gated :: u64
  ls_last_tx :: "nat option"

record ('e, 'w) loop_env =
  le_clock :: "'w \<Rightarrow> nat \<times> 'w"
  le_on_iteration_start :: "nat \<Rightarrow> 'w \<Rightarrow> 'w"
  le_stop_requested :: "'w \<Rightarrow> bool \<times> 'w"
  le_handle_step :: "loop_step \<Rightarrow> 'w \<Rightarrow> ('e, step_outcome) result \<times> 'w"

definition loop_start :: loop_state where
  "loop_start =
     \<lparr>ls_tx = 0, ls_iterations = 0, ls_tx_polls = 0, ls_rx_polls = 0, ls_allowed = 0, ls_gated = 0,
      ls_last_tx = None\<rparr>"

definition loop_result :: "stop_reason \<Rightarrow> loop_state \<Rightarrow> loop_outcome" where
  "loop_result reason s =
     \<lparr>lo_stop_reason = reason, lo_tx_datagrams_processed = ls_tx s, lo_iterations = ls_iterations s,
      lo_tx_polls = ls_tx_polls s, lo_rx_polls = ls_rx_polls s,
      lo_airtime_tx_allowed_iterations = ls_allowed s, lo_airtime_tx_gated_iterations = ls_gated s\<rparr>"

text \<open>A part of an iteration either returns from the function or goes on with a new state.\<close>

datatype ('e) flow = Return "('e, loop_outcome) result" | Continue loop_state

section \<open>The loop\<close>

function tx_burst ::
    "bridge_loop_config \<Rightarrow> ('e, 'w) loop_env \<Rightarrow> nat \<Rightarrow> u32 \<Rightarrow> loop_state \<Rightarrow> 'w \<Rightarrow> 'e flow \<times> 'w" where
  "tx_burst cfg env now count s w =
     (if (lc_max_datagrams cfg = 0 \<or> ls_tx s < lc_max_datagrams cfg) \<and> count < lc_tx_burst_limit cfg then
        if (case ls_last_tx s of Some last_tx \<Rightarrow> now - last_tx < lc_tx_min_interval cfg | None \<Rightarrow> False)
        then (Continue s, w)
        else
          let s = s\<lparr>ls_tx_polls := sat_add (ls_tx_polls s) 1\<rparr>;
              (r, w) = le_handle_step env TryTx w
          in case r of
               Inl e \<Rightarrow> (Return (Inl e), w)
             | Inr TxProcessed \<Rightarrow>
                 (let (t, w) = le_clock env w in
                  tx_burst cfg env now (sat_add count 1)
                    (s\<lparr>ls_tx := sat_add (ls_tx s) 1, ls_last_tx := Some t\<rparr>) w)
             | Inr TxEmpty \<Rightarrow> (Continue s, w)
             | Inr TxDisconnected \<Rightarrow> (Continue s, w)
             | Inr (StopLoop reason) \<Rightarrow> (Return (Inr (loop_result reason s)), w)
             | Inr RxRead \<Rightarrow> (Continue s, w)
             | Inr RxTimeout \<Rightarrow> (Continue s, w)
      else (Continue s, w))"
  by pat_completeness auto

lemma sat_add_1_less: "a < b \<Longrightarrow> unat (sat_add a 1) = unat a + 1"
  for a b :: "'a::len word"
proof -
  assume "a < b"
  then have "unat a + 1 \<le> unat b" by (simp add: word_less_nat_alt)
  also have "unat b < 2 ^ LENGTH('a)" by (rule unsigned_less)
  finally show ?thesis by (simp add: unat_sat_add)
qed

termination tx_burst
proof (relation "measure (\<lambda>(cfg, _, _, count, _, _). unat (lc_tx_burst_limit cfg) - unat count)")
  fix cfg :: bridge_loop_config and env :: "('e, 'w) loop_env" and now count s w
  assume "(lc_max_datagrams cfg = 0 \<or> ls_tx s < lc_max_datagrams cfg) \<and> count < lc_tx_burst_limit cfg"
  then have "count < lc_tx_burst_limit cfg" by simp
  then have "unat (sat_add count 1) = unat count + 1" "unat count < unat (lc_tx_burst_limit cfg)"
    by (simp_all add: sat_add_1_less word_less_nat_alt)
  then show "((cfg, env, now, sat_add count 1, s', w'), (cfg, env, now, count, s, w))
      \<in> measure (\<lambda>(cfg, _, _, count, _, _). unat (lc_tx_burst_limit cfg) - unat count)" for s' w'
    by simp
qed simp

declare tx_burst.simps [simp del]

definition next_iteration :: "loop_state \<Rightarrow> loop_state" where
  "next_iteration s = s\<lparr>ls_iterations := sat_add (ls_iterations s) 1\<rparr>"

definition allow_iteration :: "loop_state \<Rightarrow> loop_state" where
  "allow_iteration s = s\<lparr>ls_allowed := sat_add (ls_allowed s) 1\<rparr>"

definition gate_iteration :: "loop_state \<Rightarrow> loop_state" where
  "gate_iteration s = s\<lparr>ls_gated := sat_add (ls_gated s) 1\<rparr>"

definition poll_iteration :: "loop_state \<Rightarrow> loop_state" where
  "poll_iteration s = s\<lparr>ls_rx_polls := sat_add (ls_rx_polls s) 1\<rparr>"

text \<open>The conditions at the top of an iteration: stop request, deadline, datagram limit.\<close>

definition stop_phase ::
    "bridge_loop_config \<Rightarrow> ('e, 'w) loop_env \<Rightarrow> nat option \<Rightarrow> loop_state \<Rightarrow> 'w \<Rightarrow> 'e flow \<times> 'w" where
  "stop_phase cfg env deadline s w =
     (let (stop, w) = le_stop_requested env w
      in if stop then (Return (Inr (loop_result StopSignal s)), w)
         else
           let (expired, w) = (case deadline of
                 Some d \<Rightarrow> (let (t, w) = le_clock env w in (d \<le> t, w))
               | None \<Rightarrow> (False, w))
           in if expired then (Return (Inr (loop_result StopDurationElapsed s)), w)
              else if deadline = None \<and> lc_max_datagrams cfg \<noteq> 0 \<and> lc_max_datagrams cfg \<le> ls_tx s
              then (Return (Inr (loop_result StopTxDatagramLimit s)), w)
              else (Continue s, w))"

text \<open>The instant of the iteration, the tick hook and the transmissions.\<close>

definition tx_phase ::
    "bridge_loop_config \<Rightarrow> ('e, 'w) loop_env \<Rightarrow> nat \<Rightarrow> loop_state \<Rightarrow> 'w \<Rightarrow> 'e flow \<times> 'w" where
  "tx_phase cfg env started s w =
     (let (now, w) = le_clock env w;
          w = le_on_iteration_start env now w
      in if tx_allowed_at_elapsed (lc_schedule cfg) (now - started)
         then tx_burst cfg env now 0 (allow_iteration s) w
         else (Continue (gate_iteration s), w))"

text \<open>The remaining time and the receive poll.\<close>

definition rx_phase ::
    "bridge_loop_config \<Rightarrow> ('e, 'w) loop_env \<Rightarrow> nat option \<Rightarrow> loop_state \<Rightarrow> 'w \<Rightarrow> 'e flow \<times> 'w" where
  "rx_phase cfg env deadline s w =
     (let (timeout, w) = (case deadline of
            Some d \<Rightarrow>
              (let (t, w) = le_clock env w in
               (if d - t = 0 then None else Some (min (lc_rx_timeout cfg) (d - t)), w))
          | None \<Rightarrow> (Some (lc_rx_timeout cfg), w))
      in case timeout of
           None \<Rightarrow> (Return (Inr (loop_result StopDurationElapsed s)), w)
         | Some timeout \<Rightarrow>
             (let s = poll_iteration s;
                  (r, w) = le_handle_step env (ReadRx timeout) w
              in case r of
                   Inl e \<Rightarrow> (Return (Inl e), w)
                 | Inr (StopLoop reason) \<Rightarrow> (Return (Inr (loop_result reason s)), w)
                 | Inr _ \<Rightarrow> (Continue s, w)))"

text \<open>Running one phase after another, unless it returned.\<close>

definition then_phase :: "'e flow \<times> 'w \<Rightarrow> (loop_state \<Rightarrow> 'w \<Rightarrow> 'e flow \<times> 'w) \<Rightarrow> 'e flow \<times> 'w" where
  "then_phase p k = (case fst p of Return r \<Rightarrow> (Return r, snd p) | Continue s \<Rightarrow> k s (snd p))"

text \<open>One turn of \<open>loop\<close>; \<open>started\<close> is the instant the function was entered.\<close>

definition bridge_iteration ::
    "bridge_loop_config \<Rightarrow> ('e, 'w) loop_env \<Rightarrow> nat \<Rightarrow> loop_state \<Rightarrow> 'w \<Rightarrow> 'e flow \<times> 'w" where
  "bridge_iteration cfg env started s w =
     (let deadline = map_option (\<lambda>d. started + d) (lc_duration cfg) in
      then_phase (stop_phase cfg env deadline (next_iteration s) w) (\<lambda>s w.
      then_phase (tx_phase cfg env started s w) (\<lambda>s w.
      rx_phase cfg env deadline s w)))"

text \<open>The loop has no bound of its own, so its value is \<open>None\<close> when it never returns.\<close>

partial_function (option) bridge_loop ::
    "bridge_loop_config \<Rightarrow> ('e, 'w) loop_env \<Rightarrow> nat \<Rightarrow> loop_state \<Rightarrow> 'w \<Rightarrow>
     (('e, loop_outcome) result \<times> 'w) option" where
  "bridge_loop cfg env started s w =
     (case bridge_iteration cfg env started s w of
        (Return r, w) \<Rightarrow> Some (r, w)
      | (Continue s, w) \<Rightarrow> bridge_loop cfg env started s w)"

definition run_production_bridge_loop ::
    "bridge_loop_config \<Rightarrow> ('e, 'w) loop_env \<Rightarrow> 'w \<Rightarrow> (('e, loop_outcome) result \<times> 'w) option" where
  "run_production_bridge_loop cfg env w =
     (let (started, w) = le_clock env w in bridge_loop cfg env started loop_start w)"

section \<open>Bounds\<close>

text \<open>What a burst may change: it transmits at most \<open>n\<close> datagrams and touches nothing but its own fields.\<close>

definition burst_rel :: "bridge_loop_config \<Rightarrow> nat \<Rightarrow> loop_state \<Rightarrow> loop_state \<Rightarrow> bool" where
  "burst_rel cfg n s s' \<longleftrightarrow>
     ls_iterations s' = ls_iterations s \<and> ls_rx_polls s' = ls_rx_polls s \<and> ls_allowed s' = ls_allowed s \<and>
     ls_gated s' = ls_gated s \<and> unat (ls_tx s') \<le> unat (ls_tx s) + n \<and>
     (lc_max_datagrams cfg = 0 \<or> ls_tx s \<le> lc_max_datagrams cfg \<longrightarrow>
        lc_max_datagrams cfg = 0 \<or> ls_tx s' \<le> lc_max_datagrams cfg) \<and>
     (ls_tx s \<le> ls_tx_polls s \<longrightarrow> ls_tx s' \<le> ls_tx_polls s')"

definition flow_rel :: "(loop_state \<Rightarrow> bool) \<Rightarrow> 'e flow \<Rightarrow> bool" where
  "flow_rel P f \<longleftrightarrow>
     (case f of
        Continue s \<Rightarrow> P s
      | Return (Inr out) \<Rightarrow> (\<exists>reason s. out = loop_result reason s \<and> P s)
      | Return (Inl _) \<Rightarrow> True)"

lemma flow_rel_simps [simp]:
  "flow_rel P (Continue s) \<longleftrightarrow> P s" "flow_rel P (Return (Inl e))"
  "flow_rel P (Return (Inr out)) \<longleftrightarrow> (\<exists>reason s. out = loop_result reason s \<and> P s)"
  by (simp_all add: flow_rel_def)

lemma flow_rel_mono: "flow_rel P f \<Longrightarrow> (\<And>s. P s \<Longrightarrow> Q s) \<Longrightarrow> flow_rel Q f"
  by (auto simp: flow_rel_def split: flow.splits sum.splits)

lemma sat_add_1_mono: "a \<le> b \<Longrightarrow> sat_add a 1 \<le> sat_add b 1"
  for a b :: "'a::len word"
  by (simp add: word_le_nat_alt unat_sat_add)

lemma burst_rel_poll: "burst_rel cfg n s (s\<lparr>ls_tx_polls := sat_add (ls_tx_polls s) 1\<rparr>)"
  using sat_add_mono [of "ls_tx_polls s" 1] by (auto simp: burst_rel_def intro: order_trans)

lemma burst_rel_refl: "burst_rel cfg n s s"
  by (simp add: burst_rel_def)

lemma burst_rel_sent:
  assumes "lc_max_datagrams cfg = 0 \<or> ls_tx s < lc_max_datagrams cfg"
    and "burst_rel cfg n
      (s\<lparr>ls_tx_polls := sat_add (ls_tx_polls s) 1, ls_tx := sat_add (ls_tx s) 1, ls_last_tx := l\<rparr>) s'"
  shows "burst_rel cfg (n + 1) s s'"
proof -
  have "lc_max_datagrams cfg = 0 \<or> sat_add (ls_tx s) 1 \<le> lc_max_datagrams cfg"
    using assms(1) sat_add_1_less [of "ls_tx s" "lc_max_datagrams cfg"]
    by (auto simp: word_le_nat_alt word_less_nat_alt)
  moreover have "unat (sat_add (ls_tx s) 1) \<le> unat (ls_tx s) + 1"
    by (simp add: unat_sat_add)
  ultimately show ?thesis
    using assms(2) sat_add_1_mono [of "ls_tx s" "ls_tx_polls s"] by (auto simp: burst_rel_def)
qed

lemma tx_burst_rel:
  "flow_rel (burst_rel cfg (unat (lc_tx_burst_limit cfg) - unat count) s)
     (fst (tx_burst cfg env now count s w))"
proof (induction cfg env now count s w rule: tx_burst.induct)
  case (1 cfg env now count s w)
  let ?run = "(lc_max_datagrams cfg = 0 \<or> ls_tx s < lc_max_datagrams cfg) \<and> count < lc_tx_burst_limit cfg"
  let ?wait = "case ls_last_tx s of Some last_tx \<Rightarrow> now - last_tx < lc_tx_min_interval cfg | None \<Rightarrow> False"
  let ?n = "unat (lc_tx_burst_limit cfg) - unat count"
  let ?s = "s\<lparr>ls_tx_polls := sat_add (ls_tx_polls s) 1\<rparr>"
  show ?case
  proof (cases "?run \<and> \<not> ?wait")
    case False
    then show ?thesis by (auto simp: tx_burst.simps [of cfg env now count s w] burst_rel_refl)
  next
    case True
    obtain r w1 where step: "le_handle_step env TryTx w = (r, w1)" by (cases "le_handle_step env TryTx w")
    show ?thesis
    proof (cases "r = Inr TxProcessed")
      case False
      then show ?thesis
        using True step burst_rel_poll [of cfg ?n s]
        by (auto simp: tx_burst.simps [of cfg env now count s w] Let_def split: sum.split step_outcome.split)
    next
      case sent: True
      obtain t w2 where clock: "le_clock env w1 = (t, w2)" by (cases "le_clock env w1")
      have less: "count < lc_tx_burst_limit cfg" using True by simp
      then have count: "unat (sat_add count 1) = unat count + 1" "unat count < unat (lc_tx_burst_limit cfg)"
        using sat_add_1_less [OF less] by (simp_all add: word_less_nat_alt)
      let ?s2 = "?s\<lparr>ls_tx := sat_add (ls_tx ?s) 1, ls_last_tx := Some t\<rparr>"
      have "flow_rel (burst_rel cfg (unat (lc_tx_burst_limit cfg) - unat (sat_add count 1)) ?s2)
          (fst (tx_burst cfg env now (sat_add count 1) ?s2 w2))"
        using "1.IH" True step sent clock by simp
      then have "flow_rel (burst_rel cfg (unat (lc_tx_burst_limit cfg) - unat (sat_add count 1) + 1) s)
          (fst (tx_burst cfg env now (sat_add count 1) ?s2 w2))"
        by (rule flow_rel_mono) (rule burst_rel_sent, use True in simp_all)
      moreover have "unat (lc_tx_burst_limit cfg) - unat (sat_add count 1) + 1 = ?n" using count by simp
      ultimately have "flow_rel (burst_rel cfg ?n s) (fst (tx_burst cfg env now (sat_add count 1) ?s2 w2))"
        by simp
      then show ?thesis
        using True step sent clock by (simp add: tx_burst.simps [of cfg env now count s w] Let_def)
    qed
  qed
qed

text \<open>The invariant of the loop; \<open>slack\<close> is 1 in an iteration that has not been classified yet.\<close>

definition loop_inv :: "bridge_loop_config \<Rightarrow> nat \<Rightarrow> loop_state \<Rightarrow> bool" where
  "loop_inv cfg slack s \<longleftrightarrow>
     (lc_max_datagrams cfg = 0 \<or> ls_tx s \<le> lc_max_datagrams cfg) \<and>
     unat (ls_tx s) \<le> unat (ls_allowed s) * unat (lc_tx_burst_limit cfg) \<and>
     ls_tx s \<le> ls_tx_polls s \<and> ls_rx_polls s \<le> ls_iterations s \<and>
     unat (ls_iterations s) \<le> unat (ls_allowed s) + unat (ls_gated s) + slack"

lemma loop_inv_start: "loop_inv cfg 0 loop_start"
  by (simp add: loop_inv_def loop_start_def)

lemma loop_inv_slack: "loop_inv cfg 0 s \<Longrightarrow> loop_inv cfg 1 s"
  by (auto simp: loop_inv_def)

lemma loop_inv_next: "loop_inv cfg 0 s \<Longrightarrow> loop_inv cfg 1 (next_iteration s)"
  using sat_add_mono [of "ls_iterations s" 1]
  by (auto simp: loop_inv_def next_iteration_def unat_sat_add intro: order_trans)

lemma u64_max: "unat (w :: u64) \<le> 2 ^ 64 - 1"
  using u64_bound [of w] by simp

lemma sat_mult_bound:
  fixes t a0 :: u64 and n :: nat
  assumes "unat t \<le> unat a0 * n" "unat t' \<le> unat t + n"
  shows "unat (t' :: u64) \<le> unat (sat_add a0 1) * n"
proof (cases "unat a0 + 1 \<le> 2 ^ 64 - 1")
  case True
  then have "unat (sat_add a0 1) = unat a0 + 1" by (simp add: unat_sat_add)
  with assms show ?thesis by simp
next
  case False
  then have a: "unat (sat_add a0 1) = 2 ^ 64 - 1" by (simp add: unat_sat_add)
  show ?thesis
  proof (cases n)
    case 0
    then show ?thesis using assms by simp
  next
    case (Suc m)
    have "unat t' \<le> (2 ^ 64 - 1) * 1" using u64_max [of t'] by simp
    also have "\<dots> \<le> (2 ^ 64 - 1) * n" using Suc by (intro mult_left_mono) simp_all
    finally show ?thesis by (simp only: a)
  qed
qed

lemma sat_count_bound:
  fixes i a g :: u64
  assumes "unat i \<le> unat a + unat g"
  shows "unat (sat_add i 1) \<le> unat (sat_add a 1) + unat g"
proof (cases "unat a + 1 \<le> 2 ^ 64 - 1")
  case True
  then show ?thesis using assms by (simp add: unat_sat_add)
next
  case False
  then have "unat (sat_add a 1) = 2 ^ 64 - 1" by (simp add: unat_sat_add)
  then show ?thesis using u64_max [of "sat_add i 1"] by simp
qed

lemma loop_inv_burst:
  assumes inv: "loop_inv cfg 0 s"
    and rel: "burst_rel cfg (unat (lc_tx_burst_limit cfg)) (allow_iteration (next_iteration s)) s'"
  shows "loop_inv cfg 0 s' \<and> loop_inv cfg 0 (poll_iteration s')"
proof -
  note defs = loop_inv_def burst_rel_def allow_iteration_def next_iteration_def poll_iteration_def
  have tx: "unat (ls_tx s') \<le> unat (ls_allowed s') * unat (lc_tx_burst_limit cfg)"
    using sat_mult_bound [of "ls_tx s" "ls_allowed s" "unat (lc_tx_burst_limit cfg)" "ls_tx s'"] inv rel
    by (simp add: defs)
  have it: "unat (ls_iterations s') \<le> unat (ls_allowed s') + unat (ls_gated s')"
    using sat_count_bound [of "ls_iterations s" "ls_allowed s" "ls_gated s"] inv rel by (simp add: defs)
  have "ls_rx_polls s \<le> ls_iterations s" using inv by (simp add: defs)
  then have "ls_rx_polls s' \<le> ls_iterations s'" "sat_add (ls_rx_polls s') 1 \<le> ls_iterations s'"
    using rel sat_add_1_mono [of "ls_rx_polls s" "ls_iterations s"] sat_add_mono [of "ls_iterations s" 1]
    by (auto simp: defs intro: order_trans)
  with tx it inv rel show ?thesis by (auto simp: defs)
qed

lemma loop_inv_gated:
  assumes inv: "loop_inv cfg 0 s"
  shows "loop_inv cfg 0 (gate_iteration (next_iteration s)) \<and>
    loop_inv cfg 0 (poll_iteration (gate_iteration (next_iteration s)))"
proof -
  note defs = loop_inv_def gate_iteration_def next_iteration_def poll_iteration_def
  have it: "unat (sat_add (ls_iterations s) 1) \<le> unat (ls_allowed s) + unat (sat_add (ls_gated s) 1)"
    using sat_count_bound [of "ls_iterations s" "ls_gated s" "ls_allowed s"] inv by (simp add: defs add.commute)
  have "ls_rx_polls s \<le> sat_add (ls_iterations s) 1" "sat_add (ls_rx_polls s) 1 \<le> sat_add (ls_iterations s) 1"
    using inv sat_add_1_mono [of "ls_rx_polls s" "ls_iterations s"] sat_add_mono [of "ls_iterations s" 1]
    by (auto simp: defs intro: order_trans)
  with it inv show ?thesis by (simp add: defs)
qed

lemma bridge_iteration_inv:
  assumes inv: "loop_inv cfg 0 s"
  shows "flow_rel (loop_inv cfg 1) (fst (bridge_iteration cfg env started s w)) \<and>
    (\<forall>s'. fst (bridge_iteration cfg env started s w) = Continue s' \<longrightarrow> loop_inv cfg 0 s')"
proof -
  let ?d = "map_option (\<lambda>d. started + d) (lc_duration cfg)"
  obtain f1 w1 where p1: "stop_phase cfg env ?d (next_iteration s) w = (f1, w1)"
    by (cases "stop_phase cfg env ?d (next_iteration s) w")
  obtain f2 w2 where p2: "tx_phase cfg env started (next_iteration s) w1 = (f2, w2)"
    by (cases "tx_phase cfg env started (next_iteration s) w1")
  have 1: "flow_rel (\<lambda>s'. s' = next_iteration s) f1"
    using p1 by (auto simp: stop_phase_def Let_def split: prod.splits if_splits)
  have tx_inv: "flow_rel (\<lambda>s'. loop_inv cfg 0 s' \<and> loop_inv cfg 0 (poll_iteration s')) f2"
  proof (rule flow_rel_mono)
    show "flow_rel (\<lambda>s'. burst_rel cfg (unat (lc_tx_burst_limit cfg)) (allow_iteration (next_iteration s)) s' \<or>
        s' = gate_iteration (next_iteration s)) f2"
      using p2 tx_burst_rel [of cfg 0 "allow_iteration (next_iteration s)" env]
      by (auto simp: tx_phase_def Let_def split: prod.splits if_splits elim!: flow_rel_mono)
        (metis (no_types, lifting) flow_rel_mono fst_conv)
  qed (use loop_inv_burst [OF inv] loop_inv_gated [OF inv] in blast)
  have rx: "flow_rel (loop_inv cfg 0) (fst (rx_phase cfg env ?d s' w'))"
    if "loop_inv cfg 0 s'" "loop_inv cfg 0 (poll_iteration s')" for s' w'
    using that by (auto simp: rx_phase_def Let_def split: prod.splits option.splits sum.splits step_outcome.splits)
  have body: "flow_rel (loop_inv cfg 0) (fst (then_phase (f2, w2) (\<lambda>s w. rx_phase cfg env ?d s w)))"
  proof (cases f2)
    case (Return r)
    then show ?thesis using tx_inv by (cases r) (auto simp: then_phase_def)
  next
    case (Continue s')
    then show ?thesis using tx_inv rx [of s' w2] by (simp add: then_phase_def)
  qed
  show ?thesis
  proof (cases f1)
    case (Return r)
    then have "bridge_iteration cfg env started s w = (Return r, w1)"
      by (simp only: bridge_iteration_def Let_def then_phase_def p1 fst_conv snd_conv flow.case)
    then show ?thesis
      using 1 Return loop_inv_next [OF inv] by (auto simp: flow_rel_def split: sum.splits)
  next
    case (Continue s1)
    then have "bridge_iteration cfg env started s w = then_phase (f2, w2) (\<lambda>s w. rx_phase cfg env ?d s w)"
      using 1 by (simp only: bridge_iteration_def Let_def then_phase_def p1 p2 fst_conv snd_conv flow.case
          flow_rel_simps)
    then show ?thesis
      using body flow_rel_mono [OF body loop_inv_slack] by auto
  qed
qed

lemma bridge_loop_inv:
  "bridge_loop cfg env started s w = Some y \<Longrightarrow> loop_inv cfg 0 s \<Longrightarrow>
     flow_rel (loop_inv cfg 1) (Return (fst y))"
proof (induction cfg env started s w y rule: bridge_loop.raw_induct [rotated, consumes 1, case_names 1])
  case (1 rec cfg env started s w y)
  obtain f w1 where it: "bridge_iteration cfg env started s w = (f, w1)"
    by (cases "bridge_iteration cfg env started s w")
  show ?case
  proof (cases f)
    case (Return r)
    then show ?thesis using bridge_iteration_inv [OF 1(3), of env started w] it 1(2) by auto
  next
    case (Continue s1)
    then have "rec cfg env started s1 w1 = Some y" "loop_inv cfg 0 s1"
      using bridge_iteration_inv [OF 1(3), of env started w] it 1(2) by auto
    then show ?thesis by (rule 1(1))
  qed
qed


section \<open>Termination under a duration\<close>

text \<open>
  \<open>time\<close> reads the hidden clock of the world: reading the clock returns it and lets it advance, and
  nothing turns it back.
\<close>

definition clock_advances :: "('w \<Rightarrow> nat) \<Rightarrow> ('e, 'w) loop_env \<Rightarrow> bool" where
  "clock_advances time env \<longleftrightarrow>
     (\<forall>w. fst (le_clock env w) = time w \<and> time w < time (snd (le_clock env w))) \<and>
     (\<forall>n w. time w \<le> time (le_on_iteration_start env n w)) \<and>
     (\<forall>w. time w \<le> time (snd (le_stop_requested env w))) \<and>
     (\<forall>x w. time w \<le> time (snd (le_handle_step env x w)))"

lemma clock_reads:
  "clock_advances time env \<Longrightarrow> le_clock env w = (t, w') \<Longrightarrow> t = time w \<and> time w < time w'"
  unfolding clock_advances_def by (metis fst_conv snd_conv)

lemma clock_steps:
  "clock_advances time env \<Longrightarrow> le_handle_step env x w = (r, w') \<Longrightarrow> time w \<le> time w'"
  "clock_advances time env \<Longrightarrow> le_stop_requested env w = (b, w') \<Longrightarrow> time w \<le> time w'"
  "clock_advances time env \<Longrightarrow> time w \<le> time (le_on_iteration_start env n w)"
  unfolding clock_advances_def by (metis snd_conv)+

lemma tx_burst_time:
  assumes "clock_advances time env"
  shows "time w \<le> time (snd (tx_burst cfg env now count s w))"
  using assms
proof (induction cfg env now count s w rule: tx_burst.induct)
  case (1 cfg env now count s w)
  let ?run = "(lc_max_datagrams cfg = 0 \<or> ls_tx s < lc_max_datagrams cfg) \<and> count < lc_tx_burst_limit cfg"
  let ?wait = "case ls_last_tx s of Some last_tx \<Rightarrow> now - last_tx < lc_tx_min_interval cfg | None \<Rightarrow> False"
  obtain r w1 where step: "le_handle_step env TryTx w = (r, w1)" by (cases "le_handle_step env TryTx w")
  obtain t w2 where clock: "le_clock env w1 = (t, w2)" by (cases "le_clock env w1")
  have w1: "time w \<le> time w1" and w2: "time w1 < time w2"
    using clock_steps(1) [OF "1.prems" step] clock_reads [OF "1.prems" clock] by auto
  show ?case
  proof (cases "?run \<and> \<not> ?wait \<and> r = Inr TxProcessed")
    case True
    then have "time w2 \<le> time (snd (tx_burst cfg env now (sat_add count 1)
        (s\<lparr>ls_tx_polls := sat_add (ls_tx_polls s) 1, ls_tx := sat_add (ls_tx s) 1, ls_last_tx := Some t\<rparr>) w2))"
      using "1.IH" step clock "1.prems" by simp
    then show ?thesis
      using True w1 w2 step clock by (simp add: tx_burst.simps [of cfg env now count s w] Let_def)
  next
    case False
    then show ?thesis
      using w1 step
      by (auto simp: tx_burst.simps [of cfg env now count s w] Let_def split: sum.split step_outcome.split)
  qed
qed

lemma bridge_iteration_time:
  assumes clock: "clock_advances time env" and dur: "lc_duration cfg = Some d"
    and it: "bridge_iteration cfg env started s w = (Continue s', w')"
  shows "time w < started + d \<and> time w < time w'"
proof -
  obtain b w1 where stop: "le_stop_requested env w = (b, w1)" by (cases "le_stop_requested env w")
  obtain t1 w2 where c1: "le_clock env w1 = (t1, w2)" by (cases "le_clock env w1")
  obtain f2 w3 where tx: "tx_phase cfg env started (next_iteration s) w2 = (f2, w3)"
    by (cases "tx_phase cfg env started (next_iteration s) w2")
  have "\<not> b" "\<not> started + d \<le> t1"
    using it stop c1
    by (auto simp: bridge_iteration_def stop_phase_def then_phase_def dur Let_def split: if_splits)
  then have rest: "then_phase (f2, w3) (\<lambda>s w. rx_phase cfg env (Some (started + d)) s w) = (Continue s', w')"
    using it stop c1 tx by (simp add: bridge_iteration_def stop_phase_def then_phase_def dur Let_def
        cong: flow.case_cong)
  have "time w \<le> time w1" using clock_steps(2) [OF clock stop] .
  moreover have "t1 = time w1" "time w1 < time w2" using clock_reads [OF clock c1] by auto
  moreover have "time w2 \<le> time w3"
  proof -
    obtain t w4 where c: "le_clock env w2 = (t, w4)" by (cases "le_clock env w2")
    have "time w2 \<le> time w4" using clock_reads [OF clock c] by simp
    moreover have "time w4 \<le> time (le_on_iteration_start env t w4)" by (rule clock_steps(3) [OF clock])
    moreover have "time (le_on_iteration_start env t w4) \<le> time w3"
      using tx c tx_burst_time [OF clock, of "le_on_iteration_start env t w4" cfg t 0 "allow_iteration (next_iteration s)"]
      by (auto simp: tx_phase_def Let_def split: if_splits)
    ultimately show ?thesis by linarith
  qed
  moreover have "time w3 \<le> time w'"
  proof (cases f2)
    case (Return r)
    then show ?thesis using rest by (simp add: then_phase_def)
  next
    case (Continue s3)
    obtain t w4 where c: "le_clock env w3 = (t, w4)" by (cases "le_clock env w3")
    have "time w3 \<le> time w4" using clock_reads [OF clock c] by simp
    moreover have "time w4 \<le> time w'"
      using rest Continue c clock_steps(1) [OF clock]
      by (auto simp: then_phase_def rx_phase_def Let_def split: if_splits prod.splits sum.splits step_outcome.splits)
    ultimately show ?thesis by linarith
  qed
  ultimately show ?thesis using \<open>\<not> started + d \<le> t1\<close> by linarith
qed

text \<open>
  C18. With a duration configured the bridge loop returns, whatever the callbacks answer, as long
  as the clock advances between readings and never goes back.
\<close>

theorem bridge_loop_terminates:
  assumes clock: "clock_advances time env" and dur: "lc_duration cfg = Some d"
  shows "\<exists>r w'. run_production_bridge_loop cfg env w = Some (r, w')"
proof -
  have "\<exists>r w'. bridge_loop cfg env started s w = Some (r, w')" for started s w
  proof (induction "started + d - time w" arbitrary: s w rule: less_induct)
    case less
    obtain f w1 where it: "bridge_iteration cfg env started s w = (f, w1)"
      by (cases "bridge_iteration cfg env started s w")
    show ?case
    proof (cases f)
      case (Return r)
      then show ?thesis using it by (subst bridge_loop.simps) simp
    next
      case (Continue s1)
      with it have "bridge_iteration cfg env started s w = (Continue s1, w1)" by simp
      from bridge_iteration_time [OF clock dur this]
      have "started + d - time w1 < started + d - time w" by linarith
      then have "\<exists>r w'. bridge_loop cfg env started s1 w1 = Some (r, w')" by (rule less)
      then show ?thesis using it Continue by (subst bridge_loop.simps) simp
    qed
  qed
  then show ?thesis
    by (cases "le_clock env w") (simp add: run_production_bridge_loop_def)
qed

text \<open>An environment with nothing to send, whose world is its clock.\<close>

definition idle_env :: "(unit, nat) loop_env" where
  "idle_env =
     \<lparr>le_clock = (\<lambda>w. (w, w + 1)), le_on_iteration_start = (\<lambda>_ w. w), le_stop_requested = (\<lambda>w. (False, w)),
      le_handle_step = (\<lambda>x w. (Inr (case x of TryTx \<Rightarrow> TxEmpty | ReadRx _ \<Rightarrow> RxTimeout), w + 1))\<rparr>"

lemma bridge_loop_terminates_witness:
  "\<exists>r w'. run_production_bridge_loop (loop_config_from_bounds 5 1 4 0) idle_env 0 = Some (r, w')"
proof -
  have "clock_advances (\<lambda>w. w) idle_env" by (simp add: clock_advances_def idle_env_def)
  moreover have "lc_duration (loop_config_from_bounds 5 1 4 0) = Some 5000000"
    by (simp add: loop_config_from_bounds_def)
  ultimately show ?thesis by (rule bridge_loop_terminates)
qed

definition stopping_env :: "(unit, nat) loop_env" where
  "stopping_env = idle_env\<lparr>le_stop_requested := (\<lambda>w. (True, w))\<rparr>"


end
