(* ===== verification/Firmware.thy ===== *)
theory Firmware
  imports Prelude
begin

text \<open>
  Firmware images (\<open>crates/radio-core/src/firmware.rs\<close>) and the cutting of byte buffers into pieces
  that the firmware download rests on: \<open>slice::chunks\<close>, the chunk iterator, and the blocks of a page.
\<close>

section \<open>Cutting a buffer into pieces\<close>

text \<open>
  \<open>pieces len off xs\<close> cuts \<open>xs\<close> into consecutive pieces; \<open>len n\<close> is the length of the next piece
  when \<open>n\<close> elements are left.  Each piece comes with its offset.
\<close>

function pieces :: "(nat \<Rightarrow> nat) \<Rightarrow> nat \<Rightarrow> 'a list \<Rightarrow> (nat \<times> 'a list) list" where
  "pieces len off xs =
     (if xs = [] then []
      else let k = max 1 (len (length xs)) in (off, take k xs) # pieces len (off + k) (drop k xs))"
  by pat_completeness auto
termination by (relation "measure (\<lambda>(_, _, xs). length xs)") auto

declare pieces.simps [simp del]

text \<open>
  The contract of a cutting rule: it always takes something and never more than is left.  Its
  clients need no more to know that the pieces are the buffer.
\<close>

locale cutting =
  fixes len :: "nat \<Rightarrow> nat"
  assumes takes: "0 < n \<Longrightarrow> 0 < len n \<and> len n \<le> n"
begin

lemma pieces_Nil: "pieces len off [] = []"
  by (simp add: pieces.simps)

lemma pieces_step:
  "xs \<noteq> [] \<Longrightarrow>
     pieces len off xs =
       (off, take (len (length xs)) xs) # pieces len (off + len (length xs)) (drop (len (length xs)) xs)"
  using takes [of "length xs"] by (simp add: pieces.simps [of len off xs] Let_def max_def)

lemma concat_pieces: "concat (map snd (pieces len off xs)) = xs"
proof (induction len off xs rule: pieces.induct)
  case (1 len off xs)
  then show ?case by (subst pieces.simps) (auto simp: Let_def)
qed

lemma piece_is_slice:
  "(o', b) \<in> set (pieces len off xs) \<Longrightarrow>
     off \<le> o' \<and> b \<noteq> [] \<and> length b \<le> len (length xs - (o' - off)) \<and> o' + length b \<le> off + length xs \<and>
     b = take (length b) (drop (o' - off) xs)"
proof (induction "length xs" arbitrary: off xs rule: less_induct)
  case less
  then have xs: "xs \<noteq> []" by (auto simp: pieces_Nil)
  let ?k = "len (length xs)"
  have k: "0 < ?k" "?k \<le> length xs" using takes xs by auto
  show ?case
  proof (cases "(o', b) = (off, take ?k xs)")
    case True
    then show ?thesis using k xs by auto
  next
    case False
    then have "(o', b) \<in> set (pieces len (off + ?k) (drop ?k xs))"
      using less.prems pieces_step [OF xs, of off] by auto
    from less.hyps [OF _ this] k xs
    have ih: "off + ?k \<le> o'" "b \<noteq> []" "length b \<le> len (length (drop ?k xs) - (o' - (off + ?k)))"
      "o' + length b \<le> off + ?k + length (drop ?k xs)"
      "b = take (length b) (drop (o' - (off + ?k)) (drop ?k xs))"
      by auto
    then show ?thesis using k by (simp add: algebra_simps)
  qed
qed

end

text \<open>\<open>slice::chunks\<close>.\<close>

definition chunk_len :: "nat \<Rightarrow> nat \<Rightarrow> nat" where
  "chunk_len sz n = min sz n"

definition chunks :: "nat \<Rightarrow> 'a list \<Rightarrow> 'a list list" where
  "chunks sz xs = map snd (pieces (chunk_len sz) 0 xs)"

section \<open>Images\<close>

definition RTL8812A_FIRMWARE_MAX_LEN :: nat where "RTL8812A_FIRMWARE_MAX_LEN = 128 * 1024"
definition REALTEK_FIRMWARE_HEADER_LEN :: nat where "REALTEK_FIRMWARE_HEADER_LEN = 32"

datatype firmware_source =
    FsExternal string | FsRealtekCArray string string | FsEmbedded string | FsInMemory

record firmware_image =
  fi_source :: firmware_source
  fi_len :: nat
  fi_byte_sum :: u32
  fi_bytes :: bytes

text \<open>\<open>'p\<close> is the error of the table parser, \<open>'io\<close> that of the file system.\<close>

datatype ('io, 'p) firmware_error =
    FwEmpty | FwTooLarge nat nat | FwInvalidChunkSize | FwRead string 'io | FwRealtekArrayParse string 'p

definition firmware_from_bytes ::
    "firmware_source \<Rightarrow> bytes \<Rightarrow> (('io, 'p) firmware_error, firmware_image) result" where
  "firmware_from_bytes source bs =
     (if bs = [] then Inl FwEmpty
      else if RTL8812A_FIRMWARE_MAX_LEN < length bs
      then Inl (FwTooLarge RTL8812A_FIRMWARE_MAX_LEN (length bs))
      else
        let byte_sum = foldl (\<lambda>acc byte. acc + ucast byte) 0 bs
        in Inr \<lparr>fi_source = source, fi_len = length bs, fi_byte_sum = byte_sum, fi_bytes = bs\<rparr>)"

definition load_external ::
    "(string \<Rightarrow> ('io, bytes) result) \<Rightarrow> string \<Rightarrow> (('io, 'p) firmware_error, firmware_image) result" where
  "load_external read_file path =
     bind_res (map_err (FwRead path) (read_file path)) (\<lambda>bs. firmware_from_bytes (FsExternal path) bs)"

record firmware_payload =
  fp_bytes :: bytes
  fp_offset :: nat
  fp_signature :: "u16 option"

definition realtek_download_payload :: "firmware_image \<Rightarrow> firmware_payload" where
  "realtek_download_payload self =
     (let signature = (if 2 \<le> length (fi_bytes self)
                       then Some (of_le16 [fi_bytes self ! 0, fi_bytes self ! 1]) else None);
          has_header = (case signature of
              Some signature \<Rightarrow> (let family = signature AND 0xfff0 in family = 0x9500 \<or> family = 0x2100)
            | None \<Rightarrow> False);
          offset = (if has_header \<and> REALTEK_FIRMWARE_HEADER_LEN < length (fi_bytes self)
                    then REALTEK_FIRMWARE_HEADER_LEN else 0)
      in \<lparr>fp_bytes = drop offset (fi_bytes self), fp_offset = offset, fp_signature = signature\<rparr>)"

section \<open>The chunk iterator\<close>

record firmware_chunk =
  fk_offset :: nat
  fk_bytes :: bytes

record firmware_chunks =
  fcs_bytes :: bytes
  fcs_chunk_size :: nat
  fcs_offset :: nat

definition firmware_chunks :: "nat \<Rightarrow> firmware_image \<Rightarrow> (('io, 'p) firmware_error, firmware_chunks) result" where
  "firmware_chunks chunk_size self =
     (if chunk_size = 0 then Inl FwInvalidChunkSize
      else Inr \<lparr>fcs_bytes = fi_bytes self, fcs_chunk_size = chunk_size, fcs_offset = 0\<rparr>)"

definition firmware_chunks_next :: "firmware_chunks \<Rightarrow> firmware_chunk option \<times> firmware_chunks" where
  "firmware_chunks_next self =
     (if length (fcs_bytes self) \<le> fcs_offset self then (None, self)
      else
        let offset = fcs_offset self;
            stop = min (offset + fcs_chunk_size self) (length (fcs_bytes self))
        in (Some \<lparr>fk_offset = offset, fk_bytes = byte_slice offset stop (fcs_bytes self)\<rparr>,
            self\<lparr>fcs_offset := stop\<rparr>))"

text \<open>\<open>Iterator::collect\<close>; it ends because every chunk is non-empty.\<close>

function collect_chunks :: "firmware_chunks \<Rightarrow> firmware_chunk list" where
  "collect_chunks self =
     (if fcs_chunk_size self = 0 then []
      else case firmware_chunks_next self of
        (None, _) \<Rightarrow> []
      | (Some chunk, self) \<Rightarrow> chunk # collect_chunks self)"
  by pat_completeness auto
termination
  by (relation "measure (\<lambda>self. length (fcs_bytes self) - fcs_offset self)")
    (auto simp: firmware_chunks_next_def Let_def split: if_splits)

declare collect_chunks.simps [simp del]

interpretation chunk: cutting "chunk_len (Suc sz)" for sz
  by unfold_locales (auto simp: chunk_len_def)

lemma concat_chunks: "0 < sz \<Longrightarrow> concat (chunks sz xs) = xs"
  using chunk.concat_pieces [of "sz - 1" 0 xs] by (simp add: chunks_def)

lemma chunks_small: "0 < sz \<Longrightarrow> c \<in> set (chunks sz xs) \<Longrightarrow> c \<noteq> [] \<and> length c \<le> sz"
  using chunk.piece_is_slice [of _ c "sz - 1" 0 xs] by (auto simp: chunks_def chunk_len_def)

lemma collect_chunks_pieces:
  assumes "fcs_chunk_size it = Suc sz" "fcs_offset it \<le> length (fcs_bytes it)"
  shows "map (\<lambda>k. (fk_offset k, fk_bytes k)) (collect_chunks it) =
    pieces (chunk_len (Suc sz)) (fcs_offset it) (drop (fcs_offset it) (fcs_bytes it))"
  using assms
proof (induction it rule: collect_chunks.induct)
  case (1 it)
  let ?rest = "drop (fcs_offset it) (fcs_bytes it)"
  show ?case
  proof (cases "?rest = []")
    case True
    then show ?thesis by (simp add: collect_chunks.simps firmware_chunks_next_def pieces.simps)
  next
    case False
    let ?stop = "min (fcs_offset it + fcs_chunk_size it) (length (fcs_bytes it))"
    let ?k = "chunk_len (Suc sz) (length ?rest)"
    have stop: "?stop = fcs_offset it + ?k" using 1(2,3) False by (simp add: chunk_len_def)
    have nxt: "firmware_chunks_next it =
        (Some \<lparr>fk_offset = fcs_offset it, fk_bytes = take ?k ?rest\<rparr>, it\<lparr>fcs_offset := fcs_offset it + ?k\<rparr>)"
      using False stop by (simp add: firmware_chunks_next_def byte_slice_def Let_def)
    have "map (\<lambda>k. (fk_offset k, fk_bytes k)) (collect_chunks (it\<lparr>fcs_offset := fcs_offset it + ?k\<rparr>)) =
        pieces (chunk_len (Suc sz)) (fcs_offset it + ?k) (drop (fcs_offset it + ?k) (fcs_bytes it))"
      using 1(1) [OF _ nxt [symmetric] refl] 1(2,3) stop by simp
    moreover have "pieces (chunk_len (Suc sz)) (fcs_offset it) ?rest = (fcs_offset it, take ?k ?rest) #
        pieces (chunk_len (Suc sz)) (fcs_offset it + ?k) (drop (fcs_offset it + ?k) (fcs_bytes it))"
      using chunk.pieces_step [OF False] by (simp add: add.commute)
    ultimately show ?thesis
      using 1(2) nxt by (simp add: collect_chunks.simps [of it])
  qed
qed

text \<open>
  A firmware image that is accepted has between 1 byte and 128 KiB and keeps its bytes; its
  download payload is the image without the 32 byte header of the Realtek signatures, never
  empty; and the chunk iterator cuts the image into consecutive non-empty chunks of at most the
  requested size, each with its true offset, that together are the image.
\<close>

theorem firmware_image_correct:
  assumes "firmware_from_bytes source bs = (Inr img :: (('io, 'p) firmware_error, _) result)"
    and "firmware_chunks sz img = (Inr it :: (('io, 'p) firmware_error, _) result)"
  shows "fi_bytes img = bs \<and> bs \<noteq> [] \<and> length bs \<le> 131072 \<and>
    fp_bytes (realtek_download_payload img) = drop (fp_offset (realtek_download_payload img)) bs \<and>
    fp_bytes (realtek_download_payload img) \<noteq> [] \<and>
    fp_offset (realtek_download_payload img) \<in> {0, 32} \<and>
    concat (map fk_bytes (collect_chunks it)) = bs \<and>
    list_all (\<lambda>k. fk_bytes k \<noteq> [] \<and> length (fk_bytes k) \<le> sz \<and>
      fk_bytes k = take (length (fk_bytes k)) (drop (fk_offset k) bs)) (collect_chunks it)"
proof -
  have img: "fi_bytes img = bs" "bs \<noteq> []" "length bs \<le> 131072"
    using assms(1) by (auto simp: firmware_from_bytes_def RTL8812A_FIRMWARE_MAX_LEN_def Let_def split: if_splits)
  have it: "it = \<lparr>fcs_bytes = bs, fcs_chunk_size = sz, fcs_offset = 0\<rparr>" "sz \<noteq> 0"
    using assms(2) img(1) by (auto simp: firmware_chunks_def split: if_splits)
  then obtain n where n: "sz = Suc n" by (cases sz) auto
  have pieces: "map (\<lambda>k. (fk_offset k, fk_bytes k)) (collect_chunks it) = pieces (chunk_len sz) 0 bs"
    using collect_chunks_pieces [of it n] it n by simp
  have "map fk_bytes (collect_chunks it) = map snd (map (\<lambda>k. (fk_offset k, fk_bytes k)) (collect_chunks it))"
    by (simp add: comp_def)
  then have all: "concat (map fk_bytes (collect_chunks it)) = bs"
    unfolding pieces n by (simp add: chunk.concat_pieces)
  have each: "fk_bytes k \<noteq> [] \<and> length (fk_bytes k) \<le> sz \<and>
      fk_bytes k = take (length (fk_bytes k)) (drop (fk_offset k) bs)" if "k \<in> set (collect_chunks it)" for k
  proof -
    have "(fk_offset k, fk_bytes k) \<in> set (map (\<lambda>k. (fk_offset k, fk_bytes k)) (collect_chunks it))"
      using that by simp
    from chunk.piece_is_slice [OF this [unfolded pieces n]] show ?thesis by (simp add: chunk_len_def n)
  qed
  show ?thesis
    using img all each
    by (auto simp: realtek_download_payload_def Let_def REALTEK_FIRMWARE_HEADER_LEN_def list_all_iff)
qed

definition sample_image :: firmware_image where
  "sample_image = \<lparr>fi_source = FsInMemory, fi_len = 5, fi_byte_sum = 15, fi_bytes = [1, 2, 3, 4, 5]\<rparr>"

lemma firmware_image_correct_witness:
  "concat (map fk_bytes (collect_chunks \<lparr>fcs_bytes = [1, 2, 3, 4, 5], fcs_chunk_size = 2, fcs_offset = 0\<rparr>)) =
     [1, 2, 3, 4, 5]"
proof -
  have "firmware_from_bytes FsInMemory [1, 2, 3, 4, 5] = (Inr sample_image :: ((unit, unit) firmware_error, _) result)"
    by (simp add: firmware_from_bytes_def sample_image_def RTL8812A_FIRMWARE_MAX_LEN_def)
  moreover have "firmware_chunks 2 sample_image =
      (Inr \<lparr>fcs_bytes = [1, 2, 3, 4, 5], fcs_chunk_size = 2, fcs_offset = 0\<rparr> :: ((unit, unit) firmware_error, _) result)"
    by (simp add: firmware_chunks_def sample_image_def)
  ultimately show ?thesis using firmware_image_correct by blast
qed

end
