(* ===== verification/Register_Ops.thy ===== *)
theory Register_Ops
  imports Registers Radio_Session
begin

text \<open>
  The register operations of the hardware bring-up (\<open>crates/wfb-radio-runtime/src/lib.rs\<close>): counted
  reads and writes, read-modify-write, verified writes and polling.  An operation acts on the
  device and the counters; its value is \<open>None\<close> when it never returns, as a polling loop may.
\<close>

section \<open>Operations\<close>

text \<open>Durations and instants are nanoseconds.\<close>

record ('r, 't) reg_env =
  re_access :: "('r, 't) register_access"
  re_show_rusb :: "'r \<Rightarrow> string"
  re_sleep :: "nat \<Rightarrow> 't \<Rightarrow> 't"
  re_now :: "'t \<Rightarrow> nat \<times> 't"

type_synonym 't reg_state = "'t \<times> radio_counters"
type_synonym ('t, 'a) reg_op = "'t reg_state \<Rightarrow> ((radio_error, 'a) result \<times> 't reg_state) option"

definition ret :: "'a \<Rightarrow> ('t, 'a) reg_op" where
  "ret x s = Some (Inr x, s)"

definition fail :: "radio_error \<Rightarrow> ('t, 'a) reg_op" where
  "fail e s = Some (Inl e, s)"

text \<open>\<open>and_then m f\<close> is \<open>let x = m?; f(x)\<close>.\<close>

definition and_then :: "('t, 'a) reg_op \<Rightarrow> ('a \<Rightarrow> ('t, 'b) reg_op) \<Rightarrow> ('t, 'b) reg_op" where
  "and_then m f s =
     (case m s of
        None \<Rightarrow> None
      | Some (Inl e, s) \<Rightarrow> Some (Inl e, s)
      | Some (Inr x, s) \<Rightarrow> f x s)"

text \<open>\<open>as_value m\<close> gives the result of \<open>m\<close> as a value, for a \<open>match\<close> or a \<open>?\<close> that comes later.\<close>

definition as_value :: "('t, 'a) reg_op \<Rightarrow> ('t, (radio_error, 'a) result) reg_op" where
  "as_value m s = map_option (\<lambda>(r, s). (Inr r, s)) (m s)"

definition of_result :: "(radio_error, 'a) result \<Rightarrow> ('t, 'a) reg_op" where
  "of_result r s = Some (r, s)"

definition sleep :: "('r, 't) reg_env \<Rightarrow> nat \<Rightarrow> ('t, unit) reg_op" where
  "sleep env delay s = Some (Inr (), (re_sleep env delay (fst s), snd s))"

definition now_op :: "('r, 't) reg_env \<Rightarrow> ('t, nat) reg_op" where
  "now_op env s = (case re_now env (fst s) of (t, dev) \<Rightarrow> Some (Inr t, (dev, snd s)))"

definition control_writes :: "('t, u64) reg_op" where
  "control_writes s = Some (Inr (rc_usb_control_writes (snd s)), s)"

text \<open>A \<open>for\<close> loop over \<open>xs\<close> with an accumulator.\<close>

fun for_each :: "'b list \<Rightarrow> ('b \<Rightarrow> 'a \<Rightarrow> ('t, 'a) reg_op) \<Rightarrow> 'a \<Rightarrow> ('t, 'a) reg_op" where
  "for_each [] f acc = ret acc"
| "for_each (x # xs) f acc = and_then (f x acc) (for_each xs f)"

section \<open>Errors\<close>

fun show_register_width :: "register_width \<Rightarrow> string" where
  "show_register_width WU8 = ''U8''"
| "show_register_width WU16 = ''U16''"
| "show_register_width WU32 = ''U32''"
| "show_register_width (WBlock n) = ''Block('' @ show_nat n @ '')''"

fun show_register_error :: "('r \<Rightarrow> string) \<Rightarrow> 'r register_error \<Rightarrow> string" where
  "show_register_error show_rusb (RegUsb e) = show_usb_error show_rusb e"
| "show_register_error show_rusb (RegShortRead addr width expected actual) =
     ''short register read addr=0x'' @ show_hex 4 (unat addr) @ '' width='' @ show_register_width width @
     '' expected='' @ show_nat expected @ '' actual='' @ show_nat actual"
| "show_register_error show_rusb (RegShortWrite addr width expected actual) =
     ''short register write addr=0x'' @ show_hex 4 (unat addr) @ '' width='' @ show_register_width width @
     '' expected='' @ show_nat expected @ '' actual='' @ show_nat actual"

definition register_read_error :: "('r \<Rightarrow> string) \<Rightarrow> string \<Rightarrow> string \<Rightarrow> 'r register_error \<Rightarrow> radio_error" where
  "register_read_error show_rusb register_name phase error =
     radio_error_new ''register_read_failed''
       (register_name @ '' '' @ phase @ '' read failed: '' @ show_register_error show_rusb error)"

definition register_write_error :: "('r \<Rightarrow> string) \<Rightarrow> string \<Rightarrow> string \<Rightarrow> 'r register_error \<Rightarrow> radio_error" where
  "register_write_error show_rusb register_name phase error =
     radio_error_new ''register_write_failed''
       (register_name @ '' '' @ phase @ '' write failed: '' @ show_register_error show_rusb error)"

definition format_register_address :: "u16 \<Rightarrow> string" where
  "format_register_address address = ''0x'' @ show_hex 4 (unat address)"

definition format_register_value :: "'a::len word \<Rightarrow> nat \<Rightarrow> string" where
  "format_register_value v digits = ''0x'' @ show_hex digits (unat v)"

definition production_readback_error ::
    "string \<Rightarrow> 'a::len word \<Rightarrow> 'a word \<Rightarrow> 'a word \<Rightarrow> nat \<Rightarrow> radio_error" where
  "production_readback_error register_name msk expected actual digits =
     radio_error_new ''register_readback_mismatch''
       (register_name @ '' expected mask '' @ format_register_value msk digits @ '' to equal '' @
        format_register_value expected digits @ '', got '' @ format_register_value actual digits)"

section \<open>Counted accesses\<close>

text \<open>The accesses of the three widths differ only in the register operation they wrap.\<close>

definition counted_read ::
    "('r, 't) reg_env \<Rightarrow> string \<Rightarrow> string \<Rightarrow> ('t \<Rightarrow> ('r register_error, 'a) result \<times> 't) \<Rightarrow> ('t, 'a) reg_op" where
  "counted_read env register_name phase access s =
     (case access (fst s) of
        (Inl error, dev) \<Rightarrow>
          Some (Inl (register_read_error (re_show_rusb env) register_name phase error), (dev, snd s))
      | (Inr x, dev) \<Rightarrow>
          Some (Inr x, (dev, (snd s)\<lparr>rc_usb_control_reads := rc_usb_control_reads (snd s) + 1\<rparr>)))"

definition counted_write ::
    "(('r register_error) \<Rightarrow> radio_error) \<Rightarrow> ('t \<Rightarrow> ('r register_error, unit) result \<times> 't) \<Rightarrow> ('t, unit) reg_op" where
  "counted_write show_error access s =
     (case access (fst s) of
        (Inl error, dev) \<Rightarrow> Some (Inl (show_error error), (dev, snd s))
      | (Inr x, dev) \<Rightarrow>
          Some (Inr x, (dev, (snd s)\<lparr>rc_usb_control_writes := rc_usb_control_writes (snd s) + 1\<rparr>)))"

definition read8_with_counter :: "('r, 't) reg_env \<Rightarrow> u16 \<Rightarrow> string \<Rightarrow> string \<Rightarrow> ('t, u8) reg_op" where
  "read8_with_counter env address register_name phase =
     counted_read env register_name phase (read8 (re_access env) address)"

definition read16_with_counter :: "('r, 't) reg_env \<Rightarrow> u16 \<Rightarrow> string \<Rightarrow> string \<Rightarrow> ('t, u16) reg_op" where
  "read16_with_counter env address register_name phase =
     counted_read env register_name phase (read16 (re_access env) address)"

definition read32_with_counter :: "('r, 't) reg_env \<Rightarrow> u16 \<Rightarrow> string \<Rightarrow> string \<Rightarrow> ('t, u32) reg_op" where
  "read32_with_counter env address register_name phase =
     counted_read env register_name phase (read32 (re_access env) address)"

definition write8_with_counter :: "('r, 't) reg_env \<Rightarrow> u16 \<Rightarrow> u8 \<Rightarrow> string \<Rightarrow> string \<Rightarrow> ('t, unit) reg_op" where
  "write8_with_counter env address v register_name phase =
     counted_write (register_write_error (re_show_rusb env) register_name phase) (write8 (re_access env) address v)"

definition write16_with_counter :: "('r, 't) reg_env \<Rightarrow> u16 \<Rightarrow> u16 \<Rightarrow> string \<Rightarrow> string \<Rightarrow> ('t, unit) reg_op" where
  "write16_with_counter env address v register_name phase =
     counted_write (register_write_error (re_show_rusb env) register_name phase) (write16 (re_access env) address v)"

definition write32_with_counter :: "('r, 't) reg_env \<Rightarrow> u16 \<Rightarrow> u32 \<Rightarrow> string \<Rightarrow> string \<Rightarrow> ('t, unit) reg_op" where
  "write32_with_counter env address v register_name phase =
     counted_write (register_write_error (re_show_rusb env) register_name phase) (write32 (re_access env) address v)"

section \<open>Verified and polled accesses\<close>

definition PRODUCTION_READBACK_VERIFY_ATTEMPTS :: nat where "PRODUCTION_READBACK_VERIFY_ATTEMPTS = 5"
definition PRODUCTION_READBACK_VERIFY_DELAY :: nat where "PRODUCTION_READBACK_VERIFY_DELAY = 1000000"

text \<open>
  The loop \<open>for attempt in 1..=ATTEMPTS\<close> of the readback checks, with \<open>n\<close> attempts left; there is no
  delay after the last one.
\<close>

fun verify_loop ::
    "('r, 't) reg_env \<Rightarrow> string \<Rightarrow> nat \<Rightarrow> ('t, 'a::len word) reg_op \<Rightarrow> 'a word \<Rightarrow> 'a word \<Rightarrow> 'a word \<Rightarrow>
     nat \<Rightarrow> ('t, 'a word) reg_op" where
  "verify_loop env register_name digits rd msk expected actual 0 =
     fail (production_readback_error register_name msk expected actual digits)"
| "verify_loop env register_name digits rd msk expected actual (Suc n) =
     and_then rd (\<lambda>after.
       if after AND msk = expected then ret after
       else and_then (if n = 0 then ret () else sleep env PRODUCTION_READBACK_VERIFY_DELAY) (\<lambda>_.
         verify_loop env register_name digits rd msk expected (after AND msk) n))"

definition production_verify8_readback ::
    "('r, 't) reg_env \<Rightarrow> string \<Rightarrow> u16 \<Rightarrow> u8 \<Rightarrow> u8 \<Rightarrow> string \<Rightarrow> ('t, u8) reg_op" where
  "production_verify8_readback env register_name address msk expected phase =
     verify_loop env register_name 2 (read8_with_counter env address register_name phase)
       msk (expected AND msk) 0 PRODUCTION_READBACK_VERIFY_ATTEMPTS"

definition production_verify16_readback ::
    "('r, 't) reg_env \<Rightarrow> string \<Rightarrow> u16 \<Rightarrow> u16 \<Rightarrow> u16 \<Rightarrow> string \<Rightarrow> ('t, u16) reg_op" where
  "production_verify16_readback env register_name address msk expected phase =
     verify_loop env register_name 4 (read16_with_counter env address register_name phase)
       msk (expected AND msk) 0 PRODUCTION_READBACK_VERIFY_ATTEMPTS"

definition production_verify32_readback ::
    "('r, 't) reg_env \<Rightarrow> string \<Rightarrow> u16 \<Rightarrow> u32 \<Rightarrow> u32 \<Rightarrow> string \<Rightarrow> ('t, u32) reg_op" where
  "production_verify32_readback env register_name address msk expected phase =
     verify_loop env register_name 8 (read32_with_counter env address register_name phase)
       msk (expected AND msk) 0 PRODUCTION_READBACK_VERIFY_ATTEMPTS"

definition production_rmw8 ::
    "('r, 't) reg_env \<Rightarrow> string \<Rightarrow> u16 \<Rightarrow> u8 \<Rightarrow> u8 \<Rightarrow> bool \<Rightarrow> string \<Rightarrow> ('t, unit) reg_op" where
  "production_rmw8 env register_name address msk v verify_readback phase =
     and_then (read8_with_counter env address register_name phase) (\<lambda>before.
     and_then (write8_with_counter env address ((before AND NOT msk) OR (v AND msk)) register_name phase) (\<lambda>_.
     if verify_readback
     then and_then (production_verify8_readback env register_name address msk v phase) (\<lambda>_. ret ())
     else ret ()))"

definition production_rmw8_preserve ::
    "('r, 't) reg_env \<Rightarrow> string \<Rightarrow> u16 \<Rightarrow> u8 \<Rightarrow> u8 \<Rightarrow> u8 \<Rightarrow> string \<Rightarrow> ('t, unit) reg_op" where
  "production_rmw8_preserve env register_name address preserve_mask value_mask v phase =
     and_then (read8_with_counter env address register_name phase) (\<lambda>before.
     and_then (write8_with_counter env address ((before AND preserve_mask) OR (v AND value_mask)) register_name phase)
       (\<lambda>_.
     and_then (production_verify8_readback env register_name address value_mask v phase) (\<lambda>_. ret ())))"

definition production_rmw16_preserve ::
    "('r, 't) reg_env \<Rightarrow> string \<Rightarrow> u16 \<Rightarrow> u16 \<Rightarrow> u16 \<Rightarrow> u16 \<Rightarrow> string \<Rightarrow> ('t, unit) reg_op" where
  "production_rmw16_preserve env register_name address preserve_mask value_mask v phase =
     and_then (read16_with_counter env address register_name phase) (\<lambda>before.
     and_then (write16_with_counter env address ((before AND preserve_mask) OR (v AND value_mask)) register_name phase)
       (\<lambda>_.
     and_then (production_verify16_readback env register_name address value_mask v phase) (\<lambda>_. ret ())))"

definition production_rmw32_preserve ::
    "('r, 't) reg_env \<Rightarrow> string \<Rightarrow> u16 \<Rightarrow> u32 \<Rightarrow> u32 \<Rightarrow> u32 \<Rightarrow> string \<Rightarrow> ('t, unit) reg_op" where
  "production_rmw32_preserve env register_name address preserve_mask value_mask v phase =
     and_then (read32_with_counter env address register_name phase) (\<lambda>before.
     and_then (write32_with_counter env address ((before AND preserve_mask) OR (v AND value_mask)) register_name phase)
       (\<lambda>_.
     and_then (production_verify32_readback env register_name address value_mask v phase) (\<lambda>_. ret ())))"

definition production_write8_verify ::
    "('r, 't) reg_env \<Rightarrow> string \<Rightarrow> u16 \<Rightarrow> u8 \<Rightarrow> u8 \<Rightarrow> u8 \<Rightarrow> string \<Rightarrow> ('t, unit) reg_op" where
  "production_write8_verify env register_name address v verify_mask verify_value phase =
     and_then (write8_with_counter env address v register_name phase) (\<lambda>_.
     if verify_mask \<noteq> 0
     then and_then (production_verify8_readback env register_name address verify_mask verify_value phase) (\<lambda>_. ret ())
     else ret ())"

definition production_write16_verify ::
    "('r, 't) reg_env \<Rightarrow> string \<Rightarrow> u16 \<Rightarrow> u16 \<Rightarrow> u16 \<Rightarrow> u16 \<Rightarrow> string \<Rightarrow> ('t, unit) reg_op" where
  "production_write16_verify env register_name address v verify_mask verify_value phase =
     and_then (write16_with_counter env address v register_name phase) (\<lambda>_.
     if verify_mask \<noteq> 0
     then and_then (production_verify16_readback env register_name address verify_mask verify_value phase) (\<lambda>_. ret ())
     else ret ())"

definition production_write32_verify ::
    "('r, 't) reg_env \<Rightarrow> string \<Rightarrow> u16 \<Rightarrow> u32 \<Rightarrow> u32 \<Rightarrow> u32 \<Rightarrow> string \<Rightarrow> ('t, unit) reg_op" where
  "production_write32_verify env register_name address v verify_mask verify_value phase =
     and_then (write32_with_counter env address v register_name phase) (\<lambda>_.
     if verify_mask \<noteq> 0
     then and_then (production_verify32_readback env register_name address verify_mask verify_value phase) (\<lambda>_. ret ())
     else ret ())"

definition poll_timeout_error :: "string \<Rightarrow> 'a::len word \<Rightarrow> 'a word \<Rightarrow> 'a word \<Rightarrow> nat \<Rightarrow> u32 \<Rightarrow> radio_error" where
  "poll_timeout_error register_name msk expected latest digits attempts =
     radio_error_new ''register_poll_timeout''
       (register_name @ '' expected mask '' @ format_register_value msk digits @ '' to equal '' @
        format_register_value (expected AND msk) digits @ '', last value '' @
        format_register_value latest digits @ '' after '' @ show_nat (unat attempts) @ '' attempts'')"

text \<open>The loop \<open>for attempt in 1..=attempts\<close>; \<open>n\<close> attempts are left.\<close>

fun poll8_loop ::
    "('r, 't) reg_env \<Rightarrow> string \<Rightarrow> u16 \<Rightarrow> u8 \<Rightarrow> u8 \<Rightarrow> u32 \<Rightarrow> nat \<Rightarrow> u8 \<Rightarrow> nat \<Rightarrow> ('t, u32) reg_op" where
  "poll8_loop env register_name address msk expected attempts delay latest 0 =
     fail (poll_timeout_error register_name msk expected latest 2 attempts)"
| "poll8_loop env register_name address msk expected attempts delay latest (Suc n) =
     and_then (read8_with_counter env address register_name ''poll8'') (\<lambda>latest.
       if latest AND msk = expected AND msk then ret (attempts - of_nat n)
       else and_then (if delay = 0 then ret () else sleep env delay) (\<lambda>_.
         poll8_loop env register_name address msk expected attempts delay latest n))"

definition production_poll8 ::
    "('r, 't) reg_env \<Rightarrow> string \<Rightarrow> u16 \<Rightarrow> u8 \<Rightarrow> u8 \<Rightarrow> u32 \<Rightarrow> nat \<Rightarrow> ('t, u32) reg_op" where
  "production_poll8 env register_name address msk expected attempts delay =
     poll8_loop env register_name address msk expected attempts delay 0 (unat attempts)"

partial_function (option) poll32_loop ::
    "('r, 't) reg_env \<Rightarrow> string \<Rightarrow> u16 \<Rightarrow> u32 \<Rightarrow> u32 \<Rightarrow> u32 \<Rightarrow> nat \<Rightarrow> nat \<Rightarrow> nat \<Rightarrow> u32 \<Rightarrow> ('t, u32 \<times> u32) reg_op" where
  "poll32_loop env register_name address msk expected min_attempts timeout delay started attempts s =
     (let attempts = sat_add attempts 1 in
      case read32_with_counter env address register_name ''poll32'' s of
        None \<Rightarrow> None
      | Some (Inl e, s) \<Rightarrow> Some (Inl e, s)
      | Some (Inr v, s) \<Rightarrow>
          if v AND msk = expected AND msk then Some (Inr (attempts, v), s)
          else
            (let (t, dev) = re_now env (fst s) in
             if timeout \<le> t - started \<and> min_attempts \<le> attempts
             then Some (Inl (poll_timeout_error register_name msk expected v 8 attempts), (dev, snd s))
             else
               poll32_loop env register_name address msk expected min_attempts timeout delay started attempts
                 (if delay = 0 then dev else re_sleep env delay dev, snd s)))"

definition production_poll32_min ::
    "('r, 't) reg_env \<Rightarrow> string \<Rightarrow> u16 \<Rightarrow> u32 \<Rightarrow> u32 \<Rightarrow> u32 \<Rightarrow> nat \<Rightarrow> nat \<Rightarrow> ('t, u32 \<times> u32) reg_op" where
  "production_poll32_min env register_name address msk expected min_attempts timeout delay =
     and_then (now_op env) (\<lambda>started.
     poll32_loop env register_name address msk expected min_attempts timeout delay started 0)"

end
