(* ===== verification/Register_Effects.thy ===== *)
theory Register_Effects
  imports Register_Ops
begin

text \<open>
  What the register operations do to a device: the register writes a successful operation
  performs, and the accounting of the control transfer counters on every branch.  The contract of
  an observable transport is the locale \<open>observed_device\<close>; every transport becomes one by logging
  its completed transfers.
\<close>

named_theorems accounted_intros \<open>operations that count every register access\<close>

section \<open>Composition\<close>

lemma and_then_eq_Some_iff:
  "and_then m f s = Some (r, s') \<longleftrightarrow>
     (\<exists>e. m s = Some (Inl e, s') \<and> r = Inl e) \<or> (\<exists>x t. m s = Some (Inr x, t) \<and> f x t = Some (r, s'))"
  by (auto simp: and_then_def split: option.splits sum.splits)

lemma and_then_ret_right [simp]: "and_then m ret = m"
  by (auto simp: fun_eq_iff and_then_def ret_def split: option.split sum.split)

lemma and_then_ret_left [simp]: "and_then (ret x) f = f x"
  by (simp add: fun_eq_iff and_then_def ret_def)

section \<open>What an operation does to the device\<close>

text \<open>
  The completed transfers of a device, in order.  A transfer that fails or is short does not
  count: the code treats both as an error.
\<close>

datatype reg_access = RdReg u16 nat | WrReg u16 bytes

fun written :: "reg_access list \<Rightarrow> (u16 \<times> bytes) list" where
  "written [] = []"
| "written (RdReg a n # w) = written w"
| "written (WrReg a d # w) = (a, d) # written w"

lemma written_append [simp]: "written (u @ v) = written u @ written v"
  by (induction u rule: written.induct) simp_all

lemma length_written: "length (written w) \<le> length w"
  by (induction w rule: written.induct) simp_all

definition count_accesses :: "reg_access list \<Rightarrow> radio_counters \<Rightarrow> radio_counters" where
  "count_accesses w c =
     c\<lparr>rc_usb_control_reads := rc_usb_control_reads c + (of_nat (length w) - of_nat (length (written w))),
       rc_usb_control_writes := rc_usb_control_writes c + of_nat (length (written w))\<rparr>"

lemma count_accesses_append: "count_accesses (u @ v) c = count_accesses v (count_accesses u c)"
  by (simp add: count_accesses_def algebra_simps)

lemma count_accesses_Nil [simp]: "count_accesses [] c = c"
  by (simp add: count_accesses_def)

text \<open>
  \<open>accounted trace m\<close>: on every branch of \<open>m\<close> the control transfer counters grow by exactly the
  completed transfers.  \<open>performs trace m Q\<close>: if \<open>m\<close> succeeds with \<open>x\<close> then \<open>Q x w\<close> holds of its
  register writes \<open>w\<close>.
\<close>

definition accounted :: "('t \<Rightarrow> reg_access list) \<Rightarrow> ('t, 'a) reg_op \<Rightarrow> bool" where
  "accounted trace m \<longleftrightarrow>
     (\<forall>s r s'. m s = Some (r, s') \<longrightarrow>
        (\<exists>w. trace (fst s') = trace (fst s) @ w \<and> snd s' = count_accesses w (snd s)))"

definition performs :: "('t \<Rightarrow> reg_access list) \<Rightarrow> ('t, 'a) reg_op \<Rightarrow> ('a \<Rightarrow> (u16 \<times> bytes) list \<Rightarrow> bool) \<Rightarrow> bool" where
  "performs trace m Q \<longleftrightarrow>
     (\<forall>s x s'. m s = Some (Inr x, s') \<longrightarrow>
        (\<exists>w. trace (fst s') = trace (fst s) @ w \<and> Q x (written w)))"

lemma accountedI:
  "(\<And>s r s'. m s = Some (r, s') \<Longrightarrow>
      \<exists>w. trace (fst s') = trace (fst s) @ w \<and> snd s' = count_accesses w (snd s)) \<Longrightarrow> accounted trace m"
  by (auto simp: accounted_def)

lemma accountedD:
  "accounted trace m \<Longrightarrow> m s = Some (r, s') \<Longrightarrow>
     \<exists>w. trace (fst s') = trace (fst s) @ w \<and> snd s' = count_accesses w (snd s)"
  by (auto simp: accounted_def)

lemma performsD:
  "performs trace m Q \<Longrightarrow> m s = Some (Inr x, s') \<Longrightarrow> \<exists>w. trace (fst s') = trace (fst s) @ w \<and> Q x (written w)"
  unfolding performs_def by blast

lemma accounted_and_then [accounted_intros]:
  assumes "accounted trace m" "\<And>x. accounted trace (f x)"
  shows "accounted trace (and_then m f)"
proof (rule accountedI)
  fix s r s' assume run: "and_then m f s = Some (r, s')"
  then consider e where "m s = Some (Inl e, s')" | x t where "m s = Some (Inr x, t)" "f x t = Some (r, s')"
    by (auto simp: and_then_eq_Some_iff)
  then show "\<exists>w. trace (fst s') = trace (fst s) @ w \<and> snd s' = count_accesses w (snd s)"
  proof cases
    case 1
    then show ?thesis by (rule accountedD [OF assms(1)])
  next
    case (2 x t)
    then obtain u v where
      "trace (fst t) = trace (fst s) @ u" "snd t = count_accesses u (snd s)"
      "trace (fst s') = trace (fst t) @ v" "snd s' = count_accesses v (snd t)"
      using accountedD [OF assms(1)] accountedD [OF assms(2)] by meson
    then show ?thesis by (intro exI [of _ "u @ v"]) (simp add: count_accesses_append)
  qed
qed

lemma accounted_pure [accounted_intros]:
  "accounted trace (ret x)" "accounted trace (fail e)" "accounted trace (of_result r)" "accounted trace control_writes"
  by (auto simp: accounted_def ret_def fail_def of_result_def control_writes_def)

lemma accounted_if [accounted_intros]:
  "accounted trace m \<Longrightarrow> accounted trace n \<Longrightarrow> accounted trace (if b then m else n)"
  by simp

lemma accounted_as_value [accounted_intros]: "accounted trace m \<Longrightarrow> accounted trace (as_value m)"
  by (auto simp: accounted_def as_value_def)

lemma accounted_for_each [accounted_intros]:
  "(\<And>x a. accounted trace (f x a)) \<Longrightarrow> accounted trace (for_each xs f acc)"
  by (induction xs arbitrary: acc) (auto intro: accounted_intros)

lemma performs_and_then:
  assumes "performs trace m Q" "\<And>x. performs trace (f x) (R x)"
  shows "performs trace (and_then m f) (\<lambda>y w. \<exists>x u v. w = u @ v \<and> Q x u \<and> R x y v)"
  unfolding performs_def
proof (intro allI impI)
  fix s y s' assume "and_then m f s = Some (Inr y, s')"
  then obtain x t where run: "m s = Some (Inr x, t)" "f x t = Some (Inr y, s')"
    by (auto simp: and_then_eq_Some_iff)
  then obtain u v where
    "trace (fst t) = trace (fst s) @ u" "Q x (written u)" "trace (fst s') = trace (fst t) @ v" "R x y (written v)"
    using performsD [OF assms(1)] performsD [OF assms(2)] by meson
  then show "\<exists>w. trace (fst s') = trace (fst s) @ w \<and> (\<exists>x u v. written w = u @ v \<and> Q x u \<and> R x y v)"
    by (intro exI [of _ "u @ v"]) auto
qed

lemma performs_mono:
  "performs trace m Q \<Longrightarrow> (\<And>x w. Q x w \<Longrightarrow> R x w) \<Longrightarrow> performs trace m R"
  unfolding performs_def by meson

lemma performs_ret: "performs trace (ret x) (\<lambda>y w. y = x \<and> w = [])"
  by (auto simp: performs_def ret_def intro: exI [of _ "[]"])

lemma performs_fail: "performs trace (fail e) (\<lambda>y w. False)"
  by (auto simp: performs_def fail_def)

text \<open>Sequencing with a first step whose writes are known.\<close>

lemma performs_then:
  assumes "performs trace m (\<lambda>x w. P x \<and> w = ws x)" "\<And>x. P x \<Longrightarrow> performs trace (f x) (\<lambda>y v. R y (ws x @ v))"
  shows "performs trace (and_then m f) R"
  unfolding performs_def
proof (intro allI impI)
  fix s y s' assume "and_then m f s = Some (Inr y, s')"
  then obtain x t where run: "m s = Some (Inr x, t)" "f x t = Some (Inr y, s')"
    by (auto simp: and_then_eq_Some_iff)
  obtain u where u: "trace (fst t) = trace (fst s) @ u" "P x" "written u = ws x"
    using performsD [OF assms(1) run(1)] by auto
  obtain v where "trace (fst s') = trace (fst t) @ v" "R y (ws x @ written v)"
    using performsD [OF assms(2) [OF u(2)] run(2)] by auto
  with u show "\<exists>w. trace (fst s') = trace (fst s) @ w \<and> R y (written w)"
    by (intro exI [of _ "u @ v"]) simp
qed

lemma performs_silent:
  "performs trace m (\<lambda>_ w. w = []) \<Longrightarrow> (\<And>x. performs trace (f x) R) \<Longrightarrow> performs trace (and_then m f) R"
  by (rule performs_then [where P = "\<lambda>_. True" and ws = "\<lambda>_. []"]) simp_all

lemma performs_for_each_where:
  assumes "\<And>x a. x \<in> set xs \<Longrightarrow> performs trace (f x a) (\<lambda>b w. b = g x a \<and> P x w)"
  shows "performs trace (for_each xs f acc) (\<lambda>b w. b = fold g xs acc \<and> (\<exists>ws. list_all2 P xs ws \<and> w = concat ws))"
  using assms
proof (induction xs arbitrary: acc)
  case Nil
  show ?case by (simp add: performs_mono [OF performs_ret])
next
  case (Cons x xs)
  have "performs trace (and_then (f x acc) (for_each xs f))
      (\<lambda>y w. \<exists>b u v. w = u @ v \<and> (b = g x acc \<and> P x u) \<and>
         (y = fold g xs b \<and> (\<exists>ws. list_all2 P xs ws \<and> v = concat ws)))"
    by (rule performs_and_then) (use Cons in auto)
  then have "performs trace (and_then (f x acc) (for_each xs f))
      (\<lambda>b w. b = fold g (x # xs) acc \<and> (\<exists>ws. list_all2 P (x # xs) ws \<and> w = concat ws))"
  proof (rule performs_mono)
    fix y w
    assume "\<exists>b u v. w = u @ v \<and> (b = g x acc \<and> P x u) \<and>
      (y = fold g xs b \<and> (\<exists>ws. list_all2 P xs ws \<and> v = concat ws))"
    then obtain u ws where "w = u @ concat ws" "P x u" "list_all2 P xs ws" "y = fold g xs (g x acc)" by blast
    then show "y = fold g (x # xs) acc \<and> (\<exists>ws. list_all2 P (x # xs) ws \<and> w = concat ws)"
      by (intro conjI exI [of _ "u # ws"]) auto
  qed
  then show ?case by simp
qed

lemma performs_for_each:
  assumes "\<And>x a. x \<in> set xs \<Longrightarrow> performs trace (f x a) (\<lambda>b w. b = g x a \<and> w = ws x)"
  shows "performs trace (for_each xs f acc) (\<lambda>b w. b = fold g xs acc \<and> w = concat (map ws xs))"
proof (rule performs_mono [OF performs_for_each_where [where P = "\<lambda>x w. w = ws x", OF assms]])
  fix b w assume "b = fold g xs acc \<and> (\<exists>vs. list_all2 (\<lambda>x w. w = ws x) xs vs \<and> w = concat vs)"
  moreover have "list_all2 (\<lambda>x w. w = ws x) xs vs \<Longrightarrow> vs = map ws xs" for vs
    by (induction xs vs rule: list_all2_induct) auto
  ultimately show "b = fold g xs acc \<and> w = concat (map ws xs)" by blast
qed

section \<open>A device that can be observed\<close>

text \<open>
  The contract of a transport whose completed transfers can be observed: what the bring-up
  sequences are proved against.
\<close>

locale observed_device =
  fixes env :: "('r, 't) reg_env"
    and trace :: "'t \<Rightarrow> reg_access list"
  assumes read_traced:
      "ra_read (re_access env) rt rq addr idx data timeout dev = (r, buf, dev') \<Longrightarrow>
         trace dev' = trace dev @ (if r = Inr (length data) then [RdReg addr (length data)] else [])"
    and write_traced:
      "ra_write (re_access env) rt rq addr idx data timeout dev = (r, dev') \<Longrightarrow>
         trace dev' = trace dev @ (if r = Inr (length data) then [WrReg addr data] else [])"
    and sleep_traced: "trace (re_sleep env d dev) = trace dev"
    and now_traced: "re_now env dev = (t, dev') \<Longrightarrow> trace dev' = trace dev"
begin

lemma read_exact_traced:
  assumes "read_exact (re_access env) addr width data dev = (r, dev')" "expected_len width = length data"
  shows "trace dev' = trace dev @ (if is_ok r then [RdReg addr (length data)] else [])"
proof -
  obtain r0 buf dev0 where call: "read_vendor (ra_read (re_access env)) addr RTL_USB_INDEX data
      (ra_timeout (re_access env)) dev = (r0, buf, dev0)"
    by (cases "read_vendor (ra_read (re_access env)) addr RTL_USB_INDEX data (ra_timeout (re_access env)) dev") auto
  have "trace dev0 = trace dev @ (if r0 = Inr (length data) then [RdReg addr (length data)] else [])"
    using read_traced call unfolding read_vendor_def by blast
  then show ?thesis
    using assms call by (auto simp: read_exact_def split: sum.splits if_splits)
qed

lemma write_all_traced:
  assumes "write_all (re_access env) addr width data dev = (r, dev')" "expected_len width = length data"
  shows "trace dev' = trace dev @ (if is_ok r then [WrReg addr data] else [])"
proof -
  obtain r0 dev0 where call: "write_vendor (ra_write (re_access env)) addr RTL_USB_INDEX data
      (ra_timeout (re_access env)) dev = (r0, dev0)"
    by (cases "write_vendor (ra_write (re_access env)) addr RTL_USB_INDEX data (ra_timeout (re_access env)) dev") auto
  have "trace dev0 = trace dev @ (if r0 = Inr (length data) then [WrReg addr data] else [])"
    using write_traced call unfolding write_vendor_def by blast
  then show ?thesis
    using assms call by (auto simp: write_all_def split: sum.splits if_splits)
qed

lemma map_ok_traced:
  assumes "map_ok f (read_exact (re_access env) addr width data dev) = (r, dev')" "expected_len width = length data"
  shows "trace dev' = trace dev @ (if is_ok r then [RdReg addr (length data)] else [])"
proof -
  obtain r0 where "read_exact (re_access env) addr width data dev = (r0, dev')" "r = map_sum id f r0"
    using assms(1) by (cases "read_exact (re_access env) addr width data dev") (simp add: map_ok_def)
  then show ?thesis using read_exact_traced [OF _ assms(2)] by (cases r0) auto
qed

lemma read_traced_at_width:
  "read8 (re_access env) addr dev = (r8, dev') \<Longrightarrow>
     trace dev' = trace dev @ (if is_ok r8 then [RdReg addr 1] else [])"
  "read16 (re_access env) addr dev = (r16, dev') \<Longrightarrow>
     trace dev' = trace dev @ (if is_ok r16 then [RdReg addr 2] else [])"
  "read32 (re_access env) addr dev = (r32, dev') \<Longrightarrow>
     trace dev' = trace dev @ (if is_ok r32 then [RdReg addr 4] else [])"
  unfolding read8_def read16_def read32_def by (drule map_ok_traced; simp)+

lemma write_traced_at_width:
  "write8 (re_access env) addr v8 dev = (r, dev') \<Longrightarrow>
     trace dev' = trace dev @ (if is_ok r then [WrReg addr [v8]] else [])"
  "write16 (re_access env) addr v16 dev = (r, dev') \<Longrightarrow>
     trace dev' = trace dev @ (if is_ok r then [WrReg addr (le16 v16)] else [])"
  "write32 (re_access env) addr v32 dev = (r, dev') \<Longrightarrow>
     trace dev' = trace dev @ (if is_ok r then [WrReg addr (le32 v32)] else [])"
  "write_block (re_access env) addr bs dev = (r, dev') \<Longrightarrow>
     trace dev' = trace dev @ (if is_ok r then [WrReg addr bs] else [])"
  using write_all_traced
  by (auto simp: write8_def write16_def write32_def write_block_def le16.enc_length le32.enc_length)

lemma counted_read_effect:
  assumes "\<And>dev r dev'. access dev = (r, dev') \<Longrightarrow> trace dev' = trace dev @ (if is_ok r then [RdReg addr n] else [])"
  shows "accounted trace (counted_read env name phase access)"
    and "performs trace (counted_read env name phase access) (\<lambda>_ w. w = [])"
proof -
  note step = assms [of "fst s" "fst (access (fst s))" "snd (access (fst s))" for s, simplified]
  show "accounted trace (counted_read env name phase access)"
  proof (rule accountedI)
    fix s r s' assume "counted_read env name phase access s = Some (r, s')"
    then show "\<exists>w. trace (fst s') = trace (fst s) @ w \<and> snd s' = count_accesses w (snd s)"
      using step [of s]
      by (intro exI [of _ "if is_ok (fst (access (fst s))) then [RdReg addr n] else []"])
        (auto simp: counted_read_def count_accesses_def split: prod.splits sum.splits)
  qed
  show "performs trace (counted_read env name phase access) (\<lambda>_ w. w = [])"
    unfolding performs_def
  proof (intro allI impI)
    fix s x s' assume "counted_read env name phase access s = Some (Inr x, s')"
    then show "\<exists>w. trace (fst s') = trace (fst s) @ w \<and> written w = []"
      using step [of s] by (auto simp: counted_read_def split: prod.splits sum.splits)
  qed
qed

lemma counted_write_effect:
  assumes "\<And>dev r dev'. access dev = (r, dev') \<Longrightarrow> trace dev' = trace dev @ (if is_ok r then [WrReg addr d] else [])"
  shows "accounted trace (counted_write sh access)"
    and "performs trace (counted_write sh access) (\<lambda>_ w. w = [(addr, d)])"
proof -
  note step = assms [of "fst s" "fst (access (fst s))" "snd (access (fst s))" for s, simplified]
  show "accounted trace (counted_write sh access)"
  proof (rule accountedI)
    fix s r s' assume "counted_write sh access s = Some (r, s')"
    then show "\<exists>w. trace (fst s') = trace (fst s) @ w \<and> snd s' = count_accesses w (snd s)"
      using step [of s]
      by (intro exI [of _ "if is_ok (fst (access (fst s))) then [WrReg addr d] else []"])
        (auto simp: counted_write_def count_accesses_def split: prod.splits sum.splits)
  qed
  show "performs trace (counted_write sh access) (\<lambda>_ w. w = [(addr, d)])"
    unfolding performs_def
  proof (intro allI impI)
    fix s x s' assume "counted_write sh access s = Some (Inr x, s')"
    then show "\<exists>w. trace (fst s') = trace (fst s) @ w \<and> written w = [(addr, d)]"
      using step [of s] by (auto simp: counted_write_def split: prod.splits sum.splits)
  qed
qed

lemma accounted_counted [accounted_intros]:
  "accounted trace (read8_with_counter env a name phase)" "accounted trace (read16_with_counter env a name phase)"
  "accounted trace (read32_with_counter env a name phase)" "accounted trace (write8_with_counter env a v8 name phase)"
  "accounted trace (write16_with_counter env a v16 name phase)" "accounted trace (write32_with_counter env a v32 name phase)"
  "accounted trace (counted_write sh (write_block (re_access env) a bs))"
  unfolding read8_with_counter_def read16_with_counter_def read32_with_counter_def
    write8_with_counter_def write16_with_counter_def write32_with_counter_def
  by (rule counted_read_effect(1) counted_write_effect(1), erule read_traced_at_width write_traced_at_width)+

lemma performs_counted:
  "performs trace (read8_with_counter env a name phase) (\<lambda>_ w. w = [])"
  "performs trace (read16_with_counter env a name phase) (\<lambda>_ w. w = [])"
  "performs trace (read32_with_counter env a name phase) (\<lambda>_ w. w = [])"
  "performs trace (write8_with_counter env a v8 name phase) (\<lambda>_ w. w = [(a, [v8])])"
  "performs trace (write16_with_counter env a v16 name phase) (\<lambda>_ w. w = [(a, le16 v16)])"
  "performs trace (write32_with_counter env a v32 name phase) (\<lambda>_ w. w = [(a, le32 v32)])"
  "performs trace (counted_write sh (write_block (re_access env) a bs)) (\<lambda>_ w. w = [(a, bs)])"
  unfolding read8_with_counter_def read16_with_counter_def read32_with_counter_def
    write8_with_counter_def write16_with_counter_def write32_with_counter_def
  by (rule counted_read_effect(2) counted_write_effect(2), erule read_traced_at_width write_traced_at_width)+

lemma accounted_clock [accounted_intros]: "accounted trace (sleep env d)" "accounted trace (now_op env)"
  by (auto simp: accounted_def sleep_def now_op_def sleep_traced now_traced split: prod.splits)

lemma performs_clock: "performs trace (sleep env d) (\<lambda>_ w. w = [])" "performs trace (now_op env) (\<lambda>_ w. w = [])"
  unfolding performs_def sleep_def now_op_def
  by (auto simp: sleep_traced dest: now_traced split: prod.splits intro!: exI [of _ "[]"])

lemma verify_loop_effect:
  assumes "accounted trace rd" "performs trace rd (\<lambda>_ w. w = [])"
  shows "accounted trace (verify_loop env name digits rd msk expected actual n)"
    and "performs trace (verify_loop env name digits rd msk expected actual n)
      (\<lambda>after w. w = [] \<and> after AND msk = expected)"
proof -
  show "accounted trace (verify_loop env name digits rd msk expected actual n)"
    by (induction n arbitrary: actual) (auto intro!: accounted_intros assms(1))
  show "performs trace (verify_loop env name digits rd msk expected actual n)
      (\<lambda>after w. w = [] \<and> after AND msk = expected)"
  proof (induction n arbitrary: actual)
    case 0
    show ?case by (simp add: performs_mono [OF performs_fail])
  next
    case (Suc n)
    have pause: "performs trace (if n = 0 then ret () else sleep env d) (\<lambda>_ w. w = [])" for d
      using performs_clock(1) [of d] performs_mono [OF performs_ret [of trace "()"]] by simp
    have "performs trace (if after AND msk = expected then ret after
        else and_then (if n = 0 then ret () else sleep env PRODUCTION_READBACK_VERIFY_DELAY)
          (\<lambda>_. verify_loop env name digits rd msk expected (after AND msk) n))
        (\<lambda>after w. w = [] \<and> after AND msk = expected)" for after
    proof (cases "after AND msk = expected")
      case True
      then show ?thesis by (simp add: performs_mono [OF performs_ret])
    next
      case False
      show ?thesis unfolding if_not_P [OF False] by (rule performs_silent [OF pause Suc.IH])
    qed
    then show ?case unfolding verify_loop.simps by (rule performs_silent [OF assms(2)])
  qed
qed

lemmas readback_effect =
  verify_loop_effect [OF accounted_counted(1) performs_counted(1)]
  verify_loop_effect [OF accounted_counted(2) performs_counted(2)]
  verify_loop_effect [OF accounted_counted(3) performs_counted(3)]

lemma accounted_verify [accounted_intros]:
  "accounted trace (production_verify8_readback env name a msk8 e8 phase)"
  "accounted trace (production_verify16_readback env name a msk16 e16 phase)"
  "accounted trace (production_verify32_readback env name a msk32 e32 phase)"
  by (simp_all only: production_verify8_readback_def production_verify16_readback_def
      production_verify32_readback_def readback_effect)

lemma performs_verify:
  "performs trace (production_verify8_readback env name a msk8 e8 phase) (\<lambda>v w. w = [] \<and> v AND msk8 = e8 AND msk8)"
  "performs trace (production_verify16_readback env name a msk16 e16 phase) (\<lambda>v w. w = [] \<and> v AND msk16 = e16 AND msk16)"
  "performs trace (production_verify32_readback env name a msk32 e32 phase) (\<lambda>v w. w = [] \<and> v AND msk32 = e32 AND msk32)"
  by (simp_all only: production_verify8_readback_def production_verify16_readback_def
      production_verify32_readback_def readback_effect)

lemma rmw8_effect:
  shows accounted_rmw8 [accounted_intros]: "accounted trace (production_rmw8 env name a msk v b phase)"
    and performs_rmw8: "performs trace (production_rmw8 env name a msk v b phase)
      (\<lambda>_ w. \<exists>x. w = [(a, [x])] \<and> x AND msk = v AND msk)"
proof -
  show "accounted trace (production_rmw8 env name a msk v b phase)"
    unfolding production_rmw8_def by (intro accounted_intros)
  have bits: "((x AND NOT msk) OR (v AND msk)) AND msk = v AND msk" for x
    by (rule bit_word_eqI) (auto simp: bit_simps)
  have verify: "performs trace (if b then and_then (production_verify8_readback env name a msk v phase) (\<lambda>_. ret ())
      else ret ()) (\<lambda>_ w. w = [])"
    by (auto intro!: performs_silent [OF performs_mono [OF performs_verify(1)]] performs_mono [OF performs_ret])
  show "performs trace (production_rmw8 env name a msk v b phase)
      (\<lambda>_ w. \<exists>x. w = [(a, [x])] \<and> x AND msk = v AND msk)"
    unfolding production_rmw8_def
  proof (rule performs_silent [OF performs_counted(1)])
    fix x
    let ?y = "(x AND NOT msk) OR (v AND msk)"
    show "performs trace (and_then (write8_with_counter env a ?y name phase)
        (\<lambda>_. if b then and_then (production_verify8_readback env name a msk v phase) (\<lambda>_. ret ()) else ret ()))
        (\<lambda>_ w. \<exists>x. w = [(a, [x])] \<and> x AND msk = v AND msk)"
      by (rule performs_then [where P = "\<lambda>_. True" and ws = "\<lambda>_. [(a, [?y])]"])
        (simp_all add: performs_counted performs_mono [OF verify] bits)
  qed
qed

lemma rmw16_preserve_effect:
  assumes "pm AND vm = 0"
  shows "performs trace (production_rmw16_preserve env name a pm vm v phase)
      (\<lambda>_ w. \<exists>x. w = [(a, le16 x)] \<and> x AND vm = v AND vm)"
proof -
  have bits: "((x AND pm) OR (v AND vm)) AND vm = v AND vm" for x
  proof (rule bit_word_eqI)
    fix n
    have "bit (pm AND vm) n \<longleftrightarrow> False" by (simp add: assms)
    then show "bit (((x AND pm) OR (v AND vm)) AND vm) n \<longleftrightarrow> bit (v AND vm) n" by (auto simp: bit_simps)
  qed
  have verify: "performs trace (and_then (production_verify16_readback env name a vm v phase) (\<lambda>_. ret ())) (\<lambda>_ w. w = [])"
    by (auto intro!: performs_silent [OF performs_mono [OF performs_verify(2)]] performs_mono [OF performs_ret])
  show ?thesis
    unfolding production_rmw16_preserve_def
  proof (rule performs_silent [OF performs_counted(2)])
    fix x
    let ?y = "(x AND pm) OR (v AND vm)"
    show "performs trace (and_then (write16_with_counter env a ?y name phase)
        (\<lambda>_. and_then (production_verify16_readback env name a vm v phase) (\<lambda>_. ret ())))
        (\<lambda>_ w. \<exists>x. w = [(a, le16 x)] \<and> x AND vm = v AND vm)"
      by (rule performs_then [where P = "\<lambda>_. True" and ws = "\<lambda>_. [(a, le16 ?y)]"])
        (simp_all add: performs_counted performs_mono [OF verify] bits le16.enc_inject)
  qed
qed

lemma accounted_modified [accounted_intros]:
  "accounted trace (production_rmw8_preserve env name a pm8 vm8 v8 phase)"
  "accounted trace (production_rmw16_preserve env name a pm16 vm16 v16 phase)"
  "accounted trace (production_rmw32_preserve env name a pm32 vm32 v32 phase)"
  "accounted trace (production_write8_verify env name a x8 msk8 e8 phase)"
  "accounted trace (production_write16_verify env name a x16 msk16 e16 phase)"
  "accounted trace (production_write32_verify env name a x32 msk32 e32 phase)"
  unfolding production_rmw8_preserve_def production_rmw16_preserve_def production_rmw32_preserve_def
    production_write8_verify_def production_write16_verify_def production_write32_verify_def
  by (intro accounted_intros)+

lemma performs_write_verify:
  "performs trace (production_write8_verify env name a x8 msk8 e8 phase) (\<lambda>_ w. w = [(a, [x8])])"
  "performs trace (production_write16_verify env name a x16 msk16 e16 phase) (\<lambda>_ w. w = [(a, le16 x16)])"
  "performs trace (production_write32_verify env name a x32 msk32 e32 phase) (\<lambda>_ w. w = [(a, le32 x32)])"
proof -
  have v8: "performs trace (if msk8 \<noteq> 0 then and_then (production_verify8_readback env name a msk8 e8 phase) (\<lambda>_. ret ())
      else ret ()) (\<lambda>_ w. w = [])"
    by (auto intro!: performs_silent [OF performs_mono [OF performs_verify(1)]] performs_mono [OF performs_ret])
  have v16: "performs trace (if msk16 \<noteq> 0 then and_then (production_verify16_readback env name a msk16 e16 phase) (\<lambda>_. ret ())
      else ret ()) (\<lambda>_ w. w = [])"
    by (auto intro!: performs_silent [OF performs_mono [OF performs_verify(2)]] performs_mono [OF performs_ret])
  have v32: "performs trace (if msk32 \<noteq> 0 then and_then (production_verify32_readback env name a msk32 e32 phase) (\<lambda>_. ret ())
      else ret ()) (\<lambda>_ w. w = [])"
    by (auto intro!: performs_silent [OF performs_mono [OF performs_verify(3)]] performs_mono [OF performs_ret])
  show "performs trace (production_write8_verify env name a x8 msk8 e8 phase) (\<lambda>_ w. w = [(a, [x8])])"
    unfolding production_write8_verify_def
    by (rule performs_then [where P = "\<lambda>_. True" and ws = "\<lambda>_. [(a, [x8])]"])
      (simp_all only: performs_counted performs_mono [OF v8] simp_thms append_Nil2)
  show "performs trace (production_write16_verify env name a x16 msk16 e16 phase) (\<lambda>_ w. w = [(a, le16 x16)])"
    unfolding production_write16_verify_def
    by (rule performs_then [where P = "\<lambda>_. True" and ws = "\<lambda>_. [(a, le16 x16)]"])
      (simp_all only: performs_counted performs_mono [OF v16] simp_thms append_Nil2)
  show "performs trace (production_write32_verify env name a x32 msk32 e32 phase) (\<lambda>_ w. w = [(a, le32 x32)])"
    unfolding production_write32_verify_def
    by (rule performs_then [where P = "\<lambda>_. True" and ws = "\<lambda>_. [(a, le32 x32)]"])
      (simp_all only: performs_counted performs_mono [OF v32] simp_thms append_Nil2)
qed

lemma poll8_effect:
  shows accounted_poll8 [accounted_intros]: "accounted trace (production_poll8 env name a msk e n delay)"
    and performs_poll8: "performs trace (production_poll8 env name a msk e n delay) (\<lambda>_ w. w = [])"
proof -
  have "accounted trace (poll8_loop env name a msk e n delay latest k)" for latest k
    by (induction k arbitrary: latest) (auto intro!: accounted_intros)
  then show "accounted trace (production_poll8 env name a msk e n delay)" by (simp add: production_poll8_def)
  have pause: "performs trace (if delay = 0 then ret () else sleep env delay) (\<lambda>_ w. w = [])"
    using performs_clock(1) [of delay] performs_mono [OF performs_ret [of trace "()"]] by simp
  have "performs trace (poll8_loop env name a msk e n delay latest k) (\<lambda>_ w. w = [])" for latest k
  proof (induction k arbitrary: latest)
    case 0
    show ?case by (simp add: performs_mono [OF performs_fail])
  next
    case (Suc k)
    have "performs trace (if v AND msk = e AND msk then ret (n - of_nat k)
        else and_then (if delay = 0 then ret () else sleep env delay)
          (\<lambda>_. poll8_loop env name a msk e n delay v k)) (\<lambda>_ w. w = [])" for v
    proof (cases "v AND msk = e AND msk")
      case True
      then show ?thesis by (simp add: performs_mono [OF performs_ret])
    next
      case False
      show ?thesis unfolding if_not_P [OF False] by (rule performs_silent [OF pause Suc.IH])
    qed
    then show ?case unfolding poll8_loop.simps by (rule performs_silent [OF performs_counted(1)])
  qed
  then show "performs trace (production_poll8 env name a msk e n delay) (\<lambda>_ w. w = [])"
    by (simp add: production_poll8_def)
qed

lemma poll32_loop_effect:
  assumes "poll32_loop env' name a msk e least timeout delay started attempts s = Some y" "env' = env"
  shows "\<exists>w. trace (fst (snd y)) = trace (fst s) @ w \<and> snd (snd y) = count_accesses w (snd s) \<and> written w = []"
  using assms
proof (induction env' name a msk e least timeout delay started attempts s y
    rule: poll32_loop.raw_induct [rotated, consumes 1, case_names step])
  case (step rec env' name a msk e least timeout delay started attempts s y)
  let ?read = "read32_with_counter env a name ''poll32''"
  obtain r t where read: "?read s = Some (r, t)"
    by (cases "?read s") (use step(2,3) in auto)
  obtain u where u: "trace (fst t) = trace (fst s) @ u" "snd t = count_accesses u (snd s)"
    using accountedD [OF accounted_counted(3) read] by blast
  obtain now dev where now: "re_now env (fst t) = (now, dev)" by (cases "re_now env (fst t)")
  have dev: "trace dev = trace (fst t)" by (rule now_traced [OF now])
  show ?case
  proof (cases r)
    case (Inl x)
    then have y: "y = (Inl x, t)" using step(2,3) read by simp
    have "written u = []"
      using read Inl u(1) read_traced_at_width(3)
      by (fastforce simp: read32_with_counter_def counted_read_def split: prod.splits sum.splits)
    then show ?thesis using u y by auto
  next
    case (Inr v)
    have silent: "written u = []"
      using performsD [OF performs_counted(3)] read Inr u(1) by fastforce
    show ?thesis
    proof (cases "v AND msk = e AND msk \<or> timeout \<le> now - started \<and> least \<le> sat_add attempts 1")
      case True
      then have "snd y = t \<or> snd y = (dev, snd t)"
        using step(2,3) read Inr now by (auto simp: Let_def split: if_splits)
      then show ?thesis using u silent dev by auto
    next
      case False
      let ?s = "(if delay = 0 then dev else re_sleep env delay dev, snd t)"
      have "rec env name a msk e least timeout delay started (sat_add attempts 1) ?s = Some y"
        using step(2,3) read Inr now False by (auto simp: Let_def)
      from step(1) [OF this refl] obtain w where
        "trace (fst (snd y)) = trace (fst ?s) @ w" "snd (snd y) = count_accesses w (snd ?s)" "written w = []"
        by blast
      then show ?thesis
        using u silent dev
        by (intro exI [of _ "u @ w"]) (simp add: count_accesses_append sleep_traced split: if_splits)
    qed
  qed
qed

lemma poll32_effect:
  shows accounted_poll32 [accounted_intros]: "accounted trace (production_poll32_min env name a msk e least timeout delay)"
    and performs_poll32: "performs trace (production_poll32_min env name a msk e least timeout delay) (\<lambda>_ w. w = [])"
proof -
  have loop: "\<exists>w. trace (fst s') = trace (fst s) @ w \<and> snd s' = count_accesses w (snd s) \<and> written w = []"
    if "poll32_loop env name a msk e least timeout delay started attempts s = Some (r, s')" for started attempts s r s'
    using poll32_loop_effect [OF that refl] by simp
  have "accounted trace (poll32_loop env name a msk e least timeout delay started attempts)" for started attempts
    using loop by (intro accountedI) blast
  then show "accounted trace (production_poll32_min env name a msk e least timeout delay)"
    unfolding production_poll32_min_def by (intro accounted_intros)
  have "performs trace (poll32_loop env name a msk e least timeout delay started attempts) (\<lambda>_ w. w = [])"
    for started attempts
    using loop unfolding performs_def by blast
  then show "performs trace (production_poll32_min env name a msk e least timeout delay) (\<lambda>_ w. w = [])"
    unfolding production_poll32_min_def by (rule performs_silent [OF performs_clock(2)])
qed

end

section \<open>Observing a transport by logging\<close>

text \<open>Any transport, with a log of its completed transfers, meets the contract.\<close>

definition logged_access ::
    "('r, 't) register_access \<Rightarrow> ('r, 't \<times> reg_access list) register_access" where
  "logged_access access =
     \<lparr>ra_read = (\<lambda>rt rq addr idx data timeout (dev, log).
         case ra_read access rt rq addr idx data timeout dev of
           (r, buf, dev) \<Rightarrow> (r, buf, (dev, log @ (if r = Inr (length data) then [RdReg addr (length data)] else [])))),
      ra_write = (\<lambda>rt rq addr idx data timeout (dev, log).
         case ra_write access rt rq addr idx data timeout dev of
           (r, dev) \<Rightarrow> (r, (dev, log @ (if r = Inr (length data) then [WrReg addr data] else [])))),
      ra_timeout = ra_timeout access\<rparr>"

definition logged :: "('r, 't) reg_env \<Rightarrow> ('r, 't \<times> reg_access list) reg_env" where
  "logged env =
     \<lparr>re_access = logged_access (re_access env), re_show_rusb = re_show_rusb env,
      re_sleep = (\<lambda>d (dev, log). (re_sleep env d dev, log)),
      re_now = (\<lambda>(dev, log). case re_now env dev of (t, dev) \<Rightarrow> (t, (dev, log)))\<rparr>"

interpretation logged: observed_device "logged env" snd for env
  by unfold_locales
    (auto simp: logged_def logged_access_def split: prod.splits)

section \<open>Polling returns\<close>

text \<open>
  \<open>clock\<close> is the time of the device's world: reading it does not turn it back, a register access
  does not turn it back, and sleeping takes at least the time asked for.
\<close>

definition time_passes :: "('r, 't) reg_env \<Rightarrow> ('t \<Rightarrow> nat) \<Rightarrow> bool" where
  "time_passes env clock \<longleftrightarrow>
     (\<forall>dev. fst (re_now env dev) = clock dev \<and> clock dev \<le> clock (snd (re_now env dev))) \<and>
     (\<forall>d dev. clock dev + d \<le> clock (re_sleep env d dev)) \<and>
     (\<forall>rt rq addr idx data timeout dev.
        clock dev \<le> clock (snd (snd (ra_read (re_access env) rt rq addr idx data timeout dev))))"

lemma time_passes_read32:
  assumes "time_passes env clock" "read32_with_counter env a name phase s = Some (r, t)"
  shows "clock (fst s) \<le> clock (fst t)"
proof -
  have "clock dev \<le> clock (snd (snd (read_vendor (ra_read (re_access env)) x i data w dev)))" for x i data w dev
    using assms(1) by (simp add: time_passes_def read_vendor_def)
  note step = this [of "fst s" a RTL_USB_INDEX "[0, 0, 0, 0]" "ra_timeout (re_access env)"]
  show ?thesis
    using step assms(2)
    by (auto simp: read32_with_counter_def counted_read_def read32_def map_ok_def read_exact_def
        split: prod.splits sum.splits if_splits)
qed

lemma counted_accesses_return:
  "read8_with_counter env a name phase s \<noteq> None" "read16_with_counter env a name phase s \<noteq> None"
  "read32_with_counter env a name phase s \<noteq> None" "counted_write sh access s \<noteq> None"
  by (simp_all add: read8_with_counter_def read16_with_counter_def read32_with_counter_def counted_read_def
      counted_write_def split: prod.split sum.split)

lemma u32_bound: "unat (w :: u32) < 2 ^ 32"
  by (rule order_less_le_trans [OF unsigned_less]) simp

lemma poll32_loop_returns:
  assumes clock: "time_passes env clock" and delay: "0 < delay"
  shows "\<exists>y. poll32_loop env name a msk e least timeout delay started attempts s = Some y"
proof (induction "(started + timeout - clock (fst s)) + (unat least - unat attempts)" arbitrary: s attempts
    rule: less_induct)
  case less
  obtain r t where read: "read32_with_counter env a name ''poll32'' s = Some (r, t)"
    using counted_accesses_return(3) by (metis option.exhaust prod.exhaust)
  obtain now dev where now: "re_now env (fst t) = (now, dev)" by (cases "re_now env (fst t)")
  have now_clock: "now = clock (fst t)" "clock (fst t) \<le> clock dev"
    using clock now unfolding time_passes_def by (metis fst_conv, metis snd_conv)
  show ?case
  proof (cases r)
    case (Inl x)
    then show ?thesis using read by (subst poll32_loop.simps) simp
  next
    case (Inr v)
    show ?thesis
    proof (cases "v AND msk = e AND msk \<or> timeout \<le> now - started \<and> least \<le> sat_add attempts 1")
      case True
      then show ?thesis using read Inr now by (subst poll32_loop.simps) (auto simp: Let_def)
    next
      case False
      let ?s = "(re_sleep env delay dev, snd t)"
      have "clock (fst s) \<le> clock (fst t)" by (rule time_passes_read32 [OF clock read])
      moreover have "clock dev + delay \<le> clock (re_sleep env delay dev)"
        using clock by (simp add: time_passes_def)
      ultimately have later: "clock (fst s) + delay \<le> clock (fst ?s)" using now_clock by simp
      have "started + timeout - clock (fst ?s) + (unat least - unat (sat_add attempts 1)) <
          started + timeout - clock (fst s) + (unat least - unat attempts)"
      proof (cases "least \<le> sat_add attempts 1")
        case True
        then have "now - started < timeout" using False by auto
        then have "clock (fst s) < started + timeout"
          using now_clock \<open>clock (fst s) \<le> clock (fst t)\<close> by linarith
        moreover have "unat least - unat (sat_add attempts 1) \<le> unat least - unat attempts"
          using sat_add_mono [of attempts 1] by (simp add: word_le_nat_alt)
        ultimately show ?thesis using later delay by linarith
      next
        case False
        then have "unat (sat_add attempts 1) < unat least" by (simp add: word_le_nat_alt)
        moreover have "unat (sat_add attempts 1) = unat attempts + 1"
          using \<open>unat (sat_add attempts 1) < unat least\<close> u32_bound [of least] by (simp add: unat_sat_add)
        ultimately show ?thesis using later by linarith
      qed
      from less [OF this] show ?thesis
        using read Inr now False delay by (subst poll32_loop.simps) (auto simp: Let_def)
    qed
  qed
qed

end
