(* ===== verification/Bring_Up.thy ===== *)
theory Bring_Up
  imports Register_Effects Firmware
begin

text \<open>
  The hardware bring-up of \<open>crates/wfb-radio-runtime/src/lib.rs\<close>: power-on, the link list of the
  transmit buffer, the firmware download and the queue layout, each a sequence of register
  operations.
\<close>

section \<open>Registers and masks\<close>

definition REG_SYS_FUNC_EN_PLUS_1 :: u16 where "REG_SYS_FUNC_EN_PLUS_1 = 0x0003"
definition REG_APS_FSMCO_PLUS_1 :: u16 where "REG_APS_FSMCO_PLUS_1 = 0x0005"
definition REG_APS_FSMCO_PLUS_2 :: u16 where "REG_APS_FSMCO_PLUS_2 = 0x0006"
definition REG_RSV_CTRL :: u16 where "REG_RSV_CTRL = 0x001c"
definition REG_RF_CTRL :: u16 where "REG_RF_CTRL = 0x001f"
definition REG_AFE_XTAL_CTRL :: u16 where "REG_AFE_XTAL_CTRL = 0x0024"
definition REG_AFE_PLL_CTRL :: u16 where "REG_AFE_PLL_CTRL = 0x0028"
definition REG_RF_B_CTRL_8812 :: u16 where "REG_RF_B_CTRL_8812 = 0x0076"
definition REG_MCUFWDL :: u16 where "REG_MCUFWDL = 0x0080"
definition REG_MCUFWDL_PLUS_2 :: u16 where "REG_MCUFWDL_PLUS_2 = 0x0082"
definition REG_CR :: u16 where "REG_CR = 0x0100"
definition REG_PBP :: u16 where "REG_PBP = 0x0104"
definition REG_TRXDMA_CTRL :: u16 where "REG_TRXDMA_CTRL = 0x010c"
definition REG_TRXFF_BNDY :: u16 where "REG_TRXFF_BNDY = 0x0114"
definition REG_LLT_INIT :: u16 where "REG_LLT_INIT = 0x01e0"
definition REG_RQPN :: u16 where "REG_RQPN = 0x0200"
definition REG_TDECTRL :: u16 where "REG_TDECTRL = 0x0208"
definition REG_RQPN_NPQ :: u16 where "REG_RQPN_NPQ = 0x0214"
definition REG_BCNQ_BDNY :: u16 where "REG_BCNQ_BDNY = 0x0424"
definition REG_MGQ_BDNY :: u16 where "REG_MGQ_BDNY = 0x0425"
definition REG_WMAC_LBK_BF_HD :: u16 where "REG_WMAC_LBK_BF_HD = 0x045d"

definition FW_START_ADDRESS :: u16 where "FW_START_ADDRESS = 0x1000"
definition BIT0 :: u8 where "BIT0 = 0x01"
definition BIT1 :: u8 where "BIT1 = 0x02"
definition BIT2 :: u8 where "BIT2 = 0x04"
definition BIT3 :: u8 where "BIT3 = 0x08"
definition MAX_DLFW_PAGE_SIZE :: nat where "MAX_DLFW_PAGE_SIZE = 4096"
definition MAX_REG_BLOCK_SIZE :: nat where "MAX_REG_BLOCK_SIZE = 196"
definition FIRMWARE_REMAINDER_BLOCK_SIZE :: nat where "FIRMWARE_REMAINDER_BLOCK_SIZE = 8"
definition TX_PAGE_BOUNDARY_8812 :: u8 where "TX_PAGE_BOUNDARY_8812 = 0xf7"
definition LAST_ENTRY_OF_TX_PKT_BUFFER_8812 :: u8 where "LAST_ENTRY_OF_TX_PKT_BUFFER_8812 = 0xff"
definition TX_TOTAL_PAGE_NUMBER_8812 :: u8 where "TX_TOTAL_PAGE_NUMBER_8812 = TX_PAGE_BOUNDARY_8812 - 1"
definition RX_DMA_BOUNDARY_8812 :: u16 where "RX_DMA_BOUNDARY_8812 = 0x3e7f"
definition NORMAL_PAGE_NUM_HPQ_8812 :: u8 where "NORMAL_PAGE_NUM_HPQ_8812 = 0x10"
definition NORMAL_PAGE_NUM_LPQ_8812 :: u8 where "NORMAL_PAGE_NUM_LPQ_8812 = 0x10"
definition NORMAL_PAGE_NUM_NPQ_8812 :: u8 where "NORMAL_PAGE_NUM_NPQ_8812 = 0x00"
definition PSTX_PBP_512 :: u8 where "PSTX_PBP_512 = push_bit 4 0x03"
definition QUEUE_EXTRA :: u16 where "QUEUE_EXTRA = 0"
definition QUEUE_LOW :: u16 where "QUEUE_LOW = 1"
definition QUEUE_NORMAL :: u16 where "QUEUE_NORMAL = 2"
definition QUEUE_HIGH :: u16 where "QUEUE_HIGH = 3"
definition LD_RQPN :: u32 where "LD_RQPN = push_bit 31 1"
definition RQPN_PAGE_MASK :: u32 where "RQPN_PAGE_MASK = 0x00ffffff"
definition TXDMA_QUEUE_MAP_MASK :: u16 where "TXDMA_QUEUE_MAP_MASK = 0xfff8"
definition LLT_NO_ACTIVE :: u32 where "LLT_NO_ACTIVE = 0"
definition LLT_WRITE_ACCESS :: u32 where "LLT_WRITE_ACCESS = 1"
definition LLT_OP_SHIFT :: nat where "LLT_OP_SHIFT = 30"
definition LLT_OP_MASK :: u32 where "LLT_OP_MASK = 3"
definition MCUFWDL_EN :: u8 where "MCUFWDL_EN = BIT0"
definition MCUFWDL_RDY :: u32 where "MCUFWDL_RDY = 0x02"
definition FWDL_CHKSUM_RPT_U8 :: u8 where "FWDL_CHKSUM_RPT_U8 = BIT2"
definition FWDL_CHKSUM_RPT_U32 :: u32 where "FWDL_CHKSUM_RPT_U32 = 0x04"
definition WINTINI_RDY :: u32 where "WINTINI_RDY = 0x40"
definition RAM_DL_SEL :: u8 where "RAM_DL_SEL = 0x80"
definition CR_ENABLE_BITS :: u16 where "CR_ENABLE_BITS = 0x063f"

text \<open>Durations in nanoseconds.\<close>

definition micros :: "nat \<Rightarrow> nat" where "micros n = n * 1000"
definition millis :: "nat \<Rightarrow> nat" where "millis n = n * 1000000"

text \<open>\<open>and_do m n\<close> is \<open>m?; n\<close>; \<open>writes_since\<close> the control writes counted since \<open>before\<close>.\<close>

definition and_do :: "('t, 'b) reg_op \<Rightarrow> ('t, 'a) reg_op \<Rightarrow> ('t, 'a) reg_op" where
  "and_do m n = and_then m (\<lambda>_. n)"

definition writes_since :: "u64 \<Rightarrow> ('t, u64) reg_op" where
  "writes_since before = and_then control_writes (\<lambda>after. ret (sat_sub after before))"

section \<open>Power-on\<close>

definition rf_control_writes :: "(string \<times> u16 \<times> u8) list" where
  "rf_control_writes =
     [(''REG_RF_CTRL'', REG_RF_CTRL, 0x05), (''REG_RF_CTRL'', REG_RF_CTRL, 0x07),
      (''REG_RF_B_CTRL_8812'', REG_RF_B_CTRL_8812, 0x05), (''REG_RF_B_CTRL_8812'', REG_RF_B_CTRL_8812, 0x07)]"

definition production_power_on_sequence :: "('r, 't) reg_env \<Rightarrow> ('t, u64) reg_op" where
  "production_power_on_sequence env =
     and_then control_writes (\<lambda>before.
     and_do (production_rmw8 env ''REG_APS_FSMCO + 1'' REG_APS_FSMCO_PLUS_1 BIT2 0 True ''power-on'')
     (and_do (production_poll8 env ''REG_APS_FSMCO + 2'' REG_APS_FSMCO_PLUS_2 BIT1 BIT1 200 (micros 10))
     (and_do (production_rmw8 env ''REG_APS_FSMCO + 1'' REG_APS_FSMCO_PLUS_1 BIT3 0 True ''power-on'')
     (and_do (production_rmw8 env ''REG_APS_FSMCO + 1'' REG_APS_FSMCO_PLUS_1 BIT0 BIT0 False ''power-on'')
     (and_do (production_poll8 env ''REG_APS_FSMCO + 1'' REG_APS_FSMCO_PLUS_1 BIT0 0 200 (micros 10))
     (and_do (production_rmw8 env ''REG_AFE_XTAL_CTRL'' REG_AFE_XTAL_CTRL BIT1 0 True ''power-on'')
     (and_do (production_rmw8 env ''REG_AFE_PLL_CTRL'' REG_AFE_PLL_CTRL BIT3 0 True ''power-on'')
     (and_do (production_write16_verify env ''REG_CR'' REG_CR 0 (- 1) 0 ''power-on'')
     (and_then (read16_with_counter env REG_CR ''REG_CR'' ''power-on'') (\<lambda>cr.
      and_do (production_write16_verify env ''REG_CR'' REG_CR (cr OR CR_ENABLE_BITS) CR_ENABLE_BITS
               CR_ENABLE_BITS ''power-on'')
     (and_do (for_each rf_control_writes
               (\<lambda>(register_name, address, v) _. write8_with_counter env address v register_name ''power-on'') ())
      (writes_since before))))))))))))"

definition production_preflight_cr :: "('r, 't) reg_env \<Rightarrow> string \<Rightarrow> ('t, unit) reg_op" where
  "production_preflight_cr env label =
     and_then (read16_with_counter env REG_CR ''REG_CR'' ''preflight'') (\<lambda>cr.
     if cr AND CR_ENABLE_BITS \<noteq> CR_ENABLE_BITS
     then fail (radio_error_new ''mac_not_powered_on''
            (''REG_CR expected block-enable mask '' @ format_register_value CR_ENABLE_BITS 4 @
             '' to be set before '' @ label @ '', got '' @ format_register_value cr 4))
     else ret ())"

section \<open>The link list table\<close>

definition encode_llt_write :: "u8 \<Rightarrow> u8 \<Rightarrow> u32" where
  "encode_llt_write address data =
     push_bit 8 (ucast address) OR ucast data OR push_bit LLT_OP_SHIFT LLT_WRITE_ACCESS"

definition llt_op_value :: "u32 \<Rightarrow> u32" where
  "llt_op_value v = drop_bit LLT_OP_SHIFT v AND LLT_OP_MASK"

text \<open>The loop \<open>for _attempt in 1..=25\<close>, with \<open>n\<close> attempts left.\<close>

fun llt_poll :: "('r, 't) reg_env \<Rightarrow> u8 \<Rightarrow> u8 \<Rightarrow> u32 \<Rightarrow> nat \<Rightarrow> ('t, unit) reg_op" where
  "llt_poll env llt_address llt_data latest 0 =
     fail (radio_error_new ''llt_poll_timeout''
       (''LLT write addr=0x'' @ show_hex 2 (unat llt_address) @ '' data=0x'' @ show_hex 2 (unat llt_data) @
        '' did not become idle, last '' @ format_register_value latest 8))"
| "llt_poll env llt_address llt_data latest (Suc n) =
     and_then (read32_with_counter env REG_LLT_INIT ''REG_LLT_INIT'' ''llt'') (\<lambda>latest.
       if llt_op_value latest = LLT_NO_ACTIVE then ret ()
       else and_do (sleep env (micros 10)) (llt_poll env llt_address llt_data latest n))"

definition production_llt_write :: "('r, 't) reg_env \<Rightarrow> u8 \<Rightarrow> u8 \<Rightarrow> ('t, unit) reg_op" where
  "production_llt_write env llt_address llt_data =
     and_do (write32_with_counter env REG_LLT_INIT (encode_llt_write llt_address llt_data) ''REG_LLT_INIT'' ''llt'')
       (llt_poll env llt_address llt_data 0 25)"

text \<open>\<open>a..b\<close> on bytes.\<close>

definition u8_range :: "u8 \<Rightarrow> u8 \<Rightarrow> u8 list" where
  "u8_range a b = map of_nat [unat a..<unat b]"

definition production_llt_sequence :: "('r, 't) reg_env \<Rightarrow> ('t, u64) reg_op" where
  "production_llt_sequence env =
     and_do (production_preflight_cr env ''LLT programming'')
     (and_then (for_each (u8_range 0 (TX_PAGE_BOUNDARY_8812 - 1))
                 (\<lambda>address entries. and_do (production_llt_write env address (address + 1))
                    (ret (sat_add entries 1))) 0) (\<lambda>entries.
      and_do (production_llt_write env (TX_PAGE_BOUNDARY_8812 - 1) 0xff)
     (and_then (for_each (u8_range TX_PAGE_BOUNDARY_8812 LAST_ENTRY_OF_TX_PKT_BUFFER_8812)
                 (\<lambda>address entries. and_do (production_llt_write env address (address + 1))
                    (ret (sat_add entries 1))) (sat_add entries 1)) (\<lambda>entries.
      and_do (production_llt_write env LAST_ENTRY_OF_TX_PKT_BUFFER_8812 TX_PAGE_BOUNDARY_8812)
      (ret (sat_add entries 1))))))"

section \<open>Firmware download\<close>

record firmware_stats =
  fst_bytes_written :: u64
  fst_control_writes :: u64
  fst_checksum_poll_attempts :: u32
  fst_ready_poll_attempts :: u32

definition production_firmware_page_address :: "nat \<Rightarrow> (radio_error, u16) result" where
  "production_firmware_page_address page_offset =
     (if 2 ^ 16 \<le> page_offset
      then Inl (radio_error_new ''firmware_offset_too_large''
             (''firmware page offset '' @ show_nat page_offset @ '' does not fit in a register address''))
      else if 2 ^ 16 \<le> unat FW_START_ADDRESS + page_offset
      then Inl (radio_error_new ''firmware_address_overflow''
             (''firmware address overflow: start='' @ format_register_address FW_START_ADDRESS @
              '' offset='' @ show_nat page_offset))
      else Inr (FW_START_ADDRESS + of_nat page_offset))"

definition production_firmware_write_data :: "('r, 't) reg_env \<Rightarrow> nat \<Rightarrow> bytes \<Rightarrow> ('t, unit) reg_op" where
  "production_firmware_write_data env page_offset data =
     and_then (of_result (production_firmware_page_address page_offset)) (\<lambda>address.
     if length data = 1
     then write8_with_counter env address (data ! 0) ''FW_START_ADDRESS + page_offset'' ''firmware-download''
     else counted_write
            (\<lambda>error. radio_error_new ''firmware_write_failed''
               (''firmware write offset='' @ show_nat page_offset @ '' len='' @ show_nat (length data) @
                '' addr='' @ format_register_address address @ '' failed: '' @
                show_register_error (re_show_rusb env) error))
            (write_block (re_access env) address data))"

text \<open>One of the three loops of a page: the \<open>index\<close>th block goes to \<open>base + index * sz\<close>.\<close>

definition write_blocks :: "('r, 't) reg_env \<Rightarrow> nat \<Rightarrow> nat \<Rightarrow> bytes list \<Rightarrow> u64 \<Rightarrow> ('t, u64) reg_op" where
  "write_blocks env base sz blocks bytes_written =
     for_each (List.enumerate 0 blocks)
       (\<lambda>(index, block) bytes_written.
          and_do (production_firmware_write_data env (base + index * sz) block)
            (ret (sat_add bytes_written (of_nat (length block))))) bytes_written"

definition production_write_firmware_page :: "('r, 't) reg_env \<Rightarrow> bytes \<Rightarrow> ('t, u64) reg_op" where
  "production_write_firmware_page env bs =
     (let full_block_len = length bs div MAX_REG_BLOCK_SIZE * MAX_REG_BLOCK_SIZE;
          remainder = drop full_block_len bs;
          remainder_block_len =
            length remainder div FIRMWARE_REMAINDER_BLOCK_SIZE * FIRMWARE_REMAINDER_BLOCK_SIZE
      in and_then (write_blocks env 0 MAX_REG_BLOCK_SIZE
                     (chunks MAX_REG_BLOCK_SIZE (take full_block_len bs)) 0) (\<lambda>bytes_written.
         and_then (write_blocks env full_block_len FIRMWARE_REMAINDER_BLOCK_SIZE
                     (chunks FIRMWARE_REMAINDER_BLOCK_SIZE (take remainder_block_len remainder)) bytes_written)
           (\<lambda>bytes_written.
         write_blocks env (full_block_len + remainder_block_len) 1
           (map (\<lambda>byte. [byte]) (drop remainder_block_len remainder)) bytes_written)))"

definition production_write_firmware_image :: "('r, 't) reg_env \<Rightarrow> bytes \<Rightarrow> ('t, u64) reg_op" where
  "production_write_firmware_image env firmware_payload =
     for_each (List.enumerate 0 (chunks MAX_DLFW_PAGE_SIZE firmware_payload))
       (\<lambda>(page, chunk) bytes_written.
          and_do (production_rmw8 env ''REG_MCUFWDL + 2'' REG_MCUFWDL_PLUS_2 0x07 (of_nat page AND 0x07) True
                    ''firmware-download'')
          (and_then (production_write_firmware_page env chunk) (\<lambda>n. ret (sat_add bytes_written n)))) 0"

definition production_firmware_8051_reset_8812 :: "('r, 't) reg_env \<Rightarrow> ('t, unit) reg_op" where
  "production_firmware_8051_reset_8812 env =
     (let phase = ''firmware-8051-reset'' in
      and_do (production_rmw8 env ''REG_RSV_CTRL'' REG_RSV_CTRL BIT1 0 True phase)
     (and_do (production_rmw8 env ''REG_RSV_CTRL + 1'' (REG_RSV_CTRL + 1) BIT3 0 True phase)
     (and_then (read8_with_counter env REG_SYS_FUNC_EN_PLUS_1 ''REG_SYS_FUNC_EN + 1'' phase) (\<lambda>sys_func.
      and_do (production_write8_verify env ''REG_SYS_FUNC_EN + 1'' REG_SYS_FUNC_EN_PLUS_1
               (sys_func AND NOT BIT2) BIT2 0 phase)
     (and_do (production_rmw8 env ''REG_RSV_CTRL'' REG_RSV_CTRL BIT1 0 True phase)
     (and_do (production_rmw8 env ''REG_RSV_CTRL + 1'' (REG_RSV_CTRL + 1) BIT3 BIT3 True phase)
      (production_write8_verify env ''REG_SYS_FUNC_EN + 1'' REG_SYS_FUNC_EN_PLUS_1
               (sys_func OR BIT2) BIT2 BIT2 phase)))))))"

definition production_firmware_preflight_reset_loaded_code :: "('r, 't) reg_env \<Rightarrow> ('t, unit) reg_op" where
  "production_firmware_preflight_reset_loaded_code env =
     and_then (read8_with_counter env REG_MCUFWDL ''REG_MCUFWDL'' ''firmware-preflight'') (\<lambda>v.
     if v AND RAM_DL_SEL = 0 then ret ()
     else and_do (production_write8_verify env ''REG_MCUFWDL'' REG_MCUFWDL 0 RAM_DL_SEL 0 ''firmware-preflight'')
            (production_firmware_8051_reset_8812 env))"

text \<open>
  The loop \<open>for attempt in 1..=3\<close>, with \<open>n\<close> attempts left: the attempts of the checksum poll, the bytes
  written so far and the result of the latest attempt.
\<close>

fun download_loop ::
    "('r, 't) reg_env \<Rightarrow> bytes \<Rightarrow> u64 \<Rightarrow> (radio_error, unit) result \<Rightarrow> nat \<Rightarrow>
     ('t, u32 \<times> u64 \<times> (radio_error, unit) result) reg_op" where
  "download_loop env firmware_payload bytes_written result 0 = ret (0, bytes_written, result)"
| "download_loop env firmware_payload bytes_written result (Suc n) =
     and_do (production_rmw8 env ''REG_MCUFWDL'' REG_MCUFWDL FWDL_CHKSUM_RPT_U8 FWDL_CHKSUM_RPT_U8 False
               ''firmware-download'')
     (and_then (production_write_firmware_image env firmware_payload) (\<lambda>k.
      let bytes_written = sat_add bytes_written k in
      and_then (as_value (production_poll32_min env ''REG_MCUFWDL'' REG_MCUFWDL FWDL_CHKSUM_RPT_U32
                  FWDL_CHKSUM_RPT_U32 5 (millis 50) (micros 1000))) (\<lambda>r.
      case r of
        Inr (attempts, v) \<Rightarrow> ret (attempts, bytes_written, Inr ())
      | Inl error \<Rightarrow> download_loop env firmware_payload bytes_written (Inl error) n)))"

definition production_firmware_sequence :: "('r, 't) reg_env \<Rightarrow> bytes \<Rightarrow> ('t, firmware_stats) reg_op" where
  "production_firmware_sequence env firmware_payload =
     and_then control_writes (\<lambda>before_writes.
     and_do (production_firmware_preflight_reset_loaded_code env)
     (and_do (production_rmw8 env ''REG_MCUFWDL'' REG_MCUFWDL MCUFWDL_EN MCUFWDL_EN True ''firmware-download-enable'')
     (and_do (production_rmw8 env ''REG_MCUFWDL + 2'' REG_MCUFWDL_PLUS_2 BIT3 0 True ''firmware-download-enable'')
     (and_then (download_loop env firmware_payload 0
                  (Inl (radio_error_new ''firmware_download_not_started'' ''firmware download loop did not run'')) 3)
        (\<lambda>(checksum_poll_attempts, bytes_written, download_result).
      and_then (as_value (production_rmw8 env ''REG_MCUFWDL'' REG_MCUFWDL MCUFWDL_EN 0 True
                  ''firmware-download-disable'')) (\<lambda>disable_result.
      and_do (of_result download_result)
     (and_do (of_result disable_result)
     (and_then (read32_with_counter env REG_MCUFWDL ''REG_MCUFWDL'' ''firmware-ready'') (\<lambda>before.
      and_do (production_write32_verify env ''REG_MCUFWDL'' REG_MCUFWDL
                ((before OR MCUFWDL_RDY) AND NOT WINTINI_RDY) 0 0 ''firmware-ready'')
     (and_do (production_firmware_8051_reset_8812 env)
     (and_then (production_poll32_min env ''REG_MCUFWDL'' REG_MCUFWDL WINTINI_RDY WINTINI_RDY 10
                  (millis 200) (micros 1000)) (\<lambda>(ready_poll_attempts, v).
      and_then (writes_since before_writes) (\<lambda>writes.
      ret \<lparr>fst_bytes_written = bytes_written, fst_control_writes = writes,
           fst_checksum_poll_attempts = checksum_poll_attempts,
           fst_ready_poll_attempts = ready_poll_attempts\<rparr>)))))))))))))"

section \<open>Queues\<close>

record queue_layout =
  ql_bulk_out_endpoint_count :: nat
  ql_hpq :: u8
  ql_lpq :: u8
  ql_npq :: u8
  ql_pubq :: u8
  ql_rqpn_npq :: u8
  ql_rqpn :: u32
  ql_queue_map :: u16

definition production_queue_map :: "u16 \<Rightarrow> u16 \<Rightarrow> u16 \<Rightarrow> u16 \<Rightarrow> u16 \<Rightarrow> u16 \<Rightarrow> u16" where
  "production_queue_map beq bkq viq voq mgq hiq =
     push_bit 14 (hiq AND 0x3) OR push_bit 12 (mgq AND 0x3) OR push_bit 10 (bkq AND 0x3) OR
     push_bit 8 (beq AND 0x3) OR push_bit 6 (viq AND 0x3) OR push_bit 4 (voq AND 0x3)"

definition production_queue_map_for_endpoint_count :: "nat \<Rightarrow> u16" where
  "production_queue_map_for_endpoint_count n =
     (if n = 2 then production_queue_map QUEUE_NORMAL QUEUE_NORMAL QUEUE_HIGH QUEUE_HIGH QUEUE_HIGH QUEUE_HIGH
      else if n = 3 then production_queue_map QUEUE_LOW QUEUE_LOW QUEUE_NORMAL QUEUE_HIGH QUEUE_HIGH QUEUE_HIGH
      else if n = 4 then production_queue_map QUEUE_LOW QUEUE_LOW QUEUE_NORMAL QUEUE_NORMAL QUEUE_EXTRA QUEUE_HIGH
      else 0)"

text \<open>\<open>checked_sub\<close>.\<close>

definition checked_sub :: "u8 \<Rightarrow> u8 \<Rightarrow> u8 option" where
  "checked_sub a b = (if b \<le> a then Some (a - b) else None)"

definition production_queue_layout_from_bulk_out_endpoint_count :: "nat \<Rightarrow> (radio_error, queue_layout) result" where
  "production_queue_layout_from_bulk_out_endpoint_count n =
     bind_res
       (if n = 2 then Inr (True, False, True)
        else if n = 3 \<or> n = 4 then Inr (True, True, True)
        else Inl (radio_error_new ''unsupported_bulk_out_endpoint_count''
               (''queue/DMA setup supports 2, 3, or 4 bulk OUT endpoints, found '' @ show_nat n)))
       (\<lambda>(use_hpq, use_lpq, use_npq).
     let hpq = (if use_hpq then NORMAL_PAGE_NUM_HPQ_8812 else 0);
         lpq = (if use_lpq then NORMAL_PAGE_NUM_LPQ_8812 else 0);
         npq = (if use_npq then NORMAL_PAGE_NUM_NPQ_8812 else 0)
     in case Option.bind (Option.bind (checked_sub TX_TOTAL_PAGE_NUMBER_8812 hpq) (\<lambda>v. checked_sub v lpq))
               (\<lambda>v. checked_sub v npq) of
          None \<Rightarrow> Inl (radio_error_new ''invalid_queue_page_layout''
                    ''queue reserved-page layout underflowed public queue pages'')
        | Some pubq \<Rightarrow>
            Inr \<lparr>ql_bulk_out_endpoint_count = n, ql_hpq = hpq, ql_lpq = lpq, ql_npq = npq, ql_pubq = pubq,
                 ql_rqpn_npq = npq,
                 ql_rqpn = ucast hpq OR push_bit 8 (ucast lpq) OR push_bit 16 (ucast pubq) OR LD_RQPN,
                 ql_queue_map = production_queue_map_for_endpoint_count n\<rparr>)"

definition production_queue_layout_from_endpoints :: "usb_endpoints \<Rightarrow> (radio_error, queue_layout) result" where
  "production_queue_layout_from_endpoints endpoints =
     production_queue_layout_from_bulk_out_endpoint_count (length (ue_bulk_out_all endpoints))"

definition boundary_registers :: "(string \<times> u16) list" where
  "boundary_registers =
     [(''REG_BCNQ_BDNY'', REG_BCNQ_BDNY), (''REG_MGQ_BDNY'', REG_MGQ_BDNY),
      (''REG_WMAC_LBK_BF_HD'', REG_WMAC_LBK_BF_HD), (''REG_TRXFF_BNDY'', REG_TRXFF_BNDY),
      (''REG_TDECTRL + 1'', REG_TDECTRL + 1)]"

definition production_queue_dma_sequence :: "('r, 't) reg_env \<Rightarrow> queue_layout \<Rightarrow> ('t, u64) reg_op" where
  "production_queue_dma_sequence env layout =
     (let phase = ''queue-dma'' in
      and_do (production_preflight_cr env ''queue/DMA programming'')
     (and_then control_writes (\<lambda>before_writes.
      and_do (production_write8_verify env ''REG_RQPN_NPQ'' REG_RQPN_NPQ (ql_rqpn_npq layout) (- 1)
                (ql_rqpn_npq layout) phase)
     (and_do (production_write32_verify env ''REG_RQPN'' REG_RQPN (ql_rqpn layout) RQPN_PAGE_MASK
                (ql_rqpn layout) phase)
     (and_do (for_each boundary_registers (\<lambda>(register_name, address) _.
                production_write8_verify env register_name address TX_PAGE_BOUNDARY_8812 (- 1)
                  TX_PAGE_BOUNDARY_8812 phase) ())
     (and_do (production_rmw16_preserve env ''REG_TRXDMA_CTRL'' REG_TRXDMA_CTRL 0x0007 TXDMA_QUEUE_MAP_MASK
                (ql_queue_map layout) phase)
     (and_do (production_write16_verify env ''REG_TRXFF_BNDY + 2'' (REG_TRXFF_BNDY + 2) RX_DMA_BOUNDARY_8812
                (- 1) RX_DMA_BOUNDARY_8812 phase)
     (and_do (production_write8_verify env ''REG_PBP'' REG_PBP PSTX_PBP_512 (- 1) PSTX_PBP_512 phase)
      (writes_since before_writes)))))))))"

end
