(* ===== verification/Bring_Up_Effects.thy ===== *)
theory Bring_Up_Effects
  imports Bring_Up
begin

text \<open>
  What the bring-up does to the device: the link list that is programmed, the firmware that is
  loaded, the accounting of the control transfers, and that every sequence returns.
\<close>

section \<open>Sequencing\<close>

lemma accounted_and_do [accounted_intros]:
  "accounted trace m \<Longrightarrow> accounted trace n \<Longrightarrow> accounted trace (and_do m n)"
  unfolding and_do_def by (intro accounted_intros)

lemma accounted_writes_since [accounted_intros]: "accounted trace (writes_since before)"
  unfolding writes_since_def by (intro accounted_intros)

lemma accounted_case_prod [accounted_intros]:
  "(\<And>a b. accounted trace (f a b)) \<Longrightarrow> accounted trace (case_prod f p)"
  by (cases p) simp

lemma accounted_case_prod_arg [accounted_intros]:
  "(\<And>a b. accounted trace (f a b x)) \<Longrightarrow> accounted trace (case_prod f p x)"
  by (cases p) simp

lemma accounted_case_sum [accounted_intros]:
  "(\<And>e. accounted trace (f e)) \<Longrightarrow> (\<And>x. accounted trace (g x)) \<Longrightarrow> accounted trace (case_sum f g r)"
  by (cases r) simp_all

lemma accounted_let [accounted_intros]: "accounted trace (f x) \<Longrightarrow> accounted trace (let y = x in f y)"
  by simp

lemma performs_do:
  "performs trace m (\<lambda>_ w. w = ws) \<Longrightarrow> performs trace n (\<lambda>y v. R y (ws @ v)) \<Longrightarrow> performs trace (and_do m n) R"
  unfolding and_do_def by (rule performs_then [where P = "\<lambda>_. True" and ws = "\<lambda>_. ws"]) simp_all

lemma performs_silent_do:
  "performs trace m (\<lambda>_ w. w = []) \<Longrightarrow> performs trace n R \<Longrightarrow> performs trace (and_do m n) R"
  unfolding and_do_def by (rule performs_silent)

lemma performs_control_writes: "performs trace control_writes (\<lambda>_ w. w = [])"
  by (auto simp: performs_def control_writes_def intro: exI [of _ "[]"])

lemma performs_writes_since: "performs trace (writes_since before) (\<lambda>_ w. w = [])"
  unfolding writes_since_def
  by (rule performs_silent [OF performs_control_writes]) (simp add: performs_mono [OF performs_ret])

lemma performs_of_result: "performs trace (of_result r) (\<lambda>x w. r = Inr x \<and> w = [])"
  by (auto simp: performs_def of_result_def intro: exI [of _ "[]"])

context observed_device
begin

section \<open>Accounting\<close>

lemma accounted_power_on [accounted_intros]: "accounted trace (production_power_on_sequence env)"
  unfolding production_power_on_sequence_def by (intro accounted_intros)

lemma accounted_preflight_cr [accounted_intros]: "accounted trace (production_preflight_cr env label)"
  unfolding production_preflight_cr_def by (intro accounted_intros)

lemma accounted_llt_write [accounted_intros]: "accounted trace (production_llt_write env a d)"
proof -
  have "accounted trace (llt_poll env a d latest n)" for latest n
    by (induction n arbitrary: latest) (auto intro!: accounted_intros)
  then show ?thesis unfolding production_llt_write_def by (intro accounted_intros)
qed

lemma accounted_llt [accounted_intros]: "accounted trace (production_llt_sequence env)"
  unfolding production_llt_sequence_def by (intro accounted_intros)

lemma accounted_firmware_data [accounted_intros]: "accounted trace (production_firmware_write_data env o' d)"
  unfolding production_firmware_write_data_def by (intro accounted_intros)

lemma accounted_firmware_page [accounted_intros]: "accounted trace (production_write_firmware_page env bs)"
  unfolding production_write_firmware_page_def write_blocks_def by (intro accounted_intros)

lemma accounted_firmware_image [accounted_intros]: "accounted trace (production_write_firmware_image env bs)"
  unfolding production_write_firmware_image_def by (intro accounted_intros)

lemma accounted_8051_reset [accounted_intros]: "accounted trace (production_firmware_8051_reset_8812 env)"
  unfolding production_firmware_8051_reset_8812_def by (intro accounted_intros)

lemma accounted_firmware_preflight [accounted_intros]:
  "accounted trace (production_firmware_preflight_reset_loaded_code env)"
  unfolding production_firmware_preflight_reset_loaded_code_def by (intro accounted_intros)

lemma accounted_download_loop [accounted_intros]: "accounted trace (download_loop env bs k r n)"
  by (induction n arbitrary: k r) (auto simp only: download_loop.simps intro!: accounted_intros)

lemma accounted_firmware [accounted_intros]: "accounted trace (production_firmware_sequence env bs)"
  unfolding production_firmware_sequence_def by (intro accounted_intros)

lemma accounted_queue_dma [accounted_intros]: "accounted trace (production_queue_dma_sequence env layout)"
  unfolding production_queue_dma_sequence_def by (intro accounted_intros)

end

text \<open>
  On every transport and on every branch of the bring-up, errors included, the control
  transfer counters grow by exactly the register reads and writes the transport completed.
\<close>

theorem bring_up_accounted:
  "accounted snd (production_power_on_sequence (logged env)) \<and>
   accounted snd (production_llt_sequence (logged env)) \<and>
   accounted snd (production_firmware_sequence (logged env) payload) \<and>
   accounted snd (production_queue_dma_sequence (logged env) layout)"
  by (intro conjI accounted_intros)

section \<open>The link list\<close>

text \<open>
  The table the device holds after a sequence of register writes: a write to \<open>REG_LLT_INIT\<close> with the
  write operation stores the data byte at the address byte.
\<close>

definition llt_store :: "u16 \<times> bytes \<Rightarrow> (u8 \<Rightarrow> u8 option) \<Rightarrow> u8 \<Rightarrow> u8 option" where
  "llt_store w t =
     (let v = of_le32 (snd w) in
      if fst w = REG_LLT_INIT \<and> llt_op_value v = LLT_WRITE_ACCESS then t(ucast (drop_bit 8 v) \<mapsto> ucast v) else t)"

definition llt_table :: "(u16 \<times> bytes) list \<Rightarrow> u8 \<Rightarrow> u8 option" where
  "llt_table ws = fold llt_store ws (\<lambda>_. None)"

definition llt_entry :: "u8 \<Rightarrow> u8 \<Rightarrow> u16 \<times> bytes" where
  "llt_entry a d = (REG_LLT_INIT, le32 (encode_llt_write a d))"

lemma bit_llt_access: "bit LLT_WRITE_ACCESS n \<longleftrightarrow> n = 0"
  by (simp add: LLT_WRITE_ACCESS_def bit_1_iff)

lemma encode_llt_fields:
  "llt_op_value (encode_llt_write a d) = LLT_WRITE_ACCESS"
  "ucast (drop_bit 8 (encode_llt_write a d)) = a" "ucast (encode_llt_write a d) = d"
proof -
  have low: "bit LLT_OP_MASK n \<longleftrightarrow> n = 0 \<or> n = 1" for n
  proof -
    have m: "LLT_OP_MASK = mask 2" by (simp add: LLT_OP_MASK_def mask_eq_exp_minus_1)
    have "bit LLT_OP_MASK n \<longleftrightarrow> n < 32 \<and> n < 2" unfolding m bit_mask_iff by simp
    then show ?thesis by auto
  qed
  show "llt_op_value (encode_llt_write a d) = LLT_WRITE_ACCESS"
    by (rule bit_word_eqI)
      (auto simp: llt_op_value_def encode_llt_write_def LLT_OP_SHIFT_def low bit_llt_access
        bit_simps dest: bit_u8_bound)
  show "ucast (drop_bit 8 (encode_llt_write a d)) = a" "ucast (encode_llt_write a d) = d"
    by (rule bit_word_eqI;
        auto simp: encode_llt_write_def LLT_OP_SHIFT_def bit_llt_access bit_simps dest: bit_u8_bound)+
qed

lemma llt_store_entry: "llt_store (llt_entry a d) t = t(a \<mapsto> d)"
  by (simp add: llt_store_def llt_entry_def le32.dec_enc encode_llt_fields Let_def)

lemma fold_llt_store:
  "fold llt_store (map (\<lambda>a. llt_entry a (f a)) xs) t = (\<lambda>a. if a \<in> set xs then Some (f a) else t a)"
  by (induction xs arbitrary: t) (auto simp: llt_store_entry)

definition llt_next :: "u8 \<Rightarrow> u8" where
  "llt_next a = (if a = 0xf6 then 0xff else if a = 0xff then 0xf7 else a + 1)"

lemma u8_range_code:
  "u8_range 0 (TX_PAGE_BOUNDARY_8812 - 1) = map of_nat [0..<246]"
  "u8_range TX_PAGE_BOUNDARY_8812 LAST_ENTRY_OF_TX_PKT_BUFFER_8812 = map of_nat [247..<255]"
  by (simp_all add: u8_range_def TX_PAGE_BOUNDARY_8812_def LAST_ENTRY_OF_TX_PKT_BUFFER_8812_def)

lemma fold_sat_count:
  "unat c + length xs < 2 ^ 64 \<Longrightarrow> fold (\<lambda>_ n. sat_add n 1) xs c = c + of_nat (length xs)"
  for c :: u64
proof (induction xs arbitrary: c)
  case (Cons x xs)
  then have c: "unat (c + 1) = unat c + 1" by (simp add: unat_word_ariths)
  then have "sat_add c 1 = c + 1" by (simp add: sat_add_def word_le_nat_alt)
  then show ?case using Cons c by (simp add: add.assoc)
qed simp

context observed_device
begin

lemma performs_preflight_cr: "performs trace (production_preflight_cr env label) (\<lambda>_ w. w = [])"
  unfolding production_preflight_cr_def
  by (rule performs_silent [OF performs_counted(2)])
    (auto intro: performs_mono [OF performs_fail] performs_mono [OF performs_ret])

lemma performs_llt_write: "performs trace (production_llt_write env a d) (\<lambda>_ w. w = [llt_entry a d])"
proof -
  have "performs trace (llt_poll env a d latest n) (\<lambda>_ w. w = [])" for latest n
  proof (induction n arbitrary: latest)
    case 0
    show ?case by (simp add: performs_mono [OF performs_fail])
  next
    case (Suc n)
    have "performs trace (if llt_op_value v = LLT_NO_ACTIVE then ret ()
        else and_do (sleep env (micros 10)) (llt_poll env a d v n)) (\<lambda>_ w. w = [])" for v
      using performs_silent_do [OF performs_clock(1) Suc.IH] performs_mono [OF performs_ret [of trace "()"]] by simp
    then show ?case unfolding llt_poll.simps by (rule performs_silent [OF performs_counted(3)])
  qed
  then show ?thesis
    unfolding production_llt_write_def llt_entry_def
    by (rule performs_do [OF performs_counted(6)  performs_mono]) simp
qed

lemma performs_llt_range:
  "performs trace
     (for_each xs (\<lambda>address entries. and_do (production_llt_write env address (address + 1))
        (ret (sat_add entries 1))) n)
     (\<lambda>m w. m = fold (\<lambda>_ n. sat_add n 1) xs n \<and> w = map (\<lambda>a. llt_entry a (a + 1)) xs)"
  for n :: u64
proof -
  have "performs trace (and_do (production_llt_write env x (x + 1)) (ret (sat_add k 1)))
      (\<lambda>b w. b = sat_add k 1 \<and> w = [llt_entry x (x + 1)])" for x and k :: u64
    by (rule performs_do [OF performs_llt_write]) (simp add: performs_mono [OF performs_ret])
  from performs_for_each [where g = "\<lambda>_ k. sat_add k 1" and ws = "\<lambda>x. [llt_entry x (x + 1)]", OF this]
  show ?thesis by (simp add: comp_def cong: map_cong)
qed

lemma performs_llt:
  "performs trace (production_llt_sequence env)
     (\<lambda>n w. n = 256 \<and> w = map (\<lambda>a. llt_entry a (llt_next a)) (map of_nat [0..<256]))"
proof -
  have count: "fold (\<lambda>_ k. sat_add k 1) (map of_nat [0..<246] :: u8 list) (0 :: u64) = 246"
    "fold (\<lambda>_ k. sat_add k 1) (map of_nat [247..<255] :: u8 list) (247 :: u64) = 255"
    by (subst fold_sat_count; simp)+
  have one: "sat_add 246 1 = (247 :: u64)" "sat_add 255 1 = (256 :: u64)" by (simp_all add: sat_add_def)
  have bounds: "247 - 1 = (246 :: u8)" "TX_PAGE_BOUNDARY_8812 = 0xf7" "LAST_ENTRY_OF_TX_PKT_BUFFER_8812 = 0xff"
    by (simp_all add: TX_PAGE_BOUNDARY_8812_def LAST_ENTRY_OF_TX_PKT_BUFFER_8812_def)
  have upto: "[0..<256] = [0..<246] @ 246 # [247..<255] @ [255]"
    using upt_add_eq_append [of 0 246 10] upt_conv_Cons [of 246 256] upt_add_eq_append [of 247 255 1]
      upt_conv_Cons [of 255 256]
    by (simp del: upt_rec_numeral)
  have step: "map (\<lambda>a. llt_entry a (llt_next a)) (map of_nat [m..<n]) = map (\<lambda>a. llt_entry a (a + 1)) (map of_nat [m..<n])"
    if "n \<le> 246 \<or> 247 \<le> m \<and> n \<le> 255" for m n
    using that by (auto simp: llt_next_def word_unat_eq_iff unat_of_nat)
  let ?lo = "map of_nat [0..<246] :: u8 list" and ?hi = "map of_nat [247..<255] :: u8 list"
  have all: "map (\<lambda>a. llt_entry a (llt_next a)) (map of_nat [0..<256]) =
      map (\<lambda>a. llt_entry a (a + 1)) ?lo @ [llt_entry 0xf6 0xff] @ map (\<lambda>a. llt_entry a (a + 1)) ?hi @ [llt_entry 0xff 0xf7]"
    unfolding upto map_append list.map using step [of 246 0] step [of 255 247] by (simp add: llt_next_def)
  show ?thesis
    unfolding production_llt_sequence_def u8_range_code
    by (rule performs_silent_do [OF performs_preflight_cr] performs_then [OF performs_llt_range]
          performs_do [OF performs_llt_write] performs_mono [OF performs_ret])+
      (elim conjE, simp only: count one all bounds append_Nil2 append_assoc append_Cons append_Nil simp_thms)
qed

end

text \<open>
  C27. When the link list sequence succeeds it reports 256 entries and the device holds, for every
  page, its successor: the transmit pages 0 to 0xf6 form one chain that ends with the marker
  0xff, and the pages from the boundary 0xf7 up to 0xff form a ring.
\<close>

theorem llt_programs_chain_and_ring:
  assumes "production_llt_sequence (logged env) s = Some (Inr n, s')"
  shows "n = 256 \<and>
    (\<exists>w. snd (fst s') = snd (fst s) @ w \<and> length (written w) = 256 \<and>
       llt_table (written w) = (\<lambda>a. Some (if a = 0xf6 then 0xff else if a = 0xff then 0xf7 else a + 1)))"
proof -
  obtain w where w: "snd (fst s') = snd (fst s) @ w" "n = 256"
    "written w = map (\<lambda>a. llt_entry a (llt_next a)) (map of_nat [0..<256])"
    using performsD [OF logged.performs_llt assms] by blast
  have "a \<in> set (map of_nat [0..<256])" for a :: u8
    using unsigned_less [where 'a = nat, of a] by (auto intro!: image_eqI [of _ _ "unat a"])
  then have "llt_table (written w) = (\<lambda>a. Some (llt_next a))"
    unfolding w(3) llt_table_def fold_llt_store by simp
  moreover have "length (written w) = 256" unfolding w(3) by simp
  ultimately show ?thesis using w(1,2) by (auto simp: llt_next_def)
qed

text \<open>A device that answers every read with zero, except that its MAC is powered on.\<close>

definition powered_env :: "(unit, unit) reg_env" where
  "powered_env =
     \<lparr>re_access = register_access_new
        (\<lambda>_ _ addr _ data _ dev. (Inr (length data), if addr = REG_CR then [0x3f, 0x06] else replicate (length data) 0, dev))
        (\<lambda>_ _ _ _ data _ dev. (Inr (length data), dev)),
      re_show_rusb = (\<lambda>_. []), re_sleep = (\<lambda>_ dev. dev), re_now = (\<lambda>dev. (0, dev))\<rparr>"

definition succeeds :: "('t, 'a) reg_op \<Rightarrow> bool" where
  "succeeds m \<longleftrightarrow> (\<forall>s. \<exists>x s'. m s = Some (Inr x, s'))"

lemma succeeds_ret: "succeeds (ret x)"
  by (simp add: succeeds_def ret_def)

lemma succeeds_and_then: "succeeds m \<Longrightarrow> (\<And>x. succeeds (f x)) \<Longrightarrow> succeeds (and_then m f)"
  unfolding succeeds_def
proof
  fix s assume m: "\<forall>s. \<exists>x s'. m s = Some (Inr x, s')" and f: "\<And>x. \<forall>s. \<exists>y s'. f x s = Some (Inr y, s')"
  from m obtain x t where "m s = Some (Inr x, t)" by blast
  moreover from f obtain y s' where "f x t = Some (Inr y, s')" by blast
  ultimately show "\<exists>x s'. and_then m f s = Some (Inr x, s')" by (simp add: and_then_def)
qed

lemma succeeds_and_do: "succeeds m \<Longrightarrow> succeeds n \<Longrightarrow> succeeds (and_do m n)"
  unfolding and_do_def by (rule succeeds_and_then)

lemma succeeds_for_each: "(\<And>x a. succeeds (g x a)) \<Longrightarrow> succeeds (for_each xs g acc)"
  by (induction xs arbitrary: acc) (simp_all add: succeeds_ret succeeds_and_then)

lemma powered_exact:
  "expected_len w = length data \<Longrightarrow> read_exact (re_access (logged powered_env)) addr w data dev =
     (Inr (if addr = REG_CR then [0x3f, 0x06] else replicate (length data) 0),
      (fst dev, snd dev @ [RdReg addr (length data)]))"
  "expected_len w = length data \<Longrightarrow> write_all (re_access (logged powered_env)) addr w data dev =
     (Inr (), (fst dev, snd dev @ [WrReg addr data]))"
  by (cases dev; simp add: read_exact_def write_all_def read_vendor_def write_vendor_def logged_def
      logged_access_def powered_env_def register_access_new_def)+

lemma powered_accesses:
  "\<exists>t. read16_with_counter (logged powered_env) REG_CR name phase s = Some (Inr 0x063f, t)"
  "\<exists>t. read32_with_counter (logged powered_env) REG_LLT_INIT name phase s = Some (Inr 0, t)"
  "succeeds (write32_with_counter (logged powered_env) a v name phase)"
proof -
  have "of_le16 [0x3f, 0x06] = 0x063f" by (simp add: of_le16_def)
  then show "\<exists>t. read16_with_counter (logged powered_env) REG_CR name phase s = Some (Inr 0x063f, t)"
    by (simp add: read16_with_counter_def counted_read_def read16_def map_ok_def powered_exact)
  have "of_le32 [0, 0, 0, 0] = 0" "REG_LLT_INIT \<noteq> REG_CR"
    by (simp_all add: of_le32_def REG_LLT_INIT_def REG_CR_def)
  then show "\<exists>t. read32_with_counter (logged powered_env) REG_LLT_INIT name phase s = Some (Inr 0, t)"
    by (simp add: read32_with_counter_def counted_read_def read32_def map_ok_def powered_exact)
  show "succeeds (write32_with_counter (logged powered_env) a v name phase)"
    by (simp add: succeeds_def write32_with_counter_def counted_write_def write32_def powered_exact le32.enc_length)
qed

lemma powered_llt_succeeds: "succeeds (production_llt_sequence (logged powered_env))"
proof -
  have cr: "succeeds (production_preflight_cr (logged powered_env) label)" for label
    unfolding succeeds_def
  proof
    fix s
    obtain t where "read16_with_counter (logged powered_env) REG_CR ''REG_CR'' ''preflight'' s = Some (Inr 0x063f, t)"
      using powered_accesses(1) by blast
    then show "\<exists>x s'. production_preflight_cr (logged powered_env) label s = Some (Inr x, s')"
      by (simp add: production_preflight_cr_def and_then_def CR_ENABLE_BITS_def ret_def)
  qed
  have poll: "succeeds (llt_poll (logged powered_env) a d latest 25)" for a d latest
    unfolding succeeds_def
  proof
    fix s
    obtain t where "read32_with_counter (logged powered_env) REG_LLT_INIT ''REG_LLT_INIT'' ''llt'' s = Some (Inr 0, t)"
      using powered_accesses(2) by blast
    moreover have "(25::nat) = Suc 24" by simp
    ultimately show "\<exists>x s'. llt_poll (logged powered_env) a d latest 25 s = Some (Inr x, s')"
      by (simp only: llt_poll.simps and_then_def) (simp add: llt_op_value_def LLT_NO_ACTIVE_def ret_def)
  qed
  show ?thesis
    unfolding production_llt_sequence_def production_llt_write_def
    by (intro succeeds_and_do succeeds_and_then succeeds_for_each succeeds_ret cr poll powered_accesses(3))
qed

lemma llt_programs_chain_and_ring_witness:
  "\<exists>s'. production_llt_sequence (logged powered_env) (((), []), radio_counters_default) = Some (Inr 256, s') \<and>
     llt_table (written (snd (fst s'))) 0xf6 = Some 0xff"
proof -
  obtain n s' where run: "production_llt_sequence (logged powered_env) (((), []), radio_counters_default) = Some (Inr n, s')"
    using powered_llt_succeeds unfolding succeeds_def by blast
  from llt_programs_chain_and_ring [OF run] run show ?thesis by auto
qed

end
