(* ===== verification/Firmware_Load.thy ===== *)
theory Firmware_Load
  imports Bring_Up_Effects
begin

text \<open>
  The firmware download puts the payload into the memory of the device: the blocks of a page are
  a cutting of the page, the pages a cutting of the payload, and what is written through the page
  window is the payload.
\<close>

section \<open>The blocks of a page\<close>

text \<open>The reference for the three loops of a page: as long blocks as fit, 196, 8 or 1 bytes.\<close>

definition page_block_len :: "nat \<Rightarrow> nat" where
  "page_block_len n = (if 196 \<le> n then 196 else if 8 \<le> n then 8 else 1)"

interpretation page: cutting page_block_len
  by unfold_locales (simp add: page_block_len_def)

lemma enumerate_chunks:
  assumes "0 < sz"
  shows "map (\<lambda>(i, b). (base + i * sz, b)) (List.enumerate k (map snd (pieces (chunk_len sz) off xs))) =
    pieces (chunk_len sz) (base + k * sz) xs"
proof (induction "length xs" arbitrary: off xs k rule: less_induct)
  case less
  show ?case
  proof (cases "xs = []")
    case True
    then show ?thesis by (simp add: pieces.simps)
  next
    case False
    let ?n = "chunk_len sz (length xs)"
    have n: "0 < ?n" using False assms by (simp add: chunk_len_def)
    then have step: "pieces (chunk_len sz) o' xs = (o', take ?n xs) # pieces (chunk_len sz) (o' + ?n) (drop ?n xs)" for o'
      using False by (simp add: pieces.simps [of _ _ xs] Let_def max_def)
    have "map (\<lambda>(i, b). (base + i * sz, b))
        (List.enumerate (Suc k) (map snd (pieces (chunk_len sz) (off + ?n) (drop ?n xs)))) =
        pieces (chunk_len sz) (base + Suc k * sz) (drop ?n xs)"
      by (rule less) (use n False in simp)
    also have "\<dots> = pieces (chunk_len sz) (base + k * sz + ?n) (drop ?n xs)"
    proof (cases "sz \<le> length xs")
      case True
      then show ?thesis by (simp add: chunk_len_def algebra_simps)
    next
      case False
      then show ?thesis by (simp add: chunk_len_def pieces.simps)
    qed
    finally show ?thesis unfolding step by simp
  qed
qed

lemma pieces_append:
  assumes "0 < n" "n dvd length xs" "\<And>j. n dvd j \<Longrightarrow> 0 < j \<Longrightarrow> j \<le> length xs \<Longrightarrow> f (j + length ys) = n"
  shows "pieces f off (xs @ ys) = pieces (chunk_len n) off xs @ pieces f (off + length xs) ys"
  using assms
proof (induction "length xs" arbitrary: off xs rule: less_induct)
  case less
  show ?case
  proof (cases "xs = []")
    case True
    then show ?thesis by (simp add: pieces.simps)
  next
    case False
    then have len: "n \<le> length xs" "f (length (xs @ ys)) = n"
      using less.prems by (auto dest: dvd_imp_le)
    have "pieces f (off + n) (drop n xs @ ys) =
        pieces (chunk_len n) (off + n) (drop n xs) @ pieces f (off + n + length (drop n xs)) ys"
    proof (rule less.hyps)
      show "length (drop n xs) < length xs" using False less.prems(1) by simp
      show "n dvd length (drop n xs)" using less.prems(2) by simp
    qed (use less.prems in auto)
    moreover have "pieces f off (xs @ ys) = (off, take n xs) # pieces f (off + n) (drop n xs @ ys)"
      using False len less.prems(1) by (simp add: pieces.simps [of f off "xs @ ys"] Let_def max_def)
    moreover have "pieces (chunk_len n) off xs = (off, take n xs) # pieces (chunk_len n) (off + n) (drop n xs)"
      using False len less.prems(1) by (simp add: pieces.simps [of _ off xs] Let_def max_def chunk_len_def min_def)
    ultimately show ?thesis using len by simp
  qed
qed

lemma singletons_chunks: "map (\<lambda>b. [b]) xs = chunks 1 xs"
proof -
  have step: "pieces (chunk_len 1) off (x # xs) = (off, [x]) # pieces (chunk_len 1) (off + 1) xs" for off and x :: 'a and xs
    using chunk.pieces_step [of "x # xs" 0 off] by (simp add: chunk_len_def)
  have "map (\<lambda>b. [b]) xs = map snd (pieces (chunk_len 1) off xs)" for off
    by (induction xs arbitrary: off) (simp_all only: step page.pieces_Nil list.map pieces.simps [of _ _ "[]"] simp_thms if_True snd_conv)
  then show ?thesis by (simp add: chunks_def)
qed

lemma page_blocks:
  fixes bs :: bytes
  defines "full \<equiv> length bs div 196 * 196"
  defines "rest \<equiv> drop full bs"
  defines "eights \<equiv> length rest div 8 * 8"
  shows "pieces page_block_len 0 bs =
    pieces (chunk_len 196) 0 (take full bs) @ pieces (chunk_len 8) full (take eights rest) @
    pieces (chunk_len 1) (full + eights) (drop eights rest)"
proof -
  have full: "196 dvd full" "full \<le> length bs" "length bs - full < 196"
    unfolding full_def by (simp_all add: minus_div_mult_eq_mod)
  have rest: "length rest = length bs - full" by (simp add: rest_def)
  have eights: "8 dvd eights" "eights \<le> length rest" "length rest - eights < 8"
    unfolding eights_def by (simp_all add: minus_div_mult_eq_mod)
  have lens: "length (take full bs) = full" "length (take eights rest) = eights" "length (drop eights rest) = length rest - eights"
    using full eights by simp_all
  have "pieces page_block_len 0 (take full bs @ rest) =
      pieces (chunk_len 196) 0 (take full bs) @ pieces page_block_len (0 + length (take full bs)) rest"
  proof (rule pieces_append)
    show "page_block_len (j + length rest) = 196" if "196 dvd j" "0 < j" for j
      using dvd_imp_le [OF that] by (simp add: page_block_len_def)
  qed (simp_all add: lens full)
  also have "pieces page_block_len (0 + length (take full bs)) rest =
      pieces page_block_len full (take eights rest @ drop eights rest)"
    by (simp only: lens add_0 append_take_drop_id)
  also have "\<dots> = pieces (chunk_len 8) full (take eights rest) @
      pieces page_block_len (full + length (take eights rest)) (drop eights rest)"
  proof (rule pieces_append)
    show "page_block_len (j + length (drop eights rest)) = 8" if "8 dvd j" "0 < j" "j \<le> length (take eights rest)" for j
    proof -
      have "8 \<le> j + length (drop eights rest)" "j + length (drop eights rest) < 196"
        using dvd_imp_le [OF that(1,2)] that(3) eights full(3) rest lens(2,3) by linarith+
      then show ?thesis by (simp add: page_block_len_def)
    qed
  qed (simp_all only: lens eights zero_less_numeral)
  also have "pieces page_block_len (full + length (take eights rest)) (drop eights rest) =
      pieces page_block_len (full + eights) (drop eights rest @ [])"
    by (simp only: lens append_Nil2)
  also have "\<dots> = pieces (chunk_len 1) (full + eights) (drop eights rest) @
      pieces page_block_len (full + eights + length (drop eights rest)) []"
  proof (rule pieces_append)
    show "page_block_len (j + length []) = 1" if "0 < j" "j \<le> length (drop eights rest)" for j
      using that eights by (simp add: page_block_len_def)
  qed simp_all
  finally show ?thesis by (simp add: rest_def page.pieces_Nil)
qed

section \<open>The memory behind the page window\<close>

text \<open>
  The low three bits of \<open>REG_MCUFWDL + 2\<close> select a 4096 byte page of the firmware memory, and a
  write at \<open>FW_START_ADDRESS + o\<close> stores its bytes from offset \<open>o\<close> of the selected page.
\<close>

definition overlay :: "nat \<Rightarrow> bytes \<Rightarrow> (nat \<Rightarrow> u8) \<Rightarrow> nat \<Rightarrow> u8" where
  "overlay base bs m = (\<lambda>j. if base \<le> j \<and> j < base + length bs then bs ! (j - base) else m j)"

definition fw_step :: "u16 \<times> bytes \<Rightarrow> nat \<times> (nat \<Rightarrow> u8) \<Rightarrow> nat \<times> (nat \<Rightarrow> u8)" where
  "fw_step w s =
     (if fst w = REG_MCUFWDL_PLUS_2 then (unat (snd w ! 0 AND 7), snd s)
      else if FW_START_ADDRESS \<le> fst w
      then (fst s, overlay (fst s * 4096 + unat (fst w - FW_START_ADDRESS)) (snd w) (snd s))
      else s)"

abbreviation fw_run :: "(u16 \<times> bytes) list \<Rightarrow> nat \<times> (nat \<Rightarrow> u8) \<Rightarrow> nat \<times> (nat \<Rightarrow> u8)" where
  "fw_run ws s \<equiv> fold fw_step ws s"

lemma overlay_append: "overlay base (xs @ ys) m = overlay (base + length xs) ys (overlay base xs m)"
  by (auto simp: overlay_def fun_eq_iff nth_append)

lemma overlay_Nil [simp]: "overlay base [] m = m"
  by (rule ext) (auto simp: overlay_def)

lemma overlay_overlay [simp]: "overlay base bs (overlay base bs m) = overlay base bs m"
  by (auto simp: overlay_def)

definition window_write :: "nat \<times> bytes \<Rightarrow> u16 \<times> bytes" where
  "window_write p = (FW_START_ADDRESS + of_nat (fst p), snd p)"

lemma fw_step_window:
  assumes "off < 4096"
  shows "fw_step (window_write (off, b)) (p, m) = (p, overlay (p * 4096 + off) b m)"
proof -
  have a: "unat (FW_START_ADDRESS + of_nat off) = 4096 + off"
    using assms by (simp add: FW_START_ADDRESS_def unat_word_ariths unat_of_nat)
  have "FW_START_ADDRESS + of_nat off \<noteq> REG_MCUFWDL_PLUS_2" "FW_START_ADDRESS \<le> FW_START_ADDRESS + of_nat off"
    using a by (auto simp: word_unat_eq_iff word_le_nat_alt FW_START_ADDRESS_def REG_MCUFWDL_PLUS_2_def)
  moreover have "unat (FW_START_ADDRESS + of_nat off - FW_START_ADDRESS) = off"
    using assms by (simp add: unat_of_nat)
  ultimately show ?thesis by (simp add: fw_step_def window_write_def)
qed

lemma fw_run_pieces:
  assumes "off + length bs \<le> 4096"
  shows "fw_run (map window_write (pieces f off bs)) (p, m) = (p, overlay (p * 4096 + off) bs m)"
  using assms
proof (induction f off bs arbitrary: m rule: pieces.induct)
  case (1 f off bs)
  show ?case
  proof (cases "bs = []")
    case True
    then show ?thesis by (simp add: pieces.simps)
  next
    case False
    let ?k = "max 1 (f (length bs))"
    have off: "off < 4096" using False 1(2) by (cases bs) auto
    have head: "pieces f off bs = (off, take ?k bs) # pieces f (off + ?k) (drop ?k bs)"
      using False by (simp add: pieces.simps [of f off bs] Let_def)
    show ?thesis
    proof (cases "?k < length bs")
      case True
      have "fw_run (map window_write (pieces f (off + ?k) (drop ?k bs))) (p, overlay (p * 4096 + off) (take ?k bs) m) =
          (p, overlay (p * 4096 + (off + ?k)) (drop ?k bs) (overlay (p * 4096 + off) (take ?k bs) m))"
        by (rule 1(1)) (use 1(2) False True in auto)
      also have "\<dots> = (p, overlay (p * 4096 + off) (take ?k bs @ drop ?k bs) m)"
        unfolding overlay_append using True by (simp add: add.assoc)
      finally show ?thesis unfolding head using fw_step_window [OF off] by simp
    next
      case False
      then have "length bs \<le> ?k" by linarith
      then have "take ?k bs = bs" "pieces f (off + ?k) (drop ?k bs) = []"
        by (simp_all only: take_all drop_all pieces.simps [of _ _ "[]"] simp_thms if_True)
      then show ?thesis unfolding head using fw_step_window [OF off] by simp
    qed
  qed
qed

text \<open>Where the pages of a payload end up.\<close>

definition place_pages :: "bytes \<Rightarrow> (nat \<Rightarrow> u8) \<Rightarrow> nat \<Rightarrow> u8" where
  "place_pages payload m =
     fold (\<lambda>(page, chunk) m. overlay (page mod 8 * 4096) chunk m) (List.enumerate 0 (chunks 4096 payload)) m"

lemma fold_sat_lengths:
  "unat c + length (concat bs) < 2 ^ 64 \<Longrightarrow>
     fold (\<lambda>b n. sat_add n (of_nat (length b))) bs c = c + of_nat (length (concat bs))"
  for c :: u64 and bs :: "bytes list"
proof (induction bs arbitrary: c)
  case (Cons b bs)
  then have len: "unat (of_nat (length b) :: u64) = length b" by (simp add: unat_of_nat)
  then have c: "unat (c + of_nat (length b)) = unat c + length b"
    using Cons.prems by (simp add: unat_word_ariths)
  then have "sat_add c (of_nat (length b)) = c + of_nat (length b)" by (simp add: sat_add_def word_le_nat_alt)
  then show ?case using Cons c by (simp add: add.assoc)
qed simp

lemma fold_enumerate: "fold (\<lambda>(i, b). f b) (List.enumerate n xs) a = fold f xs a"
  by (induction xs arbitrary: n a) simp_all

lemma page_select: "unat ((of_nat page AND 7) AND 7 :: u8) = page mod 8"
proof -
  have seven: "(7 :: u8) = mask 3" by (simp add: mask_eq_exp_minus_1)
  have "unat (take_bit 3 (of_nat page :: u8)) = page mod 8"
    by (simp add: unat_mod_distrib unat_of_nat take_bit_eq_mod mod_mod_cancel)
  then show ?thesis unfolding seven by (simp add: take_bit_eq_mask)
qed

context observed_device
begin

lemma performs_firmware_data:
  assumes "off < 4096"
  shows "performs trace (production_firmware_write_data env off d) (\<lambda>_ w. w = [window_write (off, d)])"
proof -
  have addr: "production_firmware_page_address off = Inr (FW_START_ADDRESS + of_nat off)"
    using assms by (simp add: production_firmware_page_address_def FW_START_ADDRESS_def)
  have "performs trace (if length d = 1 then write8_with_counter env a (d ! 0) name phase
      else counted_write sh (write_block (re_access env) a d)) (\<lambda>_ w. w = [(a, d)])" for a name phase sh
  proof (cases "length d = 1")
    case True
    then have "d = [d ! 0]" by (cases d) auto
    then show ?thesis using performs_counted(4) [of a "d ! 0" name phase] True by simp
  next
    case False
    then show ?thesis using performs_counted(7) by simp
  qed
  note both = this
  show ?thesis
    unfolding production_firmware_write_data_def window_write_def
  proof (rule performs_then [OF performs_of_result])
    fix a assume "production_firmware_page_address off = Inr a"
    then have a: "a = FW_START_ADDRESS + of_nat off" using addr by simp
    show "performs trace (if length d = 1
        then write8_with_counter env a (d ! 0) ''FW_START_ADDRESS + page_offset'' ''firmware-download''
        else counted_write
            (\<lambda>error. radio_error_new ''firmware_write_failed''
               (''firmware write offset='' @ show_nat off @ '' len='' @ show_nat (length d) @
                '' addr='' @ format_register_address a @ '' failed: '' @
                show_register_error (re_show_rusb env) error))
            (write_block (re_access env) a d))
        (\<lambda>y v. [] @ v = [(FW_START_ADDRESS + of_nat (fst (off, d)), snd (off, d))])"
      using both unfolding a by simp
  qed
qed

lemma performs_write_blocks:
  assumes "0 < sz" "base + length xs \<le> 4096"
  shows "performs trace (write_blocks env base sz (chunks sz xs) k)
    (\<lambda>m w. m = fold (\<lambda>b n. sat_add n (of_nat (length b))) (chunks sz xs) k \<and>
       w = map window_write (pieces (chunk_len sz) base xs))"
proof -
  let ?f = "\<lambda>(index, block) bytes_written.
      and_do (production_firmware_write_data env (base + index * sz) block)
        (ret (sat_add bytes_written (of_nat (length block) :: u64)))"
  have mem: "(base + i * sz, b) \<in> set (pieces (chunk_len sz) base xs)"
    if "(i, b) \<in> set (List.enumerate 0 (chunks sz xs))" for i b
  proof -
    have "(base + i * sz, b) \<in> set (map (\<lambda>(i, b). (base + i * sz, b)) (List.enumerate 0 (chunks sz xs)))"
      using that by force
    then show ?thesis using enumerate_chunks [OF assms(1), of base 0 0 xs] by (simp add: chunks_def)
  qed
  obtain n where sz: "sz = Suc n" using assms(1) by (cases sz) auto
  have "performs trace (?f x a) (\<lambda>b w. b = (\<lambda>(i, b) n. sat_add n (of_nat (length b))) x a \<and>
      w = (\<lambda>(i, b). [window_write (base + i * sz, b)]) x)"
    if "x \<in> set (List.enumerate 0 (chunks sz xs))" for x a
  proof -
    obtain i b where x: "x = (i, b)" by (cases x)
    have "base + i * sz + length b \<le> base + length xs" "b \<noteq> []"
      using chunk.piece_is_slice [OF mem [OF that [unfolded x], unfolded sz]] by (simp_all add: sz)
    then have "base + i * sz < 4096" using assms(2) by (cases b) auto
    then show ?thesis
      unfolding x prod.case
      by (intro performs_do [OF performs_firmware_data]) (simp_all add: performs_mono [OF performs_ret])
  qed
  from performs_for_each [OF this, where acc = k] have "performs trace (for_each (List.enumerate 0 (chunks sz xs)) ?f k)
      (\<lambda>m w. m = fold (\<lambda>(i, b) n. sat_add n (of_nat (length b))) (List.enumerate 0 (chunks sz xs)) k \<and>
         w = concat (map (\<lambda>(i, b). [window_write (base + i * sz, b)]) (List.enumerate 0 (chunks sz xs))))" .
  moreover have "fold (\<lambda>(i, b) n. sat_add n (of_nat (length b))) (List.enumerate 0 (chunks sz xs)) k =
      fold (\<lambda>b n. sat_add n (of_nat (length b))) (chunks sz xs) k"
    by (rule fold_enumerate)
  moreover have "concat (map (\<lambda>(i, b). [window_write (base + i * sz, b)]) es) =
      map window_write (map (\<lambda>(i, b). (base + i * sz, b)) es)" for es :: "(nat \<times> bytes) list"
    by (induction es) auto
  ultimately show ?thesis
    using enumerate_chunks [OF assms(1), of base 0 0 xs] unfolding write_blocks_def by (simp add: chunks_def)
qed

lemma performs_firmware_page:
  assumes "length bs \<le> 4096"
  shows "performs trace (production_write_firmware_page env bs)
    (\<lambda>n w. n = of_nat (length bs) \<and> w = map window_write (pieces page_block_len 0 bs))"
proof -
  let ?full = "length bs div 196 * 196"
  let ?rest = "drop ?full bs"
  let ?eights = "length ?rest div 8 * 8"
  have lens: "?full \<le> length bs" "?eights \<le> length ?rest" by simp_all
  let ?c1 = "chunks 196 (take ?full bs)" and ?c2 = "chunks 8 (take ?eights ?rest)" and ?c3 = "chunks 1 (drop ?eights ?rest)"
  let ?sum = "\<lambda>cs. fold (\<lambda>b n. sat_add n (of_nat (length b))) cs :: u64 \<Rightarrow> u64"
  have "concat (?c1 @ ?c2 @ ?c3) = bs"
    by (simp only: concat_append concat_chunks zero_less_numeral zero_less_one append_take_drop_id)
  then have "?sum (?c1 @ ?c2 @ ?c3) 0 = of_nat (length bs)"
    using fold_sat_lengths [of 0 "?c1 @ ?c2 @ ?c3"] assms by simp
  then have total: "?sum ?c3 (?sum ?c2 (?sum ?c1 0)) = of_nat (length bs)" by simp
  have len: "0 + length (take ?full bs) \<le> 4096" "?full + length (take ?eights ?rest) \<le> 4096"
    "?full + ?eights + length (drop ?eights ?rest) \<le> 4096"
    using assms lens by simp_all
  have "performs trace (production_write_firmware_page env bs)
      (\<lambda>m w. m = ?sum ?c3 (?sum ?c2 (?sum ?c1 0)) \<and>
        w = map window_write (pieces (chunk_len 196) 0 (take ?full bs)) @
            map window_write (pieces (chunk_len 8) ?full (take ?eights ?rest)) @
            map window_write (pieces (chunk_len 1) (?full + ?eights) (drop ?eights ?rest)))"
    unfolding production_write_firmware_page_def Let_def MAX_REG_BLOCK_SIZE_def FIRMWARE_REMAINDER_BLOCK_SIZE_def
      singletons_chunks
    by (rule performs_then [OF performs_write_blocks [OF _ len(1)]], simp,
        rule performs_then [OF performs_write_blocks [OF _ len(2)]], simp,
        rule performs_mono [OF performs_write_blocks [OF _ len(3)]]) simp_all
  then show ?thesis unfolding total by (rule performs_mono) (simp only: page_blocks [of bs] map_append simp_thms)
qed

lemma performs_firmware_image:
  assumes "length payload < 2 ^ 64"
  shows "performs trace (production_write_firmware_image env payload)
    (\<lambda>n w. n = of_nat (length payload) \<and> (\<forall>s. snd (fw_run w s) = place_pages payload (snd s)))"
proof -
  let ?cs = "chunks 4096 payload"
  let ?P = "\<lambda>(page, chunk) w. \<forall>s. fw_run w s = (page mod 8, overlay (page mod 8 * 4096) chunk (snd s))"
  have small: "length c \<le> 4096" if "(i, c) \<in> set (List.enumerate 0 ?cs)" for i c
  proof -
    have "c \<in> set ?cs" using that by (auto simp: in_set_enumerate_eq)
    then show ?thesis using chunks_small [of 4096 c payload] by simp
  qed
  have page: "performs trace (and_do (production_rmw8 env name REG_MCUFWDL_PLUS_2 0x07 (of_nat i AND 0x07) True phase)
        (and_then (production_write_firmware_page env c) (\<lambda>n. ret (sat_add k n))))
      (\<lambda>b w. b = sat_add k (of_nat (length c)) \<and> ?P (i, c) w)"
    if c: "length c \<le> 4096" for i c k name phase
    unfolding and_do_def
  proof (rule performs_mono [OF performs_and_then [OF performs_rmw8 performs_then [OF performs_firmware_page [OF c]]]])
    show "performs trace (ret (sat_add k n)) (\<lambda>b w. b = sat_add k (of_nat (length c)) \<and>
        map window_write (pieces page_block_len 0 c) @ w = map window_write (pieces page_block_len 0 c))"
      if "n = of_nat (length c)" for n
      using that by (simp add: performs_mono [OF performs_ret])
    fix b w
    assume "\<exists>x u v. w = u @ v \<and>
      (\<exists>z. u = [(REG_MCUFWDL_PLUS_2, [z])] \<and> z AND 7 = (of_nat i AND 7) AND 7) \<and>
      b = sat_add k (of_nat (length c)) \<and> v = map window_write (pieces page_block_len 0 c)"
    then obtain z where z: "w = (REG_MCUFWDL_PLUS_2, [z]) # map window_write (pieces page_block_len 0 c)"
      "z AND 7 = (of_nat i AND 7) AND 7" "b = sat_add k (of_nat (length c))" by auto
    have "unat (z AND 7) = i mod 8" unfolding z(2) by (rule page_select)
    then have "fw_run w s = (i mod 8, overlay (i mod 8 * 4096) c (snd s))" for s
      using fw_run_pieces [of 0 c page_block_len "i mod 8" "snd s"] c by (simp add: z(1) fw_step_def)
    then show "b = sat_add k (of_nat (length c)) \<and> ?P (i, c) w" using z(3) by simp
  qed
  have "concat ?cs = payload" by (simp add: concat_chunks)
  then have sum: "fold (\<lambda>(i, c) k. sat_add k (of_nat (length c))) (List.enumerate 0 ?cs) (0 :: u64) = of_nat (length payload)"
    using fold_sat_lengths [of 0 ?cs] assms
      fold_enumerate [of "\<lambda>b n. sat_add n (of_nat (length b)) :: u64" 0 ?cs]
    by simp
  have run: "snd (fw_run (concat ws) s) = fold (\<lambda>(page, chunk) m. overlay (page mod 8 * 4096) chunk m) es (snd s)"
    if "list_all2 ?P es ws" for es ws s
    using that
  proof (induction es ws arbitrary: s rule: list_all2_induct)
    case (Cons e es w ws)
    then show ?case by (cases e; cases s) simp
  qed simp
  show ?thesis
    unfolding production_write_firmware_image_def MAX_DLFW_PAGE_SIZE_def
  proof (rule performs_mono [OF performs_for_each_where [where P = ?P and g = "\<lambda>(i, c) k. sat_add k (of_nat (length c))"]])
    fix x a assume x: "x \<in> set (List.enumerate 0 ?cs)"
    obtain i c where ic: "x = (i, c)" by (cases x)
    show "performs trace ((\<lambda>(page, chunk) bytes_written.
          and_do (production_rmw8 env ''REG_MCUFWDL + 2'' REG_MCUFWDL_PLUS_2 0x07 (of_nat page AND 0x07) True
                    ''firmware-download'')
          (and_then (production_write_firmware_page env chunk) (\<lambda>n. ret (sat_add bytes_written n)))) x a)
        (\<lambda>b w. b = (\<lambda>(i, c) k. sat_add k (of_nat (length c))) x a \<and> ?P x w)"
      using page [OF small [OF x [unfolded ic]]] unfolding ic by simp
  next
    fix n :: u64 and w
    assume "n = fold (\<lambda>(i, c) k. sat_add k (of_nat (length c))) (List.enumerate 0 ?cs) 0 \<and>
      (\<exists>ws. list_all2 ?P (List.enumerate 0 ?cs) ws \<and> w = concat ws)"
    then show "n = of_nat (length payload) \<and> (\<forall>s. snd (fw_run w s) = place_pages payload (snd s))"
      using run sum by (auto simp: place_pages_def)
  qed
qed

end

text \<open>Up to eight pages the pages lie behind one another; the ninth goes over the first.\<close>

lemma fold_overlay_pieces: "fold (\<lambda>(o', b). overlay o' b) (pieces f off bs) m = overlay off bs m"
proof (induction f off bs arbitrary: m rule: pieces.induct)
  case (1 f off bs)
  show ?case
  proof (cases "bs = []")
    case True
    then show ?thesis by (simp add: pieces.simps)
  next
    case False
    let ?k = "max 1 (f (length bs))"
    have head: "pieces f off bs = (off, take ?k bs) # pieces f (off + ?k) (drop ?k bs)"
      using False by (simp add: pieces.simps [of f off bs] Let_def)
    have "overlay (off + ?k) (drop ?k bs) (overlay off (take ?k bs) m) = overlay off (take ?k bs @ drop ?k bs) m"
    proof (cases "?k \<le> length bs")
      case True
      then show ?thesis by (simp only: overlay_append length_take min_absorb2)
    next
      case False
      then have "length bs \<le> ?k" by linarith
      then show ?thesis by (simp only: take_all drop_all overlay_Nil append_Nil2)
    qed
    then show ?thesis unfolding head using 1 [OF False refl, of "overlay off (take ?k bs) m"] by simp
  qed
qed

lemma place_pages_overlay:
  assumes "length payload \<le> 32768"
  shows "place_pages payload m = overlay 0 payload m"
proof -
  let ?es = "List.enumerate 0 (chunks 4096 payload)"
  have moved: "map (\<lambda>(i, b). (0 + i * 4096, b)) ?es = pieces (chunk_len 4096) 0 payload"
    using enumerate_chunks [of 4096 0 0 0 payload] by (simp add: chunks_def)
  have "i * 4096 < 32768" if "(i, b) \<in> set ?es" for i b
  proof -
    have "(i * 4096, b) \<in> set (pieces (chunk_len (Suc 4095)) 0 payload)"
    proof -
      have "(0 + i * 4096, b) \<in> set (map (\<lambda>(i, b). (0 + i * 4096, b)) ?es)" using that by force
      then show ?thesis unfolding moved by simp
    qed
    from chunk.piece_is_slice [OF this] have "i * 4096 + length b \<le> length payload" "b \<noteq> []" by simp_all
    then show ?thesis using assms by (cases b) auto
  qed
  then have "overlay (i mod 8 * 4096) b = overlay (i * 4096) b" if "(i, b) \<in> set ?es" for i b
    using that by fastforce
  then have "place_pages payload m = fold (\<lambda>(i, b). overlay (i * 4096) b) ?es m"
    unfolding place_pages_def by (intro fold_cong) auto
  also have "\<dots> = fold (\<lambda>(o', b). overlay o' b) (map (\<lambda>(i, b). (0 + i * 4096, b)) ?es) m"
    by (simp add: fold_map comp_def split_def)
  finally show ?thesis unfolding moved fold_overlay_pieces .
qed

end
