(* ===== verification/Firmware_Run.thy ===== *)
theory Firmware_Run
  imports Firmware_Load
begin

text \<open>
  The whole download: what it leaves in the memory of the device, that it returns, and a device on
  which it succeeds.
\<close>

section \<open>The memory after the download\<close>

text \<open>\<open>moves trace f m\<close>: a success of \<open>m\<close> changes the firmware memory by \<open>f\<close>.\<close>

lemma performs_bind:
  assumes "performs trace m Q" "\<And>x u. Q x u \<Longrightarrow> performs trace (f x) (\<lambda>y v. R y (u @ v))"
  shows "performs trace (and_then m f) R"
  unfolding performs_def
proof (intro allI impI)
  fix s y s' assume "and_then m f s = Some (Inr y, s')"
  then obtain x t where run: "m s = Some (Inr x, t)" "f x t = Some (Inr y, s')"
    by (auto simp: and_then_eq_Some_iff)
  obtain u where u: "trace (fst t) = trace (fst s) @ u" "Q x (written u)"
    using performsD [OF assms(1) run(1)] by blast
  obtain v where "trace (fst s') = trace (fst t) @ v" "R y (written u @ written v)"
    using performsD [OF assms(2) [OF u(2)] run(2)] by blast
  then show "\<exists>w. trace (fst s') = trace (fst s) @ w \<and> R y (written w)"
    using u(1) by (intro exI [of _ "u @ v"]) simp
qed

definition moves ::
    "('t \<Rightarrow> reg_access list) \<Rightarrow> ((nat \<Rightarrow> u8) \<Rightarrow> nat \<Rightarrow> u8) \<Rightarrow> ('t, 'a) reg_op \<Rightarrow> bool" where
  "moves trace f m \<longleftrightarrow> performs trace m (\<lambda>_ w. \<forall>s. snd (fw_run w s) = f (snd s))"

named_theorems keeps_intros \<open>operations that leave the firmware memory alone\<close>

lemma moves_and_then:
  assumes "moves trace f m" "\<And>x. moves trace g (k x)"
  shows "moves trace (g \<circ> f) (and_then m k)"
  unfolding moves_def
  by (rule performs_bind [OF assms(1) [unfolded moves_def]], rule performs_mono [OF assms(2) [unfolded moves_def]])
    (simp del: split_paired_All)

lemma keeps_and_then [keeps_intros]:
  "moves trace id m \<Longrightarrow> (\<And>x. moves trace id (k x)) \<Longrightarrow> moves trace id (and_then m k)"
  using moves_and_then [of trace id m id k] by simp

lemma keeps_and_do [keeps_intros]:
  "moves trace id m \<Longrightarrow> moves trace id n \<Longrightarrow> moves trace id (and_do m n)"
  unfolding and_do_def by (rule keeps_and_then)

lemma keeps_silent: "performs trace m (\<lambda>_ w. w = []) \<Longrightarrow> moves trace id m"
  unfolding moves_def by (erule performs_mono) simp

lemma fw_step_low: "fst w < FW_START_ADDRESS \<Longrightarrow> snd (fw_step w s) = snd s"
  by (auto simp: fw_step_def)

lemma keeps_low: "performs trace m (\<lambda>_ w. \<exists>x. w = [(a, x)]) \<Longrightarrow> a < FW_START_ADDRESS \<Longrightarrow> moves trace id m"
  unfolding moves_def by (erule performs_mono) (auto simp: fw_step_low)

lemma keeps_pure [keeps_intros]:
  "moves trace id (ret x)" "moves trace id (fail e)" "moves trace id (of_result r)"
  "moves trace id control_writes" "moves trace id (writes_since n)"
  by (rule keeps_silent, rule performs_control_writes performs_writes_since performs_mono [OF performs_ret]
        performs_mono [OF performs_fail] performs_mono [OF performs_of_result], simp?)+

lemma keeps_if [keeps_intros]: "moves trace id m \<Longrightarrow> moves trace id n \<Longrightarrow> moves trace id (if b then m else n)"
  by simp

lemma keeps_case_prod [keeps_intros]:
  "(\<And>a b. moves trace id (f a b)) \<Longrightarrow> moves trace id (case_prod f p)"
  by (cases p) simp

text \<open>A success whose run is also a success of a simpler operation.\<close>

lemma performs_refines:
  "performs trace n Q \<Longrightarrow> (\<And>s x s'. m s = Some (Inr x, s') \<Longrightarrow> n s = Some (Inr x, s')) \<Longrightarrow> performs trace m Q"
  unfolding performs_def by blast

lemma deferred_error:
  assumes "and_then (as_value m) (\<lambda>r. and_do (of_result d) (and_do (of_result r) n)) s = Some (Inr x, s')"
  shows "and_do m n s = Some (Inr x, s') \<and> (\<exists>y. d = Inr y)"
  using assms
  by (auto simp: and_do_def and_then_def as_value_def of_result_def split: option.splits sum.splits)

lemma register_below_window:
  "REG_MCUFWDL < FW_START_ADDRESS" "REG_MCUFWDL_PLUS_2 < FW_START_ADDRESS" "REG_RSV_CTRL < FW_START_ADDRESS"
  "REG_RSV_CTRL + 1 < FW_START_ADDRESS" "REG_SYS_FUNC_EN_PLUS_1 < FW_START_ADDRESS"
  by (simp_all add: FW_START_ADDRESS_def REG_MCUFWDL_def REG_MCUFWDL_PLUS_2_def REG_RSV_CTRL_def
      REG_SYS_FUNC_EN_PLUS_1_def)

context observed_device
begin

lemma keeps_reads [keeps_intros]:
  "moves trace id (read8_with_counter env a name phase)"
  "moves trace id (read32_with_counter env a name phase)"
  "moves trace id (production_poll32_min env name a msk32 e32 least timeout delay)"
  by (rule keeps_silent, rule performs_counted performs_poll32)+

lemma keeps_rmw8: "a < FW_START_ADDRESS \<Longrightarrow> moves trace id (production_rmw8 env name a msk v b phase)"
  by (rule keeps_low [OF performs_mono [OF performs_rmw8]]) auto

lemma keeps_write_verify:
  "a < FW_START_ADDRESS \<Longrightarrow> moves trace id (production_write8_verify env name a x8 msk8 e8 phase)"
  "a < FW_START_ADDRESS \<Longrightarrow> moves trace id (production_write32_verify env name a x32 msk32 e32 phase)"
  by (rule keeps_low [OF performs_mono [OF performs_write_verify(1)]]
        keeps_low [OF performs_mono [OF performs_write_verify(3)]], auto)+

lemmas keeps_registers [keeps_intros] =
  register_below_window [THEN keeps_rmw8] register_below_window [THEN keeps_write_verify(1)]
  register_below_window [THEN keeps_write_verify(2)]

lemma keeps_8051_reset [keeps_intros]: "moves trace id (production_firmware_8051_reset_8812 env)"
  unfolding production_firmware_8051_reset_8812_def Let_def by (intro keeps_intros)

lemma keeps_firmware_preflight [keeps_intros]:
  "moves trace id (production_firmware_preflight_reset_loaded_code env)"
  unfolding production_firmware_preflight_reset_loaded_code_def by (intro keeps_intros)

text \<open>A poll that times out writes nothing either.\<close>

lemma performs_poll32_value:
  "performs trace (as_value (production_poll32_min env name a msk e least timeout delay)) (\<lambda>_ w. w = [])"
  unfolding performs_def
proof (intro allI impI)
  fix s x s'
  assume "as_value (production_poll32_min env name a msk e least timeout delay) s = Some (Inr x, s')"
  then have run: "production_poll32_min env name a msk e least timeout delay s = Some (x, s')"
    by (auto simp: as_value_def)
  then obtain started t where "now_op env s = Some (Inr started, t)"
    and loop: "poll32_loop env name a msk e least timeout delay started 0 t = Some (x, s')"
    unfolding production_poll32_min_def
    by (auto simp: and_then_def now_op_def split: option.splits sum.splits prod.splits)
  then have "trace (fst t) = trace (fst s)" using performsD [OF performs_clock(2)] now_traced
    by (auto simp: now_op_def split: prod.splits)
  then show "\<exists>w. trace (fst s') = trace (fst s) @ w \<and> written w = []"
    using poll32_loop_effect [OF loop refl] by auto
qed

lemma performs_download_loop:
  assumes "unat k + n * length payload < 2 ^ 64" "length payload < 2 ^ 64"
  shows "performs trace (download_loop env payload k r n)
    (\<lambda>(a, k', r') w. \<exists>j. j \<le> n \<and> (0 < n \<longrightarrow> 0 < j) \<and> k' = k + of_nat (j * length payload) \<and>
       (\<forall>s. snd (fw_run w s) = (place_pages payload ^^ j) (snd s)))"
  using assms(1)
proof (induction n arbitrary: k r)
  case 0
  show ?case by (auto intro!: performs_mono [OF performs_ret])
next
  case (Suc n)
  let ?Q = "\<lambda>k n (a :: u32, k', r' :: (radio_error, unit) result) w. \<exists>j. j \<le> n \<and> (0 < n \<longrightarrow> 0 < j) \<and>
    k' = k + of_nat (j * length payload) \<and> (\<forall>s. snd (fw_run w s) = (place_pages payload ^^ j) (snd s))"
  let ?k = "sat_add k (of_nat (length payload))"
  have k: "unat (k + of_nat (length payload)) = unat k + length payload" "?k = k + of_nat (length payload)"
  proof -
    have "unat (of_nat (length payload) :: u64) = length payload" using assms(2) by (simp add: unat_of_nat)
    then show "unat (k + of_nat (length payload)) = unat k + length payload"
      using Suc.prems by (simp add: unat_word_ariths)
    then show "?k = k + of_nat (length payload)" by (simp add: sat_add_def word_le_nat_alt)
  qed
  have rest: "performs trace (case r of Inr (attempts, v) \<Rightarrow> ret (attempts, ?k, Inr ())
      | Inl e \<Rightarrow> download_loop env payload ?k (Inl e) n) (\<lambda>(a, k', r') v. \<exists>j. j \<le> n \<and>
        k' = k + of_nat (Suc j * length payload) \<and> (\<forall>s. snd (fw_run v s) = (place_pages payload ^^ j) (snd s)))"
    for r :: "(radio_error, u32 \<times> u32) result"
  proof (cases r)
    case (Inl e)
    have "unat ?k + n * length payload < 2 ^ 64" using Suc.prems k by simp
    from Suc.IH [OF this, of "Inl e"] show ?thesis
      unfolding Inl sum.case by (rule performs_mono) (auto simp: k(2) algebra_simps)
  next
    case (Inr x)
    show ?thesis unfolding Inr sum.case by (cases x) (auto intro!: performs_mono [OF performs_ret] simp: k(2))
  qed
  let ?Q = "\<lambda>(a :: u32, k' :: u64, r' :: (radio_error, unit) result) w. \<exists>j. j \<le> Suc n \<and> (0 < Suc n \<longrightarrow> 0 < j) \<and>
    k' = k + of_nat (j * length payload) \<and> (\<forall>s. snd (fw_run w s) = (place_pages payload ^^ j) (snd s))"
  show ?case
    unfolding download_loop.simps and_do_def Let_def
  proof (rule performs_bind [OF performs_rmw8], rule performs_bind [OF performs_firmware_image [OF assms(2)]],
      rule performs_bind [OF performs_poll32_value])
    fix x u w and i :: u64 and r :: "(radio_error, u32 \<times> u32) result" and v :: "(u16 \<times> bytes) list"
    assume u: "\<exists>z. u = [(REG_MCUFWDL, [z])] \<and> z AND FWDL_CHKSUM_RPT_U8 = FWDL_CHKSUM_RPT_U8 AND FWDL_CHKSUM_RPT_U8"
      and i: "i = of_nat (length payload) \<and> (\<forall>s. snd (fw_run w s) = place_pages payload (snd s))" and v: "v = []"
    have pre: "snd (fw_run (u @ w @ v @ y) s) = snd (fw_run y (fw_run w (fw_run u s)))" for y s
      by (simp add: v)
    have "snd (fw_run u s) = snd s" for s using u register_below_window(1) by (auto simp: fw_step_low)
    then have "snd (fw_run w (fw_run u s)) = place_pages payload (snd s)" for s
      using i by (simp del: split_paired_All)
    then have "\<exists>j \<le> Suc n. 0 < j \<and> k' = k + of_nat (j * length payload) \<and>
        (\<forall>s. snd (fw_run (u @ w @ v @ y) s) = (place_pages payload ^^ j) (snd s))"
      if "j \<le> n" "k' = k + of_nat (Suc j * length payload)" "\<forall>s. snd (fw_run y s) = (place_pages payload ^^ j) (snd s)"
      for j k' y
      using that by (intro exI [of _ "Suc j"]) (simp add: pre v funpow_swap1 del: split_paired_All)
    then show "performs trace (case r of Inl e \<Rightarrow> download_loop env payload (sat_add k i) (Inl e) n
        | Inr (attempts, v) \<Rightarrow> ret (attempts, sat_add k i, Inr ()))
        (\<lambda>y va. ?Q y (u @ w @ v @ va))"
      unfolding conjunct1 [OF i] by (intro performs_mono [OF rest]) fastforce
  qed
qed

text \<open>What is left of a success after the loop leaves the memory alone.\<close>

lemma performs_firmware_sequence:
  assumes "3 * length payload < 2 ^ 64"
  shows "performs trace (production_firmware_sequence env payload)
    (\<lambda>st w. \<exists>j. 0 < j \<and> j \<le> 3 \<and> fst_bytes_written st = of_nat (j * length payload) \<and>
       (\<forall>s. snd (fw_run w s) = (place_pages payload ^^ j) (snd s)))"
proof -
  let ?disable = "production_rmw8 env ''REG_MCUFWDL'' REG_MCUFWDL MCUFWDL_EN 0 True ''firmware-download-disable''"
  let ?after = "\<lambda>k before_writes checksum_poll_attempts.
     and_then (read32_with_counter env REG_MCUFWDL ''REG_MCUFWDL'' ''firmware-ready'') (\<lambda>before.
      and_do (production_write32_verify env ''REG_MCUFWDL'' REG_MCUFWDL
                ((before OR MCUFWDL_RDY) AND NOT WINTINI_RDY) 0 0 ''firmware-ready'')
     (and_do (production_firmware_8051_reset_8812 env)
     (and_then (production_poll32_min env ''REG_MCUFWDL'' REG_MCUFWDL WINTINI_RDY WINTINI_RDY 10
                  (millis 200) (micros 1000)) (\<lambda>(ready_poll_attempts, v).
      and_then (writes_since before_writes) (\<lambda>writes.
      ret \<lparr>fst_bytes_written = k, fst_control_writes = writes,
           fst_checksum_poll_attempts = checksum_poll_attempts,
           fst_ready_poll_attempts = ready_poll_attempts\<rparr>)))))"
  have after: "performs trace (and_do ?disable (?after k b c))
      (\<lambda>st w. fst_bytes_written st = k \<and> (\<forall>s. snd (fw_run w s) = snd s))" for k b c
  proof -
    have "moves trace id (and_do ?disable (?after k b c))"
      by (intro keeps_intros keeps_rmw8 register_below_window)
    moreover have "fst_bytes_written st = k" if "and_do ?disable (?after k b c) s = Some (Inr st, s')" for s st s'
      using that by (auto simp: and_do_def and_then_eq_Some_iff ret_def split: prod.splits)
    ultimately show ?thesis unfolding moves_def performs_def by (simp del: split_paired_All)
  qed
  have rest: "performs trace (and_then (as_value ?disable) (\<lambda>r. and_do (of_result d) (and_do (of_result r) (?after k b c))))
      (\<lambda>st w. fst_bytes_written st = k \<and> (\<forall>s. snd (fw_run w s) = snd s))" for d k b c
    by (rule performs_refines [OF after]) (rule conjunct1 [OF deferred_error])
  have enable: "moves trace id (production_firmware_preflight_reset_loaded_code env)"
    "moves trace id (production_rmw8 env ''REG_MCUFWDL'' REG_MCUFWDL MCUFWDL_EN MCUFWDL_EN True ''firmware-download-enable'')"
    "moves trace id (production_rmw8 env ''REG_MCUFWDL + 2'' REG_MCUFWDL_PLUS_2 BIT3 0 True ''firmware-download-enable'')"
    by (intro keeps_intros keeps_rmw8 register_below_window)+
  let ?L = "\<lambda>(a :: u32, k' :: u64, r' :: (radio_error, unit) result) w. \<exists>j. j \<le> 3 \<and> (0 < (3::nat) \<longrightarrow> 0 < j) \<and>
    k' = 0 + of_nat (j * length payload) \<and> (\<forall>s. snd (fw_run w s) = (place_pages payload ^^ j) (snd s))"
  have loop: "performs trace (download_loop env payload 0 r 3) ?L" for r
    by (rule performs_download_loop) (use assms in simp_all)
  note keep_do = performs_bind [where Q = "\<lambda>_ w. \<forall>s. snd (fw_run w s) = id (snd s)", folded moves_def]
  show ?thesis
    unfolding production_firmware_sequence_def and_do_def [where m = "production_firmware_preflight_reset_loaded_code env"]
      and_do_def [where m = "production_rmw8 env ''REG_MCUFWDL'' REG_MCUFWDL MCUFWDL_EN MCUFWDL_EN True ''firmware-download-enable''"]
      and_do_def [where m = "production_rmw8 env ''REG_MCUFWDL + 2'' REG_MCUFWDL_PLUS_2 BIT3 0 True ''firmware-download-enable''"]
  proof (rule performs_bind [OF performs_control_writes], rule keep_do [OF enable(1)], rule keep_do [OF enable(2)],
      rule keep_do [OF enable(3)], rule performs_bind [OF loop])
    fix b x1 x2 x3 and v :: "u32 \<times> u64 \<times> (radio_error, unit) result" and u0 u1 u2 u3 u :: "(u16 \<times> bytes) list"
    assume u: "u0 = []" "\<forall>s. snd (fw_run u1 s) = id (snd s)" "\<forall>s. snd (fw_run u2 s) = id (snd s)"
      "\<forall>s. snd (fw_run u3 s) = id (snd s)"
      and v: "?L v u"
    obtain a k' r' where ak: "v = (a, k', r')" by (cases v)
    from v ak obtain j where j: "j \<le> 3" "0 < j" "k' = of_nat (j * length payload)"
      "\<forall>s. snd (fw_run u s) = (place_pages payload ^^ j) (snd s)" by auto
    have whole: "\<forall>s. snd (fw_run (u0 @ u1 @ u2 @ u3 @ u @ w) s) = (place_pages payload ^^ j) (snd s)"
      if "\<forall>s. snd (fw_run w s) = snd s" for w
      using u j(4) that by (simp del: split_paired_All)
    show "performs trace (case v of (a, k, d) \<Rightarrow> and_then (as_value ?disable)
        (\<lambda>r. and_do (of_result d) (and_do (of_result r) (?after k b a))))
        (\<lambda>st w. \<exists>j. 0 < j \<and> j \<le> 3 \<and> fst_bytes_written st = of_nat (j * length payload) \<and>
          (\<forall>s. snd (fw_run (u0 @ u1 @ u2 @ u3 @ u @ w) s) = (place_pages payload ^^ j) (snd s)))"
      unfolding ak prod.case
      by (rule performs_mono [OF rest], intro exI [of _ j] conjI whole) (use j in simp_all)
  qed
qed

end

text \<open>
  C26. When the firmware sequence succeeds on a payload of at most eight pages (32768 bytes), the
  device memory behind the page window holds the payload from offset 0 and is otherwise as
  before, whatever the memory and the selected page were, and however many of the three attempts
  it took; the bytes reported are the payload length times the attempts.
\<close>

theorem firmware_download_loads_payload:
  assumes "production_firmware_sequence (logged env) payload s = Some (Inr stats, s')"
    and "length payload \<le> 32768"
  shows "\<exists>w attempts. snd (fst s') = snd (fst s) @ w \<and> 1 \<le> attempts \<and> attempts \<le> (3::nat) \<and>
    fst_bytes_written stats = of_nat (attempts * length payload) \<and>
    (\<forall>page m. snd (fw_run (written w) (page, m)) = (\<lambda>i. if i < length payload then payload ! i else m i))"
proof -
  have "3 * length payload < 2 ^ 64" using assms(2) by simp
  from performsD [OF logged.performs_firmware_sequence [OF this] assms(1)] obtain w j where
    w: "snd (fst s') = snd (fst s) @ w" and j: "0 < j" "j \<le> (3::nat)"
      "fst_bytes_written stats = of_nat (j * length payload)"
      "\<forall>s. snd (fw_run (written w) s) = (place_pages payload ^^ j) (snd s)" by blast
  have "(place_pages payload ^^ Suc i) m = overlay 0 payload m" for i m
    by (induction i) (simp_all add: place_pages_overlay [OF assms(2)])
  moreover obtain i where "j = Suc i" using j(1) by (cases j) auto
  ultimately have mem: "(place_pages payload ^^ j) m = overlay 0 payload m" for m by simp
  have "overlay 0 payload m = (\<lambda>i. if i < length payload then payload ! i else m i)" for m
    by (rule ext) (simp add: overlay_def)
  then have "\<forall>page m. snd (fw_run (written w) (page, m)) = (\<lambda>i. if i < length payload then payload ! i else m i)"
    using j(4) mem by (metis snd_conv)
  with w j show ?thesis by (intro exI [of _ w] exI [of _ j]) simp
qed

text \<open>
  With more than eight pages the ninth page is written over the first, for a page number is cut to
  three bits: the download succeeds all the same.
\<close>

lemma chunks_offset: "0 < sz \<Longrightarrow> map snd (pieces (chunk_len sz) off xs) = chunks sz xs"
  using arg_cong [OF enumerate_chunks [of sz off 0 0 xs], of "map snd"]
  by (simp add: chunks_def comp_def split_def)

lemma chunks_step:
  assumes "0 < sz" "xs \<noteq> []"
  shows "chunks sz xs = take sz xs # chunks sz (drop sz xs)"
proof -
  have "pieces (chunk_len sz) 0 xs =
      (0, take (max 1 (chunk_len sz (length xs))) xs) #
      pieces (chunk_len sz) (max 1 (chunk_len sz (length xs))) (drop (max 1 (chunk_len sz (length xs))) xs)"
    using assms by (simp add: pieces.simps [of _ 0 xs] Let_def)
  moreover have "take (max 1 (chunk_len sz (length xs))) xs = take sz xs"
    "drop (max 1 (chunk_len sz (length xs))) xs = drop sz xs"
    using assms by (simp_all add: chunk_len_def max_def min_def not_less_eq_eq Suc_le_eq)
  ultimately show ?thesis using chunks_offset [OF assms(1)] by (simp add: chunks_def)
qed

lemma place_pages_wraps:
  assumes "32768 < length payload" "length payload \<le> 36864"
  shows "place_pages payload m 0 = payload ! 32768"
proof -
  have none: "chunks 4096 (drop 36864 payload) = []" using assms by (simp add: chunks_def pieces.simps)
  have nine: "chunks 4096 payload = map (\<lambda>i. take 4096 (drop (i * 4096) payload)) [0, 1, 2, 3, 4, 5, 6, 7, 8]"
  proof -
    have "payload \<noteq> []" using assms by auto
    then show ?thesis using assms none by (simp add: chunks_step)
  qed
  show ?thesis
    unfolding place_pages_def nine using assms by (simp add: overlay_def)
qed

theorem long_firmware_wraps:
  assumes "production_firmware_sequence (logged env) payload s = Some (Inr stats, s')"
    and "32768 < length payload" "length payload \<le> 36864"
  shows "\<exists>w. snd (fst s') = snd (fst s) @ w \<and> snd (fw_run (written w) (page, m)) 0 = payload ! 32768"
proof -
  have "3 * length payload < 2 ^ 64" using assms(3) by simp
  from performsD [OF logged.performs_firmware_sequence [OF this] assms(1)] obtain w j where
    w: "snd (fst s') = snd (fst s) @ w" and j: "0 < j"
      "\<forall>s. snd (fw_run (written w) s) = (place_pages payload ^^ j) (snd s)" by blast
  obtain i where "j = Suc i" using j(1) by (cases j) auto
  then have "(place_pages payload ^^ j) m 0 = payload ! 32768"
    using place_pages_wraps [OF assms(2,3)] by simp
  with w j(2) show ?thesis by (intro exI [of _ w]) simp
qed

section \<open>A device on which the download succeeds\<close>

text \<open>
  A register file with a clock: it keeps what is written, except that the checksum and the ready
  bits of \<open>REG_MCUFWDL\<close> always read as set.
\<close>

definition forced_bits :: "u16 \<Rightarrow> u8" where
  "forced_bits a = (if a = REG_MCUFWDL then 0x44 else 0)"

definition register_file :: "(unit, nat \<times> (u16 \<Rightarrow> u8)) reg_env" where
  "register_file =
     \<lparr>re_access = register_access_new
        (\<lambda>_ _ addr _ data _ dev. (Inr (length data),
           map (\<lambda>i. snd dev (addr + of_nat i) OR forced_bits (addr + of_nat i)) [0..<length data], dev))
        (\<lambda>_ _ addr _ data _ dev. (Inr (length data),
           (fst dev, stored addr data (snd dev)))),
      re_show_rusb = (\<lambda>_. []), re_sleep = (\<lambda>d (t, m). (t + d, m)), re_now = (\<lambda>dev. (fst dev, dev))\<rparr>"

abbreviation regs :: "(nat \<times> (u16 \<Rightarrow> u8)) \<times> reg_access list \<Rightarrow> u16 \<Rightarrow> u8" where
  "regs dev \<equiv> snd (fst dev)"

lemma register_file_exact:
  "expected_len w = length data \<Longrightarrow> read_exact (re_access (logged register_file)) addr w data dev =
     (Inr (map (\<lambda>i. regs dev (addr + of_nat i) OR forced_bits (addr + of_nat i)) [0..<length data]),
      (fst dev, snd dev @ [RdReg addr (length data)]))"
  "expected_len w = length data \<Longrightarrow> write_all (re_access (logged register_file)) addr w data dev =
     (Inr (), ((fst (fst dev), stored addr data (regs dev)), snd dev @ [WrReg addr data]))"
proof -
  obtain t m log where dev: "dev = ((t, m), log)" by (cases dev) auto
  show "expected_len w = length data \<Longrightarrow> read_exact (re_access (logged register_file)) addr w data dev =
     (Inr (map (\<lambda>i. regs dev (addr + of_nat i) OR forced_bits (addr + of_nat i)) [0..<length data]),
      (fst dev, snd dev @ [RdReg addr (length data)]))"
    unfolding dev read_exact_def read_vendor_def logged_def logged_access_def register_file_def register_access_new_def
    by simp
  show "expected_len w = length data \<Longrightarrow> write_all (re_access (logged register_file)) addr w data dev =
     (Inr (), ((fst (fst dev), stored addr data (regs dev)), snd dev @ [WrReg addr data]))"
    unfolding dev write_all_def write_vendor_def logged_def logged_access_def register_file_def register_access_new_def
    by simp
qed

lemma register_file_read8:
  "\<exists>t. read8_with_counter (logged register_file) a name phase s = Some (Inr (regs (fst s) a OR forced_bits a), t) \<and>
     regs (fst t) = regs (fst s)"
  by (simp add: read8_with_counter_def counted_read_def read8_def map_ok_def register_file_exact)

lemma register_file_write8:
  "\<exists>t. write8_with_counter (logged register_file) a v name phase s = Some (Inr (), t) \<and> regs (fst t) a = v"
  by (simp add: write8_with_counter_def counted_write_def write8_def register_file_exact stored_def)

lemma succeeds_register_file:
  "succeeds (read8_with_counter (logged register_file) a name phase)"
  "succeeds (read32_with_counter (logged register_file) a name phase)"
  "succeeds (write8_with_counter (logged register_file) a v8 name phase)"
  "succeeds (write32_with_counter (logged register_file) a v32 name phase)"
  by (simp_all add: succeeds_def read8_with_counter_def read32_with_counter_def counted_read_def read8_def read32_def
      map_ok_def write8_with_counter_def write32_with_counter_def counted_write_def write8_def write32_def
      register_file_exact le32.enc_length)

lemma verify_loop_first:
  "rd s = Some (Inr v, t) \<Longrightarrow> v AND msk = e \<Longrightarrow> 0 < n \<Longrightarrow> verify_loop env name digits rd msk e old n s = Some (Inr v, t)"
  by (cases n) (simp_all add: and_then_def ret_def)

lemma write_then_verify_succeeds:
  assumes "(v OR forced_bits a) AND msk = e AND msk"
  shows "succeeds (and_then (write8_with_counter (logged register_file) a v name phase) (\<lambda>_.
    and_then (production_verify8_readback (logged register_file) name a msk e phase) (\<lambda>_. ret ())))"
  unfolding succeeds_def
proof
  fix s
  obtain t where t: "write8_with_counter (logged register_file) a v name phase s = Some (Inr (), t)" "regs (fst t) a = v"
    using register_file_write8 by blast
  obtain t' where "read8_with_counter (logged register_file) a name phase t = Some (Inr (v OR forced_bits a), t')"
    using register_file_read8 t(2) by metis
  then have "production_verify8_readback (logged register_file) name a msk e phase t = Some (Inr (v OR forced_bits a), t')"
    unfolding production_verify8_readback_def
    by (rule verify_loop_first) (simp_all add: assms PRODUCTION_READBACK_VERIFY_ATTEMPTS_def)
  then show "\<exists>x s'. and_then (write8_with_counter (logged register_file) a v name phase) (\<lambda>_.
    and_then (production_verify8_readback (logged register_file) name a msk e phase) (\<lambda>_. ret ())) s = Some (Inr x, s')"
    using t by (simp add: and_then_def ret_def)
qed

lemma rmw8_succeeds:
  assumes "b \<Longrightarrow> forced_bits a AND msk = 0"
  shows "succeeds (production_rmw8 (logged register_file) name a msk v b phase)"
proof (cases b)
  case True
  have disjoint: "\<not> (bit (forced_bits a) n \<and> bit msk n)" for n
    using arg_cong [OF assms [OF True], of "\<lambda>w. bit w n"] by (simp add: bit_simps)
  have "(((x AND NOT msk) OR (v AND msk)) OR forced_bits a) AND msk = v AND msk" for x
    by (rule bit_word_eqI) (use disjoint in \<open>auto simp: bit_simps\<close>)
  then show ?thesis
    unfolding production_rmw8_def using True
    by (auto intro!: succeeds_and_then [OF succeeds_register_file(1)] write_then_verify_succeeds)
next
  case False
  then show ?thesis
    unfolding production_rmw8_def by (auto intro!: succeeds_and_then succeeds_register_file succeeds_ret)
qed

lemma write8_verify_succeeds:
  assumes "(v OR forced_bits a) AND msk = e AND msk"
  shows "succeeds (production_write8_verify (logged register_file) name a v msk e phase)"
  unfolding production_write8_verify_def
  using write_then_verify_succeeds [OF assms] by (simp add: succeeds_register_file)

lemma poll32_succeeds:
  assumes "msk = 4 \<or> msk = 0x40"
  shows "succeeds (production_poll32_min (logged register_file) name REG_MCUFWDL msk msk least timeout delay)"
  unfolding succeeds_def
proof
  fix s :: "((nat \<times> (u16 \<Rightarrow> u8)) \<times> reg_access list) \<times> radio_counters"
  let ?byte = "\<lambda>a. regs (fst s) a OR forced_bits a"
  let ?bytes = "[?byte REG_MCUFWDL, ?byte (REG_MCUFWDL + 1), ?byte (REG_MCUFWDL + 2), ?byte (REG_MCUFWDL + 3)]"
  have now: "re_now (logged register_file) (fst s) = (fst (fst (fst s)), fst s)"
    by (simp add: logged_def register_file_def split: prod.split)
  obtain t where read: "read32_with_counter (logged register_file) REG_MCUFWDL name ''poll32'' s = Some (Inr (of_le32 ?bytes), t)"
    by (simp add: read32_with_counter_def counted_read_def read32_def map_ok_def register_file_exact)
  have single: "msk = push_bit 2 1 \<or> msk = push_bit 6 1" using assms by (simp add: push_bit_eq_mult)
  have forced: "bit (0x44 :: u8) 2" "bit (0x44 :: u8) 6" by simp_all
  have "bit (?byte REG_MCUFWDL) n" if "n = 2 \<or> n = 6" for n
    unfolding bit_or_iff forced_bits_def using forced that by auto
  then have "bit (of_le32 ?bytes) n" if "n = 2 \<or> n = 6" for n
    using that unfolding of_le32_def bit_or_iff nth_Cons_0 bit_unsigned_iff by auto
  moreover have "n = 2 \<or> n = 6" if "bit msk n" for n
    using single that by (auto simp only: bit_push_bit_iff bit_1_iff)
  ultimately have "of_le32 ?bytes AND msk = msk AND msk"
    by (intro bit_word_eqI) (simp only: bit_and_iff, blast)
  then show "\<exists>x s'. production_poll32_min (logged register_file) name REG_MCUFWDL msk msk least timeout delay s = Some (Inr x, s')"
    using read by (simp add: production_poll32_min_def and_then_def now_op_def now poll32_loop.simps Let_def)
qed

lemma succeeds_pure:
  "succeeds control_writes" "succeeds (writes_since n)" "succeeds (of_result (Inr x))"
  by (simp_all add: succeeds_def control_writes_def writes_since_def and_then_def of_result_def ret_def)

lemma succeeds_as_value:
  assumes "succeeds m" "\<And>x. succeeds (k (Inr x))"
  shows "succeeds (and_then (as_value m) k)"
  unfolding succeeds_def
proof
  fix s
  obtain x t where m: "m s = Some (Inr x, t)" using assms(1) unfolding succeeds_def by blast
  obtain y s' where "k (Inr x) t = Some (Inr y, s')" using assms(2) unfolding succeeds_def by blast
  then show "\<exists>y s'. and_then (as_value m) k s = Some (Inr y, s')"
    using m by (simp add: and_then_def as_value_def)
qed

lemma register_file_reset_succeeds: "succeeds (production_firmware_8051_reset_8812 (logged register_file))"
proof -
  have free: "forced_bits REG_RSV_CTRL = 0" "forced_bits (REG_RSV_CTRL + 1) = 0" "forced_bits REG_SYS_FUNC_EN_PLUS_1 = 0"
    by (simp_all add: forced_bits_def REG_MCUFWDL_def REG_RSV_CTRL_def REG_SYS_FUNC_EN_PLUS_1_def)
  have func: "(v AND NOT m OR 0) AND m = 0 AND m" "(v OR m OR 0) AND m = m AND m" for v m :: u8
    by (rule bit_word_eqI; auto simp: bit_simps)+
  show ?thesis
    unfolding production_firmware_8051_reset_8812_def Let_def
    by (intro succeeds_and_do succeeds_and_then rmw8_succeeds write8_verify_succeeds succeeds_register_file)
      (simp_all add: free func [simplified])
qed

lemma succeeds_then_where:
  assumes "\<And>s. \<exists>x t. m s = Some (Inr x, t) \<and> P x" "\<And>x. P x \<Longrightarrow> succeeds (f x)"
  shows "succeeds (and_then m f)"
  unfolding succeeds_def
proof
  fix s
  obtain x t where m: "m s = Some (Inr x, t)" "P x" using assms(1) by blast
  obtain y s' where "f x t = Some (Inr y, s')" using assms(2) [OF m(2)] unfolding succeeds_def by blast
  then show "\<exists>y s'. and_then m f s = Some (Inr y, s')" using m(1) by (simp add: and_then_def)
qed

definition two_bytes :: bytes where
  "two_bytes = [0x11, 0x22]"

lemma register_file_image_succeeds: "succeeds (production_write_firmware_image (logged register_file) two_bytes)"
proof -
  have nil: "chunks sz [] = []" for sz by (simp add: chunks_def pieces.simps)
  have one: "chunks 4096 two_bytes = [two_bytes]"
    using chunks_step [of 4096 two_bytes] by (simp add: two_bytes_def nil)
  have "succeeds (production_firmware_write_data (logged register_file) off [b])" if "off < 2" for off b
  proof -
    have "production_firmware_page_address off = Inr (FW_START_ADDRESS + of_nat off)"
      using that by (simp add: production_firmware_page_address_def FW_START_ADDRESS_def)
    then show ?thesis
      unfolding production_firmware_write_data_def
      by (auto intro!: succeeds_and_then succeeds_register_file succeeds_pure)
  qed
  then have page: "succeeds (production_write_firmware_page (logged register_file) two_bytes)"
    unfolding production_write_firmware_page_def write_blocks_def two_bytes_def MAX_REG_BLOCK_SIZE_def
      FIRMWARE_REMAINDER_BLOCK_SIZE_def
    by (auto simp: nil Let_def intro!: succeeds_and_then succeeds_and_do succeeds_ret)
  have "succeeds (production_rmw8 (logged register_file) name REG_MCUFWDL_PLUS_2 m v b phase)" for name m v b phase
    by (rule rmw8_succeeds) (simp add: forced_bits_def REG_MCUFWDL_def REG_MCUFWDL_PLUS_2_def)
  then show ?thesis
    unfolding production_write_firmware_image_def MAX_DLFW_PAGE_SIZE_def one
    by (auto intro!: succeeds_and_then succeeds_and_do succeeds_ret page)
qed

lemma register_file_download_succeeds:
  "succeeds (production_firmware_sequence (logged register_file) two_bytes)"
proof -
  have preflight: "succeeds (production_firmware_preflight_reset_loaded_code (logged register_file))"
    unfolding production_firmware_preflight_reset_loaded_code_def
    by (intro succeeds_and_then succeeds_register_file)
      (auto intro!: succeeds_ret succeeds_and_do write8_verify_succeeds register_file_reset_succeeds
        simp: forced_bits_def RAM_DL_SEL_def)
  have rmw: "succeeds (production_rmw8 (logged register_file) name REG_MCUFWDL BIT2 v False phase)"
    "succeeds (production_rmw8 (logged register_file) name REG_MCUFWDL BIT0 v b phase)"
    "succeeds (production_rmw8 (logged register_file) name REG_MCUFWDL_PLUS_2 m v b phase)" for name m v b phase
    by (rule rmw8_succeeds; simp add: forced_bits_def BIT0_def REG_MCUFWDL_def REG_MCUFWDL_PLUS_2_def)+
  have poll: "succeeds (production_poll32_min (logged register_file) name REG_MCUFWDL 4 4 least timeout delay)"
    "succeeds (production_poll32_min (logged register_file) name REG_MCUFWDL 0x40 0x40 least timeout delay)"
    for name least timeout delay
    by (rule poll32_succeeds, simp)+
  have loop: "\<exists>x t. download_loop (logged register_file) two_bytes 0 r 3 s = Some (Inr x, t) \<and> snd (snd x) = Inr ()" for r s
  proof -
    let ?env = "logged register_file"
    obtain x t where x: "production_rmw8 ?env ''REG_MCUFWDL'' REG_MCUFWDL FWDL_CHKSUM_RPT_U8 FWDL_CHKSUM_RPT_U8 False
        ''firmware-download'' s = Some (Inr x, t)"
      using rmw(1) unfolding succeeds_def FWDL_CHKSUM_RPT_U8_def by blast
    obtain i u where i: "production_write_firmware_image ?env two_bytes t = Some (Inr i, u)"
      using register_file_image_succeeds unfolding succeeds_def by blast
    obtain p q where p: "production_poll32_min ?env ''REG_MCUFWDL'' REG_MCUFWDL FWDL_CHKSUM_RPT_U32
                  FWDL_CHKSUM_RPT_U32 5 (millis 50) (micros 1000) u = Some (Inr p, q)"
      using poll(1) unfolding succeeds_def FWDL_CHKSUM_RPT_U32_def by blast
    show ?thesis
      using x i p by (cases p) (simp add: numeral_3_eq_3 and_do_def and_then_def as_value_def ret_def Let_def)
  qed
  note steps = succeeds_and_do succeeds_and_then succeeds_pure succeeds_ret succeeds_register_file preflight
    rmw poll register_file_reset_succeeds
  have "succeeds (production_write32_verify (logged register_file) name a v 0 0 phase)" for name a v phase
    unfolding production_write32_verify_def by (simp add: succeeds_register_file)
  note steps = steps this
  show ?thesis
    unfolding production_firmware_sequence_def MCUFWDL_EN_def WINTINI_RDY_def
  proof (rule succeeds_and_then [OF succeeds_pure(1)], rule succeeds_and_do [OF preflight],
      rule succeeds_and_do [OF rmw(2)], rule succeeds_and_do [OF rmw(3)], rule succeeds_then_where [where P = "\<lambda>x. snd (snd x) = Inr ()", OF loop])
    fix x :: "u32 \<times> u64 \<times> (radio_error, unit) result"
    assume "snd (snd x) = Inr ()"
    then obtain a k where x: "x = (a, k, Inr ())" by (cases x) auto
    show "succeeds (case x of (checksum_poll_attempts, bytes_written, download_result) \<Rightarrow>
      and_then (as_value (production_rmw8 (logged register_file) ''REG_MCUFWDL'' REG_MCUFWDL BIT0 0 True
                  ''firmware-download-disable'')) (\<lambda>disable_result.
      and_do (of_result download_result)
     (and_do (of_result disable_result)
     (and_then (read32_with_counter (logged register_file) REG_MCUFWDL ''REG_MCUFWDL'' ''firmware-ready'') (\<lambda>before.
      and_do (production_write32_verify (logged register_file) ''REG_MCUFWDL'' REG_MCUFWDL
                ((before OR MCUFWDL_RDY) AND NOT 0x40) 0 0 ''firmware-ready'')
     (and_do (production_firmware_8051_reset_8812 (logged register_file))
     (and_then (production_poll32_min (logged register_file) ''REG_MCUFWDL'' REG_MCUFWDL 0x40 0x40 10
                  (millis 200) (micros 1000)) (\<lambda>(ready_poll_attempts, v).
      and_then (writes_since before_writes) (\<lambda>writes.
      ret \<lparr>fst_bytes_written = bytes_written, fst_control_writes = writes,
           fst_checksum_poll_attempts = checksum_poll_attempts,
           fst_ready_poll_attempts = ready_poll_attempts\<rparr>)))))))))" for before_writes
      unfolding x prod.case by (intro succeeds_as_value steps) (auto intro!: steps split: prod.split)
  qed
qed

lemma firmware_download_loads_payload_witness:
  "\<exists>stats s' w. production_firmware_sequence (logged register_file) two_bytes
       (((0, \<lambda>_. 0), []), radio_counters_default) = Some (Inr stats, s') \<and>
     snd (fst s') = w \<and> snd (fw_run (written w) (5, \<lambda>_. 0)) 1 = 0x22"
proof -
  obtain stats s' where run: "production_firmware_sequence (logged register_file) two_bytes
       (((0, \<lambda>_. 0), []), radio_counters_default) = Some (Inr stats, s')"
    using register_file_download_succeeds unfolding succeeds_def by blast
  have "length two_bytes \<le> 32768" by (simp add: two_bytes_def)
  from firmware_download_loads_payload [OF run this] obtain w where "snd (fst s') = w"
    "\<forall>page m. snd (fw_run (written w) (page, m)) = (\<lambda>i. if i < length two_bytes then two_bytes ! i else m i)"
    by auto
  then show ?thesis using run by (auto simp: two_bytes_def)
qed

section \<open>The sequences return\<close>

definition returns :: "('t, 'a) reg_op \<Rightarrow> bool" where
  "returns m \<longleftrightarrow> (\<forall>s. m s \<noteq> None)"

named_theorems returns_intros \<open>operations that return\<close>

lemma returns_and_then [returns_intros]: "returns m \<Longrightarrow> (\<And>x. returns (f x)) \<Longrightarrow> returns (and_then m f)"
  unfolding returns_def by (fastforce simp: and_then_def split: option.split sum.split)

lemma returns_and_do [returns_intros]: "returns m \<Longrightarrow> returns n \<Longrightarrow> returns (and_do m n)"
  unfolding and_do_def by (rule returns_and_then)

lemma returns_pure [returns_intros]:
  "returns (ret x)" "returns (fail e)" "returns (of_result r)" "returns control_writes" "returns (sleep env d)"
  "returns (now_op env)"
  by (simp_all add: returns_def ret_def fail_def of_result_def control_writes_def sleep_def now_op_def split: prod.split)

lemma returns_writes_since [returns_intros]: "returns (writes_since n)"
  unfolding writes_since_def by (intro returns_intros)

lemma returns_if [returns_intros]: "returns m \<Longrightarrow> returns n \<Longrightarrow> returns (if b then m else n)"
  by simp

lemma returns_case [returns_intros]:
  "(\<And>a b. returns (f a b)) \<Longrightarrow> returns (case_prod f p)"
  "(\<And>a b. returns (g a b x)) \<Longrightarrow> returns (case_prod g p x)"
  "(\<And>e. returns (h e)) \<Longrightarrow> (\<And>x. returns (k x)) \<Longrightarrow> returns (case_sum h k r)"
  by (cases p; simp)+ (cases r; simp)

lemma returns_as_value [returns_intros]: "returns m \<Longrightarrow> returns (as_value m)"
  by (simp add: returns_def as_value_def)

lemma returns_for_each [returns_intros]: "(\<And>x a. returns (f x a)) \<Longrightarrow> returns (for_each xs f acc)"
  by (induction xs arbitrary: acc) (auto intro: returns_intros)

lemma returns_counted [returns_intros]:
  "returns (read8_with_counter env a name phase)" "returns (read16_with_counter env a name phase)"
  "returns (read32_with_counter env a name phase)" "returns (counted_write sh access)"
  "returns (write8_with_counter env a v8 name phase)" "returns (write16_with_counter env a v16 name phase)"
  "returns (write32_with_counter env a v32 name phase)"
  unfolding returns_def write8_with_counter_def write16_with_counter_def write32_with_counter_def
  using counted_accesses_return by blast+

lemma returns_verify_loop [returns_intros]: "returns rd \<Longrightarrow> returns (verify_loop env name digits rd msk e old n)"
  by (induction n arbitrary: old) (auto intro!: returns_intros)

lemma returns_poll8 [returns_intros]: "returns (production_poll8 env name a msk e attempts delay)"
proof -
  have "returns (poll8_loop env name a msk e attempts delay latest n)" for latest n
    by (induction n arbitrary: latest) (auto intro!: returns_intros)
  then show ?thesis unfolding production_poll8_def .
qed

lemma returns_registers [returns_intros]:
  "returns (production_rmw8 env name a m8 v8 b phase)"
  "returns (production_rmw8_preserve env name a p8 m8 v8 phase)"
  "returns (production_rmw16_preserve env name a p16 m16 v16 phase)"
  "returns (production_rmw32_preserve env name a p32 m32 v32 phase)"
  "returns (production_write8_verify env name a v8 m8 e8 phase)"
  "returns (production_write16_verify env name a v16 m16 e16 phase)"
  "returns (production_write32_verify env name a v32 m32 e32 phase)"
  unfolding production_rmw8_def production_rmw8_preserve_def production_rmw16_preserve_def
    production_rmw32_preserve_def production_write8_verify_def production_write16_verify_def
    production_write32_verify_def production_verify8_readback_def production_verify16_readback_def
    production_verify32_readback_def
  by (intro returns_intros)+

lemma returns_preflight_cr [returns_intros]: "returns (production_preflight_cr env label)"
  unfolding production_preflight_cr_def by (intro returns_intros)

lemma returns_llt_write [returns_intros]: "returns (production_llt_write env a d)"
proof -
  have "returns (llt_poll env a d latest n)" for latest n
    by (induction n arbitrary: latest) (auto intro!: returns_intros)
  then show ?thesis unfolding production_llt_write_def by (intro returns_intros)
qed

lemma returns_firmware_image [returns_intros]: "returns (production_write_firmware_image env bs)"
  unfolding production_write_firmware_image_def production_write_firmware_page_def write_blocks_def
    production_firmware_write_data_def Let_def
  by (intro returns_intros)

lemma returns_firmware_reset [returns_intros]:
  "returns (production_firmware_8051_reset_8812 env)"
  "returns (production_firmware_preflight_reset_loaded_code env)"
  unfolding production_firmware_preflight_reset_loaded_code_def production_firmware_8051_reset_8812_def Let_def
  by (intro returns_intros)+

lemma poll32_returns:
  "time_passes env clock \<Longrightarrow> 0 < delay \<Longrightarrow> returns (production_poll32_min env name a msk e least timeout delay)"
  unfolding production_poll32_min_def
  by (intro returns_intros) (use poll32_loop_returns in \<open>unfold returns_def, blast\<close>)

lemma returns_download_loop:
  "time_passes env clock \<Longrightarrow> returns (download_loop env payload k r n)"
  by (induction n arbitrary: k r)
    (auto simp only: download_loop.simps Let_def micros_def intro!: returns_intros poll32_returns)

lemma returns_power_on [returns_intros]: "returns (production_power_on_sequence env)"
  unfolding production_power_on_sequence_def by (intro returns_intros)

lemma returns_llt [returns_intros]: "returns (production_llt_sequence env)"
  unfolding production_llt_sequence_def by (intro returns_intros)

lemma returns_queue_dma [returns_intros]: "returns (production_queue_dma_sequence env layout)"
  unfolding production_queue_dma_sequence_def Let_def by (intro returns_intros)

lemma returns_firmware:
  assumes "time_passes env clock"
  shows "returns (production_firmware_sequence env payload)"
  unfolding production_firmware_sequence_def
  by (intro returns_intros returns_download_loop [OF assms] poll32_returns [OF assms]) (simp_all add: micros_def)

text \<open>
  Every bring-up sequence returns, with a result or an error, on every transport and from every
  state: the polls with a time limit end because the clock is not turned back and a sleep takes at
  least its delay, whatever the device answers.
\<close>

theorem bring_up_returns:
  assumes "time_passes env clock"
  shows "(\<exists>r t. production_power_on_sequence env s = Some (r, t)) \<and>
    (\<exists>r t. production_llt_sequence env s = Some (r, t)) \<and>
    (\<exists>r t. production_firmware_sequence env payload s = Some (r, t)) \<and>
    (\<exists>r t. production_queue_dma_sequence env layout s = Some (r, t))"
  using returns_power_on [of env] returns_llt [of env] returns_firmware [OF assms, of payload]
    returns_queue_dma [of env layout]
  unfolding returns_def by (metis not_None_eq surj_pair)

lemma bring_up_returns_witness:
  "\<exists>r t. production_firmware_sequence register_file [1, 2, 3] ((0, \<lambda>_. 0xff), radio_counters_default) = Some (r, t)"
proof -
  have "time_passes register_file fst"
    by (simp add: time_passes_def register_file_def register_access_new_def)
  from bring_up_returns [OF this] show ?thesis by blast
qed

end
