(* ===== verification/Queues.thy ===== *)
theory Queues
  imports Firmware_Run
begin

text \<open>
  The queue layout for the endpoints of the device, and what the queue/DMA sequence programs.
\<close>

lemma queue_layout_cases:
  assumes "production_queue_layout_from_bulk_out_endpoint_count n = Inr layout"
  shows "n = 2 \<and> ql_hpq layout = 0x10 \<and> ql_lpq layout = 0 \<and> ql_npq layout = 0 \<and> ql_pubq layout = 0xe6 \<or>
    (n = 3 \<or> n = 4) \<and> ql_hpq layout = 0x10 \<and> ql_lpq layout = 0x10 \<and> ql_npq layout = 0 \<and> ql_pubq layout = 0xd6"
    and "ql_rqpn layout = ucast (ql_hpq layout) OR push_bit 8 (ucast (ql_lpq layout)) OR
      push_bit 16 (ucast (ql_pubq layout)) OR LD_RQPN"
    and "ql_rqpn_npq layout = ql_npq layout" "ql_queue_map layout = production_queue_map_for_endpoint_count n"
  using assms
  unfolding production_queue_layout_from_bulk_out_endpoint_count_def
  by (auto simp: Let_def checked_sub_def TX_TOTAL_PAGE_NUMBER_8812_def TX_PAGE_BOUNDARY_8812_def
      NORMAL_PAGE_NUM_HPQ_8812_def NORMAL_PAGE_NUM_LPQ_8812_def NORMAL_PAGE_NUM_NPQ_8812_def split: if_splits)

lemma rqpn_fields:
  fixes h l p :: u8
  defines "w \<equiv> ucast h OR push_bit 8 (ucast l) OR push_bit 16 (ucast p) OR LD_RQPN"
  shows "ucast w = h" "ucast (drop_bit 8 w) = l" "ucast (drop_bit 16 w) = p" "bit w 31"
proof -
  have ld: "bit LD_RQPN n \<longleftrightarrow> n = 31" for n
    unfolding LD_RQPN_def bit_push_bit_iff bit_1_iff by auto
  show "bit w 31" by (simp add: w_def bit_or_iff ld)
  show "ucast w = h" "ucast (drop_bit 8 w) = l" "ucast (drop_bit 16 w) = p"
    unfolding w_def by (rule bit_word_eqI; auto simp: bit_simps ld dest: bit_u8_bound)+
qed

context observed_device
begin

lemma performs_boundaries:
  "performs trace (for_each rs (\<lambda>(name, a) _. production_write8_verify env name a v msk e phase) ())
    (\<lambda>_ w. w = map (\<lambda>(name, a). (a, [v])) rs)"
proof -
  have "performs trace (production_write8_verify env (fst r) (snd r) v msk e phase) (\<lambda>b w. b = () \<and> w = [(snd r, [v])])" for r
    using performs_write_verify(1) by simp
  from performs_for_each [where g = "\<lambda>_ _. ()" and ws = "\<lambda>r. [(snd r, [v])]" and xs = rs, OF this]
  show ?thesis by (simp add: case_prod_beta' performs_mono)
qed

lemma performs_queue_dma:
  "performs trace (production_queue_dma_sequence env layout)
    (\<lambda>_ w. \<exists>dma. w = [(REG_RQPN_NPQ, [ql_rqpn_npq layout]), (REG_RQPN, le32 (ql_rqpn layout))] @
        map (\<lambda>(name, a). (a, [TX_PAGE_BOUNDARY_8812])) boundary_registers @
        [(REG_TRXDMA_CTRL, le16 dma), (REG_TRXFF_BNDY + 2, le16 RX_DMA_BOUNDARY_8812), (REG_PBP, [PSTX_PBP_512])] \<and>
      dma AND TXDMA_QUEUE_MAP_MASK = ql_queue_map layout AND TXDMA_QUEUE_MAP_MASK)"
proof -
  have disjoint: "(0x0007 :: u16) AND TXDMA_QUEUE_MAP_MASK = 0" by (simp add: TXDMA_QUEUE_MAP_MASK_def)
  show ?thesis
    unfolding production_queue_dma_sequence_def Let_def
    apply (rule performs_silent_do [OF performs_preflight_cr])
    apply (rule performs_silent [OF performs_control_writes])
    apply (rule performs_do [OF performs_write_verify(1)] performs_do [OF performs_write_verify(3)]
          performs_do [OF performs_boundaries])+
    apply (unfold and_do_def [where m = "production_rmw16_preserve env name a b c d e" for name a b c d e])
    apply (rule performs_bind [OF rmw16_preserve_effect [OF disjoint]])
    apply (rule performs_do [OF performs_write_verify(2)] performs_do [OF performs_write_verify(1)])+
    apply (rule performs_mono [OF performs_writes_since])
    apply auto
    done
qed

end

text \<open>
  C37. A queue layout exists only for two, three or four bulk OUT endpoints.  Its queues share
  out all 0xf6 transmit pages, and when the queue/DMA sequence succeeds with it, what it has
  written, in this order, is the page counts packed into \<open>REG_RQPN_NPQ\<close> and \<open>REG_RQPN\<close> with the load
  bit, the transmit boundary into its five registers, the queue map into the map bits of
  \<open>REG_TRXDMA_CTRL\<close>, the receive boundary and the page size.
\<close>

theorem queue_dma_programs_layout:
  assumes "production_queue_layout_from_bulk_out_endpoint_count n = Inr layout"
  shows "(n = 2 \<or> n = 3 \<or> n = 4) \<and>
    unat (ql_hpq layout) + unat (ql_lpq layout) + unat (ql_npq layout) + unat (ql_pubq layout) = 0xf6 \<and>
    performs snd (production_queue_dma_sequence (logged env) layout)
      (\<lambda>_ w. \<exists>rqpn dma. w = [(REG_RQPN_NPQ, [ql_npq layout]), (REG_RQPN, le32 rqpn)] @
          map (\<lambda>(name, a). (a, [0xf7])) boundary_registers @
          [(REG_TRXDMA_CTRL, le16 dma), (REG_TRXFF_BNDY + 2, le16 0x3e7f), (REG_PBP, [PSTX_PBP_512])] \<and>
        ucast rqpn = ql_hpq layout \<and> ucast (drop_bit 8 rqpn) = ql_lpq layout \<and>
        ucast (drop_bit 16 rqpn) = ql_pubq layout \<and> bit rqpn 31 \<and>
        dma AND 0xfff8 = production_queue_map_for_endpoint_count n AND 0xfff8)"
proof (intro conjI)
  note layout = queue_layout_cases [OF assms]
  show "n = 2 \<or> n = 3 \<or> n = 4" using layout(1) by blast
  show "unat (ql_hpq layout) + unat (ql_lpq layout) + unat (ql_npq layout) + unat (ql_pubq layout) = 0xf6"
    using layout(1) by auto
  show "performs snd (production_queue_dma_sequence (logged env) layout)
      (\<lambda>_ w. \<exists>rqpn dma. w = [(REG_RQPN_NPQ, [ql_npq layout]), (REG_RQPN, le32 rqpn)] @
          map (\<lambda>(name, a). (a, [0xf7])) boundary_registers @
          [(REG_TRXDMA_CTRL, le16 dma), (REG_TRXFF_BNDY + 2, le16 0x3e7f), (REG_PBP, [PSTX_PBP_512])] \<and>
        ucast rqpn = ql_hpq layout \<and> ucast (drop_bit 8 rqpn) = ql_lpq layout \<and>
        ucast (drop_bit 16 rqpn) = ql_pubq layout \<and> bit rqpn 31 \<and>
        dma AND 0xfff8 = production_queue_map_for_endpoint_count n AND 0xfff8)"
  proof (rule performs_mono [OF logged.performs_queue_dma])
    fix x w
    assume "\<exists>dma. w = [(REG_RQPN_NPQ, [ql_rqpn_npq layout]), (REG_RQPN, le32 (ql_rqpn layout))] @
        map (\<lambda>(name, a). (a, [TX_PAGE_BOUNDARY_8812])) boundary_registers @
        [(REG_TRXDMA_CTRL, le16 dma), (REG_TRXFF_BNDY + 2, le16 RX_DMA_BOUNDARY_8812), (REG_PBP, [PSTX_PBP_512])] \<and>
      dma AND TXDMA_QUEUE_MAP_MASK = ql_queue_map layout AND TXDMA_QUEUE_MAP_MASK"
    then show "\<exists>rqpn dma. w = [(REG_RQPN_NPQ, [ql_npq layout]), (REG_RQPN, le32 rqpn)] @
          map (\<lambda>(name, a). (a, [0xf7])) boundary_registers @
          [(REG_TRXDMA_CTRL, le16 dma), (REG_TRXFF_BNDY + 2, le16 0x3e7f), (REG_PBP, [PSTX_PBP_512])] \<and>
        ucast rqpn = ql_hpq layout \<and> ucast (drop_bit 8 rqpn) = ql_lpq layout \<and>
        ucast (drop_bit 16 rqpn) = ql_pubq layout \<and> bit rqpn 31 \<and>
        dma AND 0xfff8 = production_queue_map_for_endpoint_count n AND 0xfff8"
      unfolding layout(2-4) TX_PAGE_BOUNDARY_8812_def RX_DMA_BOUNDARY_8812_def TXDMA_QUEUE_MAP_MASK_def
      using rqpn_fields by blast
  qed
qed

lemma queue_dma_programs_layout_witness:
  "\<exists>layout. production_queue_layout_from_bulk_out_endpoint_count 3 = Inr layout \<and>
     unat (ql_hpq layout) + unat (ql_lpq layout) + unat (ql_npq layout) + unat (ql_pubq layout) = 0xf6"
proof -
  obtain layout where "production_queue_layout_from_bulk_out_endpoint_count 3 = Inr layout"
    by (simp add: production_queue_layout_from_bulk_out_endpoint_count_def Let_def checked_sub_def
        TX_TOTAL_PAGE_NUMBER_8812_def TX_PAGE_BOUNDARY_8812_def NORMAL_PAGE_NUM_HPQ_8812_def
        NORMAL_PAGE_NUM_LPQ_8812_def NORMAL_PAGE_NUM_NPQ_8812_def)
  with queue_dma_programs_layout [OF this] show ?thesis by blast
qed

end
