(* ===== verification/Realtek_Table.thy ===== *)
theory Realtek_Table
  imports Firmware
begin

text \<open>
  The tables of the Realtek C sources (\<open>radio-core/src/realtek_table.rs\<close>): finding a named array in
  the text, stripping comments, scanning its literals, and planning the register writes of a table
  with condition markers.  A \<open>string\<close> is the bytes of the text.
\<close>

definition BIT31 :: u32 where "BIT31 = push_bit 31 1"
definition BIT30 :: u32 where "BIT30 = push_bit 30 1"
definition BIT29 :: u32 where "BIT29 = push_bit 29 1"
definition BIT28 :: u32 where "BIT28 = push_bit 28 1"
definition MASKDWORD :: u32 where "MASKDWORD = 0xffffffff"

datatype realtek_table_error =
    RtArrayNotFound string
  | RtArrayBodyNotFound string
  | RtOddValueCount string nat
  | RtByteOutOfRange string u32
  | RtInvalidNumber string string

datatype realtek_table_kind = RtkMac | RtkBbPhy | RtkBbAgc | RtkRfRadioA | RtkRfRadioB

record realtek_condition_env =
  rce_cut_version :: u8
  rce_package_type :: u8
  rce_support_interface :: u8
  rce_support_platform :: u8
  rce_board_type :: u8
  rce_type_glna :: u16
  rce_type_gpa :: u16
  rce_type_alna :: u16
  rce_type_apa :: u16

definition rtl8812au_awus036ach_default :: realtek_condition_env where
  "rtl8812au_awus036ach_default =
     \<lparr>rce_cut_version = 0, rce_package_type = 0, rce_support_interface = 0x02, rce_support_platform = 0,
      rce_board_type = 0xd8, rce_type_glna = 0, rce_type_gpa = 0, rce_type_alna = 0, rce_type_apa = 0\<rparr>"

datatype realtek_table_action_kind = RtaWrite | RtaDelay

record realtek_table_action =
  rta_pair_index :: nat
  rta_kind :: realtek_table_action_kind
  rta_address :: u32
  rta_address_hex :: string
  rta_bitmask :: "u32 option"
  rta_bitmask_hex :: "string option"
  rta_data :: "u32 option"
  rta_data_hex :: "string option"
  rta_delay_us :: "nat option"

record realtek_table_plan =
  rtp_array_name :: string
  rtp_kind :: realtek_table_kind
  rtp_raw_value_count :: nat
  rtp_raw_pair_count :: nat
  rtp_condition_marker_pairs :: nat
  rtp_skipped_write_pairs :: nat
  rtp_actions :: "realtek_table_action list"

definition write_count :: "realtek_table_plan \<Rightarrow> nat" where
  "write_count self = length (filter (\<lambda>action. rta_kind action = RtaWrite) (rtp_actions self))"

definition delay_count :: "realtek_table_plan \<Rightarrow> nat" where
  "delay_count self = length (filter (\<lambda>action. rta_kind action = RtaDelay) (rtp_actions self))"

section \<open>The text of an array\<close>

text \<open>\<open>find_sub pat s\<close> is \<open>s.find(pat)\<close>: the offset of the first occurrence.\<close>

fun find_sub :: "string \<Rightarrow> string \<Rightarrow> nat option" where
  "find_sub pat [] = (if pat = [] then Some 0 else None)"
| "find_sub pat (c # cs) =
     (if take (length pat) (c # cs) = pat then Some 0 else map_option Suc (find_sub pat cs))"

text \<open>The loop over the characters of the body: the text up to the brace that closes depth \<open>d\<close>.\<close>

fun body_until_close :: "nat \<Rightarrow> string \<Rightarrow> string option" where
  "body_until_close d [] = None"
| "body_until_close d (c # cs) =
     (if c = CHR ''{'' then map_option (Cons c) (body_until_close (Suc d) cs)
      else if c = CHR ''}''
      then (if d - 1 = 0 then Some [] else map_option (Cons c) (body_until_close (d - 1) cs))
      else map_option (Cons c) (body_until_close d cs))"

definition find_array_body :: "string \<Rightarrow> string \<Rightarrow> (realtek_table_error, string) result" where
  "find_array_body source array_name =
     (case find_sub array_name source of
        None \<Rightarrow> Inl (RtArrayNotFound array_name)
      | Some array_offset \<Rightarrow>
          let after_name = drop array_offset source in
          case find_sub ''{'' after_name of
            None \<Rightarrow> Inl (RtArrayBodyNotFound array_name)
          | Some brace_rel \<Rightarrow>
              case body_until_close 1 (drop (brace_rel + 1) after_name) of
                None \<Rightarrow> Inl (RtArrayBodyNotFound array_name)
              | Some body \<Rightarrow> Inr body)"

text \<open>What is left after a line comment (from its line feed) and after a block comment.\<close>

fun skip_line :: "string \<Rightarrow> string option" where
  "skip_line [] = None"
| "skip_line (c # cs) = (if c = CHR 0x0A then Some cs else skip_line cs)"

fun skip_block :: "char \<Rightarrow> string \<Rightarrow> string" where
  "skip_block prev [] = []"
| "skip_block prev (c # cs) = (if prev = CHR ''*'' \<and> c = CHR ''/'' then cs else skip_block c cs)"

lemma length_skip_line: "skip_line cs = Some ds \<Longrightarrow> length ds < length cs"
  by (induction cs) (auto split: if_splits)

lemma length_skip_block: "length (skip_block prev cs) \<le> length cs"
  by (induction cs arbitrary: prev) (auto intro: le_SucI)

function strip_c_comments :: "string \<Rightarrow> string" where
  "strip_c_comments [] = []"
| "strip_c_comments (ch # chars) =
     (if ch \<noteq> CHR ''/'' then ch # strip_c_comments chars
      else case chars of
          [] \<Rightarrow> [ch]
        | next_ch # after_next \<Rightarrow>
            if next_ch = CHR ''/''
            then (case skip_line after_next of None \<Rightarrow> [] | Some after_line \<Rightarrow> CHR 0x0A # strip_c_comments after_line)
            else if next_ch = CHR ''*'' then strip_c_comments (skip_block (CHR 0x00) after_next)
            else ch # strip_c_comments chars)"
  by pat_completeness auto
termination
  by (relation "measure length")
    (auto dest: length_skip_line intro: le_less_trans [OF length_skip_block])

section \<open>Scanning literals\<close>

definition is_ascii_digit :: "char \<Rightarrow> bool" where
  "is_ascii_digit c \<longleftrightarrow> 48 \<le> (of_char c :: nat) \<and> (of_char c :: nat) \<le> 57"

definition is_ascii_hexdigit :: "char \<Rightarrow> bool" where
  "is_ascii_hexdigit c \<longleftrightarrow> is_ascii_digit c \<or> 65 \<le> (of_char c :: nat) \<and> (of_char c :: nat) \<le> 70 \<or>
     97 \<le> (of_char c :: nat) \<and> (of_char c :: nat) \<le> 102"

definition digit_value :: "char \<Rightarrow> nat" where
  "digit_value c =
     (if is_ascii_digit c then of_char c - 48 else if of_char c \<le> (70::nat) then of_char c - 55 else of_char c - 87)"

definition digits_value :: "nat \<Rightarrow> string \<Rightarrow> nat" where
  "digits_value radix ds = foldl (\<lambda>n c. n * radix + digit_value c) 0 ds"

text \<open>\<open>u32::from_str_radix\<close> on a non-empty string of digits fails only by overflow.\<close>

definition u32_from_digits :: "string \<Rightarrow> nat \<Rightarrow> string \<Rightarrow> (realtek_table_error, u32) result" where
  "u32_from_digits literal radix ds =
     (if 2 ^ 32 \<le> digits_value radix ds
      then Inl (RtInvalidNumber literal ''number too large to fit in target type'')
      else Inr (of_nat (digits_value radix ds)))"

definition hex_literal_starts :: "char \<Rightarrow> string \<Rightarrow> bool" where
  "hex_literal_starts c cs \<longleftrightarrow> c = CHR ''0'' \<and> 2 \<le> length cs \<and> (hd cs = CHR ''x'' \<or> hd cs = CHR ''X'') \<and>
     is_ascii_hexdigit (cs ! 1)"

function scan_u32_literals :: "string \<Rightarrow> (realtek_table_error, u32 list) result" where
  "scan_u32_literals [] = Inr []"
| "scan_u32_literals (c # cs) =
     (if hex_literal_starts c cs
      then let ds = takeWhile is_ascii_hexdigit (tl cs) in
        bind_res (u32_from_digits (c # hd cs # ds) 16 ds) (\<lambda>v.
        bind_res (scan_u32_literals (dropWhile is_ascii_hexdigit (tl cs))) (\<lambda>values. Inr (v # values)))
      else if is_ascii_digit c
      then let ds = c # takeWhile is_ascii_digit cs in
        bind_res (u32_from_digits ds 10 ds) (\<lambda>v.
        bind_res (scan_u32_literals (dropWhile is_ascii_digit cs)) (\<lambda>values. Inr (v # values)))
      else scan_u32_literals cs)"
  by pat_completeness auto
termination
  by (relation "measure length")
    (auto intro: le_less_trans [OF length_dropWhile_le])

definition parse_realtek_u32_array :: "string \<Rightarrow> string \<Rightarrow> (realtek_table_error, u32 list) result" where
  "parse_realtek_u32_array source array_name =
     bind_res (find_array_body source array_name) (\<lambda>body.
     bind_res (scan_u32_literals (strip_c_comments body)) (\<lambda>values.
     if length values mod 2 \<noteq> 0 then Inl (RtOddValueCount array_name (length values)) else Inr values))"

text \<open>\<open>collect\<close> into a \<open>Result\<close>: the first value that is not a byte is the error.\<close>

fun bytes_of_values :: "string \<Rightarrow> u32 list \<Rightarrow> (realtek_table_error, bytes) result" where
  "bytes_of_values array_name [] = Inr []"
| "bytes_of_values array_name (v # values) =
     (if 256 \<le> unat v then Inl (RtByteOutOfRange array_name v)
      else bind_res (bytes_of_values array_name values) (\<lambda>bs. Inr (ucast v # bs)))"

definition parse_realtek_u8_array :: "string \<Rightarrow> string \<Rightarrow> (realtek_table_error, bytes) result" where
  "parse_realtek_u8_array source array_name =
     bind_res (find_array_body source array_name) (\<lambda>body.
     bind_res (scan_u32_literals (strip_c_comments body)) (bytes_of_values array_name))"

text \<open>The firmware constructors of \<open>firmware.rs\<close> that read such an array.\<close>

definition from_realtek_c_array_source ::
    "firmware_source \<Rightarrow> string \<Rightarrow> string \<Rightarrow> (('io, realtek_table_error) firmware_error, firmware_image) result" where
  "from_realtek_c_array_source source c_source array_name =
     bind_res (map_err (FwRealtekArrayParse array_name) (parse_realtek_u8_array c_source array_name))
       (firmware_from_bytes source)"

definition load_realtek_c_array ::
    "(string \<Rightarrow> ('io, string) result) \<Rightarrow> string \<Rightarrow> string \<Rightarrow>
     (('io, realtek_table_error) firmware_error, firmware_image) result" where
  "load_realtek_c_array read_to_string path array_name =
     bind_res (map_err (FwRead path) (read_to_string path)) (\<lambda>source.
     from_realtek_c_array_source (FsRealtekCArray path array_name) source array_name)"

section \<open>Condition markers\<close>

definition check_positive :: "realtek_condition_env \<Rightarrow> u32 \<Rightarrow> u32 \<Rightarrow> u32 \<Rightarrow> u32 \<Rightarrow> bool" where
  "check_positive env condition1 condition2 condition3 condition4 =
     (let bt = rce_board_type env;
          board_type = drop_bit 4 (bt AND push_bit 4 1) OR push_bit 1 (drop_bit 3 (bt AND push_bit 3 1)) OR
            push_bit 2 (drop_bit 7 (bt AND push_bit 7 1)) OR push_bit 3 (drop_bit 6 (bt AND push_bit 6 1)) OR
            push_bit 4 (drop_bit 2 (bt AND push_bit 2 1)) OR push_bit 5 (drop_bit 1 (bt AND push_bit 1 1)) OR
            push_bit 6 (drop_bit 5 (bt AND push_bit 5 1));
          cut_version_for_para = (if rce_cut_version env = 0 then 15 else rce_cut_version env);
          package_type_for_para = (if rce_package_type env = 0 then 15 else rce_package_type env);
          driver1 = push_bit 24 (ucast cut_version_for_para) OR
            push_bit 16 (ucast (rce_support_interface env AND 0xf0)) OR
            push_bit 16 (ucast (rce_support_platform env)) OR
            push_bit 12 (ucast package_type_for_para) OR
            push_bit 8 (ucast (rce_support_interface env AND 0x0f)) OR ucast board_type :: u32;
          driver2 = ucast (rce_type_glna env AND 0x00ff) OR push_bit 8 (ucast (rce_type_gpa env AND 0x00ff)) OR
            push_bit 16 (ucast (rce_type_alna env AND 0x00ff)) OR
            push_bit 24 (ucast (rce_type_apa env AND 0x00ff)) :: u32;
          driver4 = ucast (drop_bit 8 (rce_type_glna env AND 0xff00)) OR ucast (rce_type_gpa env AND 0xff00) OR
            push_bit 8 (ucast (rce_type_alna env AND 0xff00)) OR
            push_bit 16 (ucast (rce_type_apa env AND 0xff00)) :: u32
      in if condition1 AND 0x0000f000 \<noteq> 0 \<and> condition1 AND 0x0000f000 \<noteq> driver1 AND 0x0000f000 then False
         else if condition1 AND 0x0f000000 \<noteq> 0 \<and> condition1 AND 0x0f000000 \<noteq> driver1 AND 0x0f000000 then False
         else
           let cond1 = condition1 AND 0x00ff0fff; driver1 = driver1 AND 0x00ff0fff in
           if cond1 AND driver1 \<noteq> cond1 then False
           else if cond1 AND 0x0f = 0 then True
           else
             let bit_mask = (if cond1 AND push_bit 0 1 \<noteq> 0 then 0x000000ff else 0) OR
                   (if cond1 AND push_bit 1 1 \<noteq> 0 then 0x0000ff00 else 0) OR
                   (if cond1 AND push_bit 2 1 \<noteq> 0 then 0x00ff0000 else 0) OR
                   (if cond1 AND push_bit 3 1 \<noteq> 0 then 0xff000000 else 0)
             in condition2 AND bit_mask = driver2 AND bit_mask \<and> condition4 AND bit_mask = driver4 AND bit_mask)"

fun table_bitmask :: "realtek_table_kind \<Rightarrow> u32" where
  "table_bitmask RtkMac = MASKDWORD"
| "table_bitmask RtkBbPhy = MASKDWORD"
| "table_bitmask RtkBbAgc = MASKDWORD"
| "table_bitmask RtkRfRadioA = 0x000fffff"
| "table_bitmask RtkRfRadioB = 0x000fffff"

fun table_delay_us :: "realtek_table_kind \<Rightarrow> u32 \<Rightarrow> nat option" where
  "table_delay_us RtkMac address = None"
| "table_delay_us RtkBbPhy address =
     (if address = 0xfe then Some 50000 else if address = 0xfd then Some 5000
      else if address = 0xfc then Some 1000 else if address = 0xfb then Some 50
      else if address = 0xfa then Some 5 else if address = 0xf9 then Some 1 else None)"
| "table_delay_us RtkRfRadioA address = (if address = 0xfe \<or> address = 0xffe then Some 50000 else None)"
| "table_delay_us RtkRfRadioB address = (if address = 0xfe \<or> address = 0xffe then Some 50000 else None)"
| "table_delay_us RtkBbAgc address = None"

definition format_u32 :: "u32 \<Rightarrow> string" where
  "format_u32 v = ''0x'' @ show_hex 8 (unat v)"

section \<open>Planning a table\<close>

definition table_action :: "realtek_table_kind \<Rightarrow> nat \<Rightarrow> u32 \<Rightarrow> u32 \<Rightarrow> realtek_table_action" where
  "table_action kind pair_index v1 v2 =
     (case table_delay_us kind v1 of
        Some delay_us \<Rightarrow>
          \<lparr>rta_pair_index = pair_index, rta_kind = RtaDelay, rta_address = v1, rta_address_hex = format_u32 v1,
           rta_bitmask = None, rta_bitmask_hex = None, rta_data = None, rta_data_hex = None,
           rta_delay_us = Some delay_us\<rparr>
      | None \<Rightarrow>
          \<lparr>rta_pair_index = pair_index, rta_kind = RtaWrite, rta_address = v1, rta_address_hex = format_u32 v1,
           rta_bitmask = Some (table_bitmask kind), rta_bitmask_hex = Some (format_u32 (table_bitmask kind)),
           rta_data = Some v2, rta_data_hex = Some (format_u32 v2), rta_delay_us = None\<rparr>)"

text \<open>The variables of the loop over the pairs.\<close>

record table_state =
  ts_actions :: "realtek_table_action list"
  ts_condition_marker_pairs :: nat
  ts_skipped_write_pairs :: nat
  ts_is_matched :: bool
  ts_is_skipped :: bool
  ts_pre_v1 :: u32
  ts_pre_v2 :: u32

definition table_start :: table_state where
  "table_start = \<lparr>ts_actions = [], ts_condition_marker_pairs = 0, ts_skipped_write_pairs = 0,
     ts_is_matched = True, ts_is_skipped = False, ts_pre_v1 = 0, ts_pre_v2 = 0\<rparr>"

definition marker_condition :: "u32 \<Rightarrow> u8" where
  "marker_condition v1 = ucast (drop_bit 28 (v1 AND (BIT29 OR BIT28)))"

definition table_pair ::
    "realtek_table_kind \<Rightarrow> realtek_condition_env \<Rightarrow> nat \<times> u32 \<times> u32 \<Rightarrow> table_state \<Rightarrow> table_state" where
  "table_pair kind env p s =
     (case p of (pair_index, v1, v2) \<Rightarrow>
      if v1 AND (BIT31 OR BIT30) \<noteq> 0
      then
        let s = s\<lparr>ts_condition_marker_pairs := ts_condition_marker_pairs s + 1\<rparr> in
        if v1 AND BIT31 \<noteq> 0
        then
          let c_cond = marker_condition v1 in
          if c_cond = 3 then s\<lparr>ts_is_matched := True, ts_is_skipped := False\<rparr>
          else if c_cond = 2 then s\<lparr>ts_is_matched := \<not> ts_is_skipped s\<rparr>
          else s\<lparr>ts_pre_v1 := v1, ts_pre_v2 := v2\<rparr>
        else if v1 AND BIT30 \<noteq> 0
        then
          if \<not> ts_is_skipped s
          then
            if check_positive env (ts_pre_v1 s) (ts_pre_v2 s) v1 v2
            then s\<lparr>ts_is_matched := True, ts_is_skipped := True\<rparr>
            else s\<lparr>ts_is_matched := False, ts_is_skipped := False\<rparr>
          else s\<lparr>ts_is_matched := False\<rparr>
        else s
      else if \<not> ts_is_matched s
      then s\<lparr>ts_skipped_write_pairs := ts_skipped_write_pairs s + 1\<rparr>
      else s\<lparr>ts_actions := ts_actions s @ [table_action kind pair_index v1 v2]\<rparr>)"

text \<open>\<open>chunks_exact(2)\<close>.\<close>

fun pairs_of :: "u32 list \<Rightarrow> (u32 \<times> u32) list" where
  "pairs_of (a # b # vs) = (a, b) # pairs_of vs"
| "pairs_of vs = []"

definition plan_realtek_table ::
    "string \<Rightarrow> realtek_table_kind \<Rightarrow> u32 list \<Rightarrow> realtek_condition_env \<Rightarrow>
     (realtek_table_error, realtek_table_plan) result" where
  "plan_realtek_table array_name kind values env =
     (if length values mod 2 \<noteq> 0 then Inl (RtOddValueCount array_name (length values))
      else
        let s = fold (table_pair kind env) (List.enumerate 0 (pairs_of values)) table_start in
        Inr \<lparr>rtp_array_name = array_name, rtp_kind = kind, rtp_raw_value_count = length values,
             rtp_raw_pair_count = length values div 2,
             rtp_condition_marker_pairs = ts_condition_marker_pairs s,
             rtp_skipped_write_pairs = ts_skipped_write_pairs s, rtp_actions = ts_actions s\<rparr>)"

end
