(* ===== verification/Realtek_Laws.thy ===== *)
theory Realtek_Laws
  imports Realtek_Table
begin

text \<open>
  What the table parser and the planner promise: literals survive rendering and parsing, and the
  markers of a table act as nested-free if / else-if / else blocks.
\<close>

section \<open>Rendered literals are read back\<close>

lemma of_char_nth: "d < 16 \<Longrightarrow> of_char (digit_char d) = (if d < 10 then 48 + d else 87 + d)"
proof -
  assume "d < 16"
  then have "d \<in> {0..<16}" by simp
  also have "{0..<16} = {0, 1, 2, 3, 4, 5, 6, 7, 8, 9, 10, 11, 12, 13, 14, 15 :: nat}" by (simp add: atLeastLessThan_nat_numeral) auto
  finally show ?thesis by (auto simp: digit_char_def)
qed

lemma digit_char_props:
  assumes "d < 16"
  shows "is_ascii_hexdigit (digit_char d)" "digit_value (digit_char d) = d"
    "digit_char d \<noteq> CHR ''/''" "digit_char d \<noteq> CHR ''{''" "digit_char d \<noteq> CHR ''}''"
proof -
  note c = of_char_nth [OF assms]
  show "is_ascii_hexdigit (digit_char d)" "digit_value (digit_char d) = d"
    using assms by (auto simp: is_ascii_hexdigit_def is_ascii_digit_def digit_value_def c)
  have "of_char (CHR ''/'') = (47::nat)" "of_char (CHR ''{'') = (123::nat)" "of_char (CHR ''}'') = (125::nat)"
    by simp_all
  then show "digit_char d \<noteq> CHR ''/''" "digit_char d \<noteq> CHR ''{''" "digit_char d \<noteq> CHR ''}''"
    using assms c by (auto split: if_splits)
qed

lemma digits_value_append: "digits_value radix (ds @ [c]) = digits_value radix ds * radix + digit_value c"
  by (simp add: digits_value_def)

lemma hex_nat_props:
  "list_all is_ascii_hexdigit (hex_nat n)" "digits_value 16 (hex_nat n) = n"
  "CHR ''/'' \<notin> set (hex_nat n)" "CHR ''{'' \<notin> set (hex_nat n)" "CHR ''}'' \<notin> set (hex_nat n)" "hex_nat n \<noteq> []"
proof (induction n rule: hex_nat.induct)
  case (1 n)
  {
    case 1 show ?case using "1.IH" by (cases "n < 16") (simp_all add: hex_nat.simps [of n] digit_char_props)
  next
    case 2 show ?case using "1.IH"
      by (cases "n < 16") (simp_all add: hex_nat.simps [of n] digit_char_props digits_value_append, simp add: digits_value_def digit_char_props)
  next
    case 3 show ?case using "1.IH" digit_char_props(3)
      by (cases "n < 16") (auto simp: hex_nat.simps [of n] dest: sym)
  next
    case 4 show ?case using "1.IH" digit_char_props(4)
      by (cases "n < 16") (auto simp: hex_nat.simps [of n] dest: sym)
  next
    case 5 show ?case using "1.IH" digit_char_props(5)
      by (cases "n < 16") (auto simp: hex_nat.simps [of n] dest: sym)
  next
    case 6 show ?case by (simp add: hex_nat.simps [of n])
  }
qed

lemma zero_char: "CHR ''0'' = digit_char 0"
  by (simp add: digit_char_def)

lemma digits_value_zeros: "digits_value radix (replicate k (CHR ''0'') @ ds) = digits_value radix ds"
proof (induction k)
  case (Suc k)
  have "digit_value (CHR ''0'') = 0" by (simp add: zero_char digit_char_props)
  then show ?case using Suc by (simp add: digits_value_def)
qed simp

lemma show_hex_props:
  "list_all is_ascii_hexdigit (show_hex w n)" "digits_value 16 (show_hex w n) = n"
  "CHR ''/'' \<notin> set (show_hex w n)" "CHR ''{'' \<notin> set (show_hex w n)" "CHR ''}'' \<notin> set (show_hex w n)" "show_hex w n \<noteq> []"
proof -
  have "is_ascii_hexdigit (CHR ''0'')" by (simp add: zero_char digit_char_props)
  then show "list_all is_ascii_hexdigit (show_hex w n)" "digits_value 16 (show_hex w n) = n"
    "CHR ''/'' \<notin> set (show_hex w n)" "CHR ''{'' \<notin> set (show_hex w n)" "CHR ''}'' \<notin> set (show_hex w n)" "show_hex w n \<noteq> []"
    using hex_nat_props [of n]
    by (auto simp: show_hex_def pad_left_def digits_value_zeros list_all_iff)
qed

text \<open>The text between the braces: literals as the code itself prints them, and comments.\<close>

datatype table_text = Literal u32 | Line_comment string | Block_comment string

fun text_of :: "table_text \<Rightarrow> string" where
  "text_of (Literal v) = format_u32 v @ '', ''"
| "text_of (Line_comment t) = ''//'' @ t @ [CHR 0x0A]"
| "text_of (Block_comment t) = ''/*'' @ t @ ''*/''"

fun text_ok :: "table_text \<Rightarrow> bool" where
  "text_ok (Literal v) = True"
| "text_ok (Line_comment t) = (CHR 0x0A \<notin> set t \<and> CHR ''{'' \<notin> set t \<and> CHR ''}'' \<notin> set t)"
| "text_ok (Block_comment t) = (CHR ''*'' \<notin> set t \<and> CHR ''{'' \<notin> set t \<and> CHR ''}'' \<notin> set t)"

fun literals :: "table_text list \<Rightarrow> u32 list" where
  "literals [] = []"
| "literals (Literal v # ts) = v # literals ts"
| "literals (Line_comment t # ts) = literals ts"
| "literals (Block_comment t # ts) = literals ts"

fun uncommented :: "table_text \<Rightarrow> string" where
  "uncommented (Literal v) = format_u32 v @ '', ''"
| "uncommented (Line_comment t) = [CHR 0x0A]"
| "uncommented (Block_comment t) = []"

lemma text_of_no_brace:
  "text_ok t \<Longrightarrow> CHR ''{'' \<notin> set (text_of t) \<and> CHR ''}'' \<notin> set (text_of t)"
  by (cases t) (auto simp: format_u32_def show_hex_props)

lemma skip_line_comment: "CHR 0x0A \<notin> set t \<Longrightarrow> skip_line (t @ CHR 0x0A # r) = Some r"
  by (induction t) auto

lemma skip_block_comment: "CHR ''*'' \<notin> set t \<Longrightarrow> prev \<noteq> CHR ''*'' \<Longrightarrow> skip_block prev (t @ ''*/'' @ r) = r"
proof (induction t arbitrary: prev)
  case (Cons c t)
  then have "c \<noteq> CHR ''*''" by auto
  then show ?case using Cons.IH [of c] Cons.prems by simp
qed simp

lemma strip_plain: "CHR ''/'' \<notin> set p \<Longrightarrow> strip_c_comments (p @ r) = p @ strip_c_comments r"
  by (induction p) auto

lemma strip_text: "text_ok t \<Longrightarrow> strip_c_comments (text_of t @ r) = uncommented t @ strip_c_comments r"
proof (cases t)
  case (Literal v)
  have "CHR ''/'' \<notin> set (format_u32 v @ '', '')" by (simp add: format_u32_def show_hex_props)
  from strip_plain [OF this] show ?thesis by (simp add: Literal)
next
  case (Line_comment s)
  moreover assume "text_ok t"
  ultimately show ?thesis by (simp add: skip_line_comment)
next
  case (Block_comment s)
  moreover assume "text_ok t"
  ultimately show ?thesis using skip_block_comment [of s "CHR 0x00" r] by simp
qed

lemma strip_texts:
  "list_all text_ok ts \<Longrightarrow> strip_c_comments (concat (map text_of ts)) = concat (map uncommented ts)"
  by (induction ts) (simp_all add: strip_text)

lemma scan_hex:
  assumes "list_all is_ascii_hexdigit ds" "ds \<noteq> []" "digits_value 16 ds < 2 ^ 32" "\<not> is_ascii_hexdigit c"
  shows "scan_u32_literals (''0x'' @ ds @ c # r) =
    bind_res (scan_u32_literals (c # r)) (\<lambda>vs. Inr (of_nat (digits_value 16 ds) # vs))"
proof -
  have "hex_literal_starts (CHR ''0'') (CHR ''x'' # ds @ c # r)"
    using assms(1,2) by (cases ds) (auto simp: hex_literal_starts_def)
  moreover have "takeWhile is_ascii_hexdigit (ds @ c # r) = ds" "dropWhile is_ascii_hexdigit (ds @ c # r) = c # r"
    using assms(1,4) by (auto simp: list_all_iff takeWhile_append2 dropWhile_append2)
  ultimately show ?thesis using assms(3) by (simp add: u32_from_digits_def)
qed

lemma scan_separator: "scan_u32_literals (CHR '','' # CHR '' '' # r) = scan_u32_literals r"
  "scan_u32_literals (CHR 0x0A # r) = scan_u32_literals r"
  by (simp_all add: hex_literal_starts_def is_ascii_digit_def)

lemma scan_texts: "scan_u32_literals (concat (map uncommented ts)) = Inr (literals ts)"
proof (induction ts)
  case (Cons t ts)
  show ?case
  proof (cases t)
    case (Literal v)
    have "digits_value 16 (show_hex 8 (unat v)) < 2 ^ 32"
      using unsigned_less [where 'a = nat, of v] by (simp add: show_hex_props)
    moreover have "\<not> is_ascii_hexdigit (CHR '','')" by (simp add: is_ascii_hexdigit_def is_ascii_digit_def)
    ultimately show ?thesis
      using scan_hex [of "show_hex 8 (unat v)" "CHR '',''" "CHR '' '' # concat (map uncommented ts)"]
        show_hex_props [of 8 "unat v"] Cons
      by (simp add: Literal format_u32_def scan_separator del: scan_u32_literals.simps)
  qed (use Cons in \<open>simp_all add: scan_separator del: scan_u32_literals.simps\<close>)
qed simp

lemma find_brace: "CHR ''{'' \<notin> set p \<Longrightarrow> find_sub ''{'' (p @ CHR ''{'' # r) = Some (length p)"
  by (induction p) auto

lemma body_no_brace:
  "CHR ''{'' \<notin> set b \<Longrightarrow> CHR ''}'' \<notin> set b \<Longrightarrow> body_until_close 1 (b @ CHR ''}'' # r) = Some b"
  by (induction b) auto



text \<open>The name is looked for as a substring: an array whose name only begins with it is taken.\<close>

lemma name_prefix_is_taken:
  "parse_realtek_u32_array ''u32 fw_bt[] = { 1, 2 }; u32 fw[] = { 3, 4 };'' ''fw'' = Inr [1, 2]"
  by (simp add: parse_realtek_u32_array_def find_array_body_def hex_literal_starts_def is_ascii_digit_def
      is_ascii_hexdigit_def u32_from_digits_def digits_value_def digit_value_def)

text \<open>A brace in a comment counts: the array ends there.\<close>

lemma brace_in_comment_ends_array:
  "parse_realtek_u32_array ''u32 fw[] = { 1, 2, /* } */ 3, 4 };'' ''fw'' = Inr [1, 2]"
  by (simp add: parse_realtek_u32_array_def find_array_body_def hex_literal_starts_def is_ascii_digit_def
      is_ascii_hexdigit_def u32_from_digits_def digits_value_def digit_value_def)

section \<open>Condition blocks\<close>

text \<open>
  A table as its author means it: straight writes, and choices of branches with an optional else.
  A branch is its marker, its check and its writes.
\<close>

type_synonym table_entry = "u32 \<times> u32"

datatype table_block =
    Straight "table_entry list"
  | Choice "(table_entry \<times> table_entry \<times> table_entry list) list" "(table_entry \<times> table_entry list) option" table_entry

definition plain_entry :: "table_entry \<Rightarrow> bool" where
  "plain_entry p \<longleftrightarrow> fst p AND (BIT31 OR BIT30) = 0"

definition if_entry :: "table_entry \<Rightarrow> bool" where
  "if_entry p \<longleftrightarrow> fst p AND BIT31 \<noteq> 0 \<and> marker_condition (fst p) \<noteq> 2 \<and> marker_condition (fst p) \<noteq> 3"

definition check_entry :: "table_entry \<Rightarrow> bool" where
  "check_entry p \<longleftrightarrow> fst p AND BIT31 = 0 \<and> fst p AND BIT30 \<noteq> 0"

definition else_entry :: "table_entry \<Rightarrow> bool" where
  "else_entry p \<longleftrightarrow> fst p AND BIT31 \<noteq> 0 \<and> marker_condition (fst p) = 2"

definition endif_entry :: "table_entry \<Rightarrow> bool" where
  "endif_entry p \<longleftrightarrow> fst p AND BIT31 \<noteq> 0 \<and> marker_condition (fst p) = 3"

definition branch_ok :: "table_entry \<times> table_entry \<times> table_entry list \<Rightarrow> bool" where
  "branch_ok b \<longleftrightarrow> if_entry (fst b) \<and> check_entry (fst (snd b)) \<and> list_all plain_entry (snd (snd b))"

fun block_ok :: "table_block \<Rightarrow> bool" where
  "block_ok (Straight ps) = list_all plain_entry ps"
| "block_ok (Choice bs els e) =
     (list_all branch_ok bs \<and> endif_entry e \<and>
      (case els of None \<Rightarrow> True | Some (m, ps) \<Rightarrow> else_entry m \<and> list_all plain_entry ps))"

definition branch_entries :: "table_entry \<times> table_entry \<times> table_entry list \<Rightarrow> table_entry list" where
  "branch_entries b = fst b # fst (snd b) # snd (snd b)"

fun block_entries :: "table_block \<Rightarrow> table_entry list" where
  "block_entries (Straight ps) = ps"
| "block_entries (Choice bs els e) =
     concat (map branch_entries bs) @ (case els of None \<Rightarrow> [] | Some (m, ps) \<Rightarrow> m # ps) @ [e]"

text \<open>
  The entries a block stands for, with their positions from \<open>n\<close>: those of the first branch whose
  condition holds, else those of the else part.
\<close>

definition branch_holds :: "realtek_condition_env \<Rightarrow> table_entry \<times> table_entry \<times> table_entry list \<Rightarrow> bool" where
  "branch_holds env b = check_positive env (fst (fst b)) (snd (fst b)) (fst (fst (snd b))) (snd (fst (snd b)))"

fun first_branch ::
    "realtek_condition_env \<Rightarrow> nat \<Rightarrow> (table_entry \<times> table_entry \<times> table_entry list) list \<Rightarrow> (nat \<times> table_entry) list option" where
  "first_branch env n [] = None"
| "first_branch env n (b # bs) =
     (if branch_holds env b then Some (List.enumerate (n + 2) (snd (snd b)))
      else first_branch env (n + 2 + length (snd (snd b))) bs)"

fun selected :: "realtek_condition_env \<Rightarrow> nat \<Rightarrow> table_block \<Rightarrow> (nat \<times> table_entry) list" where
  "selected env n (Straight ps) = List.enumerate n ps"
| "selected env n (Choice bs els e) =
     (case first_branch env n bs of
        Some ps \<Rightarrow> ps
      | None \<Rightarrow> (case els of
            None \<Rightarrow> []
          | Some (m, ps) \<Rightarrow> List.enumerate (n + length (concat (map branch_entries bs)) + 1) ps))"

fun selected_blocks :: "realtek_condition_env \<Rightarrow> nat \<Rightarrow> table_block list \<Rightarrow> (nat \<times> table_entry) list" where
  "selected_blocks env n [] = []"
| "selected_blocks env n (b # bs) = selected env n b @ selected_blocks env (n + length (block_entries b)) bs"

definition action_of :: "realtek_table_kind \<Rightarrow> nat \<times> table_entry \<Rightarrow> realtek_table_action" where
  "action_of kind p = table_action kind (fst p) (fst (snd p)) (snd (snd p))"

lemma marker_bits: "v AND BIT31 \<noteq> 0 \<Longrightarrow> v AND (BIT31 OR BIT30) \<noteq> 0" "v AND BIT30 \<noteq> 0 \<Longrightarrow> v AND (BIT31 OR BIT30) \<noteq> 0"
  for v :: u32
  by (metis bit.conj_disj_distrib bit.disj_zero_right or_eq_0_iff)+

text \<open>One entry of each sort.\<close>

lemma table_pair_plain:
  assumes "plain_entry p"
  shows "table_pair kind env (n, p) s =
    (if ts_is_matched s then s\<lparr>ts_actions := ts_actions s @ [action_of kind (n, p)]\<rparr>
     else s\<lparr>ts_skipped_write_pairs := ts_skipped_write_pairs s + 1\<rparr>)"
  using assms by (cases p) (simp add: table_pair_def plain_entry_def action_of_def)

lemma table_pair_marker:
  "if_entry p \<Longrightarrow> table_pair kind env (n, p) s =
     s\<lparr>ts_condition_marker_pairs := ts_condition_marker_pairs s + 1, ts_pre_v1 := fst p, ts_pre_v2 := snd p\<rparr>"
  "else_entry p \<Longrightarrow> table_pair kind env (n, p) s =
     s\<lparr>ts_condition_marker_pairs := ts_condition_marker_pairs s + 1, ts_is_matched := \<not> ts_is_skipped s\<rparr>"
  "endif_entry p \<Longrightarrow> table_pair kind env (n, p) s =
     s\<lparr>ts_condition_marker_pairs := ts_condition_marker_pairs s + 1, ts_is_matched := True, ts_is_skipped := False\<rparr>"
  "check_entry p \<Longrightarrow> table_pair kind env (n, p) s =
     (let holds = \<not> ts_is_skipped s \<and> check_positive env (ts_pre_v1 s) (ts_pre_v2 s) (fst p) (snd p) in
      s\<lparr>ts_condition_marker_pairs := ts_condition_marker_pairs s + 1, ts_is_matched := holds,
        ts_is_skipped := ts_is_skipped s \<or> holds\<rparr>)"
proof -
  obtain v1 v2 where p: "p = (v1, v2)" by (cases p)
  note bits = marker_bits [of v1]
  note defs = p table_pair_def prod.case Let_def fst_conv snd_conv
  show "if_entry p \<Longrightarrow> table_pair kind env (n, p) s =
     s\<lparr>ts_condition_marker_pairs := ts_condition_marker_pairs s + 1, ts_pre_v1 := fst p, ts_pre_v2 := snd p\<rparr>"
    using bits(1) unfolding if_entry_def defs by simp
  show "else_entry p \<Longrightarrow> table_pair kind env (n, p) s =
     s\<lparr>ts_condition_marker_pairs := ts_condition_marker_pairs s + 1, ts_is_matched := \<not> ts_is_skipped s\<rparr>"
    using bits(1) unfolding else_entry_def defs by simp
  show "endif_entry p \<Longrightarrow> table_pair kind env (n, p) s =
     s\<lparr>ts_condition_marker_pairs := ts_condition_marker_pairs s + 1, ts_is_matched := True, ts_is_skipped := False\<rparr>"
    using bits(1) unfolding endif_entry_def defs by simp
  show "check_entry p \<Longrightarrow> table_pair kind env (n, p) s =
     (let holds = \<not> ts_is_skipped s \<and> check_positive env (ts_pre_v1 s) (ts_pre_v2 s) (fst p) (snd p) in
      s\<lparr>ts_condition_marker_pairs := ts_condition_marker_pairs s + 1, ts_is_matched := holds,
        ts_is_skipped := ts_is_skipped s \<or> holds\<rparr>)"
    using bits(2) unfolding check_entry_def defs by simp
qed

abbreviation run_table ::
    "realtek_table_kind \<Rightarrow> realtek_condition_env \<Rightarrow> nat \<Rightarrow> table_entry list \<Rightarrow> table_state \<Rightarrow> table_state" where
  "run_table kind env n ps s \<equiv> fold (table_pair kind env) (List.enumerate n ps) s"

lemma run_table_append: "run_table kind env n (ps @ qs) s = run_table kind env (n + length ps) qs (run_table kind env n ps s)"
  by (simp add: enumerate_append_eq)

lemma run_plain:
  "list_all plain_entry ps \<Longrightarrow> run_table kind env n ps s =
     (if ts_is_matched s then s\<lparr>ts_actions := ts_actions s @ map (action_of kind) (List.enumerate n ps)\<rparr>
      else s\<lparr>ts_skipped_write_pairs := ts_skipped_write_pairs s + length ps\<rparr>)"
  by (induction ps arbitrary: n s) (simp_all add: table_pair_plain)

lemma run_branch:
  assumes "branch_ok b"
  shows "ts_is_skipped (run_table kind env n (branch_entries b) s) = (ts_is_skipped s \<or> branch_holds env b)"
    and "ts_actions (run_table kind env n (branch_entries b) s) = ts_actions s @
      (if \<not> ts_is_skipped s \<and> branch_holds env b
       then map (action_of kind) (List.enumerate (n + 2) (snd (snd b))) else [])"
  using assms
  by (simp_all add: branch_ok_def branch_entries_def branch_holds_def table_pair_marker Let_def run_plain)

lemma run_branches:
  assumes "list_all branch_ok bs"
  shows "ts_is_skipped (run_table kind env n (concat (map branch_entries bs)) s) =
      (ts_is_skipped s \<or> first_branch env n bs \<noteq> None)"
    and "ts_actions (run_table kind env n (concat (map branch_entries bs)) s) = ts_actions s @
      (if ts_is_skipped s then [] else map (action_of kind) (case first_branch env n bs of None \<Rightarrow> [] | Some ps \<Rightarrow> ps))"
  using assms
proof (induction bs arbitrary: n s)
  case (Cons b bs)
  have len: "length (branch_entries b) = 2 + length (snd (snd b))" by (simp add: branch_entries_def)
  {
    case 1
    then show ?case
      using Cons.IH(1) [of "n + length (branch_entries b)" "run_table kind env n (branch_entries b) s"] run_branch(1)
      by (auto simp: run_table_append len add.assoc [symmetric])
  next
    case 2
    then show ?case
      using Cons.IH(2) [of "n + length (branch_entries b)" "run_table kind env n (branch_entries b) s"] run_branch
      by (auto simp: run_table_append len add.assoc [symmetric])
  }
qed simp_all

lemma run_block:
  assumes "block_ok b" "ts_is_matched s" "\<not> ts_is_skipped s"
  shows "ts_is_matched (run_table kind env n (block_entries b) s)"
    and "\<not> ts_is_skipped (run_table kind env n (block_entries b) s)"
    and "ts_actions (run_table kind env n (block_entries b) s) = ts_actions s @ map (action_of kind) (selected env n b)"
proof -
  let ?run = "run_table kind env n (block_entries b) s"
  have "ts_is_matched ?run \<and> \<not> ts_is_skipped ?run \<and>
    ts_actions ?run = ts_actions s @ map (action_of kind) (selected env n b)"
  proof (cases b)
    case (Straight ps)
    then show ?thesis using assms by (simp add: run_plain)
  next
    case (Choice bs els e)
    let ?t = "run_table kind env n (concat (map branch_entries bs)) s"
    let ?m = "n + length (concat (map branch_entries bs))"
    have ok: "list_all branch_ok bs" "endif_entry e" using assms(1) Choice by simp_all
    have t: "ts_is_skipped ?t = (first_branch env n bs \<noteq> None)"
      "ts_actions ?t = ts_actions s @ map (action_of kind) (case first_branch env n bs of None \<Rightarrow> [] | Some ps \<Rightarrow> ps)"
      using run_branches [OF ok(1)] assms(3) by simp_all
    show ?thesis
    proof (cases els)
      case None
      then show ?thesis
        using t Choice table_pair_marker(3) [OF ok(2)]
        by (simp add: run_table_append split: option.split)
    next
      case (Some mp)
      obtain m ps where mp: "mp = (m, ps)" by (cases mp)
      have els: "else_entry m" "list_all plain_entry ps" using assms(1) Choice Some mp by simp_all
      then show ?thesis
        using t Choice Some mp table_pair_marker(3) [OF ok(2)] table_pair_marker(2) [OF els(1)] run_plain [OF els(2)]
        by (simp add: run_table_append split: option.split)
    qed
  qed
  then show "ts_is_matched ?run" "\<not> ts_is_skipped ?run"
    "ts_actions ?run = ts_actions s @ map (action_of kind) (selected env n b)" by simp_all
qed

lemma run_blocks:
  "list_all block_ok bs \<Longrightarrow> ts_is_matched s \<Longrightarrow> \<not> ts_is_skipped s \<Longrightarrow>
     ts_actions (run_table kind env n (concat (map block_entries bs)) s) =
     ts_actions s @ map (action_of kind) (selected_blocks env n bs)"
proof (induction bs arbitrary: n s)
  case (Cons b bs)
  then show ?case
    using run_block [of b s kind env n] by (simp add: run_table_append)
qed simp

lemma table_pair_counts:
  "ts_condition_marker_pairs (table_pair kind env p s) + ts_skipped_write_pairs (table_pair kind env p s) +
     length (ts_actions (table_pair kind env p s)) =
   Suc (ts_condition_marker_pairs s + ts_skipped_write_pairs s + length (ts_actions s))"
  by (cases p) (simp add: table_pair_def Let_def)

lemma run_table_counts:
  "ts_condition_marker_pairs (fold (table_pair kind env) ps s) + ts_skipped_write_pairs (fold (table_pair kind env) ps s) +
     length (ts_actions (fold (table_pair kind env) ps s)) =
   length ps + (ts_condition_marker_pairs s + ts_skipped_write_pairs s + length (ts_actions s))"
  by (induction ps arbitrary: s) (simp_all add: table_pair_counts)

definition values_of :: "table_entry list \<Rightarrow> u32 list" where
  "values_of ps = concat (map (\<lambda>(a, b). [a, b]) ps)"

lemma pairs_of_values: "pairs_of (values_of ps) = ps" "length (values_of ps) = 2 * length ps"
  by (induction ps) (auto simp: values_of_def)

text \<open>
  C31. For a table made of straight writes and condition blocks the planner selects, in order and with
  their positions, exactly the writes of the first branch whose condition holds for the adapter, or
  of the else part; every selected entry becomes one write or, for the delay addresses of its kind,
  one delay; and markers, skipped writes and actions together account for every pair.
\<close>

theorem plan_follows_blocks:
  assumes "list_all block_ok bs"
  shows "\<exists>plan. plan_realtek_table name kind (values_of (concat (map block_entries bs))) env = Inr plan \<and>
    rtp_actions plan = map (action_of kind) (selected_blocks env 0 bs) \<and>
    rtp_condition_marker_pairs plan + rtp_skipped_write_pairs plan + length (rtp_actions plan) = rtp_raw_pair_count plan"
proof -
  let ?ps = "concat (map block_entries bs)"
  let ?s = "run_table kind env 0 ?ps table_start"
  have "ts_actions ?s = map (action_of kind) (selected_blocks env 0 bs)"
    using run_blocks [OF assms, of table_start] by (simp add: table_start_def)
  moreover have "ts_condition_marker_pairs ?s + ts_skipped_write_pairs ?s + length (ts_actions ?s) = length ?ps"
    using run_table_counts [of kind env "List.enumerate 0 ?ps" table_start] by (simp add: table_start_def)
  ultimately show ?thesis
    by (simp add: plan_realtek_table_def pairs_of_values Let_def)
qed

definition sample_blocks :: "table_block list" where
  "sample_blocks =
     [Straight [(0x10, 1)],
      Choice [((0x80000200, 0), (0x40000000, 0), [(0x011, 0x66)])] (Some ((0xa0000000, 0), [(0x011, 0x5a)])) (0xb0000000, 0)]"

lemma plan_follows_blocks_witness:
  "\<exists>plan. plan_realtek_table ''t'' RtkBbPhy (values_of (concat (map block_entries sample_blocks)))
      rtl8812au_awus036ach_default = Inr plan \<and> map rta_address (rtp_actions plan) = [0x10, 0x011] \<and>
      map rta_data (rtp_actions plan) = [Some 1, Some 0x66]"
proof -
  have "list_all block_ok sample_blocks"
    by (simp add: sample_blocks_def branch_ok_def plain_entry_def if_entry_def check_entry_def else_entry_def
        endif_entry_def marker_condition_def BIT31_def BIT30_def BIT29_def BIT28_def)
  moreover have "selected_blocks rtl8812au_awus036ach_default 0 sample_blocks = [(0, 0x10, 1), (3, 0x011, 0x66)]"
    by (simp add: sample_blocks_def branch_holds_def check_positive_def rtl8812au_awus036ach_default_def Let_def)
  ultimately show ?thesis
    using plan_follows_blocks [of sample_blocks "''t''" RtkBbPhy rtl8812au_awus036ach_default]
    by (auto simp: action_of_def table_action_def)
qed

end
