(* ===== verification/Efuse.thy ===== *)
theory Efuse
  imports Prelude
begin

unbundle bit_operations_syntax

text \<open>
  The EFUSE of the adapter (\<open>wfb-radio-runtime/src/lib.rs\<close>): the decoder of its records into the
  512-byte logical map, and what a map that was burned record by record decodes to.
\<close>

section \<open>Decoding\<close>

definition RTL8812AU_EFUSE_REAL_CONTENT_LEN :: nat where "RTL8812AU_EFUSE_REAL_CONTENT_LEN = 512"
definition RTL8812AU_EFUSE_LOGICAL_MAP_LEN :: nat where "RTL8812AU_EFUSE_LOGICAL_MAP_LEN = 512"
definition RTL8812AU_EFUSE_MAX_SECTION :: u8 where "RTL8812AU_EFUSE_MAX_SECTION = 64"
definition RTL8812AU_EFUSE_MAC_OFFSET :: nat where "RTL8812AU_EFUSE_MAC_OFFSET = 0x0d7"

definition efuse_is_extended_header :: "u8 \<Rightarrow> bool" where
  "efuse_is_extended_header header \<longleftrightarrow> header AND 0x1f = 0x0f"

definition efuse_all_words_disabled :: "u8 \<Rightarrow> bool" where
  "efuse_all_words_disabled word_enable \<longleftrightarrow> word_enable AND 0x0f = 0x0f"

definition efuse_word_count :: "u8 \<Rightarrow> nat" where
  "efuse_word_count word_enable = length (filter (\<lambda>word. word_enable AND push_bit word 1 = 0) [0..<4])"

text \<open>
  The loop over the four words of a section; \<open>raw\<close> is what is left of the input, so that the
  index test \<open>raw_offset + 1 >= raw.len()\<close> asks for two more bytes, and giving up on a truncated
  record leaves nothing.
\<close>

fun efuse_words :: "nat list \<Rightarrow> u8 \<Rightarrow> nat \<Rightarrow> bytes \<Rightarrow> bytes \<Rightarrow> bytes \<times> bytes" where
  "efuse_words [] word_enable target raw logical_map = (raw, logical_map)"
| "efuse_words (word # words) word_enable target raw logical_map =
     (if word_enable AND push_bit word 1 = 0
      then if length raw < 2 \<or> length logical_map \<le> target + 1 then ([], logical_map)
           else efuse_words words word_enable (target + 2) (drop 2 raw)
                  (logical_map[target := raw ! 0, target + 1 := raw ! 1])
      else efuse_words words word_enable (target + 2) raw logical_map)"

text \<open>The data of a record: stored when the section is in range, skipped otherwise.\<close>

definition efuse_record_data :: "u8 \<Rightarrow> u8 \<Rightarrow> bytes \<Rightarrow> bytes \<Rightarrow> bytes \<times> bytes" where
  "efuse_record_data section word_enable raw logical_map =
     (if section < RTL8812AU_EFUSE_MAX_SECTION
      then efuse_words [0..<4] word_enable (unat section * 8) raw logical_map
      else (drop (efuse_word_count word_enable * 2) raw, logical_map))"

lemma length_efuse_words: "length (fst (efuse_words ws en target raw m)) \<le> length raw"
  by (induction ws en target raw m rule: efuse_words.induct) auto

lemma length_efuse_record_data: "length (fst (efuse_record_data s en raw m)) \<le> length raw"
  by (simp add: efuse_record_data_def length_efuse_words)

function efuse_decode :: "bytes \<Rightarrow> bytes \<Rightarrow> bytes" where
  "efuse_decode [] logical_map = logical_map"
| "efuse_decode (header # raw) logical_map =
     (if header = 0xff then logical_map
      else if efuse_is_extended_header header
      then
        (case raw of
           [] \<Rightarrow> logical_map
         | ext # raw \<Rightarrow>
             if efuse_all_words_disabled ext then efuse_decode raw logical_map
             else
               let offset_low = drop_bit 5 (header AND 0xe0);
                   section = offset_low OR drop_bit 1 (ext AND 0xf0);
                   (raw, logical_map) = efuse_record_data section (ext AND 0x0f) raw logical_map
               in efuse_decode raw logical_map)
      else
        let (raw, logical_map) = efuse_record_data (drop_bit 4 header AND 0x0f) (header AND 0x0f) raw logical_map
        in efuse_decode raw logical_map)"
  by pat_completeness auto

termination
proof (relation "measure (length \<circ> fst)", goal_cases)
  case (3 header raw m ext raw' x xa xb raw'' m')
  then show ?case
    using length_efuse_record_data
      [of "drop_bit 5 (header AND 0xe0) OR drop_bit 1 (ext AND 0xf0)" "ext AND 0x0f" raw' m]
    by auto
next
  case (4 header raw m x raw' m')
  then show ?case
    using length_efuse_record_data [of "drop_bit 4 header AND 0x0f" "header AND 0x0f" raw m] by auto
qed auto

definition rtl8812au_decode_efuse_logical_map :: "bytes \<Rightarrow> bytes" where
  "rtl8812au_decode_efuse_logical_map raw = efuse_decode raw (replicate RTL8812AU_EFUSE_LOGICAL_MAP_LEN 0xff)"

definition rtl8812au_efuse_logical_mac_address :: "bytes \<Rightarrow> bytes option" where
  "rtl8812au_efuse_logical_mac_address logical_map =
     (if length logical_map < RTL8812AU_EFUSE_MAC_OFFSET + 6 then None
      else
        let mac = byte_slice RTL8812AU_EFUSE_MAC_OFFSET (RTL8812AU_EFUSE_MAC_OFFSET + 6) logical_map in
        if list_all (\<lambda>byte. byte = 0xff) mac \<or> list_all (\<lambda>byte. byte = 0x00) mac then None
        else Some mac)"

section \<open>The logical map\<close>

lemma length_map_efuse_words: "length (snd (efuse_words ws en target raw m)) = length m"
  by (induction ws en target raw m rule: efuse_words.induct) auto

lemma length_efuse_decode: "length (efuse_decode raw m) = length m"
proof (induction raw m rule: efuse_decode.induct)
  case (2 header raw m)
  have "length (snd (efuse_record_data s en raw' m)) = length m" for s en raw'
    by (simp add: efuse_record_data_def length_map_efuse_words)
  with 2 show ?case
    by (auto simp: split_beta Let_def split: list.split)
qed simp

lemma efuse_logical_map_length:
  "length (rtl8812au_decode_efuse_logical_map raw) = RTL8812AU_EFUSE_LOGICAL_MAP_LEN"
  by (simp add: rtl8812au_decode_efuse_logical_map_def length_efuse_decode)

text \<open>The whole map is long enough for the address, so only a blank address is refused.\<close>

lemma list_all_const: "length xs = n \<Longrightarrow> list_all (\<lambda>b. b = c) xs \<longleftrightarrow> xs = replicate n c"
  by (auto simp: list_all_iff intro: replicate_eqI) (metis in_set_replicate)

lemma efuse_mac_of_map:
  "rtl8812au_efuse_logical_mac_address (rtl8812au_decode_efuse_logical_map raw) = None \<longleftrightarrow>
     byte_slice 0xd7 0xdd (rtl8812au_decode_efuse_logical_map raw) \<in> {replicate 6 0xff, replicate 6 0}"
proof -
  have "length (byte_slice 0xd7 0xdd (rtl8812au_decode_efuse_logical_map raw)) = 6"
    by (simp add: byte_slice_def efuse_logical_map_length RTL8812AU_EFUSE_LOGICAL_MAP_LEN_def)
  then show ?thesis
    by (simp add: list_all_const rtl8812au_efuse_logical_mac_address_def efuse_logical_map_length Let_def
        RTL8812AU_EFUSE_LOGICAL_MAP_LEN_def RTL8812AU_EFUSE_MAC_OFFSET_def)
qed

section \<open>Records\<close>

text \<open>
  What is burned: a section, and for each of its four words two bytes or nothing.  A record is
  written with the short header when its section is below 16 and some word is present, and with
  the extended header otherwise.
\<close>

type_synonym efuse_record = "nat \<times> (u8 \<times> u8) option list"

definition burnable :: "efuse_record \<Rightarrow> bool" where
  "burnable r \<longleftrightarrow> fst r < 64 \<and> length (snd r) = 4"

fun enable_bits :: "'a option list \<Rightarrow> u8" where
  "enable_bits [] = 0"
| "enable_bits (w # ws) = (if w = None then 1 else 0) OR push_bit 1 (enable_bits ws)"

definition record_data :: "(u8 \<times> u8) option list \<Rightarrow> bytes" where
  "record_data ws = concat (map (\<lambda>w. case w of None \<Rightarrow> [] | Some (a, b) \<Rightarrow> [a, b]) ws)"

definition burn_short :: "efuse_record \<Rightarrow> bytes" where
  "burn_short r = (push_bit 4 (of_nat (fst r)) OR enable_bits (snd r)) # record_data (snd r)"

definition burn_extended :: "efuse_record \<Rightarrow> bytes" where
  "burn_extended r =
     (push_bit 5 (of_nat (fst r) AND 7) OR 0x0f) # (push_bit 4 (drop_bit 3 (of_nat (fst r))) OR enable_bits (snd r)) #
     record_data (snd r)"

inductive burned :: "efuse_record \<Rightarrow> bytes \<Rightarrow> bool" where
  burned_short: "burnable r \<Longrightarrow> fst r < 16 \<Longrightarrow> \<exists>w \<in> set (snd r). w \<noteq> None \<Longrightarrow> burned r (burn_short r)"
| burned_extended: "burnable r \<Longrightarrow> burned r (burn_extended r)"

fun store_words :: "(u8 \<times> u8) option list \<Rightarrow> nat \<Rightarrow> bytes \<Rightarrow> bytes" where
  "store_words [] target m = m"
| "store_words (None # ws) target m = store_words ws (target + 2) m"
| "store_words (Some (a, b) # ws) target m = store_words ws (target + 2) (m[target := a, target + 1 := b])"

definition store_record :: "efuse_record \<Rightarrow> bytes \<Rightarrow> bytes" where
  "store_record r m = store_words (snd r) (fst r * 8) m"


section \<open>Decoding what was burned\<close>

lemma efuse_words_record:
  "list_all2 (\<lambda>j w. en AND push_bit j 1 = 0 \<longleftrightarrow> w \<noteq> None) js ws \<Longrightarrow> target + 2 * length ws \<le> length m \<Longrightarrow>
     efuse_words js en target (record_data ws @ rest) m = (rest, store_words ws target m)"
proof (induction js ws arbitrary: target m rule: list_all2_induct)
  case (Cons j js w ws)
  then show ?case by (cases w) (auto simp: record_data_def)
qed (simp add: record_data_def)

lemma option_cases4:
  assumes "length ws = 4" "\<And>a b c d. P [a, b, c, d]"
  shows "P ws"
proof -
  from assms(1) obtain a b c d where "ws = [a, b, c, d]" by (auto simp: length_Suc_conv numeral_eq_Suc)
  then show ?thesis using assms(2) by simp
qed

lemma enable_bits_words:
  "length ws = 4 \<Longrightarrow> list_all2 (\<lambda>j w. enable_bits ws AND push_bit j 1 = 0 \<longleftrightarrow> w \<noteq> None) [0..<4] ws"
proof (rule option_cases4)
  fix a b c d :: "'a option"
  have js: "[0..<4] = [0, 1, 2, 3 :: nat]" by (simp add: upt_rec)
  show "list_all2 (\<lambda>j w. enable_bits [a, b, c, d] AND push_bit j 1 = 0 \<longleftrightarrow> w \<noteq> None) [0..<4] [a, b, c, d]"
    unfolding js by (cases a; cases b; cases c; cases d; simp)
qed

lemma enable_bits_nibble:
  "length ws = 4 \<Longrightarrow> enable_bits ws = take_bit 4 (enable_bits ws)"
  "length ws = 4 \<Longrightarrow> enable_bits ws = 0x0f \<longleftrightarrow> (\<forall>w \<in> set ws. w = None)"
  by (erule option_cases4, rename_tac a b c d, case_tac a; case_tac b; case_tac c; case_tac d; simp)+

lemma efuse_record_data_burned:
  assumes "burnable r" "length m = 512"
  shows "efuse_record_data (of_nat (fst r)) (enable_bits (snd r)) (record_data (snd r) @ rest) m = (rest, store_record r m)"
proof -
  have "of_nat (fst r) < (64 :: u8)" "unat (of_nat (fst r) :: u8) = fst r"
    using assms(1) by (auto simp: burnable_def word_less_nat_alt unat_of_nat)
  moreover have "efuse_words [0..<4] (enable_bits (snd r)) (fst r * 8) (record_data (snd r) @ rest) m =
      (rest, store_words (snd r) (fst r * 8) m)"
    by (rule efuse_words_record [OF enable_bits_words]) (use assms in \<open>auto simp: burnable_def\<close>)
  ultimately show ?thesis
    by (simp add: efuse_record_data_def RTL8812AU_EFUSE_MAX_SECTION_def store_record_def del: upt_rec_numeral)
qed

lemma nibble_bits: "e = take_bit 4 e \<Longrightarrow> bit e n \<Longrightarrow> n < 4"
  by (metis bit_take_bit_iff)

lemma nibble_masks: "(0x0f :: u8) = mask 4" "(0xf0 :: u8) = push_bit 4 (mask 4)" "(0x1f :: u8) = mask 5"
  "(0xe0 :: u8) = push_bit 5 (mask 3)" "(7 :: u8) = mask 3"
  by (simp_all add: mask_eq_exp_minus_1)

lemma short_header_fields:
  fixes e x :: u8
  assumes "e = take_bit 4 e" "x = take_bit 4 x"
  shows "(push_bit 4 x OR e) AND 0x0f = e" "drop_bit 4 (push_bit 4 x OR e) AND 0x0f = x"
  unfolding nibble_masks
  by (rule bit_word_eqI, use nibble_bits [OF assms(1)] nibble_bits [OF assms(2)] in \<open>auto simp: bit_simps\<close>)+

lemma extended_header_fields:
  fixes e s :: u8
  assumes "e = take_bit 4 e" "s = take_bit 6 s"
  shows "(push_bit 5 (s AND 7) OR 0x0f) AND 0x1f = 0x0f"
    "(push_bit 4 (drop_bit 3 s) OR e) AND 0x0f = e"
    "drop_bit 5 ((push_bit 5 (s AND 7) OR 0x0f) AND 0xe0) OR
       drop_bit 1 ((push_bit 4 (drop_bit 3 s) OR e) AND 0xf0) = s"
proof -
  have s: "n < 6" if "bit s n" for n using assms(2) that by (metis bit_take_bit_iff)
  note e = nibble_bits [OF assms(1)]
  show "(push_bit 5 (s AND 7) OR 0x0f) AND 0x1f = 0x0f" unfolding nibble_masks
    by (rule bit_word_eqI) (auto simp: bit_simps)
  show "(push_bit 4 (drop_bit 3 s) OR e) AND 0x0f = e" unfolding nibble_masks
    by (rule bit_word_eqI) (auto simp: bit_simps dest: e)
  show "drop_bit 5 ((push_bit 5 (s AND 7) OR 0x0f) AND 0xe0) OR
       drop_bit 1 ((push_bit 4 (drop_bit 3 s) OR e) AND 0xf0) = s" unfolding nibble_masks
  proof (rule bit_word_eqI)
    fix n assume "n < LENGTH(8)"
    show "bit (drop_bit 5 ((push_bit 5 (s AND mask 3) OR mask 4) AND push_bit 5 (mask 3)) OR
       drop_bit 1 ((push_bit 4 (drop_bit 3 s) OR e) AND push_bit 4 (mask 4))) n = bit s n"
      using s [of n] e [of "n + 1"] by (cases "n < 3") (auto simp: bit_simps)
  qed
qed

lemma take_bit_small: "n < 2 ^ k \<Longrightarrow> of_nat n = take_bit k (of_nat n :: 'a::len word)"
  by (simp add: take_bit_of_nat take_bit_nat_eq_self)

lemma no_words: "\<forall>w \<in> set ws. w = None \<Longrightarrow> record_data ws = [] \<and> store_words ws target m = m"
  by (induction ws arbitrary: target) (auto simp: record_data_def)

lemma efuse_decode_short:
  "h \<noteq> 0xff \<Longrightarrow> \<not> efuse_is_extended_header h \<Longrightarrow> drop_bit 4 h AND 0x0f = s \<Longrightarrow> h AND 0x0f = e \<Longrightarrow>
     efuse_decode (h # raw) m = (case efuse_record_data s e raw m of (raw, m) \<Rightarrow> efuse_decode raw m)"
  by simp

lemma efuse_decode_extended:
  "h \<noteq> 0xff \<Longrightarrow> efuse_is_extended_header h \<Longrightarrow> ext AND 0x0f = e \<Longrightarrow> e \<noteq> 0x0f \<Longrightarrow>
     drop_bit 5 (h AND 0xe0) OR drop_bit 1 (ext AND 0xf0) = s \<Longrightarrow>
     efuse_decode (h # ext # raw) m = (case efuse_record_data s e raw m of (raw, m) \<Rightarrow> efuse_decode raw m)"
  by (simp add: efuse_all_words_disabled_def)

lemma efuse_decode_burned:
  assumes "burned r bs" "length m = 512"
  shows "efuse_decode (bs @ rest) m = efuse_decode rest (store_record r m)"
  using assms(1)
proof cases
  case burned_short
  let ?s = "of_nat (fst r) :: u8" and ?e = "enable_bits (snd r)"
  have len: "length (snd r) = 4" using burned_short(2) by (simp add: burnable_def)
  have e: "?e = take_bit 4 ?e" by (rule enable_bits_nibble(1) [OF len])
  have s: "?s = take_bit 4 ?s" using burned_short(3) by (intro take_bit_small) simp
  note fields = short_header_fields [OF e s]
  have some: "?e \<noteq> 0x0f" using burned_short(4) enable_bits_nibble(2) [OF len] by blast
  have "push_bit 4 ?s OR ?e \<noteq> 0xff" using fields(1) some by auto
  moreover have "\<not> efuse_is_extended_header (push_bit 4 ?s OR ?e)"
  proof
    assume "efuse_is_extended_header (push_bit 4 ?s OR ?e)"
    then have "((push_bit 4 ?s OR ?e) AND 0x1f) AND 0x0f = 0x0f" by (simp add: efuse_is_extended_header_def)
    then show False using fields(1) some by (simp add: and.assoc)
  qed
  ultimately show ?thesis
    using efuse_decode_short [OF _ _ fields(2,1)]
    by (simp add: burned_short(1) burn_short_def efuse_record_data_burned [OF burned_short(2) assms(2)])
next
  case burned_extended
  let ?s = "of_nat (fst r) :: u8" and ?e = "enable_bits (snd r)"
  have len: "length (snd r) = 4" using burned_extended(2) by (simp add: burnable_def)
  have e: "?e = take_bit 4 ?e" by (rule enable_bits_nibble(1) [OF len])
  have s: "?s = take_bit 6 ?s" using burned_extended(2) by (intro take_bit_small) (simp add: burnable_def)
  note fields = extended_header_fields [OF e s]
  let ?h = "push_bit 5 (?s AND 7) OR 0x0f"
  have h: "?h \<noteq> 0xff" "efuse_is_extended_header ?h"
    using fields(1) by (auto simp: efuse_is_extended_header_def)
  show ?thesis
  proof (cases "?e = 0x0f")
    case True
    then have "\<forall>w \<in> set (snd r). w = None" using enable_bits_nibble(2) [OF len] by blast
    then show ?thesis
      using h fields(2) True no_words
      by (simp add: burned_extended(1) burn_extended_def efuse_all_words_disabled_def store_record_def)
  next
    case False
    then show ?thesis
      using efuse_decode_extended [OF h fields(2) _ fields(3)]
      by (simp add: burned_extended(1) burn_extended_def efuse_record_data_burned [OF burned_extended(2) assms(2)])
  qed
qed

lemma length_store_record [simp]: "length (store_record r m) = length m"
proof -
  have "length (store_words ws target m) = length m" for ws target
    by (induction ws target m rule: store_words.induct) auto
  then show ?thesis by (simp add: store_record_def)
qed

text \<open>
  C33. Burning records one after the other, each in either form of its header, and decoding gives
  the blank map with the records stored in that order: a later record replaces the words it has,
  a word no record has stays blank, and what follows the end marker is not read.
\<close>

theorem efuse_decodes_burned_records:
  assumes "list_all2 burned records images" "tail = [] \<or> hd tail = 0xff"
  shows "rtl8812au_decode_efuse_logical_map (concat images @ tail) = fold store_record records (replicate 512 0xff)"
proof -
  have "efuse_decode tail m = m" for m using assms(2) by (cases tail) auto
  with assms(1) have "length m = 512 \<Longrightarrow> efuse_decode (concat images @ tail) m = fold store_record records m" for m
    by (induction records images arbitrary: m rule: list_all2_induct) (simp_all add: efuse_decode_burned)
  then show ?thesis by (simp add: rtl8812au_decode_efuse_logical_map_def RTL8812AU_EFUSE_LOGICAL_MAP_LEN_def)
qed

lemma efuse_decodes_burned_records_witness:
  "rtl8812au_decode_efuse_logical_map
     (concat [[0x4f, 0x3a, 0x11, 0x22, 0x33, 0x44], [0x2e, 0x55, 0x66]] @ [0xff, 0x77]) =
   fold store_record [(26, [Some (0x11, 0x22), None, Some (0x33, 0x44), None]), (2, [Some (0x55, 0x66), None, None, None])]
     (replicate 512 0xff)"
proof (rule efuse_decodes_burned_records)
  have "burned (26, [Some (0x11, 0x22), None, Some (0x33, 0x44), None]) [0x4f, 0x3a, 0x11, 0x22, 0x33, 0x44]"
    using burned_extended [of "(26, [Some (0x11, 0x22), None, Some (0x33, 0x44), None])"]
    by (simp add: burnable_def burn_extended_def record_data_def)
  moreover have "burned (2, [Some (0x55, 0x66), None, None, None]) [0x2e, 0x55, 0x66]"
    using burned_short [of "(2, [Some (0x55, 0x66), None, None, None])"]
    by (simp add: burnable_def burn_short_def record_data_def)
  ultimately show "list_all2 burned [(26, [Some (0x11, 0x22), None, Some (0x33, 0x44), None]), (2, [Some (0x55, 0x66), None, None, None])]
      [[0x4f, 0x3a, 0x11, 0x22, 0x33, 0x44], [0x2e, 0x55, 0x66]]" by simp
qed simp

end
