(* ===== verification/Chip_Registers.thy ===== *)
theory Chip_Registers
  imports Bring_Up
begin

text \<open>
  The register addresses and values of the chip set-up, as the constants of
  \<open>wfb-radio-runtime/src/lib.rs\<close>.
\<close>

definition REG_ACLK_MON :: u16 where "REG_ACLK_MON = 0x003e"
definition REG_EFUSE_CTRL :: u16 where "REG_EFUSE_CTRL = 0x0030"
definition REG_EFUSE_BURN_GNT_8812 :: u16 where "REG_EFUSE_BURN_GNT_8812 = 0x00cf"
definition REG_SDIO_CTRL_8812 :: u16 where "REG_SDIO_CTRL_8812 = 0x0070"
definition REG_SYS_ISO_CTRL :: u16 where "REG_SYS_ISO_CTRL = 0x0000"
definition REG_SYS_FUNC_EN :: u16 where "REG_SYS_FUNC_EN = 0x0002"
definition REG_SYS_CLKR :: u16 where "REG_SYS_CLKR = 0x0008"
definition REG_MAC_PHY_CTRL :: u16 where "REG_MAC_PHY_CTRL = 0x002c"
definition REG_MSR :: u16 where "REG_MSR = REG_CR + 2"
definition REG_RXDMA_STATUS :: u16 where "REG_RXDMA_STATUS = 0x0288"
definition REG_RXDMA_PRO_8812 :: u16 where "REG_RXDMA_PRO_8812 = 0x0290"
definition REG_EARLY_MODE_CONTROL_8812 :: u16 where "REG_EARLY_MODE_CONTROL_8812 = 0x02bc"
definition REG_FWHW_TXQ_CTRL :: u16 where "REG_FWHW_TXQ_CTRL = 0x0420"
definition REG_HWSEQ_CTRL :: u16 where "REG_HWSEQ_CTRL = 0x0423"
definition REG_SPEC_SIFS :: u16 where "REG_SPEC_SIFS = 0x0428"
definition REG_RETRY_LIMIT :: u16 where "REG_RETRY_LIMIT = 0x042a"
definition REG_RRSR :: u16 where "REG_RRSR = 0x0440"
definition REG_ARFR0_8812 :: u16 where "REG_ARFR0_8812 = 0x0444"
definition REG_ARFR1_8812 :: u16 where "REG_ARFR1_8812 = 0x044c"
definition REG_CCK_CHECK_8812 :: u16 where "REG_CCK_CHECK_8812 = 0x0454"
definition REG_AMPDU_MAX_TIME_8812 :: u16 where "REG_AMPDU_MAX_TIME_8812 = 0x0456"
definition REG_AMPDU_MAX_LENGTH_8812 :: u16 where "REG_AMPDU_MAX_LENGTH_8812 = 0x0458"
definition REG_TXPKT_EMPTY :: u16 where "REG_TXPKT_EMPTY = 0x041a"
definition REG_DATA_SC_8812 :: u16 where "REG_DATA_SC_8812 = 0x0483"
definition REG_ARFR2_8812 :: u16 where "REG_ARFR2_8812 = 0x048c"
definition REG_ARFR3_8812 :: u16 where "REG_ARFR3_8812 = 0x0494"
definition REG_QUEUE_CTRL :: u16 where "REG_QUEUE_CTRL = 0x04c6"
definition REG_HT_SINGLE_AMPDU_8812 :: u16 where "REG_HT_SINGLE_AMPDU_8812 = 0x04c7"
definition REG_MAX_AGGR_NUM :: u16 where "REG_MAX_AGGR_NUM = 0x04ca"
definition REG_BAR_MODE_CTRL :: u16 where "REG_BAR_MODE_CTRL = 0x04cc"
definition REG_TX_RPT_TIME :: u16 where "REG_TX_RPT_TIME = 0x04f0"
definition REG_BCNTCFG :: u16 where "REG_BCNTCFG = 0x0510"
definition REG_EDCA_VO_PARAM :: u16 where "REG_EDCA_VO_PARAM = 0x0500"
definition REG_EDCA_VI_PARAM :: u16 where "REG_EDCA_VI_PARAM = 0x0504"
definition REG_EDCA_BE_PARAM :: u16 where "REG_EDCA_BE_PARAM = 0x0508"
definition REG_EDCA_BK_PARAM :: u16 where "REG_EDCA_BK_PARAM = 0x050c"
definition REG_PIFS :: u16 where "REG_PIFS = 0x0512"
definition REG_SIFS_CTX :: u16 where "REG_SIFS_CTX = 0x0514"
definition REG_SIFS_TRX :: u16 where "REG_SIFS_TRX = 0x0516"
definition REG_TXPAUSE :: u16 where "REG_TXPAUSE = 0x0522"
definition REG_TBTT_PROHIBIT :: u16 where "REG_TBTT_PROHIBIT = 0x0540"
definition REG_DRVERLYINT :: u16 where "REG_DRVERLYINT = 0x0558"
definition REG_BCNDMATIM :: u16 where "REG_BCNDMATIM = 0x0559"
definition REG_USTIME_TSF :: u16 where "REG_USTIME_TSF = 0x055c"
definition REG_RCR :: u16 where "REG_RCR = 0x0608"
definition REG_RX_PKT_LIMIT :: u16 where "REG_RX_PKT_LIMIT = 0x060c"
definition REG_RX_DRVINFO_SZ :: u16 where "REG_RX_DRVINFO_SZ = 0x060f"
definition REG_MACID :: u16 where "REG_MACID = 0x0610"
definition REG_MAR :: u16 where "REG_MAR = 0x0620"
definition REG_USTIME_EDCA :: u16 where "REG_USTIME_EDCA = 0x0638"
definition REG_MAC_SPEC_SIFS :: u16 where "REG_MAC_SPEC_SIFS = 0x063a"
definition REG_ACKTO :: u16 where "REG_ACKTO = 0x0640"
definition REG_NAV_UPPER :: u16 where "REG_NAV_UPPER = 0x0652"
definition REG_WMAC_TRXPTCL_CTL :: u16 where "REG_WMAC_TRXPTCL_CTL = 0x0668"
definition REG_RXFLTMAP1 :: u16 where "REG_RXFLTMAP1 = 0x06a2"
definition REG_RXFLTMAP2 :: u16 where "REG_RXFLTMAP2 = 0x06a4"
definition REG_BCN_CTRL :: u16 where "REG_BCN_CTRL = 0x0550"
definition REG_AGC_TABLE_JAGUAR :: u16 where "REG_AGC_TABLE_JAGUAR = 0x082c"
definition REG_OFDMCCKEN_JAGUAR :: u16 where "REG_OFDMCCKEN_JAGUAR = 0x0808"
definition REG_TX_PATH_JAGUAR :: u16 where "REG_TX_PATH_JAGUAR = 0x080c"
definition REG_PWED_TH_JAGUAR :: u16 where "REG_PWED_TH_JAGUAR = 0x0830"
definition REG_BW_INDICATION_JAGUAR :: u16 where "REG_BW_INDICATION_JAGUAR = 0x0834"
definition REG_CCA_ON_SEC_JAGUAR :: u16 where "REG_CCA_ON_SEC_JAGUAR = 0x0838"
definition REG_L1_PEAK_TH_JAGUAR :: u16 where "REG_L1_PEAK_TH_JAGUAR = 0x0848"
definition REG_FC_AREA_JAGUAR :: u16 where "REG_FC_AREA_JAGUAR = 0x0860"
definition REG_RF_MOD_JAGUAR :: u16 where "REG_RF_MOD_JAGUAR = 0x08ac"
definition REG_ADC_BUF_CLK_JAGUAR :: u16 where "REG_ADC_BUF_CLK_JAGUAR = 0x08c4"
definition REG_ANTSEL_SW_JAGUAR :: u16 where "REG_ANTSEL_SW_JAGUAR = 0x0900"
definition REG_CCK_SYSTEM_JAGUAR :: u16 where "REG_CCK_SYSTEM_JAGUAR = 0x0a00"
definition REG_CCK_RX_JAGUAR :: u16 where "REG_CCK_RX_JAGUAR = 0x0a04"
definition REG_OFDM0_XBAGCCORE1 :: u16 where "REG_OFDM0_XBAGCCORE1 = 0x0c58"
definition REG_RF_PATH_A_3WIRE :: u16 where "REG_RF_PATH_A_3WIRE = 0x0c90"
definition REG_TX_BB_CTRL_A_JAGUAR :: u16 where "REG_TX_BB_CTRL_A_JAGUAR = REG_RF_PATH_A_3WIRE"
definition REG_TX_SCALE_A_JAGUAR :: u16 where "REG_TX_SCALE_A_JAGUAR = 0x0c1c"
definition REG_TX_AGC_A_CCK_JAGUAR :: u16 where "REG_TX_AGC_A_CCK_JAGUAR = 0x0c20"
definition REG_TX_AGC_A_OFDM18_OFDM6_JAGUAR :: u16 where "REG_TX_AGC_A_OFDM18_OFDM6_JAGUAR = 0x0c24"
definition REG_TX_AGC_A_OFDM54_OFDM24_JAGUAR :: u16 where "REG_TX_AGC_A_OFDM54_OFDM24_JAGUAR = 0x0c28"
definition REG_TX_AGC_A_MCS3_MCS0_JAGUAR :: u16 where "REG_TX_AGC_A_MCS3_MCS0_JAGUAR = 0x0c2c"
definition REG_TX_AGC_A_MCS7_MCS4_JAGUAR :: u16 where "REG_TX_AGC_A_MCS7_MCS4_JAGUAR = 0x0c30"
definition REG_TX_AGC_A_NSS1_7_NSS1_4_JAGUAR :: u16 where "REG_TX_AGC_A_NSS1_7_NSS1_4_JAGUAR = 0x0c34"
definition REG_TX_AGC_A_NSS1_11_NSS1_8_JAGUAR :: u16 where "REG_TX_AGC_A_NSS1_11_NSS1_8_JAGUAR = 0x0c38"
definition REG_TX_AGC_A_NSS1_3_NSS1_0_JAGUAR :: u16 where "REG_TX_AGC_A_NSS1_3_NSS1_0_JAGUAR = 0x0c3c"
definition REG_TX_AGC_A_NSS2_3_NSS2_0_JAGUAR :: u16 where "REG_TX_AGC_A_NSS2_3_NSS2_0_JAGUAR = 0x0c40"
definition REG_TX_AGC_A_NSS2_7_NSS2_4_JAGUAR :: u16 where "REG_TX_AGC_A_NSS2_7_NSS2_4_JAGUAR = 0x0c44"
definition REG_TX_AGC_A_NSS2_11_NSS2_8_JAGUAR :: u16 where "REG_TX_AGC_A_NSS2_11_NSS2_8_JAGUAR = 0x0c48"
definition REG_TX_AGC_A_NSS3_3_NSS3_0_JAGUAR :: u16 where "REG_TX_AGC_A_NSS3_3_NSS3_0_JAGUAR = 0x0c4c"
definition REG_TX_PWR_OFFSET_A_JAGUAR :: u16 where "REG_TX_PWR_OFFSET_A_JAGUAR = 0x0c50"
definition REG_TX_PWR_TRAIN_A_JAGUAR :: u16 where "REG_TX_PWR_TRAIN_A_JAGUAR = 0x0c54"
definition REG_RFE_PINMUX_A_JAGUAR :: u16 where "REG_RFE_PINMUX_A_JAGUAR = 0x0cb0"
definition REG_RFE_INV_A_JAGUAR :: u16 where "REG_RFE_INV_A_JAGUAR = 0x0cb4"
definition REG_RFE_TIMING_A_JAGUAR :: u16 where "REG_RFE_TIMING_A_JAGUAR = 0x0cb8"
definition REG_TX_AGC_B_CCK_JAGUAR :: u16 where "REG_TX_AGC_B_CCK_JAGUAR = 0x0e20"
definition REG_TX_AGC_B_OFDM18_OFDM6_JAGUAR :: u16 where "REG_TX_AGC_B_OFDM18_OFDM6_JAGUAR = 0x0e24"
definition REG_TX_AGC_B_OFDM54_OFDM24_JAGUAR :: u16 where "REG_TX_AGC_B_OFDM54_OFDM24_JAGUAR = 0x0e28"
definition REG_TX_AGC_B_MCS3_MCS0_JAGUAR :: u16 where "REG_TX_AGC_B_MCS3_MCS0_JAGUAR = 0x0e2c"
definition REG_TX_AGC_B_MCS7_MCS4_JAGUAR :: u16 where "REG_TX_AGC_B_MCS7_MCS4_JAGUAR = 0x0e30"
definition REG_TX_AGC_B_NSS1_7_NSS1_4_JAGUAR :: u16 where "REG_TX_AGC_B_NSS1_7_NSS1_4_JAGUAR = 0x0e34"
definition REG_TX_AGC_B_NSS1_11_NSS1_8_JAGUAR :: u16 where "REG_TX_AGC_B_NSS1_11_NSS1_8_JAGUAR = 0x0e38"
definition REG_TX_AGC_B_NSS1_3_NSS1_0_JAGUAR :: u16 where "REG_TX_AGC_B_NSS1_3_NSS1_0_JAGUAR = 0x0e3c"
definition REG_TX_AGC_B_NSS2_3_NSS2_0_JAGUAR :: u16 where "REG_TX_AGC_B_NSS2_3_NSS2_0_JAGUAR = 0x0e40"
definition REG_TX_AGC_B_NSS2_7_NSS2_4_JAGUAR :: u16 where "REG_TX_AGC_B_NSS2_7_NSS2_4_JAGUAR = 0x0e44"
definition REG_TX_AGC_B_NSS2_11_NSS2_8_JAGUAR :: u16 where "REG_TX_AGC_B_NSS2_11_NSS2_8_JAGUAR = 0x0e48"
definition REG_TX_AGC_B_NSS3_3_NSS3_0_JAGUAR :: u16 where "REG_TX_AGC_B_NSS3_3_NSS3_0_JAGUAR = 0x0e4c"
definition REG_TX_PWR_OFFSET_B_JAGUAR :: u16 where "REG_TX_PWR_OFFSET_B_JAGUAR = 0x0e50"
definition REG_TX_PWR_TRAIN_B_JAGUAR :: u16 where "REG_TX_PWR_TRAIN_B_JAGUAR = 0x0e54"
definition REG_RF_PATH_B_3WIRE :: u16 where "REG_RF_PATH_B_3WIRE = 0x0e90"
definition REG_TX_BB_CTRL_B_JAGUAR :: u16 where "REG_TX_BB_CTRL_B_JAGUAR = REG_RF_PATH_B_3WIRE"
definition REG_TX_SCALE_B_JAGUAR :: u16 where "REG_TX_SCALE_B_JAGUAR = 0x0e1c"
definition REG_RFE_PINMUX_B_JAGUAR :: u16 where "REG_RFE_PINMUX_B_JAGUAR = 0x0eb0"
definition REG_RFE_INV_B_JAGUAR :: u16 where "REG_RFE_INV_B_JAGUAR = 0x0eb4"
definition REG_RFE_TIMING_B_JAGUAR :: u16 where "REG_RFE_TIMING_B_JAGUAR = 0x0eb8"
definition REG_USB_HRPWM :: u16 where "REG_USB_HRPWM = 0xfe58"
definition EFUSE_ACCESS_ON_JAGUAR :: u8 where "EFUSE_ACCESS_ON_JAGUAR = 0x69"
definition EFUSE_ACCESS_OFF_JAGUAR :: u8 where "EFUSE_ACCESS_OFF_JAGUAR = 0x00"
definition BIT4 :: u8 where "BIT4 = push_bit 4 1"
definition BIT5 :: u8 where "BIT5 = push_bit 5 1"
definition BIT6 :: u8 where "BIT6 = push_bit 6 1"
definition BIT7 :: u8 where "BIT7 = push_bit 7 1"
definition FEN_ELDR :: u16 where "FEN_ELDR = push_bit 12 1"
definition ANA8M :: u16 where "ANA8M = push_bit 1 1"
definition LOADER_CLK_EN :: u16 where "LOADER_CLK_EN = push_bit 5 1"
definition FEN_BBRSTB :: u8 where "FEN_BBRSTB = BIT0"
definition FEN_BB_GLB_RSTN :: u8 where "FEN_BB_GLB_RSTN = BIT1"
definition FEN_USBA :: u8 where "FEN_USBA = BIT2"
definition MSR_PORT0_NETTYPE_MASK :: u8 where "MSR_PORT0_NETTYPE_MASK = 0x03"
definition DRVINFO_SZ :: u8 where "DRVINFO_SZ = 4"
definition MASK_NETTYPE :: u32 where "MASK_NETTYPE = 0x00030000"
definition NT_LINK_AP :: u32 where "NT_LINK_AP = 0x3"
definition NETTYPE_LINK_AP :: u32 where "NETTYPE_LINK_AP = push_bit 16 NT_LINK_AP"
definition RCR_APM :: u32 where "RCR_APM = push_bit 1 1"
definition RCR_AM :: u32 where "RCR_AM = push_bit 2 1"
definition RCR_AB :: u32 where "RCR_AB = push_bit 3 1"
definition RCR_CBSSID_DATA :: u32 where "RCR_CBSSID_DATA = push_bit 6 1"
definition RCR_CBSSID_BCN :: u32 where "RCR_CBSSID_BCN = push_bit 7 1"
definition RCR_AMF :: u32 where "RCR_AMF = push_bit 13 1"
definition RCR_HTC_LOC_CTRL :: u32 where "RCR_HTC_LOC_CTRL = push_bit 14 1"
definition RCR_APP_PHYST_RXFF :: u32 where "RCR_APP_PHYST_RXFF = push_bit 28 1"
definition RCR_APP_ICV :: u32 where "RCR_APP_ICV = push_bit 29 1"
definition RCR_APP_MIC :: u32 where "RCR_APP_MIC = push_bit 30 1"
definition RCR_FORCEACK :: u32 where "RCR_FORCEACK = push_bit 26 1"
definition MAC_RECEIVE_CONFIG :: u32 where "MAC_RECEIVE_CONFIG = RCR_APM OR RCR_AM OR RCR_AB OR RCR_CBSSID_DATA OR RCR_CBSSID_BCN OR RCR_AMF OR RCR_HTC_LOC_CTRL OR RCR_APP_PHYST_RXFF OR RCR_APP_ICV OR RCR_APP_MIC OR RCR_FORCEACK"
definition RATE_BITMAP_ALL :: u32 where "RATE_BITMAP_ALL = 0x000fffff"
definition RATE_RRSR_CCK_ONLY_1M :: u32 where "RATE_RRSR_CCK_ONLY_1M = 0x000ffff1"
definition RL_VAL_STA :: u16 where "RL_VAL_STA = 0x30"
definition RETRY_LIMIT_STA :: u16 where "RETRY_LIMIT_STA = RL_VAL_STA OR push_bit 8 RL_VAL_STA"
definition BASIC_RATE_2G :: u16 where "BASIC_RATE_2G = 0x015f"
definition BASIC_RATE_5G :: u16 where "BASIC_RATE_5G = 0x0150"
definition BAR_MODE_CTRL_VALUE :: u32 where "BAR_MODE_CTRL_VALUE = 0x0201ffff"
definition BAR_MODE_CTRL_READBACK_MASK :: u32 where "BAR_MODE_CTRL_READBACK_MASK = 0xffffff7f"
definition EN_AMPDU_RTY_NEW :: u8 where "EN_AMPDU_RTY_NEW = push_bit 7 1"
definition DIS_TSF_UDT :: u8 where "DIS_TSF_UDT = BIT4"
definition TBTT_PROHIBIT_SETUP_TIME :: u8 where "TBTT_PROHIBIT_SETUP_TIME = 0x04"
definition TBTT_PROHIBIT_HOLD_TIME_STOP_BCN :: u16 where "TBTT_PROHIBIT_HOLD_TIME_STOP_BCN = 0x0064"
definition DRIVER_EARLY_INT_TIME_8812 :: u8 where "DRIVER_EARLY_INT_TIME_8812 = 0x05"
definition BCN_DMA_ATIME_INT_TIME_8812 :: u8 where "BCN_DMA_ATIME_INT_TIME_8812 = 0x02"
definition MACTXEN :: u8 where "MACTXEN = push_bit 6 1"
definition MACRXEN :: u8 where "MACRXEN = push_bit 7 1"
definition MAC_TX_RX_ENABLE_MASK :: u8 where "MAC_TX_RX_ENABLE_MASK = MACTXEN OR MACRXEN"
definition RTL8812_CRYSTAL_CAP_MASK :: u32 where "RTL8812_CRYSTAL_CAP_MASK = 0x7ff80000"
definition RF_CHNLBW_JAGUAR :: u32 where "RF_CHNLBW_JAGUAR = 0x18"
definition RF_CHNLBW_MOD_AG_MASK :: u32 where "RF_CHNLBW_MOD_AG_MASK = 0x00070300"
definition RF_CHNLBW_BW_MASK :: u32 where "RF_CHNLBW_BW_MASK = 0x00000c00"
definition RF_CHNLBW_CHANNEL_MASK :: u32 where "RF_CHNLBW_CHANNEL_MASK = 0x000000ff"
definition RF_LCK_JAGUAR :: u32 where "RF_LCK_JAGUAR = 0xb4"
definition RF_IQK_LOK_READBACK_JAGUAR :: u32 where "RF_IQK_LOK_READBACK_JAGUAR = 0x08"
definition RF_IQK_TX_0X30_JAGUAR :: u32 where "RF_IQK_TX_0X30_JAGUAR = 0x30"
definition RF_IQK_TX_0X31_JAGUAR :: u32 where "RF_IQK_TX_0X31_JAGUAR = 0x31"
definition RF_IQK_TX_0X32_JAGUAR :: u32 where "RF_IQK_TX_0X32_JAGUAR = 0x32"
definition RF_IQK_LOK_LOAD_JAGUAR :: u32 where "RF_IQK_LOK_LOAD_JAGUAR = 0x58"
definition RF_IQK_MODE_JAGUAR :: u32 where "RF_IQK_MODE_JAGUAR = 0xef"
definition RF_REGISTER_OFFSET_MASK :: u32 where "RF_REGISTER_OFFSET_MASK = 0x000fffff"
definition RCR_AAP :: u32 where "RCR_AAP = push_bit 0 1"
definition RCR_APWRMGT :: u32 where "RCR_APWRMGT = push_bit 5 1"
definition RCR_ADF :: u32 where "RCR_ADF = push_bit 11 1"
definition RCR_ACF :: u32 where "RCR_ACF = push_bit 12 1"
definition RCR_APPFCS :: u32 where "RCR_APPFCS = push_bit 31 1"
definition MONITOR_RECEIVE_CONFIG :: u32 where "MONITOR_RECEIVE_CONFIG = RCR_AAP OR RCR_APM OR RCR_AM OR RCR_AB OR RCR_APWRMGT OR RCR_ADF OR RCR_ACF OR RCR_AMF OR RCR_APP_PHYST_RXFF OR RCR_APPFCS"

end
