(* ===== verification/Chip_Setup.thy ===== *)
theory Chip_Setup
  imports Chip_Registers Realtek_Table
begin

text \<open>
  The MAC, baseband and RF set-up of the adapter (\<open>wfb-radio-runtime/src/lib.rs\<close>): the MAC register
  values, the generated tables, and the masked baseband and serial RF writes they go through.
\<close>

text \<open>\<open>run_all\<close> runs a list of statements that each end in \<open>?\<close>; \<open>op_map_err\<close> is \<open>map_err\<close>.\<close>

definition run_all :: "('t, unit) reg_op list \<Rightarrow> ('t, unit) reg_op" where
  "run_all ops = foldr and_do ops (ret ())"

definition op_map_err :: "(radio_error \<Rightarrow> radio_error) \<Rightarrow> ('t, 'a) reg_op \<Rightarrow> ('t, 'a) reg_op" where
  "op_map_err f m s = map_option (\<lambda>(r, s). (map_err f r, s)) (m s)"

definition current_counters :: "('t, radio_counters) reg_op" where
  "current_counters s = Some (Inr (snd s), s)"

text \<open>\<open>trailing_zeros\<close>.\<close>

definition trailing_zeros :: "u32 \<Rightarrow> nat" where
  "trailing_zeros w = length (takeWhile (\<lambda>n. \<not> bit w n) [0..<32])"

section \<open>Preflight checks\<close>

definition production_preflight_firmware :: "('r, 't) reg_env \<Rightarrow> string \<Rightarrow> ('t, unit) reg_op" where
  "production_preflight_firmware env label =
     and_do (production_preflight_cr env label)
     (and_then (read8_with_counter env REG_MCUFWDL ''REG_MCUFWDL'' ''preflight'') (\<lambda>mcu.
      let firmware_ready_mask = RAM_DL_SEL OR BIT6 OR BIT1 in
      if mcu AND firmware_ready_mask \<noteq> firmware_ready_mask
      then fail (radio_error_new ''firmware_not_ready''
             (''REG_MCUFWDL expected firmware-ready mask '' @ format_register_value firmware_ready_mask 2 @
              '' before '' @ label @ '', got '' @ format_register_value mcu 2))
      else ret ()))"

definition production_rf_preflight :: "('r, 't) reg_env \<Rightarrow> ('t, unit) reg_op" where
  "production_rf_preflight env =
     and_do (production_preflight_firmware env ''RF programming'')
     (and_then (read8_with_counter env REG_SYS_FUNC_EN ''REG_SYS_FUNC_EN'' ''rf-preflight'') (\<lambda>sys.
      let expected = FEN_USBA OR FEN_BB_GLB_RSTN OR FEN_BBRSTB in
      if sys AND expected \<noteq> expected
      then fail (radio_error_new ''bb_not_ready''
             (''REG_SYS_FUNC_EN expected BB-ready mask '' @ format_register_value expected 2 @
              '' before RF programming, got '' @ format_register_value sys 2))
      else ret ()))"

section \<open>The MAC\<close>

fun show_table_kind :: "realtek_table_kind \<Rightarrow> string" where
  "show_table_kind RtkMac = ''Mac''"
| "show_table_kind RtkBbPhy = ''BbPhy''"
| "show_table_kind RtkBbAgc = ''BbAgc''"
| "show_table_kind RtkRfRadioA = ''RfRadioA''"
| "show_table_kind RtkRfRadioB = ''RfRadioB''"

definition data_hex_or_missing :: "realtek_table_action \<Rightarrow> string" where
  "data_hex_or_missing action = (case rta_data_hex action of Some h \<Rightarrow> h | None \<Rightarrow> ''<missing>'')"

text \<open>The checks on a write action: its address and data, or the error of the table it is in.\<close>

definition table_action_address :: "string \<Rightarrow> realtek_table_plan \<Rightarrow> realtek_table_action \<Rightarrow> (radio_error, u16) result" where
  "table_action_address code plan action =
     (if 2 ^ 16 \<le> unat (rta_address action)
      then Inl (radio_error_new code
             (rtp_array_name plan @ '' pair '' @ show_nat (rta_pair_index action) @ '' address '' @
              rta_address_hex action @ '' does not fit a USB register address''))
      else Inr (ucast (rta_address action)))"

definition table_action_data :: "string \<Rightarrow> realtek_table_plan \<Rightarrow> realtek_table_action \<Rightarrow> (radio_error, u32) result" where
  "table_action_data code plan action =
     (case rta_data action of
        None \<Rightarrow> Inl (radio_error_new code
             (rtp_array_name plan @ '' pair '' @ show_nat (rta_pair_index action) @ '' is a write action with no data''))
      | Some data \<Rightarrow> Inr data)"

definition mac_table_action ::
    "('r, 't) reg_env \<Rightarrow> realtek_table_plan \<Rightarrow> realtek_table_action \<Rightarrow> nat \<Rightarrow> ('t, nat) reg_op" where
  "mac_table_action env plan action writes =
     (case rta_kind action of
        RtaDelay \<Rightarrow>
          (case rta_delay_us action of
             Some delay_us \<Rightarrow> and_do (if 0 < delay_us then sleep env (micros delay_us) else ret ()) (ret writes)
           | None \<Rightarrow> ret writes)
      | RtaWrite \<Rightarrow>
          and_then (of_result (table_action_address ''mac_table_address_out_of_range'' plan action)) (\<lambda>address.
          and_then (of_result (table_action_data ''mac_table_write_missing_data'' plan action)) (\<lambda>data.
          if 256 \<le> unat data
          then fail (radio_error_new ''mac_table_write_data_out_of_range''
                 (rtp_array_name plan @ '' pair '' @ show_nat (rta_pair_index action) @ '' data '' @
                  data_hex_or_missing action @ '' does not fit an 8-bit MAC table write''))
          else and_do (write8_with_counter env address (ucast data) ''array_mp_8812a_mac_reg'' ''mac-table'')
                 (ret (writes + 1)))))"

definition production_apply_mac_table_plan :: "('r, 't) reg_env \<Rightarrow> realtek_table_plan \<Rightarrow> ('t, nat) reg_op" where
  "production_apply_mac_table_plan env plan =
     (if rtp_kind plan \<noteq> RtkMac
      then fail (radio_error_new ''invalid_mac_table_kind''
             (rtp_array_name plan @ '' has non-MAC table kind '' @ show_table_kind (rtp_kind plan)))
      else for_each (rtp_actions plan) (mac_table_action env plan) 0)"

definition production_beacon_parameters_sequence :: "('r, 't) reg_env \<Rightarrow> ('t, unit) reg_op" where
  "production_beacon_parameters_sequence env =
     (let phase = ''beacon-parameters'';
          bcn_ctrl = ucast DIS_TSF_UDT OR push_bit 8 (ucast DIS_TSF_UDT) :: u16
      in run_all
        [production_write16_verify env ''REG_BCN_CTRL'' REG_BCN_CTRL bcn_ctrl (- 1) bcn_ctrl phase,
         production_write8_verify env ''REG_TBTT_PROHIBIT'' REG_TBTT_PROHIBIT TBTT_PROHIBIT_SETUP_TIME (- 1)
           TBTT_PROHIBIT_SETUP_TIME phase,
         production_write8_verify env ''REG_TBTT_PROHIBIT + 1'' (REG_TBTT_PROHIBIT + 1)
           (ucast (TBTT_PROHIBIT_HOLD_TIME_STOP_BCN AND 0x00ff)) (- 1)
           (ucast (TBTT_PROHIBIT_HOLD_TIME_STOP_BCN AND 0x00ff)) phase,
         production_rmw8_preserve env ''REG_TBTT_PROHIBIT + 2'' (REG_TBTT_PROHIBIT + 2) 0xf0 0x0f
           (ucast (drop_bit 8 TBTT_PROHIBIT_HOLD_TIME_STOP_BCN)) phase,
         production_write8_verify env ''REG_DRVERLYINT'' REG_DRVERLYINT DRIVER_EARLY_INT_TIME_8812 (- 1)
           DRIVER_EARLY_INT_TIME_8812 phase,
         production_write8_verify env ''REG_BCNDMATIM'' REG_BCNDMATIM BCN_DMA_ATIME_INT_TIME_8812 (- 1)
           BCN_DMA_ATIME_INT_TIME_8812 phase,
         production_write16_verify env ''REG_BCNTCFG'' REG_BCNTCFG 0x4413 (- 1) 0x4413 phase])"

definition arfr_registers :: "(string \<times> u16 \<times> u32 \<times> u32) list" where
  "arfr_registers =
     [(''REG_ARFR0_8812'', REG_ARFR0_8812, 0x00000010, 0xfffff000),
      (''REG_ARFR1_8812'', REG_ARFR1_8812, 0x00000010, 0x003ff000),
      (''REG_ARFR2_8812'', REG_ARFR2_8812, 0x00000015, 0x003ff000),
      (''REG_ARFR3_8812'', REG_ARFR3_8812, 0x00000015, 0xffcff000)]"

definition usb_rxdma_pro_value :: "('r, 't) reg_env \<Rightarrow> u8 \<Rightarrow> u8 \<Rightarrow> ('t, u8) reg_op" where
  "usb_rxdma_pro_value env speed_value rxdma_pro =
     (if speed_value AND BIT7 \<noteq> 0
      then and_then (read8_with_counter env 0xfe17 ''USB PHY speed'' ''usb-burst'') (\<lambda>phy_speed.
        if drop_bit 4 phy_speed AND 0x03 = 0
        then ret ((rxdma_pro OR BIT4 OR BIT3 OR BIT2 OR BIT1) AND NOT BIT5)
        else ret ((rxdma_pro OR BIT5 OR BIT3 OR BIT2 OR BIT1) AND NOT BIT4))
      else ret ((rxdma_pro OR BIT3 OR BIT2 OR BIT1) AND NOT (BIT5 OR BIT4)))"

definition production_usb_burst_packet_sequence :: "('r, 't) reg_env \<Rightarrow> ('t, unit) reg_op" where
  "production_usb_burst_packet_sequence env =
     (let phase = ''usb-burst'' in
      and_do (run_all
        [production_write8_verify env ''0xf050'' 0xf050 0x01 0 0 phase,
         production_write16_verify env ''REG_RXDMA_STATUS'' REG_RXDMA_STATUS 0x7400 0 0 phase,
         production_write8_verify env ''REG_RXDMA_STATUS + 1'' (REG_RXDMA_STATUS + 1) 0xf5 0 0 phase,
         production_write8_verify env ''REG_AMPDU_MAX_TIME_8812'' REG_AMPDU_MAX_TIME_8812 0x70 (- 1) 0x70 phase,
         production_write32_verify env ''REG_AMPDU_MAX_LENGTH_8812'' REG_AMPDU_MAX_LENGTH_8812 (- 1) (- 1) (- 1) phase])
     (and_then (read8_with_counter env 0x00ff ''USB speed probe'' phase) (\<lambda>speed_value.
      and_then (read8_with_counter env REG_RXDMA_PRO_8812 ''REG_RXDMA_PRO_8812'' phase) (\<lambda>rxdma_pro.
      and_then (usb_rxdma_pro_value env speed_value rxdma_pro) (\<lambda>rxdma_pro_value.
      and_do (run_all
        [production_write8_verify env ''REG_RXDMA_PRO_8812'' REG_RXDMA_PRO_8812 rxdma_pro_value (- 1)
           rxdma_pro_value phase,
         production_write8_verify env ''REG_TDECTRL'' REG_TDECTRL 0x10 (- 1) 0x10 phase,
         production_rmw8_preserve env ''REG_HT_SINGLE_AMPDU_8812'' REG_HT_SINGLE_AMPDU_8812 (NOT BIT7) BIT7 BIT7 phase,
         production_write8_verify env ''REG_RX_PKT_LIMIT'' REG_RX_PKT_LIMIT 0x18 (- 1) 0x18 phase,
         production_write8_verify env ''REG_PIFS'' REG_PIFS 0 (- 1) 0 phase,
         production_write16_verify env ''REG_MAX_AGGR_NUM'' REG_MAX_AGGR_NUM 0x1f1f (- 1) 0x1f1f phase,
         production_rmw8_preserve env ''REG_FWHW_TXQ_CTRL'' REG_FWHW_TXQ_CTRL (NOT EN_AMPDU_RTY_NEW)
           EN_AMPDU_RTY_NEW 0 phase])
     (and_then (read8_with_counter env REG_RSV_CTRL ''REG_RSV_CTRL'' phase) (\<lambda>rsv_ctrl.
      and_do (write8_with_counter env REG_RSV_CTRL ((rsv_ctrl AND NOT (BIT5 OR BIT6)) OR BIT5 OR BIT6)
               ''REG_RSV_CTRL'' phase)
     (and_do (production_verify8_readback env ''REG_RSV_CTRL'' REG_RSV_CTRL BIT5 BIT5 phase)
      (for_each arfr_registers (\<lambda>(register_name, address, low, high) _.
         and_do (production_write32_verify env register_name address low (- 1) low ''arfr-table'')
           (production_write32_verify env register_name (address + 4) high (- 1) high ''arfr-table'')) ())))))))))"

definition mac_sifs_registers :: "(string \<times> u16) list" where
  "mac_sifs_registers =
     [(''REG_SPEC_SIFS'', REG_SPEC_SIFS), (''REG_MAC_SPEC_SIFS'', REG_MAC_SPEC_SIFS),
      (''REG_SIFS_CTX'', REG_SIFS_CTX), (''REG_SIFS_TRX'', REG_SIFS_TRX)]"

definition mac_edca_registers :: "(string \<times> u16 \<times> u32) list" where
  "mac_edca_registers =
     [(''REG_EDCA_BE_PARAM'', REG_EDCA_BE_PARAM, 0x005ea42b), (''REG_EDCA_BK_PARAM'', REG_EDCA_BK_PARAM, 0x0000a44f),
      (''REG_EDCA_VI_PARAM'', REG_EDCA_VI_PARAM, 0x005ea324), (''REG_EDCA_VO_PARAM'', REG_EDCA_VO_PARAM, 0x002fa226)]"

definition production_mac_sequence :: "('r, 't) reg_env \<Rightarrow> ('t, u64) reg_op" where
  "production_mac_sequence env =
     (let phase = ''mac'' in
      and_do (production_preflight_firmware env ''MAC programming'')
     (and_then control_writes (\<lambda>before_writes.
      and_do (run_all
        [production_write8_verify env ''REG_RX_DRVINFO_SZ'' REG_RX_DRVINFO_SZ DRVINFO_SZ (- 1) DRVINFO_SZ phase,
         production_rmw32_preserve env ''REG_CR'' REG_CR (NOT MASK_NETTYPE) MASK_NETTYPE NETTYPE_LINK_AP phase,
         production_write32_verify env ''REG_RCR'' REG_RCR MAC_RECEIVE_CONFIG (- 1) MAC_RECEIVE_CONFIG phase,
         for_each [(''REG_MAR'', REG_MAR), (''REG_MAR + 4'', REG_MAR + 4)] (\<lambda>(register_name, address) _.
           production_write32_verify env register_name address (- 1) (- 1) (- 1) phase) (),
         production_write16_verify env ''REG_RXFLTMAP1'' REG_RXFLTMAP1 (push_bit 10 1) (- 1) (push_bit 10 1) phase,
         production_rmw32_preserve env ''REG_RRSR'' REG_RRSR (NOT RATE_BITMAP_ALL) RATE_BITMAP_ALL
           RATE_RRSR_CCK_ONLY_1M phase,
         production_write16_verify env ''REG_SPEC_SIFS'' REG_SPEC_SIFS 0x1010 (- 1) 0x1010 phase,
         production_write16_verify env ''REG_RETRY_LIMIT'' REG_RETRY_LIMIT RETRY_LIMIT_STA (- 1) RETRY_LIMIT_STA phase,
         for_each mac_sifs_registers (\<lambda>(register_name, address) _.
           production_write16_verify env register_name address 0x100a (- 1) 0x100a phase) (),
         for_each mac_edca_registers (\<lambda>(register_name, address, v) _.
           production_write32_verify env register_name address v (- 1) v phase) (),
         production_write8_verify env ''REG_TXPAUSE'' REG_TXPAUSE 0 (- 1) 0 phase,
         for_each [(''REG_USTIME_TSF'', REG_USTIME_TSF), (''REG_USTIME_EDCA'', REG_USTIME_EDCA)]
           (\<lambda>(register_name, address) _.
             production_write8_verify env register_name address 0x50 (- 1) 0x50 phase) (),
         production_rmw8_preserve env ''REG_FWHW_TXQ_CTRL'' REG_FWHW_TXQ_CTRL (NOT EN_AMPDU_RTY_NEW)
           EN_AMPDU_RTY_NEW EN_AMPDU_RTY_NEW phase,
         production_write8_verify env ''REG_ACKTO'' REG_ACKTO 0x80 (- 1) 0x80 phase,
         production_beacon_parameters_sequence env,
         production_usb_burst_packet_sequence env,
         production_write8_verify env ''REG_HWSEQ_CTRL'' REG_HWSEQ_CTRL 0xff (- 1) 0xff phase,
         production_write32_verify env ''REG_BAR_MODE_CTRL'' REG_BAR_MODE_CTRL BAR_MODE_CTRL_VALUE
           BAR_MODE_CTRL_READBACK_MASK BAR_MODE_CTRL_VALUE phase,
         production_rmw8_preserve env ''REG_CR'' REG_CR (NOT MAC_TX_RX_ENABLE_MASK) MAC_TX_RX_ENABLE_MASK
           MAC_TX_RX_ENABLE_MASK phase])
      (writes_since before_writes))))"

section \<open>Baseband writes\<close>

definition bb_set_bb_reg :: "('r, 't) reg_env \<Rightarrow> u16 \<Rightarrow> u32 \<Rightarrow> u32 \<Rightarrow> string \<Rightarrow> ('t, unit) reg_op" where
  "bb_set_bb_reg env address bitmask data register_name =
     (if bitmask = - 1 then write32_with_counter env address data register_name ''bb-set''
      else if bitmask = 0 then ret ()
      else and_then (read32_with_counter env address register_name ''bb-set'') (\<lambda>original.
        let bitshift = trailing_zeros bitmask;
            written = (original AND NOT bitmask) OR (push_bit bitshift data AND bitmask)
        in write32_with_counter env address written register_name ''bb-set''))"

definition production_bb_masked_write32 ::
    "('r, 't) reg_env \<Rightarrow> string \<Rightarrow> u16 \<Rightarrow> u32 \<Rightarrow> u32 \<Rightarrow> string \<Rightarrow> ('t, unit) reg_op" where
  "production_bb_masked_write32 env register_name address bitmask data phase =
     and_do (bb_set_bb_reg env address bitmask data register_name)
     (if bitmask \<noteq> 0
      then and_then (read32_with_counter env address register_name phase) (\<lambda>after.
        let expected = push_bit (trailing_zeros bitmask) data AND bitmask in
        if after AND bitmask \<noteq> expected
        then fail (production_readback_error register_name bitmask expected (after AND bitmask) 8)
        else ret ())
      else ret ())"

text \<open>The error of a table write keeps the message of the register error.\<close>

definition table_write_failed ::
    "string \<Rightarrow> string \<Rightarrow> realtek_table_plan \<Rightarrow> realtek_table_action \<Rightarrow> radio_error \<Rightarrow> radio_error" where
  "table_write_failed code what plan action error =
     radio_error_new code
       (rtp_array_name plan @ '' pair '' @ show_nat (rta_pair_index action) @ what @ rta_address_hex action @
        '' data='' @ data_hex_or_missing action @ '' failed: '' @ re_message error)"

definition table_delay :: "('r, 't) reg_env \<Rightarrow> realtek_table_action \<Rightarrow> ('t, unit) reg_op" where
  "table_delay env action =
     (let delay_us = (case rta_delay_us action of Some d \<Rightarrow> d | None \<Rightarrow> 0) in
      if 0 < delay_us then sleep env (micros delay_us) else ret ())"

definition bb_table_action ::
    "('r, 't) reg_env \<Rightarrow> realtek_table_plan \<Rightarrow> realtek_table_action \<Rightarrow> nat \<times> nat \<Rightarrow> ('t, nat \<times> nat) reg_op" where
  "bb_table_action env plan action acc =
     (case acc of (writes, delays) \<Rightarrow>
      case rta_kind action of
        RtaDelay \<Rightarrow> and_do (table_delay env action) (ret (writes, delays + 1))
      | RtaWrite \<Rightarrow>
          and_then (of_result (table_action_address ''bb_table_address_out_of_range'' plan action)) (\<lambda>address.
          let bitmask = (case rta_bitmask action of Some m \<Rightarrow> m | None \<Rightarrow> - 1) in
          and_then (of_result (table_action_data ''bb_table_write_missing_data'' plan action)) (\<lambda>data.
          and_do (op_map_err (table_write_failed ''bb_table_write_failed'' '' write addr='' plan action)
                    (bb_set_bb_reg env address bitmask data ''realtek-bb-table''))
          (and_do (sleep env (micros 1)) (ret (writes + 1, delays))))))"

definition production_run_bb_table_plan :: "('r, 't) reg_env \<Rightarrow> realtek_table_plan \<Rightarrow> ('t, nat \<times> nat) reg_op" where
  "production_run_bb_table_plan env plan = for_each (rtp_actions plan) (bb_table_action env plan) (0, 0)"

section \<open>Serial RF writes\<close>

datatype rf_path = RfA | RfB | RfBoth

record rf_serial_write_report =
  rw_register_name :: string
  rw_path :: rf_path
  rw_path_name :: string
  rw_bb_register_name :: string
  rw_bb_register :: u16
  rw_bb_register_hex :: string
  rw_rf_offset :: u32
  rw_rf_offset_hex :: string
  rw_value :: u32
  rw_value_hex :: string
  rw_encoded :: u32
  rw_encoded_hex :: string
  rw_counters :: radio_counters

definition encode_rf_serial_write :: "u32 \<Rightarrow> u32 \<Rightarrow> u32" where
  "encode_rf_serial_write rf_offset data =
     (push_bit 20 (rf_offset AND 0xff) OR (data AND RF_REGISTER_OFFSET_MASK)) AND 0x0fffffff"

definition RF_SERIAL_TARGET_A :: "rf_path \<times> string \<times> string \<times> u16" where
  "RF_SERIAL_TARGET_A = (RfA, ''A'', ''rA_LSSIWrite_Jaguar'', REG_RF_PATH_A_3WIRE)"

definition RF_SERIAL_TARGET_B :: "rf_path \<times> string \<times> string \<times> u16" where
  "RF_SERIAL_TARGET_B = (RfB, ''B'', ''rB_LSSIWrite_Jaguar'', REG_RF_PATH_B_3WIRE)"

fun rf_serial_write_targets :: "rf_path \<Rightarrow> (rf_path \<times> string \<times> string \<times> u16) list" where
  "rf_serial_write_targets RfA = [RF_SERIAL_TARGET_A]"
| "rf_serial_write_targets RfB = [RF_SERIAL_TARGET_B]"
| "rf_serial_write_targets RfBoth = [RF_SERIAL_TARGET_A, RF_SERIAL_TARGET_B]"

definition rf_register_display_name :: "u32 \<Rightarrow> string" where
  "rf_register_display_name rf_offset =
     (if rf_offset = 0x00 then ''RF_0x00''
      else if rf_offset = RF_IQK_LOK_READBACK_JAGUAR then ''RF_0x08_LOK_readback''
      else if rf_offset = RF_IQK_TX_0X30_JAGUAR then ''RF_0x30_IQK''
      else if rf_offset = RF_IQK_TX_0X31_JAGUAR then ''RF_0x31_IQK''
      else if rf_offset = RF_IQK_TX_0X32_JAGUAR then ''RF_0x32_IQK''
      else if rf_offset = RF_IQK_LOK_LOAD_JAGUAR then ''RF_0x58_LOK_load''
      else if rf_offset = 0x65 then ''RF_0x65_IQK_backup''
      else if rf_offset = 0x8f then ''RF_0x8f_IQK_backup''
      else if rf_offset = RF_IQK_MODE_JAGUAR then ''RF_0xef_IQK_mode''
      else if rf_offset = RF_CHNLBW_JAGUAR then ''RF_CHNLBW_Jaguar''
      else if rf_offset = RF_LCK_JAGUAR then ''RF_LCK''
      else ''RF register'')"

fun show_rf_path :: "rf_path \<Rightarrow> string" where
  "show_rf_path RfA = ''A''" | "show_rf_path RfB = ''B''" | "show_rf_path RfBoth = ''Both''"

text \<open>The loop pushes one report per target; the function returns the last.\<close>

definition rf_serial_write_single_path ::
    "('r, 't) reg_env \<Rightarrow> rf_path \<Rightarrow> u32 \<Rightarrow> u32 \<Rightarrow> ('t, rf_serial_write_report) reg_op" where
  "rf_serial_write_single_path env path rf_offset v =
     and_then (for_each (rf_serial_write_targets path)
       (\<lambda>(path, path_name, bb_register_name, bb_register) reports.
          and_then current_counters (\<lambda>before.
          let v = v AND RF_REGISTER_OFFSET_MASK; encoded = encode_rf_serial_write rf_offset v in
          and_do (write32_with_counter env bb_register encoded bb_register_name ''rf-serial-write'')
          (and_then current_counters (\<lambda>after.
           and_do (sleep env (micros 1))
           (ret (reports @
             [\<lparr>rw_register_name = rf_register_display_name rf_offset, rw_path = path, rw_path_name = path_name,
               rw_bb_register_name = bb_register_name, rw_bb_register = bb_register,
               rw_bb_register_hex = format_register_value bb_register 4, rw_rf_offset = rf_offset,
               rw_rf_offset_hex = format_register_value rf_offset 2, rw_value = v,
               rw_value_hex = format_register_value v 5, rw_encoded = encoded,
               rw_encoded_hex = format_register_value encoded 8,
               rw_counters = counters_saturating_sub after before\<rparr>])))))) [])
     (\<lambda>reports.
        if reports = []
        then fail (radio_error_new ''rf_serial_write_failed''
               (''RF serial write produced no report for path '' @ show_rf_path path))
        else ret (last reports))"

definition rf_table_action ::
    "('r, 't) reg_env \<Rightarrow> rf_path \<Rightarrow> realtek_table_plan \<Rightarrow> realtek_table_action \<Rightarrow> nat \<times> nat \<Rightarrow> ('t, nat \<times> nat) reg_op" where
  "rf_table_action env path plan action acc =
     (case acc of (writes, delays) \<Rightarrow>
      case rta_kind action of
        RtaDelay \<Rightarrow> and_do (table_delay env action) (ret (writes, delays + 1))
      | RtaWrite \<Rightarrow>
          and_then (of_result (table_action_data ''rf_table_write_missing_data'' plan action)) (\<lambda>data.
          and_do (op_map_err (table_write_failed ''rf_table_write_failed'' '' RF addr='' plan action)
                    (rf_serial_write_single_path env path (rta_address action) data))
          (and_do (sleep env (micros 1)) (ret (writes + 1, delays)))))"

definition production_run_rf_table_plan :: "('r, 't) reg_env \<Rightarrow> realtek_table_plan \<Rightarrow> ('t, nat \<times> nat) reg_op" where
  "production_run_rf_table_plan env plan =
     and_then (case rtp_kind plan of
         RtkRfRadioA \<Rightarrow> ret RfA
       | RtkRfRadioB \<Rightarrow> ret RfB
       | other \<Rightarrow> fail (radio_error_new ''invalid_rf_table_kind''
             (rtp_array_name plan @ '' has non-RF table kind '' @ show_table_kind other)))
       (\<lambda>path. for_each (rtp_actions plan) (rf_table_action env path plan) (0, 0))"

end
