(* ===== verification/Channel_Setup.thy ===== *)
theory Channel_Setup
  imports Chip_Setup Channels
begin

text \<open>
  Programming a channel (\<open>wfb-radio-runtime/src/lib.rs\<close>): the centre channel and the position of
  the primary channel, the band switch, the front-end pins, the RF channel register and the
  captured transmit tail.
\<close>

section \<open>Centre channel and primary position\<close>

definition production_eighty_mhz_center_and_position :: "u8 \<Rightarrow> (radio_error, u8 \<times> u8) result" where
  "production_eighty_mhz_center_and_position primary_channel =
     (if primary_channel = 36 then Inr (42, 0) else if primary_channel = 40 then Inr (42, 1)
      else if primary_channel = 44 then Inr (42, 2) else if primary_channel = 48 then Inr (42, 3)
      else if primary_channel = 52 then Inr (58, 0) else if primary_channel = 56 then Inr (58, 1)
      else if primary_channel = 60 then Inr (58, 2) else if primary_channel = 64 then Inr (58, 3)
      else if primary_channel = 100 then Inr (106, 0) else if primary_channel = 104 then Inr (106, 1)
      else if primary_channel = 108 then Inr (106, 2) else if primary_channel = 112 then Inr (106, 3)
      else if primary_channel = 116 then Inr (122, 0) else if primary_channel = 120 then Inr (122, 1)
      else if primary_channel = 124 then Inr (122, 2) else if primary_channel = 128 then Inr (122, 3)
      else if primary_channel = 132 then Inr (138, 0) else if primary_channel = 136 then Inr (138, 1)
      else if primary_channel = 140 then Inr (138, 2) else if primary_channel = 144 then Inr (138, 3)
      else if primary_channel = 149 then Inr (155, 0) else if primary_channel = 153 then Inr (155, 1)
      else if primary_channel = 157 then Inr (155, 2) else if primary_channel = 161 then Inr (155, 3)
      else Inl (radio_error_new ''channel_bandwidth_not_supported''
             (''channel '' @ show_nat (unat primary_channel) @
              '' is not aligned to a supported 5 GHz 80 MHz group'')))"

definition production_data_secondary_channel_setting :: "channel \<Rightarrow> bandwidth \<Rightarrow> (radio_error, u8) result" where
  "production_data_secondary_channel_setting channel bandwidth =
     (case bandwidth of
        Mhz20 \<Rightarrow> Inr 0
      | Mhz40 \<Rightarrow>
          (case ch_band channel of
             Ghz5 \<Rightarrow>
               if ch_number channel mod 8 = 4 then Inr VHT_DATA_SC_20_LOWER_OF_80MHZ
               else if ch_number channel mod 8 = 0 then Inr VHT_DATA_SC_20_UPPER_OF_80MHZ
               else Inl (radio_error_new ''channel_bandwidth_not_supported''
                      (''channel '' @ show_nat (unat (ch_number channel)) @
                       '' is not aligned to a 5 GHz 40 MHz channel pair''))
           | Ghz2 \<Rightarrow>
               if 1 \<le> ch_number channel \<and> ch_number channel \<le> 7 then Inr VHT_DATA_SC_20_LOWER_OF_80MHZ
               else if 8 \<le> ch_number channel \<and> ch_number channel \<le> 13 then Inr VHT_DATA_SC_20_UPPER_OF_80MHZ
               else Inl (radio_error_new ''channel_bandwidth_not_supported''
                      (''channel '' @ show_nat (unat (ch_number channel)) @
                       '' is not supported for 2.4 GHz 40 MHz operation'')))
      | Mhz80 \<Rightarrow>
          bind_res (production_eighty_mhz_center_and_position (ch_number channel)) (\<lambda>(center, position).
          let (sc40, sc20) =
                (if position = 0 then (VHT_DATA_SC_40_LOWER_OF_80MHZ, VHT_DATA_SC_20_LOWEST_OF_80MHZ)
                 else if position = 1 then (VHT_DATA_SC_40_LOWER_OF_80MHZ, VHT_DATA_SC_20_LOWER_OF_80MHZ)
                 else if position = 2 then (VHT_DATA_SC_40_UPPER_OF_80MHZ, VHT_DATA_SC_20_UPPER_OF_80MHZ)
                 else (VHT_DATA_SC_40_UPPER_OF_80MHZ, VHT_DATA_SC_20_UPPERST_OF_80MHZ))
          in Inr (push_bit 4 sc40 OR sc20)))"

definition production_forty_mhz_center_channel :: "channel \<Rightarrow> (radio_error, u8) result" where
  "production_forty_mhz_center_channel channel =
     bind_res (production_data_secondary_channel_setting channel Mhz40) (\<lambda>data_sc.
     if data_sc = VHT_DATA_SC_20_LOWER_OF_80MHZ then Inr (ch_number channel + 2)
     else if data_sc = VHT_DATA_SC_20_UPPER_OF_80MHZ then Inr (ch_number channel - 2)
     else Inl (radio_error_new ''channel_bandwidth_not_supported''
            (''channel '' @ show_nat (unat (ch_number channel)) @ '' did not map to a 40 MHz primary side'')))"

definition production_channel_programming_number :: "channel \<Rightarrow> bandwidth \<Rightarrow> (radio_error, u8) result" where
  "production_channel_programming_number channel bandwidth =
     (case bandwidth of
        Mhz20 \<Rightarrow> Inr (ch_number channel)
      | Mhz40 \<Rightarrow> production_forty_mhz_center_channel channel
      | Mhz80 \<Rightarrow> map_sum id fst (production_eighty_mhz_center_and_position (ch_number channel)))"

definition production_fc_area_data :: "u8 \<Rightarrow> u32" where
  "production_fc_area_data channel =
     (if 36 \<le> channel \<and> channel \<le> 48 then 0x494
      else if 15 \<le> channel \<and> channel \<le> 35 then 0x494
      else if 50 \<le> channel \<and> channel \<le> 80 then 0x453
      else if 82 \<le> channel \<and> channel \<le> 116 then 0x452
      else if 118 \<le> channel then 0x412
      else 0x96a)"

definition production_rf_mod_ag_data :: "u8 \<Rightarrow> u32" where
  "production_rf_mod_ag_data channel =
     (if 36 \<le> channel \<and> channel \<le> 80 then 0x101
      else if 15 \<le> channel \<and> channel \<le> 35 then 0x101
      else if 82 \<le> channel \<and> channel \<le> 140 then 0x301
      else if 141 \<le> channel then 0x501
      else 0x000)"

definition apply_rf_mask :: "u32 \<Rightarrow> u32 \<Rightarrow> u32 \<Rightarrow> u32" where
  "apply_rf_mask original bitmask data =
     (if bitmask = 0 then original
      else let bitshift = trailing_zeros bitmask
           in (original AND NOT bitmask) OR (push_bit bitshift data AND bitmask))"

definition production_last_rf_register_data :: "realtek_table_plan \<Rightarrow> u32 \<Rightarrow> (radio_error, u32) result" where
  "production_last_rf_register_data plan rf_offset =
     (let data = fold (\<lambda>action data.
            if rta_kind action = RtaWrite \<and> rta_address action = rf_offset then rta_data action else data)
            (rtp_actions plan) None
      in case data of
          Some data \<Rightarrow> Inr data
        | None \<Rightarrow> Inl (radio_error_new ''rf_channel_base_missing''
              (rtp_array_name plan @ '' did not contain a final RF register 0x'' @ show_hex 2 (unat rf_offset) @
               '' write to use as channel base'')))"

section \<open>Switching the band\<close>

definition production_set_pwed_thresholds :: "('r, 't) reg_env \<Rightarrow> u32 \<Rightarrow> ('t, unit) reg_op" where
  "production_set_pwed_thresholds env pd_th_20m =
     run_all
       [production_bb_masked_write32 env ''rPwed_TH_Jaguar'' REG_PWED_TH_JAGUAR 0x0003e000 pd_th_20m ''band-switch'',
        production_bb_masked_write32 env ''rPwed_TH_Jaguar'' REG_PWED_TH_JAGUAR 0x0000000e 0x04 ''band-switch'']"

record rfe_reg_config =
  rfe_pinmux :: u32
  rfe_inv_mask :: u32
  rfe_inv :: u32
  rfe_antsel :: "u32 option"

definition production_rfe_reg_config_8812 :: "band \<Rightarrow> u8 \<Rightarrow> (radio_error, rfe_reg_config) result" where
  "production_rfe_reg_config_8812 band rfe_type =
     (if band = Ghz2 \<and> (rfe_type = 0 \<or> rfe_type = 1 \<or> rfe_type = 2)
      then Inr \<lparr>rfe_pinmux = 0x77777777, rfe_inv_mask = 0x3ff00000, rfe_inv = 0x000, rfe_antsel = None\<rparr>
      else if band = Ghz2 \<and> rfe_type = 3
      then Inr \<lparr>rfe_pinmux = 0x54337770, rfe_inv_mask = 0x3ff00000, rfe_inv = 0x010, rfe_antsel = Some 0x1\<rparr>
      else if band = Ghz2 \<and> rfe_type = 4
      then Inr \<lparr>rfe_pinmux = 0x77777777, rfe_inv_mask = 0x3ff00000, rfe_inv = 0x001, rfe_antsel = None\<rparr>
      else if band = Ghz2 \<and> rfe_type = 6
      then Inr \<lparr>rfe_pinmux = 0x07772770, rfe_inv_mask = - 1, rfe_inv = 0x00000077, rfe_antsel = None\<rparr>
      else if band = Ghz5 \<and> rfe_type = 0
      then Inr \<lparr>rfe_pinmux = 0x77337717, rfe_inv_mask = 0x3ff00000, rfe_inv = 0x010, rfe_antsel = None\<rparr>
      else if band = Ghz5 \<and> rfe_type = 1
      then Inr \<lparr>rfe_pinmux = 0x77337717, rfe_inv_mask = 0x3ff00000, rfe_inv = 0x000, rfe_antsel = None\<rparr>
      else if band = Ghz5 \<and> (rfe_type = 2 \<or> rfe_type = 4)
      then Inr \<lparr>rfe_pinmux = 0x77337777, rfe_inv_mask = 0x3ff00000, rfe_inv = 0x010, rfe_antsel = None\<rparr>
      else if band = Ghz5 \<and> rfe_type = 3
      then Inr \<lparr>rfe_pinmux = 0x54337717, rfe_inv_mask = 0x3ff00000, rfe_inv = 0x010, rfe_antsel = Some 0x1\<rparr>
      else if band = Ghz5 \<and> rfe_type = 6
      then Inr \<lparr>rfe_pinmux = 0x07737717, rfe_inv_mask = - 1, rfe_inv = 0x00000077, rfe_antsel = None\<rparr>
      else if rfe_type = 5
      then Inl (radio_error_new ''unsupported_rfe_type''
             ''RFE type 5 needs byte-level partial pinmux writes that are not ported yet'')
      else Inl (radio_error_new ''unsupported_rfe_type''
             (''RFE type '' @ show_nat (unat rfe_type) @ '' is not supported by the RTL8812A channel path'')))"

definition production_set_rfe_reg_8812 :: "('r, 't) reg_env \<Rightarrow> band \<Rightarrow> u8 \<Rightarrow> ('t, unit) reg_op" where
  "production_set_rfe_reg_8812 env band rfe_type =
     and_then (of_result (production_rfe_reg_config_8812 band rfe_type)) (\<lambda>config.
     run_all
       [for_each [(''rA_RFE_Pinmux_Jaguar'', REG_RFE_PINMUX_A_JAGUAR), (''rB_RFE_Pinmux_Jaguar'', REG_RFE_PINMUX_B_JAGUAR)]
          (\<lambda>(register_name, address) _.
            production_bb_masked_write32 env register_name address (- 1) (rfe_pinmux config) ''band-switch'') (),
        for_each [(''rA_RFE_Inv_Jaguar'', REG_RFE_INV_A_JAGUAR), (''rB_RFE_Inv_Jaguar'', REG_RFE_INV_B_JAGUAR)]
          (\<lambda>(register_name, address) _.
            production_bb_masked_write32 env register_name address (rfe_inv_mask config) (rfe_inv config)
              ''band-switch'') (),
        case rfe_antsel config of
          Some antsel \<Rightarrow>
            production_bb_masked_write32 env ''r_ANTSEL_SW_Jaguar'' REG_ANTSEL_SW_JAGUAR 0x00000303 antsel ''band-switch''
        | None \<Rightarrow> ret ()])"

definition production_set_basic_rate :: "('r, 't) reg_env \<Rightarrow> u16 \<Rightarrow> ('t, unit) reg_op" where
  "production_set_basic_rate env rate_mask =
     run_all
       [production_write16_verify env ''REG_RRSR'' REG_RRSR rate_mask (- 1) rate_mask ''band-switch'',
        production_rmw8_preserve env ''REG_RRSR + 2'' (REG_RRSR + 2) 0xf0 0x0f 0 ''band-switch'']"

definition production_set_bb_swing_default :: "('r, 't) reg_env \<Rightarrow> ('t, unit) reg_op" where
  "production_set_bb_swing_default env =
     for_each [(''rA_TxScale_Jaguar'', REG_TX_SCALE_A_JAGUAR), (''rB_TxScale_Jaguar'', REG_TX_SCALE_B_JAGUAR)]
       (\<lambda>(register_name, address) _.
         production_bb_masked_write32 env register_name address 0xffe00000 0x200 ''band-switch'') ()"

fun tx_packet_empty_loop :: "('r, 't) reg_env \<Rightarrow> u16 \<Rightarrow> nat \<Rightarrow> ('t, unit) reg_op" where
  "tx_packet_empty_loop env observed 0 =
     fail (radio_error_new ''tx_packet_empty_poll_failed''
       (''REG_TXPKT_EMPTY did not report mask 0x0030 after 50 reads, got '' @ format_register_value observed 4))"
| "tx_packet_empty_loop env observed (Suc n) =
     and_then (read16_with_counter env REG_TXPKT_EMPTY ''REG_TXPKT_EMPTY'' ''band-switch'') (\<lambda>observed.
     if observed AND 0x0030 = 0x0030 then ret ()
     else and_do (sleep env (micros 50)) (tx_packet_empty_loop env observed n))"

definition production_poll_tx_packet_empty :: "('r, 't) reg_env \<Rightarrow> ('t, unit) reg_op" where
  "production_poll_tx_packet_empty env = tx_packet_empty_loop env 0 50"

definition production_switch_to_2g_band :: "('r, 't) reg_env \<Rightarrow> u8 \<Rightarrow> ('t, unit) reg_op" where
  "production_switch_to_2g_band env rfe_type =
     (let phase = ''band-switch'' in run_all
       [production_bb_masked_write32 env ''rOFDMCCKEN_Jaguar'' REG_OFDMCCKEN_JAGUAR 0x30000000 0x03 phase,
        production_bb_masked_write32 env ''rBWIndication_Jaguar'' REG_BW_INDICATION_JAGUAR 0x00000003 0x01 phase,
        production_set_pwed_thresholds env 0x17,
        production_bb_masked_write32 env ''rAGC_table_Jaguar'' REG_AGC_TABLE_JAGUAR 0x00000003 0x00 phase,
        production_set_rfe_reg_8812 env Ghz2 rfe_type,
        production_bb_masked_write32 env ''rTxPath_Jaguar'' REG_TX_PATH_JAGUAR 0x000000f0 0x01 phase,
        production_bb_masked_write32 env ''rCCK_RX_Jaguar'' REG_CCK_RX_JAGUAR 0x0f000000 0x01 phase,
        production_set_basic_rate env BASIC_RATE_2G,
        production_rmw8_preserve env ''REG_CCK_CHECK_8812'' REG_CCK_CHECK_8812 (NOT BIT7) BIT7 0 phase,
        production_set_bb_swing_default env])"

definition production_switch_to_5g_band :: "('r, 't) reg_env \<Rightarrow> u8 \<Rightarrow> ('t, unit) reg_op" where
  "production_switch_to_5g_band env rfe_type =
     (let phase = ''band-switch'' in run_all
       [production_rmw8_preserve env ''REG_CCK_CHECK_8812'' REG_CCK_CHECK_8812 (NOT BIT7) BIT7 BIT7 phase,
        production_poll_tx_packet_empty env,
        production_bb_masked_write32 env ''rOFDMCCKEN_Jaguar'' REG_OFDMCCKEN_JAGUAR 0x30000000 0x03 phase,
        production_bb_masked_write32 env ''rBWIndication_Jaguar'' REG_BW_INDICATION_JAGUAR 0x00000003 0x02 phase,
        production_set_pwed_thresholds env 0x15,
        production_bb_masked_write32 env ''rAGC_table_Jaguar'' REG_AGC_TABLE_JAGUAR 0x00000003 0x01 phase,
        production_set_rfe_reg_8812 env Ghz5 rfe_type,
        production_bb_masked_write32 env ''rTxPath_Jaguar'' REG_TX_PATH_JAGUAR 0x000000f0 0x00 phase,
        production_bb_masked_write32 env ''rCCK_RX_Jaguar'' REG_CCK_RX_JAGUAR 0x0f000000 0x0f phase,
        production_set_basic_rate env BASIC_RATE_5G,
        production_set_bb_swing_default env])"

definition production_switch_wireless_band_8812 :: "('r, 't) reg_env \<Rightarrow> band \<Rightarrow> u8 \<Rightarrow> ('t, unit) reg_op" where
  "production_switch_wireless_band_8812 env target_band rfe_type =
     and_then (read8_with_counter env REG_CCK_CHECK_8812 ''REG_CCK_CHECK_8812'' ''band-switch'') (\<lambda>cck_check.
     let current_band = (if cck_check AND BIT7 \<noteq> 0 then Ghz5 else Ghz2) in
     if current_band = target_band then production_set_rfe_reg_8812 env target_band rfe_type
     else case target_band of
         Ghz2 \<Rightarrow> production_switch_to_2g_band env rfe_type
       | Ghz5 \<Rightarrow> production_switch_to_5g_band env rfe_type)"

definition production_fix_spur_8812a :: "('r, 't) reg_env \<Rightarrow> u8 \<Rightarrow> bandwidth \<Rightarrow> ('t, unit) reg_op" where
  "production_fix_spur_8812a env channel_number bandwidth =
     (if 14 < channel_number then ret ()
      else
        let data = (if bandwidth = Mhz20 \<and> (channel_number = 13 \<or> channel_number = 14) then 0x03 else 0x02) in
        production_bb_masked_write32 env ''rRFMOD_Jaguar'' REG_RF_MOD_JAGUAR 0x00000300 data ''spur'')"

section \<open>The captured transmit tail\<close>

definition PRODUCTION_CAPTURED_TX_BRINGUP_TAIL_20MHZ :: "(string \<times> u16 \<times> u32) list" where
  "PRODUCTION_CAPTURED_TX_BRINGUP_TAIL_20MHZ =
     [(''rA_TxScale_Jaguar'', REG_TX_SCALE_A_JAGUAR, 0x2d400003),
      (''rB_TxScale_Jaguar'', REG_TX_SCALE_B_JAGUAR, 0x2d400003),
      (''rA_RFE_Pinmux_Jaguar'', REG_RFE_PINMUX_A_JAGUAR, 0x54337717),
      (''rB_RFE_Pinmux_Jaguar'', REG_RFE_PINMUX_B_JAGUAR, 0x54337717),
      (''rA_RFE_Inv_Jaguar'', REG_RFE_INV_A_JAGUAR, 0x01000077),
      (''rB_RFE_Inv_Jaguar'', REG_RFE_INV_B_JAGUAR, 0x01000077),
      (''rA_RFE_Timing_Jaguar'', REG_RFE_TIMING_A_JAGUAR, 0x00508242),
      (''rB_RFE_Timing_Jaguar'', REG_RFE_TIMING_B_JAGUAR, 0x00508242),
      (''rA_IQK_Result_Jaguar'', REG_OFDM0_XBAGCCORE1, 0x30000c1c),
      (''rB_IQK_Result_Jaguar'', REG_OFDM0_XBAGCCORE1 + 0x200, 0x30000c1c),
      (''rA_IQK_Shadow_Jaguar'', REG_OFDM0_XBAGCCORE1 + 4, 0x00000058),
      (''rB_IQK_Shadow_Jaguar'', REG_OFDM0_XBAGCCORE1 + 0x204, 0x00000058),
      (''rA_TxAGC_CCK'', REG_TX_AGC_A_CCK_JAGUAR, 0x15151515),
      (''rA_TxAGC_OFDM18_OFDM6'', REG_TX_AGC_A_OFDM18_OFDM6_JAGUAR, 0x27272727),
      (''rA_TxAGC_OFDM54_OFDM24'', REG_TX_AGC_A_OFDM54_OFDM24_JAGUAR, 0x27272727),
      (''rA_TxAGC_MCS3_MCS0'', REG_TX_AGC_A_MCS3_MCS0_JAGUAR, 0x28282828),
      (''rA_TxAGC_MCS7_MCS4'', REG_TX_AGC_A_MCS7_MCS4_JAGUAR, 0x28282828),
      (''rA_TxAGC_NSS1_7_NSS1_4'', REG_TX_AGC_A_NSS1_7_NSS1_4_JAGUAR, 0x26262626),
      (''rA_TxAGC_NSS1_11_NSS1_8'', REG_TX_AGC_A_NSS1_11_NSS1_8_JAGUAR, 0x26262626),
      (''rA_TxAGC_NSS1_3_NSS1_0'', REG_TX_AGC_A_NSS1_3_NSS1_0_JAGUAR, 0x28282828),
      (''rA_TxAGC_NSS2_3_NSS2_0'', REG_TX_AGC_A_NSS2_3_NSS2_0_JAGUAR, 0x28282828),
      (''rA_TxAGC_NSS2_7_NSS2_4'', REG_TX_AGC_A_NSS2_7_NSS2_4_JAGUAR, 0x26262828),
      (''rA_TxAGC_NSS2_11_NSS2_8'', REG_TX_AGC_A_NSS2_11_NSS2_8_JAGUAR, 0x26262626),
      (''rA_TxAGC_NSS3_3_NSS3_0'', REG_TX_AGC_A_NSS3_3_NSS3_0_JAGUAR, 0x26262626),
      (''rA_TxPowerOffset'', REG_TX_PWR_OFFSET_A_JAGUAR, 0x0000001e),
      (''rA_TxPowerTraining'', REG_TX_PWR_TRAIN_A_JAGUAR, 0x0010161e),
      (''rA_TxBbCtrl'', REG_TX_BB_CTRL_A_JAGUAR, 0x01817d24),
      (''rB_TxAGC_CCK'', REG_TX_AGC_B_CCK_JAGUAR, 0x18181818),
      (''rB_TxAGC_OFDM18_OFDM6'', REG_TX_AGC_B_OFDM18_OFDM6_JAGUAR, 0x28282828),
      (''rB_TxAGC_OFDM54_OFDM24'', REG_TX_AGC_B_OFDM54_OFDM24_JAGUAR, 0x28282828),
      (''rB_TxAGC_MCS3_MCS0'', REG_TX_AGC_B_MCS3_MCS0_JAGUAR, 0x2a2a2a2a),
      (''rB_TxAGC_MCS7_MCS4'', REG_TX_AGC_B_MCS7_MCS4_JAGUAR, 0x2a2a2a2a),
      (''rB_TxAGC_NSS1_7_NSS1_4'', REG_TX_AGC_B_NSS1_7_NSS1_4_JAGUAR, 0x28282828),
      (''rB_TxAGC_NSS1_11_NSS1_8'', REG_TX_AGC_B_NSS1_11_NSS1_8_JAGUAR, 0x28282828),
      (''rB_TxAGC_NSS1_3_NSS1_0'', REG_TX_AGC_B_NSS1_3_NSS1_0_JAGUAR, 0x2a2a2a2a),
      (''rB_TxAGC_NSS2_3_NSS2_0'', REG_TX_AGC_B_NSS2_3_NSS2_0_JAGUAR, 0x2a2a2a2a),
      (''rB_TxAGC_NSS2_7_NSS2_4'', REG_TX_AGC_B_NSS2_7_NSS2_4_JAGUAR, 0x28282a2a),
      (''rB_TxAGC_NSS2_11_NSS2_8'', REG_TX_AGC_B_NSS2_11_NSS2_8_JAGUAR, 0x28282828),
      (''rB_TxAGC_NSS3_3_NSS3_0'', REG_TX_AGC_B_NSS3_3_NSS3_0_JAGUAR, 0x28282828),
      (''rB_TxPowerOffset'', REG_TX_PWR_OFFSET_B_JAGUAR, 0x0000001e),
      (''rB_TxPowerTraining'', REG_TX_PWR_TRAIN_B_JAGUAR, 0x00121820),
      (''rB_TxBbCtrl'', REG_TX_BB_CTRL_B_JAGUAR, 0x01817d24)]"

definition PRODUCTION_CAPTURED_TX_BRINGUP_TAIL_40MHZ :: "(string \<times> u16 \<times> u32) list" where
  "PRODUCTION_CAPTURED_TX_BRINGUP_TAIL_40MHZ =
     [(''rA_TxScale_Jaguar'', REG_TX_SCALE_A_JAGUAR, 0x35e00003),
      (''rB_TxScale_Jaguar'', REG_TX_SCALE_B_JAGUAR, 0x35e00003),
      (''rA_RFE_Pinmux_Jaguar'', REG_RFE_PINMUX_A_JAGUAR, 0x54337717),
      (''rB_RFE_Pinmux_Jaguar'', REG_RFE_PINMUX_B_JAGUAR, 0x54337717),
      (''rA_RFE_Inv_Jaguar'', REG_RFE_INV_A_JAGUAR, 0x01000077),
      (''rB_RFE_Inv_Jaguar'', REG_RFE_INV_B_JAGUAR, 0x01000077),
      (''rA_RFE_Timing_Jaguar'', REG_RFE_TIMING_A_JAGUAR, 0x00508242),
      (''rB_RFE_Timing_Jaguar'', REG_RFE_TIMING_B_JAGUAR, 0x00508242),
      (''rA_IQK_Result_Jaguar'', REG_OFDM0_XBAGCCORE1, 0x30000c1c),
      (''rB_IQK_Result_Jaguar'', REG_OFDM0_XBAGCCORE1 + 0x200, 0x30000c1c),
      (''rA_IQK_Shadow_Jaguar'', REG_OFDM0_XBAGCCORE1 + 4, 0x00000058),
      (''rB_IQK_Shadow_Jaguar'', REG_OFDM0_XBAGCCORE1 + 0x204, 0x00000058),
      (''rA_TxAGC_CCK'', REG_TX_AGC_A_CCK_JAGUAR, 0x15151515),
      (''rA_TxAGC_OFDM18_OFDM6'', REG_TX_AGC_A_OFDM18_OFDM6_JAGUAR, 0x27272727),
      (''rA_TxAGC_OFDM54_OFDM24'', REG_TX_AGC_A_OFDM54_OFDM24_JAGUAR, 0x27272727),
      (''rA_TxAGC_MCS3_MCS0'', REG_TX_AGC_A_MCS3_MCS0_JAGUAR, 0x29292929),
      (''rA_TxAGC_MCS7_MCS4'', REG_TX_AGC_A_MCS7_MCS4_JAGUAR, 0x29292929),
      (''rA_TxAGC_NSS1_7_NSS1_4'', REG_TX_AGC_A_NSS1_7_NSS1_4_JAGUAR, 0x27272727),
      (''rA_TxAGC_NSS1_11_NSS1_8'', REG_TX_AGC_A_NSS1_11_NSS1_8_JAGUAR, 0x27272727),
      (''rA_TxAGC_NSS1_3_NSS1_0'', REG_TX_AGC_A_NSS1_3_NSS1_0_JAGUAR, 0x29292929),
      (''rA_TxAGC_NSS2_3_NSS2_0'', REG_TX_AGC_A_NSS2_3_NSS2_0_JAGUAR, 0x29292929),
      (''rA_TxAGC_NSS2_7_NSS2_4'', REG_TX_AGC_A_NSS2_7_NSS2_4_JAGUAR, 0x27272929),
      (''rA_TxAGC_NSS2_11_NSS2_8'', REG_TX_AGC_A_NSS2_11_NSS2_8_JAGUAR, 0x27272727),
      (''rA_TxAGC_NSS3_3_NSS3_0'', REG_TX_AGC_A_NSS3_3_NSS3_0_JAGUAR, 0x27272727),
      (''rA_TxPowerOffset'', REG_TX_PWR_OFFSET_A_JAGUAR, 0x0000001c),
      (''rA_TxPowerTraining'', REG_TX_PWR_TRAIN_A_JAGUAR, 0x0011171f),
      (''rA_TxBbCtrl'', REG_TX_BB_CTRL_A_JAGUAR, 0x04238500),
      (''rB_TxAGC_CCK'', REG_TX_AGC_B_CCK_JAGUAR, 0x18181818),
      (''rB_TxAGC_OFDM18_OFDM6'', REG_TX_AGC_B_OFDM18_OFDM6_JAGUAR, 0x28282828),
      (''rB_TxAGC_OFDM54_OFDM24'', REG_TX_AGC_B_OFDM54_OFDM24_JAGUAR, 0x28282828),
      (''rB_TxAGC_MCS3_MCS0'', REG_TX_AGC_B_MCS3_MCS0_JAGUAR, 0x2b2b2b2b),
      (''rB_TxAGC_MCS7_MCS4'', REG_TX_AGC_B_MCS7_MCS4_JAGUAR, 0x2b2b2b2b),
      (''rB_TxAGC_NSS1_7_NSS1_4'', REG_TX_AGC_B_NSS1_7_NSS1_4_JAGUAR, 0x29292929),
      (''rB_TxAGC_NSS1_11_NSS1_8'', REG_TX_AGC_B_NSS1_11_NSS1_8_JAGUAR, 0x29292929),
      (''rB_TxAGC_NSS1_3_NSS1_0'', REG_TX_AGC_B_NSS1_3_NSS1_0_JAGUAR, 0x2b2b2b2b),
      (''rB_TxAGC_NSS2_3_NSS2_0'', REG_TX_AGC_B_NSS2_3_NSS2_0_JAGUAR, 0x2b2b2b2b),
      (''rB_TxAGC_NSS2_7_NSS2_4'', REG_TX_AGC_B_NSS2_7_NSS2_4_JAGUAR, 0x29292b2b),
      (''rB_TxAGC_NSS2_11_NSS2_8'', REG_TX_AGC_B_NSS2_11_NSS2_8_JAGUAR, 0x29292929),
      (''rB_TxAGC_NSS3_3_NSS3_0'', REG_TX_AGC_B_NSS3_3_NSS3_0_JAGUAR, 0x29292929),
      (''rB_TxPowerOffset'', REG_TX_PWR_OFFSET_B_JAGUAR, 0x0000001c),
      (''rB_TxPowerTraining'', REG_TX_PWR_TRAIN_B_JAGUAR, 0x00131921),
      (''rB_TxBbCtrl'', REG_TX_BB_CTRL_B_JAGUAR, 0x01817526)]"

definition production_should_apply_captured_tx_bringup_tail :: "channel \<Rightarrow> bandwidth \<Rightarrow> bool" where
  "production_should_apply_captured_tx_bringup_tail channel bandwidth \<longleftrightarrow>
     ch_number channel = 36 \<and> (bandwidth = Mhz20 \<or> bandwidth = Mhz40)"

fun production_captured_tx_bringup_tail :: "bandwidth \<Rightarrow> (radio_error, (string \<times> u16 \<times> u32) list) result" where
  "production_captured_tx_bringup_tail Mhz20 = Inr PRODUCTION_CAPTURED_TX_BRINGUP_TAIL_20MHZ"
| "production_captured_tx_bringup_tail Mhz40 = Inr PRODUCTION_CAPTURED_TX_BRINGUP_TAIL_40MHZ"
| "production_captured_tx_bringup_tail Mhz80 =
     Inl (radio_error_new ''captured_tx_bringup_tail_unsupported''
       ''captured TX bring-up tail is only available for 20 and 40 MHz'')"

definition production_apply_captured_tx_bringup_tail :: "('r, 't) reg_env \<Rightarrow> bandwidth \<Rightarrow> ('t, unit) reg_op" where
  "production_apply_captured_tx_bringup_tail env bandwidth =
     and_then (of_result (production_captured_tx_bringup_tail bandwidth)) (\<lambda>tail.
     for_each tail (\<lambda>(register_name, address, v) _.
       production_write32_verify env register_name address v (- 1) v ''tx-bringup-tail'') ())"

section \<open>The channel sequence\<close>

fun wmac_bandwidth_bits :: "bandwidth \<Rightarrow> u16" where
  "wmac_bandwidth_bits Mhz20 = 0x0000" | "wmac_bandwidth_bits Mhz40 = 0x0080" | "wmac_bandwidth_bits Mhz80 = 0x0100"

fun rf_mode_data :: "bandwidth \<Rightarrow> u32" where
  "rf_mode_data Mhz20 = 0x00300200" | "rf_mode_data Mhz40 = 0x00300201" | "rf_mode_data Mhz80 = 0x00300202"

fun l1_peak :: "bandwidth \<Rightarrow> u8 \<Rightarrow> u32" where
  "l1_peak Mhz20 bw_indication = 7"
| "l1_peak Mhz40 bw_indication = (if bw_indication AND BIT2 \<noteq> 0 then 6 else 7)"
| "l1_peak Mhz80 bw_indication = (if bw_indication AND BIT2 \<noteq> 0 then 5 else 6)"

fun rf_bandwidth_bits :: "bandwidth \<Rightarrow> u32" where
  "rf_bandwidth_bits Mhz20 = 3" | "rf_bandwidth_bits Mhz40 = 1" | "rf_bandwidth_bits Mhz80 = 0"

text \<open>
  The mode, amplifier and channel fields of the RF channel register of one path, each followed by
  its serial write; the register value is carried on to the bandwidth field.
\<close>

definition program_rf_channel :: "('r, 't) reg_env \<Rightarrow> rf_path \<Rightarrow> u32 \<Rightarrow> u8 \<Rightarrow> bandwidth \<Rightarrow> ('t, u32) reg_op" where
  "program_rf_channel env path rf_value programming_channel_number bandwidth =
     (let rf_value = apply_rf_mask rf_value RF_CHNLBW_MOD_AG_MASK (production_rf_mod_ag_data programming_channel_number) in
      and_do (rf_serial_write_single_path env path RF_CHNLBW_JAGUAR rf_value)
     (and_do (production_fix_spur_8812a env programming_channel_number bandwidth)
     (let rf_value = apply_rf_mask rf_value RF_CHNLBW_CHANNEL_MASK (ucast programming_channel_number) in
      and_do (rf_serial_write_single_path env path RF_CHNLBW_JAGUAR rf_value) (ret rf_value))))"

text \<open>The bandwidth registers of MAC and baseband.\<close>

definition program_bandwidth :: "('r, 't) reg_env \<Rightarrow> bandwidth \<Rightarrow> u8 \<Rightarrow> ('t, unit) reg_op" where
  "program_bandwidth env bandwidth data_sc =
     (let phase = ''bandwidth'' in
      and_do (run_all
        [production_rmw16_preserve env ''REG_WMAC_TRXPTCL_CTL'' REG_WMAC_TRXPTCL_CTL 0xfe7f 0x0180
           (wmac_bandwidth_bits bandwidth) phase,
         production_write8_verify env ''REG_DATA_SC_8812'' REG_DATA_SC_8812 data_sc (- 1) data_sc phase])
     (and_then (read8_with_counter env (REG_BW_INDICATION_JAGUAR + 3) ''rBWIndication_Jaguar + 3'' phase) (\<lambda>bw_indication.
      run_all
        [production_bb_masked_write32 env ''rRFMOD_Jaguar'' REG_RF_MOD_JAGUAR 0x003003c3 (rf_mode_data bandwidth) phase,
         production_bb_masked_write32 env ''rADC_Buf_Clk_Jaguar'' REG_ADC_BUF_CLK_JAGUAR (push_bit 30 1)
           (if bandwidth = Mhz80 then 1 else 0) phase,
         if bandwidth = Mhz40 \<or> bandwidth = Mhz80
         then run_all
           [production_bb_masked_write32 env ''rRFMOD_Jaguar'' REG_RF_MOD_JAGUAR 0x0000003c (ucast data_sc) phase,
            production_bb_masked_write32 env ''rCCAonSec_Jaguar'' REG_CCA_ON_SEC_JAGUAR 0xf0000000 (ucast data_sc) phase]
         else ret (),
         production_bb_masked_write32 env ''rL1PeakTH_Jaguar'' REG_L1_PEAK_TH_JAGUAR 0x03c00000
           (l1_peak bandwidth bw_indication) phase,
         if bandwidth = Mhz40
         then production_bb_masked_write32 env ''rCCK_System_Jaguar'' REG_CCK_SYSTEM_JAGUAR 0x10
           (if data_sc = VHT_DATA_SC_20_UPPER_OF_80MHZ then 1 else 0) phase
         else ret ()])))"

definition production_channel_sequence ::
    "('r, 't) reg_env \<Rightarrow> channel \<Rightarrow> bandwidth \<Rightarrow> u8 \<Rightarrow> realtek_table_plan \<Rightarrow> realtek_table_plan \<Rightarrow> ('t, u64) reg_op" where
  "production_channel_sequence env channel bandwidth rfe_type radioa_plan radiob_plan =
     and_then control_writes (\<lambda>before_writes.
     and_then (of_result (production_channel_programming_number channel bandwidth)) (\<lambda>programming_channel_number.
     and_then (of_result (production_data_secondary_channel_setting channel bandwidth)) (\<lambda>data_sc.
     and_do (production_rf_preflight env)
    (and_then (of_result (production_last_rf_register_data radioa_plan RF_CHNLBW_JAGUAR)) (\<lambda>rf_path_a.
     and_then (of_result (production_last_rf_register_data radiob_plan RF_CHNLBW_JAGUAR)) (\<lambda>rf_path_b.
     and_do (production_switch_wireless_band_8812 env (ch_band channel) rfe_type)
    (and_do (production_bb_masked_write32 env ''rOFDMCCKEN_Jaguar'' REG_OFDMCCKEN_JAGUAR 0x30000000 0x03 ''band-switch'')
    (and_do (production_bb_masked_write32 env ''rFc_area_Jaguar'' REG_FC_AREA_JAGUAR 0x1ffe0000
               (production_fc_area_data programming_channel_number) ''channel'')
    (and_then (program_rf_channel env RfA rf_path_a programming_channel_number bandwidth) (\<lambda>rf_path_a.
     and_then (program_rf_channel env RfB rf_path_b programming_channel_number bandwidth) (\<lambda>rf_path_b.
     and_do (program_bandwidth env bandwidth data_sc)
    (and_do (production_fix_spur_8812a env programming_channel_number bandwidth)
    (let rf_path_a = apply_rf_mask rf_path_a RF_CHNLBW_BW_MASK (rf_bandwidth_bits bandwidth) in
     and_do (rf_serial_write_single_path env RfA RF_CHNLBW_JAGUAR rf_path_a)
    (let rf_path_b = apply_rf_mask rf_path_b RF_CHNLBW_BW_MASK (rf_bandwidth_bits bandwidth) in
     and_do (rf_serial_write_single_path env RfB RF_CHNLBW_JAGUAR rf_path_b)
    (and_do (if production_should_apply_captured_tx_bringup_tail channel bandwidth
             then production_apply_captured_tx_bringup_tail env bandwidth else ret ())
     (writes_since before_writes))))))))))))))))"

end
