(* ===== verification/Mac_Address.thy ===== *)
theory Mac_Address
  imports Chip_Setup Efuse
begin

text \<open>
  The station address (\<open>wfb-radio-runtime/src/lib.rs\<close>): the byte-wise read of the physical EFUSE under
  its power switch, and the programming of the address it holds.
\<close>

section \<open>Accesses with their own error\<close>

definition counted_read_custom ::
    "('r register_error \<Rightarrow> radio_error) \<Rightarrow> ('t \<Rightarrow> ('r register_error, 'a) result \<times> 't) \<Rightarrow> ('t, 'a) reg_op" where
  "counted_read_custom show_error access s =
     (case access (fst s) of
        (Inl error, dev) \<Rightarrow> Some (Inl (show_error error), (dev, snd s))
      | (Inr x, dev) \<Rightarrow>
          Some (Inr x, (dev, (snd s)\<lparr>rc_usb_control_reads := rc_usb_control_reads (snd s) + 1\<rparr>)))"

definition read8_with_custom_error ::
    "('r, 't) reg_env \<Rightarrow> u16 \<Rightarrow> ('r register_error \<Rightarrow> radio_error) \<Rightarrow> ('t, u8) reg_op" where
  "read8_with_custom_error env address error = counted_read_custom error (read8 (re_access env) address)"

definition read16_with_custom_error ::
    "('r, 't) reg_env \<Rightarrow> u16 \<Rightarrow> ('r register_error \<Rightarrow> radio_error) \<Rightarrow> ('t, u16) reg_op" where
  "read16_with_custom_error env address error = counted_read_custom error (read16 (re_access env) address)"

definition write8_with_custom_error ::
    "('r, 't) reg_env \<Rightarrow> u16 \<Rightarrow> u8 \<Rightarrow> ('r register_error \<Rightarrow> radio_error) \<Rightarrow> ('t, unit) reg_op" where
  "write8_with_custom_error env address v error = counted_write error (write8 (re_access env) address v)"

definition write16_with_custom_error ::
    "('r, 't) reg_env \<Rightarrow> u16 \<Rightarrow> u16 \<Rightarrow> ('r register_error \<Rightarrow> radio_error) \<Rightarrow> ('t, unit) reg_op" where
  "write16_with_custom_error env address v error = counted_write error (write16 (re_access env) address v)"

section \<open>Reading the EFUSE\<close>

record efuse_read_config =
  erc_length :: nat
  erc_poll_attempts :: u32
  erc_poll_delay :: nat

definition efuse_read_config_default :: efuse_read_config where
  "efuse_read_config_default =
     \<lparr>erc_length = RTL8812AU_EFUSE_REAL_CONTENT_LEN, erc_poll_attempts = 1000, erc_poll_delay = micros 1000\<rparr>"

text \<open>The errors of the two operations: a code, a prefix and the register error.\<close>

definition efuse_error :: "('r, 't) reg_env \<Rightarrow> string \<Rightarrow> string \<Rightarrow> 'r register_error \<Rightarrow> radio_error" where
  "efuse_error env code what error =
     radio_error_new code (what @ '' failed: '' @ show_register_error (re_show_rusb env) error)"

definition efuse_power_switch_read :: "('r, 't) reg_env \<Rightarrow> bool \<Rightarrow> ('t, unit) reg_op" where
  "efuse_power_switch_read env enabled =
     (let grant = (if enabled then EFUSE_ACCESS_ON_JAGUAR else EFUSE_ACCESS_OFF_JAGUAR);
          switch_failed = efuse_error env ''efuse_power_switch_failed''
      in
      and_do (write8_with_custom_error env REG_EFUSE_BURN_GNT_8812 grant
               (switch_failed (''write REG_EFUSE_BURN_GNT_8812=0x'' @ show_hex 2 (unat grant))))
     (if enabled
      then
        and_then (read16_with_custom_error env REG_SYS_ISO_CTRL (switch_failed ''read REG_SYS_ISO_CTRL'')) (\<lambda>_.
        and_then (read16_with_custom_error env REG_SYS_FUNC_EN (switch_failed ''read REG_SYS_FUNC_EN'')) (\<lambda>sys_func.
        and_do (if sys_func AND FEN_ELDR = 0
                then write16_with_custom_error env REG_SYS_FUNC_EN (sys_func OR FEN_ELDR)
                       (switch_failed ''enable FEN_ELDR'')
                else ret ())
       (and_then (read16_with_custom_error env REG_SYS_CLKR (switch_failed ''read REG_SYS_CLKR'')) (\<lambda>sys_clkr.
        let required = LOADER_CLK_EN OR ANA8M in
        if sys_clkr AND required \<noteq> required
        then write16_with_custom_error env REG_SYS_CLKR (sys_clkr OR required)
               (switch_failed ''enable EFUSE loader clock'')
        else ret ()))))
      else ret ()))"

text \<open>The loop \<open>for attempt in 1..=poll_attempts\<close> with \<open>n\<close> attempts left.\<close>

fun efuse_poll :: "('r, 't) reg_env \<Rightarrow> u16 \<Rightarrow> u32 \<Rightarrow> nat \<Rightarrow> nat \<Rightarrow> ('t, u8) reg_op" where
  "efuse_poll env address poll_attempts poll_delay 0 =
     and_then (as_value (read8_with_counter env (REG_EFUSE_CTRL + 3) ''REG_EFUSE_CTRL+3'' ''timeout-status'')) (\<lambda>r.
     let status = (case r of Inr v \<Rightarrow> v | Inl _ \<Rightarrow> 0) in
     fail (radio_error_new ''efuse_read_timeout''
       (''EFUSE byte 0x'' @ show_hex 3 (unat address) @ '' did not become ready after '' @
        show_nat (unat poll_attempts) @ '' polls; REG_EFUSE_CTRL+3=0x'' @ show_hex 2 (unat status))))"
| "efuse_poll env address poll_attempts poll_delay (Suc n) =
     (let at = '' for 0x'' @ show_hex 3 (unat address) in
      and_then (read8_with_custom_error env (REG_EFUSE_CTRL + 3)
                 (efuse_error env ''efuse_read_failed'' (''poll EFUSE ready'' @ at))) (\<lambda>status.
      if status AND 0x80 \<noteq> 0
      then read8_with_custom_error env REG_EFUSE_CTRL
             (efuse_error env ''efuse_read_failed'' (''read EFUSE data byte'' @ at))
      else and_do (if 0 < n then sleep env poll_delay else ret ())
             (efuse_poll env address poll_attempts poll_delay n)))"

definition efuse_read_byte :: "('r, 't) reg_env \<Rightarrow> u16 \<Rightarrow> u32 \<Rightarrow> nat \<Rightarrow> ('t, u8) reg_op" where
  "efuse_read_byte env address poll_attempts poll_delay =
     (let at = '' for 0x'' @ show_hex 3 (unat address); read_failed = efuse_error env ''efuse_read_failed'' in
      and_do (write8_with_custom_error env (REG_EFUSE_CTRL + 1) (ucast (address AND 0x00ff))
               (read_failed (''write EFUSE address low byte'' @ at)))
     (and_then (read8_with_custom_error env (REG_EFUSE_CTRL + 2)
                 (read_failed (''read EFUSE address high latch'' @ at))) (\<lambda>high.
      and_do (write8_with_custom_error env (REG_EFUSE_CTRL + 2)
               (ucast (drop_bit 8 address AND 0x03) OR (high AND 0xfc))
               (read_failed (''write EFUSE address high byte'' @ at)))
     (and_then (read8_with_custom_error env (REG_EFUSE_CTRL + 3)
                 (read_failed (''read EFUSE command latch'' @ at))) (\<lambda>command.
      and_do (write8_with_custom_error env (REG_EFUSE_CTRL + 3) (command AND 0x7f)
               (read_failed (''start EFUSE read'' @ at)))
      (efuse_poll env address poll_attempts poll_delay (unat poll_attempts)))))))"

text \<open>The read loop stops at the first error and remembers it.\<close>

fun efuse_read_loop ::
    "('r, 't) reg_env \<Rightarrow> efuse_read_config \<Rightarrow> nat list \<Rightarrow> bytes \<Rightarrow> ('t, bytes \<times> radio_error option) reg_op" where
  "efuse_read_loop env config [] raw = ret (raw, None)"
| "efuse_read_loop env config (address # addresses) raw =
     and_then (as_value (efuse_read_byte env (of_nat address) (erc_poll_attempts config) (erc_poll_delay config))) (\<lambda>r.
       case r of
         Inr byte \<Rightarrow> efuse_read_loop env config addresses (raw @ [byte])
       | Inl error \<Rightarrow> ret (raw, Some error))"

definition read_rtl8812au_efuse_physical_with_config ::
    "('r, 't) reg_env \<Rightarrow> efuse_read_config \<Rightarrow> ('t, bytes) reg_op" where
  "read_rtl8812au_efuse_physical_with_config env config =
     (if RTL8812AU_EFUSE_REAL_CONTENT_LEN < erc_length config
      then fail (radio_error_new ''efuse_read_invalid_length''
             (''EFUSE read length must be in 0..='' @ show_nat RTL8812AU_EFUSE_REAL_CONTENT_LEN @ ''; got '' @
              show_nat (erc_length config)))
      else
        and_do (efuse_power_switch_read env True)
       (and_then (efuse_read_loop env config [0..<erc_length config] []) (\<lambda>(raw, read_error).
        and_then (as_value (efuse_power_switch_read env False)) (\<lambda>power_off.
        case read_error of
          Some error \<Rightarrow> fail error
        | None \<Rightarrow> and_do (of_result power_off) (ret raw)))))"

definition read_rtl8812au_efuse_mac_address_with_config ::
    "('r, 't) reg_env \<Rightarrow> efuse_read_config \<Rightarrow> ('t, bytes option) reg_op" where
  "read_rtl8812au_efuse_mac_address_with_config env config =
     and_then (read_rtl8812au_efuse_physical_with_config env config) (\<lambda>raw.
     let logical_map = rtl8812au_decode_efuse_logical_map raw in
     ret (rtl8812au_efuse_logical_mac_address logical_map))"

definition read_rtl8812au_efuse_mac_address :: "('r, 't) reg_env \<Rightarrow> ('t, bytes option) reg_op" where
  "read_rtl8812au_efuse_mac_address env =
     read_rtl8812au_efuse_mac_address_with_config env efuse_read_config_default"

section \<open>Programming the address\<close>

record mac_address_execution =
  mae_before :: bytes
  mae_written :: bytes
  mae_after :: bytes
  mae_register_writes :: nat
  mae_counters :: radio_counters

definition read_rtl8812au_macid :: "('r, 't) reg_env \<Rightarrow> string \<Rightarrow> ('t, bytes) reg_op" where
  "read_rtl8812au_macid env phase =
     for_each [0..<6] (\<lambda>offset mac.
       let address = REG_MACID + of_nat offset in
       and_then (read8_with_custom_error env address (\<lambda>error. radio_error_new ''register_read_failed''
           (''REG_MACID '' @ phase @ '' byte read failed at '' @ format_register_address address @ '': '' @
            show_register_error (re_show_rusb env) error))) (\<lambda>v.
       ret (mac[offset := v]))) (replicate 6 0)"

definition program_rtl8812au_local_mac :: "('r, 't) reg_env \<Rightarrow> bytes \<Rightarrow> ('t, mac_address_execution) reg_op" where
  "program_rtl8812au_local_mac env local_mac =
     and_then current_counters (\<lambda>before_counters.
     and_then (read_rtl8812au_macid env ''pre-local-MAC'') (\<lambda>before.
     and_then (for_each (List.enumerate 0 local_mac) (\<lambda>(offset, v) register_writes.
       let address = REG_MACID + of_nat offset in
       and_do (write8_with_custom_error env address v (\<lambda>error. radio_error_new ''register_write_failed''
           (''REG_MACID local MAC byte write failed at '' @ format_register_address address @ '': '' @
            show_register_error (re_show_rusb env) error)))
       (ret (register_writes + 1))) 0) (\<lambda>register_writes.
     and_then (read_rtl8812au_macid env ''post-local-MAC'') (\<lambda>after.
     and_then current_counters (\<lambda>counters.
     ret \<lparr>mae_before = before, mae_written = local_mac, mae_after = after, mae_register_writes = register_writes,
          mae_counters = counters_saturating_sub counters before_counters\<rparr>)))))"

fun join_strings :: "string \<Rightarrow> string list \<Rightarrow> string" where
  "join_strings separator [] = []"
| "join_strings separator [x] = x"
| "join_strings separator (x # y # xs) = x @ separator @ join_strings separator (y # xs)"

definition format_mac_address :: "bytes \<Rightarrow> string" where
  "format_mac_address mac = join_strings '':'' (map (\<lambda>byte. show_hex 2 (unat byte)) mac)"

definition production_program_efuse_macid :: "('r, 't) reg_env \<Rightarrow> ('t, string) reg_op" where
  "production_program_efuse_macid env =
     and_then (read_rtl8812au_efuse_mac_address env) (\<lambda>found.
       case found of
         Some mac \<Rightarrow>
           and_then (program_rtl8812au_local_mac env mac) (\<lambda>report.
           ret (''programmed REG_MACID from EFUSE MAC '' @ format_mac_address (mae_written report) @
                '' (was '' @ format_mac_address (mae_before report) @ '')''))
       | None \<Rightarrow>
           ret ''EFUSE did not contain a programmed MAC address; REG_MACID left unchanged'')"

end
