(* ===== verification/Init_Phases.thy ===== *)
theory Init_Phases
  imports Channel_Setup Mac_Address
begin

text \<open>
  The initialisation of the adapter in one session (\<open>wfb-radio-runtime/src/lib.rs\<close>): the late
  transmit scheduler writes, monitor mode, the dispatch of the production phases, their order, and
  the loop that stops at the first phase that fails.
\<close>

section \<open>Late transmit scheduler writes and monitor mode\<close>

datatype init_phase =
    PowerOn | FirmwarePhase | Llt | MacTable | QueueDma | MacPhase | MacAddr | Bb | Rf
  | RfCalibrationBeforeChannel | ChannelPhase | RfCalibrationAfterChannel | TxSchedulerTail | RfCalibrationBeforeTx

record phase_execution =
  pe_phase :: init_phase
  pe_register_writes :: nat
  pe_counters :: radio_counters

definition RTL8812AU_TX_SCHEDULER_TAIL_U8_WRITES :: "(u16 \<times> u8 \<times> string) list" where
  "RTL8812AU_TX_SCHEDULER_TAIL_U8_WRITES =
     [(REG_FWHW_TXQ_CTRL + 1, 0x0f, ''REG_FWHW_TXQ_CTRL+1''),
      (REG_EARLY_MODE_CONTROL_8812 + 3, 0x01, ''REG_EARLY_MODE_CONTROL_8812+3''),
      (REG_SDIO_CTRL_8812, 0x00, ''REG_SDIO_CTRL_8812''),
      (REG_ACLK_MON, 0x00, ''REG_ACLK_MON''),
      (REG_USB_HRPWM, 0x00, ''REG_USB_HRPWM''),
      (REG_NAV_UPPER, 0x00, ''REG_NAV_UPPER'')]"

definition run_rtl8812au_tx_scheduler_tail :: "('r, 't) reg_env \<Rightarrow> ('t, phase_execution) reg_op" where
  "run_rtl8812au_tx_scheduler_tail env =
     and_then current_counters (\<lambda>before_counters.
     and_then (read8_with_counter env REG_QUEUE_CTRL ''REG_QUEUE_CTRL'' ''pre-tail'') (\<lambda>queue_ctrl.
     and_do (write8_with_counter env REG_QUEUE_CTRL (queue_ctrl AND NOT BIT3) ''REG_QUEUE_CTRL'' ''late TX scheduler'')
    (and_then (for_each RTL8812AU_TX_SCHEDULER_TAIL_U8_WRITES (\<lambda>(address, v, name) register_writes.
       and_do (write8_with_counter env address v name ''late TX scheduler'') (ret (register_writes + 1))) 1)
       (\<lambda>register_writes.
     and_do (write16_with_counter env REG_TX_RPT_TIME 0x3df0 ''REG_TX_RPT_TIME'' ''late TX scheduler'')
    (and_then current_counters (\<lambda>counters.
     ret \<lparr>pe_phase = TxSchedulerTail, pe_register_writes = register_writes + 1,
          pe_counters = counters_saturating_sub counters before_counters\<rparr>))))))"

record receive_filter_execution =
  rfx_rcr_written :: u32
  rfx_rcr_after :: u32
  rfx_rxfltmap2_written :: u16
  rfx_rxfltmap2_after :: u16
  rfx_register_writes :: nat

record monitor_opmode_execution =
  mox_msr_before :: u8
  mox_msr_written :: u8
  mox_msr_after :: u8
  mox_filter :: receive_filter_execution
  mox_register_writes :: nat
  mox_counters :: radio_counters

definition run_monitor_receive_filter_registers ::
    "('r, 't) reg_env \<Rightarrow> string \<Rightarrow> ('t, receive_filter_execution) reg_op" where
  "run_monitor_receive_filter_registers env phase =
     and_do (write32_with_counter env REG_RCR MONITOR_RECEIVE_CONFIG ''REG_RCR'' ''monitor receive config'')
    (and_then (read32_with_counter env REG_RCR ''REG_RCR'' phase) (\<lambda>rcr_after.
     and_do (write16_with_counter env REG_RXFLTMAP2 (- 1) ''REG_RXFLTMAP2'' ''monitor receive map'')
    (and_then (read16_with_counter env REG_RXFLTMAP2 ''REG_RXFLTMAP2'' phase) (\<lambda>rxfltmap2_after.
     ret \<lparr>rfx_rcr_written = MONITOR_RECEIVE_CONFIG, rfx_rcr_after = rcr_after, rfx_rxfltmap2_written = - 1,
          rfx_rxfltmap2_after = rxfltmap2_after, rfx_register_writes = 2\<rparr>))))"

definition run_rtl8812au_monitor_opmode :: "('r, 't) reg_env \<Rightarrow> ('t, monitor_opmode_execution) reg_op" where
  "run_rtl8812au_monitor_opmode env =
     and_then current_counters (\<lambda>before_counters.
     and_then (read8_with_counter env REG_MSR ''REG_MSR'' ''pre-monitor-opmode'') (\<lambda>msr_before.
     let msr_written = msr_before AND NOT MSR_PORT0_NETTYPE_MASK in
     and_do (write8_with_counter env REG_MSR msr_written ''REG_MSR'' ''monitor/no-link'')
    (and_then (read8_with_counter env REG_MSR ''REG_MSR'' ''post-monitor-opmode'') (\<lambda>msr_after.
     and_then (run_monitor_receive_filter_registers env ''post-monitor-opmode'') (\<lambda>monitor_filter.
     and_then current_counters (\<lambda>counters.
     ret \<lparr>mox_msr_before = msr_before, mox_msr_written = msr_written, mox_msr_after = msr_after,
          mox_filter = monitor_filter, mox_register_writes = 1 + rfx_register_writes monitor_filter,
          mox_counters = counters_saturating_sub counters before_counters\<rparr>))))))"

definition run_rtl8812au_monitor_receive_filter :: "('r, 't) reg_env \<Rightarrow> ('t, monitor_opmode_execution) reg_op" where
  "run_rtl8812au_monitor_receive_filter env =
     and_then current_counters (\<lambda>before_counters.
     and_then (read8_with_counter env REG_MSR ''REG_MSR'' ''pre-monitor-filter'') (\<lambda>msr_before.
     and_then (run_monitor_receive_filter_registers env ''post-monitor-filter'') (\<lambda>monitor_filter.
     and_then current_counters (\<lambda>counters.
     ret \<lparr>mox_msr_before = msr_before, mox_msr_written = msr_before, mox_msr_after = msr_before,
          mox_filter = monitor_filter, mox_register_writes = rfx_register_writes monitor_filter,
          mox_counters = counters_saturating_sub counters before_counters\<rparr>))))"

section \<open>The state of the production phases\<close>

datatype init_order = OrderDefault | OrderLinux

record init_inputs =
  ii_firmware_image :: firmware_image
  ii_mac_plan :: realtek_table_plan
  ii_phy_plan :: realtek_table_plan
  ii_agc_plan :: realtek_table_plan
  ii_radioa_plan :: realtek_table_plan
  ii_radiob_plan :: realtek_table_plan
  ii_init_order :: init_order
  ii_rfe_type :: u8
  ii_init_timeout :: nat

record init_state =
  ist_inputs :: init_inputs
  ist_channel :: channel
  ist_bandwidth :: bandwidth
  ist_firmware_payload_offset :: nat
  ist_firmware_signature :: "u16 option"
  ist_firmware_payload_bytes :: bytes
  ist_llt_entries_written :: u64
  ist_queue_layout :: "queue_layout option"
  ist_phy_writes_applied :: nat
  ist_agc_writes_applied :: nat
  ist_radioa_writes_applied :: nat
  ist_radiob_writes_applied :: nat
  ist_table_delays_applied :: nat

definition init_state_new :: "init_inputs \<Rightarrow> channel \<Rightarrow> bandwidth \<Rightarrow> init_state" where
  "init_state_new inputs channel bandwidth =
     (let payload = realtek_download_payload (ii_firmware_image inputs)
      in \<lparr>ist_inputs = inputs, ist_channel = channel, ist_bandwidth = bandwidth,
          ist_firmware_payload_offset = fp_offset payload, ist_firmware_signature = fp_signature payload,
          ist_firmware_payload_bytes = fp_bytes payload, ist_llt_entries_written = 0, ist_queue_layout = None,
          ist_phy_writes_applied = 0, ist_agc_writes_applied = 0, ist_radioa_writes_applied = 0,
          ist_radiob_writes_applied = 0, ist_table_delays_applied = 0\<rparr>)"

text \<open>
  A step that updates the state gives its result and the state it leaves, whether or not it
  fails.
\<close>

type_synonym ('t, 'a) init_op = "('t, (radio_error, 'a) result \<times> init_state) reg_op"

definition production_bb_sequence :: "('r, 't) reg_env \<Rightarrow> init_state \<Rightarrow> ('t, u64) init_op" where
  "production_bb_sequence env state =
     (let phase = ''bb''; enable = FEN_USBA OR FEN_BB_GLB_RSTN OR FEN_BBRSTB in
      and_then (as_value
        (and_do (production_preflight_firmware env ''BB programming'')
        (and_then control_writes (\<lambda>before_writes.
         and_do (run_all
           [production_rmw8_preserve env ''REG_SYS_FUNC_EN'' REG_SYS_FUNC_EN (NOT FEN_USBA) FEN_USBA FEN_USBA phase,
            production_rmw8_preserve env ''REG_SYS_FUNC_EN'' REG_SYS_FUNC_EN (NOT enable) enable enable phase,
            production_write8_verify env ''REG_RF_CTRL'' REG_RF_CTRL 0x07 (- 1) 0x07 phase,
            production_write8_verify env ''REG_RF_B_CTRL_8812'' REG_RF_B_CTRL_8812 0x07 (- 1) 0x07 phase])
        (and_then (production_run_bb_table_plan env (ii_phy_plan (ist_inputs state))) (\<lambda>(phy_writes, phy_delays).
         and_then (production_run_bb_table_plan env (ii_agc_plan (ist_inputs state))) (\<lambda>(agc_writes, agc_delays).
         ret (before_writes, phy_writes, phy_delays, agc_writes, agc_delays))))))))
      (\<lambda>r. case r of
         Inl e \<Rightarrow> ret (Inl e, state)
       | Inr (before_writes, phy_writes, phy_delays, agc_writes, agc_delays) \<Rightarrow>
           let state = state\<lparr>ist_phy_writes_applied := phy_writes, ist_agc_writes_applied := agc_writes,
             ist_table_delays_applied := ist_table_delays_applied state + phy_delays + agc_delays\<rparr> in
           and_then (as_value
             (and_do (production_bb_masked_write32 env ''REG_MAC_PHY_CTRL'' REG_MAC_PHY_CTRL RTL8812_CRYSTAL_CAP_MASK
                       (0x20 OR push_bit 6 0x20) ''bb-crystal-cap'')
              (writes_since before_writes)))
           (\<lambda>r. ret (r, state))))"

definition production_rf_sequence :: "('r, 't) reg_env \<Rightarrow> init_state \<Rightarrow> ('t, u64) init_op" where
  "production_rf_sequence env state =
     and_then (as_value
       (and_do (production_rf_preflight env)
       (and_then control_writes (\<lambda>before_writes.
        and_then (production_run_rf_table_plan env (ii_radioa_plan (ist_inputs state))) (\<lambda>(radioa_writes, radioa_delays).
        and_then (production_run_rf_table_plan env (ii_radiob_plan (ist_inputs state))) (\<lambda>(radiob_writes, radiob_delays).
        and_then (writes_since before_writes) (\<lambda>writes.
        ret (writes, radioa_writes, radioa_delays, radiob_writes, radiob_delays))))))))
     (\<lambda>r. case r of
        Inl e \<Rightarrow> ret (Inl e, state)
      | Inr (writes, radioa_writes, radioa_delays, radiob_writes, radiob_delays) \<Rightarrow>
          ret (Inr writes, state\<lparr>ist_radioa_writes_applied := radioa_writes, ist_radiob_writes_applied := radiob_writes,
            ist_table_delays_applied := ist_table_delays_applied state + radioa_delays + radiob_delays\<rparr>))"

text \<open>A phase that leaves the state alone; its value is the detail text and the write count.\<close>

definition stateless :: "init_state \<Rightarrow> ('a \<Rightarrow> string \<times> u64 option) \<Rightarrow> ('t, 'a) reg_op \<Rightarrow> ('t, string \<times> u64 option) init_op" where
  "stateless state detail m = and_then (as_value m) (\<lambda>r. ret (map_sum id detail r, state))"

definition show_signature :: "u16 option \<Rightarrow> string" where
  "show_signature signature = (case signature of Some v \<Rightarrow> format_register_value v 4 | None \<Rightarrow> ''n/a'')"

definition show_u :: "'a::len word \<Rightarrow> string" where
  "show_u w = show_nat (unat w)"

definition firmware_detail :: "init_state \<Rightarrow> firmware_stats \<Rightarrow> string \<times> u64 option" where
  "firmware_detail state stats =
     (''downloaded '' @ show_u (fst_bytes_written stats) @ '' payload bytes from offset '' @
      show_nat (ist_firmware_payload_offset state) @ '' signature '' @ show_signature (ist_firmware_signature state) @
      '' in '' @ show_u (fst_control_writes stats) @ '' control writes; checksum ready after '' @
      show_u (fst_checksum_poll_attempts stats) @ '' polls, firmware ready after '' @
      show_u (fst_ready_poll_attempts stats) @ '' polls'',
      Some (fst_control_writes stats))"

definition queue_dma_phase :: "('r, 't) reg_env \<Rightarrow> usb_endpoints \<Rightarrow> init_state \<Rightarrow> ('t, string \<times> u64 option) init_op" where
  "queue_dma_phase env endpoints state =
     (case production_queue_layout_from_endpoints endpoints of
        Inl error \<Rightarrow> ret (Inl error, state)
      | Inr layout \<Rightarrow>
          stateless (state\<lparr>ist_queue_layout := Some layout\<rparr>) (\<lambda>writes.
            (''programmed queue/DMA layout for '' @ show_nat (ql_bulk_out_endpoint_count layout) @
             '' bulk OUT endpoints (HPQ='' @ show_u (ql_hpq layout) @ '', LPQ='' @ show_u (ql_lpq layout) @
             '', NPQ='' @ show_u (ql_npq layout) @ '', PUBQ='' @ show_u (ql_pubq layout) @ '')'', Some writes))
            (production_queue_dma_sequence env layout))"

definition calibration_skipped :: "string \<times> u64 option" where
  "calibration_skipped = (''skipped diagnostic-only RF calibration probe in direct production runtime path'', Some 0)"

fun production_phase ::
    "('r, 't) reg_env \<Rightarrow> usb_endpoints \<Rightarrow> init_state \<Rightarrow> init_phase \<Rightarrow> ('t, string \<times> u64 option) init_op" where
  "production_phase env endpoints state PowerOn =
     stateless state (\<lambda>writes. (''completed '' @ show_u writes @ '' power-on/RF-reset writes'', Some writes))
       (production_power_on_sequence env)"
| "production_phase env endpoints state FirmwarePhase =
     stateless state (firmware_detail state) (production_firmware_sequence env (ist_firmware_payload_bytes state))"
| "production_phase env endpoints state Llt =
     and_then (as_value (production_llt_sequence env)) (\<lambda>r. case r of
         Inl e \<Rightarrow> ret (Inl e, state)
       | Inr entries \<Rightarrow> ret (Inr (''wrote '' @ show_u entries @ '' LLT entries'', Some entries),
           state\<lparr>ist_llt_entries_written := entries\<rparr>))"
| "production_phase env endpoints state MacTable =
     stateless state (\<lambda>writes. (''applied '' @ show_nat writes @ '' generated MAC register writes'', Some (of_nat writes)))
       (production_apply_mac_table_plan env (ii_mac_plan (ist_inputs state)))"
| "production_phase env endpoints state QueueDma = queue_dma_phase env endpoints state"
| "production_phase env endpoints state MacPhase =
     stateless state (\<lambda>writes. (''completed '' @ show_u writes @ '' MAC/WMAC setup writes'', Some writes))
       (production_mac_sequence env)"
| "production_phase env endpoints state MacAddr =
     stateless state (\<lambda>detail. (detail, None)) (production_program_efuse_macid env)"
| "production_phase env endpoints state Bb =
     and_then (production_bb_sequence env state) (\<lambda>(r, state). ret (map_sum id (\<lambda>writes.
       (''applied '' @ show_nat (ist_phy_writes_applied state) @ '' PHY writes, '' @
        show_nat (ist_agc_writes_applied state) @ '' AGC writes, and '' @
        show_nat (ist_table_delays_applied state) @ '' delays'', Some writes)) r, state))"
| "production_phase env endpoints state Rf =
     and_then (production_rf_sequence env state) (\<lambda>(r, state). ret (map_sum id (\<lambda>writes.
       (''applied '' @ show_nat (ist_radioa_writes_applied state) @ '' radioA writes, '' @
        show_nat (ist_radiob_writes_applied state) @ '' radioB writes'', Some writes)) r, state))"
| "production_phase env endpoints state ChannelPhase =
     stateless state (\<lambda>writes.
       (''programmed channel '' @ show_u (ch_number (ist_channel state)) @ '' ('' @
        show_u (ch_frequency_mhz (ist_channel state)) @ '' MHz, '' @ show_u (mhz (ist_bandwidth state)) @
        '' MHz bandwidth, RFE type '' @ format_register_value (ii_rfe_type (ist_inputs state)) 2 @ '') in '' @
        show_u writes @ '' writes'', Some writes))
       (production_channel_sequence env (ist_channel state) (ist_bandwidth state) (ii_rfe_type (ist_inputs state))
         (ii_radioa_plan (ist_inputs state)) (ii_radiob_plan (ist_inputs state)))"
| "production_phase env endpoints state TxSchedulerTail =
     stateless state (\<lambda>execution.
       (''applied '' @ show_nat (pe_register_writes execution) @ '' late Linux USB TX scheduler writes'',
        Some (of_nat (pe_register_writes execution))))
       (run_rtl8812au_tx_scheduler_tail env)"
| "production_phase env endpoints state RfCalibrationBeforeChannel = ret (Inr calibration_skipped, state)"
| "production_phase env endpoints state RfCalibrationAfterChannel = ret (Inr calibration_skipped, state)"
| "production_phase env endpoints state RfCalibrationBeforeTx = ret (Inr calibration_skipped, state)"

section \<open>Phase summaries\<close>

datatype phase_status = PhaseCompleted | PhaseBlocked

record phase_summary =
  ps_phase :: init_phase
  ps_status :: phase_status
  ps_detail :: string
  ps_register_writes :: "u64 option"
  ps_counters :: radio_counters

definition summary_completed :: "init_phase \<Rightarrow> string \<Rightarrow> radio_counters \<Rightarrow> radio_counters \<Rightarrow> phase_summary" where
  "summary_completed phase detail before after =
     \<lparr>ps_phase = phase, ps_status = PhaseCompleted, ps_detail = detail, ps_register_writes = None,
      ps_counters = counters_saturating_sub after before\<rparr>"

definition completed_with_writes ::
    "init_phase \<Rightarrow> string \<Rightarrow> u64 \<Rightarrow> radio_counters \<Rightarrow> radio_counters \<Rightarrow> phase_summary" where
  "completed_with_writes phase detail register_writes before after =
     (summary_completed phase detail before after)\<lparr>ps_register_writes := Some register_writes\<rparr>"

definition summary_blocked :: "init_phase \<Rightarrow> string \<Rightarrow> radio_counters \<Rightarrow> radio_counters \<Rightarrow> phase_summary" where
  "summary_blocked phase detail before after =
     \<lparr>ps_phase = phase, ps_status = PhaseBlocked, ps_detail = detail, ps_register_writes = None,
      ps_counters = counters_saturating_sub after before\<rparr>"

record phase_failure =
  pf_summary :: phase_summary
  pf_error :: radio_error

definition run_rtl8812au_production_init_phase ::
    "('r, 't) reg_env \<Rightarrow> usb_endpoints \<Rightarrow> init_phase \<Rightarrow> init_state \<Rightarrow>
     ('t, (phase_failure, phase_summary) result \<times> init_state) reg_op" where
  "run_rtl8812au_production_init_phase env endpoints phase state =
     and_then current_counters (\<lambda>before.
     and_then (production_phase env endpoints state phase) (\<lambda>(result, state).
     and_then current_counters (\<lambda>after.
     ret (case result of
            Inr (detail, Some writes) \<Rightarrow> Inr (completed_with_writes phase detail writes before after)
          | Inr (detail, None) \<Rightarrow> Inr (summary_completed phase detail before after)
          | Inl error \<Rightarrow> Inl \<lparr>pf_summary = summary_blocked phase (re_message error) before after, pf_error = error\<rparr>,
          state))))"

section \<open>The order of the phases\<close>

definition RTL8812AU_DEFAULT_SAME_SESSION_INIT_SEQUENCE :: "init_phase list" where
  "RTL8812AU_DEFAULT_SAME_SESSION_INIT_SEQUENCE =
     [PowerOn, FirmwarePhase, Llt, MacTable, QueueDma, MacPhase, MacAddr, Bb, Rf, RfCalibrationBeforeChannel,
      ChannelPhase, RfCalibrationAfterChannel, TxSchedulerTail, RfCalibrationBeforeTx]"

definition RTL8812AU_LINUX_SAME_SESSION_INIT_SEQUENCE :: "init_phase list" where
  "RTL8812AU_LINUX_SAME_SESSION_INIT_SEQUENCE =
     [PowerOn, Llt, FirmwarePhase, MacTable, QueueDma, MacPhase, MacAddr, Bb, Rf, RfCalibrationBeforeChannel,
      ChannelPhase, RfCalibrationAfterChannel, TxSchedulerTail, RfCalibrationBeforeTx]"

fun rtl8812au_same_session_init_sequence :: "init_order \<Rightarrow> init_phase list" where
  "rtl8812au_same_session_init_sequence OrderDefault = RTL8812AU_DEFAULT_SAME_SESSION_INIT_SEQUENCE"
| "rtl8812au_same_session_init_sequence OrderLinux = RTL8812AU_LINUX_SAME_SESSION_INIT_SEQUENCE"

definition rtl8812au_llt_firmware_sequence :: "init_order \<Rightarrow> init_phase list" where
  "rtl8812au_llt_firmware_sequence order = byte_slice 1 3 (rtl8812au_same_session_init_sequence order)"

section \<open>Calibration\<close>

datatype tx_calibration_profile =
  CurrentDefault | LinuxParityCh36Ht20 | Rtl8812aLck | Rtl8812aIqkProbe | Rtl8812aRuntimeIqk

datatype tx_calibration_class = ClassUnknown | StopGapCaptured | TargetedLinuxParity | RuntimeApproximation

datatype calibration_evidence_source =
  EvidenceDefault | CapturedLinuxTail | TargetedLinuxParityCapture | RuntimeLck | ReadOnlyIqkProbe | RuntimeIqk

datatype calibration_validation_status = ValidationNotRequired | ReceiverBackedValidationRequired

record calibration_decision =
  cd_profile :: tx_calibration_profile
  cd_class :: tx_calibration_class
  cd_evidence_source :: calibration_evidence_source
  cd_requires_live_write_authorization :: bool
  cd_authorized :: bool
  cd_validation_status :: calibration_validation_status
  cd_production_safe_default :: bool

fun profile_name :: "tx_calibration_profile \<Rightarrow> string" where
  "profile_name CurrentDefault = ''current-default''"
| "profile_name LinuxParityCh36Ht20 = ''linux-parity-ch36-ht20''"
| "profile_name Rtl8812aLck = ''rtl8812a-lck''"
| "profile_name Rtl8812aIqkProbe = ''rtl8812a-iqk-probe''"
| "profile_name Rtl8812aRuntimeIqk = ''rtl8812a-runtime-iqk''"

definition profile_is_default :: "tx_calibration_profile \<Rightarrow> bool" where
  "profile_is_default self \<longleftrightarrow> self = CurrentDefault"

definition requires_register_write_authorization :: "tx_calibration_profile \<Rightarrow> bool" where
  "requires_register_write_authorization self \<longleftrightarrow>
     self = LinuxParityCh36Ht20 \<or> self = Rtl8812aLck \<or> self = Rtl8812aRuntimeIqk"

fun before_tx_class :: "tx_calibration_profile \<Rightarrow> bool \<Rightarrow> tx_calibration_class" where
  "before_tx_class LinuxParityCh36Ht20 captured_tail_applied = TargetedLinuxParity"
| "before_tx_class Rtl8812aLck captured_tail_applied = RuntimeApproximation"
| "before_tx_class Rtl8812aRuntimeIqk captured_tail_applied = RuntimeApproximation"
| "before_tx_class CurrentDefault captured_tail_applied =
     (if captured_tail_applied then StopGapCaptured else ClassUnknown)"
| "before_tx_class Rtl8812aIqkProbe captured_tail_applied =
     (if captured_tail_applied then StopGapCaptured else ClassUnknown)"

fun evidence_source :: "tx_calibration_profile \<Rightarrow> bool \<Rightarrow> calibration_evidence_source" where
  "evidence_source CurrentDefault captured_tail_applied =
     (if captured_tail_applied then CapturedLinuxTail else EvidenceDefault)"
| "evidence_source LinuxParityCh36Ht20 captured_tail_applied = TargetedLinuxParityCapture"
| "evidence_source Rtl8812aLck captured_tail_applied = RuntimeLck"
| "evidence_source Rtl8812aIqkProbe captured_tail_applied = ReadOnlyIqkProbe"
| "evidence_source Rtl8812aRuntimeIqk captured_tail_applied = RuntimeIqk"

definition validation_status :: "tx_calibration_profile \<Rightarrow> calibration_validation_status" where
  "validation_status self = (if profile_is_default self then ValidationNotRequired else ReceiverBackedValidationRequired)"

definition calibration_decision_of :: "tx_calibration_profile \<Rightarrow> bool \<Rightarrow> bool \<Rightarrow> calibration_decision" where
  "calibration_decision_of self captured_tail_applied authorized =
     \<lparr>cd_profile = self, cd_class = before_tx_class self captured_tail_applied,
      cd_evidence_source = evidence_source self captured_tail_applied,
      cd_requires_live_write_authorization = requires_register_write_authorization self,
      cd_authorized = authorized, cd_validation_status = validation_status self,
      cd_production_safe_default = profile_is_default self\<rparr>"

definition profile_calibration_decision ::
    "tx_calibration_profile \<Rightarrow> bool \<Rightarrow> bool \<Rightarrow> (radio_error, calibration_decision) result" where
  "profile_calibration_decision self captured_tail_applied authorized =
     (let requires_live_write_authorization = requires_register_write_authorization self in
      if requires_live_write_authorization \<and> \<not> authorized
      then Inl (radio_error_new ''missing_write_authorization''
             (''tx calibration profile '' @ profile_name self @
              '' writes live RTL8812A BB/RF calibration registers and requires hardware-write authorization''))
      else Inr (calibration_decision_of self captured_tail_applied authorized))"

section \<open>Initialisation in one session\<close>

record init_config =
  ic_init_order :: init_order
  ic_channel :: channel
  ic_bandwidth :: bandwidth
  ic_rfe_type :: u8
  ic_tx_calibration_profile :: tx_calibration_profile
  ic_live_write_authorized :: bool
  ic_captured_tail_applied :: bool

definition config_calibration_decision :: "init_config \<Rightarrow> (radio_error, calibration_decision) result" where
  "config_calibration_decision self =
     profile_calibration_decision (ic_tx_calibration_profile self) (ic_captured_tail_applied self)
       (ic_live_write_authorized self)"

datatype init_readiness = InitReady | InitFailed

record init_result =
  ir_config :: init_config
  ir_calibration :: calibration_decision
  ir_phase_summaries :: "phase_summary list"
  ir_counters :: radio_counters
  ir_readiness :: init_readiness

record init_failure =
  if_result :: init_result
  if_error :: radio_error

text \<open>
  The loop over the phases.  The phase runner is a parameter, as in the code, and threads a state
  of its own; \<open>summaries\<close> is what has been pushed so far.
\<close>

type_synonym ('t, 'st) phase_runner =
  "init_phase \<Rightarrow> 'st \<Rightarrow> ('t, (phase_failure, phase_summary) result \<times> 'st) reg_op"

fun run_phases ::
    "('t, 'st) phase_runner \<Rightarrow> init_phase list \<Rightarrow> 'st \<Rightarrow> phase_summary list \<Rightarrow>
     ('t, phase_summary list \<times> radio_error option \<times> 'st) reg_op" where
  "run_phases run_phase [] state summaries = ret (summaries, None, state)"
| "run_phases run_phase (phase # phases) state summaries =
     and_then (run_phase phase state) (\<lambda>(r, state). case r of
         Inr summary \<Rightarrow> run_phases run_phase phases state (summaries @ [summary])
       | Inl failure \<Rightarrow> ret (summaries @ [pf_summary failure], Some (pf_error failure), state))"

definition run_rtl8812au_same_session_init ::
    "('t, 'st) phase_runner \<Rightarrow> init_config \<Rightarrow> 'st \<Rightarrow> ('t, (init_failure, init_result) result \<times> 'st) reg_op" where
  "run_rtl8812au_same_session_init run_phase config state =
     (case config_calibration_decision config of
        Inl error \<Rightarrow>
          and_then current_counters (\<lambda>counters.
          let result = \<lparr>ir_config = config,
                 ir_calibration = calibration_decision_of (ic_tx_calibration_profile config)
                   (ic_captured_tail_applied config) (ic_live_write_authorized config),
                 ir_phase_summaries = [], ir_counters = counters, ir_readiness = InitFailed\<rparr>
          in ret (Inl \<lparr>if_result = result, if_error = error\<rparr>, state))
      | Inr calibration \<Rightarrow>
          and_then (run_phases run_phase (rtl8812au_same_session_init_sequence (ic_init_order config)) state [])
            (\<lambda>(phase_summaries, failed, state).
          and_then current_counters (\<lambda>counters.
          let result = (\<lambda>readiness. \<lparr>ir_config = config, ir_calibration = calibration,
                 ir_phase_summaries = phase_summaries, ir_counters = counters, ir_readiness = readiness\<rparr>)
          in ret (case failed of
                    Some error \<Rightarrow> Inl \<lparr>if_result = result InitFailed, if_error = error\<rparr>
                  | None \<Rightarrow> Inr (result InitReady), state))))"

definition run_rtl8812au_production_init ::
    "('r, 't) reg_env \<Rightarrow> usb_endpoints \<Rightarrow> init_inputs \<Rightarrow> channel \<Rightarrow> bandwidth \<Rightarrow> tx_calibration_profile \<Rightarrow> bool \<Rightarrow> bool \<Rightarrow>
     ('t, (init_failure, init_result) result \<times> init_state) reg_op" where
  "run_rtl8812au_production_init env endpoints inputs channel bandwidth tx_calibration_profile live_write_authorized
     captured_tail_applied =
     (let init_config = \<lparr>ic_init_order = ii_init_order inputs, ic_channel = channel, ic_bandwidth = bandwidth,
            ic_rfe_type = ii_rfe_type inputs, ic_tx_calibration_profile = tx_calibration_profile,
            ic_live_write_authorized = live_write_authorized, ic_captured_tail_applied = captured_tail_applied\<rparr>;
          init_state = init_state_new inputs channel bandwidth
      in run_rtl8812au_same_session_init (run_rtl8812au_production_init_phase env endpoints) init_config init_state)"

end
