(* ===== verification/Chip_Effects.thy ===== *)
theory Chip_Effects
  imports Init_Phases Firmware_Run
begin

text \<open>
  The chip set-up and the initialisation in one session: every step counts its control transfers,
  and every step returns.
\<close>

section \<open>Sequencing\<close>

lemma run_all_Nil [simp]: "run_all [] = ret ()"
  by (simp add: run_all_def)

lemma run_all_Cons [simp]: "run_all (m # ms) = and_do m (run_all ms)"
  by (simp add: run_all_def)

lemma accounted_run_all [accounted_intros]: "list_all (accounted trace) ms \<Longrightarrow> accounted trace (run_all ms)"
  by (induction ms) (auto intro: accounted_intros)

lemma accounted_list [accounted_intros]:
  "list_all (accounted trace) []"
  "accounted trace m \<Longrightarrow> list_all (accounted trace) ms \<Longrightarrow> list_all (accounted trace) (m # ms)"
  by simp_all

lemma accounted_op_map_err [accounted_intros]: "accounted trace m \<Longrightarrow> accounted trace (op_map_err f m)"
  by (fastforce simp: accounted_def op_map_err_def)

lemma accounted_current_counters [accounted_intros]: "accounted trace current_counters"
  by (simp add: accounted_def current_counters_def)

lemma accounted_case_option [accounted_intros]:
  "accounted trace m \<Longrightarrow> (\<And>x. accounted trace (f x)) \<Longrightarrow> accounted trace (case_option m f v)"
  by (cases v) simp_all

lemma accounted_case_sum_arg [accounted_intros]:
  "(\<And>e. accounted trace (f e x)) \<Longrightarrow> (\<And>y. accounted trace (g y x)) \<Longrightarrow> accounted trace (case_sum f g r x)"
  by (cases r) simp_all

lemma accounted_case_band [accounted_intros]:
  "accounted trace m \<Longrightarrow> accounted trace n \<Longrightarrow> accounted trace (case_band m n b)"
  by (cases b) simp_all

lemma accounted_case_action_kind [accounted_intros]:
  "accounted trace m \<Longrightarrow> accounted trace n \<Longrightarrow> accounted trace (case_realtek_table_action_kind m n k)"
  by (cases k) simp_all

lemma accounted_case_table_kind [accounted_intros]:
  "accounted trace a \<Longrightarrow> accounted trace b \<Longrightarrow> accounted trace c \<Longrightarrow> accounted trace d \<Longrightarrow> accounted trace e \<Longrightarrow>
     accounted trace (case_realtek_table_kind a b c d e k)"
  by (cases k) simp_all

lemma returns_run_all [returns_intros]: "list_all returns ms \<Longrightarrow> returns (run_all ms)"
  by (induction ms) (auto intro: returns_intros)

lemma returns_list [returns_intros]:
  "list_all returns []" "returns m \<Longrightarrow> list_all returns ms \<Longrightarrow> list_all returns (m # ms)"
  by simp_all

lemma returns_op_map_err [returns_intros]: "returns m \<Longrightarrow> returns (op_map_err f m)"
  by (simp add: returns_def op_map_err_def)

lemma returns_current_counters [returns_intros]: "returns current_counters"
  by (simp add: returns_def current_counters_def)

lemma returns_let [returns_intros]: "returns (f x) \<Longrightarrow> returns (let y = x in f y)"
  by simp

lemma returns_case_option [returns_intros]:
  "returns m \<Longrightarrow> (\<And>x. returns (f x)) \<Longrightarrow> returns (case_option m f v)"
  by (cases v) simp_all

lemma returns_case_band [returns_intros]: "returns m \<Longrightarrow> returns n \<Longrightarrow> returns (case_band m n b)"
  by (cases b) simp_all

lemma returns_case_action_kind [returns_intros]:
  "returns m \<Longrightarrow> returns n \<Longrightarrow> returns (case_realtek_table_action_kind m n k)"
  by (cases k) simp_all

lemma returns_case_table_kind [returns_intros]:
  "returns a \<Longrightarrow> returns b \<Longrightarrow> returns c \<Longrightarrow> returns d \<Longrightarrow> returns e \<Longrightarrow> returns (case_realtek_table_kind a b c d e k)"
  by (cases k) simp_all

section \<open>Every step returns\<close>

lemma returns_preflights [returns_intros]:
  "returns (production_preflight_firmware env label)" "returns (production_rf_preflight env)"
  unfolding production_preflight_firmware_def production_rf_preflight_def by (intro returns_intros)+

lemma returns_verify_readback [returns_intros]:
  "returns (production_verify8_readback env name a m e phase)"
  unfolding production_verify8_readback_def by (intro returns_intros)

lemma returns_mac_table [returns_intros]: "returns (production_apply_mac_table_plan env plan)"
  unfolding production_apply_mac_table_plan_def mac_table_action_def by (intro returns_intros)

lemma returns_mac [returns_intros]: "returns (production_mac_sequence env)"
  unfolding production_mac_sequence_def production_beacon_parameters_sequence_def
    production_usb_burst_packet_sequence_def usb_rxdma_pro_value_def
  by (intro returns_intros)

lemma returns_bb_set [returns_intros]: "returns (bb_set_bb_reg env a m d name)"
  unfolding bb_set_bb_reg_def by (intro returns_intros)

lemma returns_bb_write [returns_intros]: "returns (production_bb_masked_write32 env name a m d phase)"
  unfolding production_bb_masked_write32_def by (intro returns_intros)

lemma returns_bb_plan [returns_intros]: "returns (production_run_bb_table_plan env plan)"
  unfolding production_run_bb_table_plan_def bb_table_action_def table_delay_def by (intro returns_intros)

lemma returns_rf_write [returns_intros]: "returns (rf_serial_write_single_path env path a v)"
  unfolding rf_serial_write_single_path_def by (intro returns_intros)

lemma returns_rf_plan [returns_intros]: "returns (production_run_rf_table_plan env plan)"
  unfolding production_run_rf_table_plan_def rf_table_action_def table_delay_def by (intro returns_intros)

lemma returns_channel [returns_intros]:
  "returns (production_channel_sequence env channel bandwidth rfe_type radioa_plan radiob_plan)"
proof -
  have "returns (production_set_rfe_reg_8812 env band rfe_type)" for band
    unfolding production_set_rfe_reg_8812_def by (intro returns_intros)
  moreover have "returns (tx_packet_empty_loop env observed n)" for observed n
    by (induction n arbitrary: observed) (auto intro!: returns_intros)
  moreover have "returns (production_fix_spur_8812a env n bandwidth)" for n
    unfolding production_fix_spur_8812a_def by (intro returns_intros)
  ultimately show ?thesis
    unfolding production_channel_sequence_def production_switch_wireless_band_8812_def production_switch_to_2g_band_def
      production_switch_to_5g_band_def production_set_pwed_thresholds_def production_set_basic_rate_def
      production_set_bb_swing_default_def production_poll_tx_packet_empty_def program_rf_channel_def
      program_bandwidth_def production_apply_captured_tx_bringup_tail_def
    by (intro returns_intros)
qed

lemma returns_custom [returns_intros]:
  "returns (read8_with_custom_error env a f)" "returns (read16_with_custom_error env a f)"
  "returns (write8_with_custom_error env a v8 f)" "returns (write16_with_custom_error env a v16 f)"
  unfolding write8_with_custom_error_def write16_with_custom_error_def
  by (auto simp: returns_def read8_with_custom_error_def read16_with_custom_error_def counted_read_custom_def
      counted_write_def split: sum.splits prod.splits)

lemma returns_efuse_mac [returns_intros]: "returns (production_program_efuse_macid env)"
proof -
  have "returns (efuse_poll env a attempts delay n)" for a attempts delay n
    by (induction n) (auto intro!: returns_intros simp: Let_def)
  then have "returns (efuse_read_byte env a attempts delay)" for a attempts delay
    unfolding efuse_read_byte_def by (intro returns_intros)
  then have "returns (efuse_read_loop env config as raw)" for config as raw
    by (induction "as" arbitrary: raw) (auto intro!: returns_intros)
  moreover have "returns (efuse_power_switch_read env b)" for b
    unfolding efuse_power_switch_read_def by (intro returns_intros)
  ultimately show ?thesis
    unfolding production_program_efuse_macid_def read_rtl8812au_efuse_mac_address_def
      read_rtl8812au_efuse_mac_address_with_config_def read_rtl8812au_efuse_physical_with_config_def
      program_rtl8812au_local_mac_def read_rtl8812au_macid_def
    by (intro returns_intros)
qed

lemma returns_scheduler_tail [returns_intros]: "returns (run_rtl8812au_tx_scheduler_tail env)"
  unfolding run_rtl8812au_tx_scheduler_tail_def by (intro returns_intros)

lemma returns_monitor [returns_intros]:
  "returns (run_rtl8812au_monitor_opmode env)" "returns (run_rtl8812au_monitor_receive_filter env)"
  unfolding run_rtl8812au_monitor_opmode_def run_rtl8812au_monitor_receive_filter_def
    run_monitor_receive_filter_registers_def
  by (intro returns_intros)+

lemma returns_bb_rf [returns_intros]:
  "returns (production_bb_sequence env state)" "returns (production_rf_sequence env state)"
  unfolding production_bb_sequence_def production_rf_sequence_def by (intro returns_intros)+

lemma returns_stateless [returns_intros]: "returns m \<Longrightarrow> returns (stateless state detail m)"
  unfolding stateless_def by (intro returns_intros)

lemma returns_phase:
  assumes "time_passes env clock"
  shows "returns (run_rtl8812au_production_init_phase env endpoints phase state)"
proof -
  have "returns (production_phase env endpoints state phase)"
    by (cases phase)
      (simp_all only: production_phase.simps queue_dma_phase_def,
       (intro returns_intros returns_firmware [OF assms])+)
  then show ?thesis unfolding run_rtl8812au_production_init_phase_def by (intro returns_intros)
qed

lemma returns_session_init:
  assumes "\<And>phase state. returns (run_phase phase state)"
  shows "returns (run_rtl8812au_same_session_init run_phase config state)"
proof -
  have "returns (run_phases run_phase phases state summaries)" for phases state summaries
    by (induction phases arbitrary: state summaries) (auto intro!: returns_intros assms)
  then show ?thesis unfolding run_rtl8812au_same_session_init_def by (intro returns_intros)
qed

section \<open>Every step counts its transfers\<close>

lemma accounted_stateless [accounted_intros]: "accounted trace m \<Longrightarrow> accounted trace (stateless state detail m)"
  unfolding stateless_def by (intro accounted_intros)

context observed_device
begin

lemma accounted_preflights [accounted_intros]:
  "accounted trace (production_preflight_firmware env label)" "accounted trace (production_rf_preflight env)"
  unfolding production_preflight_firmware_def production_rf_preflight_def by (intro accounted_intros)+

lemma accounted_mac_table [accounted_intros]: "accounted trace (production_apply_mac_table_plan env plan)"
  unfolding production_apply_mac_table_plan_def mac_table_action_def by (intro accounted_intros)

lemma accounted_mac [accounted_intros]: "accounted trace (production_mac_sequence env)"
  unfolding production_mac_sequence_def production_beacon_parameters_sequence_def
    production_usb_burst_packet_sequence_def usb_rxdma_pro_value_def
  by (intro accounted_intros)

lemma accounted_bb_set [accounted_intros]: "accounted trace (bb_set_bb_reg env a m d name)"
  unfolding bb_set_bb_reg_def by (intro accounted_intros)

lemma accounted_bb_write [accounted_intros]: "accounted trace (production_bb_masked_write32 env name a m d phase)"
  unfolding production_bb_masked_write32_def by (intro accounted_intros)

lemma accounted_bb_plan [accounted_intros]: "accounted trace (production_run_bb_table_plan env plan)"
  unfolding production_run_bb_table_plan_def bb_table_action_def table_delay_def by (intro accounted_intros)

lemma accounted_rf_write [accounted_intros]: "accounted trace (rf_serial_write_single_path env path a v)"
  unfolding rf_serial_write_single_path_def by (intro accounted_intros)

lemma accounted_rf_plan [accounted_intros]: "accounted trace (production_run_rf_table_plan env plan)"
  unfolding production_run_rf_table_plan_def rf_table_action_def table_delay_def by (intro accounted_intros)

lemma accounted_channel [accounted_intros]:
  "accounted trace (production_channel_sequence env channel bandwidth rfe_type radioa_plan radiob_plan)"
proof -
  have "accounted trace (production_set_rfe_reg_8812 env band rfe_type)" for band
    unfolding production_set_rfe_reg_8812_def by (intro accounted_intros)
  moreover have "accounted trace (tx_packet_empty_loop env observed n)" for observed n
    by (induction n arbitrary: observed) (auto intro!: accounted_intros)
  moreover have "accounted trace (production_fix_spur_8812a env n bandwidth)" for n
    unfolding production_fix_spur_8812a_def by (intro accounted_intros)
  ultimately show ?thesis
    unfolding production_channel_sequence_def production_switch_wireless_band_8812_def production_switch_to_2g_band_def
      production_switch_to_5g_band_def production_set_pwed_thresholds_def production_set_basic_rate_def
      production_set_bb_swing_default_def production_poll_tx_packet_empty_def program_rf_channel_def
      program_bandwidth_def production_apply_captured_tx_bringup_tail_def
    by (intro accounted_intros)
qed

lemma counted_read_custom_eq:
  "counted_read_custom f access s = (case counted_read env name phase access s of
     Some (Inl e, t) \<Rightarrow> Some (Inl (f (projl (fst (access (fst s))))), t) | r \<Rightarrow> r)"
  by (auto simp: counted_read_custom_def counted_read_def split: prod.split sum.split)

lemma counted_read_custom_effect:
  assumes "accounted trace (counted_read env [] [] access)"
    and "performs trace (counted_read env [] [] access) (\<lambda>_ w. w = [])"
  shows "accounted trace (counted_read_custom f access)" "performs trace (counted_read_custom f access) (\<lambda>_ w. w = [])"
proof -
  have "\<exists>r'. counted_read env [] [] access s = Some (r', s')" if "counted_read_custom f access s = Some (r, s')" for s r s'
    using that by (auto simp: counted_read_custom_eq [of f access s "[]" "[]"] split: option.splits prod.splits sum.splits)
  then show "accounted trace (counted_read_custom f access)" using assms(1) unfolding accounted_def by metis
  have "counted_read env [] [] access s = Some (Inr x, s')" if "counted_read_custom f access s = Some (Inr x, s')" for s x s'
    using that by (auto simp: counted_read_custom_eq [of f access s "[]" "[]"] split: option.splits prod.splits sum.splits)
  then show "performs trace (counted_read_custom f access) (\<lambda>_ w. w = [])" using assms(2) unfolding performs_def by metis
qed

lemma accounted_custom [accounted_intros]:
  "accounted trace (read8_with_custom_error env a f)" "accounted trace (read16_with_custom_error env a f)"
  "accounted trace (write8_with_custom_error env a v8 f)" "accounted trace (write16_with_custom_error env a v16 f)"
  unfolding read8_with_custom_error_def read16_with_custom_error_def write8_with_custom_error_def
    write16_with_custom_error_def
  by (rule counted_read_custom_effect(1) [OF counted_read_effect] counted_write_effect(1), (erule read_traced_at_width)+)
    (rule counted_read_custom_effect(1) [OF counted_read_effect] counted_write_effect(1),
      (erule read_traced_at_width write_traced_at_width)+)+

lemma accounted_efuse_mac [accounted_intros]: "accounted trace (production_program_efuse_macid env)"
proof -
  have "accounted trace (efuse_poll env a attempts delay n)" for a attempts delay n
    by (induction n) (auto intro!: accounted_intros simp: Let_def)
  then have "accounted trace (efuse_read_byte env a attempts delay)" for a attempts delay
    unfolding efuse_read_byte_def by (intro accounted_intros)
  then have "accounted trace (efuse_read_loop env config as raw)" for config as raw
    by (induction "as" arbitrary: raw) (auto intro!: accounted_intros)
  moreover have "accounted trace (efuse_power_switch_read env b)" for b
    unfolding efuse_power_switch_read_def by (intro accounted_intros)
  ultimately show ?thesis
    unfolding production_program_efuse_macid_def read_rtl8812au_efuse_mac_address_def
      read_rtl8812au_efuse_mac_address_with_config_def read_rtl8812au_efuse_physical_with_config_def
      program_rtl8812au_local_mac_def read_rtl8812au_macid_def
    by (intro accounted_intros)
qed

lemma accounted_scheduler_tail [accounted_intros]: "accounted trace (run_rtl8812au_tx_scheduler_tail env)"
  unfolding run_rtl8812au_tx_scheduler_tail_def by (intro accounted_intros)

lemma accounted_monitor [accounted_intros]:
  "accounted trace (run_rtl8812au_monitor_opmode env)" "accounted trace (run_rtl8812au_monitor_receive_filter env)"
  unfolding run_rtl8812au_monitor_opmode_def run_rtl8812au_monitor_receive_filter_def
    run_monitor_receive_filter_registers_def
  by (intro accounted_intros)+

lemma accounted_bb_rf [accounted_intros]:
  "accounted trace (production_bb_sequence env state)" "accounted trace (production_rf_sequence env state)"
  unfolding production_bb_sequence_def production_rf_sequence_def by (intro accounted_intros)+

lemma accounted_phase:
  "accounted trace (run_rtl8812au_production_init_phase env endpoints phase state)"
proof -
  have "accounted trace (production_phase env endpoints state phase)"
    by (cases phase) (simp_all only: production_phase.simps queue_dma_phase_def, (intro accounted_intros)+)
  then show ?thesis unfolding run_rtl8812au_production_init_phase_def by (intro accounted_intros)
qed

lemma accounted_init:
  "accounted trace (run_rtl8812au_production_init env endpoints inputs channel bandwidth profile authorized captured)"
proof -
  have "accounted trace (run_phases (run_rtl8812au_production_init_phase env endpoints) phases state summaries)"
    for phases state summaries
    by (induction phases arbitrary: state summaries) (auto intro!: accounted_intros accounted_phase)
  then show ?thesis
    unfolding run_rtl8812au_production_init_def run_rtl8812au_same_session_init_def Let_def by (intro accounted_intros)
qed

end

section \<open>The initialisation\<close>

text \<open>
  C35. On every transport and on every branch of the initialisation, errors included, the control
  transfer counters grow by exactly the register reads and writes the transport completed.
\<close>

theorem init_accounted:
  "accounted snd (run_rtl8812au_production_init (logged env) endpoints inputs channel bandwidth profile authorized captured)"
  by (rule logged.accounted_init)

text \<open>
  C28. The initialisation returns, with a result or a failure, on every transport and from every
  state: the polls with a time limit end because the clock is not turned back and a sleep takes at
  least its delay, whatever the device answers.
\<close>

theorem init_returns:
  assumes "time_passes env clock"
  shows "\<exists>r t. run_rtl8812au_production_init env endpoints inputs channel bandwidth profile authorized captured s =
    Some (r, t)"
proof -
  have "returns (run_rtl8812au_production_init env endpoints inputs channel bandwidth profile authorized captured)"
    unfolding run_rtl8812au_production_init_def Let_def
    by (intro returns_session_init returns_phase [OF assms])
  then show ?thesis unfolding returns_def by (metis not_None_eq surj_pair)
qed

text \<open>Inputs with a two-byte firmware and, of the radio tables, the channel register only.\<close>

definition small_plan :: "realtek_table_kind \<Rightarrow> realtek_table_action list \<Rightarrow> realtek_table_plan" where
  "small_plan kind actions =
     \<lparr>rtp_array_name = ''small'', rtp_kind = kind, rtp_raw_value_count = 2, rtp_raw_pair_count = 1,
      rtp_condition_marker_pairs = 0, rtp_skipped_write_pairs = 0, rtp_actions = actions\<rparr>"

definition small_inputs :: init_inputs where
  "small_inputs =
     \<lparr>ii_firmware_image = \<lparr>fi_source = FsInMemory, fi_len = 2, fi_byte_sum = 3, fi_bytes = [1, 2]\<rparr>,
      ii_mac_plan = small_plan RtkMac [], ii_phy_plan = small_plan RtkBbPhy [], ii_agc_plan = small_plan RtkBbAgc [],
      ii_radioa_plan = small_plan RtkRfRadioA [table_action RtkRfRadioA 0 0x18 0x1712a],
      ii_radiob_plan = small_plan RtkRfRadioB [table_action RtkRfRadioB 0 0x18 0x1712a],
      ii_init_order = OrderLinux, ii_rfe_type = 3, ii_init_timeout = 0\<rparr>"

definition four_endpoints :: usb_endpoints where
  "four_endpoints = \<lparr>ue_interface_number = 0, ue_bulk_in = Some 0x81, ue_bulk_out = Some 2, ue_bulk_in_all = [0x81], ue_bulk_out_all = [2, 3, 4]\<rparr>"

lemma init_returns_witness:
  "\<exists>r t. run_rtl8812au_production_init register_file four_endpoints small_inputs
     \<lparr>ch_number = 36, ch_frequency_mhz = 5180, ch_band = Ghz5\<rparr> Mhz40 CurrentDefault False True
     ((0, \<lambda>_. 0xff), radio_counters_default) = Some (r, t)"
proof -
  have "time_passes register_file fst"
    by (simp add: time_passes_def register_file_def register_access_new_def)
  from init_returns [OF this] show ?thesis .
qed

end
