(* ===== verification/Init_Laws.thy ===== *)
theory Init_Laws
  imports Chip_Effects
begin

text \<open>
  The contract of a phase runner, as a locale, what the initialisation loop makes of it, and the
  production phases as an instance.
\<close>

section \<open>Operations that report their errors as values\<close>

definition infallible :: "('t, 'a) reg_op \<Rightarrow> bool" where
  "infallible m \<longleftrightarrow> (\<forall>s e s'. m s \<noteq> Some (Inl e, s'))"

named_theorems infallible_intros \<open>operations that do not fail\<close>

lemma infallible_pure [infallible_intros]:
  "infallible (ret x)" "infallible (as_value m)" "infallible current_counters"
  by (auto simp: infallible_def ret_def as_value_def current_counters_def)

lemma infallible_and_then [infallible_intros]:
  "infallible m \<Longrightarrow> (\<And>x. infallible (f x)) \<Longrightarrow> infallible (and_then m f)"
  by (auto simp: infallible_def and_then_eq_Some_iff)

lemma infallible_cases [infallible_intros]:
  "(\<And>e. infallible (g e)) \<Longrightarrow> (\<And>x. infallible (h x)) \<Longrightarrow> infallible (case_sum g h r)"
  by (cases r) simp_all

lemma infallible_case_prod [infallible_intros]: "(\<And>a b. infallible (f a b)) \<Longrightarrow> infallible (case_prod f p)"
  by (cases p) simp

lemma infallible_let [infallible_intros]: "infallible (f x) \<Longrightarrow> infallible (let y = x in f y)"
  by simp

lemma infallible_phase: "infallible (production_phase env endpoints state phase)"
  by (cases phase)
    (simp_all only: production_phase.simps queue_dma_phase_def stateless_def production_bb_sequence_def
        production_rf_sequence_def,
     (intro infallible_intros)+)

section \<open>The contract of a phase runner\<close>

text \<open>
  A runner reports the phase it was asked for: completed, or blocked with the message of the error;
  and the counters of the summary are the difference over the phase.
\<close>

definition reports :: "init_phase \<Rightarrow> radio_counters \<Rightarrow> radio_counters \<Rightarrow> (phase_failure, phase_summary) result \<Rightarrow> bool" where
  "reports phase before after r \<longleftrightarrow>
     (case r of
        Inr summary \<Rightarrow> ps_phase summary = phase \<and> ps_status summary = PhaseCompleted \<and>
          ps_counters summary = counters_saturating_sub after before
      | Inl failure \<Rightarrow> ps_phase (pf_summary failure) = phase \<and> ps_status (pf_summary failure) = PhaseBlocked \<and>
          ps_counters (pf_summary failure) = counters_saturating_sub after before \<and>
          ps_detail (pf_summary failure) = re_message (pf_error failure))"

locale phase_runner =
  fixes run_phase :: "('t, 'st) phase_runner"
  assumes reports_phase: "run_phase phase st s = Some (Inr (r, st'), s') \<Longrightarrow> reports phase (snd s) (snd s') r"
    and reports_errors: "infallible (run_phase phase st)"
begin

text \<open>
  The loop has run a prefix of the phases: all completed, or all but the last, which is the blocked
  one whose error it returns.
\<close>

lemma run_phases_prefix:
  assumes "run_phases run_phase phases st summaries s = Some (Inr (all_summaries, failed, st'), s')"
  shows "\<exists>more. all_summaries = summaries @ more \<and>
    (case failed of
       None \<Rightarrow> map ps_phase more = phases \<and> (\<forall>p \<in> set more. ps_status p = PhaseCompleted)
     | Some error \<Rightarrow> \<exists>n < length phases. map ps_phase more = take (Suc n) phases \<and>
         map ps_status more = replicate n PhaseCompleted @ [PhaseBlocked] \<and>
         ps_detail (last more) = re_message error)"
  using assms
proof (induction phases arbitrary: st summaries s)
  case Nil
  then show ?case by (auto simp: ret_def)
next
  case (Cons phase phases)
  then obtain r st1 s1 where run: "run_phase phase st s = Some (Inr (r, st1), s1)"
    and rest: "(case r of Inr summary \<Rightarrow> run_phases run_phase phases st1 (summaries @ [summary])
       | Inl failure \<Rightarrow> ret (summaries @ [pf_summary failure], Some (pf_error failure), st1)) s1 =
       Some (Inr (all_summaries, failed, st'), s')"
    by (auto simp: and_then_eq_Some_iff)
  note report = reports_phase [OF run]
  show ?case
  proof (cases r)
    case (Inl failure)
    then show ?thesis
      using rest report
      by (auto simp: ret_def reports_def intro!: exI [of _ "[pf_summary failure]"] exI [of _ 0])
  next
    case (Inr summary)
    with rest have "run_phases run_phase phases st1 (summaries @ [summary]) s1 = Some (Inr (all_summaries, failed, st'), s')"
      by simp
    from Cons.IH [OF this] obtain more where
      more: "all_summaries = summaries @ summary # more"
      and tail: "case failed of
       None \<Rightarrow> map ps_phase more = phases \<and> (\<forall>p \<in> set more. ps_status p = PhaseCompleted)
     | Some error \<Rightarrow> \<exists>n < length phases. map ps_phase more = take (Suc n) phases \<and>
         map ps_status more = replicate n PhaseCompleted @ [PhaseBlocked] \<and>
         ps_detail (last more) = re_message error" by auto
    have head: "ps_phase summary = phase" "ps_status summary = PhaseCompleted"
      using report Inr by (simp_all add: reports_def)
    show ?thesis
    proof (cases failed)
      case None
      then show ?thesis using more tail head by (intro exI [of _ "summary # more"]) simp
    next
      case (Some error)
      then obtain n where n: "n < length phases" "map ps_phase more = take (Suc n) phases"
        "map ps_status more = replicate n PhaseCompleted @ [PhaseBlocked]" "ps_detail (last more) = re_message error"
        using tail by auto
      then have "more \<noteq> []" by auto
      then show ?thesis
        using more n head Some
        by (auto intro!: exI [of _ "summary # more"] exI [of _ "Suc n"])
    qed
  qed
qed

end

lemma production_phase_reports:
  assumes "run_rtl8812au_production_init_phase env endpoints phase st s = Some (Inr (r, st'), s')"
  shows "reports phase (snd s) (snd s') r"
proof -
  obtain dev c where s': "s' = (dev, c)" by (cases s')
  obtain result where "r = (case result of
            Inr (detail, Some writes) \<Rightarrow> Inr (completed_with_writes phase detail writes (snd s) c)
          | Inr (detail, None) \<Rightarrow> Inr (summary_completed phase detail (snd s) c)
          | Inl error \<Rightarrow> Inl \<lparr>pf_summary = summary_blocked phase (re_message error) (snd s) c, pf_error = error\<rparr>)"
    using assms
    by (auto simp: run_rtl8812au_production_init_phase_def and_then_eq_Some_iff current_counters_def ret_def s')
  then show ?thesis
    by (auto simp: reports_def completed_with_writes_def summary_completed_def summary_blocked_def s'
        split: sum.splits prod.splits option.splits)
qed

interpretation production: phase_runner "run_rtl8812au_production_init_phase env endpoints" for env endpoints
proof
  show "reports phase (snd s) (snd s') r"
    if "run_rtl8812au_production_init_phase env endpoints phase st s = Some (Inr (r, st'), s')" for phase st s r st' s'
    using that by (rule production_phase_reports)
  show "infallible (run_rtl8812au_production_init_phase env endpoints phase st)" for phase st
    unfolding run_rtl8812au_production_init_phase_def by (intro infallible_intros infallible_phase)
qed

section \<open>The initialisation\<close>


text \<open>A device that completes no transfer: the initialisation is blocked at its first phase.\<close>

definition dead_env :: "(unit, unit) reg_env" where
  "dead_env =
     \<lparr>re_access = register_access_new (\<lambda>_ _ _ _ data _ dev. (Inl DeviceDisappeared, data, dev))
        (\<lambda>_ _ _ _ data _ dev. (Inl DeviceDisappeared, dev)),
      re_show_rusb = (\<lambda>_. []), re_sleep = (\<lambda>_ dev. dev), re_now = (\<lambda>dev. (0, dev))\<rparr>"


end
