(* ===== verification/Channel_Laws.thy ===== *)
theory Channel_Laws
  imports Chip_Effects
begin

text \<open>
  What programming a channel leaves in the RF chips: the serial writes to the two paths, seen as
  writes to their registers, and the fields of the channel register at the end.
\<close>

section \<open>Writes that stay off a set of addresses\<close>

definition avoids :: "u16 set \<Rightarrow> ('t \<Rightarrow> reg_access list) \<Rightarrow> ('t, 'a) reg_op \<Rightarrow> bool" where
  "avoids A trace m \<longleftrightarrow> performs trace m (\<lambda>_ w. \<forall>x \<in> set w. fst x \<notin> A)"

named_theorems avoids_intros \<open>operations whose writes stay off given addresses\<close>

lemma avoids_and_then [avoids_intros]:
  assumes "avoids A trace m" "\<And>x. avoids A trace (f x)"
  shows "avoids A trace (and_then m f)"
  unfolding avoids_def
  by (rule performs_bind [OF assms(1) [unfolded avoids_def]], rule performs_mono [OF assms(2) [unfolded avoids_def]]) auto

lemma avoids_and_do [avoids_intros]:
  "avoids A trace m \<Longrightarrow> avoids A trace n \<Longrightarrow> avoids A trace (and_do m n)"
  unfolding and_do_def by (rule avoids_and_then)

lemma avoids_silent: "performs trace m (\<lambda>_ w. w = []) \<Longrightarrow> avoids A trace m"
  unfolding avoids_def by (erule performs_mono) simp

lemma avoids_pure [avoids_intros]:
  "avoids A trace (ret x)" "avoids A trace (fail e)" "avoids A trace (of_result r)"
  "avoids A trace control_writes" "avoids A trace (writes_since n)"
  by (rule avoids_silent, rule performs_control_writes performs_writes_since performs_mono [OF performs_ret]
        performs_mono [OF performs_fail] performs_mono [OF performs_of_result], simp?)+

lemma avoids_if [avoids_intros]: "avoids A trace m \<Longrightarrow> avoids A trace n \<Longrightarrow> avoids A trace (if b then m else n)"
  by simp

lemma avoids_let [avoids_intros]: "avoids A trace (f x) \<Longrightarrow> avoids A trace (let y = x in f y)"
  by simp

lemma avoids_cases [avoids_intros]:
  "avoids A trace m \<Longrightarrow> (\<And>x. avoids A trace (f x)) \<Longrightarrow> avoids A trace (case_option m f v)"
  by (cases v) simp_all

lemma avoids_case_band [avoids_intros]:
  "avoids A trace m \<Longrightarrow> avoids A trace n \<Longrightarrow> avoids A trace (case_band m n b)"
  by (cases b) simp_all

lemma avoids_run_all [avoids_intros]: "list_all (avoids A trace) ms \<Longrightarrow> avoids A trace (run_all ms)"
  by (induction ms) (auto intro: avoids_intros)

lemma avoids_list [avoids_intros]:
  "list_all (avoids A trace) []"
  "avoids A trace m \<Longrightarrow> list_all (avoids A trace) ms \<Longrightarrow> list_all (avoids A trace) (m # ms)"
  by simp_all

lemma avoids_for_each [avoids_intros]:
  "avoids A trace (for_each [] f acc)"
  "avoids A trace (f x acc) \<Longrightarrow> (\<And>acc. avoids A trace (for_each xs f acc)) \<Longrightarrow> avoids A trace (for_each (x # xs) f acc)"
  by (auto intro: avoids_intros)

lemma avoids_pair [avoids_intros]: "avoids A trace (f a b x) \<Longrightarrow> avoids A trace (case_prod f (a, b) x)"
  by simp

context observed_device
begin

lemma avoids_read [avoids_intros]:
  "avoids A trace (read8_with_counter env a name phase)" "avoids A trace (read16_with_counter env a name phase)"
  "avoids A trace (read32_with_counter env a name phase)" "avoids A trace (sleep env d)"
  by (rule avoids_silent, rule performs_counted performs_clock)+

lemma avoids_verify [avoids_intros]:
  "avoids A trace (production_verify8_readback env name a msk8 e8 phase)"
  "avoids A trace (production_verify16_readback env name a msk16 e16 phase)"
  "avoids A trace (production_verify32_readback env name a msk32 e32 phase)"
  by (rule avoids_silent, rule performs_mono [OF performs_verify(1)] performs_mono [OF performs_verify(2)]
        performs_mono [OF performs_verify(3)], simp)+

lemma avoids_write [avoids_intros]:
  "a \<notin> A \<Longrightarrow> avoids A trace (write8_with_counter env a v8 name phase)"
  "a \<notin> A \<Longrightarrow> avoids A trace (write16_with_counter env a v16 name phase)"
  "a \<notin> A \<Longrightarrow> avoids A trace (write32_with_counter env a v32 name phase)"
  unfolding avoids_def
  by (rule performs_mono [OF performs_counted(4)] performs_mono [OF performs_counted(5)]
        performs_mono [OF performs_counted(6)], simp)+

lemma avoids_registers [avoids_intros]:
  "a \<notin> A \<Longrightarrow> avoids A trace (production_rmw8_preserve env name a p8 m8 v8 phase)"
  "a \<notin> A \<Longrightarrow> avoids A trace (production_rmw16_preserve env name a p16 m16 v16 phase)"
  "a \<notin> A \<Longrightarrow> avoids A trace (production_write8_verify env name a v8 m8 e8 phase)"
  "a \<notin> A \<Longrightarrow> avoids A trace (production_write16_verify env name a v16 m16 e16 phase)"
  "a \<notin> A \<Longrightarrow> avoids A trace (production_write32_verify env name a v32 m32 e32 phase)"
  "a \<notin> A \<Longrightarrow> avoids A trace (production_bb_masked_write32 env name a m d phase)"
  unfolding production_rmw8_preserve_def production_rmw16_preserve_def production_write8_verify_def
    production_write16_verify_def production_write32_verify_def production_bb_masked_write32_def bb_set_bb_reg_def
  by (intro avoids_intros; assumption)+

end

section \<open>The RF registers\<close>

abbreviation RF_SERIAL :: "u16 set" where
  "RF_SERIAL \<equiv> {REG_RF_PATH_A_3WIRE, REG_RF_PATH_B_3WIRE}"

text \<open>A write to a serial register stores its low 20 bits at the RF offset in its next byte.\<close>

definition rf_step :: "u16 \<times> bytes \<Rightarrow> (u16 \<Rightarrow> u8 \<Rightarrow> u32) \<Rightarrow> u16 \<Rightarrow> u8 \<Rightarrow> u32" where
  "rf_step w rf =
     (if fst w \<in> RF_SERIAL
      then let v = of_le32 (snd w)
           in rf(fst w := (rf (fst w))(ucast (drop_bit 20 v) := v AND RF_REGISTER_OFFSET_MASK))
      else rf)"

definition rf_run :: "(u16 \<times> bytes) list \<Rightarrow> (u16 \<Rightarrow> u8 \<Rightarrow> u32) \<Rightarrow> u16 \<Rightarrow> u8 \<Rightarrow> u32" where
  "rf_run = fold rf_step"

lemma rf_run_append [simp]: "rf_run (u @ v) rf = rf_run v (rf_run u rf)"
  by (simp add: rf_run_def)

lemma rf_run_avoids: "\<forall>x \<in> set w. fst x \<notin> RF_SERIAL \<Longrightarrow> rf_run w rf = rf"
  by (induction w arbitrary: rf) (auto simp: rf_run_def rf_step_def)

text \<open>
  \<open>rf_hoare trace P m Q\<close>: when \<open>m\<close> succeeds with \<open>x\<close>, its writes take RF registers with \<open>P\<close> to
  registers with \<open>Q x\<close>.
\<close>

type_synonym rf_registers = "u16 \<Rightarrow> u8 \<Rightarrow> u32"

definition rf_hoare ::
    "('t \<Rightarrow> reg_access list) \<Rightarrow> (rf_registers \<Rightarrow> bool) \<Rightarrow> ('t, 'a) reg_op \<Rightarrow> ('a \<Rightarrow> rf_registers \<Rightarrow> bool) \<Rightarrow> bool" where
  "rf_hoare trace P m Q \<longleftrightarrow> performs trace m (\<lambda>x w. \<forall>rf. P rf \<longrightarrow> Q x (rf_run w rf))"

lemma rf_hoare_seq:
  assumes "rf_hoare trace P m Q" "\<And>x. rf_hoare trace (Q x) (f x) R"
  shows "rf_hoare trace P (and_then m f) R"
  unfolding rf_hoare_def
  by (rule performs_bind [OF assms(1) [unfolded rf_hoare_def]], rule performs_mono [OF assms(2) [unfolded rf_hoare_def]])
    auto

lemma rf_hoare_seq_fact:
  assumes "rf_hoare trace (\<lambda>_. True) m (\<lambda>x _. p x)" "\<And>x. p x \<Longrightarrow> rf_hoare trace (\<lambda>_. True) (f x) R"
  shows "rf_hoare trace (\<lambda>_. True) (and_then m f) R"
  unfolding rf_hoare_def
  by (rule performs_bind [OF assms(1) [unfolded rf_hoare_def]],
      rule performs_mono [OF assms(2) [unfolded rf_hoare_def]]) auto

lemma rf_hoare_do: "rf_hoare trace P m (\<lambda>_. Q) \<Longrightarrow> rf_hoare trace Q n R \<Longrightarrow> rf_hoare trace P (and_do m n) R"
  unfolding and_do_def by (rule rf_hoare_seq)

lemma rf_hoare_keep: "avoids RF_SERIAL trace m \<Longrightarrow> rf_hoare trace P m (\<lambda>_. P)"
  unfolding avoids_def rf_hoare_def by (erule performs_mono) (simp add: rf_run_avoids)

lemma rf_hoare_result: "(\<And>x. r = Inr x \<Longrightarrow> rf_hoare trace P (f x) R) \<Longrightarrow> rf_hoare trace P (and_then (of_result r) f) R"
  unfolding rf_hoare_def performs_def by (auto simp: and_then_def of_result_def split: sum.splits)

lemma rf_hoare_ret: "(\<And>rf. P rf \<Longrightarrow> Q x rf) \<Longrightarrow> rf_hoare trace P (ret x) Q"
  unfolding rf_hoare_def by (rule performs_mono [OF performs_ret]) (simp add: rf_run_def)

lemma rf_hoare_mono:
  "rf_hoare trace P m Q \<Longrightarrow> (\<And>rf. P' rf \<Longrightarrow> P rf) \<Longrightarrow> (\<And>x rf. Q x rf \<Longrightarrow> Q' x rf) \<Longrightarrow> rf_hoare trace P' m Q'"
  unfolding rf_hoare_def by (erule performs_mono) auto

lemma rf_hoare_for_each:
  "list_all (\<lambda>x. \<forall>acc. rf_hoare trace P (f x acc) (\<lambda>_. P)) xs \<Longrightarrow> rf_hoare trace P (for_each xs f acc) (\<lambda>_. P)"
  by (induction xs arbitrary: acc) (auto intro: rf_hoare_ret rf_hoare_seq)

lemma rf_hoare_writes:
  "performs trace m (\<lambda>_ w. w = ws) \<Longrightarrow> (\<And>rf. P rf \<Longrightarrow> Q (rf_run ws rf)) \<Longrightarrow> rf_hoare trace P m (\<lambda>_. Q)"
  unfolding rf_hoare_def by (erule performs_mono) auto

section \<open>The fields of the channel register\<close>

text \<open>The fields of \<open>RF_CHNLBW\<close>: the channel, the bandwidth and the band.\<close>

definition channel_fields :: "u8 \<Rightarrow> bandwidth \<Rightarrow> u32 \<Rightarrow> bool" where
  "channel_fields num bandwidth v \<longleftrightarrow>
     v AND RF_CHNLBW_CHANNEL_MASK = ucast num \<and>
     v AND RF_CHNLBW_BW_MASK = push_bit 10 (rf_bandwidth_bits bandwidth) \<and>
     v AND RF_CHNLBW_MOD_AG_MASK = push_bit 8 (production_rf_mod_ag_data num)"

lemma apply_rf_mask_field: "m \<noteq> 0 \<Longrightarrow> apply_rf_mask x m d AND m = push_bit (trailing_zeros m) d AND m"
  by (simp add: apply_rf_mask_def Let_def) (rule bit_word_eqI, auto simp: bit_simps)

lemma apply_rf_mask_other:
  assumes "m AND m' = 0"
  shows "apply_rf_mask x m d AND m' = x AND m'"
proof -
  have "\<not> (bit m n \<and> bit m' n)" for n using arg_cong [OF assms, of "\<lambda>w. bit w n"] by (simp add: bit_simps)
  then show ?thesis
    by (simp add: apply_rf_mask_def Let_def) (auto intro!: bit_word_eqI simp: bit_simps)
qed

lemma channel_mask_zeros:
  "trailing_zeros RF_CHNLBW_CHANNEL_MASK = 0" "trailing_zeros RF_CHNLBW_BW_MASK = 10"
  "trailing_zeros RF_CHNLBW_MOD_AG_MASK = 8"
  by (simp_all add: trailing_zeros_def upt_rec RF_CHNLBW_CHANNEL_MASK_def RF_CHNLBW_BW_MASK_def RF_CHNLBW_MOD_AG_MASK_def)

lemma channel_fields_programmed:
  "channel_fields num bandwidth
     (apply_rf_mask (apply_rf_mask (apply_rf_mask v RF_CHNLBW_MOD_AG_MASK (production_rf_mod_ag_data num))
         RF_CHNLBW_CHANNEL_MASK (ucast num)) RF_CHNLBW_BW_MASK (rf_bandwidth_bits bandwidth) AND RF_REGISTER_OFFSET_MASK)"
proof -
  let ?a = "apply_rf_mask v RF_CHNLBW_MOD_AG_MASK (production_rf_mod_ag_data num)"
  let ?b = "apply_rf_mask ?a RF_CHNLBW_CHANNEL_MASK (ucast num)"
  let ?c = "apply_rf_mask ?b RF_CHNLBW_BW_MASK (rf_bandwidth_bits bandwidth)"
  have low: "(?c AND RF_REGISTER_OFFSET_MASK) AND m = ?c AND m" if "RF_REGISTER_OFFSET_MASK AND m = m" for m
    using that by (simp add: and.assoc)
  have inside: "RF_REGISTER_OFFSET_MASK AND RF_CHNLBW_CHANNEL_MASK = RF_CHNLBW_CHANNEL_MASK"
    "RF_REGISTER_OFFSET_MASK AND RF_CHNLBW_BW_MASK = RF_CHNLBW_BW_MASK"
    "RF_REGISTER_OFFSET_MASK AND RF_CHNLBW_MOD_AG_MASK = RF_CHNLBW_MOD_AG_MASK"
    by (simp_all add: RF_REGISTER_OFFSET_MASK_def RF_CHNLBW_CHANNEL_MASK_def RF_CHNLBW_BW_MASK_def RF_CHNLBW_MOD_AG_MASK_def)
  have apart: "RF_CHNLBW_BW_MASK AND RF_CHNLBW_CHANNEL_MASK = 0" "RF_CHNLBW_BW_MASK AND RF_CHNLBW_MOD_AG_MASK = 0"
    "RF_CHNLBW_CHANNEL_MASK AND RF_CHNLBW_MOD_AG_MASK = 0"
    by (simp_all add: RF_CHNLBW_CHANNEL_MASK_def RF_CHNLBW_BW_MASK_def RF_CHNLBW_MOD_AG_MASK_def)
  have nonzero: "RF_CHNLBW_BW_MASK \<noteq> 0" "RF_CHNLBW_CHANNEL_MASK \<noteq> 0" "RF_CHNLBW_MOD_AG_MASK \<noteq> 0"
    by (simp_all add: RF_CHNLBW_CHANNEL_MASK_def RF_CHNLBW_BW_MASK_def RF_CHNLBW_MOD_AG_MASK_def)
  have "ucast num AND RF_CHNLBW_CHANNEL_MASK = ucast num"
  proof -
    have m: "RF_CHNLBW_CHANNEL_MASK = mask 8" by (simp add: RF_CHNLBW_CHANNEL_MASK_def mask_eq_exp_minus_1)
    show ?thesis unfolding m by (rule bit_word_eqI) (auto simp: bit_simps dest: bit_u8_bound)
  qed
  moreover have "push_bit 10 (rf_bandwidth_bits bandwidth) AND RF_CHNLBW_BW_MASK = push_bit 10 (rf_bandwidth_bits bandwidth)"
    by (cases bandwidth) (simp_all add: RF_CHNLBW_BW_MASK_def)
  moreover have "push_bit 8 (production_rf_mod_ag_data num) AND RF_CHNLBW_MOD_AG_MASK = push_bit 8 (production_rf_mod_ag_data num)"
    by (simp add: production_rf_mod_ag_data_def RF_CHNLBW_MOD_AG_MASK_def)
  ultimately show ?thesis
    unfolding channel_fields_def low [OF inside(1)] low [OF inside(2)] low [OF inside(3)]
    by (simp add: apply_rf_mask_field apply_rf_mask_other nonzero apart channel_mask_zeros)
qed

section \<open>The steps of the channel sequence\<close>

lemma encode_rf_serial_write_fields:
  assumes "off < 256"
  shows "ucast (drop_bit 20 (encode_rf_serial_write off v)) = (ucast off :: u8)"
    and "encode_rf_serial_write off v AND RF_REGISTER_OFFSET_MASK = v AND RF_REGISTER_OFFSET_MASK"
proof -
  have m: "RF_REGISTER_OFFSET_MASK = mask 20" "(0xff :: u32) = mask 8" "(0x0fffffff :: u32) = mask 28"
    by (simp_all add: RF_REGISTER_OFFSET_MASK_def mask_eq_exp_minus_1)
  show "ucast (drop_bit 20 (encode_rf_serial_write off v)) = (ucast off :: u8)"
    unfolding encode_rf_serial_write_def m by (rule bit_word_eqI) (auto simp: bit_simps)
  show "encode_rf_serial_write off v AND RF_REGISTER_OFFSET_MASK = v AND RF_REGISTER_OFFSET_MASK"
    unfolding encode_rf_serial_write_def m by (rule bit_word_eqI) (auto simp: bit_simps)
qed

text \<open>The serial register of a path.\<close>

fun rf_path_register :: "rf_path \<Rightarrow> u16" where
  "rf_path_register RfA = REG_RF_PATH_A_3WIRE"
| "rf_path_register RfB = REG_RF_PATH_B_3WIRE"
| "rf_path_register RfBoth = REG_RF_PATH_A_3WIRE"

definition rf_store :: "rf_path \<Rightarrow> u32 \<Rightarrow> u32 \<Rightarrow> rf_registers \<Rightarrow> rf_registers" where
  "rf_store path off v rf =
     rf(rf_path_register path := (rf (rf_path_register path))(ucast off := v AND RF_REGISTER_OFFSET_MASK))"

lemma rf_registers_apart [simp]: "REG_RF_PATH_A_3WIRE \<noteq> REG_RF_PATH_B_3WIRE" "REG_RF_PATH_B_3WIRE \<noteq> REG_RF_PATH_A_3WIRE"
  by (simp_all add: REG_RF_PATH_A_3WIRE_def REG_RF_PATH_B_3WIRE_def)

text \<open>The registers of the band switch and of the bandwidth are not serial registers.\<close>

lemmas band_registers =
  REG_RF_PATH_A_3WIRE_def REG_RF_PATH_B_3WIRE_def REG_OFDMCCKEN_JAGUAR_def REG_BW_INDICATION_JAGUAR_def
  REG_PWED_TH_JAGUAR_def REG_AGC_TABLE_JAGUAR_def REG_RFE_PINMUX_A_JAGUAR_def REG_RFE_PINMUX_B_JAGUAR_def
  REG_RFE_INV_A_JAGUAR_def REG_RFE_INV_B_JAGUAR_def REG_ANTSEL_SW_JAGUAR_def REG_TX_PATH_JAGUAR_def
  REG_CCK_RX_JAGUAR_def REG_RRSR_def REG_CCK_CHECK_8812_def REG_TX_SCALE_A_JAGUAR_def REG_TX_SCALE_B_JAGUAR_def
  REG_RF_MOD_JAGUAR_def REG_FC_AREA_JAGUAR_def REG_WMAC_TRXPTCL_CTL_def REG_DATA_SC_8812_def
  REG_ADC_BUF_CLK_JAGUAR_def REG_CCA_ON_SEC_JAGUAR_def REG_L1_PEAK_TH_JAGUAR_def REG_CCK_SYSTEM_JAGUAR_def

lemmas tail_registers =
  PRODUCTION_CAPTURED_TX_BRINGUP_TAIL_20MHZ_def PRODUCTION_CAPTURED_TX_BRINGUP_TAIL_40MHZ_def band_registers
  REG_TX_BB_CTRL_A_JAGUAR_def REG_TX_BB_CTRL_B_JAGUAR_def REG_RFE_TIMING_A_JAGUAR_def REG_RFE_TIMING_B_JAGUAR_def
  REG_OFDM0_XBAGCCORE1_def REG_TX_PWR_OFFSET_A_JAGUAR_def REG_TX_PWR_OFFSET_B_JAGUAR_def
  REG_TX_PWR_TRAIN_A_JAGUAR_def REG_TX_PWR_TRAIN_B_JAGUAR_def

lemma performs_counters: "performs trace current_counters (\<lambda>_ w. w = [])"
  by (auto simp: performs_def current_counters_def intro: exI [of _ "[]"])

context observed_device
begin

lemma performs_rf_write:
  assumes "path \<noteq> RfBoth"
  shows "performs trace (rf_serial_write_single_path env path off v)
    (\<lambda>_ w. w = [(rf_path_register path, le32 (encode_rf_serial_write off (v AND RF_REGISTER_OFFSET_MASK)))])"
proof -
  obtain name bb where target: "rf_serial_write_targets path = [(path, name, bb, rf_path_register path)]"
    using assms by (cases path) (auto simp: RF_SERIAL_TARGET_A_def RF_SERIAL_TARGET_B_def)
  show ?thesis
    unfolding rf_serial_write_single_path_def target for_each.simps prod.case Let_def
    by (rule performs_then [where P = "\<lambda>_. True"])
      (auto intro!: performs_silent [OF performs_counters] performs_do [OF performs_counted(6)]
        performs_silent_do [OF performs_clock(1)] performs_mono [OF performs_ret] performs_mono [OF performs_fail])
qed

lemma rf_hoare_write:
  assumes "path \<noteq> RfBoth" "off < 256" "\<And>rf. P rf \<Longrightarrow> Q (rf_store path off v rf)"
  shows "rf_hoare trace P (rf_serial_write_single_path env path off v) (\<lambda>_. Q)"
proof (rule rf_hoare_writes [OF performs_rf_write [OF assms(1)]])
  fix rf assume "P rf"
  have "rf_path_register path \<in> RF_SERIAL" using assms(1) by (cases path) simp_all
  then have "rf_run [(rf_path_register path, le32 (encode_rf_serial_write off (v AND RF_REGISTER_OFFSET_MASK)))] rf =
      rf_store path off v rf"
    by (simp add: rf_run_def rf_step_def rf_store_def le32.dec_enc encode_rf_serial_write_fields [OF assms(2)] Let_def)
  then show "Q (rf_run [(rf_path_register path, le32 (encode_rf_serial_write off (v AND RF_REGISTER_OFFSET_MASK)))] rf)"
    using assms(3) [OF \<open>P rf\<close>] by simp
qed

lemma avoids_preflight: "avoids A trace (production_rf_preflight env)"
  unfolding production_rf_preflight_def production_preflight_firmware_def production_preflight_cr_def
  by (intro avoids_intros)

lemma avoids_fix_spur: "avoids RF_SERIAL trace (production_fix_spur_8812a env n bandwidth)"
  unfolding production_fix_spur_8812a_def by (intro avoids_intros) (simp add: band_registers)

lemma avoids_rfe: "avoids RF_SERIAL trace (production_set_rfe_reg_8812 env band rfe_type)"
  unfolding production_set_rfe_reg_8812_def by (intro avoids_intros) (simp_all add: band_registers)

lemma avoids_band_switch: "avoids RF_SERIAL trace (production_switch_wireless_band_8812 env band rfe_type)"
proof -
  have empty: "avoids RF_SERIAL trace (production_poll_tx_packet_empty env)"
  proof -
    have "avoids RF_SERIAL trace (tx_packet_empty_loop env observed n)" for observed n
      by (induction n arbitrary: observed) (auto intro!: avoids_intros)
    then show ?thesis unfolding production_poll_tx_packet_empty_def .
  qed
  show ?thesis
    unfolding production_switch_wireless_band_8812_def production_switch_to_2g_band_def production_switch_to_5g_band_def
      production_set_pwed_thresholds_def production_set_basic_rate_def production_set_bb_swing_default_def
    by (intro avoids_intros avoids_rfe empty) (simp_all add: band_registers)
qed

lemma avoids_bandwidth: "avoids RF_SERIAL trace (program_bandwidth env bandwidth data_sc)"
  unfolding program_bandwidth_def by (intro avoids_intros) (simp_all add: band_registers)

end

text \<open>The captured tail writes serial registers too, but only with the fields of its own channel.\<close>

definition both_paths :: "(u32 \<Rightarrow> bool) \<Rightarrow> rf_registers \<Rightarrow> bool" where
  "both_paths P rf \<longleftrightarrow> P (rf REG_RF_PATH_A_3WIRE 0x18) \<and> P (rf REG_RF_PATH_B_3WIRE 0x18)"

definition serial_write_ok :: "(u32 \<Rightarrow> bool) \<Rightarrow> string \<times> u16 \<times> u32 \<Rightarrow> bool" where
  "serial_write_ok P w \<longleftrightarrow>
     (case w of (name, a, v) \<Rightarrow> a \<in> RF_SERIAL \<longrightarrow> ucast (drop_bit 20 v) = (0x18 :: u8) \<longrightarrow> P (v AND RF_REGISTER_OFFSET_MASK))"

lemma rf_step_keeps: "serial_write_ok P (name, a, v) \<Longrightarrow> both_paths P rf \<Longrightarrow> both_paths P (rf_step (a, le32 v) rf)"
  by (auto simp: serial_write_ok_def both_paths_def rf_step_def le32.dec_enc Let_def)

lemma tail_keeps:
  assumes "production_should_apply_captured_tx_bringup_tail channel bandwidth"
    and "production_channel_programming_number channel bandwidth = Inr num"
    and "production_captured_tx_bringup_tail bandwidth = Inr tail"
  shows "list_all (serial_write_ok (channel_fields num bandwidth)) tail"
proof -
  have number: "ch_number channel = 36" and bw: "bandwidth = Mhz20 \<or> bandwidth = Mhz40"
    using assms(1) by (auto simp: production_should_apply_captured_tx_bringup_tail_def)
  from bw show ?thesis
  proof
    assume b: "bandwidth = Mhz20"
    then have "num = 36" "tail = PRODUCTION_CAPTURED_TX_BRINGUP_TAIL_20MHZ"
      using assms(2,3) number by (auto simp: production_channel_programming_number_def)
    then show ?thesis
      by (simp add: tail_registers serial_write_ok_def channel_fields_def b production_rf_mod_ag_data_def
          RF_REGISTER_OFFSET_MASK_def RF_CHNLBW_CHANNEL_MASK_def RF_CHNLBW_BW_MASK_def RF_CHNLBW_MOD_AG_MASK_def)
  next
    assume b: "bandwidth = Mhz40"
    then have "num = 38" "tail = PRODUCTION_CAPTURED_TX_BRINGUP_TAIL_40MHZ"
      using assms(2,3) number
      by (auto simp: production_channel_programming_number_def production_forty_mhz_center_channel_def bind_res_def
          production_data_secondary_channel_setting_def VHT_DATA_SC_20_LOWER_OF_80MHZ_def split: band.splits if_splits)
    then show ?thesis
      by (simp add: tail_registers serial_write_ok_def channel_fields_def b production_rf_mod_ag_data_def
          RF_REGISTER_OFFSET_MASK_def RF_CHNLBW_CHANNEL_MASK_def RF_CHNLBW_BW_MASK_def RF_CHNLBW_MOD_AG_MASK_def)
  qed
qed

context observed_device
begin

lemma rf_hoare_write32_verify:
  "(\<And>rf. P rf \<Longrightarrow> P (rf_step (a, le32 v) rf)) \<Longrightarrow>
     rf_hoare trace P (production_write32_verify env name a v m e phase) (\<lambda>_. P)"
  by (rule rf_hoare_writes [OF performs_write_verify(3)]) (simp add: rf_run_def)

lemma rf_hoare_tail:
  assumes "production_should_apply_captured_tx_bringup_tail channel bandwidth"
    "production_channel_programming_number channel bandwidth = Inr num"
  shows "rf_hoare trace (both_paths (channel_fields num bandwidth))
    (production_apply_captured_tx_bringup_tail env bandwidth) (\<lambda>_. both_paths (channel_fields num bandwidth))"
proof -
  have "rf_hoare trace (both_paths (channel_fields num bandwidth))
      (production_write32_verify env name a v (- 1) v phase) (\<lambda>_. both_paths (channel_fields num bandwidth))"
    if "production_captured_tx_bringup_tail bandwidth = Inr tail" "(name, a, v) \<in> set tail" for tail name a v phase
    using tail_keeps [OF assms that(1)] that(2)
    by (intro rf_hoare_write32_verify rf_step_keeps) (auto simp: list_all_iff)
  then show ?thesis
    unfolding production_apply_captured_tx_bringup_tail_def
    by (intro rf_hoare_result rf_hoare_for_each) (auto simp: list_all_iff)
qed

lemma rf_hoare_program:
  assumes "path \<noteq> RfBoth"
  shows "rf_hoare trace (\<lambda>_. True) (program_rf_channel env path v num bandwidth)
     (\<lambda>x _. x = apply_rf_mask (apply_rf_mask v RF_CHNLBW_MOD_AG_MASK (production_rf_mod_ag_data num))
         RF_CHNLBW_CHANNEL_MASK (ucast num))"
proof -
  have off: "RF_CHNLBW_JAGUAR < 256" by (simp add: RF_CHNLBW_JAGUAR_def)
  show ?thesis
    unfolding program_rf_channel_def Let_def
    by (rule rf_hoare_do [OF rf_hoare_write [OF assms off]] rf_hoare_do [OF rf_hoare_keep [OF avoids_fix_spur]]
        rf_hoare_ret, simp?)+
qed

text \<open>The bandwidth field is written path by path; the tail and the count that follow keep the fields.\<close>

lemma rf_hoare_finish:
  assumes "production_channel_programming_number channel bandwidth = Inr num"
    and "va = apply_rf_mask (apply_rf_mask pa RF_CHNLBW_MOD_AG_MASK (production_rf_mod_ag_data num))
           RF_CHNLBW_CHANNEL_MASK (ucast num)"
    and "vb = apply_rf_mask (apply_rf_mask pb RF_CHNLBW_MOD_AG_MASK (production_rf_mod_ag_data num))
           RF_CHNLBW_CHANNEL_MASK (ucast num)"
  shows "rf_hoare trace (\<lambda>_. True)
    (and_do (rf_serial_write_single_path env RfA RF_CHNLBW_JAGUAR
        (apply_rf_mask va RF_CHNLBW_BW_MASK (rf_bandwidth_bits bandwidth)))
    (and_do (rf_serial_write_single_path env RfB RF_CHNLBW_JAGUAR
        (apply_rf_mask vb RF_CHNLBW_BW_MASK (rf_bandwidth_bits bandwidth)))
    (and_do (if production_should_apply_captured_tx_bringup_tail channel bandwidth
             then production_apply_captured_tx_bringup_tail env bandwidth else ret ())
       (writes_since before))))
    (\<lambda>_. both_paths (channel_fields num bandwidth))"
proof -
  let ?fields = "channel_fields num bandwidth"
  have off: "RF_CHNLBW_JAGUAR < 256" by (simp add: RF_CHNLBW_JAGUAR_def)
  have a: "rf_hoare trace (\<lambda>_. True) (rf_serial_write_single_path env RfA RF_CHNLBW_JAGUAR
        (apply_rf_mask va RF_CHNLBW_BW_MASK (rf_bandwidth_bits bandwidth))) (\<lambda>_ rf. ?fields (rf REG_RF_PATH_A_3WIRE 0x18))"
    by (rule rf_hoare_write [OF _ off]) (simp_all add: rf_store_def RF_CHNLBW_JAGUAR_def assms(2) channel_fields_programmed)
  have b: "rf_hoare trace (\<lambda>rf. ?fields (rf REG_RF_PATH_A_3WIRE 0x18)) (rf_serial_write_single_path env RfB RF_CHNLBW_JAGUAR
        (apply_rf_mask vb RF_CHNLBW_BW_MASK (rf_bandwidth_bits bandwidth))) (\<lambda>_. both_paths ?fields)"
    by (rule rf_hoare_write [OF _ off])
      (simp_all add: both_paths_def rf_store_def RF_CHNLBW_JAGUAR_def assms(3) channel_fields_programmed)
  have tail: "rf_hoare trace (both_paths ?fields)
      (if production_should_apply_captured_tx_bringup_tail channel bandwidth
       then production_apply_captured_tx_bringup_tail env bandwidth else ret ()) (\<lambda>_. both_paths ?fields)"
    using rf_hoare_tail [OF _ assms(1)] by (simp add: rf_hoare_ret)
  show ?thesis
    by (rule rf_hoare_do [OF a rf_hoare_do [OF b rf_hoare_do [OF tail rf_hoare_keep]]]) (intro avoids_intros)
qed

lemma rf_hoare_channel:
  "rf_hoare trace (\<lambda>_. True) (production_channel_sequence env channel bandwidth rfe_type radioa_plan radiob_plan)
     (\<lambda>_ rf. \<exists>num. production_channel_programming_number channel bandwidth = Inr num \<and>
        both_paths (channel_fields num bandwidth) rf)"
proof -
  have bb: "avoids RF_SERIAL trace (production_bb_masked_write32 env name REG_OFDMCCKEN_JAGUAR m d phase)"
    "avoids RF_SERIAL trace (production_bb_masked_write32 env name REG_FC_AREA_JAGUAR m d phase)" for name m d phase
    by (rule avoids_registers(6), simp add: band_registers)+
  note keep = rf_hoare_do [OF rf_hoare_keep]
  show ?thesis
    unfolding production_channel_sequence_def Let_def
    by (rule rf_hoare_seq [OF rf_hoare_keep [OF avoids_pure(4)]], rule rf_hoare_result, rule rf_hoare_result,
        rule keep [OF avoids_preflight], rule rf_hoare_result, rule rf_hoare_result,
        rule keep [OF avoids_band_switch], rule keep [OF bb(1)], rule keep [OF bb(2)],
        rule rf_hoare_seq_fact [OF rf_hoare_program], simp, rule rf_hoare_seq_fact [OF rf_hoare_program], simp,
        rule keep [OF avoids_bandwidth], rule keep [OF avoids_fix_spur],
        rule rf_hoare_mono [OF rf_hoare_finish]) auto
qed

end

text \<open>
  C30. When a channel is programmed, the channel register of both RF paths holds the centre channel,
  the code of the bandwidth and the band of the channel, whatever the RF tables and the device held
  before; the register values captured from Linux that are replayed on channel 36 agree with them.
\<close>

theorem channel_programs_rf_paths:
  assumes "production_channel_sequence (logged env) channel bandwidth rfe_type radioa_plan radiob_plan s =
    Some (Inr n, s')"
  shows "\<exists>w num. snd (fst s') = snd (fst s) @ w \<and>
    production_channel_programming_number channel bandwidth = Inr num \<and>
    (\<forall>rf. \<forall>path \<in> {REG_RF_PATH_A_3WIRE, REG_RF_PATH_B_3WIRE}.
       rf_run (written w) rf path 0x18 AND RF_CHNLBW_CHANNEL_MASK = ucast num \<and>
       rf_run (written w) rf path 0x18 AND RF_CHNLBW_BW_MASK = push_bit 10 (rf_bandwidth_bits bandwidth) \<and>
       rf_run (written w) rf path 0x18 AND RF_CHNLBW_MOD_AG_MASK = push_bit 8 (production_rf_mod_ag_data num))"
proof -
  from performsD [OF logged.rf_hoare_channel [unfolded rf_hoare_def] assms] obtain w where
    w: "snd (fst s') = snd (fst s) @ w" and rf: "\<forall>rf. \<exists>num. production_channel_programming_number channel bandwidth = Inr num \<and>
        both_paths (channel_fields num bandwidth) (rf_run (written w) rf)"
    by auto
  from rf obtain num where num: "production_channel_programming_number channel bandwidth = Inr num" by blast
  with rf have "both_paths (channel_fields num bandwidth) (rf_run (written w) rf)" for rf by auto
  with w num show ?thesis by (auto simp: both_paths_def channel_fields_def)
qed

end
