(* ===== verification/Channel_Run.thy ===== *)
theory Channel_Run
  imports Channel_Laws
begin

text \<open>
  A device on which a channel is programmed: the register file, with every register all ones.
\<close>

definition plain :: "nat \<Rightarrow> u16 \<Rightarrow> bool" where
  "plain n a \<longleftrightarrow> (\<forall>i < n. forced_bits (a + of_nat i) = 0)"

lemma stored_same: "i < length bs \<Longrightarrow> length bs \<le> 4 \<Longrightarrow> stored a bs m (a + of_nat i) = bs ! i"
  by (simp add: stored_def unat_of_nat)

lemma register_file_write_read:
  "plain 4 a \<Longrightarrow> \<exists>t. write32_with_counter (logged register_file) a v name phase s = Some (Inr (), t) \<and>
     (\<forall>name phase. \<exists>u. read32_with_counter (logged register_file) a name phase t = Some (Inr v, u))"
  "plain 2 a \<Longrightarrow> \<exists>t. write16_with_counter (logged register_file) a x name phase s = Some (Inr (), t) \<and>
     (\<forall>name phase. \<exists>u. read16_with_counter (logged register_file) a name phase t = Some (Inr x, u))"
proof -
  have bytes: "map (\<lambda>i. stored a bs m (a + of_nat i) OR forced_bits (a + of_nat i)) [0..<length bs] = bs"
    if "plain (length bs) a" "length bs \<le> 4" for bs m
    by (rule nth_equalityI) (use that in \<open>auto simp: plain_def stored_same\<close>)
  have upto: "[0..<4] = [0, 1, 2, 3 :: nat]" "[0..<2] = [0, 1 :: nat]" by (simp_all add: upt_rec)
  show "\<exists>t. write32_with_counter (logged register_file) a v name phase s = Some (Inr (), t) \<and>
     (\<forall>name phase. \<exists>u. read32_with_counter (logged register_file) a name phase t = Some (Inr v, u))" if "plain 4 a"
  proof -
    have "[stored a (le32 v) m a OR forced_bits a, stored a (le32 v) m (a + 1) OR forced_bits (a + 1),
        stored a (le32 v) m (a + 2) OR forced_bits (a + 2), stored a (le32 v) m (a + 3) OR forced_bits (a + 3)] = le32 v" for m
      using that bytes [of "le32 v" m] by (simp add: le32.enc_length upto)
    then show ?thesis
      by (simp add: write32_with_counter_def counted_write_def write32_def read32_with_counter_def counted_read_def
          read32_def map_ok_def register_file_exact le32.enc_length le32.dec_enc)
  qed
  show "\<exists>t. write16_with_counter (logged register_file) a x name phase s = Some (Inr (), t) \<and>
     (\<forall>name phase. \<exists>u. read16_with_counter (logged register_file) a name phase t = Some (Inr x, u))" if "plain 2 a"
  proof -
    have "[stored a (le16 x) m a OR forced_bits a, stored a (le16 x) m (a + 1) OR forced_bits (a + 1)] = le16 x" for m
      using that bytes [of "le16 x" m] by (simp add: le16.enc_length upto)
    then show ?thesis
      by (simp add: write16_with_counter_def counted_write_def write16_def read16_with_counter_def counted_read_def
          read16_def map_ok_def register_file_exact le16.enc_length le16.dec_enc)
  qed
qed

lemma succeeds_reads:
  "succeeds (read16_with_counter (logged register_file) a name phase)"
  "succeeds (write16_with_counter (logged register_file) a v name phase)"
  "succeeds (sleep env d)" "succeeds current_counters"
  by (simp_all add: succeeds_def read16_with_counter_def counted_read_def read16_def map_ok_def
      write16_with_counter_def counted_write_def write16_def register_file_exact le16.enc_length
      sleep_def current_counters_def)

lemma succeeds_run_all: "list_all succeeds ms \<Longrightarrow> succeeds (run_all ms)"
  by (induction ms) (simp_all add: succeeds_ret succeeds_and_do)

text \<open>A write followed by a check of what was written.\<close>

lemma write_then_check:
  assumes "\<And>s. \<exists>t u. w s = Some (Inr (), t) \<and> rd t = Some (Inr v, u)"
    and "\<And>t u. rd t = Some (Inr v, u) \<Longrightarrow> \<exists>x u'. k t = Some (Inr x, u')"
  shows "succeeds (and_do w k)"
  unfolding succeeds_def
proof
  fix s
  obtain t u where t: "w s = Some (Inr (), t)" "rd t = Some (Inr v, u)" using assms(1) by blast
  then obtain x u' where "k t = Some (Inr x, u')" using assms(2) by blast
  then show "\<exists>x s'. and_do w k s = Some (Inr x, s')" using t(1) by (simp add: and_do_def and_then_def)
qed

lemmas write_then_check_plain =
  write_then_check [where rd = "read16_with_counter (logged register_file) a name phase" for a name phase]
  write_then_check [where rd = "read32_with_counter (logged register_file) a name phase" for a name phase]

lemma verify_once:
  "read16_with_counter env a name phase t = Some (Inr x, u) \<Longrightarrow> x AND m16 = e16 AND m16 \<Longrightarrow>
     \<exists>x u'. and_then (production_verify16_readback env name a m16 e16 phase) (\<lambda>_. ret ()) t = Some (Inr x, u')"
  "read32_with_counter env a name phase t = Some (Inr y, u) \<Longrightarrow> y AND m32 = e32 AND m32 \<Longrightarrow>
     \<exists>x u'. and_then (production_verify32_readback env name a m32 e32 phase) (\<lambda>_. ret ()) t = Some (Inr x, u')"
  unfolding production_verify16_readback_def production_verify32_readback_def
  using verify_loop_first [where rd = "read16_with_counter env a name phase" and env = env and s = t and v = x]
    verify_loop_first [where rd = "read32_with_counter env a name phase" and env = env and s = t and v = y]
  by (simp_all add: and_then_def ret_def PRODUCTION_READBACK_VERIFY_ATTEMPTS_def)

lemma write32_verify_succeeds:
  assumes "plain 4 a"
  shows "succeeds (production_write32_verify (logged register_file) name a v (- 1) v phase)"
proof -
  have "succeeds (and_do (write32_with_counter (logged register_file) a v name phase)
      (and_then (production_verify32_readback (logged register_file) name a (- 1) v phase) (\<lambda>_. ret ())))"
    by (rule write_then_check_plain(2) [where v = v and a = a and name = name and phase = phase])
      (use register_file_write_read(1) [OF assms] in blast, rule verify_once(2) [where y = v], simp_all)
  then show ?thesis by (simp add: production_write32_verify_def and_do_def)
qed

lemma write16_verify_succeeds:
  assumes "plain 2 a" "v AND m = e AND m"
  shows "succeeds (and_do (write16_with_counter (logged register_file) a v name phase)
      (and_then (production_verify16_readback (logged register_file) name a m e phase) (\<lambda>_. ret ())))"
  by (rule write_then_check_plain(1) [where v = v and a = a and name = name and phase = phase])
    (use register_file_write_read(2) [OF assms(1)] in blast, rule verify_once(1) [OF _ assms(2)], simp)

lemma rmw16_preserve_succeeds:
  assumes "plain 2 a" "p AND m = 0"
  shows "succeeds (production_rmw16_preserve (logged register_file) name a p m v phase)"
proof -
  have "((x AND p) OR (v AND m)) AND m = v AND m" for x
  proof (rule bit_word_eqI)
    fix n
    have "\<not> (bit p n \<and> bit m n)" using arg_cong [OF assms(2), of "\<lambda>w. bit w n"] by (simp add: bit_simps)
    then show "bit (((x AND p) OR (v AND m)) AND m) n \<longleftrightarrow> bit (v AND m) n" by (auto simp: bit_simps)
  qed
  then show ?thesis
    unfolding production_rmw16_preserve_def
    by (intro succeeds_and_then [OF succeeds_reads(1)]) (use write16_verify_succeeds [OF assms(1)] in \<open>simp add: and_do_def\<close>)
qed

lemma and_do_and_then: "and_do (and_then m f) k = and_then m (\<lambda>x. and_do (f x) k)"
  by (auto simp: fun_eq_iff and_do_def and_then_def split: option.split sum.split)

lemma bb_masked_write_succeeds:
  assumes "plain 4 a" "m \<noteq> 0"
  shows "succeeds (production_bb_masked_write32 (logged register_file) name a m d phase)"
proof -
  have check: "\<exists>x u'. (if m \<noteq> 0
      then and_then (read32_with_counter (logged register_file) a name phase) (\<lambda>after.
        let expected = push_bit (trailing_zeros m) d AND m in
        if after AND m \<noteq> expected
        then fail (production_readback_error name m expected (after AND m) 8)
        else ret ())
      else ret ()) t = Some (Inr x, u')"
    if "read32_with_counter (logged register_file) a name phase t = Some (Inr v, u)" "v AND m = push_bit (trailing_zeros m) d AND m"
    for v t u
    using that assms(2) by (simp add: and_then_def ret_def)
  have bits: "((x AND NOT m) OR (y AND m)) AND m = y AND m" for x y by (rule bit_word_eqI) (auto simp: bit_simps)
  have whole: "trailing_zeros (- 1) = 0" by (simp add: trailing_zeros_def upt_rec)
  have step: "succeeds (and_do (write32_with_counter (logged register_file) a v name ''bb-set'')
      (if m \<noteq> 0
       then and_then (read32_with_counter (logged register_file) a name phase) (\<lambda>after.
         let expected = push_bit (trailing_zeros m) d AND m in
         if after AND m \<noteq> expected
         then fail (production_readback_error name m expected (after AND m) 8)
         else ret ())
       else ret ()))" if "v AND m = push_bit (trailing_zeros m) d AND m" for v
    by (rule write_then_check_plain(2) [where v = v, OF _ check [OF _ that]])
      (use register_file_write_read(1) [OF assms(1)] in blast)
  show ?thesis
  proof (cases "m = - 1")
    case True
    then show ?thesis
      using step [of d] whole unfolding True by (simp add: production_bb_masked_write32_def bb_set_bb_reg_def)
  next
    case False
    then show ?thesis
      unfolding production_bb_masked_write32_def bb_set_bb_reg_def if_not_P [OF assms(2)] if_not_P [OF False]
        and_do_and_then
      by (intro succeeds_and_then [OF succeeds_register_file(2)]) (use step bits assms(2) in \<open>simp add: Let_def\<close>)
  qed
qed

text \<open>\<open>yields P m\<close>: \<open>m\<close> succeeds with a value that satisfies \<open>P\<close>.\<close>

definition yields :: "('a \<Rightarrow> bool) \<Rightarrow> ('t, 'a) reg_op \<Rightarrow> bool" where
  "yields P m \<longleftrightarrow> (\<forall>s. \<exists>x t. m s = Some (Inr x, t) \<and> P x)"

lemma yields_ret: "P x \<Longrightarrow> yields P (ret x)"
  by (simp add: yields_def ret_def)

lemma yields_and_then:
  assumes "succeeds m" "\<And>x. yields P (f x)"
  shows "yields P (and_then m f)"
  unfolding yields_def
proof
  fix s
  obtain x t where "m s = Some (Inr x, t)" using assms(1) unfolding succeeds_def by blast
  moreover obtain y u where "f x t = Some (Inr y, u)" "P y" using assms(2) unfolding yields_def by blast
  ultimately show "\<exists>x t. and_then m f s = Some (Inr x, t) \<and> P x" by (simp add: and_then_def)
qed

lemma yields_and_do: "succeeds m \<Longrightarrow> yields P n \<Longrightarrow> yields P (and_do m n)"
  unfolding and_do_def by (rule yields_and_then)

lemma succeeds_yields: "yields P m \<Longrightarrow> (\<And>x. P x \<Longrightarrow> succeeds (f x)) \<Longrightarrow> succeeds (and_then m f)"
  unfolding yields_def by (rule succeeds_then_where [where P = P]) blast+

lemma rf_write_succeeds:
  assumes "path \<noteq> RfBoth"
  shows "succeeds (rf_serial_write_single_path (logged register_file) path off v)"
proof -
  obtain name bb where target: "rf_serial_write_targets path = [(path, name, bb, rf_path_register path)]"
    using assms by (cases path) (auto simp: RF_SERIAL_TARGET_A_def RF_SERIAL_TARGET_B_def)
  show ?thesis
    unfolding rf_serial_write_single_path_def target for_each.simps prod.case Let_def and_then_ret_right
    by (rule succeeds_yields [where P = "\<lambda>r. r \<noteq> []"])
      (auto intro!: yields_ret yields_and_then yields_and_do succeeds_reads succeeds_register_file succeeds_ret)
qed

section \<open>The channel sequence\<close>

text \<open>As long as nothing has been written, every register reads as all ones.\<close>

definition blank :: "((nat \<times> (u16 \<Rightarrow> u8)) \<times> reg_access list) reg_state \<Rightarrow> bool" where
  "blank s \<longleftrightarrow> regs (fst s) = (\<lambda>_. 0xff)"

lemma blank_reads:
  assumes "blank s"
  shows "\<exists>t. read8_with_counter (logged register_file) a name phase s = Some (Inr 0xff, t) \<and> blank t"
    and "\<exists>t. read16_with_counter (logged register_file) a name phase s = Some (Inr 0xffff, t) \<and> blank t"
proof -
  have ones: "0xff OR x = (0xff :: u8)" for x
  proof -
    have "(0xff :: u8) = - 1" by simp
    then show ?thesis by (simp only: or.comm_neutral bit.disj_one_left)
  qed
  then show "\<exists>t. read8_with_counter (logged register_file) a name phase s = Some (Inr 0xff, t) \<and> blank t"
    using assms by (simp add: blank_def read8_with_counter_def counted_read_def read8_def map_ok_def register_file_exact)
  have "of_le16 [0xff, 0xff] = 0xffff" by (simp add: of_le16_def)
  then show "\<exists>t. read16_with_counter (logged register_file) a name phase s = Some (Inr 0xffff, t) \<and> blank t"
    using assms ones
    by (simp add: blank_def read16_with_counter_def counted_read_def read16_def map_ok_def register_file_exact)
qed

lemma blank_preflight:
  assumes "blank s"
  shows "\<exists>t. production_rf_preflight (logged register_file) s = Some (Inr (), t) \<and> blank t"
proof -
  obtain t where cr: "read16_with_counter (logged register_file) REG_CR ''REG_CR'' ''preflight'' s = Some (Inr 0xffff, t)" "blank t"
    using blank_reads(2) [OF assms] by blast
  obtain u where mcu: "read8_with_counter (logged register_file) REG_MCUFWDL ''REG_MCUFWDL'' ''preflight'' t = Some (Inr 0xff, u)" "blank u"
    using blank_reads(1) [OF cr(2)] by blast
  obtain v where sys: "read8_with_counter (logged register_file) REG_SYS_FUNC_EN ''REG_SYS_FUNC_EN'' ''rf-preflight'' u = Some (Inr 0xff, v)" "blank v"
    using blank_reads(1) [OF mcu(2)] by blast
  have "production_rf_preflight (logged register_file) s = Some (Inr (), v)"
    using cr(1) mcu(1) sys(1)
    by (simp add: production_rf_preflight_def production_preflight_firmware_def production_preflight_cr_def and_do_def
        and_then_def ret_def CR_ENABLE_BITS_def RAM_DL_SEL_def BIT6_def BIT1_def FEN_USBA_def FEN_BB_GLB_RSTN_def
        FEN_BBRSTB_def BIT0_def BIT2_def)
  with sys(2) show ?thesis by blast
qed

lemma plain_def4: "plain 4 a \<longleftrightarrow> forced_bits a = 0 \<and> forced_bits (a + 1) = 0 \<and> forced_bits (a + 2) = 0 \<and> forced_bits (a + 3) = 0"
  by (auto simp: plain_def less_Suc_eq numeral_eq_Suc)

lemma plain_def2: "plain 2 a \<longleftrightarrow> forced_bits a = 0 \<and> forced_bits (a + 1) = 0"
  by (auto simp: plain_def less_2_cases_iff)

lemmas plain_simps = plain_def4 plain_def2 forced_bits_def REG_MCUFWDL_def band_registers

lemma and_then_of_result [simp]: "and_then (of_result (Inr x)) f = f x"
  by (simp add: fun_eq_iff and_then_def of_result_def)

lemma succeeds_if: "succeeds m \<Longrightarrow> succeeds n \<Longrightarrow> succeeds (if b then m else n)"
  by simp

lemmas listed = run_all_Cons run_all_Nil for_each.simps prod.case option.case

lemmas succeeds_steps =
  succeeds_if succeeds_and_do succeeds_and_then succeeds_ret succeeds_pure(1,2) bb_masked_write_succeeds rf_write_succeeds
  rmw16_preserve_succeeds write8_verify_succeeds write32_verify_succeeds succeeds_register_file(1)

lemma rfe_succeeds: "succeeds (production_set_rfe_reg_8812 (logged register_file) Ghz5 3)"
proof -
  have config: "production_rfe_reg_config_8812 Ghz5 3 =
      Inr \<lparr>rfe_pinmux = 0x54337717, rfe_inv_mask = 0x3ff00000, rfe_inv = 0x010, rfe_antsel = Some 0x1\<rparr>"
    by (simp add: production_rfe_reg_config_8812_def)
  show ?thesis
    unfolding production_set_rfe_reg_8812_def config and_then_of_result rfe_reg_config.simps listed
    by (intro succeeds_steps) (simp_all add: plain_simps)
qed

lemma blank_band_switch:
  assumes "blank s"
  shows "\<exists>t. production_switch_wireless_band_8812 (logged register_file) Ghz5 3 s = Some (Inr (), t)"
proof -
  obtain t where "read8_with_counter (logged register_file) REG_CCK_CHECK_8812 ''REG_CCK_CHECK_8812'' ''band-switch'' s = Some (Inr 0xff, t)"
    using blank_reads(1) [OF assms] by blast
  moreover obtain u where "production_set_rfe_reg_8812 (logged register_file) Ghz5 3 t = Some (Inr (), u)"
    using rfe_succeeds unfolding succeeds_def by (metis (full_types) old.unit.exhaust)
  ultimately show ?thesis
    by (simp add: production_switch_wireless_band_8812_def and_then_def BIT7_def)
qed

lemma spur_succeeds: "succeeds (production_fix_spur_8812a (logged register_file) n bandwidth)"
  unfolding production_fix_spur_8812a_def Let_def
  by (cases "14 < n") (auto intro!: succeeds_steps simp: plain_simps)

lemma program_succeeds:
  "path \<noteq> RfBoth \<Longrightarrow> succeeds (program_rf_channel (logged register_file) path v n bandwidth)"
  unfolding program_rf_channel_def Let_def by (intro succeeds_steps spur_succeeds)

lemma bandwidth_succeeds: "succeeds (program_bandwidth (logged register_file) Mhz40 data_sc)"
  unfolding program_bandwidth_def Let_def listed
  by (intro succeeds_steps) (simp_all add: plain_simps)

lemmas agc_registers =
  REG_TX_AGC_A_CCK_JAGUAR_def REG_TX_AGC_A_OFDM18_OFDM6_JAGUAR_def REG_TX_AGC_A_OFDM54_OFDM24_JAGUAR_def
  REG_TX_AGC_A_MCS3_MCS0_JAGUAR_def REG_TX_AGC_A_MCS7_MCS4_JAGUAR_def REG_TX_AGC_A_NSS1_7_NSS1_4_JAGUAR_def
  REG_TX_AGC_A_NSS1_11_NSS1_8_JAGUAR_def REG_TX_AGC_A_NSS1_3_NSS1_0_JAGUAR_def
  REG_TX_AGC_A_NSS2_3_NSS2_0_JAGUAR_def REG_TX_AGC_A_NSS2_7_NSS2_4_JAGUAR_def
  REG_TX_AGC_A_NSS2_11_NSS2_8_JAGUAR_def REG_TX_AGC_A_NSS3_3_NSS3_0_JAGUAR_def REG_TX_AGC_B_CCK_JAGUAR_def
  REG_TX_AGC_B_OFDM18_OFDM6_JAGUAR_def REG_TX_AGC_B_OFDM54_OFDM24_JAGUAR_def REG_TX_AGC_B_MCS3_MCS0_JAGUAR_def
  REG_TX_AGC_B_MCS7_MCS4_JAGUAR_def REG_TX_AGC_B_NSS1_7_NSS1_4_JAGUAR_def REG_TX_AGC_B_NSS1_11_NSS1_8_JAGUAR_def
  REG_TX_AGC_B_NSS1_3_NSS1_0_JAGUAR_def REG_TX_AGC_B_NSS2_3_NSS2_0_JAGUAR_def
  REG_TX_AGC_B_NSS2_7_NSS2_4_JAGUAR_def REG_TX_AGC_B_NSS2_11_NSS2_8_JAGUAR_def
  REG_TX_AGC_B_NSS3_3_NSS3_0_JAGUAR_def

lemma tail_succeeds: "succeeds (production_apply_captured_tx_bringup_tail (logged register_file) Mhz40)"
proof -
  have plain: "list_all (\<lambda>(name, a, v). plain 4 a) PRODUCTION_CAPTURED_TX_BRINGUP_TAIL_40MHZ"
    by (simp add: tail_registers agc_registers plain_def4 forced_bits_def REG_MCUFWDL_def)
  have "list_all (\<lambda>(name, a, v). plain 4 a) xs \<Longrightarrow> succeeds (for_each xs (\<lambda>(register_name, address, v) _.
       production_write32_verify (logged register_file) register_name address v (- 1) v ''tx-bringup-tail'') ())" for xs
    by (induction xs) (auto intro!: succeeds_steps)
  from this [OF plain] show ?thesis
    unfolding production_apply_captured_tx_bringup_tail_def by simp
qed

lemma blank_channel_sequence:
  assumes "blank s"
  shows "\<exists>n t. production_channel_sequence (logged register_file) \<lparr>ch_number = 36, ch_frequency_mhz = 5180, ch_band = Ghz5\<rparr>
    Mhz40 3 (ii_radioa_plan small_inputs) (ii_radiob_plan small_inputs) s = Some (Inr n, t)"
proof -
  let ?c = "\<lparr>ch_number = 36, ch_frequency_mhz = 5180, ch_band = Ghz5\<rparr>"
  have sc: "production_data_secondary_channel_setting ?c Mhz40 = Inr VHT_DATA_SC_20_LOWER_OF_80MHZ"
    by (simp add: production_data_secondary_channel_setting_def)
  have num: "production_channel_programming_number ?c Mhz40 = Inr 38"
    by (simp add: production_channel_programming_number_def production_forty_mhz_center_channel_def sc bind_res_def)
  have base: "production_last_rf_register_data (small_plan k [table_action k 0 0x18 v]) RF_CHNLBW_JAGUAR = Inr v"
    if "k = RtkRfRadioA \<or> k = RtkRfRadioB" and "v = 0x1712a" for k v
    using that by (auto simp: production_last_rf_register_data_def small_plan_def table_action_def RF_CHNLBW_JAGUAR_def)
  have plans: "production_last_rf_register_data (ii_radioa_plan small_inputs) RF_CHNLBW_JAGUAR = Inr 0x1712a"
    "production_last_rf_register_data (ii_radiob_plan small_inputs) RF_CHNLBW_JAGUAR = Inr 0x1712a"
    by (simp_all add: small_inputs_def base)
  obtain t where t: "production_rf_preflight (logged register_file) s = Some (Inr (), t)" "blank t"
    using blank_preflight [OF assms] by blast
  obtain u where u: "production_switch_wireless_band_8812 (logged register_file) Ghz5 3 t = Some (Inr (), u)"
    using blank_band_switch [OF t(2)] by blast
  have start: "\<exists>x t. and_then control_writes (\<lambda>n. and_do m (and_do k (f n))) s = Some (Inr x, t)"
    if m: "m s = Some (Inr (), t)" and k: "k t = Some (Inr (), u)" and f: "\<And>n. succeeds (f n)" for m k f
  proof -
    obtain x v where "f (rc_usb_control_writes (snd s)) u = Some (Inr x, v)" using f unfolding succeeds_def by blast
    then show ?thesis using m k by (simp add: and_do_def and_then_def control_writes_def)
  qed
  have tail: "succeeds (if production_should_apply_captured_tx_bringup_tail ?c Mhz40
      then production_apply_captured_tx_bringup_tail (logged register_file) Mhz40 else ret ())"
    by (simp add: tail_succeeds succeeds_ret)
  show ?thesis
    unfolding production_channel_sequence_def num sc plans and_then_of_result Let_def channel.simps
    by (rule start, rule t(1), rule u, intro succeeds_steps spur_succeeds program_succeeds bandwidth_succeeds tail)
      (simp_all add: plain_simps)
qed

lemma channel_programs_rf_paths_witness:
  "\<exists>n s'. production_channel_sequence (logged register_file) \<lparr>ch_number = 36, ch_frequency_mhz = 5180, ch_band = Ghz5\<rparr>
      Mhz40 3 (ii_radioa_plan small_inputs) (ii_radiob_plan small_inputs)
      (((0, \<lambda>_. 0xff), []), radio_counters_default) = Some (Inr n, s') \<and>
    rf_run (written (snd (fst s'))) (\<lambda>_ _. 0) REG_RF_PATH_B_3WIRE 0x18 AND RF_CHNLBW_CHANNEL_MASK = 38"
proof -
  let ?c = "\<lparr>ch_number = 36, ch_frequency_mhz = 5180, ch_band = Ghz5\<rparr>"
  have "blank (((0, \<lambda>_. 0xff), []), radio_counters_default)" by (simp add: blank_def)
  from blank_channel_sequence [OF this] obtain n s' where
    run: "production_channel_sequence (logged register_file) ?c Mhz40 3 (ii_radioa_plan small_inputs)
      (ii_radiob_plan small_inputs) (((0, \<lambda>_. 0xff), []), radio_counters_default) = Some (Inr n, s')" by blast
  have "production_channel_programming_number ?c Mhz40 = Inr 38"
    by (simp add: production_channel_programming_number_def production_forty_mhz_center_channel_def bind_res_def
        production_data_secondary_channel_setting_def)
  with channel_programs_rf_paths [OF run] run show ?thesis by auto
qed

end
