(* ===== verification/Channel_Placement.thy ===== *)
theory Channel_Placement
  imports Channel_Setup
begin

text \<open>
  The channel set-up and the transmit descriptor compute the place of the primary channel from
  different tables; here they agree, and the programmed channel covers the primary one.
\<close>

definition ok_value :: "('e, 'a) result \<Rightarrow> 'a option" where
  "ok_value r = (case r of Inr x \<Rightarrow> Some x | Inl _ \<Rightarrow> None)"

lemma ok_value_simps [simp]: "ok_value (Inr x) = Some x" "ok_value (Inl e) = None"
  by (simp_all add: ok_value_def)

text \<open>
  How far the primary channel may lie from the centre of the programmed one, in channel numbers of
  5 MHz: half of what the bandwidth exceeds 20 MHz.
\<close>

definition primary_inside :: "u8 \<Rightarrow> u8 \<Rightarrow> bandwidth \<Rightarrow> bool" where
  "primary_inside primary center bandwidth \<longleftrightarrow>
     2 * 5 * nat \<bar>int (unat primary) - int (unat center)\<bar> \<le> unat (mhz bandwidth) - 20"

lemma placement_40:
  "\<forall>c \<in> set supported_channels.
     ok_value (production_data_secondary_channel_setting c Mhz40) = ok_value (tx_data_secondary_channel c Mhz40 Mhz20) \<and>
     (\<forall>num. production_channel_programming_number c Mhz40 = Inr num \<longrightarrow> primary_inside (ch_number c) num Mhz40)"
  by (simp add: channel_tables production_data_secondary_channel_setting_def tx_data_secondary_channel_def
      tx_primary_20_of_40_def production_channel_programming_number_def production_forty_mhz_center_channel_def
      bind_res_def primary_inside_def vht_data_sc_defs)

lemma placement_80:
  "\<forall>c \<in> set supported_channels.
     ok_value (production_data_secondary_channel_setting c Mhz80) =
       (case (tx_data_secondary_channel c Mhz80 Mhz40, tx_data_secondary_channel c Mhz80 Mhz20) of
          (Inr sc40, Inr sc20) \<Rightarrow> Some (push_bit 4 sc40 OR sc20) | _ \<Rightarrow> None) \<and>
     (\<forall>num. production_channel_programming_number c Mhz80 = Inr num \<longrightarrow> primary_inside (ch_number c) num Mhz80)"
  by (simp add: channel_tables production_data_secondary_channel_setting_def tx_data_secondary_channel_def
      production_channel_programming_number_def production_eighty_mhz_center_and_position_def
      bind_res_def primary_inside_def vht_data_sc_defs)

text \<open>
  C34. On every supported channel, the value the channel set-up programs for the place of the
  primary channel is the one the transmit descriptor carries: at 40 MHz that of a 20 MHz frame, at
  80 MHz those of a 40 and of a 20 MHz frame in two nibbles; it exists exactly when they do.  The
  centre channel that is programmed covers the primary channel.
\<close>

theorem channel_placement_agrees:
  "\<forall>c \<in> set supported_channels.
     ok_value (production_data_secondary_channel_setting c Mhz40) = ok_value (tx_data_secondary_channel c Mhz40 Mhz20) \<and>
     ok_value (production_data_secondary_channel_setting c Mhz80) =
       (case (tx_data_secondary_channel c Mhz80 Mhz40, tx_data_secondary_channel c Mhz80 Mhz20) of
          (Inr sc40, Inr sc20) \<Rightarrow> Some (push_bit 4 sc40 OR sc20) | _ \<Rightarrow> None) \<and>
     (\<forall>bandwidth num. production_channel_programming_number c bandwidth = Inr num \<longrightarrow>
        primary_inside (ch_number c) num bandwidth)"
proof (intro ballI conjI allI impI)
  fix c assume c: "c \<in> set supported_channels"
  show "ok_value (production_data_secondary_channel_setting c Mhz40) = ok_value (tx_data_secondary_channel c Mhz40 Mhz20)"
    "ok_value (production_data_secondary_channel_setting c Mhz80) =
       (case (tx_data_secondary_channel c Mhz80 Mhz40, tx_data_secondary_channel c Mhz80 Mhz20) of
          (Inr sc40, Inr sc20) \<Rightarrow> Some (push_bit 4 sc40 OR sc20) | _ \<Rightarrow> None)"
    using placement_40 placement_80 c by blast+
  fix bandwidth num assume num: "production_channel_programming_number c bandwidth = Inr num"
  show "primary_inside (ch_number c) num bandwidth"
  proof (cases bandwidth)
    case Mhz20
    then show ?thesis using num by (simp add: production_channel_programming_number_def primary_inside_def)
  qed (use num placement_40 placement_80 c in blast)+
qed

lemma channel_placement_agrees_witness:
  "production_channel_programming_number \<lparr>ch_number = 44, ch_frequency_mhz = 5220, ch_band = Ghz5\<rparr> Mhz80 = Inr 42 \<and>
   ok_value (production_data_secondary_channel_setting \<lparr>ch_number = 44, ch_frequency_mhz = 5220, ch_band = Ghz5\<rparr> Mhz80) =
     Some 0x91"
  using channel_placement_agrees [THEN bspec, of "\<lparr>ch_number = 44, ch_frequency_mhz = 5220, ch_band = Ghz5\<rparr>"]
  by (simp add: channel_tables tx_data_secondary_channel_def vht_data_sc_defs
      production_channel_programming_number_def production_eighty_mhz_center_and_position_def)

text \<open>The channels above 144 are not multiples of four, so the 40 MHz table has no entry for them.\<close>

lemma the_upper_band_has_no_40_mhz:
  "\<forall>c \<in> set supported_channels. ch_band c = Ghz5 \<and> 144 < ch_number c \<longrightarrow>
     supports_bandwidth c Mhz40 \<and> ok_value (production_data_secondary_channel_setting c Mhz40) = None"
  by (simp add: channel_tables production_data_secondary_channel_setting_def supports_bandwidth_def)

end
