(* ===== verification/Rx_Telemetry.thy ===== *)
theory Rx_Telemetry
  imports Rx_Parser
begin

text \<open>
  What the production runtime keeps about received frames
  (\<open>wfb-radio-runtime/src/lib.rs\<close>): the signal statistics and the WFB channels seen, each with an
  operation for one frame and one that merges two summaries.
\<close>

type_synonym i64 = "64 word"

section \<open>Signal statistics\<close>

text \<open>Signed saturating addition, minimum and maximum.\<close>

definition i64_saturating_add :: "i64 \<Rightarrow> i64 \<Rightarrow> i64" where
  "i64_saturating_add a b = word_of_int (max (- (2 ^ 63)) (min (2 ^ 63 - 1) (sint a + sint b)))"

definition i8_min :: "i8 \<Rightarrow> i8 \<Rightarrow> i8" where
  "i8_min a b = (if sint a \<le> sint b then a else b)"

definition i8_max :: "i8 \<Rightarrow> i8 \<Rightarrow> i8" where
  "i8_max a b = (if sint a \<le> sint b then b else a)"

record signal_metric =
  sm_sample_count :: u64
  sm_min :: "i8 option"
  sm_max :: "i8 option"
  sm_average :: "i64 option"
  sm_sum :: i64

definition signal_metric_default :: signal_metric where
  "signal_metric_default =
     \<lparr>sm_sample_count = 0, sm_min = None, sm_max = None, sm_average = None, sm_sum = 0\<rparr>"

text \<open>Division of \<open>i64\<close> values truncates.\<close>

definition i64_div :: "i64 \<Rightarrow> i64 \<Rightarrow> i64" where
  "i64_div a b = word_of_int (sgn (sint a) * sgn (sint b) * (\<bar>sint a\<bar> div \<bar>sint b\<bar>))"

definition rounded_average_i64 :: "i64 \<Rightarrow> u64 \<Rightarrow> i64" where
  "rounded_average_i64 summed count =
     (let count = (if unat count < 2 ^ 63 then count else 2 ^ 63 - 1);
          count = max count 1
      in if 0 \<le> sint summed then i64_div (summed + i64_div count 2) count
         else - i64_div (- summed + i64_div count 2) count)"

definition metric_observe :: "i8 \<Rightarrow> signal_metric \<Rightarrow> signal_metric" where
  "metric_observe v self =
     (let count = sat_add (sm_sample_count self) 1;
          summed = i64_saturating_add (sm_sum self) (scast v)
      in \<lparr>sm_sample_count = count,
          sm_min = Some (case sm_min self of None \<Rightarrow> v | Some current \<Rightarrow> i8_min current v),
          sm_max = Some (case sm_max self of None \<Rightarrow> v | Some current \<Rightarrow> i8_max current v),
          sm_average = Some (rounded_average_i64 summed count), sm_sum = summed\<rparr>)"

fun merge_bound :: "(i8 \<Rightarrow> i8 \<Rightarrow> i8) \<Rightarrow> i8 option \<Rightarrow> i8 option \<Rightarrow> i8 option" where
  "merge_bound f (Some left) (Some right) = Some (f left right)"
| "merge_bound f None (Some right) = Some right"
| "merge_bound f left None = left"

definition metric_merge :: "signal_metric \<Rightarrow> signal_metric \<Rightarrow> signal_metric" where
  "metric_merge self other =
     (if sm_sample_count other = 0 then self
      else
        let count = sat_add (sm_sample_count self) (sm_sample_count other);
            summed = i64_saturating_add (sm_sum self) (sm_sum other)
        in \<lparr>sm_sample_count = count, sm_min = merge_bound i8_min (sm_min self) (sm_min other),
            sm_max = merge_bound i8_max (sm_max self) (sm_max other),
            sm_average = Some (rounded_average_i64 summed count), sm_sum = summed\<rparr>)"

record signal_summary =
  sg_rssi_dbm :: signal_metric
  sg_snr_db :: signal_metric
  sg_noise_dbm :: signal_metric

definition signal_summary_default :: signal_summary where
  "signal_summary_default =
     \<lparr>sg_rssi_dbm = signal_metric_default, sg_snr_db = signal_metric_default, sg_noise_dbm = signal_metric_default\<rparr>"

definition observe_frame :: "rx_frame \<Rightarrow> signal_summary \<Rightarrow> signal_summary" where
  "observe_frame frame self =
     (let self = (if rx_rssi_dbm_valid frame
                  then self\<lparr>sg_rssi_dbm := metric_observe (rx_rssi_dbm frame) (sg_rssi_dbm self)\<rparr> else self);
          self = (case rx_snr_db frame of
                    Some snr_db \<Rightarrow> self\<lparr>sg_snr_db := metric_observe snr_db (sg_snr_db self)\<rparr> | None \<Rightarrow> self)
      in case rx_noise_dbm frame of
           Some noise_dbm \<Rightarrow> self\<lparr>sg_noise_dbm := metric_observe noise_dbm (sg_noise_dbm self)\<rparr> | None \<Rightarrow> self)"

definition summary_merge :: "signal_summary \<Rightarrow> signal_summary \<Rightarrow> signal_summary" where
  "summary_merge self other =
     \<lparr>sg_rssi_dbm = metric_merge (sg_rssi_dbm self) (sg_rssi_dbm other),
      sg_snr_db = metric_merge (sg_snr_db self) (sg_snr_db other),
      sg_noise_dbm = metric_merge (sg_noise_dbm self) (sg_noise_dbm other)\<rparr>"

section \<open>WFB channels seen\<close>

definition WFB_OBSERVED_HEADER_LEN :: nat where "WFB_OBSERVED_HEADER_LEN = 24"
definition WFB_OBSERVED_MAC_PREFIX :: bytes where "WFB_OBSERVED_MAC_PREFIX = [0x57, 0x42]"
definition WFB_OBSERVED_SRC_MAC_PREFIX_OFFSET :: nat where "WFB_OBSERVED_SRC_MAC_PREFIX_OFFSET = 10"
definition WFB_OBSERVED_SRC_CHANNEL_ID_OFFSET :: nat where "WFB_OBSERVED_SRC_CHANNEL_ID_OFFSET = 12"
definition WFB_OBSERVED_DST_MAC_PREFIX_OFFSET :: nat where "WFB_OBSERVED_DST_MAC_PREFIX_OFFSET = 16"
definition WFB_OBSERVED_DST_CHANNEL_ID_OFFSET :: nat where "WFB_OBSERVED_DST_CHANNEL_ID_OFFSET = 18"
definition WFB_MAX_CHANNEL_OBSERVATIONS :: nat where "WFB_MAX_CHANNEL_OBSERVATIONS = 32"

lemmas wfb_observed_defs =
  WFB_OBSERVED_HEADER_LEN_def WFB_OBSERVED_MAC_PREFIX_def WFB_OBSERVED_SRC_MAC_PREFIX_OFFSET_def
  WFB_OBSERVED_SRC_CHANNEL_ID_OFFSET_def WFB_OBSERVED_DST_MAC_PREFIX_OFFSET_def
  WFB_OBSERVED_DST_CHANNEL_ID_OFFSET_def

record channel_observation =
  co_source_channel_id :: u32
  co_source_channel_id_hex :: string
  co_source_link_id :: u32
  co_source_radio_port :: u8
  co_destination_channel_id :: u32
  co_destination_channel_id_hex :: string
  co_destination_link_id :: u32
  co_destination_radio_port :: u8
  co_count :: u64

definition format_wfb_observed_channel_id :: "u32 \<Rightarrow> string" where
  "format_wfb_observed_channel_id raw = ''0x'' @ show_hex 8 (unat raw)"

definition split_wfb_observed_channel_id :: "u32 \<Rightarrow> u32 \<times> u8" where
  "split_wfb_observed_channel_id raw = (drop_bit 8 raw, ucast (raw AND 0xff))"

definition runtime_wfb_channel_observation :: "bytes \<Rightarrow> channel_observation option" where
  "runtime_wfb_channel_observation frame =
     (if length frame < WFB_OBSERVED_HEADER_LEN then None
      else if byte_slice WFB_OBSERVED_SRC_MAC_PREFIX_OFFSET (WFB_OBSERVED_SRC_MAC_PREFIX_OFFSET + 2) frame
                \<noteq> WFB_OBSERVED_MAC_PREFIX \<or>
              byte_slice WFB_OBSERVED_DST_MAC_PREFIX_OFFSET (WFB_OBSERVED_DST_MAC_PREFIX_OFFSET + 2) frame
                \<noteq> WFB_OBSERVED_MAC_PREFIX
      then None
      else
        let source_channel_id = of_be32 (byte_slice WFB_OBSERVED_SRC_CHANNEL_ID_OFFSET
              (WFB_OBSERVED_SRC_CHANNEL_ID_OFFSET + 4) frame);
            destination_channel_id = of_be32 (byte_slice WFB_OBSERVED_DST_CHANNEL_ID_OFFSET
              (WFB_OBSERVED_DST_CHANNEL_ID_OFFSET + 4) frame);
            (source_link_id, source_radio_port) = split_wfb_observed_channel_id source_channel_id;
            (destination_link_id, destination_radio_port) = split_wfb_observed_channel_id destination_channel_id
        in Some
          \<lparr>co_source_channel_id = source_channel_id,
           co_source_channel_id_hex = format_wfb_observed_channel_id source_channel_id,
           co_source_link_id = source_link_id, co_source_radio_port = source_radio_port,
           co_destination_channel_id = destination_channel_id,
           co_destination_channel_id_hex = format_wfb_observed_channel_id destination_channel_id,
           co_destination_link_id = destination_link_id, co_destination_radio_port = destination_radio_port,
           co_count = 1\<rparr>)"

definition same_channels :: "channel_observation \<Rightarrow> channel_observation \<Rightarrow> bool" where
  "same_channels existing observation \<longleftrightarrow>
     co_source_channel_id existing = co_source_channel_id observation \<and>
     co_destination_channel_id existing = co_destination_channel_id observation"

text \<open>The first entry with the channels of the observation counts it; a new one needs room.\<close>

fun add_to_existing :: "u64 \<Rightarrow> channel_observation \<Rightarrow> channel_observation list \<Rightarrow> channel_observation list option" where
  "add_to_existing n observation [] = None"
| "add_to_existing n observation (existing # rest) =
     (if same_channels existing observation
      then Some (existing\<lparr>co_count := sat_add (co_count existing) n\<rparr> # rest)
      else map_option ((#) existing) (add_to_existing n observation rest))"

definition observe_runtime_wfb_channel_id :: "bytes \<Rightarrow> channel_observation list \<Rightarrow> channel_observation list" where
  "observe_runtime_wfb_channel_id frame observations =
     (case runtime_wfb_channel_observation frame of
        None \<Rightarrow> observations
      | Some observation \<Rightarrow>
          (case add_to_existing 1 observation observations of
             Some observations \<Rightarrow> observations
           | None \<Rightarrow>
               if length observations < WFB_MAX_CHANNEL_OBSERVATIONS then observations @ [observation]
               else observations))"

definition merge_observation :: "channel_observation \<Rightarrow> channel_observation list \<Rightarrow> channel_observation list" where
  "merge_observation observation target =
     (case add_to_existing (co_count observation) observation target of
        Some target \<Rightarrow> target
      | None \<Rightarrow> if length target < WFB_MAX_CHANNEL_OBSERVATIONS then target @ [observation] else target)"

definition merge_runtime_wfb_channel_observations ::
    "channel_observation list \<Rightarrow> channel_observation list \<Rightarrow> channel_observation list" where
  "merge_runtime_wfb_channel_observations target source = fold merge_observation source target"

end
