(* ===== verification/Telemetry_Laws.thy ===== *)
theory Telemetry_Laws
  imports Rx_Telemetry
begin

text \<open>
  The summaries of the receive path are those of the frames they were made from: observing frame
  by frame gives the statistics of the list, and merging the summaries of consecutive parts gives
  the summary of the whole.
\<close>

section \<open>Summaries that can be merged\<close>

text \<open>
  \<open>exact\<close> says of a list of items that its summary loses nothing (no counter is full, no table is
  full).
\<close>

locale mergeable =
  fixes start :: 's
    and observe :: "'a \<Rightarrow> 's \<Rightarrow> 's"
    and merge :: "'s \<Rightarrow> 's \<Rightarrow> 's"
    and exact :: "'a list \<Rightarrow> bool"
  assumes merge_parts: "exact (xs @ ys) \<Longrightarrow>
      merge (fold observe xs start) (fold observe ys start) = fold observe (xs @ ys) start"
    and exact_prefix: "exact (xs @ ys) \<Longrightarrow> exact xs"
begin

text \<open>Reports made part by part and merged one after the other are one report of everything.\<close>

lemma merge_reports:
  "exact (concat xss) \<Longrightarrow>
     fold (\<lambda>xs s. merge s (fold observe xs start)) xss start = fold observe (concat xss) start"
proof (induction xss rule: rev_induct)
  case (snoc xs xss)
  then have "exact (concat xss @ xs)" "exact (concat xss)" using exact_prefix by auto
  then show ?case using snoc.IH merge_parts [of "concat xss" xs] by simp
qed simp

end

section \<open>Signal statistics\<close>

definition sint_total :: "i8 list \<Rightarrow> int" where
  "sint_total xs = sum_list (map sint xs)"

lemma sint_total_simps [simp]:
  "sint_total [] = 0" "sint_total (xs @ ys) = sint_total xs + sint_total ys" "sint_total [x] = sint x"
  by (simp_all add: sint_total_def)

lemma sint_eqI: "sint v = sint w \<Longrightarrow> v = w"
  by (rule signed_word_eqI)

lemma i8_range: "- 128 \<le> sint (x :: i8)" "sint (x :: i8) \<le> 127"
  using sint_greater_eq [of x] sint_less [of x] by simp_all

lemma sint_total_bound: "\<bar>sint_total xs\<bar> \<le> 128 * int (length xs)"
proof (induction xs)
  case (Cons x xs)
  then show ?case using i8_range [of x] by (simp add: sint_total_def)
qed (simp add: sint_total_def)

lemma sint_word_of_int_64: "- (2 ^ 63) \<le> x \<Longrightarrow> x < 2 ^ 63 \<Longrightarrow> sint (word_of_int x :: i64) = x"
  by (simp add: signed_of_int signed_take_bit_int_eq_self)

lemma i64_saturating_add_exact:
  assumes "- (2 ^ 62) < sint a" "sint a < 2 ^ 62" "- (2 ^ 62) < sint b" "sint b < 2 ^ 62"
  shows "i64_saturating_add a b = a + b"
proof -
  have "i64_saturating_add a b = word_of_int (sint a + sint b)"
    using assms by (simp add: i64_saturating_add_def)
  then show ?thesis by simp
qed

text \<open>The statistics of a list of values.\<close>

definition metric_of :: "i8 list \<Rightarrow> signal_metric" where
  "metric_of xs =
     (if xs = [] then signal_metric_default
      else \<lparr>sm_sample_count = of_nat (length xs),
            sm_min = Some (word_of_int (Min (sint ` set xs))), sm_max = Some (word_of_int (Max (sint ` set xs))),
            sm_average = Some (rounded_average_i64 (word_of_int (sint_total xs)) (of_nat (length xs))),
            sm_sum = word_of_int (sint_total xs)\<rparr>)"

definition few_samples :: "i8 list \<Rightarrow> bool" where
  "few_samples xs \<longleftrightarrow> length xs < 2 ^ 55"

lemma few_samples_total: "few_samples xs \<Longrightarrow> - (2 ^ 62) < sint_total xs \<and> sint_total xs < 2 ^ 62"
  using sint_total_bound [of xs] by (auto simp: few_samples_def)

lemma unat_of_nat_64: "n < 2 ^ 64 \<Longrightarrow> unat (of_nat n :: u64) = n"
  by (simp add: unsigned_of_nat take_bit_nat_eq_self)

lemma sat_add_of_nat:
  "m + n < 2 ^ 64 \<Longrightarrow> sat_add (of_nat m :: u64) (of_nat n) = of_nat (m + n)"
  by (rule word_unat_eq_iff [THEN iffD2], subst sat_add_exact) (simp_all add: unat_of_nat_64 del: of_nat_add)

lemma word_of_int_bound:
  assumes "finite S" "S \<noteq> {}" "S \<subseteq> range (sint :: i8 \<Rightarrow> int)"
  shows "sint (word_of_int (Min S) :: i8) = Min S" "sint (word_of_int (Max S) :: i8) = Max S"
proof -
  have "Min S \<in> range (sint :: i8 \<Rightarrow> int)" "Max S \<in> range (sint :: i8 \<Rightarrow> int)"
    using assms Min_in Max_in by blast+
  then obtain x y :: i8 where "Min S = sint x" "Max S = sint y" by blast
  then show "sint (word_of_int (Min S) :: i8) = Min S" "sint (word_of_int (Max S) :: i8) = Max S" by simp_all
qed

lemma i8_min_image: "sint (i8_min a b) = min (sint a) (sint b)"
  by (simp add: i8_min_def)

lemma i8_max_image: "sint (i8_max a b) = max (sint a) (sint b)"
  by (simp add: i8_max_def)

lemma bounds_union:
  assumes "finite (A :: i8 set)" "A \<noteq> {}" "finite B" "B \<noteq> {}"
  shows "i8_min (word_of_int (Min (sint ` A))) (word_of_int (Min (sint ` B))) = word_of_int (Min (sint ` (A \<union> B)))"
    "i8_max (word_of_int (Max (sint ` A))) (word_of_int (Max (sint ` B))) = word_of_int (Max (sint ` (A \<union> B)))"
proof -
  let ?R = "range (sint :: i8 \<Rightarrow> int)"
  have "sint ` A \<subseteq> ?R" "sint ` B \<subseteq> ?R" "sint ` (A \<union> B) \<subseteq> ?R" by auto
  note w = word_of_int_bound [OF _ _ this(1)] word_of_int_bound [OF _ _ this(2)] word_of_int_bound [OF _ _ this(3)]
  show "i8_min (word_of_int (Min (sint ` A))) (word_of_int (Min (sint ` B))) = word_of_int (Min (sint ` (A \<union> B)))"
    by (rule sint_eqI) (use assms w in \<open>simp add: i8_min_image image_Un Min_Un\<close>)
  show "i8_max (word_of_int (Max (sint ` A))) (word_of_int (Max (sint ` B))) = word_of_int (Max (sint ` (A \<union> B)))"
    by (rule sint_eqI) (use assms w in \<open>simp add: i8_max_image image_Un Max_Un\<close>)
qed

lemma metric_merge_of:
  assumes "few_samples (xs @ ys)"
  shows "metric_merge (metric_of xs) (metric_of ys) = metric_of (xs @ ys)"
proof -
  have n: "length xs + length ys < 2 ^ 55" using assms by (simp add: few_samples_def)
  have t: "- (2 ^ 62) < sint_total xs" "sint_total xs < 2 ^ 62" "- (2 ^ 62) < sint_total ys" "sint_total ys < 2 ^ 62"
    using few_samples_total [of xs] few_samples_total [of ys] n by (simp_all add: few_samples_def)
  have c: "(of_nat (length ys) :: u64) = 0 \<longleftrightarrow> ys = []"
    using n by (simp add: word_unat_eq_iff unat_of_nat_64)
  have s: "i64_saturating_add (word_of_int (sint_total xs)) (word_of_int (sint_total ys)) =
      word_of_int (sint_total xs + sint_total ys)"
    using t by (subst i64_saturating_add_exact) (simp_all add: sint_word_of_int_64)
  show ?thesis
    using n t s c bounds_union [of "set xs" "set ys"]
    by (cases "xs = []"; cases "ys = []")
      (simp_all add: metric_merge_def metric_of_def signal_metric_default_def sat_add_of_nat Let_def
        i64_saturating_add_exact sint_word_of_int_64)
qed

lemma metric_observe_merge: "metric_observe v m = metric_merge m (metric_of [v])"
  by (simp add: metric_observe_def metric_merge_def metric_of_def Let_def split: option.split)

lemma metric_observe_all: "few_samples xs \<Longrightarrow> fold metric_observe xs signal_metric_default = metric_of xs"
proof (induction xs rule: rev_induct)
  case (snoc x xs)
  then show ?case
    using metric_merge_of [of xs "[x]"] by (simp add: metric_observe_merge few_samples_def)
qed (simp add: metric_of_def)

interpretation signal: mergeable signal_metric_default metric_observe metric_merge few_samples
proof
  fix xs ys
  assume few: "few_samples (xs @ ys)"
  then have "few_samples xs" "few_samples ys" by (simp_all add: few_samples_def)
  then show "metric_merge (fold metric_observe xs signal_metric_default) (fold metric_observe ys signal_metric_default) =
      fold metric_observe (xs @ ys) signal_metric_default" "few_samples xs"
    using few metric_observe_all [of "xs @ ys"] by (simp_all only: metric_observe_all metric_merge_of)
qed

text \<open>The average is the nearest integer.\<close>

lemma div_le_dividend_int: "0 \<le> (a::int) \<Longrightarrow> 0 < b \<Longrightarrow> a div b \<le> a"
  using zdiv_mono2 [of a 1 b] by simp

lemma i64_div_exact:
  assumes "0 \<le> sint a" "0 < sint b"
  shows "sint (i64_div a b) = sint a div sint b"
proof -
  have "sint a div sint b \<le> sint a" using assms div_le_dividend_int by blast
  moreover have "0 \<le> sint a div sint b" using assms by (simp add: pos_imp_zdiv_nonneg_iff)
  moreover have "sint a < 2 ^ 63" using sint_less [of a] by simp
  moreover have "i64_div a b = word_of_int (sint a div sint b)"
    using assms by (cases "sint a = 0") (simp_all add: i64_div_def sgn_if)
  ultimately show ?thesis by (simp add: sint_word_of_int_64)
qed

lemma word_of_sint: "word_of_int (sint w) = w"
  by simp

lemma half_up:
  assumes "0 < (n::int)"
  shows "2 * \<bar>(S + n div 2) div n * n - S\<bar> \<le> n"
proof -
  define d r where "d = (S + n div 2) div n * n - S" and "r = (S + n div 2) mod n"
  have "d = n div 2 - r" by (simp add: d_def r_def minus_mod_eq_div_mult [symmetric])
  moreover have "0 \<le> r" "r < n" using assms by (simp_all add: r_def)
  moreover have "2 * (n div 2) \<le> n" "n \<le> 2 * (n div 2) + 1" by simp_all
  ultimately have "2 * \<bar>d\<bar> \<le> n" by arith
  then show ?thesis by (simp add: d_def)
qed

lemma rounded_average_nearest:
  assumes "0 < n" "n < 2 ^ 55" "- (2 ^ 62) < S" "S < 2 ^ 62"
  shows "2 * \<bar>sint (rounded_average_i64 (word_of_int S) (of_nat n)) * int n - S\<bar> \<le> int n"
proof -
  let ?n = "of_nat n :: i64"
  have u: "unat ?n = n" and sn: "sint ?n = int n"
    using assms sint_word_of_int_64 [of "int n"] by (simp_all add: unat_of_nat_64)
  have "1 \<le> ?n" using assms u by (simp add: word_le_nat_alt)
  then have m: "max ?n 1 = ?n" by (simp add: max_def)
  have two: "sint (2 :: i64) = 2" using sint_word_of_int_64 [of 2] by simp
  have h: "sint (i64_div ?n 2) = int n div 2" using assms by (subst i64_div_exact) (simp_all add: sn two)
  have add: "sint (word_of_int x + i64_div ?n 2 :: i64) = x + int n div 2" if "0 \<le> x" "x < 2 ^ 62" for x
  proof -
    have "word_of_int x + i64_div ?n 2 = (word_of_int (x + int n div 2) :: i64)"
      by (simp flip: h)
    moreover have "- (2 ^ 63) \<le> x + int n div 2" "x + int n div 2 < 2 ^ 63" using that assms by auto
    ultimately show ?thesis using sint_word_of_int_64 by presburger
  qed
  show ?thesis
  proof (cases "0 \<le> S")
    case True
    have "rounded_average_i64 (word_of_int S) ?n = i64_div (word_of_int S + i64_div ?n 2) ?n"
      using True assms by (simp add: rounded_average_i64_def u m sint_word_of_int_64 Let_def)
    moreover have "sint (i64_div (word_of_int S + i64_div ?n 2) ?n) = (S + int n div 2) div int n"
      using True assms by (subst i64_div_exact) (simp_all add: add sn)
    ultimately show ?thesis using half_up [of "int n" S] True assms by simp
  next
    case False
    let ?q = "(- S + int n div 2) div int n"
    have "rounded_average_i64 (word_of_int S) ?n = - i64_div (word_of_int (- S) + i64_div ?n 2) ?n"
      using False assms by (simp add: rounded_average_i64_def u m sint_word_of_int_64 Let_def)
    moreover have q: "sint (i64_div (word_of_int (- S) + i64_div ?n 2) ?n) = ?q"
      using False assms add [of "- S"] by (subst i64_div_exact) (simp_all add: sn)
    then have "- i64_div (word_of_int (- S) + i64_div ?n 2) ?n = word_of_int (- ?q)"
      by (metis of_int_minus word_of_sint q)
    moreover have "0 \<le> ?q" "?q < 2 ^ 63"
      using False assms q sint_less [of "i64_div (word_of_int (- S) + i64_div ?n 2) ?n"]
      by (simp_all add: pos_imp_zdiv_nonneg_iff)
    then have "sint (word_of_int (- ?q) :: i64) = - ?q" by (intro sint_word_of_int_64) linarith+
    ultimately have "sint (rounded_average_i64 (word_of_int S) ?n) = - ?q" by (simp only:)
    moreover have "- ?q * int n - S = - (?q * int n - (- S))" by simp
    ultimately show ?thesis using half_up [of "int n" "- S"] assms by (simp only: abs_minus_cancel)
  qed
qed

section \<open>WFB channels seen\<close>

text \<open>The source and destination channel of a frame, if it is a WFB frame; each entry is one such pair.\<close>

definition channels_of :: "channel_observation \<Rightarrow> u32 \<times> u32" where
  "channels_of obs = (co_source_channel_id obs, co_destination_channel_id obs)"

definition seen_channels :: "bytes list \<Rightarrow> (u32 \<times> u32) list" where
  "seen_channels frames = map channels_of (List.map_filter runtime_wfb_channel_observation frames)"

lemma seen_channels_append: "seen_channels (xs @ ys) = seen_channels xs @ seen_channels ys"
  by (simp add: seen_channels_def List.map_filter_def)

lemma seen_channels_one: "seen_channels [frame] =
    (case runtime_wfb_channel_observation frame of None \<Rightarrow> [] | Some obs \<Rightarrow> [channels_of obs])"
  by (simp add: seen_channels_def List.map_filter_def split: option.split)

lemma length_seen_channels: "length (seen_channels frames) \<le> length frames"
  by (simp add: seen_channels_def List.map_filter_def)

text \<open>The entry for a pair of channels seen \<open>n\<close> times.\<close>

definition observation_of :: "u64 \<Rightarrow> u32 \<times> u32 \<Rightarrow> channel_observation" where
  "observation_of n p =
     (case p of (src, dst) \<Rightarrow>
        \<lparr>co_source_channel_id = src, co_source_channel_id_hex = ''0x'' @ show_hex 8 (unat src),
         co_source_link_id = drop_bit 8 src, co_source_radio_port = ucast src,
         co_destination_channel_id = dst, co_destination_channel_id_hex = ''0x'' @ show_hex 8 (unat dst),
         co_destination_link_id = drop_bit 8 dst, co_destination_radio_port = ucast dst, co_count = n\<rparr>)"

lemma observation_of_simps [simp]:
  "channels_of (observation_of n p) = p" "co_count (observation_of n p) = n"
  "(observation_of n p)\<lparr>co_count := m\<rparr> = observation_of m p"
  by (simp_all add: channels_of_def observation_of_def split: prod.split)

lemma same_channels_iff: "same_channels e obs \<longleftrightarrow> channels_of e = channels_of obs"
  by (auto simp: same_channels_def channels_of_def)

lemma low_byte_of: "ucast (w AND 0xff :: u32) = (ucast w :: u8)"
proof (rule bit_word_eqI)
  fix n assume "n < LENGTH(8)"
  then show "bit (ucast (w AND 0xff) :: u8) n \<longleftrightarrow> bit (ucast w :: u8) n"
    using nat_cases_8 [of n] by (auto simp: bit_simps)
qed

lemma frame_observation:
  "runtime_wfb_channel_observation frame = Some obs \<Longrightarrow> obs = observation_of 1 (channels_of obs)"
  by (auto simp: runtime_wfb_channel_observation_def observation_of_def channels_of_def Let_def
      format_wfb_observed_channel_id_def split_wfb_observed_channel_id_def low_byte_of split: if_splits)

text \<open>The distinct elements in the order of their first occurrence.\<close>

definition firsts :: "'a list \<Rightarrow> 'a list" where
  "firsts xs = rev (remdups (rev xs))"

lemma firsts_simps [simp]:
  "firsts [] = []" "firsts (xs @ [x]) = (if x \<in> set xs then firsts xs else firsts xs @ [x])"
  "set (firsts xs) = set xs" "distinct (firsts xs)"
  by (simp_all add: firsts_def)

lemma firsts_append: "firsts (xs @ ys) = firsts xs @ filter (\<lambda>y. y \<notin> set xs) (firsts ys)"
  by (induction ys rule: rev_induct) (auto simp flip: append_assoc)

definition count_of :: "'a list \<Rightarrow> 'a \<Rightarrow> u64" where
  "count_of xs x = of_nat (count_list xs x)"

text \<open>The table with the counts \<open>c\<close> for the pairs \<open>ks\<close>.\<close>

definition entries :: "(u32 \<times> u32 \<Rightarrow> u64) \<Rightarrow> (u32 \<times> u32) list \<Rightarrow> channel_observation list" where
  "entries c ks = map (\<lambda>p. observation_of (c p) p) ks"

definition observations_of :: "(u32 \<times> u32) list \<Rightarrow> channel_observation list" where
  "observations_of ps = entries (count_of ps) (take 32 (firsts ps))"

lemma add_to_entries:
  "distinct ks \<Longrightarrow> add_to_existing n obs (entries c ks) =
     (if channels_of obs \<in> set ks
      then Some (entries (\<lambda>p. if p = channels_of obs then sat_add (c p) n else c p) ks) else None)"
proof (induction ks)
  case (Cons k ks)
  then show ?case by (auto simp: entries_def same_channels_iff)
qed (simp add: entries_def)

lemma entries_cong: "(\<And>p. p \<in> set ks \<Longrightarrow> c p = d p) \<Longrightarrow> entries c ks = entries d ks"
  by (simp add: entries_def)

lemma count_of_snoc:
  "length ps < 2 ^ 64 - 1 \<Longrightarrow> count_of (ps @ [q]) p = (if p = q then sat_add (count_of ps p) 1 else count_of ps p)"
  using sat_add_of_nat [of "count_list ps p" 1] count_le_length [of ps p] by (auto simp: count_of_def)

text \<open>One more sighting of the channels \<open>q\<close>.\<close>

lemma observe_entries:
  assumes "length ps < 2 ^ 64 - 1"
  shows "(case add_to_existing 1 (observation_of 1 q) (observations_of ps) of
      Some observations \<Rightarrow> observations
    | None \<Rightarrow> if length (observations_of ps) < 32 then observations_of ps @ [observation_of 1 q] else observations_of ps) =
    observations_of (ps @ [q])"
proof -
  let ?ks = "take 32 (firsts ps)"
  have d: "distinct ?ks" and l: "length (observations_of ps) = min 32 (length (firsts ps))"
    by (simp_all add: observations_of_def entries_def min.commute)
  have sn: "entries (count_of (ps @ [q])) ks = entries (\<lambda>p. if p = q then sat_add (count_of ps p) 1 else count_of ps p) ks" for ks
    by (rule entries_cong) (simp add: count_of_snoc [OF assms])
  consider "q \<in> set ?ks" | "q \<in> set ps" "q \<notin> set ?ks" | "q \<notin> set ps" by blast
  then show ?thesis
  proof cases
    case 1
    then have "q \<in> set ps" using in_set_takeD firsts_simps(3) by metis
    with 1 show ?thesis using add_to_entries [OF d, of 1 "observation_of 1 q"] by (simp add: observations_of_def sn)
  next
    case 2
    then have "\<not> length (firsts ps) \<le> 32" by auto
    moreover have "entries (count_of (ps @ [q])) ?ks = entries (count_of ps) ?ks"
      unfolding sn using 2 by (auto intro: entries_cong)
    ultimately show ?thesis
      using 2 add_to_entries [OF d, of 1 "observation_of 1 q"] l by (simp add: observations_of_def)
  next
    case 3
    then have "q \<notin> set ?ks" using in_set_takeD firsts_simps(3) by metis
    moreover have "entries (count_of (ps @ [q])) ?ks = entries (count_of ps) ?ks"
      unfolding sn using \<open>q \<notin> set ?ks\<close> by (auto intro: entries_cong)
    moreover have "count_of (ps @ [q]) q = 1" using 3 by (simp add: count_of_def)
    ultimately show ?thesis
      using 3 add_to_entries [OF d, of 1 "observation_of 1 q"] l
      by (auto simp: observations_of_def entries_def)
  qed
qed

lemma observe_all_channels:
  "length frames < 2 ^ 64 - 1 \<Longrightarrow>
     fold observe_runtime_wfb_channel_id frames [] = observations_of (seen_channels frames)"
proof (induction frames rule: rev_induct)
  case (snoc frame frames)
  have short: "length (seen_channels frames) < 2 ^ 64 - 1"
    using snoc.prems length_seen_channels [of frames] by simp
  have IH: "fold observe_runtime_wfb_channel_id frames [] = observations_of (seen_channels frames)"
    using snoc by simp
  have "fold observe_runtime_wfb_channel_id (frames @ [frame]) [] =
      observe_runtime_wfb_channel_id frame (observations_of (seen_channels frames))" using IH by simp
  moreover have "observe_runtime_wfb_channel_id frame (observations_of (seen_channels frames)) =
      observations_of (seen_channels (frames @ [frame]))"
  proof (cases "runtime_wfb_channel_observation frame")
    case None
    then show ?thesis
      by (simp add: observe_runtime_wfb_channel_id_def seen_channels_append seen_channels_one)
  next
    case (Some obs)
    obtain q where q: "obs = observation_of 1 q" using frame_observation [OF Some] by blast
    have "seen_channels (frames @ [frame]) = seen_channels frames @ [q]"
      using Some q by (simp add: seen_channels_append seen_channels_one)
    then show ?thesis
      using observe_entries [OF short, of q] Some [unfolded q]
      unfolding observe_runtime_wfb_channel_id_def WFB_MAX_CHANNEL_OBSERVATIONS_def by simp
  qed
  ultimately show ?case by simp
qed (simp add: observations_of_def entries_def seen_channels_def List.map_filter_def)

text \<open>Merging two tables that fit into one.\<close>

definition few_channels :: "(u32 \<times> u32) list \<Rightarrow> bool" where
  "few_channels ps \<longleftrightarrow> length (firsts ps) \<le> 32 \<and> length ps < 2 ^ 64 - 1"

lemma merge_entries:
  assumes "distinct ks" "distinct ls" "length (ks @ filter (\<lambda>p. p \<notin> set ks) ls) \<le> 32"
    and "\<And>p. p \<notin> set ks \<Longrightarrow> c p = 0"
  shows "fold merge_observation (entries d ls) (entries c ks) =
    entries (\<lambda>p. if p \<in> set ls then sat_add (c p) (d p) else c p) (ks @ filter (\<lambda>p. p \<notin> set ks) ls)"
  using assms
proof (induction ls arbitrary: c ks)
  case (Cons l ls)
  let ?c = "\<lambda>p. if p = l then sat_add (c p) (d p) else c p"
  show ?case
  proof (cases "l \<in> set ks")
    case True
    then have "merge_observation (observation_of (d l) l) (entries c ks) = entries ?c ks"
      using add_to_entries [OF Cons.prems(1), of "d l" "observation_of (d l) l" c]
      by (auto simp: merge_observation_def intro: entries_cong)
    moreover have "fold merge_observation (entries d ls) (entries ?c ks) =
        entries (\<lambda>p. if p \<in> set ls then sat_add (?c p) (d p) else ?c p) (ks @ filter (\<lambda>p. p \<notin> set ks) ls)"
      using Cons.prems True by (intro Cons.IH) auto
    ultimately show ?thesis
      using Cons.prems(2) True by (auto simp: entries_def)
  next
    case False
    then have c0: "c l = 0" by (rule Cons.prems(4))
    have same: "filter (\<lambda>p. p \<noteq> l \<and> p \<notin> set ks) ls = filter (\<lambda>p. p \<notin> set ks) ls"
      using Cons.prems(2) by (auto intro: filter_cong)
    have "merge_observation (observation_of (d l) l) (entries c ks) = entries ?c (ks @ [l])"
      using add_to_entries [OF Cons.prems(1), of "d l" "observation_of (d l) l" c] False Cons.prems(3) c0
      by (auto simp: merge_observation_def WFB_MAX_CHANNEL_OBSERVATIONS_def entries_def)
    moreover have "fold merge_observation (entries d ls) (entries ?c (ks @ [l])) =
        entries (\<lambda>p. if p \<in> set ls then sat_add (?c p) (d p) else ?c p)
          ((ks @ [l]) @ filter (\<lambda>p. p \<notin> set (ks @ [l])) ls)"
      using Cons.prems False same by (intro Cons.IH) auto
    ultimately show ?thesis
      using Cons.prems(2) False same by (auto simp: entries_def)
  qed
qed (simp add: entries_def)

lemma merge_channels:
  assumes "few_channels (ps @ qs)"
  shows "merge_runtime_wfb_channel_observations (observations_of ps) (observations_of qs) = observations_of (ps @ qs)"
proof -
  have len: "length (firsts ps @ filter (\<lambda>p. p \<notin> set (firsts ps)) (firsts qs)) \<le> 32" "length ps + length qs < 2 ^ 64 - 1"
    using assms by (simp_all add: few_channels_def firsts_append)
  have "length (firsts qs) \<le> 32"
  proof -
    have "length (firsts qs) = card (set qs)" using distinct_card [of "firsts qs"] by simp
    also have "\<dots> \<le> card (set (ps @ qs))" by (intro card_mono) auto
    also have "\<dots> = length (firsts (ps @ qs))" using distinct_card [of "firsts (ps @ qs)"] by simp
    finally show ?thesis using assms by (simp add: few_channels_def)
  qed
  moreover have "length (firsts ps) \<le> 32" using len by simp
  moreover have "sat_add (count_of ps p) (count_of qs p) = count_of (ps @ qs) p" for p
    using sat_add_of_nat [of "count_list ps p" "count_list qs p"] len(2) count_le_length [of ps p] count_le_length [of qs p]
    by (simp add: count_of_def)
  moreover have "count_of (ps @ qs) p = count_of ps p" if "p \<notin> set qs" for p
    using that by (simp add: count_of_def)
  moreover have "count_of ps p = 0" if "p \<notin> set (firsts ps)" for p
    using that by (simp add: count_of_def)
  ultimately show ?thesis
    using merge_entries [of "firsts ps" "firsts qs" "count_of ps" "count_of qs"] len(1)
    by (auto simp: merge_runtime_wfb_channel_observations_def observations_of_def firsts_append intro: entries_cong)
qed

interpretation channels: mergeable "[]" observe_runtime_wfb_channel_id merge_runtime_wfb_channel_observations
  "\<lambda>frames. few_channels (seen_channels frames) \<and> length frames < 2 ^ 64 - 1"
proof
  fix xs ys
  assume few: "few_channels (seen_channels (xs @ ys)) \<and> length (xs @ ys) < 2 ^ 64 - 1"
  then show "merge_runtime_wfb_channel_observations (fold observe_runtime_wfb_channel_id xs [])
      (fold observe_runtime_wfb_channel_id ys []) = fold observe_runtime_wfb_channel_id (xs @ ys) []"
    using observe_all_channels [of xs] observe_all_channels [of ys] observe_all_channels [of "xs @ ys"]
      merge_channels [of "seen_channels xs" "seen_channels ys"]
    by (simp add: seen_channels_append del: fold_append)
  show "few_channels (seen_channels xs) \<and> length xs < 2 ^ 64 - 1"
    using few by (simp add: few_channels_def seen_channels_append firsts_append)
qed

end
