(* ===== verification/Rx_Forwards.thy ===== *)
theory Rx_Forwards
  imports Telemetry_Laws Wfb_Bridge Radio_Session
begin

text \<open>
  What the production runtime does with the packets of one bulk IN transfer
  (\<open>wfb-radio-runtime/src/lib.rs\<close>): it counts them and hands every frame to each of its WFB forwards.
  Sockets and the clock are parameters on a world \<open>'w\<close>.
\<close>

section \<open>Forwards\<close>

record 'a rx_forward_plan =
  fpl_config :: rx_forward_config
  fpl_aggregator :: "'a option"

record ('k, 'a) rx_forward_runtime =
  fr_config :: rx_forward_config
  fr_aggregator :: "'a option"
  fr_socket :: "'k option"
  fr_forwarded_bytes :: u64
  fr_counters :: bridge_rx_counters
  fr_last_rx_unix_ms :: "u64 option"

record 'a rx_forward_snapshot =
  fs_config :: rx_forward_config
  fs_aggregator :: "'a option"
  fs_forwarded_bytes :: u64
  fs_counters :: bridge_rx_counters
  fs_last_rx_unix_ms :: "u64 option"

text \<open>\<open>UdpSocket::bind\<close> on an ephemeral port, \<open>send_to\<close>, the milliseconds since the epoch.\<close>

record ('io, 'k, 'a, 'w) forward_env =
  fe_bind :: "'w \<Rightarrow> ('io, 'k) result \<times> 'w"
  fe_send_to :: "'k \<Rightarrow> bytes \<Rightarrow> 'a \<Rightarrow> 'w \<Rightarrow> ('io, nat) result \<times> 'w"
  fe_runtime_unix_ms :: "'w \<Rightarrow> u64 \<times> 'w"
  fe_show_io :: "'io \<Rightarrow> string"

definition forward_runtime :: "'a rx_forward_plan \<Rightarrow> 'k option \<Rightarrow> ('k, 'a) rx_forward_runtime" where
  "forward_runtime plan socket =
     \<lparr>fr_config = fpl_config plan, fr_aggregator = fpl_aggregator plan, fr_socket = socket,
      fr_forwarded_bytes = 0, fr_counters = bridge_rx_counters_default, fr_last_rx_unix_ms = None\<rparr>"

fun create_production_rx_forward_runtimes ::
    "('io, 'k, 'a, 'w) forward_env \<Rightarrow> 'a rx_forward_plan list \<Rightarrow> 'w \<Rightarrow>
     (radio_error, ('k, 'a) rx_forward_runtime list) result \<times> 'w" where
  "create_production_rx_forward_runtimes env [] w = (Inr [], w)"
| "create_production_rx_forward_runtimes env (plan # plans) w =
     (let (socket, w) =
            (case fpl_aggregator plan of
               None \<Rightarrow> (Inr None, w)
             | Some _ \<Rightarrow>
                 (case fe_bind env w of
                    (Inl error, w) \<Rightarrow> (Inl (radio_error_new ''rx_forward_socket_bind_failed''
                       (''failed to bind WFB RX forwarding UDP socket: '' @ fe_show_io env error)), w)
                  | (Inr socket, w) \<Rightarrow> (Inr (Some socket), w)))
      in case socket of
           Inl error \<Rightarrow> (Inl error, w)
         | Inr socket \<Rightarrow>
             (let (rest, w) = create_production_rx_forward_runtimes env plans w
              in (bind_res rest (\<lambda>runtimes. Inr (forward_runtime plan socket # runtimes)), w)))"

definition production_rx_forward_snapshots ::
    "('k, 'a) rx_forward_runtime list \<Rightarrow> 'a rx_forward_snapshot list" where
  "production_rx_forward_snapshots runtimes = map (\<lambda>r.
     \<lparr>fs_config = fr_config r, fs_aggregator = fr_aggregator r, fs_forwarded_bytes = fr_forwarded_bytes r,
      fs_counters = fr_counters r, fs_last_rx_unix_ms = fr_last_rx_unix_ms r\<rparr>) runtimes"

definition process_production_wfb_rx_forward ::
    "('io, 'k, 'a, 'w) forward_env \<Rightarrow> ('k, 'a) rx_forward_runtime \<Rightarrow> rx_frame \<Rightarrow> 'w \<Rightarrow>
     (radio_error, unit) result \<times> ('k, 'a) rx_forward_runtime \<times> 'w" where
  "process_production_wfb_rx_forward env r frame w =
     (let (packet, counters) = build_rx_forward_datagram frame (fr_config r) (fr_counters r);
          r = r\<lparr>fr_counters := counters\<rparr>
      in case packet of
           None \<Rightarrow> (Inr (), r, w)
         | Some packet \<Rightarrow>
             (case (fr_socket r, fr_aggregator r) of
                (Some socket, Some aggregator) \<Rightarrow>
                  (case fe_send_to env socket packet aggregator w of
                     (Inl _, w) \<Rightarrow>
                       (Inr (), r\<lparr>fr_counters := counters\<lparr>br_send_failed := sat_add (br_send_failed counters) 1\<rparr>\<rparr>, w)
                   | (Inr bytes, w) \<Rightarrow>
                       (let (now, w) = fe_runtime_unix_ms env w
                        in (Inr (), r\<lparr>fr_counters := counters\<lparr>br_forwarded := sat_add (br_forwarded counters) 1\<rparr>,
                              fr_forwarded_bytes := sat_add (fr_forwarded_bytes r) (of_nat bytes),
                              fr_last_rx_unix_ms := Some now\<rparr>, w)))
              | _ \<Rightarrow> (Inr (), r, w)))"

text \<open>The forwards take a frame in their order; the first error would end the loop.\<close>

fun process_production_wfb_rx_forwards ::
    "('io, 'k, 'a, 'w) forward_env \<Rightarrow> ('k, 'a) rx_forward_runtime list \<Rightarrow> rx_frame \<Rightarrow> 'w \<Rightarrow>
     (radio_error, unit) result \<times> ('k, 'a) rx_forward_runtime list \<times> 'w" where
  "process_production_wfb_rx_forwards env [] frame w = (Inr (), [], w)"
| "process_production_wfb_rx_forwards env (r # rs) frame w =
     (case process_production_wfb_rx_forward env r frame w of
        (Inl error, r, w) \<Rightarrow> (Inl error, r # rs, w)
      | (Inr _, r, w) \<Rightarrow>
          (let (result, rs, w) = process_production_wfb_rx_forwards env rs frame w in (result, r # rs, w)))"

section \<open>Counting packets\<close>

record rx_packet_telemetry =
  pt_parsed_frames :: u64
  pt_phy_status_frames :: u64
  pt_rssi_valid_frames :: u64
  pt_snr_frames :: u64
  pt_noise_frames :: u64
  pt_signal :: signal_summary
  pt_dropped_packets :: u64
  pt_need_more_data :: u64
  pt_management_frames :: u64
  pt_control_frames :: u64
  pt_data_frames :: u64
  pt_extension_frames :: u64
  pt_wfb_channel_observations :: "channel_observation list"

definition rx_packet_telemetry_default :: rx_packet_telemetry where
  "rx_packet_telemetry_default =
     \<lparr>pt_parsed_frames = 0, pt_phy_status_frames = 0, pt_rssi_valid_frames = 0, pt_snr_frames = 0,
      pt_noise_frames = 0, pt_signal = signal_summary_default, pt_dropped_packets = 0, pt_need_more_data = 0,
      pt_management_frames = 0, pt_control_frames = 0, pt_data_frames = 0, pt_extension_frames = 0,
      pt_wfb_channel_observations = []\<rparr>"

definition count_production_rx_metadata :: "rx_frame \<Rightarrow> rx_packet_telemetry \<Rightarrow> rx_packet_telemetry" where
  "count_production_rx_metadata frame t =
     (let t = (if rx_phy_status frame then t\<lparr>pt_phy_status_frames := sat_add (pt_phy_status_frames t) 1\<rparr> else t);
          t = (if rx_rssi_dbm_valid frame then t\<lparr>pt_rssi_valid_frames := sat_add (pt_rssi_valid_frames t) 1\<rparr> else t);
          t = (if rx_snr_db frame \<noteq> None then t\<lparr>pt_snr_frames := sat_add (pt_snr_frames t) 1\<rparr> else t);
          t = (if rx_noise_dbm frame \<noteq> None then t\<lparr>pt_noise_frames := sat_add (pt_noise_frames t) 1\<rparr> else t)
      in t\<lparr>pt_signal := observe_frame frame (pt_signal t)\<rparr>)"

definition count_production_rx_frame_type :: "bytes \<Rightarrow> rx_packet_telemetry \<Rightarrow> rx_packet_telemetry" where
  "count_production_rx_frame_type frame t =
     (case frame_type_of frame of
        Inr Management \<Rightarrow> t\<lparr>pt_management_frames := sat_add (pt_management_frames t) 1\<rparr>
      | Inr Control \<Rightarrow> t\<lparr>pt_control_frames := sat_add (pt_control_frames t) 1\<rparr>
      | Inr Data \<Rightarrow> t\<lparr>pt_data_frames := sat_add (pt_data_frames t) 1\<rparr>
      | Inr Extension \<Rightarrow> t\<lparr>pt_extension_frames := sat_add (pt_extension_frames t) 1\<rparr>
      | Inl _ \<Rightarrow> t\<lparr>pt_dropped_packets := sat_add (pt_dropped_packets t) 1\<rparr>)"

record 'a rx_packet_outcome =
  ro_telemetry :: rx_packet_telemetry
  ro_rx_forwards :: "'a rx_forward_snapshot list"

text \<open>
  The loop over the packets.  A frame outcome without a frame panics (\<open>expect\<close>); that is the
  value \<open>None\<close>.
\<close>

fun rx_packet_outcomes_loop ::
    "('io, 'k, 'a, 'w) forward_env \<Rightarrow> parsed_rx_packet list \<Rightarrow> rx_packet_telemetry \<Rightarrow>
     ('k, 'a) rx_forward_runtime list \<Rightarrow> 'w \<Rightarrow>
     ((radio_error, rx_packet_telemetry) result \<times> ('k, 'a) rx_forward_runtime list \<times> 'w) option" where
  "rx_packet_outcomes_loop env [] t rs w = Some (Inr t, rs, w)"
| "rx_packet_outcomes_loop env (parsed # packets) t rs w =
     (case pp_outcome parsed of
        RxFrame \<Rightarrow>
          (case pp_frame parsed of
             None \<Rightarrow> None
           | Some frame \<Rightarrow>
               (let t = t\<lparr>pt_parsed_frames := sat_add (pt_parsed_frames t) 1\<rparr>;
                    t = count_production_rx_metadata frame t;
                    t = count_production_rx_frame_type (rx_data frame) t;
                    t = t\<lparr>pt_wfb_channel_observations :=
                           observe_runtime_wfb_channel_id (rx_data frame) (pt_wfb_channel_observations t)\<rparr>
                in case process_production_wfb_rx_forwards env rs frame w of
                     (Inl error, rs, w) \<Rightarrow> Some (Inl error, rs, w)
                   | (Inr _, rs, w) \<Rightarrow> rx_packet_outcomes_loop env packets t rs w))
      | RxDrop \<Rightarrow>
          rx_packet_outcomes_loop env packets (t\<lparr>pt_dropped_packets := sat_add (pt_dropped_packets t) 1\<rparr>) rs w
      | RxNeedMoreData \<Rightarrow>
          rx_packet_outcomes_loop env packets (t\<lparr>pt_need_more_data := sat_add (pt_need_more_data t) 1\<rparr>) rs w)"

definition process_production_rx_packet_outcomes ::
    "('io, 'k, 'a, 'w) forward_env \<Rightarrow> parsed_rx_packet list \<Rightarrow> ('k, 'a) rx_forward_runtime list \<Rightarrow> 'w \<Rightarrow>
     ((radio_error, 'a rx_packet_outcome) result \<times> ('k, 'a) rx_forward_runtime list \<times> 'w) option" where
  "process_production_rx_packet_outcomes env packets rx_forwards w =
     map_option (\<lambda>(r, rs, w).
         (bind_res r (\<lambda>t. Inr \<lparr>ro_telemetry = t, ro_rx_forwards = production_rx_forward_snapshots rs\<rparr>), rs, w))
       (rx_packet_outcomes_loop env packets rx_packet_telemetry_default rx_forwards w)"

section \<open>The telemetry of a run\<close>

record 'a flow_rx_telemetry =
  rxt_buffers_read :: u64
  rxt_read_timeouts :: u64
  rxt_parsed_frames :: u64
  rxt_phy_status_frames :: u64
  rxt_rssi_valid_frames :: u64
  rxt_snr_frames :: u64
  rxt_noise_frames :: u64
  rxt_signal :: signal_summary
  rxt_forwarded_payloads :: u64
  rxt_rx_forwards :: "'a rx_forward_snapshot list"
  rxt_dropped_packets :: u64
  rxt_need_more_data :: u64
  rxt_management_frames :: u64
  rxt_control_frames :: u64
  rxt_data_frames :: u64
  rxt_extension_frames :: u64
  rxt_wfb_channel_observations :: "channel_observation list"
  rxt_last_rx_unix_ms :: "u64 option"

definition flow_rx_telemetry_default :: "'a flow_rx_telemetry" where
  "flow_rx_telemetry_default =
     \<lparr>rxt_buffers_read = 0, rxt_read_timeouts = 0, rxt_parsed_frames = 0, rxt_phy_status_frames = 0,
      rxt_rssi_valid_frames = 0, rxt_snr_frames = 0, rxt_noise_frames = 0, rxt_signal = signal_summary_default,
      rxt_forwarded_payloads = 0, rxt_rx_forwards = [], rxt_dropped_packets = 0, rxt_need_more_data = 0,
      rxt_management_frames = 0, rxt_control_frames = 0, rxt_data_frames = 0, rxt_extension_frames = 0,
      rxt_wfb_channel_observations = [], rxt_last_rx_unix_ms = None\<rparr>"

definition apply_production_runtime_rx_packet_telemetry ::
    "rx_packet_telemetry \<Rightarrow> 'a flow_rx_telemetry \<Rightarrow> 'a flow_rx_telemetry" where
  "apply_production_runtime_rx_packet_telemetry t rx =
     rx\<lparr>rxt_parsed_frames := sat_add (rxt_parsed_frames rx) (pt_parsed_frames t),
        rxt_phy_status_frames := sat_add (rxt_phy_status_frames rx) (pt_phy_status_frames t),
        rxt_rssi_valid_frames := sat_add (rxt_rssi_valid_frames rx) (pt_rssi_valid_frames t),
        rxt_snr_frames := sat_add (rxt_snr_frames rx) (pt_snr_frames t),
        rxt_noise_frames := sat_add (rxt_noise_frames rx) (pt_noise_frames t),
        rxt_signal := summary_merge (rxt_signal rx) (pt_signal t),
        rxt_dropped_packets := sat_add (rxt_dropped_packets rx) (pt_dropped_packets t),
        rxt_need_more_data := sat_add (rxt_need_more_data rx) (pt_need_more_data t),
        rxt_management_frames := sat_add (rxt_management_frames rx) (pt_management_frames t),
        rxt_control_frames := sat_add (rxt_control_frames rx) (pt_control_frames t),
        rxt_data_frames := sat_add (rxt_data_frames rx) (pt_data_frames t),
        rxt_extension_frames := sat_add (rxt_extension_frames rx) (pt_extension_frames t),
        rxt_wfb_channel_observations :=
          merge_runtime_wfb_channel_observations (rxt_wfb_channel_observations rx) (pt_wfb_channel_observations t)\<rparr>"

end
