(* ===== verification/Rx_Forward_Laws.thy ===== *)
theory Rx_Forward_Laws
  imports Rx_Forwards
begin

text \<open>
  Received frames reach every forward, in order, and the telemetry of a run is that of the packets,
  however they are split into reads.
\<close>

section \<open>What is sent\<close>

text \<open>The same environment, with a log of the datagrams handed to \<open>send_to\<close>.\<close>

definition logged_sends ::
    "('io, 'k, 'a, 'w) forward_env \<Rightarrow> ('io, 'k, 'a, 'w \<times> ('k \<times> bytes \<times> 'a) list) forward_env" where
  "logged_sends env =
     \<lparr>fe_bind = (\<lambda>(w, log). let (r, w) = fe_bind env w in (r, w, log)),
      fe_send_to = (\<lambda>socket packet aggregator (w, log).
        let (r, w) = fe_send_to env socket packet aggregator w in (r, w, log @ [(socket, packet, aggregator)])),
      fe_runtime_unix_ms = (\<lambda>(w, log). let (t, w) = fe_runtime_unix_ms env w in (t, w, log)),
      fe_show_io = fe_show_io env\<rparr>"

text \<open>The datagram of a frame for one forward; the counters of the forward do not matter for it.\<close>

definition forwarded :: "('k, 'a) rx_forward_runtime \<Rightarrow> rx_frame \<Rightarrow> ('k \<times> bytes \<times> 'a) list" where
  "forwarded r frame =
     (case (fst (build_rx_forward_datagram frame (fr_config r) bridge_rx_counters_default), fr_socket r, fr_aggregator r) of
        (Some packet, Some socket, Some aggregator) \<Rightarrow> [(socket, packet, aggregator)] | _ \<Rightarrow> [])"

definition same_target :: "('k, 'a) rx_forward_runtime \<Rightarrow> ('k, 'a) rx_forward_runtime \<Rightarrow> bool" where
  "same_target r r' \<longleftrightarrow> fr_config r' = fr_config r \<and> fr_socket r' = fr_socket r \<and> fr_aggregator r' = fr_aggregator r"

lemma datagram_of_counters:
  "fst (build_rx_forward_datagram frame config c) = fst (build_rx_forward_datagram frame config c')"
  by (simp add: build_rx_forward_datagram_def Let_def split: sum.split wfb_frame_error.split)

lemma forwarded_same_target: "same_target r r' \<Longrightarrow> forwarded r' frame = forwarded r frame"
  by (simp add: forwarded_def same_target_def)

lemma same_targets: "list_all2 same_target rs rs' \<Longrightarrow> map forwarded rs' = map forwarded rs"
  by (induction rule: list_all2_induct) (auto simp: forwarded_same_target)

lemma same_targets_refl: "list_all2 same_target rs rs"
  by (simp add: list.rel_refl same_target_def)

lemma same_targets_trans: "list_all2 same_target rs rs' \<Longrightarrow> list_all2 same_target rs' rs'' \<Longrightarrow> list_all2 same_target rs rs''"
  by (rule list_all2_trans [of same_target same_target]) (auto simp: same_target_def)

lemma forward_sends:
  "\<exists>r' w'. process_production_wfb_rx_forward (logged_sends env) r frame (w, log) =
     (Inr (), r', w', log @ forwarded r frame) \<and> same_target r r'"
proof -
  obtain packet counters where b: "build_rx_forward_datagram frame (fr_config r) (fr_counters r) = (packet, counters)"
    by fastforce
  then have "fst (build_rx_forward_datagram frame (fr_config r) bridge_rx_counters_default) = packet"
    by (metis datagram_of_counters fst_conv)
  with b show ?thesis
    by (auto simp: process_production_wfb_rx_forward_def logged_sends_def forwarded_def same_target_def Let_def
        split: option.split prod.split sum.split)
qed

definition deliveries :: "('k, 'a) rx_forward_runtime list \<Rightarrow> rx_frame \<Rightarrow> ('k \<times> bytes \<times> 'a) list" where
  "deliveries rs frame = concat (map (\<lambda>r. forwarded r frame) rs)"

lemma deliveries_same: "list_all2 same_target rs rs' \<Longrightarrow> deliveries rs' = deliveries rs"
proof
  fix frame
  assume "list_all2 same_target rs rs'"
  then show "deliveries rs' frame = deliveries rs frame"
    unfolding deliveries_def by (induction rule: list_all2_induct) (simp_all add: forwarded_same_target)
qed

lemma forwards_send:
  "\<exists>rs' w'. process_production_wfb_rx_forwards (logged_sends env) rs frame (w, log) =
     (Inr (), rs', w', log @ deliveries rs frame) \<and> list_all2 same_target rs rs'"
proof (induction rs arbitrary: w log)
  case (Cons r rs)
  obtain r' w' where "process_production_wfb_rx_forward (logged_sends env) r frame (w, log) =
      (Inr (), r', w', log @ forwarded r frame)" "same_target r r'"
    using forward_sends [of env r frame w log] by blast
  moreover obtain rs' w'' where "process_production_wfb_rx_forwards (logged_sends env) rs frame (w', log @ forwarded r frame) =
      (Inr (), rs', w'', (log @ forwarded r frame) @ deliveries rs frame)" "list_all2 same_target rs rs'"
    using Cons.IH [of w' "log @ forwarded r frame"] by blast
  ultimately show ?case by (simp add: deliveries_def)
qed (simp add: deliveries_def)

section \<open>What is counted\<close>

definition frames_of :: "parsed_rx_packet list \<Rightarrow> rx_frame list" where
  "frames_of packets = List.map_filter (\<lambda>p. if pp_outcome p = RxFrame then pp_frame p else None) packets"

definition frames_present :: "parsed_rx_packet list \<Rightarrow> bool" where
  "frames_present packets \<longleftrightarrow> (\<forall>p \<in> set packets. pp_outcome p = RxFrame \<longrightarrow> pp_frame p \<noteq> None)"

definition summary_of :: "rx_frame list \<Rightarrow> signal_summary" where
  "summary_of frames =
     \<lparr>sg_rssi_dbm = metric_of (map rx_rssi_dbm (filter rx_rssi_dbm_valid frames)),
      sg_snr_db = metric_of (List.map_filter rx_snr_db frames),
      sg_noise_dbm = metric_of (List.map_filter rx_noise_dbm frames)\<rparr>"

definition frames_where :: "(rx_frame \<Rightarrow> bool) \<Rightarrow> rx_frame list \<Rightarrow> u64" where
  "frames_where P frames = of_nat (length (filter P frames))"

definition telemetry_of :: "parsed_rx_packet list \<Rightarrow> rx_packet_telemetry" where
  "telemetry_of packets =
     (let frames = frames_of packets in
      \<lparr>pt_parsed_frames = of_nat (length frames),
       pt_phy_status_frames = frames_where rx_phy_status frames,
       pt_rssi_valid_frames = frames_where rx_rssi_dbm_valid frames,
       pt_snr_frames = frames_where (\<lambda>f. rx_snr_db f \<noteq> None) frames,
       pt_noise_frames = frames_where (\<lambda>f. rx_noise_dbm f \<noteq> None) frames,
       pt_signal = summary_of frames,
       pt_dropped_packets = of_nat (length (filter (\<lambda>p. pp_outcome p = RxDrop) packets) +
         length (filter (\<lambda>f. length (rx_data f) < 10) frames)),
       pt_need_more_data = of_nat (length (filter (\<lambda>p. pp_outcome p = RxNeedMoreData) packets)),
       pt_management_frames = frames_where (\<lambda>f. frame_type_of (rx_data f) = Inr Management) frames,
       pt_control_frames = frames_where (\<lambda>f. frame_type_of (rx_data f) = Inr Control) frames,
       pt_data_frames = frames_where (\<lambda>f. frame_type_of (rx_data f) = Inr Data) frames,
       pt_extension_frames = frames_where (\<lambda>f. frame_type_of (rx_data f) = Inr Extension) frames,
       pt_wfb_channel_observations = observations_of (seen_channels (map rx_data frames))\<rparr>)"

text \<open>What the loop does to the telemetry for one packet.\<close>

definition count_packet :: "parsed_rx_packet \<Rightarrow> rx_packet_telemetry \<Rightarrow> rx_packet_telemetry" where
  "count_packet parsed t =
     (case (pp_outcome parsed, pp_frame parsed) of
        (RxFrame, Some frame) \<Rightarrow>
          (let t = count_production_rx_frame_type (rx_data frame) (count_production_rx_metadata frame
                 (t\<lparr>pt_parsed_frames := sat_add (pt_parsed_frames t) 1\<rparr>))
           in t\<lparr>pt_wfb_channel_observations :=
                observe_runtime_wfb_channel_id (rx_data frame) (pt_wfb_channel_observations t)\<rparr>)
      | (RxDrop, _) \<Rightarrow> t\<lparr>pt_dropped_packets := sat_add (pt_dropped_packets t) 1\<rparr>
      | (RxNeedMoreData, _) \<Rightarrow> t\<lparr>pt_need_more_data := sat_add (pt_need_more_data t) 1\<rparr>
      | _ \<Rightarrow> t)"

lemma frames_of_simps [simp]:
  "frames_of [] = []" "frames_of (ps @ qs) = frames_of ps @ frames_of qs"
  "pp_outcome p \<noteq> RxFrame \<Longrightarrow> frames_of (p # ps) = frames_of ps"
  "pp_outcome p = RxFrame \<Longrightarrow> pp_frame p = Some frame \<Longrightarrow> frames_of (p # ps) = frame # frames_of ps"
  by (simp_all add: frames_of_def List.map_filter_def)

lemma count_packet_simps [simp]:
  "pp_outcome p = RxDrop \<Longrightarrow> count_packet p t = t\<lparr>pt_dropped_packets := sat_add (pt_dropped_packets t) 1\<rparr>"
  "pp_outcome p = RxNeedMoreData \<Longrightarrow> count_packet p t = t\<lparr>pt_need_more_data := sat_add (pt_need_more_data t) 1\<rparr>"
  by (simp_all add: count_packet_def)

lemma packets_loop:
  assumes "frames_present packets"
  shows "\<exists>rs' w'. rx_packet_outcomes_loop (logged_sends env) packets t rs (w, log) =
      Some (Inr (fold count_packet packets t), rs', w', log @ concat (map (deliveries rs) (frames_of packets))) \<and>
    list_all2 same_target rs rs'"
  using assms
proof (induction packets arbitrary: t rs w log)
  case Nil
  then show ?case by (simp add: same_targets_refl)
next
  case (Cons p packets)
  have IH: "\<exists>rs' w'. rx_packet_outcomes_loop (logged_sends env) packets t rs (w, log) =
      Some (Inr (fold count_packet packets t), rs', w', log @ concat (map (deliveries rs) (frames_of packets))) \<and>
      list_all2 same_target rs rs'" for t rs w log
    using Cons by (simp add: frames_present_def)
  show ?case
  proof (cases "pp_outcome p")
    case RxFrame
    then obtain frame where f: "pp_frame p = Some frame" using Cons.prems by (auto simp: frames_present_def)
    obtain rs1 w1 where one: "process_production_wfb_rx_forwards (logged_sends env) rs frame (w, log) =
        (Inr (), rs1, w1, log @ deliveries rs frame)" "list_all2 same_target rs rs1"
      using forwards_send [of env rs frame w log] by blast
    obtain rs2 w2 where two: "rx_packet_outcomes_loop (logged_sends env) packets (count_packet p t) rs1 (w1, log @ deliveries rs frame) =
        Some (Inr (fold count_packet packets (count_packet p t)), rs2, w2,
          (log @ deliveries rs frame) @ concat (map (deliveries rs1) (frames_of packets)))" "list_all2 same_target rs1 rs2"
      using IH [of "count_packet p t" rs1 w1 "log @ deliveries rs frame"] by blast
    have "rx_packet_outcomes_loop (logged_sends env) (p # packets) t rs (w, log) =
        rx_packet_outcomes_loop (logged_sends env) packets (count_packet p t) rs1 (w1, log @ deliveries rs frame)"
      using RxFrame f one by (simp add: count_packet_def Let_def)
    then show ?thesis
      using RxFrame f one(2) two same_targets_trans deliveries_same [OF one(2)] by fastforce
  qed (use IH in simp_all)
qed

section \<open>The telemetry of a list of packets\<close>

lemma sat_add_Suc: "n < 2 ^ 55 \<Longrightarrow> sat_add (of_nat n :: u64) 1 = of_nat (Suc n)"
  using sat_add_of_nat [of n 1] by simp

lemma short_filter: "length xs < n \<Longrightarrow> length (filter P xs) < n"
  by (rule le_less_trans [OF length_filter_le])

lemma map_filter_append: "List.map_filter g (xs @ ys) = List.map_filter g xs @ List.map_filter g ys"
  by (simp add: List.map_filter_def)

lemma length_map_filter: "length (List.map_filter g xs) = length (filter (\<lambda>x. g x \<noteq> None) xs)"
  by (simp add: List.map_filter_def)

lemma observe_metric: "length xs < 2 ^ 55 - 1 \<Longrightarrow> metric_observe v (metric_of xs) = metric_of (xs @ [v])"
  by (simp add: metric_observe_merge metric_merge_of few_samples_def)

lemma observe_frames:
  assumes "length frames < 2 ^ 55 - 1"
  shows "observe_frame f (summary_of frames) = summary_of (frames @ [f])"
proof -
  have "length (filter rx_rssi_dbm_valid frames) < 2 ^ 55 - 1" "length (List.map_filter rx_snr_db frames) < 2 ^ 55 - 1"
    "length (List.map_filter rx_noise_dbm frames) < 2 ^ 55 - 1"
    unfolding length_map_filter using assms by (auto intro: short_filter)
  then show ?thesis
    by (simp add: observe_frame_def summary_of_def observe_metric map_filter_append map_filter_simps split: option.split)
qed

lemma count_bound: "length (filter P (frames_of ps)) + length (filter Q ps) \<le> length ps"
  if "\<And>p. Q p \<Longrightarrow> pp_outcome p \<noteq> RxFrame"
proof (induction ps)
  case (Cons p ps)
  then show ?case
    using that [of p] by (cases "pp_outcome p = RxFrame"; cases "pp_frame p") (auto simp: frames_of_def List.map_filter_def)
qed simp

lemma frames_of_bound: "length (frames_of ps) \<le> length ps"
  by (simp add: frames_of_def length_map_filter)

lemma frames_where_snoc:
  "length frames < 2 ^ 55 - 1 \<Longrightarrow>
     frames_where P (frames @ [f]) = (if P f then sat_add (frames_where P frames) 1 else frames_where P frames)"
  using sat_add_Suc [of "length (filter P frames)"] short_filter [of frames "2 ^ 55" P] by (simp add: frames_where_def)

text \<open>Every counter of a frame as a conditional increment.\<close>

definition bump :: "bool \<Rightarrow> u64 \<Rightarrow> u64" where
  "bump b c = (if b then sat_add c 1 else c)"

lemma count_metadata_fields:
  "count_production_rx_metadata f t = t
     \<lparr>pt_phy_status_frames := bump (rx_phy_status f) (pt_phy_status_frames t),
      pt_rssi_valid_frames := bump (rx_rssi_dbm_valid f) (pt_rssi_valid_frames t),
      pt_snr_frames := bump (rx_snr_db f \<noteq> None) (pt_snr_frames t),
      pt_noise_frames := bump (rx_noise_dbm f \<noteq> None) (pt_noise_frames t),
      pt_signal := observe_frame f (pt_signal t)\<rparr>"
  by (cases t) (simp add: count_production_rx_metadata_def bump_def Let_def)

lemma frame_type_short: "frame_type_of d = Inl e \<longleftrightarrow> length d < 10 \<and> e = FrameTooShort 10 (length d)"
  by (auto simp: frame_type_of_def bind_res_Inl_iff validate_error_iff)

lemma count_type_fields:
  "count_production_rx_frame_type d t = t
     \<lparr>pt_management_frames := bump (frame_type_of d = Inr Management) (pt_management_frames t),
      pt_control_frames := bump (frame_type_of d = Inr Control) (pt_control_frames t),
      pt_data_frames := bump (frame_type_of d = Inr Data) (pt_data_frames t),
      pt_extension_frames := bump (frame_type_of d = Inr Extension) (pt_extension_frames t),
      pt_dropped_packets := bump (length d < 10) (pt_dropped_packets t)\<rparr>"
proof (cases "frame_type_of d")
  case (Inl e)
  then show ?thesis
    using frame_type_short [of d e] by (cases t) (simp add: count_production_rx_frame_type_def bump_def)
next
  case (Inr ty)
  then have "\<not> length d < 10" using frame_type_short [of d] by fastforce
  with Inr show ?thesis
    by (cases t; cases ty) (simp_all add: count_production_rx_frame_type_def bump_def)
qed

lemma bump_frames_where: "length frames < 2 ^ 55 - 1 \<Longrightarrow> bump (P f) (frames_where P frames) = frames_where P (frames @ [f])"
  by (simp add: bump_def frames_where_snoc)

lemma telemetry_frame:
  assumes few: "length ps < 2 ^ 55 - 1" and p: "pp_outcome p = RxFrame" "pp_frame p = Some f"
  shows "count_packet p (telemetry_of ps) = telemetry_of (ps @ [p])"
proof -
  have frames: "length (frames_of ps) < 2 ^ 55 - 1" using frames_of_bound [of ps] few by simp
  have "length (filter (\<lambda>f. length (rx_data f) < 10) (frames_of ps)) + length (filter (\<lambda>p. pp_outcome p = RxDrop) ps) < 2 ^ 55 - 1"
    by (rule le_less_trans [OF count_bound few]) simp
  then have dropped: "bump (length (rx_data f) < 10) (of_nat (length (filter (\<lambda>p. pp_outcome p = RxDrop) ps) +
      length (filter (\<lambda>f. length (rx_data f) < 10) (frames_of ps)))) =
    of_nat (length (filter (\<lambda>p. pp_outcome p = RxDrop) (ps @ [p])) +
      length (filter (\<lambda>f. length (rx_data f) < 10) (frames_of ps @ [f])))"
    using sat_add_Suc [of "length (filter (\<lambda>p. pp_outcome p = RxDrop) ps) + length (filter (\<lambda>f. length (rx_data f) < 10) (frames_of ps))"] p
    by (simp add: bump_def)
  have obs: "observe_runtime_wfb_channel_id (rx_data f) (observations_of (seen_channels (map rx_data (frames_of ps)))) =
      observations_of (seen_channels (map rx_data (frames_of ps @ [f])))"
    using frames observe_all_channels [of "map rx_data (frames_of ps)"] observe_all_channels [of "map rx_data (frames_of ps @ [f])"]
    by simp
  have parsed: "sat_add (of_nat (length (frames_of ps)) :: u64) 1 = of_nat (length (frames_of ps @ [f]))"
    using frames sat_add_Suc [of "length (frames_of ps)"] by simp
  have all: "frames_of (ps @ [p]) = frames_of ps @ [f]" using p by simp
  show ?thesis
    unfolding telemetry_of_def all Let_def
    by (simp only: count_packet_def p count_metadata_fields count_type_fields Let_def prod.case option.case
        rx_parse_outcome.case rx_packet_telemetry.simps bump_frames_where [OF frames] observe_frames [OF frames] parsed dropped obs)
      (simp add: p bump_frames_where [OF frames, of "\<lambda>f. \<exists>y. rx_snr_db f = Some y" f]
        bump_frames_where [OF frames, of "\<lambda>f. \<exists>y. rx_noise_dbm f = Some y" f]
        bump_frames_where [OF frames, of "\<lambda>f. frame_type_of (rx_data f) = Inr _" f])
qed

lemma telemetry_packet:
  assumes few: "length ps < 2 ^ 55 - 1" and p: "pp_outcome p = RxFrame \<longrightarrow> pp_frame p \<noteq> None"
  shows "count_packet p (telemetry_of ps) = telemetry_of (ps @ [p])"
proof (cases "pp_outcome p")
  case RxFrame
  with p telemetry_frame [OF few] show ?thesis by blast
next
  case RxDrop
  have "length (filter (\<lambda>f. length (rx_data f) < 10) (frames_of ps)) + length (filter (\<lambda>p. pp_outcome p = RxDrop) ps) < 2 ^ 55 - 1"
    by (rule le_less_trans [OF count_bound few]) simp
  then show ?thesis
    using RxDrop sat_add_Suc [of "length (filter (\<lambda>p. pp_outcome p = RxDrop) ps) + length (filter (\<lambda>f. length (rx_data f) < 10) (frames_of ps))"]
    by (simp add: telemetry_of_def Let_def)
next
  case RxNeedMoreData
  then show ?thesis
    using sat_add_Suc [OF short_filter [of ps "2 ^ 55" "\<lambda>p. pp_outcome p = RxNeedMoreData"]] few
    by (simp add: telemetry_of_def Let_def)
qed

lemma telemetry_of_Nil: "telemetry_of [] = rx_packet_telemetry_default"
  by (simp add: telemetry_of_def rx_packet_telemetry_default_def frames_where_def summary_of_def
      signal_summary_default_def metric_of_def observations_of_def seen_channels_def entries_def List.map_filter_def)

lemma telemetry_packets:
  "length ps < 2 ^ 55 \<Longrightarrow> frames_present ps \<Longrightarrow> fold count_packet ps rx_packet_telemetry_default = telemetry_of ps"
proof (induction ps rule: rev_induct)
  case (snoc p ps)
  then show ?case using telemetry_packet [of ps p] by (simp add: frames_present_def)
qed (simp add: telemetry_of_Nil)

section \<open>From the bulk transfer to the sockets\<close>

lemma parsed_frame_present: "pp_outcome (parse_rx_packet buf ch) = RxFrame \<Longrightarrow> pp_frame (parse_rx_packet buf ch) \<noteq> None"
  by (auto simp: parse_rx_packet_def need_more_def Let_def split: if_splits)

lemma packet_loop_present:
  "frames_present packets \<Longrightarrow> frames_present (fst (rx_packet_loop ch buffer n offset packets c))"
proof (induction ch buffer n offset packets c rule: rx_packet_loop.induct)
  case (1 ch buffer n offset packets c)
  then show ?case
    using parsed_frame_present [of "byte_slice offset n buffer" ch]
    by (subst rx_packet_loop.simps) (simp add: Let_def frames_present_def split del: if_split split: if_split_asm if_split)
qed

lemma read_present:
  "read_rx_packets sh tc read s ch buffer timeout = (Inr r, s', buffer') \<Longrightarrow> frames_present (rr_packets r)"
  using packet_loop_present [of "[]"]
  by (auto simp: read_rx_packets_def Let_def frames_present_def split: option.splits prod.splits sum.splits)
    (metis fst_conv)

text \<open>
  C13. What a bulk IN transfer brings reaches every forward: processing the packets of a read never
  panics and never fails; every received frame is handed to the forwards in the order of
  reception, and each forward with a socket and an aggregator sends for it exactly the datagram
  of its own channel, whatever the sockets answered before; the report counts every packet.
\<close>

theorem received_frames_reach_forwards:
  assumes "read_rx_packets sh tc read s ch buffer timeout = (Inr r, s', buffer')"
    and "length (rr_packets r) < 2 ^ 55"
  shows "\<exists>outcome rs' w'.
    process_production_rx_packet_outcomes (logged_sends env) (rr_packets r) rs (w, log) =
      Some (Inr outcome, rs', w', log @ concat (map (deliveries rs) (frames_of (rr_packets r)))) \<and>
    ro_telemetry outcome = telemetry_of (rr_packets r) \<and>
    ro_rx_forwards outcome = production_rx_forward_snapshots rs' \<and> list_all2 same_target rs rs'"
proof -
  have present: "frames_present (rr_packets r)" by (rule read_present [OF assms(1)])
  from packets_loop [OF present, of env rx_packet_telemetry_default rs w log] show ?thesis
    by (auto simp: process_production_rx_packet_outcomes_def telemetry_packets [OF assms(2) present])
qed

text \<open>A received WFB frame of one byte, and a forward that listens to its channel.\<close>

definition sample_wfb_buffer :: bytes where
  "sample_wfb_buffer = [29, 0, 0, 0] @ replicate 20 0 @
     (build_wfb_data_header \<lparr>wc_link_id = 7, wc_radio_port = 1\<rparr> 0 @ [42]) @ replicate 79 0"

definition sample_forward :: "(unit, unit) rx_forward_runtime" where
  "sample_forward = forward_runtime
     \<lparr>fpl_config = \<lparr>fc_channel_id = \<lparr>wc_link_id = 7, wc_radio_port = 1\<rparr>, fc_wlan_idx = 0, fc_mcs_index = 0,
        fc_bandwidth_mhz = 20\<rparr>, fpl_aggregator = Some ()\<rparr> (Some ())"

definition accepting_env :: "(unit, unit, unit, unit) forward_env" where
  "accepting_env = \<lparr>fe_bind = (\<lambda>w. (Inr (), w)), fe_send_to = (\<lambda>_ packet _ w. (Inr (length packet), w)),
     fe_runtime_unix_ms = (\<lambda>w. (0, w)), fe_show_io = (\<lambda>_. [])\<rparr>"

lemma sample_wfb_parse:
  "\<exists>frame. parse_rx_packet sample_wfb_buffer sample_rx_channel =
     \<lparr>pp_consumed = 128, pp_outcome = RxFrame, pp_frame = Some frame\<rparr> \<and>
     rx_data frame = build_wfb_data_header \<lparr>wc_link_id = 7, wc_radio_port = 1\<rparr> 0 @ [42]"
proof -
  have len: "length (build_wfb_data_header \<lparr>wc_link_id = 7, wc_radio_port = 1\<rparr> 0) = 24" by (rule length_wfb_header)
  have "length sample_wfb_buffer = 128" "rx_dword 0 sample_wfb_buffer = 29" "rx_dword 12 sample_wfb_buffer = 0"
    "rx_dword 16 sample_wfb_buffer = 0"
    by (simp_all add: sample_wfb_buffer_def len rx_dword_def of_le32_def nth_append)
  then show ?thesis
    by (simp add: parse_rx_packet_def desc_field_defs RX_DESC_SIZE_def Let_def IEEE80211_MIN_HEADER_LEN_def
        RX_AGGREGATION_ALIGNMENT_def align_up_128 rx_frame_of_def split: prod.split)
      (simp add: sample_wfb_buffer_def byte_slice_def len)
qed

lemma received_frames_reach_forwards_witness:
  "\<exists>r s' outcome rs' w' packet.
     read_rx_packets (\<lambda>_. []) (\<lambda>_. False) (\<lambda>ep b t d. (Inr 128 :: (unit usb_error, nat) result, sample_wfb_buffer, d))
       sample_session sample_rx_channel (replicate 128 0) 500 = (Inr r, s', sample_wfb_buffer) \<and>
     process_production_rx_packet_outcomes (logged_sends accepting_env) (rr_packets r) [sample_forward] ((), []) =
       Some (Inr outcome, rs', w', [((), packet, ())]) \<and> pt_parsed_frames (ro_telemetry outcome) = 1"
proof -
  let ?read = "\<lambda>(ep :: u8) (b :: bytes) (t :: nat) (d :: bytes). (Inr 128 :: (unit usb_error, nat) result, sample_wfb_buffer, d)"
  obtain frame where p: "parse_rx_packet sample_wfb_buffer sample_rx_channel =
      \<lparr>pp_consumed = 128, pp_outcome = RxFrame, pp_frame = Some frame\<rparr>"
    and d: "rx_data frame = build_wfb_data_header \<lparr>wc_link_id = 7, wc_radio_port = 1\<rparr> 0 @ [42]"
    using sample_wfb_parse by blast
  have "length sample_wfb_buffer = 128"
    by (simp add: sample_wfb_buffer_def length_wfb_header)
  then have "rx_packet_loop sample_rx_channel sample_wfb_buffer 128 0 [] c =
      ([parse_rx_packet sample_wfb_buffer sample_rx_channel], count_rx_packet RxFrame c)" for c
    by (simp add: rx_packet_loop.simps p)
  then obtain r s' where read: "read_rx_packets (\<lambda>_. []) (\<lambda>_. False) ?read sample_session sample_rx_channel (replicate 128 0) 500 =
      (Inr r, s', sample_wfb_buffer)" "rr_packets r = [parse_rx_packet sample_wfb_buffer sample_rx_channel]"
    by (simp add: read_rx_packets_def selected_bulk_in_endpoint_def sample_session_def session_new_def)
  have "\<exists>packet. concat (map (deliveries [sample_forward]) (frames_of (rr_packets r))) = [((), packet, ())]"
    by (simp add: read(2) p deliveries_def forwarded_def sample_forward_def forward_runtime_def
        build_rx_forward_datagram_def d extract_built Let_def)
  moreover have "pt_parsed_frames (telemetry_of (rr_packets r)) = 1" by (simp add: read(2) p telemetry_of_def Let_def)
  ultimately show ?thesis
    using received_frames_reach_forwards [OF read(1), of accepting_env "[sample_forward]" "()" "[]"] read
    by (auto simp: read(2))
qed

section \<open>Reports of a run\<close>

definition packet_part :: "'a flow_rx_telemetry \<Rightarrow> rx_packet_telemetry" where
  "packet_part rx =
     \<lparr>pt_parsed_frames = rxt_parsed_frames rx, pt_phy_status_frames = rxt_phy_status_frames rx,
      pt_rssi_valid_frames = rxt_rssi_valid_frames rx, pt_snr_frames = rxt_snr_frames rx,
      pt_noise_frames = rxt_noise_frames rx, pt_signal = rxt_signal rx,
      pt_dropped_packets = rxt_dropped_packets rx, pt_need_more_data = rxt_need_more_data rx,
      pt_management_frames = rxt_management_frames rx, pt_control_frames = rxt_control_frames rx,
      pt_data_frames = rxt_data_frames rx, pt_extension_frames = rxt_extension_frames rx,
      pt_wfb_channel_observations = rxt_wfb_channel_observations rx\<rparr>"

definition small_report :: "parsed_rx_packet list \<Rightarrow> bool" where
  "small_report ps \<longleftrightarrow> length ps < 2 ^ 55 \<and> few_channels (seen_channels (map rx_data (frames_of ps)))"

lemma sat_add_counts:
  "m + n < 2 ^ 55 \<Longrightarrow> sat_add (of_nat m :: u64) (of_nat n) = of_nat (m + n)"
  by (rule sat_add_of_nat) simp

lemma merge_summaries:
  assumes "length fs + length gs < 2 ^ 55"
  shows "summary_merge (summary_of fs) (summary_of gs) = summary_of (fs @ gs)"
proof -
  have "length (filter P fs) + length (filter P gs) < 2 ^ 55" for P
    using length_filter_le [of P fs] length_filter_le [of P gs] assms by linarith
  then show ?thesis
    by (simp add: summary_merge_def summary_of_def metric_merge_of few_samples_def map_filter_append length_map_filter)
qed

lemma apply_telemetry:
  assumes "small_report (ps @ qs)" "packet_part rx = telemetry_of ps"
  shows "packet_part (apply_production_runtime_rx_packet_telemetry (telemetry_of qs) rx) = telemetry_of (ps @ qs)"
proof -
  have n: "length ps + length qs < 2 ^ 55" using assms(1) by (simp add: small_report_def)
  have frames: "length (frames_of ps) + length (frames_of qs) < 2 ^ 55"
    using n frames_of_bound [of ps] frames_of_bound [of qs] by linarith
  have f: "sat_add (frames_where P (frames_of ps)) (frames_where P (frames_of qs)) = frames_where P (frames_of (ps @ qs))" for P
    unfolding frames_where_def frames_of_simps(2) filter_append length_append
    by (rule sat_add_counts) (use frames length_filter_le [of P "frames_of ps"] length_filter_le [of P "frames_of qs"] in linarith)
  have need: "sat_add (of_nat (length (filter P ps)) :: u64) (of_nat (length (filter P qs))) = of_nat (length (filter P (ps @ qs)))" for P
    unfolding filter_append length_append
    by (rule sat_add_counts) (use n length_filter_le [of P ps] length_filter_le [of P qs] in linarith)
  have parsed: "sat_add (of_nat (length (frames_of ps)) :: u64) (of_nat (length (frames_of qs))) = of_nat (length (frames_of (ps @ qs)))"
    unfolding frames_of_simps(2) length_append by (rule sat_add_counts) (use frames in linarith)
  let ?D = "filter (\<lambda>p. pp_outcome p = RxDrop)" and ?S = "filter (\<lambda>f. length (rx_data f) < 10)"
  have bound: "length (?S (frames_of xs)) + length (?D xs) \<le> length xs" for xs by (rule count_bound) simp
  have dropped: "sat_add (of_nat (length (?D ps) + length (?S (frames_of ps))) :: u64) (of_nat (length (?D qs) + length (?S (frames_of qs)))) =
      of_nat (length (?D (ps @ qs)) + length (?S (frames_of (ps @ qs))))"
    using n bound [of ps] bound [of qs] by (subst sat_add_counts) (simp_all add: ac_simps)
  have channels: "merge_runtime_wfb_channel_observations (observations_of (seen_channels (map rx_data (frames_of ps))))
      (observations_of (seen_channels (map rx_data (frames_of qs)))) = observations_of (seen_channels (map rx_data (frames_of (ps @ qs))))"
    using merge_channels [of "seen_channels (map rx_data (frames_of ps))" "seen_channels (map rx_data (frames_of qs))"] assms(1)
    by (simp add: small_report_def seen_channels_append)
  have part: "packet_part (apply_production_runtime_rx_packet_telemetry t rx) =
      \<lparr>pt_parsed_frames = sat_add (pt_parsed_frames (packet_part rx)) (pt_parsed_frames t),
       pt_phy_status_frames = sat_add (pt_phy_status_frames (packet_part rx)) (pt_phy_status_frames t),
       pt_rssi_valid_frames = sat_add (pt_rssi_valid_frames (packet_part rx)) (pt_rssi_valid_frames t),
       pt_snr_frames = sat_add (pt_snr_frames (packet_part rx)) (pt_snr_frames t),
       pt_noise_frames = sat_add (pt_noise_frames (packet_part rx)) (pt_noise_frames t),
       pt_signal = summary_merge (pt_signal (packet_part rx)) (pt_signal t),
       pt_dropped_packets = sat_add (pt_dropped_packets (packet_part rx)) (pt_dropped_packets t),
       pt_need_more_data = sat_add (pt_need_more_data (packet_part rx)) (pt_need_more_data t),
       pt_management_frames = sat_add (pt_management_frames (packet_part rx)) (pt_management_frames t),
       pt_control_frames = sat_add (pt_control_frames (packet_part rx)) (pt_control_frames t),
       pt_data_frames = sat_add (pt_data_frames (packet_part rx)) (pt_data_frames t),
       pt_extension_frames = sat_add (pt_extension_frames (packet_part rx)) (pt_extension_frames t),
       pt_wfb_channel_observations = merge_runtime_wfb_channel_observations
         (pt_wfb_channel_observations (packet_part rx)) (pt_wfb_channel_observations t)\<rparr>" for t
    by (simp add: packet_part_def apply_production_runtime_rx_packet_telemetry_def)
  show ?thesis
    unfolding part assms(2)
    by (simp only: telemetry_of_def Let_def rx_packet_telemetry.simps f need parsed dropped channels
        merge_summaries [OF frames] frames_of_simps(2))
qed

end
