(* ===== verification/Tx_Datagrams.thy ===== *)
theory Tx_Datagrams
  imports Rx_Telemetry Wfb_Bridge Radio_Session
begin

text \<open>
  What the production runtime does with a datagram from WFB (\<open>wfb-radio-runtime/src/lib.rs\<close>): the
  overrides of its transmit options, and its submission to the radio with the counters and the
  metadata that are reported.  \<open>'a\<close> is the type of socket addresses.
\<close>

section \<open>Transmit options\<close>

datatype bridge_tx_profile = LinuxMonitor | RadiotapDirect

definition bridge_tx_profile_default :: bridge_tx_profile where
  "bridge_tx_profile_default = LinuxMonitor"

record bridge_tx_overrides =
  ov_tx_profile :: bridge_tx_profile
  ov_tx_rate :: "tx_rate option"
  ov_tx_bandwidth :: "bandwidth option"
  ov_tx_channel_bandwidth :: "bandwidth option"
  ov_tx_queue :: "tx_queue option"
  ov_mac_id :: "u8 option"
  ov_tx_rate_id :: "u8 option"
  ov_tx_retries :: "u8 option"
  ov_tx_fallback_limit :: "u8 option"
  ov_enable_rate_fallback :: bool
  ov_no_agg_break :: bool

definition bridge_tx_overrides_default :: bridge_tx_overrides where
  "bridge_tx_overrides_default =
     \<lparr>ov_tx_profile = LinuxMonitor, ov_tx_rate = None, ov_tx_bandwidth = None, ov_tx_channel_bandwidth = None,
      ov_tx_queue = None, ov_mac_id = None, ov_tx_rate_id = None, ov_tx_retries = None,
      ov_tx_fallback_limit = None, ov_enable_rate_fallback = False, ov_no_agg_break = False\<rparr>"

record bridge_tx_config =
  tc_channel :: channel
  tc_channel_bandwidth :: bandwidth
  tc_overrides :: bridge_tx_overrides

fun is_mcs :: "tx_rate \<Rightarrow> bool" where
  "is_mcs (Mcs _) = True"
| "is_mcs _ = False"

fun is_vht :: "tx_rate \<Rightarrow> bool" where
  "is_vht (Vht _ _) = True"
| "is_vht _ = False"

definition apply_production_wfb_monitor_tx_defaults :: "tx_options \<Rightarrow> tx_options" where
  "apply_production_wfb_monitor_tx_defaults options =
     (if is_mcs (tx_rate options) \<or> is_vht (tx_rate options) then
        let options = options\<lparr>tx_queue := QMgnt, tx_mac_id := 1\<rparr>;
            options = (if is_mcs (tx_rate options) then options\<lparr>tx_rate_id := Some 7\<rparr> else options);
            options = options\<lparr>tx_disable_rate_fallback := False, tx_rate_fallback_limit := 0, tx_aggregate_break := False\<rparr>
        in if tx_no_retry options then options\<lparr>tx_retries := 0\<rparr> else options
      else options)"

text \<open>\<open>override f v x\<close> is \<open>if let Some(v) = v { f(v) }\<close> on the options.\<close>

definition override :: "('b \<Rightarrow> tx_options \<Rightarrow> tx_options) \<Rightarrow> 'b option \<Rightarrow> tx_options \<Rightarrow> tx_options" where
  "override f v options = (case v of Some x \<Rightarrow> f x options | None \<Rightarrow> options)"

definition apply_production_bridge_tx_overrides ::
    "bridge_tx_overrides \<Rightarrow> bandwidth \<Rightarrow> tx_options \<Rightarrow> tx_options" where
  "apply_production_bridge_tx_overrides overrides channel_bandwidth options =
     (let options = options\<lparr>tx_channel_bandwidth := Some
            (case ov_tx_channel_bandwidth overrides of Some b \<Rightarrow> b | None \<Rightarrow> channel_bandwidth)\<rparr>;
          options = override (\<lambda>rate options. options\<lparr>tx_rate := rate\<rparr>) (ov_tx_rate overrides) options;
          options = override (\<lambda>b options. options\<lparr>tx_bandwidth := b\<rparr>) (ov_tx_bandwidth overrides) options;
          options = (case ov_tx_profile overrides of
                       LinuxMonitor \<Rightarrow> apply_production_wfb_monitor_tx_defaults options
                     | RadiotapDirect \<Rightarrow> options);
          options = override (\<lambda>queue options. options\<lparr>tx_queue := queue\<rparr>) (ov_tx_queue overrides) options;
          options = override (\<lambda>mac_id options. options\<lparr>tx_mac_id := mac_id\<rparr>) (ov_mac_id overrides) options;
          options = override (\<lambda>rate_id options. options\<lparr>tx_rate_id := Some rate_id\<rparr>) (ov_tx_rate_id overrides) options;
          options = override (\<lambda>retries options. options\<lparr>tx_retries := retries\<rparr>) (ov_tx_retries overrides) options;
          options = override (\<lambda>limit options. options\<lparr>tx_rate_fallback_limit := limit\<rparr>) (ov_tx_fallback_limit overrides) options;
          options = (if ov_enable_rate_fallback overrides then options\<lparr>tx_disable_rate_fallback := False\<rparr> else options)
      in if ov_no_agg_break overrides then options\<lparr>tx_aggregate_break := False\<rparr> else options)"

section \<open>A datagram\<close>

record 'a queued_datagram =
  qd_report_index :: nat
  qd_peer :: 'a
  qd_data :: bytes

record 'a tx_datagram_metadata =
  md_peer :: 'a
  md_datagram_len :: nat
  md_fwmark :: u32
  md_radiotap_len :: nat
  md_frame_len :: nat
  md_packet_len :: nat
  md_tx_descriptor_preview_hex :: string
  md_wfb_channel_observation :: "channel_observation option"
  md_tx_profile :: bridge_tx_profile
  md_tx_options :: tx_options

record 'a bridge_tx_outcome =
  to_metadata :: "'a tx_datagram_metadata option"
  to_datagram_bytes :: u64
  to_frame_bytes :: u64
  to_bridge_counters :: bridge_tx_counters
  to_submit_counters :: tx_submit_counters

record 'a bridge_tx_error =
  te_code :: string
  te_message :: string
  te_metadata :: "'a tx_datagram_metadata option"
  te_datagram_bytes :: u64
  te_frame_bytes :: u64
  te_bridge_counters :: bridge_tx_counters
  te_submit_counters :: tx_submit_counters

definition is_unsupported_runtime_radiotap :: "tx_datagram_error \<Rightarrow> bool" where
  "is_unsupported_runtime_radiotap error =
     (case error of
        TdRadiotap (RtUnsupportedPresentFlags _) \<Rightarrow> True
      | TdRadiotap (RtUnsupportedHtBandwidth _) \<Rightarrow> True
      | TdRadiotap (RtUnsupportedVhtBandwidth _) \<Rightarrow> True
      | _ \<Rightarrow> False)"

definition encode_runtime_hex :: "bytes \<Rightarrow> string" where
  "encode_runtime_hex bytes =
     concat (map (\<lambda>b. [''0123456789abcdef'' ! unat (drop_bit 4 b), ''0123456789abcdef'' ! unat (b AND 0x0f)]) bytes)"

definition show_radio_error :: "radio_error \<Rightarrow> string" where
  "show_radio_error error = re_code error @ '': '' @ re_message error"

definition tx_metadata ::
    "'a queued_datagram \<Rightarrow> bridge_tx_config \<Rightarrow> parsed_tx_datagram \<Rightarrow> tx_options \<Rightarrow> bytes \<Rightarrow> 'a tx_datagram_metadata" where
  "tx_metadata queued config parsed tx_options packet =
     \<lparr>md_peer = qd_peer queued, md_datagram_len = length (qd_data queued), md_fwmark = td_fwmark parsed,
      md_radiotap_len = td_radiotap_len parsed, md_frame_len = length (td_frame parsed),
      md_packet_len = length packet,
      md_tx_descriptor_preview_hex = encode_runtime_hex (take (min TX_DESC_SIZE (length packet)) packet),
      md_wfb_channel_observation = runtime_wfb_channel_observation (td_frame parsed),
      md_tx_profile = ov_tx_profile (tc_overrides config), md_tx_options = tx_options\<rparr>"

text \<open>
  The session, the bridge counters and the submission counters are updated in place; the result is
  the outcome or the error, which both carry copies of the counters.
\<close>

definition handle_production_bridge_tx_datagram ::
    "('r \<Rightarrow> string) \<Rightarrow> ('r, 't) bulk_write \<Rightarrow> 't radio_session \<Rightarrow> 'a queued_datagram \<Rightarrow> bridge_tx_config \<Rightarrow>
     bridge_tx_counters \<Rightarrow> tx_submit_counters \<Rightarrow>
     ('a bridge_tx_error, 'a bridge_tx_outcome) result \<times> 't radio_session \<times> bridge_tx_counters \<times> tx_submit_counters" where
  "handle_production_bridge_tx_datagram show_rusb write session queued config b sc =
     (let datagram_bytes = of_nat (length (qd_data queued)) in
      case parse_tx_datagram (qd_data queued) of
        Inl error \<Rightarrow>
          (let b = b\<lparr>bt_incoming := sat_add (bt_incoming b) 1, bt_dropped := sat_add (bt_dropped b) 1,
                 bt_malformed := sat_add (bt_malformed b) 1,
                 bt_unsupported_radiotap := sat_add (bt_unsupported_radiotap b)
                   (if is_unsupported_runtime_radiotap error then 1 else 0)\<rparr>
           in (Inr \<lparr>to_metadata = None, to_datagram_bytes = datagram_bytes, to_frame_bytes = 0,
                    to_bridge_counters = b, to_submit_counters = sc\<rparr>, session, b, sc))
      | Inr parsed \<Rightarrow>
          (let tx_options = apply_production_bridge_tx_overrides (tc_overrides config) (tc_channel_bandwidth config)
                 (td_options parsed);
               frame_bytes = of_nat (length (td_frame parsed))
           in case build_tx_packet (td_frame parsed) (tc_channel config) tx_options of
                Inl _ \<Rightarrow>
                  (let b = b\<lparr>bt_incoming := sat_add (bt_incoming b) 1, bt_dropped := sat_add (bt_dropped b) 1,
                         bt_malformed := sat_add (bt_malformed b) 1\<rparr>
                   in (Inr \<lparr>to_metadata = None, to_datagram_bytes = datagram_bytes, to_frame_bytes = frame_bytes,
                            to_bridge_counters = b, to_submit_counters = sc\<rparr>, session, b, sc))
              | Inr packet \<Rightarrow>
                  (let metadata = tx_metadata queued config parsed tx_options packet;
                       b = b\<lparr>bt_incoming := sat_add (bt_incoming b) 1\<rparr>
                   in case submit_80211_frame show_rusb write session (td_frame parsed) (tc_channel config) tx_options sc of
                        (Inr _, session, sc) \<Rightarrow>
                          (let b = b\<lparr>bt_injected := sat_add (bt_injected b) 1\<rparr>
                           in (Inr \<lparr>to_metadata = Some metadata, to_datagram_bytes = datagram_bytes,
                                    to_frame_bytes = frame_bytes, to_bridge_counters = b, to_submit_counters = sc\<rparr>,
                               session, b, sc))
                      | (Inl error, session, sc) \<Rightarrow>
                          (let b = b\<lparr>bt_dropped := sat_add (bt_dropped b) 1\<rparr>
                           in (Inl \<lparr>te_code = ''tx_submit_failed'',
                                    te_message = ''radio TX failed: '' @ show_radio_error error,
                                    te_metadata = Some metadata, te_datagram_bytes = datagram_bytes,
                                    te_frame_bytes = frame_bytes, te_bridge_counters = b, te_submit_counters = sc\<rparr>,
                               session, b, sc)))))"

end
