(* ===== verification/Tx_Datagram_Laws.thy ===== *)
theory Tx_Datagram_Laws
  imports Tx_Datagrams
begin

text \<open>
  The datagram handler of the production runtime against the transmit bridge of \<open>wfb-bridge\<close>, and
  what it makes the radio send.
\<close>

section \<open>The handler and the bridge\<close>

text \<open>
  The radio the handler drives, behind the \<open>RadioTx\<close> interface of \<open>wfb-bridge\<close>: the session with its
  submission counters, and the overrides on the options of the datagram.
\<close>

definition session_radio ::
    "('r \<Rightarrow> string) \<Rightarrow> ('r, 't) bulk_write \<Rightarrow> bridge_tx_config \<Rightarrow> ('t radio_session \<times> tx_submit_counters) radio_tx" where
  "session_radio show_rusb write config frame options = (\<lambda>(session, sc).
     case submit_80211_frame show_rusb write session frame (tc_channel config)
            (apply_production_bridge_tx_overrides (tc_overrides config) (tc_channel_bandwidth config) options) sc of
       (r, session, sc) \<Rightarrow> (bind_res (map_err show_radio_error r) (\<lambda>_. Inr ()), session, sc))"

text \<open>The frame parses and has a header, but no packet can be built for it.\<close>

definition refused_by_builder :: "bridge_tx_config \<Rightarrow> bytes \<Rightarrow> bool" where
  "refused_by_builder config datagram \<longleftrightarrow>
     (case parse_tx_datagram datagram of
        Inl _ \<Rightarrow> False
      | Inr parsed \<Rightarrow> 10 \<le> length (td_frame parsed) \<and>
          \<not> is_ok (build_tx_packet (td_frame parsed) (tc_channel config)
             (apply_production_bridge_tx_overrides (tc_overrides config) (tc_channel_bandwidth config) (td_options parsed))))"

definition bridge_below_max :: "bridge_tx_counters \<Rightarrow> bool" where
  "bridge_below_max b \<longleftrightarrow> bt_incoming b \<noteq> - 1 \<and> bt_injected b \<noteq> - 1 \<and> bt_dropped b \<noteq> - 1 \<and>
     bt_malformed b \<noteq> - 1 \<and> bt_unsupported_radiotap b \<noteq> - 1"

lemma sat_add_1_below: "w \<noteq> - 1 \<Longrightarrow> sat_add w 1 = w + 1"
  for w :: "'a::len word"
proof -
  assume "w \<noteq> - 1"
  then have "1 + w \<noteq> 0" by (simp add: eq_neg_iff_add_eq_0 add.commute)
  then have "w \<le> w + 1" by (simp add: word_le_nat_alt add.commute [of w 1] unatSuc)
  then show ?thesis by (simp add: sat_add_def)
qed

lemma short_frame_refused: "length frame < 10 \<Longrightarrow> \<exists>e. build_tx_packet frame ch opts = Inl e"
  by (simp add: build_tx_packet_def validate_ieee80211_frame_def IEEE80211_MIN_HEADER_LEN_def)

lemma unsupported_same: "is_unsupported_runtime_radiotap = is_unsupported_radiotap"
  by (rule ext) (simp add: is_unsupported_runtime_radiotap_def is_unsupported_radiotap_def)

text \<open>
  C14. The production handler is the transmit bridge on the radio session: same frames and options
  to the radio, same session, same counters, and an error exactly when the radio refused the
  frame.  The one difference is a frame for which no packet can be built: the handler counts it
  as malformed and leaves the session and the submission counters alone, the bridge lets the
  radio reject it.
\<close>

theorem production_handler_is_bridge:
  assumes "bridge_below_max b"
    and "handle_production_bridge_tx_datagram show_rusb write session queued config b sc = (r, session', b', sc')"
    and "submit_tx_datagram (session_radio show_rusb write config) (qd_data queued) (session, sc) b =
      (q, (bridge_session, bridge_sc), bridge_b)"
  shows "if refused_by_builder config (qd_data queued)
    then is_ok r \<and> (\<exists>e. q = Inl (TbRadio e)) \<and> session' = session \<and> sc' = sc \<and>
      b' = bridge_b\<lparr>bt_malformed := bt_malformed bridge_b + 1\<rparr>
    else session' = bridge_session \<and> sc' = bridge_sc \<and> b' = bridge_b \<and> (is_ok r \<longleftrightarrow> (\<nexists>e. q = Inl (TbRadio e)))"
proof -
  have below: "sat_add (bt_incoming b) 1 = bt_incoming b + 1" "sat_add (bt_injected b) 1 = bt_injected b + 1"
    "sat_add (bt_dropped b) 1 = bt_dropped b + 1" "sat_add (bt_malformed b) 1 = bt_malformed b + 1"
    "sat_add (bt_unsupported_radiotap b) 1 = bt_unsupported_radiotap b + 1"
    using assms(1) by (simp_all add: bridge_below_max_def sat_add_1_below)
  show ?thesis
  proof (cases "parse_tx_datagram (qd_data queued)")
    case (Inl e)
    then show ?thesis
      using assms(2,3) below
      by (auto simp: handle_production_bridge_tx_datagram_def submit_tx_datagram_def refused_by_builder_def
          unsupported_same Let_def split: if_splits)
  next
    case (Inr parsed)
    let ?opts = "apply_production_bridge_tx_overrides (tc_overrides config) (tc_channel_bandwidth config) (td_options parsed)"
    let ?packet = "build_tx_packet (td_frame parsed) (tc_channel config) ?opts"
    obtain a s c where sub: "submit_80211_frame show_rusb write session (td_frame parsed) (tc_channel config) ?opts sc = (a, s, c)"
      by (cases "submit_80211_frame show_rusb write session (td_frame parsed) (tc_channel config) ?opts sc")
    have refused: "\<exists>e. a = Inl e" if "?packet = Inl e" for e
      using sub that
      by (auto simp: submit_80211_frame_def submit_tx_frame_def Let_def split: option.splits)
    have short: "validate_ieee80211_frame (td_frame parsed) = (if length (td_frame parsed) < 10
        then Inl (FrameTooShort 10 (length (td_frame parsed))) else Inr ())"
      by (simp add: validate_ieee80211_frame_def IEEE80211_MIN_HEADER_LEN_def)
    show ?thesis
      using assms(2,3) below Inr sub refused short_frame_refused [of "td_frame parsed" "tc_channel config" ?opts]
      by (cases ?packet; cases a)
        (auto simp: handle_production_bridge_tx_datagram_def submit_tx_datagram_def refused_by_builder_def
          session_radio_def short Let_def not_less split: if_splits)
  qed
qed

text \<open>A datagram with MCS 1 and a frame of 24 bytes.\<close>

definition sample_datagram :: "unit queued_datagram" where
  "sample_datagram = \<lparr>qd_report_index = 0, qd_peer = (), qd_data = be32 0 @ ht_radiotap 8 7 0 1 @ replicate 24 0\<rparr>"

definition sample_tx_config :: bridge_tx_config where
  "sample_tx_config = \<lparr>tc_channel = sample_channel_36, tc_channel_bandwidth = Mhz20, tc_overrides = bridge_tx_overrides_default\<rparr>"

definition taking_all :: "(unit, bytes) bulk_write" where
  "taking_all ep p t d = (Inr (length p), p)"

lemma sample_datagram_parsed:
  "\<exists>parsed. parse_tx_datagram (qd_data sample_datagram) = Inr parsed \<and> td_frame parsed = replicate 24 0 \<and>
     td_options parsed = tx_options_default\<lparr>tx_rate := Mcs 1, tx_no_retry := True\<rparr>"
  by (simp add: sample_datagram_def parse_tx_datagram_mark parse_ht_image parse_ht_fields)
    (simp add: tx_options_default_def)

lemma sample_datagram_packet:
  "is_ok (build_tx_packet (replicate 24 0) sample_channel_36
     (apply_production_bridge_tx_overrides bridge_tx_overrides_default Mhz20 (tx_options_default\<lparr>tx_rate := Mcs 1, tx_no_retry := True\<rparr>)))"
  by (simp add: apply_production_bridge_tx_overrides_def bridge_tx_overrides_default_def override_def
      apply_production_wfb_monitor_tx_defaults_def tx_options_default_def build_tx_packet_def
      sample_channel_36_def tx_rate_to_hw_def tx_data_secondary_channel_def validate_ieee80211_frame_def
      IEEE80211_MIN_HEADER_LEN_def frame_type_of_def Let_def)

lemma production_handler_is_bridge_witness:
  "\<exists>r session' b' sc' q.
     handle_production_bridge_tx_datagram (\<lambda>_. []) taking_all sample_session sample_datagram sample_tx_config
       bridge_tx_counters_default tx_submit_counters_default = (r, session', b', sc') \<and>
     submit_tx_datagram (session_radio (\<lambda>_. []) taking_all sample_tx_config) (qd_data sample_datagram)
       (sample_session, tx_submit_counters_default) bridge_tx_counters_default = (q, (session', sc'), b')"
proof -
  obtain r session' b' sc' where h: "handle_production_bridge_tx_datagram (\<lambda>_. []) taking_all sample_session sample_datagram
      sample_tx_config bridge_tx_counters_default tx_submit_counters_default = (r, session', b', sc')"
    by (metis prod.exhaust)
  obtain q s2 c2 b2 where g: "submit_tx_datagram (session_radio (\<lambda>_. []) taking_all sample_tx_config) (qd_data sample_datagram)
      (sample_session, tx_submit_counters_default) bridge_tx_counters_default = (q, (s2, c2), b2)"
    by (metis prod.exhaust)
  have "bridge_below_max bridge_tx_counters_default" by (simp add: bridge_below_max_def bridge_tx_counters_default_def)
  moreover have "\<not> refused_by_builder sample_tx_config (qd_data sample_datagram)"
    using sample_datagram_parsed sample_datagram_packet by (auto simp: refused_by_builder_def sample_tx_config_def)
  ultimately show ?thesis using production_handler_is_bridge [OF _ h g] h g by auto
qed

end
