(* ===== verification/Led_Heartbeat.thy ===== *)
theory Led_Heartbeat
  imports Registers
begin

text \<open>
  The heartbeat LED of the production runtime (\<open>wfb-radio-runtime/src/led_heartbeat.rs\<close>): a toggler
  polled once per iteration of the bridge loop.  Instants are nanoseconds.
\<close>

section \<open>The toggler\<close>

definition REG_LEDCFG0 :: u16 where "REG_LEDCFG0 = 0x004c"
definition LED_ON_VALUE :: u8 where "LED_ON_VALUE = 0x28"
definition LED_OFF_VALUE :: u8 where "LED_OFF_VALUE = 0x20"
definition DEFAULT_HEARTBEAT_HALF_PERIOD_MS :: u64 where "DEFAULT_HEARTBEAT_HALF_PERIOD_MS = 500"
definition MIN_HEARTBEAT_HALF_PERIOD_MS :: u64 where "MIN_HEARTBEAT_HALF_PERIOD_MS = 50"
definition MAX_HEARTBEAT_HALF_PERIOD_MS :: u64 where "MAX_HEARTBEAT_HALF_PERIOD_MS = 5000"
definition LED_WRITE_TIMEOUT :: nat where "LED_WRITE_TIMEOUT = 100 * 1000000"

record led_heartbeat_config =
  hc_enabled :: bool
  hc_half_period_ms :: u64

definition led_heartbeat_config_default :: led_heartbeat_config where
  "led_heartbeat_config_default = \<lparr>hc_enabled = True, hc_half_period_ms = DEFAULT_HEARTBEAT_HALF_PERIOD_MS\<rparr>"

text \<open>The error of a configuration is its message.\<close>

definition led_heartbeat_validate :: "led_heartbeat_config \<Rightarrow> (string, unit) result" where
  "led_heartbeat_validate self =
     (if \<not> hc_enabled self then Inr ()
      else if hc_half_period_ms self < MIN_HEARTBEAT_HALF_PERIOD_MS
      then Inl (''heartbeat half-period '' @ show_nat (unat (hc_half_period_ms self)) @ '' ms is below minimum '' @
             show_nat (unat MIN_HEARTBEAT_HALF_PERIOD_MS) @ '' ms'')
      else if hc_half_period_ms self > MAX_HEARTBEAT_HALF_PERIOD_MS
      then Inl (''heartbeat half-period '' @ show_nat (unat (hc_half_period_ms self)) @ '' ms is above maximum '' @
             show_nat (unat MAX_HEARTBEAT_HALF_PERIOD_MS) @ '' ms'')
      else Inr ())"

definition half_period :: "led_heartbeat_config \<Rightarrow> nat" where
  "half_period self = unat (hc_half_period_ms self) * 1000000"

record led_heartbeat_counters =
  hk_toggles_attempted :: u64
  hk_toggles_succeeded :: u64
  hk_toggles_failed :: u64

record led_heartbeat =
  hb_config :: led_heartbeat_config
  hb_counters :: led_heartbeat_counters
  hb_state_on :: bool
  hb_next_toggle_at :: nat

definition led_heartbeat_new :: "led_heartbeat_config \<Rightarrow> nat \<Rightarrow> led_heartbeat" where
  "led_heartbeat_new config started =
     \<lparr>hb_config = config,
      hb_counters = \<lparr>hk_toggles_attempted = 0, hk_toggles_succeeded = 0, hk_toggles_failed = 0\<rparr>,
      hb_state_on = False, hb_next_toggle_at = started + half_period config\<rparr>"

definition write_led_register ::
    "('r, 't) control_write \<Rightarrow> u8 \<Rightarrow> led_heartbeat \<Rightarrow> 't \<Rightarrow> led_heartbeat \<times> 't" where
  "write_led_register control v self dev =
     (let k = hb_counters self;
          k = k\<lparr>hk_toggles_attempted := sat_add (hk_toggles_attempted k) 1\<rparr>
      in case write_vendor control REG_LEDCFG0 0 [v] LED_WRITE_TIMEOUT dev of
           (Inr _, dev) \<Rightarrow> (self\<lparr>hb_counters := k\<lparr>hk_toggles_succeeded := sat_add (hk_toggles_succeeded k) 1\<rparr>\<rparr>, dev)
         | (Inl _, dev) \<Rightarrow> (self\<lparr>hb_counters := k\<lparr>hk_toggles_failed := sat_add (hk_toggles_failed k) 1\<rparr>\<rparr>, dev))"

definition maybe_toggle :: "('r, 't) control_write \<Rightarrow> nat \<Rightarrow> led_heartbeat \<Rightarrow> 't \<Rightarrow> led_heartbeat \<times> 't" where
  "maybe_toggle control now self dev =
     (if \<not> hc_enabled (hb_config self) then (self, dev)
      else if now < hb_next_toggle_at self then (self, dev)
      else
        let self = self\<lparr>hb_state_on := \<not> hb_state_on self, hb_next_toggle_at := now + half_period (hb_config self)\<rparr>
        in write_led_register control (if hb_state_on self then LED_ON_VALUE else LED_OFF_VALUE) self dev)"

definition turn_off :: "('r, 't) control_write \<Rightarrow> led_heartbeat \<Rightarrow> 't \<Rightarrow> led_heartbeat \<times> 't" where
  "turn_off control self dev =
     (if \<not> hc_enabled (hb_config self) then (self, dev)
      else write_led_register control LED_OFF_VALUE (self\<lparr>hb_state_on := False\<rparr>) dev)"

text \<open>Polling at a list of instants.\<close>

fun poll_heartbeat :: "('r, 't) control_write \<Rightarrow> nat list \<Rightarrow> led_heartbeat \<Rightarrow> 't \<Rightarrow> led_heartbeat \<times> 't" where
  "poll_heartbeat control [] self dev = (self, dev)"
| "poll_heartbeat control (now # later) self dev =
     (let (self, dev) = maybe_toggle control now self dev in poll_heartbeat control later self dev)"

section \<open>Blinking\<close>

text \<open>A control endpoint that also logs what is written to it.\<close>

definition logged_control ::
    "('r, 't) control_write \<Rightarrow> ('r, 't \<times> (u16 \<times> bytes) list) control_write" where
  "logged_control control rt rq addr idx data timeout = (\<lambda>(dev, log).
     let (r, dev) = control rt rq addr idx data timeout dev in (r, dev, log @ [(addr, data)]))"

text \<open>The instants at which the LED is toggled: the first at or after each due time.\<close>

fun toggles :: "nat \<Rightarrow> nat \<Rightarrow> nat list \<Rightarrow> nat list" where
  "toggles half due [] = []"
| "toggles half due (now # later) =
     (if due \<le> now then now # toggles half (now + half) later else toggles half due later)"

text \<open>On, off, on and so on: what \<open>n\<close> toggles write.\<close>

fun blinks :: "bool \<Rightarrow> nat \<Rightarrow> (u16 \<times> bytes) list" where
  "blinks on 0 = []"
| "blinks on (Suc n) = (0x4c, [if on then 0x20 else 0x28]) # blinks (\<not> on) n"

lemma toggles_due: "t \<in> set (toggles half due instants) \<Longrightarrow> due \<le> t \<and> t \<in> set instants"
proof (induction half due instants rule: toggles.induct)
  case (2 half due now later)
  then have "t \<in> set (toggles half (now + half) later) \<Longrightarrow> due \<le> now \<Longrightarrow> now + half \<le> t \<and> t \<in> set later" by blast
  with 2 show ?case by (auto split: if_splits)
qed simp

lemma toggles_spaced: "sorted_wrt (\<lambda>s t. s + half \<le> t) (toggles half due instants)"
  by (induction half due instants rule: toggles.induct) (auto dest: toggles_due)

lemma toggles_prompt:
  "sorted instants \<Longrightarrow> t \<in> set instants \<Longrightarrow> due \<le> t \<Longrightarrow> \<exists>s \<in> set (toggles half due instants). s \<le> t \<and> t \<le> s + half"
proof (induction half due instants rule: toggles.induct)
  case (2 half due now later)
  show ?case
  proof (cases "due \<le> now")
    case True
    show ?thesis
    proof (cases "t < now + half")
      case True
      with 2 \<open>due \<le> now\<close> show ?thesis by auto
    next
      case False
      show ?thesis
      proof (cases "t = now")
        case True
        then show ?thesis using \<open>due \<le> now\<close> by auto
      next
        case f: False
        with 2 False \<open>due \<le> now\<close> show ?thesis by auto
      qed
    qed
  next
    case False
    with 2 show ?thesis by auto
  qed
qed simp

definition counters_add :: "nat \<Rightarrow> nat \<Rightarrow> led_heartbeat_counters \<Rightarrow> led_heartbeat_counters \<Rightarrow> bool" where
  "counters_add n ok k k' \<longleftrightarrow> ok \<le> n \<and>
     unat (hk_toggles_attempted k') = unat (hk_toggles_attempted k) + n \<and>
     unat (hk_toggles_succeeded k') = unat (hk_toggles_succeeded k) + ok \<and>
     unat (hk_toggles_failed k') = unat (hk_toggles_failed k) + (n - ok)"

lemma write_led:
  assumes "unat (hk_toggles_attempted (hb_counters hb)) + 1 < 2 ^ 64"
    and "unat (hk_toggles_succeeded (hb_counters hb)) + 1 < 2 ^ 64"
    and "unat (hk_toggles_failed (hb_counters hb)) + 1 < 2 ^ 64"
  shows "\<exists>k dev' ok. write_led_register (logged_control control) v hb (dev, log) =
    (hb\<lparr>hb_counters := k\<rparr>, dev', log @ [(0x4c, [v])]) \<and> counters_add 1 ok (hb_counters hb) k"
proof -
  obtain r dev' where w: "control RTL_WRITE_REQUEST_TYPE RTL_USB_REQ 0x4c 0 [v] LED_WRITE_TIMEOUT dev = (r, dev')"
    by fastforce
  let ?k = "(hb_counters hb)\<lparr>hk_toggles_attempted := sat_add (hk_toggles_attempted (hb_counters hb)) 1\<rparr>"
  show ?thesis
  proof (cases r)
    case (Inl e)
    let ?l = "?k\<lparr>hk_toggles_failed := sat_add (hk_toggles_failed ?k) 1\<rparr>"
    have "write_led_register (logged_control control) v hb (dev, log) = (hb\<lparr>hb_counters := ?l\<rparr>, dev', log @ [(0x4c, [v])])"
      using w Inl by (simp add: write_led_register_def write_vendor_def logged_control_def Let_def REG_LEDCFG0_def)
    moreover have "counters_add 1 0 (hb_counters hb) ?l" using assms by (simp add: counters_add_def sat_add_exact)
    ultimately show ?thesis by blast
  next
    case (Inr n)
    let ?l = "?k\<lparr>hk_toggles_succeeded := sat_add (hk_toggles_succeeded ?k) 1\<rparr>"
    have "write_led_register (logged_control control) v hb (dev, log) = (hb\<lparr>hb_counters := ?l\<rparr>, dev', log @ [(0x4c, [v])])"
      using w Inr by (simp add: write_led_register_def write_vendor_def logged_control_def Let_def REG_LEDCFG0_def)
    moreover have "counters_add 1 1 (hb_counters hb) ?l" using assms by (simp add: counters_add_def sat_add_exact)
    ultimately show ?thesis by blast
  qed
qed

lemma maybe_toggle_due:
  assumes "hb_next_toggle_at hb \<le> now" "hc_enabled (hb_config hb)"
    and "unat (hk_toggles_attempted (hb_counters hb)) + 1 < 2 ^ 64"
    and "unat (hk_toggles_succeeded (hb_counters hb)) + 1 < 2 ^ 64"
    and "unat (hk_toggles_failed (hb_counters hb)) + 1 < 2 ^ 64"
  shows "\<exists>hb' dev' ok. maybe_toggle (logged_control control) now hb (dev, log) = (hb', dev', log @ blinks (hb_state_on hb) 1) \<and>
    hb_config hb' = hb_config hb \<and> hb_state_on hb' = (\<not> hb_state_on hb) \<and>
    hb_next_toggle_at hb' = now + half_period (hb_config hb) \<and> counters_add 1 ok (hb_counters hb) (hb_counters hb')"
proof -
  let ?hb = "hb\<lparr>hb_state_on := \<not> hb_state_on hb, hb_next_toggle_at := now + half_period (hb_config hb)\<rparr>"
  let ?v = "if hb_state_on ?hb then LED_ON_VALUE else LED_OFF_VALUE"
  obtain k dev' ok where "write_led_register (logged_control control) ?v ?hb (dev, log) =
      (?hb\<lparr>hb_counters := k\<rparr>, dev', log @ [(0x4c, [?v])])" "counters_add 1 ok (hb_counters hb) k"
    using write_led [of ?hb control ?v dev log] assms(3-5) by auto
  moreover have "maybe_toggle (logged_control control) now hb (dev, log) = write_led_register (logged_control control) ?v ?hb (dev, log)"
    using assms(1,2) by (simp add: maybe_toggle_def Let_def)
  moreover have "[(0x4c, [?v])] = blinks (hb_state_on hb) 1"
    by (simp add: One_nat_def LED_ON_VALUE_def LED_OFF_VALUE_def)
  ultimately show ?thesis by (intro exI [of _ "?hb\<lparr>hb_counters := k\<rparr>"] exI [of _ dev'] exI [of _ ok]) simp
qed

lemma poll_heartbeat_blinks:
  assumes "hc_enabled (hb_config hb)"
    and "unat (hk_toggles_attempted (hb_counters hb)) + length instants < 2 ^ 64"
    and "unat (hk_toggles_succeeded (hb_counters hb)) + length instants < 2 ^ 64"
    and "unat (hk_toggles_failed (hb_counters hb)) + length instants < 2 ^ 64"
  shows "\<exists>hb' dev' ok. let ts = toggles (half_period (hb_config hb)) (hb_next_toggle_at hb) instants in
    poll_heartbeat (logged_control control) instants hb (dev, log) =
      (hb', dev', log @ blinks (hb_state_on hb) (length ts)) \<and>
    hb_config hb' = hb_config hb \<and> hb_state_on hb' = (if even (length ts) then hb_state_on hb else \<not> hb_state_on hb) \<and>
    counters_add (length ts) ok (hb_counters hb) (hb_counters hb')"
  using assms
proof (induction instants arbitrary: hb dev log)
  case Nil
  then show ?case by (simp add: counters_add_def)
next
  case (Cons now later)
  show ?case
  proof (cases "hb_next_toggle_at hb \<le> now")
    case False
    then have "maybe_toggle (logged_control control) now hb d = (hb, d)" for d by (simp add: maybe_toggle_def)
    with Cons.IH [of hb dev log] Cons.prems False show ?thesis by (simp add: Let_def)
  next
    case True
    obtain hb1 dev1 ok where one: "maybe_toggle (logged_control control) now hb (dev, log) = (hb1, dev1, log @ blinks (hb_state_on hb) 1)"
      "hb_config hb1 = hb_config hb" "hb_state_on hb1 = (\<not> hb_state_on hb)"
      "hb_next_toggle_at hb1 = now + half_period (hb_config hb)" "counters_add 1 ok (hb_counters hb) (hb_counters hb1)"
      using maybe_toggle_due [OF True] Cons.prems by fastforce
    let ?log = "log @ blinks (hb_state_on hb) 1"
    let ?ts = "toggles (half_period (hb_config hb)) (now + half_period (hb_config hb)) later"
    have few: "unat (hk_toggles_attempted (hb_counters hb1)) + length later < 2 ^ 64"
      "unat (hk_toggles_succeeded (hb_counters hb1)) + length later < 2 ^ 64"
      "unat (hk_toggles_failed (hb_counters hb1)) + length later < 2 ^ 64"
      using one(5) Cons.prems by (auto simp: counters_add_def)
    obtain hb2 dev2 ok2 where rest: "poll_heartbeat (logged_control control) later hb1 (dev1, ?log) =
        (hb2, dev2, ?log @ blinks (\<not> hb_state_on hb) (length ?ts))"
      "hb_config hb2 = hb_config hb" "hb_state_on hb2 = (if even (length ?ts) then \<not> hb_state_on hb else \<not> \<not> hb_state_on hb)"
      "counters_add (length ?ts) ok2 (hb_counters hb1) (hb_counters hb2)"
      using Cons.IH [of hb1 dev1 ?log, unfolded Let_def one(2-4)] few Cons.prems(1) by blast
    have "counters_add (Suc (length ?ts)) (ok + ok2) (hb_counters hb) (hb_counters hb2)"
      using one(5) rest(4) by (auto simp: counters_add_def)
    with one rest True show ?thesis
      by (intro exI [of _ hb2] exI [of _ dev2] exI [of _ "ok + ok2"]) (simp add: Let_def One_nat_def)
  qed
qed

section \<open>The heartbeat\<close>

text \<open>
  C16. An enabled heartbeat blinks at its rate, whatever the control endpoint answers: polled at
  increasing instants it toggles at a sub-sequence of them, no two toggles closer than the half
  period, and one within a half period before (or at) every poll that comes after the first due
  time; the writes it issues are exactly the LED register alternating between its on and its off
  value, starting with on; and the counters it reports count every toggle, each once as a success
  or a failure.
\<close>

theorem heartbeat_blinks:
  assumes "hc_enabled config" and "sorted instants" and "length instants < 2 ^ 64"
  shows "\<exists>ts hb dev'. let half = half_period config; k = hb_counters hb in
    poll_heartbeat (logged_control control) instants (led_heartbeat_new config started) (dev, []) =
      (hb, dev', blinks False (length ts)) \<and>
    set ts \<subseteq> set instants \<and> sorted_wrt (\<lambda>s t. s + half \<le> t) ts \<and>
    (\<forall>t \<in> set ts. started + half \<le> t) \<and>
    (\<forall>t \<in> set instants. started + half \<le> t \<longrightarrow> (\<exists>s \<in> set ts. s \<le> t \<and> t \<le> s + half)) \<and>
    hb_state_on hb = odd (length ts) \<and> unat (hk_toggles_attempted k) = length ts \<and>
    unat (hk_toggles_succeeded k) + unat (hk_toggles_failed k) = length ts"
proof -
  let ?half = "half_period config"
  let ?hb = "led_heartbeat_new config started"
  let ?ts = "toggles ?half (started + ?half) instants"
  have new: "hb_config ?hb = config" "hb_next_toggle_at ?hb = started + ?half" "hb_state_on ?hb = False"
    "hb_counters ?hb = \<lparr>hk_toggles_attempted = 0, hk_toggles_succeeded = 0, hk_toggles_failed = 0\<rparr>"
    by (simp_all add: led_heartbeat_new_def)
  obtain hb dev' ok where run:
    "poll_heartbeat (logged_control control) instants ?hb (dev, []) = (hb, dev', blinks False (length ?ts))"
    "hb_state_on hb = (if even (length ?ts) then False else \<not> False)"
    "counters_add (length ?ts) ok (hb_counters ?hb) (hb_counters hb)"
  proof -
    have "hc_enabled config" "unat (0 :: u64) + length instants < 2 ^ 64" using assms(1,3) by simp_all
    then show ?thesis
      using that poll_heartbeat_blinks [of ?hb instants control dev "[]", unfolded new Let_def append_Nil led_heartbeat_counters.simps]
      unfolding new led_heartbeat_counters.simps by blast
  qed
  have "set ?ts \<subseteq> set instants" "\<forall>t \<in> set ?ts. started + ?half \<le> t"
    using toggles_due by blast+
  moreover have "\<forall>t \<in> set instants. started + ?half \<le> t \<longrightarrow> (\<exists>s \<in> set ?ts. s \<le> t \<and> t \<le> s + ?half)"
    using toggles_prompt [OF assms(2)] by blast
  moreover have "unat (hk_toggles_attempted (hb_counters hb)) = length ?ts"
    "unat (hk_toggles_succeeded (hb_counters hb)) + unat (hk_toggles_failed (hb_counters hb)) = length ?ts"
    using run(3) by (auto simp: counters_add_def new)
  ultimately show ?thesis
    using run(1,2) toggles_spaced [of ?half "started + ?half" instants]
    unfolding Let_def by (intro exI [of _ ?ts] exI [of _ hb] exI [of _ dev'] conjI) (simp_all (no_asm_simp))
qed

definition accepting_control :: "(unit, unit) control_write" where
  "accepting_control _ _ _ _ data _ dev = (Inr (length data), dev)"

lemma heartbeat_blinks_witness:
  "\<exists>(ts :: nat list) hb dev'. poll_heartbeat (logged_control accepting_control)
      [400000000, 600000000, 900000000, 1200000000] (led_heartbeat_new led_heartbeat_config_default 0) ((), []) =
      (hb, dev', blinks False (length ts)) \<and> unat (hk_toggles_attempted (hb_counters hb)) = length ts"
proof -
  let ?instants = "[400000000, 600000000, 900000000, 1200000000 :: nat]"
  have "hc_enabled led_heartbeat_config_default" by (simp add: led_heartbeat_config_default_def)
  moreover have "sorted ?instants" "length ?instants < 2 ^ 64" by simp_all
  ultimately have "\<exists>ts hb dev'. let half = half_period led_heartbeat_config_default; k = hb_counters hb in
      poll_heartbeat (logged_control accepting_control) ?instants
        (led_heartbeat_new led_heartbeat_config_default 0) ((), []) = (hb, dev', blinks False (length ts)) \<and>
      set ts \<subseteq> set ?instants \<and> sorted_wrt (\<lambda>s t. s + half \<le> t) ts \<and>
      (\<forall>t \<in> set ts. 0 + half \<le> t) \<and>
      (\<forall>t \<in> set ?instants. 0 + half \<le> t \<longrightarrow> (\<exists>s \<in> set ts. s \<le> t \<and> t \<le> s + half)) \<and>
      hb_state_on hb = odd (length ts) \<and> unat (hk_toggles_attempted k) = length ts \<and>
      unat (hk_toggles_succeeded k) + unat (hk_toggles_failed k) = length ts"
    by (rule heartbeat_blinks)
  then show ?thesis
    unfolding Let_def by (elim exE conjE) (intro exI conjI, assumption+)
qed

end
