(* ===== verification/Loop_Plan.thy ===== *)
theory Loop_Plan
  imports Rx_Forwards Airtime
begin

text \<open>
  The plan of the production loop (\<open>wfb-radio-runtime/src/lib.rs\<close>, \<open>plan_production_wfb_loop\<close>): the
  sockets it listens on and the WFB forwards it serves, from the configuration of the flow.
\<close>

section \<open>Configuration and plan\<close>

record 'a primary_rx_forward_config =
  pf_link_id :: "u32 option"
  pf_radio_port :: "u8 option"
  pf_aggregator :: "'a option"

record 'a extra_rx_forward_config =
  xf_link_id :: "u32 option"
  xf_radio_port :: u8
  xf_aggregator :: "'a option"

record 'a wfb_loop_config =
  wl_bind_addr :: 'a
  wl_tx_binds :: "'a list"
  wl_rx_timeout_ms :: u64
  wl_tx_burst_limit :: u32
  wl_tx_min_interval_us :: u64
  wl_max_datagrams :: u32
  wl_airtime_schedule :: airtime_schedule
  wl_bandwidth :: bandwidth
  wl_primary_rx_forward :: "'a primary_rx_forward_config"
  wl_rx_forwards :: "'a extra_rx_forward_config list"
  wl_rx_wlan_idx :: u8
  wl_rx_mcs_index :: u8

record 'a wfb_loop_plan =
  wp_tx_bind_addrs :: "'a list"
  wp_rx_forwards :: "'a rx_forward_plan list"
  wp_rx_timeout_ms :: u64
  wp_tx_burst_limit :: u32
  wp_tx_min_interval_us :: u64
  wp_max_datagrams :: u32
  wp_airtime_schedule :: airtime_schedule
  wp_rx_wlan_idx :: u8
  wp_rx_mcs_index :: u8
  wp_bandwidth_mhz :: u8

fun show_wfb_frame_error :: "wfb_frame_error \<Rightarrow> string" where
  "show_wfb_frame_error (InvalidLinkId link_id) =
     ''WFB link_id must fit in 24 bits, got 0x'' @ show_hex 8 (unat link_id)"
| "show_wfb_frame_error (WfbTooShort n) =
     ''IEEE 802.11 frame too short for WFB header: expected at least 24 bytes, got '' @ show_nat n"
| "show_wfb_frame_error PrefixMismatch = ''frame does not use the WFB MAC prefix''"
| "show_wfb_frame_error ChannelIdMismatch = ''frame channel id does not match configured link/radio port''"

definition planned_forward ::
    "'a wfb_loop_config \<Rightarrow> u32 \<Rightarrow> u8 \<Rightarrow> 'a option \<Rightarrow> (radio_error, 'a rx_forward_plan) result" where
  "planned_forward config link_id radio_port aggregator =
     bind_res (map_err (\<lambda>e. radio_error_new ''invalid_wfb_rx_channel_id'' (show_wfb_frame_error e))
         (channel_id_new link_id radio_port)) (\<lambda>channel_id.
       Inr \<lparr>fpl_config =
              \<lparr>fc_channel_id = channel_id, fc_wlan_idx = wl_rx_wlan_idx config, fc_mcs_index = wl_rx_mcs_index config,
               fc_bandwidth_mhz = ucast (mhz (wl_bandwidth config))\<rparr>,
            fpl_aggregator = aggregator\<rparr>)"

definition primary_forwards :: "'a wfb_loop_config \<Rightarrow> (radio_error, 'a rx_forward_plan list) result" where
  "primary_forwards config =
     (let p = wl_primary_rx_forward config in
      case (pf_link_id p, pf_radio_port p, pf_aggregator p) of
        (None, None, None) \<Rightarrow> Inr []
      | (None, None, Some _) \<Rightarrow> Inl (radio_error_new ''missing_wfb_rx_filter''
          ''production RX aggregator requires WFB link ID and radio port'')
      | (Some _, None, _) \<Rightarrow> Inl (radio_error_new ''incomplete_wfb_rx_filter''
          ''production RX forwarding requires WFB link ID and radio port together'')
      | (None, Some _, _) \<Rightarrow> Inl (radio_error_new ''incomplete_wfb_rx_filter''
          ''production RX forwarding requires WFB link ID and radio port together'')
      | (Some link_id, Some radio_port, aggregator) \<Rightarrow>
          bind_res (planned_forward config link_id radio_port aggregator) (\<lambda>f. Inr [f]))"

fun extra_forwards ::
    "'a wfb_loop_config \<Rightarrow> 'a extra_rx_forward_config list \<Rightarrow> (radio_error, 'a rx_forward_plan list) result" where
  "extra_forwards config [] = Inr []"
| "extra_forwards config (forward # forwards) =
     bind_res (case xf_link_id forward of
          None \<Rightarrow> Inl (radio_error_new ''missing_wfb_rx_forward_link_id''
            ''production RX forward target requires a WFB link ID'')
        | Some link_id \<Rightarrow> Inr link_id) (\<lambda>link_id.
     bind_res (planned_forward config link_id (xf_radio_port forward) (xf_aggregator forward)) (\<lambda>f.
     bind_res (extra_forwards config forwards) (\<lambda>fs. Inr (f # fs))))"

definition plan_production_wfb_loop :: "'a wfb_loop_config \<Rightarrow> (radio_error, 'a wfb_loop_plan) result" where
  "plan_production_wfb_loop config =
     (if wl_rx_timeout_ms config = 0
      then Inl (radio_error_new ''invalid_rx_timeout''
        ''production WFB loop requires rx_timeout_ms greater than zero'')
      else if wl_tx_burst_limit config = 0
      then Inl (radio_error_new ''invalid_tx_burst_limit''
        ''production WFB loop requires tx_burst_limit greater than zero'')
      else
        bind_res (validate_airtime (wl_airtime_schedule config)) (\<lambda>_.
        bind_res (primary_forwards config) (\<lambda>primary.
        bind_res (extra_forwards config (wl_rx_forwards config)) (\<lambda>extra.
        Inr \<lparr>wp_tx_bind_addrs = wl_bind_addr config # wl_tx_binds config,
             wp_rx_forwards = primary @ extra,
             wp_rx_timeout_ms = wl_rx_timeout_ms config,
             wp_tx_burst_limit = wl_tx_burst_limit config,
             wp_tx_min_interval_us = wl_tx_min_interval_us config,
             wp_max_datagrams = wl_max_datagrams config,
             wp_airtime_schedule = wl_airtime_schedule config,
             wp_rx_wlan_idx = wl_rx_wlan_idx config,
             wp_rx_mcs_index = wl_rx_mcs_index config,
             wp_bandwidth_mhz = ucast (mhz (wl_bandwidth config))\<rparr>))))"

section \<open>What a plan promises\<close>

text \<open>The forwards a configuration asks for, in order: link id, port and aggregator.\<close>

definition requested_forwards :: "'a wfb_loop_config \<Rightarrow> (u32 option \<times> u8 option \<times> 'a option) list" where
  "requested_forwards config =
     (let p = wl_primary_rx_forward config in
      (if pf_link_id p = None \<and> pf_radio_port p = None \<and> pf_aggregator p = None then []
       else [(pf_link_id p, pf_radio_port p, pf_aggregator p)]) @
      map (\<lambda>f. (xf_link_id f, Some (xf_radio_port f), xf_aggregator f)) (wl_rx_forwards config))"

definition acceptable_forward :: "u32 option \<times> u8 option \<times> 'a option \<Rightarrow> bool" where
  "acceptable_forward r \<longleftrightarrow>
     (case r of (link, port, _) \<Rightarrow> (case link of Some l \<Rightarrow> l \<le> 0xffffff | None \<Rightarrow> False) \<and> port \<noteq> None)"

definition forward_request :: "'a rx_forward_plan \<Rightarrow> u32 option \<times> u8 option \<times> 'a option" where
  "forward_request f =
     (Some (wc_link_id (fc_channel_id (fpl_config f))), Some (wc_radio_port (fc_channel_id (fpl_config f))),
      fpl_aggregator f)"

lemma planned_forward_ok:
  "planned_forward config l p a = Inr f \<longleftrightarrow>
     l \<le> 0xffffff \<and> forward_request f = (Some l, Some p, a) \<and>
     fc_wlan_idx (fpl_config f) = wl_rx_wlan_idx config \<and> fc_mcs_index (fpl_config f) = wl_rx_mcs_index config \<and>
     fc_bandwidth_mhz (fpl_config f) = ucast (mhz (wl_bandwidth config))"
  by (cases f; cases "fpl_config f"; cases "fc_channel_id (fpl_config f)")
    (auto simp: planned_forward_def channel_id_new_def forward_request_def not_le)

lemma planned_forward_refused:
  "planned_forward config l p a = Inl e \<longleftrightarrow> 0xffffff < l \<and>
     e = radio_error_new ''invalid_wfb_rx_channel_id'' (''WFB link_id must fit in 24 bits, got 0x'' @ show_hex 8 (unat l))"
  by (auto simp: planned_forward_def channel_id_new_def)

text \<open>A forward of the plan carries the receive parameters of the configuration.\<close>

definition forward_of_config :: "'a wfb_loop_config \<Rightarrow> 'a rx_forward_plan \<Rightarrow> bool" where
  "forward_of_config config f \<longleftrightarrow>
     fc_wlan_idx (fpl_config f) = wl_rx_wlan_idx config \<and> fc_mcs_index (fpl_config f) = wl_rx_mcs_index config \<and>
     unat (fc_bandwidth_mhz (fpl_config f)) = unat (mhz (wl_bandwidth config)) \<and>
     valid_channel_id (fc_channel_id (fpl_config f))"

lemma mhz_fits: "unat (ucast (mhz b) :: u8) = unat (mhz b)"
  by (cases b) simp_all

lemma planned_forward_iff:
  "planned_forward config l p a = Inr f \<longleftrightarrow>
     acceptable_forward (Some l, Some p, a) \<and> forward_request f = (Some l, Some p, a) \<and> forward_of_config config f"
proof -
  have bw: "fc_bandwidth_mhz (fpl_config f) = ucast (mhz (wl_bandwidth config)) \<longleftrightarrow>
      unat (fc_bandwidth_mhz (fpl_config f)) = unat (mhz (wl_bandwidth config))"
    by (simp add: mhz_fits [symmetric] word_unat_eq_iff)
  show ?thesis
    unfolding planned_forward_ok bw
    by (auto simp: acceptable_forward_def forward_of_config_def forward_request_def valid_channel_id_def)
qed

lemma primary_forwards_iff:
  "primary_forwards config = Inr fs \<longleftrightarrow>
     (let rs = requested_forwards (config\<lparr>wl_rx_forwards := []\<rparr>) in
      list_all acceptable_forward rs \<and> map forward_request fs = rs \<and> list_all (forward_of_config config) fs)"
proof (cases "pf_link_id (wl_primary_rx_forward config)")
  case None
  then show ?thesis
    by (auto simp: primary_forwards_def requested_forwards_def acceptable_forward_def Let_def split: option.splits)
next
  case l: (Some l)
  show ?thesis
  proof (cases "pf_radio_port (wl_primary_rx_forward config)")
    case None
    with l show ?thesis by (auto simp: primary_forwards_def requested_forwards_def acceptable_forward_def Let_def)
  next
    case (Some p)
    with l show ?thesis
      by (auto simp: primary_forwards_def requested_forwards_def Let_def result_simps planned_forward_iff)
  qed
qed

lemma extra_forwards_iff:
  "extra_forwards config forwards = Inr fs \<longleftrightarrow>
     (let rs = map (\<lambda>f. (xf_link_id f, Some (xf_radio_port f), xf_aggregator f)) forwards in
      list_all acceptable_forward rs \<and> map forward_request fs = rs \<and> list_all (forward_of_config config) fs)"
proof (induction forwards arbitrary: fs)
  case Nil
  then show ?case by (auto simp: Let_def)
next
  case (Cons f forwards)
  show ?case
    by (cases "xf_link_id f")
      (auto simp: result_simps Cons planned_forward_iff Let_def acceptable_forward_def)
qed

text \<open>
  Planning succeeds exactly on a usable configuration: a receive timeout and a burst limit
  above zero, an airtime schedule that validates, and for every requested forward (the primary
  one, if any of its fields is set, and then the others) a link id of at most 24 bits together
  with a radio port.  The plan then listens on the bind address and the extra ones in order and
  serves exactly the requested forwards in order, each with the receive parameters of the
  configuration; limits and schedule are those of the configuration.
\<close>

theorem plan_serves_configuration:
  "plan_production_wfb_loop config = Inr plan \<longleftrightarrow>
     wl_rx_timeout_ms config \<noteq> 0 \<and> wl_tx_burst_limit config \<noteq> 0 \<and>
     validate_airtime (wl_airtime_schedule config) = Inr () \<and>
     list_all acceptable_forward (requested_forwards config) \<and>
     map forward_request (wp_rx_forwards plan) = requested_forwards config \<and>
     list_all (forward_of_config config) (wp_rx_forwards plan) \<and>
     (\<exists>fs. plan =
       \<lparr>wp_tx_bind_addrs = wl_bind_addr config # wl_tx_binds config, wp_rx_forwards = fs,
        wp_rx_timeout_ms = wl_rx_timeout_ms config, wp_tx_burst_limit = wl_tx_burst_limit config,
        wp_tx_min_interval_us = wl_tx_min_interval_us config, wp_max_datagrams = wl_max_datagrams config,
        wp_airtime_schedule = wl_airtime_schedule config, wp_rx_wlan_idx = wl_rx_wlan_idx config,
        wp_rx_mcs_index = wl_rx_mcs_index config, wp_bandwidth_mhz = ucast (mhz (wl_bandwidth config))\<rparr>)"
proof -
  let ?ps = "requested_forwards (config\<lparr>wl_rx_forwards := []\<rparr>)"
  let ?xs = "map (\<lambda>f. (xf_link_id f, Some (xf_radio_port f), xf_aggregator f)) (wl_rx_forwards config)"
  have split: "requested_forwards config = ?ps @ ?xs" by (simp add: requested_forwards_def Let_def)
  have both: "(\<exists>a b. fs = a @ b \<and> primary_forwards config = Inr a \<and> extra_forwards config (wl_rx_forwards config) = Inr b) \<longleftrightarrow>
      list_all acceptable_forward (requested_forwards config) \<and> map forward_request fs = requested_forwards config \<and>
      list_all (forward_of_config config) fs" for fs
    unfolding split primary_forwards_iff extra_forwards_iff Let_def
    by (auto simp: map_eq_append_conv; metis list_all_append)
  show ?thesis
  proof (cases "wl_rx_timeout_ms config = 0 \<or> wl_tx_burst_limit config = 0 \<or> validate_airtime (wl_airtime_schedule config) \<noteq> Inr ()")
    case True
    then show ?thesis by (auto simp: plan_production_wfb_loop_def result_simps)
  next
    case False
    then have "plan_production_wfb_loop config = Inr plan \<longleftrightarrow>
        (\<exists>fs. (\<exists>a b. fs = a @ b \<and> primary_forwards config = Inr a \<and> extra_forwards config (wl_rx_forwards config) = Inr b) \<and>
        plan = \<lparr>wp_tx_bind_addrs = wl_bind_addr config # wl_tx_binds config, wp_rx_forwards = fs,
        wp_rx_timeout_ms = wl_rx_timeout_ms config, wp_tx_burst_limit = wl_tx_burst_limit config,
        wp_tx_min_interval_us = wl_tx_min_interval_us config, wp_max_datagrams = wl_max_datagrams config,
        wp_airtime_schedule = wl_airtime_schedule config, wp_rx_wlan_idx = wl_rx_wlan_idx config,
        wp_rx_mcs_index = wl_rx_mcs_index config, wp_bandwidth_mhz = ucast (mhz (wl_bandwidth config))\<rparr>)"
      by (auto simp: plan_production_wfb_loop_def result_simps)
    also have "\<dots> \<longleftrightarrow> list_all acceptable_forward (requested_forwards config) \<and>
        map forward_request (wp_rx_forwards plan) = requested_forwards config \<and>
        list_all (forward_of_config config) (wp_rx_forwards plan) \<and>
        (\<exists>fs. plan = \<lparr>wp_tx_bind_addrs = wl_bind_addr config # wl_tx_binds config, wp_rx_forwards = fs,
        wp_rx_timeout_ms = wl_rx_timeout_ms config, wp_tx_burst_limit = wl_tx_burst_limit config,
        wp_tx_min_interval_us = wl_tx_min_interval_us config, wp_max_datagrams = wl_max_datagrams config,
        wp_airtime_schedule = wl_airtime_schedule config, wp_rx_wlan_idx = wl_rx_wlan_idx config,
        wp_rx_mcs_index = wl_rx_mcs_index config, wp_bandwidth_mhz = ucast (mhz (wl_bandwidth config))\<rparr>)"
      unfolding both by auto
    finally show ?thesis using False by simp
  qed
qed

end
