(* ===== verification/Production_Loop.thy ===== *)
theory Production_Loop
  imports Rx_Forward_Laws Tx_Datagram_Laws Bridge_Loop Led_Heartbeat Loop_Plan
begin

text \<open>
  The loop of the production flow (\<open>wfb-radio-runtime/src/lib.rs\<close>, from the bridge loop of
  \<open>run_production_runtime_flow_with_session\<close> to its report): the closures that
  \<open>run_production_bridge_loop\<close> calls, with the state they capture, and the totals they keep.
\<close>

section \<open>Transmit telemetry\<close>

record 'a tx_bind_telemetry =
  tb_report_index :: nat
  tb_bind_addr :: 'a
  tb_datagrams_received :: u64
  tb_submitted_frames :: u64
  tb_failed_submissions :: u64
  tb_dropped_datagrams :: u64
  tb_last_submit_unix_ms :: "u64 option"

record 'a flow_tx_telemetry =
  txt_ingress_datagrams_received :: u64
  txt_ingress_bytes_received :: u64
  txt_ingress_queue_send_failed :: u64
  txt_ingress_pending_datagrams :: u64
  txt_datagrams_received :: u64
  txt_submitted_frames :: u64
  txt_failed_submissions :: u64
  txt_dropped_datagrams :: u64
  txt_bytes_written :: u64
  txt_wfb_channel_observations :: "channel_observation list"
  txt_tx_binds :: "'a tx_bind_telemetry list"
  txt_last_submit_unix_ms :: "u64 option"

definition flow_tx_telemetry_default :: "'a flow_tx_telemetry" where
  "flow_tx_telemetry_default =
     \<lparr>txt_ingress_datagrams_received = 0, txt_ingress_bytes_received = 0, txt_ingress_queue_send_failed = 0,
      txt_ingress_pending_datagrams = 0, txt_datagrams_received = 0, txt_submitted_frames = 0,
      txt_failed_submissions = 0, txt_dropped_datagrams = 0, txt_bytes_written = 0,
      txt_wfb_channel_observations = [], txt_tx_binds = [], txt_last_submit_unix_ms = None\<rparr>"

definition production_runtime_tx_bind_telemetry :: "'a list \<Rightarrow> 'a tx_bind_telemetry list" where
  "production_runtime_tx_bind_telemetry bind_addrs = map (\<lambda>(report_index, bind_addr).
     \<lparr>tb_report_index = report_index, tb_bind_addr = bind_addr, tb_datagrams_received = 0,
      tb_submitted_frames = 0, tb_failed_submissions = 0, tb_dropped_datagrams = 0,
      tb_last_submit_unix_ms = None\<rparr>) (enumerate 0 bind_addrs)"

text \<open>\<open>iter_mut().find(..)\<close>: the first bind with the index, if any, is updated.\<close>

fun update_bind ::
    "nat \<Rightarrow> ('a tx_bind_telemetry \<Rightarrow> 'a tx_bind_telemetry) \<Rightarrow> 'a tx_bind_telemetry list \<Rightarrow> 'a tx_bind_telemetry list" where
  "update_bind i f [] = []"
| "update_bind i f (b # bs) = (if tb_report_index b = i then f b # bs else b # update_bind i f bs)"

definition apply_production_runtime_tx_bind_datagram :: "nat \<Rightarrow> 'a flow_tx_telemetry \<Rightarrow> 'a flow_tx_telemetry" where
  "apply_production_runtime_tx_bind_datagram report_index tx =
     tx\<lparr>txt_tx_binds := update_bind report_index
          (\<lambda>bind. bind\<lparr>tb_datagrams_received := sat_add (tb_datagrams_received bind) 1\<rparr>) (txt_tx_binds tx)\<rparr>"

text \<open>The clock is read if the frame was submitted.\<close>

definition apply_production_runtime_tx_bind_outcome ::
    "('w \<Rightarrow> u64 \<times> 'w) \<Rightarrow> nat \<Rightarrow> bool \<Rightarrow> bool \<Rightarrow> bool \<Rightarrow> 'a flow_tx_telemetry \<Rightarrow> 'w \<Rightarrow> 'a flow_tx_telemetry \<times> 'w" where
  "apply_production_runtime_tx_bind_outcome runtime_unix_ms report_index submitted failed dropped tx w =
     (let (now, w) = (if submitted then (case runtime_unix_ms w of (t, w) \<Rightarrow> (Some t, w)) else (None, w));
          tx = tx\<lparr>txt_tx_binds := update_bind report_index (\<lambda>bind.
            (let bind = (if submitted
                   then bind\<lparr>tb_submitted_frames := sat_add (tb_submitted_frames bind) 1, tb_last_submit_unix_ms := now\<rparr>
                   else bind);
                 bind = (if failed then bind\<lparr>tb_failed_submissions := sat_add (tb_failed_submissions bind) 1\<rparr> else bind)
             in if dropped then bind\<lparr>tb_dropped_datagrams := sat_add (tb_dropped_datagrams bind) 1\<rparr> else bind))
            (txt_tx_binds tx)\<rparr>
      in (case now of Some t \<Rightarrow> tx\<lparr>txt_last_submit_unix_ms := Some t\<rparr> | None \<Rightarrow> tx, w))"

definition apply_production_runtime_tx_telemetry ::
    "bridge_tx_counters \<Rightarrow> tx_submit_counters \<Rightarrow> 'a flow_tx_telemetry \<Rightarrow> 'a flow_tx_telemetry" where
  "apply_production_runtime_tx_telemetry b sc tx =
     tx\<lparr>txt_submitted_frames := sc_submitted sc, txt_failed_submissions := sc_failed sc,
        txt_dropped_datagrams := bt_dropped b, txt_bytes_written := sc_bytes_written sc\<rparr>"

record tx_ingress_telemetry =
  it_datagrams_received :: u64
  it_bytes_received :: u64
  it_queue_send_failed :: u64

definition apply_production_runtime_tx_ingress_telemetry ::
    "tx_ingress_telemetry \<Rightarrow> 'a flow_tx_telemetry \<Rightarrow> 'a flow_tx_telemetry" where
  "apply_production_runtime_tx_ingress_telemetry ingress tx =
     tx\<lparr>txt_ingress_datagrams_received := it_datagrams_received ingress,
        txt_ingress_bytes_received := it_bytes_received ingress,
        txt_ingress_queue_send_failed := it_queue_send_failed ingress,
        txt_ingress_pending_datagrams := sat_sub (it_datagrams_received ingress) (txt_datagrams_received tx)\<rparr>"

definition observe_production_runtime_tx_metadata ::
    "'a tx_datagram_metadata option \<Rightarrow> 'a flow_tx_telemetry \<Rightarrow> 'a flow_tx_telemetry" where
  "observe_production_runtime_tx_metadata metadata tx =
     (case Option.bind metadata md_wfb_channel_observation of
        None \<Rightarrow> tx
      | Some observation \<Rightarrow>
          tx\<lparr>txt_wfb_channel_observations :=
               merge_runtime_wfb_channel_observations (txt_wfb_channel_observations tx) [observation]\<rparr>)"

section \<open>The state and the environment of the loop\<close>

record ('t, 'k, 'a, 'w) production_state =
  ps_session :: "'t radio_session"
  ps_heartbeat :: led_heartbeat
  ps_rx_forwards :: "('k, 'a) rx_forward_runtime list"
  ps_rx :: "'a flow_rx_telemetry"
  ps_tx :: "'a flow_tx_telemetry"
  ps_bridge_counters :: bridge_tx_counters
  ps_submit_counters :: tx_submit_counters
  ps_rx_buf :: bytes
  ps_world :: 'w

datatype 'a try_recv = Received "'a queued_datagram" | QueueEmpty | QueueDisconnected

text \<open>
  The transport, the sockets, the clocks, the queue of the ingress threads and the two stop flags.
  The process flag counts only if the configuration says so; the external one may be absent.
\<close>

record ('r, 'io, 't, 'k, 'a, 'w) production_env =
  pe_show_rusb :: "'r \<Rightarrow> string"
  pe_timeout_code :: "'r \<Rightarrow> bool"
  pe_bulk_write :: "('r, 't) bulk_write"
  pe_bulk_read :: "('r, 't) bulk_read"
  pe_control_write :: "('r, 't) control_write"
  pe_forwards :: "('io, 'k, 'a, 'w) forward_env"
  pe_now :: "'w \<Rightarrow> nat \<times> 'w"
  pe_process_signal_stop :: bool
  pe_signal_flag :: "'w \<Rightarrow> bool \<times> 'w"
  pe_external_flag :: "('w \<Rightarrow> bool \<times> 'w) option"
  pe_try_recv :: "'w \<Rightarrow> 'a try_recv \<times> 'w"
  pe_ingress_telemetry :: "'w \<Rightarrow> tx_ingress_telemetry \<times> 'w"

text \<open>What a step can end with besides its outcome: an error, or a panic of the packet loop.\<close>

datatype step_failure = Failed radio_error | Panicked

definition stop_flag ::
    "('r, 'io, 't, 'k, 'a, 'w) production_env \<Rightarrow> 'w \<Rightarrow> bool \<times> 'w" where
  "stop_flag env w =
     (let (signal, w) = (if pe_process_signal_stop env then pe_signal_flag env w else (False, w))
      in if signal then (True, w)
         else (case pe_external_flag env of None \<Rightarrow> (False, w) | Some flag \<Rightarrow> flag w))"

definition on_world :: "('w \<Rightarrow> 'x \<times> 'w) \<Rightarrow> ('t, 'k, 'a, 'w) production_state \<Rightarrow> 'x \<times> ('t, 'k, 'a, 'w) production_state" where
  "on_world f s = (case f (ps_world s) of (x, w) \<Rightarrow> (x, s\<lparr>ps_world := w\<rparr>))"

definition heartbeat_tick ::
    "('r, 'io, 't, 'k, 'a, 'w) production_env \<Rightarrow> nat \<Rightarrow> ('t, 'k, 'a, 'w) production_state \<Rightarrow> ('t, 'k, 'a, 'w) production_state" where
  "heartbeat_tick env now s =
     (case maybe_toggle (pe_control_write env) now (ps_heartbeat s) (rs_transport (ps_session s)) of
        (hb, dev) \<Rightarrow> s\<lparr>ps_heartbeat := hb, ps_session := (ps_session s)\<lparr>rs_transport := dev\<rparr>\<rparr>)"

section \<open>The steps\<close>

definition try_tx ::
    "('r, 'io, 't, 'k, 'a, 'w) production_env \<Rightarrow> channel \<Rightarrow> bandwidth \<Rightarrow> ('t, 'k, 'a, 'w) production_state \<Rightarrow>
     (step_failure, step_outcome) result \<times> ('t, 'k, 'a, 'w) production_state" where
  "try_tx env ch bw s =
     (case on_world (pe_try_recv env) s of
        (QueueEmpty, s) \<Rightarrow> (Inr TxEmpty, s)
      | (QueueDisconnected, s) \<Rightarrow> (Inr TxDisconnected, s)
      | (Received queued, s) \<Rightarrow>
          (let tx = (ps_tx s)\<lparr>txt_datagrams_received := sat_add (txt_datagrams_received (ps_tx s)) 1\<rparr>;
               tx = apply_production_runtime_tx_bind_datagram (qd_report_index queued) tx;
               (result, session, b, sc) =
                 handle_production_bridge_tx_datagram (pe_show_rusb env) (pe_bulk_write env) (ps_session s) queued
                   \<lparr>tc_channel = ch, tc_channel_bandwidth = bw, tc_overrides = bridge_tx_overrides_default\<rparr>
                   (ps_bridge_counters s) (ps_submit_counters s);
               s = s\<lparr>ps_session := session\<rparr>
           in case result of
                Inr outcome \<Rightarrow>
                  (let metadata = to_metadata outcome;
                       (tx, w) = apply_production_runtime_tx_bind_outcome (fe_runtime_unix_ms (pe_forwards env))
                         (qd_report_index queued) (metadata \<noteq> None) False (metadata = None) tx (ps_world s);
                       tx = observe_production_runtime_tx_metadata metadata tx;
                       b = to_bridge_counters outcome; sc = to_submit_counters outcome;
                       tx = apply_production_runtime_tx_telemetry b sc tx
                   in (Inr TxProcessed,
                       s\<lparr>ps_tx := tx, ps_bridge_counters := b, ps_submit_counters := sc, ps_world := w\<rparr>))
              | Inl error \<Rightarrow>
                  (let (tx, w) = apply_production_runtime_tx_bind_outcome (fe_runtime_unix_ms (pe_forwards env))
                         (qd_report_index queued) False True True tx (ps_world s);
                       tx = observe_production_runtime_tx_metadata (te_metadata error) tx;
                       b = te_bridge_counters error; sc = te_submit_counters error;
                       tx = apply_production_runtime_tx_telemetry b sc tx
                   in (Inr TxProcessed,
                       s\<lparr>ps_tx := tx, ps_bridge_counters := b, ps_submit_counters := sc, ps_world := w\<rparr>))))"

definition forwarded_sum :: "'a rx_forward_snapshot list \<Rightarrow> u64" where
  "forwarded_sum fs = sum_list (map (\<lambda>f. br_forwarded (fs_counters f)) fs)"

definition latest_rx :: "'a rx_forward_snapshot list \<Rightarrow> u64 option" where
  "latest_rx fs =
     (case List.map_filter fs_last_rx_unix_ms fs of [] \<Rightarrow> None | t # ts \<Rightarrow> Some (fold max ts t))"

definition read_rx ::
    "('r, 'io, 't, 'k, 'a, 'w) production_env \<Rightarrow> channel \<Rightarrow> nat \<Rightarrow> ('t, 'k, 'a, 'w) production_state \<Rightarrow>
     (step_failure, step_outcome) result \<times> ('t, 'k, 'a, 'w) production_state" where
  "read_rx env ch timeout s =
     (let (result, session, buf) =
            read_rx_packets (pe_show_rusb env) (pe_timeout_code env) (pe_bulk_read env) (ps_session s) ch (ps_rx_buf s) timeout;
          s = s\<lparr>ps_session := session, ps_rx_buf := buf\<rparr>
      in case result of
           Inr read \<Rightarrow>
             (let s = s\<lparr>ps_rx := (ps_rx s)\<lparr>rxt_buffers_read := sat_add (rxt_buffers_read (ps_rx s)) 1\<rparr>\<rparr>
              in if rr_bytes_read read = 0 then (Inr RxRead, s)
                 else
                   (case process_production_rx_packet_outcomes (pe_forwards env) (rr_packets read) (ps_rx_forwards s) (ps_world s) of
                      None \<Rightarrow> (Inl Panicked, s)
                    | Some (Inl error, rs, w) \<Rightarrow> (Inl (Failed error), s\<lparr>ps_rx_forwards := rs, ps_world := w\<rparr>)
                    | Some (Inr outcome, rs, w) \<Rightarrow>
                        (let rx = apply_production_runtime_rx_packet_telemetry (ro_telemetry outcome) (ps_rx s);
                             rx = rx\<lparr>rxt_rx_forwards := ro_rx_forwards outcome\<rparr>;
                             rx = rx\<lparr>rxt_forwarded_payloads := forwarded_sum (rxt_rx_forwards rx)\<rparr>;
                             rx = rx\<lparr>rxt_last_rx_unix_ms := latest_rx (rxt_rx_forwards rx)\<rparr>
                         in (Inr RxRead, s\<lparr>ps_rx := rx, ps_rx_forwards := rs, ps_world := w\<rparr>))))
         | Inl error \<Rightarrow>
             if re_timeout error
             then (Inr RxTimeout, s\<lparr>ps_rx := (ps_rx s)\<lparr>rxt_read_timeouts := sat_add (rxt_read_timeouts (ps_rx s)) 1\<rparr>\<rparr>)
             else
               (let (stop, s) = on_world (stop_flag env) s
                in if stop then (Inr (StopLoop StopSignal), s) else (Inl (Failed error), s)))"

definition production_loop_env ::
    "('r, 'io, 't, 'k, 'a, 'w) production_env \<Rightarrow> channel \<Rightarrow> bandwidth \<Rightarrow>
     (step_failure, ('t, 'k, 'a, 'w) production_state) loop_env" where
  "production_loop_env env ch bw =
     \<lparr>le_clock = on_world (pe_now env), le_on_iteration_start = heartbeat_tick env,
      le_stop_requested = on_world (stop_flag env),
      le_handle_step = (\<lambda>step s. case step of TryTx \<Rightarrow> try_tx env ch bw s | ReadRx timeout \<Rightarrow> read_rx env ch timeout s)\<rparr>"

text \<open>The configuration of the loop, its initial state and what is reported at its end.\<close>

definition production_loop_config ::
    "u64 \<Rightarrow> 'a wfb_loop_config \<Rightarrow> bridge_loop_config" where
  "production_loop_config duration_ms config =
     with_airtime_schedule (wl_airtime_schedule config)
       (with_tx_min_interval (wl_tx_min_interval_us config)
         (loop_config_from_bounds duration_ms (wl_rx_timeout_ms config) (wl_tx_burst_limit config)
           (ucast (wl_max_datagrams config))))"

definition production_loop_start ::
    "led_heartbeat_config \<Rightarrow> nat \<Rightarrow> 'a list \<Rightarrow> ('k, 'a) rx_forward_runtime list \<Rightarrow> 't radio_session \<Rightarrow> 'w \<Rightarrow>
     ('t, 'k, 'a, 'w) production_state" where
  "production_loop_start led now bind_addrs forwards session w =
     \<lparr>ps_session = session, ps_heartbeat = led_heartbeat_new led now, ps_rx_forwards = forwards,
      ps_rx = flow_rx_telemetry_default,
      ps_tx = flow_tx_telemetry_default\<lparr>txt_tx_binds := production_runtime_tx_bind_telemetry bind_addrs\<rparr>,
      ps_bridge_counters = bridge_tx_counters_default, ps_submit_counters = tx_submit_counters_default,
      ps_rx_buf = replicate (16 * 1024) 0, ps_world = w\<rparr>"

definition production_loop_end ::
    "('r, 'io, 't, 'k, 'a, 'w) production_env \<Rightarrow> ('t, 'k, 'a, 'w) production_state \<Rightarrow> ('t, 'k, 'a, 'w) production_state" where
  "production_loop_end env s =
     (let (hb, dev) = turn_off (pe_control_write env) (ps_heartbeat s) (rs_transport (ps_session s));
          s = s\<lparr>ps_heartbeat := hb, ps_session := (ps_session s)\<lparr>rs_transport := dev\<rparr>\<rparr>;
          rx = (ps_rx s)\<lparr>rxt_rx_forwards := production_rx_forward_snapshots (ps_rx_forwards s)\<rparr>;
          rx = rx\<lparr>rxt_forwarded_payloads := forwarded_sum (rxt_rx_forwards rx)\<rparr>;
          tx = apply_production_runtime_tx_telemetry (ps_bridge_counters s) (ps_submit_counters s) (ps_tx s);
          (ingress, s) = on_world (pe_ingress_telemetry env) s;
          tx = apply_production_runtime_tx_ingress_telemetry ingress tx
      in s\<lparr>ps_rx := rx, ps_tx := tx\<rparr>)"

text \<open>
  \<open>None\<close> if the loop does not return; a panic leaves the state as it is, an error or an outcome is
  reported with the final telemetry.
\<close>

definition run_production_loop ::
    "('r, 'io, 't, 'k, 'a, 'w) production_env \<Rightarrow> channel \<Rightarrow> bandwidth \<Rightarrow> bridge_loop_config \<Rightarrow>
     ('t, 'k, 'a, 'w) production_state \<Rightarrow>
     ((step_failure, loop_outcome) result \<times> ('t, 'k, 'a, 'w) production_state) option" where
  "run_production_loop env ch bw cfg s =
     map_option (\<lambda>(r, s). (r, if r = Inl Panicked then s else production_loop_end env s))
       (run_production_bridge_loop cfg (production_loop_env env ch bw) s)"

end
