(* ===== verification/Loop_Invariants.thy ===== *)
theory Loop_Invariants
  imports Bridge_Loop Tx_Datagram_Laws
begin

text \<open>
  An invariant rule for \<open>run_production_bridge_loop\<close>: what its clients have to prove of their callbacks.
\<close>

lemma sat_add_1_max: "sat_add n 1 \<noteq> - 1 \<Longrightarrow> n \<noteq> - 1 \<and> unat (sat_add n 1) = unat n + 1"
  for n :: "'a::len word"
proof -
  assume a: "sat_add n 1 \<noteq> - 1"
  have "n \<noteq> - 1"
  proof
    assume "n = - 1"
    then have "sat_add n 1 = - 1" by (simp add: sat_add_def)
    with a show False by simp
  qed
  moreover have "sat_add n 1 = n + 1" using sat_add_1_below [OF \<open>n \<noteq> - 1\<close>] .
  moreover have "n + 1 \<noteq> 0" using \<open>n \<noteq> - 1\<close> by (simp add: eq_neg_iff_add_eq_0)
  ultimately show ?thesis by (simp add: unatSuc add.commute [of n 1])
qed

text \<open>
  \<open>I n p w\<close> holds between the callbacks, \<open>F n p w\<close> when the loop is left, and \<open>E\<close> of an error it is left
  with; \<open>n\<close> and \<open>p\<close> are the numbers of datagrams processed and of receive polls made.
\<close>

locale loop_invariant =
  fixes env :: "('e, 'w) loop_env" and I F :: "u64 \<Rightarrow> u64 \<Rightarrow> 'w \<Rightarrow> bool" and E :: "'e \<Rightarrow> bool"
  assumes clock: "I n p w \<Longrightarrow> I n p (snd (le_clock env w))"
    and tick: "I n p w \<Longrightarrow> I n p (le_on_iteration_start env now w)"
    and stop: "I n p w \<Longrightarrow> I n p (snd (le_stop_requested env w))"
    and final: "I n p w \<Longrightarrow> F n p w"
    and tx: "I n p w \<Longrightarrow> le_handle_step env TryTx w = (r, w') \<Longrightarrow>
      (case r of Inl e \<Rightarrow> E e \<and> F n p w' | Inr TxProcessed \<Rightarrow> I (sat_add n 1) p w' | Inr (StopLoop _) \<Rightarrow> F n p w' | Inr _ \<Rightarrow> I n p w')"
    and rx: "I n p w \<Longrightarrow> le_handle_step env (ReadRx t) w = (r, w') \<Longrightarrow>
      (case r of Inl e \<Rightarrow> E e \<and> F n (sat_add p 1) w' | Inr (StopLoop _) \<Rightarrow> F n (sat_add p 1) w' | Inr _ \<Rightarrow> I n (sat_add p 1) w')"
begin

definition holds :: "'e flow \<Rightarrow> 'w \<Rightarrow> bool" where
  "holds f w =
     (case f of
        Continue s \<Rightarrow> I (ls_tx s) (ls_rx_polls s) w
      | Return (Inr out) \<Rightarrow> F (lo_tx_datagrams_processed out) (lo_rx_polls out) w
      | Return (Inl e) \<Rightarrow> E e \<and> (\<exists>n p. F n p w))"

lemma holds_simps [simp]:
  "holds (Continue s) w \<longleftrightarrow> I (ls_tx s) (ls_rx_polls s) w"
  "holds (Return (Inr (loop_result reason s))) w \<longleftrightarrow> F (ls_tx s) (ls_rx_polls s) w"
  "holds (Return (Inl e)) w \<longleftrightarrow> E e \<and> (\<exists>n p. F n p w)"
  by (simp_all add: holds_def loop_result_def)

lemma clock_step: "I n p w \<Longrightarrow> le_clock env w = (t, w') \<Longrightarrow> I n p w'"
  using clock [of n p w] by simp

lemma stop_step: "I n p w \<Longrightarrow> le_stop_requested env w = (b, w') \<Longrightarrow> I n p w'"
  using stop [of n p w] by simp

lemma burst_holds: "I (ls_tx s) (ls_rx_polls s) w \<Longrightarrow> tx_burst cfg env now count s w = (f, w') \<Longrightarrow> holds f w'"
proof (induction "unat (lc_tx_burst_limit cfg) - unat count" arbitrary: count s w rule: less_induct)
  case less
  let ?run = "(lc_max_datagrams cfg = 0 \<or> ls_tx s < lc_max_datagrams cfg) \<and> count < lc_tx_burst_limit cfg"
  let ?wait = "case ls_last_tx s of Some last_tx \<Rightarrow> now - last_tx < lc_tx_min_interval cfg | None \<Rightarrow> False"
  let ?s = "s\<lparr>ls_tx_polls := sat_add (ls_tx_polls s) 1\<rparr>"
  show ?case
  proof (cases "?run \<and> \<not> ?wait")
    case False
    then have "tx_burst cfg env now count s w = (Continue s, w)"
      by (auto simp: tx_burst.simps [of cfg env now count s w])
    then show ?thesis using less.prems by auto
  next
    case True
    obtain r w1 where step: "le_handle_step env TryTx w = (r, w1)" by (cases "le_handle_step env TryTx w")
    note inv = tx [OF less.prems(1) step]
    show ?thesis
    proof (cases "r = Inr TxProcessed")
      case False
      then show ?thesis
        using inv less.prems(2) True step
        by (auto simp: tx_burst.simps [of cfg env now count s w] Let_def split: sum.splits step_outcome.splits) blast+
    next
      case sent: True
      obtain t w2 where now: "le_clock env w1 = (t, w2)" by (cases "le_clock env w1")
      let ?s' = "?s\<lparr>ls_tx := sat_add (ls_tx s) 1, ls_last_tx := Some t\<rparr>"
      have "count < lc_tx_burst_limit cfg" using True by simp
      then have "unat (lc_tx_burst_limit cfg) - unat (sat_add count 1) < unat (lc_tx_burst_limit cfg) - unat count"
        using sat_add_1_less [of count "lc_tx_burst_limit cfg"] by (simp add: word_less_nat_alt)
      moreover have "I (ls_tx ?s') (ls_rx_polls ?s') w2"
        using clock_step [OF _ now, of "sat_add (ls_tx s) 1" "ls_rx_polls s"] inv sent by simp
      moreover have "tx_burst cfg env now count s w = tx_burst cfg env now (sat_add count 1) ?s' w2"
        using True step now sent by (simp add: tx_burst.simps [of cfg env now count s w] Let_def)
      ultimately show ?thesis using less.hyps less.prems(2) by metis
    qed
  qed
qed

lemma stop_phase_holds:
  assumes "I (ls_tx s) (ls_rx_polls s) w" "stop_phase cfg env deadline s w = (f, w')"
  shows "holds f w'"
proof -
  obtain b w1 where stop: "le_stop_requested env w = (b, w1)" by (cases "le_stop_requested env w")
  have w1: "I (ls_tx s) (ls_rx_polls s) w1" by (rule stop_step [OF assms(1) stop])
  show ?thesis
  proof (cases deadline)
    case None
    with assms(2) stop w1 show ?thesis by (auto simp: stop_phase_def intro: final split: if_splits)
  next
    case (Some d)
    obtain t w2 where now: "le_clock env w1 = (t, w2)" by (cases "le_clock env w1")
    with assms(2) stop w1 clock_step [OF w1 now] Some show ?thesis
      by (auto simp: stop_phase_def intro: final split: if_splits)
  qed
qed

lemma tx_phase_holds:
  assumes "I (ls_tx s) (ls_rx_polls s) w" "tx_phase cfg env started s w = (f, w')"
  shows "holds f w'"
proof -
  obtain now w1 where now: "le_clock env w = (now, w1)" by (cases "le_clock env w")
  have "I (ls_tx s) (ls_rx_polls s) (le_on_iteration_start env now w1)"
    using tick clock_step [OF assms(1) now] by blast
  then show ?thesis
    using assms(2) now burst_holds [of "allow_iteration s" "le_on_iteration_start env now w1" cfg now 0 f w']
    by (auto simp: tx_phase_def Let_def allow_iteration_def gate_iteration_def split: if_splits)
qed

lemma rx_step_holds:
  assumes "I (ls_tx s) (ls_rx_polls s) w" "le_handle_step env (ReadRx t) w = (r, w')"
  shows "holds (case r of Inl e \<Rightarrow> Return (Inl e) | Inr (StopLoop reason) \<Rightarrow> Return (Inr (loop_result reason (poll_iteration s)))
     | Inr _ \<Rightarrow> Continue (poll_iteration s)) w'"
  using rx [OF assms] by (auto simp: poll_iteration_def split: sum.splits step_outcome.splits)

lemma rx_phase_holds:
  assumes "I (ls_tx s) (ls_rx_polls s) w" "rx_phase cfg env deadline s w = (f, w')"
  shows "holds f w'"
proof -
  define turn where "turn t w = (case le_handle_step env (ReadRx t) w of (r, w) \<Rightarrow>
     (case r of Inl e \<Rightarrow> Return (Inl e) | Inr (StopLoop reason) \<Rightarrow> Return (Inr (loop_result reason (poll_iteration s)))
     | Inr _ \<Rightarrow> Continue (poll_iteration s), w))" for t w
  have turn: "holds (fst (turn t w)) (snd (turn t w))" if "I (ls_tx s) (ls_rx_polls s) w" for t w
    using rx_step_holds [OF that] by (cases "le_handle_step env (ReadRx t) w") (simp add: turn_def)
  have "rx_phase cfg env deadline s w = (case deadline of
       None \<Rightarrow> turn (lc_rx_timeout cfg) w
     | Some d \<Rightarrow> (case le_clock env w of (t, w) \<Rightarrow>
         if d - t = 0 then (Return (Inr (loop_result StopDurationElapsed s)), w)
         else turn (min (lc_rx_timeout cfg) (d - t)) w))"
    by (auto simp: rx_phase_def turn_def Let_def split: option.splits prod.splits sum.splits step_outcome.splits)
  then have f: "(f, w') = (case deadline of
       None \<Rightarrow> turn (lc_rx_timeout cfg) w
     | Some d \<Rightarrow> (case le_clock env w of (t, w) \<Rightarrow>
         if d - t = 0 then (Return (Inr (loop_result StopDurationElapsed s)), w)
         else turn (min (lc_rx_timeout cfg) (d - t)) w))" using assms(2) by simp
  obtain t w1 where now: "le_clock env w = (t, w1)" by (cases "le_clock env w")
  have w1: "I (ls_tx s) (ls_rx_polls s) w1" by (rule clock_step [OF assms(1) now])
  have "holds (fst (f, w')) (snd (f, w'))"
    unfolding f now using turn [OF assms(1)] turn [OF w1] final [OF w1] by (simp split: option.split)
  then show ?thesis by simp
qed

lemma then_phase_holds:
  "holds (fst p) (snd p) \<Longrightarrow> (\<And>s. fst p = Continue s \<Longrightarrow> k s (snd p) = (f, w') \<Longrightarrow> holds f w') \<Longrightarrow>
     then_phase p k = (f, w') \<Longrightarrow> holds f w'"
  by (cases "fst p") (auto simp: then_phase_def)

lemma iteration_holds:
  assumes "I (ls_tx s) (ls_rx_polls s) w" "bridge_iteration cfg env started s w = (f, w')"
  shows "holds f w'"
proof -
  let ?d = "map_option (\<lambda>d. started + d) (lc_duration cfg)"
  let ?p = "stop_phase cfg env ?d (next_iteration s) w"
  have "holds (fst ?p) (snd ?p)"
    using assms(1) by (intro stop_phase_holds [OF _ surjective_pairing]) (simp add: next_iteration_def)
  moreover have rest: "holds f1 w1"
    if "I (ls_tx s1) (ls_rx_polls s1) w0"
      "then_phase (tx_phase cfg env started s1 w0) (\<lambda>s w. rx_phase cfg env ?d s w) = (f1, w1)" for s1 w0 f1 w1
    using tx_phase_holds [OF that(1) surjective_pairing, of cfg started] _ that(2)
  proof (rule then_phase_holds)
    fix s2
    assume "fst (tx_phase cfg env started s1 w0) = Continue s2"
      "rx_phase cfg env ?d s2 (snd (tx_phase cfg env started s1 w0)) = (f1, w1)"
    then show "holds f1 w1"
      using tx_phase_holds [OF that(1) surjective_pairing, of cfg started] by (auto intro: rx_phase_holds)
  qed
  ultimately show ?thesis
    using then_phase_holds [of ?p "\<lambda>s w. then_phase (tx_phase cfg env started s w) (\<lambda>s w. rx_phase cfg env ?d s w)" f w']
      rest assms(2)
    unfolding bridge_iteration_def Let_def by (metis holds_simps(1))
qed

lemma loop_holds:
  assumes "bridge_loop cfg env started s w = Some y" "I (ls_tx s) (ls_rx_polls s) w"
  shows "holds (Return (fst y)) (snd y)"
proof -
  have "bridge_loop cfg env' started s w = Some y \<Longrightarrow> env' = env \<Longrightarrow> I (ls_tx s) (ls_rx_polls s) w \<Longrightarrow>
      holds (Return (fst y)) (snd y)" for env'
  proof (induction cfg env' started s w y rule: bridge_loop.raw_induct [rotated, consumes 1, case_names 1])
    case (1 rec cfg env' started s w y)
    obtain f w1 where it: "bridge_iteration cfg env started s w = (f, w1)"
      by (cases "bridge_iteration cfg env started s w")
    note inv = iteration_holds [OF 1(4) it]
    show ?case
    proof (cases f)
      case (Return r)
      then show ?thesis using inv it 1(2,3) by auto
    next
      case (Continue s1)
      then have "rec cfg env started s1 w1 = Some y" using it 1(2,3) by auto
      then show ?thesis using 1(1,3) inv Continue by simp
    qed
  qed
  with assms show ?thesis by blast
qed

lemma run_holds:
  assumes "run_production_bridge_loop cfg env w = Some (r, w')" "I 0 0 w"
  shows "case r of Inr out \<Rightarrow> F (lo_tx_datagrams_processed out) (lo_rx_polls out) w' | Inl e \<Rightarrow> E e \<and> (\<exists>n p. F n p w')"
proof -
  obtain started w0 where now: "le_clock env w = (started, w0)" by (cases "le_clock env w")
  then have "bridge_loop cfg env started loop_start w0 = Some (r, w')"
    using assms(1) by (simp add: run_production_bridge_loop_def)
  moreover have "I (ls_tx loop_start) (ls_rx_polls loop_start) w0"
    using clock_step [OF assms(2) now] by (simp add: loop_start_def)
  ultimately have "holds (Return r) w'" using loop_holds by fastforce
  then show ?thesis by (simp add: holds_def split: sum.splits)
qed

end

end
