(* ===== verification/Rx_Totals.thy ===== *)
theory Rx_Totals
  imports Production_Loop Loop_Invariants
begin

text \<open>
  The receive path of a whole run of the production loop: every frame that the device delivered has
  been handed to the forwards in order, and the report is that of the packets.
\<close>

section \<open>The run with logs\<close>

text \<open>
  The same environment, with a log of what the bulk IN transfers delivered beside the transport
  and a log of what was handed to \<open>send_to\<close> beside the world.
\<close>

definition on_first :: "('w \<Rightarrow> 'x \<times> 'w) \<Rightarrow> 'w \<times> 'l \<Rightarrow> 'x \<times> 'w \<times> 'l" where
  "on_first f p = (case f (fst p) of (x, w) \<Rightarrow> (x, w, snd p))"

definition logged_reads :: "('r, 't) bulk_read \<Rightarrow> ('r, 't \<times> bytes list) bulk_read" where
  "logged_reads read endpoint buffer timeout dev =
     (case read endpoint buffer timeout (fst dev) of
        (r, buffer, d) \<Rightarrow> (r, buffer, d, case r of Inr n \<Rightarrow> snd dev @ [take n buffer] | Inl _ \<Rightarrow> snd dev))"

definition logged_env ::
    "('r, 'io, 't, 'k, 'a, 'w) production_env \<Rightarrow>
     ('r, 'io, 't \<times> bytes list, 'k, 'a, 'w \<times> ('k \<times> bytes \<times> 'a) list) production_env" where
  "logged_env env =
     \<lparr>pe_show_rusb = pe_show_rusb env, pe_timeout_code = pe_timeout_code env,
      pe_bulk_write = (\<lambda>endpoint packet timeout. on_first (pe_bulk_write env endpoint packet timeout)),
      pe_bulk_read = logged_reads (pe_bulk_read env),
      pe_control_write = (\<lambda>rt rq addr idx data timeout. on_first (pe_control_write env rt rq addr idx data timeout)),
      pe_forwards = logged_sends (pe_forwards env),
      pe_now = on_first (pe_now env), pe_process_signal_stop = pe_process_signal_stop env,
      pe_signal_flag = on_first (pe_signal_flag env), pe_external_flag = map_option on_first (pe_external_flag env),
      pe_try_recv = on_first (pe_try_recv env), pe_ingress_telemetry = on_first (pe_ingress_telemetry env)\<rparr>"

lemma on_first_log [simp]: "snd (snd (on_first f p)) = snd p"
  by (simp add: on_first_def split: prod.split)

lemma on_first_dest: "on_first f p = (x, q) \<Longrightarrow> snd q = snd p"
  using on_first_log [of f p] by simp

text \<open>A transfer fills at most the buffer it was given.\<close>

definition bulk_read_law :: "('r, 't) bulk_read \<Rightarrow> bool" where
  "bulk_read_law read \<longleftrightarrow>
     (\<forall>endpoint buffer timeout dev n buffer' dev'.
        read endpoint buffer timeout dev = (Inr n, buffer', dev') \<longrightarrow> n \<le> length buffer')"

lemma logged_read:
  assumes "bulk_read_law read"
    and "read_rx_packets sh tc (logged_reads read) s ch buffer timeout = (r, s', buffer')"
  shows "case r of
      Inr x \<Rightarrow> \<exists>bs. snd (rs_transport s') = snd (rs_transport s) @ [bs] \<and> rr_packets x = parse_stream ch bs \<and>
        (rr_bytes_read x = 0 \<longrightarrow> bs = [])
    | Inl _ \<Rightarrow> snd (rs_transport s') = snd (rs_transport s)"
proof (cases "selected_bulk_in_endpoint s")
  case None
  then show ?thesis using assms(2) by (auto simp: read_rx_packets_def)
next
  case (Some ep)
  obtain q b d where read: "read ep buffer timeout (fst (rs_transport s)) = (q, b, d)"
    by (metis prod.exhaust)
  show ?thesis
  proof (cases q)
    case (Inl e)
    then show ?thesis using assms(2) read Some by (auto simp: read_rx_packets_def logged_reads_def)
  next
    case (Inr n)
    then have "n \<le> length b" using assms(1) read unfolding bulk_read_law_def by blast
    then show ?thesis
      using assms(2) read Some Inr
      by (auto simp: read_rx_packets_def logged_reads_def rx_packet_loop_stream byte_slice_def Let_def)
  qed
qed

lemma handler_keeps_log:
  assumes "handle_production_bridge_tx_datagram sh (\<lambda>endpoint packet timeout. on_first (write endpoint packet timeout)) s q config b sc = (r, s', b', sc')"
  shows "snd (rs_transport s') = snd (rs_transport s)"
proof -
  let ?w = "\<lambda>endpoint packet timeout. on_first (write endpoint packet timeout)"
  have frame: "snd d' = snd d" if "submit_tx_frame ?w d ep frame ch opts c = (a, d', c')" for d ep frame ch opts c a d' c'
    using that by (auto simp: submit_tx_frame_def Let_def dest: on_first_dest split: sum.splits prod.splits if_splits)
  have sub: "snd (rs_transport s') = snd (rs_transport s)"
    if "submit_80211_frame sh ?w s frame ch opts c = (a, s', c')" for s :: "('b \<times> 'c) radio_session" and frame ch opts c a s' c'
  proof (cases "selected_bulk_out_endpoint s")
    case None
    with that show ?thesis by (simp add: submit_80211_frame_def)
  next
    case (Some ep)
    obtain q dev k where "submit_tx_frame ?w (rs_transport s) ep frame ch opts c = (q, dev, k)" by (metis prod.exhaust)
    with that Some frame [OF this] show ?thesis
      by (auto simp: submit_80211_frame_def apply_tx_submit_counter_delta_def Let_def)
  qed
  show ?thesis
    using assms sub
    by (auto simp: handle_production_bridge_tx_datagram_def Let_def split: sum.splits prod.splits)
qed

section \<open>The invariant\<close>

definition packets_read :: "channel \<Rightarrow> ('t \<times> bytes list, 'k, 'a, 'w \<times> 'l) production_state \<Rightarrow> parsed_rx_packet list" where
  "packets_read ch s = concat (map (parse_stream ch) (snd (rs_transport (ps_session s))))"

definition rx_delivered ::
    "('k, 'a) rx_forward_runtime list \<Rightarrow> channel \<Rightarrow>
     ('t \<times> bytes list, 'k, 'a, 'w \<times> ('k \<times> bytes \<times> 'a) list) production_state \<Rightarrow> bool" where
  "rx_delivered forwards ch s \<longleftrightarrow>
     list_all2 same_target forwards (ps_rx_forwards s) \<and>
     snd (ps_world s) = concat (map (deliveries forwards) (frames_of (packets_read ch s))) \<and>
     (small_report (packets_read ch s) \<longrightarrow> packet_part (ps_rx s) = telemetry_of (packets_read ch s)) \<and>
     unat (rxt_buffers_read (ps_rx s)) = min (length (snd (rs_transport (ps_session s)))) (2 ^ 64 - 1)"

definition rx_polled :: "nat \<Rightarrow> u64 \<Rightarrow> 'a flow_rx_telemetry \<Rightarrow> bool" where
  "rx_polled slack p rx \<longleftrightarrow> p \<noteq> - 1 \<longrightarrow>
     unat (rxt_buffers_read rx) + unat (rxt_read_timeouts rx) \<le> unat p \<and>
     unat p \<le> unat (rxt_buffers_read rx) + unat (rxt_read_timeouts rx) + slack"

lemma small_report_append: "small_report (ps @ qs) \<Longrightarrow> small_report ps \<and> length qs < 2 ^ 55"
  by (auto simp: small_report_def few_channels_def seen_channels_append firsts_append)

text \<open>Two states with the same logs, forwards and report.\<close>

definition same_rx ::
    "('t \<times> bytes list, 'k, 'a, 'w \<times> 'l) production_state \<Rightarrow> ('t \<times> bytes list, 'k, 'a, 'w \<times> 'l) production_state \<Rightarrow> bool" where
  "same_rx s s' \<longleftrightarrow> snd (rs_transport (ps_session s')) = snd (rs_transport (ps_session s)) \<and>
     ps_rx_forwards s' = ps_rx_forwards s \<and> snd (ps_world s') = snd (ps_world s) \<and> ps_rx s' = ps_rx s"

lemma same_rx_delivered: "same_rx s s' \<Longrightarrow> rx_delivered forwards ch s' \<longleftrightarrow> rx_delivered forwards ch s"
  by (simp add: same_rx_def rx_delivered_def packets_read_def)

lemma on_world_same_rx: "same_rx s (snd (on_world (on_first f) s))"
  by (simp add: same_rx_def on_world_def on_first_def split: prod.split)

lemma stop_flag_first: "snd (snd (stop_flag (logged_env env) w)) = snd w"
  by (auto simp: stop_flag_def logged_env_def on_first_def Let_def split: prod.split option.split)

lemma tick_same_rx: "same_rx s (heartbeat_tick (logged_env env) now s)"
  by (auto simp: same_rx_def heartbeat_tick_def maybe_toggle_def write_led_register_def write_vendor_def logged_env_def
      on_first_def Let_def split: prod.split sum.split)

lemma off_same_rx:
  "turn_off (pe_control_write (logged_env env)) hb dev = (hb', dev') \<Longrightarrow> snd dev' = snd dev"
  by (auto simp: turn_off_def write_led_register_def write_vendor_def logged_env_def on_first_def Let_def
      split: prod.splits sum.splits if_splits)

lemma unix_ms_log: "fe_runtime_unix_ms (logged_sends env) w = (t, w') \<Longrightarrow> snd w' = snd w"
  by (cases w) (auto simp: logged_sends_def split: prod.splits)

lemma bind_outcome_log:
  "apply_production_runtime_tx_bind_outcome (fe_runtime_unix_ms (logged_sends env)) i sent failed dropped tx w = (tx', w') \<Longrightarrow>
     snd w' = snd w"
  by (auto simp: apply_production_runtime_tx_bind_outcome_def Let_def dest: unix_ms_log split: prod.splits if_splits)

lemma tx_same_rx:
  assumes "try_tx (logged_env env) ch bw s = (r, s')"
  shows "is_ok r \<and> same_rx s s'"
proof -
  obtain got s1 where got: "on_world (on_first (pe_try_recv env)) s = (got, s1)" by fastforce
  then have s1: "same_rx s s1" using on_world_same_rx [of s "pe_try_recv env"] by simp
  have recv: "pe_try_recv (logged_env env) = on_first (pe_try_recv env)"
    and fw: "pe_forwards (logged_env env) = logged_sends (pe_forwards env)"
    and wr: "pe_bulk_write (logged_env env) = (\<lambda>endpoint packet timeout. on_first (pe_bulk_write env endpoint packet timeout))"
    by (simp_all add: logged_env_def)
  show ?thesis
  proof (cases got)
    case (Received queued)
    let ?cfg = "\<lparr>tc_channel = ch, tc_channel_bandwidth = bw, tc_overrides = bridge_tx_overrides_default\<rparr>"
    obtain res session b sc where h: "handle_production_bridge_tx_datagram (pe_show_rusb (logged_env env)) (pe_bulk_write (logged_env env))
        (ps_session s1) queued ?cfg (ps_bridge_counters s1) (ps_submit_counters s1) = (res, session, b, sc)"
      by (metis prod.exhaust)
    have log: "snd (rs_transport session) = snd (rs_transport (ps_session s1))"
      using h unfolding wr by (rule handler_keeps_log)
    have "is_ok r \<and> same_rx s1 s'"
      using assms got Received h log
      by (cases res) (auto simp: try_tx_def recv fw same_rx_def Let_def dest!: bind_outcome_log split: prod.splits)
    with s1 show ?thesis by (simp add: same_rx_def)
  qed (use assms got s1 in \<open>auto simp: try_tx_def recv\<close>)
qed

section \<open>One read\<close>

lemma parse_stream_present: "frames_present (parse_stream ch bs)"
proof (induction ch bs rule: parse_stream.induct)
  case (1 ch bs)
  then show ?case
    using parsed_frame_present [of bs ch] by (subst parse_stream.simps) (auto simp: frames_present_def Let_def)
qed

lemma process_delivers:
  assumes "frames_present qs"
  shows "\<exists>rs' w'. process_production_rx_packet_outcomes (logged_sends env) qs rs w =
      Some (Inr \<lparr>ro_telemetry = fold count_packet qs rx_packet_telemetry_default, ro_rx_forwards = production_rx_forward_snapshots rs'\<rparr>,
        rs', w', snd w @ concat (map (deliveries rs) (frames_of qs))) \<and> list_all2 same_target rs rs'"
  using packets_loop [OF assms, of env rx_packet_telemetry_default rs "fst w" "snd w"]
  by (auto simp: process_production_rx_packet_outcomes_def)

lemma deliver_more:
  assumes inv: "rx_delivered forwards ch s" and "snd (rs_transport (ps_session s')) = snd (rs_transport (ps_session s)) @ [bs]"
    and qs: "qs = parse_stream ch bs"
    and "list_all2 same_target (ps_rx_forwards s) (ps_rx_forwards s')"
    and "snd (ps_world s') = snd (ps_world s) @ concat (map (deliveries (ps_rx_forwards s)) (frames_of qs))"
    and "rxt_buffers_read (ps_rx s') = sat_add (rxt_buffers_read (ps_rx s)) 1"
    and part: "small_report (packets_read ch s @ qs) \<Longrightarrow> packet_part (ps_rx s) = telemetry_of (packets_read ch s) \<Longrightarrow>
      packet_part (ps_rx s') = telemetry_of (packets_read ch s @ qs)"
  shows "rx_delivered forwards ch s'"
proof -
  have ps: "packets_read ch s' = packets_read ch s @ qs"
    using assms(2) qs by (simp add: packets_read_def)
  have "deliveries (ps_rx_forwards s) = deliveries forwards"
    using inv by (intro deliveries_same) (simp add: rx_delivered_def)
  moreover have "list_all2 same_target forwards (ps_rx_forwards s')"
    using same_targets_trans inv assms(4) by (auto simp: rx_delivered_def)
  ultimately show ?thesis
    using inv assms(2,5,6) part small_report_append
    by (auto simp: rx_delivered_def ps unat_sat_add)
qed

lemma read_rx_delivers:
  assumes law: "bulk_read_law (pe_bulk_read env)" and inv: "rx_delivered forwards ch s"
    and run: "read_rx (logged_env env) ch timeout s = (r, s')"
  shows "rx_delivered forwards ch s' \<and> r \<noteq> Inl Panicked \<and>
    (case r of
       Inr RxRead \<Rightarrow> rxt_buffers_read (ps_rx s') = sat_add (rxt_buffers_read (ps_rx s)) 1 \<and>
         rxt_read_timeouts (ps_rx s') = rxt_read_timeouts (ps_rx s)
     | Inr RxTimeout \<Rightarrow> rxt_buffers_read (ps_rx s') = rxt_buffers_read (ps_rx s) \<and>
         rxt_read_timeouts (ps_rx s') = sat_add (rxt_read_timeouts (ps_rx s)) 1
     | Inr (StopLoop _) \<Rightarrow> ps_rx s' = ps_rx s
     | Inl _ \<Rightarrow> ps_rx s' = ps_rx s
     | _ \<Rightarrow> False)"
proof -
  have read: "pe_bulk_read (logged_env env) = logged_reads (pe_bulk_read env)"
    and fw: "pe_forwards (logged_env env) = logged_sends (pe_forwards env)"
    by (simp_all add: logged_env_def)
  obtain res session buf where rd: "read_rx_packets (pe_show_rusb (logged_env env)) (pe_timeout_code (logged_env env))
      (logged_reads (pe_bulk_read env)) (ps_session s) ch (ps_rx_buf s) timeout = (res, session, buf)"
    by (metis prod.exhaust)
  note log = logged_read [OF law rd]
  show ?thesis
  proof (cases res)
    case (Inl e)
    let ?s1 = "s\<lparr>ps_session := session, ps_rx_buf := buf\<rparr>"
    have "same_rx s ?s1" using log Inl by (simp add: same_rx_def)
    moreover have "same_rx ?s1 (snd (on_world (stop_flag (logged_env env)) ?s1))"
      using stop_flag_first [of env "ps_world s"]
      by (cases "stop_flag (logged_env env) (ps_world s)") (simp add: same_rx_def on_world_def)
    moreover obtain b s2 where stop: "on_world (stop_flag (logged_env env)) ?s1 = (b, s2)" by fastforce
    ultimately have same: "same_rx s s2" "ps_rx s2 = ps_rx s" "same_rx s ?s1" by (auto simp: same_rx_def)
    show ?thesis
    proof (cases "re_timeout e")
      case True
      let ?rx = "(ps_rx s)\<lparr>rxt_read_timeouts := sat_add (rxt_read_timeouts (ps_rx s)) 1\<rparr>"
      have "r = Inr RxTimeout" "s' = ?s1\<lparr>ps_rx := ?rx\<rparr>"
        using run rd Inl True by (auto simp: read_rx_def read)
      moreover have "rx_delivered forwards ch (?s1\<lparr>ps_rx := ?rx\<rparr>)"
        using inv log Inl by (simp add: rx_delivered_def packets_read_def packet_part_def)
      ultimately show ?thesis by simp
    next
      case False
      then have "s' = s2" "r = (if b then Inr (StopLoop StopSignal) else Inl (Failed e))"
        using run rd Inl stop by (auto simp: read_rx_def read split: if_splits)
      then show ?thesis using inv same same_rx_delivered [OF same(1)] by auto
    qed
  next
    case (Inr x)
    then obtain bs where bs: "snd (rs_transport session) = snd (rs_transport (ps_session s)) @ [bs]"
      "rr_packets x = parse_stream ch bs" "rr_bytes_read x = 0 \<longrightarrow> bs = []"
      using log by auto
    let ?rx = "(ps_rx s)\<lparr>rxt_buffers_read := sat_add (rxt_buffers_read (ps_rx s)) 1\<rparr>"
    let ?s1 = "s\<lparr>ps_session := session, ps_rx_buf := buf, ps_rx := ?rx\<rparr>"
    let ?qs = "parse_stream ch bs"
    show ?thesis
    proof (cases "rr_bytes_read x = 0")
      case True
      then have "?qs = []" using bs(3) by (simp add: parse_stream.simps)
      moreover have "r = Inr RxRead" "s' = ?s1"
        using run rd Inr True by (auto simp: read_rx_def read)
      moreover have "rx_delivered forwards ch ?s1"
        by (rule deliver_more [OF inv _ refl, where bs = bs]) (use bs(1) \<open>?qs = []\<close> in \<open>simp_all add: same_targets_refl packet_part_def\<close>)
      ultimately show ?thesis by simp
    next
      case False
      let ?t = "fold count_packet ?qs rx_packet_telemetry_default"
      obtain rs' w' where out: "process_production_rx_packet_outcomes (logged_sends (pe_forwards env)) ?qs (ps_rx_forwards s) (ps_world s) =
          Some (Inr \<lparr>ro_telemetry = ?t, ro_rx_forwards = production_rx_forward_snapshots rs'\<rparr>,
            rs', w', snd (ps_world s) @ concat (map (deliveries (ps_rx_forwards s)) (frames_of ?qs)))"
        "list_all2 same_target (ps_rx_forwards s) rs'"
        using process_delivers [OF parse_stream_present, of "pe_forwards env" ch bs "ps_rx_forwards s" "ps_world s"] by blast
      let ?rx' = "apply_production_runtime_rx_packet_telemetry ?t ?rx"
      have s': "r = Inr RxRead" "s' = ?s1\<lparr>ps_rx := ?rx'\<lparr>rxt_rx_forwards := production_rx_forward_snapshots rs',
            rxt_forwarded_payloads := forwarded_sum (production_rx_forward_snapshots rs'),
            rxt_last_rx_unix_ms := latest_rx (production_rx_forward_snapshots rs')\<rparr>, ps_rx_forwards := rs',
            ps_world := (w', snd (ps_world s) @ concat (map (deliveries (ps_rx_forwards s)) (frames_of ?qs)))\<rparr>"
        using run rd Inr False out(1) bs(2) by (auto simp: read_rx_def read fw Let_def)
      have "rx_delivered forwards ch s'"
      proof (rule deliver_more [OF inv _ refl, where bs = bs])
        assume small: "small_report (packets_read ch s @ ?qs)" and "packet_part (ps_rx s) = telemetry_of (packets_read ch s)"
        then have "packet_part ?rx = telemetry_of (packets_read ch s)" by (simp add: packet_part_def)
        from apply_telemetry [OF small this] telemetry_packets [OF _ parse_stream_present] small_report_append [OF small]
        have "packet_part ?rx' = telemetry_of (packets_read ch s @ ?qs)" by simp
        then show "packet_part (ps_rx s') = telemetry_of (packets_read ch s @ ?qs)" by (simp add: s'(2) packet_part_def)
      qed (use bs(1) out(2) in \<open>simp_all add: s'(2) apply_production_runtime_rx_packet_telemetry_def\<close>)
      then show ?thesis using s' by (simp add: apply_production_runtime_rx_packet_telemetry_def)
    qed
  qed
qed

section \<open>The run\<close>

lemma rx_polled_read:
  assumes "rx_polled 0 p rx" and rx': "rxt_buffers_read rx' = sat_add (rxt_buffers_read rx) a" "rxt_read_timeouts rx' = sat_add (rxt_read_timeouts rx) b"
    and ab: "unat a + unat b \<le> 1"
  shows "rx_polled 1 (sat_add p 1) rx' \<and> (unat a + unat b = 1 \<longrightarrow> rx_polled 0 (sat_add p 1) rx')"
proof (cases "sat_add p 1 = - 1")
  case True
  then show ?thesis by (simp add: rx_polled_def)
next
  case False
  note p = sat_add_1_max [OF False]
  have lt: "unat (sat_add p 1) < 2 ^ 64" by (rule order_less_le_trans [OF unsigned_less]) simp
  have eq: "unat (rxt_buffers_read rx) + unat (rxt_read_timeouts rx) = unat p"
    using assms(1) p by (simp add: rx_polled_def)
  then have "unat (rxt_buffers_read rx') = unat (rxt_buffers_read rx) + unat a"
    "unat (rxt_read_timeouts rx') = unat (rxt_read_timeouts rx) + unat b"
    unfolding rx' using p lt ab by (auto intro!: sat_add_exact)
  then show ?thesis using p eq ab by (simp add: rx_polled_def)
qed

interpretation rx_totals: loop_invariant "production_loop_env (logged_env env) ch bw"
  "\<lambda>n p s. bulk_read_law (pe_bulk_read env) \<longrightarrow> rx_delivered forwards ch s \<and> rx_polled 0 p (ps_rx s)"
  "\<lambda>n p s. bulk_read_law (pe_bulk_read env) \<longrightarrow> rx_delivered forwards ch s \<and> rx_polled 1 p (ps_rx s)"
  "\<lambda>e. bulk_read_law (pe_bulk_read env) \<longrightarrow> e \<noteq> Panicked"
  for env ch bw forwards
proof (unfold_locales, goal_cases)
  case (1 n p s)
  note same = on_world_same_rx [of s "pe_now env"]
  with 1 show ?case
    using same_rx_delivered [OF same] by (simp add: production_loop_env_def logged_env_def same_rx_def)
next
  case (2 n p s now)
  note same = tick_same_rx [of s env now]
  with 2 show ?case
    using same_rx_delivered [OF same] by (simp add: production_loop_env_def same_rx_def)
next
  case (3 n p s)
  have same: "same_rx s (snd (on_world (stop_flag (logged_env env)) s))"
    using stop_flag_first [of env "ps_world s"]
    by (cases "stop_flag (logged_env env) (ps_world s)") (simp add: same_rx_def on_world_def)
  with 3 show ?case
    using same_rx_delivered [OF same] by (simp add: production_loop_env_def same_rx_def)
next
  case (4 n p s)
  then show ?case unfolding rx_polled_def by auto
next
  case (5 n p s r s')
  then have "is_ok r \<and> same_rx s s'"
    by (intro tx_same_rx [of env ch bw]) (simp add: production_loop_env_def)
  then have *: "is_ok r" "rx_delivered forwards ch s' = rx_delivered forwards ch s" "ps_rx s' = ps_rx s"
    using same_rx_delivered [of s s' forwards ch] by (auto simp: same_rx_def)
  with 5 show ?case
    by (cases r) (auto simp: rx_polled_def split: step_outcome.split)
next
  case (6 n p s t r s')
  show ?case
  proof (cases "bulk_read_law (pe_bulk_read env)")
    case True
    then have inv: "rx_delivered forwards ch s" "rx_polled 0 p (ps_rx s)" using 6 by auto
    have run: "read_rx (logged_env env) ch t s = (r, s')" using 6(2) by (simp add: production_loop_env_def)
    note * = read_rx_delivers [OF True inv(1) run]
    show ?thesis
    proof (cases r)
      case (Inl e)
      then show ?thesis using * rx_polled_read [OF inv(2), of "ps_rx s'" 0 0] by simp
    next
      case (Inr out)
      then show ?thesis
        using * rx_polled_read [OF inv(2), of "ps_rx s'" 1 0] rx_polled_read [OF inv(2), of "ps_rx s'" 0 1]
          rx_polled_read [OF inv(2), of "ps_rx s'" 0 0]
        by (cases out) simp_all
    qed
  next
    case False
    then show ?thesis by (simp split: sum.split step_outcome.split)
  qed
qed

lemma start_telemetry: "packet_part flow_rx_telemetry_default = telemetry_of []"
  by (simp add: packet_part_def flow_rx_telemetry_default_def telemetry_of_Nil rx_packet_telemetry_default_def)

lemma start_polled: "rx_polled 0 0 (ps_rx (production_loop_start led now binds forwards session w))"
  by (simp add: rx_polled_def production_loop_start_def flow_rx_telemetry_default_def)

lemma start_delivered:
  "rx_delivered forwards ch (production_loop_start led now binds forwards (session_new (dev, []) adapter eps cnt) (w, []))"
proof -
  have "rxt_buffers_read flow_rx_telemetry_default = 0" by (simp add: flow_rx_telemetry_default_def)
  then show ?thesis
    by (simp add: rx_delivered_def packets_read_def production_loop_start_def session_new_def same_targets_refl start_telemetry)
      (simp add: flow_rx_telemetry_default_def)
qed

lemma loop_end_rx:
  fixes s :: "('t \<times> bytes list, 'k, 'a, 'w \<times> ('k \<times> bytes \<times> 'a) list) production_state"
  shows "rx_delivered forwards ch s \<Longrightarrow> rx_delivered forwards ch (production_loop_end (logged_env env) s)"
    "rxt_buffers_read (ps_rx (production_loop_end (logged_env env) s)) = rxt_buffers_read (ps_rx s)"
    "rxt_read_timeouts (ps_rx (production_loop_end (logged_env env) s)) = rxt_read_timeouts (ps_rx s)"
    "rxt_rx_forwards (ps_rx (production_loop_end (logged_env env) s)) = production_rx_forward_snapshots (ps_rx_forwards s)"
    "ps_rx_forwards (production_loop_end (logged_env env) s) = ps_rx_forwards s"
proof -
  obtain hb dev where off: "turn_off (pe_control_write (logged_env env)) (ps_heartbeat s) (rs_transport (ps_session s)) = (hb, dev)"
    by (metis surj_pair)
  obtain ingress w where ing: "pe_ingress_telemetry (logged_env env) (ps_world s) = (ingress, w)" by (metis surj_pair)
  have "snd w = snd (ps_world s)" using ing on_first_log [of "pe_ingress_telemetry env" "ps_world s"] by (simp add: logged_env_def)
  moreover have "snd dev = snd (rs_transport (ps_session s))" by (rule off_same_rx [OF off])
  ultimately show "rx_delivered forwards ch s \<Longrightarrow> rx_delivered forwards ch (production_loop_end (logged_env env) s)"
    by (simp add: production_loop_end_def off on_world_def ing Let_def rx_delivered_def packets_read_def packet_part_def)
qed (simp_all add: production_loop_end_def on_world_def Let_def split: prod.split)

text \<open>
  C9. Nothing that was received is lost on the way to the forwards.  However the production loop
  returns, with an outcome or an error, it has not panicked; the datagrams handed to the sockets
  are, in order, exactly those of the received WFB frames for each forward that listens to their
  channel, over all transfers of the run; the report counts every packet (as long as it fits the
  report); every transfer is counted as a buffer; and with an outcome every receive poll, but for
  the last one that a stop request may have cut off, is counted as a buffer or a timeout.
\<close>

theorem received_frames_are_delivered:
  assumes law: "bulk_read_law (pe_bulk_read env)"
    and run: "run_production_loop (logged_env env) ch bw cfg
      (production_loop_start led now binds forwards (session_new (dev, []) adapter eps cnt) (w, [])) = Some (r, s')"
  shows "let ps = packets_read ch s' in
    r \<noteq> Inl Panicked \<and>
    snd (ps_world s') = concat (map (deliveries forwards) (frames_of ps)) \<and>
    (small_report ps \<longrightarrow> packet_part (ps_rx s') = telemetry_of ps) \<and>
    unat (rxt_buffers_read (ps_rx s')) = min (length (snd (rs_transport (ps_session s')))) (2 ^ 64 - 1) \<and>
    (\<forall>out. r = Inr out \<longrightarrow> rx_polled 1 (lo_rx_polls out) (ps_rx s'))"
proof -
  let ?s0 = "production_loop_start led now binds forwards (session_new (dev, []) adapter eps cnt) (w, [])"
  obtain s where loop: "run_production_bridge_loop cfg (production_loop_env (logged_env env) ch bw) ?s0 = Some (r, s)"
    and s': "s' = (if r = Inl Panicked then s else production_loop_end (logged_env env) s)"
    using run by (auto simp: run_production_loop_def)
  have inv: "case r of Inr out \<Rightarrow> rx_delivered forwards ch s \<and> rx_polled 1 (lo_rx_polls out) (ps_rx s)
      | Inl e \<Rightarrow> e \<noteq> Panicked \<and> rx_delivered forwards ch s"
    using rx_totals.run_holds [OF loop, of forwards] law start_delivered [of forwards ch led now binds dev adapter eps cnt w]
    by (simp add: start_polled split: sum.splits)
  then have "r \<noteq> Inl Panicked" "rx_delivered forwards ch s" by (auto split: sum.splits)
  moreover from this have fin: "s' = production_loop_end (logged_env env) s" using s' by simp
  ultimately have "rx_delivered forwards ch s'" using loop_end_rx(1) by blast
  moreover have "rx_polled 1 (lo_rx_polls out) (ps_rx s')" if "r = Inr out" for out
    using inv that by (simp add: fin rx_polled_def loop_end_rx)
  ultimately show ?thesis
    using \<open>r \<noteq> Inl Panicked\<close> by (simp add: rx_delivered_def Let_def)
qed

text \<open>A run with one transfer, a frame for the channel of the one forward, stopped from outside.\<close>

definition one_transfer_env :: "(unit, unit, bytes, unit, unit, nat) production_env" where
  "one_transfer_env =
     \<lparr>pe_show_rusb = (\<lambda>_. []), pe_timeout_code = (\<lambda>_. True), pe_bulk_write = taking_all,
      pe_bulk_read = (\<lambda>_ _ _ dev. (Inr 128, sample_wfb_buffer, dev)),
      pe_control_write = (\<lambda>_ _ _ _ data _ dev. (Inr (length data), dev)),
      pe_forwards = \<lparr>fe_bind = (\<lambda>w. (Inr (), w)), fe_send_to = (\<lambda>_ packet _ w. (Inr (length packet), w)),
        fe_runtime_unix_ms = (\<lambda>w. (0, w)), fe_show_io = (\<lambda>_. [])\<rparr>,
      pe_now = (\<lambda>w. (w, Suc w)), pe_process_signal_stop = False, pe_signal_flag = (\<lambda>w. (False, w)),
      pe_external_flag = Some (\<lambda>w. (2 \<le> w, w)), pe_try_recv = (\<lambda>w. (QueueEmpty, w)),
      pe_ingress_telemetry = (\<lambda>w. (\<lparr>it_datagrams_received = 0, it_bytes_received = 0, it_queue_send_failed = 0\<rparr>, w))\<rparr>"

definition one_transfer_start :: "(bytes \<times> bytes list, unit, unit, nat \<times> (unit \<times> bytes \<times> unit) list) production_state" where
  "one_transfer_start = production_loop_start \<lparr>hc_enabled = False, hc_half_period_ms = 500\<rparr> 0 [()] [sample_forward]
     (session_new ([], []) (rs_adapter sample_session) (rs_endpoints sample_session) radio_counters_default) (0, [])"

lemma one_transfer_law: "bulk_read_law (pe_bulk_read one_transfer_env)"
  by (simp add: bulk_read_law_def one_transfer_env_def sample_wfb_buffer_def length_wfb_header)

lemma quiet_forward:
  "process_production_wfb_rx_forward (logged_sends (pe_forwards one_transfer_env)) r frame p = (x, r', p') \<Longrightarrow> fst p' = fst p"
  by (cases p)
    (auto simp: process_production_wfb_rx_forward_def logged_sends_def one_transfer_env_def Let_def
      split: prod.splits option.splits sum.splits)

lemma quiet_forwards:
  "process_production_wfb_rx_forwards (logged_sends (pe_forwards one_transfer_env)) rs frame p = (x, rs', p') \<Longrightarrow> fst p' = fst p"
proof (induction rs arbitrary: p x rs' p')
  case (Cons r rs)
  obtain y r1 p1 where "process_production_wfb_rx_forward (logged_sends (pe_forwards one_transfer_env)) r frame p = (y, r1, p1)"
    by (metis prod.exhaust)
  with Cons quiet_forward [OF this] show ?case by (auto split: sum.splits prod.splits)
qed simp

lemma quiet_loop:
  "rx_packet_outcomes_loop (logged_sends (pe_forwards one_transfer_env)) ps t rs p = Some (x, rs', p') \<Longrightarrow> fst p' = fst p"
proof (induction ps arbitrary: t rs p)
  case (Cons q ps)
  show ?case
  proof (cases "pp_outcome q")
    case RxFrame
    with Cons.prems obtain frame where f: "pp_frame q = Some frame" by (auto split: option.splits)
    obtain y rs1 p1 where "process_production_wfb_rx_forwards (logged_sends (pe_forwards one_transfer_env)) rs frame p = (y, rs1, p1)"
      by (metis prod.exhaust)
    with Cons RxFrame f quiet_forwards [OF this] show ?thesis by (auto simp: Let_def split: sum.splits)
  qed (use Cons in auto)
qed simp

lemma one_transfer_run:
  "\<exists>out s'. run_production_loop (logged_env one_transfer_env) ch bw (loop_config_from_bounds 0 500 1 0) one_transfer_start = Some (Inr out, s')"
proof -
  let ?env = "production_loop_env (logged_env one_transfer_env) ch bw"
  let ?cfg = "loop_config_from_bounds 0 500 1 0"
  let ?s0 = "one_transfer_start\<lparr>ps_world := (1, [])\<rparr>" and ?s1 = "one_transfer_start\<lparr>ps_world := (2, [])\<rparr>"
  have clock: "le_clock ?env one_transfer_start = (0, ?s0)" "le_clock ?env ?s0 = (1, ?s1)"
    by (simp_all add: production_loop_env_def on_world_def logged_env_def one_transfer_env_def on_first_def one_transfer_start_def
        production_loop_start_def)
  have stop: "stop_phase ?cfg ?env None l s = (if fst (ps_world s) < 2 then (Continue l, s) else (Return (Inr (loop_result StopSignal l)), s))" for l s
    by (auto simp: stop_phase_def production_loop_env_def on_world_def stop_flag_def logged_env_def one_transfer_env_def on_first_def
        loop_config_from_bounds_def Let_def)
  have tick: "le_on_iteration_start ?env t ?s1 = ?s1" for t
    by (simp add: production_loop_env_def heartbeat_tick_def maybe_toggle_def one_transfer_start_def production_loop_start_def
        led_heartbeat_new_def)
  have step: "le_handle_step ?env TryTx ?s1 = (Inr TxEmpty, ?s1)"
    by (simp add: production_loop_env_def try_tx_def on_world_def logged_env_def one_transfer_env_def on_first_def)
  let ?l0 = "next_iteration loop_start"
  let ?l1 = "(allow_iteration ?l0)\<lparr>ls_tx_polls := 1\<rparr>"
  have tx: "tx_phase ?cfg ?env 0 ?l0 ?s0 = (Continue ?l1, ?s1)"
    unfolding tx_phase_def clock Let_def prod.case tick
    by (simp add: tx_burst.simps step)
      (simp add: loop_config_from_bounds_def airtime_continuous_def tx_allowed_at_elapsed_def allow_iteration_def next_iteration_def
        loop_start_def)
  have s1: "selected_bulk_in_endpoint (ps_session ?s1) = Some 0x81"
    by (simp add: one_transfer_start_def production_loop_start_def selected_bulk_in_endpoint_def session_new_def sample_session_def)
  have rx: "\<exists>s2. read_rx (logged_env one_transfer_env) ch 500000000 ?s1 = (Inr RxRead, s2) \<and> fst (ps_world s2) = 2"
  proof -
    let ?ps = "parse_stream ch sample_wfb_buffer"
    have len: "length sample_wfb_buffer = 128" by (simp add: sample_wfb_buffer_def length_wfb_header)
    then have "\<exists>x session. read_rx_packets (\<lambda>_. []) (\<lambda>_. True) (pe_bulk_read (logged_env one_transfer_env)) S ch buf 500000000 =
        (Inr x, session, sample_wfb_buffer) \<and> rr_bytes_read x = 128 \<and> rr_packets x = ?ps"
      if "selected_bulk_in_endpoint S = Some 0x81" for S buf
      using that
      by (simp add: read_rx_packets_def logged_env_def logged_reads_def one_transfer_env_def rx_packet_loop_stream byte_slice_def Let_def)
    from this [OF s1] have read: "\<exists>x session. read_rx_packets (\<lambda>_. []) (\<lambda>_. True) (pe_bulk_read (logged_env one_transfer_env)) (ps_session ?s1) ch
        (ps_rx_buf ?s1) 500000000 = (Inr x, session, sample_wfb_buffer) \<and> rr_bytes_read x = 128 \<and> rr_packets x = ?ps" .
    obtain rs' w' where "process_production_rx_packet_outcomes (logged_sends (pe_forwards one_transfer_env)) ?ps (ps_rx_forwards ?s1) (ps_world ?s1) =
        Some (Inr \<lparr>ro_telemetry = fold count_packet ?ps rx_packet_telemetry_default, ro_rx_forwards = production_rx_forward_snapshots rs'\<rparr>,
          rs', w', snd (ps_world ?s1) @ concat (map (deliveries (ps_rx_forwards ?s1)) (frames_of ?ps)))"
      using process_delivers [OF parse_stream_present, of "pe_forwards one_transfer_env" ch sample_wfb_buffer "ps_rx_forwards ?s1" "ps_world ?s1"]
      by blast
    moreover from this have "w' = 2"
      using quiet_loop [of ?ps rx_packet_telemetry_default "ps_rx_forwards ?s1" "ps_world ?s1"]
      by (fastforce simp: process_production_rx_packet_outcomes_def)
    moreover have "pe_show_rusb (logged_env one_transfer_env) = (\<lambda>_. [])" "pe_timeout_code (logged_env one_transfer_env) = (\<lambda>_. True)"
      "pe_forwards (logged_env one_transfer_env) = logged_sends (pe_forwards one_transfer_env)"
      by (simp_all add: logged_env_def one_transfer_env_def)
    ultimately show ?thesis using read by (auto simp: read_rx_def Let_def)
  qed
  then obtain s2 where s2: "rx_phase ?cfg ?env None ?l1 ?s1 = (Continue (poll_iteration ?l1), s2)" "fst (ps_world s2) = 2"
    by (auto simp: rx_phase_def production_loop_env_def loop_config_from_bounds_def)
  have d: "lc_duration ?cfg = None" by (simp add: loop_config_from_bounds_def)
  have 1: "bridge_iteration ?cfg ?env 0 loop_start ?s0 = (Continue (poll_iteration ?l1), s2)"
  proof -
    have "stop_phase ?cfg ?env None ?l0 ?s0 = (Continue ?l0, ?s0)" unfolding stop by simp
    then show ?thesis
      unfolding bridge_iteration_def d Let_def by (simp only: option.map then_phase_def fst_conv snd_conv flow.case tx s2(1))
  qed
  have 2: "bridge_iteration ?cfg ?env 0 (poll_iteration ?l1) s2 =
      (Return (Inr (loop_result StopSignal (next_iteration (poll_iteration ?l1)))), s2)"
    unfolding bridge_iteration_def d Let_def option.map stop by (simp add: then_phase_def s2(2))
  have "bridge_loop ?cfg ?env 0 loop_start ?s0 = Some (Inr (loop_result StopSignal (next_iteration (poll_iteration ?l1))), s2)"
    by (subst bridge_loop.simps, simp only: 1 prod.case flow.case) (subst bridge_loop.simps, simp only: 2 prod.case flow.case)
  then show ?thesis
    unfolding run_production_loop_def run_production_bridge_loop_def clock by simp
qed

lemma received_frames_are_delivered_witness:
  "\<exists>out s'. run_production_loop (logged_env one_transfer_env) sample_rx_channel Mhz20 (loop_config_from_bounds 0 500 1 0)
       one_transfer_start = Some (Inr out, s') \<and>
     snd (ps_world s') = concat (map (deliveries [sample_forward]) (frames_of (packets_read sample_rx_channel s')))"
proof -
  obtain out s' where run: "run_production_loop (logged_env one_transfer_env) sample_rx_channel Mhz20 (loop_config_from_bounds 0 500 1 0)
       one_transfer_start = Some (Inr out, s')"
    using one_transfer_run by blast
  from received_frames_are_delivered [OF one_transfer_law run [unfolded one_transfer_start_def]] run show ?thesis
    by (auto simp: Let_def)
qed

end
