(* ===== verification/Tx_Totals.thy ===== *)
theory Tx_Totals
  imports Production_Loop Loop_Invariants
begin

text \<open>The transmit totals of the production loop add up, over all binds and whatever the callbacks answer.\<close>

section \<open>One datagram\<close>

lemma submit_80211_counts:
  "submit_80211_frame show_rusb write s frame ch opts sc = (Inr m, s', sc') \<Longrightarrow> sc_submitted sc' = sc_submitted sc + 1"
  "submit_80211_frame show_rusb write s frame ch opts sc = (Inl e, s', sc') \<Longrightarrow> sc_submitted sc' = sc_submitted sc"
  by (auto simp: submit_80211_frame_def submit_tx_frame_def Let_def
      split: option.splits sum.splits prod.splits if_splits)

text \<open>What handling a datagram does to the two groups of counters: it is either sent or dropped.\<close>

definition counts_step :: "bool \<Rightarrow> bridge_tx_counters \<times> tx_submit_counters \<Rightarrow> bridge_tx_counters \<times> tx_submit_counters \<Rightarrow> bool" where
  "counts_step sent p q \<longleftrightarrow>
     bt_incoming (fst q) = sat_add (bt_incoming (fst p)) 1 \<and>
     bt_injected (fst q) = (if sent then sat_add (bt_injected (fst p)) 1 else bt_injected (fst p)) \<and>
     bt_dropped (fst q) = (if sent then bt_dropped (fst p) else sat_add (bt_dropped (fst p)) 1) \<and>
     sc_submitted (snd q) = (if sent then sc_submitted (snd p) + 1 else sc_submitted (snd p))"

lemma handler_counts:
  assumes "handle_production_bridge_tx_datagram show_rusb write session queued config b sc = (r, session', b', sc')"
  shows "case r of
      Inr outcome \<Rightarrow> to_bridge_counters outcome = b' \<and> to_submit_counters outcome = sc' \<and>
        counts_step (to_metadata outcome \<noteq> None) (b, sc) (b', sc')
    | Inl e \<Rightarrow> te_bridge_counters e = b' \<and> te_submit_counters e = sc' \<and> counts_step False (b, sc) (b', sc')"
  using assms
  by (auto simp: handle_production_bridge_tx_datagram_def counts_step_def Let_def
      dest: submit_80211_counts split: sum.splits prod.splits)

section \<open>The binds\<close>

lemma update_bind_twice:
  "(\<And>b. tb_report_index (f b) = tb_report_index b) \<Longrightarrow> update_bind i g (update_bind i f bs) = update_bind i (\<lambda>b. g (f b)) bs"
  by (induction bs) auto

lemma update_bind_nth:
  "map tb_report_index bs = [m..<m + length bs] \<Longrightarrow> j < length bs \<Longrightarrow> update_bind (m + j) f bs = bs[j := f (bs ! j)]"
proof (induction bs arbitrary: m j)
  case (Cons b bs)
  have idx: "tb_report_index b = m" "map tb_report_index bs = [Suc m..<Suc m + length bs]"
    using Cons.prems(1) by (simp_all add: upt_conv_Cons del: upt_Suc)
  then show ?case using Cons.IH [of "Suc m" "j - 1"] Cons.prems(2) by (cases j) auto
qed simp

definition bind_total :: "('a tx_bind_telemetry \<Rightarrow> u64) \<Rightarrow> 'a tx_bind_telemetry list \<Rightarrow> nat" where
  "bind_total f bs = (\<Sum>b \<leftarrow> bs. unat (f b))"

lemma bind_total_update:
  "j < length bs \<Longrightarrow> unat (f b) = unat (f (bs ! j)) + d \<Longrightarrow> bind_total f (bs[j := b]) = bind_total f bs + d"
  unfolding bind_total_def map_update
  by (subst sum_list_update) (auto simp: elem_le_sum_list)

lemma bind_total_ge: "j < length bs \<Longrightarrow> unat (f (bs ! j)) \<le> bind_total f bs"
  unfolding bind_total_def using elem_le_sum_list [of j "map (\<lambda>b. unat (f b)) bs"] by simp

definition bind_balanced :: "'a tx_bind_telemetry \<Rightarrow> bool" where
  "bind_balanced b \<longleftrightarrow>
     unat (tb_datagrams_received b) = unat (tb_submitted_frames b) + unat (tb_dropped_datagrams b) \<and>
     tb_failed_submissions b \<le> tb_dropped_datagrams b"

text \<open>The totals after \<open>n\<close> datagrams for \<open>k\<close> binds.\<close>

definition totals_balanced :: "nat \<Rightarrow> u64 \<Rightarrow> 'a flow_tx_telemetry \<Rightarrow> bridge_tx_counters \<Rightarrow> tx_submit_counters \<Rightarrow> bool" where
  "totals_balanced k n tx b sc \<longleftrightarrow>
     txt_datagrams_received tx = n \<and> bt_incoming b = n \<and>
     (n \<noteq> - 1 \<longrightarrow>
        unat (bt_injected b) + unat (bt_dropped b) = unat n \<and> sc_submitted sc = bt_injected b \<and>
        map tb_report_index (txt_tx_binds tx) = [0..<k] \<and> list_all bind_balanced (txt_tx_binds tx) \<and>
        bind_total tb_datagrams_received (txt_tx_binds tx) = unat n \<and>
        bind_total tb_submitted_frames (txt_tx_binds tx) = unat (bt_injected b) \<and>
        bind_total tb_dropped_datagrams (txt_tx_binds tx) = unat (bt_dropped b))"

text \<open>What one datagram does to the bind it came from.\<close>

definition bind_step :: "bool \<Rightarrow> bool \<Rightarrow> u64 option \<Rightarrow> 'a tx_bind_telemetry \<Rightarrow> 'a tx_bind_telemetry" where
  "bind_step sent failed now b =
     (let b = b\<lparr>tb_datagrams_received := sat_add (tb_datagrams_received b) 1\<rparr>;
          b = (if sent then b\<lparr>tb_submitted_frames := sat_add (tb_submitted_frames b) 1, tb_last_submit_unix_ms := now\<rparr> else b);
          b = (if failed then b\<lparr>tb_failed_submissions := sat_add (tb_failed_submissions b) 1\<rparr> else b)
      in if \<not> sent then b\<lparr>tb_dropped_datagrams := sat_add (tb_dropped_datagrams b) 1\<rparr> else b)"

lemma unat_sat_add_1: "unat w + 1 < 2 ^ LENGTH('a) \<Longrightarrow> unat (sat_add w 1) = unat w + 1"
  for w :: "'a::len word"
  by (simp add: sat_add_exact)

lemma bind_step_fields:
  assumes "bind_balanced b" "unat (tb_datagrams_received b) + 1 < 2 ^ 64" "failed \<longrightarrow> \<not> sent"
  shows "bind_balanced (bind_step sent failed now b)"
    and "unat (tb_datagrams_received (bind_step sent failed now b)) = unat (tb_datagrams_received b) + 1"
    and "unat (tb_submitted_frames (bind_step sent failed now b)) = unat (tb_submitted_frames b) + (if sent then 1 else 0)"
    and "unat (tb_dropped_datagrams (bind_step sent failed now b)) = unat (tb_dropped_datagrams b) + (if sent then 0 else 1)"
    and "tb_report_index (bind_step sent failed now b) = tb_report_index b"
proof -
  have small: "unat (tb_submitted_frames b) + 1 < 2 ^ 64" "unat (tb_dropped_datagrams b) + 1 < 2 ^ 64"
    "unat (tb_failed_submissions b) + 1 < 2 ^ 64"
    using assms(1,2) by (auto simp: bind_balanced_def word_le_nat_alt)
  show r: "unat (tb_datagrams_received (bind_step sent failed now b)) = unat (tb_datagrams_received b) + 1"
    and s: "unat (tb_submitted_frames (bind_step sent failed now b)) = unat (tb_submitted_frames b) + (if sent then 1 else 0)"
    and d: "unat (tb_dropped_datagrams (bind_step sent failed now b)) = unat (tb_dropped_datagrams b) + (if sent then 0 else 1)"
    and "tb_report_index (bind_step sent failed now b) = tb_report_index b"
    using assms(2) small by (simp_all add: bind_step_def Let_def unat_sat_add_1)
  have "unat (tb_failed_submissions (bind_step sent failed now b)) = unat (tb_failed_submissions b) + (if failed then 1 else 0)"
    using small by (simp add: bind_step_def Let_def unat_sat_add_1)
  then show "bind_balanced (bind_step sent failed now b)"
    using assms(1,3) r s d by (auto simp: bind_balanced_def word_le_nat_alt)
qed

lemma totals_step:
  assumes inv: "totals_balanced k n tx b sc" and i: "i < k" and step: "counts_step sent (b, sc) (b', sc')"
    and failed: "failed \<longrightarrow> \<not> sent"
    and tx': "txt_datagrams_received tx' = sat_add (txt_datagrams_received tx) 1"
      "txt_tx_binds tx' = update_bind i (bind_step sent failed now) (txt_tx_binds tx)"
  shows "totals_balanced k (sat_add n 1) tx' b' sc'"
proof (cases "sat_add n 1 = - 1")
  case True
  then show ?thesis using inv step tx'(1) by (simp add: totals_balanced_def counts_step_def)
next
  case False
  note n = sat_add_1_max [OF False]
  let ?bs = "txt_tx_binds tx"
  have old: "unat (bt_injected b) + unat (bt_dropped b) = unat n" "sc_submitted sc = bt_injected b"
    "map tb_report_index ?bs = [0..<k]" "list_all bind_balanced ?bs" "bind_total tb_datagrams_received ?bs = unat n"
    "bind_total tb_submitted_frames ?bs = unat (bt_injected b)" "bind_total tb_dropped_datagrams ?bs = unat (bt_dropped b)"
    using inv n by (auto simp: totals_balanced_def)
  have len: "length ?bs = k" using old(3) by (metis length_map length_upt minus_nat.diff_0)
  let ?b = "bind_step sent failed now (?bs ! i)"
  have bs': "txt_tx_binds tx' = ?bs[i := ?b]"
    using update_bind_nth [of ?bs 0 i] old(3) len i tx'(2) by simp
  have lt: "unat (sat_add n 1) < 2 ^ 64" by (rule order_less_le_trans [OF unsigned_less]) simp
  have "unat (tb_datagrams_received (?bs ! i)) + 1 < 2 ^ 64"
    using bind_total_ge [of i ?bs tb_datagrams_received] old(5) n i len lt by simp
  note b' = bind_step_fields [OF _ this failed, of now]
  have "bind_balanced (?bs ! i)" using old(4) i len by (simp add: list_all_length)
  note b' = b' [OF this]
  have small: "unat (bt_injected b) + 1 < 2 ^ 64" "unat (bt_dropped b) + 1 < 2 ^ 64"
    using old(1) n lt by simp_all
  have counts: "unat (bt_injected b') = unat (bt_injected b) + (if sent then 1 else 0)"
    "unat (bt_dropped b') = unat (bt_dropped b) + (if sent then 0 else 1)"
    using step small by (auto simp: counts_step_def unat_sat_add_1)
  have "bt_injected b \<noteq> - 1" using small(1) by (auto simp: unsigned_minus_1_eq_mask mask_eq_exp_minus_1)
  then have "sc_submitted sc' = bt_injected b'"
    using step old(2) by (auto simp: counts_step_def sat_add_1_below)
  moreover have "map tb_report_index (txt_tx_binds tx') = [0..<k]"
    using old(3) i len b'(5) by (simp add: bs' map_update) (metis list_update_id map_update nth_map)
  moreover have "list_all bind_balanced (txt_tx_binds tx')"
    using old(4) b'(1) i len unfolding bs' list_all_length by (auto simp: nth_list_update)
  moreover have "bind_total tb_datagrams_received (txt_tx_binds tx') = unat n + 1"
    "bind_total tb_submitted_frames (txt_tx_binds tx') = unat (bt_injected b')"
    "bind_total tb_dropped_datagrams (txt_tx_binds tx') = unat (bt_dropped b')"
    unfolding bs' using bind_total_update [of i ?bs] b'(2-4) i len counts old(5-7) by metis+
  ultimately show ?thesis
    using inv step tx'(1) n counts old(1) by (auto simp: totals_balanced_def counts_step_def)
qed

section \<open>The loop\<close>

text \<open>Queued datagrams come from a bind that is reported: what the ingress threads promise.\<close>

definition queue_indexes :: "nat \<Rightarrow> ('r, 'io, 't, 'k, 'a, 'w) production_env \<Rightarrow> bool" where
  "queue_indexes k env \<longleftrightarrow>
     (\<forall>w queued w'. pe_try_recv env w = (Received queued, w') \<longrightarrow> qd_report_index queued < k)"

definition tx_balanced :: "nat \<Rightarrow> u64 \<Rightarrow> ('t, 'k, 'a, 'w) production_state \<Rightarrow> bool" where
  "tx_balanced k n s \<longleftrightarrow> totals_balanced k n (ps_tx s) (ps_bridge_counters s) (ps_submit_counters s)"

lemma bind_outcome_fields:
  assumes "apply_production_runtime_tx_bind_outcome clock i sent failed (\<not> sent) (apply_production_runtime_tx_bind_datagram i tx) w = (tx', w')"
  shows "txt_datagrams_received tx' = txt_datagrams_received tx"
    and "\<exists>now. txt_tx_binds tx' = update_bind i (bind_step sent failed now) (txt_tx_binds tx)"
proof -
  obtain now w1 where now: "(if sent then (case clock w of (t, w) \<Rightarrow> (Some t, w)) else (None, w)) = (now, w1)"
    by fastforce
  have binds: "txt_tx_binds tx' = update_bind i (bind_step sent failed now) (txt_tx_binds tx)"
    and "txt_datagrams_received tx' = txt_datagrams_received tx"
    using assms unfolding apply_production_runtime_tx_bind_outcome_def now Let_def
    by (auto simp: apply_production_runtime_tx_bind_datagram_def update_bind_twice bind_step_def [abs_def] Let_def
        split: option.splits)
  then show "txt_datagrams_received tx' = txt_datagrams_received tx"
    "\<exists>now. txt_tx_binds tx' = update_bind i (bind_step sent failed now) (txt_tx_binds tx)" by blast+
qed

lemma observe_fields [simp]:
  "txt_datagrams_received (observe_production_runtime_tx_metadata m tx) = txt_datagrams_received tx"
  "txt_tx_binds (observe_production_runtime_tx_metadata m tx) = txt_tx_binds tx"
  by (simp_all add: observe_production_runtime_tx_metadata_def split: option.split)

lemma apply_telemetry_fields [simp]:
  "txt_datagrams_received (apply_production_runtime_tx_telemetry b sc tx) = txt_datagrams_received tx"
  "txt_tx_binds (apply_production_runtime_tx_telemetry b sc tx) = txt_tx_binds tx"
  by (simp_all add: apply_production_runtime_tx_telemetry_def)

lemma try_tx_balanced:
  assumes q: "queue_indexes k env" and inv: "tx_balanced k n s" and run: "try_tx env ch bw s = (r, s')"
  shows "case r of Inl _ \<Rightarrow> tx_balanced k n s' | Inr TxProcessed \<Rightarrow> tx_balanced k (sat_add n 1) s'
    | Inr (StopLoop _) \<Rightarrow> tx_balanced k n s' | Inr _ \<Rightarrow> tx_balanced k n s'"
proof -
  obtain got w1 where got: "pe_try_recv env (ps_world s) = (got, w1)" by (cases "pe_try_recv env (ps_world s)")
  show ?thesis
  proof (cases got)
    case (Received queued)
    let ?i = "qd_report_index queued"
    let ?cfg = "\<lparr>tc_channel = ch, tc_channel_bandwidth = bw, tc_overrides = bridge_tx_overrides_default\<rparr>"
    let ?tx = "(ps_tx s)\<lparr>txt_datagrams_received := sat_add (txt_datagrams_received (ps_tx s)) 1\<rparr>"
    have i: "?i < k" using q got Received by (auto simp: queue_indexes_def)
    obtain res session b sc where h: "handle_production_bridge_tx_datagram (pe_show_rusb env) (pe_bulk_write env)
        (ps_session s) queued ?cfg (ps_bridge_counters s) (ps_submit_counters s) = (res, session, b, sc)"
      by (metis prod.exhaust)
    note counts = handler_counts [OF h]
    define sent where "sent = (case res of Inr outcome \<Rightarrow> to_metadata outcome \<noteq> None | Inl _ \<Rightarrow> False)"
    obtain tx w2 where out: "apply_production_runtime_tx_bind_outcome (fe_runtime_unix_ms (pe_forwards env)) ?i sent
        (\<not> is_ok res) (\<not> sent) (apply_production_runtime_tx_bind_datagram ?i ?tx) w1 = (tx, w2)"
      by (metis prod.exhaust)
    obtain m where s': "r = Inr TxProcessed" "s' = s\<lparr>ps_session := session,
        ps_tx := apply_production_runtime_tx_telemetry b sc (observe_production_runtime_tx_metadata m tx),
        ps_bridge_counters := b, ps_submit_counters := sc, ps_world := w2\<rparr>"
      using run got Received h out counts
      by (cases res) (auto simp: try_tx_def on_world_def sent_def Let_def split: prod.splits)
    obtain now where binds: "txt_tx_binds tx = update_bind ?i (bind_step sent (\<not> is_ok res) now) (txt_tx_binds ?tx)"
      using bind_outcome_fields(2) [OF out] by blast
    have "counts_step sent (ps_bridge_counters s, ps_submit_counters s) (b, sc)"
      using counts by (cases res) (simp_all add: sent_def)
    from totals_step [OF _ i this, of n "ps_tx s" "\<not> is_ok res" "ps_tx s'" now] show ?thesis
      using inv bind_outcome_fields(1) [OF out] binds
      by (simp add: tx_balanced_def s' sent_def split: sum.splits)
  qed (use inv run got in \<open>auto simp: try_tx_def on_world_def tx_balanced_def\<close>)
qed

lemma read_rx_keeps_tx:
  "read_rx env ch t s = (r, s') \<Longrightarrow> ps_tx s' = ps_tx s \<and> ps_bridge_counters s' = ps_bridge_counters s \<and>
     ps_submit_counters s' = ps_submit_counters s"
  by (auto simp: read_rx_def on_world_def Let_def split: prod.splits sum.splits option.splits if_splits)

lemma tick_keeps_tx [simp]:
  "ps_tx (heartbeat_tick env now s) = ps_tx s" "ps_bridge_counters (heartbeat_tick env now s) = ps_bridge_counters s"
  "ps_submit_counters (heartbeat_tick env now s) = ps_submit_counters s"
  by (simp_all add: heartbeat_tick_def split: prod.split)

lemma on_world_keeps_tx [simp]:
  "ps_tx (snd (on_world f s)) = ps_tx s" "ps_bridge_counters (snd (on_world f s)) = ps_bridge_counters s"
  "ps_submit_counters (snd (on_world f s)) = ps_submit_counters s"
  by (simp_all add: on_world_def split: prod.split)

interpretation tx_totals: loop_invariant "production_loop_env env ch bw"
  "\<lambda>n p s. queue_indexes k env \<longrightarrow> tx_balanced k n s" "\<lambda>n p s. queue_indexes k env \<longrightarrow> tx_balanced k n s" "\<lambda>_. True"
  for env ch bw k
proof (unfold_locales, goal_cases)
  case (5 n p s r s')
  then show ?case
    using try_tx_balanced [of k env n s ch bw r s']
    by (auto simp: production_loop_env_def split: sum.splits step_outcome.splits)
next
  case (6 n p s t r s')
  then have "ps_tx s' = ps_tx s \<and> ps_bridge_counters s' = ps_bridge_counters s \<and> ps_submit_counters s' = ps_submit_counters s"
    by (intro read_rx_keeps_tx [of env ch t s r]) (simp add: production_loop_env_def)
  with 6 show ?case by (auto simp: tx_balanced_def split: sum.splits step_outcome.splits)
qed (simp_all add: production_loop_env_def tx_balanced_def)

lemma start_balanced:
  "tx_balanced (length binds) 0 (production_loop_start led now binds forwards session w)"
proof -
  let ?bs = "production_runtime_tx_bind_telemetry binds"
  have zero: "list_all (\<lambda>b. tb_datagrams_received b = 0 \<and> tb_submitted_frames b = 0 \<and> tb_dropped_datagrams b = 0 \<and>
      tb_failed_submissions b = 0) ?bs"
    by (auto simp: production_runtime_tx_bind_telemetry_def list_all_iff)
  have "bind_total f ?bs = 0" if "list_all (\<lambda>b. f b = 0) ?bs" for f
    using that by (auto simp: bind_total_def list_all_iff)
  then have "bind_total tb_datagrams_received ?bs = 0" "bind_total tb_submitted_frames ?bs = 0" "bind_total tb_dropped_datagrams ?bs = 0"
    using zero by (simp_all add: list_all_iff)
  moreover have "map tb_report_index ?bs = [0..<length binds]"
    by (simp add: production_runtime_tx_bind_telemetry_def case_prod_beta comp_def)
  moreover have "list_all bind_balanced ?bs"
    using zero by (simp add: list_all_iff bind_balanced_def)
  ultimately show ?thesis
    by (simp add: tx_balanced_def totals_balanced_def production_loop_start_def flow_tx_telemetry_default_def
        bridge_tx_counters_default_def tx_submit_counters_default_def)
qed

lemma loop_end_fields:
  "txt_datagrams_received (ps_tx (production_loop_end env s)) = txt_datagrams_received (ps_tx s)"
  "txt_tx_binds (ps_tx (production_loop_end env s)) = txt_tx_binds (ps_tx s)"
  "txt_submitted_frames (ps_tx (production_loop_end env s)) = sc_submitted (ps_submit_counters s)"
  "txt_dropped_datagrams (ps_tx (production_loop_end env s)) = bt_dropped (ps_bridge_counters s)"
  by (simp_all add: production_loop_end_def apply_production_runtime_tx_ingress_telemetry_def
      apply_production_runtime_tx_telemetry_def Let_def split: prod.split)

text \<open>
  C10. The transmit report of a run adds up.  When the production loop returns with an outcome, it
  reports as received exactly the datagrams that the loop processed; every one of them is
  counted once, as a submitted frame or as dropped; and the same holds for each bind address,
  where failed submissions are among the dropped, with the totals the sums over the addresses.
  The ingress threads have to label datagrams with the indexes of the addresses they listen on.
\<close>

theorem transmit_report_adds_up:
  assumes "queue_indexes (length binds) env"
    and "run_production_loop env ch bw cfg (production_loop_start led now binds forwards session w) = Some (Inr out, s')"
    and "lo_tx_datagrams_processed out \<noteq> - 1"
  shows "let tx = ps_tx s'; bs = txt_tx_binds tx in
    txt_datagrams_received tx = lo_tx_datagrams_processed out \<and>
    unat (txt_submitted_frames tx) + unat (txt_dropped_datagrams tx) = unat (txt_datagrams_received tx) \<and>
    length bs = length binds \<and> list_all bind_balanced bs \<and>
    bind_total tb_datagrams_received bs = unat (txt_datagrams_received tx) \<and>
    bind_total tb_submitted_frames bs = unat (txt_submitted_frames tx) \<and>
    bind_total tb_dropped_datagrams bs = unat (txt_dropped_datagrams tx)"
proof -
  let ?s0 = "production_loop_start led now binds forwards session w"
  obtain s where run: "run_production_bridge_loop cfg (production_loop_env env ch bw) ?s0 = Some (Inr out, s)"
    and s': "s' = production_loop_end env s"
    using assms(2) by (auto simp: run_production_loop_def)
  have "tx_balanced (length binds) (lo_tx_datagrams_processed out) s"
    using tx_totals.run_holds [OF run, of "length binds"] assms(1)
      start_balanced [of binds led now forwards session w] by (simp only: sum.case simp_thms)
  then have "map tb_report_index (txt_tx_binds (ps_tx s)) = [0..<length binds]"
    and b: "totals_balanced (length binds) (lo_tx_datagrams_processed out) (ps_tx s) (ps_bridge_counters s) (ps_submit_counters s)"
    using assms(3) by (simp_all add: tx_balanced_def totals_balanced_def)
  then have "length (txt_tx_binds (ps_tx s)) = length binds" by (metis length_map length_upt minus_nat.diff_0)
  with b assms(3) show ?thesis
    by (simp add: s' loop_end_fields totals_balanced_def Let_def)
qed

text \<open>A run with one datagram, too short to be one, on a silent transport.\<close>

definition sample_production_env :: "(unit, unit, bytes, unit, unit, nat \<times> unit queued_datagram list) production_env" where
  "sample_production_env =
     \<lparr>pe_show_rusb = (\<lambda>_. []), pe_timeout_code = (\<lambda>_. True), pe_bulk_write = taking_all,
      pe_bulk_read = (\<lambda>_ buffer _ dev. (Inl (BackendTimeout []), buffer, dev)),
      pe_control_write = (\<lambda>_ _ _ _ data _ dev. (Inr (length data), dev)),
      pe_forwards = \<lparr>fe_bind = (\<lambda>w. (Inr (), w)), fe_send_to = (\<lambda>_ packet _ w. (Inr (length packet), w)),
        fe_runtime_unix_ms = (\<lambda>w. (0, w)), fe_show_io = (\<lambda>_. [])\<rparr>,
      pe_now = (\<lambda>(t, q). (t, t + 1, q)), pe_process_signal_stop = False, pe_signal_flag = (\<lambda>w. (False, w)),
      pe_external_flag = None,
      pe_try_recv = (\<lambda>(t, q). case q of [] \<Rightarrow> (QueueEmpty, t, [])
        | d # ds \<Rightarrow> (Received (d\<lparr>qd_report_index := 0\<rparr>), t, ds)),
      pe_ingress_telemetry = (\<lambda>w. (\<lparr>it_datagrams_received = 1, it_bytes_received = 0, it_queue_send_failed = 0\<rparr>, w))\<rparr>"

definition sample_led :: led_heartbeat_config where
  "sample_led = \<lparr>hc_enabled = False, hc_half_period_ms = 500\<rparr>"

definition sample_start :: "(bytes, unit, unit, nat \<times> unit queued_datagram list) production_state" where
  "sample_start = production_loop_start sample_led 0 [()] [] sample_session
     (0, [\<lparr>qd_report_index = 0, qd_peer = (), qd_data = []\<rparr>])"

lemma short_datagram:
  "handle_production_bridge_tx_datagram sh write session \<lparr>qd_report_index = i, qd_peer = a, qd_data = []\<rparr> config b sc =
     (let b = b\<lparr>bt_incoming := sat_add (bt_incoming b) 1, bt_dropped := sat_add (bt_dropped b) 1,
            bt_malformed := sat_add (bt_malformed b) 1\<rparr>
      in (Inr \<lparr>to_metadata = None, to_datagram_bytes = 0, to_frame_bytes = 0, to_bridge_counters = b, to_submit_counters = sc\<rparr>,
          session, b, sc))"
  by (simp add: handle_production_bridge_tx_datagram_def parse_tx_datagram_def is_unsupported_runtime_radiotap_def FWMARK_LEN_def Let_def)

lemma sample_try_tx:
  "ps_world s = (t, [\<lparr>qd_report_index = 0, qd_peer = (), qd_data = []\<rparr>]) \<Longrightarrow>
     \<exists>s'. try_tx sample_production_env ch bw s = (Inr TxProcessed, s') \<and> ps_world s' = (t, []) \<and> ps_session s' = ps_session s \<and>
       ps_heartbeat s' = ps_heartbeat s"
  by (simp add: try_tx_def on_world_def sample_production_env_def short_datagram Let_def
      apply_production_runtime_tx_bind_outcome_def)

lemma sample_read_rx:
  "ps_session s = sample_session \<Longrightarrow> \<exists>s'. read_rx sample_production_env ch timeout s = (Inr RxTimeout, s')"
  by (simp add: read_rx_def read_rx_packets_def sample_production_env_def selected_bulk_in_endpoint_def sample_session_def
      session_new_def runtime_bulk_in_error_def radio_error_new_timeout_def Let_def)

lemma sample_tick: "hc_enabled (hb_config (ps_heartbeat s)) = False \<Longrightarrow> heartbeat_tick env now s = s"
  by (simp add: heartbeat_tick_def maybe_toggle_def)

definition sample_loop_config :: bridge_loop_config where
  "sample_loop_config = loop_config_from_bounds 0 500 1 1"

lemma sample_stop_phase:
  "stop_phase sample_loop_config (production_loop_env sample_production_env ch bw) None l s =
      (if 1 \<le> ls_tx l then Return (Inr (loop_result StopTxDatagramLimit l)) else Continue l, s)"
  by (simp add: stop_phase_def production_loop_env_def on_world_def stop_flag_def sample_production_env_def
      sample_loop_config_def loop_config_from_bounds_def Let_def)

lemma sample_phases:
  fixes s :: "(bytes, unit, unit, nat \<times> unit queued_datagram list) production_state"
  assumes "hc_enabled (hb_config (ps_heartbeat s)) = False" "ps_session s = sample_session"
  shows "ps_world s = (t, [\<lparr>qd_report_index = 0, qd_peer = (), qd_data = []\<rparr>]) \<Longrightarrow> ls_tx l = 0 \<Longrightarrow> ls_last_tx l = None \<Longrightarrow>
      \<exists>l' s'. tx_phase sample_loop_config (production_loop_env sample_production_env ch bw) 0 l s = (Continue l', s') \<and>
        ls_tx l' = 1 \<and> hc_enabled (hb_config (ps_heartbeat s')) = False \<and> ps_session s' = sample_session"
    and "\<exists>s'. rx_phase sample_loop_config (production_loop_env sample_production_env ch bw) None l s = (Continue (poll_iteration l), s')"
proof -
  assume w: "ps_world s = (t, [\<lparr>qd_report_index = 0, qd_peer = (), qd_data = []\<rparr>])" and l: "ls_tx l = 0" "ls_last_tx l = None"
  let ?s = "s\<lparr>ps_world := (Suc t, [\<lparr>qd_report_index = 0, qd_peer = (), qd_data = []\<rparr>])\<rparr>"
  let ?env = "production_loop_env sample_production_env ch bw"
  have clock: "le_clock ?env s = (fst (ps_world s), s\<lparr>ps_world := (Suc (fst (ps_world s)), snd (ps_world s))\<rparr>)"
    for s :: "(bytes, unit, unit, nat \<times> unit queued_datagram list) production_state"
    by (simp add: production_loop_env_def on_world_def sample_production_env_def split: prod.split)
  have tick: "le_on_iteration_start ?env t ?s = ?s"
    using assms(1) by (simp add: production_loop_env_def sample_tick)
  obtain s1 where s1: "try_tx sample_production_env ch bw ?s = (Inr TxProcessed, s1)" "ps_world s1 = (Suc t, [])"
    "ps_session s1 = ps_session s" "ps_heartbeat s1 = ps_heartbeat s"
    using sample_try_tx [of ?s "Suc t" ch bw] by auto
  have step: "le_handle_step ?env TryTx ?s = (Inr TxProcessed, s1)"
    using s1(1) by (simp add: production_loop_env_def)
  let ?l = "(allow_iteration l)\<lparr>ls_tx_polls := sat_add (ls_tx_polls l) 1\<rparr>"
  let ?l' = "?l\<lparr>ls_tx := 1, ls_last_tx := Some (Suc t)\<rparr>"
  let ?s' = "s1\<lparr>ps_world := (Suc (Suc t), [])\<rparr>"
  have again: "tx_burst sample_loop_config ?env t 1 ?l' ?s' = (Continue ?l', ?s')"
    by (simp add: tx_burst.simps sample_loop_config_def loop_config_from_bounds_def)
  have "tx_burst sample_loop_config ?env t 0 (allow_iteration l) ?s = (Continue ?l', ?s')"
    using l s1(2) again unfolding tx_burst.simps [of sample_loop_config ?env t 0] step
    by (simp add: sample_loop_config_def loop_config_from_bounds_def allow_iteration_def clock Let_def)
  moreover have "tx_phase sample_loop_config ?env 0 l s = tx_burst sample_loop_config ?env t 0 (allow_iteration l) ?s"
    using w by (simp add: tx_phase_def clock tick Let_def)
      (simp add: sample_loop_config_def loop_config_from_bounds_def tx_allowed_at_elapsed_def airtime_continuous_def)
  ultimately show "\<exists>l' s'. tx_phase sample_loop_config ?env 0 l s = (Continue l', s') \<and>
      ls_tx l' = 1 \<and> hc_enabled (hb_config (ps_heartbeat s')) = False \<and> ps_session s' = sample_session"
    using assms s1(3,4) by (intro exI [of _ ?l'] exI [of _ ?s']) simp
next
  obtain s' where "read_rx sample_production_env ch 500000000 s = (Inr RxTimeout, s')"
    using sample_read_rx assms(2) by blast
  then show "\<exists>s'. rx_phase sample_loop_config (production_loop_env sample_production_env ch bw) None l s = (Continue (poll_iteration l), s')"
    by (simp add: rx_phase_def production_loop_env_def sample_loop_config_def loop_config_from_bounds_def)
qed

lemma sample_run:
  "\<exists>out s'. run_production_loop sample_production_env ch bw sample_loop_config sample_start = Some (Inr out, s') \<and>
     lo_tx_datagrams_processed out = 1"
proof -
  let ?env = "production_loop_env sample_production_env ch bw"
  let ?s0 = "sample_start\<lparr>ps_world := (1, [\<lparr>qd_report_index = 0, qd_peer = (), qd_data = []\<rparr>])\<rparr>"
  have clock: "le_clock ?env sample_start = (0, ?s0)"
    by (simp add: production_loop_env_def on_world_def sample_production_env_def sample_start_def production_loop_start_def)
  have s0: "hc_enabled (hb_config (ps_heartbeat ?s0)) = False" "ps_session ?s0 = sample_session"
    by (simp_all add: sample_start_def production_loop_start_def led_heartbeat_new_def sample_led_def)
  obtain l1 s1 where tx: "tx_phase sample_loop_config ?env 0 (next_iteration loop_start) ?s0 = (Continue l1, s1)"
    "ls_tx l1 = 1" "hc_enabled (hb_config (ps_heartbeat s1)) = False" "ps_session s1 = sample_session"
    using sample_phases(1) [OF s0, of 1 "next_iteration loop_start" ch bw] by (auto simp: next_iteration_def loop_start_def)
  obtain s2 where rx: "rx_phase sample_loop_config ?env None l1 s1 = (Continue (poll_iteration l1), s2)"
    using sample_phases(2) [OF tx(3,4)] by blast
  let ?l = "poll_iteration l1"
  have d: "lc_duration sample_loop_config = None" by (simp add: sample_loop_config_def loop_config_from_bounds_def)
  have 1: "bridge_iteration sample_loop_config ?env 0 loop_start ?s0 = (Continue ?l, s2)"
  proof -
    have "stop_phase sample_loop_config ?env None (next_iteration loop_start) ?s0 = (Continue (next_iteration loop_start), ?s0)"
      unfolding sample_stop_phase by (simp add: next_iteration_def loop_start_def)
    then show ?thesis
      unfolding bridge_iteration_def d Let_def by (simp only: option.map then_phase_def fst_conv snd_conv flow.case tx rx)
  qed
  have 2: "bridge_iteration sample_loop_config ?env 0 ?l s2 = (Return (Inr (loop_result StopTxDatagramLimit (next_iteration ?l))), s2)"
    by (simp add: bridge_iteration_def d sample_stop_phase then_phase_def next_iteration_def poll_iteration_def tx(2))
  have "bridge_loop sample_loop_config ?env 0 loop_start ?s0 = Some (Inr (loop_result StopTxDatagramLimit (next_iteration ?l)), s2)"
    by (subst bridge_loop.simps, simp only: 1 prod.case flow.case) (subst bridge_loop.simps, simp only: 2 prod.case flow.case)
  then show ?thesis
    unfolding run_production_loop_def run_production_bridge_loop_def clock
    by (simp add: loop_result_def next_iteration_def poll_iteration_def tx(2))
qed

lemma transmit_report_adds_up_witness:
  "\<exists>out s'. run_production_loop sample_production_env sample_channel_36 Mhz20 sample_loop_config sample_start = Some (Inr out, s') \<and>
     txt_datagrams_received (ps_tx s') = 1 \<and>
     unat (txt_submitted_frames (ps_tx s')) + unat (txt_dropped_datagrams (ps_tx s')) = 1 \<and>
     bind_total tb_datagrams_received (txt_tx_binds (ps_tx s')) = 1"
proof -
  obtain out s' where run: "run_production_loop sample_production_env sample_channel_36 Mhz20 sample_loop_config sample_start = Some (Inr out, s')"
    and n: "lo_tx_datagrams_processed out = 1"
    using sample_run by blast
  have "queue_indexes (length [()]) sample_production_env"
    by (auto simp: queue_indexes_def sample_production_env_def split: list.splits)
  from transmit_report_adds_up [OF this run [unfolded sample_start_def]] show ?thesis
    using run n by (auto simp: Let_def)
qed

end
