(* ===== verification/Tx_Ingress.thy ===== *)
theory Tx_Ingress
  imports Tx_Totals
begin

text \<open>
  The ingress of datagrams to transmit (\<open>wfb-radio-runtime/src/lib.rs\<close>): one receiver thread per
  UDP socket, all sending to one queue that the production loop polls, with shared counters.
  Every atomic operation of a thread is a step of its own, and threads and loop interleave freely.
\<close>

section \<open>Binding and spawning\<close>

definition PRODUCTION_TX_SOCKET_RCVBUF_BYTES :: nat where "PRODUCTION_TX_SOCKET_RCVBUF_BYTES = 4 * 1024 * 1024"
definition PRODUCTION_TX_RECEIVE_TIMEOUT :: nat where "PRODUCTION_TX_RECEIVE_TIMEOUT = 100 * 1000000"

record ('k, 'a) tx_ingress_socket =
  is_bind_addr :: 'a
  is_socket :: 'k
  is_report_index :: nat

text \<open>\<open>UdpSocket::bind\<close>, the receive buffer option, the read timeout and the renderings of their answers.\<close>

record ('io, 'k, 'a, 'w) ingress_env =
  ie_bind :: "'a \<Rightarrow> 'w \<Rightarrow> ('io, 'k) result \<times> 'w"
  ie_set_udp_receive_buffer :: "'k \<Rightarrow> nat \<Rightarrow> 'w \<Rightarrow> ('io, unit) result \<times> 'w"
  ie_set_read_timeout :: "'k \<Rightarrow> nat \<Rightarrow> 'w \<Rightarrow> ('io, unit) result \<times> 'w"
  ie_show_io :: "'io \<Rightarrow> string"
  ie_show_addr :: "'a \<Rightarrow> string"

definition configure_production_tx_ingress_socket ::
    "('io, 'k, 'a, 'w) ingress_env \<Rightarrow> 'k \<Rightarrow> 'a \<Rightarrow> nat \<Rightarrow> 'w \<Rightarrow> (radio_error, unit) result \<times> 'w" where
  "configure_production_tx_ingress_socket env socket bind_addr receive_buffer_bytes w =
     (case ie_set_udp_receive_buffer env socket receive_buffer_bytes w of
        (r, w) \<Rightarrow> (map_err (\<lambda>error. radio_error_new ''udp_rcvbuf_config_failed''
          (''failed to configure '' @ ie_show_addr env bind_addr @ '' receive buffer to '' @ show_nat receive_buffer_bytes @
           '' bytes: '' @ ie_show_io env error)) r, w))"

fun bind_sockets_loop ::
    "('io, 'k, 'a, 'w) ingress_env \<Rightarrow> nat \<Rightarrow> nat \<Rightarrow> 'a list \<Rightarrow> 'w \<Rightarrow>
     (radio_error, ('k, 'a) tx_ingress_socket list) result \<times> 'w" where
  "bind_sockets_loop env receive_buffer_bytes report_index [] w = (Inr [], w)"
| "bind_sockets_loop env receive_buffer_bytes report_index (bind_addr # bind_addrs) w =
     (case ie_bind env bind_addr w of
        (Inl error, w) \<Rightarrow> (Inl (radio_error_new ''udp_bind_failed''
          (''failed to bind TX ingress UDP socket '' @ ie_show_addr env bind_addr @ '': '' @ ie_show_io env error)), w)
      | (Inr socket, w) \<Rightarrow>
          (case configure_production_tx_ingress_socket env socket bind_addr receive_buffer_bytes w of
             (Inl error, w) \<Rightarrow> (Inl error, w)
           | (Inr _, w) \<Rightarrow>
               (let (rest, w) = bind_sockets_loop env receive_buffer_bytes (Suc report_index) bind_addrs w
                in (bind_res rest (\<lambda>sockets. Inr
                  (\<lparr>is_bind_addr = bind_addr, is_socket = socket, is_report_index = report_index\<rparr> # sockets)), w))))"

definition bind_production_tx_ingress_sockets ::
    "('io, 'k, 'a, 'w) ingress_env \<Rightarrow> 'a list \<Rightarrow> nat \<Rightarrow> 'w \<Rightarrow>
     (radio_error, ('k, 'a) tx_ingress_socket list) result \<times> 'w" where
  "bind_production_tx_ingress_sockets env bind_addrs receive_buffer_bytes w =
     bind_sockets_loop env receive_buffer_bytes 0 bind_addrs w"

section \<open>The receiver threads\<close>

text \<open>Where a thread is in its loop; the datagram it holds, once received.\<close>

datatype 'a receiver_pc =
    CheckStop
  | Receiving
  | CountDatagram 'a bytes
  | CountBytes 'a bytes
  | SendQueued 'a bytes
  | CountSendFailed
  | Exited

text \<open>What \<open>recv_from\<close> answers: a datagram, a timeout (or would block), another error.\<close>

datatype 'a recv_from = Datagram 'a bytes | RecvTimeout | RecvError

text \<open>What the threads and the loop share: the flag, the counters and the channel.\<close>

record 'a ingress_shared =
  sh_stop :: bool
  sh_counters :: tx_ingress_telemetry
  sh_queue :: "'a queued_datagram list"
  sh_receiver_alive :: bool

text \<open>
  One step of the thread of a socket.  \<open>fetch_add\<close> wraps; a send to a channel whose receiver is gone
  fails.
\<close>

fun receiver_turn ::
    "nat \<Rightarrow> 'a recv_from \<Rightarrow> 'a receiver_pc \<Rightarrow> 'a ingress_shared \<Rightarrow> 'a receiver_pc \<times> 'a ingress_shared" where
  "receiver_turn report_index ev CheckStop sh = (if sh_stop sh then Exited else Receiving, sh)"
| "receiver_turn report_index ev Receiving sh =
     (case ev of Datagram peer data \<Rightarrow> (CountDatagram peer data, sh) | RecvTimeout \<Rightarrow> (CheckStop, sh) | RecvError \<Rightarrow> (Exited, sh))"
| "receiver_turn report_index ev (CountDatagram peer data) sh =
     (CountBytes peer data, sh\<lparr>sh_counters := (sh_counters sh)
        \<lparr>it_datagrams_received := it_datagrams_received (sh_counters sh) + 1\<rparr>\<rparr>)"
| "receiver_turn report_index ev (CountBytes peer data) sh =
     (SendQueued peer data, sh\<lparr>sh_counters := (sh_counters sh)
        \<lparr>it_bytes_received := it_bytes_received (sh_counters sh) + of_nat (length data)\<rparr>\<rparr>)"
| "receiver_turn report_index ev (SendQueued peer data) sh =
     (if sh_receiver_alive sh
      then (CheckStop, sh\<lparr>sh_queue := sh_queue sh @ [\<lparr>qd_report_index = report_index, qd_peer = peer, qd_data = data\<rparr>]\<rparr>)
      else (CountSendFailed, sh))"
| "receiver_turn report_index ev CountSendFailed sh =
     (Exited, sh\<lparr>sh_counters := (sh_counters sh)\<lparr>it_queue_send_failed := it_queue_send_failed (sh_counters sh) + 1\<rparr>\<rparr>)"
| "receiver_turn report_index ev Exited sh = (Exited, sh)"

text \<open>\<open>try_recv\<close> of the loop: the senders are gone when every thread has left its loop.\<close>

definition ingress_try_recv :: "'a receiver_pc list \<Rightarrow> 'a ingress_shared \<Rightarrow> 'a try_recv \<times> 'a ingress_shared" where
  "ingress_try_recv threads sh =
     (case sh_queue sh of
        queued # rest \<Rightarrow> (Received queued, sh\<lparr>sh_queue := rest\<rparr>)
      | [] \<Rightarrow> (if list_all (\<lambda>pc. pc = Exited) threads then QueueDisconnected else QueueEmpty, sh))"

text \<open>Spawning: the read timeout of every socket, then its thread.\<close>

fun spawn_receivers_loop ::
    "('io, 'k, 'a, 'w) ingress_env \<Rightarrow> nat \<Rightarrow> ('k, 'a) tx_ingress_socket list \<Rightarrow> 'w \<Rightarrow>
     (radio_error, (nat \<times> 'a receiver_pc) list) result \<times> 'w" where
  "spawn_receivers_loop env receive_timeout [] w = (Inr [], w)"
| "spawn_receivers_loop env receive_timeout (tx_socket # sockets) w =
     (case ie_set_read_timeout env (is_socket tx_socket) receive_timeout w of
        (Inl error, w) \<Rightarrow> (Inl (radio_error_new ''udp_timeout_config_failed''
          (''failed to configure '' @ ie_show_addr env (is_bind_addr tx_socket) @ '' receive timeout: '' @ ie_show_io env error)), w)
      | (Inr _, w) \<Rightarrow>
          (let (rest, w) = spawn_receivers_loop env receive_timeout sockets w
           in (bind_res rest (\<lambda>threads. Inr ((is_report_index tx_socket, CheckStop) # threads)), w)))"

section \<open>Interleavings\<close>

text \<open>
  The ingress as a whole: the threads with the index of their socket, the shared part, what each
  socket delivered so far, what the loop took out of the queue so far, and whether the receiver is
  being dropped (the flag is set, the threads are joined, then the channel goes).
\<close>

record 'a ingress =
  ig_threads :: "(nat \<times> 'a receiver_pc) list"
  ig_shared :: "'a ingress_shared"
  ig_arrived :: "nat \<Rightarrow> ('a \<times> bytes) list"
  ig_taken :: "'a queued_datagram list"
  ig_dropping :: bool

definition ingress_start :: "(nat \<times> 'a receiver_pc) list \<Rightarrow> 'a ingress" where
  "ingress_start threads =
     \<lparr>ig_threads = threads,
      ig_shared = \<lparr>sh_stop = False,
        sh_counters = \<lparr>it_datagrams_received = 0, it_bytes_received = 0, it_queue_send_failed = 0\<rparr>,
        sh_queue = [], sh_receiver_alive = True\<rparr>,
      ig_arrived = (\<lambda>_. []), ig_taken = [], ig_dropping = False\<rparr>"

definition arrival :: "'a receiver_pc \<Rightarrow> 'a recv_from \<Rightarrow> ('a \<times> bytes) list" where
  "arrival pc ev = (case pc of Receiving \<Rightarrow> (case ev of Datagram peer data \<Rightarrow> [(peer, data)] | _ \<Rightarrow> []) | _ \<Rightarrow> [])"

inductive ingress_step :: "'a ingress \<Rightarrow> 'a ingress \<Rightarrow> bool" where
  Thread: "j < length (ig_threads g) \<Longrightarrow> ig_threads g ! j = (i, pc) \<Longrightarrow> receiver_turn i ev pc (ig_shared g) = (pc', sh') \<Longrightarrow>
    ingress_step g (g\<lparr>ig_threads := (ig_threads g)[j := (i, pc')], ig_shared := sh',
      ig_arrived := (ig_arrived g)(i := ig_arrived g i @ arrival pc ev)\<rparr>)"
| Poll: "\<not> ig_dropping g \<Longrightarrow> ingress_try_recv (map snd (ig_threads g)) (ig_shared g) = (Received queued, sh') \<Longrightarrow>
    ingress_step g (g\<lparr>ig_shared := sh', ig_taken := ig_taken g @ [queued]\<rparr>)"
| DropStop: "\<not> ig_dropping g \<Longrightarrow>
    ingress_step g (g\<lparr>ig_shared := (ig_shared g)\<lparr>sh_stop := True\<rparr>, ig_dropping := True\<rparr>)"
| DropChannel: "ig_dropping g \<Longrightarrow> list_all (\<lambda>(_, pc). pc = Exited) (ig_threads g) \<Longrightarrow>
    ingress_step g (g\<lparr>ig_shared := (ig_shared g)\<lparr>sh_receiver_alive := False\<rparr>\<rparr>)"

inductive_cases ingress_stepE: "ingress_step g g'"

section \<open>Nothing is lost\<close>

definition in_hand :: "'a receiver_pc \<Rightarrow> ('a \<times> bytes) list" where
  "in_hand pc = (case pc of CountDatagram p d \<Rightarrow> [(p, d)] | CountBytes p d \<Rightarrow> [(p, d)] | SendQueued p d \<Rightarrow> [(p, d)] | _ \<Rightarrow> [])"

definition from_socket :: "nat \<Rightarrow> 'a queued_datagram list \<Rightarrow> ('a \<times> bytes) list" where
  "from_socket i qs = map (\<lambda>q. (qd_peer q, qd_data q)) (filter (\<lambda>q. qd_report_index q = i) qs)"

lemma from_socket_simps [simp]:
  "from_socket i [] = []" "from_socket i (qs @ rs) = from_socket i qs @ from_socket i rs"
  "from_socket i (q # qs) = (if qd_report_index q = i then [(qd_peer q, qd_data q)] else []) @ from_socket i qs"
  by (simp_all add: from_socket_def)

definition ingress_inv :: "'a ingress \<Rightarrow> bool" where
  "ingress_inv g \<longleftrightarrow>
     distinct (map fst (ig_threads g)) \<and>
     (\<forall>(i, pc) \<in> set (ig_threads g).
        ig_arrived g i = from_socket i (ig_taken g) @ from_socket i (sh_queue (ig_shared g)) @ in_hand pc \<and> pc \<noteq> CountSendFailed) \<and>
     (\<forall>q \<in> set (ig_taken g @ sh_queue (ig_shared g)). qd_report_index q \<in> fst ` set (ig_threads g)) \<and>
     it_queue_send_failed (sh_counters (ig_shared g)) = 0 \<and>
     (\<not> sh_receiver_alive (ig_shared g) \<longrightarrow> list_all (\<lambda>(_, pc). pc = Exited) (ig_threads g))"

text \<open>The counters run behind the sockets and ahead of the queue by what the threads hold.\<close>

definition counted_pc :: "'a receiver_pc \<Rightarrow> nat" where
  "counted_pc pc = (case pc of CountBytes _ _ \<Rightarrow> 1 | SendQueued _ _ \<Rightarrow> 1 | _ \<Rightarrow> 0)"

definition ingress_counted :: "'a ingress \<Rightarrow> bool" where
  "ingress_counted g \<longleftrightarrow> it_datagrams_received (sh_counters (ig_shared g)) =
     of_nat (length (ig_taken g) + length (sh_queue (ig_shared g)) + (\<Sum>(i, pc) \<leftarrow> ig_threads g. counted_pc pc))"

lemma turn_effect:
  assumes "receiver_turn i ev pc sh = (pc', sh')" "pc \<noteq> CountSendFailed" "\<not> sh_receiver_alive sh \<longrightarrow> pc = Exited"
  shows "from_socket i (sh_queue sh') @ in_hand pc' = from_socket i (sh_queue sh) @ in_hand pc @ arrival pc ev"
    and "k \<noteq> i \<Longrightarrow> from_socket k (sh_queue sh') = from_socket k (sh_queue sh)"
    and "set (sh_queue sh') \<subseteq> set (sh_queue sh) \<union> {q. qd_report_index q = i}"
    and "it_queue_send_failed (sh_counters sh') = it_queue_send_failed (sh_counters sh)"
    and "sh_receiver_alive sh' = sh_receiver_alive sh" and "sh_stop sh' = sh_stop sh"
    and "pc' \<noteq> CountSendFailed" and "pc = Exited \<longrightarrow> pc' = Exited"
    and "length (sh_queue sh') + counted_pc pc' = length (sh_queue sh) + counted_pc pc + (case pc of CountDatagram _ _ \<Rightarrow> 1 | _ \<Rightarrow> 0)"
    and "it_datagrams_received (sh_counters sh') =
      it_datagrams_received (sh_counters sh) + of_nat (case pc of CountDatagram _ _ \<Rightarrow> 1 | _ \<Rightarrow> 0)"
  using assms
  by (cases pc; cases ev; auto simp: in_hand_def arrival_def counted_pc_def split: if_splits)+

lemma thread_inv:
  assumes inv: "ingress_inv g" and j: "j < length (ig_threads g)" "ig_threads g ! j = (i, pc)"
    and turn: "receiver_turn i ev pc (ig_shared g) = (pc', sh')"
  shows "ingress_inv (g\<lparr>ig_threads := (ig_threads g)[j := (i, pc')], ig_shared := sh',
      ig_arrived := (ig_arrived g)(i := ig_arrived g i @ arrival pc ev)\<rparr>)"
proof -
  have mem: "(i, pc) \<in> set (ig_threads g)" using j by (metis nth_mem)
  then have pc: "pc \<noteq> CountSendFailed" "\<not> sh_receiver_alive (ig_shared g) \<longrightarrow> pc = Exited"
    "ig_arrived g i = from_socket i (ig_taken g) @ from_socket i (sh_queue (ig_shared g)) @ in_hand pc"
    using inv by (auto simp: ingress_inv_def list_all_iff)
  note eff = turn_effect [OF turn pc(1,2)]
  have keys: "map fst ((ig_threads g)[j := (i, pc')]) = map fst (ig_threads g)"
    using j by (simp add: map_update) (metis fst_conv list_update_id map_update nth_map)
  then have keyset: "fst ` set ((ig_threads g)[j := (i, pc')]) = fst ` set (ig_threads g)" by (metis list.set_map)
  have others: "(k, q) \<in> set (ig_threads g) \<and> k \<noteq> i \<or> (k, q) = (i, pc')" if m: "(k, q) \<in> set ((ig_threads g)[j := (i, pc')])" for k q
  proof -
    obtain l where l: "l < length (ig_threads g)" "(ig_threads g)[j := (i, pc')] ! l = (k, q)"
      using m unfolding in_set_conv_nth by auto
    show ?thesis
    proof (cases "l = j")
      case False
      then have "ig_threads g ! l = (k, q)" using l by simp
      moreover have "fst (ig_threads g ! l) \<noteq> fst (ig_threads g ! j)"
        using inv False l(1) j(1) nth_eq_iff_index_eq [of "map fst (ig_threads g)" l j] by (auto simp: ingress_inv_def)
      ultimately show ?thesis using j l(1) by (auto simp: in_set_conv_nth)
    qed (use l j in auto)
  qed
  have "list_all (\<lambda>(_, pc). pc = Exited) ((ig_threads g)[j := (i, pc')])" if "\<not> sh_receiver_alive sh'"
    using that inv eff(5,8) pc(2) others by (fastforce simp: ingress_inv_def list_all_iff)
  moreover have "qd_report_index q \<in> fst ` set (ig_threads g)" if "q \<in> set (ig_taken g @ sh_queue sh')" for q
    using that inv eff(3) mem by (force simp: ingress_inv_def)
  moreover have "((ig_arrived g)(i := ig_arrived g i @ arrival pc ev)) k =
      from_socket k (ig_taken g) @ from_socket k (sh_queue sh') @ in_hand q \<and> q \<noteq> CountSendFailed"
    if "(k, q) \<in> set ((ig_threads g)[j := (i, pc')])" for k q
    using others [OF that] inv eff(1,2,7) pc(3) by (auto simp: ingress_inv_def)
  ultimately show ?thesis
    using inv eff(4) by (auto simp: ingress_inv_def keys keyset)
qed

lemma step_inv: "ingress_step g g' \<Longrightarrow> ingress_inv g \<Longrightarrow> ingress_inv g'"
proof (induction rule: ingress_step.induct)
  case (Thread j g i pc ev pc' sh')
  then show ?case using thread_inv by blast
next
  case (Poll g queued sh')
  then obtain rest where "sh_queue (ig_shared g) = queued # rest" "sh' = (ig_shared g)\<lparr>sh_queue := rest\<rparr>"
    by (auto simp: ingress_try_recv_def split: list.splits if_splits)
  with Poll.prems show ?case by (fastforce simp: ingress_inv_def)
qed (auto simp: ingress_inv_def)

lemma step_counted: "ingress_step g g' \<Longrightarrow> ingress_inv g \<Longrightarrow> ingress_counted g \<Longrightarrow> ingress_counted g'"
proof (induction rule: ingress_step.induct)
  case (Thread j g i pc ev pc' sh')
  then have "(i, pc) \<in> set (ig_threads g)" by (metis nth_mem)
  then have pc: "pc \<noteq> CountSendFailed" "\<not> sh_receiver_alive (ig_shared g) \<longrightarrow> pc = Exited"
    using Thread.prems(1) by (auto simp: ingress_inv_def list_all_iff)
  note eff = turn_effect [OF Thread.hyps(3) pc]
  let ?c = "\<lambda>(i :: nat, pc). counted_pc pc"
  have "sum_list (map ?c ((ig_threads g)[j := (i, pc')])) = sum_list (map ?c (ig_threads g)) + counted_pc pc' - counted_pc pc"
    unfolding map_update using Thread.hyps(1,2) by (subst sum_list_update) simp_all
  moreover have "counted_pc pc \<le> sum_list (map ?c (ig_threads g))"
    using elem_le_sum_list [of j "map ?c (ig_threads g)"] Thread.hyps(1,2) by simp
  ultimately have n: "length (ig_taken g) + length (sh_queue sh') + sum_list (map ?c ((ig_threads g)[j := (i, pc')])) =
      length (ig_taken g) + length (sh_queue (ig_shared g)) + sum_list (map ?c (ig_threads g)) + (case pc of CountDatagram _ _ \<Rightarrow> 1 | _ \<Rightarrow> 0)"
    using eff(9) by linarith
  have "it_datagrams_received (sh_counters sh') = of_nat (length (ig_taken g) + length (sh_queue (ig_shared g)) +
      sum_list (map ?c (ig_threads g)) + (case pc of CountDatagram _ _ \<Rightarrow> 1 | _ \<Rightarrow> 0))"
    unfolding eff(10) of_nat_add using Thread.prems(2) by (simp add: ingress_counted_def)
  then show ?case unfolding n [symmetric] by (simp add: ingress_counted_def)
next
  case (Poll g queued sh')
  then obtain rest where "sh_queue (ig_shared g) = queued # rest" "sh' = (ig_shared g)\<lparr>sh_queue := rest\<rparr>"
    by (auto simp: ingress_try_recv_def split: list.splits if_splits)
  with Poll.prems show ?case by (simp add: ingress_counted_def)
qed (simp_all add: ingress_counted_def)

lemma spawned_threads:
  "spawn_receivers_loop env t sockets w = (Inr threads, w') \<Longrightarrow> threads = map (\<lambda>s. (is_report_index s, CheckStop)) sockets"
  by (induction sockets arbitrary: w threads) (auto simp: result_simps split: prod.splits sum.splits)

lemma bound_sockets:
  "bind_sockets_loop env n i addrs w = (Inr sockets, w') \<Longrightarrow>
     map is_report_index sockets = [i..<i + length addrs] \<and> map is_bind_addr sockets = addrs"
proof (induction env n i addrs w arbitrary: sockets w' rule: bind_sockets_loop.induct)
  case (2 env n i a as w)
  then show ?case
    by (auto simp: result_simps upt_conv_Cons split: prod.splits sum.splits simp del: upt_Suc)
qed auto


text \<open>One bind, one datagram taken by its thread, queued and polled.\<close>

definition sample_ingress_env :: "(unit, unit, unit, unit) ingress_env" where
  "sample_ingress_env = \<lparr>ie_bind = (\<lambda>_ w. (Inr (), w)), ie_set_udp_receive_buffer = (\<lambda>_ _ w. (Inr (), w)),
     ie_set_read_timeout = (\<lambda>_ _ w. (Inr (), w)), ie_show_io = (\<lambda>_. []), ie_show_addr = (\<lambda>_. [])\<rparr>"

lemma one_thread_step:
  assumes "ig_threads g = [(0, pc)]" "receiver_turn 0 ev pc (ig_shared g) = (pc', sh')"
  shows "ingress_step g (g\<lparr>ig_threads := [(0, pc')], ig_shared := sh',
      ig_arrived := (ig_arrived g)(0 := ig_arrived g 0 @ arrival pc ev)\<rparr>)"
  using Thread [of 0 g 0 pc ev pc' sh'] assms by simp

lemma sample_ingress_run:
  "\<exists>g. ingress_step\<^sup>*\<^sup>* (ingress_start [(0, CheckStop)]) g \<and> ig_threads g = [(0, CountDatagram () [1, 2])] \<and> ig_arrived g 0 = [((), [1, 2])]"
proof -
  let ?g0 = "ingress_start [(0, CheckStop)] :: unit ingress"
  let ?g1 = "?g0\<lparr>ig_threads := [(0, Receiving)]\<rparr>"
  have 1: "ingress_step ?g0 ?g1"
    using one_thread_step [of ?g0 CheckStop RecvTimeout Receiving "ig_shared ?g0"] by (simp add: ingress_start_def arrival_def fun_upd_idem)
  have 2: "ingress_step ?g1 (?g1\<lparr>ig_threads := [(0, CountDatagram () [1, 2])], ig_arrived := (\<lambda>_. [])(0 := [((), [1, 2])])\<rparr>)"
    using one_thread_step [of ?g1 Receiving "Datagram () [1, 2]" "CountDatagram () [1, 2]" "ig_shared ?g1"]
    by (simp add: ingress_start_def arrival_def)
  let ?g2 = "?g1\<lparr>ig_threads := [(0, CountDatagram () [1, 2])], ig_arrived := (\<lambda>_. [])(0 := [((), [1, 2])])\<rparr>"
  have "ingress_step\<^sup>*\<^sup>* ?g0 ?g1" by (rule r_into_rtranclp) (rule 1)
  then have "ingress_step\<^sup>*\<^sup>* ?g0 ?g2" using 2 by (rule rtranclp.rtrancl_into_rtrancl)
  then show ?thesis by (intro exI [of _ ?g2]) simp
qed


section \<open>Shutdown\<close>

text \<open>Once the flag is set, a thread leaves its loop within five of its own steps, whatever the socket answers.\<close>

definition exit_rank :: "'a receiver_pc \<Rightarrow> nat" where
  "exit_rank pc = (case pc of Receiving \<Rightarrow> 5 | CountDatagram _ _ \<Rightarrow> 4 | CountBytes _ _ \<Rightarrow> 3 | SendQueued _ _ \<Rightarrow> 2
     | CheckStop \<Rightarrow> 1 | CountSendFailed \<Rightarrow> 1 | Exited \<Rightarrow> 0)"

lemma exit_rank_decreases:
  "sh_stop sh \<Longrightarrow> pc \<noteq> Exited \<Longrightarrow> exit_rank (fst (receiver_turn i ev pc sh)) < exit_rank pc"
  by (cases pc; cases ev) (auto simp: exit_rank_def)

lemma turn_keeps_stop: "sh_stop (snd (receiver_turn i ev pc sh)) = sh_stop sh"
  by (cases pc; cases ev) auto

text \<open>The total over all threads: what \<open>drop\<close> still has to wait for.\<close>

definition work_left :: "'a ingress \<Rightarrow> nat" where
  "work_left g = (\<Sum>(i, pc) \<leftarrow> ig_threads g. exit_rank pc)"

text \<open>A step of a thread that has not left its loop.\<close>

definition thread_step :: "'a ingress \<Rightarrow> 'a ingress \<Rightarrow> bool" where
  "thread_step g g' \<longleftrightarrow> (\<exists>j i pc ev pc' sh'. j < length (ig_threads g) \<and> ig_threads g ! j = (i, pc) \<and> pc \<noteq> Exited \<and>
     receiver_turn i ev pc (ig_shared g) = (pc', sh') \<and>
     g' = g\<lparr>ig_threads := (ig_threads g)[j := (i, pc')], ig_shared := sh',
       ig_arrived := (ig_arrived g)(i := ig_arrived g i @ arrival pc ev)\<rparr>)"

lemma thread_step_work:
  assumes "thread_step g g'" "sh_stop (ig_shared g)"
  shows "work_left g' < work_left g \<and> sh_stop (ig_shared g') \<and> length (ig_threads g') = length (ig_threads g)"
proof -
  obtain j i pc ev pc' sh' where j: "j < length (ig_threads g)" "ig_threads g ! j = (i, pc)" "pc \<noteq> Exited"
    and turn: "receiver_turn i ev pc (ig_shared g) = (pc', sh')"
    and g': "g' = g\<lparr>ig_threads := (ig_threads g)[j := (i, pc')], ig_shared := sh',
       ig_arrived := (ig_arrived g)(i := ig_arrived g i @ arrival pc ev)\<rparr>"
    using assms(1) by (auto simp: thread_step_def)
  let ?c = "\<lambda>(i :: nat, pc). exit_rank pc"
  have "exit_rank pc' < exit_rank pc" using exit_rank_decreases [OF assms(2) j(3), of i ev] turn by simp
  moreover have "exit_rank pc \<le> sum_list (map ?c (ig_threads g))"
    using elem_le_sum_list [of j "map ?c (ig_threads g)"] j by simp
  ultimately have "work_left g' < work_left g"
    unfolding work_left_def g' using j by (simp add: map_update sum_list_update)
  moreover have "sh_stop sh'" using turn_keeps_stop [of i ev pc "ig_shared g"] turn assms(2) by simp
  ultimately show ?thesis by (simp add: g')
qed

text \<open>
  C12. Dropping the receiver ends: once the stop flag is set, the threads can take at most five
  steps each before all of them have left their loops, and as long as one has not, it can take a
  step; so the joins return as long as the socket calls do.
\<close>

theorem drop_joins:
  assumes "sh_stop (ig_shared g)" and "(thread_step ^^ n) g g'"
  shows "n \<le> 5 * length (ig_threads g) \<and>
    (list_all (\<lambda>(_, pc). pc = Exited) (ig_threads g') \<or> (\<exists>g''. thread_step g' g''))"
proof
  have "(thread_step ^^ n) g g' \<Longrightarrow> sh_stop (ig_shared g) \<Longrightarrow> n + work_left g' \<le> work_left g" for n g'
  proof (induction n arbitrary: g')
    case (Suc n)
    then obtain g1 where g1: "(thread_step ^^ n) g g1" "thread_step g1 g'" by auto
    have "sh_stop (ig_shared g1)"
      using g1(1) Suc.prems(2) by (induction n arbitrary: g1) (auto dest: thread_step_work)
    with Suc.IH [OF g1(1) Suc.prems(2)] thread_step_work [OF g1(2)] show ?case by simp
  qed simp
  then have "n \<le> work_left g" using assms by fastforce
  also have "work_left g \<le> 5 * length (ig_threads g)"
  proof -
    have "exit_rank pc \<le> 5" for pc :: "'a receiver_pc" by (cases pc) (simp_all add: exit_rank_def)
    then have "sum_list (map (\<lambda>(i, pc). exit_rank pc) ts) \<le> 5 * length ts" for ts :: "(nat \<times> 'a receiver_pc) list"
      by (induction ts) (auto simp: add_mono)
    then show ?thesis by (simp add: work_left_def)
  qed
  finally show "n \<le> 5 * length (ig_threads g)" .
  show "list_all (\<lambda>(_, pc). pc = Exited) (ig_threads g') \<or> (\<exists>g''. thread_step g' g'')"
  proof (cases "list_all (\<lambda>(_, pc). pc = Exited) (ig_threads g')")
    case False
    then obtain j where "j < length (ig_threads g')" "snd (ig_threads g' ! j) \<noteq> Exited"
      by (auto simp: list_all_length case_prod_beta)
    then obtain i pc where "j < length (ig_threads g')" "ig_threads g' ! j = (i, pc)" "pc \<noteq> Exited" by (metis surj_pair snd_conv)
    then have "\<exists>g''. thread_step g' g''"
      unfolding thread_step_def by (metis surj_pair)
    then show ?thesis ..
  qed simp
qed

lemma drop_joins_witness:
  "\<exists>g'. (thread_step ^^ 1) (ingress_start [(0, CheckStop)]\<lparr>ig_shared := (ig_shared (ingress_start [(0, CheckStop)]))\<lparr>sh_stop := True\<rparr>\<rparr>) g' \<and>
     list_all (\<lambda>(_, pc). pc = Exited) (ig_threads (g' :: unit ingress))"
proof -
  let ?g = "ingress_start [(0, CheckStop)]\<lparr>ig_shared := (ig_shared (ingress_start [(0, CheckStop)]))\<lparr>sh_stop := True\<rparr>\<rparr> :: unit ingress"
  obtain g' where g': "thread_step ?g g'" "ig_threads g' = [(0, Exited)]"
  proof
    let ?g' = "?g\<lparr>ig_threads := [(0, Exited)]\<rparr>"
    show "thread_step ?g ?g'"
      unfolding thread_step_def
      by (rule exI [of _ 0], rule exI [of _ 0], rule exI [of _ CheckStop], rule exI [of _ RecvTimeout], rule exI [of _ Exited],
          rule exI [of _ "ig_shared ?g"]) (simp add: ingress_start_def arrival_def fun_upd_idem)
    show "ig_threads ?g' = [(0, Exited)]" by simp
  qed
  have "sh_stop (ig_shared ?g)" by (simp add: ingress_start_def)
  from drop_joins [OF this, of 1 g'] g' show ?thesis by auto
qed

end
