(* ===== verification/Tx_Power.thy ===== *)
theory Tx_Power
  imports Chip_Setup
begin

text \<open>
  Transmit power of the production runtime (\<open>wfb-radio-runtime/src/tx_power.rs\<close>): the per-rate gain
  registers of the two RF paths, the manual index, and the plan derived from the EFUSE.  Arms that
  the code marks \<open>unreachable!\<close> are \<open>undefined\<close>; sums that the code makes in \<open>i16\<close> stay between
  -12 and 87 and are integers.
\<close>

section \<open>Registers\<close>

definition RTL8812AU_EFUSE_TX_POWER_START :: nat where "RTL8812AU_EFUSE_TX_POWER_START = 0x10"
definition RTL8812AU_EFUSE_TX_POWER_LEN :: nat where "RTL8812AU_EFUSE_TX_POWER_LEN = 84"
definition RTL8812AU_TX_POWER_INDEX_MAX :: u8 where "RTL8812AU_TX_POWER_INDEX_MAX = 0x3f"

definition TX_POWER_AGC_PATH_A_REGISTERS :: "(string \<times> u16) list" where
  "TX_POWER_AGC_PATH_A_REGISTERS =
     [(''rA_TxAGC_CCK'', REG_TX_AGC_A_CCK_JAGUAR),
      (''rA_TxAGC_OFDM18_OFDM6'', REG_TX_AGC_A_OFDM18_OFDM6_JAGUAR),
      (''rA_TxAGC_OFDM54_OFDM24'', REG_TX_AGC_A_OFDM54_OFDM24_JAGUAR),
      (''rA_TxAGC_MCS3_MCS0'', REG_TX_AGC_A_MCS3_MCS0_JAGUAR),
      (''rA_TxAGC_MCS7_MCS4'', REG_TX_AGC_A_MCS7_MCS4_JAGUAR),
      (''rA_TxAGC_NSS1_7_NSS1_4'', REG_TX_AGC_A_NSS1_7_NSS1_4_JAGUAR),
      (''rA_TxAGC_NSS1_11_NSS1_8'', REG_TX_AGC_A_NSS1_11_NSS1_8_JAGUAR),
      (''rA_TxAGC_NSS1_3_NSS1_0'', REG_TX_AGC_A_NSS1_3_NSS1_0_JAGUAR),
      (''rA_TxAGC_NSS2_3_NSS2_0'', REG_TX_AGC_A_NSS2_3_NSS2_0_JAGUAR),
      (''rA_TxAGC_NSS2_7_NSS2_4'', REG_TX_AGC_A_NSS2_7_NSS2_4_JAGUAR),
      (''rA_TxAGC_NSS2_11_NSS2_8'', REG_TX_AGC_A_NSS2_11_NSS2_8_JAGUAR),
      (''rA_TxAGC_NSS3_3_NSS3_0'', REG_TX_AGC_A_NSS3_3_NSS3_0_JAGUAR)]"

definition TX_POWER_AGC_PATH_B_REGISTERS :: "(string \<times> u16) list" where
  "TX_POWER_AGC_PATH_B_REGISTERS =
     [(''rB_TxAGC_CCK'', REG_TX_AGC_B_CCK_JAGUAR),
      (''rB_TxAGC_OFDM18_OFDM6'', REG_TX_AGC_B_OFDM18_OFDM6_JAGUAR),
      (''rB_TxAGC_OFDM54_OFDM24'', REG_TX_AGC_B_OFDM54_OFDM24_JAGUAR),
      (''rB_TxAGC_MCS3_MCS0'', REG_TX_AGC_B_MCS3_MCS0_JAGUAR),
      (''rB_TxAGC_MCS7_MCS4'', REG_TX_AGC_B_MCS7_MCS4_JAGUAR),
      (''rB_TxAGC_NSS1_7_NSS1_4'', REG_TX_AGC_B_NSS1_7_NSS1_4_JAGUAR),
      (''rB_TxAGC_NSS1_11_NSS1_8'', REG_TX_AGC_B_NSS1_11_NSS1_8_JAGUAR),
      (''rB_TxAGC_NSS1_3_NSS1_0'', REG_TX_AGC_B_NSS1_3_NSS1_0_JAGUAR),
      (''rB_TxAGC_NSS2_3_NSS2_0'', REG_TX_AGC_B_NSS2_3_NSS2_0_JAGUAR),
      (''rB_TxAGC_NSS2_7_NSS2_4'', REG_TX_AGC_B_NSS2_7_NSS2_4_JAGUAR),
      (''rB_TxAGC_NSS2_11_NSS2_8'', REG_TX_AGC_B_NSS2_11_NSS2_8_JAGUAR),
      (''rB_TxAGC_NSS3_3_NSS3_0'', REG_TX_AGC_B_NSS3_3_NSS3_0_JAGUAR)]"

definition rtl8812au_tx_power_agc_value :: "u8 \<Rightarrow> u32" where
  "rtl8812au_tx_power_agc_value index = ucast index * 0x01010101"

fun rtl8812au_tx_power_agc_registers :: "rf_path \<Rightarrow> (string \<times> u16) list" where
  "rtl8812au_tx_power_agc_registers RfA = TX_POWER_AGC_PATH_A_REGISTERS"
| "rtl8812au_tx_power_agc_registers RfB = TX_POWER_AGC_PATH_B_REGISTERS"
| "rtl8812au_tx_power_agc_registers RfBoth = TX_POWER_AGC_PATH_A_REGISTERS @ TX_POWER_AGC_PATH_B_REGISTERS"

record register_write_report =
  rr_register_name :: string
  rr_address :: u16
  rr_address_hex :: string
  rr_width :: string
  rr_before :: u32
  rr_before_hex :: string
  rr_written :: u32
  rr_written_hex :: string
  rr_after :: u32
  rr_after_hex :: string
  rr_changed :: bool
  rr_write_counters :: radio_counters

definition write32_register_report ::
    "('r, 't) reg_env \<Rightarrow> string \<Rightarrow> u16 \<Rightarrow> u32 \<Rightarrow> ('t, register_write_report) reg_op" where
  "write32_register_report env register_name address v =
     and_then current_counters (\<lambda>before_counters.
     and_then (read32_with_counter env address register_name ''pre-write'') (\<lambda>before.
     and_then (write32_with_counter env address v register_name ''write'') (\<lambda>_.
     and_then (read32_with_counter env address register_name ''post-write'') (\<lambda>after.
     and_then current_counters (\<lambda>counters.
     ret \<lparr>rr_register_name = register_name, rr_address = address, rr_address_hex = format_register_address address,
          rr_width = ''u32'', rr_before = before, rr_before_hex = format_register_value before 8,
          rr_written = v, rr_written_hex = format_register_value v 8, rr_after = after,
          rr_after_hex = format_register_value after 8, rr_changed = (before \<noteq> after),
          rr_write_counters = counters_saturating_sub counters before_counters\<rparr>)))))"

section \<open>Rates\<close>

datatype tx_power_safety_profile = MaxIndex | LinuxCh36Ht20

datatype tx_power_rate_family = FamOfdm | FamHt | FamVht

record tx_power_rate_lane_spec =
  ln_lane :: u8
  ln_rate :: string
  ln_rate_section :: string
  ln_family :: tx_power_rate_family
  ln_tx_streams :: u8
  ln_by_rate_offset :: i8

record tx_power_efuse_register_spec =
  es_name :: string
  es_address :: u16
  es_path :: rf_path
  es_lanes :: "tx_power_rate_lane_spec list"

definition tx_power_lanes :: "(u8 \<times> string \<times> string \<times> tx_power_rate_family \<times> u8 \<times> i8) list \<Rightarrow> tx_power_rate_lane_spec list" where
  "tx_power_lanes entries = map (\<lambda>(lane, rate, rate_section, family, tx_streams, by_rate_offset).
     \<lparr>ln_lane = lane, ln_rate = rate, ln_rate_section = rate_section, ln_family = family,
      ln_tx_streams = tx_streams, ln_by_rate_offset = by_rate_offset\<rparr>) entries"

definition tx_power_efuse_path_register_specs :: "rf_path \<Rightarrow> tx_power_efuse_register_spec list" where
  "tx_power_efuse_path_register_specs path =
     (let (ofdm_low, ofdm_high, ht1_low, ht1_high, ht2_low, ht2_high, vht1_low, vht1_high, vht_mixed, vht2_mid, vht2_high) =
       (case path of
          RfA \<Rightarrow>
           (REG_TX_AGC_A_OFDM18_OFDM6_JAGUAR,
            REG_TX_AGC_A_OFDM54_OFDM24_JAGUAR,
            REG_TX_AGC_A_MCS3_MCS0_JAGUAR,
            REG_TX_AGC_A_MCS7_MCS4_JAGUAR,
            REG_TX_AGC_A_NSS1_7_NSS1_4_JAGUAR,
            REG_TX_AGC_A_NSS1_11_NSS1_8_JAGUAR,
            REG_TX_AGC_A_NSS1_3_NSS1_0_JAGUAR,
            REG_TX_AGC_A_NSS2_3_NSS2_0_JAGUAR,
            REG_TX_AGC_A_NSS2_7_NSS2_4_JAGUAR,
            REG_TX_AGC_A_NSS2_11_NSS2_8_JAGUAR,
            REG_TX_AGC_A_NSS3_3_NSS3_0_JAGUAR)
        | RfB \<Rightarrow>
           (REG_TX_AGC_B_OFDM18_OFDM6_JAGUAR,
            REG_TX_AGC_B_OFDM54_OFDM24_JAGUAR,
            REG_TX_AGC_B_MCS3_MCS0_JAGUAR,
            REG_TX_AGC_B_MCS7_MCS4_JAGUAR,
            REG_TX_AGC_B_NSS1_7_NSS1_4_JAGUAR,
            REG_TX_AGC_B_NSS1_11_NSS1_8_JAGUAR,
            REG_TX_AGC_B_NSS1_3_NSS1_0_JAGUAR,
            REG_TX_AGC_B_NSS2_3_NSS2_0_JAGUAR,
            REG_TX_AGC_B_NSS2_7_NSS2_4_JAGUAR,
            REG_TX_AGC_B_NSS2_11_NSS2_8_JAGUAR,
            REG_TX_AGC_B_NSS3_3_NSS3_0_JAGUAR)
        | RfBoth \<Rightarrow> undefined)
      in [\<lparr>es_name = (case path of RfA \<Rightarrow> ''rA_TxAGC_OFDM18_OFDM6'' | RfB \<Rightarrow> ''rB_TxAGC_OFDM18_OFDM6'' | RfBoth \<Rightarrow> undefined), es_address = ofdm_low, es_path = path,
          es_lanes = tx_power_lanes
           [(0, ''ofdm_6m'', ''ofdm'', FamOfdm, 1, 14),
            (1, ''ofdm_9m'', ''ofdm'', FamOfdm, 1, 14),
            (2, ''ofdm_12m'', ''ofdm'', FamOfdm, 1, 12),
            (3, ''ofdm_18m'', ''ofdm'', FamOfdm, 1, 12)]\<rparr>,
         \<lparr>es_name = (case path of RfA \<Rightarrow> ''rA_TxAGC_OFDM54_OFDM24'' | RfB \<Rightarrow> ''rB_TxAGC_OFDM54_OFDM24'' | RfBoth \<Rightarrow> undefined), es_address = ofdm_high, es_path = path,
          es_lanes = tx_power_lanes
           [(0, ''ofdm_24m'', ''ofdm'', FamOfdm, 1, 10),
            (1, ''ofdm_36m'', ''ofdm'', FamOfdm, 1, 6),
            (2, ''ofdm_48m'', ''ofdm'', FamOfdm, 1, 2),
            (3, ''ofdm_54m'', ''ofdm'', FamOfdm, 1, 0)]\<rparr>,
         \<lparr>es_name = (case path of RfA \<Rightarrow> ''rA_TxAGC_MCS3_MCS0'' | RfB \<Rightarrow> ''rB_TxAGC_MCS3_MCS0'' | RfBoth \<Rightarrow> undefined), es_address = ht1_low, es_path = path,
          es_lanes = tx_power_lanes
           [(0, ''mcs0'', ''ht_1ss'', FamHt, 1, 16),
            (1, ''mcs1'', ''ht_1ss'', FamHt, 1, 16),
            (2, ''mcs2'', ''ht_1ss'', FamHt, 1, 14),
            (3, ''mcs3'', ''ht_1ss'', FamHt, 1, 12)]\<rparr>,
         \<lparr>es_name = (case path of RfA \<Rightarrow> ''rA_TxAGC_MCS7_MCS4'' | RfB \<Rightarrow> ''rB_TxAGC_MCS7_MCS4'' | RfBoth \<Rightarrow> undefined), es_address = ht1_high, es_path = path,
          es_lanes = tx_power_lanes
           [(0, ''mcs4'', ''ht_1ss'', FamHt, 1, 8),
            (1, ''mcs5'', ''ht_1ss'', FamHt, 1, 4),
            (2, ''mcs6'', ''ht_1ss'', FamHt, 1, 2),
            (3, ''mcs7'', ''ht_1ss'', FamHt, 1, 0)]\<rparr>,
         \<lparr>es_name = (case path of RfA \<Rightarrow> ''rA_TxAGC_NSS1_7_NSS1_4'' | RfB \<Rightarrow> ''rB_TxAGC_NSS1_7_NSS1_4'' | RfBoth \<Rightarrow> undefined), es_address = ht2_low, es_path = path,
          es_lanes = tx_power_lanes
           [(0, ''mcs8'', ''ht_2ss'', FamHt, 2, 16),
            (1, ''mcs9'', ''ht_2ss'', FamHt, 2, 16),
            (2, ''mcs10'', ''ht_2ss'', FamHt, 2, 14),
            (3, ''mcs11'', ''ht_2ss'', FamHt, 2, 12)]\<rparr>,
         \<lparr>es_name = (case path of RfA \<Rightarrow> ''rA_TxAGC_NSS1_11_NSS1_8'' | RfB \<Rightarrow> ''rB_TxAGC_NSS1_11_NSS1_8'' | RfBoth \<Rightarrow> undefined), es_address = ht2_high, es_path = path,
          es_lanes = tx_power_lanes
           [(0, ''mcs12'', ''ht_2ss'', FamHt, 2, 8),
            (1, ''mcs13'', ''ht_2ss'', FamHt, 2, 4),
            (2, ''mcs14'', ''ht_2ss'', FamHt, 2, 2),
            (3, ''mcs15'', ''ht_2ss'', FamHt, 2, 0)]\<rparr>,
         \<lparr>es_name = (case path of RfA \<Rightarrow> ''rA_TxAGC_NSS1_3_NSS1_0'' | RfB \<Rightarrow> ''rB_TxAGC_NSS1_3_NSS1_0'' | RfBoth \<Rightarrow> undefined), es_address = vht1_low, es_path = path,
          es_lanes = tx_power_lanes
           [(0, ''vht1ss_mcs0'', ''vht_1ss'', FamVht, 1, 16),
            (1, ''vht1ss_mcs1'', ''vht_1ss'', FamVht, 1, 16),
            (2, ''vht1ss_mcs2'', ''vht_1ss'', FamVht, 1, 14),
            (3, ''vht1ss_mcs3'', ''vht_1ss'', FamVht, 1, 12)]\<rparr>,
         \<lparr>es_name = (case path of RfA \<Rightarrow> ''rA_TxAGC_NSS2_3_NSS2_0'' | RfB \<Rightarrow> ''rB_TxAGC_NSS2_3_NSS2_0'' | RfBoth \<Rightarrow> undefined), es_address = vht1_high, es_path = path,
          es_lanes = tx_power_lanes
           [(0, ''vht1ss_mcs4'', ''vht_1ss'', FamVht, 1, 8),
            (1, ''vht1ss_mcs5'', ''vht_1ss'', FamVht, 1, 4),
            (2, ''vht1ss_mcs6'', ''vht_1ss'', FamVht, 1, 2),
            (3, ''vht1ss_mcs7'', ''vht_1ss'', FamVht, 1, 0)]\<rparr>,
         \<lparr>es_name = (case path of RfA \<Rightarrow> ''rA_TxAGC_NSS2_7_NSS2_4'' | RfB \<Rightarrow> ''rB_TxAGC_NSS2_7_NSS2_4'' | RfBoth \<Rightarrow> undefined), es_address = vht_mixed, es_path = path,
          es_lanes = tx_power_lanes
           [(0, ''vht1ss_mcs8'', ''vht_1ss'', FamVht, 1, - 2),
            (1, ''vht1ss_mcs9'', ''vht_1ss'', FamVht, 1, - 4),
            (2, ''vht2ss_mcs0'', ''vht_2ss'', FamVht, 2, 16),
            (3, ''vht2ss_mcs1'', ''vht_2ss'', FamVht, 2, 16)]\<rparr>,
         \<lparr>es_name = (case path of RfA \<Rightarrow> ''rA_TxAGC_NSS2_11_NSS2_8'' | RfB \<Rightarrow> ''rB_TxAGC_NSS2_11_NSS2_8'' | RfBoth \<Rightarrow> undefined), es_address = vht2_mid, es_path = path,
          es_lanes = tx_power_lanes
           [(0, ''vht2ss_mcs2'', ''vht_2ss'', FamVht, 2, 14),
            (1, ''vht2ss_mcs3'', ''vht_2ss'', FamVht, 2, 12),
            (2, ''vht2ss_mcs4'', ''vht_2ss'', FamVht, 2, 8),
            (3, ''vht2ss_mcs5'', ''vht_2ss'', FamVht, 2, 4)]\<rparr>,
         \<lparr>es_name = (case path of RfA \<Rightarrow> ''rA_TxAGC_NSS3_3_NSS3_0'' | RfB \<Rightarrow> ''rB_TxAGC_NSS3_3_NSS3_0'' | RfBoth \<Rightarrow> undefined), es_address = vht2_high, es_path = path,
          es_lanes = tx_power_lanes
           [(0, ''vht2ss_mcs6'', ''vht_2ss'', FamVht, 2, 2),
            (1, ''vht2ss_mcs7'', ''vht_2ss'', FamVht, 2, 0),
            (2, ''vht2ss_mcs8'', ''vht_2ss'', FamVht, 2, - 2),
            (3, ''vht2ss_mcs9'', ''vht_2ss'', FamVht, 2, - 4)]\<rparr>])"

definition tx_power_efuse_register_specs :: "rf_path \<Rightarrow> tx_power_efuse_register_spec list" where
  "tx_power_efuse_register_specs path =
     (if path = RfA \<or> path = RfBoth then tx_power_efuse_path_register_specs RfA else []) @
     (if path = RfB \<or> path = RfBoth then tx_power_efuse_path_register_specs RfB else [])"

section \<open>The EFUSE region\<close>

definition tx_power_5g_channel_group :: "u8 \<Rightarrow> u8 option" where
  "tx_power_5g_channel_group ch =
     (if 15 \<le> ch \<and> ch \<le> 42 then Some 0
      else if 44 \<le> ch \<and> ch \<le> 48 then Some 1
      else if 50 \<le> ch \<and> ch \<le> 58 then Some 2
      else if 60 \<le> ch \<and> ch \<le> 80 then Some 3
      else if 82 \<le> ch \<and> ch \<le> 106 then Some 4
      else if 108 \<le> ch \<and> ch \<le> 114 then Some 5
      else if 116 \<le> ch \<and> ch \<le> 122 then Some 6
      else if 124 \<le> ch \<and> ch \<le> 130 then Some 7
      else if 132 \<le> ch \<and> ch \<le> 138 then Some 8
      else if 140 \<le> ch \<and> ch \<le> 144 then Some 9
      else if 149 \<le> ch \<and> ch \<le> 155 then Some 10
      else if 157 \<le> ch \<and> ch \<le> 161 then Some 11
      else if 165 \<le> ch \<and> ch \<le> 171 then Some 12
      else if 173 \<le> ch \<and> ch \<le> 177 then Some 13
      else None)"

fun tx_power_5g_path_offset :: "rf_path \<Rightarrow> nat" where
  "tx_power_5g_path_offset RfA = 18"
| "tx_power_5g_path_offset RfB = 60"
| "tx_power_5g_path_offset RfBoth = undefined"

definition tx_power_sign_extend_4bit :: "u8 \<Rightarrow> i8" where
  "tx_power_sign_extend_4bit v =
     (let nibble = v AND 0x0f in if nibble AND 0x08 \<noteq> 0 then nibble - 16 else nibble)"

record tx_power_efuse_diff =
  df_kind :: string
  df_offset :: "nat option"
  df_source_byte :: "u8 option"
  df_value :: i8

definition tx_power_diff_from_byte ::
    "bytes \<Rightarrow> nat \<Rightarrow> bool \<Rightarrow> string \<Rightarrow> (radio_error, tx_power_efuse_diff) result" where
  "tx_power_diff_from_byte data offset high_nibble kind =
     (if offset < length data
      then let byte = data ! offset; nibble = (if high_nibble then drop_bit 4 byte else byte AND 0x0f)
        in Inr \<lparr>df_kind = kind, df_offset = Some (RTL8812AU_EFUSE_TX_POWER_START + offset),
                df_source_byte = Some byte, df_value = tx_power_sign_extend_4bit nibble\<rparr>
      else Inl (radio_error_new ''tx_power_efuse_diff_out_of_range''
        (''EFUSE TX-power diff offset '' @ show_nat offset @ '' is outside the TX-power region'')))"

definition unsupported_streams :: "string \<Rightarrow> u8 \<Rightarrow> radio_error" where
  "unsupported_streams family streams = radio_error_new ''tx_power_stream_count_unsupported''
     (''unsupported '' @ family @ '' TX stream count '' @ show_nat (unat streams))"

definition tx_power_efuse_5g_diff ::
    "bytes \<Rightarrow> rf_path \<Rightarrow> tx_power_rate_lane_spec \<Rightarrow> bandwidth \<Rightarrow> (radio_error, tx_power_efuse_diff) result" where
  "tx_power_efuse_5g_diff data path lane bw =
     (let tx_index = sat_sub (ln_tx_streams lane) 1;
          path_offset = tx_power_5g_path_offset path
      in case ln_family lane of
           FamOfdm \<Rightarrow>
             (if tx_index = 0 then tx_power_diff_from_byte data (path_offset + 14) False ''ofdm_5g_diff''
              else if tx_index = 1 then tx_power_diff_from_byte data (path_offset + 18) True ''ofdm_5g_diff''
              else if tx_index = 2 then tx_power_diff_from_byte data (path_offset + 18) False ''ofdm_5g_diff''
              else if tx_index = 3 then tx_power_diff_from_byte data (path_offset + 19) False ''ofdm_5g_diff''
              else Inl (unsupported_streams ''OFDM'' (ln_tx_streams lane)))
         | _ \<Rightarrow>
             (case bw of
                Mhz20 \<Rightarrow>
                  (if tx_index = 0 then tx_power_diff_from_byte data (path_offset + 14) True ''bw20_5g_diff''
                   else if tx_index = 1 then tx_power_diff_from_byte data (path_offset + 15) False ''bw20_5g_diff''
                   else if tx_index = 2 then tx_power_diff_from_byte data (path_offset + 16) False ''bw20_5g_diff''
                   else if tx_index = 3 then tx_power_diff_from_byte data (path_offset + 17) False ''bw20_5g_diff''
                   else Inl (unsupported_streams ''HT/VHT'' (ln_tx_streams lane)))
              | Mhz40 \<Rightarrow>
                  (if tx_index = 0
                   then Inr \<lparr>df_kind = ''bw40_5g_diff_default_1ss'', df_offset = None, df_source_byte = None, df_value = 0\<rparr>
                   else if tx_index = 1 then tx_power_diff_from_byte data (path_offset + 15) True ''bw40_5g_diff''
                   else if tx_index = 2 then tx_power_diff_from_byte data (path_offset + 16) True ''bw40_5g_diff''
                   else if tx_index = 3 then tx_power_diff_from_byte data (path_offset + 17) True ''bw40_5g_diff''
                   else Inl (unsupported_streams ''HT/VHT'' (ln_tx_streams lane)))
              | Mhz80 \<Rightarrow>
                  (if tx_index \<le> 3
                   then tx_power_diff_from_byte data (path_offset + 20 + unat tx_index) True ''bw80_5g_diff''
                   else Inl (unsupported_streams ''HT/VHT'' (ln_tx_streams lane)))))"

definition tx_power_safety_clamp ::
    "tx_power_safety_profile \<Rightarrow> u8 \<Rightarrow> channel \<Rightarrow> bandwidth \<Rightarrow> rf_path \<Rightarrow> tx_power_rate_lane_spec \<Rightarrow> u8" where
  "tx_power_safety_clamp profile max_index ch bw path lane =
     (let profile_max =
        (case profile of
           MaxIndex \<Rightarrow> max_index
         | LinuxCh36Ht20 \<Rightarrow>
             if ch_number ch = 36 \<and> bw = Mhz20 then
               (if ln_family lane = FamOfdm then (case path of RfA \<Rightarrow> 0x1b | RfB \<Rightarrow> 0x1d | RfBoth \<Rightarrow> max_index)
                else if ln_tx_streams lane = 1 then (case path of RfA \<Rightarrow> 0x17 | RfB \<Rightarrow> 0x1c | RfBoth \<Rightarrow> max_index)
                else if ln_tx_streams lane = 2 then (case path of RfA \<Rightarrow> 0x15 | RfB \<Rightarrow> 0x1a | RfBoth \<Rightarrow> max_index)
                else max_index)
             else max_index)
      in min profile_max max_index)"

section \<open>The plan\<close>

record tx_power_derived_lane =
  dl_lane :: u8
  dl_rate :: string
  dl_rate_section :: string
  dl_tx_streams :: u8
  dl_efuse_base_offset :: nat
  dl_efuse_base_value :: u8
  dl_efuse_base_value_hex :: string
  dl_efuse_diff_kind :: string
  dl_efuse_diff_offset :: "nat option"
  dl_efuse_diff_source_hex :: "string option"
  dl_efuse_diff_value :: i8
  dl_by_rate_offset :: i8
  dl_tracking_offset :: i8
  dl_unclamped_index :: int
  dl_clamp_profile :: tx_power_safety_profile
  dl_clamp_max_index :: u8
  dl_clamp_max_index_hex :: string
  dl_final_index :: u8
  dl_final_index_hex :: string
  dl_clamped :: bool

record tx_power_derived_write =
  dw_name :: string
  dw_address :: u16
  dw_address_hex :: string
  dw_path :: rf_path
  dw_value :: u32
  dw_value_hex :: string
  dw_lanes :: "tx_power_derived_lane list"

record tx_power_channel_group =
  cg_band :: string
  cg_group :: u8
  cg_group_name :: string

record tx_power_efuse_plan =
  tp_algorithm :: string
  tp_upstream_basis :: string
  tp_channel :: u8
  tp_bandwidth_mhz :: u16
  tp_channel_group :: tx_power_channel_group
  tp_selected_path :: rf_path
  tp_programmed_paths :: "rf_path list"
  tp_safety_profile :: tx_power_safety_profile
  tp_max_index :: u8
  tp_max_index_hex :: string
  tp_writes :: "tx_power_derived_write list"

definition derived_lane ::
    "bytes \<Rightarrow> channel \<Rightarrow> bandwidth \<Rightarrow> tx_power_safety_profile \<Rightarrow> u8 \<Rightarrow> rf_path \<Rightarrow> nat \<Rightarrow> u8 \<Rightarrow> tx_power_rate_lane_spec \<Rightarrow>
     (radio_error, tx_power_derived_lane) result" where
  "derived_lane data ch bw safety_profile max_index path base_offset base_value lane =
     bind_res (tx_power_efuse_5g_diff data path lane bw) (\<lambda>diff.
       let unclamped = uint base_value + sint (df_value diff) + sint (ln_by_rate_offset lane);
           clamp_max = tx_power_safety_clamp safety_profile max_index ch bw path lane;
           clamp_min = (if clamp_max = 0 then 0 else 1);
           final_index = word_of_int (clamp clamp_min (uint clamp_max) unclamped)
       in Inr \<lparr>dl_lane = ln_lane lane, dl_rate = ln_rate lane, dl_rate_section = ln_rate_section lane,
            dl_tx_streams = ln_tx_streams lane,
            dl_efuse_base_offset = RTL8812AU_EFUSE_TX_POWER_START + base_offset,
            dl_efuse_base_value = base_value, dl_efuse_base_value_hex = format_register_value base_value 2,
            dl_efuse_diff_kind = df_kind diff, dl_efuse_diff_offset = df_offset diff,
            dl_efuse_diff_source_hex = map_option (\<lambda>byte. format_register_value byte 2) (df_source_byte diff),
            dl_efuse_diff_value = df_value diff, dl_by_rate_offset = ln_by_rate_offset lane,
            dl_tracking_offset = 0, dl_unclamped_index = unclamped, dl_clamp_profile = safety_profile,
            dl_clamp_max_index = clamp_max, dl_clamp_max_index_hex = format_register_value clamp_max 2,
            dl_final_index = final_index, dl_final_index_hex = format_register_value final_index 2,
            dl_clamped = (unclamped \<noteq> uint final_index)\<rparr>)"

text \<open>The lanes of a register, and the value they assemble.\<close>

fun derived_lanes ::
    "bytes \<Rightarrow> channel \<Rightarrow> bandwidth \<Rightarrow> tx_power_safety_profile \<Rightarrow> u8 \<Rightarrow> rf_path \<Rightarrow> nat \<Rightarrow> u8 \<Rightarrow> tx_power_rate_lane_spec list \<Rightarrow>
     u32 \<Rightarrow> (radio_error, u32 \<times> tx_power_derived_lane list) result" where
  "derived_lanes data ch bw prof max_index path base_offset base_value [] v = Inr (v, [])"
| "derived_lanes data ch bw prof max_index path base_offset base_value (lane # lanes) v =
     bind_res (derived_lane data ch bw prof max_index path base_offset base_value lane) (\<lambda>d.
     bind_res (derived_lanes data ch bw prof max_index path base_offset base_value lanes
         (v OR push_bit (unat (ln_lane lane) * 8) (ucast (dl_final_index d)))) (\<lambda>(v, ds).
     Inr (v, d # ds)))"

definition derived_write ::
    "bytes \<Rightarrow> channel \<Rightarrow> bandwidth \<Rightarrow> tx_power_safety_profile \<Rightarrow> u8 \<Rightarrow> u8 \<Rightarrow> tx_power_efuse_register_spec \<Rightarrow>
     (radio_error, tx_power_derived_write) result" where
  "derived_write data ch bw prof max_index grp spec =
     (let base_offset = tx_power_5g_path_offset (es_path spec) + unat grp in
      if length data \<le> base_offset
      then Inl (radio_error_new ''tx_power_efuse_base_out_of_range''
        (''EFUSE TX-power base offset '' @ show_nat base_offset @ '' is outside the TX-power region''))
      else
        let base_value = data ! base_offset in
        if base_value > RTL8812AU_TX_POWER_INDEX_MAX
        then Inl (radio_error_new ''tx_power_efuse_base_invalid''
          (''EFUSE TX-power base '' @ format_register_value base_value 2 @ '' at offset '' @
           show_nat (RTL8812AU_EFUSE_TX_POWER_START + base_offset) @ '' exceeds RTL8812AU max index '' @
           format_register_value RTL8812AU_TX_POWER_INDEX_MAX 2))
        else
          bind_res (derived_lanes data ch bw prof max_index (es_path spec) base_offset base_value (es_lanes spec) 0) (\<lambda>(v, lanes).
          Inr \<lparr>dw_name = es_name spec, dw_address = es_address spec, dw_address_hex = format_register_address (es_address spec),
               dw_path = es_path spec, dw_value = v, dw_value_hex = format_register_value v 8, dw_lanes = lanes\<rparr>))"

fun derived_writes ::
    "bytes \<Rightarrow> channel \<Rightarrow> bandwidth \<Rightarrow> tx_power_safety_profile \<Rightarrow> u8 \<Rightarrow> u8 \<Rightarrow> tx_power_efuse_register_spec list \<Rightarrow>
     (radio_error, tx_power_derived_write list) result" where
  "derived_writes data ch bw prof max_index grp [] = Inr []"
| "derived_writes data ch bw prof max_index grp (spec # specs) =
     bind_res (derived_write data ch bw prof max_index grp spec) (\<lambda>w.
     bind_res (derived_writes data ch bw prof max_index grp specs) (\<lambda>ws. Inr (w # ws)))"

definition plan_rtl8812au_efuse_tx_power ::
    "bytes \<Rightarrow> channel \<Rightarrow> bandwidth \<Rightarrow> rf_path \<Rightarrow> tx_power_safety_profile \<Rightarrow> u8 \<Rightarrow> (radio_error, tx_power_efuse_plan) result" where
  "plan_rtl8812au_efuse_tx_power data ch bw selected_path safety_profile max_index =
     (if ch_band ch \<noteq> Ghz5
      then Inl (radio_error_new ''tx_power_efuse_band_unsupported''
        ''EFUSE-derived TX power currently supports RTL8812AU 5 GHz channel groups only'')
      else case tx_power_5g_channel_group (ch_number ch) of
        None \<Rightarrow> Inl (radio_error_new ''tx_power_efuse_channel_group_unknown''
          (''no RTL8812AU 5 GHz TX-power group for channel '' @ show_nat (unat (ch_number ch))))
      | Some grp \<Rightarrow>
          (let specs = tx_power_efuse_register_specs selected_path in
           bind_res (derived_writes data ch bw safety_profile max_index grp specs) (\<lambda>writes.
           Inr \<lparr>tp_algorithm = ''rtl8812au_efuse_base_plus_diff_plus_phy_reg_pg_by_rate_with_explicit_safety_clamp'',
                tp_upstream_basis = ''hal_load_txpwr_info + PHY_GetTxPowerIndexBase + PHY_GetTxPowerByRate + PHY_SetTxPowerIndex_8812A'',
                tp_channel = ch_number ch, tp_bandwidth_mhz = mhz bw,
                tp_channel_group = \<lparr>cg_band = ''5ghz'', cg_group = grp,
                  cg_group_name = ''5g_group_'' @ (if grp < 10 then ''0'' else []) @ show_nat (unat grp)\<rparr>,
                tp_selected_path = selected_path, tp_programmed_paths = fold (\<lambda>spec paths. if es_path spec \<in> set paths then paths else paths @ [es_path spec]) specs [],
                tp_safety_profile = safety_profile, tp_max_index = max_index,
                tp_max_index_hex = format_register_value max_index 2, tp_writes = writes\<rparr>)))"

section \<open>Programming\<close>

definition run_rtl8812au_manual_tx_power ::
    "('r, 't) reg_env \<Rightarrow> rf_path \<Rightarrow> u8 \<Rightarrow> ('t, register_write_report list) reg_op" where
  "run_rtl8812au_manual_tx_power env path index =
     (if index > RTL8812AU_TX_POWER_INDEX_MAX
      then fail (radio_error_new ''tx_power_index_out_of_range''
        (''TX power index '' @ format_register_value index 2 @ '' exceeds RTL8812AU max index '' @
         format_register_value RTL8812AU_TX_POWER_INDEX_MAX 2))
      else let v = rtl8812au_tx_power_agc_value index
        in for_each (rtl8812au_tx_power_agc_registers path) (\<lambda>(name, address) reports.
             and_then (write32_register_report env name address v) (\<lambda>r. ret (reports @ [r]))) [])"

definition run_rtl8812au_efuse_tx_power ::
    "('r, 't) reg_env \<Rightarrow> tx_power_efuse_plan \<Rightarrow> ('t, register_write_report list) reg_op" where
  "run_rtl8812au_efuse_tx_power env plan =
     for_each (tp_writes plan) (\<lambda>w reports.
       and_then (write32_register_report env (dw_name w) (dw_address w) (dw_value w)) (\<lambda>r. ret (reports @ [r]))) []"

end
