(* ===== verification/Tx_Power_Laws.thy ===== *)
theory Tx_Power_Laws
  imports Tx_Power Chip_Effects Channel_Laws
begin

text \<open>
  The gain registers end up with the index that the EFUSE, the rate and the safety limits ask for.
\<close>

section \<open>The index of a rate\<close>

text \<open>Where the correction of a rate is stored in the block of its path: a byte and one of its nibbles.\<close>

fun diff_nibble :: "tx_power_rate_family \<Rightarrow> bandwidth \<Rightarrow> u8 \<Rightarrow> (nat \<times> bool) option" where
  "diff_nibble FamOfdm _ streams = (if streams = 1 then Some (14, False) else Some (18, True))"
| "diff_nibble _ Mhz20 streams = (if streams = 1 then Some (14, True) else Some (15, False))"
| "diff_nibble _ Mhz40 streams = (if streams = 1 then None else Some (15, True))"
| "diff_nibble _ Mhz80 streams = (if streams = 1 then Some (20, True) else Some (21, True))"

definition signed_nibble :: "bool \<Rightarrow> u8 \<Rightarrow> int" where
  "signed_nibble high byte =
     (let n = (if high then uint byte div 16 else uint byte mod 16) in if 8 \<le> n then n - 16 else n)"

definition rate_correction :: "bytes \<Rightarrow> rf_path \<Rightarrow> bandwidth \<Rightarrow> tx_power_rate_lane_spec \<Rightarrow> int" where
  "rate_correction data path bw lane =
     (case diff_nibble (ln_family lane) bw (ln_tx_streams lane) of
        None \<Rightarrow> 0
      | Some (off, high) \<Rightarrow> signed_nibble high (data ! (tx_power_5g_path_offset path + off)))"

definition rate_limit ::
    "channel \<Rightarrow> bandwidth \<Rightarrow> tx_power_safety_profile \<Rightarrow> u8 \<Rightarrow> rf_path \<Rightarrow> tx_power_rate_lane_spec \<Rightarrow> u8" where
  "rate_limit ch bw prof max_index path lane = tx_power_safety_clamp prof max_index ch bw path lane"

text \<open>
  The index: base of the channel group, correction of the rate and by-rate offset, between one and
  the limit (which wins if it is zero).
\<close>

definition rate_index ::
    "bytes \<Rightarrow> channel \<Rightarrow> bandwidth \<Rightarrow> tx_power_safety_profile \<Rightarrow> u8 \<Rightarrow> u8 \<Rightarrow> rf_path \<Rightarrow> tx_power_rate_lane_spec \<Rightarrow> u8" where
  "rate_index data ch bw prof max_index grp path lane =
     word_of_int (min (uint (rate_limit ch bw prof max_index path lane))
       (max 1 (uint (data ! (tx_power_5g_path_offset path + unat grp)) + rate_correction data path bw lane +
         sint (ln_by_rate_offset lane))))"

lemma rate_limit_le: "rate_limit ch bw prof max_index path lane \<le> max_index"
  by (simp add: rate_limit_def tx_power_safety_clamp_def Let_def)

lemma rate_index_uint:
  "uint (rate_index data ch bw prof max_index grp path lane) =
     min (uint (rate_limit ch bw prof max_index path lane))
       (max 1 (uint (data ! (tx_power_5g_path_offset path + unat grp)) + rate_correction data path bw lane +
         sint (ln_by_rate_offset lane)))"
  using uint_lt2p [of "rate_limit ch bw prof max_index path lane"]
  by (simp add: rate_index_def uint_word_of_int)

lemma u8_15: "(15 :: u8) = mask 4"
  by (simp add: mask_eq_exp_minus_1)

lemma nibble_uint: "uint (if high then drop_bit 4 b else b AND 0x0f) = (if high then uint b div 16 else uint b mod 16)"
  for b :: u8
proof -
  have "b AND 0x0f = take_bit 4 b" unfolding u8_15 take_bit_eq_mask ..
  moreover have "uint (take_bit 4 b) = take_bit 4 (uint b)" by (rule unsigned_take_bit_eq)
  moreover have "take_bit 4 (uint b) = uint b mod 16" unfolding take_bit_eq_mod by (rule arg_cong [where f = "\<lambda>k. uint b mod k"]) simp
  ultimately have "uint (b AND 0x0f) = uint b mod 16" by argo
  moreover have "uint (drop_bit 4 b) = uint b div 16"
    by (simp add: uint_div drop_bit_eq_div)
  ultimately show ?thesis by simp
qed

lemma sign_extend_nibble:
  assumes "uint n < 16"
  shows "sint (tx_power_sign_extend_4bit n) = (if 8 \<le> uint n then uint n - 16 else uint n)"
proof -
  have "unat n < 16" unfolding unat_eq_nat_uint using assms by (simp only: nat_less_iff uint_ge_0)
  then have "unat n \<in> set [0..<16]" by simp
  moreover have "n = of_nat (unat n)" by simp
  ultimately have "n \<in> of_nat ` set [0..<16]" by blast
  then have "n \<in> {0, 1, 2, 3, 4, 5, 6, 7, 8, 9, 10, 11, 12, 13, 14, 15}" by (simp add: upt_conv_Cons)
  then show ?thesis by (auto simp: tx_power_sign_extend_4bit_def)
qed

lemma nibble_value: "sint (tx_power_sign_extend_4bit (if high then drop_bit 4 b else b AND 0x0f)) = signed_nibble high b"
proof -
  let ?n = "if high then drop_bit 4 b else b AND 0x0f"
  have u: "uint ?n = (if high then uint b div 16 else uint b mod 16)" by (rule nibble_uint)
  have "uint ?n < 16" unfolding u using uint_lt2p [of b] by auto
  from sign_extend_nibble [OF this] show ?thesis unfolding u by (simp add: signed_nibble_def)
qed

section \<open>Planning\<close>

definition supported_lane :: "tx_power_rate_lane_spec \<Rightarrow> bool" where
  "supported_lane lane \<longleftrightarrow> ln_tx_streams lane = 1 \<or> ln_tx_streams lane = 2"

lemma diff_from_byte:
  "off < length data \<Longrightarrow> \<exists>d. tx_power_diff_from_byte data off high kind = Inr d \<and> sint (df_value d) = signed_nibble high (data ! off)"
  using nibble_value [of high "data ! off"] by (simp add: tx_power_diff_from_byte_def Let_def)

lemma efuse_diff:
  assumes "length data = RTL8812AU_EFUSE_TX_POWER_LEN" "path \<noteq> RfBoth" "supported_lane lane"
  shows "\<exists>d. tx_power_efuse_5g_diff data path lane bw = Inr d \<and> sint (df_value d) = rate_correction data path bw lane"
proof -
  have off: "tx_power_5g_path_offset path + k < length data" if "k \<le> 21" for k
    using that assms(1,2) by (cases path) (auto simp: RTL8812AU_EFUSE_TX_POWER_LEN_def)
  have idx: "sat_sub (ln_tx_streams lane) 1 = (if ln_tx_streams lane = 1 then 0 else 1)"
    using assms(3) by (auto simp: supported_lane_def sat_sub_def)
  have "\<exists>kind. tx_power_efuse_5g_diff data path lane bw =
      (case diff_nibble (ln_family lane) bw (ln_tx_streams lane) of
         None \<Rightarrow> Inr \<lparr>df_kind = ''bw40_5g_diff_default_1ss'', df_offset = None, df_source_byte = None, df_value = 0\<rparr>
       | Some (k, high) \<Rightarrow> tx_power_diff_from_byte data (tx_power_5g_path_offset path + k) high kind)"
    using assms(3) unfolding tx_power_efuse_5g_diff_def Let_def idx supported_lane_def
    by (elim disjE; cases "ln_family lane"; cases bw; simp add: add.assoc) ((rule exI, rule refl) | (subst add.commute, rule exI, rule refl))+
  then obtain kind where diff: "tx_power_efuse_5g_diff data path lane bw =
      (case diff_nibble (ln_family lane) bw (ln_tx_streams lane) of
         None \<Rightarrow> Inr \<lparr>df_kind = ''bw40_5g_diff_default_1ss'', df_offset = None, df_source_byte = None, df_value = 0\<rparr>
       | Some (k, high) \<Rightarrow> tx_power_diff_from_byte data (tx_power_5g_path_offset path + k) high kind)" by blast
  have small: "k \<le> 21" if "diff_nibble (ln_family lane) bw (ln_tx_streams lane) = Some (k, high)" for k high
    using that by (cases "ln_family lane"; cases bw) (auto split: if_splits)
  show ?thesis
  proof (cases "diff_nibble (ln_family lane) bw (ln_tx_streams lane)")
    case None
    then show ?thesis by (simp add: diff rate_correction_def)
  next
    case (Some q)
    then show ?thesis
      using diff_from_byte [OF off [OF small], of "fst q" "snd q" "snd q" kind] by (cases q) (simp add: diff rate_correction_def)
  qed
qed

lemma derived_lane_index:
  assumes "length data = RTL8812AU_EFUSE_TX_POWER_LEN" "path \<noteq> RfBoth" "supported_lane lane"
    and "base = data ! (tx_power_5g_path_offset path + unat grp)"
  shows "\<exists>d. derived_lane data ch bw prof max_index path off base lane = Inr d \<and> dl_lane d = ln_lane lane \<and>
    dl_final_index d = rate_index data ch bw prof max_index grp path lane"
proof -
  obtain d where d: "tx_power_efuse_5g_diff data path lane bw = Inr d" "sint (df_value d) = rate_correction data path bw lane"
    using efuse_diff [OF assms(1-3)] by blast
  have "clamp (if l = 0 then 0 else 1) (uint l) x = min (uint l) (max 1 x)" for l :: u8 and x
  proof (cases "l = 0")
    case False
    then have "1 \<le> uint l" using uint_ge_0 [of l] by (metis int_one_le_iff_zero_less le_less uint_0_iff)
    then show ?thesis using False by (auto simp: clamp_def)
  qed (auto simp: clamp_def)
  then show ?thesis
    by (simp add: derived_lane_def d Let_def assms(4) rate_index_def rate_limit_def)
qed

definition four_lanes :: "tx_power_efuse_register_spec \<Rightarrow> bool" where
  "four_lanes spec \<longleftrightarrow> map ln_lane (es_lanes spec) = [0, 1, 2, 3] \<and> list_all supported_lane (es_lanes spec)"

lemma le32_of_lanes: "le32 (((ucast a OR push_bit 8 (ucast b)) OR push_bit 16 (ucast c)) OR push_bit 24 (ucast d)) = [a, b, c, d]"
  using le32.enc_dec [of "[a, b, c, d]"] by (simp add: of_le32_def or.assoc)

lemma derived_write_bytes:
  assumes "length data = RTL8812AU_EFUSE_TX_POWER_LEN" "es_path spec \<noteq> RfBoth" "four_lanes spec"
    and "unat grp < 14" "data ! (tx_power_5g_path_offset (es_path spec) + unat grp) \<le> RTL8812AU_TX_POWER_INDEX_MAX"
  shows "\<exists>w. derived_write data ch bw prof max_index grp spec = Inr w \<and> dw_name w = es_name spec \<and> dw_address w = es_address spec \<and>
    le32 (dw_value w) = map (rate_index data ch bw prof max_index grp (es_path spec)) (es_lanes spec)"
proof -
  let ?path = "es_path spec"
  let ?off = "tx_power_5g_path_offset ?path + unat grp"
  obtain l0 l1 l2 l3 where ls: "es_lanes spec = [l0, l1, l2, l3]"
    using assms(3) by (auto simp: four_lanes_def map_eq_Cons_conv)
  have lanes: "ln_lane l0 = 0" "ln_lane l1 = 1" "ln_lane l2 = 2" "ln_lane l3 = 3" "supported_lane l0" "supported_lane l1"
    "supported_lane l2" "supported_lane l3"
    using assms(3) by (simp_all add: four_lanes_def ls)
  note lane = derived_lane_index [OF assms(1,2) _ refl, where ch = ch and bw = bw and prof = prof and max_index = max_index and
      off = ?off and grp = grp]
  obtain d0 d1 d2 d3 where d:
    "derived_lane data ch bw prof max_index ?path ?off (data ! ?off) l0 = Inr d0" "dl_final_index d0 = rate_index data ch bw prof max_index grp ?path l0"
    "derived_lane data ch bw prof max_index ?path ?off (data ! ?off) l1 = Inr d1" "dl_final_index d1 = rate_index data ch bw prof max_index grp ?path l1"
    "derived_lane data ch bw prof max_index ?path ?off (data ! ?off) l2 = Inr d2" "dl_final_index d2 = rate_index data ch bw prof max_index grp ?path l2"
    "derived_lane data ch bw prof max_index ?path ?off (data ! ?off) l3 = Inr d3" "dl_final_index d3 = rate_index data ch bw prof max_index grp ?path l3"
    using lane [OF lanes(5)] lane [OF lanes(6)] lane [OF lanes(7)] lane [OF lanes(8)] by blast
  have "?off < length data"
    using assms(1,2,4) by (cases ?path) (auto simp: RTL8812AU_EFUSE_TX_POWER_LEN_def)
  then show ?thesis
    using assms(5) lanes d
    by (simp add: derived_write_def Let_def ls not_le not_less le32_of_lanes)
qed

lemma derived_writes_bytes:
  assumes "length data = RTL8812AU_EFUSE_TX_POWER_LEN" "unat grp < 14"
    and "\<forall>spec \<in> set specs. es_path spec \<noteq> RfBoth \<and> four_lanes spec \<and>
      data ! (tx_power_5g_path_offset (es_path spec) + unat grp) \<le> RTL8812AU_TX_POWER_INDEX_MAX"
  shows "\<exists>ws. derived_writes data ch bw prof max_index grp specs = Inr ws \<and>
    map (\<lambda>w. (dw_address w, le32 (dw_value w))) ws =
    map (\<lambda>spec. (es_address spec, map (rate_index data ch bw prof max_index grp (es_path spec)) (es_lanes spec))) specs"
  using assms(3)
proof (induction specs)
  case (Cons spec specs)
  obtain w where "derived_write data ch bw prof max_index grp spec = Inr w" "dw_address w = es_address spec"
    "le32 (dw_value w) = map (rate_index data ch bw prof max_index grp (es_path spec)) (es_lanes spec)"
    using derived_write_bytes [OF assms(1) _ _ assms(2), of spec ch bw prof max_index] Cons.prems by auto
  with Cons show ?case by fastforce
qed simp

lemma lanes_four: "four_lanes \<lparr>es_name = n, es_address = a, es_path = p, es_lanes = tx_power_lanes
    [(0, r0, s0, f0, t, o0), (1, r1, s1, f1, t, o1), (2, r2, s2, f2, u, o2), (3, r3, s3, f3, u, o3)]\<rparr> \<longleftrightarrow>
   (t = 1 \<or> t = 2) \<and> (u = 1 \<or> u = 2)"
  by (auto simp: four_lanes_def tx_power_lanes_def supported_lane_def)

lemma path_specs:
  "list_all (\<lambda>spec. es_path spec = RfA \<and> four_lanes spec) (tx_power_efuse_path_register_specs RfA)"
  "list_all (\<lambda>spec. es_path spec = RfB \<and> four_lanes spec) (tx_power_efuse_path_register_specs RfB)"
  unfolding tx_power_efuse_path_register_specs_def rf_path.case Let_def prod.case list.pred_inject lanes_four by simp_all

lemma path_registers:
  "map (\<lambda>spec. (es_name spec, es_address spec)) (tx_power_efuse_path_register_specs RfA) = tl (rtl8812au_tx_power_agc_registers RfA)"
  "map (\<lambda>spec. (es_name spec, es_address spec)) (tx_power_efuse_path_register_specs RfB) = tl (rtl8812au_tx_power_agc_registers RfB)"
  unfolding tx_power_efuse_path_register_specs_def rf_path.case Let_def prod.case rtl8812au_tx_power_agc_registers.simps
    TX_POWER_AGC_PATH_A_REGISTERS_def TX_POWER_AGC_PATH_B_REGISTERS_def
  by simp_all

lemma channel_group_bound: "tx_power_5g_channel_group ch = Some grp \<Longrightarrow> unat grp < 14"
  by (auto simp: tx_power_5g_channel_group_def split: if_splits)

section \<open>Programming\<close>

definition power_writes ::
    "bytes \<Rightarrow> channel \<Rightarrow> bandwidth \<Rightarrow> rf_path \<Rightarrow> tx_power_safety_profile \<Rightarrow> u8 \<Rightarrow> u8 \<Rightarrow> (u16 \<times> bytes) list" where
  "power_writes data ch bw path prof max_index grp =
     map (\<lambda>spec. (es_address spec, map (rate_index data ch bw prof max_index grp (es_path spec)) (es_lanes spec)))
       (tx_power_efuse_register_specs path)"

definition selected :: "rf_path \<Rightarrow> rf_path \<Rightarrow> bool" where
  "selected path p \<longleftrightarrow> p \<noteq> RfBoth \<and> (path = p \<or> path = RfBoth)"

lemma specs_selected: "spec \<in> set (tx_power_efuse_register_specs path) \<Longrightarrow> selected path (es_path spec) \<and> four_lanes spec"
  using path_specs by (auto simp: tx_power_efuse_register_specs_def selected_def list_all_iff split: if_splits)

lemma efuse_plan:
  assumes "length data = RTL8812AU_EFUSE_TX_POWER_LEN" "ch_band ch = Ghz5" "tx_power_5g_channel_group (ch_number ch) = Some grp"
    and "\<forall>p. selected path p \<longrightarrow> data ! (tx_power_5g_path_offset p + unat grp) \<le> RTL8812AU_TX_POWER_INDEX_MAX"
  shows "\<exists>plan. plan_rtl8812au_efuse_tx_power data ch bw path prof max_index = Inr plan \<and>
    map (\<lambda>w. (dw_address w, le32 (dw_value w))) (tp_writes plan) = power_writes data ch bw path prof max_index grp"
proof -
  obtain ws where "derived_writes data ch bw prof max_index grp (tx_power_efuse_register_specs path) = Inr ws"
    "map (\<lambda>w. (dw_address w, le32 (dw_value w))) ws = power_writes data ch bw path prof max_index grp"
    unfolding power_writes_def
    using derived_writes_bytes [OF assms(1) channel_group_bound [OF assms(3)], of "tx_power_efuse_register_specs path" ch bw prof max_index]
      specs_selected [where path = path] assms(4) by (auto simp: selected_def)
  then show ?thesis by (simp add: plan_rtl8812au_efuse_tx_power_def assms(2,3) Let_def)
qed

context observed_device
begin

lemma performs_register_report: "performs trace (write32_register_report env name a v) (\<lambda>_ w. w = [(a, le32 v)])"
  unfolding write32_register_report_def
  by (rule performs_silent [OF performs_counters], rule performs_silent [OF performs_counted(3)],
      rule performs_then [where P = "\<lambda>_. True" and ws = "\<lambda>_. [(a, le32 v)]"], simp add: performs_counted,
      rule performs_silent [OF performs_counted(3)], rule performs_silent [OF performs_counters])
    (simp add: performs_mono [OF performs_ret])

lemma performs_reports:
  "performs trace (for_each xs (\<lambda>x reports. and_then (write32_register_report env (f x) (g x) (h x)) (\<lambda>r. ret (reports @ [r]))) acc)
    (\<lambda>reports w. length reports = length acc + length xs \<and> w = map (\<lambda>x. (g x, le32 (h x))) xs)"
proof (induction xs arbitrary: acc)
  case (Cons x xs)
  have "performs trace (and_then (write32_register_report env (f x) (g x) (h x)) (\<lambda>r. ret (acc @ [r])))
      (\<lambda>b w. length b = length acc + 1 \<and> w = [(g x, le32 (h x))])"
    by (rule performs_then [where P = "\<lambda>_. True" and ws = "\<lambda>_. [(g x, le32 (h x))]"], simp add: performs_register_report)
      (simp add: performs_mono [OF performs_ret])
  then show ?case
    unfolding for_each.simps by (rule performs_then) (rule performs_mono [OF Cons.IH], simp)
qed (simp add: performs_mono [OF performs_ret])

end

text \<open>
  C15. For a 5 GHz channel of the table, a complete EFUSE power region and bases within the chip's
  range, the EFUSE power plan exists, and when it is programmed the gain registers of the selected paths receive,
  in order and one byte per rate, the base of the channel group plus the signed correction stored
  for the rate plus the by-rate offset, held between one and the limit; the limit never exceeds the
  configured maximum.
\<close>

theorem efuse_power_is_programmed:
  assumes "length data = 84" "ch_band ch = Ghz5" "tx_power_5g_channel_group (ch_number ch) = Some grp"
    and "\<forall>p. selected path p \<longrightarrow> data ! (tx_power_5g_path_offset p + unat grp) \<le> 0x3f"
  shows "\<exists>plan. plan_rtl8812au_efuse_tx_power data ch bw path prof max_index = Inr plan \<and>
    performs snd (run_rtl8812au_efuse_tx_power (logged env) plan)
      (\<lambda>reports w. length reports = length (tp_writes plan) \<and> w = power_writes data ch bw path prof max_index grp) \<and>
    (\<forall>p lane. rate_index data ch bw prof max_index grp p lane \<le> max_index)"
proof -
  obtain plan where plan: "plan_rtl8812au_efuse_tx_power data ch bw path prof max_index = Inr plan"
    "map (\<lambda>w. (dw_address w, le32 (dw_value w))) (tp_writes plan) = power_writes data ch bw path prof max_index grp"
    using efuse_plan [of data, OF _ assms(2,3)] assms(1,4)
    unfolding RTL8812AU_EFUSE_TX_POWER_LEN_def RTL8812AU_TX_POWER_INDEX_MAX_def by blast
  have "rate_index data ch bw prof max_index grp p lane \<le> rate_limit ch bw prof max_index p lane" for p lane
    by (simp add: word_le_def rate_index_uint)
  then have "rate_index data ch bw prof max_index grp p lane \<le> max_index" for p lane
    using rate_limit_le order_trans by blast
  moreover have "performs snd (run_rtl8812au_efuse_tx_power (logged env) plan)
      (\<lambda>reports w. length reports = length (tp_writes plan) \<and> w = power_writes data ch bw path prof max_index grp)"
    unfolding run_rtl8812au_efuse_tx_power_def by (rule performs_mono [OF logged.performs_reports]) (simp add: plan(2))
  ultimately show ?thesis using plan(1) by blast
qed

lemma efuse_power_is_programmed_witness:
  "let data = (replicate 84 0x20)[32 := 0xf0, 18 := 0x28];
       ch = \<lparr>ch_number = 36, ch_frequency_mhz = 5180, ch_band = Ghz5\<rparr>;
       lane = \<lparr>ln_lane = 3, ln_rate = ''mcs7'', ln_rate_section = ''ht_1ss'', ln_family = FamHt, ln_tx_streams = 1, ln_by_rate_offset = 0\<rparr>
   in (\<exists>plan. plan_rtl8812au_efuse_tx_power data ch Mhz20 RfA MaxIndex 0x3f = Inr plan) \<and>
     rate_index data ch Mhz20 MaxIndex 0x3f 0 RfA lane = 0x27"
proof -
  let ?data = "(replicate 84 0x20)[32 := 0xf0, 18 := 0x28] :: bytes"
  let ?ch = "\<lparr>ch_number = 36, ch_frequency_mhz = 5180, ch_band = Ghz5\<rparr>"
  have "\<exists>plan. plan_rtl8812au_efuse_tx_power ?data ?ch Mhz20 RfA MaxIndex 0x3f = Inr plan"
  proof -
    have "\<forall>p. selected RfA p \<longrightarrow> ?data ! (tx_power_5g_path_offset p + unat (0 :: u8)) \<le> 0x3f"
      by (auto simp: selected_def nth_list_update)
    with efuse_power_is_programmed [where data = ?data and ch = ?ch and grp = 0 and path = RfA and bw = Mhz20
        and prof = MaxIndex and max_index = "0x3f"]
    show ?thesis by (simp add: tx_power_5g_channel_group_def) blast
  qed
  moreover have "rate_index ?data ?ch Mhz20 MaxIndex 0x3f 0 RfA \<lparr>ln_lane = 3, ln_rate = ''mcs7'', ln_rate_section = ''ht_1ss'',
      ln_family = FamHt, ln_tx_streams = 1, ln_by_rate_offset = 0\<rparr> = 0x27"
    by (simp add: rate_index_def rate_limit_def tx_power_safety_clamp_def rate_correction_def signed_nibble_def nth_list_update)
  ultimately show ?thesis by simp
qed

end
