(* ===== verification/Iqk_State.thy ===== *)
theory Iqk_State
  imports Tx_Power
begin

text \<open>
  Values and bookkeeping of the runtime I/Q calibration (\<open>wfb-radio-runtime/src/lib.rs\<close>): the
  correction pairs, the choice among candidates, the state of one path over the attempts of a
  one-shot, and the reports made of it.
\<close>

section \<open>Constants\<close>

definition REG_HSSI_READ_JAGUAR :: u16 where "REG_HSSI_READ_JAGUAR = 0x08b0"
definition REG_IQK_MACBB_0X0520 :: u16 where "REG_IQK_MACBB_0X0520 = 0x0520"
definition REG_IQK_MACBB_0X090C :: u16 where "REG_IQK_MACBB_0X090C = 0x090c"
definition REG_SINGLE_TONE_CONT_TX_JAGUAR :: u16 where "REG_SINGLE_TONE_CONT_TX_JAGUAR = 0x0914"
definition REG_IQK_TRIGGER_980 :: u16 where "REG_IQK_TRIGGER_980 = 0x0980"
definition REG_CCK_RX_PATH_JAGUAR :: u16 where "REG_CCK_RX_PATH_JAGUAR = 0x0a07"
definition REG_RF_PI_MODE_A_JAGUAR :: u16 where "REG_RF_PI_MODE_A_JAGUAR = 0x0c00"
definition REG_IQK_RX_IQC_A_JAGUAR :: u16 where "REG_IQK_RX_IQC_A_JAGUAR = 0x0c10"
definition REG_IQK_AFE_A_C5C :: u16 where "REG_IQK_AFE_A_C5C = 0x0c5c"
definition REG_IQK_AFE_A_C60 :: u16 where "REG_IQK_AFE_A_C60 = 0x0c60"
definition REG_IQK_AFE_A_C64 :: u16 where "REG_IQK_AFE_A_C64 = 0x0c64"
definition REG_IQK_AFE_A_C68 :: u16 where "REG_IQK_AFE_A_C68 = 0x0c68"
definition REG_IQK_TX_TONE_A_C80 :: u16 where "REG_IQK_TX_TONE_A_C80 = 0x0c80"
definition REG_IQK_RX_TONE_A_C84 :: u16 where "REG_IQK_RX_TONE_A_C84 = 0x0c84"
definition REG_IQK_RFE_SETTING_A_C88 :: u16 where "REG_IQK_RFE_SETTING_A_C88 = 0x0c88"
definition REG_IQK_RFE_SETTING_A_C8C :: u16 where "REG_IQK_RFE_SETTING_A_C8C = 0x0c8c"
definition REG_IQK_RESULT_A_D00 :: u16 where "REG_IQK_RESULT_A_D00 = 0x0d00"
definition REG_RF_PI_READ_A_JAGUAR :: u16 where "REG_RF_PI_READ_A_JAGUAR = 0x0d04"
definition REG_RF_SI_READ_A_JAGUAR :: u16 where "REG_RF_SI_READ_A_JAGUAR = 0x0d08"
definition REG_IQK_RESULT_B_D40 :: u16 where "REG_IQK_RESULT_B_D40 = 0x0d40"
definition REG_IQK_TX_POWER_CTRL_A_C94 :: u16 where "REG_IQK_TX_POWER_CTRL_A_C94 = 0x0c94"
definition REG_IQK_TX_CTRL_A_CC4 :: u16 where "REG_IQK_TX_CTRL_A_CC4 = 0x0cc4"
definition REG_IQK_TX_CTRL_A_CC8 :: u16 where "REG_IQK_TX_CTRL_A_CC8 = 0x0cc8"
definition REG_IQK_TX_Y_A_CCC :: u16 where "REG_IQK_TX_Y_A_CCC = 0x0ccc"
definition REG_IQK_TX_X_A_CD4 :: u16 where "REG_IQK_TX_X_A_CD4 = 0x0cd4"
definition REG_IQK_VDF_A_CE8 :: u16 where "REG_IQK_VDF_A_CE8 = 0x0ce8"
definition REG_RF_PI_MODE_B_JAGUAR :: u16 where "REG_RF_PI_MODE_B_JAGUAR = 0x0e00"
definition REG_IQK_RX_IQC_B_JAGUAR :: u16 where "REG_IQK_RX_IQC_B_JAGUAR = 0x0e10"
definition REG_FPGA0_IQK_JAGUAR :: u16 where "REG_FPGA0_IQK_JAGUAR = 0x0e28"
definition REG_TX_IQK_TONE_A_JAGUAR :: u16 where "REG_TX_IQK_TONE_A_JAGUAR = 0x0e30"
definition REG_RX_IQK_TONE_A_JAGUAR :: u16 where "REG_RX_IQK_TONE_A_JAGUAR = 0x0e34"
definition REG_TX_IQK_PI_A_JAGUAR :: u16 where "REG_TX_IQK_PI_A_JAGUAR = 0x0e38"
definition REG_RX_IQK_PI_A_JAGUAR :: u16 where "REG_RX_IQK_PI_A_JAGUAR = 0x0e3c"
definition REG_TX_IQK_JAGUAR :: u16 where "REG_TX_IQK_JAGUAR = 0x0e40"
definition REG_RX_IQK_JAGUAR :: u16 where "REG_RX_IQK_JAGUAR = 0x0e44"
definition REG_IQK_AGC_PTS_JAGUAR :: u16 where "REG_IQK_AGC_PTS_JAGUAR = 0x0e48"
definition REG_IQK_AGC_RSP_JAGUAR :: u16 where "REG_IQK_AGC_RSP_JAGUAR = 0x0e4c"
definition REG_TX_IQK_TONE_B_JAGUAR :: u16 where "REG_TX_IQK_TONE_B_JAGUAR = 0x0e50"
definition REG_RX_IQK_TONE_B_JAGUAR :: u16 where "REG_RX_IQK_TONE_B_JAGUAR = 0x0e54"
definition REG_TX_IQK_PI_B_JAGUAR :: u16 where "REG_TX_IQK_PI_B_JAGUAR = 0x0e58"
definition REG_IQK_AFE_B_E5C :: u16 where "REG_IQK_AFE_B_E5C = 0x0e5c"
definition REG_RX_IQK_PI_B_JAGUAR :: u16 where "REG_RX_IQK_PI_B_JAGUAR = REG_IQK_AFE_B_E5C"
definition REG_IQK_AFE_B_E60 :: u16 where "REG_IQK_AFE_B_E60 = 0x0e60"
definition REG_IQK_AGC_CONT_JAGUAR :: u16 where "REG_IQK_AGC_CONT_JAGUAR = REG_IQK_AFE_B_E60"
definition REG_IQK_AFE_B_E64 :: u16 where "REG_IQK_AFE_B_E64 = 0x0e64"
definition REG_IQK_AFE_B_E68 :: u16 where "REG_IQK_AFE_B_E68 = 0x0e68"
definition REG_IQK_TX_TONE_B_E80 :: u16 where "REG_IQK_TX_TONE_B_E80 = 0x0e80"
definition REG_IQK_RX_TONE_B_E84 :: u16 where "REG_IQK_RX_TONE_B_E84 = 0x0e84"
definition REG_IQK_RFE_SETTING_B_E88 :: u16 where "REG_IQK_RFE_SETTING_B_E88 = 0x0e88"
definition REG_IQK_RFE_SETTING_B_E8C :: u16 where "REG_IQK_RFE_SETTING_B_E8C = 0x0e8c"
definition REG_TX_POWER_BEFORE_IQK_A_JAGUAR :: u16 where "REG_TX_POWER_BEFORE_IQK_A_JAGUAR = 0x0e94"
definition REG_TX_POWER_AFTER_IQK_A_JAGUAR :: u16 where "REG_TX_POWER_AFTER_IQK_A_JAGUAR = 0x0e9c"
definition REG_RX_POWER_BEFORE_IQK_A_JAGUAR :: u16 where "REG_RX_POWER_BEFORE_IQK_A_JAGUAR = 0x0ea0"
definition REG_RX_POWER_BEFORE_IQK_A_2_JAGUAR :: u16 where "REG_RX_POWER_BEFORE_IQK_A_2_JAGUAR = 0x0ea4"
definition REG_RX_POWER_AFTER_IQK_A_JAGUAR :: u16 where "REG_RX_POWER_AFTER_IQK_A_JAGUAR = 0x0ea8"
definition REG_RX_POWER_AFTER_IQK_A_2_JAGUAR :: u16 where "REG_RX_POWER_AFTER_IQK_A_2_JAGUAR = 0x0eac"
definition REG_TX_POWER_BEFORE_IQK_B_JAGUAR :: u16 where "REG_TX_POWER_BEFORE_IQK_B_JAGUAR = REG_RFE_INV_B_JAGUAR"
definition REG_TX_POWER_AFTER_IQK_B_JAGUAR :: u16 where "REG_TX_POWER_AFTER_IQK_B_JAGUAR = 0x0ebc"
definition REG_RX_POWER_BEFORE_IQK_B_JAGUAR :: u16 where "REG_RX_POWER_BEFORE_IQK_B_JAGUAR = 0x0ec0"
definition REG_RF_PI_READ_B_JAGUAR :: u16 where "REG_RF_PI_READ_B_JAGUAR = 0x0d44"
definition REG_RF_SI_READ_B_JAGUAR :: u16 where "REG_RF_SI_READ_B_JAGUAR = 0x0d48"
definition REG_IQK_TX_CTRL_B_EC4 :: u16 where "REG_IQK_TX_CTRL_B_EC4 = 0x0ec4"
definition REG_RX_POWER_BEFORE_IQK_B_2_JAGUAR :: u16 where "REG_RX_POWER_BEFORE_IQK_B_2_JAGUAR = REG_IQK_TX_CTRL_B_EC4"
definition REG_IQK_TX_CTRL_B_EC8 :: u16 where "REG_IQK_TX_CTRL_B_EC8 = 0x0ec8"
definition REG_RX_POWER_AFTER_IQK_B_JAGUAR :: u16 where "REG_RX_POWER_AFTER_IQK_B_JAGUAR = REG_IQK_TX_CTRL_B_EC8"
definition REG_IQK_TX_Y_B_ECC :: u16 where "REG_IQK_TX_Y_B_ECC = 0x0ecc"
definition REG_RX_POWER_AFTER_IQK_B_2_JAGUAR :: u16 where "REG_RX_POWER_AFTER_IQK_B_2_JAGUAR = REG_IQK_TX_Y_B_ECC"
definition REG_IQK_TX_X_B_ED4 :: u16 where "REG_IQK_TX_X_B_ED4 = 0x0ed4"
definition REG_IQK_VDF_B_EE8 :: u16 where "REG_IQK_VDF_B_EE8 = 0x0ee8"
definition RF_LCK_MODE_BIT :: u32 where "RF_LCK_MODE_BIT = push_bit 14 1"
definition RF_CHNLBW_LCK_TRIGGER_BIT :: u32 where "RF_CHNLBW_LCK_TRIGGER_BIT = push_bit 15 1"
definition RTL8812A_IQK_PAGE_C1_SELECT_BIT :: u32 where "RTL8812A_IQK_PAGE_C1_SELECT_BIT = 0x80000000"
definition RTL8812A_IQK_MAX_ATTEMPTS :: u8 where "RTL8812A_IQK_MAX_ATTEMPTS = 10"
definition RTL8812A_IQK_MAX_RX_CANDIDATES :: nat where "RTL8812A_IQK_MAX_RX_CANDIDATES = 5"
definition RTL8812A_IQK_READY_POLL_LIMIT :: u8 where "RTL8812A_IQK_READY_POLL_LIMIT = 20"
definition RTL8812A_IQK_MAX_SWEEPS :: u8 where "RTL8812A_IQK_MAX_SWEEPS = 3"
definition RTL8812A_IQK_RESULT_FIELD_MASK :: u32 where "RTL8812A_IQK_RESULT_FIELD_MASK = 0x07ff0000"

definition RTL8812A_IQK_READY_MASK :: u32 where "RTL8812A_IQK_READY_MASK = push_bit 10 1"
definition RTL8812A_IQK_RX_FAIL_MASK :: u32 where "RTL8812A_IQK_RX_FAIL_MASK = push_bit 11 1"
definition RTL8812A_IQK_TX_FAIL_MASK :: u32 where "RTL8812A_IQK_TX_FAIL_MASK = push_bit 12 1"

section \<open>Correction pairs\<close>

record iqc_value =
  iqc_x :: u32
  iqc_x_hex :: string
  iqc_y :: u32
  iqc_y_hex :: string

definition rtl8812au_runtime_iqk_iqc_value :: "u32 \<Rightarrow> u32 \<Rightarrow> iqc_value" where
  "rtl8812au_runtime_iqk_iqc_value x y =
     (let x = x AND 0x7ff; y = y AND 0x7ff
      in \<lparr>iqc_x = x, iqc_x_hex = format_register_value x 3, iqc_y = y, iqc_y_hex = format_register_value y 3\<rparr>)"

text \<open>A component is an eleven bit number in two's complement.\<close>

definition rtl8812au_iqk_component_to_signed :: "u32 \<Rightarrow> 32 word" where
  "rtl8812au_iqk_component_to_signed v =
     (let v = v AND 0x7ff in if v AND 0x400 \<noteq> 0 then v - 0x800 else v)"

definition rtl8812au_iqk_signed_to_component :: "32 word \<Rightarrow> u32" where
  "rtl8812au_iqk_signed_to_component v = v AND 0x7ff"

definition bb_masked_field :: "u32 \<Rightarrow> u32 \<Rightarrow> u32" where
  "bb_masked_field v msk = (if msk = 0 then 0 else drop_bit (trailing_zeros msk) (v AND msk))"

record raw_candidate =
  cd_x_raw :: u32
  cd_x_raw_hex :: string
  cd_y_raw :: u32
  cd_y_raw_hex :: string
  cd_x_field :: u32
  cd_x_field_hex :: string
  cd_y_field :: u32
  cd_y_field_hex :: string
  cd_x_signed :: "32 word"
  cd_y_signed :: "32 word"

definition rtl8812au_runtime_iqk_raw_candidate_report :: "u32 \<Rightarrow> u32 \<Rightarrow> raw_candidate" where
  "rtl8812au_runtime_iqk_raw_candidate_report x_raw y_raw =
     (let x_field = bb_masked_field x_raw RTL8812A_IQK_RESULT_FIELD_MASK;
          y_field = bb_masked_field y_raw RTL8812A_IQK_RESULT_FIELD_MASK
      in \<lparr>cd_x_raw = x_raw, cd_x_raw_hex = format_register_value x_raw 8,
          cd_y_raw = y_raw, cd_y_raw_hex = format_register_value y_raw 8,
          cd_x_field = x_field, cd_x_field_hex = format_register_value x_field 3,
          cd_y_field = y_field, cd_y_field_hex = format_register_value y_field 3,
          cd_x_signed = rtl8812au_iqk_component_to_signed x_field,
          cd_y_signed = rtl8812au_iqk_component_to_signed y_field\<rparr>)"

text \<open>
  Two candidates that agree within three in both components give their mean; the division rounds
  towards zero.  The differences and sums of components do not leave the range of \<open>i32\<close>.
\<close>

definition half :: "32 word \<Rightarrow> 32 word" where
  "half w = word_of_int (if sint w < 0 then - (- sint w div 2) else sint w div 2)"

definition pair_mean :: "iqc_value \<Rightarrow> iqc_value \<Rightarrow> iqc_value option" where
  "pair_mean l r =
     (let left_x = rtl8812au_iqk_component_to_signed (iqc_x l);
          right_x = rtl8812au_iqk_component_to_signed (iqc_x r);
          left_y = rtl8812au_iqk_component_to_signed (iqc_y l);
          right_y = rtl8812au_iqk_component_to_signed (iqc_y r)
      in if abs (sint (left_x - right_x)) < 4 \<and> abs (sint (left_y - right_y)) < 4
         then Some (rtl8812au_runtime_iqk_iqc_value
           (rtl8812au_iqk_signed_to_component (half (left_x + right_x)))
           (rtl8812au_iqk_signed_to_component (half (left_y + right_y))))
         else None)"

fun first_some :: "('a \<Rightarrow> 'b option) \<Rightarrow> 'a list \<Rightarrow> 'b option" where
  "first_some f [] = None"
| "first_some f (x # xs) = (case f x of None \<Rightarrow> first_some f xs | Some y \<Rightarrow> Some y)"

fun rtl8812au_iqk_select_candidate :: "iqc_value list \<Rightarrow> iqc_value option" where
  "rtl8812au_iqk_select_candidate [] = None"
| "rtl8812au_iqk_select_candidate (l # rs) =
     (case first_some (pair_mean l) rs of
        Some mean \<Rightarrow> Some mean
      | None \<Rightarrow> rtl8812au_iqk_select_candidate rs)"

section \<open>The attempts of a path\<close>

record iqk_attempt =
  at_attempt_index :: u8
  at_ready :: "bool option"
  at_failed :: "bool option"
  at_delay_count :: "u8 option"
  at_status_raw :: "u32 option"
  at_status_raw_hex :: "string option"
  at_raw_candidate :: "raw_candidate option"
  at_candidate :: "iqc_value option"
  at_label :: "string option"

record path_state =
  os_attempts :: "iqk_attempt list"
  os_candidates :: "iqc_value list"
  os_selected_iqc :: "iqc_value option"
  os_retry_count :: u8
  os_delay_count_max :: "u8 option"
  os_ready :: "bool option"
  os_failed :: "bool option"
  os_failure_label :: "string option"
  os_finished :: bool

definition path_state_default :: path_state where
  "path_state_default =
     \<lparr>os_attempts = [], os_candidates = [], os_selected_iqc = None, os_retry_count = 0, os_delay_count_max = None,
      os_ready = None, os_failed = None, os_failure_label = None, os_finished = False\<rparr>"

text \<open>\<open>u8::try_from(n).unwrap_or(u8::MAX)\<close>.\<close>

definition u8_or_max :: "nat \<Rightarrow> u8" where
  "u8_or_max n = (if n < 256 then of_nat n else 255)"

definition path_attempts :: "path_state \<Rightarrow> u8" where
  "path_attempts p = sat_add (os_retry_count p) (u8_or_max (length (os_candidates p)))"

definition note_delay_count :: "u8 \<Rightarrow> path_state \<Rightarrow> path_state" where
  "note_delay_count delays p =
     p\<lparr>os_delay_count_max := Some (max (case os_delay_count_max p of None \<Rightarrow> 0 | Some d \<Rightarrow> d) delays)\<rparr>"

definition push_candidate :: "iqc_value \<Rightarrow> path_state \<Rightarrow> path_state" where
  "push_candidate candidate p =
     (let p = p\<lparr>os_candidates := os_candidates p @ [candidate]\<rparr>
      in case rtl8812au_iqk_select_candidate (os_candidates p) of
           Some selected \<Rightarrow> p\<lparr>os_selected_iqc := Some selected, os_finished := True, os_failure_label := None\<rparr>
         | None \<Rightarrow> p)"

definition push_attempt ::
    "bool option \<Rightarrow> bool option \<Rightarrow> u8 option \<Rightarrow> u32 option \<Rightarrow> raw_candidate option \<Rightarrow> iqc_value option \<Rightarrow> string option \<Rightarrow>
     path_state \<Rightarrow> path_state" where
  "push_attempt ready failed delays status_raw raw candidate label p =
     p\<lparr>os_attempts := os_attempts p @
         [\<lparr>at_attempt_index = u8_or_max (length (os_attempts p) + 1), at_ready = ready, at_failed = failed,
           at_delay_count = delays, at_status_raw = status_raw,
           at_status_raw_hex = map_option (\<lambda>v. format_register_value v 8) status_raw,
           at_raw_candidate = raw, at_candidate = candidate, at_label = label\<rparr>]\<rparr>"

definition note_retry :: "string \<Rightarrow> path_state \<Rightarrow> path_state" where
  "note_retry label p =
     (let p = p\<lparr>os_retry_count := sat_add (os_retry_count p) 1\<rparr>
      in if os_finished p then p else p\<lparr>os_failure_label := Some label\<rparr>)"

section \<open>Reports\<close>

record masked_bb_write =
  mb_register_name :: string
  mb_address :: u16
  mb_address_hex :: string
  mb_mask :: u32
  mb_mask_hex :: string
  mb_data :: u32
  mb_data_hex :: string
  mb_reason :: string

definition rtl8812au_runtime_iqk_masked_bb_write_plan ::
    "string \<Rightarrow> u16 \<Rightarrow> u32 \<Rightarrow> u32 \<Rightarrow> string \<Rightarrow> masked_bb_write" where
  "rtl8812au_runtime_iqk_masked_bb_write_plan register_name address msk data reason =
     \<lparr>mb_register_name = register_name, mb_address = address, mb_address_hex = format_register_address address,
      mb_mask = msk, mb_mask_hex = format_register_value msk 8, mb_data = data,
      mb_data_hex = format_register_value data 8, mb_reason = reason\<rparr>"

record iqk_stage =
  stg_stage :: string
  stg_status :: string
  stg_ready :: "bool option"
  stg_failed :: "bool option"
  stg_retry_count :: u8
  stg_average_count :: u8
  stg_delay_count_max :: "u8 option"
  stg_attempts :: "iqk_attempt list"
  stg_candidates :: "iqc_value list"
  stg_selected_iqc :: "iqc_value option"
  stg_fallback_used :: bool
  stg_fallback_iqc :: "iqc_value option"
  stg_failure_label :: "string option"
  stg_fill_plan :: "masked_bb_write list"

definition into_stage_report :: "string \<Rightarrow> iqc_value \<Rightarrow> masked_bb_write list \<Rightarrow> path_state \<Rightarrow> iqk_stage" where
  "into_stage_report stage fallback_iqc fill_plan p =
     (let (status, selected_iqc, fallback_used, fallback_iqc_report, failure_label) =
        (if os_finished p then (''success'', os_selected_iqc p, False, None, None)
         else (''failed'', Some fallback_iqc, True, Some fallback_iqc,
           Some (case os_failure_label p of None \<Rightarrow> ''iqk_candidate_selection_failed'' | Some l \<Rightarrow> l)))
      in \<lparr>stg_stage = stage, stg_status = status, stg_ready = os_ready p, stg_failed = os_failed p,
          stg_retry_count = os_retry_count p, stg_average_count = u8_or_max (length (os_candidates p)),
          stg_delay_count_max = os_delay_count_max p, stg_attempts = os_attempts p, stg_candidates = os_candidates p,
          stg_selected_iqc = selected_iqc, stg_fallback_used = fallback_used, stg_fallback_iqc = fallback_iqc_report,
          stg_failure_label = failure_label, stg_fill_plan = fill_plan\<rparr>)"

definition rtl8812au_runtime_iqk_skipped_stage_report :: "string \<Rightarrow> string \<Rightarrow> masked_bb_write list \<Rightarrow> iqk_stage" where
  "rtl8812au_runtime_iqk_skipped_stage_report stage label fill_plan =
     \<lparr>stg_stage = stage, stg_status = ''skipped'', stg_ready = None, stg_failed = None, stg_retry_count = 0,
      stg_average_count = 0, stg_delay_count_max = None, stg_attempts = [], stg_candidates = [],
      stg_selected_iqc = Some (rtl8812au_runtime_iqk_iqc_value 0x200 0), stg_fallback_used = True,
      stg_fallback_iqc = Some (rtl8812au_runtime_iqk_iqc_value 0x200 0), stg_failure_label = Some label,
      stg_fill_plan = fill_plan\<rparr>"

definition rtl8812au_runtime_iqk_stage_success_iqc :: "iqk_stage \<Rightarrow> iqc_value option" where
  "rtl8812au_runtime_iqk_stage_success_iqc stage =
     (if stg_status stage = ''success'' \<and> \<not> stg_fallback_used stage then stg_selected_iqc stage else None)"

definition rtl8812au_runtime_iqk_stage_iqc_or_fallback :: "iqk_stage \<Rightarrow> iqc_value" where
  "rtl8812au_runtime_iqk_stage_iqc_or_fallback stage =
     (case stg_selected_iqc stage of None \<Rightarrow> rtl8812au_runtime_iqk_iqc_value 0x200 0 | Some v \<Rightarrow> v)"

definition rtl8812au_runtime_iqk_path_can_fill :: "iqk_stage \<Rightarrow> iqk_stage \<Rightarrow> bool" where
  "rtl8812au_runtime_iqk_path_can_fill tx_stage rx_stage \<longleftrightarrow>
     rtl8812au_runtime_iqk_stage_success_iqc tx_stage \<noteq> None \<and>
     rtl8812au_runtime_iqk_stage_success_iqc rx_stage \<noteq> None"

record iqk_path_report =
  iq_path :: rf_path
  iq_path_name :: string
  iq_tx :: iqk_stage
  iq_rx :: iqk_stage

definition rtl8812au_runtime_iqk_report_status :: "iqk_path_report list \<Rightarrow> string \<Rightarrow> string" where
  "rtl8812au_runtime_iqk_report_status paths cleanup_status =
     (if cleanup_status \<noteq> ''restored'' then ''restore_failed''
      else if list_all (\<lambda>p. stg_status (iq_tx p) = ''success'' \<and> stg_status (iq_rx p) = ''success'') paths
      then ''completed'' else ''fallback_applied'')"

record sweep_path_summary =
  sp_path_name :: string
  sp_tx_status :: string
  sp_tx_retry_count :: u8
  sp_tx_average_count :: u8
  sp_tx_fallback_used :: bool
  sp_tx_failure_label :: "string option"
  sp_rx_status :: string
  sp_rx_retry_count :: u8
  sp_rx_average_count :: u8
  sp_rx_fallback_used :: bool
  sp_rx_failure_label :: "string option"

record sweep_summary =
  ss_sweep_index :: u8
  ss_status :: string
  ss_cleanup_status :: string
  ss_fallback_stage_count :: nat
  ss_path_statuses :: "sweep_path_summary list"

definition fell_back :: "iqk_stage \<Rightarrow> bool" where
  "fell_back stage \<longleftrightarrow> stg_fallback_used stage \<or> stg_status stage \<noteq> ''success''"

definition rtl8812au_runtime_iqk_sweep_summary ::
    "iqk_path_report list \<Rightarrow> string \<Rightarrow> string \<Rightarrow> u8 \<Rightarrow> sweep_summary" where
  "rtl8812au_runtime_iqk_sweep_summary paths status cleanup_status sweep_index =
     \<lparr>ss_sweep_index = sweep_index, ss_status = status, ss_cleanup_status = cleanup_status,
      ss_fallback_stage_count = sum_list (map (\<lambda>p. of_bool (fell_back (iq_tx p)) + of_bool (fell_back (iq_rx p))) paths),
      ss_path_statuses = map (\<lambda>p.
        \<lparr>sp_path_name = iq_path_name p,
         sp_tx_status = stg_status (iq_tx p), sp_tx_retry_count = stg_retry_count (iq_tx p),
         sp_tx_average_count = stg_average_count (iq_tx p), sp_tx_fallback_used = stg_fallback_used (iq_tx p),
         sp_tx_failure_label = stg_failure_label (iq_tx p),
         sp_rx_status = stg_status (iq_rx p), sp_rx_retry_count = stg_retry_count (iq_rx p),
         sp_rx_average_count = stg_average_count (iq_rx p), sp_rx_fallback_used = stg_fallback_used (iq_rx p),
         sp_rx_failure_label = stg_failure_label (iq_rx p)\<rparr>) paths\<rparr>"

end
