(* ===== verification/Iqk_Oneshot.thy ===== *)
theory Iqk_Oneshot
  imports Iqk_State Channel_Setup
begin

text \<open>
  The one-shot measurements of the runtime I/Q calibration (\<open>wfb-radio-runtime/src/lib.rs\<close>): serial
  RF reads, the trigger, the bounded wait for the result, and the attempts of the transmit and the
  receive stage.  The loops carry a counter that the code does not have; when it runs out the value
  is \<open>None\<close>, as for a loop that does not end.
\<close>

section \<open>Reads with reports\<close>

record register_read_report =
  rd_register_name :: string
  rd_address :: u16
  rd_address_hex :: string
  rd_width :: string
  rd_value :: u32
  rd_value_hex :: string

definition register_read_report :: "string \<Rightarrow> u16 \<Rightarrow> string \<Rightarrow> u32 \<Rightarrow> nat \<Rightarrow> register_read_report" where
  "register_read_report register_name address width v digits =
     \<lparr>rd_register_name = register_name, rd_address = address, rd_address_hex = format_register_address address,
      rd_width = width, rd_value = v, rd_value_hex = format_register_value v digits\<rparr>"

record rf_serial_read_report =
  rf_register_name :: string
  rf_path :: rf_path
  rf_path_name :: string
  rf_rf_offset :: u32
  rf_rf_offset_hex :: string
  rf_hssi_register_name :: string
  rf_hssi_register :: u16
  rf_hssi_register_hex :: string
  rf_hssi_mask_hex :: string
  rf_pi_mode_register_name :: string
  rf_pi_mode_register :: u16
  rf_pi_mode_register_hex :: string
  rf_pi_mode_value :: u32
  rf_pi_mode_value_hex :: string
  rf_pi_mode :: bool
  rf_readback_register_name :: string
  rf_readback_register :: u16
  rf_readback_register_hex :: string
  rf_readback_mask_hex :: string
  rf_value :: u32
  rf_value_hex :: string
  rf_counters :: radio_counters

type_synonym rf_read_target = "rf_path \<times> string \<times> string \<times> u16 \<times> string \<times> u16 \<times> string \<times> u16"

definition RF_SERIAL_READ_TARGET_A :: rf_read_target where
  "RF_SERIAL_READ_TARGET_A = (RfA, ''A'', ''rA_PI_Mode_Jaguar'', REG_RF_PI_MODE_A_JAGUAR,
     ''rA_PIRead_Jaguar'', REG_RF_PI_READ_A_JAGUAR, ''rA_SIRead_Jaguar'', REG_RF_SI_READ_A_JAGUAR)"

definition RF_SERIAL_READ_TARGET_B :: rf_read_target where
  "RF_SERIAL_READ_TARGET_B = (RfB, ''B'', ''rB_PI_Mode_Jaguar'', REG_RF_PI_MODE_B_JAGUAR,
     ''rB_PIRead_Jaguar'', REG_RF_PI_READ_B_JAGUAR, ''rB_SIRead_Jaguar'', REG_RF_SI_READ_B_JAGUAR)"

fun rf_serial_read_target :: "rf_path \<Rightarrow> rf_read_target option" where
  "rf_serial_read_target RfA = Some RF_SERIAL_READ_TARGET_A"
| "rf_serial_read_target RfB = Some RF_SERIAL_READ_TARGET_B"
| "rf_serial_read_target RfBoth = None"

definition rf_serial_read_register ::
    "('r, 't) reg_env \<Rightarrow> rf_path \<Rightarrow> u32 \<Rightarrow> ('t, rf_serial_read_report) reg_op" where
  "rf_serial_read_register env path rf_offset =
     (case rf_serial_read_target path of
        None \<Rightarrow> fail (radio_error_new ''rf_serial_read_path_unsupported''
          ''RF serial read requires path A or path B, not both'')
      | Some (path, path_name, pi_mode_name, pi_mode_register, pi_name, pi_register, si_name, si_register) \<Rightarrow>
          and_then current_counters (\<lambda>before.
          let rf_offset = rf_offset AND 0xff in
          and_then (read32_with_counter env pi_mode_register pi_mode_name ''rf-serial-read'') (\<lambda>pi_mode_value.
          let pi_mode = (pi_mode_value AND 0x4 \<noteq> 0);
              (readback_name, readback_register) = (if pi_mode then (pi_name, pi_register) else (si_name, si_register)) in
          and_do (bb_set_bb_reg env REG_HSSI_READ_JAGUAR 0xff rf_offset ''rHSSIRead_Jaguar'')
         (and_do (sleep env (micros 20))
         (and_then (read32_with_counter env readback_register readback_name ''rf-serial-read'') (\<lambda>raw.
          let v = raw AND RF_REGISTER_OFFSET_MASK in
          and_then current_counters (\<lambda>counters.
          ret \<lparr>rf_register_name = rf_register_display_name rf_offset, rf_path = path, rf_path_name = path_name,
               rf_rf_offset = rf_offset, rf_rf_offset_hex = format_register_value rf_offset 2,
               rf_hssi_register_name = ''rHSSIRead_Jaguar'', rf_hssi_register = REG_HSSI_READ_JAGUAR,
               rf_hssi_register_hex = format_register_address REG_HSSI_READ_JAGUAR,
               rf_hssi_mask_hex = format_register_value (0xff :: u32) 8,
               rf_pi_mode_register_name = pi_mode_name, rf_pi_mode_register = pi_mode_register,
               rf_pi_mode_register_hex = format_register_address pi_mode_register,
               rf_pi_mode_value = pi_mode_value, rf_pi_mode_value_hex = format_register_value pi_mode_value 8,
               rf_pi_mode = pi_mode, rf_readback_register_name = readback_name,
               rf_readback_register = readback_register,
               rf_readback_register_hex = format_register_address readback_register,
               rf_readback_mask_hex = format_register_value RF_REGISTER_OFFSET_MASK 5,
               rf_value = v, rf_value_hex = format_register_value v 5,
               rf_counters = counters_saturating_sub counters before\<rparr>)))))))"

section \<open>Accesses of the calibration\<close>

definition runtime_iqk_write32 :: "('r, 't) reg_env \<Rightarrow> string \<Rightarrow> u16 \<Rightarrow> u32 \<Rightarrow> string \<Rightarrow> ('t, unit) reg_op" where
  "runtime_iqk_write32 env register_name address v error_code =
     op_map_err (\<lambda>error. radio_error_new error_code
         (register_name @ '' '' @ format_register_address address @ '' write '' @ format_register_value v 8 @
          '' failed: '' @ re_message error))
       (write32_with_counter env address v register_name ''runtime-iqk'')"

definition runtime_iqk_read32 :: "('r, 't) reg_env \<Rightarrow> string \<Rightarrow> u16 \<Rightarrow> string \<Rightarrow> ('t, u32) reg_op" where
  "runtime_iqk_read32 env register_name address error_code =
     op_map_err (\<lambda>error. radio_error_new error_code
         (register_name @ '' '' @ format_register_address address @ '' read failed: '' @ re_message error))
       (read32_with_counter env address register_name ''runtime-iqk'')"

definition runtime_iqk_set_bb_reg ::
    "('r, 't) reg_env \<Rightarrow> string \<Rightarrow> u16 \<Rightarrow> u32 \<Rightarrow> u32 \<Rightarrow> string \<Rightarrow> ('t, unit) reg_op" where
  "runtime_iqk_set_bb_reg env register_name address msk data error_code =
     op_map_err (\<lambda>error. radio_error_new error_code
         (register_name @ '' '' @ format_register_address address @ '' masked write mask='' @ format_register_value msk 8 @
          '' data='' @ format_register_value data 8 @ '' failed: '' @ re_message error))
       (bb_set_bb_reg env address msk data register_name)"

definition runtime_iqk_rf_masked_write ::
    "('r, 't) reg_env \<Rightarrow> rf_path \<Rightarrow> u32 \<Rightarrow> u32 \<Rightarrow> u32 \<Rightarrow> string \<Rightarrow> ('t, unit) reg_op" where
  "runtime_iqk_rf_masked_write env path rf_offset msk data error_code =
     and_then (rf_serial_read_register env path rf_offset) (\<lambda>before.
     let written = apply_rf_mask (rf_value before) msk data in
     and_do (op_map_err (\<lambda>error. radio_error_new error_code
         (''RF path '' @ rf_path_name before @ '' offset '' @ rf_rf_offset_hex before @ '' masked write mask='' @
          format_register_value msk 5 @ '' data='' @ format_register_value data 5 @ '' failed: '' @ re_message error))
       (rf_serial_write_single_path env path rf_offset written)) (ret ()))"

definition rtl8812au_iqk_select_page :: "('r, 't) reg_env \<Rightarrow> bool \<Rightarrow> ('t, unit) reg_op" where
  "rtl8812au_iqk_select_page env page_c1 =
     op_map_err (\<lambda>error. radio_error_new ''rtl8812a_runtime_iqk_page_select_failed''
         (''REG_AGC_TABLE_JAGUAR page '' @ (if page_c1 then ''C1'' else ''C'') @ '' select failed: '' @ re_message error))
       (bb_set_bb_reg env REG_AGC_TABLE_JAGUAR RTL8812A_IQK_PAGE_C1_SELECT_BIT (of_bool page_c1) ''REG_AGC_TABLE_JAGUAR'')"

section \<open>Candidates\<close>

definition TX_FAILED :: string where "TX_FAILED = ''rtl8812a_runtime_iqk_tx_failed''"
definition RX_FAILED :: string where "RX_FAILED = ''rtl8812a_runtime_iqk_rx_failed''"

definition runtime_iqk_capture_tx_candidate ::
    "('r, 't) reg_env \<Rightarrow> string \<Rightarrow> string \<Rightarrow> u16 \<Rightarrow> string \<Rightarrow> u16 \<Rightarrow> ('t, iqc_value \<times> raw_candidate) reg_op" where
  "runtime_iqk_capture_tx_candidate env path_name latch_register_name latch_register result_register_name result_register =
     and_do (runtime_iqk_write32 env latch_register_name latch_register 0x02000000 TX_FAILED)
    (and_then (runtime_iqk_read32 env result_register_name result_register TX_FAILED) (\<lambda>tx_x_raw.
     and_do (runtime_iqk_write32 env latch_register_name latch_register 0x04000000 TX_FAILED)
    (and_then (runtime_iqk_read32 env result_register_name result_register TX_FAILED) (\<lambda>tx_y_raw.
     let raw = rtl8812au_runtime_iqk_raw_candidate_report tx_x_raw tx_y_raw;
         candidate = rtl8812au_runtime_iqk_iqc_value (cd_x_field raw) (cd_y_field raw)
     in if iqc_x candidate = 0 \<and> iqc_y candidate = 0
        then fail (radio_error_new TX_FAILED
          (''path '' @ path_name @ '' TX IQK produced a zero TX_X/TX_Y candidate''))
        else ret (candidate, raw)))))"

definition runtime_iqk_capture_rx_candidate ::
    "('r, 't) reg_env \<Rightarrow> string \<Rightarrow> u16 \<Rightarrow> string \<Rightarrow> u16 \<Rightarrow> ('t, iqc_value \<times> raw_candidate) reg_op" where
  "runtime_iqk_capture_rx_candidate env latch_register_name latch_register result_register_name result_register =
     and_do (runtime_iqk_write32 env latch_register_name latch_register 0x06000000 RX_FAILED)
    (and_then (runtime_iqk_read32 env result_register_name result_register RX_FAILED) (\<lambda>rx_x_raw.
     and_do (runtime_iqk_write32 env latch_register_name latch_register 0x08000000 RX_FAILED)
    (and_then (runtime_iqk_read32 env result_register_name result_register RX_FAILED) (\<lambda>rx_y_raw.
     let raw = rtl8812au_runtime_iqk_raw_candidate_report rx_x_raw rx_y_raw
     in ret (rtl8812au_runtime_iqk_iqc_value (cd_x_field raw) (cd_y_field raw), raw)))))"

section \<open>Attempts of both paths\<close>

text \<open>
  The two stages treat each path alike: \<open>active\<close> says whether the stage runs on the path at all
  (always, for the transmit stage).
\<close>

definition never :: "('t, 'a) reg_op" where
  "never s = None"

definition poll_path ::
    "('r, 't) reg_env \<Rightarrow> string \<Rightarrow> bool \<Rightarrow> string \<Rightarrow> u16 \<Rightarrow> path_state \<Rightarrow> u32 option \<Rightarrow> ('t, path_state \<times> u32 option) reg_op" where
  "poll_path env error_code active register_name result_register p status_raw =
     (if \<not> os_finished p \<and> active
      then and_then (runtime_iqk_read32 env register_name result_register error_code) (\<lambda>v.
             ret (p\<lparr>os_ready := Some (v AND RTL8812A_IQK_READY_MASK \<noteq> 0)\<rparr>, Some v))
      else ret (p, status_raw))"

definition path_ready :: "bool \<Rightarrow> path_state \<Rightarrow> bool" where
  "path_ready active p \<longleftrightarrow> os_finished p \<or> \<not> active \<or> os_ready p = Some True"

fun poll_ready ::
    "('r, 't) reg_env \<Rightarrow> string \<Rightarrow> bool \<Rightarrow> bool \<Rightarrow> nat \<Rightarrow> u8 \<Rightarrow> path_state \<times> u32 option \<Rightarrow> path_state \<times> u32 option \<Rightarrow>
     ('t, u8 \<times> (path_state \<times> u32 option) \<times> (path_state \<times> u32 option)) reg_op" where
  "poll_ready env error_code active_a active_b 0 delays a b = never"
| "poll_ready env error_code active_a active_b (Suc n) delays (path_a, status_a) (path_b, status_b) =
     and_then (poll_path env error_code active_a ''R_0xd00'' REG_IQK_RESULT_A_D00 path_a status_a) (\<lambda>(path_a, status_a).
     and_then (poll_path env error_code active_b ''R_0xd40'' REG_IQK_RESULT_B_D40 path_b status_b) (\<lambda>(path_b, status_b).
     if (path_ready active_a path_a \<and> path_ready active_b path_b) \<or> delays > RTL8812A_IQK_READY_POLL_LIMIT
     then ret (delays, (path_a, status_a), (path_b, status_b))
     else and_do (sleep env (millis 1))
       (poll_ready env error_code active_a active_b n (delays + 1) (path_a, status_a) (path_b, status_b))))"

text \<open>The result of a path that became ready in time.\<close>

definition collect_path ::
    "('r, 't) reg_env \<Rightarrow> string \<Rightarrow> bool \<Rightarrow> string \<Rightarrow> u16 \<Rightarrow> u32 \<Rightarrow> string \<Rightarrow> ('t, iqc_value \<times> raw_candidate) reg_op \<Rightarrow> u8 \<Rightarrow> path_state \<Rightarrow>
     ('t, path_state) reg_op" where
  "collect_path env error_code active register_name result_register fail_mask failed_label capture delays p =
     (if \<not> os_finished p \<and> active
      then and_then (runtime_iqk_read32 env register_name result_register error_code) (\<lambda>v.
             let failed = (v AND fail_mask \<noteq> 0);
                 p = p\<lparr>os_failed := Some failed\<rparr>
             in if failed
                then ret (note_retry failed_label
                  (push_attempt (os_ready p) (Some failed) (Some delays) (Some v) None None (Some failed_label) p))
                else and_then capture (\<lambda>(candidate, raw).
                  ret (push_candidate candidate
                    (push_attempt (os_ready p) (Some failed) (Some delays) (Some v) (Some raw) (Some candidate) None p))))
      else ret p)"

definition not_ready_path :: "bool \<Rightarrow> string \<Rightarrow> u8 \<Rightarrow> u32 option \<Rightarrow> path_state \<Rightarrow> path_state" where
  "not_ready_path active label delays status_raw p =
     (if \<not> os_finished p \<and> active
      then note_retry label (push_attempt (os_ready p) None (Some delays) status_raw None None (Some label) p)
      else p)"

text \<open>The wait for both results and their collection; the bounds make \<open>IQK_POLLS\<close> turns enough.\<close>

definition IQK_POLLS :: nat where "IQK_POLLS = 22"
definition IQK_ROUNDS :: nat where "IQK_ROUNDS = 10"

definition tx_round :: "('r, 't) reg_env \<Rightarrow> path_state \<times> path_state \<Rightarrow> ('t, path_state \<times> path_state) reg_op" where
  "tx_round env paths =
     and_do (run_all
       [runtime_iqk_write32 env ''R_0xcb8'' REG_RFE_TIMING_A_JAGUAR 0x00100000 TX_FAILED,
        runtime_iqk_write32 env ''R_0xeb8'' REG_RFE_TIMING_B_JAGUAR 0x00100000 TX_FAILED,
        runtime_iqk_write32 env ''R_0x980'' REG_IQK_TRIGGER_980 0xfa000000 TX_FAILED,
        runtime_iqk_write32 env ''R_0x980'' REG_IQK_TRIGGER_980 0xf8000000 TX_FAILED,
        sleep env (millis 10),
        runtime_iqk_write32 env ''R_0xcb8'' REG_RFE_TIMING_A_JAGUAR 0 TX_FAILED,
        runtime_iqk_write32 env ''R_0xeb8'' REG_RFE_TIMING_B_JAGUAR 0 TX_FAILED])
    (and_then (poll_ready env TX_FAILED True True IQK_POLLS 0 (fst paths, None) (snd paths, None))
      (\<lambda>(delays, (path_a, status_a), (path_b, status_b)).
     let path_a = note_delay_count delays path_a; path_b = note_delay_count delays path_b in
     if delays < RTL8812A_IQK_READY_POLL_LIMIT
     then and_then (collect_path env TX_FAILED True ''R_0xd00'' REG_IQK_RESULT_A_D00 RTL8812A_IQK_TX_FAIL_MASK ''tx_iqk_failed_flag''
              (runtime_iqk_capture_tx_candidate env ''A'' ''R_0xcb8'' REG_RFE_TIMING_A_JAGUAR ''R_0xd00'' REG_IQK_RESULT_A_D00)
              delays path_a) (\<lambda>path_a.
          and_then (collect_path env TX_FAILED True ''R_0xd40'' REG_IQK_RESULT_B_D40 RTL8812A_IQK_TX_FAIL_MASK ''tx_iqk_failed_flag''
              (runtime_iqk_capture_tx_candidate env ''B'' ''R_0xeb8'' REG_RFE_TIMING_B_JAGUAR ''R_0xd40'' REG_IQK_RESULT_B_D40)
              delays path_b) (\<lambda>path_b.
          ret (path_a, path_b)))
     else ret (not_ready_path True ''tx_iqk_not_ready'' delays status_a path_a,
               not_ready_path True ''tx_iqk_not_ready'' delays status_b path_b)))"

fun tx_rounds :: "('r, 't) reg_env \<Rightarrow> nat \<Rightarrow> path_state \<times> path_state \<Rightarrow> ('t, path_state \<times> path_state) reg_op" where
  "tx_rounds env 0 paths = never"
| "tx_rounds env (Suc n) paths =
     (if os_finished (fst paths) \<and> os_finished (snd paths) then ret paths
      else and_then (tx_round env paths) (\<lambda>(path_a, path_b).
        if os_finished path_a \<and> os_finished path_b then ret (path_a, path_b)
        else if path_attempts path_a \<ge> RTL8812A_IQK_MAX_ATTEMPTS \<or> path_attempts path_b \<ge> RTL8812A_IQK_MAX_ATTEMPTS
        then ret (path_a, path_b)
        else tx_rounds env n (path_a, path_b)))"

definition run_rtl8812au_runtime_iqk_tx_oneshot :: "('r, 't) reg_env \<Rightarrow> ('t, iqk_stage \<times> iqk_stage) reg_op" where
  "run_rtl8812au_runtime_iqk_tx_oneshot env =
     and_then (tx_rounds env IQK_ROUNDS (path_state_default, path_state_default)) (\<lambda>(path_a, path_b).
     ret (into_stage_report ''tx'' (rtl8812au_runtime_iqk_iqc_value 0x200 0) [] path_a,
          into_stage_report ''tx'' (rtl8812au_runtime_iqk_iqc_value 0x200 0) [] path_b))"

section \<open>The receive stage\<close>

definition rx_path_setup :: "(u32 \<times> u32) list" where
  "rx_path_setup =
     [(RF_IQK_MODE_JAGUAR, 0x80000), (RF_IQK_TX_0X30_JAGUAR, 0x30000), (RF_IQK_TX_0X31_JAGUAR, 0x3f7ff),
      (RF_IQK_TX_0X32_JAGUAR, 0xfe7bf), (0x8f, 0x88001), (0x65, 0x931d1), (RF_IQK_MODE_JAGUAR, 0)]"

definition runtime_iqk_prepare_rx_path :: "('r, 't) reg_env \<Rightarrow> rf_path \<Rightarrow> ('t, unit) reg_op" where
  "runtime_iqk_prepare_rx_path env path =
     for_each rx_path_setup (\<lambda>(rf_offset, v) _.
       and_do (op_map_err (\<lambda>error. radio_error_new RX_FAILED
           (''RF path '' @ show_rf_path path @ '' RX IQK setup offset '' @ format_register_value rf_offset 2 @ '' value '' @
            format_register_value v 5 @ '' failed: '' @ re_message error))
         (rf_serial_write_single_path env path rf_offset v)) (ret ())) ()"

definition runtime_iqk_load_lok :: "('r, 't) reg_env \<Rightarrow> rf_path \<Rightarrow> ('t, unit) reg_op" where
  "runtime_iqk_load_lok env path =
     and_then (rf_serial_read_register env path RF_IQK_LOK_READBACK_JAGUAR) (\<lambda>lok_source.
     let lok_data = bb_masked_field (rf_value lok_source) 0x000ffc00
     in runtime_iqk_rf_masked_write env path RF_IQK_LOK_LOAD_JAGUAR 0x0007fe00 lok_data RX_FAILED)"

definition runtime_iqk_prepare_rx_oneshot :: "('r, 't) reg_env \<Rightarrow> bool \<Rightarrow> bool \<Rightarrow> u8 \<Rightarrow> ('t, unit) reg_op" where
  "runtime_iqk_prepare_rx_oneshot env tx_path_a_ready tx_path_b_ready rfe_type =
     (let inv_value = (if rfe_type = 1 then 0x00000077 else 0x02000077) in
      run_all
       [rtl8812au_iqk_select_page env False,
        if tx_path_a_ready then runtime_iqk_prepare_rx_path env RfA else ret (),
        if tx_path_b_ready then runtime_iqk_prepare_rx_path env RfB else ret (),
        runtime_iqk_set_bb_reg env ''R_0x978'' 0x0978 0x80000000 1 RX_FAILED,
        runtime_iqk_set_bb_reg env ''R_0x97c'' 0x097c 0x80000000 0 RX_FAILED,
        runtime_iqk_write32 env ''R_0x90c'' REG_IQK_MACBB_0X090C 0x00008000 RX_FAILED,
        runtime_iqk_write32 env ''R_0x984'' 0x0984 0x0046a890 RX_FAILED,
        runtime_iqk_write32 env ''rA_RFE_Pinmux_Jaguar'' REG_RFE_PINMUX_A_JAGUAR 0x77777717 RX_FAILED,
        runtime_iqk_write32 env ''rB_RFE_Pinmux_Jaguar'' REG_RFE_PINMUX_B_JAGUAR 0x77777717 RX_FAILED,
        runtime_iqk_write32 env ''rA_RFE_Inv_Jaguar'' REG_RFE_INV_A_JAGUAR inv_value RX_FAILED,
        runtime_iqk_write32 env ''rB_RFE_Inv_Jaguar'' REG_RFE_INV_B_JAGUAR inv_value RX_FAILED,
        rtl8812au_iqk_select_page env True,
        if tx_path_a_ready then run_all
          [runtime_iqk_write32 env ''R_0xc80'' REG_IQK_TX_TONE_A_C80 0x38008c10 RX_FAILED,
           runtime_iqk_write32 env ''R_0xc84'' REG_IQK_RX_TONE_A_C84 0x18008c10 RX_FAILED,
           runtime_iqk_write32 env ''R_0xc88'' REG_IQK_RFE_SETTING_A_C88 0x82140119 RX_FAILED] else ret (),
        if tx_path_b_ready then run_all
          [runtime_iqk_write32 env ''R_0xe80'' REG_IQK_TX_TONE_B_E80 0x38008c10 RX_FAILED,
           runtime_iqk_write32 env ''R_0xe84'' REG_IQK_RX_TONE_B_E84 0x18008c10 RX_FAILED,
           runtime_iqk_write32 env ''R_0xe88'' REG_IQK_RFE_SETTING_B_E88 0x82140119 RX_FAILED] else ret ()])"

definition runtime_iqk_trigger_rx_path ::
    "('r, 't) reg_env \<Rightarrow> iqc_value \<Rightarrow> string \<Rightarrow> u16 \<Rightarrow> string \<Rightarrow> u16 \<Rightarrow> u32 \<Rightarrow> ('t, unit) reg_op" where
  "runtime_iqk_trigger_rx_path env tx_iqc mixer_register_name mixer_register latch_register_name latch_register mixer_value =
     run_all
       [rtl8812au_iqk_select_page env False,
        runtime_iqk_set_bb_reg env ''R_0x978'' 0x0978 0x03ff8000 (iqc_x tx_iqc) RX_FAILED,
        runtime_iqk_set_bb_reg env ''R_0x978'' 0x0978 0x000007ff (iqc_y tx_iqc) RX_FAILED,
        rtl8812au_iqk_select_page env True,
        runtime_iqk_write32 env mixer_register_name mixer_register mixer_value RX_FAILED,
        runtime_iqk_write32 env latch_register_name latch_register 0x00300000 RX_FAILED,
        runtime_iqk_write32 env latch_register_name latch_register 0x00100000 RX_FAILED,
        sleep env (millis 5),
        runtime_iqk_write32 env mixer_register_name mixer_register 0x3c000000 RX_FAILED,
        runtime_iqk_write32 env latch_register_name latch_register 0 RX_FAILED]"

definition rx_round ::
    "('r, 't) reg_env \<Rightarrow> iqc_value option \<Rightarrow> iqc_value option \<Rightarrow> u8 \<Rightarrow> path_state \<times> path_state \<Rightarrow>
     ('t, path_state \<times> path_state) reg_op" where
  "rx_round env tx_a_iqc tx_b_iqc rfe_type paths =
     (let path_a_mixer = (if rfe_type = 1 then 0x28161500 else 0x28160cc0);
          path_b_mixer = (if rfe_type = 1 then 0x28161500 else 0x28160ca0);
          active_a = (tx_a_iqc \<noteq> None); active_b = (tx_b_iqc \<noteq> None) in
      and_do (case tx_a_iqc of None \<Rightarrow> ret () | Some tx_iqc \<Rightarrow>
        runtime_iqk_trigger_rx_path env tx_iqc ''R_0xc8c'' REG_IQK_RFE_SETTING_A_C8C ''R_0xcb8'' REG_RFE_TIMING_A_JAGUAR path_a_mixer)
     (and_do (case tx_b_iqc of None \<Rightarrow> ret () | Some tx_iqc \<Rightarrow>
        runtime_iqk_trigger_rx_path env tx_iqc ''R_0xe8c'' REG_IQK_RFE_SETTING_B_E8C ''R_0xeb8'' REG_RFE_TIMING_B_JAGUAR path_b_mixer)
     (and_then (poll_ready env RX_FAILED active_a active_b IQK_POLLS 0 (fst paths, None) (snd paths, None))
      (\<lambda>(delays, (path_a, status_a), (path_b, status_b)).
     let path_a = note_delay_count delays path_a; path_b = note_delay_count delays path_b in
     if delays < RTL8812A_IQK_READY_POLL_LIMIT
     then and_then (collect_path env RX_FAILED active_a ''R_0xd00'' REG_IQK_RESULT_A_D00 RTL8812A_IQK_RX_FAIL_MASK ''rx_iqk_failed_flag''
              (runtime_iqk_capture_rx_candidate env ''R_0xcb8'' REG_RFE_TIMING_A_JAGUAR ''R_0xd00'' REG_IQK_RESULT_A_D00)
              delays path_a) (\<lambda>path_a.
          and_then (collect_path env RX_FAILED active_b ''R_0xd40'' REG_IQK_RESULT_B_D40 RTL8812A_IQK_RX_FAIL_MASK ''rx_iqk_failed_flag''
              (runtime_iqk_capture_rx_candidate env ''R_0xeb8'' REG_RFE_TIMING_B_JAGUAR ''R_0xd40'' REG_IQK_RESULT_B_D40)
              delays path_b) (\<lambda>path_b.
          ret (path_a, path_b)))
     else ret (not_ready_path active_a ''rx_iqk_not_ready'' delays status_a path_a,
               not_ready_path active_b ''rx_iqk_not_ready'' delays status_b path_b)))))"

fun rx_rounds ::
    "('r, 't) reg_env \<Rightarrow> iqc_value option \<Rightarrow> iqc_value option \<Rightarrow> u8 \<Rightarrow> nat \<Rightarrow> path_state \<times> path_state \<Rightarrow>
     ('t, path_state \<times> path_state) reg_op" where
  "rx_rounds env tx_a tx_b rfe_type 0 paths = never"
| "rx_rounds env tx_a tx_b rfe_type (Suc n) paths =
     (if (os_finished (fst paths) \<or> tx_a = None) \<and> (os_finished (snd paths) \<or> tx_b = None) then ret paths
      else and_then (rx_round env tx_a tx_b rfe_type paths) (\<lambda>(path_a, path_b).
        if (os_finished path_a \<or> tx_a = None) \<and> (os_finished path_b \<or> tx_b = None) then ret (path_a, path_b)
        else if path_attempts path_a \<ge> RTL8812A_IQK_MAX_ATTEMPTS \<or> path_attempts path_b \<ge> RTL8812A_IQK_MAX_ATTEMPTS \<or>
          length (os_candidates path_a) \<ge> RTL8812A_IQK_MAX_RX_CANDIDATES \<or>
          length (os_candidates path_b) \<ge> RTL8812A_IQK_MAX_RX_CANDIDATES
        then ret (path_a, path_b)
        else rx_rounds env tx_a tx_b rfe_type n (path_a, path_b)))"

definition run_rtl8812au_runtime_iqk_rx_oneshot ::
    "('r, 't) reg_env \<Rightarrow> iqk_stage \<Rightarrow> iqk_stage \<Rightarrow> u8 \<Rightarrow> ('t, iqk_stage \<times> iqk_stage) reg_op" where
  "run_rtl8812au_runtime_iqk_rx_oneshot env tx_path_a tx_path_b rfe_type =
     (let tx_a_iqc = rtl8812au_runtime_iqk_stage_success_iqc tx_path_a;
          tx_b_iqc = rtl8812au_runtime_iqk_stage_success_iqc tx_path_b;
          skipped = rtl8812au_runtime_iqk_skipped_stage_report ''rx'' ''rx_iqk_skipped_without_tx_iqk'' [];
          report = (\<lambda>tx_iqc path. if tx_iqc \<noteq> None
            then into_stage_report ''rx'' (rtl8812au_runtime_iqk_iqc_value 0x200 0) [] path else skipped) in
      and_do (rtl8812au_iqk_select_page env False)
     (and_do (if tx_a_iqc \<noteq> None then runtime_iqk_load_lok env RfA else ret ())
     (and_do (if tx_b_iqc \<noteq> None then runtime_iqk_load_lok env RfB else ret ())
     (and_do (runtime_iqk_prepare_rx_oneshot env (tx_a_iqc \<noteq> None) (tx_b_iqc \<noteq> None) rfe_type)
     (if tx_a_iqc = None \<and> tx_b_iqc = None then ret (skipped, skipped)
      else and_then (rx_rounds env tx_a_iqc tx_b_iqc rfe_type IQK_ROUNDS (path_state_default, path_state_default))
        (\<lambda>(path_a, path_b). ret (report tx_a_iqc path_a, report tx_b_iqc path_b)))))))"

end
