(* ===== verification/Iqk_Run.thy ===== *)
theory Iqk_Run
  imports Iqk_Oneshot Mac_Address
begin

text \<open>
  The runtime I/Q calibration as a whole (\<open>wfb-radio-runtime/src/lib.rs\<close>): backup of everything it
  disturbs, the setup plan, the two stages, the restore that is made whatever they answered, the fill
  of the selected corrections, and the repeated sweeps.
\<close>

section \<open>Filling in the corrections\<close>

definition invalid_path :: "string \<Rightarrow> radio_error" where
  "invalid_path stage = radio_error_new ''rtl8812a_runtime_iqk_invalid_path''
     (''RTL8812A IQK '' @ stage @ '' IQC fill requires path A or path B, not both'')"

definition rtl8812au_iqk_tx_fill_iqc_plan ::
    "rf_path \<Rightarrow> u32 \<Rightarrow> u32 \<Rightarrow> bool \<Rightarrow> (radio_error, masked_bb_write list) result" where
  "rtl8812au_iqk_tx_fill_iqc_plan path tx_x tx_y dpk_done =
     (if path = RfBoth then Inl (invalid_path ''TX'')
      else let w = rtl8812au_runtime_iqk_masked_bb_write_plan;
          (tx_bb_ctrl_name, tx_bb_ctrl, tx_ctrl_name, tx_ctrl, tx_latch_name, tx_latch, tx_y_name, tx_y_register,
           tx_x_name, tx_x_register) =
            (if path = RfA
             then (''rA_TxBbCtrl'', REG_TX_BB_CTRL_A_JAGUAR, ''R_0xcc4'', REG_IQK_TX_CTRL_A_CC4, ''R_0xcc8'', REG_IQK_TX_CTRL_A_CC8,
                   ''R_0xccc_TX_Y'', REG_IQK_TX_Y_A_CCC, ''R_0xcd4_TX_X'', REG_IQK_TX_X_A_CD4)
             else (''rB_TxBbCtrl'', REG_TX_BB_CTRL_B_JAGUAR, ''R_0xec4'', REG_IQK_TX_CTRL_B_EC4, ''R_0xec8'', REG_IQK_TX_CTRL_B_EC8,
                   ''R_0xecc_TX_Y'', REG_IQK_TX_Y_B_ECC, ''R_0xed4_TX_X'', REG_IQK_TX_X_B_ED4))
        in Inr (
          [w ''REG_AGC_TABLE_JAGUAR'' REG_AGC_TABLE_JAGUAR RTL8812A_IQK_PAGE_C1_SELECT_BIT 1
             ''_iqk_tx_fill_iqc_8812a selects BB page C1 before writing TX IQC latches'',
           w tx_bb_ctrl_name tx_bb_ctrl 0x00000080 1 ''_iqk_tx_fill_iqc_8812a enables TX IQC fill path'',
           w tx_ctrl_name tx_ctrl 0x00040000 1 ''_iqk_tx_fill_iqc_8812a enables TX IQK correction latch''] @
          (if \<not> dpk_done
           then [w tx_ctrl_name tx_ctrl 0x20000000 1 ''_iqk_tx_fill_iqc_8812a enables IQK fill when DPK has not completed'']
           else []) @
          [w tx_latch_name tx_latch 0x20000000 1 ''_iqk_tx_fill_iqc_8812a arms the TX IQK result latch'',
           w tx_y_name tx_y_register 0x000007ff (tx_y AND 0x000007ff) ''_iqk_tx_fill_iqc_8812a writes selected TX_Y IQC'',
           w tx_x_name tx_x_register 0x000007ff (tx_x AND 0x000007ff) ''_iqk_tx_fill_iqc_8812a writes selected TX_X IQC'']))"

definition rtl8812au_iqk_rx_fill_iqc_plan :: "rf_path \<Rightarrow> u32 \<Rightarrow> u32 \<Rightarrow> (radio_error, masked_bb_write list) result" where
  "rtl8812au_iqk_rx_fill_iqc_plan path rx_x rx_y =
     (if path = RfBoth then Inl (invalid_path ''RX'')
      else let w = rtl8812au_runtime_iqk_masked_bb_write_plan;
          (register_name, register) =
            (if path = RfA then (''R_0xc10_RX_IQC_A'', REG_IQK_RX_IQC_A_JAGUAR) else (''R_0xe10_RX_IQC_B'', REG_IQK_RX_IQC_B_JAGUAR));
          shifted_x = drop_bit 1 rx_x;
          shifted_y = drop_bit 1 rx_y;
          uses_upstream_fallback = (shifted_x \<ge> 0x112 \<or> (shifted_y \<ge> 0x12 \<and> shifted_y \<le> 0x3ee));
          (iqc_x, iqc_y, reason) =
            (if uses_upstream_fallback
             then (0x100, 0, ''_iqk_rx_fill_iqc_8812a uses upstream fallback when shifted RX_X/RX_Y is out of range'')
             else (shifted_x AND 0x03ff, shifted_y AND 0x03ff, ''_iqk_rx_fill_iqc_8812a writes selected shifted RX IQC''))
        in Inr
          [w ''REG_AGC_TABLE_JAGUAR'' REG_AGC_TABLE_JAGUAR RTL8812A_IQK_PAGE_C1_SELECT_BIT 0
             ''_iqk_rx_fill_iqc_8812a selects BB page C before writing RX IQC latches'',
           w register_name register 0x000003ff iqc_x reason,
           w register_name register 0x03ff0000 iqc_y reason])"

definition apply_runtime_iqk_masked_bb_write :: "('r, 't) reg_env \<Rightarrow> masked_bb_write \<Rightarrow> string \<Rightarrow> ('t, unit) reg_op" where
  "apply_runtime_iqk_masked_bb_write env w error_code =
     op_map_err (\<lambda>error. radio_error_new error_code (mb_register_name w @ '' masked write failed: '' @ re_message error))
       (bb_set_bb_reg env (mb_address w) (mb_mask w) (mb_data w) (mb_register_name w))"

definition apply_rtl8812au_runtime_iqk_fill ::
    "('r, 't) reg_env \<Rightarrow> rf_path \<Rightarrow> iqk_stage \<Rightarrow> iqk_stage \<Rightarrow> ('t, nat \<times> iqk_stage \<times> iqk_stage) reg_op" where
  "apply_rtl8812au_runtime_iqk_fill env path tx_stage rx_stage =
     (let tx_iqc = rtl8812au_runtime_iqk_stage_iqc_or_fallback tx_stage;
          rx_iqc = rtl8812au_runtime_iqk_stage_iqc_or_fallback rx_stage in
      and_then (of_result (rtl8812au_iqk_tx_fill_iqc_plan path (iqc_x tx_iqc) (iqc_y tx_iqc) False)) (\<lambda>tx_plan.
      and_then (of_result (rtl8812au_iqk_rx_fill_iqc_plan path (iqc_x rx_iqc) (iqc_y rx_iqc))) (\<lambda>rx_plan.
      and_do (for_each (tx_plan @ rx_plan)
        (\<lambda>w _. apply_runtime_iqk_masked_bb_write env w ''rtl8812a_runtime_iqk_fill_failed'') ())
      (ret (length tx_plan + length rx_plan, tx_stage\<lparr>stg_fill_plan := tx_plan\<rparr>, rx_stage\<lparr>stg_fill_plan := rx_plan\<rparr>)))))"

section \<open>The setup plan\<close>

datatype iqk_setup_write =
    SetupRegister string string u16 string string u32 string string
  | SetupMaskedBb string masked_bb_write
  | SetupRf string rf_path string u32 string u32 string string

definition rtl8812au_runtime_iqk_setup_write8_plan :: "string \<Rightarrow> string \<Rightarrow> u16 \<Rightarrow> u8 \<Rightarrow> string \<Rightarrow> iqk_setup_write" where
  "rtl8812au_runtime_iqk_setup_write8_plan phase register_name address v reason =
     SetupRegister phase register_name address (format_register_address address) ''u8'' (ucast v) (format_register_value v 2) reason"

definition rtl8812au_runtime_iqk_setup_write32_plan :: "string \<Rightarrow> string \<Rightarrow> u16 \<Rightarrow> u32 \<Rightarrow> string \<Rightarrow> iqk_setup_write" where
  "rtl8812au_runtime_iqk_setup_write32_plan phase register_name address v reason =
     SetupRegister phase register_name address (format_register_address address) ''u32'' v (format_register_value v 8) reason"

definition rtl8812au_runtime_iqk_setup_masked_bb_plan :: "string \<Rightarrow> string \<Rightarrow> u16 \<Rightarrow> u32 \<Rightarrow> u32 \<Rightarrow> string \<Rightarrow> iqk_setup_write" where
  "rtl8812au_runtime_iqk_setup_masked_bb_plan phase register_name address msk data reason =
     SetupMaskedBb phase (rtl8812au_runtime_iqk_masked_bb_write_plan register_name address msk data reason)"

fun rf_path_name_of :: "rf_path \<Rightarrow> string option" where
  "rf_path_name_of RfA = Some ''A''" | "rf_path_name_of RfB = Some ''B''" | "rf_path_name_of RfBoth = None"

definition rtl8812au_runtime_iqk_setup_rf_plan :: "string \<Rightarrow> rf_path \<Rightarrow> u32 \<Rightarrow> u32 \<Rightarrow> string \<Rightarrow> iqk_setup_write" where
  "rtl8812au_runtime_iqk_setup_rf_plan phase path rf_offset v reason =
     SetupRf phase path (case rf_path_name_of path of None \<Rightarrow> ''?'' | Some n \<Rightarrow> n) rf_offset (format_register_value rf_offset 2) v
       (format_register_value v 5) reason"

definition iqk_mac_afe_setup :: "iqk_setup_write list" where
  "iqk_mac_afe_setup =
     [rtl8812au_runtime_iqk_setup_masked_bb_plan ''mac_config'' ''REG_AGC_TABLE_JAGUAR'' REG_AGC_TABLE_JAGUAR RTL8812A_IQK_PAGE_C1_SELECT_BIT 0
        ''_iqk_configure_mac_8812a selects page C before MAC gating'',
      rtl8812au_runtime_iqk_setup_write8_plan ''mac_config'' ''REG_TXPAUSE'' REG_TXPAUSE 0x3f
        ''_iqk_configure_mac_8812a pauses packet TX queues during IQK'',
      rtl8812au_runtime_iqk_setup_masked_bb_plan ''mac_config'' ''REG_BCN_CTRL'' REG_BCN_CTRL 0x00000808 0
        ''_iqk_configure_mac_8812a disables beacon/TBTT interactions during IQK'',
      rtl8812au_runtime_iqk_setup_write8_plan ''mac_config'' ''REG_OFDMCCKEN_JAGUAR'' REG_OFDMCCKEN_JAGUAR 0x00
        ''_iqk_configure_mac_8812a disables RX antenna path'',
      rtl8812au_runtime_iqk_setup_masked_bb_plan ''mac_config'' ''REG_CCA_ON_SEC_JAGUAR'' REG_CCA_ON_SEC_JAGUAR 0x0000000f 0x0c
        ''_iqk_configure_mac_8812a gates CCA during IQK'',
      rtl8812au_runtime_iqk_setup_write8_plan ''mac_config'' ''REG_CCK_RX_PATH_JAGUAR'' REG_CCK_RX_PATH_JAGUAR 0x0f
        ''_iqk_configure_mac_8812a disables CCK RX path during IQK'',
      rtl8812au_runtime_iqk_setup_masked_bb_plan ''tx_setup'' ''REG_AGC_TABLE_JAGUAR'' REG_AGC_TABLE_JAGUAR RTL8812A_IQK_PAGE_C1_SELECT_BIT 0
        ''_iqk_tx_8812a selects page C before AFE/RF setup'',
      rtl8812au_runtime_iqk_setup_write32_plan ''afe_setup'' ''R_0xc60'' REG_IQK_AFE_A_C60 0x77777777
        ''_iqk_tx_8812a enables path A DAC/ADC'',
      rtl8812au_runtime_iqk_setup_write32_plan ''afe_setup'' ''R_0xc64'' REG_IQK_AFE_A_C64 0x77777777
        ''_iqk_tx_8812a enables path A DAC/ADC'',
      rtl8812au_runtime_iqk_setup_write32_plan ''afe_setup'' ''R_0xe60'' REG_IQK_AFE_B_E60 0x77777777
        ''_iqk_tx_8812a enables path B DAC/ADC'',
      rtl8812au_runtime_iqk_setup_write32_plan ''afe_setup'' ''R_0xe64'' REG_IQK_AFE_B_E64 0x77777777
        ''_iqk_tx_8812a enables path B DAC/ADC'',
      rtl8812au_runtime_iqk_setup_write32_plan ''afe_setup'' ''R_0xc68'' REG_IQK_AFE_A_C68 0x19791979
        ''_iqk_tx_8812a configures path A AFE IQK bias'',
      rtl8812au_runtime_iqk_setup_write32_plan ''afe_setup'' ''R_0xe68'' REG_IQK_AFE_B_E68 0x19791979
        ''_iqk_tx_8812a configures path B AFE IQK bias'',
      rtl8812au_runtime_iqk_setup_masked_bb_plan ''afe_setup'' ''rA_PI_Mode_Jaguar'' REG_RF_PI_MODE_A_JAGUAR 0x0000000f 0x04
        ''_iqk_tx_8812a disables hardware 3-wire path A'',
      rtl8812au_runtime_iqk_setup_masked_bb_plan ''afe_setup'' ''rB_PI_Mode_Jaguar'' REG_RF_PI_MODE_B_JAGUAR 0x0000000f 0x04
        ''_iqk_tx_8812a disables hardware 3-wire path B'',
      rtl8812au_runtime_iqk_setup_masked_bb_plan ''afe_setup'' ''R_0xc5c'' REG_IQK_AFE_A_C5C 0x07000000 0x07
        ''_iqk_tx_8812a sets path A DAC/ADC sampling rate'',
      rtl8812au_runtime_iqk_setup_masked_bb_plan ''afe_setup'' ''R_0xe5c'' REG_IQK_AFE_B_E5C 0x07000000 0x07
        ''_iqk_tx_8812a sets path B DAC/ADC sampling rate'']"

definition iqk_rf_tx_setup :: "rf_path \<Rightarrow> iqk_setup_write list" where
  "iqk_rf_tx_setup path =
     [rtl8812au_runtime_iqk_setup_rf_plan ''rf_tx_setup'' path RF_IQK_MODE_JAGUAR 0x80002
        ''_iqk_tx_8812a selects RF IQK mode'',
      rtl8812au_runtime_iqk_setup_rf_plan ''rf_tx_setup'' path RF_IQK_TX_0X30_JAGUAR 0x20000
        ''_iqk_tx_8812a programs TX IQK RF register 0x30'',
      rtl8812au_runtime_iqk_setup_rf_plan ''rf_tx_setup'' path RF_IQK_TX_0X31_JAGUAR 0x3fffd
        ''_iqk_tx_8812a programs TX IQK RF register 0x31'',
      rtl8812au_runtime_iqk_setup_rf_plan ''rf_tx_setup'' path RF_IQK_TX_0X32_JAGUAR 0xfe83f
        ''_iqk_tx_8812a programs TX IQK RF register 0x32'',
      rtl8812au_runtime_iqk_setup_rf_plan ''rf_tx_setup'' path 0x65 0x931d5
        ''_iqk_tx_8812a programs TX IQK RF register 0x65'',
      rtl8812au_runtime_iqk_setup_rf_plan ''rf_tx_setup'' path 0x8f 0x8a001
        ''_iqk_tx_8812a programs TX IQK RF register 0x8f'']"

definition iqk_bb_setup :: "u32 \<Rightarrow> u32 \<Rightarrow> iqk_setup_write list" where
  "iqk_bb_setup rfe_setting mixer_setting =
     [rtl8812au_runtime_iqk_setup_write32_plan ''bb_iqk_setup'' ''R_0x90c'' REG_IQK_MACBB_0X090C 0x00008000
        ''_iqk_tx_8812a enables IQK MAC/BB mode'',
      rtl8812au_runtime_iqk_setup_masked_bb_plan ''bb_iqk_setup'' ''R_0xc94'' REG_IQK_TX_POWER_CTRL_A_C94 0x00000001 1
        ''_iqk_tx_8812a enables path A IQK power latch'',
      rtl8812au_runtime_iqk_setup_masked_bb_plan ''bb_iqk_setup'' ''R_0xe94'' REG_TX_POWER_BEFORE_IQK_A_JAGUAR 0x00000001 1
        ''_iqk_tx_8812a enables path B IQK power latch'',
      rtl8812au_runtime_iqk_setup_write32_plan ''bb_iqk_setup'' ''R_0x978'' 0x0978 0x29002000
        ''_iqk_tx_8812a programs TX tone X/Y source'',
      rtl8812au_runtime_iqk_setup_write32_plan ''bb_iqk_setup'' ''R_0x97c'' 0x097c 0xa9002000
        ''_iqk_tx_8812a programs RX tone X/Y source'',
      rtl8812au_runtime_iqk_setup_write32_plan ''bb_iqk_setup'' ''R_0x984'' 0x0984 0x00462910
        ''_iqk_tx_8812a enables AGC/idac IQK mask'',
      rtl8812au_runtime_iqk_setup_masked_bb_plan ''page_c1_setup'' ''REG_AGC_TABLE_JAGUAR'' REG_AGC_TABLE_JAGUAR RTL8812A_IQK_PAGE_C1_SELECT_BIT 1
        ''_iqk_tx_8812a selects page C1 before tone/RFE latches'',
      rtl8812au_runtime_iqk_setup_write32_plan ''page_c1_setup'' ''R_0xc88'' REG_IQK_RFE_SETTING_A_C88 rfe_setting
        ''_iqk_tx_8812a programs path A RFE IQK setting'',
      rtl8812au_runtime_iqk_setup_write32_plan ''page_c1_setup'' ''R_0xe88'' REG_IQK_RFE_SETTING_B_E88 rfe_setting
        ''_iqk_tx_8812a programs path B RFE IQK setting'',
      rtl8812au_runtime_iqk_setup_write32_plan ''page_c1_setup'' ''R_0xc8c'' REG_IQK_RFE_SETTING_A_C8C mixer_setting
        ''_iqk_tx_8812a programs path A band-specific mixer setting'',
      rtl8812au_runtime_iqk_setup_write32_plan ''page_c1_setup'' ''R_0xe8c'' REG_IQK_RFE_SETTING_B_E8C mixer_setting
        ''_iqk_tx_8812a programs path B band-specific mixer setting'',
      rtl8812au_runtime_iqk_setup_write32_plan ''page_c1_setup'' ''R_0xc80'' REG_IQK_TX_TONE_A_C80 0x18008c10
        ''_iqk_tx_8812a programs path A TX tone for one-shot'',
      rtl8812au_runtime_iqk_setup_write32_plan ''page_c1_setup'' ''R_0xc84'' REG_IQK_RX_TONE_A_C84 0x38008c10
        ''_iqk_tx_8812a programs path A RX tone for one-shot'',
      rtl8812au_runtime_iqk_setup_write32_plan ''page_c1_setup'' ''R_0xce8'' REG_IQK_VDF_A_CE8 0
        ''_iqk_tx_8812a disables path A VDF branch for HT20/HT40 flow'',
      rtl8812au_runtime_iqk_setup_write32_plan ''page_c1_setup'' ''R_0xe80'' REG_IQK_TX_TONE_B_E80 0x18008c10
        ''_iqk_tx_8812a programs path B TX tone for one-shot'',
      rtl8812au_runtime_iqk_setup_write32_plan ''page_c1_setup'' ''R_0xe84'' REG_IQK_RX_TONE_B_E84 0x38008c10
        ''_iqk_tx_8812a programs path B RX tone for one-shot'',
      rtl8812au_runtime_iqk_setup_write32_plan ''page_c1_setup'' ''R_0xee8'' REG_IQK_VDF_B_EE8 0
        ''_iqk_tx_8812a disables path B VDF branch for HT20/HT40 flow'']"

definition rtl8812au_runtime_iqk_setup_plan :: "band \<Rightarrow> u8 \<Rightarrow> bool \<Rightarrow> bool \<Rightarrow> iqk_setup_write list" where
  "rtl8812au_runtime_iqk_setup_plan band rfe_type ext_pa_5g ext_pa_2g =
     (let rfe_setting =
        (if band = Ghz5 then if ext_pa_5g then if rfe_type = 1 then 0x821403e3 else 0x821403f7 else 0x821403f1
         else if rfe_type = 3 then if ext_pa_2g then 0x821403e3 else 0x821403f7
         else 0x821403f1);
          mixer_setting = (if band = Ghz5 then 0x68163e96 else 0x28163e96)
      in iqk_mac_afe_setup @ iqk_rf_tx_setup RfA @ iqk_rf_tx_setup RfB @ iqk_bb_setup rfe_setting mixer_setting)"

definition SETUP_PHASE :: string where "SETUP_PHASE = ''runtime-iqk-setup''"

fun apply_setup_write :: "('r, 't) reg_env \<Rightarrow> iqk_setup_write \<Rightarrow> nat \<Rightarrow> ('t, nat) reg_op" where
  "apply_setup_write env (SetupRegister phase register_name address address_hex width v value_hex reason) applied =
     and_do (if width = ''u8'' then write8_with_counter env address (ucast v) register_name SETUP_PHASE
             else write32_with_counter env address v register_name SETUP_PHASE) (ret (applied + 1))"
| "apply_setup_write env (SetupMaskedBb phase w) applied =
     and_then (read32_with_counter env (mb_address w) (mb_register_name w) SETUP_PHASE) (\<lambda>before.
     let shifted = (if mb_mask w = 0 then 0 else push_bit (trailing_zeros (mb_mask w)) (mb_data w) AND mb_mask w);
         written = (before AND NOT (mb_mask w)) OR shifted in
     and_do (write32_with_counter env (mb_address w) written (mb_register_name w) SETUP_PHASE)
    (and_do (read32_with_counter env (mb_address w) (mb_register_name w) SETUP_PHASE)
    (ret (applied + 1))))"
| "apply_setup_write env (SetupRf phase path path_name rf_offset rf_offset_hex v value_hex reason) applied =
     and_do (rf_serial_write_single_path env path rf_offset v) (ret (applied + 1))"

definition apply_rtl8812au_runtime_iqk_setup_plan :: "('r, 't) reg_env \<Rightarrow> iqk_setup_write list \<Rightarrow> ('t, nat) reg_op" where
  "apply_rtl8812au_runtime_iqk_setup_plan env plan = for_each plan (apply_setup_write env) 0"

section \<open>Backup\<close>

definition RTL8812A_IQK_MACBB_BACKUP_REGISTERS :: "(string \<times> u16) list" where
  "RTL8812A_IQK_MACBB_BACKUP_REGISTERS =
     [(''R_0x520'', REG_IQK_MACBB_0X0520),
      (''REG_BCN_CTRL'', REG_BCN_CTRL),
      (''REG_OFDMCCKEN_JAGUAR'', REG_OFDMCCKEN_JAGUAR),
      (''REG_CCK_RX_JAGUAR'', REG_CCK_RX_JAGUAR),
      (''R_0x90c'', REG_IQK_MACBB_0X090C),
      (''R_0x978'', 0x0978),
      (''R_0x97c'', 0x097c),
      (''R_0x984'', 0x0984),
      (''rA_PI_Mode_Jaguar'', REG_RF_PI_MODE_A_JAGUAR),
      (''rB_PI_Mode_Jaguar'', REG_RF_PI_MODE_B_JAGUAR),
      (''REG_CCA_ON_SEC_JAGUAR'', REG_CCA_ON_SEC_JAGUAR),
      (''REG_AGC_TABLE_JAGUAR'', REG_AGC_TABLE_JAGUAR),
      (''R_0xc94'', REG_IQK_TX_POWER_CTRL_A_C94),
      (''R_0xe94'', REG_TX_POWER_BEFORE_IQK_A_JAGUAR)]"

definition RTL8812A_IQK_AFE_BACKUP_REGISTERS :: "(string \<times> u16) list" where
  "RTL8812A_IQK_AFE_BACKUP_REGISTERS =
     [(''R_0xc5c'', REG_IQK_AFE_A_C5C),
      (''R_0xc60'', REG_IQK_AFE_A_C60),
      (''R_0xc64'', REG_IQK_AFE_A_C64),
      (''R_0xc68'', REG_IQK_AFE_A_C68),
      (''rA_RFE_Pinmux_Jaguar'', REG_RFE_PINMUX_A_JAGUAR),
      (''rA_RFE_Inv_Jaguar'', REG_RFE_INV_A_JAGUAR),
      (''R_0xe5c'', REG_IQK_AFE_B_E5C),
      (''R_0xe60'', REG_IQK_AFE_B_E60),
      (''R_0xe64'', REG_IQK_AFE_B_E64),
      (''R_0xe68'', REG_IQK_AFE_B_E68),
      (''rB_RFE_Pinmux_Jaguar'', REG_RFE_PINMUX_B_JAGUAR),
      (''rB_RFE_Inv_Jaguar'', REG_RFE_INV_B_JAGUAR)]"

definition RTL8812A_IQK_PAGE_C1_LATCH_REGISTERS :: "(string \<times> u16) list" where
  "RTL8812A_IQK_PAGE_C1_LATCH_REGISTERS =
     [(''R_0xc80_page_c1'', REG_IQK_TX_TONE_A_C80),
      (''R_0xc84_page_c1'', REG_IQK_RX_TONE_A_C84),
      (''R_0xc88_page_c1'', REG_IQK_RFE_SETTING_A_C88),
      (''R_0xc8c_page_c1'', REG_IQK_RFE_SETTING_A_C8C),
      (''R_0xcb8_page_c1'', REG_RFE_TIMING_A_JAGUAR),
      (''R_0xcc4_page_c1'', REG_IQK_TX_CTRL_A_CC4),
      (''R_0xcc8_page_c1'', REG_IQK_TX_CTRL_A_CC8),
      (''R_0xccc_page_c1'', REG_IQK_TX_Y_A_CCC),
      (''R_0xcd4_page_c1'', REG_IQK_TX_X_A_CD4),
      (''R_0xce8_page_c1'', REG_IQK_VDF_A_CE8),
      (''R_0xe80_page_c1'', REG_IQK_TX_TONE_B_E80),
      (''R_0xe84_page_c1'', REG_IQK_RX_TONE_B_E84),
      (''R_0xe88_page_c1'', REG_IQK_RFE_SETTING_B_E88),
      (''R_0xe8c_page_c1'', REG_IQK_RFE_SETTING_B_E8C),
      (''R_0xeb8_page_c1'', REG_RFE_TIMING_B_JAGUAR),
      (''R_0xec4_page_c1'', REG_IQK_TX_CTRL_B_EC4),
      (''R_0xec8_page_c1'', REG_IQK_TX_CTRL_B_EC8),
      (''R_0xecc_page_c1'', REG_IQK_TX_Y_B_ECC),
      (''R_0xed4_page_c1'', REG_IQK_TX_X_B_ED4),
      (''R_0xee8_page_c1'', REG_IQK_VDF_B_EE8)]"

definition RTL8812A_IQK_RESULT_REGISTERS :: "(string \<times> u16) list" where
  "RTL8812A_IQK_RESULT_REGISTERS =
     [(''rA_IQK_Result_Jaguar'', REG_OFDM0_XBAGCCORE1),
      (''rA_IQK_Shadow_Jaguar'', REG_OFDM0_XBAGCCORE1 + 4),
      (''rA_RX_IQC_Latch_Jaguar'', REG_IQK_RX_IQC_A_JAGUAR),
      (''rB_IQK_Result_Jaguar'', REG_OFDM0_XBAGCCORE1 + 0x200),
      (''rB_IQK_Shadow_Jaguar'', REG_OFDM0_XBAGCCORE1 + 0x204),
      (''rB_RX_IQC_Latch_Jaguar'', REG_IQK_RX_IQC_B_JAGUAR),
      (''rFPGA0_IQK'', REG_FPGA0_IQK_JAGUAR),
      (''rTx_IQK_Tone_A'', REG_TX_IQK_TONE_A_JAGUAR),
      (''rRx_IQK_Tone_A'', REG_RX_IQK_TONE_A_JAGUAR),
      (''rTx_IQK_PI_A'', REG_TX_IQK_PI_A_JAGUAR),
      (''rRx_IQK_PI_A'', REG_RX_IQK_PI_A_JAGUAR),
      (''rTx_IQK'', REG_TX_IQK_JAGUAR),
      (''rRx_IQK'', REG_RX_IQK_JAGUAR),
      (''rIQK_AGC_Pts'', REG_IQK_AGC_PTS_JAGUAR),
      (''rIQK_AGC_Rsp'', REG_IQK_AGC_RSP_JAGUAR),
      (''rTx_IQK_Tone_B'', REG_TX_IQK_TONE_B_JAGUAR),
      (''rRx_IQK_Tone_B'', REG_RX_IQK_TONE_B_JAGUAR),
      (''rTx_IQK_PI_B'', REG_TX_IQK_PI_B_JAGUAR),
      (''rRx_IQK_PI_B'', REG_RX_IQK_PI_B_JAGUAR),
      (''rIQK_AGC_Cont'', REG_IQK_AGC_CONT_JAGUAR),
      (''rTx_Power_Before_IQK_A'', REG_TX_POWER_BEFORE_IQK_A_JAGUAR),
      (''rTx_Power_After_IQK_A'', REG_TX_POWER_AFTER_IQK_A_JAGUAR),
      (''rRx_Power_Before_IQK_A'', REG_RX_POWER_BEFORE_IQK_A_JAGUAR),
      (''rRx_Power_Before_IQK_A_2'', REG_RX_POWER_BEFORE_IQK_A_2_JAGUAR),
      (''rRx_Power_After_IQK_A'', REG_RX_POWER_AFTER_IQK_A_JAGUAR),
      (''rRx_Power_After_IQK_A_2'', REG_RX_POWER_AFTER_IQK_A_2_JAGUAR),
      (''rTx_Power_Before_IQK_B'', REG_TX_POWER_BEFORE_IQK_B_JAGUAR),
      (''rTx_Power_After_IQK_B'', REG_TX_POWER_AFTER_IQK_B_JAGUAR),
      (''rRx_Power_Before_IQK_B'', REG_RX_POWER_BEFORE_IQK_B_JAGUAR),
      (''rRx_Power_Before_IQK_B_2'', REG_RX_POWER_BEFORE_IQK_B_2_JAGUAR),
      (''rRx_Power_After_IQK_B'', REG_RX_POWER_AFTER_IQK_B_JAGUAR),
      (''rRx_Power_After_IQK_B_2'', REG_RX_POWER_AFTER_IQK_B_2_JAGUAR)]"

definition RTL8812A_IQK_RF_BACKUP_OFFSETS :: "u32 list" where
  "RTL8812A_IQK_RF_BACKUP_OFFSETS =
     [0x65, 0x8f, 0x00, RF_IQK_MODE_JAGUAR, RF_IQK_TX_0X30_JAGUAR, RF_IQK_TX_0X31_JAGUAR, RF_IQK_TX_0X32_JAGUAR,
      RF_IQK_LOK_LOAD_JAGUAR]"

record iqk_backup =
  bk_hssi_read_register :: register_read_report
  bk_page_select_register :: register_read_report
  bk_tx_pause_register :: register_read_report
  bk_macbb_backup :: "register_read_report list"
  bk_afe_backup :: "register_read_report list"
  bk_rf_backup_path_a :: "rf_serial_read_report list"
  bk_rf_backup_path_b :: "rf_serial_read_report list"
  bk_page_c1_latches :: "register_read_report list"

definition rtl8812au_iqk_read32_group :: "('r, 't) reg_env \<Rightarrow> (string \<times> u16) list \<Rightarrow> ('t, register_read_report list) reg_op" where
  "rtl8812au_iqk_read32_group env registers =
     for_each registers (\<lambda>(register_name, address) reports.
       and_then (read32_with_counter env address register_name ''runtime-iqk-backup'') (\<lambda>v.
       ret (reports @ [register_read_report register_name address ''u32'' v 8]))) []"

definition rtl8812au_iqk_rf_backup_reads :: "('r, 't) reg_env \<Rightarrow> rf_path \<Rightarrow> ('t, rf_serial_read_report list) reg_op" where
  "rtl8812au_iqk_rf_backup_reads env path =
     for_each RTL8812A_IQK_RF_BACKUP_OFFSETS (\<lambda>rf_offset reports.
       and_then (rf_serial_read_register env path rf_offset) (\<lambda>report. ret (reports @ [report]))) []"

definition backup_read_failed :: "string \<Rightarrow> radio_error \<Rightarrow> radio_error" where
  "backup_read_failed register_name error =
     radio_error_new ''rtl8812a_runtime_iqk_backup_failed'' (register_name @ '' backup read failed: '' @ re_message error)"

definition run_rtl8812au_runtime_iqk_backup :: "('r, 't) reg_env \<Rightarrow> ('t, iqk_backup) reg_op" where
  "run_rtl8812au_runtime_iqk_backup env =
     and_then (op_map_err (backup_read_failed ''rHSSIRead_Jaguar'')
       (read32_with_counter env REG_HSSI_READ_JAGUAR ''rHSSIRead_Jaguar'' ''runtime-iqk-backup'')) (\<lambda>hssi_read_value.
     and_then (op_map_err (backup_read_failed ''REG_AGC_TABLE_JAGUAR'')
       (read32_with_counter env REG_AGC_TABLE_JAGUAR ''REG_AGC_TABLE_JAGUAR'' ''runtime-iqk-backup'')) (\<lambda>page_select_value.
     and_then (op_map_err (backup_read_failed ''REG_TXPAUSE'')
       (read8_with_counter env REG_TXPAUSE ''REG_TXPAUSE'' ''runtime-iqk-backup'')) (\<lambda>tx_pause_value.
     and_do (rtl8812au_iqk_select_page env False)
    (and_then (rtl8812au_iqk_read32_group env RTL8812A_IQK_MACBB_BACKUP_REGISTERS) (\<lambda>macbb_backup.
     and_do (rtl8812au_iqk_select_page env True)
    (and_then (rtl8812au_iqk_read32_group env RTL8812A_IQK_PAGE_C1_LATCH_REGISTERS) (\<lambda>page_c1_latches.
     and_do (rtl8812au_iqk_select_page env False)
    (and_then (rtl8812au_iqk_read32_group env RTL8812A_IQK_AFE_BACKUP_REGISTERS) (\<lambda>afe_backup.
     and_then (rtl8812au_iqk_rf_backup_reads env RfA) (\<lambda>rf_backup_path_a.
     and_then (rtl8812au_iqk_rf_backup_reads env RfB) (\<lambda>rf_backup_path_b.
     ret \<lparr>bk_hssi_read_register = register_read_report ''rHSSIRead_Jaguar'' REG_HSSI_READ_JAGUAR ''u32'' hssi_read_value 8,
          bk_page_select_register = register_read_report ''REG_AGC_TABLE_JAGUAR'' REG_AGC_TABLE_JAGUAR ''u32'' page_select_value 8,
          bk_tx_pause_register = register_read_report ''REG_TXPAUSE'' REG_TXPAUSE ''u8'' (ucast tx_pause_value) 2,
          bk_macbb_backup = macbb_backup, bk_afe_backup = afe_backup, bk_rf_backup_path_a = rf_backup_path_a,
          bk_rf_backup_path_b = rf_backup_path_b, bk_page_c1_latches = page_c1_latches\<rparr>)))))))))))"

section \<open>Restore\<close>

text \<open>A failure of a restoring step is noted and the restore goes on.\<close>

definition noting :: "('t, 'a) reg_op \<Rightarrow> (radio_error \<Rightarrow> string) \<Rightarrow> string list \<Rightarrow> ('t, bool \<times> string list) reg_op" where
  "noting m describe failures =
     and_then (as_value m) (\<lambda>r. ret (case r of Inr _ \<Rightarrow> (True, failures) | Inl error \<Rightarrow> (False, failures @ [describe error])))"

definition restore_runtime_iqk_register_group ::
    "('r, 't) reg_env \<Rightarrow> string \<Rightarrow> register_read_report list \<Rightarrow> string list \<Rightarrow> ('t, nat \<times> string list) reg_op" where
  "restore_runtime_iqk_register_group env group_name backups failures =
     for_each backups (\<lambda>backup (restored, failures).
       and_then (noting (write32_with_counter env (rd_address backup) (rd_value backup) (rd_register_name backup) ''runtime-iqk-restore'')
           (\<lambda>error. group_name @ '' restore '' @ rd_register_name backup @ '' '' @ rd_address_hex backup @ '' to '' @
              rd_value_hex backup @ '' failed: '' @ re_message error) failures) (\<lambda>(ok, failures).
       ret (restored + of_bool ok, failures))) (0, failures)"

definition restore_runtime_iqk_rf_group ::
    "('r, 't) reg_env \<Rightarrow> rf_path \<Rightarrow> rf_serial_read_report list \<Rightarrow> string list \<Rightarrow> ('t, nat \<times> string list) reg_op" where
  "restore_runtime_iqk_rf_group env path backups failures =
     for_each backups (\<lambda>backup (restored, failures).
       and_then (noting (rf_serial_write_single_path env path (rf_rf_offset backup) (rf_value backup))
           (\<lambda>error. ''RF path '' @ rf_path_name backup @ '' restore '' @ rf_rf_offset_hex backup @ '' to '' @
              rf_value_hex backup @ '' failed: '' @ re_message error) failures) (\<lambda>(ok, failures).
       ret (restored + of_bool ok, failures))) (0, failures)"

definition restore_page :: "('r, 't) reg_env \<Rightarrow> bool \<Rightarrow> string list \<Rightarrow> ('t, string list) reg_op" where
  "restore_page env page_c1 failures =
     and_then (noting (rtl8812au_iqk_select_page env page_c1) re_message failures) (\<lambda>(_, failures). ret failures)"

text \<open>The last three registers are written and read back.\<close>

definition restore_checked ::
    "('t, unit) reg_op \<Rightarrow> ('t, u32) reg_op \<Rightarrow> register_read_report \<Rightarrow> string \<Rightarrow> nat \<Rightarrow> string list \<Rightarrow> ('t, bool option \<times> string list) reg_op" where
  "restore_checked write_op read_op backup register_name digits failures =
     and_then (as_value write_op) (\<lambda>r.
     case r of
       Inl error \<Rightarrow> ret (None, failures @ [register_name @ '' restore to '' @ rd_value_hex backup @ '' failed: '' @ re_message error])
     | Inr _ \<Rightarrow>
         and_then (as_value read_op) (\<lambda>r.
         case r of
           Inl error \<Rightarrow> ret (None, failures @ [register_name @ '' post-restore read failed: '' @ re_message error])
         | Inr after \<Rightarrow>
             let restored = (after = rd_value backup) in
             ret (Some restored, if restored then failures
               else failures @ [register_name @ '' restored to '' @ format_register_value after digits @ '', expected '' @ rd_value_hex backup])))"

record iqk_cleanup =
  cl_status :: string
  cl_failures :: "string list"
  cl_macbb_restore_count :: nat
  cl_afe_restore_count :: nat
  cl_rf_path_a_restore_count :: nat
  cl_rf_path_b_restore_count :: nat
  cl_page_c1_latch_restore_count :: nat
  cl_hssi_read_restored :: "bool option"
  cl_page_select_restored :: "bool option"
  cl_tx_pause_restored :: "bool option"
  cl_counters :: radio_counters

definition restore_rtl8812au_runtime_iqk_backup :: "('r, 't) reg_env \<Rightarrow> iqk_backup \<Rightarrow> ('t, iqk_cleanup) reg_op" where
  "restore_rtl8812au_runtime_iqk_backup env backup =
     and_then current_counters (\<lambda>before.
     and_then (restore_page env False []) (\<lambda>failures.
     and_then (restore_runtime_iqk_rf_group env RfA (bk_rf_backup_path_a backup) failures) (\<lambda>(rf_path_a_restore_count, failures).
     and_then (restore_runtime_iqk_rf_group env RfB (bk_rf_backup_path_b backup) failures) (\<lambda>(rf_path_b_restore_count, failures).
     and_then (restore_page env False failures) (\<lambda>failures.
     and_then (restore_runtime_iqk_register_group env ''AFE'' (bk_afe_backup backup) failures) (\<lambda>(afe_restore_count, failures).
     and_then (restore_page env True failures) (\<lambda>failures.
     and_then (restore_runtime_iqk_register_group env ''page-C1 latch'' (bk_page_c1_latches backup) failures)
       (\<lambda>(page_c1_latch_restore_count, failures).
     and_then (restore_page env False failures) (\<lambda>failures.
     and_then (restore_runtime_iqk_register_group env ''MAC/BB'' (bk_macbb_backup backup) failures) (\<lambda>(macbb_restore_count, failures).
     let hssi = bk_hssi_read_register backup; page_select = bk_page_select_register backup; tx_pause = bk_tx_pause_register backup in
     and_then (restore_checked
         (write32_with_counter env REG_HSSI_READ_JAGUAR (rd_value hssi) (rd_register_name hssi) ''runtime-iqk-restore'')
         (read32_with_counter env REG_HSSI_READ_JAGUAR (rd_register_name hssi) ''runtime-iqk-restore'')
         hssi ''rHSSIRead_Jaguar'' 8 failures) (\<lambda>(hssi_read_restored, failures).
     and_then (restore_checked
         (write32_with_counter env REG_AGC_TABLE_JAGUAR (rd_value page_select) (rd_register_name page_select) ''runtime-iqk-restore'')
         (read32_with_counter env REG_AGC_TABLE_JAGUAR (rd_register_name page_select) ''runtime-iqk-restore'')
         page_select ''REG_AGC_TABLE_JAGUAR'' 8 failures) (\<lambda>(page_select_restored, failures).
     and_then (restore_checked
         (write8_with_counter env REG_TXPAUSE (ucast (rd_value tx_pause)) (rd_register_name tx_pause) ''runtime-iqk-restore'')
         (and_then (read8_with_counter env REG_TXPAUSE (rd_register_name tx_pause) ''runtime-iqk-restore'') (\<lambda>after. ret (ucast after)))
         tx_pause ''REG_TXPAUSE'' 2 failures) (\<lambda>(tx_pause_restored, failures).
     and_then current_counters (\<lambda>counters.
     ret \<lparr>cl_status = (if failures = [] then ''restored'' else ''restore_failed''), cl_failures = failures,
          cl_macbb_restore_count = macbb_restore_count, cl_afe_restore_count = afe_restore_count,
          cl_rf_path_a_restore_count = rf_path_a_restore_count, cl_rf_path_b_restore_count = rf_path_b_restore_count,
          cl_page_c1_latch_restore_count = page_c1_latch_restore_count, cl_hssi_read_restored = hssi_read_restored,
          cl_page_select_restored = page_select_restored, cl_tx_pause_restored = tx_pause_restored,
          cl_counters = counters_saturating_sub counters before\<rparr>))))))))))))))"

section \<open>A sweep\<close>

record iqk_pre_sweep_state =
  sw_bb_agc_state_pre_iqk :: register_read_report
  sw_ofdmccken_pre_iqk :: "register_read_report option"
  sw_cca_on_sec_pre_iqk :: "register_read_report option"
  sw_rf_mode_path_a_pre_iqk :: "rf_serial_read_report option"
  sw_rf_mode_path_b_pre_iqk :: "rf_serial_read_report option"
  sw_txagc_registers_pre_iqk :: "register_read_report list"

definition rtl8812au_runtime_iqk_rf_backup_value :: "rf_serial_read_report list \<Rightarrow> u32 \<Rightarrow> rf_serial_read_report option" where
  "rtl8812au_runtime_iqk_rf_backup_value reports rf_offset = List.find (\<lambda>report. rf_rf_offset report = rf_offset) reports"

definition rtl8812au_runtime_iqk_register_backup_value :: "register_read_report list \<Rightarrow> u16 \<Rightarrow> register_read_report option" where
  "rtl8812au_runtime_iqk_register_backup_value reports address = List.find (\<lambda>report. rd_address report = address) reports"

definition rtl8812au_runtime_iqk_pre_sweep_state :: "('r, 't) reg_env \<Rightarrow> iqk_backup \<Rightarrow> ('t, iqk_pre_sweep_state) reg_op" where
  "rtl8812au_runtime_iqk_pre_sweep_state env backup =
     and_then (for_each (rtl8812au_tx_power_agc_registers RfBoth) (\<lambda>(register_name, address) reports.
       and_then (runtime_iqk_read32 env register_name address ''rtl8812a_runtime_iqk_pre_sweep_state_failed'') (\<lambda>v.
       ret (reports @ [register_read_report register_name address ''u32'' v 8]))) []) (\<lambda>txagc.
     ret \<lparr>sw_bb_agc_state_pre_iqk = bk_page_select_register backup,
          sw_ofdmccken_pre_iqk = rtl8812au_runtime_iqk_register_backup_value (bk_macbb_backup backup) REG_OFDMCCKEN_JAGUAR,
          sw_cca_on_sec_pre_iqk = rtl8812au_runtime_iqk_register_backup_value (bk_macbb_backup backup) REG_CCA_ON_SEC_JAGUAR,
          sw_rf_mode_path_a_pre_iqk = rtl8812au_runtime_iqk_rf_backup_value (bk_rf_backup_path_a backup) 0,
          sw_rf_mode_path_b_pre_iqk = rtl8812au_runtime_iqk_rf_backup_value (bk_rf_backup_path_b backup) 0,
          sw_txagc_registers_pre_iqk = txagc\<rparr>)"

record iqk_calibration =
  iq_mode :: string
  iq_sweep_index :: u8
  iq_sweep_count :: u8
  iq_max_sweeps :: u8
  iq_sweep_summaries :: "sweep_summary list"
  iq_status :: string
  iq_cleanup_status :: string
  iq_cleanup_failures :: "string list"
  iq_backup :: "iqk_backup option"
  iq_pre_sweep_state :: "iqk_pre_sweep_state option"
  iq_cleanup :: "iqk_cleanup option"
  iq_selected_iqc_fill_applied :: bool
  iq_selected_iqc_fill_register_count :: nat
  iq_paths :: "iqk_path_report list"
  iq_affected_registers :: "register_read_report list"
  iq_before_iqk_registers :: "register_read_report list"
  iq_after_iqk_registers :: "register_read_report list"
  iq_counters :: radio_counters

text \<open>The part between backup and restore.\<close>

definition iqk_stages :: "('r, 't) reg_env \<Rightarrow> channel \<Rightarrow> u8 \<Rightarrow> ('t, iqk_stage \<times> iqk_stage \<times> iqk_stage \<times> iqk_stage) reg_op" where
  "iqk_stages env channel rfe_type =
     and_do (apply_rtl8812au_runtime_iqk_setup_plan env
       (rtl8812au_runtime_iqk_setup_plan (ch_band channel) rfe_type (ch_band channel = Ghz5) False))
    (and_then (run_rtl8812au_runtime_iqk_tx_oneshot env) (\<lambda>(tx_a, tx_b).
     and_then (run_rtl8812au_runtime_iqk_rx_oneshot env tx_a tx_b rfe_type) (\<lambda>(rx_a, rx_b).
     ret (tx_a, rx_a, tx_b, rx_b))))"

definition or_default :: "('t, 'a list) reg_op \<Rightarrow> ('t, 'a list) reg_op" where
  "or_default m = and_then (as_value m) (\<lambda>r. ret (case r of Inl _ \<Rightarrow> [] | Inr xs \<Rightarrow> xs))"

definition cleanup_error :: "iqk_cleanup \<Rightarrow> radio_error \<Rightarrow> radio_error" where
  "cleanup_error cleanup error =
     (if cl_status cleanup \<noteq> ''restored''
      then radio_error_new (re_code error)
        (re_message error @ ''; runtime IQK cleanup status='' @ cl_status cleanup @ '' failures='' @
         join_strings ''; '' (cl_failures cleanup))
      else error)"

text \<open>What follows the restore: the fill, if everything succeeded, and the report.\<close>

definition iqk_finish ::
    "('r, 't) reg_env \<Rightarrow> radio_counters \<Rightarrow> register_read_report list \<Rightarrow> iqk_backup \<Rightarrow> iqk_pre_sweep_state \<Rightarrow> iqk_cleanup \<Rightarrow>
     iqk_stage \<times> iqk_stage \<times> iqk_stage \<times> iqk_stage \<Rightarrow> ('t, iqk_calibration) reg_op" where
  "iqk_finish env before_counters before_iqk_registers backup pre_sweep_state cleanup = (\<lambda>(tx_a, rx_a, tx_b, rx_b).
     let can_fill = (cl_status cleanup = ''restored'' \<and> rtl8812au_runtime_iqk_path_can_fill tx_a rx_a \<and>
           rtl8812au_runtime_iqk_path_can_fill tx_b rx_b) in
     and_then (if can_fill
       then and_then (apply_rtl8812au_runtime_iqk_fill env RfA tx_a rx_a) (\<lambda>(fill_a, tx_a, rx_a).
            and_then (apply_rtl8812au_runtime_iqk_fill env RfB tx_b rx_b) (\<lambda>(fill_b, tx_b, rx_b).
            ret (fill_a + fill_b, tx_a, rx_a, tx_b, rx_b)))
       else ret (0, tx_a, rx_a, tx_b, rx_b)) (\<lambda>(filled, tx_a, rx_a, tx_b, rx_b).
     and_then (or_default (rtl8812au_iqk_read32_group env RTL8812A_IQK_RESULT_REGISTERS)) (\<lambda>after_iqk_registers.
     let paths = [\<lparr>iq_path = RfA, iq_path_name = ''A'', iq_tx = tx_a, iq_rx = rx_a\<rparr>,
                  \<lparr>iq_path = RfB, iq_path_name = ''B'', iq_tx = tx_b, iq_rx = rx_b\<rparr>];
         status = rtl8812au_runtime_iqk_report_status paths (cl_status cleanup) in
     and_then (or_default (rtl8812au_iqk_read32_group env RTL8812A_IQK_RESULT_REGISTERS)) (\<lambda>affected_registers.
     and_then current_counters (\<lambda>counters.
     ret \<lparr>iq_mode = ''runtime_iqk'', iq_sweep_index = 1, iq_sweep_count = 1, iq_max_sweeps = 1, iq_sweep_summaries = [],
          iq_status = status, iq_cleanup_status = cl_status cleanup, iq_cleanup_failures = cl_failures cleanup,
          iq_backup = Some backup, iq_pre_sweep_state = Some pre_sweep_state, iq_cleanup = Some cleanup,
          iq_selected_iqc_fill_applied = (filled > 0), iq_selected_iqc_fill_register_count = filled, iq_paths = paths,
          iq_affected_registers = affected_registers, iq_before_iqk_registers = before_iqk_registers,
          iq_after_iqk_registers = after_iqk_registers,
          iq_counters = counters_saturating_sub counters before_counters\<rparr>)))))"

definition run_rtl8812au_runtime_iqk_calibration_sweep ::
    "('r, 't) reg_env \<Rightarrow> channel \<Rightarrow> u8 \<Rightarrow> ('t, iqk_calibration) reg_op" where
  "run_rtl8812au_runtime_iqk_calibration_sweep env channel rfe_type =
     and_then current_counters (\<lambda>before_counters.
     and_then (rtl8812au_iqk_read32_group env RTL8812A_IQK_RESULT_REGISTERS) (\<lambda>before_iqk_registers.
     and_then (run_rtl8812au_runtime_iqk_backup env) (\<lambda>backup.
     and_then (rtl8812au_runtime_iqk_pre_sweep_state env backup) (\<lambda>pre_sweep_state.
     and_then (as_value (iqk_stages env channel rfe_type)) (\<lambda>result.
     and_then (restore_rtl8812au_runtime_iqk_backup env backup) (\<lambda>cleanup.
     case result of
       Inl error \<Rightarrow> fail (cleanup_error cleanup error)
     | Inr stages \<Rightarrow> iqk_finish env before_counters before_iqk_registers backup pre_sweep_state cleanup stages))))))"

section \<open>The sweeps\<close>

fun iqk_sweeps ::
    "('r, 't) reg_env \<Rightarrow> channel \<Rightarrow> u8 \<Rightarrow> radio_counters \<Rightarrow> u8 list \<Rightarrow> sweep_summary list \<Rightarrow> iqk_calibration option \<Rightarrow>
     ('t, iqk_calibration) reg_op" where
  "iqk_sweeps env channel rfe_type before_all_sweeps [] sweep_summaries last_report =
     (case last_report of
        None \<Rightarrow> fail (radio_error_new ''rtl8812a_runtime_iqk_failed'' ''runtime IQK did not execute any calibration sweeps'')
      | Some report \<Rightarrow> ret report)"
| "iqk_sweeps env channel rfe_type before_all_sweeps (sweep_index # rest) sweep_summaries last_report =
     and_then (run_rtl8812au_runtime_iqk_calibration_sweep env channel rfe_type) (\<lambda>report.
     and_then current_counters (\<lambda>counters.
     let sweep_summaries = sweep_summaries @
           [rtl8812au_runtime_iqk_sweep_summary (iq_paths report) (iq_status report) (iq_cleanup_status report) sweep_index];
         report = report\<lparr>iq_sweep_index := sweep_index, iq_sweep_count := sweep_index, iq_max_sweeps := RTL8812A_IQK_MAX_SWEEPS,
           iq_sweep_summaries := sweep_summaries, iq_counters := counters_saturating_sub counters before_all_sweeps\<rparr>
     in if iq_status report = ''completed'' then ret report
        else iqk_sweeps env channel rfe_type before_all_sweeps rest sweep_summaries (Some report)))"

definition run_rtl8812au_runtime_iqk_calibration :: "('r, 't) reg_env \<Rightarrow> channel \<Rightarrow> u8 \<Rightarrow> ('t, iqk_calibration) reg_op" where
  "run_rtl8812au_runtime_iqk_calibration env channel rfe_type =
     and_then current_counters (\<lambda>before_all_sweeps.
     iqk_sweeps env channel rfe_type before_all_sweeps (map of_nat [1..<Suc (unat RTL8812A_IQK_MAX_SWEEPS)]) [] None)"

end
