(* ===== verification/Calibration.thy ===== *)
theory Calibration
  imports Iqk_Run Init_Phases Tx_Datagrams
begin

text \<open>
  The other calibrations and the profile that selects one (\<open>wfb-radio-runtime/src/lib.rs\<close>): the
  local oscillator calibration with the cleanup that follows an error, the register values for
  channel 36, the profile, and the checks and settings that the production flow makes after the
  initialisation.  The constant texts of the reports are left out.
\<close>

section \<open>Register values for channel 36\<close>

record register_write_spec =
  ws_register_name :: string
  ws_address :: u16
  ws_value :: u32

definition LINUX_PARITY_CH36_HT20_CALIBRATION_WRITES :: "register_write_spec list" where
  "LINUX_PARITY_CH36_HT20_CALIBRATION_WRITES =
     map (\<lambda>(register_name, address, v). \<lparr>ws_register_name = register_name, ws_address = address, ws_value = v\<rparr>)
     [(''rA_TxScale_Jaguar'', REG_TX_SCALE_A_JAGUAR, 0x40000003), (''rB_TxScale_Jaguar'', REG_TX_SCALE_B_JAGUAR, 0x40000003),
      (''rA_RFE_Pinmux_Jaguar'', REG_RFE_PINMUX_A_JAGUAR, 0x54337770), (''rB_RFE_Pinmux_Jaguar'', REG_RFE_PINMUX_B_JAGUAR, 0x54337770),
      (''rA_TxBbCtrl'', REG_TX_BB_CTRL_A_JAGUAR, 0x01807c09), (''rB_TxBbCtrl'', REG_TX_BB_CTRL_B_JAGUAR, 0x01807c09)]"

definition rtl8812au_targeted_calibration_writes ::
    "tx_calibration_profile \<Rightarrow> channel \<Rightarrow> bandwidth \<Rightarrow> (radio_error, register_write_spec list option) result" where
  "rtl8812au_targeted_calibration_writes profile ch bw =
     (if profile \<noteq> LinuxParityCh36Ht20 then Inr None
      else if ch_number ch = 36 \<and> bw = Mhz20 then Inr (Some LINUX_PARITY_CH36_HT20_CALIBRATION_WRITES)
      else Inl (radio_error_new ''tx_calibration_profile_unsupported''
        (''tx calibration profile linux-parity-ch36-ht20 only supports channel 36 HT20; requested channel '' @
         show_nat (unat (ch_number ch)) @ '' '' @ show_nat (unat (mhz bw)) @ '' MHz'')))"

definition run_rtl8812au_targeted_calibration_profile ::
    "('r, 't) reg_env \<Rightarrow> tx_calibration_profile \<Rightarrow> channel \<Rightarrow> bandwidth \<Rightarrow> ('t, register_write_report list option) reg_op" where
  "run_rtl8812au_targeted_calibration_profile env profile ch bw =
     and_then (of_result (rtl8812au_targeted_calibration_writes profile ch bw)) (\<lambda>writes.
     case writes of
       None \<Rightarrow> ret None
     | Some writes \<Rightarrow>
         and_then (for_each writes (\<lambda>w reports.
             and_then (write32_register_report env (ws_register_name w) (ws_address w) (ws_value w)) (\<lambda>r. ret (reports @ [r]))) [])
           (\<lambda>reports. ret (Some reports)))"

section \<open>Local oscillator\<close>

definition write8_register_report ::
    "('r, 't) reg_env \<Rightarrow> string \<Rightarrow> u16 \<Rightarrow> u8 \<Rightarrow> ('t, register_write_report) reg_op" where
  "write8_register_report env register_name address v =
     and_then current_counters (\<lambda>before_counters.
     and_then (read8_with_counter env address register_name ''pre-write'') (\<lambda>before.
     and_then (write8_with_counter env address v register_name ''write'') (\<lambda>_.
     and_then (read8_with_counter env address register_name ''post-write'') (\<lambda>after.
     and_then current_counters (\<lambda>counters.
     ret \<lparr>rr_register_name = register_name, rr_address = address, rr_address_hex = format_register_address address,
          rr_width = ''u8'', rr_before = ucast before, rr_before_hex = format_register_value before 2,
          rr_written = ucast v, rr_written_hex = format_register_value v 2, rr_after = ucast after,
          rr_after_hex = format_register_value after 2, rr_changed = (before \<noteq> after),
          rr_write_counters = counters_saturating_sub counters before_counters\<rparr>)))))"

record lck_cleanup =
  lk_tx_pause_restore :: "u8 option"
  lk_rf_lck_restore :: "u32 option"
  lk_rf_chnlbw_restore :: "u32 option"

definition lck_cleanup_default :: lck_cleanup where
  "lck_cleanup_default = \<lparr>lk_tx_pause_restore = None, lk_rf_lck_restore = None, lk_rf_chnlbw_restore = None\<rparr>"

text \<open>A restoring serial write of the cleanup: its failure is noted, and the pause follows it anyway.\<close>

definition lck_restore_rf :: "('r, 't) reg_env \<Rightarrow> string \<Rightarrow> u32 \<Rightarrow> u32 option \<Rightarrow> string list \<Rightarrow> ('t, string list) reg_op" where
  "lck_restore_rf env name rf_offset restore failures =
     (case restore of
        None \<Rightarrow> ret failures
      | Some v \<Rightarrow>
          and_then (noting (write32_with_counter env REG_RF_PATH_A_3WIRE (encode_rf_serial_write rf_offset v) ''rA_LSSIWrite_Jaguar''
              ''lck-cleanup'')
            (\<lambda>error. name @ '' restore to '' @ format_register_value v 5 @ '' failed: '' @ show_radio_error error) failures)
          (\<lambda>(_, failures). and_do (sleep env (micros 1)) (ret failures)))"

definition cleanup_rtl8812au_lck_after_error :: "('r, 't) reg_env \<Rightarrow> lck_cleanup \<Rightarrow> ('t, string list) reg_op" where
  "cleanup_rtl8812au_lck_after_error env cleanup =
     and_then (lck_restore_rf env ''RF_LCK'' RF_LCK_JAGUAR (lk_rf_lck_restore cleanup) []) (\<lambda>failures.
     and_then (lck_restore_rf env ''RF_CHNLBW'' RF_CHNLBW_JAGUAR (lk_rf_chnlbw_restore cleanup) failures) (\<lambda>failures.
     case lk_tx_pause_restore cleanup of
       None \<Rightarrow> ret failures
     | Some v \<Rightarrow>
         and_then (noting (write8_with_counter env REG_TXPAUSE v ''REG_TXPAUSE'' ''lck-cleanup'')
           (\<lambda>error. ''REG_TXPAUSE restore to '' @ format_register_value v 2 @ '' failed: '' @ show_radio_error error) failures)
         (\<lambda>(_, failures). ret failures)))"

record lck_report =
  lr_rf_path :: rf_path
  lr_rf_path_name :: string
  lr_continuous_tx_register :: register_read_report
  lr_continuous_tx_active :: bool
  lr_tx_pause_before :: register_read_report
  lr_tx_pause_write :: "register_write_report option"
  lr_tx_pause_restore :: "register_write_report option"
  lr_rf_chnlbw_backup :: rf_serial_read_report
  lr_rf_lck_before_enter :: rf_serial_read_report
  lr_rf_lck_enter_write :: rf_serial_write_report
  lr_rf_chnlbw_before_trigger :: rf_serial_read_report
  lr_rf_chnlbw_trigger_write :: rf_serial_write_report
  lr_delay_ms :: u64
  lr_rf_lck_before_exit :: rf_serial_read_report
  lr_rf_lck_exit_write :: rf_serial_write_report
  lr_rf_chnlbw_restore_write :: rf_serial_write_report
  lr_rf_chnlbw_after_restore :: rf_serial_read_report
  lr_rf_lck_after_exit :: rf_serial_read_report
  lr_counters :: radio_counters

text \<open>
  The cleanup state is what the sequence has noted when it ends, with a value or an error: an error
  of a step (\<open>?\<close>) leaves with the state as it is.
\<close>

definition try_step ::
    "'c \<Rightarrow> ('t, 'a) reg_op \<Rightarrow> ('a \<Rightarrow> ('t, (radio_error, 'b) result \<times> 'c) reg_op) \<Rightarrow> ('t, (radio_error, 'b) result \<times> 'c) reg_op" where
  "try_step cleanup m f = and_then (as_value m) (\<lambda>r. case r of Inl error \<Rightarrow> ret (Inl error, cleanup) | Inr x \<Rightarrow> f x)"

definition run_rtl8812au_lck_calibration_inner ::
    "('r, 't) reg_env \<Rightarrow> ('t, (radio_error, lck_report) result \<times> lck_cleanup) reg_op" where
  "run_rtl8812au_lck_calibration_inner env =
     (let c = lck_cleanup_default in
     try_step c (read32_with_counter env REG_SINGLE_TONE_CONT_TX_JAGUAR ''REG_SINGLE_TONE_CONT_TX_JAGUAR'' ''lck'') (\<lambda>continuous_tx_value.
     let continuous_tx_active = (continuous_tx_value AND 0x00070000 \<noteq> 0) in
     try_step c (read8_with_counter env REG_TXPAUSE ''REG_TXPAUSE'' ''lck'') (\<lambda>tx_pause_before_value.
     try_step c (rf_serial_read_register env RfA RF_CHNLBW_JAGUAR) (\<lambda>rf_chnlbw_backup.
     let c = (if continuous_tx_active then c else c\<lparr>lk_tx_pause_restore := Some tx_pause_before_value\<rparr>) in
     try_step c (if continuous_tx_active then ret None
         else and_then (write8_register_report env ''REG_TXPAUSE'' REG_TXPAUSE 0xff) (\<lambda>r. ret (Some r))) (\<lambda>tx_pause_write.
     try_step c (rf_serial_read_register env RfA RF_LCK_JAGUAR) (\<lambda>rf_lck_before_enter.
     let c = c\<lparr>lk_rf_lck_restore := Some (rf_value rf_lck_before_enter)\<rparr> in
     try_step c (rf_serial_write_single_path env RfA RF_LCK_JAGUAR (rf_value rf_lck_before_enter OR RF_LCK_MODE_BIT)) (\<lambda>rf_lck_enter_write.
     try_step c (rf_serial_read_register env RfA RF_CHNLBW_JAGUAR) (\<lambda>rf_chnlbw_before_trigger.
     let c = c\<lparr>lk_rf_chnlbw_restore := Some (rf_value rf_chnlbw_before_trigger)\<rparr> in
     try_step c (rf_serial_write_single_path env RfA RF_CHNLBW_JAGUAR (rf_value rf_chnlbw_before_trigger OR RF_CHNLBW_LCK_TRIGGER_BIT))
       (\<lambda>rf_chnlbw_trigger_write.
     and_do (sleep env (millis 150))
    (try_step c (rf_serial_read_register env RfA RF_LCK_JAGUAR) (\<lambda>rf_lck_before_exit.
     try_step c (rf_serial_write_single_path env RfA RF_LCK_JAGUAR (rf_value rf_lck_before_exit AND NOT RF_LCK_MODE_BIT)) (\<lambda>rf_lck_exit_write.
     let restore_value = lk_tx_pause_restore c;
         c = c\<lparr>lk_rf_lck_restore := None, lk_tx_pause_restore := None\<rparr> in
     try_step c (case restore_value of
         None \<Rightarrow> ret None
       | Some v \<Rightarrow> and_then (write8_register_report env ''REG_TXPAUSE'' REG_TXPAUSE v) (\<lambda>r. ret (Some r))) (\<lambda>tx_pause_restore.
     let rf_chnlbw_restore_value =
           (case lk_rf_chnlbw_restore c of None \<Rightarrow> rf_value rf_chnlbw_before_trigger | Some v \<Rightarrow> v);
         c = c\<lparr>lk_rf_chnlbw_restore := None\<rparr> in
     try_step c (rf_serial_write_single_path env RfA RF_CHNLBW_JAGUAR rf_chnlbw_restore_value) (\<lambda>rf_chnlbw_restore_write.
     try_step c (rf_serial_read_register env RfA RF_CHNLBW_JAGUAR) (\<lambda>rf_chnlbw_after_restore.
     try_step c (rf_serial_read_register env RfA RF_LCK_JAGUAR) (\<lambda>rf_lck_after_exit.
     ret (Inr \<lparr>lr_rf_path = RfA, lr_rf_path_name = ''A'',
       lr_continuous_tx_register = register_read_report ''REG_SINGLE_TONE_CONT_TX_JAGUAR'' REG_SINGLE_TONE_CONT_TX_JAGUAR ''u32''
         continuous_tx_value 8,
       lr_continuous_tx_active = continuous_tx_active,
       lr_tx_pause_before = register_read_report ''REG_TXPAUSE'' REG_TXPAUSE ''u8'' (ucast tx_pause_before_value) 2,
       lr_tx_pause_write = tx_pause_write, lr_tx_pause_restore = tx_pause_restore, lr_rf_chnlbw_backup = rf_chnlbw_backup,
       lr_rf_lck_before_enter = rf_lck_before_enter, lr_rf_lck_enter_write = rf_lck_enter_write,
       lr_rf_chnlbw_before_trigger = rf_chnlbw_before_trigger, lr_rf_chnlbw_trigger_write = rf_chnlbw_trigger_write,
       lr_delay_ms = 150, lr_rf_lck_before_exit = rf_lck_before_exit, lr_rf_lck_exit_write = rf_lck_exit_write,
       lr_rf_chnlbw_restore_write = rf_chnlbw_restore_write, lr_rf_chnlbw_after_restore = rf_chnlbw_after_restore,
       lr_rf_lck_after_exit = rf_lck_after_exit, lr_counters = radio_counters_default\<rparr>, c)))))))))))))))))"

definition run_rtl8812au_lck_calibration :: "('r, 't) reg_env \<Rightarrow> ('t, lck_report) reg_op" where
  "run_rtl8812au_lck_calibration env =
     and_then current_counters (\<lambda>before.
     and_then (run_rtl8812au_lck_calibration_inner env) (\<lambda>(r, cleanup).
     case r of
       Inr report \<Rightarrow> and_then current_counters (\<lambda>counters. ret (report\<lparr>lr_counters := counters_saturating_sub counters before\<rparr>))
     | Inl error \<Rightarrow>
         and_then (cleanup_rtl8812au_lck_after_error env cleanup) (\<lambda>cleanup_failures.
         fail (if cleanup_failures = [] then error
           else error\<lparr>re_message := re_message error @ ''; cleanup failures: '' @ join_strings ''; '' cleanup_failures\<rparr>))))"

section \<open>The profile\<close>

record calibration_profile_report =
  cp_profile :: tx_calibration_profile
  cp_channel :: u8
  cp_bandwidth_mhz :: u16
  cp_register_count :: nat
  cp_writes :: "register_write_report list"
  cp_lck :: "lck_report option"
  cp_runtime_iqk :: "iqk_calibration option"

definition run_rtl8812au_tx_calibration_profile ::
    "('r, 't) reg_env \<Rightarrow> tx_calibration_profile \<Rightarrow> channel \<Rightarrow> bandwidth \<Rightarrow> u8 \<Rightarrow> ('t, calibration_profile_report option) reg_op" where
  "run_rtl8812au_tx_calibration_profile env profile ch bw rfe_type =
     (let report = (\<lambda>register_count writes lck iqk.
            \<lparr>cp_profile = profile, cp_channel = ch_number ch, cp_bandwidth_mhz = mhz bw, cp_register_count = register_count,
             cp_writes = writes, cp_lck = lck, cp_runtime_iqk = iqk\<rparr>) in
      case profile of
        CurrentDefault \<Rightarrow> ret None
      | Rtl8812aIqkProbe \<Rightarrow> fail (radio_error_new ''tx_calibration_profile_diagnostic_only''
          ''rtl8812a-iqk-probe is a diagnostic-only evidence marker; runtime callers should use rtl8812a-runtime-iqk for live IQK'')
      | LinuxParityCh36Ht20 \<Rightarrow>
          and_then (run_rtl8812au_targeted_calibration_profile env profile ch bw) (\<lambda>writes.
          let writes = (case writes of None \<Rightarrow> [] | Some writes \<Rightarrow> writes)
          in ret (Some (report (length writes) writes None None)))
      | Rtl8812aLck \<Rightarrow>
          and_then (run_rtl8812au_lck_calibration env) (\<lambda>lck.
          ret (Some (report (4 + of_bool (lr_tx_pause_write lck \<noteq> None) + of_bool (lr_tx_pause_restore lck \<noteq> None)) []
            (Some lck) None)))
      | Rtl8812aRuntimeIqk \<Rightarrow>
          and_then (run_rtl8812au_runtime_iqk_calibration env ch rfe_type) (\<lambda>runtime_iqk.
          ret (Some (report (unat (rc_usb_control_writes (iq_counters runtime_iqk))) [] None (Some runtime_iqk)))))"

definition validate_production_runtime_tx_calibration_profile_ready_for_tx ::
    "calibration_profile_report \<Rightarrow> (radio_error, unit) result" where
  "validate_production_runtime_tx_calibration_profile_ready_for_tx profile =
     (case cp_runtime_iqk profile of
        None \<Rightarrow> Inr ()
      | Some iqk \<Rightarrow>
          if iq_cleanup_status iqk \<noteq> ''restored''
          then Inl (radio_error_new ''runtime_iqk_cleanup_not_restored''
            (''runtime IQK cleanup status is '' @ iq_cleanup_status iqk @ ''; refusing live TX''))
          else if iq_status iqk \<noteq> ''completed''
          then Inl (radio_error_new ''runtime_iqk_not_completed''
            (''runtime IQK status is '' @ iq_status iqk @ '' after '' @ show_nat (unat (iq_sweep_count iqk)) @ ''/'' @
             show_nat (unat (iq_max_sweeps iqk)) @
             '' sweeps; refusing live TX because fallback IQK has produced receiver decrypt failures on hardware''))
          else if \<not> iq_selected_iqc_fill_applied iqk
          then Inl (radio_error_new ''runtime_iqk_fill_not_applied''
            ''runtime IQK completed but selected IQC fill was not applied after cleanup; refusing live TX'')
          else Inr ())"

definition apply_production_runtime_tx_calibration_profile ::
    "('r, 't) reg_env \<Rightarrow> tx_calibration_profile \<Rightarrow> channel \<Rightarrow> bandwidth \<Rightarrow> u8 \<Rightarrow> ('t, calibration_profile_report option) reg_op" where
  "apply_production_runtime_tx_calibration_profile env profile ch bw rfe_type =
     and_then (run_rtl8812au_tx_calibration_profile env profile ch bw rfe_type) (\<lambda>report.
     case report of
       None \<Rightarrow> ret None
     | Some r \<Rightarrow> and_do (of_result (validate_production_runtime_tx_calibration_profile_ready_for_tx r)) (ret report))"

section \<open>Monitor mode, transmit power, the first frame\<close>

definition apply_production_runtime_monitor_opmode :: "('r, 't) reg_env \<Rightarrow> ('t, unit) reg_op" where
  "apply_production_runtime_monitor_opmode env = and_do (run_rtl8812au_monitor_opmode env) (ret ())"

datatype tx_power_control_input = NoPowerControl | ManualIndex rf_path u8 | EfuseDerived tx_power_efuse_plan

datatype tx_power_control_mode = ModeManualIndex | ModeEfuseDerived

record tx_power_control_report =
  pc_mode :: tx_power_control_mode
  pc_manual_index :: "u8 option"
  pc_manual_index_hex :: "string option"
  pc_path :: rf_path
  pc_register_count :: nat
  pc_repeated_value :: "u32 option"
  pc_repeated_value_hex :: "string option"
  pc_efuse_plan :: "tx_power_efuse_plan option"
  pc_writes :: "register_write_report list"

text \<open>The description of the EFUSE source is copied into the report unchanged; it is left out.\<close>

definition apply_production_runtime_tx_power_control ::
    "('r, 't) reg_env \<Rightarrow> tx_power_control_input \<Rightarrow> ('t, tx_power_control_report option) reg_op" where
  "apply_production_runtime_tx_power_control env input =
     (case input of
        NoPowerControl \<Rightarrow> ret None
      | ManualIndex path index \<Rightarrow>
          let v = rtl8812au_tx_power_agc_value index in
          and_then (run_rtl8812au_manual_tx_power env path index) (\<lambda>writes.
          ret (Some \<lparr>pc_mode = ModeManualIndex, pc_manual_index = Some index, pc_manual_index_hex = Some (format_register_value index 2),
            pc_path = path, pc_register_count = length writes, pc_repeated_value = Some v,
            pc_repeated_value_hex = Some (format_register_value v 8), pc_efuse_plan = None, pc_writes = writes\<rparr>))
      | EfuseDerived plan \<Rightarrow>
          and_then (run_rtl8812au_efuse_tx_power env plan) (\<lambda>writes.
          ret (Some \<lparr>pc_mode = ModeEfuseDerived, pc_manual_index = None, pc_manual_index_hex = None,
            pc_path = tp_selected_path plan, pc_register_count = length writes, pc_repeated_value = None,
            pc_repeated_value_hex = None, pc_efuse_plan = Some plan, pc_writes = writes\<rparr>)))"

definition PRODUCTION_RX_STARTUP_KICK_FRAME :: bytes where
  "PRODUCTION_RX_STARTUP_KICK_FRAME =
     [0x48, 0x00, 0x00, 0x00, 0xff, 0xff, 0xff, 0xff, 0xff, 0xff, 0x02, 0x00, 0x5e, 0x00, 0x00, 0x01,
      0x02, 0x00, 0x5e, 0x00, 0x00, 0x01, 0x00, 0x00]"

record rx_startup_kick_report =
  kr_frame_len :: nat
  kr_tx_options :: tx_options
  kr_attempted :: u64
  kr_submitted :: u64
  kr_failed :: u64
  kr_bytes_written :: u64

definition apply_production_runtime_rx_startup_kick ::
    "('r \<Rightarrow> string) \<Rightarrow> ('r, 't) bulk_write \<Rightarrow> channel \<Rightarrow> bandwidth \<Rightarrow> 't radio_session \<Rightarrow>
     (radio_error, rx_startup_kick_report) result \<times> 't radio_session" where
  "apply_production_runtime_rx_startup_kick show_rusb write ch bw session =
     (let options = tx_options_default\<lparr>tx_rate := Ofdm6m, tx_bandwidth := Mhz20, tx_channel_bandwidth := Some bw,
            tx_queue := QMgnt, tx_retries := 0, tx_no_retry := True, tx_rate_fallback_limit := 0\<rparr>;
          (result, session, counters) =
            submit_80211_frame show_rusb write session PRODUCTION_RX_STARTUP_KICK_FRAME ch options tx_submit_counters_default
      in (map_sum id (\<lambda>_. \<lparr>kr_frame_len = length PRODUCTION_RX_STARTUP_KICK_FRAME, kr_tx_options = options,
            kr_attempted = sc_attempted counters, kr_submitted = sc_submitted counters, kr_failed = sc_failed counters,
            kr_bytes_written = sc_bytes_written counters\<rparr>) result, session))"

end
