(* ===== verification/Iqk_Laws.thy ===== *)
theory Iqk_Laws
  imports Calibration Chip_Effects
begin

text \<open>
  The calibration always returns: the wait for a result, the attempts of the two paths and the
  sweeps are bounded whatever the device answers.
\<close>

section \<open>Results of operations\<close>

text \<open>\<open>gives m Q\<close>: what \<open>m\<close> gives on success satisfies \<open>Q\<close>.\<close>

definition gives :: "('t, 'a) reg_op \<Rightarrow> ('a \<Rightarrow> bool) \<Rightarrow> bool" where
  "gives m Q \<longleftrightarrow> (\<forall>s x s'. m s = Some (Inr x, s') \<longrightarrow> Q x)"

named_theorems gives_intros \<open>what operations give\<close>

lemma gives_ret [gives_intros]: "Q x \<Longrightarrow> gives (ret x) Q"
  by (simp add: gives_def ret_def)

lemma gives_and_then: "gives m P \<Longrightarrow> (\<And>x. P x \<Longrightarrow> gives (f x) Q) \<Longrightarrow> gives (and_then m f) Q"
  by (fastforce simp: gives_def and_then_eq_Some_iff)

lemma gives_any: "gives m (\<lambda>_. True)"
  by (simp add: gives_def)

lemmas gives_then = gives_and_then [OF gives_any]

lemma gives_do: "gives n Q \<Longrightarrow> gives (and_do m n) Q"
  unfolding and_do_def by (rule gives_then)

lemma returns_bind: "returns m \<Longrightarrow> gives m Q \<Longrightarrow> (\<And>x. Q x \<Longrightarrow> returns (f x)) \<Longrightarrow> returns (and_then m f)"
  unfolding returns_def gives_def and_then_def by (fastforce split: option.splits sum.splits)

lemma returns_if_cases: "(c \<Longrightarrow> returns m) \<Longrightarrow> (\<not> c \<Longrightarrow> returns n) \<Longrightarrow> returns (if c then m else n)"
  by simp

section \<open>The wait\<close>

lemma returns_iqk_access [returns_intros]:
  "returns (runtime_iqk_write32 env name a v code)" "returns (runtime_iqk_read32 env name a code)"
  "returns (runtime_iqk_set_bb_reg env name a m d code)" "returns (rtl8812au_iqk_select_page env page)"
  unfolding runtime_iqk_write32_def runtime_iqk_read32_def runtime_iqk_set_bb_reg_def rtl8812au_iqk_select_page_def
  by (intro returns_intros)+

lemma returns_rf_read [returns_intros]: "returns (rf_serial_read_register env path off)"
  unfolding rf_serial_read_register_def by (intro returns_intros)

lemma returns_rf_masked [returns_intros]: "returns (runtime_iqk_rf_masked_write env path off m d code)"
  unfolding runtime_iqk_rf_masked_write_def by (intro returns_intros)

lemma returns_poll_path: "returns (poll_path env code active name a p st)"
  unfolding poll_path_def by (intro returns_intros)

text \<open>A result that is ready, or the bound: the turns are enough.\<close>

lemma returns_poll_ready: "unat delays + n \<ge> 22 \<Longrightarrow> 0 < n \<Longrightarrow> delays \<le> 21 \<Longrightarrow> returns (poll_ready env code active_a active_b n delays a b)"
proof (induction n arbitrary: delays a b)
  case (Suc n)
  obtain pa sa pb sb where ab: "a = (pa, sa)" "b = (pb, sb)" by (cases a; cases b) auto
  have again: "returns (poll_ready env code active_a active_b n (delays + 1) a b)" if "\<not> delays > RTL8812A_IQK_READY_POLL_LIMIT" for a b
  proof -
    have "delays \<le> 20" using that by (simp add: RTL8812A_IQK_READY_POLL_LIMIT_def not_less)
    then have "unat (delays + 1) = unat delays + 1" "delays + 1 \<le> 21" "unat delays \<le> 20"
      by (auto simp: word_le_nat_alt unat_word_ariths)
    with Suc.prems show ?thesis by (intro Suc.IH) auto
  qed
  show ?case
    unfolding ab poll_ready.simps
    by (intro returns_and_then returns_poll_path, clarsimp, intro returns_and_then returns_poll_path, clarsimp)
      (auto intro!: returns_intros again)
qed simp

section \<open>The attempts\<close>

text \<open>A path that is at work and has no result yet has made \<open>k\<close> attempts, failed ones and candidates.\<close>

definition attempted :: "bool \<Rightarrow> nat \<Rightarrow> path_state \<Rightarrow> bool" where
  "attempted active k p \<longleftrightarrow> (active \<and> \<not> os_finished p \<longrightarrow> unat (os_retry_count p) + length (os_candidates p) = k)"

lemma attempted_poll: "attempted active k p \<Longrightarrow> gives (poll_path env code active name a p st) (\<lambda>(p', _). attempted active k p')"
  unfolding poll_path_def
  by (auto intro!: gives_ret gives_and_then [OF gives_any] simp: attempted_def)

lemma attempted_poll_ready:
  "attempted active_a k (fst a) \<Longrightarrow> attempted active_b k (fst b) \<Longrightarrow>
     gives (poll_ready env code active_a active_b n delays a b)
       (\<lambda>r. attempted active_a k (fst (fst (snd r))) \<and> attempted active_b k (fst (snd (snd r))))"
proof (induction n arbitrary: delays a b)
  case 0
  then show ?case by (simp add: gives_def never_def)
next
  case (Suc n)
  obtain pa sa pb sb where ab: "a = (pa, sa)" "b = (pb, sb)" by (cases a; cases b) auto
  have pa: "attempted active_a k pa" and pb: "attempted active_b k pb" using Suc.prems ab by simp_all
  have again: "gives (poll_ready env code active_a active_b n d (pa', sa') (pb', sb'))
      (\<lambda>r. attempted active_a k (fst (fst (snd r))) \<and> attempted active_b k (fst (snd (snd r))))"
    if "attempted active_a k pa'" "attempted active_b k pb'" for d pa' sa' pb' sb'
    using that by (intro Suc.IH) simp_all
  show ?case
    unfolding ab poll_ready.simps
    apply (rule gives_and_then [OF attempted_poll [OF pa]])
    apply clarsimp
    apply (rule gives_and_then [OF attempted_poll [OF pb]])
    apply (clarsimp split del: if_split)
    apply (split if_split, intro conjI impI)
    apply (rule gives_ret, simp)
    apply (rule gives_do, rule again, assumption+)
    done
qed

lemma attempted_delay: "attempted active k (note_delay_count d p) = attempted active k p"
  by (simp add: attempted_def note_delay_count_def)

lemma attempted_retry:
  "attempted active k p \<Longrightarrow> k < 255 \<Longrightarrow> active \<Longrightarrow> \<not> os_finished p \<Longrightarrow>
     attempted active (Suc k) (note_retry label (push_attempt r f d st raw c l p))"
  by (auto simp: attempted_def note_retry_def push_attempt_def Let_def unat_sat_add)

lemma attempted_candidate:
  "attempted active k p \<Longrightarrow> active \<Longrightarrow> \<not> os_finished p \<Longrightarrow>
     attempted active (Suc k) (push_candidate c (push_attempt r f d st raw c' l p))"
  by (auto simp: attempted_def push_candidate_def push_attempt_def Let_def split: option.splits)

lemma attempted_update: "attempted active k (p\<lparr>os_failed := f\<rparr>) = attempted active k p"
  by (simp add: attempted_def)

lemma attempted_idle: "\<not> active \<or> os_finished p \<Longrightarrow> attempted active k p"
  by (auto simp: attempted_def)

lemma attempted_collect:
  assumes "attempted active k p" "k < 255"
  shows "gives (collect_path env code active name a m l capture delays p) (attempted active (Suc k))"
proof (cases "active \<and> \<not> os_finished p")
  case True
  have p: "attempted active k (p\<lparr>os_failed := f\<rparr>)" "active" "\<not> os_finished (p\<lparr>os_failed := f\<rparr>)" for f
    using assms(1) True by (simp_all add: attempted_update)
  note retry = attempted_retry [OF p(1) assms(2) p(2,3)] and found = attempted_candidate [OF p]
  show ?thesis
    unfolding collect_path_def Let_def if_P [OF conjI [OF conjunct2 [OF True] conjunct1 [OF True]]]
    apply (rule gives_then)
    apply (split if_split, intro conjI impI)
    apply (rule gives_ret, rule retry)
    apply (rule gives_then, clarsimp, rule gives_ret, rule found)
    done
next
  case False
  then show ?thesis
    unfolding collect_path_def by (subst if_not_P) (auto intro!: gives_ret attempted_idle)
qed

lemma attempted_not_ready: "attempted active k p \<Longrightarrow> k < 255 \<Longrightarrow> attempted active (Suc k) (not_ready_path active l d st p)"
  by (auto simp: not_ready_path_def intro: attempted_retry attempted_idle)

lemma attempted_collect_both:
  assumes "attempted active_a k a" "attempted active_b k b" "k < 255"
  shows "gives (and_then (collect_path env code active_a na ra m l ca delays a) (\<lambda>a.
      and_then (collect_path env code active_b nb rb m l cb delays b) (\<lambda>b. ret (a, b))))
    (\<lambda>(a, b). attempted active_a (Suc k) a \<and> attempted active_b (Suc k) b)"
  by (rule gives_and_then [OF attempted_collect [OF assms(1,3)]], rule gives_and_then [OF attempted_collect [OF assms(2,3)]])
    (simp add: gives_ret)

lemma attempted_round:
  assumes "attempted active_a k a" "attempted active_b k b" "k < 255"
  shows "gives (and_then (poll_ready env code active_a active_b n 0 (a, None) (b, None)) (\<lambda>(delays, (a, sa), (b, sb)).
      let a = note_delay_count delays a; b = note_delay_count delays b in
      if delays < lim
      then and_then (collect_path env code active_a na ra m l (ca delays) delays a) (\<lambda>a.
           and_then (collect_path env code active_b nb rb m l (cb delays) delays b) (\<lambda>b. ret (a, b)))
      else ret (not_ready_path active_a l' delays sa a, not_ready_path active_b l' delays sb b)))
    (\<lambda>(a, b). attempted active_a (Suc k) a \<and> attempted active_b (Suc k) b)"
  unfolding Let_def
  apply (rule gives_and_then [OF attempted_poll_ready [where k = k]])
  apply (simp add: assms)
  apply (simp add: assms)
  apply (clarsimp split del: if_split)
  apply (split if_split, intro conjI impI)
  apply (rule attempted_collect_both, simp_all add: attempted_delay assms(3))
  apply (rule gives_ret, simp add: attempted_not_ready attempted_delay assms(3))
  done

lemma attempted_tx_round:
  assumes "attempted True k (fst paths)" "attempted True k (snd paths)" "k < 255"
  shows "gives (tx_round env paths) (\<lambda>(a, b). attempted True (Suc k) a \<and> attempted True (Suc k) b)"
  unfolding tx_round_def by (rule gives_do attempted_round [OF assms])+

lemma attempted_rx_round:
  assumes "attempted (ta \<noteq> None) k (fst paths)" "attempted (tb \<noteq> None) k (snd paths)" "k < 255"
  shows "gives (rx_round env ta tb rfe paths) (\<lambda>(a, b). attempted (ta \<noteq> None) (Suc k) a \<and> attempted (tb \<noteq> None) (Suc k) b)"
  unfolding rx_round_def Let_def by (rule gives_do attempted_round [OF assms, unfolded Let_def])+

lemma path_attempts_attempted: "attempted active k p \<Longrightarrow> active \<Longrightarrow> \<not> os_finished p \<Longrightarrow> k < 256 \<Longrightarrow> unat (path_attempts p) = k"
  by (auto simp: attempted_def path_attempts_def u8_or_max_def unat_sat_add unat_of_nat)

section \<open>The stages\<close>

lemma returns_capture [returns_intros]:
  "returns (runtime_iqk_capture_tx_candidate env p ln l rn r)" "returns (runtime_iqk_capture_rx_candidate env ln l rn r)"
  unfolding runtime_iqk_capture_tx_candidate_def runtime_iqk_capture_rx_candidate_def Let_def
  by (intro returns_intros)+

lemma returns_collect_path [returns_intros]: "returns capture \<Longrightarrow> returns (collect_path env code active name a m l capture delays p)"
  unfolding collect_path_def Let_def by (intro returns_intros)

lemma returns_polls [returns_intros]: "returns (poll_ready env code active_a active_b IQK_POLLS 0 a b)"
  by (rule returns_poll_ready) (simp_all add: IQK_POLLS_def)

lemma returns_tx_round [returns_intros]: "returns (tx_round env paths)"
  unfolding tx_round_def Let_def by (intro returns_intros)

lemma returns_trigger [returns_intros]: "returns (runtime_iqk_trigger_rx_path env tx mn mr ln l v)"
  unfolding runtime_iqk_trigger_rx_path_def by (intro returns_intros)

lemma returns_rx_round [returns_intros]: "returns (rx_round env ta tb rfe paths)"
  unfolding rx_round_def Let_def by (intro returns_intros)

text \<open>The tenth round gives every path that still works its tenth attempt.\<close>

lemma returns_tx_rounds:
  "0 < n \<Longrightarrow> n \<le> 10 \<Longrightarrow> attempted True (10 - n) (fst paths) \<Longrightarrow> attempted True (10 - n) (snd paths) \<Longrightarrow> returns (tx_rounds env n paths)"
proof (induction n arbitrary: paths)
  case (Suc n)
  have again: "returns (tx_rounds env n (a, b))"
    if "attempted True (Suc (10 - Suc n)) a" "attempted True (Suc (10 - Suc n)) b"
      "\<not> (os_finished a \<and> os_finished b)" "\<not> (RTL8812A_IQK_MAX_ATTEMPTS \<le> path_attempts a \<or> RTL8812A_IQK_MAX_ATTEMPTS \<le> path_attempts b)" for a b
  proof -
    have k: "Suc (10 - Suc n) = 10 - n" using Suc.prems(2) by simp
    have "0 < n"
      using that k path_attempts_attempted [of True "10 - n" a] path_attempts_attempted [of True "10 - n" b]
      by (cases n) (auto simp: RTL8812A_IQK_MAX_ATTEMPTS_def word_le_nat_alt)
    with that k Suc.prems(2) show ?thesis by (intro Suc.IH) simp_all
  qed
  have "gives (tx_round env paths) (\<lambda>(a, b). attempted True (Suc (10 - Suc n)) a \<and> attempted True (Suc (10 - Suc n)) b)"
    using Suc.prems by (intro attempted_tx_round) simp_all
  note step = returns_bind [OF returns_tx_round this]
  show ?case
    unfolding tx_rounds.simps
    by (intro returns_if_cases returns_pure step, clarsimp split del: if_split, intro returns_if_cases returns_pure again) (assumption | simp)+
qed simp

lemma returns_rx_rounds:
  "0 < n \<Longrightarrow> n \<le> 10 \<Longrightarrow> attempted (ta \<noteq> None) (10 - n) (fst paths) \<Longrightarrow> attempted (tb \<noteq> None) (10 - n) (snd paths) \<Longrightarrow>
     returns (rx_rounds env ta tb rfe n paths)"
proof (induction n arbitrary: paths)
  case (Suc n)
  have again: "returns (rx_rounds env ta tb rfe n (a, b))"
    if "attempted (ta \<noteq> None) (Suc (10 - Suc n)) a" "attempted (tb \<noteq> None) (Suc (10 - Suc n)) b"
      "\<not> ((os_finished a \<or> ta = None) \<and> (os_finished b \<or> tb = None))"
      "\<not> (RTL8812A_IQK_MAX_ATTEMPTS \<le> path_attempts a \<or> RTL8812A_IQK_MAX_ATTEMPTS \<le> path_attempts b \<or> c)" for a b c
  proof -
    have k: "Suc (10 - Suc n) = 10 - n" using Suc.prems(2) by simp
    have "0 < n"
      using that k path_attempts_attempted [of "ta \<noteq> None" "10 - n" a] path_attempts_attempted [of "tb \<noteq> None" "10 - n" b]
      by (cases n) (auto simp: RTL8812A_IQK_MAX_ATTEMPTS_def word_le_nat_alt)
    with that k Suc.prems(2) show ?thesis by (intro Suc.IH) simp_all
  qed
  have "gives (rx_round env ta tb rfe paths)
      (\<lambda>(a, b). attempted (ta \<noteq> None) (Suc (10 - Suc n)) a \<and> attempted (tb \<noteq> None) (Suc (10 - Suc n)) b)"
    using Suc.prems by (intro attempted_rx_round) simp_all
  note step = returns_bind [OF returns_rx_round this]
  show ?case
    unfolding rx_rounds.simps
    by (intro returns_if_cases returns_pure step, elim case_prodE, hypsubst, unfold prod.case, intro returns_if_cases returns_pure again) (assumption | simp)+
qed simp

lemma attempted_start: "attempted active 0 path_state_default"
  by (simp add: attempted_def path_state_default_def)

lemma returns_tx_oneshot [returns_intros]: "returns (run_rtl8812au_runtime_iqk_tx_oneshot env)"
  unfolding run_rtl8812au_runtime_iqk_tx_oneshot_def IQK_ROUNDS_def
  by (intro returns_intros returns_tx_rounds) (simp_all add: attempted_start)

lemma returns_rx_oneshot [returns_intros]: "returns (run_rtl8812au_runtime_iqk_rx_oneshot env a b rfe)"
  unfolding run_rtl8812au_runtime_iqk_rx_oneshot_def Let_def IQK_ROUNDS_def runtime_iqk_load_lok_def
    runtime_iqk_prepare_rx_oneshot_def runtime_iqk_prepare_rx_path_def
  by (intro returns_intros returns_rx_rounds) (simp_all add: attempted_start)


section \<open>The sweep, the calibration, the profile\<close>

lemma returns_read_group [returns_intros]:
  "returns (rtl8812au_iqk_read32_group env rs)" "returns (rtl8812au_iqk_rf_backup_reads env path)"
  unfolding rtl8812au_iqk_read32_group_def rtl8812au_iqk_rf_backup_reads_def by (intro returns_intros)+

lemma returns_backup [returns_intros]:
  "returns (run_rtl8812au_runtime_iqk_backup env)" "returns (rtl8812au_runtime_iqk_pre_sweep_state env backup)"
  unfolding run_rtl8812au_runtime_iqk_backup_def rtl8812au_runtime_iqk_pre_sweep_state_def by (intro returns_intros)+

lemma returns_setup_write [returns_intros]: "returns (apply_setup_write env w n)"
  by (cases w) (auto simp: Let_def intro!: returns_intros)

lemma returns_fill [returns_intros]: "returns (apply_rtl8812au_runtime_iqk_fill env path tx rx)"
  unfolding apply_rtl8812au_runtime_iqk_fill_def Let_def apply_runtime_iqk_masked_bb_write_def by (intro returns_intros)

lemma returns_stages [returns_intros]: "returns (iqk_stages env channel rfe)"
  unfolding iqk_stages_def apply_rtl8812au_runtime_iqk_setup_plan_def by (intro returns_intros)

lemma returns_noting [returns_intros]: "returns m \<Longrightarrow> returns (noting m d fs)"
  unfolding noting_def by (intro returns_intros)

lemma returns_restore [returns_intros]: "returns (restore_rtl8812au_runtime_iqk_backup env backup)"
  unfolding restore_rtl8812au_runtime_iqk_backup_def restore_page_def restore_runtime_iqk_rf_group_def
    restore_runtime_iqk_register_group_def restore_checked_def Let_def
  by (intro returns_intros)

lemma returns_finish [returns_intros]: "returns (iqk_finish env c rs backup pre cleanup stages)"
  unfolding iqk_finish_def Let_def or_default_def by (intro returns_intros)

lemma returns_sweep [returns_intros]: "returns (run_rtl8812au_runtime_iqk_calibration_sweep env channel rfe)"
  unfolding run_rtl8812au_runtime_iqk_calibration_sweep_def by (intro returns_intros)

lemma returns_sweeps [returns_intros]: "returns (iqk_sweeps env channel rfe c ks sums r)"
  by (induction ks arbitrary: sums r) (auto simp: Let_def intro!: returns_intros split: option.split)

lemma returns_iqk [returns_intros]: "returns (run_rtl8812au_runtime_iqk_calibration env channel rfe)"
  unfolding run_rtl8812au_runtime_iqk_calibration_def by (intro returns_intros)

lemma returns_try_step [returns_intros]: "returns m \<Longrightarrow> (\<And>x. returns (f x)) \<Longrightarrow> returns (try_step c m f)"
  unfolding try_step_def by (intro returns_intros)

lemma returns_report [returns_intros]:
  "returns (write8_register_report env name a v)" "returns (write32_register_report env name a v32)"
  unfolding write8_register_report_def write32_register_report_def by (intro returns_intros)+

lemma returns_lck [returns_intros]: "returns (run_rtl8812au_lck_calibration env)"
  unfolding run_rtl8812au_lck_calibration_def run_rtl8812au_lck_calibration_inner_def
    cleanup_rtl8812au_lck_after_error_def lck_restore_rf_def Let_def
  by (intro returns_intros)

lemma returns_profile: "returns (run_rtl8812au_tx_calibration_profile env profile ch bw rfe)"
  unfolding run_rtl8812au_tx_calibration_profile_def run_rtl8812au_targeted_calibration_profile_def Let_def
  by (cases profile) (auto intro!: returns_intros)

lemma returns_for_tx: "returns (apply_production_runtime_tx_calibration_profile env profile ch bw rfe)"
  unfolding apply_production_runtime_tx_calibration_profile_def by (intro returns_intros returns_profile)

text \<open>
  C21. The calibration of the transmitter ends on every transport and every device: the profile,
  with the waits for the results of the measurement, the ten attempts of each stage and the three
  sweeps of the I/Q calibration, returns a report or an error whatever the device answers.
\<close>

theorem calibration_returns: "apply_production_runtime_tx_calibration_profile env profile ch bw rfe s \<noteq> None"
  using returns_for_tx unfolding returns_def by blast

end
