(* ===== verification/Calibration_Laws.thy ===== *)
theory Calibration_Laws
  imports Iqk_Laws
begin

text \<open>
  What a calibration that lets the production flow transmit has done, and what the local oscillator
  calibration leaves when one of its steps fails.
\<close>

section \<open>The corrections are in\<close>

lemma gives_case_prod [gives_intros]: "(\<And>a b. gives (f a b) Q) \<Longrightarrow> gives (case_prod f p) Q"
  by (cases p) simp

lemma gives_restore:
  "gives (restore_rtl8812au_runtime_iqk_backup env backup) (\<lambda>c. cl_status c = ''restored'' \<longleftrightarrow> cl_failures c = [])"
  unfolding restore_rtl8812au_runtime_iqk_backup_def Let_def
  by (intro gives_then gives_case_prod gives_ret) simp

text \<open>
  A path is corrected: both stages have chosen a correction, and the writes made for it are the plan
  for these two corrections.
\<close>

definition path_corrected :: "iqk_path_report \<Rightarrow> bool" where
  "path_corrected p \<longleftrightarrow>
     (\<exists>tx rx. rtl8812au_runtime_iqk_stage_success_iqc (iq_tx p) = Some tx \<and>
        rtl8812au_runtime_iqk_stage_success_iqc (iq_rx p) = Some rx \<and>
        rtl8812au_iqk_tx_fill_iqc_plan (iq_path p) (iqc_x tx) (iqc_y tx) False = Inr (stg_fill_plan (iq_tx p)) \<and>
        rtl8812au_iqk_rx_fill_iqc_plan (iq_path p) (iqc_x rx) (iqc_y rx) = Inr (stg_fill_plan (iq_rx p)))"

definition corrected :: "iqk_calibration \<Rightarrow> bool" where
  "corrected iqk \<longleftrightarrow>
     (\<exists>cleanup. iq_cleanup iqk = Some cleanup \<and> cl_failures cleanup = []) \<and>
     map iq_path (iq_paths iqk) = [RfA, RfB] \<and> (\<forall>p \<in> set (iq_paths iqk). path_corrected p) \<and>
     iq_selected_iqc_fill_register_count iqk =
       sum_list (map (\<lambda>p. length (stg_fill_plan (iq_tx p)) + length (stg_fill_plan (iq_rx p))) (iq_paths iqk))"

lemma gives_result: "gives (of_result r) (\<lambda>x. r = Inr x)"
  by (auto simp: gives_def of_result_def)

lemma gives_fill:
  assumes "rtl8812au_runtime_iqk_path_can_fill tx rx"
  shows "gives (apply_rtl8812au_runtime_iqk_fill env path tx rx)
    (\<lambda>(n, tx', rx'). path_corrected \<lparr>iq_path = path, iq_path_name = nm, iq_tx = tx', iq_rx = rx'\<rparr> \<and>
       n = length (stg_fill_plan tx') + length (stg_fill_plan rx'))"
  unfolding apply_rtl8812au_runtime_iqk_fill_def Let_def
  apply (rule gives_and_then [OF gives_result], rule gives_and_then [OF gives_result], rule gives_do, rule gives_ret)
  using assms
  by (auto simp: path_corrected_def rtl8812au_runtime_iqk_path_can_fill_def rtl8812au_runtime_iqk_stage_success_iqc_def
      rtl8812au_runtime_iqk_stage_iqc_or_fallback_def split: if_splits)

lemma gives_finish:
  assumes "cl_status cleanup = ''restored'' \<longleftrightarrow> cl_failures cleanup = []"
  shows "gives (iqk_finish env c rs backup pre cleanup stages) (\<lambda>iqk. iq_selected_iqc_fill_applied iqk \<longrightarrow> corrected iqk)"
proof -
  obtain tx_a rx_a tx_b rx_b where stages: "stages = (tx_a, rx_a, tx_b, rx_b)" by (cases stages) auto
  let ?fill = "cl_status cleanup = ''restored'' \<and> rtl8812au_runtime_iqk_path_can_fill tx_a rx_a \<and>
    rtl8812au_runtime_iqk_path_can_fill tx_b rx_b"
  show ?thesis
  proof (cases ?fill)
    case True
    show ?thesis
      unfolding iqk_finish_def stages prod.case Let_def if_P [OF True]
      apply (intro gives_and_then [OF gives_and_then [OF gives_fill [where nm = "''A''"]]])
      using True apply simp
      apply (clarify, rule gives_and_then [OF gives_fill [where nm = "''B''"]])
      using True apply simp
      apply (clarify, rule gives_ret [where Q = "\<lambda>(n, tx_a, rx_a, tx_b, rx_b).
          path_corrected \<lparr>iq_path = RfA, iq_path_name = ''A'', iq_tx = tx_a, iq_rx = rx_a\<rparr> \<and>
          path_corrected \<lparr>iq_path = RfB, iq_path_name = ''B'', iq_tx = tx_b, iq_rx = rx_b\<rparr> \<and>
          n = length (stg_fill_plan tx_a) + length (stg_fill_plan rx_a) + (length (stg_fill_plan tx_b) + length (stg_fill_plan rx_b))"])
      apply simp
      apply (clarify, intro gives_then gives_ret)
      using assms True
      apply (simp add: corrected_def)
      done
  next
    case False
    show ?thesis
      unfolding iqk_finish_def stages prod.case Let_def if_not_P [OF False]
      apply (rule gives_and_then [OF gives_ret [where Q = "\<lambda>r. fst r = 0"]])
      apply simp
      apply (clarify, intro gives_then gives_ret)
      apply simp
      done
  qed
qed

lemma gives_fail [gives_intros]: "gives (fail e) Q"
  by (simp add: gives_def fail_def)

lemma gives_sweep: "gives (run_rtl8812au_runtime_iqk_calibration_sweep env channel rfe) (\<lambda>iqk. iq_selected_iqc_fill_applied iqk \<longrightarrow> corrected iqk)"
  unfolding run_rtl8812au_runtime_iqk_calibration_sweep_def
  apply (rule gives_then, rule gives_then, rule gives_then, rule gives_then, rule gives_then)
  apply (rule gives_and_then [OF gives_restore])
  apply (auto split: sum.split intro: gives_fail gives_finish)
  done

lemma gives_sweeps:
  "(\<And>r. l = Some r \<Longrightarrow> iq_selected_iqc_fill_applied r \<longrightarrow> corrected r) \<Longrightarrow>
     gives (iqk_sweeps env channel rfe c ks sums l) (\<lambda>iqk. iq_selected_iqc_fill_applied iqk \<longrightarrow> corrected iqk)"
proof (induction ks arbitrary: sums l)
  case Nil
  then show ?case by (auto intro!: gives_intros split: option.split)
next
  case (Cons k ks)
  have keep: "corrected (r\<lparr>iq_sweep_index := a, iq_sweep_count := b, iq_max_sweeps := m, iq_sweep_summaries := s, iq_counters := d\<rparr>) =
      corrected r" for r a b m s d
    by (simp add: corrected_def)
  show ?case
    unfolding iqk_sweeps.simps Let_def
    by (rule gives_and_then [OF gives_sweep], rule gives_then, split if_split, intro conjI impI gives_ret Cons.IH)
      (auto simp: keep)
qed

lemma gives_live_calibration:
  "gives (apply_production_runtime_tx_calibration_profile env Rtl8812aRuntimeIqk ch bw rfe)
     (\<lambda>r. \<exists>report iqk. r = Some report \<and> cp_runtime_iqk report = Some iqk \<and> iq_status iqk = ''completed'' \<and> corrected iqk)"
  unfolding apply_production_runtime_tx_calibration_profile_def run_rtl8812au_tx_calibration_profile_def Let_def
    run_rtl8812au_runtime_iqk_calibration_def tx_calibration_profile.case
  apply (rule gives_and_then [where P = "\<lambda>r. \<exists>report iqk. r = Some report \<and> cp_runtime_iqk report = Some iqk \<and>
      (iq_selected_iqc_fill_applied iqk \<longrightarrow> corrected iqk)"])
  apply (rule gives_and_then)
  apply (rule gives_then, rule gives_sweeps, simp)
  apply (rule gives_ret, simp)
  apply clarsimp
  unfolding and_do_def
  apply (rule gives_and_then [OF gives_result], rule gives_ret)
  apply (auto simp: validate_production_runtime_tx_calibration_profile_ready_for_tx_def split: if_splits)
  done


end
