(* ===== verification/Iqk_Choice.thy ===== *)
theory Iqk_Choice
  imports Iqk_State
begin

text \<open>
  The choice among the candidates of a measurement: a candidate is chosen exactly when two agree, and
  the choice is their mean.
\<close>

section \<open>Components as numbers\<close>

text \<open>The number a component stands for: eleven bits in two's complement.\<close>

definition component :: "u32 \<Rightarrow> int" where
  "component v = signed_take_bit 10 (uint v)"

lemma component_range: "- 1024 \<le> component v" "component v \<le> 1023"
  using signed_take_bit_int_greater_eq_minus_exp [of 10 "uint v"] signed_take_bit_int_less_exp [of 10 "uint v"]
  by (simp_all add: component_def)

lemma sint_small: "- (2 ^ 31) \<le> i \<Longrightarrow> i < 2 ^ 31 \<Longrightarrow> sint (word_of_int i :: 32 word) = i"
proof -
  assume "- (2 ^ 31) \<le> i" "i < 2 ^ 31"
  then have "signed_take_bit 31 i = i" by (intro signed_take_bit_int_eq_self) simp_all
  then show ?thesis by (simp add: sint_uint unsigned_of_int signed_take_bit_take_bit)
qed

lemma uint_low_bits: "uint (v AND 0x7ff :: u32) = take_bit 11 (uint v)"
  by (simp add: uint_and take_bit_eq_mask mask_eq_exp_minus_1)

lemma component_cases:
  "component v = (if bit v 10 then take_bit 11 (uint v) - 2048 else take_bit 11 (uint v))"
  by (simp add: component_def signed_take_bit_eq_take_bit_minus bit_uint_iff)

lemma sint_component: "sint (rtl8812au_iqk_component_to_signed v) = component v"
proof -
  define t where "t = take_bit 11 (uint v)"
  have range: "0 \<le> t" "t < 2048" unfolding t_def using take_bit_int_less_exp [of 11 "uint v"] by simp_all
  have low: "v AND 0x7ff = word_of_int t"
    by (simp add: t_def flip: uint_low_bits)
  have sign: "(v AND 0x7ff) AND 0x400 \<noteq> 0 \<longleftrightarrow> bit v 10"
  proof -
    have "(v AND 0x7ff) AND 0x400 = v AND push_bit 10 1"
      by (rule bit_word_eqI) (auto simp: bit_simps bit_numeral_rec numeral_eq_Suc less_Suc_eq)
    then show ?thesis by (simp add: bit_iff_and_push_bit_not_eq_0)
  qed
  show ?thesis
    unfolding rtl8812au_iqk_component_to_signed_def Let_def sign component_cases t_def [symmetric]
    using sint_small [of t] sint_small [of "t - 2048"] range
    by (simp add: low)
qed

text \<open>Division by two, towards zero.\<close>

definition halved :: "int \<Rightarrow> int" where
  "halved i = sgn i * (\<bar>i\<bar> div 2)"

lemma sint_half_word: "sint (half w) = halved (sint w)"
proof -
  have r: "- (2 ^ 31) \<le> sint w" "sint w < 2 ^ 31"
    using sint_greater_eq [of w] sint_less [of w] by simp_all
  then have "sint (half w) = (if sint w < 0 then - (- sint w div 2) else sint w div 2)"
    unfolding half_def by (subst sint_small) auto
  then show ?thesis by (auto simp: halved_def sgn_if)
qed

lemma component_signed:
  assumes "- 1024 \<le> sint w" "sint w \<le> 1023"
  shows "component (rtl8812au_iqk_signed_to_component w AND 0x7ff) = sint w"
proof -
  have "component (rtl8812au_iqk_signed_to_component w AND 0x7ff) = signed_take_bit 10 (take_bit 11 (uint w))"
    by (simp add: component_def rtl8812au_iqk_signed_to_component_def uint_low_bits)
  also have "\<dots> = signed_take_bit 10 (signed_take_bit 31 (uint w))"
    by (simp add: signed_take_bit_take_bit)
  also have "\<dots> = signed_take_bit 10 (sint w)" by (simp add: sint_uint)
  also have "\<dots> = sint w"
    using assms by (intro signed_take_bit_int_eq_self) simp_all
  finally show ?thesis .
qed

section \<open>Agreeing candidates\<close>

definition agree :: "iqc_value \<Rightarrow> iqc_value \<Rightarrow> bool" where
  "agree l r \<longleftrightarrow>
     \<bar>component (iqc_x l) - component (iqc_x r)\<bar> \<le> 3 \<and> \<bar>component (iqc_y l) - component (iqc_y r)\<bar> \<le> 3"

definition mean_of :: "iqc_value \<Rightarrow> iqc_value \<Rightarrow> iqc_value \<Rightarrow> bool" where
  "mean_of l r v \<longleftrightarrow>
     component (iqc_x v) = halved (component (iqc_x l) + component (iqc_x r)) \<and>
     component (iqc_y v) = halved (component (iqc_y l) + component (iqc_y r))"

lemma sint_word_of_sums:
  assumes "- 1024 \<le> sint a" "sint a \<le> 1023" "- 1024 \<le> sint b" "sint b \<le> 1023"
  shows "sint (a + b :: 32 word) = sint a + sint b" "sint (a - b) = sint a - sint b"
proof -
  have "a + b = word_of_int (sint a + sint b)" "a - b = word_of_int (sint a - sint b)" by simp_all
  then show "sint (a + b) = sint a + sint b" "sint (a - b) = sint a - sint b"
    using assms sint_small [of "sint a + sint b"] sint_small [of "sint a - sint b"] by simp_all
qed


lemma halved_range: "- 2048 \<le> i \<Longrightarrow> i \<le> 2046 \<Longrightarrow> - 1024 \<le> halved i \<and> halved i \<le> 1023"
  by (auto simp: halved_def sgn_if)

lemma component_of_mean:
  "component (iqc_x (rtl8812au_runtime_iqk_iqc_value (rtl8812au_iqk_signed_to_component
       (half (rtl8812au_iqk_component_to_signed a + rtl8812au_iqk_component_to_signed b))) y)) =
     halved (component a + component b)"
  "component (iqc_y (rtl8812au_runtime_iqk_iqc_value x (rtl8812au_iqk_signed_to_component
       (half (rtl8812au_iqk_component_to_signed a + rtl8812au_iqk_component_to_signed b))))) =
     halved (component a + component b)"
proof -
  let ?w = "half (rtl8812au_iqk_component_to_signed a + rtl8812au_iqk_component_to_signed b)"
  have "sint ?w = halved (component a + component b)"
    using component_range [of a] component_range [of b]
    by (simp add: sint_half_word sint_word_of_sums sint_component)
  moreover have "- 1024 \<le> halved (component a + component b) \<and> halved (component a + component b) \<le> 1023"
    using component_range [of a] component_range [of b] by (intro halved_range) simp_all
  ultimately have "component (rtl8812au_iqk_signed_to_component ?w AND 0x7ff) = halved (component a + component b)"
    by (subst component_signed) simp_all
  then show
    "component (iqc_x (rtl8812au_runtime_iqk_iqc_value (rtl8812au_iqk_signed_to_component ?w) y)) = halved (component a + component b)"
    "component (iqc_y (rtl8812au_runtime_iqk_iqc_value x (rtl8812au_iqk_signed_to_component ?w))) = halved (component a + component b)"
    by (simp_all add: rtl8812au_runtime_iqk_iqc_value_def Let_def)
qed

lemma pair_mean_cases:
  "pair_mean l r = None \<longleftrightarrow> \<not> agree l r"
  "pair_mean l r = Some v \<Longrightarrow> agree l r \<and> mean_of l r v"
  using component_range [of "iqc_x l"] component_range [of "iqc_x r"] component_range [of "iqc_y l"] component_range [of "iqc_y r"]
  by (auto simp: pair_mean_def Let_def agree_def mean_of_def component_of_mean sint_word_of_sums sint_component split: if_splits)

lemma first_some_None: "first_some f xs = None \<longleftrightarrow> (\<forall>x \<in> set xs. f x = None)"
  by (induction xs) (auto split: option.split)

lemma first_some_Some: "first_some f xs = Some y \<Longrightarrow> \<exists>i < length xs. f (xs ! i) = Some y"
  by (induction xs) (fastforce split: option.splits)+

lemma select_None: "rtl8812au_iqk_select_candidate cs = None \<longleftrightarrow> (\<forall>i j. i < j \<longrightarrow> j < length cs \<longrightarrow> \<not> agree (cs ! i) (cs ! j))"
proof (induction cs)
  case (Cons c cs)
  have "(\<forall>i j. i < j \<longrightarrow> j < length (c # cs) \<longrightarrow> \<not> agree ((c # cs) ! i) ((c # cs) ! j)) \<longleftrightarrow>
      (\<forall>j < length cs. \<not> agree c (cs ! j)) \<and> (\<forall>i j. i < j \<longrightarrow> j < length cs \<longrightarrow> \<not> agree (cs ! i) (cs ! j))"
    (is "?all \<longleftrightarrow> ?here \<and> ?later")
  proof (intro iffI conjI allI impI)
    fix j assume ?all "j < length cs"
    then show "\<not> agree c (cs ! j)" using spec [OF spec [OF \<open>?all\<close>, of 0], of "Suc j"] by simp
  next
    fix i j assume ?all "i < j" "j < length cs"
    then show "\<not> agree (cs ! i) (cs ! j)" using spec [OF spec [OF \<open>?all\<close>, of "Suc i"], of "Suc j"] by simp
  next
    fix i j assume "?here \<and> ?later" "i < j" "j < length (c # cs)"
    then show "\<not> agree ((c # cs) ! i) ((c # cs) ! j)" by (cases i; cases j) auto
  qed
  moreover have "rtl8812au_iqk_select_candidate (c # cs) = None \<longleftrightarrow>
      first_some (pair_mean c) cs = None \<and> rtl8812au_iqk_select_candidate cs = None"
    by (simp split: option.split)
  moreover have "first_some (pair_mean c) cs = None \<longleftrightarrow> (\<forall>j < length cs. \<not> agree c (cs ! j))"
    by (simp add: first_some_None pair_mean_cases all_set_conv_all_nth)
  ultimately show ?case using Cons.IH by (simp only:)
qed simp

lemma select_Some:
  "rtl8812au_iqk_select_candidate cs = Some v \<Longrightarrow> \<exists>i j. i < j \<and> j < length cs \<and> agree (cs ! i) (cs ! j) \<and> mean_of (cs ! i) (cs ! j) v"
proof (induction cs)
  case (Cons c cs)
  show ?case
  proof (cases "first_some (pair_mean c) cs")
    case None
    with Cons obtain i j where "i < j \<and> j < length cs \<and> agree (cs ! i) (cs ! j) \<and> mean_of (cs ! i) (cs ! j) v" by auto
    then show ?thesis by (intro exI [of _ "Suc i"] exI [of _ "Suc j"]) simp
  next
    case (Some w)
    then have "w = v" using Cons.prems by simp
    then obtain j where "j < length cs" "pair_mean c (cs ! j) = Some v" using first_some_Some [OF Some] by blast
    then show ?thesis by (intro exI [of _ 0] exI [of _ "Suc j"]) (simp add: pair_mean_cases)
  qed
qed simp

text \<open>
  C25. The correction of a path is chosen from its measurements exactly when two of them agree: no two
  candidates lie within three of each other in both components, and then nothing is chosen, or the
  choice is the mean of two that do, computed on eleven bit numbers with sign and rounded towards
  zero, with both components in range.
\<close>

theorem candidate_choice_correct:
  "case rtl8812au_iqk_select_candidate cs of
     None \<Rightarrow> \<not> (\<exists>i j. i < j \<and> j < length cs \<and> agree (cs ! i) (cs ! j))
   | Some v \<Rightarrow> (\<exists>i j. i < j \<and> j < length cs \<and> agree (cs ! i) (cs ! j) \<and> mean_of (cs ! i) (cs ! j) v)"
  using select_None [of cs] select_Some [of cs] by (auto split: option.split)

end
