(* ===== verification/Iqk_Device.thy ===== *)
theory Iqk_Device
  imports Calibration_Laws Channel_Run Iqk_Choice
begin

text \<open>
  A device on which the calibration completes: its measurements are ready at once and always give the
  same candidate.
\<close>

section \<open>The device\<close>

definition measured :: "u16 \<Rightarrow> bytes" where
  "measured a = (if a = REG_IQK_RESULT_A_D00 \<or> a = REG_IQK_RESULT_B_D40 then [0x00, 0x04, 0x00, 0x01] else [0, 0, 0, 0])"

definition measuring :: "(unit, unit) reg_env" where
  "measuring =
     \<lparr>re_access = register_access_new
        (\<lambda>_ _ addr _ data _ dev. (Inr (length data), take (length data) (measured addr), dev))
        (\<lambda>_ _ _ _ data _ dev. (Inr (length data), dev)),
      re_show_rusb = (\<lambda>_. []), re_sleep = (\<lambda>_ dev. dev), re_now = (\<lambda>dev. (0, dev))\<rparr>"

lemma measuring_exact:
  "expected_len w = length data \<Longrightarrow> read_exact (re_access (logged measuring)) addr w data dev =
     (Inr (take (length data) (measured addr)), (fst dev, snd dev @ [RdReg addr (length data)]))"
  "expected_len w = length data \<Longrightarrow> write_all (re_access (logged measuring)) addr w data dev =
     (Inr (), (fst dev, snd dev @ [WrReg addr data]))"
  by (cases dev; simp add: read_exact_def write_all_def read_vendor_def write_vendor_def logged_def
      logged_access_def measuring_def register_access_new_def)+

named_theorems device_steps \<open>what operations give on the device\<close>

lemma yields_seq: "yields P m \<Longrightarrow> (\<And>x. P x \<Longrightarrow> yields Q (f x)) \<Longrightarrow> yields Q (and_then m f)"
  unfolding yields_def and_then_def by (fastforce split: option.split sum.split)

definition ends :: "('t, 'a) reg_op \<Rightarrow> bool" where
  "ends m \<longleftrightarrow> yields (\<lambda>_. True) m"

lemma yields_mono: "yields P m \<Longrightarrow> (\<And>x. P x \<Longrightarrow> Q x) \<Longrightarrow> yields Q m"
  unfolding yields_def by blast

lemma ends_yields: "yields P m \<Longrightarrow> ends m"
  unfolding ends_def by (erule yields_mono) simp

lemma yields_after: "ends m \<Longrightarrow> (\<And>x. yields Q (f x)) \<Longrightarrow> yields Q (and_then m f)"
  unfolding ends_def by (erule yields_seq) simp

lemma yields_after_do: "ends m \<Longrightarrow> yields Q n \<Longrightarrow> yields Q (and_do m n)"
  unfolding and_do_def by (rule yields_after)

lemma ends_sequence [device_steps]:
  "ends m \<Longrightarrow> (\<And>x. ends (f x)) \<Longrightarrow> ends (and_then m f)" "ends m \<Longrightarrow> ends n \<Longrightarrow> ends (and_do m n)" "ends (ret x)"
  "ends current_counters" "ends (sleep env d)"
  unfolding ends_def by (rule yields_after yields_after_do, simp_all add: ends_def)+
    (simp_all add: yields_def ret_def current_counters_def sleep_def)

lemma ends_cases [device_steps]:
  "ends m \<Longrightarrow> ends n \<Longrightarrow> ends (if b then m else n)" "(\<And>a b. ends (g a b)) \<Longrightarrow> ends (case_prod g p)"
  "(\<And>a b. ends (h a b x)) \<Longrightarrow> ends (case_prod h p x)" "ends m \<Longrightarrow> (\<And>x. ends (k x)) \<Longrightarrow> ends (case_option m k v)"
  "ends (l y) \<Longrightarrow> ends (let z = y in l z)"
  by (auto split: prod.split option.split)

lemma ends_each [device_steps]: "(\<And>x a. ends (f x a)) \<Longrightarrow> ends (for_each xs f a)"
  by (induction xs arbitrary: a) (auto intro: device_steps)

lemma ends_run_all [device_steps]: "list_all ends ms \<Longrightarrow> ends (run_all ms)"
  by (induction ms) (auto intro: device_steps)

lemma ends_list [device_steps]: "list_all ends []" "ends m \<Longrightarrow> list_all ends ms \<Longrightarrow> list_all ends (m # ms)"
  by simp_all

lemma yields_map_err: "yields P m \<Longrightarrow> yields P (op_map_err f m)"
  unfolding yields_def op_map_err_def by (fastforce split: option.split)

lemma ends_map_err [device_steps]: "ends m \<Longrightarrow> ends (op_map_err f m)"
  unfolding ends_def by (rule yields_map_err)

lemma yields_as_value: "yields P m \<Longrightarrow> yields (\<lambda>r. \<exists>x. r = Inr x \<and> P x) (as_value m)"
  unfolding yields_def as_value_def by fastforce

definition answer :: "u16 \<Rightarrow> u32" where
  "answer a = (if a = REG_IQK_RESULT_A_D00 \<or> a = REG_IQK_RESULT_B_D40 then 0x01000400 else 0)"

lemma device_reads:
  "yields (\<lambda>v. v = answer a) (read32_with_counter (logged measuring) a name phase)"
  "a \<noteq> REG_IQK_RESULT_A_D00 \<Longrightarrow> a \<noteq> REG_IQK_RESULT_B_D40 \<Longrightarrow> yields (\<lambda>v. v = 0) (read8_with_counter (logged measuring) a name phase)"
  by (simp_all add: yields_def read8_with_counter_def read32_with_counter_def counted_read_def read8_def read32_def
      map_ok_def measuring_exact measured_def answer_def of_le32_def)

lemma device_writes [device_steps]:
  "ends (read32_with_counter (logged measuring) a name phase)"
  "ends (write32_with_counter (logged measuring) a v name phase)" "ends (write8_with_counter (logged measuring) a v8 name phase)"
  by (simp_all add: ends_def yields_mono [OF device_reads(1)])
    (simp_all add: yields_def write8_with_counter_def write32_with_counter_def counted_write_def write8_def write32_def
      measuring_exact le32.enc_length)


section \<open>The accesses of the calibration\<close>

lemma ends_accesses [device_steps]:
  "ends (bb_set_bb_reg (logged measuring) a m d name)" "ends (rtl8812au_iqk_select_page (logged measuring) page)"
  "ends (runtime_iqk_write32 (logged measuring) name a v code)" "ends (runtime_iqk_read32 (logged measuring) name a code)"
  "ends (runtime_iqk_set_bb_reg (logged measuring) name a m d code)"
  unfolding runtime_iqk_write32_def runtime_iqk_read32_def runtime_iqk_set_bb_reg_def rtl8812au_iqk_select_page_def bb_set_bb_reg_def
  by (intro device_steps)+

lemma iqk_read: "yields (\<lambda>v. v = answer a) (runtime_iqk_read32 (logged measuring) name a code)"
  unfolding runtime_iqk_read32_def by (rule yields_map_err [OF device_reads(1)])

lemma ends_rf_read: "path \<noteq> RfBoth \<Longrightarrow> ends (rf_serial_read_register (logged measuring) path off)"
  unfolding rf_serial_read_register_def Let_def
  by (cases path) (auto simp: RF_SERIAL_READ_TARGET_A_def RF_SERIAL_READ_TARGET_B_def intro!: device_steps)

lemma ends_rf_write:
  assumes "path \<noteq> RfBoth"
  shows "ends (rf_serial_write_single_path (logged measuring) path off v)"
proof -
  obtain name bb where target: "rf_serial_write_targets path = [(path, name, bb, rf_path_register path)]"
    using assms by (cases path) (auto simp: RF_SERIAL_TARGET_A_def RF_SERIAL_TARGET_B_def)
  show ?thesis
    unfolding rf_serial_write_single_path_def target for_each.simps prod.case Let_def and_then_ret_right ends_def
    by (rule yields_seq [where P = "\<lambda>r. r \<noteq> []"])
      (auto intro!: yields_ret yields_after yields_after_do device_steps)
qed

lemma ends_rf [device_steps]:
  "ends (rf_serial_read_register (logged measuring) RfA off)" "ends (rf_serial_read_register (logged measuring) RfB off)"
  "ends (rf_serial_write_single_path (logged measuring) RfA off v)" "ends (rf_serial_write_single_path (logged measuring) RfB off v)"
  "ends (runtime_iqk_rf_masked_write (logged measuring) RfA off m d code)" "ends (runtime_iqk_rf_masked_write (logged measuring) RfB off m d code)"
  unfolding runtime_iqk_rf_masked_write_def Let_def
  by (auto intro!: device_steps ends_rf_read ends_rf_write)

section \<open>A round\<close>

definition sample_candidate :: iqc_value where
  "sample_candidate = rtl8812au_runtime_iqk_iqc_value 0x100 0x100"

text \<open>A path after \<open>k\<close> attempts: every attempt gave the candidate, and the second ends the work.\<close>

definition measured_times :: "nat \<Rightarrow> path_state \<Rightarrow> bool" where
  "measured_times k p \<longleftrightarrow>
     os_candidates p = replicate k sample_candidate \<and> os_retry_count p = 0 \<and> os_finished p = (2 \<le> k) \<and>
     (2 \<le> k \<longrightarrow> os_selected_iqc p = Some sample_candidate)"

lemma sample_selected:
  "rtl8812au_iqk_select_candidate [sample_candidate, sample_candidate] = Some sample_candidate"
  "rtl8812au_iqk_select_candidate [sample_candidate] = None"
  by code_simp+

lemma result_registers: "answer REG_IQK_RESULT_A_D00 = 0x01000400" "answer REG_IQK_RESULT_B_D40 = 0x01000400"
  by (simp_all add: answer_def)

lemma device_poll_path:
  assumes "measured_times k p" "k < 2" "answer a = 0x01000400"
  shows "yields (\<lambda>(p', _). measured_times k p' \<and> os_ready p' = Some True) (poll_path (logged measuring) code True name a p st)"
proof -
  have "(0x01000400 :: u32) AND RTL8812A_IQK_READY_MASK \<noteq> 0" by (simp add: RTL8812A_IQK_READY_MASK_def)
  then show ?thesis
    using assms unfolding poll_path_def
    by (auto simp: measured_times_def intro!: yields_seq [OF iqk_read] yields_ret)
qed

lemma device_poll:
  assumes "measured_times k (fst a)" "measured_times k (fst b)" "k < 2"
  shows "yields (\<lambda>(d, (p, _), (q, _)). d = 0 \<and> measured_times k p \<and> measured_times k q)
    (poll_ready (logged measuring) code True True IQK_POLLS 0 a b)"
proof -
  obtain pa sa pb sb where ab: "a = (pa, sa)" "b = (pb, sb)" by (cases a; cases b) auto
  show ?thesis
    using assms unfolding ab IQK_POLLS_def numeral_eq_Suc pred_numeral_simps arith_simps poll_ready.simps fst_conv
    by (auto simp: path_ready_def result_registers intro!: yields_seq [OF device_poll_path] yields_ret)
qed

lemma device_collect:
  assumes "measured_times k p" "k < 2" "answer a = 0x01000400" "m = RTL8812A_IQK_TX_FAIL_MASK \<or> m = RTL8812A_IQK_RX_FAIL_MASK"
    and "yields (\<lambda>(c, _). c = sample_candidate) capture"
  shows "yields (measured_times (Suc k)) (collect_path (logged measuring) code True name a m l capture d p)"
proof -
  have ok: "(0x01000400 :: u32) AND m = 0" using assms(4) by (auto simp: RTL8812A_IQK_TX_FAIL_MASK_def RTL8812A_IQK_RX_FAIL_MASK_def)
  have "measured_times (Suc k) (push_candidate sample_candidate (push_attempt r f dl st raw c' l' (p\<lparr>os_failed := g\<rparr>)))"
    for r f dl st raw c' l' g
    using assms(1,2)
    by (auto simp: measured_times_def push_candidate_def push_attempt_def Let_def less_2_cases_iff sample_selected
        simp del: rtl8812au_iqk_select_candidate.simps)
  then show ?thesis
    using assms(1,2,3) ok unfolding collect_path_def
    by (auto simp: measured_times_def [of k] intro!: yields_seq [OF iqk_read] yields_seq [OF assms(5)] yields_ret)
qed

lemma device_capture:
  "answer rr = 0x01000400 \<Longrightarrow> yields (\<lambda>(c, _). c = sample_candidate) (runtime_iqk_capture_tx_candidate (logged measuring) pn ln lr rn rr)"
  "answer rr = 0x01000400 \<Longrightarrow> yields (\<lambda>(c, _). c = sample_candidate) (runtime_iqk_capture_rx_candidate (logged measuring) ln lr rn rr)"
proof -
  have raw: "cd_x_field (rtl8812au_runtime_iqk_raw_candidate_report 0x01000400 0x01000400) = 0x100"
    "cd_y_field (rtl8812au_runtime_iqk_raw_candidate_report 0x01000400 0x01000400) = 0x100"
    by (simp_all add: rtl8812au_runtime_iqk_raw_candidate_report_def Let_def bb_masked_field_def
        RTL8812A_IQK_RESULT_FIELD_MASK_def trailing_zeros_def upt_rec)
  have nz: "iqc_x (rtl8812au_runtime_iqk_iqc_value 0x100 0x100) \<noteq> 0"
    by (simp add: rtl8812au_runtime_iqk_iqc_value_def)
  show "answer rr = 0x01000400 \<Longrightarrow> yields (\<lambda>(c, _). c = sample_candidate) (runtime_iqk_capture_tx_candidate (logged measuring) pn ln lr rn rr)"
    "answer rr = 0x01000400 \<Longrightarrow> yields (\<lambda>(c, _). c = sample_candidate) (runtime_iqk_capture_rx_candidate (logged measuring) ln lr rn rr)"
    unfolding runtime_iqk_capture_tx_candidate_def runtime_iqk_capture_rx_candidate_def
    by (auto simp: raw nz sample_candidate_def Let_def intro!: yields_after_do yields_seq [OF iqk_read] yields_ret device_steps)
qed

lemma device_tx_round:
  assumes "measured_times k (fst paths)" "measured_times k (snd paths)" "k < 2"
  shows "yields (\<lambda>(p, q). measured_times (Suc k) p \<and> measured_times (Suc k) q) (tx_round (logged measuring) paths)"
proof -
  have delay: "measured_times k (note_delay_count d p) = measured_times k p" for d p
    by (simp add: measured_times_def note_delay_count_def)
  show ?thesis
    unfolding tx_round_def Let_def
    by (rule yields_after_do, intro device_steps, rule yields_seq [OF device_poll [where k = k]])
      (use assms in \<open>auto simp: RTL8812A_IQK_READY_POLL_LIMIT_def delay result_registers
         intro!: yields_seq [OF device_collect [where k = k]] device_capture yields_ret\<close>)
qed


lemma device_rx_round:
  assumes "measured_times k (fst paths)" "measured_times k (snd paths)" "k < 2"
  shows "yields (\<lambda>(p, q). measured_times (Suc k) p \<and> measured_times (Suc k) q) (rx_round (logged measuring) (Some ta) (Some tb) rfe paths)"
proof -
  have delay: "measured_times k (note_delay_count d p) = measured_times k p" for d p
    by (simp add: measured_times_def note_delay_count_def)
  have trigger: "ends (runtime_iqk_trigger_rx_path (logged measuring) tx mn mr ln lr v)" for tx mn mr ln lr v
    unfolding runtime_iqk_trigger_rx_path_def by (intro device_steps)
  have "yields (\<lambda>(d, (p, _), (q, _)). d = 0 \<and> measured_times k p \<and> measured_times k q)
      (poll_ready (logged measuring) RX_FAILED (Some ta \<noteq> None) (Some tb \<noteq> None) IQK_POLLS 0 (fst paths, None) (snd paths, None))"
    using device_poll [where k = k and a = "(fst paths, None)" and b = "(snd paths, None)"] assms by simp
  then show ?thesis
    unfolding rx_round_def Let_def option.case
    by (intro yields_after_do trigger, elim yields_seq)
      (use assms in \<open>auto simp: RTL8812A_IQK_READY_POLL_LIMIT_def delay result_registers
         intro!: yields_seq [OF device_collect [where k = k]] device_capture yields_ret\<close>)
qed

lemma measured_attempts:
  "measured_times (Suc 0) p \<Longrightarrow> path_attempts p = 1 \<and> \<not> os_finished p \<and> length (os_candidates p) = 1" "measured_times 2 p \<Longrightarrow> os_finished p"
  by (simp_all add: measured_times_def path_attempts_def u8_or_max_def sat_add_def)

lemma few_attempts: "\<not> RTL8812A_IQK_MAX_ATTEMPTS \<le> 1" "\<not> RTL8812A_IQK_MAX_RX_CANDIDATES \<le> Suc 0"
  by (simp_all add: RTL8812A_IQK_MAX_ATTEMPTS_def RTL8812A_IQK_MAX_RX_CANDIDATES_def word_le_nat_alt)

lemma measured_none: "measured_times 0 path_state_default" "\<not> os_finished path_state_default"
  by (simp_all add: measured_times_def path_state_default_def)

lemma device_tx_rounds:
  "yields (\<lambda>(p, q). measured_times 2 p \<and> measured_times 2 q) (tx_rounds (logged measuring) IQK_ROUNDS (path_state_default, path_state_default))"
proof -
  have first: "yields (\<lambda>(p, q). measured_times 1 p \<and> measured_times 1 q) (tx_round (logged measuring) (path_state_default, path_state_default))"
    using device_tx_round [of 0] measured_none(1) by simp
  have second: "yields (\<lambda>(p, q). measured_times 2 p \<and> measured_times 2 q) (tx_round (logged measuring) (p, q))"
    if "measured_times 1 p" "measured_times 1 q" for p q
    using device_tx_round [of 1 "(p, q)"] that by (simp add: numeral_2_eq_2)
  have nine: "9 = Suc 8" by simp
  have later: "yields (\<lambda>(p, q). measured_times 2 p \<and> measured_times 2 q) (tx_rounds (logged measuring) 9 (p, q))"
    if "measured_times (Suc 0) p" "measured_times (Suc 0) q" for p q
    unfolding nine tx_rounds.simps(2) using that measured_attempts(1) [of p]
    by (auto simp: measured_attempts intro!: yields_seq [OF second] yields_ret)
  have rounds: "IQK_ROUNDS = Suc 9" by (simp add: IQK_ROUNDS_def)
  show ?thesis
    unfolding rounds tx_rounds.simps(2) [of _ 9]
    by (auto simp: measured_none measured_attempts few_attempts simp del: tx_rounds.simps intro!: yields_seq [OF first] later)
qed

lemma device_rx_rounds:
  "yields (\<lambda>(p, q). measured_times 2 p \<and> measured_times 2 q)
     (rx_rounds (logged measuring) (Some ta) (Some tb) rfe IQK_ROUNDS (path_state_default, path_state_default))"
proof -
  have first: "yields (\<lambda>(p, q). measured_times 1 p \<and> measured_times 1 q)
      (rx_round (logged measuring) (Some ta) (Some tb) rfe (path_state_default, path_state_default))"
    using device_rx_round [of 0] measured_none(1) by simp
  have second: "yields (\<lambda>(p, q). measured_times 2 p \<and> measured_times 2 q) (rx_round (logged measuring) (Some ta) (Some tb) rfe (p, q))"
    if "measured_times 1 p" "measured_times 1 q" for p q
    using device_rx_round [of 1 "(p, q)"] that by (simp add: numeral_2_eq_2)
  have nine: "9 = Suc 8" by simp
  have later: "yields (\<lambda>(p, q). measured_times 2 p \<and> measured_times 2 q) (rx_rounds (logged measuring) (Some ta) (Some tb) rfe 9 (p, q))"
    if "measured_times (Suc 0) p" "measured_times (Suc 0) q" for p q
    unfolding nine rx_rounds.simps(2) using that measured_attempts(1) [of p]
    by (auto simp: measured_attempts intro!: yields_seq [OF second] yields_ret)
  have rounds: "IQK_ROUNDS = Suc 9" by (simp add: IQK_ROUNDS_def)
  show ?thesis
    unfolding rounds rx_rounds.simps(2) [of _ _ _ _ 9]
    by (auto simp: measured_none measured_attempts few_attempts simp del: rx_rounds.simps intro!: yields_seq [OF first] later)
qed


section \<open>The stages\<close>

definition stage_done :: "iqk_stage \<Rightarrow> bool" where
  "stage_done st \<longleftrightarrow> stg_status st = ''success'' \<and> rtl8812au_runtime_iqk_stage_success_iqc st = Some sample_candidate"

lemma stage_of_path: "measured_times 2 p \<Longrightarrow> stage_done (into_stage_report nm f plan p)"
  by (simp add: measured_times_def stage_done_def into_stage_report_def rtl8812au_runtime_iqk_stage_success_iqc_def)

lemma stage_done_success: "stage_done st \<Longrightarrow> rtl8812au_runtime_iqk_stage_success_iqc st = Some sample_candidate"
  by (simp add: stage_done_def)

lemma device_tx_oneshot:
  "yields (\<lambda>(a, b). stage_done a \<and> stage_done b) (run_rtl8812au_runtime_iqk_tx_oneshot (logged measuring))"
  unfolding run_rtl8812au_runtime_iqk_tx_oneshot_def
  by (rule yields_seq [OF device_tx_rounds]) (auto intro!: yields_ret stage_of_path)

lemma device_rx_oneshot:
  assumes "stage_done ta" "stage_done tb"
  shows "yields (\<lambda>(a, b). stage_done a \<and> stage_done b) (run_rtl8812au_runtime_iqk_rx_oneshot (logged measuring) ta tb rfe)"
proof -
  have prepare: "ends (runtime_iqk_prepare_rx_oneshot (logged measuring) True True rfe)"
    unfolding runtime_iqk_prepare_rx_oneshot_def runtime_iqk_prepare_rx_path_def Let_def if_True
    by (intro device_steps)
  have lok: "ends (runtime_iqk_load_lok (logged measuring) RfA)" "ends (runtime_iqk_load_lok (logged measuring) RfB)"
    unfolding runtime_iqk_load_lok_def Let_def by (intro device_steps)+
  show ?thesis
    unfolding run_rtl8812au_runtime_iqk_rx_oneshot_def Let_def stage_done_success [OF assms(1)] stage_done_success [OF assms(2)]
    by (auto intro!: yields_after_do yields_seq [OF device_rx_rounds] yields_ret stage_of_path prepare lok device_steps)
qed

lemma ends_each_where: "(\<And>x a. x \<in> set xs \<Longrightarrow> ends (f x a)) \<Longrightarrow> ends (for_each xs f a)"
  by (induction xs arbitrary: a) (auto intro: device_steps)

lemma device_setup: "ends (apply_rtl8812au_runtime_iqk_setup_plan (logged measuring) (rtl8812au_runtime_iqk_setup_plan band rfe e5 e2))"
proof -
  have each_step: "ends (apply_setup_write (logged measuring) w n)" if "\<And>ph p nm off oh v vh r. w \<noteq> SetupRf ph RfBoth nm off oh v vh r" for w n
  proof (cases w)
    case (SetupRf ph p nm off oh v vh r)
    then show ?thesis using that by (cases p) (auto intro!: device_steps)
  qed (auto simp: Let_def intro!: device_steps)
  have "list_all (\<lambda>w. \<forall>ph p nm off oh v vh r. w \<noteq> SetupRf ph RfBoth nm off oh v vh r) (rtl8812au_runtime_iqk_setup_plan band rfe e5 e2)"
    by (simp add: rtl8812au_runtime_iqk_setup_plan_def iqk_mac_afe_setup_def iqk_rf_tx_setup_def iqk_bb_setup_def Let_def
        rtl8812au_runtime_iqk_setup_write8_plan_def rtl8812au_runtime_iqk_setup_write32_plan_def
        rtl8812au_runtime_iqk_setup_masked_bb_plan_def rtl8812au_runtime_iqk_setup_rf_plan_def)
  then show ?thesis
    unfolding apply_rtl8812au_runtime_iqk_setup_plan_def by (intro ends_each_where each_step) (auto simp: list_all_iff)
qed

lemma device_stages:
  "yields (\<lambda>(ta, ra, tb, rb). stage_done ta \<and> stage_done ra \<and> stage_done tb \<and> stage_done rb) (iqk_stages (logged measuring) channel rfe)"
  unfolding iqk_stages_def
  by (rule yields_after_do [OF device_setup], rule yields_seq [OF device_tx_oneshot])
    (auto intro!: yields_seq [OF device_rx_oneshot] yields_ret)

section \<open>Backup and restore\<close>

lemma device_group [device_steps]:
  "ends (rtl8812au_iqk_read32_group (logged measuring) rs)" "ends (rtl8812au_iqk_rf_backup_reads (logged measuring) RfA)"
  "ends (rtl8812au_iqk_rf_backup_reads (logged measuring) RfB)"
  unfolding rtl8812au_iqk_read32_group_def rtl8812au_iqk_rf_backup_reads_def by (intro device_steps)+

definition zeros_saved :: "iqk_backup \<Rightarrow> bool" where
  "zeros_saved b \<longleftrightarrow> rd_value (bk_hssi_read_register b) = 0 \<and> rd_value (bk_page_select_register b) = 0 \<and>
     rd_value (bk_tx_pause_register b) = 0"

lemma device_zeros:
  "answer REG_HSSI_READ_JAGUAR = 0" "answer REG_AGC_TABLE_JAGUAR = 0" "REG_TXPAUSE \<noteq> REG_IQK_RESULT_A_D00" "REG_TXPAUSE \<noteq> REG_IQK_RESULT_B_D40"
  by (simp_all add: answer_def REG_HSSI_READ_JAGUAR_def REG_AGC_TABLE_JAGUAR_def REG_TXPAUSE_def REG_IQK_RESULT_A_D00_def
      REG_IQK_RESULT_B_D40_def)

lemma device_backup: "yields zeros_saved (run_rtl8812au_runtime_iqk_backup (logged measuring))"
  unfolding run_rtl8812au_runtime_iqk_backup_def
  by (rule yields_seq [OF yields_map_err [OF device_reads(1)]], rule yields_seq [OF yields_map_err [OF device_reads(1)]],
      rule yields_seq [OF yields_map_err [OF device_reads(2)]], (rule device_zeros)+)
    (auto simp: zeros_saved_def register_read_report_def device_zeros intro!: yields_after yields_after_do yields_ret device_steps)

lemma device_noting: "ends m \<Longrightarrow> yields (\<lambda>(ok, fs'). fs' = fs) (noting m d fs)"
  unfolding noting_def ends_def by (auto intro!: yields_seq [OF yields_as_value] yields_ret)

lemma device_failures_each:
  assumes "\<And>x n fs. yields (\<lambda>(n, fs'). fs' = fs) (f x (n, fs))"
  shows "yields (\<lambda>(n, fs'). fs' = fs) (for_each xs f (n, fs))"
proof (induction xs arbitrary: n)
  case Nil
  show ?case by (simp add: yields_ret)
next
  case (Cons x xs)
  show ?case unfolding for_each.simps by (rule yields_seq [OF assms]) (use Cons.IH in \<open>auto simp: case_prod_beta\<close>)
qed

lemma device_restore_groups:
  "yields (\<lambda>fs'. fs' = fs) (restore_page (logged measuring) page fs)"
  "yields (\<lambda>(n, fs'). fs' = fs) (restore_runtime_iqk_register_group (logged measuring) g bs fs)"
  "yields (\<lambda>(n, fs'). fs' = fs) (restore_runtime_iqk_rf_group (logged measuring) RfA rs fs)"
  "yields (\<lambda>(n, fs'). fs' = fs) (restore_runtime_iqk_rf_group (logged measuring) RfB rs fs)"
  unfolding restore_page_def restore_runtime_iqk_register_group_def restore_runtime_iqk_rf_group_def
  by (auto intro!: device_failures_each yields_seq [OF device_noting] yields_ret device_steps)

lemma device_checked:
  "ends w \<Longrightarrow> yields (\<lambda>v. v = rd_value b) r \<Longrightarrow> yields (\<lambda>(_, fs'). fs' = fs) (restore_checked w r b nm n fs)"
  unfolding restore_checked_def ends_def
  by (auto simp: Let_def intro!: yields_seq [OF yields_as_value] yields_ret)

lemma device_restore:
  assumes "zeros_saved b"
  shows "yields (\<lambda>c. cl_status c = ''restored'') (restore_rtl8812au_runtime_iqk_backup (logged measuring) b)"
  using assms unfolding restore_rtl8812au_runtime_iqk_backup_def Let_def zeros_saved_def
  by (auto simp: device_zeros intro!: yields_after [OF device_steps(4)] yields_seq [OF device_restore_groups(1)]
      yields_seq [OF device_restore_groups(2)] yields_seq [OF device_restore_groups(3)] yields_seq [OF device_restore_groups(4)]
      yields_seq [OF device_checked] yields_seq [OF device_reads(2)] yields_ret yields_mono [OF device_reads(1)] device_steps)


section \<open>The calibration\<close>

lemma fill_plans:
  "path \<noteq> RfBoth \<Longrightarrow> \<exists>w ws. rtl8812au_iqk_tx_fill_iqc_plan path x y d = Inr (w # ws)"
  "path \<noteq> RfBoth \<Longrightarrow> \<exists>w ws. rtl8812au_iqk_rx_fill_iqc_plan path x y = Inr (w # ws)"
  by (simp_all add: rtl8812au_iqk_tx_fill_iqc_plan_def rtl8812au_iqk_rx_fill_iqc_plan_def Let_def split: prod.split)

lemma device_fill:
  assumes "stage_done tx" "stage_done rx" "path \<noteq> RfBoth"
  shows "yields (\<lambda>(n, tx', rx'). 0 < n \<and> stage_done tx' \<and> stage_done rx') (apply_rtl8812au_runtime_iqk_fill (logged measuring) path tx rx)"
proof -
  have keep: "stage_done (st\<lparr>stg_fill_plan := plan\<rparr>) = stage_done st" for st plan
    by (simp add: stage_done_def rtl8812au_runtime_iqk_stage_success_iqc_def)
  have each: "ends (for_each ws (\<lambda>w _. apply_runtime_iqk_masked_bb_write (logged measuring) w code) ())" for ws code
    unfolding apply_runtime_iqk_masked_bb_write_def by (intro device_steps)
  obtain w ws v vs where plans:
    "rtl8812au_iqk_tx_fill_iqc_plan path (iqc_x (rtl8812au_runtime_iqk_stage_iqc_or_fallback tx)) (iqc_y (rtl8812au_runtime_iqk_stage_iqc_or_fallback tx)) False = Inr (w # ws)"
    "rtl8812au_iqk_rx_fill_iqc_plan path (iqc_x (rtl8812au_runtime_iqk_stage_iqc_or_fallback rx)) (iqc_y (rtl8812au_runtime_iqk_stage_iqc_or_fallback rx)) = Inr (v # vs)"
    using fill_plans [OF assms(3)] by meson
  show ?thesis
    unfolding apply_rtl8812au_runtime_iqk_fill_def Let_def plans and_then_of_result
    by (rule yields_after_do [OF each]) (simp add: yields_ret keep assms)
qed

lemma device_finish:
  assumes "stage_done ta" "stage_done ra" "stage_done tb" "stage_done rb" "cl_status cleanup = ''restored''"
  shows "yields (\<lambda>iqk. iq_status iqk = ''completed'' \<and> iq_cleanup_status iqk = ''restored'' \<and> iq_selected_iqc_fill_applied iqk)
    (iqk_finish (logged measuring) c rs backup pre cleanup (ta, ra, tb, rb))"
proof -
  have fill: "cl_status cleanup = ''restored'' \<and> rtl8812au_runtime_iqk_path_can_fill ta ra \<and> rtl8812au_runtime_iqk_path_can_fill tb rb"
    using assms by (simp add: rtl8812au_runtime_iqk_path_can_fill_def stage_done_success)
  have read: "ends (or_default (rtl8812au_iqk_read32_group (logged measuring) rs))" for rs
    unfolding or_default_def ends_def
    by (rule yields_seq [OF yields_as_value [OF device_group(1) [unfolded ends_def]]]) (simp add: yields_ret)
  have both: "yields (\<lambda>(n, ta, ra, tb, rb). 0 < n \<and> stage_done ta \<and> stage_done ra \<and> stage_done tb \<and> stage_done rb)
      (and_then (apply_rtl8812au_runtime_iqk_fill (logged measuring) RfA ta ra) (\<lambda>(fill_a, tx_a, rx_a).
       and_then (apply_rtl8812au_runtime_iqk_fill (logged measuring) RfB tb rb) (\<lambda>(fill_b, tx_b, rx_b).
       ret (fill_a + fill_b, tx_a, rx_a, tx_b, rx_b))))"
    by (rule yields_seq [OF device_fill [OF assms(1,2)]], simp, clarify, rule yields_seq [OF device_fill [OF assms(3,4)]], simp, clarify,
        rule yields_ret) simp
  show ?thesis
    unfolding iqk_finish_def prod.case Let_def if_P [OF fill]
    by (rule yields_seq [OF both], clarify, rule yields_after [OF read], rule yields_after [OF read], rule yields_after [OF device_steps(4)],
        rule yields_ret) (simp add: rtl8812au_runtime_iqk_report_status_def stage_done_def assms(5))
qed

lemma device_sweep:
  "yields (\<lambda>iqk. iq_status iqk = ''completed'' \<and> iq_cleanup_status iqk = ''restored'' \<and> iq_selected_iqc_fill_applied iqk)
     (run_rtl8812au_runtime_iqk_calibration_sweep (logged measuring) channel rfe)"
proof -
  have pre: "ends (rtl8812au_runtime_iqk_pre_sweep_state (logged measuring) backup)" for backup
    unfolding rtl8812au_runtime_iqk_pre_sweep_state_def by (intro device_steps)
  show ?thesis
    unfolding run_rtl8812au_runtime_iqk_calibration_sweep_def
    by (rule yields_after [OF device_steps(4)], rule yields_after [OF device_group(1)], rule yields_seq [OF device_backup],
        rule yields_after [OF pre], rule yields_seq [OF yields_as_value [OF device_stages]], rule yields_seq [OF device_restore], assumption)
      (auto intro!: device_finish)
qed

lemma device_sweeps:
  "yields (\<lambda>iqk. iq_status iqk = ''completed'' \<and> iq_cleanup_status iqk = ''restored'' \<and> iq_selected_iqc_fill_applied iqk)
     (run_rtl8812au_runtime_iqk_calibration (logged measuring) channel rfe)"
proof -
  have sweeps: "map of_nat [1..<Suc (unat RTL8812A_IQK_MAX_SWEEPS)] = (1 :: u8) # [2, 3]"
    by (simp add: RTL8812A_IQK_MAX_SWEEPS_def upt_rec)
  show ?thesis
    unfolding run_rtl8812au_runtime_iqk_calibration_def sweeps iqk_sweeps.simps(2) Let_def
    by (rule yields_after [OF device_steps(4)], rule yields_seq [OF device_sweep], rule yields_after [OF device_steps(4)])
      (simp add: yields_ret)
qed

lemma device_calibrates:
  "yields (\<lambda>_. True) (apply_production_runtime_tx_calibration_profile (logged measuring) Rtl8812aRuntimeIqk ch bw rfe)"
  unfolding apply_production_runtime_tx_calibration_profile_def run_rtl8812au_tx_calibration_profile_def Let_def
    tx_calibration_profile.case
  by (rule yields_seq [where P = "\<lambda>r. \<exists>report. r = Some report \<and>
        validate_production_runtime_tx_calibration_profile_ready_for_tx report = Inr ()"], rule yields_seq [OF device_sweeps], rule yields_ret)
    (auto simp: validate_production_runtime_tx_calibration_profile_ready_for_tx_def and_do_def and_then_of_result yields_ret)


end
