(* ===== verification/Iqk_Restore.thy ===== *)
theory Iqk_Restore
  imports Iqk_Device Init_Laws
begin

text \<open>
  The registers that the I/Q calibration changes are put back: whatever the sweep meets after the
  backup, an error included, the restore runs, and when it reports no failure it has written every
  saved value back.
\<close>

section \<open>Outcomes of operations\<close>

text \<open>Sequencing where the writes of a failing step count as well.\<close>

lemma as_value_Some: "as_value m s = Some (r, s') \<longleftrightarrow> (\<exists>x. r = Inr x \<and> m s = Some (x, s'))"
  by (cases s') (auto simp: as_value_def split: option.split)

lemma performs_outcome_bind:
  assumes "performs trace (as_value m) Q" "\<And>e u. Q (Inl e) u \<Longrightarrow> R (Inl e) u"
    and "\<And>x u. Q (Inr x) u \<Longrightarrow> performs trace (as_value (f x)) (\<lambda>r v. R r (u @ v))"
  shows "performs trace (as_value (and_then m f)) R"
  unfolding performs_def
proof (intro allI impI)
  fix s r s' assume "as_value (and_then m f) s = Some (Inr r, s')"
  then have "and_then m f s = Some (r, s')" by (simp add: as_value_Some)
  then consider e where "m s = Some (Inl e, s')" "r = Inl e" | x t where "m s = Some (Inr x, t)" "f x t = Some (r, s')"
    by (auto simp: and_then_eq_Some_iff)
  then show "\<exists>w. trace (fst s') = trace (fst s) @ w \<and> R r (written w)"
  proof cases
    case 1
    then have "as_value m s = Some (Inr (Inl e), s')" by (simp add: as_value_Some)
    from performsD [OF assms(1) this] show ?thesis using assms(2) 1 by auto
  next
    case (2 x t)
    then have "as_value m s = Some (Inr (Inr x), t)" "as_value (f x) t = Some (Inr r, s')" by (simp_all add: as_value_Some)
    from performsD [OF assms(1) this(1)] obtain u where u: "trace (fst t) = trace (fst s) @ u" "Q (Inr x) (written u)" by blast
    from performsD [OF assms(3) [OF u(2)] \<open>as_value (f x) t = _\<close>] obtain v
      where "trace (fst s') = trace (fst t) @ v" "R r (written u @ written v)" by blast
    then show ?thesis using u(1) by (intro exI [of _ "u @ v"]) simp
  qed
qed

lemma performs_outcome_success: "infallible m \<Longrightarrow> performs trace m Q \<Longrightarrow> performs trace (as_value m) (\<lambda>r w. \<exists>x. r = Inr x \<and> Q x w)"
  unfolding performs_def infallible_def
proof (intro allI impI)
  fix s r s'
  assume inf: "\<forall>s e s'. m s \<noteq> Some (Inl e, s')" and Q: "\<forall>s x s'. m s = Some (Inr x, s') \<longrightarrow> (\<exists>w. trace (fst s') = trace (fst s) @ w \<and> Q x (written w))"
    and "as_value m s = Some (Inr r, s')"
  then have run: "m s = Some (r, s')" by (simp add: as_value_Some)
  then obtain x where "r = Inr x" using inf by (cases r) blast+
  with run Q show "\<exists>w. trace (fst s') = trace (fst s) @ w \<and> (\<exists>x. r = Inr x \<and> Q x (written w))" by blast
qed

text \<open>\<open>touches A trace m\<close>: whatever comes of \<open>m\<close>, its writes go to addresses in \<open>A\<close>.\<close>

definition touches :: "u16 set \<Rightarrow> ('t \<Rightarrow> reg_access list) \<Rightarrow> ('t, 'a) reg_op \<Rightarrow> bool" where
  "touches A trace m \<longleftrightarrow> performs trace (as_value m) (\<lambda>_ w. \<forall>x \<in> set w. fst x \<in> A)"

lemma touches_iff:
  "touches A trace m \<longleftrightarrow>
     (\<forall>s r s'. m s = Some (r, s') \<longrightarrow> (\<exists>w. trace (fst s') = trace (fst s) @ w \<and> (\<forall>x \<in> set (written w). fst x \<in> A)))"
  unfolding touches_def performs_def as_value_Some by blast

lemma touchesD:
  "touches A trace m \<Longrightarrow> m s = Some (r, s') \<Longrightarrow> \<exists>w. trace (fst s') = trace (fst s) @ w \<and> (\<forall>x \<in> set (written w). fst x \<in> A)"
  unfolding touches_iff by blast

named_theorems touches_intros \<open>operations whose writes go to given addresses\<close>

lemma touches_and_then [touches_intros]: "touches A trace m \<Longrightarrow> (\<And>x. touches A trace (f x)) \<Longrightarrow> touches A trace (and_then m f)"
  unfolding touches_def by (erule performs_outcome_bind, assumption, rule performs_mono, assumption) auto

lemma touches_and_do [touches_intros]: "touches A trace m \<Longrightarrow> touches A trace n \<Longrightarrow> touches A trace (and_do m n)"
  unfolding and_do_def by (rule touches_and_then)

lemma touches_pure [touches_intros]:
  "touches A trace (ret x)" "touches A trace (fail e)" "touches A trace (of_result r)" "touches A trace current_counters"
  by (auto simp: touches_def performs_def as_value_def ret_def fail_def of_result_def current_counters_def intro: exI [of _ "[]"])

lemma touches_cases [touches_intros]:
  "touches A trace m \<Longrightarrow> touches A trace n \<Longrightarrow> touches A trace (if b then m else n)"
  "touches A trace (g y) \<Longrightarrow> touches A trace (let x = y in g x)"
  "(\<And>a b. touches A trace (h a b)) \<Longrightarrow> touches A trace (case_prod h p)"
  "(\<And>a b. touches A trace (l a b z)) \<Longrightarrow> touches A trace (case_prod l p z)"
  "touches A trace n \<Longrightarrow> (\<And>x. touches A trace (k x)) \<Longrightarrow> touches A trace (case_option n k v)"
  by (auto split: prod.split option.split)

lemma touches_as_value [touches_intros]: "touches A trace m \<Longrightarrow> touches A trace (as_value m)"
  unfolding touches_iff as_value_Some by blast

lemma touches_map_err [touches_intros]: "touches A trace m \<Longrightarrow> touches A trace (op_map_err f m)"
  unfolding touches_iff
proof (intro allI impI)
  fix s r s' assume all: "\<forall>s r s'. m s = Some (r, s') \<longrightarrow> (\<exists>w. trace (fst s') = trace (fst s) @ w \<and> (\<forall>x \<in> set (written w). fst x \<in> A))"
    and "op_map_err f m s = Some (r, s')"
  then obtain q where "m s = Some (q, s')" by (auto simp: op_map_err_def split: option.splits prod.splits)
  with all show "\<exists>w. trace (fst s') = trace (fst s) @ w \<and> (\<forall>x \<in> set (written w). fst x \<in> A)" by blast
qed

lemma touches_for_each [touches_intros]: "(\<And>x a. touches A trace (f x a)) \<Longrightarrow> touches A trace (for_each xs f a)"
  by (induction xs arbitrary: a) (auto intro: touches_intros)

text \<open>The writes of a restore, the values being those of the backup.\<close>

definition page_write :: "bool \<Rightarrow> (u16 \<times> bytes) list \<Rightarrow> bool" where
  "page_write page_c1 w \<longleftrightarrow> (\<exists>v. w = [(REG_AGC_TABLE_JAGUAR, le32 v)] \<and> bit v 31 = page_c1)"

definition register_writes :: "register_read_report list \<Rightarrow> (u16 \<times> bytes) list" where
  "register_writes = map (\<lambda>r. (rd_address r, le32 (rd_value r)))"

definition rf_writes :: "rf_path \<Rightarrow> rf_serial_read_report list \<Rightarrow> (u16 \<times> bytes) list" where
  "rf_writes path = map (\<lambda>r. (rf_path_register path,
     le32 (encode_rf_serial_write (rf_rf_offset r) (rf_value r AND RF_REGISTER_OFFSET_MASK))))"

definition restoring_writes :: "iqk_backup \<Rightarrow> (u16 \<times> bytes) list \<Rightarrow> bool" where
  "restoring_writes backup w \<longleftrightarrow>
     (\<exists>p q r s. page_write False p \<and> page_write False q \<and> page_write True r \<and> page_write False s \<and>
        w = p @ rf_writes RfA (bk_rf_backup_path_a backup) @ rf_writes RfB (bk_rf_backup_path_b backup) @
          q @ register_writes (bk_afe_backup backup) @ r @ register_writes (bk_page_c1_latches backup) @
          s @ register_writes (bk_macbb_backup backup) @
          [(REG_HSSI_READ_JAGUAR, le32 (rd_value (bk_hssi_read_register backup))),
           (REG_AGC_TABLE_JAGUAR, le32 (rd_value (bk_page_select_register backup))),
           (REG_TXPAUSE, [ucast (rd_value (bk_tx_pause_register backup))])])"

context observed_device
begin

lemma touches_accounted: "accounted trace m \<Longrightarrow> touches UNIV trace m"
  unfolding touches_iff accounted_def by blast

lemma touches_sleep [touches_intros]: "touches A trace (sleep env d)"
  by (auto simp: touches_iff sleep_def sleep_traced)

lemma touches_counted_read:
  assumes "\<And>dev r dev'. rd dev = (r, dev') \<Longrightarrow> trace dev' = trace dev @ (if is_ok r then [RdReg a n] else [])"
  shows "touches A trace (counted_read env name phase rd)"
proof -
  note step = assms [of "fst s" "fst (rd (fst s))" "snd (rd (fst s))" for s, simplified]
  show ?thesis
    unfolding touches_iff
  proof (intro allI impI)
    fix s x s' assume "counted_read env name phase rd s = Some (x, s')"
    then show "\<exists>w. trace (fst s') = trace (fst s) @ w \<and> (\<forall>x \<in> set (written w). fst x \<in> A)"
      using step [of s] by (auto simp: counted_read_def split: prod.splits sum.splits)
  qed
qed

lemma touches_counted_write:
  assumes "\<And>dev r dev'. wr dev = (r, dev') \<Longrightarrow> trace dev' = trace dev @ (if is_ok r then [WrReg a d] else [])" "a \<in> A"
  shows "touches A trace (counted_write sh wr)"
proof -
  note step = assms(1) [of "fst s" "fst (wr (fst s))" "snd (wr (fst s))" for s, simplified]
  show ?thesis
    unfolding touches_iff
  proof (intro allI impI)
    fix s x s' assume "counted_write sh wr s = Some (x, s')"
    then show "\<exists>w. trace (fst s') = trace (fst s) @ w \<and> (\<forall>x \<in> set (written w). fst x \<in> A)"
      using step [of s] assms(2) by (auto simp: counted_write_def split: prod.splits sum.splits)
  qed
qed

lemma touches_counted [touches_intros]:
  "touches A trace (read8_with_counter env a name phase)" "touches A trace (read32_with_counter env a name phase)"
  "a \<in> A \<Longrightarrow> touches A trace (write8_with_counter env a v8 name phase)"
  "a \<in> A \<Longrightarrow> touches A trace (write32_with_counter env a v name phase)"
  unfolding read8_with_counter_def read32_with_counter_def write8_with_counter_def write32_with_counter_def
  by (rule touches_counted_read touches_counted_write, erule read_traced_at_width write_traced_at_width, assumption?)+

lemma touches_bb_set [touches_intros]: "a \<in> A \<Longrightarrow> touches A trace (bb_set_bb_reg env a m d name)"
  unfolding bb_set_bb_reg_def by (intro touches_intros)

lemma touches_page [touches_intros]: "REG_AGC_TABLE_JAGUAR \<in> A \<Longrightarrow> touches A trace (rtl8812au_iqk_select_page env page)"
  unfolding rtl8812au_iqk_select_page_def by (intro touches_intros)

lemma touches_rf_read [touches_intros]: "REG_HSSI_READ_JAGUAR \<in> A \<Longrightarrow> touches A trace (rf_serial_read_register env path off)"
  unfolding rf_serial_read_register_def by (intro touches_intros)

lemma touches_reads [touches_intros]:
  "touches A trace (runtime_iqk_read32 env name a code)" "touches A trace (rtl8812au_iqk_read32_group env rs)"
  "REG_HSSI_READ_JAGUAR \<in> A \<Longrightarrow> touches A trace (rtl8812au_iqk_rf_backup_reads env path)"
  unfolding runtime_iqk_read32_def rtl8812au_iqk_read32_group_def rtl8812au_iqk_rf_backup_reads_def
  by (intro touches_intros, assumption?)+


section \<open>The measurement\<close>

lemma touches_rf_write: "touches UNIV trace (rf_serial_write_single_path env path off v)"
  unfolding rf_serial_write_single_path_def by (intro touches_intros) simp_all

lemma touches_accesses:
  "touches UNIV trace (runtime_iqk_write32 env name a v code)" "touches UNIV trace (runtime_iqk_set_bb_reg env name a m d code)"
  "touches UNIV trace (runtime_iqk_rf_masked_write env path off m d code)"
  unfolding runtime_iqk_write32_def runtime_iqk_set_bb_reg_def runtime_iqk_rf_masked_write_def
  by (intro touches_intros touches_rf_write UNIV_I)+

lemma touches_run_all [touches_intros]: "list_all (touches A trace) ms \<Longrightarrow> touches A trace (run_all ms)"
  by (induction ms) (auto intro: touches_intros)

lemma touches_list [touches_intros]:
  "list_all (touches A trace) []" "touches A trace m \<Longrightarrow> list_all (touches A trace) ms \<Longrightarrow> list_all (touches A trace) (m # ms)"
  by simp_all

lemma touches_never [touches_intros]: "touches A trace never"
  by (simp add: touches_iff never_def)

lemma touches_poll: "touches A trace (poll_ready env code active_a active_b n delays a b)"
proof (induction n arbitrary: delays a b)
  case (Suc n)
  obtain pa sa pb sb where ab: "a = (pa, sa)" "b = (pb, sb)" by (cases a; cases b) auto
  show ?case unfolding ab poll_ready.simps poll_path_def by (intro touches_intros Suc.IH)
qed (simp add: touches_never)

lemma touches_collect:
  "touches UNIV trace (collect_path env code active name a m l (runtime_iqk_capture_tx_candidate env p ln lr rn r) delays st)"
  "touches UNIV trace (collect_path env code active name a m l (runtime_iqk_capture_rx_candidate env ln lr rn r) delays st)"
  unfolding collect_path_def runtime_iqk_capture_tx_candidate_def runtime_iqk_capture_rx_candidate_def
  by (intro touches_intros touches_accesses)+

lemma touches_tx_rounds: "touches UNIV trace (tx_rounds env n paths)"
proof (induction n arbitrary: paths)
  case (Suc n)
  have "touches UNIV trace (tx_round env paths)"
    unfolding tx_round_def by (intro touches_intros touches_accesses touches_poll touches_collect)
  then show ?case unfolding tx_rounds.simps by (intro touches_intros Suc.IH)
qed (simp add: touches_never)

lemma touches_rx_rounds: "touches UNIV trace (rx_rounds env ta tb rfe n paths)"
proof (induction n arbitrary: paths)
  case (Suc n)
  have "touches UNIV trace (rx_round env ta tb rfe paths)"
    unfolding rx_round_def runtime_iqk_trigger_rx_path_def
    by (intro touches_intros touches_accesses touches_poll touches_collect UNIV_I)
  then show ?case unfolding rx_rounds.simps by (intro touches_intros Suc.IH)
qed (simp add: touches_never)

lemma touches_setup: "touches UNIV trace (apply_rtl8812au_runtime_iqk_setup_plan env plan)"
proof -
  have "touches UNIV trace (apply_setup_write env w n)" for w n
    by (cases w; simp only: apply_setup_write.simps; intro touches_intros touches_rf_write UNIV_I)
  then show ?thesis unfolding apply_rtl8812au_runtime_iqk_setup_plan_def by (intro touches_intros)
qed

lemma touches_stages: "touches UNIV trace (iqk_stages env channel rfe)"
  unfolding iqk_stages_def run_rtl8812au_runtime_iqk_tx_oneshot_def run_rtl8812au_runtime_iqk_rx_oneshot_def
    runtime_iqk_load_lok_def runtime_iqk_prepare_rx_oneshot_def runtime_iqk_prepare_rx_path_def
  by (intro touches_intros touches_setup touches_tx_rounds touches_rx_rounds touches_accesses touches_rf_write UNIV_I)

section \<open>The restore\<close>

lemma performs_value:
  assumes "touches UNIV trace m" "performs trace m (\<lambda>_ w. Q w)"
  shows "performs trace (as_value m) (\<lambda>r w. \<forall>x. r = Inr x \<longrightarrow> Q w)"
  unfolding performs_def
proof (intro allI impI)
  fix s r s' assume "as_value m s = Some (Inr r, s')"
  then have run: "m s = Some (r, s')" by (simp add: as_value_Some)
  from touchesD [OF assms(1) this] obtain w where w: "trace (fst s') = trace (fst s) @ w" by blast
  show "\<exists>w. trace (fst s') = trace (fst s) @ w \<and> (\<forall>x. r = Inr x \<longrightarrow> Q (written w))"
  proof (cases r)
    case (Inr y)
    then show ?thesis using performsD [OF assms(2)] run by blast
  qed (use w in auto)
qed

lemma performs_noting:
  "touches UNIV trace m \<Longrightarrow> performs trace m (\<lambda>_ w. Q w) \<Longrightarrow>
     performs trace (noting m d fs) (\<lambda>(ok, fs') w. fs' = [] \<longrightarrow> fs = [] \<and> Q w)"
  unfolding noting_def
  by (rule performs_bind [OF performs_value], assumption, assumption, rule performs_mono [OF performs_ret]) (auto split: sum.splits)

lemma map_err_Inr: "map_err g r = Inr x \<longleftrightarrow> r = Inr x"
  by (cases r) auto

lemma performs_page: "performs trace (rtl8812au_iqk_select_page env page) (\<lambda>_ w. page_write page w)"
proof -
  have msk: "RTL8812A_IQK_PAGE_C1_SELECT_BIT \<noteq> - 1" "RTL8812A_IQK_PAGE_C1_SELECT_BIT \<noteq> 0" "trailing_zeros RTL8812A_IQK_PAGE_C1_SELECT_BIT = 31"
    by (simp_all add: RTL8812A_IQK_PAGE_C1_SELECT_BIT_def trailing_zeros_def upt_rec)
  have "bit ((v AND NOT RTL8812A_IQK_PAGE_C1_SELECT_BIT) OR (push_bit 31 (of_bool page) AND RTL8812A_IQK_PAGE_C1_SELECT_BIT)) 31 = page" for v :: u32
    by (simp add: bit_simps RTL8812A_IQK_PAGE_C1_SELECT_BIT_def)
  then have "performs trace (bb_set_bb_reg env REG_AGC_TABLE_JAGUAR RTL8812A_IQK_PAGE_C1_SELECT_BIT (of_bool page) name) (\<lambda>_ w. page_write page w)" for name
    unfolding bb_set_bb_reg_def if_not_P [OF msk(1)] if_not_P [OF msk(2)] Let_def msk(3)
    by (intro performs_silent [OF performs_counted(3)] performs_mono [OF performs_counted(6)]) (auto simp: page_write_def)
  moreover have "performs trace m Q \<Longrightarrow> performs trace (op_map_err f m) Q" for f and m :: "('t, unit) reg_op" and Q
    by (erule performs_refines) (auto simp: op_map_err_def map_err_Inr split: option.splits prod.splits)
  ultimately show ?thesis unfolding rtl8812au_iqk_select_page_def by blast
qed

lemma performs_restore_page: "performs trace (restore_page env page fs) (\<lambda>fs' w. fs' = [] \<longrightarrow> fs = [] \<and> page_write page w)"
  unfolding restore_page_def
  by (rule performs_bind [OF performs_noting [OF _ performs_page]], rule touches_page [OF UNIV_I])
    (auto intro!: performs_mono [OF performs_ret])

lemma performs_restore_each:
  fixes fs :: "string list" and k :: nat
  assumes "\<And>x k fs. performs trace (f x (k, fs)) (\<lambda>(k', fs') w. fs' = [] \<longrightarrow> fs = [] \<and> w = [g x])"
  shows "performs trace (for_each xs f (k, fs)) (\<lambda>(k', fs') w. fs' = [] \<longrightarrow> fs = [] \<and> w = map g xs)"
proof (induction xs arbitrary: k fs)
  case Nil
  show ?case by (auto intro!: performs_mono [OF performs_ret])
next
  case (Cons x xs)
  show ?case
    unfolding for_each.simps
  proof (rule performs_bind [OF assms])
    fix u and y :: "nat \<times> string list" assume step: "(case y of (k', fs') \<Rightarrow> \<lambda>w. fs' = [] \<longrightarrow> fs = [] \<and> w = [g x]) u"
    obtain k' fs' where y: "y = (k', fs')" by fastforce
    show "performs trace (for_each xs f y) (\<lambda>z v. (case z of (k', fs') \<Rightarrow> \<lambda>w. fs' = [] \<longrightarrow> fs = [] \<and> w = map g (x # xs)) (u @ v))"
      unfolding y by (rule performs_mono [OF Cons.IH [of k' fs']]) (use step y in auto)
  qed
qed

lemma performs_restore_group:
  "performs trace (restore_runtime_iqk_register_group env nm bs fs) (\<lambda>(k, fs') w. fs' = [] \<longrightarrow> fs = [] \<and> w = register_writes bs)"
  "path \<noteq> RfBoth \<Longrightarrow> performs trace (restore_runtime_iqk_rf_group env path rs fs) (\<lambda>(k, fs') w. fs' = [] \<longrightarrow> fs = [] \<and> w = rf_writes path rs)"
  unfolding restore_runtime_iqk_register_group_def restore_runtime_iqk_rf_group_def register_writes_def rf_writes_def
  by (rule performs_restore_each, simp only: prod.case,
      rule performs_bind [OF performs_noting [OF _ performs_counted(6)]] performs_bind [OF performs_noting [OF _ performs_rf_write]],
      rule touches_counted(4) [OF UNIV_I] touches_rf_write, assumption?,
      auto intro!: performs_mono [OF performs_ret])+

lemma performs_restore_checked:
  assumes "touches UNIV trace wr" "performs trace wr (\<lambda>_ w. w = [x])" "touches {} trace rd"
  shows "performs trace (restore_checked wr rd b nm n fs) (\<lambda>(k, fs') w. fs' = [] \<longrightarrow> fs = [] \<and> w = [x])"
proof -
  have second: "performs trace (as_value rd) (\<lambda>_ w. w = [])"
    using assms(3) unfolding touches_def
  proof (rule performs_mono)
    fix w :: "(u16 \<times> bytes) list" assume "\<forall>x \<in> set w. fst x \<in> {}"
    then show "w = []" by (cases w) auto
  qed
  show ?thesis
    unfolding restore_checked_def
    by (rule performs_bind [OF performs_value [OF assms(1,2)]])
      (auto simp: Let_def split: sum.split intro!: performs_mono [OF performs_ret] performs_silent [OF second])
qed


lemma performs_restore:
  "performs trace (restore_rtl8812au_runtime_iqk_backup env backup) (\<lambda>c w. cl_failures c = [] \<longrightarrow> restoring_writes backup w)"
  unfolding restore_rtl8812au_runtime_iqk_backup_def Let_def
  apply (rule performs_silent [OF performs_counters])
  apply (rule performs_bind [OF performs_restore_page])
  apply (rule performs_bind [OF performs_restore_group(2)], simp, clarify)
  apply (rule performs_bind [OF performs_restore_group(2)], simp, clarify)
  apply (rule performs_bind [OF performs_restore_page])
  apply (rule performs_bind [OF performs_restore_group(1)], clarify)
  apply (rule performs_bind [OF performs_restore_page])
  apply (rule performs_bind [OF performs_restore_group(1)], clarify)
  apply (rule performs_bind [OF performs_restore_page])
  apply (rule performs_bind [OF performs_restore_group(1)], clarify)
  apply (rule performs_bind [OF performs_restore_checked [OF touches_counted(4) [OF UNIV_I] performs_counted(6) touches_counted(2)]], clarify)
  apply (rule performs_bind [OF performs_restore_checked [OF touches_counted(4) [OF UNIV_I] performs_counted(6) touches_counted(2)]], clarify)
  apply (rule performs_bind [OF performs_restore_checked [OF touches_counted(3) [OF UNIV_I] performs_counted(4)]])
   apply (intro touches_intros)
  apply (clarify, rule performs_silent [OF performs_counters])
  apply (rule performs_mono [OF performs_ret])
  apply (auto simp: restoring_writes_def)
  done

end

section \<open>The sweep\<close>

text \<open>What is saved: the registers of the three lists and the RF registers of both paths.\<close>

definition saved_all :: "iqk_backup \<Rightarrow> bool" where
  "saved_all b \<longleftrightarrow>
     map rd_address (bk_macbb_backup b) = map snd RTL8812A_IQK_MACBB_BACKUP_REGISTERS \<and>
     map rd_address (bk_page_c1_latches b) = map snd RTL8812A_IQK_PAGE_C1_LATCH_REGISTERS \<and>
     map rd_address (bk_afe_backup b) = map snd RTL8812A_IQK_AFE_BACKUP_REGISTERS \<and>
     map rf_rf_offset (bk_rf_backup_path_a b) = RTL8812A_IQK_RF_BACKUP_OFFSETS \<and>
     map rf_rf_offset (bk_rf_backup_path_b b) = RTL8812A_IQK_RF_BACKUP_OFFSETS"

lemma gives_appended:
  assumes "\<And>x xs. gives (f x xs) (\<lambda>ys. map g ys = map g xs @ [h x])"
  shows "gives (for_each xs f ys) (\<lambda>zs. map g zs = map g ys @ map h xs)"
proof (induction xs arbitrary: ys)
  case Nil
  show ?case by (simp add: gives_ret)
next
  case (Cons x xs)
  show ?case
    unfolding for_each.simps
  proof (rule gives_and_then [OF assms])
    fix zs assume "map g zs = map g ys @ [h x]"
    then show "gives (for_each xs f zs) (\<lambda>z. map g z = map g ys @ map h (x # xs))"
      using Cons.IH [of zs] by simp
  qed
qed

lemma gives_groups:
  "gives (rtl8812au_iqk_read32_group env rs) (\<lambda>xs. map rd_address xs = map snd rs)"
  "gives (rtl8812au_iqk_rf_backup_reads env path) (\<lambda>xs. map rf_rf_offset xs = RTL8812A_IQK_RF_BACKUP_OFFSETS)"
proof -
  have "gives (for_each rs (\<lambda>(nm, a) reports. and_then (read32_with_counter env a nm ''runtime-iqk-backup'') (\<lambda>v.
      ret (reports @ [register_read_report nm a ''u32'' v 8]))) []) (\<lambda>xs. map rd_address xs = map rd_address ([] :: register_read_report list) @ map snd rs)"
    by (rule gives_appended) (auto simp: register_read_report_def intro!: gives_then gives_ret)
  then show "gives (rtl8812au_iqk_read32_group env rs) (\<lambda>xs. map rd_address xs = map snd rs)"
    unfolding rtl8812au_iqk_read32_group_def by simp
  have rf: "gives (rf_serial_read_register env path off) (\<lambda>r. rf_rf_offset r = off AND 0xff)" for off
    unfolding rf_serial_read_register_def
    by (cases path) (auto simp: RF_SERIAL_READ_TARGET_A_def RF_SERIAL_READ_TARGET_B_def Let_def
        intro!: gives_fail gives_then gives_do gives_ret)
  have "gives (for_each RTL8812A_IQK_RF_BACKUP_OFFSETS (\<lambda>off reports. and_then (rf_serial_read_register env path off) (\<lambda>r.
      ret (reports @ [r]))) []) (\<lambda>xs. map rf_rf_offset xs = map rf_rf_offset ([] :: rf_serial_read_report list) @ map (\<lambda>off. off AND 0xff) RTL8812A_IQK_RF_BACKUP_OFFSETS)"
    by (rule gives_appended) (auto intro!: gives_and_then [OF rf] gives_ret)
  moreover have "map (\<lambda>off. off AND 0xff) RTL8812A_IQK_RF_BACKUP_OFFSETS = RTL8812A_IQK_RF_BACKUP_OFFSETS"
    by (simp add: RTL8812A_IQK_RF_BACKUP_OFFSETS_def RF_IQK_MODE_JAGUAR_def RF_IQK_TX_0X30_JAGUAR_def RF_IQK_TX_0X31_JAGUAR_def
        RF_IQK_TX_0X32_JAGUAR_def RF_IQK_LOK_LOAD_JAGUAR_def)
  ultimately show "gives (rtl8812au_iqk_rf_backup_reads env path) (\<lambda>xs. map rf_rf_offset xs = RTL8812A_IQK_RF_BACKUP_OFFSETS)"
    unfolding rtl8812au_iqk_rf_backup_reads_def by simp
qed

lemma gives_backup: "gives (run_rtl8812au_runtime_iqk_backup env) saved_all"
  unfolding run_rtl8812au_runtime_iqk_backup_def
  by (intro gives_then gives_do gives_and_then [OF gives_groups(1)] gives_and_then [OF gives_groups(2)] gives_ret)
    (simp add: saved_all_def)


lemma performs_outcome_gives:
  assumes "touches A trace m" "gives m P"
  shows "performs trace (as_value m) (\<lambda>r w. (\<forall>x \<in> set w. fst x \<in> A) \<and> (\<forall>x. r = Inr x \<longrightarrow> P x))"
  unfolding performs_def
proof (intro allI impI)
  fix s r s' assume "as_value m s = Some (Inr r, s')"
  then have run: "m s = Some (r, s')" by (simp add: as_value_Some)
  have "\<forall>x. r = Inr x \<longrightarrow> P x" using assms(2) run unfolding gives_def by metis
  moreover obtain w where "trace (fst s') = trace (fst s) @ w" "\<forall>x \<in> set (written w). fst x \<in> A"
    using touchesD [OF assms(1) run] by blast
  ultimately show "\<exists>w. trace (fst s') = trace (fst s) @ w \<and> (\<forall>x \<in> set (written w). fst x \<in> A) \<and> (\<forall>x. r = Inr x \<longrightarrow> P x)"
    by blast
qed

text \<open>
  \<open>sweep_outcome\<close>: the sweep failed before it measured, having touched no more than the page select
  and the selector of RF reads; or it has restored what it saved.
\<close>

definition sweep_outcome :: "(radio_error, iqk_calibration) result \<Rightarrow> (u16 \<times> bytes) list \<Rightarrow> bool" where
  "sweep_outcome r w \<longleftrightarrow>
     (\<exists>e. r = Inl e) \<and> (\<forall>x \<in> set w. fst x \<in> {REG_AGC_TABLE_JAGUAR, REG_HSSI_READ_JAGUAR}) \<or>
     (\<exists>backup cleanup measuring restoring filling.
        saved_all backup \<and> w = measuring @ restoring @ filling \<and>
        (cl_failures cleanup = [] \<longrightarrow> restoring_writes backup restoring) \<and>
        (cl_failures cleanup \<noteq> [] \<longrightarrow> filling = []) \<and>
        (case r of
           Inr report \<Rightarrow> iq_backup report = Some backup \<and> iq_cleanup report = Some cleanup
         | Inl e \<Rightarrow> cl_failures cleanup \<noteq> [] \<longrightarrow> (\<exists>e0. e = cleanup_error cleanup e0)))"

lemma sweep_outcome_early:
  "\<forall>x \<in> set u. fst x \<in> {REG_AGC_TABLE_JAGUAR, REG_HSSI_READ_JAGUAR} \<Longrightarrow> sweep_outcome (Inl e) u"
  unfolding sweep_outcome_def by blast

lemma infallible_for_each: "(\<And>x a. infallible (f x a)) \<Longrightarrow> infallible (for_each xs f a)"
  by (induction xs arbitrary: a) (auto intro!: infallible_intros)

context observed_device
begin

lemma touches_fill: "touches UNIV trace (apply_rtl8812au_runtime_iqk_fill env path tx rx)"
  unfolding apply_rtl8812au_runtime_iqk_fill_def apply_runtime_iqk_masked_bb_write_def by (intro touches_intros UNIV_I)

lemma finish_outcome:
  "performs trace (as_value (iqk_finish env c rs backup pre cleanup stages)) (\<lambda>r w. (w \<noteq> [] \<longrightarrow> cl_status cleanup = ''restored'') \<and>
     (case r of Inl e \<Rightarrow> cl_status cleanup = ''restored''
      | Inr report \<Rightarrow> iq_backup report = Some backup \<and> iq_cleanup report = Some cleanup))"
proof -
  obtain tx_a rx_a tx_b rx_b where stages: "stages = (tx_a, rx_a, tx_b, rx_b)" by (cases stages) auto
  let ?fill = "cl_status cleanup = ''restored'' \<and> rtl8812au_runtime_iqk_path_can_fill tx_a rx_a \<and>
    rtl8812au_runtime_iqk_path_can_fill tx_b rx_b"
  have report: "gives (iqk_finish env c rs backup pre cleanup stages) (\<lambda>report. iq_backup report = Some backup \<and> iq_cleanup report = Some cleanup)"
    unfolding iqk_finish_def stages prod.case Let_def by (intro gives_then gives_case_prod gives_ret) simp
  show ?thesis
  proof (cases ?fill)
    case True
    have "touches UNIV trace (iqk_finish env c rs backup pre cleanup stages)"
      unfolding iqk_finish_def stages prod.case or_default_def by (intro touches_intros touches_fill)
    from performs_outcome_gives [OF this report] show ?thesis
      by (rule performs_mono) (use True in \<open>auto split: sum.split\<close>)
  next
    case False
    have none: "touches {} trace (iqk_finish env c rs backup pre cleanup stages)"
      unfolding iqk_finish_def stages prod.case Let_def if_not_P [OF False] or_default_def by (intro touches_intros)
    have "infallible (iqk_finish env c rs backup pre cleanup stages)"
      unfolding iqk_finish_def stages prod.case Let_def if_not_P [OF False] or_default_def by (intro infallible_intros)
    then have ok: "as_value (iqk_finish env c rs backup pre cleanup stages) s = Some (Inr r, s') \<Longrightarrow> \<exists>x. r = Inr x" for s r s'
      unfolding infallible_def as_value_Some by (cases r) auto
    show ?thesis
      unfolding performs_def
    proof (intro allI impI)
      fix s r s' assume run: "as_value (iqk_finish env c rs backup pre cleanup stages) s = Some (Inr r, s')"
      from performsD [OF performs_outcome_gives [OF none report] run] obtain w where
        w: "trace (fst s') = trace (fst s) @ w" "\<forall>x \<in> set (written w). fst x \<in> {}"
          "\<forall>report. r = Inr report \<longrightarrow> iq_backup report = Some backup \<and> iq_cleanup report = Some cleanup" by blast
      have "written w = []" using w(2) by (cases "written w") auto
      with w ok [OF run] show "\<exists>w. trace (fst s') = trace (fst s) @ w \<and> (written w \<noteq> [] \<longrightarrow> cl_status cleanup = ''restored'') \<and>
          (case r of Inl e \<Rightarrow> cl_status cleanup = ''restored''
           | Inr report \<Rightarrow> iq_backup report = Some backup \<and> iq_cleanup report = Some cleanup)"
        by auto
    qed
  qed
qed

lemma restore_outcome:
  "performs trace (as_value (restore_rtl8812au_runtime_iqk_backup env backup)) (\<lambda>r w. \<exists>c. r = Inr c \<and>
     (cl_status c = ''restored'' \<longleftrightarrow> cl_failures c = []) \<and> (cl_failures c = [] \<longrightarrow> restoring_writes backup w))"
proof -
  have "infallible (restore_rtl8812au_runtime_iqk_backup env backup)"
    unfolding restore_rtl8812au_runtime_iqk_backup_def restore_page_def restore_runtime_iqk_rf_group_def
      restore_runtime_iqk_register_group_def restore_checked_def noting_def Let_def
    by (intro infallible_intros infallible_for_each)
  moreover have "performs trace (restore_rtl8812au_runtime_iqk_backup env backup) (\<lambda>c w.
      (cl_status c = ''restored'' \<longleftrightarrow> cl_failures c = []) \<and> (cl_failures c = [] \<longrightarrow> restoring_writes backup w))"
    using performs_restore [of backup] gives_restore [of env backup] unfolding performs_def gives_def by blast
  ultimately show ?thesis by (rule performs_outcome_success)
qed

lemma touches_before_measurement:
  "touches {REG_AGC_TABLE_JAGUAR, REG_HSSI_READ_JAGUAR} trace (run_rtl8812au_runtime_iqk_backup env)"
  "touches {REG_AGC_TABLE_JAGUAR, REG_HSSI_READ_JAGUAR} trace (rtl8812au_runtime_iqk_pre_sweep_state env backup)"
  unfolding run_rtl8812au_runtime_iqk_backup_def rtl8812au_runtime_iqk_pre_sweep_state_def
  by (intro touches_intros; simp)+


lemma early_step:
  assumes "\<forall>x \<in> set u0. fst x \<in> {REG_AGC_TABLE_JAGUAR, REG_HSSI_READ_JAGUAR}"
    and "touches {REG_AGC_TABLE_JAGUAR, REG_HSSI_READ_JAGUAR} trace m" "gives m P"
    and "\<And>x u. \<forall>x \<in> set u. fst x \<in> {REG_AGC_TABLE_JAGUAR, REG_HSSI_READ_JAGUAR} \<Longrightarrow> P x \<Longrightarrow>
      performs trace (as_value (f x)) (\<lambda>r v. sweep_outcome r (u @ v))"
  shows "performs trace (as_value (and_then m f)) (\<lambda>r v. sweep_outcome r (u0 @ v))"
proof (rule performs_outcome_bind [OF performs_outcome_gives [OF assms(2,3)]])
  show "sweep_outcome (Inl e) (u0 @ u)"
    if "(\<forall>x \<in> set u. fst x \<in> {REG_AGC_TABLE_JAGUAR, REG_HSSI_READ_JAGUAR}) \<and> (\<forall>x. Inl e = Inr x \<longrightarrow> P x)" for e u
    using that assms(1) by (intro sweep_outcome_early) auto
  show "performs trace (as_value (f x)) (\<lambda>r v. sweep_outcome r (u0 @ u @ v))"
    if "(\<forall>x \<in> set u. fst x \<in> {REG_AGC_TABLE_JAGUAR, REG_HSSI_READ_JAGUAR}) \<and> (\<forall>y. Inr x = Inr y \<longrightarrow> P y)" for x u
    using assms(4) [of "u0 @ u" x] that assms(1) by auto
qed

lemma performs_sweep: "performs trace (as_value (run_rtl8812au_runtime_iqk_calibration_sweep env channel rfe)) sweep_outcome"
proof -
  let ?A = "{REG_AGC_TABLE_JAGUAR, REG_HSSI_READ_JAGUAR}"
  have rest: "performs trace (as_value (case result of Inl error \<Rightarrow> fail (cleanup_error cleanup error)
      | Inr stages \<Rightarrow> iqk_finish env before rs backup pre cleanup stages)) (\<lambda>r v. sweep_outcome r (u @ v))"
    if "saved_all backup" "u = measuring @ restoring" "cl_status cleanup = ''restored'' \<longleftrightarrow> cl_failures cleanup = []"
      "cl_failures cleanup = [] \<longrightarrow> restoring_writes backup restoring" for result cleanup before rs backup pre u measuring restoring
  proof (cases result)
    case (Inl e)
    have "performs trace (as_value (fail (cleanup_error cleanup e)) :: ('t, (radio_error, iqk_calibration) result) reg_op)
        (\<lambda>r v. r = Inl (cleanup_error cleanup e) \<and> v = [])"
      by (auto simp: performs_def as_value_def fail_def intro: exI [of _ "[]"])
    then show ?thesis
      unfolding Inl sum.case
    proof (rule performs_mono, elim conjE)
      fix r :: "(radio_error, iqk_calibration) result" and v :: "(u16 \<times> bytes) list"
      assume "r = Inl (cleanup_error cleanup e)" "v = []"
      with that show "sweep_outcome r (u @ v)"
        unfolding sweep_outcome_def
        by (intro disjI2 exI [of _ backup] exI [of _ cleanup] exI [of _ measuring] exI [of _ restoring] exI [of _ "[]"]) auto
    qed
  next
    case (Inr stages)
    show ?thesis
      unfolding Inr sum.case
    proof (rule performs_mono [OF finish_outcome], elim conjE)
      fix r :: "(radio_error, iqk_calibration) result" and v :: "(u16 \<times> bytes) list"
      assume "v \<noteq> [] \<longrightarrow> cl_status cleanup = ''restored''"
        "case r of Inl e \<Rightarrow> cl_status cleanup = ''restored''
         | Inr report \<Rightarrow> iq_backup report = Some backup \<and> iq_cleanup report = Some cleanup"
      with that show "sweep_outcome r (u @ v)"
        unfolding sweep_outcome_def
        by (intro disjI2 exI [of _ backup] exI [of _ cleanup] exI [of _ measuring] exI [of _ restoring] exI [of _ v])
          (auto split: sum.splits)
    qed
  qed
  have measure: "performs trace (as_value (and_then (as_value (iqk_stages env channel rfe)) (\<lambda>result.
      and_then (restore_rtl8812au_runtime_iqk_backup env backup) (\<lambda>cleanup.
      case result of Inl error \<Rightarrow> fail (cleanup_error cleanup error)
      | Inr stages \<Rightarrow> iqk_finish env before rs backup pre cleanup stages)))) (\<lambda>r v. sweep_outcome r (u @ v))"
    if "saved_all backup" for before rs backup pre u
  proof (rule performs_outcome_bind [OF performs_outcome_success [OF infallible_pure(2) touches_stages [unfolded touches_def]]])
    show "sweep_outcome (Inl e) (u @ w)" if "\<exists>x. Inl e = Inr x \<and> (\<forall>x \<in> set w. fst x \<in> UNIV)" for e w
      using that by simp
  next
    fix result and w :: "(u16 \<times> bytes) list"
    show "performs trace (as_value (and_then (restore_rtl8812au_runtime_iqk_backup env backup) (\<lambda>cleanup.
      case result of Inl error \<Rightarrow> fail (cleanup_error cleanup error)
      | Inr stages \<Rightarrow> iqk_finish env before rs backup pre cleanup stages))) (\<lambda>r v. sweep_outcome r (u @ w @ v))"
    proof (rule performs_outcome_bind [OF restore_outcome])
      fix cleanup :: iqk_cleanup and v :: "(u16 \<times> bytes) list"
      assume "\<exists>c. Inr cleanup = Inr c \<and> (cl_status c = ''restored'' \<longleftrightarrow> cl_failures c = []) \<and>
        (cl_failures c = [] \<longrightarrow> restoring_writes backup v)"
      then show "performs trace (as_value (case result of Inl error \<Rightarrow> fail (cleanup_error cleanup error)
          | Inr stages \<Rightarrow> iqk_finish env before rs backup pre cleanup stages)) (\<lambda>r z. sweep_outcome r (u @ w @ v @ z))"
        using rest [OF that, of "(u @ w) @ v" "u @ w" v cleanup] by auto
    qed simp
  qed
  have start: "\<forall>x \<in> set []. fst x \<in> {REG_AGC_TABLE_JAGUAR, REG_HSSI_READ_JAGUAR}" by simp
  have "performs trace (as_value (run_rtl8812au_runtime_iqk_calibration_sweep env channel rfe)) (\<lambda>r v. sweep_outcome r ([] @ v))"
    unfolding run_rtl8812au_runtime_iqk_calibration_sweep_def
    by (rule early_step [OF start touches_pure(4) gives_any], rule early_step [OF _ touches_reads(2) gives_any], assumption,
        rule early_step [OF _ touches_before_measurement(1) gives_backup], assumption,
        rule early_step [OF _ touches_before_measurement(2) gives_any], assumption, rule measure)
  then show ?thesis by simp
qed

end



end
