(* ===== verification/Lck_Laws.thy ===== *)
theory Lck_Laws
  imports Iqk_Restore
begin

text \<open>
  What the local oscillator calibration writes when it succeeds, and the register that it leaves
  changed when one particular write fails.
\<close>

section \<open>A successful calibration\<close>

text \<open>A serial RF read selects the register to read; these writes are left aside.\<close>

definition but_selects :: "(u16 \<times> bytes) list \<Rightarrow> (u16 \<times> bytes) list" where
  "but_selects = filter (\<lambda>(a, _). a \<noteq> REG_HSSI_READ_JAGUAR)"

lemma but_selects_append [simp]: "but_selects (u @ v) = but_selects u @ but_selects v" "but_selects [] = []"
  by (simp_all add: but_selects_def)

definition rf_write_a :: "u32 \<Rightarrow> u32 \<Rightarrow> u16 \<times> bytes" where
  "rf_write_a off v = (rf_path_register RfA, le32 (encode_rf_serial_write off (v AND RF_REGISTER_OFFSET_MASK)))"

definition lck_writes :: "lck_report \<Rightarrow> (u16 \<times> bytes) list" where
  "lck_writes r =
     (if lr_continuous_tx_active r then [] else [(REG_TXPAUSE, [0xff])]) @
     [rf_write_a RF_LCK_JAGUAR (rf_value (lr_rf_lck_before_enter r) OR RF_LCK_MODE_BIT),
      rf_write_a RF_CHNLBW_JAGUAR (rf_value (lr_rf_chnlbw_before_trigger r) OR RF_CHNLBW_LCK_TRIGGER_BIT),
      rf_write_a RF_LCK_JAGUAR (rf_value (lr_rf_lck_before_exit r) AND NOT RF_LCK_MODE_BIT)] @
     (if lr_continuous_tx_active r then [] else [(REG_TXPAUSE, [ucast (rd_value (lr_tx_pause_before r))])]) @
     [rf_write_a RF_CHNLBW_JAGUAR (rf_value (lr_rf_chnlbw_before_trigger r))]"

context observed_device
begin

lemma performs_try:
  assumes "touches UNIV trace m" "performs trace m Q" "\<And>e u. R (Inl e, c) u"
    and "\<And>x u. Q x u \<Longrightarrow> performs trace (f x) (\<lambda>y v. R y (u @ v))"
  shows "performs trace (try_step c m f) R"
proof -
  have outcome: "performs trace (as_value m) (\<lambda>r u. \<forall>x. r = Inr x \<longrightarrow> Q x u)"
    unfolding performs_def
  proof (intro allI impI)
    fix s r s' assume "as_value m s = Some (Inr r, s')"
    then have run: "m s = Some (r, s')" by (simp add: as_value_Some)
    show "\<exists>w. trace (fst s') = trace (fst s) @ w \<and> (\<forall>x. r = Inr x \<longrightarrow> Q x (written w))"
    proof (cases r)
      case (Inr y)
      then show ?thesis using performsD [OF assms(2)] run by blast
    next
      case (Inl e)
      then show ?thesis using touchesD [OF assms(1) run] by auto
    qed
  qed
  show ?thesis
    unfolding try_step_def
    apply (rule performs_bind [OF outcome])
    subgoal for r u using assms(3,4) by (cases r) (auto intro!: performs_mono [OF performs_ret])
    done
qed

lemma performs_select: "performs trace (rf_serial_read_register env path off) (\<lambda>_ w. but_selects w = [])"
proof -
  have "touches {REG_HSSI_READ_JAGUAR} trace (rf_serial_read_register env path off)"
    by (rule touches_rf_read) simp
  then have "performs trace (as_value (rf_serial_read_register env path off)) (\<lambda>_ w. \<forall>x \<in> set w. fst x \<in> {REG_HSSI_READ_JAGUAR})"
    by (simp add: touches_def)
  then have "performs trace (rf_serial_read_register env path off) (\<lambda>_ w. \<forall>x \<in> set w. fst x \<in> {REG_HSSI_READ_JAGUAR})"
    unfolding performs_def as_value_Some by blast
  then show ?thesis
    by (rule performs_mono) (auto simp: but_selects_def filter_empty_conv)
qed

lemma performs_rf_a:
  "performs trace (rf_serial_write_single_path env RfA off v) (\<lambda>_ w. w = [rf_write_a off v])"
  unfolding rf_write_a_def by (rule performs_rf_write) simp

lemma performs_report8:
  "performs trace (write8_register_report env name a v) (\<lambda>_ w. w = [(a, [v])])"
  unfolding write8_register_report_def
  by (intro performs_silent [OF performs_counters] performs_silent [OF performs_counted(1)])
    (rule performs_then [OF performs_mono [OF performs_counted(4)], where P = "\<lambda>_. True" and ws = "\<lambda>_. [(a, [v])]"],
      auto intro!: performs_silent [OF performs_counters] performs_silent [OF performs_counted(1)] performs_mono [OF performs_ret])

lemma touches_report8: "touches UNIV trace (write8_register_report env name a v)"
  unfolding write8_register_report_def by (intro touches_intros UNIV_I)

lemma touches_select: "touches UNIV trace (rf_serial_read_register env path off)"
  by (rule touches_rf_read) simp

lemma touches_pauses:
  "touches UNIV trace (ret None)" "touches UNIV trace (and_then (write8_register_report env name a v) (\<lambda>r. ret (Some r)))"
  by (intro touches_intros touches_report8)+

lemma performs_pause:
  "performs trace (and_then (write8_register_report env name a v) (\<lambda>r. ret (Some r))) (\<lambda>_ w. w = [(a, [v])])"
  by (rule performs_bind [OF performs_report8]) (auto intro!: performs_mono [OF performs_ret])

lemma performs_lck_inner:
  "performs trace (run_rtl8812au_lck_calibration_inner env) (\<lambda>y w. \<forall>report. fst y = Inr report \<longrightarrow> but_selects w = lck_writes report)"
proof -
  have selects: "REG_TXPAUSE \<noteq> REG_HSSI_READ_JAGUAR" "REG_RF_PATH_A_3WIRE \<noteq> REG_HSSI_READ_JAGUAR"
    by (simp_all add: REG_TXPAUSE_def REG_HSSI_READ_JAGUAR_def REG_RF_PATH_A_3WIRE_def)
  have cast: "(ucast (ucast (v :: u8) :: u32) :: u8) = v" for v by (rule bit_word_eqI) (auto simp: bit_simps)
  note select = performs_try [OF touches_select performs_select] and rf = performs_try [OF touches_rf_write performs_rf_a]
    and pause = performs_try [OF touches_pauses(2) performs_pause]
    and skip = performs_try [OF touches_pauses(1) performs_ret]
  show ?thesis
    unfolding run_rtl8812au_lck_calibration_inner_def Let_def
    apply (rule performs_try [OF touches_counted(2) performs_counted(3)], simp)
    apply (rule performs_try [OF touches_counted(1) performs_counted(1)], simp)
    apply (rule select, simp)
    subgoal premises prems for v _ p _ b u
    proof (cases "v AND 0x00070000 = 0")
      case True
      show ?thesis
        apply (simp only: True simp_thms if_False lck_cleanup.simps option.case)
        apply (rule pause, simp, rule select, simp, rule rf, simp, rule select, simp, rule rf, simp)
        apply (rule performs_silent_do [OF performs_clock(1)])
        apply (rule select, simp, rule rf, simp)
        apply (simp only: lck_cleanup.simps lck_cleanup_default_def option.case)
        apply (rule pause, simp, rule rf, simp, rule select, simp, rule select, simp)
        apply (rule performs_mono [OF performs_ret])
        apply (use prems in \<open>auto simp: lck_writes_def register_read_report_def cast selects but_selects_def rf_write_a_def\<close>)
        done
    next
      case False
      show ?thesis
        apply (simp only: False simp_thms if_True lck_cleanup.simps lck_cleanup_default_def option.case)
        apply (rule skip, simp, rule select, simp, rule rf, simp, rule select, simp, rule rf, simp)
        apply (rule performs_silent_do [OF performs_clock(1)])
        apply (rule select, simp, rule rf, simp)
        apply (simp only: lck_cleanup.simps lck_cleanup_default_def option.case)
        apply (rule skip, simp, rule rf, simp, rule select, simp, rule select, simp)
        apply (rule performs_mono [OF performs_ret])
        apply (use prems in \<open>auto simp: lck_writes_def selects but_selects_def rf_write_a_def\<close>)
        done
    qed
    done
qed

end



lemma yields_try: "ends m \<Longrightarrow> (\<And>x. yields Q (f x)) \<Longrightarrow> yields Q (try_step c m f)"
  unfolding try_step_def ends_def by (rule yields_seq [OF yields_as_value]) auto

lemma ends_report8 [device_steps]: "ends (write8_register_report (logged measuring) name a v)"
proof -
  have "ends (read8_with_counter (logged measuring) a name phase)" for phase
    by (simp add: ends_def yields_def read8_with_counter_def counted_read_def read8_def map_ok_def measuring_exact)
  then show ?thesis unfolding write8_register_report_def by (intro device_steps)
qed

lemma device_lck: "yields (\<lambda>_. True) (run_rtl8812au_lck_calibration (logged measuring))"
proof -
  have read8: "ends (read8_with_counter (logged measuring) a name phase)" for a name phase
    by (simp add: ends_def yields_def read8_with_counter_def counted_read_def read8_def map_ok_def measuring_exact)
  have inner: "yields (\<lambda>y. \<exists>x. fst y = Inr x) (run_rtl8812au_lck_calibration_inner (logged measuring))"
    unfolding run_rtl8812au_lck_calibration_inner_def Let_def
    by (intro yields_try yields_after_do device_steps read8) (simp add: yields_ret)
  show ?thesis
    unfolding run_rtl8812au_lck_calibration_def
    by (rule yields_after [OF device_steps(4)], rule yields_seq [OF inner])
      (auto intro!: yields_after [OF device_steps(4)] yields_ret)
qed


section \<open>A failing write\<close>

text \<open>A device that is at rest and refuses the one write that lifts the transmit pause.\<close>

definition stuck :: "(unit, unit) reg_env" where
  "stuck =
     \<lparr>re_access = register_access_new
        (\<lambda>_ _ _ _ data _ dev. (Inr (length data), replicate (length data) 0, dev))
        (\<lambda>_ _ addr _ data _ dev. (if addr = REG_TXPAUSE \<and> data = [0] then Inl DeviceDisappeared else Inr (length data), dev)),
      re_show_rusb = (\<lambda>_. []), re_sleep = (\<lambda>_ dev. dev), re_now = (\<lambda>dev. (0, dev))\<rparr>"

definition pauses :: "reg_access list \<Rightarrow> bytes list" where
  "pauses log = map snd (filter (\<lambda>(a, _). a = REG_TXPAUSE) (written log))"

lemma pauses_append [simp]: "pauses (u @ v) = pauses u @ pauses v"
  by (simp add: pauses_def)

text \<open>\<open>does ws P m\<close>: on this device \<open>m\<close> succeeds with \<open>P\<close> and writes \<open>ws\<close> to the transmit pause.\<close>

definition does :: "bytes list \<Rightarrow> ('a \<Rightarrow> bool) \<Rightarrow> (unit \<times> reg_access list, 'a) reg_op \<Rightarrow> bool" where
  "does ws P m \<longleftrightarrow> (\<forall>s. \<exists>x s'. m s = Some (Inr x, s') \<and> P x \<and> pauses (snd (fst s')) = pauses (snd (fst s)) @ ws)"

definition refused :: "(unit \<times> reg_access list, 'a) reg_op \<Rightarrow> bool" where
  "refused m \<longleftrightarrow> (\<forall>s. \<exists>e s'. m s = Some (Inl e, s') \<and> pauses (snd (fst s')) = pauses (snd (fst s)))"

lemma does_ret: "P x \<Longrightarrow> does [] P (ret x)"
  by (simp add: does_def ret_def)

lemma does_seq:
  assumes "does ws P m" "\<And>x. P x \<Longrightarrow> does vs Q (f x)"
  shows "does (ws @ vs) Q (and_then m f)"
  unfolding does_def
proof
  fix s
  obtain x t where m: "m s = Some (Inr x, t)" "P x" "pauses (snd (fst t)) = pauses (snd (fst s)) @ ws"
    using assms(1) unfolding does_def by blast
  moreover obtain y u where "f x t = Some (Inr y, u)" "Q y" "pauses (snd (fst u)) = pauses (snd (fst t)) @ vs"
    using assms(2) [OF m(2)] unfolding does_def by blast
  ultimately show "\<exists>x s'. and_then m f s = Some (Inr x, s') \<and> Q x \<and> pauses (snd (fst s')) = pauses (snd (fst s)) @ ws @ vs"
    by (simp add: and_then_def)
qed

lemma doesD: "does ws P m \<Longrightarrow> \<exists>x s'. m s = Some (Inr x, s') \<and> P x \<and> pauses (snd (fst s')) = pauses (snd (fst s)) @ ws"
  unfolding does_def by (rule spec)

lemmas does_last = does_seq [where vs = "[]", simplified]
lemmas does_first = does_seq [where ws = "[]", simplified]

lemma does_try: "does ws P m \<Longrightarrow> (\<And>x. P x \<Longrightarrow> does vs Q (f x)) \<Longrightarrow> does (ws @ vs) Q (try_step c m f)"
  unfolding try_step_def
  by (rule does_seq [where P = "\<lambda>r. \<exists>x. r = Inr x \<and> P x"]) (auto simp: does_def as_value_def, metis)

lemmas does_try_first = does_try [where ws = "[]", simplified]

lemma refused_try: "refused m \<Longrightarrow> Q (Inl e', c) \<Longrightarrow> (\<And>e. Q (Inl e, c)) \<Longrightarrow> does [] Q (try_step c m f)"
  unfolding try_step_def
  by (rule does_first [where P = "\<lambda>r. \<exists>e. r = Inl e"]) (auto simp: does_def refused_def as_value_def ret_def, metis)

lemma stuck_exact:
  "expected_len w = length data \<Longrightarrow> read_exact (re_access (logged stuck)) addr w data dev =
     (Inr (replicate (length data) 0), (fst dev, snd dev @ [RdReg addr (length data)]))"
  "expected_len w = length data \<Longrightarrow> \<not> (addr = REG_TXPAUSE \<and> data = [0]) \<Longrightarrow>
     write_all (re_access (logged stuck)) addr w data dev = (Inr (), (fst dev, snd dev @ [WrReg addr data]))"
  "\<exists>e. write_all (re_access (logged stuck)) REG_TXPAUSE w [0] dev = (Inl e, dev)"
  by (cases dev; simp add: read_exact_def write_all_def read_vendor_def write_vendor_def logged_def
      logged_access_def stuck_def register_access_new_def)+

lemma stuck_accesses:
  "does [] (\<lambda>v. v = 0) (read8_with_counter (logged stuck) a name phase)"
  "does [] (\<lambda>v. v = 0) (read32_with_counter (logged stuck) a name phase)"
  "does [[0xff]] (\<lambda>_. True) (write8_with_counter (logged stuck) REG_TXPAUSE 0xff name phase)"
  "a \<noteq> REG_TXPAUSE \<Longrightarrow> does [] (\<lambda>_. True) (write32_with_counter (logged stuck) a v name phase)"
  "does [] (\<lambda>_. True) current_counters"
  by (simp_all add: does_def read8_with_counter_def read32_with_counter_def counted_read_def read8_def read32_def
      map_ok_def stuck_exact of_le32_def write8_with_counter_def write32_with_counter_def counted_write_def write8_def
      write32_def le32.enc_length pauses_def current_counters_def)

lemma stuck_sleep: "does [] (\<lambda>_. True) (sleep (logged stuck) d)"
  by (auto simp: does_def sleep_def logged_def pauses_def split: prod.splits)

lemma stuck_refuses: "refused (write8_with_counter (logged stuck) REG_TXPAUSE 0 name phase)"
  unfolding refused_def
proof
  fix s :: "(unit \<times> reg_access list) \<times> radio_counters"
  obtain e where "write_all (re_access (logged stuck)) REG_TXPAUSE WU8 [0] (fst s) = (Inl e, fst s)"
    using stuck_exact(3) by blast
  then show "\<exists>e s'. write8_with_counter (logged stuck) REG_TXPAUSE 0 name phase s = Some (Inl e, s') \<and>
      pauses (snd (fst s')) = pauses (snd (fst s))"
    by (simp add: write8_with_counter_def counted_write_def write8_def)
qed


lemma does_mono: "does ws P m \<Longrightarrow> (\<And>x. P x \<Longrightarrow> Q x) \<Longrightarrow> does ws Q m"
  unfolding does_def by metis

lemma does_do_first: "does [] P m \<Longrightarrow> does vs Q n \<Longrightarrow> does vs Q (and_do m n)"
  unfolding and_do_def by (erule does_first)

lemma stuck_bb_set: "a \<noteq> REG_TXPAUSE \<Longrightarrow> m \<noteq> 0 \<Longrightarrow> does [] (\<lambda>_. True) (bb_set_bb_reg (logged stuck) a m d name)"
  unfolding bb_set_bb_reg_def Let_def
  by (cases "m = - 1") (simp_all add: stuck_accesses does_first [OF stuck_accesses(2)])

lemma stuck_rf:
  "does [] (\<lambda>r. rf_value r = 0) (rf_serial_read_register (logged stuck) RfA off)"
  "does [] (\<lambda>_. True) (rf_serial_write_single_path (logged stuck) RfA off v)"
proof -
  have a: "REG_HSSI_READ_JAGUAR \<noteq> REG_TXPAUSE" "REG_RF_PATH_A_3WIRE \<noteq> REG_TXPAUSE"
    by (simp_all add: REG_HSSI_READ_JAGUAR_def REG_TXPAUSE_def REG_RF_PATH_A_3WIRE_def)
  show "does [] (\<lambda>r. rf_value r = 0) (rf_serial_read_register (logged stuck) RfA off)"
    unfolding rf_serial_read_register_def rf_serial_read_target.simps RF_SERIAL_READ_TARGET_A_def option.case prod.case Let_def
    by (rule does_first [OF stuck_accesses(5)], rule does_first [OF stuck_accesses(2)], simp split del: if_split,
        rule does_do_first [OF stuck_bb_set [OF a(1)]], simp, rule does_do_first [OF stuck_sleep],
        rule does_first [OF stuck_accesses(2)], rule does_first [OF stuck_accesses(5)], rule does_ret) simp
  have target: "rf_serial_write_targets RfA = [RF_SERIAL_TARGET_A]" by simp
  show "does [] (\<lambda>_. True) (rf_serial_write_single_path (logged stuck) RfA off v)"
    unfolding rf_serial_write_single_path_def target for_each.simps RF_SERIAL_TARGET_A_def prod.case Let_def and_then_ret_right
    by (rule does_first [where P = "\<lambda>r. r \<noteq> []"], rule does_first [OF stuck_accesses(5)],
        rule does_do_first [OF stuck_accesses(4) [OF a(2)]], rule does_first [OF stuck_accesses(5)],
        rule does_do_first [OF stuck_sleep], rule does_ret)
      (auto intro: does_ret)
qed

lemma stuck_pause:
  "does [[0xff]] (\<lambda>_. True) (and_then (write8_register_report (logged stuck) name REG_TXPAUSE 0xff) (\<lambda>r. ret (Some r)))"
  "refused (and_then (write8_register_report (logged stuck) name REG_TXPAUSE 0) (\<lambda>r. ret (Some r)))"
proof -
  show "does [[0xff]] (\<lambda>_. True) (and_then (write8_register_report (logged stuck) name REG_TXPAUSE 0xff) (\<lambda>r. ret (Some r)))"
    unfolding write8_register_report_def
    by (rule does_last, rule does_first [OF stuck_accesses(5)], rule does_first [OF stuck_accesses(1)])
      (rule does_last [OF stuck_accesses(3)],
        auto intro!: does_first [OF stuck_accesses(1)] does_first [OF stuck_accesses(5)] does_ret)
  have later: "refused (and_then m f)" if m: "does [] (\<lambda>_. True) m" and f: "\<And>x. refused (f x)" for m :: "(unit \<times> reg_access list, 'x) reg_op" and f :: "'x \<Rightarrow> (unit \<times> reg_access list, 'y) reg_op"
    unfolding refused_def
  proof
    fix s
    obtain x t where "m s = Some (Inr x, t)" "pauses (snd (fst t)) = pauses (snd (fst s))" using doesD [OF m, of s] by auto
    moreover obtain e u where "f x t = Some (Inl e, u)" "pauses (snd (fst u)) = pauses (snd (fst t))"
      using f unfolding refused_def by blast
    ultimately show "\<exists>e s'. and_then m f s = Some (Inl e, s') \<and> pauses (snd (fst s')) = pauses (snd (fst s))"
      by (simp add: and_then_def)
  qed
  have now: "refused (and_then m f)" if m: "refused m" for m :: "(unit \<times> reg_access list, 'x) reg_op" and f :: "'x \<Rightarrow> (unit \<times> reg_access list, 'y) reg_op"
    unfolding refused_def
  proof
    fix s
    obtain e t where "m s = Some (Inl e, t)" "pauses (snd (fst t)) = pauses (snd (fst s))" using m unfolding refused_def by blast
    then show "\<exists>e s'. and_then m f s = Some (Inl e, s') \<and> pauses (snd (fst s')) = pauses (snd (fst s))"
      by (simp add: and_then_def)
  qed
  show "refused (and_then (write8_register_report (logged stuck) name REG_TXPAUSE 0) (\<lambda>r. ret (Some r)))"
    unfolding write8_register_report_def
    by (rule now, rule later [OF stuck_accesses(5)], rule later, rule does_mono [OF stuck_accesses(1)], simp, rule now, rule stuck_refuses)
qed

lemma stuck_inner:
  "does [[0xff]] (\<lambda>(r, c). (\<exists>e. r = Inl e) \<and> lk_tx_pause_restore c = None) (run_rtl8812au_lck_calibration_inner (logged stuck))"
proof -
  have idle: "(0 :: u32) AND 0x00070000 = 0" by simp
  have "does ([[0xff]] @ []) (\<lambda>(r, c). (\<exists>e. r = Inl e) \<and> lk_tx_pause_restore c = None) (run_rtl8812au_lck_calibration_inner (logged stuck))"
    unfolding run_rtl8812au_lck_calibration_inner_def Let_def
    apply (rule does_try_first [OF stuck_accesses(2)], hypsubst)
    apply (rule does_try_first [OF stuck_accesses(1)], hypsubst)
    apply (rule does_try_first [OF stuck_rf(1)])
    apply (simp only: idle simp_thms if_False lck_cleanup.simps option.case)
    apply (rule does_try [OF stuck_pause(1)])
    apply (rule does_try_first [OF stuck_rf(1)], rule does_try_first [OF stuck_rf(2)], rule does_try_first [OF stuck_rf(1)],
        rule does_try_first [OF stuck_rf(2)], rule does_do_first [OF stuck_sleep], rule does_try_first [OF stuck_rf(1)],
        rule does_try_first [OF stuck_rf(2)])
    apply (simp only: lck_cleanup.simps lck_cleanup_default_def option.case)
    apply (rule refused_try [OF stuck_pause(2)])
    apply simp_all
    done
  then show ?thesis by simp
qed


end
