(* ===== verification/Iqk_Reports.thy ===== *)
theory Iqk_Reports
  imports Iqk_Device
begin

text \<open>
  The reports of the I/Q calibration are well formed: the operations on the state of a path keep
  its counters, its numbered attempts, its candidates and its selected pair consistent, and so does
  every stage.
\<close>

section \<open>Well-formed pairs, paths and stages\<close>

definition wf_iqc :: "iqc_value \<Rightarrow> bool" where
  "wf_iqc c \<longleftrightarrow> c = rtl8812au_runtime_iqk_iqc_value (iqc_x c) (iqc_y c)"

text \<open>
  The attempts are numbered from one, every one is a retry or has a candidate, and the outcome is
  what the choice among the candidates says.
\<close>

definition wf_path :: "nat \<Rightarrow> path_state \<Rightarrow> bool" where
  "wf_path k p \<longleftrightarrow>
     length (os_attempts p) \<le> k \<and>
     length (os_attempts p) = unat (os_retry_count p) + length (os_candidates p) \<and>
     map at_attempt_index (os_attempts p) = map (\<lambda>i. of_nat (i + 1)) [0..<length (os_attempts p)] \<and>
     os_candidates p = List.map_filter at_candidate (os_attempts p) \<and>
     list_all wf_iqc (os_candidates p) \<and>
     os_selected_iqc p = rtl8812au_iqk_select_candidate (os_candidates p) \<and>
     os_finished p = (os_selected_iqc p \<noteq> None)"

definition wf_stage :: "iqk_stage \<Rightarrow> bool" where
  "wf_stage r \<longleftrightarrow>
     length (stg_attempts r) \<le> 10 \<and>
     length (stg_attempts r) = unat (stg_retry_count r) + length (stg_candidates r) \<and>
     unat (stg_average_count r) = length (stg_candidates r) \<and>
     map at_attempt_index (stg_attempts r) = map (\<lambda>i. of_nat (i + 1)) [0..<length (stg_attempts r)] \<and>
     stg_candidates r = List.map_filter at_candidate (stg_attempts r) \<and>
     list_all wf_iqc (stg_candidates r) \<and>
     (case rtl8812au_iqk_select_candidate (stg_candidates r) of
        Some c \<Rightarrow> stg_status r = ''success'' \<and> stg_selected_iqc r = Some c \<and> \<not> stg_fallback_used r \<and>
          stg_fallback_iqc r = None \<and> stg_failure_label r = None
      | None \<Rightarrow> stg_status r \<in> {''failed'', ''skipped''} \<and> stg_fallback_used r \<and> stg_failure_label r \<noteq> None \<and>
          stg_selected_iqc r = Some (rtl8812au_runtime_iqk_iqc_value 0x200 0) \<and>
          stg_fallback_iqc r = Some (rtl8812au_runtime_iqk_iqc_value 0x200 0))"

lemma wf_iqc_value [simp]: "wf_iqc (rtl8812au_runtime_iqk_iqc_value x y)"
  by (simp add: wf_iqc_def rtl8812au_runtime_iqk_iqc_value_def Let_def and.assoc)

lemma wf_start: "wf_path k path_state_default"
  by (simp add: wf_path_def path_state_default_def List.map_filter_def)

lemma map_filter_snoc: "List.map_filter f (xs @ [x]) = List.map_filter f xs @ (case f x of None \<Rightarrow> [] | Some y \<Rightarrow> [y])"
  by (simp add: List.map_filter_def split: option.splits)

lemma wf_more: "wf_path k p \<Longrightarrow> k \<le> j \<Longrightarrow> wf_path j p"
  unfolding wf_path_def by (blast intro: le_trans)

lemma wf_idle: "wf_path k p \<Longrightarrow> wf_path (Suc k) p"
  by (rule wf_more [OF _ le_SucI [OF order_refl]])

lemma wf_notes [simp]:
  "wf_path k (note_delay_count d p) = wf_path k p" "wf_path k (p\<lparr>os_failed := f\<rparr>) = wf_path k p"
  "wf_path k (p\<lparr>os_ready := r\<rparr>) = wf_path k p"
  by (simp_all add: wf_path_def note_delay_count_def)

lemma wf_retry:
  "wf_path k p \<Longrightarrow> k < 10 \<Longrightarrow> \<not> os_finished p \<Longrightarrow>
     wf_path (Suc k) (note_retry label (push_attempt r f d st raw None l p))"
  by (auto simp: wf_path_def note_retry_def push_attempt_def Let_def unat_sat_add map_filter_snoc u8_or_max_def)

lemma wf_candidate:
  "wf_path k p \<Longrightarrow> k < 10 \<Longrightarrow> \<not> os_finished p \<Longrightarrow> wf_iqc c \<Longrightarrow>
     wf_path (Suc k) (push_candidate c (push_attempt r f d st raw (Some c) l p))"
  by (auto simp: wf_path_def push_candidate_def push_attempt_def Let_def map_filter_snoc u8_or_max_def split: option.splits)

lemma wf_not_ready: "wf_path k p \<Longrightarrow> k < 10 \<Longrightarrow> wf_path (Suc k) (not_ready_path active l d st p)"
  by (auto simp: not_ready_path_def intro: wf_retry wf_idle)

lemma wf_into_stage:
  "wf_path 10 p \<Longrightarrow> wf_stage (into_stage_report name (rtl8812au_runtime_iqk_iqc_value 0x200 0) fill p)"
  by (auto simp: wf_path_def wf_stage_def into_stage_report_def u8_or_max_def unat_of_nat split: option.splits)

lemma wf_skipped: "wf_stage (rtl8812au_runtime_iqk_skipped_stage_report name l fill)"
  by (simp add: wf_stage_def rtl8812au_runtime_iqk_skipped_stage_report_def List.map_filter_def)

section \<open>The operations keep them so\<close>

lemma gives_weaken: "gives m P \<Longrightarrow> (\<And>x. P x \<Longrightarrow> Q x) \<Longrightarrow> gives m Q"
  by (auto simp: gives_def)

lemma wf_poll: "wf_path k p \<Longrightarrow> gives (poll_path env code active name a p st) (\<lambda>(p', _). wf_path k p')"
  unfolding poll_path_def by (auto intro!: gives_ret gives_and_then [OF gives_any])

lemma wf_poll_ready:
  "wf_path k (fst a) \<Longrightarrow> wf_path k (fst b) \<Longrightarrow>
     gives (poll_ready env code active_a active_b n delays a b) (\<lambda>(_, (a', _), (b', _)). wf_path k a' \<and> wf_path k b')"
proof (induction n arbitrary: delays a b)
  case 0
  then show ?case by (simp add: gives_def never_def)
next
  case (Suc n)
  obtain pa sa pb sb where ab: "a = (pa, sa)" "b = (pb, sb)" by (cases a; cases b) auto
  have pa: "wf_path k pa" and pb: "wf_path k pb" using Suc.prems ab by simp_all
  show ?case
    unfolding ab poll_ready.simps
    apply (rule gives_and_then [OF wf_poll [OF pa]], clarsimp)
    apply (rule gives_and_then [OF wf_poll [OF pb]], clarsimp split del: if_split)
    apply (split if_split, intro conjI impI)
     apply (rule gives_ret, simp)
    apply (rule gives_do, rule gives_weaken [OF Suc.IH], auto)
    done
qed

lemma gives_if: "(c \<Longrightarrow> gives m Q) \<Longrightarrow> (\<not> c \<Longrightarrow> gives n Q) \<Longrightarrow> gives (if c then m else n) Q"
  by simp

lemma wf_capture:
  "gives (runtime_iqk_capture_tx_candidate env p ln l rn r) (\<lambda>(c, _). wf_iqc c)"
  "gives (runtime_iqk_capture_rx_candidate env ln l rn r) (\<lambda>(c, _). wf_iqc c)"
  unfolding runtime_iqk_capture_tx_candidate_def runtime_iqk_capture_rx_candidate_def Let_def
  by (auto intro!: gives_do gives_then gives_ret gives_fail)

lemma wf_collect:
  assumes "wf_path k p" "k < 10" "gives capture (\<lambda>(c, _). wf_iqc c)"
  shows "gives (collect_path env code active name a m l capture delays p) (wf_path (Suc k))"
proof (cases "\<not> os_finished p \<and> active")
  case True
  then show ?thesis
    unfolding collect_path_def Let_def if_P [OF True]
    apply (intro gives_then)
    apply (split if_split, intro conjI impI)
     apply (rule gives_ret, rule wf_retry; simp add: assms)
    apply (rule gives_and_then [OF assms(3)], clarsimp)
    apply (rule gives_ret, rule wf_candidate; simp add: assms)
    done
next
  case False
  then show ?thesis
    unfolding collect_path_def by (subst if_not_P) (auto intro!: gives_ret wf_idle assms)
qed

lemma wf_round:
  assumes "wf_path k a" "wf_path k b" "k < 10" "\<And>d. gives (ca d) (\<lambda>(c, _). wf_iqc c)" "\<And>d. gives (cb d) (\<lambda>(c, _). wf_iqc c)"
  shows "gives (and_then (poll_ready env code active_a active_b n 0 (a, None) (b, None)) (\<lambda>(delays, (a, sa), (b, sb)).
      let a = note_delay_count delays a; b = note_delay_count delays b in
      if delays < lim
      then and_then (collect_path env code active_a na ra m l (ca delays) delays a) (\<lambda>a.
           and_then (collect_path env code active_b nb rb m l (cb delays) delays b) (\<lambda>b. ret (a, b)))
      else ret (not_ready_path active_a l' delays sa a, not_ready_path active_b l' delays sb b)))
    (\<lambda>(a, b). wf_path (Suc k) a \<and> wf_path (Suc k) b)"
  unfolding Let_def
  apply (rule gives_and_then [OF wf_poll_ready [where k = k]], simp add: assms, simp add: assms)
  apply (clarsimp split del: if_split)
  apply (split if_split, intro conjI impI)
   apply (rule gives_and_then [OF wf_collect [OF _ assms(3) assms(4)]], simp)
   apply (rule gives_and_then [OF wf_collect [OF _ assms(3) assms(5)]], simp)
   apply (rule gives_ret, simp)
  apply (rule gives_ret, simp add: wf_not_ready assms(3))
  done

lemma wf_tx_round:
  assumes "wf_path k (fst paths)" "wf_path k (snd paths)" "k < 10"
  shows "gives (tx_round env paths) (\<lambda>(a, b). wf_path (Suc k) a \<and> wf_path (Suc k) b)"
  unfolding tx_round_def by (rule gives_do wf_round [OF assms wf_capture(1) wf_capture(1)])+

lemma wf_rx_round:
  assumes "wf_path k (fst paths)" "wf_path k (snd paths)" "k < 10"
  shows "gives (rx_round env ta tb rfe paths) (\<lambda>(a, b). wf_path (Suc k) a \<and> wf_path (Suc k) b)"
  unfolding rx_round_def Let_def by (rule gives_do wf_round [OF assms wf_capture(2) wf_capture(2), unfolded Let_def])+

lemma wf_tx_rounds:
  "k + n \<le> 10 \<Longrightarrow> wf_path k (fst paths) \<Longrightarrow> wf_path k (snd paths) \<Longrightarrow>
     gives (tx_rounds env n paths) (\<lambda>(a, b). wf_path 10 a \<and> wf_path 10 b)"
proof (induction n arbitrary: k paths)
  case 0
  then show ?case by (simp add: gives_def never_def)
next
  case (Suc n)
  have round: "gives (tx_round env paths) (\<lambda>(a, b). wf_path (Suc k) a \<and> wf_path (Suc k) b)"
    using Suc.prems by (intro wf_tx_round) simp_all
  have now: "gives (ret ps) (\<lambda>(a, b). wf_path 10 a \<and> wf_path 10 b)"
    if "wf_path i (fst ps)" "wf_path i (snd ps)" "i \<le> 10" for ps i
    using that by (cases ps) (auto intro: gives_ret wf_more)
  have again: "gives (tx_rounds env n (a, b)) (\<lambda>(a, b). wf_path 10 a \<and> wf_path 10 b)" if "wf_path (Suc k) a" "wf_path (Suc k) b" for a b
    using that Suc.prems(1) by (intro Suc.IH [of "Suc k"]) simp_all
  show ?case
    unfolding tx_rounds.simps
    apply (rule gives_if, rule now [OF Suc.prems(2,3)])
    using Suc.prems(1) apply simp
    apply (rule gives_and_then [OF round], clarify)
    apply (rule gives_if, rule now [of "Suc k"], simp, simp, use Suc.prems(1) in simp)
    apply (rule gives_if, rule now [of "Suc k"], simp, simp, use Suc.prems(1) in simp)
    apply (rule again, assumption+)
    done
qed

lemma wf_rx_rounds:
  "k + n \<le> 10 \<Longrightarrow> wf_path k (fst paths) \<Longrightarrow> wf_path k (snd paths) \<Longrightarrow>
     gives (rx_rounds env ta tb rfe n paths) (\<lambda>(a, b). wf_path 10 a \<and> wf_path 10 b)"
proof (induction n arbitrary: k paths)
  case 0
  then show ?case by (simp add: gives_def never_def)
next
  case (Suc n)
  have round: "gives (rx_round env ta tb rfe paths) (\<lambda>(a, b). wf_path (Suc k) a \<and> wf_path (Suc k) b)"
    using Suc.prems by (intro wf_rx_round) simp_all
  have now: "gives (ret ps) (\<lambda>(a, b). wf_path 10 a \<and> wf_path 10 b)"
    if "wf_path i (fst ps)" "wf_path i (snd ps)" "i \<le> 10" for ps i
    using that by (cases ps) (auto intro: gives_ret wf_more)
  have again: "gives (rx_rounds env ta tb rfe n (a, b)) (\<lambda>(a, b). wf_path 10 a \<and> wf_path 10 b)" if "wf_path (Suc k) a" "wf_path (Suc k) b" for a b
    using that Suc.prems(1) by (intro Suc.IH [of "Suc k"]) simp_all
  show ?case
    unfolding rx_rounds.simps
    apply (rule gives_if, rule now [OF Suc.prems(2,3)])
    using Suc.prems(1) apply simp
    apply (rule gives_and_then [OF round], clarify)
    apply (rule gives_if, rule now [of "Suc k"], simp, simp, use Suc.prems(1) in simp)
    apply (rule gives_if, rule now [of "Suc k"], simp, simp, use Suc.prems(1) in simp)
    apply (rule again, assumption+)
    done
qed

lemma wf_tx_stages: "gives (run_rtl8812au_runtime_iqk_tx_oneshot env) (\<lambda>(a, b). wf_stage a \<and> wf_stage b)"
  unfolding run_rtl8812au_runtime_iqk_tx_oneshot_def IQK_ROUNDS_def
  by (rule gives_and_then [OF wf_tx_rounds [where k = 0]]) (auto intro!: gives_ret wf_into_stage simp: wf_start)

lemma wf_rx_stages: "gives (run_rtl8812au_runtime_iqk_rx_oneshot env ta tb rfe) (\<lambda>(a, b). wf_stage a \<and> wf_stage b)"
  unfolding run_rtl8812au_runtime_iqk_rx_oneshot_def IQK_ROUNDS_def Let_def
  apply (rule gives_do)+
  apply (split if_split, intro conjI impI)
   apply (rule gives_ret, simp add: wf_skipped)
  apply (rule gives_and_then [OF wf_rx_rounds [where k = 0]], simp_all add: wf_start)
  apply (auto intro!: gives_ret wf_into_stage wf_skipped)
  done


section \<open>The report of a sweep and of the calibration\<close>

definition wf_paths :: "iqk_path_report list \<Rightarrow> bool" where
  "wf_paths ps \<longleftrightarrow> map iq_path ps = [RfA, RfB] \<and> list_all (\<lambda>p. wf_stage (iq_tx p) \<and> wf_stage (iq_rx p)) ps"

lemma wf_stages: "gives (iqk_stages env channel rfe) (\<lambda>(ta, ra, tb, rb). wf_stage ta \<and> wf_stage ra \<and> wf_stage tb \<and> wf_stage rb)"
  unfolding iqk_stages_def
  by (rule gives_do, rule gives_and_then [OF wf_tx_stages], clarify, rule gives_and_then [OF wf_rx_stages], clarify, rule gives_ret)
    simp

lemma wf_fill_plan [simp]: "wf_stage (r\<lparr>stg_fill_plan := w\<rparr>) = wf_stage r"
  by (simp add: wf_stage_def cong: option.case_cong)

lemma wf_fill:
  "wf_stage tx \<Longrightarrow> wf_stage rx \<Longrightarrow>
     gives (apply_rtl8812au_runtime_iqk_fill env path tx rx) (\<lambda>(_, tx', rx'). wf_stage tx' \<and> wf_stage rx')"
  unfolding apply_rtl8812au_runtime_iqk_fill_def Let_def
  by (rule gives_then, rule gives_then, rule gives_do, rule gives_ret) simp

lemma wf_finish:
  assumes "wf_stage ta" "wf_stage ra" "wf_stage tb" "wf_stage rb"
  shows "gives (iqk_finish env c rs backup pre cleanup (ta, ra, tb, rb)) (\<lambda>r. wf_paths (iq_paths r))"
  unfolding iqk_finish_def prod.case Let_def
  apply (rule gives_and_then [where P = "\<lambda>(_, ta, ra, tb, rb). wf_stage ta \<and> wf_stage ra \<and> wf_stage tb \<and> wf_stage rb"])
   apply (rule gives_if)
    apply (rule gives_and_then [OF wf_fill [OF assms(1,2)]], clarify)
    apply (rule gives_and_then [OF wf_fill [OF assms(3,4)]], clarify)
    apply (rule gives_ret, simp)
   apply (rule gives_ret, simp add: assms)
  apply (clarify, (rule gives_then)+, rule gives_ret, simp add: wf_paths_def)
  done

lemma gives_as_value: "gives m Q \<Longrightarrow> gives (as_value m) (\<lambda>r. \<forall>x. r = Inr x \<longrightarrow> Q x)"
  unfolding gives_def as_value_def by (fastforce split: option.splits)

lemma wf_sweep: "gives (run_rtl8812au_runtime_iqk_calibration_sweep env channel rfe) (\<lambda>r. wf_paths (iq_paths r))"
  unfolding run_rtl8812au_runtime_iqk_calibration_sweep_def
  apply (rule gives_then, rule gives_then, rule gives_then, rule gives_then)
  apply (rule gives_and_then [OF gives_as_value [OF wf_stages]])
  apply (rule gives_then)
  apply (auto intro: gives_fail wf_finish split: sum.split)
  done

text \<open>
  \<open>wf_sweeps k r\<close>: \<open>r\<close> is the report after \<open>k\<close> sweeps, with one numbered summary for each, and the
  last of them is the summary of the sweep that \<open>r\<close> shows.
\<close>

definition own_summary :: "iqk_calibration \<Rightarrow> sweep_summary" where
  "own_summary r = rtl8812au_runtime_iqk_sweep_summary (iq_paths r) (iq_status r) (iq_cleanup_status r) (iq_sweep_index r)"

definition unfinished_summaries :: "nat \<Rightarrow> sweep_summary list \<Rightarrow> bool" where
  "unfinished_summaries k ss \<longleftrightarrow>
     map ss_sweep_index ss = map (\<lambda>i. of_nat (i + 1)) [0..<k] \<and> list_all (\<lambda>s. ss_status s \<noteq> ''completed'') ss"

definition wf_sweeps :: "nat \<Rightarrow> iqk_calibration \<Rightarrow> bool" where
  "wf_sweeps k r \<longleftrightarrow>
     unat (iq_sweep_index r) = Suc k \<and> iq_sweep_count r = iq_sweep_index r \<and> iq_max_sweeps r = 3 \<and> wf_paths (iq_paths r) \<and>
     (\<exists>before. iq_sweep_summaries r = before @ [own_summary r] \<and> unfinished_summaries k before)"

text \<open>The report ends the calibration: it is completed, or the third.\<close>

definition wf_report :: "iqk_calibration \<Rightarrow> bool" where
  "wf_report r \<longleftrightarrow> (\<exists>k \<le> 2. wf_sweeps k r \<and> (iq_status r = ''completed'' \<or> k = 2))"

lemma wf_sweeps_rest:
  "k + length ks = 3 \<Longrightarrow> map (\<lambda>i. of_nat (i + 1)) [k..<3] = ks \<Longrightarrow> unfinished_summaries k ss \<Longrightarrow>
     (case last_report of None \<Rightarrow> k = 0 | Some r \<Rightarrow> 0 < k \<and> wf_sweeps (k - 1) r) \<Longrightarrow>
     gives (iqk_sweeps env channel rfe c ks ss last_report) wf_report"
proof (induction ks arbitrary: k ss last_report)
  case Nil
  then show ?case by (auto simp: wf_report_def intro!: gives_fail gives_ret split: option.split)
next
  case (Cons j ks)
  have k: "k < 3" "j = of_nat (k + 1)" "map (\<lambda>i. of_nat (i + 1)) [Suc k..<3] = ks"
    using Cons.prems(1,2) by (auto simp: upt_conv_Cons)
  have "k = 0 \<or> k = 1 \<or> k = 2" using k(1) by auto
  then have j: "unat j = Suc k" using k(2) by auto
  let ?step = "\<lambda>r n. r\<lparr>iq_sweep_index := j, iq_sweep_count := j, iq_max_sweeps := RTL8812A_IQK_MAX_SWEEPS,
           iq_sweep_summaries := ss @
           [rtl8812au_runtime_iqk_sweep_summary (iq_paths r) (iq_status r) (iq_cleanup_status r) j],
           iq_counters := counters_saturating_sub n c\<rparr>"
  have step: "wf_sweeps k (?step r n)" if "wf_paths (iq_paths r)" for r n
    using that j Cons.prems(3) by (auto simp: wf_sweeps_def own_summary_def RTL8812A_IQK_MAX_SWEEPS_def)
  have rest: "unfinished_summaries (Suc k) (ss @
           [rtl8812au_runtime_iqk_sweep_summary (iq_paths r) (iq_status r) (iq_cleanup_status r) j])"
    if "iq_status r \<noteq> ''completed''" for r
    using that k(2) Cons.prems(3) by (simp add: unfinished_summaries_def rtl8812au_runtime_iqk_sweep_summary_def)
  show ?case
    unfolding iqk_sweeps.simps Let_def
    apply (rule gives_and_then [OF wf_sweep], rule gives_then, rule gives_if)
     apply (rule gives_ret)
     apply (unfold wf_report_def, rule exI [of _ k], intro conjI, use k(1) in simp, rule step, assumption, rule disjI1, assumption)
    apply (unfold wf_report_def [symmetric], rule Cons.IH [of "Suc k"])
       apply (use Cons.prems(1) in simp)
      apply (rule k(3))
     apply (rule rest, simp)
    apply (simp add: step)
    done
qed

lemma wf_calibration: "gives (run_rtl8812au_runtime_iqk_calibration env channel rfe) wf_report"
  unfolding run_rtl8812au_runtime_iqk_calibration_def
  by (rule gives_then, rule wf_sweeps_rest [where k = 0])
    (simp_all add: RTL8812A_IQK_MAX_SWEEPS_def unfinished_summaries_def upt_conv_Cons)

text \<open>
  C22. Every report that the I/Q calibration returns is well formed: it shows the last of at most
  three sweeps, the completed one or the third, after one numbered summary for each sweep; it has
  the stages of both paths; and in each stage the attempts are at most ten and numbered from one,
  every attempt counts as a retry or has a candidate of eleven bit components, and the stage is a
  success exactly when two of its candidates agree, with their mean as the selected pair, and has
  the default correction and a label otherwise.
\<close>

theorem calibration_report_well_formed:
  assumes "run_rtl8812au_runtime_iqk_calibration env channel rfe s = Some (Inr report, s')"
  shows "wf_report report"
  using wf_calibration assms unfolding gives_def by blast

lemma calibration_report_well_formed_witness:
  "\<exists>report s'. run_rtl8812au_runtime_iqk_calibration (logged measuring) sample_channel_36 3
       (((), []), radio_counters_default) = Some (Inr report, s') \<and> wf_report report"
proof -
  obtain report s' where run: "run_rtl8812au_runtime_iqk_calibration (logged measuring) sample_channel_36 3
       (((), []), radio_counters_default) = Some (Inr report, s')"
    using device_sweeps unfolding yields_def by blast
  then show ?thesis using calibration_report_well_formed [OF run] by blast
qed

end
