(* ===== verification/Usb_Open.thy ===== *)
theory Usb_Open
  imports Usb Bring_Up Mac_Address
begin

text \<open>
  Opening the adapter: enumeration and claim with libusb (\<open>radio-core/src/usb.rs\<close>) and the choice
  of a transport by the runtime (\<open>wfb-radio-runtime/src/lib.rs\<close>): libusb, the macOS USB host or a file
  descriptor handed over by an Android application.  The calls of libusb and of the macOS bridge are
  parameters.
\<close>

section \<open>The calls of the USB libraries\<close>

datatype target_os = TargetLinux | TargetMacos | TargetAndroid | TargetOther

record device_descriptor =
  dd_vendor_id :: u16
  dd_product_id :: u16
  dd_class_code :: u8
  dd_sub_class_code :: u8
  dd_protocol_code :: u8

record 'r rusb_device =
  rd_device_descriptor :: "('r, device_descriptor) result"
  rd_bus_number :: u8
  rd_address :: u8
  rd_speed_name :: string
  rd_config_descriptor :: "('r, config_descriptor) result"

record macos_open_request =
  mo_vid :: u16
  mo_pid :: u16
  mo_configuration_value :: u8
  mo_match_interfaces :: bool
  mo_interface_number :: u8
  mo_bulk_in_endpoint :: u8
  mo_bulk_out_endpoint :: u8
  mo_poll_attempts :: u32
  mo_poll_delay :: nat

text \<open>
  A handle \<open>'h\<close> is an open device of libusb or a session of the macOS bridge, which also says
  whether it wrote the configuration.
\<close>

record ('r, 'h, 'w) usb_host =
  uh_target_os :: target_os
  uh_show_rusb :: "'r \<Rightarrow> string"
  uh_devices :: "'w \<Rightarrow> ('r, 'r rusb_device list) result \<times> 'w"
  uh_open :: "'r rusb_device \<Rightarrow> 'w \<Rightarrow> ('r, 'h) result \<times> 'w"
  uh_manufacturer :: "'h \<Rightarrow> device_descriptor \<Rightarrow> 'w \<Rightarrow> ('r, string) result \<times> 'w"
  uh_product :: "'h \<Rightarrow> device_descriptor \<Rightarrow> 'w \<Rightarrow> ('r, string) result \<times> 'w"
  uh_serial_number :: "'h \<Rightarrow> device_descriptor \<Rightarrow> 'w \<Rightarrow> ('r, string) result \<times> 'w"
  uh_kernel_driver_active :: "'h \<Rightarrow> u8 \<Rightarrow> 'w \<Rightarrow> ('r, bool) result \<times> 'w"
  uh_detach_kernel_driver :: "'h \<Rightarrow> u8 \<Rightarrow> 'w \<Rightarrow> ('r, unit) result \<times> 'w"
  uh_claim_interface :: "'h \<Rightarrow> u8 \<Rightarrow> 'w \<Rightarrow> ('r, unit) result \<times> 'w"
  uh_open_fd :: "32 word \<Rightarrow> 'w \<Rightarrow> ('r, 'h) result \<times> 'w"
  uh_open_macos :: "macos_open_request \<Rightarrow> 'w \<Rightarrow> (string, 'h \<times> bool) result \<times> 'w"

text \<open>The result of a call goes on with \<open>f\<close>, an error stops (\<open>?\<close> with its conversion).\<close>

definition try_call :: "('e, 'a) result \<times> 'w \<Rightarrow> ('e \<Rightarrow> 'f) \<Rightarrow> ('a \<Rightarrow> 'w \<Rightarrow> ('f, 'b) result \<times> 'w) \<Rightarrow> ('f, 'b) result \<times> 'w" where
  "try_call call conv f = (case call of (Inl e, w) \<Rightarrow> (Inl (conv e), w) | (Inr x, w) \<Rightarrow> f x w)"

section \<open>Enumeration\<close>

definition usb_blank :: "char \<Rightarrow> bool" where
  "usb_blank c \<longleftrightarrow> (of_char c :: nat) = 0 \<or> 9 \<le> (of_char c :: nat) \<and> (of_char c :: nat) \<le> 13 \<or> c = CHR '' ''"

definition clean_usb_string :: "string \<Rightarrow> string option" where
  "clean_usb_string v =
     (let cleaned = rev (dropWhile usb_blank (rev (dropWhile usb_blank v)))
      in if cleaned = [] then None else Some cleaned)"

definition to_ascii_lowercase :: "string \<Rightarrow> string" where
  "to_ascii_lowercase = map (\<lambda>c. if 65 \<le> (of_char c :: nat) \<and> (of_char c :: nat) \<le> 90 then char_of ((of_char c :: nat) + 32) else c)"

fun ok_string :: "('r, string) result \<Rightarrow> string option" where
  "ok_string (Inl _) = None"
| "ok_string (Inr s) = clean_usb_string s"

definition read_strings ::
    "('r, 'h, 'w) usb_host \<Rightarrow> 'r rusb_device \<Rightarrow> device_descriptor \<Rightarrow> 'w \<Rightarrow>
     (string option \<times> string option \<times> string option) \<times> 'w" where
  "read_strings host device descriptor w =
     (case uh_open host device w of
        (Inl _, w) \<Rightarrow> ((None, None, None), w)
      | (Inr handle, w) \<Rightarrow>
          (let (manufacturer, w) = uh_manufacturer host handle descriptor w;
               (product, w) = uh_product host handle descriptor w;
               (serial_number, w) = uh_serial_number host handle descriptor w
           in ((ok_string manufacturer, ok_string product, ok_string serial_number), w)))"

definition build_device_info ::
    "('r, 'h, 'w) usb_host \<Rightarrow> 'r rusb_device \<Rightarrow> device_descriptor \<Rightarrow> 'w \<Rightarrow> usb_device_info \<times> 'w" where
  "build_device_info host device descriptor w =
     (let ((manufacturer, product, serial_number), w) = read_strings host device descriptor w;
          vid = dd_vendor_id descriptor; pid = dd_product_id descriptor
      in (\<lparr>ud_vid = vid, ud_pid = pid, ud_vid_hex = ''0x'' @ show_hex 4 (unat vid), ud_pid_hex = ''0x'' @ show_hex 4 (unat pid),
           ud_bus = rd_bus_number device, ud_address = rd_address device,
           ud_speed = to_ascii_lowercase (rd_speed_name device), ud_class_code = dd_class_code descriptor,
           ud_sub_class_code = dd_sub_class_code descriptor, ud_protocol_code = dd_protocol_code descriptor,
           ud_manufacturer = manufacturer, ud_product = product, ud_serial_number = serial_number,
           ud_known_adapter = lookup_known_adapter vid pid,
           ud_interfaces = (case read_interfaces (rd_config_descriptor device) of Inl _ \<Rightarrow> [] | Inr is \<Rightarrow> is)\<rparr>, w))"

text \<open>A device whose descriptor cannot be read is skipped.\<close>

fun collect_devices_loop :: "('r, 'h, 'w) usb_host \<Rightarrow> 'r rusb_device list \<Rightarrow> 'w \<Rightarrow> usb_device_info list \<times> 'w" where
  "collect_devices_loop host [] w = ([], w)"
| "collect_devices_loop host (device # devices) w =
     (case rd_device_descriptor device of
        Inl _ \<Rightarrow> collect_devices_loop host devices w
      | Inr descriptor \<Rightarrow>
          (let (info, w) = build_device_info host device descriptor w;
               (infos, w) = collect_devices_loop host devices w
           in (info # infos, w)))"

definition collect_usb_devices :: "('r, 'h, 'w) usb_host \<Rightarrow> 'w \<Rightarrow> ('r usb_error, usb_device_info list) result \<times> 'w" where
  "collect_usb_devices host w =
     try_call (uh_devices host w) Rusb (\<lambda>devices w.
     let (infos, w) = collect_devices_loop host devices w in (Inr infos, w))"

definition list_usb_devices ::
    "('r, 'h, 'w) usb_host \<Rightarrow> bool \<Rightarrow> 'w \<Rightarrow> ('r usb_error, usb_device_info list) result \<times> 'w" where
  "list_usb_devices host include_unsupported w =
     try_call (collect_usb_devices host w) id (\<lambda>devices w.
     (Inr (filter (\<lambda>device. include_unsupported \<or> ud_known_adapter device \<noteq> None) devices), w))"

section \<open>Claiming\<close>

definition DEFAULT_INTERFACE :: u8 where "DEFAULT_INTERFACE = 0"

record 'h claimed_usb_device =
  cu_handle :: 'h
  cu_interface_number :: u8
  cu_info :: usb_device_info
  cu_endpoints :: usb_endpoints

text \<open>The device found again by identity and location; on Linux a kernel driver is detached first.\<close>

definition claim_device ::
    "('r, 'h, 'w) usb_host \<Rightarrow> usb_device_info \<Rightarrow> 'r rusb_device \<Rightarrow> 'w \<Rightarrow>
     ('r usb_error, 'h claimed_usb_device) result \<times> 'w" where
  "claim_device host info device w =
     (case discover_bulk_endpoints (rd_config_descriptor device) DEFAULT_INTERFACE of
        Inl e \<Rightarrow> (Inl e, w)
      | Inr endpoints \<Rightarrow>
          if ue_bulk_in endpoints = None \<or> ue_bulk_out endpoints = None
          then (Inl (MissingBulkEndpoints DEFAULT_INTERFACE), w)
          else
            try_call (uh_open host device w) Rusb (\<lambda>handle w.
            let w = (if uh_target_os host = TargetLinux
                  then (case uh_kernel_driver_active host handle DEFAULT_INTERFACE w of
                      (Inr True, w) \<Rightarrow> snd (uh_detach_kernel_driver host handle DEFAULT_INTERFACE w)
                    | (_, w) \<Rightarrow> w)
                  else w)
            in try_call (uh_claim_interface host handle DEFAULT_INTERFACE w) Rusb (\<lambda>_ w.
               (Inr \<lparr>cu_handle = handle, cu_interface_number = DEFAULT_INTERFACE, cu_info = info,
                     cu_endpoints = endpoints\<rparr>, w))))"

fun claim_usb_device_loop ::
    "('r, 'h, 'w) usb_host \<Rightarrow> usb_device_info \<Rightarrow> 'r rusb_device list \<Rightarrow> 'w \<Rightarrow>
     ('r usb_error, 'h claimed_usb_device) result \<times> 'w" where
  "claim_usb_device_loop host info [] w = (Inl DeviceDisappeared, w)"
| "claim_usb_device_loop host info (device # devices) w =
     (case rd_device_descriptor device of
        Inl e \<Rightarrow> (Inl (Rusb e), w)
      | Inr descriptor \<Rightarrow>
          if dd_vendor_id descriptor = ud_vid info \<and> dd_product_id descriptor = ud_pid info \<and>
             rd_bus_number device = ud_bus info \<and> rd_address device = ud_address info
          then claim_device host info device w
          else claim_usb_device_loop host info devices w)"

definition claim_usb_device ::
    "('r, 'h, 'w) usb_host \<Rightarrow> usb_device_info \<Rightarrow> 'w \<Rightarrow> ('r usb_error, 'h claimed_usb_device) result \<times> 'w" where
  "claim_usb_device host info w =
     try_call (uh_devices host w) Rusb (claim_usb_device_loop host info)"

definition show_i32 :: "32 word \<Rightarrow> string" where
  "show_i32 v = (if sint v < 0 then CHR ''-'' # show_nat (nat (- sint v)) else show_nat (nat (sint v)))"

definition claim_usb_device_from_fd ::
    "('r, 'h, 'w) usb_host \<Rightarrow> 32 word \<Rightarrow> usb_device_info \<Rightarrow> usb_endpoints \<Rightarrow> u8 \<Rightarrow> 'w \<Rightarrow>
     ('r usb_error, 'h claimed_usb_device) result \<times> 'w" where
  "claim_usb_device_from_fd host fd info endpoints interface_number w =
     (if sint fd < 0 then (Inl (Backend (''invalid USB device file descriptor '' @ show_i32 fd)), w)
      else if ue_bulk_in endpoints = None \<or> ue_bulk_out endpoints = None
      then (Inl (MissingBulkEndpoints interface_number), w)
      else
        try_call (uh_open_fd host fd w) Rusb (\<lambda>handle w.
        try_call (uh_claim_interface host handle interface_number w) Rusb (\<lambda>_ w.
        (Inr \<lparr>cu_handle = handle, cu_interface_number = interface_number, cu_info = info, cu_endpoints = endpoints\<rparr>, w))))"

section \<open>Transports of the runtime\<close>

datatype 'h usb_transport = LibusbTransport "'h claimed_usb_device" | AndroidTransport "'h claimed_usb_device" | MacosTransport 'h

record macos_usbhost_config =
  mc_configuration_value :: u8
  mc_interface_number :: u8
  mc_bulk_in_endpoint :: u8
  mc_bulk_out_endpoint :: u8
  mc_bulk_out_endpoint_count :: nat
  mc_poll_attempts :: u32
  mc_poll_delay :: nat

definition macos_usbhost_config_default :: macos_usbhost_config where
  "macos_usbhost_config_default =
     \<lparr>mc_configuration_value = 1, mc_interface_number = 0, mc_bulk_in_endpoint = 0x81, mc_bulk_out_endpoint = 0x02,
      mc_bulk_out_endpoint_count = 3, mc_poll_attempts = 25, mc_poll_delay = 100 * 1000000\<rparr>"

record android_usbhost_config =
  ac_device_fd :: "32 word option"
  ac_interface_number :: u8
  ac_bulk_in_endpoint :: u8
  ac_bulk_out_endpoint :: u8
  ac_bulk_out_endpoint_count :: nat

definition android_usbhost_config_default :: android_usbhost_config where
  "android_usbhost_config_default =
     \<lparr>ac_device_fd = None, ac_interface_number = 0, ac_bulk_in_endpoint = 0x81, ac_bulk_out_endpoint = 0x02,
      ac_bulk_out_endpoint_count = 3\<rparr>"

record transport_error =
  tre_code :: string
  tre_message :: string

definition transport_error_new :: "string \<Rightarrow> string \<Rightarrow> transport_error" where
  "transport_error_new code message = \<lparr>tre_code = code, tre_message = message\<rparr>"

record 'h transport_open =
  tro_transport :: "'h usb_transport"
  tro_adapter :: usb_device_info
  tro_endpoints :: usb_endpoints
  tro_initial_usb_control_writes :: u64

datatype usb_backend = BackendLibusb | BackendMacos macos_usbhost_config | BackendAndroid android_usbhost_config

record usb_open_config =
  uo_selector :: device_selector
  uo_backend :: usb_backend

section \<open>Endpoints of a host without descriptors\<close>

text \<open>The two hosts differ in the names of their errors; \<open>os\<close> and \<open>label\<close> are these names.\<close>

definition usbhost_bulk_out_endpoints :: "string \<Rightarrow> nat \<Rightarrow> (transport_error, u8 list) result" where
  "usbhost_bulk_out_endpoints label n =
     (if n = 2 then Inr [0x02, 0x03]
      else if n = 3 then Inr [0x02, 0x03, 0x04]
      else if n = 4 then Inr [0x02, 0x03, 0x04, 0x05]
      else Inl (transport_error_new ''unsupported_bulk_out_endpoint_count''
        (''queue/DMA setup supports 2, 3, or 4 '' @ label @ '' bulk OUT endpoints, configured '' @ show_nat n)))"

definition debug_u8_list :: "u8 list \<Rightarrow> string" where
  "debug_u8_list xs = ''['' @ join_strings '', '' (map (\<lambda>x. show_nat (unat x)) xs) @ '']''"

definition usbhost_endpoints :: "string \<Rightarrow> string \<Rightarrow> u8 \<Rightarrow> u8 \<Rightarrow> u8 \<Rightarrow> nat \<Rightarrow> (transport_error, usb_endpoints) result" where
  "usbhost_endpoints os label interface_number bulk_in bulk_out bulk_out_count =
     (if bulk_in AND 0x80 = 0
      then Inl (transport_error_new (''invalid_'' @ os @ ''_bulk_in_endpoint'')
        (label @ '' bulk IN endpoint must have the USB IN direction bit set, got 0x'' @ show_hex 2 (unat bulk_in)))
      else if bulk_out AND 0x80 \<noteq> 0
      then Inl (transport_error_new (''invalid_'' @ os @ ''_bulk_out_endpoint'')
        (label @ '' bulk OUT endpoint must not have the USB IN direction bit set, got 0x'' @ show_hex 2 (unat bulk_out)))
      else
        bind_res (usbhost_bulk_out_endpoints label bulk_out_count) (\<lambda>bulk_out_all.
        if bulk_out \<notin> set bulk_out_all
        then Inl (transport_error_new (os @ ''_bulk_out_endpoint_not_in_layout'')
          (''selected '' @ label @ '' bulk OUT endpoint 0x'' @ show_hex 2 (unat bulk_out) @
           '' is not in the derived RTL8812AU endpoint layout '' @ debug_u8_list bulk_out_all))
        else Inr \<lparr>ue_interface_number = interface_number, ue_bulk_in = Some bulk_in, ue_bulk_out = Some bulk_out,
                  ue_bulk_in_all = [bulk_in], ue_bulk_out_all = bulk_out_all\<rparr>))"

definition macos_usbhost_endpoints :: "macos_usbhost_config \<Rightarrow> (transport_error, usb_endpoints) result" where
  "macos_usbhost_endpoints config =
     usbhost_endpoints ''macos'' ''macOS'' (mc_interface_number config) (mc_bulk_in_endpoint config)
       (mc_bulk_out_endpoint config) (mc_bulk_out_endpoint_count config)"

definition android_usbhost_endpoints :: "android_usbhost_config \<Rightarrow> (transport_error, usb_endpoints) result" where
  "android_usbhost_endpoints config =
     usbhost_endpoints ''android'' ''Android'' (ac_interface_number config) (ac_bulk_in_endpoint config)
       (ac_bulk_out_endpoint config) (ac_bulk_out_endpoint_count config)"

definition usbhost_adapter_info :: "string \<Rightarrow> string \<Rightarrow> u16 \<Rightarrow> u16 \<Rightarrow> usb_endpoints \<Rightarrow> usb_device_info" where
  "usbhost_adapter_info speed product vid pid endpoints =
     (let endpoint = (\<lambda>address direction. \<lparr>ep_address = address, ep_direction = direction, ep_transfer_type = ''bulk'',
            ep_max_packet_size = 512, ep_interval = 0\<rparr>);
          endpoint_infos =
            (case ue_bulk_in endpoints of None \<Rightarrow> [] | Some bulk_in \<Rightarrow> [endpoint bulk_in ''in'']) @
            map (\<lambda>bulk_out. endpoint bulk_out ''out'') (ue_bulk_out_all endpoints)
      in \<lparr>ud_vid = vid, ud_pid = pid, ud_vid_hex = ''0x'' @ show_hex 4 (unat vid), ud_pid_hex = ''0x'' @ show_hex 4 (unat pid),
          ud_bus = 0, ud_address = 0, ud_speed = speed, ud_class_code = 0, ud_sub_class_code = 0, ud_protocol_code = 0,
          ud_manufacturer = None, ud_product = Some product, ud_serial_number = None,
          ud_known_adapter = lookup_known_adapter vid pid,
          ud_interfaces = [\<lparr>if_number = ue_interface_number endpoints, if_setting_number = 0, if_class_code = 0xff,
            if_sub_class_code = 0xff, if_protocol_code = 0xff, if_endpoints = endpoint_infos\<rparr>]\<rparr>)"

definition macos_usbhost_adapter_info :: "u16 \<Rightarrow> u16 \<Rightarrow> usb_endpoints \<Rightarrow> usb_device_info" where
  "macos_usbhost_adapter_info = usbhost_adapter_info ''high-speed (IOUSBHost)'' ''RTL8812AU via macOS IOUSBHost''"

definition android_usbhost_adapter_info :: "u16 \<Rightarrow> u16 \<Rightarrow> usb_endpoints \<Rightarrow> usb_device_info" where
  "android_usbhost_adapter_info = usbhost_adapter_info ''high-speed (Android USB host)'' ''RTL8812AU via Android USB host''"

section \<open>Opening\<close>

definition unregistered_adapter :: "u16 \<Rightarrow> u16 \<Rightarrow> transport_error" where
  "unregistered_adapter vid pid =
     transport_error_new ''unsupported_adapter''
       (''USB device 0x'' @ show_hex 4 (unat vid) @ '':0x'' @ show_hex 4 (unat pid) @
        '' is not registered as a supported RTL8812AU adapter'')"

definition ok_or :: "'a option \<Rightarrow> 'e \<Rightarrow> ('e, 'a) result" where
  "ok_or x e = (case x of None \<Rightarrow> Inl e | Some v \<Rightarrow> Inr v)"

record android_open_plan =
  ap_device_fd :: "32 word"
  ap_vid :: u16
  ap_pid :: u16
  ap_endpoints :: usb_endpoints

definition android_usbhost_open_plan ::
    "android_usbhost_config \<Rightarrow> device_selector \<Rightarrow> (transport_error, android_open_plan) result" where
  "android_usbhost_open_plan config selector =
     (if sel_bus selector \<noteq> None \<or> sel_address selector \<noteq> None
      then Inl (transport_error_new ''unsupported_android_selector_location''
        ''Android USBHost transport is selected by app-owned device file descriptor plus VID/PID metadata, not USB bus/address'')
      else
        bind_res (ok_or (ac_device_fd config) (transport_error_new ''missing_android_device_fd''
          ''Android USBHost transport requires a UsbDeviceConnection file descriptor supplied by the app layer'')) (\<lambda>device_fd.
        if sint device_fd < 0
        then Inl (transport_error_new ''invalid_android_device_fd''
          (''Android USBHost device file descriptor must be non-negative, got '' @ show_i32 device_fd))
        else
          bind_res (ok_or (sel_vid selector) (transport_error_new ''missing_vid''
            ''Android USBHost transport requires VID metadata for adapter validation and reports'')) (\<lambda>vid.
          bind_res (ok_or (sel_pid selector) (transport_error_new ''missing_pid''
            ''Android USBHost transport requires PID metadata for adapter validation and reports'')) (\<lambda>pid.
          if lookup_known_adapter vid pid = None then Inl (unregistered_adapter vid pid)
          else
            bind_res (android_usbhost_endpoints config) (\<lambda>endpoints.
            Inr \<lparr>ap_device_fd = device_fd, ap_vid = vid, ap_pid = pid, ap_endpoints = endpoints\<rparr>)))))"

definition open_android_usbhost_transport ::
    "('r, 'h, 'w) usb_host \<Rightarrow> android_usbhost_config \<Rightarrow> device_selector \<Rightarrow> 'w \<Rightarrow>
     (transport_error, 'h transport_open) result \<times> 'w" where
  "open_android_usbhost_transport host config selector w =
     (if uh_target_os host \<noteq> TargetAndroid
      then (Inl (transport_error_new ''unsupported_platform'' ''Android USB host transport requires Android''), w)
      else
        try_call (android_usbhost_open_plan config selector, w) id (\<lambda>plan w.
        let adapter = android_usbhost_adapter_info (ap_vid plan) (ap_pid plan) (ap_endpoints plan)
        in try_call (claim_usb_device_from_fd host (ap_device_fd plan) adapter (ap_endpoints plan)
               (ue_interface_number (ap_endpoints plan)) w)
             (\<lambda>error. transport_error_new ''android_libusb_fd_open_failed'' (show_usb_error (uh_show_rusb host) error)) (\<lambda>claimed w.
           (Inr \<lparr>tro_transport = AndroidTransport claimed, tro_adapter = adapter, tro_endpoints = ap_endpoints plan,
                 tro_initial_usb_control_writes = 0\<rparr>, w))))"

definition macos_open_plan ::
    "macos_usbhost_config \<Rightarrow> device_selector \<Rightarrow> (transport_error, u16 \<times> u16 \<times> usb_endpoints) result" where
  "macos_open_plan config selector =
     (if sel_bus selector \<noteq> None \<or> sel_address selector \<noteq> None
      then Inl (transport_error_new ''unsupported_macos_selector_location''
        ''macOS IOUSBHost transport cannot yet select by USB bus/address; use --vid and --pid'')
      else
        bind_res (ok_or (sel_vid selector) (transport_error_new ''missing_vid''
          ''macOS IOUSBHost transport requires --vid because matching is VID/PID based'')) (\<lambda>vid.
        bind_res (ok_or (sel_pid selector) (transport_error_new ''missing_pid''
          ''macOS IOUSBHost transport requires --pid because matching is VID/PID based'')) (\<lambda>pid.
        if lookup_known_adapter vid pid = None then Inl (unregistered_adapter vid pid)
        else bind_res (macos_usbhost_endpoints config) (\<lambda>endpoints. Inr (vid, pid, endpoints)))))"

definition open_macos_usbhost_transport ::
    "('r, 'h, 'w) usb_host \<Rightarrow> macos_usbhost_config \<Rightarrow> device_selector \<Rightarrow> 'w \<Rightarrow>
     (transport_error, 'h transport_open) result \<times> 'w" where
  "open_macos_usbhost_transport host config selector w =
     (if uh_target_os host \<noteq> TargetMacos
      then (Inl (transport_error_new ''unsupported_platform'' ''macOS IOUSBHost transport requires macOS''), w)
      else
        try_call (macos_open_plan config selector, w) id (\<lambda>(vid, pid, endpoints) w.
        try_call (uh_open_macos host
            \<lparr>mo_vid = vid, mo_pid = pid, mo_configuration_value = mc_configuration_value config, mo_match_interfaces = True,
             mo_interface_number = mc_interface_number config, mo_bulk_in_endpoint = mc_bulk_in_endpoint config,
             mo_bulk_out_endpoint = mc_bulk_out_endpoint config, mo_poll_attempts = mc_poll_attempts config,
             mo_poll_delay = mc_poll_delay config\<rparr> w)
          (transport_error_new ''macos_session_open_failed'') (\<lambda>(session, configure_attempted) w.
        (Inr \<lparr>tro_transport = MacosTransport session, tro_adapter = macos_usbhost_adapter_info vid pid endpoints,
              tro_endpoints = endpoints, tro_initial_usb_control_writes = of_bool configure_attempted\<rparr>, w))))"

definition select_libusb_supported_adapter ::
    "('r, 'h, 'w) usb_host \<Rightarrow> device_selector \<Rightarrow> 'w \<Rightarrow> (transport_error, usb_device_info) result \<times> 'w" where
  "select_libusb_supported_adapter host selector w =
     try_call (list_usb_devices host False w)
       (\<lambda>error. transport_error_new ''usb_list_failed'' (show_usb_error (uh_show_rusb host) error)) (\<lambda>devices w.
     (ok_or (find (selector_matches selector) devices) (transport_error_new ''no_supported_adapter''
        (if selector_is_empty selector then ''no supported RTL8812AU adapter found''
         else ''no supported RTL8812AU adapter matched selector'')), w))"

definition open_libusb_transport ::
    "('r, 'h, 'w) usb_host \<Rightarrow> device_selector \<Rightarrow> 'w \<Rightarrow> (transport_error, 'h transport_open) result \<times> 'w" where
  "open_libusb_transport host selector w =
     try_call (select_libusb_supported_adapter host selector w) id (\<lambda>selected w.
     try_call (claim_usb_device host selected w)
       (\<lambda>error. transport_error_new ''usb_claim_failed'' (show_usb_error (uh_show_rusb host) error)) (\<lambda>claimed w.
     (Inr \<lparr>tro_transport = LibusbTransport claimed, tro_adapter = cu_info claimed, tro_endpoints = cu_endpoints claimed,
           tro_initial_usb_control_writes = 0\<rparr>, w)))"

definition open_runtime_usb_transport ::
    "('r, 'h, 'w) usb_host \<Rightarrow> usb_open_config \<Rightarrow> 'w \<Rightarrow> (transport_error, 'h transport_open) result \<times> 'w" where
  "open_runtime_usb_transport host config w =
     (case uo_backend config of
        BackendLibusb \<Rightarrow> open_libusb_transport host (uo_selector config) w
      | BackendMacos macos_config \<Rightarrow> open_macos_usbhost_transport host macos_config (uo_selector config) w
      | BackendAndroid android_config \<Rightarrow> open_android_usbhost_transport host android_config (uo_selector config) w)"

definition session_from_open :: "'h transport_open \<Rightarrow> 'h usb_transport radio_session" where
  "session_from_open opened =
     session_new (tro_transport opened) (tro_adapter opened) (tro_endpoints opened)
       (radio_counters_default\<lparr>rc_usb_control_writes := tro_initial_usb_control_writes opened\<rparr>)"

definition session_open ::
    "('r, 'h, 'w) usb_host \<Rightarrow> usb_open_config \<Rightarrow> 'w \<Rightarrow> (transport_error, 'h usb_transport radio_session) result \<times> 'w" where
  "session_open host config w =
     (case open_runtime_usb_transport host config w of (r, w) \<Rightarrow> (map_sum id session_from_open r, w))"

section \<open>The configuration of the production flow\<close>

datatype production_usb_backend = ProductionLibusb | ProductionMacos | ProductionAndroid

record production_macos_config =
  pm_configuration_value :: u8
  pm_interface_number :: u8
  pm_bulk_in_endpoint :: u8
  pm_bulk_out_endpoint :: u8
  pm_bulk_out_endpoint_count :: nat
  pm_poll_attempts :: u32
  pm_poll_delay_ms :: u64

definition production_macos_from :: "macos_usbhost_config \<Rightarrow> production_macos_config" where
  "production_macos_from config =
     \<lparr>pm_configuration_value = mc_configuration_value config, pm_interface_number = mc_interface_number config,
      pm_bulk_in_endpoint = mc_bulk_in_endpoint config, pm_bulk_out_endpoint = mc_bulk_out_endpoint config,
      pm_bulk_out_endpoint_count = mc_bulk_out_endpoint_count config, pm_poll_attempts = mc_poll_attempts config,
      pm_poll_delay_ms = (let ms = mc_poll_delay config div 1000000 in if ms < 2 ^ 64 then of_nat ms else - 1)\<rparr>"

definition macos_from_production :: "production_macos_config \<Rightarrow> macos_usbhost_config" where
  "macos_from_production config =
     \<lparr>mc_configuration_value = pm_configuration_value config, mc_interface_number = pm_interface_number config,
      mc_bulk_in_endpoint = pm_bulk_in_endpoint config, mc_bulk_out_endpoint = pm_bulk_out_endpoint config,
      mc_bulk_out_endpoint_count = pm_bulk_out_endpoint_count config, mc_poll_attempts = pm_poll_attempts config,
      mc_poll_delay = unat (pm_poll_delay_ms config) * 1000000\<rparr>"

text \<open>The Android record of the production flow has the same fields as the one of the transport.\<close>

record production_usb_config =
  pu_selector :: device_selector
  pu_backend :: production_usb_backend
  pu_macos_usbhost :: "production_macos_config option"
  pu_android_usbhost :: "android_usbhost_config option"

definition production_libusb :: "device_selector \<Rightarrow> production_usb_config" where
  "production_libusb selector =
     \<lparr>pu_selector = selector, pu_backend = ProductionLibusb, pu_macos_usbhost = None, pu_android_usbhost = None\<rparr>"

definition production_macos_usbhost :: "device_selector \<Rightarrow> macos_usbhost_config \<Rightarrow> production_usb_config" where
  "production_macos_usbhost selector config =
     \<lparr>pu_selector = selector, pu_backend = ProductionMacos, pu_macos_usbhost = Some (production_macos_from config),
      pu_android_usbhost = None\<rparr>"

definition production_android_usbhost :: "device_selector \<Rightarrow> android_usbhost_config \<Rightarrow> production_usb_config" where
  "production_android_usbhost selector config =
     \<lparr>pu_selector = selector, pu_backend = ProductionAndroid, pu_macos_usbhost = None, pu_android_usbhost = Some config\<rparr>"

definition to_runtime_open_config :: "production_usb_config \<Rightarrow> usb_open_config" where
  "to_runtime_open_config self =
     \<lparr>uo_selector = pu_selector self,
      uo_backend = (case pu_backend self of
          ProductionLibusb \<Rightarrow> BackendLibusb
        | ProductionMacos \<Rightarrow> BackendMacos (case pu_macos_usbhost self of
            None \<Rightarrow> macos_usbhost_config_default | Some config \<Rightarrow> macos_from_production config)
        | ProductionAndroid \<Rightarrow> BackendAndroid (case pu_android_usbhost self of
            None \<Rightarrow> android_usbhost_config_default | Some config \<Rightarrow> config))\<rparr>"

end
