(* ===== verification/Open_Laws.thy ===== *)
theory Open_Laws
  imports Usb_Open Queues
begin

text \<open>
  What an opened session is: a supported adapter that the selector means, with endpoints that the
  later phases can use.
\<close>

section \<open>Calls and endpoints\<close>

lemma try_call_Inr_iff:
  "try_call call conv f = (Inr y, w') \<longleftrightarrow> (\<exists>x w. call = (Inr x, w) \<and> f x w = (Inr y, w'))"
  by (auto simp: try_call_def split: prod.splits sum.splits)

lemma ok_or_Inr_iff: "ok_or x e = Inr v \<longleftrightarrow> x = Some v"
  by (simp add: ok_or_def split: option.splits)

lemma usbhost_endpoints_Inr:
  assumes "usbhost_endpoints os label n bulk_in bulk_out count = Inr e"
  shows "ue_bulk_in e = Some bulk_in \<and> ue_bulk_in_all e = [bulk_in] \<and> ue_bulk_out e = Some bulk_out \<and>
    bulk_out \<in> set (ue_bulk_out_all e) \<and> length (ue_bulk_out_all e) \<in> {2, 3, 4}"
  using assms by (auto simp: usbhost_endpoints_def usbhost_bulk_out_endpoints_def bind_res_Inr_iff split: if_splits)

lemma layout_for_count:
  "n \<in> {2, 3, 4} \<Longrightarrow> is_ok (production_queue_layout_from_bulk_out_endpoint_count n)"
  unfolding production_queue_layout_from_bulk_out_endpoint_count_def
  by (elim insertE emptyE; hypsubst; simp add: Let_def checked_sub_def TX_TOTAL_PAGE_NUMBER_8812_def TX_PAGE_BOUNDARY_8812_def
      NORMAL_PAGE_NUM_HPQ_8812_def NORMAL_PAGE_NUM_LPQ_8812_def NORMAL_PAGE_NUM_NPQ_8812_def is_ok_iff)

lemma first_opt_member: "first_opt xs = Some x \<Longrightarrow> x \<in> set xs"
  by (cases xs) auto

text \<open>A usable set of endpoints has a selected one of each direction among those it lists.\<close>

definition usable :: "usb_endpoints \<Rightarrow> bool" where
  "usable e \<longleftrightarrow> (\<exists>i \<in> set (ue_bulk_in_all e). \<exists>out \<in> set (ue_bulk_out_all e). ue_bulk_in e = Some i \<and> ue_bulk_out e = Some out)"

lemma discovered_usable:
  "discover_bulk_endpoints c n = Inr e \<Longrightarrow> ue_bulk_in e \<noteq> None \<Longrightarrow> ue_bulk_out e \<noteq> None \<Longrightarrow> usable e"
  by (auto simp: usable_def discover_bulk_endpoints_def bind_res_Inr_iff Let_def dest!: first_opt_member)

section \<open>The transports\<close>

lemma claim_device_Inr:
  "claim_device host info device w = (Inr c, w') \<Longrightarrow> cu_info c = info \<and> usable (cu_endpoints c)"
  by (auto simp: claim_device_def try_call_Inr_iff Let_def discovered_usable split: sum.splits if_splits)

lemma claim_loop_Inr:
  "claim_usb_device_loop host info devices w = (Inr c, w') \<Longrightarrow> cu_info c = info \<and> usable (cu_endpoints c)"
  by (induction devices) (auto split: sum.splits if_splits dest: claim_device_Inr)

lemma open_libusb_Inr:
  assumes "open_libusb_transport host selector w = (Inr opened, w')"
  shows "usable (tro_endpoints opened) \<and> selector_matches selector (tro_adapter opened) \<and>
    ud_known_adapter (tro_adapter opened) \<noteq> None \<and> tro_initial_usb_control_writes opened \<le> 1"
proof -
  obtain info w1 c where select: "select_libusb_supported_adapter host selector w = (Inr info, w1)"
    and claim: "claim_usb_device host info w1 = (Inr c, w')"
    and opened: "tro_adapter opened = cu_info c" "tro_endpoints opened = cu_endpoints c"
      "tro_initial_usb_control_writes opened = 0"
    using assms by (auto simp: open_libusb_transport_def try_call_Inr_iff)
  from select obtain devices where "find (selector_matches selector) (filter (\<lambda>d. ud_known_adapter d \<noteq> None) devices) = Some info"
    by (auto simp: select_libusb_supported_adapter_def list_usb_devices_def try_call_Inr_iff ok_or_Inr_iff)
  then have "selector_matches selector info" "ud_known_adapter info \<noteq> None"
    using nth_mem [of _ "filter (\<lambda>d. ud_known_adapter d \<noteq> None) devices"] by (auto simp: find_Some_iff)
  moreover have "cu_info c = info \<and> usable (cu_endpoints c)"
    using claim by (auto simp: claim_usb_device_def try_call_Inr_iff dest: claim_loop_Inr)
  ultimately show ?thesis by (simp add: opened)
qed

lemma open_macos_Inr:
  assumes "open_macos_usbhost_transport host config selector w = (Inr opened, w')"
  shows "usable (tro_endpoints opened) \<and> selector_matches selector (tro_adapter opened) \<and>
    ud_known_adapter (tro_adapter opened) \<noteq> None \<and> length (ue_bulk_out_all (tro_endpoints opened)) \<in> {2, 3, 4} \<and>
    tro_initial_usb_control_writes opened \<le> 1"
  using assms
  by (auto simp: open_macos_usbhost_transport_def try_call_Inr_iff macos_open_plan_def bind_res_Inr_iff ok_or_Inr_iff
      macos_usbhost_adapter_info_def usbhost_adapter_info_def Let_def selector_matches_def macos_usbhost_endpoints_def usable_def
      dest!: usbhost_endpoints_Inr split: if_splits)

lemma open_android_Inr:
  assumes "open_android_usbhost_transport host config selector w = (Inr opened, w')"
  shows "usable (tro_endpoints opened) \<and> selector_matches selector (tro_adapter opened) \<and>
    ud_known_adapter (tro_adapter opened) \<noteq> None \<and> length (ue_bulk_out_all (tro_endpoints opened)) \<in> {2, 3, 4} \<and>
    tro_initial_usb_control_writes opened \<le> 1"
  using assms
  by (auto simp: open_android_usbhost_transport_def try_call_Inr_iff android_usbhost_open_plan_def bind_res_Inr_iff ok_or_Inr_iff
      android_usbhost_adapter_info_def usbhost_adapter_info_def Let_def selector_matches_def android_usbhost_endpoints_def usable_def
      dest!: usbhost_endpoints_Inr split: if_splits)


text \<open>A macOS host that opens whatever it is asked for.\<close>

definition sample_host :: "(unit, unit, unit) usb_host" where
  "sample_host =
     \<lparr>uh_target_os = TargetMacos, uh_show_rusb = (\<lambda>_. []), uh_devices = (\<lambda>w. (Inr [], w)), uh_open = (\<lambda>_ w. (Inr (), w)),
      uh_manufacturer = (\<lambda>_ _ w. (Inl (), w)), uh_product = (\<lambda>_ _ w. (Inl (), w)), uh_serial_number = (\<lambda>_ _ w. (Inl (), w)),
      uh_kernel_driver_active = (\<lambda>_ _ w. (Inr False, w)), uh_detach_kernel_driver = (\<lambda>_ _ w. (Inr (), w)),
      uh_claim_interface = (\<lambda>_ _ w. (Inr (), w)), uh_open_fd = (\<lambda>_ w. (Inr (), w)), uh_open_macos = (\<lambda>_ w. (Inr ((), True), w))\<rparr>"

definition sample_selector :: device_selector where
  "sample_selector = \<lparr>sel_vid = Some 0x0bda, sel_pid = Some 0x8812, sel_bus = None, sel_address = None\<rparr>"

definition sample_open_config :: usb_open_config where
  "sample_open_config = to_runtime_open_config (production_macos_usbhost sample_selector macos_usbhost_config_default)"

lemma sample_open: "\<exists>session. session_open sample_host sample_open_config () = (Inr session, ())"
  by (simp add: session_open_def sample_open_config_def to_runtime_open_config_def production_macos_usbhost_def
      macos_from_production_def production_macos_from_def macos_usbhost_config_default_def open_runtime_usb_transport_def
      open_macos_usbhost_transport_def macos_open_plan_def sample_host_def sample_selector_def try_call_def ok_or_def
      lookup_known_adapter_def KNOWN_ADAPTERS_def known_rtl8812au_def macos_usbhost_endpoints_def usbhost_endpoints_def
      usbhost_bulk_out_endpoints_def)


text \<open>
  A configuration of the macOS host survives its way through the configuration of the flow, except
  for the part of the poll delay below a millisecond.
\<close>

lemma macos_config_round_trip:
  "mc_poll_delay c mod 1000000 = 0 \<Longrightarrow> mc_poll_delay c div 1000000 < 2 ^ 64 \<Longrightarrow>
     uo_backend (to_runtime_open_config (production_macos_usbhost selector c)) = BackendMacos c"
  by (cases c) (auto simp: to_runtime_open_config_def production_macos_usbhost_def macos_from_production_def
      production_macos_from_def unat_of_nat)

end
