(* ===== verification/Runtime_Flow.thy ===== *)
theory Runtime_Flow
  imports Usb_Open Loop_Plan Production_Loop Tx_Ingress Calibration
begin

text \<open>
  The production flow (\<open>wfb-radio-runtime/src/lib.rs\<close>): the validation of its configuration, opening
  the adapter, the initialisation, what is applied before the loop, the ready marker and the health
  file, the loop, and the report at the end, whichever way the flow ends.
\<close>

section \<open>Configuration and inputs\<close>

record 'a flow_config =
  cfg_usb :: production_usb_config
  cfg_channel :: channel
  cfg_bandwidth :: bandwidth
  cfg_firmware :: "string option"
  cfg_bind_addr :: 'a
  cfg_tx_binds :: "'a list"
  cfg_duration_ms :: u64
  cfg_rx_timeout_ms :: u64
  cfg_tx_burst_limit :: u32
  cfg_tx_min_interval_us :: u64
  cfg_max_datagrams :: u32
  cfg_airtime_schedule :: airtime_schedule
  cfg_ready_file :: "string option"
  cfg_health_file :: "string option"
  cfg_tx_authorized :: bool
  cfg_live_register_write_authorized :: bool
  cfg_calibration_profile :: tx_calibration_profile
  cfg_captured_tail_applied :: bool
  cfg_primary_rx_forward :: "'a primary_rx_forward_config"
  cfg_rx_forwards :: "'a extra_rx_forward_config list"
  cfg_rx_wlan_idx :: u8
  cfg_rx_mcs_index :: u8

definition wfb_loop_config_of :: "'a flow_config \<Rightarrow> 'a wfb_loop_config" where
  "wfb_loop_config_of self =
     \<lparr>wl_bind_addr = cfg_bind_addr self, wl_tx_binds = cfg_tx_binds self, wl_rx_timeout_ms = cfg_rx_timeout_ms self,
      wl_tx_burst_limit = cfg_tx_burst_limit self, wl_tx_min_interval_us = cfg_tx_min_interval_us self,
      wl_max_datagrams = cfg_max_datagrams self, wl_airtime_schedule = cfg_airtime_schedule self,
      wl_bandwidth = cfg_bandwidth self, wl_primary_rx_forward = cfg_primary_rx_forward self,
      wl_rx_forwards = cfg_rx_forwards self, wl_rx_wlan_idx = cfg_rx_wlan_idx self, wl_rx_mcs_index = cfg_rx_mcs_index self\<rparr>"

text \<open>The external stop flag, if there is one, is read from the world.\<close>

record 'w flow_inputs =
  xi_rtl8812au_init :: "init_inputs option"
  xi_tx_power_control :: tx_power_control_input
  xi_heartbeat_led :: led_heartbeat_config
  xi_process_signal_stop :: bool
  xi_external_stop_requested :: "('w \<Rightarrow> bool \<times> 'w) option"

definition missing_init_assets :: radio_error where
  "missing_init_assets = radio_error_new ''missing_runtime_init_assets''
     ''production radio run requires parsed firmware and RTL8812AU table plans''"

definition inputs_validate :: "'w flow_inputs \<Rightarrow> (radio_error, unit) result" where
  "inputs_validate self =
     (if xi_rtl8812au_init self = None then Inl missing_init_assets
      else map_err (radio_error_new ''invalid_heartbeat_led_config'') (led_heartbeat_validate (xi_heartbeat_led self)))"

record 'a flow_validation =
  fv_calibration :: calibration_decision
  fv_wfb_loop :: "'a wfb_loop_plan"

definition show_u8 :: "u8 \<Rightarrow> string" where
  "show_u8 n = show_nat (unat n)"

fun show_channel_error :: "channel_error \<Rightarrow> string" where
  "show_channel_error (UnsupportedChannel number) = ''unsupported Wi-Fi channel '' @ show_u8 number"
| "show_channel_error (ChannelUnsupportedBandwidth number bandwidth_mhz) =
     ''channel '' @ show_u8 number @ '' does not support '' @ show_nat (unat bandwidth_mhz) @ '' MHz bandwidth''"

definition validate_production_runtime_flow_config :: "'a flow_config \<Rightarrow> (radio_error, 'a flow_validation) result" where
  "validate_production_runtime_flow_config config =
     bind_res (map_err (\<lambda>error. radio_error_new ''invalid_channel'' (''invalid runtime channel: '' @ show_channel_error error))
         (from_number (ch_number (cfg_channel config)))) (\<lambda>supported_channel.
     if supported_channel \<noteq> cfg_channel config
     then Inl (radio_error_new ''invalid_channel''
       (''channel '' @ show_u8 (ch_number (cfg_channel config)) @ '' metadata does not match supported channel table''))
     else if \<not> supports_bandwidth (cfg_channel config) (cfg_bandwidth config)
     then Inl (radio_error_new ''unsupported_bandwidth''
       (''channel '' @ show_u8 (ch_number (cfg_channel config)) @ '' does not support '' @
        show_nat (unat (mhz (cfg_bandwidth config))) @ '' MHz bandwidth''))
     else
       bind_res (plan_production_wfb_loop (wfb_loop_config_of config)) (\<lambda>wfb_loop.
       if cfg_firmware config = None
       then Inl (radio_error_new ''missing_firmware'' ''production radio run requires an RTL8812A firmware image path'')
       else
         bind_res (profile_calibration_decision (cfg_calibration_profile config) (cfg_captured_tail_applied config)
           (cfg_live_register_write_authorized config)) (\<lambda>calibration.
         Inr \<lparr>fv_calibration = calibration, fv_wfb_loop = wfb_loop\<rparr>)))"

section \<open>Reports\<close>

datatype flow_init_readiness = InitNotStarted | FlowInitReady | FlowInitFailed

record init_telemetry =
  itl_readiness :: flow_init_readiness
  itl_phase_count :: nat
  itl_completed_phase_count :: nat

definition init_telemetry_default :: init_telemetry where
  "init_telemetry_default = \<lparr>itl_readiness = InitNotStarted, itl_phase_count = 0, itl_completed_phase_count = 0\<rparr>"

definition production_runtime_init_telemetry :: "init_result \<Rightarrow> init_telemetry" where
  "production_runtime_init_telemetry init =
     \<lparr>itl_readiness = (case ir_readiness init of InitReady \<Rightarrow> FlowInitReady | InitFailed \<Rightarrow> FlowInitFailed),
      itl_phase_count = length (ir_phase_summaries init),
      itl_completed_phase_count = length (filter (\<lambda>phase. ps_status phase = PhaseCompleted) (ir_phase_summaries init))\<rparr>"

datatype flow_result = FlowPass | FlowFail

record heartbeat_led_report =
  hlr_enabled :: bool
  hlr_half_period_ms :: u64
  hlr_toggles_attempted :: u64
  hlr_toggles_succeeded :: u64
  hlr_toggles_failed :: u64

record airtime_report =
  atr_schedule :: airtime_schedule
  atr_tx_allowed_iterations :: u64
  atr_tx_gated_iterations :: u64

definition airtime_idle :: "airtime_schedule \<Rightarrow> airtime_report" where
  "airtime_idle schedule = \<lparr>atr_schedule = schedule, atr_tx_allowed_iterations = 0, atr_tx_gated_iterations = 0\<rparr>"

record pre_loop_reports =
  pl_monitor_opmode_applied :: bool
  pl_tx_power_control :: "tx_power_control_report option"
  pl_tx_calibration_profile :: "calibration_profile_report option"
  pl_rx_startup_kick :: "rx_startup_kick_report option"

definition pre_loop_default :: pre_loop_reports where
  "pre_loop_default =
     \<lparr>pl_monitor_opmode_applied = False, pl_tx_power_control = None, pl_tx_calibration_profile = None,
      pl_rx_startup_kick = None\<rparr>"

text \<open>The error of a report has the fields of a runtime error.\<close>

record 'a flow_report =
  fr_schema_version :: u8
  fr_command :: string
  fr_selector :: device_selector
  fr_adapter :: "usb_device_info option"
  fr_endpoints :: "usb_endpoints option"
  fr_channel :: "channel option"
  fr_bandwidth :: bandwidth
  fr_duration_ms :: u64
  fr_ready_file :: "string option"
  fr_stop_reason :: string
  fr_bulk_in_endpoint :: "u8 option"
  fr_bulk_out_endpoint :: "u8 option"
  fr_calibration_profile :: tx_calibration_profile
  fr_calibration_class :: tx_calibration_class
  fr_calibration_evidence_source :: calibration_evidence_source
  fr_tx_power_control :: "tx_power_control_report option"
  fr_tx_calibration_profile :: "calibration_profile_report option"
  fr_rx_startup_kick :: "rx_startup_kick_report option"
  fr_heartbeat_led :: "heartbeat_led_report option"
  fr_airtime :: airtime_report
  fr_receiver_backed_validation_required :: bool
  fr_init :: init_telemetry
  fr_rx :: "'a flow_rx_telemetry"
  fr_tx :: "'a flow_tx_telemetry"
  fr_session_counters :: radio_counters
  fr_result :: flow_result
  fr_error :: "radio_error option"

definition report_not_started :: "'a flow_config \<Rightarrow> radio_error \<Rightarrow> 'a flow_report" where
  "report_not_started config error =
     \<lparr>fr_schema_version = 1, fr_command = ''radio-run'', fr_selector = pu_selector (cfg_usb config), fr_adapter = None,
      fr_endpoints = None, fr_channel = Some (cfg_channel config), fr_bandwidth = cfg_bandwidth config,
      fr_duration_ms = cfg_duration_ms config, fr_ready_file = cfg_ready_file config, fr_stop_reason = ''not_started'',
      fr_bulk_in_endpoint = None, fr_bulk_out_endpoint = None, fr_calibration_profile = cfg_calibration_profile config,
      fr_calibration_class = before_tx_class (cfg_calibration_profile config) (cfg_captured_tail_applied config),
      fr_calibration_evidence_source = evidence_source (cfg_calibration_profile config) (cfg_captured_tail_applied config),
      fr_tx_power_control = None, fr_tx_calibration_profile = None, fr_rx_startup_kick = None, fr_heartbeat_led = None,
      fr_airtime = airtime_idle (cfg_airtime_schedule config),
      fr_receiver_backed_validation_required = (\<not> profile_is_default (cfg_calibration_profile config)),
      fr_init = init_telemetry_default, fr_rx = flow_rx_telemetry_default, fr_tx = flow_tx_telemetry_default,
      fr_session_counters = radio_counters_default, fr_result = FlowFail, fr_error = Some error\<rparr>"

text \<open>The report of a flow that has a session; the execution report it goes through has the same fields.\<close>

definition flow_report_from_state_with_airtime ::
    "'a flow_config \<Rightarrow> 't radio_session \<Rightarrow> string \<Rightarrow> init_telemetry \<Rightarrow> pre_loop_reports \<Rightarrow> heartbeat_led_report option \<Rightarrow>
     'a flow_rx_telemetry \<Rightarrow> 'a flow_tx_telemetry \<Rightarrow> airtime_report \<Rightarrow> flow_result \<Rightarrow> radio_error option \<Rightarrow> 'a flow_report" where
  "flow_report_from_state_with_airtime config session stop_reason init pre_loop heartbeat_led rx tx airtime result error =
     \<lparr>fr_schema_version = 1, fr_command = ''radio-run'', fr_selector = pu_selector (cfg_usb config),
      fr_adapter = Some (rs_adapter session), fr_endpoints = Some (rs_endpoints session),
      fr_channel = Some (cfg_channel config), fr_bandwidth = cfg_bandwidth config,
      fr_duration_ms = cfg_duration_ms config, fr_ready_file = cfg_ready_file config, fr_stop_reason = stop_reason,
      fr_bulk_in_endpoint = selected_bulk_in_endpoint session, fr_bulk_out_endpoint = selected_bulk_out_endpoint session,
      fr_calibration_profile = cfg_calibration_profile config,
      fr_calibration_class = before_tx_class (cfg_calibration_profile config) (cfg_captured_tail_applied config),
      fr_calibration_evidence_source = evidence_source (cfg_calibration_profile config) (cfg_captured_tail_applied config),
      fr_tx_power_control = pl_tx_power_control pre_loop, fr_tx_calibration_profile = pl_tx_calibration_profile pre_loop,
      fr_rx_startup_kick = pl_rx_startup_kick pre_loop, fr_heartbeat_led = heartbeat_led, fr_airtime = airtime,
      fr_receiver_backed_validation_required = (\<not> profile_is_default (cfg_calibration_profile config)),
      fr_init = init, fr_rx = rx, fr_tx = tx, fr_session_counters = rs_counters session, fr_result = result,
      fr_error = error\<rparr>"

definition flow_report_from_state ::
    "'a flow_config \<Rightarrow> 't radio_session \<Rightarrow> string \<Rightarrow> init_telemetry \<Rightarrow> pre_loop_reports \<Rightarrow> heartbeat_led_report option \<Rightarrow>
     'a flow_rx_telemetry \<Rightarrow> 'a flow_tx_telemetry \<Rightarrow> flow_result \<Rightarrow> radio_error option \<Rightarrow> 'a flow_report" where
  "flow_report_from_state config session stop_reason init pre_loop heartbeat_led rx tx result error =
     flow_report_from_state_with_airtime config session stop_reason init pre_loop heartbeat_led rx tx
       (airtime_idle (cfg_airtime_schedule config)) result error"

section \<open>Service health\<close>

datatype service_lifecycle = Starting | Validating | Initializing | LifecycleReady | Running | Stopping | ExitedPass | ExitedFail

datatype operator_action = Wait | Monitor | Investigate | Restart | Stopped

definition production_service_operator_action ::
    "service_lifecycle \<Rightarrow> flow_result option \<Rightarrow> string option \<Rightarrow> 'a flow_rx_telemetry \<Rightarrow> 'a flow_tx_telemetry \<Rightarrow>
     radio_error option \<Rightarrow> operator_action" where
  "production_service_operator_action lifecycle result stop_reason rx tx error =
     (if lifecycle \<in> {Starting, Validating, Initializing} then Wait
      else if lifecycle = Stopping then Stopped
      else if lifecycle = ExitedFail then Restart
      else if error \<noteq> None \<or> result = Some FlowFail then Restart
      else if stop_reason = Some ''signal'' then Stopped
      else
        let rx_forward_send_failures = sum_list (map (\<lambda>f. br_send_failed (fs_counters f)) (rxt_rx_forwards rx))
        in if txt_failed_submissions tx > 0 \<or> txt_dropped_datagrams tx > 0 \<or> rxt_dropped_packets rx > 0 \<or>
              rx_forward_send_failures > 0
           then Investigate else Monitor)"

record 'a service_health =
  sh_schema_version :: u8
  sh_command :: string
  sh_updated_at_unix_ms :: u64
  sh_lifecycle :: service_lifecycle
  sh_operator_action :: operator_action
  sh_selector :: device_selector
  sh_adapter :: "usb_device_info option"
  sh_endpoints :: "usb_endpoints option"
  sh_channel :: "channel option"
  sh_bandwidth :: bandwidth
  sh_duration_ms :: u64
  sh_ready_file :: "string option"
  sh_health_file :: "string option"
  sh_report_file :: "string option"
  sh_stop_reason :: "string option"
  sh_result :: "flow_result option"
  sh_init :: init_telemetry
  sh_heartbeat_led :: "heartbeat_led_report option"
  sh_rx :: "'a flow_rx_telemetry"
  sh_tx :: "'a flow_tx_telemetry"
  sh_session_counters :: radio_counters
  sh_error :: "radio_error option"

definition health_from_config ::
    "u64 \<Rightarrow> 'a flow_config \<Rightarrow> service_lifecycle \<Rightarrow> string option \<Rightarrow> radio_error option \<Rightarrow> 'a service_health" where
  "health_from_config now config lifecycle report_file error =
     \<lparr>sh_schema_version = 1, sh_command = ''radio-run'', sh_updated_at_unix_ms = now, sh_lifecycle = lifecycle,
      sh_operator_action = production_service_operator_action lifecycle None None
        (flow_rx_telemetry_default :: 'a flow_rx_telemetry) (flow_tx_telemetry_default :: 'a flow_tx_telemetry) error,
      sh_selector = pu_selector (cfg_usb config), sh_adapter = None, sh_endpoints = None,
      sh_channel = Some (cfg_channel config), sh_bandwidth = cfg_bandwidth config, sh_duration_ms = cfg_duration_ms config,
      sh_ready_file = cfg_ready_file config, sh_health_file = cfg_health_file config, sh_report_file = report_file,
      sh_stop_reason = None, sh_result = None, sh_init = init_telemetry_default, sh_heartbeat_led = None,
      sh_rx = flow_rx_telemetry_default, sh_tx = flow_tx_telemetry_default, sh_session_counters = radio_counters_default,
      sh_error = error\<rparr>"

definition health_from_report ::
    "u64 \<Rightarrow> 'a flow_report \<Rightarrow> service_lifecycle \<Rightarrow> string option \<Rightarrow> string option \<Rightarrow> 'a service_health" where
  "health_from_report now report lifecycle health_file report_file =
     \<lparr>sh_schema_version = 1, sh_command = ''radio-run'', sh_updated_at_unix_ms = now, sh_lifecycle = lifecycle,
      sh_operator_action = production_service_operator_action lifecycle (Some (fr_result report)) (Some (fr_stop_reason report))
        (fr_rx report) (fr_tx report) (fr_error report),
      sh_selector = fr_selector report, sh_adapter = fr_adapter report, sh_endpoints = fr_endpoints report,
      sh_channel = fr_channel report, sh_bandwidth = fr_bandwidth report, sh_duration_ms = fr_duration_ms report,
      sh_ready_file = fr_ready_file report, sh_health_file = health_file, sh_report_file = report_file,
      sh_stop_reason = Some (fr_stop_reason report), sh_result = Some (fr_result report), sh_init = fr_init report,
      sh_heartbeat_led = fr_heartbeat_led report, sh_rx = fr_rx report, sh_tx = fr_tx report,
      sh_session_counters = fr_session_counters report, sh_error = fr_error report\<rparr>"

section \<open>The ready marker\<close>

record ready_marker =
  rmk_source :: string
  rmk_ready_at_unix_ms :: "u64 option"
  rmk_bind_addr :: string
  rmk_bind_addrs :: "string list"
  rmk_channel :: "u8 option"
  rmk_channel_frequency_mhz :: "u16 option"
  rmk_bandwidth_mhz :: u16
  rmk_max_datagrams :: u32
  rmk_duration_ms :: "u64 option"
  rmk_idle_timeout_ms :: "u64 option"
  rmk_rx_timeout_ms :: "u64 option"
  rmk_tx_burst_limit :: "u32 option"
  rmk_tx_min_interval_us :: "u64 option"
  rmk_airtime_schedule :: airtime_schedule
  rmk_init_before_tx :: bool
  rmk_same_session_init_result :: "string option"
  rmk_monitor_opmode_applied :: "bool option"
  rmk_tx_power_control_applied :: bool
  rmk_tx_calibration_profile_applied :: bool
  rmk_rx_startup_kick_applied :: bool

definition production_runtime_ready_marker ::
    "('a \<Rightarrow> string) \<Rightarrow> 'a flow_config \<Rightarrow> 'a flow_validation \<Rightarrow> init_result \<Rightarrow> bool \<Rightarrow> bool \<Rightarrow> bool \<Rightarrow> bool \<Rightarrow> ready_marker" where
  "production_runtime_ready_marker show_addr config validation init monitor_opmode_applied tx_power_control_applied
     tx_calibration_profile_applied rx_startup_kick_applied =
     \<lparr>rmk_source = ''bridge-run'', rmk_ready_at_unix_ms = None, rmk_bind_addr = show_addr (cfg_bind_addr config),
      rmk_bind_addrs = map show_addr (wp_tx_bind_addrs (fv_wfb_loop validation)),
      rmk_channel = Some (ch_number (cfg_channel config)),
      rmk_channel_frequency_mhz = Some (ch_frequency_mhz (cfg_channel config)),
      rmk_bandwidth_mhz = mhz (cfg_bandwidth config), rmk_max_datagrams = cfg_max_datagrams config,
      rmk_duration_ms = Some (cfg_duration_ms config), rmk_idle_timeout_ms = None,
      rmk_rx_timeout_ms = Some (cfg_rx_timeout_ms config), rmk_tx_burst_limit = Some (cfg_tx_burst_limit config),
      rmk_tx_min_interval_us = (if cfg_tx_min_interval_us config \<noteq> 0 then Some (cfg_tx_min_interval_us config) else None),
      rmk_airtime_schedule = cfg_airtime_schedule config, rmk_init_before_tx = True,
      rmk_same_session_init_result = Some (case ir_readiness init of InitReady \<Rightarrow> ''pass'' | InitFailed \<Rightarrow> ''fail''),
      rmk_monitor_opmode_applied = Some monitor_opmode_applied, rmk_tx_power_control_applied = tx_power_control_applied,
      rmk_tx_calibration_profile_applied = tx_calibration_profile_applied,
      rmk_rx_startup_kick_applied = rx_startup_kick_applied\<rparr>"

end
