(* ===== verification/Flow_Run.thy ===== *)
theory Flow_Run
  imports Runtime_Flow
begin

text \<open>
  The steps of the production flow (\<open>wfb-radio-runtime/src/lib.rs\<close>, \<open>run_production_runtime_flow\<close>).
\<close>

section \<open>The environment and the state\<close>

text \<open>
  The transport behind the registers, the loop and the sockets; the serialisation of the two JSON
  files, the file system, the threads and the signal handlers of the process.
\<close>

record ('r, 'io, 't, 'k, 'a, 'w) flow_env =
  xe_registers :: "('r, 't) reg_env"
  xe_loop :: "('r, 'io, 't, 'k, 'a, 'w) production_env"
  xe_ingress :: "('io, 'k, 'a, 'w) ingress_env"
  xe_spawn_threads :: "(nat \<times> 'a receiver_pc) list \<Rightarrow> 'w \<Rightarrow> 'w"
  xe_marker_json :: "ready_marker \<Rightarrow> (string, bytes) result"
  xe_health_json :: "'a service_health \<Rightarrow> (string, bytes) result"
  xe_write_file :: "string \<Rightarrow> bytes \<Rightarrow> 'w \<Rightarrow> ('io, unit) result \<times> 'w"
  xe_clear_stop_flag :: "'w \<Rightarrow> 'w"
  xe_install_signal_handlers :: "'w \<Rightarrow> ('io, unit) result \<times> 'w"

text \<open>
  A step acts on the session and the world; it may not return.  A flow ends with its report; its
  value is \<open>None\<close> if it does not return one, because the loop does not end or panics.
\<close>

type_synonym ('t, 'w) flow_state = "'t radio_session \<times> 'w"
type_synonym ('t, 'w, 'x) flow_step = "('t, 'w) flow_state \<Rightarrow> ((radio_error, 'x) result \<times> ('t, 'w) flow_state) option"
type_synonym ('t, 'w, 'a) flow = "('t, 'w) flow_state \<Rightarrow> ('a flow_report \<times> ('t, 'w) flow_state) option"

text \<open>\<open>match m { Err(e) => return handler(e), Ok(x) => rest(x) }\<close>.\<close>

definition match_step ::
    "('t, 'w, 'x) flow_step \<Rightarrow> (radio_error \<Rightarrow> ('t, 'w, 'a) flow) \<Rightarrow> ('x \<Rightarrow> ('t, 'w, 'a) flow) \<Rightarrow> ('t, 'w, 'a) flow" where
  "match_step m handler rest s =
     (case m s of None \<Rightarrow> None | Some (Inl e, s) \<Rightarrow> handler e s | Some (Inr x, s) \<Rightarrow> rest x s)"

definition return_report :: "'a flow_report \<Rightarrow> ('t, 'w, 'a) flow" where
  "return_report report s = Some (report, s)"

definition pure_step :: "(radio_error, 'x) result \<Rightarrow> ('t, 'w, 'x) flow_step" where
  "pure_step r s = Some (r, s)"

text \<open>A register operation on the transport and the counters of the session.\<close>

definition register_step :: "('t, 'x) reg_op \<Rightarrow> ('t, 'w, 'x) flow_step" where
  "register_step op s =
     (case op (rs_transport (fst s), rs_counters (fst s)) of
        None \<Rightarrow> None
      | Some (r, dev, counters) \<Rightarrow> Some (r, (fst s)\<lparr>rs_transport := dev, rs_counters := counters\<rparr>, snd s))"

definition session_step :: "('t radio_session \<Rightarrow> (radio_error, 'x) result \<times> 't radio_session) \<Rightarrow> ('t, 'w, 'x) flow_step" where
  "session_step f s = (case f (fst s) of (r, session) \<Rightarrow> Some (r, session, snd s))"

definition world_step :: "('w \<Rightarrow> (radio_error, 'x) result \<times> 'w) \<Rightarrow> ('t, 'w, 'x) flow_step" where
  "world_step f s = (case f (snd s) of (r, w) \<Rightarrow> Some (r, fst s, w))"

section \<open>Files\<close>

definition write_json_file ::
    "('r, 'io, 't, 'k, 'a, 'w) flow_env \<Rightarrow> string \<Rightarrow> string \<Rightarrow> string \<Rightarrow> (string, bytes) result \<Rightarrow> 'w \<Rightarrow>
     (radio_error, unit) result \<times> 'w" where
  "write_json_file env serialize_failed write_failed path json w =
     (case json of
        Inl error \<Rightarrow> (Inl (radio_error_new serialize_failed error), w)
      | Inr text \<Rightarrow>
          (case xe_write_file env path (text @ [10]) w of
             (Inl error, w) \<Rightarrow> (Inl (radio_error_new write_failed (path @ '': '' @ ie_show_io (xe_ingress env) error)), w)
           | (Inr _, w) \<Rightarrow> (Inr (), w)))"

definition write_production_runtime_ready_marker ::
    "('r, 'io, 't, 'k, 'a, 'w) flow_env \<Rightarrow> string option \<Rightarrow> ready_marker \<Rightarrow> 'w \<Rightarrow> (radio_error, unit) result \<times> 'w" where
  "write_production_runtime_ready_marker env path marker w =
     (case path of
        None \<Rightarrow> (Inr (), w)
      | Some path \<Rightarrow>
          (let (now, w) = fe_runtime_unix_ms (pe_forwards (xe_loop env)) w
           in write_json_file env ''runtime_ready_marker_serialize_failed'' ''runtime_ready_marker_write_failed'' path
                (xe_marker_json env (marker\<lparr>rmk_ready_at_unix_ms := Some now\<rparr>)) w))"

definition write_production_runtime_service_health ::
    "('r, 'io, 't, 'k, 'a, 'w) flow_env \<Rightarrow> string option \<Rightarrow> 'a service_health \<Rightarrow> 'w \<Rightarrow> (radio_error, unit) result \<times> 'w" where
  "write_production_runtime_service_health env path health w =
     (case path of
        None \<Rightarrow> (Inr (), w)
      | Some path \<Rightarrow>
          write_json_file env ''runtime_health_serialize_failed'' ''runtime_health_write_failed'' path (xe_health_json env health) w)"

text \<open>The health of a configuration or of a report at this moment; it is built whether or not it is written.\<close>

definition write_config_health ::
    "('r, 'io, 't, 'k, 'a, 'w) flow_env \<Rightarrow> 'a flow_config \<Rightarrow> service_lifecycle \<Rightarrow> 'w \<Rightarrow> (radio_error, unit) result \<times> 'w" where
  "write_config_health env config lifecycle w =
     (let (now, w) = fe_runtime_unix_ms (pe_forwards (xe_loop env)) w
      in write_production_runtime_service_health env (cfg_health_file config)
           (health_from_config now config lifecycle None None) w)"

definition write_report_health ::
    "('r, 'io, 't, 'k, 'a, 'w) flow_env \<Rightarrow> 'a flow_config \<Rightarrow> 'a flow_report \<Rightarrow> service_lifecycle \<Rightarrow> 'w \<Rightarrow>
     (radio_error, unit) result \<times> 'w" where
  "write_report_health env config report lifecycle w =
     (let (now, w) = fe_runtime_unix_ms (pe_forwards (xe_loop env)) w
      in write_production_runtime_service_health env (cfg_health_file config)
           (health_from_report now report lifecycle (cfg_health_file config) None) w)"

definition production_runtime_report_with_health ::
    "('r, 'io, 't, 'k, 'a, 'w) flow_env \<Rightarrow> 'a flow_config \<Rightarrow> 'a flow_report \<Rightarrow> service_lifecycle \<Rightarrow> 'w \<Rightarrow> 'a flow_report \<times> 'w" where
  "production_runtime_report_with_health env config report lifecycle w =
     (case write_report_health env config report lifecycle w of
        (Inl error, w) \<Rightarrow> (report\<lparr>fr_result := FlowFail, fr_error := Some error\<rparr>, w)
      | (Inr _, w) \<Rightarrow> (report, w))"

section \<open>The end of a flow\<close>

text \<open>With the exit state in the health file.\<close>

definition flow_report_with_airtime_and_health ::
    "('r, 'io, 't, 'k, 'a, 'w) flow_env \<Rightarrow> 'a flow_config \<Rightarrow> string \<Rightarrow> init_telemetry \<Rightarrow> pre_loop_reports \<Rightarrow>
     heartbeat_led_report option \<Rightarrow> 'a flow_rx_telemetry \<Rightarrow> 'a flow_tx_telemetry \<Rightarrow> airtime_report \<Rightarrow> flow_result \<Rightarrow>
     radio_error option \<Rightarrow> ('t, 'w, 'a) flow" where
  "flow_report_with_airtime_and_health env config stop_reason init pre_loop heartbeat_led rx tx airtime result error = (\<lambda>(session, w).
     let lifecycle = (case result of FlowPass \<Rightarrow> ExitedPass | FlowFail \<Rightarrow> ExitedFail);
         report = flow_report_from_state_with_airtime config session stop_reason init pre_loop heartbeat_led rx tx airtime result error;
         (report, w) = production_runtime_report_with_health env config report lifecycle w
     in Some (report, session, w))"

definition flow_report_with_health ::
    "('r, 'io, 't, 'k, 'a, 'w) flow_env \<Rightarrow> 'a flow_config \<Rightarrow> string \<Rightarrow> init_telemetry \<Rightarrow> pre_loop_reports \<Rightarrow>
     heartbeat_led_report option \<Rightarrow> 'a flow_rx_telemetry \<Rightarrow> 'a flow_tx_telemetry \<Rightarrow> flow_result \<Rightarrow>
     radio_error option \<Rightarrow> ('t, 'w, 'a) flow" where
  "flow_report_with_health env config stop_reason init pre_loop heartbeat_led rx tx result error =
     flow_report_with_airtime_and_health env config stop_reason init pre_loop heartbeat_led rx tx
       (airtime_idle (cfg_airtime_schedule config)) result error"

text \<open>Every failure between the initialisation and the loop ends the same way.\<close>

definition failed_before_loop ::
    "('r, 'io, 't, 'k, 'a, 'w) flow_env \<Rightarrow> 'a flow_config \<Rightarrow> init_telemetry \<Rightarrow> pre_loop_reports \<Rightarrow> radio_error \<Rightarrow>
     ('t, 'w, 'a) flow" where
  "failed_before_loop env config init pre_loop error =
     flow_report_with_health env config ''not_started'' init pre_loop None flow_rx_telemetry_default
       flow_tx_telemetry_default FlowFail (Some error)"

definition not_started_with_health ::
    "('r, 'io, 't, 'k, 'a, 'w) flow_env \<Rightarrow> 'a flow_config \<Rightarrow> radio_error \<Rightarrow> ('t, 'w, 'a) flow" where
  "not_started_with_health env config error = (\<lambda>(session, w).
     let (report, w) = production_runtime_report_with_health env config (report_not_started config error) ExitedFail w
     in Some (report, session, w))"

section \<open>The loop\<close>

fun stop_reason_as_str :: "stop_reason \<Rightarrow> string" where
  "stop_reason_as_str StopSignal = ''signal''"
| "stop_reason_as_str StopDurationElapsed = ''duration_elapsed''"
| "stop_reason_as_str StopTxDatagramLimit = ''tx_datagram_limit''"

definition heartbeat_led_report_of :: "led_heartbeat \<Rightarrow> heartbeat_led_report" where
  "heartbeat_led_report_of hb =
     \<lparr>hlr_enabled = hc_enabled (hb_config hb), hlr_half_period_ms = hc_half_period_ms (hb_config hb),
      hlr_toggles_attempted = hk_toggles_attempted (hb_counters hb), hlr_toggles_succeeded = hk_toggles_succeeded (hb_counters hb),
      hlr_toggles_failed = hk_toggles_failed (hb_counters hb)\<rparr>"

text \<open>The stop flags of the loop are those of the inputs.\<close>

definition loop_env_of ::
    "('r, 'io, 't, 'k, 'a, 'w) flow_env \<Rightarrow> 'w flow_inputs \<Rightarrow> ('r, 'io, 't, 'k, 'a, 'w) production_env" where
  "loop_env_of env inputs =
     (xe_loop env)\<lparr>pe_process_signal_stop := xi_process_signal_stop inputs, pe_external_flag := xi_external_stop_requested inputs\<rparr>"

definition run_loop_and_report ::
    "('r, 'io, 't, 'k, 'a, 'w) flow_env \<Rightarrow> 'a flow_config \<Rightarrow> 'w flow_inputs \<Rightarrow> 'a flow_validation \<Rightarrow> init_telemetry \<Rightarrow>
     pre_loop_reports \<Rightarrow> ('k, 'a) rx_forward_runtime list \<Rightarrow> ('t, 'w, 'a) flow" where
  "run_loop_and_report env config inputs validation init pre_loop rx_forwards = (\<lambda>(session, w).
     let (now, w) = pe_now (xe_loop env) w;
         start = production_loop_start (xi_heartbeat_led inputs) now (wp_tx_bind_addrs (fv_wfb_loop validation)) rx_forwards session w
     in case run_production_loop (loop_env_of env inputs) (cfg_channel config) (cfg_bandwidth config)
            (production_loop_config (cfg_duration_ms config) (wfb_loop_config_of config)) start of
          None \<Rightarrow> None
        | Some (Inl Panicked, _) \<Rightarrow> None
        | Some (Inl (Failed error), s) \<Rightarrow>
            flow_report_with_health env config ''not_started'' init pre_loop (Some (heartbeat_led_report_of (ps_heartbeat s)))
              (ps_rx s) (ps_tx s) FlowFail (Some error) (ps_session s, ps_world s)
        | Some (Inr outcome, s) \<Rightarrow>
            flow_report_with_airtime_and_health env config (stop_reason_as_str (lo_stop_reason outcome)) init pre_loop
              (Some (heartbeat_led_report_of (ps_heartbeat s))) (ps_rx s) (ps_tx s)
              \<lparr>atr_schedule = cfg_airtime_schedule config,
               atr_tx_allowed_iterations = lo_airtime_tx_allowed_iterations outcome,
               atr_tx_gated_iterations = lo_airtime_tx_gated_iterations outcome\<rparr> FlowPass None (ps_session s, ps_world s))"

text \<open>The sockets, the threads and the forwards, then the loop.\<close>

definition bind_and_run ::
    "('r, 'io, 't, 'k, 'a, 'w) flow_env \<Rightarrow> 'a flow_config \<Rightarrow> 'w flow_inputs \<Rightarrow> 'a flow_validation \<Rightarrow> init_telemetry \<Rightarrow>
     pre_loop_reports \<Rightarrow> ('t, 'w, 'a) flow" where
  "bind_and_run env config inputs validation init pre_loop =
     (let failed = failed_before_loop env config init pre_loop in
      match_step (world_step (bind_production_tx_ingress_sockets (xe_ingress env)
          (wp_tx_bind_addrs (fv_wfb_loop validation)) PRODUCTION_TX_SOCKET_RCVBUF_BYTES)) failed (\<lambda>sockets.
      match_step (world_step (\<lambda>w. case spawn_receivers_loop (xe_ingress env) PRODUCTION_TX_RECEIVE_TIMEOUT sockets w of
          (Inl e, w) \<Rightarrow> (Inl e, w) | (Inr threads, w) \<Rightarrow> (Inr threads, xe_spawn_threads env threads w))) failed (\<lambda>_.
      match_step (world_step (create_production_rx_forward_runtimes (pe_forwards (xe_loop env))
          (wp_rx_forwards (fv_wfb_loop validation)))) failed (\<lambda>rx_forwards.
      run_loop_and_report env config inputs validation init pre_loop rx_forwards))))"

section \<open>Between the initialisation and the loop\<close>

definition announce_ready ::
    "('r, 'io, 't, 'k, 'a, 'w) flow_env \<Rightarrow> 'a flow_config \<Rightarrow> 'w flow_inputs \<Rightarrow> 'a flow_validation \<Rightarrow> init_result \<Rightarrow>
     pre_loop_reports \<Rightarrow> ('t, 'w, 'a) flow" where
  "announce_ready env config inputs validation init_result pre_loop =
     (let init = production_runtime_init_telemetry init_result in
      match_step (world_step (write_production_runtime_ready_marker env (cfg_ready_file config)
          (production_runtime_ready_marker (ie_show_addr (xe_ingress env)) config validation init_result
             (pl_monitor_opmode_applied pre_loop) (pl_tx_power_control pre_loop \<noteq> None)
             (pl_tx_calibration_profile pre_loop \<noteq> None) (pl_rx_startup_kick pre_loop \<noteq> None))))
        (failed_before_loop env config init pre_loop) (\<lambda>_.
      match_step (\<lambda>(session, w). world_step (write_report_health env config
            (flow_report_from_state config session ''ready'' init pre_loop None flow_rx_telemetry_default
               flow_tx_telemetry_default FlowPass None) LifecycleReady) (session, w))
        (\<lambda>error (session, w). Some (flow_report_from_state config session ''not_started'' init pre_loop None
            flow_rx_telemetry_default flow_tx_telemetry_default FlowFail (Some error), session, w)) (\<lambda>_.
      bind_and_run env config inputs validation init pre_loop)))"

definition apply_before_loop ::
    "('r, 'io, 't, 'k, 'a, 'w) flow_env \<Rightarrow> 'a flow_config \<Rightarrow> 'w flow_inputs \<Rightarrow> 'a flow_validation \<Rightarrow> u8 \<Rightarrow> init_result \<Rightarrow>
     ('t, 'w, 'a) flow" where
  "apply_before_loop env config inputs validation rfe_type init_result =
     (let failed = failed_before_loop env config (production_runtime_init_telemetry init_result);
          power_step = register_step (apply_production_runtime_tx_power_control (xe_registers env) (xi_tx_power_control inputs));
          pre_loop = pre_loop_default in
      match_step (register_step (apply_production_runtime_monitor_opmode (xe_registers env))) (failed pre_loop) (\<lambda>_.
      let pre_loop = pre_loop\<lparr>pl_monitor_opmode_applied := True\<rparr> in
      match_step power_step (failed pre_loop) (\<lambda>report.
      let pre_loop = pre_loop\<lparr>pl_tx_power_control := report\<rparr> in
      match_step (register_step (apply_production_runtime_tx_calibration_profile (xe_registers env)
          (cfg_calibration_profile config) (cfg_channel config) (cfg_bandwidth config) rfe_type)) (failed pre_loop) (\<lambda>report.
      let pre_loop = pre_loop\<lparr>pl_tx_calibration_profile := report\<rparr> in
      match_step (if pl_tx_power_control pre_loop \<noteq> None \<and> pl_tx_calibration_profile pre_loop \<noteq> None then power_step
          else pure_step (Inr (pl_tx_power_control pre_loop))) (failed pre_loop) (\<lambda>report.
      let pre_loop = pre_loop\<lparr>pl_tx_power_control := report\<rparr> in
      match_step (if wp_rx_forwards (fv_wfb_loop validation) \<noteq> []
          then session_step (\<lambda>session. map_prod (map_sum id Some) id
            (apply_production_runtime_rx_startup_kick (pe_show_rusb (xe_loop env)) (pe_bulk_write (xe_loop env))
              (cfg_channel config) (cfg_bandwidth config) session))
          else pure_step (Inr None)) (failed pre_loop) (\<lambda>report.
      let pre_loop = pre_loop\<lparr>pl_rx_startup_kick := report\<rparr> in
      announce_ready env config inputs validation init_result pre_loop))))))"

section \<open>The flow on a session\<close>

text \<open>
  A phase runner has no error besides the failure it returns as a value, so the first branch of the
  initialisation does not occur.
\<close>

definition initialise ::
    "('r, 'io, 't, 'k, 'a, 'w) flow_env \<Rightarrow> 'a flow_config \<Rightarrow> 'w flow_inputs \<Rightarrow> init_inputs \<Rightarrow> 'a flow_validation \<Rightarrow>
     ('t, 'st) phase_runner \<Rightarrow> 'st \<Rightarrow> ('t, 'w, 'a) flow" where
  "initialise env config inputs init_inputs validation run_phase state =
     (let init_config = \<lparr>ic_init_order = ii_init_order init_inputs, ic_channel = cfg_channel config,
            ic_bandwidth = cfg_bandwidth config, ic_rfe_type = ii_rfe_type init_inputs,
            ic_tx_calibration_profile = cfg_calibration_profile config,
            ic_live_write_authorized = cfg_live_register_write_authorized config,
            ic_captured_tail_applied = cfg_captured_tail_applied config\<rparr> in
      match_step (register_step (run_rtl8812au_same_session_init run_phase init_config state)) (\<lambda>_ _. None) (\<lambda>(r, _).
      case r of
        Inl failure \<Rightarrow> failed_before_loop env config (production_runtime_init_telemetry (if_result failure)) pre_loop_default (if_error failure)
      | Inr init_result \<Rightarrow> apply_before_loop env config inputs validation (ii_rfe_type init_inputs) init_result))"

definition run_production_runtime_flow_with_session ::
    "('r, 'io, 't, 'k, 'a, 'w) flow_env \<Rightarrow> 'a flow_config \<Rightarrow> 'w flow_inputs \<Rightarrow> ('t, 'st) phase_runner \<Rightarrow> 'st \<Rightarrow> ('t, 'w, 'a) flow" where
  "run_production_runtime_flow_with_session env config inputs run_phase state =
     match_step (world_step (write_config_health env config Validating)) (\<lambda>error. return_report (report_not_started config error)) (\<lambda>_.
     match_step (pure_step (validate_production_runtime_flow_config config)) (not_started_with_health env config) (\<lambda>validation.
     match_step (pure_step (inputs_validate inputs)) (not_started_with_health env config) (\<lambda>_.
     match_step (world_step (write_config_health env config Initializing)) (\<lambda>error. return_report (report_not_started config error)) (\<lambda>_.
     case xi_rtl8812au_init inputs of
       None \<Rightarrow> (\<lambda>_. None)
     | Some init_inputs \<Rightarrow> initialise env config inputs init_inputs validation run_phase state))))"

text \<open>The phase runner of the production flow, with the timeout of the initialisation.\<close>

definition production_phase_runner ::
    "('r, 'io, 't, 'k, 'a, 'w) flow_env \<Rightarrow> usb_endpoints \<Rightarrow> init_inputs \<Rightarrow> ('t, init_state) phase_runner" where
  "production_phase_runner env endpoints init_inputs =
     run_rtl8812au_production_init_phase
       ((xe_registers env)\<lparr>re_access := with_timeout (ii_init_timeout init_inputs) (re_access (xe_registers env))\<rparr>) endpoints"

definition run_production_runtime_flow_on_session ::
    "('r, 'io, 't, 'k, 'a, 'w) flow_env \<Rightarrow> 'a flow_config \<Rightarrow> 'w flow_inputs \<Rightarrow> ('t, 'w, 'a) flow" where
  "run_production_runtime_flow_on_session env config inputs s =
     (case xi_rtl8812au_init inputs of
        None \<Rightarrow> return_report (report_not_started config missing_init_assets) s
      | Some init_inputs \<Rightarrow>
          run_production_runtime_flow_with_session env config inputs
            (production_phase_runner env (rs_endpoints (fst s)) init_inputs)
            (init_state_new init_inputs (cfg_channel config) (cfg_bandwidth config)) s)"

section \<open>The flow\<close>

text \<open>Before the session is open there is only the world.\<close>

definition install_stop_signals ::
    "('r, 'io, 't, 'k, 'a, 'w) flow_env \<Rightarrow> 'w flow_inputs \<Rightarrow> 'w \<Rightarrow> (radio_error, unit) result \<times> 'w" where
  "install_stop_signals env inputs w =
     (if xi_process_signal_stop inputs
      then (case xe_install_signal_handlers env (xe_clear_stop_flag env w) of (r, w) \<Rightarrow>
        (map_err (\<lambda>error. radio_error_new ''runtime_signal_handler_failed''
          (''failed to install runtime SIGINT/SIGTERM handler: '' @ ie_show_io (xe_ingress env) error)) r, w))
      else (Inr (), w))"

definition run_production_runtime_flow ::
    "('r, 'io, 'h usb_transport, 'k, 'a, 'w) flow_env \<Rightarrow> ('r, 'h, 'w) usb_host \<Rightarrow> 'a flow_config \<Rightarrow> 'w flow_inputs \<Rightarrow> 'w \<Rightarrow>
     ('a flow_report \<times> 'w) option" where
  "run_production_runtime_flow env host config inputs w =
     (let rejected = (\<lambda>error w. Some (production_runtime_report_with_health env config (report_not_started config error) ExitedFail w)) in
      case write_config_health env config Validating w of
        (Inl error, w) \<Rightarrow> Some (report_not_started config error, w)
      | (Inr _, w) \<Rightarrow>
      case validate_production_runtime_flow_config config of
        Inl error \<Rightarrow> rejected error w
      | Inr _ \<Rightarrow>
      case inputs_validate inputs of
        Inl error \<Rightarrow> rejected error w
      | Inr _ \<Rightarrow>
      case install_stop_signals env inputs w of
        (Inl error, w) \<Rightarrow> rejected error w
      | (Inr _, w) \<Rightarrow>
      case write_config_health env config Initializing w of
        (Inl error, w) \<Rightarrow> Some (report_not_started config error, w)
      | (Inr _, w) \<Rightarrow>
      case session_open host (to_runtime_open_config (cfg_usb config)) w of
        (Inl error, w) \<Rightarrow> rejected (radio_error_new (tre_code error) (tre_message error)) w
      | (Inr session, w) \<Rightarrow>
      case xi_rtl8812au_init inputs of
        None \<Rightarrow> None
      | Some init_inputs \<Rightarrow>
          map_option (\<lambda>(report, _, w). (report, w))
            (run_production_runtime_flow_with_session env config inputs
              (production_phase_runner env (rs_endpoints session) init_inputs)
              (init_state_new init_inputs (cfg_channel config) (cfg_bandwidth config)) (session, w)))"

end
