(* ===== verification/Flow_Laws.thy ===== *)
theory Flow_Laws
  imports Flow_Run Open_Laws Init_Laws Calibration_Laws
begin

text \<open>
  What the report of the production flow says about the run: a pass is a run whose initialisation
  completed, with what was asked for applied before the loop, and a loop that ended for one of its
  own reasons.
\<close>

section \<open>Calibration before the loop\<close>

text \<open>What the calibration step of a profile leaves in the report.\<close>

definition calibrated :: "tx_calibration_profile \<Rightarrow> calibration_profile_report option \<Rightarrow> bool" where
  "calibrated profile r \<longleftrightarrow>
     (profile = Rtl8812aRuntimeIqk \<longrightarrow>
        (\<exists>report iqk. r = Some report \<and> cp_runtime_iqk report = Some iqk \<and> iq_status iqk = ''completed'' \<and> corrected iqk)) \<and>
     (profile = CurrentDefault \<longrightarrow> r = None)"

lemma gives_calibrated:
  "gives (apply_production_runtime_tx_calibration_profile env profile ch bw rfe) (calibrated profile)"
proof (cases profile)
  case Rtl8812aRuntimeIqk
  then show ?thesis using gives_live_calibration by (simp add: calibrated_def [abs_def])
next
  case CurrentDefault
  then show ?thesis
    by (simp add: gives_def calibrated_def apply_production_runtime_tx_calibration_profile_def
        run_rtl8812au_tx_calibration_profile_def and_then_def ret_def)
qed (simp_all add: gives_def calibrated_def)

lemma gives_power:
  "gives (apply_production_runtime_tx_power_control env input) (\<lambda>r. r = None \<longleftrightarrow> input = NoPowerControl)"
  unfolding apply_production_runtime_tx_power_control_def
  by (cases input) (auto intro!: gives_intros gives_then simp: Let_def)

section \<open>The steps of a flow\<close>

text \<open>A step establishes a fact about what it gives; a flow ends in a report with a property.\<close>

definition establishes :: "('t, 'w, 'x) flow_step \<Rightarrow> ('x \<Rightarrow> bool) \<Rightarrow> bool" where
  "establishes m P \<longleftrightarrow> (\<forall>s x s'. m s = Some (Inr x, s') \<longrightarrow> P x)"

definition ends_in :: "('t, 'w, 'a) flow \<Rightarrow> ('a flow_report \<Rightarrow> bool) \<Rightarrow> bool" where
  "ends_in f Q \<longleftrightarrow> (\<forall>s r s'. f s = Some (r, s') \<longrightarrow> Q r)"

lemma establishes_any: "establishes m (\<lambda>_. True)"
  by (simp add: establishes_def)

lemma establishes_pure: "(\<And>x. r = Inr x \<Longrightarrow> P x) \<Longrightarrow> establishes (pure_step r) P"
  by (simp add: establishes_def pure_step_def)

lemma establishes_register: "gives op P \<Longrightarrow> establishes (register_step op) P"
  unfolding establishes_def gives_def register_step_def by (force split: option.splits prod.splits)

lemma establishes_session: "(\<And>s x s'. f s = (Inr x, s') \<Longrightarrow> P x) \<Longrightarrow> establishes (session_step f) P"
  by (auto simp: establishes_def session_step_def split: prod.splits)

lemma ends_match:
  assumes "establishes m P" "\<And>e. ends_in (handler e) Q" "\<And>x. P x \<Longrightarrow> ends_in (rest x) Q"
  shows "ends_in (match_step m handler rest) Q"
  using assms unfolding ends_in_def establishes_def match_step_def
  by (fastforce split: option.splits prod.splits sum.splits)

lemmas ends_then = ends_match [OF establishes_any]

lemma ends_never: "ends_in (\<lambda>_. None) Q"
  by (simp add: ends_in_def)

lemma ends_return: "Q r \<Longrightarrow> ends_in (return_report r) Q"
  by (simp add: ends_in_def return_report_def)

section \<open>Reports\<close>

text \<open>The reports of a flow say either that it failed, with the error, or that it did what the configuration asks for.\<close>

definition fully_ran :: "'a flow_config \<Rightarrow> 'w flow_inputs \<Rightarrow> 'a flow_report \<Rightarrow> bool" where
  "fully_ran config inputs report \<longleftrightarrow>
     (\<exists>validation. validate_production_runtime_flow_config config = Inr validation \<and>
        (fr_rx_startup_kick report \<noteq> None \<longleftrightarrow> wp_rx_forwards (fv_wfb_loop validation) \<noteq> [])) \<and>
     fr_init report = \<lparr>itl_readiness = FlowInitReady, itl_phase_count = 14, itl_completed_phase_count = 14\<rparr> \<and>
     calibrated (cfg_calibration_profile config) (fr_tx_calibration_profile report) \<and>
     (fr_tx_power_control report = None \<longleftrightarrow> xi_tx_power_control inputs = NoPowerControl) \<and>
     fr_heartbeat_led report \<noteq> None \<and>
     fr_stop_reason report \<in> {''signal'', ''duration_elapsed'', ''tx_datagram_limit''}"

definition honest :: "'a flow_config \<Rightarrow> 'w flow_inputs \<Rightarrow> 'a flow_report \<Rightarrow> bool" where
  "honest config inputs report \<longleftrightarrow>
     (case fr_result report of
        FlowFail \<Rightarrow> fr_error report \<noteq> None
      | FlowPass \<Rightarrow> fr_error report = None \<and> fully_ran config inputs report)"

lemma honest_not_started: "honest config inputs (report_not_started config error)"
  by (simp add: honest_def report_not_started_def)

lemma honest_with_health:
  "production_runtime_report_with_health env config report lifecycle w = (report', w') \<Longrightarrow>
     honest config inputs report \<Longrightarrow> honest config inputs report'"
  by (auto simp: production_runtime_report_with_health_def honest_def split: prod.splits sum.splits)

lemma report_outcome [simp]:
  "fr_result (flow_report_from_state_with_airtime config session stop_reason init pre_loop hb rx tx airtime result error) = result"
  "fr_error (flow_report_from_state_with_airtime config session stop_reason init pre_loop hb rx tx airtime result error) = error"
  by (simp_all add: flow_report_from_state_with_airtime_def)

lemma map_sum_Inr: "map_sum f g r = Inr x \<Longrightarrow> \<exists>y. x = g y"
  by (cases r) auto

lemma ends_with_airtime:
  assumes "result = FlowFail \<Longrightarrow> error \<noteq> None"
    and "result = FlowPass \<Longrightarrow> error = None \<and> (\<forall>session :: 't radio_session. fully_ran config inputs
      (flow_report_from_state_with_airtime config session stop_reason init pre_loop heartbeat_led rx tx airtime result error))"
  shows "ends_in (flow_report_with_airtime_and_health env config stop_reason init pre_loop heartbeat_led rx tx airtime result error
      :: ('t, 'w, 'a) flow)
    (honest config inputs)"
proof -
  have "honest config inputs
      (flow_report_from_state_with_airtime config session stop_reason init pre_loop heartbeat_led rx tx airtime result error)"
    for session :: "'t radio_session"
    using assms by (cases result; cases error) (auto simp: honest_def)
  then show ?thesis
    by (auto simp: ends_in_def flow_report_with_airtime_and_health_def Let_def split: prod.splits dest!: honest_with_health)
qed

lemma ends_failed: "ends_in (failed_before_loop env config init pre_loop error) (honest config inputs)"
  unfolding failed_before_loop_def flow_report_with_health_def by (rule ends_with_airtime) simp_all

lemma ends_not_started: "ends_in (not_started_with_health env config error) (honest config inputs)"
  by (auto simp: ends_in_def not_started_with_health_def split: prod.splits dest!: honest_with_health
      intro: honest_not_started)

section \<open>From the initialisation to the loop\<close>

text \<open>What has been applied when the ready marker is written.\<close>

definition applied :: "'a flow_config \<Rightarrow> 'w flow_inputs \<Rightarrow> 'a flow_validation \<Rightarrow> pre_loop_reports \<Rightarrow> bool" where
  "applied config inputs validation pre_loop \<longleftrightarrow>
     (pl_rx_startup_kick pre_loop \<noteq> None \<longleftrightarrow> wp_rx_forwards (fv_wfb_loop validation) \<noteq> []) \<and>
     calibrated (cfg_calibration_profile config) (pl_tx_calibration_profile pre_loop) \<and>
     (pl_tx_power_control pre_loop = None \<longleftrightarrow> xi_tx_power_control inputs = NoPowerControl)"

definition completed_init :: init_telemetry where
  "completed_init = \<lparr>itl_readiness = FlowInitReady, itl_phase_count = 14, itl_completed_phase_count = 14\<rparr>"

lemma ends_run_loop:
  assumes "validate_production_runtime_flow_config config = Inr validation" "applied config inputs validation pre_loop"
  shows "ends_in (run_loop_and_report env config inputs validation completed_init pre_loop forwards) (honest config inputs)"
proof -
  have ok: "ends_in (flow_report_with_airtime_and_health env config (stop_reason_as_str reason) completed_init pre_loop (Some hb) rx tx
      airtime FlowPass None) (honest config inputs)" for reason hb rx tx airtime
    using assms
    by (intro ends_with_airtime)
      (cases reason; auto simp: fully_ran_def applied_def completed_init_def flow_report_from_state_with_airtime_def)+
  have failed: "ends_in (flow_report_with_health env config ''not_started'' completed_init pre_loop (Some hb) rx tx FlowFail (Some error))
      (honest config inputs)" for hb rx tx error
    unfolding flow_report_with_health_def by (rule ends_with_airtime) simp_all
  show ?thesis
    unfolding run_loop_and_report_def ends_in_def
    using ok failed unfolding ends_in_def
    by (auto simp: Let_def split: prod.splits option.splits sum.splits step_failure.splits)
qed

lemma ends_bind_and_run:
  assumes "validate_production_runtime_flow_config config = Inr validation" "applied config inputs validation pre_loop"
  shows "ends_in (bind_and_run env config inputs validation completed_init pre_loop) (honest config inputs)"
  unfolding bind_and_run_def Let_def by (intro ends_then ends_failed ends_run_loop assms)

lemma ends_announce_ready:
  assumes "validate_production_runtime_flow_config config = Inr validation" "applied config inputs validation pre_loop"
    and "production_runtime_init_telemetry init_result = completed_init"
  shows "ends_in (announce_ready env config inputs validation init_result pre_loop) (honest config inputs)"
  unfolding announce_ready_def Let_def assms(3)
  apply (intro ends_then ends_failed ends_bind_and_run assms(1,2))
  apply (auto simp: ends_in_def honest_def flow_report_from_state_def flow_report_from_state_with_airtime_def)
  done

lemma ends_apply:
  assumes "validate_production_runtime_flow_config config = Inr validation"
    and "production_runtime_init_telemetry init_result = completed_init"
  shows "ends_in (apply_before_loop env config inputs validation rfe init_result) (honest config inputs)"
proof -
  have power: "establishes (register_step (apply_production_runtime_tx_power_control (xe_registers env) (xi_tx_power_control inputs)))
      (\<lambda>r. r = None \<longleftrightarrow> xi_tx_power_control inputs = NoPowerControl)"
    by (rule establishes_register [OF gives_power])
  show ?thesis
    unfolding apply_before_loop_def Let_def
    apply (rule ends_then [OF ends_failed])
    apply (rule ends_match [OF power ends_failed])
    apply (rule ends_match [OF establishes_register [OF gives_calibrated] ends_failed])
    apply (rule ends_match [where P = "\<lambda>r. r = None \<longleftrightarrow> xi_tx_power_control inputs = NoPowerControl", OF _ ends_failed])
    subgoal for power_report calibration_report
      using power by (cases calibration_report) (auto intro!: establishes_pure split: if_split)
    apply (rule ends_match [where P = "\<lambda>r. r \<noteq> None \<longleftrightarrow> wp_rx_forwards (fv_wfb_loop validation) \<noteq> []", OF _ ends_failed])
    subgoal by (auto intro!: establishes_pure establishes_session simp: map_prod_def split: prod.splits dest: map_sum_Inr)
    apply (rule ends_announce_ready [OF assms(1) _ assms(2)])
    apply (simp add: applied_def)
    done
qed

section \<open>The initialisation\<close>

lemma gives_init:
  assumes "phase_runner run_phase"
  shows "gives (run_rtl8812au_same_session_init run_phase config state)
    (\<lambda>(r, _). \<forall>init_result. r = Inr init_result \<longrightarrow> production_runtime_init_telemetry init_result = completed_init)"
  unfolding gives_def
proof (intro allI impI)
  fix s x s'
  assume run: "run_rtl8812au_same_session_init run_phase config state s = Some (Inr x, s')"
  have len: "length (rtl8812au_same_session_init_sequence (ic_init_order config)) = 14"
    by (cases "ic_init_order config")
      (simp_all add: RTL8812AU_DEFAULT_SAME_SESSION_INIT_SEQUENCE_def RTL8812AU_LINUX_SAME_SESSION_INIT_SEQUENCE_def)
  show "case x of (r, _) \<Rightarrow> \<forall>init_result. r = Inr init_result \<longrightarrow> production_runtime_init_telemetry init_result = completed_init"
  proof (clarify)
    fix init_result st
    assume x: "x = (Inr init_result, st)"
    with run obtain summaries where
      phases: "run_phases run_phase (rtl8812au_same_session_init_sequence (ic_init_order config)) state [] s =
          Some (Inr (summaries, None, st), s')"
      and result: "ir_phase_summaries init_result = summaries" "ir_readiness init_result = InitReady"
      by (auto simp: run_rtl8812au_same_session_init_def and_then_eq_Some_iff current_counters_def ret_def
          split: sum.splits option.splits)
    from phase_runner.run_phases_prefix [OF assms phases] len
    have "map ps_phase summaries = rtl8812au_same_session_init_sequence (ic_init_order config)"
      "\<forall>p \<in> set summaries. ps_status p = PhaseCompleted" by auto
    then show "production_runtime_init_telemetry init_result = completed_init"
      using result len
      by (simp add: production_runtime_init_telemetry_def completed_init_def flip: length_map [of ps_phase])
  qed
qed

lemma ends_initialise:
  assumes "validate_production_runtime_flow_config config = Inr validation" "phase_runner run_phase"
  shows "ends_in (initialise env config inputs init_inputs validation run_phase state) (honest config inputs)"
  unfolding initialise_def Let_def
  apply (rule ends_match [OF establishes_register [OF gives_init [OF assms(2)]] ends_never])
  subgoal for result
    by (cases "fst result") (auto split: prod.splits intro!: ends_failed ends_apply [OF assms(1)])
  done

lemma ends_with_session:
  assumes "phase_runner run_phase"
  shows "ends_in (run_production_runtime_flow_with_session env config inputs run_phase state) (honest config inputs)"
  unfolding run_production_runtime_flow_with_session_def
  apply (rule ends_then, rule ends_return, rule honest_not_started)
  apply (rule ends_match [where P = "\<lambda>v. validate_production_runtime_flow_config config = Inr v", OF _ ends_not_started])
   apply (rule establishes_pure, assumption)
  apply (rule ends_then [OF ends_not_started])
  apply (rule ends_then, rule ends_return, rule honest_not_started)
  apply (cases "xi_rtl8812au_init inputs")
   apply (simp_all add: ends_never ends_initialise assms)
  done


section \<open>A run\<close>

text \<open>The sample host opens the adapter, but no register answers.\<close>

definition silent_registers :: "(unit, 't) reg_env" where
  "silent_registers =
     \<lparr>re_access = register_access_new (\<lambda>_ _ _ _ data _ dev. (Inl DeviceDisappeared, data, dev))
        (\<lambda>_ _ _ _ data _ dev. (Inl DeviceDisappeared, dev)),
      re_show_rusb = (\<lambda>_. []), re_sleep = (\<lambda>_ dev. dev), re_now = (\<lambda>dev. (0, dev))\<rparr>"

definition silent_env :: "(unit, unit, unit usb_transport, unit, unit, unit) flow_env" where
  "silent_env =
     \<lparr>xe_registers = silent_registers,
      xe_loop = \<lparr>pe_show_rusb = (\<lambda>_. []), pe_timeout_code = (\<lambda>_. True), pe_bulk_write = (\<lambda>_ _ _ dev. (Inl DeviceDisappeared, dev)),
        pe_bulk_read = (\<lambda>_ _ _ dev. (Inl DeviceDisappeared, [], dev)),
        pe_control_write = (\<lambda>_ _ _ _ _ _ dev. (Inl DeviceDisappeared, dev)),
        pe_forwards = accepting_env, pe_now = (\<lambda>w. (0, w)), pe_process_signal_stop = False, pe_signal_flag = (\<lambda>w. (False, w)),
        pe_external_flag = None, pe_try_recv = (\<lambda>w. (QueueEmpty, w)),
        pe_ingress_telemetry = (\<lambda>w. (\<lparr>it_datagrams_received = 0, it_bytes_received = 0, it_queue_send_failed = 0\<rparr>, w))\<rparr>,
      xe_ingress = sample_ingress_env, xe_spawn_threads = (\<lambda>_ w. w), xe_marker_json = (\<lambda>_. Inr []), xe_health_json = (\<lambda>_. Inr []),
      xe_write_file = (\<lambda>_ _ w. (Inr (), w)), xe_clear_stop_flag = (\<lambda>w. w), xe_install_signal_handlers = (\<lambda>w. (Inr (), w))\<rparr>"

definition sample_flow_config :: "unit flow_config" where
  "sample_flow_config =
     \<lparr>cfg_usb = production_macos_usbhost sample_selector macos_usbhost_config_default,
      cfg_channel = \<lparr>ch_number = 36, ch_frequency_mhz = 5180, ch_band = Ghz5\<rparr>, cfg_bandwidth = Mhz40,
      cfg_firmware = Some ''rtl8812aufw.bin'', cfg_bind_addr = (), cfg_tx_binds = [], cfg_duration_ms = 1000,
      cfg_rx_timeout_ms = 10, cfg_tx_burst_limit = 8, cfg_tx_min_interval_us = 0, cfg_max_datagrams = 0,
      cfg_airtime_schedule = airtime_continuous,
      cfg_ready_file = None, cfg_health_file = None, cfg_tx_authorized = True, cfg_live_register_write_authorized = False,
      cfg_calibration_profile = CurrentDefault, cfg_captured_tail_applied = False,
      cfg_primary_rx_forward = \<lparr>pf_link_id = None, pf_radio_port = None, pf_aggregator = None\<rparr>, cfg_rx_forwards = [],
      cfg_rx_wlan_idx = 0, cfg_rx_mcs_index = 0\<rparr>"

definition sample_flow_inputs :: "unit flow_inputs" where
  "sample_flow_inputs =
     \<lparr>xi_rtl8812au_init = Some small_inputs, xi_tx_power_control = NoPowerControl,
      xi_heartbeat_led = \<lparr>hc_enabled = False, hc_half_period_ms = 500\<rparr>, xi_process_signal_stop = False,
      xi_external_stop_requested = None\<rparr>"

lemma no_health_file:
  "write_config_health silent_env sample_flow_config lifecycle w = (Inr (), w)"
  "production_runtime_report_with_health silent_env sample_flow_config report lifecycle w = (report, w)"
  by (simp_all add: write_config_health_def production_runtime_report_with_health_def write_report_health_def
      write_production_runtime_service_health_def sample_flow_config_def silent_env_def accepting_env_def)

lemma sample_channel:
  "from_number 36 = Inr \<lparr>ch_number = 36, ch_frequency_mhz = 5180, ch_band = Ghz5\<rparr>"
  "supports_bandwidth \<lparr>ch_number = 36, ch_frequency_mhz = 5180, ch_band = Ghz5\<rparr> Mhz40"
  by code_simp+

lemma sample_plan: "\<exists>plan. plan_production_wfb_loop (wfb_loop_config_of sample_flow_config) = Inr plan"
  by (simp add: plan_production_wfb_loop_def wfb_loop_config_of_def sample_flow_config_def primary_forwards_def validate_airtime_def
      airtime_continuous_def)

lemma sample_validates: "\<exists>v. validate_production_runtime_flow_config sample_flow_config = Inr v"
proof -
  obtain plan where plan: "plan_production_wfb_loop (wfb_loop_config_of sample_flow_config) = Inr plan"
    using sample_plan by blast
  have config: "cfg_channel sample_flow_config = \<lparr>ch_number = 36, ch_frequency_mhz = 5180, ch_band = Ghz5\<rparr>"
    "cfg_bandwidth sample_flow_config = Mhz40" "cfg_firmware sample_flow_config \<noteq> None"
    "cfg_calibration_profile sample_flow_config = CurrentDefault"
    by (simp_all add: sample_flow_config_def)
  show ?thesis
    unfolding validate_production_runtime_flow_config_def plan config(1,2,4)
    using config(3)
    by (simp add: sample_channel profile_calibration_decision_def requires_register_write_authorization_def)
qed

lemma sample_inputs_validate: "inputs_validate sample_flow_inputs = Inr ()"
  by (simp add: inputs_validate_def sample_flow_inputs_def led_heartbeat_validate_def)

lemma silent_first_phase:
  "\<exists>f. production_phase_runner silent_env endpoints init_inputs PowerOn st s = Some (Inr (Inl f, st), s) \<and>
     ps_status (pf_summary f) = PhaseBlocked"
proof -
  let ?env = "(silent_registers :: (unit, unit usb_transport) reg_env)\<lparr>re_access := with_timeout (ii_init_timeout init_inputs) (re_access silent_registers)\<rparr>"
  have "read8_with_counter ?env a name phase s = Some (Inl (register_read_error (\<lambda>_ :: unit. []) name phase (RegUsb DeviceDisappeared)), s)"
    for a name phase s
    by (cases s) (simp add: read8_with_counter_def counted_read_def read8_def map_ok_def read_exact_def read_vendor_def
        silent_registers_def register_access_new_def with_timeout_def)
  then have "production_power_on_sequence ?env s =
      Some (Inl (register_read_error (\<lambda>_ :: unit. []) ''REG_APS_FSMCO + 1'' ''power-on'' (RegUsb DeviceDisappeared)), s)" for s
    by (simp add: production_power_on_sequence_def control_writes_def and_do_def and_then_def production_rmw8_def)
  then show ?thesis
    by (simp add: production_phase_runner_def silent_env_def run_rtl8812au_production_init_phase_def stateless_def
        current_counters_def and_then_def as_value_def ret_def summary_blocked_def)
qed

lemma silent_init:
  assumes "config_calibration_decision c = Inr k" "ic_init_order c = OrderLinux"
  shows "\<exists>failure. run_rtl8812au_same_session_init (production_phase_runner silent_env endpoints init_inputs) c st s =
    Some (Inr (Inl failure, st), s) \<and>
    production_runtime_init_telemetry (if_result failure) = \<lparr>itl_readiness = FlowInitFailed, itl_phase_count = 1, itl_completed_phase_count = 0\<rparr>"
proof -
  obtain f where "production_phase_runner silent_env endpoints init_inputs PowerOn st s = Some (Inr (Inl f, st), s)"
    "ps_status (pf_summary f) = PhaseBlocked"
    using silent_first_phase by blast
  then show ?thesis
    by (simp add: run_rtl8812au_same_session_init_def assms RTL8812AU_LINUX_SAME_SESSION_INIT_SEQUENCE_def and_then_def ret_def
        current_counters_def production_runtime_init_telemetry_def)
qed

lemma sample_flow_session:
  "\<exists>report s. run_production_runtime_flow_with_session silent_env sample_flow_config sample_flow_inputs
      (production_phase_runner silent_env endpoints small_inputs) st (session, ()) = Some (report, s) \<and>
    fr_result report = FlowFail \<and> fr_adapter report = Some (rs_adapter session) \<and>
    fr_init report = \<lparr>itl_readiness = FlowInitFailed, itl_phase_count = 1, itl_completed_phase_count = 0\<rparr>"
proof -
  obtain v where v: "validate_production_runtime_flow_config sample_flow_config = Inr v"
    using sample_validates by blast
  let ?c = "\<lparr>ic_init_order = ii_init_order small_inputs, ic_channel = cfg_channel sample_flow_config,
    ic_bandwidth = cfg_bandwidth sample_flow_config, ic_rfe_type = ii_rfe_type small_inputs,
    ic_tx_calibration_profile = cfg_calibration_profile sample_flow_config,
    ic_live_write_authorized = cfg_live_register_write_authorized sample_flow_config,
    ic_captured_tail_applied = cfg_captured_tail_applied sample_flow_config\<rparr>"
  obtain k where k: "config_calibration_decision ?c = Inr k"
    by (auto simp: config_calibration_decision_def profile_calibration_decision_def sample_flow_config_def
        requires_register_write_authorization_def)
  have "ic_init_order ?c = OrderLinux" by (simp add: small_inputs_def)
  from silent_init [OF k this] obtain failure where
    init: "run_rtl8812au_same_session_init (production_phase_runner silent_env endpoints small_inputs) ?c st
        (rs_transport session, rs_counters session) = Some (Inr (Inl failure, st), (rs_transport session, rs_counters session))"
    "production_runtime_init_telemetry (if_result failure) = \<lparr>itl_readiness = FlowInitFailed, itl_phase_count = 1, itl_completed_phase_count = 0\<rparr>"
    by blast
  have assets: "xi_rtl8812au_init sample_flow_inputs = Some small_inputs" by (simp add: sample_flow_inputs_def)
  show ?thesis
    unfolding run_production_runtime_flow_with_session_def match_step_def world_step_def pure_step_def v sample_inputs_validate
    by (simp add: no_health_file assets initialise_def match_step_def register_step_def init failed_before_loop_def
        flow_report_with_health_def flow_report_with_airtime_and_health_def flow_report_from_state_with_airtime_def)
qed


end
