(* ===== verification/Spec2Isabelle.thy ===== *)
theory Spec2Isabelle
  imports Usb Tx_Fields Tx_Submit Radio_Session Registers Wfb_Bridge Tunnel Bridge_Loop Firmware Queues Realtek_Laws Efuse Init_Laws Channel_Run Channel_Placement Telemetry_Laws Rx_Totals Tx_Ingress Tx_Datagram_Laws Tx_Power_Laws Loop_Plan Led_Heartbeat Lck_Laws Iqk_Reports Open_Laws Flow_Laws
begin

text \<open>
  A verification library for the wfb-link radio stack, the Rust workspace under \<open>src/crates\<close>.

  \<^bold>\<open>The program.\<close>  wfb-link drives an RTL8812AU USB adapter from user space, so that WFB (wireless
  broadcast video and telemetry) runs on hosts without a kernel driver.  The crate \<open>radio-core\<close> knows
  the chip: USB selection and bulk endpoints, vendor control transfers to registers, transmit and
  receive descriptors, firmware images and the tables of the Realtek driver.  \<open>wfb-bridge\<close> knows WFB:
  the addressing in the 802.11 header, radiotap headers of injected frames, the header of forwarded
  datagrams.  \<open>wfb-radio-runtime\<close> puts the two together: it opens the adapter, initialises the chip in
  one session, sets power and calibration, and then runs a loop that takes datagrams from UDP sockets
  to the air and frames from the air to UDP sockets, with a ready marker, a health file and a report
  around it.  \<open>wfb-tun\<close> carries IP packets over the same link.

  \<^bold>\<open>How the model corresponds to the code.\<close>  A struct is a \<open>record\<close>, an enum a \<open>datatype\<close>, an integer a
  word of its width (\<open>usize\<close> and durations are \<open>nat\<close>, instants and durations in nanoseconds), a
  \<open>Result\<close> a sum with the error on the left.  Definitions keep the names of the code; a suffix or a
  part of the name tells the pieces of one function apart, and constructors that would clash carry a
  prefix.  Mutable state is passed explicitly.  A register operation has the type \<open>reg_op\<close>: from the
  state of the transport and the counters of the session to a result and the new state, or \<open>None\<close> if
  it does not return (\<open>Register_Ops\<close>).  What is not in the repository is a parameter with the type of
  the call: the control and bulk transfers, the libusb and IOUSBHost calls (\<open>usb_host\<close>), sockets, clock
  and sleep, the queue between threads, the serialisation of JSON, files, threads and signal handlers
  (\<open>reg_env\<close>, \<open>production_env\<close>, \<open>forward_env\<close>, \<open>ingress_env\<close>, \<open>flow_env\<close>).  Laws about these calls are
  hypotheses of the theorems that need them, and each has a witness with a concrete function.

  \<^bold>\<open>Theories.\<close>  \<open>Prelude\<close>: machine types, byte slices, encodings (locale \<open>byte_codec\<close>), saturating
  counters, the result type, number formatting.
  \<open>radio-core\<close>: \<open>Channels\<close> (channel table, adapter registry, frame check), \<open>Usb\<close> and \<open>Usb_Open\<close>
  (selection, endpoints, probe; enumeration and claim), \<open>Registers\<close>, \<open>Tx_Descriptor\<close>, \<open>Rx_Parser\<close>,
  \<open>Firmware\<close> (locale \<open>cutting\<close>), \<open>Realtek_Table\<close>.
  \<open>wfb-bridge\<close>: \<open>Wfb_Frame\<close>, \<open>Wfb_Bridge\<close>; the counter contract is the locale \<open>conserving_counters\<close> of
  \<open>Conservation\<close>.  \<open>wfb-tun\<close>: \<open>Tunnel\<close>.
  The chip in \<open>wfb-radio-runtime\<close>: \<open>Register_Ops\<close> (counted operations, readback checks, polls),
  \<open>Bring_Up\<close> (power-on, link list, firmware, queues), \<open>Chip_Registers\<close>, \<open>Chip_Setup\<close> (MAC, baseband, RF
  tables), \<open>Channel_Setup\<close>, \<open>Efuse\<close>, \<open>Mac_Address\<close>, \<open>Init_Phases\<close> (the phases, their order, the loop over
  them), \<open>Tx_Power\<close>, \<open>Iqk_State\<close>, \<open>Iqk_Oneshot\<close>, \<open>Iqk_Run\<close> (runtime I/Q calibration), \<open>Calibration\<close> (LC
  calibration, profiles, monitor mode, power, the first frame).
  Traffic: \<open>Radio_Session\<close> (submit, read), \<open>Rx_Telemetry\<close>, \<open>Rx_Forwards\<close>, \<open>Tx_Datagrams\<close>, \<open>Tx_Ingress\<close>
  (receiver threads as a step relation), \<open>Airtime\<close>, \<open>Bridge_Loop\<close> (the scheduler over callbacks),
  \<open>Led_Heartbeat\<close>, \<open>Loop_Plan\<close>, \<open>Production_Loop\<close> (the callbacks on a session).
  The flow: \<open>Usb_Open\<close> (the three transports), \<open>Runtime_Flow\<close> (configuration, reports, health, marker),
  \<open>Flow_Run\<close> (\<open>run_production_runtime_flow\<close> with every early return).

  \<^bold>\<open>What the lemmas show.\<close>  Descriptors and parsers: the layout, checksum and fields of a transmit
  packet read back (\<open>Tx_Packet\<close>, \<open>Tx_Fields\<close>), its refusals (\<open>Tx_Submit\<close>), progress and stability of the
  receive parser, de-aggregation of a transfer (\<open>Radio_Session\<close>), round trips of the WFB header, the
  Realtek literals and the EFUSE records.  Devices: \<open>Register_Effects\<close> gives operations a meaning as
  register writes on any transport that can be observed (locale \<open>observed_device\<close>) and accounts for the
  control transfer counters on every branch; on it rest the link list, the loaded firmware
  (\<open>Bring_Up_Effects\<close>, \<open>Firmware_Load\<close>, \<open>Firmware_Run\<close>), the queue layout (\<open>Queues\<close>), the RF channel
  registers (\<open>Channel_Laws\<close>, \<open>Channel_Run\<close>, \<open>Channel_Placement\<close>), the programmed gains (\<open>Tx_Power_Laws\<close>),
  and the calibrations: they return (\<open>Iqk_Laws\<close>), choose a candidate exactly when two agree
  (\<open>Iqk_Choice\<close>), put the registers back (\<open>Iqk_Restore\<close>), report what they did (\<open>Iqk_Reports\<close>), and are
  done before the transmitter goes live (\<open>Calibration_Laws\<close>); \<open>Lck_Laws\<close> holds the writes of the LC
  calibration and the register one failure leaves behind.  \<open>Chip_Effects\<close> and \<open>Init_Laws\<close> (locale
  \<open>phase_runner\<close>): the initialisation returns, counts its transfers and stops at the first failure.
  Loops: \<open>Bridge_Loop\<close> bounds bursts and counts iterations and shows termination under a duration or a
  limit, \<open>Loop_Invariants\<close> (locale \<open>loop_invariant\<close>) is the rule its clients use, \<open>Tx_Totals\<close> and
  \<open>Rx_Totals\<close> are the totals of a whole run, \<open>Telemetry_Laws\<close> (locale \<open>mergeable\<close>) the merging of
  statistics, \<open>Tx_Datagram_Laws\<close> the equivalence of the production handler with the bridge of
  \<open>wfb-bridge\<close>, \<open>Rx_Forward_Laws\<close> the delivery to the forwards.  The flow: what an opened session is
  (\<open>Open_Laws\<close>) and that the final report is honest whichever step fails (\<open>Flow_Laws\<close>).

  \<^bold>\<open>Loops, bounds and fuel.\<close>  Loops over a buffer or a table are functions whose measure is what is left of it.
  Polls with a count are recursions on the count; polls with a deadline and the production loop are
  \<open>partial_function (option)\<close>, so that \<open>None\<close> is not returning; theorems that they return assume that time
  passes (each look at the clock or sleep moves it on).  The waits of the I/Q calibration use a
  counter of eight bits that saturates: \<open>IQK_POLLS\<close> is 22 because the wait ends at 20 delays or at a
  result, and \<open>IQK_ROUNDS\<close> is 10 because a path stops after ten attempts; \<open>Iqk_Laws\<close> proves that the
  fuel is never used up.  A \<open>None\<close> of \<open>run_production_runtime_flow\<close> stands for a loop that does not end or
  for a panic.

  \<^bold>\<open>Not modelled.\<close>  \<open>wfb-radio-diag\<close> (a command line that prints reports about the operations above),
  \<open>wfb-radio-service\<close>, \<open>wfb-link\<close> and \<open>wfb-android-smoke\<close> (process supervision, JSON control protocol,
  command lines, JNI), the capture tools of \<open>radio-core\<close> (\<open>init_plan.rs\<close>, \<open>trace.rs\<close>, \<open>pcap.rs\<close>), the
  register probes of the runtime that only the diagnostics call, the FFI behind \<open>macos_usbhost.rs\<close>, and
  in \<open>wfb-tun\<close> the utun device, interface set-up and the JSON log.  Left out of the modelled parts: the
  text of JSON, tracing, closing of handles, and the fixed strings of the reports that describe where
  a setting comes from.
\<close>

end
